(* ===== verification/Prelude.thy ===== *)
theory Prelude
  imports Main "HOL-Library.Word"
begin

text \<open>
  The prelude: the C integer types of the library, the error values, the file system
  format enumeration, the limits of \<^verbatim>\<open>libfsfat/libfsfat_definitions.h.in\<close>, the
  interface of the external file handle, and the generic lemmas on words, lists and
  error results that the components share.
\<close>

unbundle bit_operations_syntax

section \<open>The integer types of the C sources\<close>

type_synonym u8 = "8 word"      \<comment> \<open>\<open>uint8_t\<close>\<close>
type_synonym u16 = "16 word"    \<comment> \<open>\<open>uint16_t\<close>\<close>
type_synonym u32 = "32 word"    \<comment> \<open>\<open>uint32_t\<close>\<close>
type_synonym u64 = "64 word"    \<comment> \<open>\<open>uint64_t\<close>, \<open>size64_t\<close> and \<open>size_t\<close>\<close>
type_synonym off64 = "64 word"  \<comment> \<open>\<open>off64_t\<close>: the same bits, compared with \<open><s\<close>\<close>

text \<open>The constants of the limits headers that the sources test against.\<close>

definition INT_MAX :: off64 where "INT_MAX = 0x7fffffff"
definition INT64_MAX :: off64 where "INT64_MAX = 0x7fffffffffffffff"
definition SSIZE_MAX :: nat where "SSIZE_MAX = 0x7fffffffffffffff"

section \<open>Errors as values\<close>

text \<open>
  A function of the library returns 1 (or 0) or sets an error and returns -1. The model
  returns \<open>Inr\<close> of what the function leaves in its output parameters, or \<open>Inl\<close> of the
  code of the error that the function itself sets last. \<open>MEMORY_FAULT\<close> is no code of the
  library: it marks a read or write outside the allocated buffer, which C leaves
  undefined. The safety theorems show that it is never reached.
\<close>

datatype fs_error =
    ARGUMENT_INVALID_VALUE
  | ARGUMENT_VALUE_OUT_OF_BOUNDS
  | ARGUMENT_VALUE_EXCEEDS_MAXIMUM
  | ARGUMENT_VALUE_ZERO_OR_LESS
  | ARGUMENT_VALUE_TOO_SMALL
  | ARGUMENT_VALUE_TOO_LARGE
  | ARGUMENT_UNSUPPORTED_VALUE
  | RUNTIME_VALUE_MISSING
  | RUNTIME_VALUE_ALREADY_SET
  | RUNTIME_VALUE_OUT_OF_BOUNDS
  | RUNTIME_VALUE_EXCEEDS_MAXIMUM
  | RUNTIME_UNSUPPORTED_VALUE
  | RUNTIME_INITIALIZE_FAILED
  | RUNTIME_FINALIZE_FAILED
  | RUNTIME_GET_FAILED
  | RUNTIME_SET_FAILED
  | RUNTIME_APPEND_FAILED
  | RUNTIME_COPY_FAILED
  | RUNTIME_PRINT_FAILED
  | RUNTIME_GENERIC
  | CONVERSION_INPUT_FAILED
  | IO_OPEN_FAILED
  | IO_CLOSE_FAILED
  | IO_READ_FAILED
  | IO_WRITE_FAILED
  | IO_SEEK_FAILED
  | MEMORY_FAULT

type_synonym 'a result = "fs_error + 'a"

definition is_ok :: "'a result \<Rightarrow> bool" where
  "is_ok r = (case r of Inl _ \<Rightarrow> False | Inr _ \<Rightarrow> True)"

lemma is_ok_simps [simp]: "is_ok (Inr x)" "\<not> is_ok (Inl e)"
  by (simp_all add: is_ok_def)

lemma is_okE: "is_ok r \<Longrightarrow> (\<And>x. r = Inr x \<Longrightarrow> P) \<Longrightarrow> P"
  by (cases r) auto

section \<open>The enumeration of the file system formats\<close>

text \<open>\<^verbatim>\<open>enum LIBFSFAT_FILE_SYSTEM_FORMAT\<close>, in the order of its values 0 to 4.\<close>

datatype file_system_format =
    FORMAT_UNKNOWN | FORMAT_EXFAT | FORMAT_FAT12 | FORMAT_FAT16 | FORMAT_FAT32

text \<open>The internal limits of the library.\<close>

definition MAXIMUM_NUMBER_OF_CLUSTERS_IN_FAT :: u32 where
  "MAXIMUM_NUMBER_OF_CLUSTERS_IN_FAT = (256 * 1024 * 1024) div 4"

definition BLOCK_TREE_NUMBER_OF_SUB_NODES :: u64 where
  "BLOCK_TREE_NUMBER_OF_SUB_NODES = 256"

section \<open>The external file handle\<close>

text \<open>
  \<^verbatim>\<open>libbfio_handle_read_buffer_at_offset\<close> belongs to libbfio, which is not part of the
  sources. It is a parameter: for an offset and a size it is \<open>None\<close> when the call returns
  -1, and otherwise \<open>Some\<close> of the bytes it stored in the buffer, whose number is the
  returned read count. The volume is only read, so the parameter has no state.
\<close>

type_synonym bfio = "off64 \<Rightarrow> nat \<Rightarrow> u8 list option"

text \<open>A handle on a volume whose bytes are \<open>img\<close>; the witnesses use it.\<close>

definition image_bfio :: "u8 list \<Rightarrow> bfio" where
  "image_bfio img off n =
     (if off <s 0 then None else Some (take n (drop (unat off) img)))"

section \<open>Generic lemmas\<close>

named_theorems fs_defs \<open>definitions of operations, for unfolding a whole component\<close>

subsection \<open>Signed comparison of non-negative offsets\<close>

lemma sint_64: "sint (a::64 word) = (uint a + 2 ^ 63) mod 2 ^ 64 - 2 ^ 63"
proof -
  have "sint (word_of_int (uint a) :: 64 word) = (uint a + 2 ^ 63) mod 2 ^ 64 - 2 ^ 63"
    by (subst int_word_sint) simp
  then show ?thesis by simp
qed

lemma uint_less_unat: "(uint a < 2 ^ n) = (unat a < 2 ^ n)"
  by (simp only: uint_nat of_nat_less_iff [symmetric, where ?'a = int] of_nat_power of_nat_numeral)

lemma sint_small: "unat (a::64 word) < 2 ^ 63 \<Longrightarrow> sint a = uint a"
  by (simp add: sint_64 uint_less_unat [symmetric, of _ 63, simplified])

lemma sless_unat:
  "unat (a::64 word) < 2 ^ 63 \<Longrightarrow> unat (b::64 word) < 2 ^ 63 \<Longrightarrow> (a <s b) = (unat a < unat b)"
  by (simp only: word_sless_alt sint_small uint_nat of_nat_less_iff)

lemma sless_zero_iff: "((a::64 word) <s 0) = (2 ^ 63 \<le> unat a)"
proof (cases "unat a < 2 ^ 63")
  case True
  then show ?thesis by (simp add: sless_unat)
next
  case False
  then have "2 ^ 63 \<le> uint a" using uint_less_unat [of a 63] by linarith
  moreover have "uint a < 2 ^ 64" using uint_lt2p [of a] by simp
  ultimately have "(uint a + 2 ^ 63) mod 2 ^ 64 = uint a - 2 ^ 63"
    by (subst mod_pos_geq) auto
  then have "sint a = uint a - 2 ^ 64" by (simp add: sint_64)
  then show ?thesis using False \<open>uint a < 2 ^ 64\<close> by (simp add: word_sless_alt)
qed

lemma unat_of_nat_64 [simp]: "n < 2 ^ 64 \<Longrightarrow> unat (of_nat n :: 64 word) = n"
  by (simp add: unat_of_nat take_bit_nat_eq_self)

lemma sint_32_small: "uint (a::32 word) < 2 ^ 31 \<Longrightarrow> sint a = uint a"
  unfolding sint_uint by (rule signed_take_bit_int_eq_self) (auto intro: order_trans [OF _ uint_ge_0])

subsection \<open>Word arithmetic that does not wrap\<close>

lemma unat_mult_exact:
  "unat a * unat b < 2 ^ LENGTH('w) \<Longrightarrow> unat (a * b :: 'w::len word) = unat a * unat b"
  by (simp add: unat_mult_lem [symmetric])

lemma unat_add_exact:
  "unat a + unat b < 2 ^ LENGTH('w) \<Longrightarrow> unat (a + b :: 'w::len word) = unat a + unat b"
  by (simp add: unat_add_lem [symmetric])

lemma unat_minus_exact:
  "unat b \<le> unat a \<Longrightarrow> unat (a - b :: 'w::len word) = unat a - unat b"
  by (simp add: unat_sub word_le_nat_alt)

lemma unat_minus_wrap:
  "unat a < unat b \<Longrightarrow>
   unat (a - b :: 'w::len word) = unat a + 2 ^ LENGTH('w) - unat b"
  using unat_sub_if_size [of a b] by (simp add: word_size)

lemma unat_ucast_up:
  "LENGTH('a) \<le> LENGTH('b) \<Longrightarrow> unat (ucast (a :: 'a::len word) :: 'b::len word) = unat a"
  by (simp add: unsigned_ucast_eq take_bit_nat_eq_self order_less_le_trans [OF unsigned_less])

lemma unat_bounds:
  "unat (a8 :: u8) < 2 ^ 8" "unat (a16 :: u16) < 2 ^ 16" "unat (a32 :: u32) < 2 ^ 32"
  "unat (a64 :: u64) < 2 ^ 64"
  by (rule order_less_le_trans [OF unsigned_less], simp)+

lemma option_eqI: "(\<And>e. (a = Some e) = (b = Some e)) \<Longrightarrow> a = b"
  by (cases a; cases b) auto

subsection \<open>Writing a list into an array\<close>

text \<open>The array \<open>xs\<close> after \<open>vs\<close> is written into it from index \<open>i\<close>, as far as it fits.\<close>

definition overwrite :: "nat \<Rightarrow> 'a list \<Rightarrow> 'a list \<Rightarrow> 'a list" where
  "overwrite i vs xs = take i xs @ take (length xs - i) vs @ drop (i + length vs) xs"

lemma overwrite_Nil [simp]: "overwrite i [] xs = xs"
  by (simp add: overwrite_def)

lemma overwrite_beyond [simp]: "length xs \<le> i \<Longrightarrow> overwrite i vs xs = xs"
  by (simp add: overwrite_def)

lemma length_overwrite [simp]: "length (overwrite i vs xs) = length xs"
  by (simp add: overwrite_def)

lemma nth_overwrite:
  "k < length xs \<Longrightarrow>
   overwrite i vs xs ! k = (if i \<le> k \<and> k < i + length vs then vs ! (k - i) else xs ! k)"
  by (auto simp: overwrite_def nth_append min_def)

lemma overwrite_Cons:
  "i < length xs \<Longrightarrow> overwrite (Suc i) vs (xs[i := v]) = overwrite i (v # vs) xs"
  by (auto intro!: nth_equalityI simp: nth_overwrite nth_list_update nth_Cons' le_Suc_eq)

subsection \<open>Lists cut into chunks of one length\<close>

lemma concat_chunks_take:
  "concat (map (\<lambda>s. take n (drop (s * n) xs)) [0..<m]) = take (m * n) xs"
proof (induction m)
  case (Suc m)
  then show ?case by (simp add: add.commute [of n] take_add)
qed simp

lemma concat_chunks:
  "length xs = m * n \<Longrightarrow> concat (map (\<lambda>s. take n (drop (s * n) xs)) [0..<m]) = xs"
  by (simp add: concat_chunks_take)

lemma length_concat_uniform:
  "\<forall>ys \<in> set xss. length ys = n \<Longrightarrow> length (concat xss) = length xss * n"
  by (induction xss) auto

lemma nth_concat_uniform:
  "\<forall>ys \<in> set xss. length ys = n \<Longrightarrow> i < length xss \<Longrightarrow> j < n \<Longrightarrow>
   concat xss ! (i * n + j) = xss ! i ! j"
proof (induction xss arbitrary: i)
  case (Cons ys xss)
  then show ?case by (cases i) (auto simp: nth_append add.assoc)
qed simp

end
