(* ===== verification/Libcdata_Array.thy ===== *)
theory Libcdata_Array
  imports Prelude
begin

text \<open>
  The arrays of libcdata, which are not part of the sources: a record of the operations
  the library calls, and the contract it relies on. An entry is a pointer, \<open>None\<close> for
  \<open>NULL\<close>. An operation that returns -1 has the value \<open>None\<close>.
\<close>

record ('arr, 'e) array_ops =
  array_initialize :: "int \<Rightarrow> 'arr option"
  array_get_number_of_entries :: "'arr \<Rightarrow> int option"
  array_get_entry_by_index :: "'arr \<Rightarrow> int \<Rightarrow> 'e option option"
  array_set_entry_by_index :: "'arr \<Rightarrow> int \<Rightarrow> 'e option \<Rightarrow> 'arr option"
  array_append_entry :: "'arr \<Rightarrow> 'e option \<Rightarrow> 'arr option"
  array_prepend_entry :: "'arr \<Rightarrow> 'e option \<Rightarrow> 'arr option"

text \<open>
  The contract: \<open>view\<close> gives the entries of an array. A new array has only \<open>NULL\<close>
  entries; an index is accepted if and only if it is in range; an entry can be appended
  while the number of entries is below the largest \<^verbatim>\<open>int\<close>.
\<close>

definition array_contract ::
  "('arr, 'e) array_ops \<Rightarrow> ('arr \<Rightarrow> 'e option list) \<Rightarrow> bool" where
  "array_contract A view \<longleftrightarrow>
     (\<forall>n. case array_initialize A n of
        None \<Rightarrow> \<not> (0 \<le> n \<and> n < 2 ^ 31)
      | Some a \<Rightarrow> view a = replicate (nat n) None) \<and>
     (\<forall>a. array_get_number_of_entries A a = Some (int (length (view a)))) \<and>
     (\<forall>a i. array_get_entry_by_index A a i =
        (if 0 \<le> i \<and> nat i < length (view a) then Some (view a ! nat i) else None)) \<and>
     (\<forall>a i e. if 0 \<le> i \<and> nat i < length (view a)
        then \<exists>a'. array_set_entry_by_index A a i e = Some a' \<and> view a' = (view a)[nat i := e]
        else array_set_entry_by_index A a i e = None) \<and>
     (\<forall>a e. case array_append_entry A a e of
        None \<Rightarrow> \<not> int (length (view a)) < 2 ^ 31 - 1
      | Some a' \<Rightarrow> view a' = view a @ [e]) \<and>
     (\<forall>a e. case array_prepend_entry A a e of
        None \<Rightarrow> \<not> int (length (view a)) < 2 ^ 31 - 1
      | Some a' \<Rightarrow> view a' = e # view a)"

lemma array_contractD:
  assumes "array_contract A view"
  shows array_get: "array_get_entry_by_index A a i =
      (if 0 \<le> i \<and> nat i < length (view a) then Some (view a ! nat i) else None)"
    and array_number: "array_get_number_of_entries A a = Some (int (length (view a)))"
  using assms unfolding array_contract_def by blast+

lemma array_contract_cases:
  assumes "array_contract A view"
  shows "case array_initialize A n of
        None \<Rightarrow> \<not> (0 \<le> n \<and> n < 2 ^ 31)
      | Some a \<Rightarrow> view a = replicate (nat n) None"
    and "case array_append_entry A a e of
        None \<Rightarrow> \<not> int (length (view a)) < 2 ^ 31 - 1
      | Some a' \<Rightarrow> view a' = view a @ [e]"
    and "case array_prepend_entry A a e of
        None \<Rightarrow> \<not> int (length (view a)) < 2 ^ 31 - 1
      | Some a' \<Rightarrow> view a' = e # view a"
  using assms unfolding array_contract_def by blast+

lemma array_success:
  assumes "array_contract A view"
  shows array_initialized: "array_initialize A n = Some a \<Longrightarrow> view a = replicate (nat n) None"
    and array_appended: "array_append_entry A a e = Some a' \<Longrightarrow> view a' = view a @ [e]"
    and array_prepended: "array_prepend_entry A a e = Some a' \<Longrightarrow> view a' = e # view a"
  using array_contract_cases(1) [OF assms, of n] array_contract_cases(2,3) [OF assms, of a e]
  by simp_all

lemma array_init:
  assumes "array_contract A view" and "0 \<le> n" and "n < 2 ^ 31"
  obtains a where "array_initialize A n = Some a" and "view a = replicate (nat n) None"
  using array_contract_cases(1) [OF assms(1), of n] assms(2,3) that by (simp split: option.splits)

lemma array_set:
  assumes "array_contract A view" and "0 \<le> i" and "nat i < length (view a)"
  obtains a' where "array_set_entry_by_index A a i e = Some a'" and "view a' = (view a)[nat i := e]"
  using assms unfolding array_contract_def by meson

lemma array_append:
  assumes "array_contract A view" and "int (length (view a)) < 2 ^ 31 - 1"
  obtains a' where "array_append_entry A a e = Some a'" and "view a' = view a @ [e]"
  using array_contract_cases(2) [OF assms(1), of a e] assms(2) that by (simp split: option.splits)

lemma array_prepend:
  assumes "array_contract A view" and "int (length (view a)) < 2 ^ 31 - 1"
  obtains a' where "array_prepend_entry A a e = Some a'" and "view a' = e # view a"
  using array_contract_cases(3) [OF assms(1), of a e] assms(2) that by (simp split: option.splits)

text \<open>Lists as arrays: the contract can be met. The witnesses use this instance.\<close>

definition list_array :: "('e option list, 'e) array_ops" where
  "list_array =
     \<lparr> array_initialize = (\<lambda>n. if n < 0 then None else Some (replicate (nat n) None)),
       array_get_number_of_entries = (\<lambda>a. Some (int (length a))),
       array_get_entry_by_index =
         (\<lambda>a i. if 0 \<le> i \<and> nat i < length a then Some (a ! nat i) else None),
       array_set_entry_by_index =
         (\<lambda>a i e. if 0 \<le> i \<and> nat i < length a then Some (a[nat i := e]) else None),
       array_append_entry = (\<lambda>a e. Some (a @ [e])),
       array_prepend_entry = (\<lambda>a e. Some (e # a)) \<rparr>"

lemma list_array_contract: "array_contract list_array (\<lambda>a. a)"
  by (auto simp: array_contract_def list_array_def)

end
