(* ===== verification/Block_Tree.thy ===== *)
theory Block_Tree
  imports Libcdata_Array
begin

text \<open>
  The block tree of \<^verbatim>\<open>libfsfat/libfsfat_block_tree.c\<close>, \<^verbatim>\<open>libfsfat_block_tree_node.c\<close> and
  \<^verbatim>\<open>libfsfat_block_descriptor.c\<close>: the set of cluster blocks a chain has visited. The
  nodes live in an explicit store, as their arrays hold pointers to them. The tree is
  shown to be a map from blocks to descriptors.
\<close>

section \<open>Block descriptors and nodes\<close>

record block_descriptor =
  bd_cluster_number :: u32

definition libfsfat_block_descriptor_initialize ::
  "block_descriptor option \<Rightarrow> block_descriptor result" where
  "libfsfat_block_descriptor_initialize block_descriptor =
     (if block_descriptor \<noteq> None then Inl RUNTIME_VALUE_ALREADY_SET
      else Inr \<lparr> bd_cluster_number = 0 \<rparr>)"

text \<open>
  What a pointer in the array of a node refers to: a sub node by its address in the
  store, or a block descriptor, which is never changed once it is in a tree.
\<close>

datatype node_entry = Sub_Node nat | Leaf_Value block_descriptor

record 'arr block_tree_node =
  node_start_offset :: off64
  node_end_offset :: off64
  node_size :: off64
  node_sub_node_size :: u64
  node_sub_nodes_array :: 'arr
  node_is_leaf_node :: u8

text \<open>
  The loop that finds the size of the sub nodes: a division by 0 is undefined in C, so
  the callers refuse a leaf value size of 0.
\<close>

function find_sub_node_size :: "u64 \<Rightarrow> u64 \<Rightarrow> u64" where
  "find_sub_node_size size0 sub_node_size =
     (if size0 div sub_node_size > BLOCK_TREE_NUMBER_OF_SUB_NODES
      then find_sub_node_size size0 (sub_node_size * BLOCK_TREE_NUMBER_OF_SUB_NODES)
      else sub_node_size)"
  by pat_completeness auto

lemma sub_node_size_grows:
  assumes "(size0 :: u64) div sub > BLOCK_TREE_NUMBER_OF_SUB_NODES"
  shows "unat (sub * BLOCK_TREE_NUMBER_OF_SUB_NODES) = unat sub * 256" and "0 < unat sub"
    and "unat sub * 256 < unat size0"
proof -
  have gt: "256 < unat size0 div unat sub"
    using assms by (simp add: BLOCK_TREE_NUMBER_OF_SUB_NODES_def word_less_nat_alt unat_div)
  then show pos: "0 < unat sub" by (cases "unat sub") simp_all
  have "Suc 256 * unat sub \<le> unat size0"
    using gt pos less_eq_div_iff_mult_less_eq [OF pos, of "Suc 256" "unat size0"] by simp
  then show "unat sub * 256 < unat size0" using pos by simp
  then show "unat (sub * BLOCK_TREE_NUMBER_OF_SUB_NODES) = unat sub * 256"
    using unat_bounds(4) [of size0]
    by (subst unat_mult_exact) (simp_all add: BLOCK_TREE_NUMBER_OF_SUB_NODES_def)
qed

termination find_sub_node_size
proof (relation "measure (\<lambda>(size0, sub). 2 ^ 64 - unat sub)")
  fix size0 sub :: u64
  assume "BLOCK_TREE_NUMBER_OF_SUB_NODES < size0 div sub"
  note grow = sub_node_size_grows [OF this]
  show "((size0, sub * BLOCK_TREE_NUMBER_OF_SUB_NODES), (size0, sub))
      \<in> measure (\<lambda>(size0, sub). 2 ^ 64 - unat sub)"
    using grow unat_bounds(4) [of sub] by simp
qed simp

declare find_sub_node_size.simps [simp del]

definition libfsfat_block_tree_node_initialize ::
  "('arr, node_entry) array_ops \<Rightarrow> 'arr block_tree_node option \<Rightarrow> off64 \<Rightarrow> u64 \<Rightarrow> u64 \<Rightarrow>
   'arr block_tree_node result" where
  "libfsfat_block_tree_node_initialize A block_tree_node offset size0 leaf_value_size =
     (if block_tree_node \<noteq> None then Inl RUNTIME_VALUE_ALREADY_SET
      else if offset <s 0 then Inl ARGUMENT_VALUE_OUT_OF_BOUNDS
      else if size0 = 0 \<or> size0 > INT64_MAX - offset then Inl ARGUMENT_VALUE_OUT_OF_BOUNDS
      else if leaf_value_size = 0 then Inl ARGUMENT_VALUE_OUT_OF_BOUNDS
      else
        (case array_initialize A 256 of
           None \<Rightarrow> Inl RUNTIME_INITIALIZE_FAILED
         | Some sub_nodes_array \<Rightarrow>
             let sub_node_size = find_sub_node_size size0 leaf_value_size
             in Inr \<lparr> node_start_offset = offset,
                      node_end_offset = offset + size0,
                      node_size = size0,
                      node_sub_node_size = sub_node_size,
                      node_sub_nodes_array = sub_nodes_array,
                      node_is_leaf_node = (if sub_node_size = leaf_value_size then 1 else 0) \<rparr>))"

text \<open>The index of the entry for an offset, with the checks all four accessors make.\<close>

definition node_entry_index :: "'arr block_tree_node \<Rightarrow> off64 \<Rightarrow> int result" where
  "node_entry_index node offset =
     (if offset <s node_start_offset node \<or> node_end_offset node \<le>s offset
      then Inl ARGUMENT_VALUE_OUT_OF_BOUNDS
      else if node_sub_node_size node = 0 then Inl MEMORY_FAULT
      else
        let index = (offset - node_start_offset node) div node_sub_node_size node
        in if index <s 0 \<or> INT_MAX <s index then Inl RUNTIME_VALUE_OUT_OF_BOUNDS
           else Inr (sint index))"

definition libfsfat_block_tree_node_get_sub_node_at_offset ::
  "('arr, node_entry) array_ops \<Rightarrow> 'arr block_tree_node option \<Rightarrow> off64 \<Rightarrow> nat option result" where
  "libfsfat_block_tree_node_get_sub_node_at_offset A block_tree_node offset =
     (case block_tree_node of
        None \<Rightarrow> Inl ARGUMENT_INVALID_VALUE
      | Some node \<Rightarrow>
          if node_is_leaf_node node \<noteq> 0 then Inl ARGUMENT_INVALID_VALUE
          else (case node_entry_index node offset of
                  Inl e \<Rightarrow> Inl e
                | Inr index \<Rightarrow>
                    (case array_get_entry_by_index A (node_sub_nodes_array node) index of
                       None \<Rightarrow> Inl RUNTIME_GET_FAILED
                     | Some None \<Rightarrow> Inr None
                     | Some (Some (Sub_Node address)) \<Rightarrow> Inr (Some address)
                     | Some (Some (Leaf_Value _)) \<Rightarrow> Inl MEMORY_FAULT)))"

definition libfsfat_block_tree_node_set_sub_node_at_offset ::
  "('arr, node_entry) array_ops \<Rightarrow> 'arr block_tree_node option \<Rightarrow> off64 \<Rightarrow> nat \<Rightarrow>
   'arr block_tree_node result" where
  "libfsfat_block_tree_node_set_sub_node_at_offset A block_tree_node offset sub_block_tree_node =
     (case block_tree_node of
        None \<Rightarrow> Inl ARGUMENT_INVALID_VALUE
      | Some node \<Rightarrow>
          if node_is_leaf_node node \<noteq> 0 then Inl ARGUMENT_INVALID_VALUE
          else (case node_entry_index node offset of
                  Inl e \<Rightarrow> Inl e
                | Inr index \<Rightarrow>
                    (case array_set_entry_by_index A (node_sub_nodes_array node) index
                            (Some (Sub_Node sub_block_tree_node)) of
                       None \<Rightarrow> Inl RUNTIME_SET_FAILED
                     | Some sub_nodes_array \<Rightarrow>
                         Inr (node\<lparr> node_sub_nodes_array := sub_nodes_array \<rparr>))))"

definition libfsfat_block_tree_node_get_leaf_value_at_offset ::
  "('arr, node_entry) array_ops \<Rightarrow> 'arr block_tree_node option \<Rightarrow> off64 \<Rightarrow>
   (block_descriptor option \<times> off64) result" where
  "libfsfat_block_tree_node_get_leaf_value_at_offset A block_tree_node offset =
     (case block_tree_node of
        None \<Rightarrow> Inl ARGUMENT_INVALID_VALUE
      | Some node \<Rightarrow>
          if node_is_leaf_node node = 0 then Inl ARGUMENT_INVALID_VALUE
          else (case node_entry_index node offset of
                  Inl e \<Rightarrow> Inl e
                | Inr index \<Rightarrow>
                    let block_offset = offset - node_start_offset node
                          - of_int index * node_sub_node_size node
                    in (case array_get_entry_by_index A (node_sub_nodes_array node) index of
                          None \<Rightarrow> Inl RUNTIME_GET_FAILED
                        | Some None \<Rightarrow> Inr (None, block_offset)
                        | Some (Some (Leaf_Value descriptor)) \<Rightarrow> Inr (Some descriptor, block_offset)
                        | Some (Some (Sub_Node _)) \<Rightarrow> Inl MEMORY_FAULT)))"

definition libfsfat_block_tree_node_set_leaf_value_at_offset ::
  "('arr, node_entry) array_ops \<Rightarrow> 'arr block_tree_node option \<Rightarrow> off64 \<Rightarrow> block_descriptor \<Rightarrow>
   'arr block_tree_node result" where
  "libfsfat_block_tree_node_set_leaf_value_at_offset A block_tree_node offset block_descriptor =
     (case block_tree_node of
        None \<Rightarrow> Inl ARGUMENT_INVALID_VALUE
      | Some node \<Rightarrow>
          if node_is_leaf_node node = 0 then Inl ARGUMENT_INVALID_VALUE
          else (case node_entry_index node offset of
                  Inl e \<Rightarrow> Inl e
                | Inr index \<Rightarrow>
                    (case array_set_entry_by_index A (node_sub_nodes_array node) index
                            (Some (Leaf_Value block_descriptor)) of
                       None \<Rightarrow> Inl RUNTIME_SET_FAILED
                     | Some sub_nodes_array \<Rightarrow>
                         Inr (node\<lparr> node_sub_nodes_array := sub_nodes_array \<rparr>))))"

section \<open>The tree\<close>

text \<open>
  The tree with the store of its nodes: a node is at an address of \<open>bt_nodes\<close>, the next
  one is put at \<open>bt_next\<close>. Following a pointer that is not in the store is a
  \<open>MEMORY_FAULT\<close>.
\<close>

record 'arr block_tree =
  bt_root_node :: nat
  bt_leaf_value_size :: u64
  bt_nodes :: "nat \<Rightarrow> 'arr block_tree_node option"
  bt_next :: nat

definition libfsfat_block_tree_initialize ::
  "('arr, node_entry) array_ops \<Rightarrow> 'arr block_tree option \<Rightarrow> u64 \<Rightarrow> u64 \<Rightarrow> 'arr block_tree result" where
  "libfsfat_block_tree_initialize A block_tree size0 leaf_value_size =
     (if block_tree \<noteq> None then Inl RUNTIME_VALUE_ALREADY_SET
      else (case libfsfat_block_tree_node_initialize A None 0 size0 leaf_value_size of
              Inl e \<Rightarrow> Inl RUNTIME_INITIALIZE_FAILED
            | Inr root \<Rightarrow>
                Inr \<lparr> bt_root_node = 0, bt_leaf_value_size = leaf_value_size,
                      bt_nodes = [0 \<mapsto> root], bt_next = 1 \<rparr>))"

text \<open>The loop of the lookup: the leaf node for an offset, or \<open>None\<close> for a missing sub node.\<close>

partial_function (option) find_leaf ::
  "('arr, node_entry) array_ops \<Rightarrow> 'arr block_tree \<Rightarrow> off64 \<Rightarrow> nat \<Rightarrow> nat option result option" where
  "find_leaf A t offset address =
     (case bt_nodes t address of
        None \<Rightarrow> Some (Inl MEMORY_FAULT)
      | Some node \<Rightarrow>
          if node_is_leaf_node node \<noteq> 0 then Some (Inr (Some address))
          else (case libfsfat_block_tree_node_get_sub_node_at_offset A (Some node) offset of
                  Inl e \<Rightarrow> Some (Inl RUNTIME_GET_FAILED)
                | Inr None \<Rightarrow> Some (Inr None)
                | Inr (Some sub_node) \<Rightarrow> find_leaf A t offset sub_node))"

text \<open>
  \<open>Inr None\<close> is the return value 0, \<open>Inr (Some _)\<close> the descriptor and the offset in its
  block.
\<close>

definition libfsfat_block_tree_get_block_descriptor_by_offset ::
  "('arr, node_entry) array_ops \<Rightarrow> 'arr block_tree option \<Rightarrow> off64 \<Rightarrow>
   (block_descriptor \<times> off64) option result option" where
  "libfsfat_block_tree_get_block_descriptor_by_offset A block_tree offset =
     (case block_tree of
        None \<Rightarrow> Some (Inl ARGUMENT_INVALID_VALUE)
      | Some t \<Rightarrow>
          (case find_leaf A t offset (bt_root_node t) of
             None \<Rightarrow> None
           | Some (Inl e) \<Rightarrow> Some (Inl e)
           | Some (Inr None) \<Rightarrow> Some (Inr None)
           | Some (Inr (Some leaf)) \<Rightarrow>
               (case libfsfat_block_tree_node_get_leaf_value_at_offset A (bt_nodes t leaf) offset of
                  Inl e \<Rightarrow> Some (Inl RUNTIME_GET_FAILED)
                | Inr (None, block_offset) \<Rightarrow> Some (Inr None)
                | Inr (Some descriptor, block_offset) \<Rightarrow>
                    Some (Inr (Some (descriptor, block_offset))))))"

text \<open>
  A missing sub node is created for the range of its entry and set in its parent.
\<close>

definition create_sub_node ::
  "('arr, node_entry) array_ops \<Rightarrow> 'arr block_tree \<Rightarrow> off64 \<Rightarrow> nat \<Rightarrow> 'arr block_tree_node \<Rightarrow>
   ('arr block_tree \<times> nat) result" where
  "create_sub_node A t offset address node =
     (let sub_node_index = (offset - node_start_offset node) div node_sub_node_size node;
          sub_node_offset = node_start_offset node + sub_node_index * node_sub_node_size node
      in (case libfsfat_block_tree_node_initialize A None sub_node_offset
                 (node_sub_node_size node) (bt_leaf_value_size t) of
            Inl e \<Rightarrow> Inl RUNTIME_INITIALIZE_FAILED
          | Inr sub_node \<Rightarrow>
              (case libfsfat_block_tree_node_set_sub_node_at_offset A (Some node) offset (bt_next t) of
                 Inl e \<Rightarrow> Inl RUNTIME_GET_FAILED
               | Inr node' \<Rightarrow>
                   Inr (t\<lparr> bt_nodes := (bt_nodes t)(bt_next t \<mapsto> sub_node, address \<mapsto> node'),
                           bt_next := Suc (bt_next t) \<rparr>,
                        bt_next t))))"

partial_function (option) find_or_create_leaf ::
  "('arr, node_entry) array_ops \<Rightarrow> 'arr block_tree \<Rightarrow> off64 \<Rightarrow> nat \<Rightarrow>
   ('arr block_tree \<times> nat) result option" where
  "find_or_create_leaf A t offset address =
     (case bt_nodes t address of
        None \<Rightarrow> Some (Inl MEMORY_FAULT)
      | Some node \<Rightarrow>
          if node_is_leaf_node node \<noteq> 0 then Some (Inr (t, address))
          else (case libfsfat_block_tree_node_get_sub_node_at_offset A (Some node) offset of
                  Inl e \<Rightarrow> Some (Inl RUNTIME_GET_FAILED)
                | Inr None \<Rightarrow>
                    (case create_sub_node A t offset address node of
                       Inl e \<Rightarrow> Some (Inl e)
                     | Inr p \<Rightarrow> find_or_create_leaf A (fst p) offset (snd p))
                | Inr (Some sub_node) \<Rightarrow> find_or_create_leaf A t offset sub_node))"

text \<open>
  What the insertion leaves in its output parameters: the leaf value index (return value
  1), or the descriptor that is already there (return value 0). The tree is changed in
  both cases, as sub nodes may have been created.
\<close>

datatype insert_result = Inserted int | Existing block_descriptor

definition libfsfat_block_tree_insert_block_descriptor_by_offset ::
  "('arr, node_entry) array_ops \<Rightarrow> 'arr block_tree option \<Rightarrow> off64 \<Rightarrow> block_descriptor \<Rightarrow>
   ('arr block_tree \<times> insert_result) result option" where
  "libfsfat_block_tree_insert_block_descriptor_by_offset A block_tree offset block_descriptor =
     (case block_tree of
        None \<Rightarrow> Some (Inl ARGUMENT_INVALID_VALUE)
      | Some t \<Rightarrow>
          (case find_or_create_leaf A t offset (bt_root_node t) of
             None \<Rightarrow> None
           | Some (Inl e) \<Rightarrow> Some (Inl e)
           | Some (Inr (t', leaf)) \<Rightarrow>
               (case libfsfat_block_tree_node_get_leaf_value_at_offset A (bt_nodes t' leaf) offset of
                  Inl e \<Rightarrow> Some (Inl RUNTIME_GET_FAILED)
                | Inr (Some existing, _) \<Rightarrow> Some (Inr (t', Existing existing))
                | Inr (None, _) \<Rightarrow>
                    (case libfsfat_block_tree_node_set_leaf_value_at_offset A (bt_nodes t' leaf)
                            offset block_descriptor of
                       Inl e \<Rightarrow> Some (Inl RUNTIME_SET_FAILED)
                     | Inr node \<Rightarrow>
                         Some (Inr (t'\<lparr> bt_nodes := (bt_nodes t')(leaf \<mapsto> node) \<rparr>,
                                    Inserted (sint (ucast (offset div bt_leaf_value_size t') :: u32))))))))"

section \<open>The invariant\<close>

text \<open>
  The blocks are numbered by \<open>offset div leaf_value_size\<close>; \<open>entry_of\<close> is the index of a
  block's entry in a node. A branch node's sub nodes are where their entries say and have
  256 entries of their own; a leaf node has no sub nodes.
\<close>

definition entry_of :: "nat \<Rightarrow> 'arr block_tree_node \<Rightarrow> nat \<Rightarrow> nat" where
  "entry_of L n key =
     (key - unat (node_start_offset n) div L) div (unat (node_sub_node_size n) div L)"

definition sub_node_at ::
  "(nat \<Rightarrow> 'arr block_tree_node option) \<Rightarrow> 'arr block_tree_node \<Rightarrow> nat \<Rightarrow> node_entry \<Rightarrow> bool" where
  "sub_node_at nodes n i e \<longleftrightarrow>
     (\<exists>b m. e = Sub_Node b \<and> nodes b = Some m \<and>
        unat (node_start_offset m) = unat (node_start_offset n) + i * unat (node_sub_node_size n) \<and>
        unat (node_size m) = unat (node_sub_node_size n) \<and>
        unat (node_sub_node_size m) * 256 = unat (node_sub_node_size n))"

definition node_ok ::
  "('arr \<Rightarrow> node_entry option list) \<Rightarrow> nat \<Rightarrow> (nat \<Rightarrow> 'arr block_tree_node option) \<Rightarrow>
   'arr block_tree_node \<Rightarrow> bool" where
  "node_ok view L nodes n \<longleftrightarrow>
     0 < L \<and> L dvd unat (node_start_offset n) \<and>
     length (view (node_sub_nodes_array n)) = 256 \<and>
     unat (node_end_offset n) = unat (node_start_offset n) + unat (node_size n) \<and>
     unat (node_start_offset n) < 2 ^ 53 \<and> unat (node_size n) \<le> 2 ^ 53 \<and>
     (\<exists>k. unat (node_sub_node_size n) = L * 256 ^ k \<and>
        (node_is_leaf_node n \<noteq> 0) = (k = 0) \<and>
        (0 < k \<longrightarrow> unat (node_sub_node_size n) \<le> unat (node_size n))) \<and>
     (\<forall>i < 256. \<forall>e. view (node_sub_nodes_array n) ! i = Some e \<longrightarrow>
        (if node_is_leaf_node n \<noteq> 0 then \<exists>d. e = Leaf_Value d else sub_node_at nodes n i e))"

definition tree_inv ::
  "('arr, node_entry) array_ops \<Rightarrow> ('arr \<Rightarrow> node_entry option list) \<Rightarrow> 'arr block_tree \<Rightarrow> bool" where
  "tree_inv A view t \<longleftrightarrow>
     array_contract A view \<and>
     (\<exists>root. bt_nodes t (bt_root_node t) = Some root \<and> node_start_offset root = 0) \<and>
     (\<forall>a n. bt_nodes t a = Some n \<longrightarrow>
        a < bt_next t \<and> node_ok view (unat (bt_leaf_value_size t)) (bt_nodes t) n)"

text \<open>The offsets a node has an entry for.\<close>

definition covers :: "'arr block_tree_node \<Rightarrow> off64 \<Rightarrow> bool" where
  "covers n offset \<longleftrightarrow>
     unat (node_start_offset n) \<le> unat offset \<and> unat offset < unat (node_end_offset n) \<and>
     (unat offset - unat (node_start_offset n)) div unat (node_sub_node_size n) < 256"

lemma node_okD:
  assumes "node_ok view L nodes n"
  shows "0 < L" and "L dvd unat (node_start_offset n)"
    and "length (view (node_sub_nodes_array n)) = 256"
    and "unat (node_end_offset n) = unat (node_start_offset n) + unat (node_size n)"
    and "unat (node_start_offset n) < 2 ^ 53" and "unat (node_size n) \<le> 2 ^ 53"
    and "\<exists>k. unat (node_sub_node_size n) = L * 256 ^ k \<and>
        (node_is_leaf_node n \<noteq> 0) = (k = 0) \<and>
        (0 < k \<longrightarrow> unat (node_sub_node_size n) \<le> unat (node_size n))"
  using assms unfolding node_ok_def by blast+

lemma node_ok_entry:
  assumes "node_ok view L nodes n" and "i < 256" and "view (node_sub_nodes_array n) ! i = Some e"
  shows "if node_is_leaf_node n \<noteq> 0 then \<exists>d. e = Leaf_Value d else sub_node_at nodes n i e"
  using assms unfolding node_ok_def by blast

lemma sub_node_size_pos: "node_ok view L nodes n \<Longrightarrow> 0 < unat (node_sub_node_size n)"
  using node_okD(1,7) [of view L nodes n] by (metis mult_pos_pos zero_less_numeral zero_less_power)

lemma div_aligned:
  assumes "0 < (L::nat)" and "L dvd s" and "s \<le> x"
  shows "(x - s) div (L * w) = (x div L - s div L) div w"
proof -
  obtain q where q: "s = L * q" using assms(2) by (auto simp: dvd_def)
  have "(x - L * q) div L = x div L - q"
  proof -
    obtain r where "x = L * q + r" using assms(3) q le_iff_add by blast
    then show ?thesis using assms(1) by simp
  qed
  then show ?thesis using assms(1) q by (simp add: div_mult2_eq)
qed

lemma covers_entry_of:
  assumes "node_ok view L nodes n" and "covers n off"
  shows "(unat off - unat (node_start_offset n)) div unat (node_sub_node_size n) =
      entry_of L n (unat off div L)"
    and "entry_of L n (unat off div L) < 256"
proof -
  obtain k where "unat (node_sub_node_size n) = L * 256 ^ k" using node_okD(7) [OF assms(1)] by blast
  then show eq: "(unat off - unat (node_start_offset n)) div unat (node_sub_node_size n) =
      entry_of L n (unat off div L)"
    using node_okD(1,2) [OF assms(1)] assms(2)
    by (simp add: entry_of_def covers_def div_aligned)
  show "entry_of L n (unat off div L) < 256"
    using assms(2) unfolding covers_def eq by blast
qed

lemma node_entry_index_covers:
  assumes "node_ok view L nodes n" and "covers n off"
  shows "node_entry_index n off = Inr (int (entry_of L n (unat off div L)))"
proof -
  note ok = node_okD [OF assms(1)]
  let ?s = "node_start_offset n" and ?sub = "node_sub_node_size n"
  have end63: "unat (node_end_offset n) < 2 ^ 63" using ok(4-6) by simp
  then have off63: "unat off < 2 ^ 63" "unat ?s < 2 ^ 63" using assms(2) ok(5) by (simp_all add: covers_def)
  have checks: "\<not> off <s ?s" "\<not> node_end_offset n \<le>s off"
    using assms(2) off63 end63 by (simp_all add: covers_def sless_unat flip: signed.not_less)
  have "?sub \<noteq> 0" using sub_node_size_pos [OF assms(1)] by auto
  let ?i = "(off - ?s) div ?sub"
  have i: "unat ?i = entry_of L n (unat off div L)" and "unat ?i < 256"
    using covers_entry_of [OF assms] assms(2)
    by (simp_all add: unat_div unat_minus_exact covers_def)
  then have small: "uint ?i < 256" by (metis of_nat_less_numeral_iff uint_nat)
  have "\<not> ?i <s 0" "\<not> INT_MAX <s ?i"
    using \<open>unat ?i < 256\<close> by (simp_all add: sless_zero_iff sless_unat INT_MAX_def)
  moreover have "sint ?i = int (unat ?i)"
    using \<open>unat ?i < 256\<close> by (simp add: sint_small)
  ultimately show ?thesis
    using checks \<open>?sub \<noteq> 0\<close> by (simp add: node_entry_index_def Let_def i)
qed

lemma covers_sub_node:
  assumes "node_ok view L nodes n" and "covers n off"
    and "node_ok view L nodes m"
    and "unat (node_start_offset m) =
      unat (node_start_offset n) + entry_of L n (unat off div L) * unat (node_sub_node_size n)"
    and "unat (node_size m) = unat (node_sub_node_size n)"
    and "unat (node_sub_node_size m) * 256 = unat (node_sub_node_size n)"
  shows "covers m off"
proof -
  let ?d = "unat off - unat (node_start_offset n)" and ?sub = "unat (node_sub_node_size n)"
  have pos: "0 < ?sub" "0 < unat (node_sub_node_size m)"
    using sub_node_size_pos assms(1,3) by blast+
  have start: "unat (node_start_offset m) = unat (node_start_offset n) + ?d div ?sub * ?sub"
    using covers_entry_of(1) [OF assms(1,2)] assms(4) by simp
  have split: "unat off = unat (node_start_offset m) + ?d mod ?sub"
    using assms(2) start by (simp add: covers_def div_mult_mod_eq add.assoc)
  have less: "?d mod ?sub < ?sub" using pos by simp
  then have "?d mod ?sub div unat (node_sub_node_size m) < 256"
    using assms(6) pos by (simp add: div_less_iff_less_mult mult.commute)
  moreover have "unat off - unat (node_start_offset m) = ?d mod ?sub" using split by linarith
  ultimately show ?thesis
    using split less node_okD(4) [OF assms(3)] assms(5) unfolding covers_def by simp
qed

section \<open>Paths and values\<close>

text \<open>
  The path of a block from a node to its leaf node, or to a missing sub node, and the
  value stored for the block.
\<close>

inductive leaf_path ::
  "('arr \<Rightarrow> node_entry option list) \<Rightarrow> nat \<Rightarrow> (nat \<Rightarrow> 'arr block_tree_node option) \<Rightarrow> nat \<Rightarrow>
   nat \<Rightarrow> nat option \<Rightarrow> bool" for view L nodes key where
  leaf: "nodes a = Some n \<Longrightarrow> node_is_leaf_node n \<noteq> 0 \<Longrightarrow> entry_of L n key < 256 \<Longrightarrow>
    leaf_path view L nodes key a (Some a)"
| stop: "nodes a = Some n \<Longrightarrow> node_is_leaf_node n = 0 \<Longrightarrow> entry_of L n key < 256 \<Longrightarrow>
    view (node_sub_nodes_array n) ! entry_of L n key = None \<Longrightarrow>
    leaf_path view L nodes key a None"
| step: "nodes a = Some n \<Longrightarrow> node_is_leaf_node n = 0 \<Longrightarrow> entry_of L n key < 256 \<Longrightarrow>
    view (node_sub_nodes_array n) ! entry_of L n key = Some (Sub_Node b) \<Longrightarrow>
    leaf_path view L nodes key b r \<Longrightarrow>
    leaf_path view L nodes key a r"

inductive_cases leaf_pathE: "leaf_path view L nodes key a r"
inductive_simps leaf_path_simps: "leaf_path view L nodes key a r"

lemma leaf_path_leaf:
  "leaf_path view L nodes key a (Some l) \<Longrightarrow>
   \<exists>n. nodes l = Some n \<and> node_is_leaf_node n \<noteq> 0 \<and> entry_of L n key < 256"
  by (induction a "Some l" rule: leaf_path.induct) blast+

lemma leaf_path_unique:
  "leaf_path view L nodes key a r \<Longrightarrow> leaf_path view L nodes key a r' \<Longrightarrow> r = r'"
proof (induction arbitrary: r' rule: leaf_path.induct)
  case (step a n b r)
  from step.prems have "leaf_path view L nodes key b r'"
    by cases (use step.hyps in simp_all)
  then show ?case by (rule step.IH)
next
  case (leaf a n)
  from leaf.prems show ?case by cases (use leaf.hyps in simp_all)
next
  case (stop a n)
  from stop.prems show ?case by cases (use stop.hyps in simp_all)
qed

definition stored ::
  "('arr \<Rightarrow> node_entry option list) \<Rightarrow> nat \<Rightarrow> (nat \<Rightarrow> 'arr block_tree_node option) \<Rightarrow> nat \<Rightarrow>
   nat \<Rightarrow> block_descriptor \<Rightarrow> bool" where
  "stored view L nodes a key d \<longleftrightarrow>
     (\<exists>l n. leaf_path view L nodes key a (Some l) \<and> nodes l = Some n \<and>
        view (node_sub_nodes_array n) ! entry_of L n key = Some (Leaf_Value d))"

definition nodes_ok ::
  "('arr \<Rightarrow> node_entry option list) \<Rightarrow> nat \<Rightarrow> (nat \<Rightarrow> 'arr block_tree_node option) \<Rightarrow> bool" where
  "nodes_ok view L nodes \<longleftrightarrow> (\<forall>a n. nodes a = Some n \<longrightarrow> node_ok view L nodes n)"

lemma get_sub_node_covers:
  assumes "array_contract A view" and ok: "node_ok view L nodes n" and "covers n off"
    and branch: "node_is_leaf_node n = 0"
  shows "libfsfat_block_tree_node_get_sub_node_at_offset A (Some n) off =
    (case view (node_sub_nodes_array n) ! entry_of L n (unat off div L) of
       None \<Rightarrow> Inr None | Some (Sub_Node b) \<Rightarrow> Inr (Some b) | Some (Leaf_Value _) \<Rightarrow> Inl MEMORY_FAULT)"
  using assms node_entry_index_covers [OF ok assms(3)] covers_entry_of(2) [OF ok assms(3)]
    node_okD(3) [OF ok]
  by (simp add: libfsfat_block_tree_node_get_sub_node_at_offset_def array_get [OF assms(1)])

lemma find_leaf_path:
  assumes "array_contract A view" and ok: "nodes_ok view L (bt_nodes t)"
    and "bt_nodes t a = Some n" and "covers n off"
  shows "\<exists>r. leaf_path view L (bt_nodes t) (unat off div L) a r \<and>
    find_leaf A t off a = Some (Inr r) \<and>
    (\<forall>l. r = Some l \<longrightarrow> (\<exists>m. bt_nodes t l = Some m \<and> covers m off))"
  using assms(3,4)
proof (induction "unat (node_sub_node_size n)" arbitrary: a n rule: less_induct)
  case less
  have n: "node_ok view L (bt_nodes t) n" using ok less.prems(1) by (auto simp: nodes_ok_def)
  note entry = covers_entry_of [OF n less.prems(2)]
  show ?case
  proof (cases "node_is_leaf_node n = 0")
    case False
    then show ?thesis
      using less.prems entry by (auto simp: find_leaf.simps [of A t off a] intro: leaf_path.leaf)
  next
    case True
    let ?e = "view (node_sub_nodes_array n) ! entry_of L n (unat off div L)"
    note get = get_sub_node_covers [OF assms(1) n less.prems(2) True]
    show ?thesis
    proof (cases ?e)
      case None
      then show ?thesis
        using less.prems entry True get
        by (auto simp: find_leaf.simps [of A t off a] intro: leaf_path.stop)
    next
      case (Some e)
      then have "sub_node_at (bt_nodes t) n (entry_of L n (unat off div L)) e"
        using node_ok_entry [OF n entry(2)] True by simp
      then obtain b m where b: "e = Sub_Node b" "bt_nodes t b = Some m"
        and m: "unat (node_start_offset m) = unat (node_start_offset n)
            + entry_of L n (unat off div L) * unat (node_sub_node_size n)"
          "unat (node_size m) = unat (node_sub_node_size n)"
          "unat (node_sub_node_size m) * 256 = unat (node_sub_node_size n)"
        by (auto simp: sub_node_at_def)
      have ok_m: "node_ok view L (bt_nodes t) m" using ok b(2) by (auto simp: nodes_ok_def)
      have "unat (node_sub_node_size m) < unat (node_sub_node_size n)"
        using m(3) sub_node_size_pos [OF ok_m] by linarith
      from less.hyps [OF this b(2) covers_sub_node [OF n less.prems(2) ok_m m]]
      obtain r where r: "leaf_path view L (bt_nodes t) (unat off div L) b r"
        "find_leaf A t off b = Some (Inr r)"
        "\<forall>l. r = Some l \<longrightarrow> (\<exists>m. bt_nodes t l = Some m \<and> covers m off)" by blast
      have "find_leaf A t off a = find_leaf A t off b"
        using less.prems(1) True get Some b(1) by (simp add: find_leaf.simps [of A t off a])
      then show ?thesis
        using leaf_path.step [OF less.prems(1) True entry(2) _ r(1)] Some b(1) r(2,3) by auto
    qed
  qed
qed

section \<open>Creating nodes\<close>

lemma find_sub_node_size_power:
  "0 < unat sub \<Longrightarrow>
   \<exists>j. unat (find_sub_node_size size0 sub) = unat sub * 256 ^ j \<and>
       (0 < j \<longrightarrow> unat (find_sub_node_size size0 sub) < unat size0) \<and>
       unat size0 div unat (find_sub_node_size size0 sub) \<le> 256"
proof (induction size0 sub rule: find_sub_node_size.induct)
  case (1 size0 sub)
  show ?case
  proof (cases "size0 div sub > BLOCK_TREE_NUMBER_OF_SUB_NODES")
    case True
    note grow = sub_node_size_grows [OF True]
    let ?sub = "sub * BLOCK_TREE_NUMBER_OF_SUB_NODES"
    have "0 < unat ?sub" using grow by simp
    then obtain j where j: "unat (find_sub_node_size size0 ?sub) = unat ?sub * 256 ^ j"
      "0 < j \<longrightarrow> unat (find_sub_node_size size0 ?sub) < unat size0"
      "unat size0 div unat (find_sub_node_size size0 ?sub) \<le> 256"
      using 1(1) True by blast
    have "find_sub_node_size size0 sub = find_sub_node_size size0 ?sub"
      using True by (simp add: find_sub_node_size.simps [of size0 sub])
    moreover have "unat (find_sub_node_size size0 ?sub) < unat size0"
      using j grow by (cases "j = 0") simp_all
    ultimately show ?thesis using j grow(1) by (intro exI [of _ "Suc j"]) simp
  next
    case False
    then have "unat size0 div unat sub \<le> 256"
      by (simp add: BLOCK_TREE_NUMBER_OF_SUB_NODES_def word_less_nat_alt unat_div)
    then show ?thesis
      using False by (intro exI [of _ 0]) (simp add: find_sub_node_size.simps [of size0 sub])
  qed
qed

lemma find_sub_node_size_exact:
  assumes "0 < unat leaf" and "unat size0 = unat leaf * 256 ^ Suc k"
  shows "unat (find_sub_node_size size0 leaf) = unat leaf * 256 ^ k"
proof -
  obtain j where j: "unat (find_sub_node_size size0 leaf) = unat leaf * 256 ^ j"
    "0 < j \<longrightarrow> unat (find_sub_node_size size0 leaf) < unat size0"
    "unat size0 div unat (find_sub_node_size size0 leaf) \<le> 256"
    using find_sub_node_size_power [OF assms(1)] by blast
  have "j < Suc k"
  proof (cases "0 < j")
    case True
    then have "(256::nat) ^ j < 256 ^ Suc k" using j(1,2) assms by simp
    then show ?thesis by (simp only: power_strict_increasing_iff one_less_numeral_iff semiring_norm)
  qed simp
  then have "unat size0 = unat leaf * 256 ^ j * 256 ^ (Suc k - j)"
    using assms(2) by (simp only: mult.assoc power_add [symmetric] le_add_diff_inverse less_imp_le)
  then have "(256::nat) ^ (Suc k - j) \<le> 256 ^ 1"
    using j(1,3) assms(1) by simp
  then have "Suc k - j \<le> 1"
    by (simp only: power_increasing_iff one_less_numeral_iff semiring_norm)
  then have "j = k" using \<open>j < Suc k\<close> by linarith
  then show ?thesis using j(1) by simp
qed

lemma node_initialize_ok:
  assumes contract: "array_contract A view" and "unat offset < 2 ^ 53"
    and "0 < unat size0" and "unat size0 \<le> 2 ^ 53"
    and L: "0 < unat leaf" and "unat leaf dvd unat offset"
  obtains n where "libfsfat_block_tree_node_initialize A None offset size0 leaf = Inr n"
    and "\<And>nodes. node_ok view (unat leaf) nodes n"
    and "node_start_offset n = offset" and "node_size n = size0"
    and "node_sub_node_size n = find_sub_node_size size0 leaf"
    and "view (node_sub_nodes_array n) = replicate 256 None"
proof -
  obtain arr where arr: "array_initialize A 256 = Some arr" "view arr = replicate (nat 256) None"
    by (rule array_init [OF contract, of 256]) simp_all
  let ?sub = "find_sub_node_size size0 leaf"
  obtain j where j: "unat ?sub = unat leaf * 256 ^ j" "0 < j \<longrightarrow> unat ?sub < unat size0"
    using find_sub_node_size_power [OF L] by blast
  let ?n = "\<lparr> node_start_offset = offset, node_end_offset = offset + size0, node_size = size0,
      node_sub_node_size = ?sub, node_sub_nodes_array = arr,
      node_is_leaf_node = (if ?sub = leaf then 1 else 0) \<rparr> :: 'a block_tree_node"
  have "unat (INT64_MAX - offset) = 2 ^ 63 - 1 - unat offset"
    using assms(2) by (subst unat_minus_exact) (simp_all add: INT64_MAX_def)
  then have "\<not> offset <s 0" "\<not> (size0 = 0 \<or> size0 > INT64_MAX - offset)" "leaf \<noteq> 0"
    using assms(2-5) by (auto simp: sless_zero_iff word_less_nat_alt)
  then have init: "libfsfat_block_tree_node_initialize A None offset size0 leaf = Inr ?n"
    using arr(1) by (simp add: libfsfat_block_tree_node_initialize_def Let_def)
  have leaf: "(?sub = leaf) = (j = 0)"
    using j(1) L by (auto simp: word_unat_eq_iff)
  have endo: "unat (offset + size0) = unat offset + unat size0"
    using assms(2,4) by (subst unat_add_exact) simp_all
  have "node_ok view (unat leaf) nodes ?n" for nodes
    using assms(2,4-6) j endo leaf arr(2)
    unfolding node_ok_def by (intro conjI exI [of _ j]) auto
  then show ?thesis using that [OF init] arr(2) by simp
qed

section \<open>Updates of the store\<close>

text \<open>
  A store extends another if it keeps every node, up to entries of its array that were
  \<open>NULL\<close>.
\<close>

definition same_shape :: "'arr block_tree_node \<Rightarrow> 'arr block_tree_node \<Rightarrow> bool" where
  "same_shape n n' \<longleftrightarrow>
     (\<exists>arr. n' = n\<lparr> node_sub_nodes_array := arr \<rparr>)"

definition extends ::
  "('arr \<Rightarrow> node_entry option list) \<Rightarrow> (nat \<Rightarrow> 'arr block_tree_node option) \<Rightarrow>
   (nat \<Rightarrow> 'arr block_tree_node option) \<Rightarrow> bool" where
  "extends view nodes nodes' \<longleftrightarrow>
     (\<forall>b m. nodes b = Some m \<longrightarrow>
        (\<exists>m'. nodes' b = Some m' \<and> same_shape m m' \<and>
           (\<forall>i e. view (node_sub_nodes_array m) ! i = Some e \<longrightarrow>
              view (node_sub_nodes_array m') ! i = Some e)))"

lemma same_shapeD:
  assumes "same_shape n n'"
  shows "node_start_offset n' = node_start_offset n" "node_end_offset n' = node_end_offset n"
    "node_size n' = node_size n" "node_sub_node_size n' = node_sub_node_size n"
    "node_is_leaf_node n' = node_is_leaf_node n" "entry_of L n' key = entry_of L n key"
    "covers n' off = covers n off"
  using assms by (auto simp: same_shape_def entry_of_def covers_def)

lemma same_shape_refl [simp]: "same_shape n n"
  unfolding same_shape_def by (rule exI [of _ "node_sub_nodes_array n"]) simp

lemma same_shape_set [simp]: "same_shape n (n\<lparr> node_sub_nodes_array := arr \<rparr>)"
  unfolding same_shape_def by blast

lemma same_shape_trans: "same_shape n m \<Longrightarrow> same_shape m k \<Longrightarrow> same_shape n k"
  by (auto simp: same_shape_def)

lemma extends_refl [simp]: "extends view nodes nodes"
  by (auto simp: extends_def)

lemma extends_node:
  "extends view nodes nodes' \<Longrightarrow> nodes b = Some m \<Longrightarrow> \<exists>m'. nodes' b = Some m' \<and> same_shape m m'"
  unfolding extends_def by blast

lemma extends_trans: "extends view n1 n2 \<Longrightarrow> extends view n2 n3 \<Longrightarrow> extends view n1 n3"
  unfolding extends_def by (meson same_shape_trans)

lemma extends_set:
  assumes "nodes a = Some n" and "view (node_sub_nodes_array n) ! i = None"
    and "view arr = (view (node_sub_nodes_array n))[i := e]"
  shows "extends view nodes (nodes(a \<mapsto> n\<lparr> node_sub_nodes_array := arr \<rparr>))"
  using assms by (auto simp: extends_def) (metis nth_list_update_neq option.distinct(1))

lemma extends_new: "nodes a = None \<Longrightarrow> extends view nodes (nodes(a \<mapsto> n))"
  by (auto simp: extends_def)

lemma leaf_path_step_extends:
  assumes "extends view nodes nodes'" and "nodes a = Some n" and "node_is_leaf_node n = 0"
    and "entry_of L n key < 256"
    and "view (node_sub_nodes_array n) ! entry_of L n key = Some (Sub_Node b)"
    and "leaf_path view L nodes' key b r"
  shows "leaf_path view L nodes' key a r"
proof -
  obtain n' where n': "nodes' a = Some n'" "same_shape n n'"
    and keep: "\<forall>i e. view (node_sub_nodes_array n) ! i = Some e \<longrightarrow>
              view (node_sub_nodes_array n') ! i = Some e"
    using assms(1,2) unfolding extends_def by blast
  then have "view (node_sub_nodes_array n') ! entry_of L n' key = Some (Sub_Node b)"
    using assms(5) same_shapeD(6) by metis
  then show ?thesis
    using leaf_path.step [where n = n' and view = view and nodes = nodes'] n' same_shapeD(5,6) [OF n'(2)] assms(3,4,6)
    by metis
qed

lemma sub_node_at_extends:
  "sub_node_at nodes n i e \<Longrightarrow> extends view nodes nodes' \<Longrightarrow> sub_node_at nodes' n i e"
proof -
  assume "sub_node_at nodes n i e" and ext: "extends view nodes nodes'"
  then obtain b m where e: "e = Sub_Node b" and "nodes b = Some m"
    and m: "unat (node_start_offset m) = unat (node_start_offset n) + i * unat (node_sub_node_size n)"
      "unat (node_size m) = unat (node_sub_node_size n)"
      "unat (node_sub_node_size m) * 256 = unat (node_sub_node_size n)"
    unfolding sub_node_at_def by blast
  then obtain m' where "nodes' b = Some m'" "same_shape m m'"
    using ext unfolding extends_def by blast
  then show "sub_node_at nodes' n i e"
    using e m same_shapeD(1,3,4) [of m m'] unfolding sub_node_at_def by auto
qed

lemma node_ok_extends: "node_ok view L nodes n \<Longrightarrow> extends view nodes nodes' \<Longrightarrow> node_ok view L nodes' n"
  unfolding node_ok_def using sub_node_at_extends [of nodes n _ _ view nodes'] by auto

lemma node_ok_set:
  assumes "node_ok view L nodes n" and "view arr = (view (node_sub_nodes_array n))[i := Some e]"
    and "if node_is_leaf_node n \<noteq> 0 then \<exists>d. e = Leaf_Value d else sub_node_at nodes n i e"
  shows "node_ok view L nodes (n\<lparr> node_sub_nodes_array := arr \<rparr>)"
proof -
  have sub: "sub_node_at nodes (n\<lparr> node_sub_nodes_array := arr \<rparr>) j = sub_node_at nodes n j" for j
    by (simp add: sub_node_at_def fun_eq_iff)
  have "if node_is_leaf_node n \<noteq> 0 then \<exists>d. e' = Leaf_Value d else sub_node_at nodes n j e'"
    if "j < 256" "view arr ! j = Some e'" for j e'
  proof (cases "j = i")
    case True
    then have "e' = e" using that assms(2) node_okD(3) [OF assms(1)] by simp
    then show ?thesis using assms(3) True by simp
  next
    case False
    then show ?thesis using that assms(2) node_ok_entry [OF assms(1), of j e'] by simp
  qed
  then show ?thesis
    using assms(1,2) unfolding node_ok_def by (simp add: sub)
qed

lemma set_sub_node_covers:
  assumes contract: "array_contract A view" and ok: "node_ok view L nodes n" and "covers n off"
    and "node_is_leaf_node n = 0"
  obtains arr where
    "libfsfat_block_tree_node_set_sub_node_at_offset A (Some n) off b =
       Inr (n\<lparr> node_sub_nodes_array := arr \<rparr>)"
    and "view arr = (view (node_sub_nodes_array n))[entry_of L n (unat off div L) := Some (Sub_Node b)]"
proof -
  have "nat (int (entry_of L n (unat off div L))) < length (view (node_sub_nodes_array n))"
    using covers_entry_of(2) [OF ok assms(3)] node_okD(3) [OF ok] by simp
  then obtain arr where arr: "array_set_entry_by_index A (node_sub_nodes_array n)
      (int (entry_of L n (unat off div L))) (Some (Sub_Node b)) = Some arr"
    "view arr = (view (node_sub_nodes_array n))[nat (int (entry_of L n (unat off div L))) := Some (Sub_Node b)]"
    by (rule array_set [OF contract, of "int (entry_of L n (unat off div L))", rotated]) simp_all
  then show ?thesis
    using that [of arr] assms(4) node_entry_index_covers [OF ok assms(3)]
    by (simp add: libfsfat_block_tree_node_set_sub_node_at_offset_def)
qed

lemma create_sub_node_ok:
  assumes contract: "array_contract A view" and oks: "nodes_ok view L (bt_nodes t)"
    and n: "bt_nodes t a = Some n" and cov: "covers n off" and branch: "node_is_leaf_node n = 0"
    and L: "L = unat (bt_leaf_value_size t)" and off: "unat off < 2 ^ 53"
    and fresh: "bt_nodes t (bt_next t) = None"
    and entry_none: "view (node_sub_nodes_array n) ! entry_of L n (unat off div L) = None"
  defines "i \<equiv> entry_of L n (unat off div L)"
  obtains s arr t' where "create_sub_node A t off a n = Inr (t', bt_next t)"
    and "t' = t\<lparr> bt_nodes := (bt_nodes t)(bt_next t \<mapsto> s, a \<mapsto> n\<lparr> node_sub_nodes_array := arr \<rparr>),
                  bt_next := Suc (bt_next t) \<rparr>"
    and "view arr = (view (node_sub_nodes_array n))[i := Some (Sub_Node (bt_next t))]"
    and "view (node_sub_nodes_array s) = replicate 256 None"
    and "covers s off" and "unat (node_sub_node_size s) < unat (node_sub_node_size n)"
    and "nodes_ok view L (bt_nodes t')" and "extends view (bt_nodes t) (bt_nodes t')"
proof -
  have ok: "node_ok view L (bt_nodes t) n" using oks n by (auto simp: nodes_ok_def)
  note okD = node_okD [OF ok]
  obtain k where k: "unat (node_sub_node_size n) = L * 256 ^ Suc k"
    and k_le: "unat (node_sub_node_size n) \<le> unat (node_size n)"
    using okD(7) branch by (metis gr0_conv_Suc neq0_conv)
  let ?start = "node_start_offset n" and ?sub = "node_sub_node_size n"
  let ?off' = "?start + (off - ?start) div ?sub * ?sub"
  have idx: "unat ((off - ?start) div ?sub) = i"
    using covers_entry_of(1) [OF ok cov] cov unfolding i_def
    by (simp add: unat_div unat_minus_exact covers_def)
  have i_sub: "i * unat ?sub \<le> unat off - unat ?start"
    using covers_entry_of(1) [OF ok cov] unfolding i_def by (metis div_times_less_eq_dividend)
  then have "unat ((off - ?start) div ?sub * ?sub) = i * unat ?sub"
    using off by (subst unat_mult_exact) (simp_all add: idx)
  moreover have "unat ?start \<le> unat off" using cov by (simp add: covers_def)
  ultimately have off': "unat ?off' = unat ?start + i * unat ?sub" "unat ?off' \<le> unat off"
    using i_sub off by (subst unat_add_exact; simp)+
  have dvd: "unat (bt_leaf_value_size t) dvd unat ?off'"
    using okD(2) k unfolding off'(1) L by simp
  have "0 < unat ?sub" by (rule sub_node_size_pos [OF ok])
  have bounds: "unat ?off' < 2 ^ 53" "unat ?sub \<le> 2 ^ 53" "0 < unat (bt_leaf_value_size t)"
    using off off'(2) k_le okD(6) okD(1) L by linarith+
  from node_initialize_ok [OF contract bounds(1) \<open>0 < unat ?sub\<close> bounds(2,3) dvd]
  obtain s where s: "libfsfat_block_tree_node_initialize A None ?off' ?sub (bt_leaf_value_size t) = Inr s"
    "\<And>nodes. node_ok view L nodes s" "node_start_offset s = ?off'" "node_size s = ?sub"
    "node_sub_node_size s = find_sub_node_size ?sub (bt_leaf_value_size t)"
    "view (node_sub_nodes_array s) = replicate 256 None"
    unfolding L by blast
  have size_s: "unat (node_sub_node_size s) * 256 = unat ?sub"
    using find_sub_node_size_exact [of "bt_leaf_value_size t" ?sub k] k okD(1) unfolding L s(5) by simp
  obtain arr where set: "libfsfat_block_tree_node_set_sub_node_at_offset A (Some n) off (bt_next t) =
      Inr (n\<lparr> node_sub_nodes_array := arr \<rparr>)"
    and arr: "view arr = (view (node_sub_nodes_array n))[i := Some (Sub_Node (bt_next t))]"
    using set_sub_node_covers [OF contract ok cov branch] unfolding i_def by blast
  let ?n = "n\<lparr> node_sub_nodes_array := arr \<rparr>"
  let ?nodes = "(bt_nodes t)(bt_next t \<mapsto> s, a \<mapsto> ?n)"
  let ?t = "t\<lparr> bt_nodes := ?nodes, bt_next := Suc (bt_next t) \<rparr>"
  have create: "create_sub_node A t off a n = Inr (?t, bt_next t)"
    using s(1) set by (simp add: create_sub_node_def Let_def)
  have neq: "bt_next t \<noteq> a" using fresh n by auto
  have none: "view (node_sub_nodes_array n) ! i = None" using entry_none by (simp add: i_def)
  have ext: "extends view (bt_nodes t) ?nodes"
    using extends_trans [where view = view, OF extends_new [of "bt_nodes t" "bt_next t" view s]
        extends_set [of "(bt_nodes t)(bt_next t \<mapsto> s)" a n view i arr]] fresh none arr neq n by simp
  have sub: "sub_node_at ?nodes n i (Sub_Node (bt_next t))"
    using neq s(3,4) off'(1) size_s by (simp add: sub_node_at_def)
  have "node_ok view L ?nodes ?n"
    using node_ok_set [where view = view, OF node_ok_extends [OF ok ext] arr] sub branch by simp
  then have oks': "nodes_ok view L ?nodes"
    using oks s(2) by (auto simp: nodes_ok_def intro: node_ok_extends [OF _ ext])
  have cov_s: "covers s off"
    by (rule covers_sub_node [OF ok cov s(2) [of "bt_nodes t"]])
      (use s(3,4) off'(1) size_s in \<open>simp_all add: i_def\<close>)
  have "unat (node_sub_node_size s) < unat ?sub"
    using size_s \<open>0 < unat ?sub\<close> by linarith
  then show ?thesis using that [OF create refl arr s(6) cov_s] oks' ext by simp
qed

text \<open>Creating an empty sub node stores nothing and loses nothing.\<close>

lemma stored_create:
  assumes oks: "nodes_ok view L nodes" and n: "nodes a = Some n" and branch: "node_is_leaf_node n = 0"
    and i: "i < 256" and none: "view (node_sub_nodes_array n) ! i = None"
    and fresh: "nodes new = None"
    and arr: "view arr = (view (node_sub_nodes_array n))[i := Some (Sub_Node new)]"
    and s: "view (node_sub_nodes_array s) = replicate 256 None"
  defines "nodes' \<equiv> nodes(new \<mapsto> s, a \<mapsto> n\<lparr> node_sub_nodes_array := arr \<rparr>)"
  assumes b: "nodes b \<noteq> None"
  shows "stored view L nodes' b key d = stored view L nodes b key d"
proof
  assume "stored view L nodes b key d"
  then obtain l m where path: "leaf_path view L nodes key b (Some l)" and l: "nodes l = Some m"
    and val: "view (node_sub_nodes_array m) ! entry_of L m key = Some (Leaf_Value d)"
    unfolding stored_def by blast
  have new: "new \<noteq> a" using fresh n by auto
  have keep: "nodes' c = Some x" if "nodes c = Some x" "c \<noteq> a" for c x
    using that fresh by (auto simp: nodes'_def)
  have "leaf_path view L nodes' key b (Some l)"
    using path
  proof (induction b "Some l" rule: leaf_path.induct)
    case (leaf x)
    then have "l \<noteq> a" using n branch by auto
    then have "nodes' l = Some x" using keep leaf(1) by blast
    then show ?case using leaf(2,3) by (rule leaf_path.leaf)
  next
    case (step c x b')
    show ?case
    proof (cases "c = a")
      case True
      then have x: "x = n" using step.hyps(1) n by simp
      have a: "nodes' c = Some (n\<lparr> node_sub_nodes_array := arr \<rparr>)" using True by (simp add: nodes'_def)
      have ne: "entry_of L n key \<noteq> i" using step.hyps(4) none x by auto
      show ?thesis
        by (rule leaf_path.step [OF a _ _ _ step.hyps(6)])
          (use step.hyps(2-4) x ne arr in \<open>simp_all add: entry_of_def\<close>)
    next
      case False
      then have "nodes' c = Some x" using keep step.hyps(1) by blast
      then show ?thesis using step.hyps(2-4,6) by (rule leaf_path.step)
    qed
  qed
  moreover have "l \<noteq> a" using leaf_path_leaf [OF path] n branch by auto
  ultimately show "stored view L nodes' b key d"
    using keep [OF l] val unfolding stored_def by blast
next
  assume "stored view L nodes' b key d"
  then obtain l m where path: "leaf_path view L nodes' key b (Some l)" and l: "nodes' l = Some m"
    and val: "view (node_sub_nodes_array m) ! entry_of L m key = Some (Leaf_Value d)"
    unfolding stored_def by blast
  have new: "new \<noteq> a" using fresh n by auto
  have s': "nodes' new = Some s" using new by (simp add: nodes'_def)
  have old: "nodes c = Some x" if "nodes' c = Some x" "nodes c \<noteq> None" "c \<noteq> a" for c x
    using that fresh by (auto simp: nodes'_def split: if_splits)
  have no_path: False if "leaf_path view L nodes' key new (Some l)"
    using that
  proof cases
    case (leaf x)
    then show False using s' s l val by simp
  next
    case (step x c)
    then show False using s' s by simp
  qed
  from path b have "leaf_path view L nodes key b (Some l) \<and> nodes l = Some m"
  proof (induction b "Some l" rule: leaf_path.induct)
    case (leaf x)
    then have "l \<noteq> a" using branch by (auto simp: nodes'_def)
    then have "nodes l = Some x" using old leaf by simp
    moreover from this leaf(2,3) have "leaf_path view L nodes key l (Some l)" by (rule leaf_path.leaf)
    ultimately show ?case using leaf(1) l by simp
  next
    case (step c x b')
    show ?case
    proof (cases "c = a")
      case True
      then have x: "x = n\<lparr> node_sub_nodes_array := arr \<rparr>" using step.hyps(1) by (simp add: nodes'_def)
      then have e: "entry_of L x key = entry_of L n key" by (simp add: entry_of_def)
      have "entry_of L n key \<noteq> i"
      proof
        assume "entry_of L n key = i"
        moreover have "length (view (node_sub_nodes_array n)) = 256"
          using oks n node_okD(3) unfolding nodes_ok_def by blast
        ultimately have "b' = new" using step.hyps(4) x arr i by (simp add: entry_of_def)
        then show False using no_path step.hyps(5) by simp
      qed
      then have entry: "view (node_sub_nodes_array n) ! entry_of L n key = Some (Sub_Node b')"
        using step.hyps(4) x e arr by simp
      have "node_ok view L nodes n" using oks n by (auto simp: nodes_ok_def)
      from node_ok_entry [OF this _ entry] have "nodes b' \<noteq> None"
        using step.hyps(3) e branch by (auto simp: sub_node_at_def)
      then have IH: "leaf_path view L nodes key b' (Some l)" "nodes l = Some m"
        using step.hyps(6) by simp_all
      have "entry_of L n key < 256" using step.hyps(3) e by simp
      from n branch this entry IH(1) have "leaf_path view L nodes key a (Some l)"
        by (rule leaf_path.step)
      then show ?thesis using IH(2) True by simp
    next
      case False
      then have x: "nodes c = Some x" using old [OF step.hyps(1)] step.prems by simp
      then have "node_ok view L nodes x" using oks by (auto simp: nodes_ok_def)
      from node_ok_entry [OF this step.hyps(3,4)] have "nodes b' \<noteq> None"
        using step.hyps(2) by (auto simp: sub_node_at_def)
      then have IH: "leaf_path view L nodes key b' (Some l)" "nodes l = Some m"
        using step.hyps(6) by simp_all
      from x step.hyps(2-4) IH(1) have "leaf_path view L nodes key c (Some l)"
        by (rule leaf_path.step)
      then show ?thesis using IH(2) by simp
    qed
  qed
  then show "stored view L nodes b key d" using val unfolding stored_def by blast
qed

section \<open>Insertion\<close>

text \<open>The result of the descent: \<open>t'\<close> has the leaf \<open>l\<close> for the offset and stores what \<open>t\<close> does.\<close>

definition leaf_found ::
  "('arr \<Rightarrow> node_entry option list) \<Rightarrow> nat \<Rightarrow> 'arr block_tree \<Rightarrow> off64 \<Rightarrow> nat \<Rightarrow>
   'arr block_tree \<Rightarrow> nat \<Rightarrow> bool" where
  "leaf_found view L t off a t' l \<longleftrightarrow>
     bt_root_node t' = bt_root_node t \<and> bt_leaf_value_size t' = bt_leaf_value_size t \<and>
     nodes_ok view L (bt_nodes t') \<and> (\<forall>a n. bt_nodes t' a = Some n \<longrightarrow> a < bt_next t') \<and>
     extends view (bt_nodes t) (bt_nodes t') \<and>
     leaf_path view L (bt_nodes t') (unat off div L) a (Some l) \<and>
     (\<exists>m. bt_nodes t' l = Some m \<and> covers m off) \<and>
     (\<forall>b key d. bt_nodes t b \<noteq> None \<longrightarrow>
        stored view L (bt_nodes t') b key d = stored view L (bt_nodes t) b key d)"

lemma find_or_create_leaf_ok:
  assumes contract: "array_contract A view" and L: "L = unat (bt_leaf_value_size t)"
    and off: "unat off < 2 ^ 53"
    and "nodes_ok view L (bt_nodes t)" and "\<forall>a n. bt_nodes t a = Some n \<longrightarrow> a < bt_next t"
    and "bt_nodes t a = Some n" and "covers n off"
  shows "\<exists>t' l. find_or_create_leaf A t off a = Some (Inr (t', l)) \<and> leaf_found view L t off a t' l"
  using assms(2,4-7)
proof (induction "unat (node_sub_node_size n)" arbitrary: t a n rule: less_induct)
  case less
  note oks = less.prems(2) and dom = less.prems(3) and n = less.prems(4) and cov = less.prems(5)
  let ?key = "unat off div L"
  have ok: "node_ok view L (bt_nodes t) n" using oks n by (auto simp: nodes_ok_def)
  note entry = covers_entry_of [OF ok cov]
  show ?case
  proof (cases "node_is_leaf_node n = 0")
    case False
    then have "find_or_create_leaf A t off a = Some (Inr (t, a))"
      using n by (simp add: find_or_create_leaf.simps [of A t off a])
    moreover from n False entry(2) have "leaf_path view L (bt_nodes t) ?key a (Some a)"
      by (rule leaf_path.leaf)
    ultimately show ?thesis using oks dom n cov by (simp add: leaf_found_def)
  next
    case branch: True
    note get = get_sub_node_covers [OF contract ok cov branch]
    show ?thesis
    proof (cases "view (node_sub_nodes_array n) ! entry_of L n ?key")
      case (Some e)
      then have "sub_node_at (bt_nodes t) n (entry_of L n ?key) e"
        using node_ok_entry [OF ok entry(2)] branch by simp
      then obtain b m where b: "e = Sub_Node b" "bt_nodes t b = Some m"
        and m: "unat (node_start_offset m) = unat (node_start_offset n)
            + entry_of L n ?key * unat (node_sub_node_size n)"
          "unat (node_size m) = unat (node_sub_node_size n)"
          "unat (node_sub_node_size m) * 256 = unat (node_sub_node_size n)"
        by (auto simp: sub_node_at_def)
      have ok_m: "node_ok view L (bt_nodes t) m" using oks b(2) by (auto simp: nodes_ok_def)
      have "unat (node_sub_node_size m) < unat (node_sub_node_size n)"
        using m(3) sub_node_size_pos [OF ok_m] by linarith
      from less.hyps [OF this less.prems(1) oks dom b(2) covers_sub_node [OF ok cov ok_m m]]
      obtain t' l where IH: "find_or_create_leaf A t off b = Some (Inr (t', l))"
        "leaf_found view L t off b t' l" by blast
      have "find_or_create_leaf A t off a = find_or_create_leaf A t off b"
        using n branch get Some b(1) by (simp add: find_or_create_leaf.simps [of A t off a])
      moreover have "leaf_path view L (bt_nodes t') ?key a (Some l)"
        using leaf_path_step_extends [of view "bt_nodes t" "bt_nodes t'" a n L ?key b "Some l"]
          n branch entry(2) IH(2) Some b(1) by (simp add: leaf_found_def)
      ultimately show ?thesis using IH by (simp add: leaf_found_def)
    next
      case None
      have fresh: "bt_nodes t (bt_next t) = None" using dom by (metis less_irrefl not_None_eq)
      obtain s arr t1 where create: "create_sub_node A t off a n = Inr (t1, bt_next t)"
        and t1: "t1 = t\<lparr> bt_nodes := (bt_nodes t)(bt_next t \<mapsto> s, a \<mapsto> n\<lparr> node_sub_nodes_array := arr \<rparr>),
                  bt_next := Suc (bt_next t) \<rparr>"
        and arr: "view arr = (view (node_sub_nodes_array n))[entry_of L n ?key := Some (Sub_Node (bt_next t))]"
        and s: "view (node_sub_nodes_array s) = replicate 256 None"
          "covers s off" "unat (node_sub_node_size s) < unat (node_sub_node_size n)"
        and oks1: "nodes_ok view L (bt_nodes t1)" and ext1: "extends view (bt_nodes t) (bt_nodes t1)"
        by (rule create_sub_node_ok [OF contract oks n cov branch less.prems(1) off fresh None])
      have neq: "bt_next t \<noteq> a" using fresh n by auto
      have dom1: "\<forall>a n. bt_nodes t1 a = Some n \<longrightarrow> a < bt_next t1"
        using dom n by (auto simp: t1 less_Suc_eq)
      have L1: "L = unat (bt_leaf_value_size t1)" and new: "bt_nodes t1 (bt_next t) = Some s"
        using less.prems(1) neq by (simp_all add: t1)
      from less.hyps [OF s(3) L1 oks1 dom1 new s(2)]
      obtain t' l where IH: "find_or_create_leaf A t1 off (bt_next t) = Some (Inr (t', l))"
        "leaf_found view L t1 off (bt_next t) t' l" by blast
      let ?n = "n\<lparr> node_sub_nodes_array := arr \<rparr>"
      have a1: "bt_nodes t1 a = Some ?n" using neq by (simp add: t1)
      have "entry_of L ?n ?key = entry_of L n ?key" by (simp add: entry_of_def)
      then have "leaf_path view L (bt_nodes t') ?key a (Some l)"
        using leaf_path_step_extends [of view "bt_nodes t1" "bt_nodes t'" a ?n L ?key "bt_next t" "Some l"]
          a1 IH(2) branch entry(2) arr node_okD(3) [OF ok] by (simp add: leaf_found_def)
      moreover have "stored view L (bt_nodes t') b key d = stored view L (bt_nodes t) b key d"
        if b: "bt_nodes t b \<noteq> None" for b key d
      proof -
        have "bt_nodes t1 b \<noteq> None" using b by (auto simp: t1)
        then have "stored view L (bt_nodes t') b key d = stored view L (bt_nodes t1) b key d"
          using IH(2) by (simp add: leaf_found_def)
        also have "\<dots> = stored view L (bt_nodes t) b key d"
          using stored_create [OF oks n branch entry(2) None fresh arr s(1) b] by (simp add: t1)
        finally show ?thesis .
      qed
      moreover have "find_or_create_leaf A t off a = find_or_create_leaf A t1 off (bt_next t)"
        using n branch get None create by (simp add: find_or_create_leaf.simps [of A t off a])
      ultimately show ?thesis
        using IH extends_trans [OF ext1] by (simp add: leaf_found_def t1)
    qed
  qed
qed

lemma leaf_path_start:
  assumes oks: "nodes_ok view L nodes"
    and "leaf_path view L nodes key a (Some l)" and "nodes a = Some n"
    and "unat (node_start_offset n) div L \<le> key"
  shows "\<exists>m. nodes l = Some m \<and> unat (node_start_offset m) div L \<le> key"
  using assms(2-4)
proof (induction a "Some l" arbitrary: n rule: leaf_path.induct)
  case (step a n' b)
  have n': "n' = n" using step.hyps(1) step.prems(1) by simp
  have ok: "node_ok view L nodes n" using oks step.prems(1) by (auto simp: nodes_ok_def)
  have "sub_node_at nodes n (entry_of L n key) (Sub_Node b)"
    using node_ok_entry [OF ok] step.hyps(2-4) n' by metis
  then obtain m where m: "nodes b = Some m"
    "unat (node_start_offset m) = unat (node_start_offset n) + entry_of L n key * unat (node_sub_node_size n)"
    by (auto simp: sub_node_at_def)
  obtain k where k: "unat (node_sub_node_size n) = L * 256 ^ k" using node_okD(7) [OF ok] by blast
  let ?w = "256 ^ k :: nat" and ?s = "unat (node_start_offset n) div L"
  have L: "0 < L" by (rule node_okD(1) [OF ok])
  have w: "unat (node_sub_node_size n) div L = ?w" using k L by simp
  have "unat (node_start_offset m) = L * (?s + entry_of L n key * ?w)"
    using m(2) k node_okD(2) [OF ok] by (simp add: algebra_simps)
  then have "unat (node_start_offset m) div L = ?s + entry_of L n key * ?w" using L by simp
  moreover have "entry_of L n key * ?w \<le> key - ?s" unfolding entry_of_def w by (rule div_times_less_eq_dividend)
  ultimately have "unat (node_start_offset m) div L \<le> key" using step.prems(2) by linarith
  then show ?case by (rule step.hyps(6) [OF m(1)])
qed simp

lemma leaf_path_set_leaf:
  assumes l: "nodes l = Some m" and leaf: "node_is_leaf_node m \<noteq> 0"
  shows "leaf_path view L (nodes(l \<mapsto> m\<lparr> node_sub_nodes_array := arr \<rparr>)) key a r =
    leaf_path view L nodes key a r"
proof
  let ?m = "m\<lparr> node_sub_nodes_array := arr \<rparr>" and ?nodes = "nodes(l \<mapsto> m\<lparr> node_sub_nodes_array := arr \<rparr>)"
  have e: "entry_of L ?m key = entry_of L m key" by (simp add: entry_of_def)
  {
    assume "leaf_path view L nodes key a r"
    then show "leaf_path view L ?nodes key a r"
    proof (induction rule: leaf_path.induct)
      case (leaf a n)
      obtain x where "?nodes a = Some x" "node_is_leaf_node x \<noteq> 0" "entry_of L x key < 256"
        using leaf l e by (cases "a = l") auto
      then show ?case by (rule leaf_path.leaf)
    next
      case (stop a n)
      then have "?nodes a = Some n" using l leaf by auto
      then show ?case using stop.hyps(2-4) by (rule leaf_path.stop)
    next
      case (step a n b r)
      then have "?nodes a = Some n" using l leaf by auto
      then show ?case using step.hyps(2-4) step.IH by (rule leaf_path.step)
    qed
  next
    assume "leaf_path view L ?nodes key a r"
    then show "leaf_path view L nodes key a r"
    proof (induction rule: leaf_path.induct)
      case (leaf a n)
      obtain x where "nodes a = Some x" "node_is_leaf_node x \<noteq> 0" "entry_of L x key < 256"
        using leaf l e by (cases "a = l") auto
      then show ?case by (rule leaf_path.leaf)
    next
      case (stop a n)
      then have "nodes a = Some n" using l leaf by (auto split: if_splits)
      then show ?case using stop.hyps(2-4) by (rule leaf_path.stop)
    next
      case (step a n b r)
      then have "nodes a = Some n" using l leaf by (auto split: if_splits)
      then show ?case using step.hyps(2-4) step.IH by (rule leaf_path.step)
    qed
  }
qed

lemma entry_of_leaf:
  assumes "node_ok view L nodes m" and "node_is_leaf_node m \<noteq> 0"
  shows "entry_of L m key = key - unat (node_start_offset m) div L"
  using node_okD(1,7) [OF assms(1)] assms(2) by (auto simp: entry_of_def)

lemma stored_set_leaf:
  assumes oks: "nodes_ok view L nodes" and root: "nodes a = Some n" "unat (node_start_offset n) = 0"
    and path: "leaf_path view L nodes key a (Some l)" and l: "nodes l = Some m"
    and arr: "view arr = (view (node_sub_nodes_array m))[entry_of L m key := Some (Leaf_Value d)]"
  defines "nodes' \<equiv> nodes(l \<mapsto> m\<lparr> node_sub_nodes_array := arr \<rparr>)"
  shows "stored view L nodes' a key' d' =
    (if key' = key then d' = d else stored view L nodes a key' d')"
proof -
  have leaf: "node_is_leaf_node m \<noteq> 0" "entry_of L m key < 256"
    using leaf_path_leaf [OF path] l by auto
  have ok: "node_ok view L nodes m" using oks l by (auto simp: nodes_ok_def)
  note paths = leaf_path_set_leaf [where view = view and L = L and arr = arr and nodes = nodes, OF l leaf(1),
      folded nodes'_def]
  have len: "length (view (node_sub_nodes_array m)) = 256" by (rule node_okD(3) [OF ok])
  have start: "unat (node_start_offset m) div L \<le> k" if "leaf_path view L nodes k a (Some l)" for k
    using leaf_path_start [OF oks that root(1)] root(2) l by auto
  have inj: "entry_of L m key' \<noteq> entry_of L m key"
    if "key' \<noteq> key" "leaf_path view L nodes key' a (Some l)"
    using start [OF path] start [OF that(2)] that(1) entry_of_leaf [OF ok leaf(1)] by simp
  show ?thesis
  proof (cases "key' = key")
    case True
    have "stored view L nodes' a key d' = (d' = d)"
    proof
      assume "stored view L nodes' a key d'"
      then obtain l' m' where path': "leaf_path view L nodes key a (Some l')" and "nodes' l' = Some m'"
        and val: "view (node_sub_nodes_array m') ! entry_of L m' key = Some (Leaf_Value d')"
        unfolding stored_def paths by blast
      moreover have "l' = l" using leaf_path_unique [OF path path'] by simp
      ultimately have "m' = m\<lparr> node_sub_nodes_array := arr \<rparr>" by (simp add: nodes'_def)
      then show "d' = d" using val arr leaf(2) len by (simp add: entry_of_def)
    next
      assume "d' = d"
      then show "stored view L nodes' a key d'"
        unfolding stored_def paths using path arr leaf(2) len
        by (intro exI [of _ l] exI [of _ "m\<lparr> node_sub_nodes_array := arr \<rparr>"])
          (simp add: nodes'_def entry_of_def)
    qed
    then show ?thesis using True by simp
  next
    case False
    have "(\<exists>m'. nodes' l' = Some m' \<and> view (node_sub_nodes_array m') ! entry_of L m' key' = Some (Leaf_Value d')) =
      (\<exists>m'. nodes l' = Some m' \<and> view (node_sub_nodes_array m') ! entry_of L m' key' = Some (Leaf_Value d'))"
      if "leaf_path view L nodes key' a (Some l')" for l'
    proof (cases "l' = l")
      case True
      have "entry_of L (m\<lparr> node_sub_nodes_array := arr \<rparr>) key' = entry_of L m key'" by (simp add: entry_of_def)
      then show ?thesis
        using True inj [OF False] that l arr by (simp add: nodes'_def)
    qed (simp add: nodes'_def)
    then have "stored view L nodes' a key' d' = stored view L nodes a key' d'"
      unfolding stored_def paths by blast
    then show ?thesis using False by simp
  qed
qed

section \<open>The tree as a map of blocks\<close>

text \<open>
  The interface the file system relies on: \<open>lookup\<close> and \<open>insert\<close> on the offsets of a
  \<open>range\<close>, where the offsets of one block have the same \<open>key\<close>. An insertion says whether
  the block is new.
\<close>

locale block_map =
  fixes inv :: "'t \<Rightarrow> bool"
    and range :: "'t \<Rightarrow> off64 \<Rightarrow> bool"
    and key :: "'t \<Rightarrow> off64 \<Rightarrow> nat"
    and lookup :: "'t \<Rightarrow> off64 \<Rightarrow> 'd option"
    and insert :: "'t \<Rightarrow> off64 \<Rightarrow> 'd \<Rightarrow> ('t \<times> bool) option"
  assumes insert_new: "inv t \<Longrightarrow> range t off \<Longrightarrow> lookup t off = None \<Longrightarrow>
      \<exists>t'. insert t off d = Some (t', True) \<and> inv t' \<and> range t' = range t \<and> key t' = key t \<and>
        (\<forall>x. range t x \<longrightarrow> lookup t' x = (if key t x = key t off then Some d else lookup t x))"
    and insert_old: "inv t \<Longrightarrow> range t off \<Longrightarrow> lookup t off = Some e \<Longrightarrow>
      \<exists>t'. insert t off d = Some (t', False) \<and> inv t' \<and> range t' = range t \<and> key t' = key t \<and>
        (\<forall>x. range t x \<longrightarrow> lookup t' x = lookup t x)"
    and key_lookup: "inv t \<Longrightarrow> range t x \<Longrightarrow> range t y \<Longrightarrow> key t x = key t y \<Longrightarrow> lookup t x = lookup t y"
begin

text \<open>The keys visited so far.\<close>

definition visited :: "'t \<Rightarrow> nat set" where
  "visited t = {key t x | x. range t x \<and> lookup t x \<noteq> None}"

lemma insert_iff:
  assumes "inv t" and "range t off"
  shows "\<exists>t' new. insert t off d = Some (t', new) \<and> inv t' \<and> range t' = range t \<and> key t' = key t \<and>
    new = (key t off \<notin> visited t) \<and> visited t' = Set.insert (key t off) (visited t)"
proof (cases "lookup t off")
  case None
  then obtain t' where t': "insert t off d = Some (t', True)" "inv t'" "range t' = range t" "key t' = key t"
    and look: "\<forall>x. range t x \<longrightarrow> lookup t' x = (if key t x = key t off then Some d else lookup t x)"
    using insert_new [OF assms None, of d] by blast
  have "key t off \<notin> visited t"
    using None key_lookup [OF assms(1) _ assms(2)] unfolding visited_def by fastforce
  moreover have "visited t' = Set.insert (key t off) (visited t)"
    using look assms(2) t'(3,4) unfolding visited_def by auto
  ultimately show ?thesis using t' by auto
next
  case (Some e)
  then obtain t' where t': "insert t off d = Some (t', False)" "inv t'" "range t' = range t" "key t' = key t"
    and look: "\<forall>x. range t x \<longrightarrow> lookup t' x = lookup t x"
    using insert_old [OF assms Some, of d] by blast
  have "key t off \<in> visited t" using Some assms(2) unfolding visited_def by auto
  moreover have "visited t' = visited t"
    using look t'(3,4) unfolding visited_def by auto
  ultimately show ?thesis using t' by auto
qed

text \<open>A walk that only goes on over new blocks is bounded by the number of keys below \<open>N\<close>.\<close>

definition unvisited :: "nat \<Rightarrow> 't \<Rightarrow> nat" where
  "unvisited N t = card ({..<N} - visited t)"

lemma unvisited_decreases:
  assumes "inv t" and "range t off" and "key t off < N" and "insert t off d = Some (t', True)"
  shows "unvisited N t' < unvisited N t"
proof -
  have "key t off \<notin> visited t" and "visited t' = Set.insert (key t off) (visited t)"
    using insert_iff [OF assms(1,2), of d] assms(4) by auto
  then have "{..<N} - visited t' \<subset> {..<N} - visited t" using assms(3) by auto
  then show ?thesis unfolding unvisited_def by (rule psubset_card_mono [rotated]) simp
qed

end

definition tree_range :: "'arr block_tree \<Rightarrow> off64 \<Rightarrow> bool" where
  "tree_range t offset =
     (case bt_nodes t (bt_root_node t) of None \<Rightarrow> False | Some root \<Rightarrow> covers root offset)"

definition tree_key :: "'arr block_tree \<Rightarrow> off64 \<Rightarrow> nat" where
  "tree_key t offset = unat offset div unat (bt_leaf_value_size t)"

definition tree_lookup ::
  "('arr, node_entry) array_ops \<Rightarrow> 'arr block_tree \<Rightarrow> off64 \<Rightarrow> block_descriptor option" where
  "tree_lookup A t offset =
     (case libfsfat_block_tree_get_block_descriptor_by_offset A (Some t) offset of
        Some (Inr (Some (d, _))) \<Rightarrow> Some d
      | _ \<Rightarrow> None)"

definition tree_insert ::
  "('arr, node_entry) array_ops \<Rightarrow> 'arr block_tree \<Rightarrow> off64 \<Rightarrow> block_descriptor \<Rightarrow>
   ('arr block_tree \<times> bool) option" where
  "tree_insert A t offset d =
     (case libfsfat_block_tree_insert_block_descriptor_by_offset A (Some t) offset d of
        Some (Inr (t', Inserted _)) \<Rightarrow> Some (t', True)
      | Some (Inr (t', Existing _)) \<Rightarrow> Some (t', False)
      | _ \<Rightarrow> None)"

lemma tree_invD:
  assumes "tree_inv A view t"
  shows "array_contract A view" and "nodes_ok view (unat (bt_leaf_value_size t)) (bt_nodes t)"
    and "\<forall>a n. bt_nodes t a = Some n \<longrightarrow> a < bt_next t"
    and "\<exists>root. bt_nodes t (bt_root_node t) = Some root \<and> node_start_offset root = 0"
  using assms by (auto simp: tree_inv_def nodes_ok_def)

lemma tree_range_root:
  assumes "tree_inv A view t" and "tree_range t off"
  obtains root where "bt_nodes t (bt_root_node t) = Some root" and "node_start_offset root = 0"
    and "covers root off" and "unat off < 2 ^ 53"
    and "node_ok view (unat (bt_leaf_value_size t)) (bt_nodes t) root"
proof -
  obtain root where root: "bt_nodes t (bt_root_node t) = Some root" "node_start_offset root = 0"
    using tree_invD(4) [OF assms(1)] by blast
  have cov: "covers root off" using assms(2) root by (simp add: tree_range_def)
  have ok: "node_ok view (unat (bt_leaf_value_size t)) (bt_nodes t) root"
    using tree_invD(2) [OF assms(1)] root by (auto simp: nodes_ok_def)
  have "unat off < 2 ^ 53"
    using cov node_okD(4,6) [OF ok] root(2) by (simp add: covers_def)
  then show ?thesis using that root cov ok by blast
qed

lemma get_leaf_value_covers:
  assumes contract: "array_contract A view" and ok: "node_ok view L nodes n" and "covers n off"
    and "node_is_leaf_node n \<noteq> 0"
  shows "\<exists>o'. libfsfat_block_tree_node_get_leaf_value_at_offset A (Some n) off =
    Inr (case view (node_sub_nodes_array n) ! entry_of L n (unat off div L) of
           Some (Leaf_Value d) \<Rightarrow> Some d | _ \<Rightarrow> None, o')"
proof -
  note entry = covers_entry_of(2) [OF ok assms(3)]
  have "\<exists>d. e = Leaf_Value d" if "view (node_sub_nodes_array n) ! entry_of L n (unat off div L) = Some e" for e
    using node_ok_entry [OF ok entry that] assms(4) by simp
  then show ?thesis
    using node_entry_index_covers [OF ok assms(3)] entry node_okD(3) [OF ok] assms(4)
    by (auto simp: libfsfat_block_tree_node_get_leaf_value_at_offset_def Let_def
      array_get [OF contract] split: option.splits node_entry.splits)
qed

lemma tree_get:
  assumes inv: "tree_inv A view t" and "tree_range t off"
  shows "\<exists>r. libfsfat_block_tree_get_block_descriptor_by_offset A (Some t) off = Some (Inr r) \<and>
    (\<forall>d. (\<exists>x. r = Some (d, x)) =
       stored view (unat (bt_leaf_value_size t)) (bt_nodes t) (bt_root_node t) (tree_key t off) d)"
proof -
  let ?L = "unat (bt_leaf_value_size t)"
  obtain root where root: "bt_nodes t (bt_root_node t) = Some root" "covers root off"
    using tree_range_root [OF assms] by metis
  obtain r where path: "leaf_path view ?L (bt_nodes t) (unat off div ?L) (bt_root_node t) r"
    and find: "find_leaf A t off (bt_root_node t) = Some (Inr r)"
    and leaf: "\<forall>l. r = Some l \<longrightarrow> (\<exists>m. bt_nodes t l = Some m \<and> covers m off)"
    using find_leaf_path [OF tree_invD(1,2) [OF inv] root] inv by blast
  show ?thesis
  proof (cases r)
    case None
    then have "\<not> stored view ?L (bt_nodes t) (bt_root_node t) (unat off div ?L) d" for d
      using leaf_path_unique [OF path] by (auto simp: stored_def)
    then show ?thesis
      using find None by (simp add: libfsfat_block_tree_get_block_descriptor_by_offset_def tree_key_def)
  next
    case (Some l)
    then obtain m where m: "bt_nodes t l = Some m" "covers m off" using leaf by blast
    have ok: "node_ok view ?L (bt_nodes t) m" using tree_invD(2) [OF inv] m(1) by (auto simp: nodes_ok_def)
    have "node_is_leaf_node m \<noteq> 0" using leaf_path_leaf path Some m(1) by fastforce
    from get_leaf_value_covers [OF tree_invD(1) [OF inv] ok m(2) this]
    obtain o' where get: "libfsfat_block_tree_node_get_leaf_value_at_offset A (Some m) off =
        Inr (case view (node_sub_nodes_array m) ! entry_of ?L m (unat off div ?L) of
           Some (Leaf_Value d) \<Rightarrow> Some d | _ \<Rightarrow> None, o')" ..
    have path_l: "leaf_path view ?L (bt_nodes t) (unat off div ?L) (bt_root_node t) (Some l') = (l' = l)" for l'
      using leaf_path_unique [OF path] path Some by blast
    have "stored view ?L (bt_nodes t) (bt_root_node t) (unat off div ?L) d =
        (view (node_sub_nodes_array m) ! entry_of ?L m (unat off div ?L) = Some (Leaf_Value d))" for d
      unfolding stored_def path_l using m(1) by simp
    then show ?thesis
      using find Some get m(1)
      by (auto simp: libfsfat_block_tree_get_block_descriptor_by_offset_def tree_key_def
        split: option.splits node_entry.splits)
  qed
qed

lemma tree_lookup_stored:
  assumes "tree_inv A view t" and "tree_range t off"
  shows "tree_lookup A t off = Some d \<longleftrightarrow>
    stored view (unat (bt_leaf_value_size t)) (bt_nodes t) (bt_root_node t) (tree_key t off) d"
proof -
  obtain r where r: "libfsfat_block_tree_get_block_descriptor_by_offset A (Some t) off = Some (Inr r)"
    and stored: "\<And>d. (\<exists>x. r = Some (d, x)) =
       stored view (unat (bt_leaf_value_size t)) (bt_nodes t) (bt_root_node t) (tree_key t off) d"
    using tree_get [OF assms] by blast
  have "tree_lookup A t off = Some d \<longleftrightarrow> (\<exists>x. r = Some (d, x))"
    using r by (cases r) (auto simp: tree_lookup_def)
  then show ?thesis using stored by simp
qed

lemma set_leaf_value_covers:
  assumes contract: "array_contract A view" and ok: "node_ok view L nodes n" and "covers n off"
    and "node_is_leaf_node n \<noteq> 0"
  obtains arr where
    "libfsfat_block_tree_node_set_leaf_value_at_offset A (Some n) off d =
       Inr (n\<lparr> node_sub_nodes_array := arr \<rparr>)"
    and "view arr = (view (node_sub_nodes_array n))[entry_of L n (unat off div L) := Some (Leaf_Value d)]"
proof -
  have "nat (int (entry_of L n (unat off div L))) < length (view (node_sub_nodes_array n))"
    using covers_entry_of(2) [OF ok assms(3)] node_okD(3) [OF ok] by simp
  then obtain arr where arr: "array_set_entry_by_index A (node_sub_nodes_array n)
      (int (entry_of L n (unat off div L))) (Some (Leaf_Value d)) = Some arr"
    "view arr = (view (node_sub_nodes_array n))[nat (int (entry_of L n (unat off div L))) := Some (Leaf_Value d)]"
    by (rule array_set [OF contract, of "int (entry_of L n (unat off div L))", rotated]) simp_all
  then show ?thesis
    using that [of arr] assms(4) node_entry_index_covers [OF ok assms(3)]
    by (simp add: libfsfat_block_tree_node_set_leaf_value_at_offset_def)
qed

text \<open>What an insertion does: it keeps the invariant, and only an empty block is filled.\<close>

lemma tree_insert_ok:
  assumes inv: "tree_inv A view t" and range: "tree_range t off"
  shows "\<exists>t' r. libfsfat_block_tree_insert_block_descriptor_by_offset A (Some t) off d = Some (Inr (t', r)) \<and>
    tree_inv A view t' \<and> tree_range t' = tree_range t \<and> tree_key t' = tree_key t \<and>
    (case tree_lookup A t off of
       Some e \<Rightarrow> r = Existing e \<and> (\<forall>x. tree_range t x \<longrightarrow> tree_lookup A t' x = tree_lookup A t x)
     | None \<Rightarrow> (\<exists>i. r = Inserted i) \<and>
         (\<forall>x. tree_range t x \<longrightarrow> tree_lookup A t' x =
            (if tree_key t x = tree_key t off then Some d else tree_lookup A t x)))"
proof -
  let ?L = "unat (bt_leaf_value_size t)" and ?root = "bt_root_node t"
  note contract = tree_invD(1) [OF inv]
  obtain root where root: "bt_nodes t ?root = Some root" "node_start_offset root = 0"
    and cov: "covers root off" and off: "unat off < 2 ^ 53"
    using tree_range_root [OF inv range] by metis
  obtain t1 l where find: "find_or_create_leaf A t off ?root = Some (Inr (t1, l))"
    and found: "leaf_found view ?L t off ?root t1 l"
    using find_or_create_leaf_ok [OF contract refl off tree_invD(2,3) [OF inv] root(1) cov] by blast
  obtain m where m: "bt_nodes t1 l = Some m" "covers m off" using found by (auto simp: leaf_found_def)
  have t1: "bt_root_node t1 = ?root" "bt_leaf_value_size t1 = bt_leaf_value_size t"
    and oks1: "nodes_ok view ?L (bt_nodes t1)" and dom1: "\<forall>a n. bt_nodes t1 a = Some n \<longrightarrow> a < bt_next t1"
    and path: "leaf_path view ?L (bt_nodes t1) (unat off div ?L) ?root (Some l)"
    and same: "\<And>key d. stored view ?L (bt_nodes t1) ?root key d = stored view ?L (bt_nodes t) ?root key d"
    using found root(1) by (auto simp: leaf_found_def)
  have ext1: "extends view (bt_nodes t) (bt_nodes t1)" using found unfolding leaf_found_def by blast
  obtain root1 where root1: "bt_nodes t1 ?root = Some root1" "same_shape root root1"
    using extends_node [OF ext1 root(1)] by blast
  have inv1: "tree_inv A view t1"
    using contract oks1 dom1 root1 same_shapeD(1) [OF root1(2)] root(2) t1
    by (auto simp: tree_inv_def nodes_ok_def)
  have range1: "tree_range t1 = tree_range t" and key1: "tree_key t1 = tree_key t"
    using root(1) root1 same_shapeD(7) [OF root1(2)] t1 by (auto simp: tree_range_def tree_key_def fun_eq_iff)
  have look1: "tree_lookup A t1 x = tree_lookup A t x" if "tree_range t x" for x
  proof -
    have "tree_lookup A t1 x = Some e \<longleftrightarrow> tree_lookup A t x = Some e" for e
      using tree_lookup_stored [OF inv that] tree_lookup_stored [OF inv1, of x] that range1 key1 t1 same by simp
    then show ?thesis by (rule option_eqI)
  qed
  have ok: "node_ok view ?L (bt_nodes t1) m" using oks1 m(1) by (auto simp: nodes_ok_def)
  have leaf: "node_is_leaf_node m \<noteq> 0" using leaf_path_leaf [OF path] m(1) by auto
  let ?e = "view (node_sub_nodes_array m) ! entry_of ?L m (unat off div ?L)"
  obtain o' where get: "libfsfat_block_tree_node_get_leaf_value_at_offset A (Some m) off =
      Inr (case ?e of Some (Leaf_Value d) \<Rightarrow> Some d | _ \<Rightarrow> None, o')"
    using get_leaf_value_covers [OF contract ok m(2) leaf] by blast
  have path_l: "leaf_path view ?L (bt_nodes t1) (unat off div ?L) ?root (Some l') = (l' = l)" for l'
    using leaf_path_unique [OF path] path by blast
  have look: "tree_lookup A t off = Some e \<longleftrightarrow> ?e = Some (Leaf_Value e)" for e
  proof -
    have "stored view ?L (bt_nodes t1) ?root (unat off div ?L) e \<longleftrightarrow> ?e = Some (Leaf_Value e)"
      unfolding stored_def path_l using m(1) by simp
    then show ?thesis using tree_lookup_stored [OF inv range] same by (simp add: tree_key_def)
  qed
  show ?thesis
  proof (cases "tree_lookup A t off")
    case (Some e)
    then have "libfsfat_block_tree_insert_block_descriptor_by_offset A (Some t) off d =
        Some (Inr (t1, Existing e))"
      using find get m(1) look [of e]
      by (simp add: libfsfat_block_tree_insert_block_descriptor_by_offset_def)
    then show ?thesis using Some inv1 range1 key1 look1 by auto
  next
    case None
    have "?e = None"
      using None look node_ok_entry [OF ok covers_entry_of(2) [OF ok m(2)]] leaf
      by (metis not_None_eq)
    obtain arr where set: "libfsfat_block_tree_node_set_leaf_value_at_offset A (Some m) off d =
        Inr (m\<lparr> node_sub_nodes_array := arr \<rparr>)"
      and arr: "view arr = (view (node_sub_nodes_array m))[entry_of ?L m (unat off div ?L) := Some (Leaf_Value d)]"
      by (rule set_leaf_value_covers [OF contract ok m(2) leaf])
    let ?m = "m\<lparr> node_sub_nodes_array := arr \<rparr>"
    let ?t = "t1\<lparr> bt_nodes := (bt_nodes t1)(l \<mapsto> ?m) \<rparr>"
    have insert: "\<exists>i. libfsfat_block_tree_insert_block_descriptor_by_offset A (Some t) off d =
        Some (Inr (?t, Inserted i))"
      using find get m(1) set \<open>?e = None\<close>
      by (simp add: libfsfat_block_tree_insert_block_descriptor_by_offset_def)
    have ext: "extends view (bt_nodes t1) (bt_nodes ?t)"
      using extends_set [where view = view and nodes = "bt_nodes t1", OF m(1) \<open>?e = None\<close> arr] by simp
    have "node_ok view ?L (bt_nodes ?t) ?m"
      using node_ok_set [where view = view, OF node_ok_extends [OF ok ext] arr] leaf by simp
    then have oks2: "nodes_ok view ?L (bt_nodes ?t)"
      using oks1 by (auto simp: nodes_ok_def intro: node_ok_extends [OF _ ext [simplified]])
    obtain root2 where root2: "bt_nodes ?t ?root = Some root2" "same_shape root1 root2"
      using extends_node [OF ext root1(1)] by blast
    have inv2: "tree_inv A view ?t"
      using contract oks2 dom1 root2 same_shapeD(1) [OF root1(2)] same_shapeD(1) [OF root2(2)] root(2) t1 m(1)
      by (auto simp: tree_inv_def nodes_ok_def)
    have range2: "tree_range ?t = tree_range t" and key2: "tree_key ?t = tree_key t"
      using root(1) root2 t1 same_shapeD(7) [OF root1(2)] same_shapeD(7) [OF root2(2)]
      by (auto simp: tree_range_def tree_key_def fun_eq_iff)
    have start: "unat (node_start_offset root1) = 0" using same_shapeD(1) [OF root1(2)] root(2) by simp
    have "tree_lookup A ?t x = (if tree_key t x = tree_key t off then Some d else tree_lookup A t x)"
      if x: "tree_range t x" for x
    proof -
      have "tree_lookup A ?t x = Some e \<longleftrightarrow>
          (if tree_key t x = tree_key t off then Some d else tree_lookup A t x) = Some e" for e
        using tree_lookup_stored [OF inv x, of e] tree_lookup_stored [OF inv2, of x e] x range2 key2 t1 same
          stored_set_leaf [OF oks1 root1(1) start path m(1) arr, of "tree_key t x" e]
        by (auto simp: tree_key_def [of t off])
      then show ?thesis by (rule option_eqI)
    qed
    then show ?thesis using None insert inv2 range2 key2 by auto
  qed
qed

interpretation block_tree: block_map "tree_inv A view" tree_range tree_key "tree_lookup A" "tree_insert A"
  for A view
proof unfold_locales
  fix t off d
  assume inv: "tree_inv A view t" and range: "tree_range t off"
  note ok = tree_insert_ok [OF inv range, of d]
  {
    assume "tree_lookup A t off = None"
    then show "\<exists>t'. tree_insert A t off d = Some (t', True) \<and> tree_inv A view t' \<and>
        tree_range t' = tree_range t \<and> tree_key t' = tree_key t \<and>
        (\<forall>x. tree_range t x \<longrightarrow>
           tree_lookup A t' x = (if tree_key t x = tree_key t off then Some d else tree_lookup A t x))"
      using ok by (auto simp: tree_insert_def)
  next
    fix e
    assume "tree_lookup A t off = Some e"
    then show "\<exists>t'. tree_insert A t off d = Some (t', False) \<and> tree_inv A view t' \<and>
        tree_range t' = tree_range t \<and> tree_key t' = tree_key t \<and>
        (\<forall>x. tree_range t x \<longrightarrow> tree_lookup A t' x = tree_lookup A t x)"
      using ok by (auto simp: tree_insert_def)
  }
next
  fix t x y
  assume "tree_inv A view t" "tree_range t x" "tree_range t y" "tree_key t x = tree_key t y"
  then show "tree_lookup A t x = tree_lookup A t y"
    using tree_lookup_stored by (metis not_None_eq)
qed

section \<open>New trees\<close>

lemma tree_initialize_ok:
  assumes contract: "array_contract A view" and size0: "0 < unat size0" "unat size0 \<le> 2 ^ 53"
    and L: "0 < unat leaf"
  obtains t root where "libfsfat_block_tree_initialize A None size0 leaf = Inr t"
    and "tree_inv A view t" and "bt_leaf_value_size t = leaf"
    and "bt_nodes t (bt_root_node t) = Some root" and "node_start_offset root = 0"
    and "node_end_offset root = size0" and "node_sub_node_size root = find_sub_node_size size0 leaf"
    and "view (node_sub_nodes_array root) = replicate 256 None"
proof -
  obtain n where n: "libfsfat_block_tree_node_initialize A None 0 size0 leaf = Inr n"
    and ok: "\<And>nodes. node_ok view (unat leaf) nodes n"
    and shape: "node_start_offset n = 0" "node_size n = size0"
      "node_sub_node_size n = find_sub_node_size size0 leaf"
      "view (node_sub_nodes_array n) = replicate 256 None"
    by (rule node_initialize_ok [OF contract _ size0 L, of 0]) simp_all
  let ?t = "\<lparr> bt_root_node = 0, bt_leaf_value_size = leaf, bt_nodes = [0 \<mapsto> n], bt_next = 1 \<rparr>
      :: 'a block_tree"
  have "tree_inv A view ?t" using contract ok shape(1) by (simp add: tree_inv_def)
  moreover have "node_end_offset n = size0"
    using node_okD(4) [OF ok] shape(1,2) by (simp add: word_unat_eq_iff)
  moreover have "libfsfat_block_tree_initialize A None size0 leaf = Inr ?t"
    using n by (simp add: libfsfat_block_tree_initialize_def)
  ultimately show ?thesis using that [of ?t n] shape by simp
qed

lemma tree_initialize_range:
  assumes "bt_nodes t (bt_root_node t) = Some root" and "node_start_offset root = 0"
  shows "tree_range t x \<longleftrightarrow> unat x < unat (node_end_offset root) \<and>
    unat x div unat (node_sub_node_size root) < 256"
  using assms by (simp add: tree_range_def covers_def)

lemma tree_initialize_lookup:
  assumes inv: "tree_inv A view t" and root: "bt_nodes t (bt_root_node t) = Some root"
    and empty: "view (node_sub_nodes_array root) = replicate 256 None" and range: "tree_range t x"
  shows "tree_lookup A t x = None"
proof -
  have "\<not> stored view (unat (bt_leaf_value_size t)) (bt_nodes t) (bt_root_node t) (tree_key t x) d" for d
  proof
    assume "stored view (unat (bt_leaf_value_size t)) (bt_nodes t) (bt_root_node t) (tree_key t x) d"
    then obtain l n where path: "leaf_path view (unat (bt_leaf_value_size t)) (bt_nodes t) (tree_key t x)
        (bt_root_node t) (Some l)" and n: "bt_nodes t l = Some n"
      "view (node_sub_nodes_array n) ! entry_of (unat (bt_leaf_value_size t)) n (tree_key t x)
        = Some (Leaf_Value d)"
      by (auto simp: stored_def)
    from path show False by cases (use root empty n in simp_all)
  qed
  then show ?thesis using tree_lookup_stored [OF inv range] by (cases "tree_lookup A t x") auto
qed

text \<open>Insertion of a sequence of blocks: for each, whether it was new.\<close>

fun insert_blocks ::
  "('arr, node_entry) array_ops \<Rightarrow> 'arr block_tree \<Rightarrow> off64 list \<Rightarrow> ('arr block_tree \<times> bool list) option" where
  "insert_blocks A t [] = Some (t, [])"
| "insert_blocks A t (offset # offsets) =
     (case tree_insert A t offset \<lparr> bd_cluster_number = 0 \<rparr> of
        None \<Rightarrow> None
      | Some (t', new) \<Rightarrow>
          (case insert_blocks A t' offsets of
             None \<Rightarrow> None
           | Some (t'', news) \<Rightarrow> Some (t'', new # news)))"

context block_map
begin

text \<open>The flags of a sequence of insertions mark the first visit of every block.\<close>

fun first_visits :: "'t \<Rightarrow> nat set \<Rightarrow> off64 list \<Rightarrow> bool list" where
  "first_visits t seen [] = []"
| "first_visits t seen (x # xs) = (key t x \<notin> seen) # first_visits t (Set.insert (key t x) seen) xs"

lemma first_visits_key: "key t' = key t \<Longrightarrow> first_visits t' seen xs = first_visits t seen xs"
  by (induction xs arbitrary: seen) simp_all

lemma first_visits_nth:
  "i < length xs \<Longrightarrow>
   first_visits t seen xs ! i = (key t (xs ! i) \<notin> seen \<union> key t ` set (take i xs))"
proof (induction xs arbitrary: seen i)
  case (Cons x xs)
  then show ?case by (cases i) auto
qed simp

lemma length_first_visits [simp]: "length (first_visits t seen xs) = length xs"
  by (induction xs arbitrary: seen) simp_all

end

lemma insert_blocks_first_visits:
  "tree_inv A view t \<Longrightarrow> \<forall>x \<in> set xs. tree_range t x \<Longrightarrow>
   \<exists>t'. insert_blocks A t xs = Some (t', block_map.first_visits tree_key t
     (block_map.visited tree_range tree_key (tree_lookup A) t) xs) \<and> tree_inv A view t'"
proof (induction xs arbitrary: t)
  case (Cons x xs)
  obtain t1 where t1: "tree_insert A t x \<lparr> bd_cluster_number = 0 \<rparr> =
      Some (t1, tree_key t x \<notin> block_map.visited tree_range tree_key (tree_lookup A) t)"
    and inv1: "tree_inv A view t1" and same: "tree_range t1 = tree_range t" "tree_key t1 = tree_key t"
    and visited: "block_map.visited tree_range tree_key (tree_lookup A) t1 =
      Set.insert (tree_key t x) (block_map.visited tree_range tree_key (tree_lookup A) t)"
    using block_tree.insert_iff [OF Cons.prems(1), of x "\<lparr> bd_cluster_number = 0 \<rparr>"] Cons.prems(2) by auto
  then show ?case
    using Cons.IH [OF inv1] Cons.prems(2) same block_tree.first_visits_key [OF same(2)] by auto
qed simp

text \<open>An offset the tree has no entry for is refused.\<close>

lemma node_entry_index_not_covers:
  assumes ok: "node_ok view L nodes n" and start: "node_start_offset n = 0" and "\<not> covers n off"
  shows "(\<exists>e. node_entry_index n off = Inl e) \<or> (\<exists>i. node_entry_index n off = Inr i \<and> 256 \<le> i)"
proof (cases "off <s 0 \<or> node_end_offset n \<le>s off")
  case True
  then show ?thesis using start by (simp add: node_entry_index_def)
next
  case False
  have small: "unat off < 2 ^ 63" "unat (node_end_offset n) < 2 ^ 63"
    using False node_okD(4,6) [OF ok] start by (simp_all add: sless_zero_iff)
  have less: "unat off < unat (node_end_offset n)"
    using False small by (simp add: sless_unat signed.not_le)
  have pos: "node_sub_node_size n \<noteq> 0" using sub_node_size_pos [OF ok] by auto
  let ?i = "off div node_sub_node_size n"
  have big: "256 \<le> unat ?i" using assms(3) less start by (simp add: covers_def unat_div)
  have "unat ?i \<le> unat off" by (simp add: unat_div)
  then have i: "unat ?i < 2 ^ 63" using small by linarith
  obtain m where m: "unat ?i = m" "256 \<le> m" using big by blast
  have "uint ?i = int m" using m(1) by (simp only: uint_nat)
  then have "sint ?i = int m" using i by (simp only: sint_small)
  then show ?thesis
    using False start pos m(2) by (simp add: node_entry_index_def Let_def)
qed

lemma tree_insert_out_of_range:
  assumes inv: "tree_inv A view t" and "\<not> tree_range t off"
  shows "libfsfat_block_tree_insert_block_descriptor_by_offset A (Some t) off d = Some (Inl RUNTIME_GET_FAILED)"
proof -
  obtain root where root: "bt_nodes t (bt_root_node t) = Some root" "node_start_offset root = 0"
    using tree_invD(4) [OF inv] by blast
  have ok: "node_ok view (unat (bt_leaf_value_size t)) (bt_nodes t) root"
    using tree_invD(2) [OF inv] root by (auto simp: nodes_ok_def)
  have "\<not> covers root off" using assms(2) root by (simp add: tree_range_def)
  from node_entry_index_not_covers [OF ok root(2) this] node_okD(3) [OF ok]
  have "\<exists>e. libfsfat_block_tree_node_get_sub_node_at_offset A (Some root) off = Inl e"
    "\<exists>e. libfsfat_block_tree_node_get_leaf_value_at_offset A (Some root) off = Inl e"
    by (auto simp: libfsfat_block_tree_node_get_sub_node_at_offset_def Let_def
      libfsfat_block_tree_node_get_leaf_value_at_offset_def array_get [OF tree_invD(1) [OF inv]])
  then show ?thesis
    using root(1)
    by (cases "node_is_leaf_node root = 0")
      (auto simp: libfsfat_block_tree_insert_block_descriptor_by_offset_def find_or_create_leaf.simps [of A t])
qed

section \<open>Properties\<close>

text \<open>
  A new block tree for a volume of up to 2^53 bytes is empty and satisfies the
  invariant: the lookup finds nothing for every offset it has an entry for, that is, for
  the offsets below the size and in one of the 256 parts of the root node.
\<close>

theorem block_tree_new:
  assumes "array_contract A view" and "0 < unat size0" and "unat size0 \<le> 2 ^ 53"
    and "leaf_value_size \<noteq> 0"
  shows "\<exists>t. libfsfat_block_tree_initialize A None size0 leaf_value_size = Inr t \<and>
    tree_inv A view t \<and>
    (\<forall>x. tree_range t x \<longleftrightarrow> unat x < unat size0 \<and>
       unat x div unat (find_sub_node_size size0 leaf_value_size) < 256) \<and>
    (\<forall>x. tree_range t x \<longrightarrow>
       libfsfat_block_tree_get_block_descriptor_by_offset A (Some t) x = Some (Inr None))"
proof -
  have "0 < unat leaf_value_size" using assms(4) by (simp add: unat_gt_0)
  then obtain t root where init: "libfsfat_block_tree_initialize A None size0 leaf_value_size = Inr t"
    and inv: "tree_inv A view t" and root: "bt_nodes t (bt_root_node t) = Some root"
      "node_start_offset root = 0" "node_end_offset root = size0"
      "node_sub_node_size root = find_sub_node_size size0 leaf_value_size"
      "view (node_sub_nodes_array root) = replicate 256 None"
    using tree_initialize_ok [OF assms(1-3)] by metis
  have "libfsfat_block_tree_get_block_descriptor_by_offset A (Some t) x = Some (Inr None)"
    if range: "tree_range t x" for x
  proof -
    obtain r where r: "libfsfat_block_tree_get_block_descriptor_by_offset A (Some t) x = Some (Inr r)"
      using tree_get [OF inv range] by blast
    then show ?thesis
      using tree_initialize_lookup [OF inv root(1,5) range] by (cases r) (auto simp: tree_lookup_def)
  qed
  then show ?thesis using init inv tree_initialize_range [OF root(1,2)] root(3,4) by simp
qed

text \<open>The witnesses use a tree of 2048 blocks of 512 bytes, which has two levels.\<close>

theorem block_tree_new_witness:
  "\<exists>t. libfsfat_block_tree_initialize list_array None 0x100000 512 = Inr t \<and>
    tree_inv list_array (\<lambda>a. a) t \<and>
    (\<forall>x. tree_range t x \<longleftrightarrow> unat x < unat (0x100000 :: u64) \<and>
       unat x div unat (find_sub_node_size 0x100000 512) < 256) \<and>
    (\<forall>x. tree_range t x \<longrightarrow>
       libfsfat_block_tree_get_block_descriptor_by_offset list_array (Some t) x = Some (Inr None))"
  by (rule block_tree_new [OF list_array_contract]) simp_all

definition witness_tree :: "node_entry option list block_tree" where
  "witness_tree =
     (case libfsfat_block_tree_initialize list_array None 0x100000 512 of
        Inr t \<Rightarrow> t
      | Inl e \<Rightarrow> undefined)"

lemma find_sub_node_size_witness: "find_sub_node_size 0x100000 512 = 0x20000"
  by (simp add: find_sub_node_size.simps BLOCK_TREE_NUMBER_OF_SUB_NODES_def)

lemma witness_tree_ok:
  "tree_inv list_array (\<lambda>a. a) witness_tree"
  "tree_range witness_tree x \<longleftrightarrow> unat x < 0x100000"
  "tree_range witness_tree x \<Longrightarrow> tree_lookup list_array witness_tree x = None"
  "tree_key witness_tree x = unat x div 512"
proof -
  obtain t root where init: "libfsfat_block_tree_initialize list_array None 0x100000 512 = Inr t"
    and inv: "tree_inv list_array (\<lambda>a. a) t" and L: "bt_leaf_value_size t = 512"
    and root: "bt_nodes t (bt_root_node t) = Some root"
      "node_start_offset root = 0" "node_end_offset root = 0x100000"
      "node_sub_node_size root = find_sub_node_size 0x100000 512"
      "node_sub_nodes_array root = replicate 256 None"
    by (rule tree_initialize_ok [OF list_array_contract, of "0x100000" 512]) simp_all
  have t: "witness_tree = t" using init by (simp add: witness_tree_def)
  show "tree_inv list_array (\<lambda>a. a) witness_tree" using inv t by simp
  have "unat x div 0x20000 < 256" if "unat x < 0x100000"
    using that by (simp add: div_less_iff_less_mult)
  then show "tree_range witness_tree x \<longleftrightarrow> unat x < 0x100000"
    using tree_initialize_range [OF root(1,2)] root(3,4) t find_sub_node_size_witness by auto
  show "tree_range witness_tree x \<Longrightarrow> tree_lookup list_array witness_tree x = None"
    using tree_initialize_lookup [OF inv root(1)] root(5) t by simp
  show "tree_key witness_tree x = unat x div 512" using t L by (simp add: tree_key_def)
qed

text \<open>
  C11. The block tree is a map from blocks to descriptors. Inserting a descriptor for an
  offset in range always succeeds and keeps the invariant. If the block of the offset has
  a descriptor, that descriptor is returned and no lookup changes; otherwise the new one
  is returned by the lookups of all offsets of the block, and the lookups of all other
  offsets are unchanged.
\<close>

theorem block_tree_insert:
  assumes "tree_inv A view t" and "tree_range t off"
  shows "\<exists>t' r. libfsfat_block_tree_insert_block_descriptor_by_offset A (Some t) off d = Some (Inr (t', r)) \<and>
    tree_inv A view t' \<and> tree_range t' = tree_range t \<and> tree_key t' = tree_key t \<and>
    (case tree_lookup A t off of
       Some e \<Rightarrow> r = Existing e \<and> (\<forall>x. tree_range t x \<longrightarrow> tree_lookup A t' x = tree_lookup A t x)
     | None \<Rightarrow> (\<exists>i. r = Inserted i) \<and>
         (\<forall>x. tree_range t x \<longrightarrow> tree_lookup A t' x =
            (if tree_key t x = tree_key t off then Some d else tree_lookup A t x)))"
  using assms by (rule tree_insert_ok)

theorem block_tree_insert_witness:
  "\<exists>t'. libfsfat_block_tree_insert_block_descriptor_by_offset list_array (Some witness_tree) 0x80600
      \<lparr> bd_cluster_number = 7 \<rparr> = Some (Inr t') \<and>
    tree_lookup list_array (fst t') 0x807ff = Some \<lparr> bd_cluster_number = 7 \<rparr> \<and>
    tree_lookup list_array (fst t') 0x80800 = None"
proof -
  have range: "tree_range witness_tree x" if "unat x < 0x100000" for x
    using that by (simp add: witness_tree_ok)
  show ?thesis
    using block_tree_insert [OF witness_tree_ok(1) range [of "0x80600"], of "\<lparr> bd_cluster_number = 7 \<rparr>"]
      witness_tree_ok(3) [OF range] range
    by (auto simp: witness_tree_ok(4))
qed

text \<open>
  C12. Loop detection: when the blocks of a chain are inserted one after the other into a
  new tree, the insertion of a block reports that it is new exactly if no earlier offset
  of the chain lies in the same block. This is what the readers of cluster chains rely on
  to stop at the first cluster they see twice.
\<close>

theorem block_tree_detects_revisits:
  assumes "array_contract A view" and "0 < unat size0" and "unat size0 \<le> 2 ^ 53"
    and "leaf_value_size \<noteq> 0"
    and "\<forall>x \<in> set offsets. unat x < unat size0 \<and>
       unat x div unat (find_sub_node_size size0 leaf_value_size) < 256"
  shows "\<exists>t t' news. libfsfat_block_tree_initialize A None size0 leaf_value_size = Inr t \<and>
    insert_blocks A t offsets = Some (t', news) \<and> length news = length offsets \<and>
    (\<forall>i < length offsets. news ! i \<longleftrightarrow>
       unat (offsets ! i) div unat leaf_value_size \<notin>
         (\<lambda>x. unat x div unat leaf_value_size) ` set (take i offsets))"
proof -
  have "0 < unat leaf_value_size" using assms(4) by (simp add: unat_gt_0)
  then obtain t root where init: "libfsfat_block_tree_initialize A None size0 leaf_value_size = Inr t"
    and inv: "tree_inv A view t" and L: "bt_leaf_value_size t = leaf_value_size"
    and root: "bt_nodes t (bt_root_node t) = Some root"
      "node_start_offset root = 0" "node_end_offset root = size0"
      "node_sub_node_size root = find_sub_node_size size0 leaf_value_size"
      "view (node_sub_nodes_array root) = replicate 256 None"
    using tree_initialize_ok [OF assms(1-3)] by metis
  have range: "\<forall>x \<in> set offsets. tree_range t x"
    using assms(5) tree_initialize_range [OF root(1,2)] root(3,4) by simp
  have "block_map.visited tree_range tree_key (tree_lookup A) t = {}"
    using tree_initialize_lookup [OF inv root(1,5)] by (auto simp: block_tree.visited_def)
  then obtain t' where "insert_blocks A t offsets =
      Some (t', block_map.first_visits tree_key t {} offsets)"
    using insert_blocks_first_visits [OF inv range] by auto
  then show ?thesis
    using init block_tree.first_visits_nth [of _ offsets t "{}"] L
    by (simp add: tree_key_def)
qed

theorem block_tree_detects_revisits_witness:
  "\<exists>t t' news. libfsfat_block_tree_initialize list_array None 0x100000 512 = Inr t \<and>
    insert_blocks list_array t [0x200, 0x80000, 0x3ff, 0x400] = Some (t', news) \<and>
    length news = length [0x200, 0x80000, 0x3ff, 0x400 :: off64] \<and>
    (\<forall>i < length [0x200, 0x80000, 0x3ff, 0x400 :: off64]. news ! i \<longleftrightarrow>
       unat ([0x200, 0x80000, 0x3ff, 0x400 :: off64] ! i) div unat (512 :: u64) \<notin>
         (\<lambda>x. unat x div unat (512 :: u64)) ` set (take i [0x200, 0x80000, 0x3ff, 0x400 :: off64]))"
  by (rule block_tree_detects_revisits [OF list_array_contract])
    (simp_all add: find_sub_node_size_witness)

text \<open>
  The tree has no entry for the last part of a volume whose size is not a multiple
  of the size of the sub nodes of the root and is at least 256 of them: for an offset
  behind the 256 parts the lookup and the insertion fail although the offset is in the
  volume.
\<close>

theorem block_tree_uncovered:
  assumes "array_contract A view" and "unat size0 \<le> 2 ^ 53" and "leaf_value_size \<noteq> 0"
    and "unat off < unat size0"
    and "256 * unat (find_sub_node_size size0 leaf_value_size) \<le> unat off"
  shows "\<exists>t. libfsfat_block_tree_initialize A None size0 leaf_value_size = Inr t \<and>
    libfsfat_block_tree_get_block_descriptor_by_offset A (Some t) off = Some (Inl RUNTIME_GET_FAILED) \<and>
    libfsfat_block_tree_insert_block_descriptor_by_offset A (Some t) off d = Some (Inl RUNTIME_GET_FAILED)"
proof -
  have L: "0 < unat leaf_value_size" and "0 < unat size0" using assms(3,4) by (auto simp: unat_gt_0)
  then obtain t root where init: "libfsfat_block_tree_initialize A None size0 leaf_value_size = Inr t"
    and inv: "tree_inv A view t"
    and root: "bt_nodes t (bt_root_node t) = Some root"
      "node_start_offset root = 0" "node_end_offset root = size0"
      "node_sub_node_size root = find_sub_node_size size0 leaf_value_size"
      "view (node_sub_nodes_array root) = replicate 256 None"
    using tree_initialize_ok [OF assms(1) _ assms(2)] by metis
  let ?sub = "unat (find_sub_node_size size0 leaf_value_size)"
  have pos: "0 < ?sub" and div: "unat size0 div ?sub \<le> 256"
    using find_sub_node_size_power [OF L, of size0] L by auto
  have quot: "unat off div ?sub = 256"
    using assms(4,5) pos div div_le_mono [of "unat off" "unat size0" ?sub]
      div_le_mono [OF assms(5), of ?sub] by simp
  let ?i = "off div find_sub_node_size size0 leaf_value_size"
  have i: "unat ?i = 256" using quot by (simp add: unat_div)
  have small: "unat off < 2 ^ 63" "unat size0 < 2 ^ 63" using assms(2,4) by simp_all
  have "node_entry_index root off = Inr 256"
    using root(2-4) small assms(4) pos i
    by (auto simp: node_entry_index_def Let_def sless_zero_iff sless_unat INT_MAX_def sint_small
      uint_nat signed.not_less [symmetric])
  moreover have "array_get_entry_by_index A (node_sub_nodes_array root) 256 = None"
    using root(5) by (simp add: array_get [OF assms(1)])
  ultimately have fail:
    "libfsfat_block_tree_node_get_sub_node_at_offset A (Some root) off =
       (if node_is_leaf_node root \<noteq> 0 then Inl ARGUMENT_INVALID_VALUE else Inl RUNTIME_GET_FAILED)"
    "libfsfat_block_tree_node_get_leaf_value_at_offset A (Some root) off =
       (if node_is_leaf_node root = 0 then Inl ARGUMENT_INVALID_VALUE else Inl RUNTIME_GET_FAILED)"
    by (simp_all add: libfsfat_block_tree_node_get_sub_node_at_offset_def
      libfsfat_block_tree_node_get_leaf_value_at_offset_def Let_def)
  show ?thesis
    using init root(1) fail
    by (cases "node_is_leaf_node root = 0")
      (simp_all add: libfsfat_block_tree_get_block_descriptor_by_offset_def
        libfsfat_block_tree_insert_block_descriptor_by_offset_def
        find_leaf.simps [of A t] find_or_create_leaf.simps [of A t])
qed

theorem block_tree_uncovered_witness:
  "\<exists>t. libfsfat_block_tree_initialize list_array None 0x20001 512 = Inr t \<and>
    libfsfat_block_tree_get_block_descriptor_by_offset list_array (Some t) 0x20000 =
      Some (Inl RUNTIME_GET_FAILED) \<and>
    libfsfat_block_tree_insert_block_descriptor_by_offset list_array (Some t) 0x20000
      \<lparr> bd_cluster_number = 0 \<rparr> = Some (Inl RUNTIME_GET_FAILED)"
  by (rule block_tree_uncovered [OF list_array_contract])
    (simp_all add: find_sub_node_size.simps BLOCK_TREE_NUMBER_OF_SUB_NODES_def)

end
