(* ===== verification/Block_Tree_Free.thy ===== *)
theory Block_Tree_Free
  imports Block_Tree "HOL-Library.Multiset"
begin

text \<open>
  The release of a block tree, \<^verbatim>\<open>libfsfat_block_tree_free\<close> and the functions it calls: every node
  and every descriptor of a tree is released once, and nothing is left.
\<close>

section \<open>The functions\<close>

text \<open>
  The memory of a tree: the store of the nodes, and the descriptors that have been released.
\<close>

type_synonym 'arr tree_memory = "(nat \<Rightarrow> 'arr block_tree_node option) \<times> block_descriptor list"

definition libfsfat_block_descriptor_free ::
  "block_descriptor option \<Rightarrow> block_descriptor list \<Rightarrow> block_descriptor list \<times> bool" where
  "libfsfat_block_descriptor_free block_descriptor freed =
     (case block_descriptor of None \<Rightarrow> (freed, True) | Some d \<Rightarrow> (freed @ [d], True))"

text \<open>
  \<^verbatim>\<open>libcdata_array_free\<close> is a parameter: without a function it releases the array only, with one
  it calls the function for each entry that is not \<open>NULL\<close>.
\<close>

type_synonym ('arr, 'e, 's) free_array = "'arr \<Rightarrow> ('e \<Rightarrow> 's \<Rightarrow> 's \<times> bool) option \<Rightarrow> 's \<Rightarrow> 's \<times> bool"

fun free_entries :: "('e \<Rightarrow> 's \<Rightarrow> 's \<times> bool) \<Rightarrow> 'e option list \<Rightarrow> 's \<Rightarrow> 's \<times> bool" where
  "free_entries f [] s = (s, True)"
| "free_entries f (None # es) s = free_entries f es s"
| "free_entries f (Some e # es) s =
     (case f e s of (s, ok) \<Rightarrow> (case free_entries f es s of (s, ok') \<Rightarrow> (s, ok \<and> ok')))"

definition free_contract :: "('arr, 'e, 's) free_array \<Rightarrow> ('arr \<Rightarrow> 'e option list) \<Rightarrow> bool" where
  "free_contract F view \<longleftrightarrow>
     (\<forall>arr s. F arr None s = (s, True)) \<and> (\<forall>arr f s. F arr (Some f) s = free_entries f (view arr) s)"

text \<open>The function for the entries of a leaf; a pointer to a node is not a descriptor.\<close>

definition free_leaf_value :: "node_entry \<Rightarrow> 'arr tree_memory \<Rightarrow> 'arr tree_memory \<times> bool" where
  "free_leaf_value e s =
     (case e of
        Sub_Node _ \<Rightarrow> (s, False)
      | Leaf_Value d \<Rightarrow> (case libfsfat_block_descriptor_free (Some d) (snd s) of (freed, ok) \<Rightarrow> ((fst s, freed), ok)))"

text \<open>
  The loop over the sub nodes, which goes on after an error and reports the last one. When an entry
  cannot be read the pointer of the loop is still \<open>NULL\<close>, as the free function leaves it so.
\<close>

fun each_sub_node ::
  "(int \<Rightarrow> 's \<Rightarrow> ('s \<times> unit result) option) \<Rightarrow> int list \<Rightarrow> 's \<Rightarrow> ('s \<times> unit result) option" where
  "each_sub_node step [] s = Some (s, Inr ())"
| "each_sub_node step (i # indices) s =
     (case step i s of
        None \<Rightarrow> None
      | Some (s, r) \<Rightarrow>
          if r = Inl MEMORY_FAULT then Some (s, r)
          else
            (case each_sub_node step indices s of
               None \<Rightarrow> None
             | Some (s, r') \<Rightarrow> Some (s, case r' of Inl e \<Rightarrow> Inl e | Inr _ \<Rightarrow> r)))"

lemma each_sub_node_mono [partial_function_mono]:
  fixes step :: "('b \<Rightarrow> 'c option) \<Rightarrow> int \<Rightarrow> 's \<Rightarrow> ('s \<times> unit result) option"
  assumes "\<And>i s. mono_option (\<lambda>f. step f i s)"
  shows "mono_option (\<lambda>f. each_sub_node (step f) indices s)"
proof (rule monotoneI)
  fix f g :: "'b \<Rightarrow> 'c option"
  assume "option.le_fun f g"
  then have step: "step f i s = None \<or> step f i s = step g i s" for i s
    using assms unfolding monotone_def flat_ord_def by blast
  show "option_ord (each_sub_node (step f) indices s) (each_sub_node (step g) indices s)"
  proof (induction indices arbitrary: s)
    case (Cons i indices)
    show ?case
    proof (cases "step f i s")
      case None
      then show ?thesis by (simp add: flat_ord_def)
    next
      case (Some p)
      then have "step g i s = Some p" using step [of i s] by simp
      then show ?thesis
        using Some Cons.IH [of "fst p"] by (cases p) (auto simp: flat_ord_def)
    qed
  qed (simp add: flat_ord_def)
qed

text \<open>
  The memory after the call, and the result, with what follows the release of a sub node and the
  loop. A node that is not in the store has been released
  before.
\<close>

definition sub_node_freed :: "'s \<times> unit result \<Rightarrow> ('s \<times> unit result) option" where
  "sub_node_freed p =
     Some (fst p, case snd p of
       Inr _ \<Rightarrow> Inr () | Inl e \<Rightarrow> Inl (if e = MEMORY_FAULT then e else RUNTIME_FINALIZE_FAILED))"

definition sub_nodes_array_freed ::
  "('arr, 'e, 's) free_array \<Rightarrow> 'arr \<Rightarrow> 's \<times> unit result \<Rightarrow> ('s \<times> unit result) option" where
  "sub_nodes_array_freed F arr p =
     (case F arr None (fst p) of
        (s, ok) \<Rightarrow> Some (s, if ok \<or> snd p = Inl MEMORY_FAULT then snd p else Inl RUNTIME_FINALIZE_FAILED))"

partial_function (option) libfsfat_block_tree_node_free ::
  "('arr, node_entry) array_ops \<Rightarrow> ('arr, node_entry, 'arr tree_memory) free_array \<Rightarrow> nat option \<Rightarrow>
   'arr tree_memory \<Rightarrow> ('arr tree_memory \<times> unit result) option" where
  "libfsfat_block_tree_node_free A F block_tree_node s =
     (case block_tree_node of
        None \<Rightarrow> Some (s, Inr ())
      | Some address \<Rightarrow>
     (case fst s address of
        None \<Rightarrow> Some (s, Inl MEMORY_FAULT)
      | Some node \<Rightarrow>
          Option.bind
            (if node_is_leaf_node node \<noteq> 0
             then (case F (node_sub_nodes_array node) (Some free_leaf_value) s of
                     (s, ok) \<Rightarrow> Some (s, if ok then Inr () else Inl RUNTIME_FINALIZE_FAILED))
             else
               Option.bind
                 (each_sub_node (\<lambda>sub_node_index s.
                    (case array_get_entry_by_index A (node_sub_nodes_array node) sub_node_index of
                       None \<Rightarrow> Some (s, Inl RUNTIME_GET_FAILED)
                     | Some sub_node \<Rightarrow>
                         (case sub_node of
                            None \<Rightarrow> Some (s, Inr ())
                          | Some entry \<Rightarrow>
                              (case entry of
                                 Leaf_Value _ \<Rightarrow> Some (s, Inl MEMORY_FAULT)
                               | Sub_Node sub_node \<Rightarrow>
                                   Option.bind (libfsfat_block_tree_node_free A F (Some sub_node) s) sub_node_freed))))
                    [0..255] s)
                 (sub_nodes_array_freed F (node_sub_nodes_array node)))
            (\<lambda>p. Some (((fst (fst p))(address := None), snd (fst p)), snd p))))"

definition libfsfat_block_tree_free ::
  "('arr, node_entry) array_ops \<Rightarrow> ('arr, node_entry, 'arr tree_memory) free_array \<Rightarrow> 'arr block_tree option \<Rightarrow>
   ('arr tree_memory \<times> unit result) option" where
  "libfsfat_block_tree_free A F block_tree =
     (case block_tree of
        None \<Rightarrow> Some ((Map.empty, []), Inr ())
      | Some t \<Rightarrow>
          (case libfsfat_block_tree_node_free A F (Some (bt_root_node t)) (bt_nodes t, []) of
             None \<Rightarrow> None
           | Some (s, Inl e) \<Rightarrow> Some (s, Inl (if e = MEMORY_FAULT then e else RUNTIME_FINALIZE_FAILED))
           | Some (s, Inr _) \<Rightarrow> Some (s, Inr ())))"

section \<open>Who owns a node\<close>

text \<open>
  The pointers of a tree: every node but the root is in one entry of one branch node, whose
  address is lower, and a leaf node has descriptors only.
\<close>

definition has_sub_node ::
  "('arr \<Rightarrow> node_entry option list) \<Rightarrow> (nat \<Rightarrow> 'arr block_tree_node option) \<Rightarrow> nat \<Rightarrow> nat \<Rightarrow> nat \<Rightarrow> bool" where
  "has_sub_node view nodes a i b \<longleftrightarrow>
     (\<exists>n. nodes a = Some n \<and> node_is_leaf_node n = 0 \<and> i < 256 \<and>
        view (node_sub_nodes_array n) ! i = Some (Sub_Node b))"

definition entries_ok ::
  "('arr \<Rightarrow> node_entry option list) \<Rightarrow> nat \<Rightarrow> nat \<Rightarrow> 'arr block_tree_node \<Rightarrow> bool" where
  "entries_ok view a k n \<longleftrightarrow>
     length (view (node_sub_nodes_array n)) = 256 \<and>
     (\<forall>e. Some e \<in> set (view (node_sub_nodes_array n)) \<longrightarrow>
        (if node_is_leaf_node n \<noteq> 0 then \<exists>d. e = Leaf_Value d else \<exists>b. e = Sub_Node b \<and> a < b \<and> b < k))"

definition tree_owned :: "('arr \<Rightarrow> node_entry option list) \<Rightarrow> 'arr block_tree \<Rightarrow> bool" where
  "tree_owned view t \<longleftrightarrow>
     bt_root_node t = 0 \<and> 0 < bt_next t \<and> dom (bt_nodes t) = {..<bt_next t} \<and>
     (\<forall>a n. bt_nodes t a = Some n \<longrightarrow> entries_ok view a (bt_next t) n) \<and>
     (\<forall>b. 0 < b \<longrightarrow> b < bt_next t \<longrightarrow> (\<exists>a i. has_sub_node view (bt_nodes t) a i b)) \<and>
     (\<forall>a i a' i' b. has_sub_node view (bt_nodes t) a i b \<longrightarrow> has_sub_node view (bt_nodes t) a' i' b \<longrightarrow>
        a = a' \<and> i = i')"

lemma tree_ownedD:
  assumes "tree_owned view t"
  shows "bt_root_node t = 0" and "0 < bt_next t" and "dom (bt_nodes t) = {..<bt_next t}"
    and "bt_nodes t a = Some n \<Longrightarrow> entries_ok view a (bt_next t) n"
    and "0 < b \<Longrightarrow> b < bt_next t \<Longrightarrow> \<exists>a i. has_sub_node view (bt_nodes t) a i b"
    and "has_sub_node view (bt_nodes t) a i b \<Longrightarrow> has_sub_node view (bt_nodes t) a' i' b \<Longrightarrow> a = a' \<and> i = i'"
proof -
  note all = assms [unfolded tree_owned_def]
  show "bt_root_node t = 0" using all by (elim conjE) assumption
  show "0 < bt_next t" using all by (elim conjE) assumption
  show "dom (bt_nodes t) = {..<bt_next t}" using all by (elim conjE) assumption
  show "bt_nodes t a = Some n \<Longrightarrow> entries_ok view a (bt_next t) n" using all by (elim conjE) simp
  show "0 < b \<Longrightarrow> b < bt_next t \<Longrightarrow> \<exists>a i. has_sub_node view (bt_nodes t) a i b" using all by (elim conjE) simp
  assume e: "has_sub_node view (bt_nodes t) a i b" "has_sub_node view (bt_nodes t) a' i' b"
  have "\<forall>a i a' i' b. has_sub_node view (bt_nodes t) a i b \<longrightarrow> has_sub_node view (bt_nodes t) a' i' b \<longrightarrow>
      a = a' \<and> i = i'"
    using all by (elim conjE) assumption
  from this [rule_format, OF e] show "a = a' \<and> i = i'" .
qed

lemma tree_ownedI:
  assumes "bt_root_node t = 0" and "0 < bt_next t" and "dom (bt_nodes t) = {..<bt_next t}"
    and "\<And>a n. bt_nodes t a = Some n \<Longrightarrow> entries_ok view a (bt_next t) n"
    and "\<And>b. 0 < b \<Longrightarrow> b < bt_next t \<Longrightarrow> \<exists>a i. has_sub_node view (bt_nodes t) a i b"
    and "\<And>a i a' i' b. has_sub_node view (bt_nodes t) a i b \<Longrightarrow> has_sub_node view (bt_nodes t) a' i' b \<Longrightarrow>
      a = a' \<and> i = i'"
  shows "tree_owned view t"
  unfolding tree_owned_def using assms by (intro conjI allI impI) simp_all

text \<open>The nodes under a node, the node itself included.\<close>

inductive under ::
  "('arr \<Rightarrow> node_entry option list) \<Rightarrow> (nat \<Rightarrow> 'arr block_tree_node option) \<Rightarrow> nat \<Rightarrow> nat \<Rightarrow> bool"
  for view nodes where
  under_self: "under view nodes a a"
| under_sub: "under view nodes a b \<Longrightarrow> has_sub_node view nodes b i c \<Longrightarrow> under view nodes a c"

lemma has_sub_node_less:
  assumes "tree_owned view t" and "has_sub_node view (bt_nodes t) a i b"
  shows "a < b" and "b < bt_next t"
proof -
  obtain n where n: "bt_nodes t a = Some n" "node_is_leaf_node n = 0" "i < 256"
    "view (node_sub_nodes_array n) ! i = Some (Sub_Node b)"
    using assms(2) by (auto simp: has_sub_node_def)
  have ok: "entries_ok view a (bt_next t) n" by (rule tree_ownedD(4) [OF assms(1) n(1)])
  then have "Some (Sub_Node b) \<in> set (view (node_sub_nodes_array n))"
    using n(3,4) by (metis entries_ok_def nth_mem)
  then show "a < b" and "b < bt_next t" using ok n(2) by (auto simp: entries_ok_def)
qed

lemma under_le: "under view (bt_nodes t) a b \<Longrightarrow> tree_owned view t \<Longrightarrow> a \<le> b"
  by (induction rule: under.induct) (auto dest: has_sub_node_less(1))

lemma under_less:
  "under view (bt_nodes t) a b \<Longrightarrow> tree_owned view t \<Longrightarrow> a < bt_next t \<Longrightarrow> b < bt_next t"
  by (induction rule: under.induct) (auto dest: has_sub_node_less(2))

lemma under_trans: "under view nodes b c \<Longrightarrow> under view nodes a b \<Longrightarrow> under view nodes a c"
  by (induction rule: under.induct) (auto intro: under.intros)

lemma under_first: "under view nodes a b \<longleftrightarrow> b = a \<or> (\<exists>i c. has_sub_node view nodes a i c \<and> under view nodes c b)"
proof
  show "under view nodes a b \<Longrightarrow> b = a \<or> (\<exists>i c. has_sub_node view nodes a i c \<and> under view nodes c b)"
    by (induction rule: under.induct) (auto intro: under.intros)
  show "b = a \<or> (\<exists>i c. has_sub_node view nodes a i c \<and> under view nodes c b) \<Longrightarrow> under view nodes a b"
    by (auto intro: under_self under_trans under_sub [OF under_self])
qed

text \<open>Two nodes with a node under both of them are one under the other.\<close>

lemma under_both:
  assumes "tree_owned view t" and "under view (bt_nodes t) a c" and "under view (bt_nodes t) b c"
  shows "under view (bt_nodes t) a b \<or> under view (bt_nodes t) b a"
  using assms(2,3)
proof (induction arbitrary: rule: under.induct)
  case (under_sub a p i c)
  from under_sub.prems show ?case
  proof cases
    case under_self
    then show ?thesis using under.under_sub [OF under_sub.hyps] by simp
  next
    case (under_sub q j)
    then have "q = p" using tree_ownedD(6) [OF assms(1) under_sub(2) \<open>has_sub_node view (bt_nodes t) p i c\<close>] by blast
    then show ?thesis using under_sub(1) \<open>under view (bt_nodes t) b p \<Longrightarrow> _\<close> by blast
  qed
qed simp

lemma under_disjoint:
  assumes "tree_owned view t" and "has_sub_node view (bt_nodes t) a i c" and "has_sub_node view (bt_nodes t) a j d"
    and "i \<noteq> j" and "under view (bt_nodes t) c b"
  shows "\<not> under view (bt_nodes t) d b"
proof
  assume "under view (bt_nodes t) d b"
  have apart: False if u: "under view (bt_nodes t) x y" and e: "has_sub_node view (bt_nodes t) a k x"
    "has_sub_node view (bt_nodes t) a l y" "k \<noteq> l" for x y k l
    using u
  proof cases
    case under_self
    then show ?thesis using tree_ownedD(6) [OF assms(1) e(1)] e(2,3) by blast
  next
    case (under_sub p m)
    then have "under view (bt_nodes t) x a" using tree_ownedD(6) [OF assms(1) under_sub(2) e(2)] by simp
    then show ?thesis using under_le [OF _ assms(1)] has_sub_node_less(1) [OF assms(1) e(1)] by fastforce
  qed
  show False
    using under_both [OF assms(1,5) \<open>under view (bt_nodes t) d b\<close>] apart assms(2-4) by metis
qed

lemma under_root:
  assumes "tree_owned view t" and "b < bt_next t"
  shows "under view (bt_nodes t) 0 b"
  using assms(2)
proof (induction b rule: less_induct)
  case (less b)
  show ?case
  proof (cases "b = 0")
    case False
    then obtain a i where e: "has_sub_node view (bt_nodes t) a i b"
      using tree_ownedD(5) [OF assms(1), of b] less.prems by auto
    then have "a < b" by (rule has_sub_node_less(1) [OF assms(1)])
    then show ?thesis using less under.under_sub [OF _ e] by simp
  qed (simp add: under_self)
qed

section \<open>Every node is released once\<close>

definition leaf_values :: "node_entry option list \<Rightarrow> block_descriptor list" where
  "leaf_values es = concat (map (\<lambda>e. case e of Some (Leaf_Value d) \<Rightarrow> [d] | _ \<Rightarrow> []) es)"

definition node_descriptors ::
  "('arr \<Rightarrow> node_entry option list) \<Rightarrow> (nat \<Rightarrow> 'arr block_tree_node option) \<Rightarrow> nat \<Rightarrow> block_descriptor multiset" where
  "node_descriptors view nodes b =
     (case nodes b of None \<Rightarrow> {#} | Some n \<Rightarrow> mset (leaf_values (view (node_sub_nodes_array n))))"

lemma free_leaf_values:
  "\<forall>e. Some e \<in> set es \<longrightarrow> (\<exists>d. e = Leaf_Value d) \<Longrightarrow>
   free_entries free_leaf_value es (N, freed) = ((N, freed @ leaf_values es), True)"
proof (induction es arbitrary: freed)
  case (Cons e es)
  show ?case
  proof (cases e)
    case None
    then show ?thesis using Cons by (simp add: leaf_values_def)
  next
    case (Some x)
    then obtain d where "x = Leaf_Value d" using Cons.prems by auto
    then show ?thesis
      using Cons Some by (simp add: leaf_values_def free_leaf_value_def libfsfat_block_descriptor_free_def)
  qed
qed (simp add: leaf_values_def)

lemma branch_values:
  "\<forall>e. Some e \<in> set es \<longrightarrow> (\<exists>b. e = Sub_Node b \<and> P b) \<Longrightarrow> leaf_values es = []"
  by (induction es) (auto simp: leaf_values_def split: option.split node_entry.split)

lemma finite_under: "tree_owned view t \<Longrightarrow> a < bt_next t \<Longrightarrow> finite {b. under view (bt_nodes t) a b}"
  by (rule finite_subset [of _ "{..<bt_next t}"]) (auto dest: under_less)

text \<open>The nodes under some of the entries of a node.\<close>

definition under_entries ::
  "('arr \<Rightarrow> node_entry option list) \<Rightarrow> (nat \<Rightarrow> 'arr block_tree_node option) \<Rightarrow> nat \<Rightarrow> nat set \<Rightarrow> nat \<Rightarrow> bool" where
  "under_entries view nodes a I b \<longleftrightarrow> (\<exists>i \<in> I. \<exists>c. has_sub_node view nodes a i c \<and> under view nodes c b)"

lemma under_entries_all: "under view nodes a b \<longleftrightarrow> b = a \<or> under_entries view nodes a {..<256} b"
  using under_first [of view nodes a b] by (auto simp: under_entries_def has_sub_node_def)

lemma each_sub_node_freed:
  assumes owned: "tree_owned view t"
    and step: "\<And>i c N freed. has_sub_node view (bt_nodes t) a i c \<Longrightarrow>
      (\<And>b. under view (bt_nodes t) c b \<Longrightarrow> N b = bt_nodes t b) \<Longrightarrow>
      \<exists>freed'. step (int i) (N, freed) =
          Some (((\<lambda>b. if under view (bt_nodes t) c b then None else N b), freed'), Inr ()) \<and>
        mset freed' = mset freed + (\<Sum>b | under view (bt_nodes t) c b. node_descriptors view (bt_nodes t) b)"
    and none: "\<And>i N freed. i < 256 \<Longrightarrow> \<nexists>c. has_sub_node view (bt_nodes t) a i c \<Longrightarrow>
      step (int i) (N, freed) = Some ((N, freed), Inr ())"
    and "distinct js" and "\<forall>j \<in> set js. j < 256"
    and "\<And>b. under_entries view (bt_nodes t) a (set js) b \<Longrightarrow> N b = bt_nodes t b"
  shows "\<exists>freed'. each_sub_node step (map int js) (N, freed) =
      Some (((\<lambda>b. if under_entries view (bt_nodes t) a (set js) b then None else N b), freed'), Inr ()) \<and>
    mset freed' = mset freed +
      (\<Sum>b | under_entries view (bt_nodes t) a (set js) b. node_descriptors view (bt_nodes t) b)"
  using assms(4-6)
proof (induction js arbitrary: N freed)
  case Nil
  then show ?case by (simp add: under_entries_def)
next
  case (Cons j js)
  let ?U = "under view (bt_nodes t)" and ?E = "under_entries view (bt_nodes t) a"
    and ?v = "node_descriptors view (bt_nodes t)"
  have j: "j \<notin> set js" "distinct js" "j < 256" "\<forall>j \<in> set js. j < 256" using Cons.prems(1,2) by simp_all
  show ?case
  proof (cases "\<exists>c. has_sub_node view (bt_nodes t) a j c")
    case False
    then have same: "?E (set (j # js)) b = ?E (set js) b" for b by (auto simp: under_entries_def)
    obtain freed' where "each_sub_node step (map int js) (N, freed) =
        Some (((\<lambda>b. if ?E (set js) b then None else N b), freed'), Inr ())"
      "mset freed' = mset freed + (\<Sum>b | ?E (set js) b. ?v b)"
      using Cons.IH [OF j(2,4), of N freed] Cons.prems(3) unfolding same by blast
    then show ?thesis unfolding same using none [OF j(3) False] by simp
  next
    case True
    then obtain c where c: "has_sub_node view (bt_nodes t) a j c" by blast
    have split: "?E (set (j # js)) b \<longleftrightarrow> ?U c b \<or> ?E (set js) b" for b
      using c tree_ownedD(6) [OF owned] by (auto simp: under_entries_def has_sub_node_def)
    have disjoint: "\<not> ?E (set js) b" if "?U c b" for b
      using under_disjoint [OF owned c _ _ that] j(1) by (auto simp: under_entries_def)
    obtain freed1 where first: "step (int j) (N, freed) = Some (((\<lambda>b. if ?U c b then None else N b), freed1), Inr ())"
      "mset freed1 = mset freed + (\<Sum>b | ?U c b. ?v b)"
      using step [OF c, of N freed] Cons.prems(3) split by blast
    obtain freed2 where rest: "each_sub_node step (map int js) ((\<lambda>b. if ?U c b then None else N b), freed1) =
        Some (((\<lambda>b. if ?E (set js) b then None else if ?U c b then None else N b), freed2), Inr ())"
      "mset freed2 = mset freed1 + (\<Sum>b | ?E (set js) b. ?v b)"
      using Cons.IH [OF j(2,4), of "\<lambda>b. if ?U c b then None else N b" freed1] Cons.prems(3) split disjoint by fastforce
    have c_less: "c < bt_next t" by (rule has_sub_node_less(2) [OF owned c])
    have "finite {b. ?E (set js) b}"
      by (rule finite_subset [of _ "{..<bt_next t}"])
        (auto simp: under_entries_def dest: under_less [OF _ owned] has_sub_node_less(2) [OF owned])
    then have "(\<Sum>b | ?E (set (j # js)) b. ?v b) = (\<Sum>b | ?U c b. ?v b) + (\<Sum>b | ?E (set js) b. ?v b)"
      unfolding split Collect_disj_eq
      by (rule sum.union_disjoint [OF finite_under [OF owned c_less]]) (use disjoint in auto)
    moreover have "(\<lambda>b. if ?E (set js) b then None else if ?U c b then None else N b) =
        (\<lambda>b. if ?E (set (j # js)) b then None else N b)"
    proof (rule ext)
      show "(if ?E (set js) b then None else if ?U c b then None else N b) =
          (if ?E (set (j # js)) b then None else N b)" for b
        using split [of b] by simp
    qed
    ultimately show ?thesis using first rest by simp
  qed
qed

lemma node_freed:
  assumes "array_contract A view" and "free_contract F view" and owned: "tree_owned view t"
    and "a < bt_next t" and "\<And>b. under view (bt_nodes t) a b \<Longrightarrow> N b = bt_nodes t b"
  shows "\<exists>freed'. libfsfat_block_tree_node_free A F (Some a) (N, freed) =
      Some (((\<lambda>b. if under view (bt_nodes t) a b then None else N b), freed'), Inr ()) \<and>
    mset freed' = mset freed + (\<Sum>b | under view (bt_nodes t) a b. node_descriptors view (bt_nodes t) b)"
  using assms(4,5)
proof (induction "bt_next t - a" arbitrary: a N freed rule: less_induct)
  case less
  let ?U = "under view (bt_nodes t)" and ?v = "node_descriptors view (bt_nodes t)"
  obtain n where n: "bt_nodes t a = Some n" using tree_ownedD(3) [OF owned] less.prems(1) by blast
  have Na: "N a = Some n" using less.prems(2) [OF under_self] n by simp
  have ok: "entries_ok view a (bt_next t) n" by (rule tree_ownedD(4) [OF owned n])
  show ?case
  proof (cases "node_is_leaf_node n = 0")
    case False
    then have "\<not> has_sub_node view (bt_nodes t) a i c" for i c using n by (auto simp: has_sub_node_def)
    then have alone: "?U a b \<longleftrightarrow> b = a" for b using under_first [of view "bt_nodes t" a b] by auto
    have "free_entries free_leaf_value (view (node_sub_nodes_array n)) (N, freed) =
        ((N, freed @ leaf_values (view (node_sub_nodes_array n))), True)"
      by (rule free_leaf_values) (use ok False in \<open>simp add: entries_ok_def\<close>)
    moreover have "N(a := None) = (\<lambda>b. if ?U a b then None else N b)" by (auto simp: alone)
    moreover have "Collect (?U a) = {a}" by (auto simp: alone)
    ultimately show ?thesis
      using False Na n assms(2)
      by (simp add: libfsfat_block_tree_node_free.simps [of A F "Some a"] free_contract_def node_descriptors_def)
  next
    case True
    let ?step = "\<lambda>sub_node_index s.
      (case array_get_entry_by_index A (node_sub_nodes_array n) sub_node_index of
         None \<Rightarrow> Some (s, Inl RUNTIME_GET_FAILED)
       | Some sub_node \<Rightarrow>
           (case sub_node of
              None \<Rightarrow> Some (s, Inr ())
            | Some entry \<Rightarrow>
                (case entry of
                   Leaf_Value _ \<Rightarrow> Some (s, Inl MEMORY_FAULT)
                 | Sub_Node sub_node \<Rightarrow>
                     Option.bind (libfsfat_block_tree_node_free A F (Some sub_node) s) sub_node_freed)))"
    have len: "length (view (node_sub_nodes_array n)) = 256" using ok by (simp add: entries_ok_def)
    have get: "array_get_entry_by_index A (node_sub_nodes_array n) (int i) =
        Some (view (node_sub_nodes_array n) ! i)" if "i < 256" for i
      using that len by (simp add: array_get [OF assms(1)])
    obtain freed' where loop: "each_sub_node ?step (map int [0..<256]) (N, freed) =
        Some (((\<lambda>b. if under_entries view (bt_nodes t) a (set [0..<256]) b then None else N b), freed'), Inr ())"
      and freed': "mset freed' = mset freed +
        (\<Sum>b | under_entries view (bt_nodes t) a (set [0..<256]) b. ?v b)"
    proof (rule exE [OF each_sub_node_freed [OF owned, where step = ?step and a = a and js = "[0..<256]" and N = N and freed = freed]])
      fix i c N freed
      assume e: "has_sub_node view (bt_nodes t) a i c" and same: "\<And>b. ?U c b \<Longrightarrow> N b = bt_nodes t b"
      then have i: "i < 256" "view (node_sub_nodes_array n) ! i = Some (Sub_Node c)"
        using n by (auto simp: has_sub_node_def)
      have c: "a < c" "c < bt_next t" using has_sub_node_less [OF owned e] by simp_all
      then have "bt_next t - c < bt_next t - a" by simp
      from less.hyps [OF this c(2) same, of freed]
      show "\<exists>freed'. ?step (int i) (N, freed) =
          Some (((\<lambda>b. if ?U c b then None else N b), freed'), Inr ()) \<and>
        mset freed' = mset freed + (\<Sum>b | ?U c b. ?v b)"
        using get [OF i(1)] i(2) by (auto simp: sub_node_freed_def)
    next
      fix i N freed
      assume i: "i < 256" and no: "\<nexists>c. has_sub_node view (bt_nodes t) a i c"
      have "view (node_sub_nodes_array n) ! i = None"
      proof (rule ccontr)
        assume "view (node_sub_nodes_array n) ! i \<noteq> None"
        then obtain e where e: "view (node_sub_nodes_array n) ! i = Some e" by blast
        then have "Some e \<in> set (view (node_sub_nodes_array n))" using i len by (metis nth_mem)
        then obtain b where "e = Sub_Node b" using ok True by (auto simp: entries_ok_def)
        then show False using no n True i e by (auto simp: has_sub_node_def)
      qed
      then show "?step (int i) (N, freed) = Some ((N, freed), Inr ())" using get [OF i] by simp
    qed (use less.prems(2) under_entries_all [of view "bt_nodes t" a] in \<open>auto simp: lessThan_atLeast0\<close>)
    let ?E = "under_entries view (bt_nodes t) a (set [0..<256])"
    have all: "?U a b \<longleftrightarrow> b = a \<or> ?E b" for b
      using under_entries_all [of view "bt_nodes t" a b] by (simp add: lessThan_atLeast0)
    have below: "a < b" if "?E b" for b
      using that has_sub_node_less(1) [OF owned] under_le [OF _ owned]
      unfolding under_entries_def by (meson order_less_le_trans)
    have "Collect (?U a) = insert a (Collect ?E)" using all by auto
    moreover have "finite (Collect ?E)"
      by (rule finite_subset [OF _ finite_under [OF owned less.prems(1)]]) (use all in auto)
    moreover have "?v a = {#}"
      using n ok True branch_values [of "view (node_sub_nodes_array n)" "\<lambda>b. a < b \<and> b < bt_next t"]
      by (simp add: node_descriptors_def entries_ok_def)
    ultimately have total: "(\<Sum>b | ?U a b. ?v b) = (\<Sum>b | ?E b. ?v b)"
      using below by (metis add_0 mem_Collect_eq order_less_irrefl sum.insert)
    have store: "(\<lambda>b. if ?E b then None else N b)(a := None) = (\<lambda>b. if ?U a b then None else N b)"
      using all by auto
    have "[0..255] = map int [0..<256]" by (rule nth_equalityI) (simp_all add: nth_upto)
    then have "libfsfat_block_tree_node_free A F (Some a) (N, freed) =
        Some ((((\<lambda>b. if ?E b then None else N b)(a := None)), freed'), Inr ())"
      using Na True loop assms(2)
      by (simp add: libfsfat_block_tree_node_free.simps [of A F "Some a"] free_contract_def sub_nodes_array_freed_def
          del: set_upt)
    then show ?thesis using freed' total unfolding store by simp
  qed
qed

section \<open>Insertions keep the ownership\<close>

definition tree_descriptors ::
  "('arr \<Rightarrow> node_entry option list) \<Rightarrow> 'arr block_tree \<Rightarrow> block_descriptor multiset" where
  "tree_descriptors view t = (\<Sum>b<bt_next t. node_descriptors view (bt_nodes t) b)"

lemma leaf_values_parts:
  "leaf_values (xs @ x # ys) = leaf_values xs @ leaf_values [x] @ leaf_values ys"
  by (simp add: leaf_values_def)

lemma leaf_values_set:
  assumes "i < length es" and "es ! i = None"
  shows "mset (leaf_values (es[i := Some e])) =
    mset (leaf_values es) + (case e of Leaf_Value d \<Rightarrow> {#d#} | Sub_Node _ \<Rightarrow> {#})"
proof -
  have "es = take i es @ None # drop (Suc i) es" using id_take_nth_drop [OF assms(1)] assms(2) by simp
  moreover have "es[i := Some e] = take i es @ Some e # drop (Suc i) es" by (rule upd_conv_take_nth_drop [OF assms(1)])
  ultimately show ?thesis
    using leaf_values_parts [of "take i es" None "drop (Suc i) es"]
      leaf_values_parts [of "take i es" "Some e" "drop (Suc i) es"]
    by (simp add: leaf_values_def split: node_entry.split)
qed

lemma new_node_entries:
  assumes "array_contract A view" and "libfsfat_block_tree_node_initialize A None offset size0 leaf_value_size = Inr n"
  shows "view (node_sub_nodes_array n) = replicate 256 None"
  using assms(2) array_initialized [OF assms(1)]
  by (auto simp: libfsfat_block_tree_node_initialize_def Let_def split: if_splits option.splits)

lemma initialize_owned:
  assumes "array_contract A view" and "libfsfat_block_tree_initialize A None size0 leaf_value_size = Inr t"
  shows "tree_owned view t" and "tree_descriptors view t = {#}"
proof -
  obtain n where n: "libfsfat_block_tree_node_initialize A None 0 size0 leaf_value_size = Inr n"
    and t: "t = \<lparr> bt_root_node = 0, bt_leaf_value_size = leaf_value_size, bt_nodes = [0 \<mapsto> n], bt_next = 1 \<rparr>"
    using assms(2) by (auto simp: libfsfat_block_tree_initialize_def split: sum.splits)
  note entries = new_node_entries [OF assms(1) n]
  show "tree_owned view t"
    using entries by (auto simp: t tree_owned_def entries_ok_def has_sub_node_def)
  show "tree_descriptors view t = {#}"
    using entries by (simp add: t tree_descriptors_def node_descriptors_def leaf_values_def)
qed

lemma create_sub_node_parts:
  assumes "create_sub_node A t offset a n = Inr (t', b)"
  obtains m n' where "libfsfat_block_tree_node_initialize A None
        (node_start_offset n + (offset - node_start_offset n) div node_sub_node_size n * node_sub_node_size n)
        (node_sub_node_size n) (bt_leaf_value_size t) = Inr m"
    and "libfsfat_block_tree_node_set_sub_node_at_offset A (Some n) offset (bt_next t) = Inr n'"
    and "t' = t\<lparr> bt_nodes := (bt_nodes t)(bt_next t \<mapsto> m, a \<mapsto> n'), bt_next := Suc (bt_next t) \<rparr>"
    and "b = bt_next t"
proof -
  let ?m = "libfsfat_block_tree_node_initialize A None
        (node_start_offset n + (offset - node_start_offset n) div node_sub_node_size n * node_sub_node_size n)
        (node_sub_node_size n) (bt_leaf_value_size t)"
  let ?s = "libfsfat_block_tree_node_set_sub_node_at_offset A (Some n) offset (bt_next t)"
  note create = assms [unfolded create_sub_node_def Let_def]
  obtain m where m: "?m = Inr m" using create by (cases ?m) simp_all
  obtain n' where n': "?s = Inr n'" using create m by (cases ?s) simp_all
  show thesis by (rule that [OF m n']) (use create m n' in auto)
qed

text \<open>A new sub node takes a free entry of its parent.\<close>

lemma sub_node_entry_shape:
  assumes contract: "array_contract A view" and ok: "entries_ok view a k n"
    and get: "libfsfat_block_tree_node_get_sub_node_at_offset A (Some n) offset = Inr None"
    and set: "libfsfat_block_tree_node_set_sub_node_at_offset A (Some n) offset c = Inr n'"
  obtains i where "i < 256" and "view (node_sub_nodes_array n) ! i = None"
    and "view (node_sub_nodes_array n') = (view (node_sub_nodes_array n))[i := Some (Sub_Node c)]"
    and "node_is_leaf_node n = 0" and "node_is_leaf_node n' = 0"
proof -
  let ?es = "view (node_sub_nodes_array n)"
  have len: "length ?es = 256" using ok by (simp add: entries_ok_def)
  obtain j where j: "node_is_leaf_node n = 0" "node_entry_index n offset = Inr j"
    "array_get_entry_by_index A (node_sub_nodes_array n) j = Some None"
    using get by (auto simp: libfsfat_block_tree_node_get_sub_node_at_offset_def
      split: if_splits sum.splits option.splits node_entry.splits)
  then have i: "0 \<le> j" "nat j < length ?es" "?es ! nat j = None"
    using len by (auto simp: array_get [OF contract] split: if_splits)
  obtain arr where arr: "array_set_entry_by_index A (node_sub_nodes_array n) j (Some (Sub_Node c)) = Some arr"
    "view arr = ?es[nat j := Some (Sub_Node c)]"
    by (rule array_set [OF contract i(1,2)])
  have "n' = n\<lparr> node_sub_nodes_array := arr \<rparr>"
    using set j arr(1) by (simp add: libfsfat_block_tree_node_set_sub_node_at_offset_def)
  then show ?thesis using that [of "nat j"] i len arr(2) j(1) by simp
qed

lemma leaf_entry_shape:
  assumes contract: "array_contract A view" and ok: "entries_ok view a k n"
    and get: "libfsfat_block_tree_node_get_leaf_value_at_offset A (Some n) offset = Inr (None, block_offset)"
    and set: "libfsfat_block_tree_node_set_leaf_value_at_offset A (Some n) offset d = Inr n'"
  obtains i where "i < 256" and "view (node_sub_nodes_array n) ! i = None"
    and "view (node_sub_nodes_array n') = (view (node_sub_nodes_array n))[i := Some (Leaf_Value d)]"
    and "node_is_leaf_node n \<noteq> 0" and "node_is_leaf_node n' \<noteq> 0"
proof -
  let ?es = "view (node_sub_nodes_array n)"
  have len: "length ?es = 256" using ok by (simp add: entries_ok_def)
  obtain j where j: "node_is_leaf_node n \<noteq> 0" "node_entry_index n offset = Inr j"
    "array_get_entry_by_index A (node_sub_nodes_array n) j = Some None"
    using get by (auto simp: libfsfat_block_tree_node_get_leaf_value_at_offset_def Let_def
      split: if_splits sum.splits option.splits node_entry.splits)
  then have i: "0 \<le> j" "nat j < length ?es" "?es ! nat j = None"
    using len by (auto simp: array_get [OF contract] split: if_splits)
  obtain arr where arr: "array_set_entry_by_index A (node_sub_nodes_array n) j (Some (Leaf_Value d)) = Some arr"
    "view arr = ?es[nat j := Some (Leaf_Value d)]"
    by (rule array_set [OF contract i(1,2)])
  have "n' = n\<lparr> node_sub_nodes_array := arr \<rparr>"
    using set j arr(1) by (simp add: libfsfat_block_tree_node_set_leaf_value_at_offset_def)
  then show ?thesis using that [of "nat j"] i len arr(2) j(1) by simp
qed

lemma entries_ok_set:
  assumes "entries_ok view a k n" and "k \<le> k'"
    and "view (node_sub_nodes_array n') = (view (node_sub_nodes_array n))[i := Some e]"
    and "(node_is_leaf_node n' = 0) = (node_is_leaf_node n = 0)"
    and "if node_is_leaf_node n \<noteq> 0 then \<exists>d. e = Leaf_Value d else \<exists>b. e = Sub_Node b \<and> a < b \<and> b < k'"
  shows "entries_ok view a k' n'"
proof -
  have "Some x \<in> set (view (node_sub_nodes_array n)) \<or> x = e" if "Some x \<in> set (view (node_sub_nodes_array n'))" for x
    using that set_update_subset_insert [of "view (node_sub_nodes_array n)" i "Some e"] unfolding assms(3) by auto
  then show ?thesis
    using assms(1,2,4,5) unfolding entries_ok_def assms(3) by (auto split: if_splits) (metis order_less_le_trans)+
qed

lemma entries_ok_mono: "entries_ok view a k n \<Longrightarrow> k \<le> k' \<Longrightarrow> entries_ok view a k' n"
  unfolding entries_ok_def by (metis order_less_le_trans)

text \<open>What the insertion of a fresh node \<open>m\<close> under \<open>a\<close> does to the pointers.\<close>

lemma sub_node_added:
  assumes owned: "tree_owned view t" and n: "bt_nodes t a = Some n"
    and i: "i < 256" and none: "view (node_sub_nodes_array n) ! i = None"
    and set: "view (node_sub_nodes_array n') = (view (node_sub_nodes_array n))[i := Some (Sub_Node (bt_next t))]"
    and branch: "node_is_leaf_node n = 0" "node_is_leaf_node n' = 0"
    and new: "view (node_sub_nodes_array m) = replicate 256 None"
    and nodes: "nodes = (bt_nodes t)(bt_next t \<mapsto> m, a \<mapsto> n')"
  shows "has_sub_node view nodes x j c \<longleftrightarrow>
      has_sub_node view (bt_nodes t) x j c \<or> x = a \<and> j = i \<and> c = bt_next t"
    and "nodes x = Some k \<Longrightarrow> entries_ok view x (Suc (bt_next t)) k"
    and "x < bt_next t \<Longrightarrow> node_descriptors view nodes x = node_descriptors view (bt_nodes t) x"
    and "node_descriptors view nodes (bt_next t) = {#}"
proof -
  have ok: "entries_ok view a (bt_next t) n" by (rule tree_ownedD(4) [OF owned n])
  then have len: "length (view (node_sub_nodes_array n)) = 256" by (simp add: entries_ok_def)
  have a: "a < bt_next t" using tree_ownedD(3) [OF owned] n by blast
  have fresh: "bt_nodes t (bt_next t) = None" using tree_ownedD(3) [OF owned] by blast
  have at: "nodes a = Some n'" "nodes (bt_next t) = Some m" "x \<noteq> a \<Longrightarrow> x \<noteq> bt_next t \<Longrightarrow> nodes x = bt_nodes t x" for x
    using a by (simp_all add: nodes)
  consider "x = a" | "x = bt_next t" | "x \<noteq> a" "x \<noteq> bt_next t" by blast
  then show "has_sub_node view nodes x j c \<longleftrightarrow>
      has_sub_node view (bt_nodes t) x j c \<or> x = a \<and> j = i \<and> c = bt_next t"
  proof cases
    case 1
    then show ?thesis using at(1) set branch n i none len by (cases "j = i") (auto simp: has_sub_node_def)
  next
    case 2
    then show ?thesis using at(2) fresh new a by (auto simp: has_sub_node_def)
  next
    case 3
    then show ?thesis using at(3) by (simp add: has_sub_node_def)
  qed
  show "entries_ok view x (Suc (bt_next t)) k" if k: "nodes x = Some k"
  proof -
    consider "x = a" | "x = bt_next t" | "x \<noteq> a" "x \<noteq> bt_next t" by blast
    then show ?thesis
    proof cases
      case 1
      then show ?thesis
        using k at(1) entries_ok_set [OF ok _ set, of "Suc (bt_next t)"] branch a by simp
    next
      case 2
      then show ?thesis using k at(2) new by (simp add: entries_ok_def)
    next
      case 3
      then show ?thesis using k at(3) entries_ok_mono [OF tree_ownedD(4) [OF owned]] by simp
    qed
  qed
  show "node_descriptors view nodes x = node_descriptors view (bt_nodes t) x" if "x < bt_next t"
    using that at n leaf_values_set [of i "view (node_sub_nodes_array n)" "Sub_Node (bt_next t)"] i none len set
    by (cases "x = a") (simp_all add: node_descriptors_def)
  show "node_descriptors view nodes (bt_next t) = {#}"
    using at(2) new by (simp add: node_descriptors_def leaf_values_def)
qed

lemma create_sub_node_owned:
  assumes contract: "array_contract A view" and owned: "tree_owned view t"
    and n: "bt_nodes t a = Some n"
    and get: "libfsfat_block_tree_node_get_sub_node_at_offset A (Some n) offset = Inr None"
    and create: "create_sub_node A t offset a n = Inr (t', b)"
  shows "tree_owned view t'" and "tree_descriptors view t' = tree_descriptors view t"
proof -
  obtain m n' where m: "libfsfat_block_tree_node_initialize A None
        (node_start_offset n + (offset - node_start_offset n) div node_sub_node_size n * node_sub_node_size n)
        (node_sub_node_size n) (bt_leaf_value_size t) = Inr m"
    and n': "libfsfat_block_tree_node_set_sub_node_at_offset A (Some n) offset (bt_next t) = Inr n'"
    and t': "t' = t\<lparr> bt_nodes := (bt_nodes t)(bt_next t \<mapsto> m, a \<mapsto> n'), bt_next := Suc (bt_next t) \<rparr>" and "b = bt_next t"
    by (rule create_sub_node_parts [OF create])
  obtain i where i: "i < 256" "view (node_sub_nodes_array n) ! i = None"
    "view (node_sub_nodes_array n') = (view (node_sub_nodes_array n))[i := Some (Sub_Node (bt_next t))]"
    "node_is_leaf_node n = 0" "node_is_leaf_node n' = 0"
    by (rule sub_node_entry_shape [OF contract tree_ownedD(4) [OF owned n] get n'])
  have nodes: "bt_nodes t' = (bt_nodes t)(bt_next t \<mapsto> m, a \<mapsto> n')" and next': "bt_next t' = Suc (bt_next t)"
    and root: "bt_root_node t' = 0"
    using tree_ownedD(1) [OF owned] by (simp_all add: t')
  note added = sub_node_added [OF owned n i new_node_entries [OF contract m] nodes]
  have a: "a < bt_next t" using tree_ownedD(3) [OF owned] n by blast
  show "tree_owned view t'"
  proof (rule tree_ownedI)
    show "bt_root_node t' = 0" "0 < bt_next t'" using root next' by simp_all
    show "dom (bt_nodes t') = {..<bt_next t'}" using tree_ownedD(3) [OF owned] a unfolding nodes next' by auto
    show "entries_ok view x (bt_next t') k" if "bt_nodes t' x = Some k" for x k
      using added(2) [OF that] by (simp add: next')
    show "\<exists>x j. has_sub_node view (bt_nodes t') x j c" if "0 < c" "c < bt_next t'" for c
      using tree_ownedD(5) [OF owned that(1)] that(2) unfolding added(1) next' less_Suc_eq by blast
    show "x = x' \<and> j = j'"
      if "has_sub_node view (bt_nodes t') x j c" "has_sub_node view (bt_nodes t') x' j' c" for x j x' j' c
      using that tree_ownedD(6) [OF owned, of x j c x' j'] has_sub_node_less(2) [OF owned, of _ _ c]
      unfolding added(1) by blast
  qed
  show "tree_descriptors view t' = tree_descriptors view t"
    using added(3,4) by (simp add: next' tree_descriptors_def lessThan_Suc)
qed

lemma find_or_create_leaf_owned:
  assumes "array_contract A view" and "find_or_create_leaf A t offset a = Some (Inr p)"
    and "tree_owned view t"
  shows "tree_owned view (fst p)" and "tree_descriptors view (fst p) = tree_descriptors view t"
proof -
  let ?keeps = "\<lambda>t t'. tree_owned view t' \<and> tree_descriptors view t' = tree_descriptors view t"
  have "array_contract A view \<longrightarrow> tree_owned view t \<longrightarrow> (\<forall>p'. (Inr p :: _ result) = Inr p' \<longrightarrow> ?keeps t (fst p'))"
  proof (rule find_or_create_leaf.raw_induct [where P = "\<lambda>A t offset a y.
        array_contract A view \<longrightarrow> tree_owned view t \<longrightarrow> (\<forall>p'. y = Inr p' \<longrightarrow> ?keeps t (fst p'))",
        OF _ assms(2)], intro impI allI)
    fix rec A t offset a y p'
    assume IH: "\<And>A t offset a y. rec A t offset a = Some y \<Longrightarrow>
        array_contract A view \<longrightarrow> tree_owned view t \<longrightarrow> (\<forall>p'. y = Inr p' \<longrightarrow> ?keeps t (fst p'))"
      and contract: "array_contract A view" and owned: "tree_owned view t" and y: "y = Inr p'"
      and step: "(case bt_nodes t a of
          None \<Rightarrow> Some (Inl MEMORY_FAULT)
        | Some node \<Rightarrow>
            if node_is_leaf_node node \<noteq> 0 then Some (Inr (t, a))
            else (case libfsfat_block_tree_node_get_sub_node_at_offset A (Some node) offset of
                    Inl e \<Rightarrow> Some (Inl RUNTIME_GET_FAILED)
                  | Inr None \<Rightarrow>
                      (case create_sub_node A t offset a node of
                         Inl e \<Rightarrow> Some (Inl e)
                       | Inr p \<Rightarrow> rec A (fst p) offset (snd p))
                  | Inr (Some sub_node) \<Rightarrow> rec A t offset sub_node)) = Some y"
    let ?get = "\<lambda>n. libfsfat_block_tree_node_get_sub_node_at_offset A (Some n) offset"
    obtain n where n: "bt_nodes t a = Some n" using step y by (cases "bt_nodes t a") simp_all
    show "?keeps t (fst p')"
    proof (cases "node_is_leaf_node n \<noteq> 0")
      case True
      then show ?thesis using step n y owned by auto
    next
      case False
      then obtain r where get: "?get n = Inr r" using step n y by (cases "?get n") simp_all
      show ?thesis
      proof (cases r)
        case None
        then obtain t1 b where create: "create_sub_node A t offset a n = Inr (t1, b)"
          using step n y False get by (cases "create_sub_node A t offset a n") auto
        note kept = create_sub_node_owned [OF contract owned n get [unfolded None] create]
        have "rec A t1 offset b = Some y" using step n False get None create by simp
        from IH [OF this, rule_format, OF contract kept(1) y] show ?thesis using kept(2) by simp
      next
        case (Some b)
        then have "rec A t offset b = Some y" using step n False get by simp
        from IH [OF this, rule_format, OF contract owned y] show ?thesis .
      qed
    qed
  qed
  then show "tree_owned view (fst p)" and "tree_descriptors view (fst p) = tree_descriptors view t"
    using assms by blast+
qed

lemma leaf_value_added:
  assumes owned: "tree_owned view t" and n: "bt_nodes t a = Some n"
    and i: "i < 256" and none: "view (node_sub_nodes_array n) ! i = None"
    and set: "view (node_sub_nodes_array n') = (view (node_sub_nodes_array n))[i := Some (Leaf_Value d)]"
    and leaf: "node_is_leaf_node n \<noteq> 0" "node_is_leaf_node n' \<noteq> 0"
  shows "tree_owned view (t\<lparr> bt_nodes := (bt_nodes t)(a \<mapsto> n') \<rparr>)" (is "tree_owned view ?t")
    and "tree_descriptors view (t\<lparr> bt_nodes := (bt_nodes t)(a \<mapsto> n') \<rparr>) = add_mset d (tree_descriptors view t)"
proof -
  have ok: "entries_ok view a (bt_next t) n" by (rule tree_ownedD(4) [OF owned n])
  then have len: "length (view (node_sub_nodes_array n)) = 256" by (simp add: entries_ok_def)
  have a: "a < bt_next t" using tree_ownedD(3) [OF owned] n by blast
  have same: "has_sub_node view (bt_nodes ?t) x j c \<longleftrightarrow> has_sub_node view (bt_nodes t) x j c" for x j c
    using n leaf by (cases "x = a") (auto simp: has_sub_node_def)
  show "tree_owned view ?t"
  proof (rule tree_ownedI)
    show "bt_root_node ?t = 0" "0 < bt_next ?t" "dom (bt_nodes ?t) = {..<bt_next ?t}"
      using tree_ownedD(1-3) [OF owned] a by auto
    show "entries_ok view x (bt_next ?t) k" if "bt_nodes ?t x = Some k" for x k
      using that tree_ownedD(4) [OF owned, of x k] entries_ok_set [OF ok order_refl set] leaf
      by (cases "x = a") simp_all
    show "\<exists>x j. has_sub_node view (bt_nodes ?t) x j c" if "0 < c" "c < bt_next ?t" for c
      using tree_ownedD(5) [OF owned that(1)] that(2) unfolding same by simp
    show "x = x' \<and> j = j'"
      if "has_sub_node view (bt_nodes ?t) x j c" "has_sub_node view (bt_nodes ?t) x' j' c" for x j x' j' c
      using that unfolding same by (rule tree_ownedD(6) [OF owned])
  qed
  let ?v = "node_descriptors view"
  have here: "?v (bt_nodes ?t) a = add_mset d (?v (bt_nodes t) a)"
    using n set leaf_values_set [OF _ none] i len by (simp add: node_descriptors_def)
  have others: "?v (bt_nodes ?t) x = ?v (bt_nodes t) x" if "x \<noteq> a" for x
    using that by (simp add: node_descriptors_def)
  have part: "(\<Sum>b<bt_next t. f b) = f a + (\<Sum>b \<in> {..<bt_next t} - {a}. f b)" for f :: "nat \<Rightarrow> block_descriptor multiset"
    using a by (simp add: sum.remove)
  have rest: "(\<Sum>b \<in> {..<bt_next t} - {a}. ?v (bt_nodes ?t) b) = (\<Sum>b \<in> {..<bt_next t} - {a}. ?v (bt_nodes t) b)"
    by (rule sum.cong) (use others in auto)
  have "tree_descriptors view ?t = (\<Sum>b<bt_next t. ?v (bt_nodes ?t) b)"
    unfolding tree_descriptors_def by simp
  also have "\<dots> = add_mset d (tree_descriptors view t)"
    unfolding tree_descriptors_def part here rest by simp
  finally show "tree_descriptors view ?t = add_mset d (tree_descriptors view t)" .
qed

lemma insert_owned:
  assumes contract: "array_contract A view" and owned: "tree_owned view t"
    and insert: "tree_insert A t offset d = Some (t', new)"
  shows "tree_owned view t'"
    and "tree_descriptors view t' = (if new then add_mset d (tree_descriptors view t) else tree_descriptors view t)"
proof -
  let ?find = "find_or_create_leaf A t offset (bt_root_node t)"
  obtain t1 l where find: "?find = Some (Inr (t1, l))"
    using insert by (cases ?find)
      (auto simp: tree_insert_def libfsfat_block_tree_insert_block_descriptor_by_offset_def split: sum.splits)
  let ?get = "libfsfat_block_tree_node_get_leaf_value_at_offset A (bt_nodes t1 l) offset"
    and ?set = "libfsfat_block_tree_node_set_leaf_value_at_offset A (bt_nodes t1 l) offset d"
  have kept: "tree_owned view t1" "tree_descriptors view t1 = tree_descriptors view t"
    using find_or_create_leaf_owned [OF contract find owned] by simp_all
  obtain existing o' where get: "?get = Inr (existing, o')"
    using insert find by (cases ?get)
      (auto simp: tree_insert_def libfsfat_block_tree_insert_block_descriptor_by_offset_def)
  let ?concl = "tree_owned view t' \<and>
    tree_descriptors view t' = (if new then add_mset d (tree_descriptors view t) else tree_descriptors view t)"
  have ?concl
  proof (cases existing)
    case (Some e)
    then have "t' = t1" "\<not> new"
      using insert find get
      by (simp_all add: tree_insert_def libfsfat_block_tree_insert_block_descriptor_by_offset_def)
    then show ?concl
      using kept by simp_all
  next
    case None
    then obtain n' where n': "?set = Inr n'"
      using insert find get by (cases ?set)
        (auto simp: tree_insert_def libfsfat_block_tree_insert_block_descriptor_by_offset_def)
    then have t': "t' = t1\<lparr> bt_nodes := (bt_nodes t1)(l \<mapsto> n') \<rparr>" "new"
      using insert find get None
      by (simp_all add: tree_insert_def libfsfat_block_tree_insert_block_descriptor_by_offset_def)
    obtain n where n: "bt_nodes t1 l = Some n"
      using n' by (cases "bt_nodes t1 l") (simp_all add: libfsfat_block_tree_node_set_leaf_value_at_offset_def)
    obtain i where i: "i < 256" "view (node_sub_nodes_array n) ! i = None"
      "view (node_sub_nodes_array n') = (view (node_sub_nodes_array n))[i := Some (Leaf_Value d)]"
      "node_is_leaf_node n \<noteq> 0" "node_is_leaf_node n' \<noteq> 0"
      by (rule leaf_entry_shape [OF contract tree_ownedD(4) [OF kept(1) n]
        get [unfolded None n] n' [unfolded n]])
    show ?concl
      using leaf_value_added [OF kept(1) n i] t' kept(2) by simp_all
  qed
  then show "tree_owned view t'" and "tree_descriptors view t' = (if new then add_mset d (tree_descriptors view t) else tree_descriptors view t)"
    by simp_all
qed

lemma insert_blocks_owned:
  assumes contract: "array_contract A view"
  shows "insert_blocks A t xs = Some (t', news) \<Longrightarrow> tree_owned view t \<Longrightarrow>
    tree_owned view t' \<and> tree_descriptors view t' =
      tree_descriptors view t + replicate_mset (count_list news True) \<lparr> bd_cluster_number = 0 \<rparr>"
proof (induction xs arbitrary: t news)
  case (Cons x xs)
  obtain t1 new news1 where first: "tree_insert A t x \<lparr> bd_cluster_number = 0 \<rparr> = Some (t1, new)"
    and rest: "insert_blocks A t1 xs = Some (t', news1)" and news: "news = new # news1"
    using Cons.prems(1) by (auto split: option.splits prod.splits)
  show ?case
    using Cons.IH [OF rest insert_owned(1) [OF contract Cons.prems(2) first]]
      insert_owned(2) [OF contract Cons.prems(2) first]
    by (simp add: news)
qed simp

section \<open>Properties\<close>

text \<open>
  C13. Releasing a block tree leaks nothing and releases nothing twice. After any sequence of blocks has
  been inserted into a new tree, the free function succeeds, leaves no node in the memory of the
  tree, and has released one descriptor for each block that was reported as new. If
  a node were reached twice or not at all, the function would run into a node that is not in
  the memory, or leave one there.
\<close>

theorem block_tree_freed:
  assumes "array_contract A view" and "free_contract F view"
    and "libfsfat_block_tree_initialize A None size0 leaf_value_size = Inr t"
    and "insert_blocks A t offsets = Some (t', news)"
  shows "\<exists>freed. libfsfat_block_tree_free A F (Some t') = Some ((Map.empty, freed), Inr ()) \<and>
    mset freed = replicate_mset (count_list news True) \<lparr> bd_cluster_number = 0 \<rparr>"
proof -
  have owned: "tree_owned view t'"
    and total: "tree_descriptors view t' = replicate_mset (count_list news True) \<lparr> bd_cluster_number = 0 \<rparr>"
    using insert_blocks_owned [OF assms(1,4)] initialize_owned [OF assms(1,3)] by simp_all
  have under: "under view (bt_nodes t') 0 b \<longleftrightarrow> b < bt_next t'" for b
    using under_root [OF owned] under_less [OF _ owned tree_ownedD(2) [OF owned]] by blast
  obtain freed where free: "libfsfat_block_tree_node_free A F (Some 0) (bt_nodes t', []) =
      Some (((\<lambda>b. if b < bt_next t' then None else bt_nodes t' b), freed), Inr ())"
    and freed: "mset freed = (\<Sum>b<bt_next t'. node_descriptors view (bt_nodes t') b)"
    using node_freed [OF assms(1,2) owned tree_ownedD(2) [OF owned], of "bt_nodes t'" "[]"]
    by (auto simp: under lessThan_def)
  have "(\<lambda>b. if b < bt_next t' then None else bt_nodes t' b) = Map.empty"
    using tree_ownedD(3) [OF owned] by (auto intro!: ext)
  then show ?thesis
    using free freed total tree_ownedD(1) [OF owned]
    by (simp add: libfsfat_block_tree_free_def tree_descriptors_def)
qed

definition list_free :: "(node_entry option list, node_entry, node_entry option list tree_memory) free_array" where
  "list_free arr f s = (case f of None \<Rightarrow> (s, True) | Some g \<Rightarrow> free_entries g arr s)"

lemma list_free_contract: "free_contract list_free (\<lambda>a. a)"
  by (simp add: free_contract_def list_free_def)

text \<open>Three blocks of the tree of the witnesses, the third one seen before.\<close>

theorem block_tree_freed_witness:
  "\<exists>t t' freed. libfsfat_block_tree_initialize list_array None 0x100000 512 = Inr t \<and>
    insert_blocks list_array t [0x200, 0x80000, 0x3ff] = Some (t', [True, True, False]) \<and>
    libfsfat_block_tree_free list_array list_free (Some t') = Some ((Map.empty, freed), Inr ()) \<and>
    mset freed = {# \<lparr> bd_cluster_number = 0 \<rparr>, \<lparr> bd_cluster_number = 0 \<rparr> #}"
proof -
  let ?t = witness_tree and ?xs = "[0x200, 0x80000, 0x3ff] :: off64 list"
  obtain t where "libfsfat_block_tree_initialize list_array None 0x100000 512 = Inr t"
    by (rule tree_initialize_ok [OF list_array_contract, of "0x100000" 512]) simp_all
  then have init: "libfsfat_block_tree_initialize list_array None 0x100000 512 = Inr ?t"
    by (simp add: witness_tree_def)
  have range: "\<forall>x \<in> set ?xs. tree_range ?t x" by (simp add: witness_tree_ok(2))
  have "block_map.visited tree_range tree_key (tree_lookup list_array) ?t = {}"
    using witness_tree_ok(3) by (auto simp: block_tree.visited_def)
  then obtain t' where blocks: "insert_blocks list_array ?t ?xs = Some (t', [True, True, False])"
    using insert_blocks_first_visits [OF witness_tree_ok(1) range]
    by (auto simp: block_tree.first_visits.simps witness_tree_ok(4))
  have two: "count_list [True, True, False] True = 2" by simp
  show ?thesis
    using block_tree_freed [OF list_array_contract list_free_contract init blocks] init blocks
    unfolding two by (auto simp: numeral_2_eq_2)
qed

end
