(* ===== verification/Py_Object.thy ===== *)
theory Py_Object
  imports Prelude
begin

text \<open>
  What the Python bindings under \<^verbatim>\<open>pyfsfat\<close> use of Python, and their conversions of
  integers, \<^verbatim>\<open>pyfsfat/pyfsfat_integer.c\<close>. Python itself is not part of the sources: its
  objects and the functions on them are parameters, and the contract says what its
  documentation promises of them. The model is of Python 3.
\<close>

section \<open>Exceptions and objects\<close>

text \<open>
  The exceptions that the bindings raise, and the one that a call of Python leaves behind. A
  function that returns \<open>NULL\<close> with an exception is \<open>Inl\<close> of the exception.
\<close>

datatype py_exception =
    PyExc_ValueError
  | PyExc_IOError
  | PyExc_TypeError
  | PyExc_MemoryError
  | PyExc_RuntimeError
  | PyExc_OverflowError
  | PyExc_NotImplementedError
  | PyExc_StopIteration
  | PyExc_raised

type_synonym 'a py_result = "py_exception + 'a"

datatype py_type = PyLong_Type | PyBytes_Type | PyUnicode_Type

text \<open>
  The functions of Python on objects that do not run code of the user. \<open>None\<close> is the result
  -1 or \<open>NULL\<close> together with an exception.
\<close>

record 'o python =
  py_none :: 'o
  py_is_instance :: "'o \<Rightarrow> py_type \<Rightarrow> bool option"
  py_long_from :: "int \<Rightarrow> 'o"
  py_long_as_long_long :: "'o \<Rightarrow> int option"
  py_long_as_unsigned_long_long :: "'o \<Rightarrow> int option"
  py_bytes_from_string :: "u8 list \<Rightarrow> 'o"
  py_bytes_as_string :: "'o \<Rightarrow> u8 list option"
  py_unicode_decode_utf8 :: "u8 list \<Rightarrow> 'o option"
  py_unicode_as_utf8 :: "'o \<Rightarrow> u8 list option"

text \<open>
  What the documentation of Python says of them: an integer or a string of bytes is an
  instance of its type and of no other of the three, and gives back its value where the C
  type can hold it.
\<close>

definition python_contract :: "'o python \<Rightarrow> bool" where
  "python_contract P \<longleftrightarrow>
     (\<forall>n t. py_is_instance P (py_long_from P n) t = Some (t = PyLong_Type)) \<and>
     (\<forall>n. py_long_as_long_long P (py_long_from P n) =
        (if - (2 ^ 63) \<le> n \<and> n < 2 ^ 63 then Some n else None)) \<and>
     (\<forall>n. py_long_as_unsigned_long_long P (py_long_from P n) =
        (if 0 \<le> n \<and> n < 2 ^ 64 then Some n else None)) \<and>
     (\<forall>bs t. py_is_instance P (py_bytes_from_string P bs) t = Some (t = PyBytes_Type)) \<and>
     (\<forall>bs. py_bytes_as_string P (py_bytes_from_string P bs) = Some bs) \<and>
     (\<forall>t. py_is_instance P (py_none P) t = Some False) \<and>
     (\<forall>n. py_long_from P n \<noteq> py_none P) \<and> (\<forall>bs. py_bytes_from_string P bs \<noteq> py_none P)"

lemma python_contractD:
  assumes "python_contract P"
  shows "py_is_instance P (py_long_from P n) t = Some (t = PyLong_Type)"
    and "py_long_as_long_long P (py_long_from P n) =
      (if - (2 ^ 63) \<le> n \<and> n < 2 ^ 63 then Some n else None)"
    and "py_long_as_unsigned_long_long P (py_long_from P n) =
      (if 0 \<le> n \<and> n < 2 ^ 64 then Some n else None)"
    and "py_is_instance P (py_bytes_from_string P bs) t = Some (t = PyBytes_Type)"
    and "py_bytes_as_string P (py_bytes_from_string P bs) = Some bs"
    and "py_is_instance P (py_none P) t = Some False"
    and "py_long_from P n \<noteq> py_none P" and "py_bytes_from_string P bs \<noteq> py_none P"
  using assms unfolding python_contract_def by blast+

section \<open>The conversions of integers\<close>

definition LLONG_MIN :: int where "LLONG_MIN = - (2 ^ 63)"
definition LLONG_MAX :: int where "LLONG_MAX = 2 ^ 63 - 1"
definition ULLONG_MAX :: int where "ULLONG_MAX = 2 ^ 64 - 1"

definition pyfsfat_integer_signed_new_from_64bit :: "'o python \<Rightarrow> u64 \<Rightarrow> 'o py_result" where
  "pyfsfat_integer_signed_new_from_64bit P value_64bit =
     (if sint value_64bit < LLONG_MIN \<or> sint value_64bit > LLONG_MAX then Inl PyExc_OverflowError
      else Inr (py_long_from P (sint value_64bit)))"

definition pyfsfat_integer_unsigned_new_from_64bit :: "'o python \<Rightarrow> u64 \<Rightarrow> 'o py_result" where
  "pyfsfat_integer_unsigned_new_from_64bit P value_64bit =
     (if uint value_64bit > ULLONG_MAX then Inl PyExc_OverflowError
      else Inr (py_long_from P (uint value_64bit)))"

definition pyfsfat_integer_signed_copy_to_64bit :: "'o python \<Rightarrow> 'o option \<Rightarrow> u64 result" where
  "pyfsfat_integer_signed_copy_to_64bit P integer_object =
     (case integer_object of
        None \<Rightarrow> Inl ARGUMENT_INVALID_VALUE
      | Some integer_object \<Rightarrow>
          (case py_is_instance P integer_object PyLong_Type of
             None \<Rightarrow> Inl RUNTIME_GET_FAILED
           | Some False \<Rightarrow> Inl RUNTIME_GET_FAILED
           | Some True \<Rightarrow>
               (case py_long_as_long_long P integer_object of
                  None \<Rightarrow> Inl RUNTIME_GET_FAILED
                | Some long_value \<Rightarrow> Inr (word_of_int long_value))))"

text \<open>The variable that takes the unsigned value is signed, and its sign is checked.\<close>

definition pyfsfat_integer_unsigned_copy_to_64bit :: "'o python \<Rightarrow> 'o option \<Rightarrow> u64 result" where
  "pyfsfat_integer_unsigned_copy_to_64bit P integer_object =
     (case integer_object of
        None \<Rightarrow> Inl ARGUMENT_INVALID_VALUE
      | Some integer_object \<Rightarrow>
          (case py_is_instance P integer_object PyLong_Type of
             None \<Rightarrow> Inl RUNTIME_GET_FAILED
           | Some False \<Rightarrow> Inl RUNTIME_GET_FAILED
           | Some True \<Rightarrow>
               (case py_long_as_unsigned_long_long P integer_object of
                  None \<Rightarrow> Inl RUNTIME_GET_FAILED
                | Some unsigned_value \<Rightarrow>
                    let long_value = (word_of_int unsigned_value :: u64)
                    in if long_value <s 0 then Inl RUNTIME_VALUE_OUT_OF_BOUNDS
                       else Inr long_value)))"

lemma signed_new [simp]: "pyfsfat_integer_signed_new_from_64bit P w = Inr (py_long_from P (sint w))"
  using sint_ge [of w] sint_lt [of w]
  by (simp add: pyfsfat_integer_signed_new_from_64bit_def LLONG_MIN_def LLONG_MAX_def)

lemma unsigned_new [simp]: "pyfsfat_integer_unsigned_new_from_64bit P w = Inr (py_long_from P (uint w))"
  using uint_lt2p [of w] by (simp add: pyfsfat_integer_unsigned_new_from_64bit_def ULLONG_MAX_def)

lemma signed_copy_long:
  assumes "python_contract P"
  shows "pyfsfat_integer_signed_copy_to_64bit P (Some (py_long_from P n)) =
    (if - (2 ^ 63) \<le> n \<and> n < 2 ^ 63 then Inr (word_of_int n) else Inl RUNTIME_GET_FAILED)"
  by (simp add: pyfsfat_integer_signed_copy_to_64bit_def python_contractD [OF assms])

lemma unsigned_copy_long:
  assumes "python_contract P"
  shows "pyfsfat_integer_unsigned_copy_to_64bit P (Some (py_long_from P n)) =
    (if 0 \<le> n \<and> n < 2 ^ 63 then Inr (word_of_int n)
     else if 0 \<le> n \<and> n < 2 ^ 64 then Inl RUNTIME_VALUE_OUT_OF_BOUNDS
     else Inl RUNTIME_GET_FAILED)"
proof -
  have "((word_of_int n :: u64) <s 0) = (2 ^ 63 \<le> n)" if "0 \<le> n" "n < 2 ^ 64"
  proof -
    have "unat (word_of_int n :: u64) = nat n"
      using that by (simp add: unat_eq_nat_uint uint_word_of_int_eq take_bit_int_eq_self)
    then show ?thesis using that by (simp add: sless_zero_iff nat_le_eq_zle le_nat_iff)
  qed
  then show ?thesis
    by (simp add: pyfsfat_integer_unsigned_copy_to_64bit_def python_contractD [OF assms] Let_def)
qed

text \<open>
  C39. An integer goes through Python and back: every signed value comes back. Of the unsigned
  values only those below 2 to the power 63 do, and the others are refused as out of bounds.
\<close>

theorem integers_through_python:
  assumes "python_contract P"
  shows "pyfsfat_integer_signed_new_from_64bit P w = Inr (py_long_from P (sint w)) \<and>
    pyfsfat_integer_signed_copy_to_64bit P (Some (py_long_from P (sint w))) = Inr w \<and>
    pyfsfat_integer_unsigned_new_from_64bit P w = Inr (py_long_from P (uint w)) \<and>
    pyfsfat_integer_unsigned_copy_to_64bit P (Some (py_long_from P (uint w))) =
      (if unat w < 2 ^ 63 then Inr w else Inl RUNTIME_VALUE_OUT_OF_BOUNDS)"
proof -
  have "- (2 ^ 63) \<le> sint w" "sint w < 2 ^ 63" using sint_ge [of w] sint_lt [of w] by simp_all
  moreover have "uint w < 2 ^ 64" using uint_lt2p [of w] by simp
  moreover have "(uint w < 2 ^ 63) = (unat w < 2 ^ 63)" by (rule uint_less_unat)
  ultimately show ?thesis
    by (simp add: signed_copy_long [OF assms] unsigned_copy_long [OF assms])
qed

section \<open>A Python\<close>

text \<open>The objects that the witnesses use.\<close>

datatype py_object = PyNone | PyLong int | PyBytes "u8 list" | PyUnicode "u8 list"

definition small_python :: "py_object python" where
  "small_python =
     \<lparr> py_none = PyNone,
       py_is_instance = (\<lambda>x t. Some (case x of PyNone \<Rightarrow> False | PyLong _ \<Rightarrow> t = PyLong_Type
         | PyBytes _ \<Rightarrow> t = PyBytes_Type | PyUnicode _ \<Rightarrow> t = PyUnicode_Type)),
       py_long_from = PyLong,
       py_long_as_long_long = (\<lambda>x. case x of
         PyLong n \<Rightarrow> if - (2 ^ 63) \<le> n \<and> n < 2 ^ 63 then Some n else None | _ \<Rightarrow> None),
       py_long_as_unsigned_long_long = (\<lambda>x. case x of
         PyLong n \<Rightarrow> if 0 \<le> n \<and> n < 2 ^ 64 then Some n else None | _ \<Rightarrow> None),
       py_bytes_from_string = PyBytes,
       py_bytes_as_string = (\<lambda>x. case x of PyBytes bs \<Rightarrow> Some bs | _ \<Rightarrow> None),
       py_unicode_decode_utf8 = (\<lambda>bs. Some (PyUnicode bs)),
       py_unicode_as_utf8 = (\<lambda>x. case x of PyUnicode bs \<Rightarrow> Some bs | _ \<Rightarrow> None) \<rparr>"

lemma small_python_contract: "python_contract small_python"
  by (simp add: python_contract_def small_python_def)

theorem integers_through_python_witness:
  "pyfsfat_integer_signed_copy_to_64bit small_python (Some (PyLong (- 5))) = Inr (- 5) \<and>
   pyfsfat_integer_unsigned_copy_to_64bit small_python (Some (PyLong 18446744073709551611)) =
     Inl RUNTIME_VALUE_OUT_OF_BOUNDS"
proof -
  have long: "py_long_from small_python = PyLong" by (simp add: small_python_def)
  show ?thesis
    using integers_through_python [OF small_python_contract, of "- 5", unfolded long]
    by simp
qed

end
