(* ===== verification/Byte_Stream.thy ===== *)
theory Byte_Stream
  imports Prelude
begin

text \<open>
  The byte order macros of \<^verbatim>\<open>common/byte_stream.h\<close>. A byte stream is a list of
  bytes and a position in it; the width of the destination variable is the type
  variable \<open>'w\<close>, as the macros assign to variables of several widths. The locale
  \<open>byte_codec\<close> is the contract between a pair of such macros and the code that reads
  tables of fixed-size values; every pair is an interpretation of it.
\<close>

section \<open>Reading little-endian values\<close>

definition byte_stream_copy_to_uint16_little_endian :: "u8 list \<Rightarrow> nat \<Rightarrow> 'w::len word" where
  "byte_stream_copy_to_uint16_little_endian bs i =
     push_bit 8 (ucast (bs ! (i + 1))) OR ucast (bs ! i)"

definition byte_stream_copy_to_uint24_little_endian :: "u8 list \<Rightarrow> nat \<Rightarrow> 'w::len word" where
  "byte_stream_copy_to_uint24_little_endian bs i =
     push_bit 8 (push_bit 8 (ucast (bs ! (i + 2))) OR ucast (bs ! (i + 1))) OR ucast (bs ! i)"

definition byte_stream_copy_to_uint32_little_endian :: "u8 list \<Rightarrow> nat \<Rightarrow> 'w::len word" where
  "byte_stream_copy_to_uint32_little_endian bs i =
     push_bit 8 (push_bit 8 (push_bit 8 (ucast (bs ! (i + 3))) OR ucast (bs ! (i + 2)))
       OR ucast (bs ! (i + 1))) OR ucast (bs ! i)"

definition byte_stream_copy_to_uint64_little_endian :: "u8 list \<Rightarrow> nat \<Rightarrow> 'w::len word" where
  "byte_stream_copy_to_uint64_little_endian bs i =
     push_bit 8 (push_bit 8 (push_bit 8 (push_bit 8 (push_bit 8 (push_bit 8 (push_bit 8
       (ucast (bs ! (i + 7))) OR ucast (bs ! (i + 6))) OR ucast (bs ! (i + 5)))
       OR ucast (bs ! (i + 4))) OR ucast (bs ! (i + 3))) OR ucast (bs ! (i + 2)))
       OR ucast (bs ! (i + 1))) OR ucast (bs ! i)"

section \<open>Writing little-endian values\<close>

definition byte_stream_copy_from_uint16_little_endian :: "'w::len word \<Rightarrow> u8 list" where
  "byte_stream_copy_from_uint16_little_endian v =
     [ucast (v AND 0xff), ucast (drop_bit 8 v AND 0xff)]"

definition byte_stream_copy_from_uint24_little_endian :: "'w::len word \<Rightarrow> u8 list" where
  "byte_stream_copy_from_uint24_little_endian v =
     [ucast (v AND 0xff), ucast (drop_bit 8 v AND 0xff), ucast (drop_bit 16 v AND 0xff)]"

definition byte_stream_copy_from_uint32_little_endian :: "'w::len word \<Rightarrow> u8 list" where
  "byte_stream_copy_from_uint32_little_endian v =
     [ucast (v AND 0xff), ucast (drop_bit 8 v AND 0xff),
      ucast (drop_bit 16 v AND 0xff), ucast (drop_bit 24 v AND 0xff)]"

definition byte_stream_copy_from_uint64_little_endian :: "'w::len word \<Rightarrow> u8 list" where
  "byte_stream_copy_from_uint64_little_endian v =
     [ucast (v AND 0xff), ucast (drop_bit 8 v AND 0xff),
      ucast (drop_bit 16 v AND 0xff), ucast (drop_bit 24 v AND 0xff),
      ucast (drop_bit 32 v AND 0xff), ucast (drop_bit 40 v AND 0xff),
      ucast (drop_bit 48 v AND 0xff), ucast (drop_bit 56 v AND 0xff)]"

lemmas byte_stream_defs [fs_defs] =
  byte_stream_copy_to_uint16_little_endian_def byte_stream_copy_to_uint24_little_endian_def
  byte_stream_copy_to_uint32_little_endian_def byte_stream_copy_to_uint64_little_endian_def
  byte_stream_copy_from_uint16_little_endian_def byte_stream_copy_from_uint24_little_endian_def
  byte_stream_copy_from_uint32_little_endian_def byte_stream_copy_from_uint64_little_endian_def

section \<open>The codec contract\<close>

text \<open>
  \<open>enc\<close> writes a value as \<open>width\<close> bytes and \<open>dec\<close> reads the value stored at a
  position; \<open>valid\<close> says which values of the destination type fit in the bytes.
\<close>

locale byte_codec =
  fixes enc :: "'v \<Rightarrow> u8 list"
    and dec :: "u8 list \<Rightarrow> nat \<Rightarrow> 'v"
    and width :: nat
    and valid :: "'v \<Rightarrow> bool"
  assumes width_pos: "0 < width"
    and length_enc: "length (enc v) = width"
    and dec_enc: "valid v \<Longrightarrow> dec (xs @ enc v @ ys) (length xs) = v"
begin

lemma length_concat_enc: "length (concat (map enc vs)) = width * length vs"
  by (induction vs) (simp_all add: length_enc)

lemma take_concat_enc: "take (width * k) (concat (map enc vs)) = concat (map enc (take k vs))"
proof (induction vs arbitrary: k)
  case (Cons v vs)
  show ?case
  proof (cases k)
    case (Suc m)
    then show ?thesis by (simp add: length_enc Cons.IH)
  qed simp
qed simp

lemma drop_concat_enc: "drop (width * k) (concat (map enc vs)) = concat (map enc (drop k vs))"
proof (induction vs arbitrary: k)
  case (Cons v vs)
  show ?case
  proof (cases k)
    case (Suc m)
    then show ?thesis by (simp add: length_enc Cons.IH)
  qed simp
qed simp

lemma dec_at:
  assumes "take width (drop i xs) = enc v" and "valid v"
  shows "dec xs i = v"
proof -
  have "length (take width (drop i xs)) = width" by (simp add: assms(1) length_enc)
  then have "i < length xs" using width_pos by simp
  then have "length (take i xs) = i" by simp
  moreover have "xs = take i xs @ enc v @ drop width (drop i xs)"
    by (metis assms(1) append_take_drop_id)
  ultimately show ?thesis using dec_enc [OF assms(2)] by metis
qed

lemma dec_concat:
  assumes "i < length vs" and "\<forall>v \<in> set vs. valid v"
  shows "dec (xs @ concat (map enc vs) @ ys) (length xs + width * i) = vs ! i"
proof -
  have split: "concat (map enc vs) =
      concat (map enc (take i vs)) @ enc (vs ! i) @ concat (map enc (drop (Suc i) vs))"
    using assms(1) by (metis append_Cons append_Nil concat.simps(2) concat_append id_take_nth_drop
      list.simps(9) map_append)
  have len: "length (xs @ concat (map enc (take i vs))) = length xs + width * i"
    using assms(1) by (simp add: length_concat_enc)
  have "valid (vs ! i)" using assms by simp
  from dec_enc [OF this, of "xs @ concat (map enc (take i vs))"
      "concat (map enc (drop (Suc i) vs)) @ ys"]
  show ?thesis unfolding split len by simp
qed

end

section \<open>The macros meet the contract\<close>

text \<open>
  Reading is the inverse of writing one byte at a time: the low byte of what is left of the
  value, below the bytes already joined.
\<close>

lemma ucast_and_ff [simp]: "ucast (x AND 0xff :: 'w::len word) = (ucast x :: u8)"
proof -
  have "x AND 0xff = take_bit 8 x"
    by (simp add: take_bit_eq_mask mask_eq_exp_minus_1)
  then show ?thesis
    by (auto intro!: bit_word_eqI simp: bit_simps)
qed

lemma ucast_ucast_u8: "(ucast (ucast x :: u8) :: 'w::len word) = take_bit 8 (x :: 'w word)"
  by (auto intro!: bit_word_eqI simp: bit_simps)

lemma join_low_byte: "push_bit 8 (drop_bit 8 v) OR take_bit 8 v = (v :: 'w::len word)"
  by (auto intro!: bit_word_eqI simp: bit_simps)

lemma join_byte:
  "push_bit 8 (drop_bit (8 + k) v) OR take_bit 8 (drop_bit k v) = drop_bit k (v :: 'w::len word)"
  using join_low_byte [of "drop_bit k v"] by (simp add: drop_bit_drop_bit)

lemma top_byte:
  assumes "take_bit (8 + k) v = (v :: 'w::len word)"
  shows "take_bit 8 (drop_bit k v) = drop_bit k v"
proof -
  have "bit v n \<Longrightarrow> n < 8 + k" for n
    by (metis assms bit_take_bit_iff)
  from this [of "k + n" for n] show ?thesis
    by (auto intro!: bit_word_eqI simp: bit_simps)
qed

lemmas join_bytes = join_low_byte join_byte [of 8, simplified] join_byte [of 16, simplified]
  join_byte [of 24, simplified] join_byte [of 32, simplified] join_byte [of 40, simplified]
  join_byte [of 48, simplified]

lemmas roundtrip_simps = byte_stream_defs nth_append ucast_ucast_u8 join_bytes

lemma uint16_roundtrip:
  assumes "take_bit 16 (v::'w::len word) = v"
  shows "byte_stream_copy_to_uint16_little_endian
           (xs @ byte_stream_copy_from_uint16_little_endian v @ ys) (length xs) = v"
  using top_byte [of 8 v] assms by (simp add: roundtrip_simps)

lemma uint24_roundtrip:
  assumes "take_bit 24 (v::'w::len word) = v"
  shows "byte_stream_copy_to_uint24_little_endian
           (xs @ byte_stream_copy_from_uint24_little_endian v @ ys) (length xs) = v"
  using top_byte [of 16 v] assms by (simp add: roundtrip_simps)

lemma uint32_roundtrip:
  assumes "take_bit 32 (v::'w::len word) = v"
  shows "byte_stream_copy_to_uint32_little_endian
           (xs @ byte_stream_copy_from_uint32_little_endian v @ ys) (length xs) = v"
  using top_byte [of 24 v] assms by (simp add: roundtrip_simps)

lemma uint64_roundtrip:
  assumes "take_bit 64 (v::'w::len word) = v"
  shows "byte_stream_copy_to_uint64_little_endian
           (xs @ byte_stream_copy_from_uint64_little_endian v @ ys) (length xs) = v"
  using top_byte [of 56 v] assms by (simp add: roundtrip_simps)

interpretation uint16: byte_codec byte_stream_copy_from_uint16_little_endian
  byte_stream_copy_to_uint16_little_endian 2 "\<lambda>v. take_bit 16 v = v"
  by unfold_locales (simp_all add: uint16_roundtrip, simp add: byte_stream_defs)

interpretation uint24: byte_codec byte_stream_copy_from_uint24_little_endian
  byte_stream_copy_to_uint24_little_endian 3 "\<lambda>v. take_bit 24 v = v"
  by unfold_locales (simp_all add: uint24_roundtrip, simp add: byte_stream_defs)

interpretation uint32: byte_codec byte_stream_copy_from_uint32_little_endian
  byte_stream_copy_to_uint32_little_endian 4 "\<lambda>v. take_bit 32 v = v"
  by unfold_locales (simp_all add: uint32_roundtrip, simp add: byte_stream_defs)

interpretation uint64: byte_codec byte_stream_copy_from_uint64_little_endian
  byte_stream_copy_to_uint64_little_endian 8 "\<lambda>v. take_bit 64 v = v"
  by unfold_locales (simp_all add: uint64_roundtrip, simp add: byte_stream_defs)

end
