(* ===== verification/IO_Handle.thy ===== *)
theory IO_Handle
  imports Prelude
begin

text \<open>
  The IO handle of \<^verbatim>\<open>libfsfat/libfsfat_io_handle.c\<close>: the geometry of the opened
  volume, which the volume sets from the boot record and every other component reads.
\<close>

record io_handle =
  io_volume_size :: u64
  io_file_system_format :: file_system_format
  io_bytes_per_sector :: u16
  io_cluster_block_size :: u64
  io_total_number_of_clusters :: u32
  io_root_directory_offset :: off64
  io_first_cluster_offset :: off64
  io_abort :: int

text \<open>What \<^verbatim>\<open>memory_set\<close> leaves in the structure.\<close>

definition io_handle_zero :: io_handle where
  "io_handle_zero =
     \<lparr> io_volume_size = 0, io_file_system_format = FORMAT_UNKNOWN, io_bytes_per_sector = 0,
       io_cluster_block_size = 0, io_total_number_of_clusters = 0,
       io_root_directory_offset = 0, io_first_cluster_offset = 0, io_abort = 0 \<rparr>"

text \<open>The argument is the handle the caller's variable refers to, \<open>None\<close> for \<open>NULL\<close>.\<close>

definition libfsfat_io_handle_initialize :: "io_handle option \<Rightarrow> io_handle result" where
  "libfsfat_io_handle_initialize io_handle =
     (if io_handle \<noteq> None then Inl RUNTIME_VALUE_ALREADY_SET
      else Inr io_handle_zero)"

definition libfsfat_io_handle_clear :: "io_handle option \<Rightarrow> io_handle result" where
  "libfsfat_io_handle_clear io_handle =
     (case io_handle of
        None \<Rightarrow> Inl ARGUMENT_INVALID_VALUE
      | Some _ \<Rightarrow> Inr io_handle_zero)"

end
