(* ===== verification/Allocation_Table.thy ===== *)
theory Allocation_Table
  imports Byte_Stream IO_Handle
begin

text \<open>
  The file allocation table of \<^verbatim>\<open>libfsfat/libfsfat_allocation_table.c\<close>: the table in
  memory, the reader that fills it (and the reversed table) sector by sector, and the
  lookup. The reader is compared with a reference: the list of entries each sector
  decodes to, stored one after the other.
\<close>

section \<open>The table\<close>

record allocation_table =
  number_of_cluster_numbers :: int
  cluster_numbers :: "u32 list"

definition libfsfat_allocation_table_initialize ::
  "allocation_table option \<Rightarrow> u32 \<Rightarrow> allocation_table result" where
  "libfsfat_allocation_table_initialize allocation_table total_number_of_clusters =
     (if allocation_table \<noteq> None then Inl RUNTIME_VALUE_ALREADY_SET
      else if total_number_of_clusters = 0
           \<or> total_number_of_clusters > MAXIMUM_NUMBER_OF_CLUSTERS_IN_FAT
      then Inl ARGUMENT_VALUE_OUT_OF_BOUNDS
      else Inr \<lparr> number_of_cluster_numbers = sint total_number_of_clusters,
                 cluster_numbers = replicate (unat total_number_of_clusters) 0 \<rparr>)"

definition libfsfat_allocation_table_get_cluster_number_by_index ::
  "allocation_table option \<Rightarrow> int \<Rightarrow> u32 result" where
  "libfsfat_allocation_table_get_cluster_number_by_index allocation_table entry_index =
     (case allocation_table of
        None \<Rightarrow> Inl ARGUMENT_INVALID_VALUE
      | Some at \<Rightarrow>
          if entry_index < 0 \<or> entry_index \<ge> number_of_cluster_numbers at
          then Inl ARGUMENT_VALUE_OUT_OF_BOUNDS
          else if nat entry_index < length (cluster_numbers at)
          then Inr (cluster_numbers at ! nat entry_index)
          else Inl MEMORY_FAULT)"

section \<open>Storing one entry\<close>

text \<open>The C assignment \<^verbatim>\<open>table->cluster_numbers[ index ] = value\<close>.\<close>

definition set_cluster_number ::
  "allocation_table \<Rightarrow> int \<Rightarrow> u32 \<Rightarrow> allocation_table result" where
  "set_cluster_number at index value =
     (if 0 \<le> index \<and> nat index < length (cluster_numbers at)
      then Inr (at\<lparr>cluster_numbers := (cluster_numbers at)[nat index := value]\<rparr>)
      else Inl MEMORY_FAULT)"

text \<open>
  Storing an entry and its reversal: \<open>guard\<close> is the value compared with the number of
  entries, \<open>value\<close> the entry. They differ for the even entries of FAT-12, where the code
  compares the 24 bits it read and stores the lower 12.
\<close>

definition store_cluster_number ::
  "allocation_table \<Rightarrow> allocation_table option \<Rightarrow> int \<Rightarrow> u32 \<Rightarrow> u32 \<Rightarrow>
   (allocation_table \<times> allocation_table option) result" where
  "store_cluster_number at rev_at table_index guard value =
     (case set_cluster_number at table_index value of
        Inl e \<Rightarrow> Inl e
      | Inr at' \<Rightarrow>
          (case rev_at of
             None \<Rightarrow> Inr (at', None)
           | Some r \<Rightarrow>
               if guard < of_int (number_of_cluster_numbers at)
               then (case set_cluster_number r (uint value) (of_int table_index) of
                       Inl e \<Rightarrow> Inl e
                     | Inr r' \<Rightarrow> Inr (at', Some r'))
               else Inr (at', Some r)))"

section \<open>Reading the entries of one sector\<close>

text \<open>
  A read of the table data buffer outside its \<open>bytes_per_sector + 2\<close> bytes is a
  \<open>MEMORY_FAULT\<close>.
\<close>

definition read_entry_value :: "file_system_format \<Rightarrow> u8 list \<Rightarrow> nat \<Rightarrow> u32 result" where
  "read_entry_value fmt table_data off =
     (if fmt = FORMAT_FAT12 then
        (if off + 2 < length table_data
         then Inr (byte_stream_copy_to_uint24_little_endian table_data off)
         else Inl MEMORY_FAULT)
      else if fmt = FORMAT_FAT16 then
        (if off + 1 < length table_data
         then Inr (byte_stream_copy_to_uint16_little_endian table_data off)
         else Inl MEMORY_FAULT)
      else
        (if off + 3 < length table_data
         then Inr (byte_stream_copy_to_uint32_little_endian table_data off)
         else Inl MEMORY_FAULT))"

definition entry_step :: "file_system_format \<Rightarrow> nat" where
  "entry_step fmt = (if fmt = FORMAT_FAT12 then 3 else if fmt = FORMAT_FAT16 then 2 else 4)"

text \<open>
  One iteration of the inner loop after its guards: the new state, and whether the loop
  goes on (\<open>False\<close> is the \<^verbatim>\<open>break\<close> between the two FAT-12 entries of three bytes).
\<close>

definition read_entry_step ::
  "file_system_format \<Rightarrow> u8 list \<Rightarrow> nat \<Rightarrow> allocation_table \<Rightarrow> allocation_table option \<Rightarrow> int \<Rightarrow>
   (allocation_table \<times> allocation_table option \<times> int \<times> bool) result" where
  "read_entry_step fmt table_data off at rev_at table_index =
     (case read_entry_value fmt table_data off of
        Inl e \<Rightarrow> Inl e
      | Inr cluster_number \<Rightarrow>
          if fmt = FORMAT_FAT12 then
            (case store_cluster_number at rev_at table_index cluster_number
                    (cluster_number AND 0xfff) of
               Inl e \<Rightarrow> Inl e
             | Inr (at', rev') \<Rightarrow>
                 if table_index + 1 \<ge> number_of_cluster_numbers at'
                 then Inr (at', rev', table_index + 1, False)
                 else (case store_cluster_number at' rev' (table_index + 1)
                              (drop_bit 12 cluster_number) (drop_bit 12 cluster_number) of
                         Inl e \<Rightarrow> Inl e
                       | Inr (at'', rev'') \<Rightarrow> Inr (at'', rev'', table_index + 2, True)))
          else
            (case store_cluster_number at rev_at table_index cluster_number cluster_number of
               Inl e \<Rightarrow> Inl e
             | Inr (at', rev') \<Rightarrow> Inr (at', rev', table_index + 1, True)))"

function read_table_data ::
  "file_system_format \<Rightarrow> u8 list \<Rightarrow> nat \<Rightarrow> nat \<Rightarrow> allocation_table \<Rightarrow> allocation_table option \<Rightarrow>
   int \<Rightarrow> (allocation_table \<times> allocation_table option \<times> int) result" where
  "read_table_data fmt table_data read_size table_data_offset at rev_at table_index =
     (if \<not> table_data_offset < read_size then Inr (at, rev_at, table_index)
      else if table_index \<ge> number_of_cluster_numbers at then Inr (at, rev_at, table_index)
      else (case read_entry_step fmt table_data table_data_offset at rev_at table_index of
              Inl e \<Rightarrow> Inl e
            | Inr (at', rev', table_index', go_on) \<Rightarrow>
                if go_on
                then read_table_data fmt table_data read_size
                       (table_data_offset + entry_step fmt) at' rev' table_index'
                else Inr (at', rev', table_index')))"
  by pat_completeness auto
termination
  by (relation "measure (\<lambda>(fmt, data, read_size, off, at, rev_at, idx). read_size - off)")
    (auto simp: entry_step_def)

declare read_table_data.simps [simp del]

section \<open>Reading the table\<close>

text \<open>
  The outer loop. \<open>table_data\<close> keeps the bytes of the previous sector behind a shorter
  read; \<open>None\<close> would be a loop that does not end.
\<close>

partial_function (option) read_sectors ::
  "bfio \<Rightarrow> file_system_format \<Rightarrow> nat \<Rightarrow> nat \<Rightarrow> nat \<Rightarrow> off64 \<Rightarrow> u8 list \<Rightarrow> allocation_table \<Rightarrow>
   allocation_table option \<Rightarrow> int \<Rightarrow> (allocation_table \<times> allocation_table option) result option"
  where
  "read_sectors bfio fmt table_size read_size table_offset file_offset table_data at rev_at table_index =
     (if \<not> table_offset < table_size then Some (Inr (at, rev_at))
      else
        let read_size = (if read_size > table_size - table_offset then table_size - table_offset else read_size)
        in (case bfio file_offset read_size of
             None \<Rightarrow> Some (Inl IO_READ_FAILED)
           | Some bs \<Rightarrow>
               if length bs \<noteq> read_size then Some (Inl IO_READ_FAILED)
               else
                 let table_data = bs @ drop read_size table_data
                 in (case read_table_data fmt table_data read_size 0 at rev_at table_index of
                       Inl e \<Rightarrow> Some (Inl e)
                     | Inr (at', rev', table_index') \<Rightarrow>
                         read_sectors bfio fmt table_size read_size (table_offset + read_size)
                           (file_offset + of_nat read_size) table_data at' rev' table_index')))"

text \<open>
  The bytes of the buffer before the first read are what the allocator left there:
  \<open>junk\<close> is arbitrary.
\<close>

definition libfsfat_allocation_table_read_file_io_handle ::
  "(nat \<Rightarrow> u8) \<Rightarrow> bfio \<Rightarrow> allocation_table option \<Rightarrow> allocation_table option \<Rightarrow>
   io_handle option \<Rightarrow> off64 \<Rightarrow> u64 \<Rightarrow>
   (allocation_table \<times> allocation_table option) result option" where
  "libfsfat_allocation_table_read_file_io_handle junk bfio allocation_table
       reversed_allocation_table io_handle file_offset table_size =
     (case allocation_table of
        None \<Rightarrow> Some (Inl ARGUMENT_INVALID_VALUE)
      | Some at \<Rightarrow>
     (case io_handle of
        None \<Rightarrow> Some (Inl ARGUMENT_INVALID_VALUE)
      | Some io \<Rightarrow>
          if io_bytes_per_sector io = 0 then Some (Inl RUNTIME_VALUE_MISSING)
          else
            let bps = unat (io_bytes_per_sector io);
                table_data = map junk [0..<bps] @ [0, 0]
            in read_sectors bfio (io_file_system_format io) (unat table_size) bps 0 file_offset
                 table_data at reversed_allocation_table 0))"

section \<open>The reference: storing a list of entries\<close>

text \<open>
  The entries of a sector as pairs of the value the code compares and the value it stores.
  A FAT-12 group of three bytes holds two entries.
\<close>

definition group_entries :: "file_system_format \<Rightarrow> u32 \<Rightarrow> (u32 \<times> u32) list" where
  "group_entries fmt c =
     (if fmt = FORMAT_FAT12 then [(c, c AND 0xfff), (drop_bit 12 c, drop_bit 12 c)] else [(c, c)])"

definition entry_value :: "file_system_format \<Rightarrow> u8 list \<Rightarrow> nat \<Rightarrow> u32" where
  "entry_value fmt data off =
     (if fmt = FORMAT_FAT12 then byte_stream_copy_to_uint24_little_endian data off
      else if fmt = FORMAT_FAT16 then byte_stream_copy_to_uint16_little_endian data off
      else byte_stream_copy_to_uint32_little_endian data off)"

definition group_count :: "file_system_format \<Rightarrow> nat \<Rightarrow> nat" where
  "group_count fmt read_size = (read_size + entry_step fmt - 1) div entry_step fmt"

definition sector_entries :: "file_system_format \<Rightarrow> u8 list \<Rightarrow> nat \<Rightarrow> (u32 \<times> u32) list" where
  "sector_entries fmt data read_size =
     concat (map (\<lambda>g. group_entries fmt (entry_value fmt data (g * entry_step fmt)))
                 [0..<group_count fmt read_size])"

fun store_entries ::
  "allocation_table \<Rightarrow> allocation_table option \<Rightarrow> int \<Rightarrow> (u32 \<times> u32) list \<Rightarrow>
   (allocation_table \<times> allocation_table option \<times> int) result" where
  "store_entries at rev_at idx [] = Inr (at, rev_at, idx)"
| "store_entries at rev_at idx ((c, v) # es) =
     (if idx \<ge> number_of_cluster_numbers at then Inr (at, rev_at, idx)
      else (case store_cluster_number at rev_at idx c v of
              Inl e \<Rightarrow> Inl e
            | Inr (at', rev') \<Rightarrow> store_entries at' rev' (idx + 1) es))"

lemma store_cluster_number_number [simp]:
  "store_cluster_number at rev_at idx c v = Inr (at', rev') \<Longrightarrow>
   number_of_cluster_numbers at' = number_of_cluster_numbers at"
  by (auto simp: store_cluster_number_def set_cluster_number_def
      split: if_splits option.splits sum.splits)

lemma store_entries_full:
  "number_of_cluster_numbers at \<le> idx \<Longrightarrow> store_entries at rev_at idx es = Inr (at, rev_at, idx)"
  by (cases es) auto

lemma store_entries_append:
  "store_entries at rev_at idx (es @ fs) =
     (case store_entries at rev_at idx es of
        Inl e \<Rightarrow> Inl e
      | Inr (at', rev', idx') \<Rightarrow> store_entries at' rev' idx' fs)"
proof (induction es arbitrary: at rev_at idx)
  case (Cons a es)
  then show ?case
    by (cases a) (auto split: sum.splits simp: store_entries_full)
qed simp

lemma read_entry_step_store:
  assumes "read_entry_value fmt data off = Inr c"
    and "table_index < number_of_cluster_numbers at"
  shows "(case read_entry_step fmt data off at rev_at table_index of
            Inl e \<Rightarrow> Inl e
          | Inr (at', rev', idx', go_on) \<Rightarrow>
              if go_on then store_entries at' rev' idx' es else Inr (at', rev', idx'))
         = store_entries at rev_at table_index (group_entries fmt c @ es)"
  using assms
  by (auto simp: read_entry_step_def group_entries_def add.commute split: sum.splits)

text \<open>All reads of the groups of a sector stay inside the buffer.\<close>

definition reads_inside :: "file_system_format \<Rightarrow> u8 list \<Rightarrow> nat \<Rightarrow> bool" where
  "reads_inside fmt data read_size =
     (\<forall>g < group_count fmt read_size.
        read_entry_value fmt data (g * entry_step fmt) \<noteq> Inl MEMORY_FAULT)"

lemma read_entry_value_cases:
  "read_entry_value fmt data off = Inl MEMORY_FAULT \<or>
   read_entry_value fmt data off = Inr (entry_value fmt data off)"
  by (auto simp: read_entry_value_def entry_value_def)

lemma entry_step_pos [simp]: "0 < entry_step fmt"
  by (simp add: entry_step_def)

lemma group_count_less: "(g < group_count fmt n) = (g * entry_step fmt < n)"
proof -
  let ?s = "entry_step fmt"
  have "(g < group_count fmt n) = (Suc g * ?s \<le> n + ?s - 1)"
    unfolding group_count_def Suc_le_eq [symmetric]
    by (rule less_eq_div_iff_mult_less_eq [OF entry_step_pos])
  also have "\<dots> = (g * ?s < n)"
    using entry_step_pos [of fmt] unfolding mult_Suc by linarith
  finally show ?thesis .
qed

lemma read_table_data_from_group:
  assumes "reads_inside fmt data rs"
  shows "read_table_data fmt data rs (g * entry_step fmt) at rev_at idx =
    store_entries at rev_at idx
      (concat (map (\<lambda>g. group_entries fmt (entry_value fmt data (g * entry_step fmt)))
                   [g..<group_count fmt rs]))"
proof (induction "group_count fmt rs - g" arbitrary: g at rev_at idx)
  case 0
  then have "\<not> g * entry_step fmt < rs" by (simp add: group_count_less [symmetric])
  then show ?case using 0 by (simp add: read_table_data.simps)
next
  case (Suc k)
  let ?es = "\<lambda>g. concat (map (\<lambda>g. group_entries fmt (entry_value fmt data (g * entry_step fmt)))
                           [g..<group_count fmt rs])"
  from Suc.hyps(2) have less: "g < group_count fmt rs" by simp
  then have off: "g * entry_step fmt < rs" by (simp add: group_count_less)
  have es: "?es g = group_entries fmt (entry_value fmt data (g * entry_step fmt)) @ ?es (Suc g)"
    using less by (simp add: upt_conv_Cons)
  have IH: "read_table_data fmt data rs (g * entry_step fmt + entry_step fmt) a r i =
      store_entries a r i (?es (Suc g))" for a r i
    using Suc.hyps(1) [of "Suc g" a r i] Suc.hyps(2) by (simp add: add.commute)
  show ?case
  proof (cases "number_of_cluster_numbers at \<le> idx")
    case True
    then show ?thesis using off by (simp add: read_table_data.simps store_entries_full)
  next
    case False
    have "read_entry_value fmt data (g * entry_step fmt) =
        Inr (entry_value fmt data (g * entry_step fmt))"
      using read_entry_value_cases assms less unfolding reads_inside_def by blast
    from read_entry_step_store [OF this, where es = "?es (Suc g)" and table_index = idx
        and at = at and rev_at = rev_at] False
    show ?thesis
      by (subst read_table_data.simps, unfold es IH) (simp add: off)
  qed
qed

lemma read_table_data_sector:
  "reads_inside fmt data rs \<Longrightarrow>
   read_table_data fmt data rs 0 at rev_at idx = store_entries at rev_at idx (sector_entries fmt data rs)"
  using read_table_data_from_group [of fmt data rs 0] by (simp add: sector_entries_def)

section \<open>Well-formed tables and the closed form of storing\<close>

definition allocation_table_wf :: "allocation_table \<Rightarrow> bool" where
  "allocation_table_wf at \<longleftrightarrow>
     int (length (cluster_numbers at)) = number_of_cluster_numbers at \<and>
     0 < number_of_cluster_numbers at \<and>
     number_of_cluster_numbers at \<le> uint MAXIMUM_NUMBER_OF_CLUSTERS_IN_FAT"

text \<open>The reversed table, if there is one, has as many entries.\<close>

definition tables_wf :: "allocation_table \<Rightarrow> allocation_table option \<Rightarrow> bool" where
  "tables_wf at rev_at \<longleftrightarrow>
     allocation_table_wf at \<and>
     (\<forall>r. rev_at = Some r \<longrightarrow>
        allocation_table_wf r \<and> number_of_cluster_numbers r = number_of_cluster_numbers at)"

fun reverse_entries :: "int \<Rightarrow> int \<Rightarrow> (u32 \<times> u32) list \<Rightarrow> u32 list \<Rightarrow> u32 list" where
  "reverse_entries n idx [] rs = rs"
| "reverse_entries n idx ((c, v) # es) rs =
     (if idx \<ge> n then rs
      else reverse_entries n (idx + 1) es
             (if c < of_int n then rs[unat v := of_int idx] else rs))"

definition entries_ok :: "(u32 \<times> u32) list \<Rightarrow> bool" where
  "entries_ok es = list_all (\<lambda>(c, v). v \<le> c) es"

definition store_result ::
  "allocation_table \<Rightarrow> allocation_table option \<Rightarrow> int \<Rightarrow> (u32 \<times> u32) list \<Rightarrow>
   allocation_table \<times> allocation_table option" where
  "store_result at rev_at idx es =
     (at\<lparr>cluster_numbers := overwrite (nat idx) (map snd es) (cluster_numbers at)\<rparr>,
      map_option (\<lambda>r. r\<lparr>cluster_numbers :=
         reverse_entries (number_of_cluster_numbers at) idx es (cluster_numbers r)\<rparr>) rev_at)"

lemma length_reverse_entries [simp]: "length (reverse_entries n idx es rs) = length rs"
  by (induction n idx es rs rule: reverse_entries.induct) auto

lemma store_result_wf:
  assumes "tables_wf at rev_at" and "store_result at rev_at idx es = (a, r)"
  shows "tables_wf a r \<and> number_of_cluster_numbers a = number_of_cluster_numbers at"
proof -
  have "a = fst (store_result at rev_at idx es)" "r = snd (store_result at rev_at idx es)"
    using assms(2) by simp_all
  then show ?thesis
    using assms(1) by (cases rev_at) (simp_all add: store_result_def tables_wf_def allocation_table_wf_def)
qed

lemma store_result_full:
  "tables_wf at rev_at \<Longrightarrow> number_of_cluster_numbers at \<le> idx \<Longrightarrow>
   store_result at rev_at idx es = (at, rev_at)"
  by (cases es; cases rev_at) (auto simp: store_result_def tables_wf_def allocation_table_wf_def)

lemma maximum_clusters: "uint MAXIMUM_NUMBER_OF_CLUSTERS_IN_FAT = 2 ^ 26"
  by (simp add: MAXIMUM_NUMBER_OF_CLUSTERS_IN_FAT_def)

lemma maximum_clusters_word: "MAXIMUM_NUMBER_OF_CLUSTERS_IN_FAT = 0x4000000"
  by (simp add: word_uint_eq_iff maximum_clusters)

lemma word_less_of_int:
  assumes "0 < n" and "n \<le> 2 ^ 26"
  shows "(c < (of_int n :: u32)) = (uint c < n)"
proof -
  have "uint (of_int n :: u32) = take_bit 32 n"
    using uint_word_of_int_eq [of n, where ?'a = 32] by simp
  also have "\<dots> = n" using assms by (simp add: take_bit_int_eq_self)
  finally show ?thesis by (simp only: word_less_def)
qed

lemma store_cluster_number_wf:
  assumes "tables_wf at rev_at" and "0 \<le> idx" and "idx < number_of_cluster_numbers at" and "v \<le> c"
  shows "store_cluster_number at rev_at idx c v = Inr (store_result at rev_at idx [(c, v)])"
proof -
  let ?n = "number_of_cluster_numbers at"
  have n: "int (length (cluster_numbers at)) = ?n" "0 < ?n" "?n \<le> 2 ^ 26"
    using assms(1) by (simp_all add: tables_wf_def allocation_table_wf_def maximum_clusters)
  have idx: "nat idx < length (cluster_numbers at)" using assms(2,3) n by linarith
  have over: "overwrite (nat idx) [v] (cluster_numbers at) = (cluster_numbers at)[nat idx := v]"
    using overwrite_Cons [OF idx, of "[]" v] by simp
  have set_at: "set_cluster_number at idx v =
      Inr (at\<lparr>cluster_numbers := overwrite (nat idx) [v] (cluster_numbers at)\<rparr>)"
    using assms(2) idx by (simp add: set_cluster_number_def over)
  show ?thesis
  proof (cases rev_at)
    case None
    then show ?thesis by (simp add: store_cluster_number_def store_result_def set_at)
  next
    case (Some r)
    have "set_cluster_number r (uint v) (of_int idx) =
        Inr (r\<lparr>cluster_numbers := (cluster_numbers r)[unat v := of_int idx]\<rparr>)"
      if "c < of_int ?n"
    proof -
      have "uint c < ?n" using that word_less_of_int [OF n(2,3)] by simp
      moreover have "uint v \<le> uint c" using assms(4) by (simp only: word_le_def)
      moreover have "int (length (cluster_numbers r)) = ?n"
        using assms(1) Some by (simp add: tables_wf_def allocation_table_wf_def)
      ultimately have "unat v < length (cluster_numbers r)"
        by (simp only: uint_nat)
      then show ?thesis by (simp add: set_cluster_number_def)
    qed
    then show ?thesis
      using Some assms(3) by (simp add: store_cluster_number_def store_result_def set_at)
  qed
qed

lemma store_result_Cons:
  assumes "tables_wf at rev_at" and "0 \<le> idx" and "idx < number_of_cluster_numbers at"
    and "store_result at rev_at idx [(c, v)] = (a, r)"
  shows "store_result a r (idx + 1) es = store_result at rev_at idx ((c, v) # es)"
proof -
  have "nat idx < length (cluster_numbers at)"
    using assms(1-3) by (auto simp: tables_wf_def allocation_table_wf_def)
  then have "overwrite (Suc (nat idx)) (map snd es)
        (overwrite (nat idx) [v] (cluster_numbers at)) =
      overwrite (nat idx) (v # map snd es) (cluster_numbers at)"
    by (simp add: overwrite_Cons [symmetric, of _ _ _ "[]"]) (simp add: overwrite_Cons)
  moreover have "nat (idx + 1) = Suc (nat idx)" using assms(2) by simp
  ultimately show ?thesis
    using assms(3,4) by (cases rev_at) (auto simp: store_result_def)
qed

lemma store_entries_closed:
  assumes "tables_wf at rev_at" and "0 \<le> idx" and "idx \<le> number_of_cluster_numbers at"
    and "entries_ok es"
  shows "\<exists>idx'. idx \<le> idx' \<and> idx' \<le> number_of_cluster_numbers at \<and>
    store_entries at rev_at idx es =
      Inr (fst (store_result at rev_at idx es), snd (store_result at rev_at idx es), idx')"
  using assms
proof (induction es arbitrary: at rev_at idx)
  case Nil
  then show ?case by (cases rev_at) (auto simp: store_result_def)
next
  case (Cons e es)
  obtain c v where e: "e = (c, v)" by (cases e)
  show ?case
  proof (cases "idx = number_of_cluster_numbers at")
    case True
    then show ?thesis using Cons.prems by (simp add: store_entries_full store_result_full)
  next
    case False
    then have less: "idx < number_of_cluster_numbers at" using Cons.prems by simp
    obtain a r where ar: "store_result at rev_at idx [(c, v)] = (a, r)" by fastforce
    have wf: "tables_wf a r" "number_of_cluster_numbers a = number_of_cluster_numbers at"
      using store_result_wf [OF Cons.prems(1) ar] by auto
    have "v \<le> c" and ok: "entries_ok es" using Cons.prems(4) by (auto simp: entries_ok_def e)
    then have "store_entries at rev_at idx (e # es) = store_entries a r (idx + 1) es"
      using store_cluster_number_wf [OF Cons.prems(1,2) less] less by (simp add: e ar)
    moreover have "store_result a r (idx + 1) es = store_result at rev_at idx (e # es)"
      using store_result_Cons [OF Cons.prems(1,2) less ar] by (simp add: e)
    moreover obtain idx' where "idx + 1 \<le> idx'" "idx' \<le> number_of_cluster_numbers a"
      "store_entries a r (idx + 1) es =
        Inr (fst (store_result a r (idx + 1) es), snd (store_result a r (idx + 1) es), idx')"
      using Cons.IH [OF wf(1), of "idx + 1"] Cons.prems(2) less wf(2) ok by auto
    ultimately show ?thesis using wf(2) by (intro exI [of _ idx']) auto
  qed
qed

section \<open>From sectors to the table\<close>

lemma group_entries_ok: "entries_ok (group_entries fmt c)"
  by (simp add: group_entries_def entries_ok_def word_and_le2)

lemma sector_entries_ok: "entries_ok (sector_entries fmt data rs)"
  by (auto simp: sector_entries_def entries_ok_def list_all_iff
      dest: group_entries_ok [unfolded entries_ok_def list_all_iff, rule_format])

lemma reads_inside_sector:
  assumes "length data = bps + 2" and "rs \<le> bps"
    and "fmt = FORMAT_FAT12 \<or> fmt = FORMAT_FAT16 \<or> 4 dvd bps"
  shows "reads_inside fmt data rs"
proof -
  have "read_entry_value fmt data (g * entry_step fmt) \<noteq> Inl MEMORY_FAULT"
    if "g < group_count fmt rs" for g
  proof -
    have less: "g * entry_step fmt < rs" using that by (simp add: group_count_less)
    show ?thesis
    proof (cases "fmt = FORMAT_FAT12 \<or> fmt = FORMAT_FAT16")
      case True
      then show ?thesis using less assms(1,2) by (auto simp: read_entry_value_def entry_step_def)
    next
      case False
      then have "4 dvd bps" "g * 4 < bps" using assms(2,3) less by (auto simp: entry_step_def)
      then have "g * 4 + 3 < bps" by presburger
      then show ?thesis using False assms(1) by (simp add: read_entry_value_def entry_step_def)
    qed
  qed
  then show ?thesis by (simp add: reads_inside_def)
qed

lemma read_sector_result:
  assumes "length data = bps + 2" and "rs \<le> bps"
    and "fmt = FORMAT_FAT12 \<or> fmt = FORMAT_FAT16 \<or> 4 dvd bps"
    and "tables_wf at rev_at" and "0 \<le> idx" and "idx \<le> number_of_cluster_numbers at"
  obtains a r idx' where "read_table_data fmt data rs 0 at rev_at idx = Inr (a, r, idx')"
    and "store_result at rev_at idx (sector_entries fmt data rs) = (a, r)"
    and "0 \<le> idx'" and "idx' \<le> number_of_cluster_numbers a" and "tables_wf a r"
    and "number_of_cluster_numbers a = number_of_cluster_numbers at"
proof -
  obtain a r where ar: "store_result at rev_at idx (sector_entries fmt data rs) = (a, r)"
    by fastforce
  have wf: "tables_wf a r" "number_of_cluster_numbers a = number_of_cluster_numbers at"
    using store_result_wf [OF assms(4) ar] by auto
  obtain idx' where "idx \<le> idx'" "idx' \<le> number_of_cluster_numbers at"
    and "store_entries at rev_at idx (sector_entries fmt data rs) = Inr (a, r, idx')"
    using store_entries_closed [OF assms(4-6) sector_entries_ok [of fmt data rs]] ar by auto
  then show ?thesis
    using that [of a r idx'] read_table_data_sector [OF reads_inside_sector [OF assms(1-3)]]
      ar wf assms(5) by auto
qed

text \<open>What the properties assume of the external handle: it returns the bytes of the table.\<close>

definition reads_table :: "bfio \<Rightarrow> off64 \<Rightarrow> u8 list \<Rightarrow> bool" where
  "reads_table bfio off tbl \<longleftrightarrow>
     (\<forall>k n. k + n \<le> length tbl \<longrightarrow> bfio (off + of_nat k) n = Some (take n (drop k tbl)))"

lemma reads_table_image:
  assumes "length pre + length tbl < 2 ^ 63"
  shows "reads_table (image_bfio (pre @ tbl @ post)) (of_nat (length pre)) tbl"
  unfolding reads_table_def
proof (intro allI impI)
  fix k n assume "k + n \<le> length tbl"
  then have "unat (of_nat (length pre) + of_nat k :: off64) = length pre + k"
    using assms by (simp flip: of_nat_add)
  then show "image_bfio (pre @ tbl @ post) (of_nat (length pre) + of_nat k) n =
      Some (take n (drop k tbl))"
    using assms \<open>k + n \<le> length tbl\<close>
    by (simp add: image_bfio_def sless_zero_iff)
qed

definition table_entries :: "file_system_format \<Rightarrow> nat \<Rightarrow> u8 list \<Rightarrow> nat \<Rightarrow> (u32 \<times> u32) list" where
  "table_entries fmt bps tbl s =
     concat (map (\<lambda>s. sector_entries fmt (take bps (drop (s * bps) tbl) @ [0, 0]) bps)
                 [s..<length tbl div bps])"

lemma table_entries_step:
  "s < length tbl div bps \<Longrightarrow>
   table_entries fmt bps tbl s =
     sector_entries fmt (take bps (drop (s * bps) tbl) @ [0, 0]) bps @ table_entries fmt bps tbl (Suc s)"
  by (simp add: table_entries_def upt_conv_Cons)

lemma read_sectors_step:
  assumes "off < sz" and "rs \<le> sz - off" and "bfio fo rs = Some bs" and "length bs = rs"
    and "read_table_data fmt (bs @ drop rs buf) rs 0 at rev_at idx = Inr (a, r, idx')"
  shows "read_sectors bfio fmt sz rs off fo buf at rev_at idx =
    read_sectors bfio fmt sz rs (off + rs) (fo + of_nat rs) (bs @ drop rs buf) a r idx'"
  using assms by (subst read_sectors.simps) simp

lemma read_sectors_table:
  assumes "reads_table bfio off tbl" and "0 < bps" and len_tbl: "length tbl = m * bps"
    and fmt: "fmt = FORMAT_FAT12 \<or> fmt = FORMAT_FAT16 \<or> 4 dvd bps"
    and "tables_wf at rev_at" and "0 \<le> idx" and "idx \<le> number_of_cluster_numbers at"
    and "s \<le> m" and "length buf = bps + 2" and "drop bps buf = [0, 0]"
  shows "read_sectors bfio fmt (length tbl) bps (s * bps) (off + of_nat (s * bps)) buf
             at rev_at idx =
           (case store_entries at rev_at idx (table_entries fmt bps tbl s) of
              Inl e \<Rightarrow> Some (Inl e) | Inr (a, r, idx') \<Rightarrow> Some (Inr (a, r)))"
  using assms(5-)
proof (induction "m - s" arbitrary: s at rev_at idx buf)
  case 0
  then show ?case using assms(2,3) by (simp add: read_sectors.simps table_entries_def)
next
  case (Suc d)
  let ?buf = "take bps (drop (s * bps) tbl) @ [0, 0]"
  have s: "s < m" "s * bps + bps \<le> length tbl" "s * bps < length tbl"
  proof -
    show "s < m" using Suc.hyps(2) by simp
    then have "Suc s * bps \<le> m * bps" by (intro mult_le_mono1) simp
    then show "s * bps + bps \<le> length tbl" using len_tbl by simp
    then show "s * bps < length tbl" using assms(2) by simp
  qed
  have read: "bfio (off + of_nat (s * bps)) bps = Some (take bps (drop (s * bps) tbl))"
    using assms(1) s(2) unfolding reads_table_def by blast
  have len: "length ?buf = bps + 2" "length (take bps (drop (s * bps) tbl)) = bps"
    using s(2) by simp_all
  obtain a r idx' where step: "read_table_data fmt ?buf bps 0 at rev_at idx = Inr (a, r, idx')"
    and idx': "0 \<le> idx'" "idx' \<le> number_of_cluster_numbers a" "tables_wf a r"
    using read_sector_result [OF len(1) order_refl fmt Suc.prems(1-3)] by metis
  have IH: "read_sectors bfio fmt (length tbl) bps (Suc s * bps) (off + of_nat (Suc s * bps))
      ?buf a r idx' =
      (case store_entries a r idx' (table_entries fmt bps tbl (Suc s)) of
         Inl e \<Rightarrow> Some (Inl e) | Inr (a, r, idx') \<Rightarrow> Some (Inr (a, r)))"
    by (rule Suc.hyps(1)) (use Suc.hyps(2) s(1) len idx' in auto)
  have store: "store_entries at rev_at idx (sector_entries fmt ?buf bps) = Inr (a, r, idx')"
    using step read_table_data_sector [OF reads_inside_sector [OF len(1) order_refl fmt]] by simp
  have "length tbl div bps = m" using assms(2) len_tbl by simp
  then have entries: "store_entries at rev_at idx (table_entries fmt bps tbl s) =
      store_entries a r idx' (table_entries fmt bps tbl (Suc s))"
    using s(1) by (simp add: table_entries_step store_entries_append store)
  have fits: "bps \<le> length tbl - s * bps" using s(2) by linarith
  have "read_sectors bfio fmt (length tbl) bps (s * bps) (off + of_nat (s * bps)) buf at rev_at idx =
      read_sectors bfio fmt (length tbl) bps (s * bps + bps) (off + of_nat (s * bps) + of_nat bps)
        ?buf a r idx'"
    using read_sectors_step [where bfio = bfio and off = "s * bps", OF s(3) fits read len(2), of fmt buf]
      step Suc.prems(6) by simp
  also have "s * bps + bps = Suc s * bps" by simp
  also have "off + of_nat (s * bps) + of_nat bps = off + of_nat (Suc s * bps)" by simp
  finally show ?case unfolding entries by (simp only: IH)
qed

section \<open>Reading always ends, inside the buffers\<close>

lemma read_sectors_total:
  assumes "0 < rs" and "rs \<le> bps" and "length buf = bps + 2"
    and fmt: "fmt = FORMAT_FAT12 \<or> fmt = FORMAT_FAT16 \<or> 4 dvd bps"
    and "tables_wf at rev_at" and "0 \<le> idx" and "idx \<le> number_of_cluster_numbers at"
  shows "\<exists>res. read_sectors bfio fmt sz rs off fo buf at rev_at idx = Some res \<and>
    (res = Inl IO_READ_FAILED \<or>
     (\<exists>a r. res = Inr (a, r) \<and> tables_wf a r \<and>
            number_of_cluster_numbers a = number_of_cluster_numbers at))"
  using assms(1-3,5-)
proof (induction "sz - off" arbitrary: off fo buf rs at rev_at idx rule: less_induct)
  case less
  show ?case
  proof (cases "off < sz")
    case False
    then show ?thesis using less.prems by (simp add: read_sectors.simps)
  next
    case True
    define n where "n = (if rs > sz - off then sz - off else rs)"
    have n: "0 < n" "n \<le> bps" "n \<le> sz - off" using less.prems True by (auto simp: n_def)
    show ?thesis
    proof (cases "\<exists>bs. bfio fo n = Some bs \<and> length bs = n")
      case False
      then show ?thesis using True
        by (subst read_sectors.simps) (auto simp: n_def [symmetric] Let_def split: option.splits)
    next
      case True
      then obtain bs where bs: "bfio fo n = Some bs" "length bs = n" by blast
      have len: "length (bs @ drop n buf) = bps + 2" using bs n less.prems by simp
      obtain a r idx' where step:
          "read_table_data fmt (bs @ drop n buf) n 0 at rev_at idx = Inr (a, r, idx')"
        and wf: "0 \<le> idx'" "idx' \<le> number_of_cluster_numbers a" "tables_wf a r"
          "number_of_cluster_numbers a = number_of_cluster_numbers at"
        using read_sector_result [OF len n(2) fmt less.prems(4-6)] by metis
      have "read_sectors bfio fmt sz rs off fo buf at rev_at idx =
          read_sectors bfio fmt sz n (off + n) (fo + of_nat n) (bs @ drop n buf) a r idx'"
        using \<open>off < sz\<close> bs step
        by (subst read_sectors.simps) (simp add: n_def [symmetric] Let_def)
      moreover have "sz - (off + n) < sz - off" using n(1) \<open>off < sz\<close> by linarith
      ultimately show ?thesis
        using less.hyps [OF _ n(1,2) len wf(3,1,2), of "off + n" "fo + of_nat n"] wf(4) by simp
    qed
  qed
qed

lemma read_table_total:
  assumes "tables_wf at rev_at"
    and "io_bytes_per_sector io \<noteq> 0"
    and "io_file_system_format io = FORMAT_FAT12 \<or> io_file_system_format io = FORMAT_FAT16
         \<or> 4 dvd unat (io_bytes_per_sector io)"
  shows "\<exists>res. libfsfat_allocation_table_read_file_io_handle junk bfio (Some at) rev_at (Some io)
                  off table_size = Some res \<and>
           (res = Inl IO_READ_FAILED \<or>
            (\<exists>a r. res = Inr (a, r) \<and> tables_wf a r \<and>
                   number_of_cluster_numbers a = number_of_cluster_numbers at))"
proof -
  have "0 \<le> number_of_cluster_numbers at"
    using assms(1) by (simp add: tables_wf_def allocation_table_wf_def)
  moreover have "0 < unat (io_bytes_per_sector io)" using assms(2) by (simp add: unat_gt_0)
  ultimately show ?thesis
    using assms(2,3) read_sectors_total [OF _ order_refl _ _ assms(1) order_refl]
    by (auto simp: libfsfat_allocation_table_read_file_io_handle_def Let_def)
qed

text \<open>
  C9. For any file handle, also one that fails or returns short reads, and any table size,
  reading the allocation table returns: it yields the two tables, still well-formed and of
  the same size, or the read error, and no access leaves the table buffer or the arrays.
\<close>

theorem allocation_table_read_safe:
  assumes "tables_wf at rev_at"
    and "io_bytes_per_sector io \<noteq> 0"
    and "io_file_system_format io = FORMAT_FAT12 \<or> io_file_system_format io = FORMAT_FAT16
         \<or> 4 dvd unat (io_bytes_per_sector io)"
  shows "\<exists>res. libfsfat_allocation_table_read_file_io_handle junk bfio (Some at) rev_at (Some io)
                  off table_size = Some res \<and>
           (res = Inl IO_READ_FAILED \<or>
            (\<exists>a r. res = Inr (a, r) \<and> tables_wf a r \<and>
                   number_of_cluster_numbers a = number_of_cluster_numbers at))"
  by (rule read_table_total [OF assms])

theorem allocation_table_read_safe_witness:
  "\<exists>res. libfsfat_allocation_table_read_file_io_handle (\<lambda>_. 7) (\<lambda>_ _. None)
      (Some \<lparr>number_of_cluster_numbers = 2, cluster_numbers = [0, 0]\<rparr>) None
      (Some (io_handle_zero\<lparr>io_bytes_per_sector := 512, io_file_system_format := FORMAT_FAT32\<rparr>))
      16384 1024 = Some res \<and>
      (res = Inl IO_READ_FAILED \<or> (\<exists>a r. res = Inr (a, r) \<and> tables_wf a r \<and>
         number_of_cluster_numbers a = 2))"
  using allocation_table_read_safe [where junk = "\<lambda>_. 7" and bfio = "\<lambda>_ _. None"
      and at = "\<lparr>number_of_cluster_numbers = 2, cluster_numbers = [0, 0]\<rparr>" and rev_at = None
      and io = "io_handle_zero\<lparr>io_bytes_per_sector := 512, io_file_system_format := FORMAT_FAT32\<rparr>"
      and off = 16384 and table_size = 1024]
  by (simp add: tables_wf_def allocation_table_wf_def maximum_clusters)

section \<open>The table that is read is the table on disk\<close>

text \<open>The situation of the properties: a table of whole sectors that the handle returns.\<close>

definition table_on_disk ::
  "bfio \<Rightarrow> io_handle \<Rightarrow> off64 \<Rightarrow> u64 \<Rightarrow> u8 list \<Rightarrow> bool" where
  "table_on_disk bfio io off table_size tbl \<longleftrightarrow>
     io_bytes_per_sector io \<noteq> 0 \<and>
     unat (io_bytes_per_sector io) dvd length tbl \<and>
     unat table_size = length tbl \<and>
     reads_table bfio off tbl"

lemma table_on_disk_image:
  assumes "length pre + length tbl < 2 ^ 63" and "io_bytes_per_sector io \<noteq> 0"
    and "unat (io_bytes_per_sector io) dvd length tbl"
  shows "table_on_disk (image_bfio (pre @ tbl @ post)) io (of_nat (length pre))
           (of_nat (length tbl)) tbl"
  using assms by (simp add: table_on_disk_def reads_table_image)

lemma read_file_io_handle_entries:
  assumes disk: "table_on_disk bfio io off table_size tbl"
    and wf: "tables_wf at rev_at"
    and fmt: "io_file_system_format io = FORMAT_FAT12 \<or> io_file_system_format io = FORMAT_FAT16
         \<or> 4 dvd unat (io_bytes_per_sector io)"
  shows "libfsfat_allocation_table_read_file_io_handle junk bfio (Some at) rev_at (Some io)
           off table_size =
         Some (Inr (store_result at rev_at 0
           (table_entries (io_file_system_format io) (unat (io_bytes_per_sector io)) tbl 0)))"
proof -
  let ?bps = "unat (io_bytes_per_sector io)" and ?fmt = "io_file_system_format io"
  have bps: "0 < ?bps" and sz: "unat table_size = length tbl" and rd: "reads_table bfio off tbl"
    using disk by (simp_all add: table_on_disk_def unat_gt_0)
  obtain m where m: "length tbl = m * ?bps"
    using disk by (auto simp: table_on_disk_def dvd_def mult.commute)
  have n: "0 \<le> number_of_cluster_numbers at"
    using wf by (simp add: tables_wf_def allocation_table_wf_def)
  have ok: "entries_ok (table_entries ?fmt ?bps tbl 0)"
    using sector_entries_ok unfolding table_entries_def entries_ok_def list_all_iff by auto
  obtain idx' where "store_entries at rev_at 0 (table_entries ?fmt ?bps tbl 0) =
      Inr (fst (store_result at rev_at 0 (table_entries ?fmt ?bps tbl 0)),
           snd (store_result at rev_at 0 (table_entries ?fmt ?bps tbl 0)), idx')"
    using store_entries_closed [OF wf order_refl n ok] by blast
  then show ?thesis
    using read_sectors_table [OF rd bps m fmt wf order_refl n, of 0 "map junk [0..<?bps] @ [0, 0]"]
      bps by (auto simp add: libfsfat_allocation_table_read_file_io_handle_def Let_def sz)
qed

lemma map_snd_table_entries_single:
  assumes "fmt \<noteq> FORMAT_FAT12"
  shows "map snd (table_entries fmt bps tbl s) =
    concat (map (\<lambda>s. map (\<lambda>g. entry_value fmt (take bps (drop (s * bps) tbl) @ [0, 0])
                              (g * entry_step fmt)) [0..<group_count fmt bps])
                [s..<length tbl div bps])"
  using assms by (simp add: table_entries_def sector_entries_def group_entries_def map_concat comp_def)

lemma table_entries_single:
  assumes "fmt \<noteq> FORMAT_FAT12"
  shows "table_entries fmt bps tbl s = map (\<lambda>v. (v, v)) (map snd (table_entries fmt bps tbl s))"
  using assms unfolding map_snd_table_entries_single [OF assms]
  by (simp add: table_entries_def sector_entries_def group_entries_def map_concat comp_def)

text \<open>
  Cutting a sequence of encodings into sectors of whole entries and decoding each sector
  gives the values back: this holds for any codec.
\<close>

context byte_codec begin

lemma decode_sectors:
  assumes "bps = w * width" and "length vs = m * w" and "\<forall>v \<in> set vs. valid v"
  shows "concat (map (\<lambda>s. map (\<lambda>g. dec (take bps (drop (s * bps) (concat (map enc vs))) @ pad)
            (g * width)) [0..<w]) [0..<m]) = vs"
proof -
  have sector: "map (\<lambda>g. dec (take bps (drop (s * bps) (concat (map enc vs))) @ pad) (g * width)) [0..<w]
      = take w (drop (s * w) vs)" if "s < m" for s
  proof -
    have "Suc s * w \<le> m * w" using that by (intro mult_le_mono1) simp
    then have len: "length (take w (drop (s * w) vs)) = w" using assms(2) by simp
    have cut: "take bps (drop (s * bps) (concat (map enc vs))) = concat (map enc (take w (drop (s * w) vs)))"
      using drop_concat_enc [of "s * w" vs] take_concat_enc [of w "drop (s * w) vs"]
      by (simp add: assms(1) mult.commute mult.left_commute)
    have "\<forall>v \<in> set (take w (drop (s * w) vs)). valid v"
      using assms(3) by (meson in_set_dropD in_set_takeD)
    then have "dec (concat (map enc (take w (drop (s * w) vs))) @ pad) (g * width) =
        take w (drop (s * w) vs) ! g" if "g < w" for g
      using dec_concat [of g "take w (drop (s * w) vs)" "[]" pad] that len
      by (simp add: mult.commute)
    then show ?thesis unfolding cut by (intro nth_equalityI) (use len in auto)
  qed
  then have "map (\<lambda>s. map (\<lambda>g. dec (take bps (drop (s * bps) (concat (map enc vs))) @ pad) (g * width)) [0..<w]) [0..<m]
      = map (\<lambda>s. take w (drop (s * w) vs)) [0..<m]"
    by (intro map_cong) simp_all
  then show ?thesis by (simp only: concat_chunks [OF assms(2)])
qed

end

lemma group_count_exact: "bps = w * entry_step fmt \<Longrightarrow> group_count fmt bps = w"
proof -
  assume "bps = w * entry_step fmt"
  then have "(g < group_count fmt bps) = (g < w)" for g
    by (simp add: group_count_less)
  then show ?thesis using less_irrefl linorder_neqE_nat by metis
qed

lemma table_entries_fat16:
  assumes "bps = w * 2" and "length vs = m * w" and "0 < bps" and "\<forall>v \<in> set vs. take_bit 16 v = v"
  shows "table_entries FORMAT_FAT16 bps (concat (map byte_stream_copy_from_uint16_little_endian vs)) 0
    = map (\<lambda>v. (v, v)) vs"
proof -
  have "length (concat (map byte_stream_copy_from_uint16_little_endian vs)) div bps = m"
    using assms(1-3) by (simp add: uint16.length_concat_enc)
  then show ?thesis
    using uint16.decode_sectors [OF assms(1,2,4), of "[0, 0]"] assms(1)
    by (subst table_entries_single) (simp_all add: map_snd_table_entries_single
      group_count_exact entry_value_def entry_step_def)
qed

lemma table_entries_fat32:
  assumes "fmt = FORMAT_FAT32 \<or> fmt = FORMAT_EXFAT"
    and "bps = w * 4" and "length vs = m * w" and "0 < bps"
  shows "table_entries fmt bps (concat (map byte_stream_copy_from_uint32_little_endian vs)) 0
    = map (\<lambda>v. (v, v)) (vs :: u32 list)"
proof -
  have len: "length (concat (map byte_stream_copy_from_uint32_little_endian vs)) div bps = m"
    using assms(2-4) by (simp add: uint32.length_concat_enc)
  have fmt: "fmt \<noteq> FORMAT_FAT12" "entry_step fmt = 4" "fmt \<noteq> FORMAT_FAT16"
    using assms(1) by (auto simp: entry_step_def)
  have gc: "group_count fmt bps = w" using group_count_exact [of bps w fmt] assms(2) fmt(2) by simp
  have "\<forall>v \<in> set vs. take_bit 32 v = v" by (simp add: take_bit_word_eq_self)
  then have "map snd (table_entries fmt bps
      (concat (map byte_stream_copy_from_uint32_little_endian vs)) 0) = vs"
    unfolding map_snd_table_entries_single [OF fmt(1)] entry_value_def gc fmt(2) len
    using uint32.decode_sectors [OF assms(2,3), of "[0, 0]"] fmt by simp
  then show ?thesis by (subst table_entries_single [OF fmt(1)]) (simp only:)
qed

lemma sector_width:
  assumes "table_on_disk bfio io off table_size tbl" and "length tbl = k * length vs"
    and "k dvd unat (io_bytes_per_sector io)" and "0 < k"
  obtains w m where "unat (io_bytes_per_sector io) = w * k" and "length vs = m * w"
    and "0 < unat (io_bytes_per_sector io)"
proof -
  obtain w where w: "unat (io_bytes_per_sector io) = w * k"
    using assms(3) by (auto simp: dvd_def mult.commute)
  then have "w dvd length vs"
    using assms(1,2,4) by (simp add: table_on_disk_def mult.commute)
  then obtain m where "length vs = m * w" by (auto simp: dvd_def mult.commute)
  moreover have "0 < unat (io_bytes_per_sector io)"
    using assms(1) by (simp add: table_on_disk_def unat_gt_0)
  ultimately show ?thesis using that w by blast
qed

text \<open>
  C29. Reading a FAT-16 table of whole sectors gives back the entries that were encoded on
  disk: entry \<open>i\<close> of the table in memory is entry \<open>i\<close> of the disk, as far as the table in
  memory reaches; entries beyond the disk's table keep their old value.
\<close>

theorem allocation_table_read_fat16:
  assumes "table_on_disk bfio io off table_size
             (concat (map byte_stream_copy_from_uint16_little_endian vs))"
    and "\<forall>v \<in> set vs. take_bit 16 v = v"
    and "io_file_system_format io = FORMAT_FAT16" and "even (unat (io_bytes_per_sector io))"
    and "tables_wf at rev_at"
  shows "\<exists>r. libfsfat_allocation_table_read_file_io_handle junk bfio (Some at) rev_at (Some io)
                off table_size =
             Some (Inr (at\<lparr>cluster_numbers := overwrite 0 vs (cluster_numbers at)\<rparr>, r))"
proof -
  obtain w m where "unat (io_bytes_per_sector io) = w * 2" "length vs = m * w"
    "0 < unat (io_bytes_per_sector io)"
    by (rule sector_width [OF assms(1) uint16.length_concat_enc assms(4)]) simp_all
  from table_entries_fat16 [OF this assms(2)] show ?thesis
    using read_file_io_handle_entries [OF assms(1,5)] assms(3) by (simp add: store_result_def comp_def)
qed

theorem allocation_table_read_fat16_witness:
  "\<exists>r. libfsfat_allocation_table_read_file_io_handle (\<lambda>_. 7)
      (image_bfio ([9, 9] @ [0xf8, 0xff, 0xff, 0xff, 3, 0, 0xff, 0xff] @ [1]))
      (Some \<lparr>number_of_cluster_numbers = 5, cluster_numbers = [0, 0, 0, 0, 0]\<rparr>) None
      (Some (io_handle_zero\<lparr>io_bytes_per_sector := 4, io_file_system_format := FORMAT_FAT16\<rparr>)) 2 8 =
    Some (Inr (\<lparr>number_of_cluster_numbers = 5, cluster_numbers = [0xfff8, 0xffff, 3, 0xffff, 0]\<rparr>, r))"
proof -
  let ?io = "io_handle_zero\<lparr>io_bytes_per_sector := 4, io_file_system_format := FORMAT_FAT16\<rparr>"
  let ?vs = "[0xfff8, 0xffff, 3, 0xffff] :: u32 list"
  have enc: "concat (map byte_stream_copy_from_uint16_little_endian ?vs) =
      [0xf8, 0xff, 0xff, 0xff, 3, 0, 0xff, 0xff]"
    by (simp add: byte_stream_copy_from_uint16_little_endian_def drop_bit_eq_div)
  have "table_on_disk (image_bfio ([9, 9] @ [0xf8, 0xff, 0xff, 0xff, 3, 0, 0xff, 0xff] @ [1])) ?io 2 8
      (concat (map byte_stream_copy_from_uint16_little_endian ?vs))"
    using table_on_disk_image [of "[9, 9]" "[0xf8, 0xff, 0xff, 0xff, 3, 0, 0xff, 0xff]" ?io "[1]"]
    unfolding enc by (simp add: dvd_eq_mod_eq_0 mod_Suc)
  from allocation_table_read_fat16 [OF this, of "\<lparr>number_of_cluster_numbers = 5, cluster_numbers = [0, 0, 0, 0, 0]\<rparr>"
      None "\<lambda>_. 7"]
  show ?thesis
    by (simp add: tables_wf_def allocation_table_wf_def maximum_clusters overwrite_def
      take_bit_eq_mod)
qed

text \<open>
  Reading a FAT-32 or exFAT table of whole sectors gives back the 32-bit entries that
  were encoded on disk, all 32 bits of each.
\<close>

theorem allocation_table_read_fat32:
  assumes "table_on_disk bfio io off table_size
             (concat (map byte_stream_copy_from_uint32_little_endian (vs :: u32 list)))"
    and "io_file_system_format io = FORMAT_FAT32 \<or> io_file_system_format io = FORMAT_EXFAT"
    and "4 dvd unat (io_bytes_per_sector io)"
    and "tables_wf at rev_at"
  shows "\<exists>r. libfsfat_allocation_table_read_file_io_handle junk bfio (Some at) rev_at (Some io)
                off table_size =
             Some (Inr (at\<lparr>cluster_numbers := overwrite 0 vs (cluster_numbers at)\<rparr>, r))"
proof -
  obtain w m where "unat (io_bytes_per_sector io) = w * 4" "length vs = m * w"
    "0 < unat (io_bytes_per_sector io)"
    by (rule sector_width [OF assms(1) uint32.length_concat_enc assms(3)]) simp_all
  from table_entries_fat32 [OF assms(2) this] show ?thesis
    using read_file_io_handle_entries [OF assms(1,4)] assms(3)
    by (simp add: store_result_def comp_def)
qed

theorem allocation_table_read_fat32_witness:
  "\<exists>r. libfsfat_allocation_table_read_file_io_handle (\<lambda>_. 7)
      (image_bfio ([9] @ [0xf8, 0xff, 0xff, 0x0f, 0xff, 0xff, 0xff, 0x1f] @ []))
      (Some \<lparr>number_of_cluster_numbers = 2, cluster_numbers = [0, 0]\<rparr>) None
      (Some (io_handle_zero\<lparr>io_bytes_per_sector := 4, io_file_system_format := FORMAT_FAT32\<rparr>)) 1 8 =
    Some (Inr (\<lparr>number_of_cluster_numbers = 2, cluster_numbers = [0x0ffffff8, 0x1fffffff]\<rparr>, r))"
proof -
  let ?io = "io_handle_zero\<lparr>io_bytes_per_sector := 4, io_file_system_format := FORMAT_FAT32\<rparr>"
  let ?vs = "[0x0ffffff8, 0x1fffffff] :: u32 list"
  have enc: "concat (map byte_stream_copy_from_uint32_little_endian ?vs) =
      [0xf8, 0xff, 0xff, 0x0f, 0xff, 0xff, 0xff, 0x1f]"
    by (simp add: byte_stream_copy_from_uint32_little_endian_def drop_bit_eq_div)
  have "table_on_disk (image_bfio ([9] @ [0xf8, 0xff, 0xff, 0x0f, 0xff, 0xff, 0xff, 0x1f] @ [])) ?io 1 8
      (concat (map byte_stream_copy_from_uint32_little_endian ?vs))"
    using table_on_disk_image [of "[9]" "[0xf8, 0xff, 0xff, 0x0f, 0xff, 0xff, 0xff, 0x1f]" ?io "[]"]
    unfolding enc by (simp add: dvd_eq_mod_eq_0 mod_Suc)
  from allocation_table_read_fat32 [OF this, of "\<lparr>number_of_cluster_numbers = 2, cluster_numbers = [0, 0]\<rparr>"
      None "\<lambda>_. 7"]
  show ?thesis
    by (simp add: tables_wf_def allocation_table_wf_def maximum_clusters overwrite_def)
qed

subsection \<open>FAT-12\<close>

lemma length_sector_entries_fat12:
  "length (sector_entries FORMAT_FAT12 data bps) = 2 * ((bps + 2) div 3)"
proof -
  have "group_count FORMAT_FAT12 bps = (bps + 2) div 3"
    by (simp add: group_count_def entry_step_def)
  moreover have "length (concat (map (\<lambda>g. group_entries FORMAT_FAT12 (f g)) gs)) = 2 * length gs"
    for f :: "nat \<Rightarrow> u32" and gs
    by (induction gs) (simp_all add: group_entries_def)
  ultimately show ?thesis by (simp add: sector_entries_def)
qed

lemma nth_sector_entries_fat12:
  assumes "3 * g < bps" and "b < 2"
  shows "sector_entries FORMAT_FAT12 data bps ! (g * 2 + b) =
    group_entries FORMAT_FAT12 (byte_stream_copy_to_uint24_little_endian data (g * 3)) ! b"
proof -
  have "g < group_count FORMAT_FAT12 bps"
    using assms(1) by (simp add: group_count_less entry_step_def)
  then show ?thesis
    unfolding sector_entries_def
    by (subst nth_concat_uniform [where n = 2])
      (use assms(2) in \<open>auto simp: group_entries_def entry_value_def entry_step_def\<close>)
qed

lemma nth_table_entries_fat12:
  assumes "length tbl = m * bps" and "s < m" and "3 * g + 2 < bps" and "b < 2"
  shows "table_entries FORMAT_FAT12 bps tbl 0 ! (s * (2 * ((bps + 2) div 3)) + (g * 2 + b)) =
    group_entries FORMAT_FAT12
      (byte_stream_copy_to_uint24_little_endian tbl (s * bps + g * 3)) ! b"
proof -
  have "0 < bps" using assms(3) by simp
  then have m: "length tbl div bps = m" using assms(1) by simp
  have "Suc s * bps \<le> m * bps" using assms(2) by (intro mult_le_mono1) simp
  then have len: "s * bps + bps \<le> length tbl" using assms(1) by simp
  have less: "g * 2 + b < 2 * ((bps + 2) div 3)"
  proof -
    have "g + 1 \<le> (bps + 2) div 3" using assms(3) by (simp add: less_eq_div_iff_mult_less_eq)
    then show ?thesis using assms(4) by linarith
  qed
  have "table_entries FORMAT_FAT12 bps tbl 0 ! (s * (2 * ((bps + 2) div 3)) + (g * 2 + b)) =
      sector_entries FORMAT_FAT12 (take bps (drop (s * bps) tbl) @ [0, 0]) bps ! (g * 2 + b)"
    unfolding table_entries_def m
    by (subst nth_concat_uniform [where n = "2 * ((bps + 2) div 3)"])
      (use assms(2) less in \<open>auto simp: length_sector_entries_fat12\<close>)
  also have "\<dots> = group_entries FORMAT_FAT12
      (byte_stream_copy_to_uint24_little_endian (take bps (drop (s * bps) tbl) @ [0, 0]) (g * 3)) ! b"
    using assms(3,4) by (simp add: nth_sector_entries_fat12)
  also have "byte_stream_copy_to_uint24_little_endian (take bps (drop (s * bps) tbl) @ [0, 0]) (g * 3) =
      (byte_stream_copy_to_uint24_little_endian tbl (s * bps + g * 3) :: u32)"
    using assms(3) len
    by (simp add: byte_stream_copy_to_uint24_little_endian_def nth_append add.commute add.left_commute)
  finally show ?thesis .
qed

text \<open>
  The addressing of FAT-12: the reader starts every sector on an entry of its own, so
  the two entries number \<open>s * (2 * ((bps + 2) div 3)) + 2 * g\<close> and the next come from the
  three bytes at \<open>s * bps + 3 * g\<close> of the table, the low 12 bits first. In the first sector
  these are the entries \<open>2 * g\<close> and \<open>2 * g + 1\<close> of the FAT-12 format.
\<close>

theorem allocation_table_read_fat12:
  assumes "table_on_disk bfio io off table_size tbl"
    and "io_file_system_format io = FORMAT_FAT12"
    and "tables_wf at rev_at"
    and "bps = unat (io_bytes_per_sector io)"
    and "s < length tbl div bps" and "3 * g + 2 < bps"
    and "k = s * (2 * ((bps + 2) div 3)) + 2 * g"
    and "int k + 1 < number_of_cluster_numbers at"
  shows "\<exists>a r. libfsfat_allocation_table_read_file_io_handle junk bfio (Some at) rev_at (Some io)
                off table_size = Some (Inr (a, r)) \<and>
           cluster_numbers a ! k =
             byte_stream_copy_to_uint24_little_endian tbl (s * bps + 3 * g) AND 0xfff \<and>
           cluster_numbers a ! (k + 1) =
             drop_bit 12 (byte_stream_copy_to_uint24_little_endian tbl (s * bps + 3 * g))"
proof -
  obtain m where m: "length tbl = m * bps" "0 < bps"
    using assms(1,4) by (auto simp: table_on_disk_def dvd_def mult.commute unat_gt_0)
  then have s: "s < m" using assms(5) by simp
  let ?es = "table_entries FORMAT_FAT12 bps tbl 0"
  have nth: "?es ! (k + b) = group_entries FORMAT_FAT12
      (byte_stream_copy_to_uint24_little_endian tbl (s * bps + 3 * g)) ! b" if "b < 2" for b
    using nth_table_entries_fat12 [OF m(1) s assms(6) that] assms(7)
    by (simp add: add.assoc mult.commute)
  have len: "length ?es = m * (2 * ((bps + 2) div 3))"
    using m unfolding table_entries_def
    by (subst length_concat_uniform [where n = "2 * ((bps + 2) div 3)"])
      (auto simp: length_sector_entries_fat12)
  have "Suc s * (2 * ((bps + 2) div 3)) \<le> m * (2 * ((bps + 2) div 3))"
    using s by (intro mult_le_mono1) simp
  moreover have "2 * g + 1 < 2 * ((bps + 2) div 3)"
  proof -
    have "g + 1 \<le> (bps + 2) div 3" using assms(6) by (simp add: less_eq_div_iff_mult_less_eq)
    then show ?thesis by linarith
  qed
  ultimately have k: "k + 1 < length ?es" using assms(7) len by simp
  have n: "k + 1 < length (cluster_numbers at)"
    using assms(3,8) by (auto simp: tables_wf_def allocation_table_wf_def)
  show ?thesis
    using read_file_io_handle_entries [OF assms(1,3)] assms(2,4) k n nth [of 0] nth [of 1]
    by (auto simp: store_result_def nth_overwrite group_entries_def)
qed

theorem allocation_table_read_fat12_witness:
  "\<exists>a r. libfsfat_allocation_table_read_file_io_handle (\<lambda>_. 7)
      (image_bfio ([] @ [0xf0, 0xff, 0xff, 0x03, 0x40, 0x00, 0xff, 0x0f] @ []))
      (Some \<lparr>number_of_cluster_numbers = 6, cluster_numbers = [0, 0, 0, 0, 0, 0]\<rparr>) None
      (Some (io_handle_zero\<lparr>io_bytes_per_sector := 4, io_file_system_format := FORMAT_FAT12\<rparr>)) 0 8 =
    Some (Inr (a, r)) \<and> cluster_numbers a ! 4 = 0x40 \<and> cluster_numbers a ! 5 = 0xff0"
proof -
  let ?io = "io_handle_zero\<lparr>io_bytes_per_sector := 4, io_file_system_format := FORMAT_FAT12\<rparr>"
  let ?tbl = "[0xf0, 0xff, 0xff, 0x03, 0x40, 0x00, 0xff, 0x0f] :: u8 list"
  have "table_on_disk (image_bfio ([] @ ?tbl @ [])) ?io 0 8 ?tbl"
    using table_on_disk_image [of "[]" ?tbl ?io "[]"] by (simp add: dvd_eq_mod_eq_0 mod_Suc)
  from allocation_table_read_fat12 [OF this, of "\<lparr>number_of_cluster_numbers = 6,
      cluster_numbers = [0, 0, 0, 0, 0, 0]\<rparr>" None 4 1 0 4 "\<lambda>_. 7"]
  show ?thesis
    by (simp add: tables_wf_def allocation_table_wf_def maximum_clusters
      byte_stream_copy_to_uint24_little_endian_def drop_bit_eq_div take_bit_eq_mod)
qed

text \<open>The entry the FAT-12 format stores at index \<open>k\<close>: 12 bits each, across sectors.\<close>

definition fat12_format_entry :: "u8 list \<Rightarrow> nat \<Rightarrow> u32" where
  "fat12_format_entry tbl k =
     (if even k then byte_stream_copy_to_uint16_little_endian tbl (3 * (k div 2)) AND 0xfff
      else drop_bit 4 (byte_stream_copy_to_uint16_little_endian tbl (3 * (k div 2) + 1)))"

text \<open>
  A FAT-12 table of more than one sector of 512 bytes is not read as the format stores
  it. On a table of two sectors whose only non-zero byte is byte 512, the reader stores 1 as
  entry 342, the first it takes from the second sector; by the format byte 512 is the high
  byte of entry 341 and entry 342 starts at byte 513. This is a defect of the reader, which
  keeps no state for an entry that spans two sectors.
\<close>

theorem allocation_table_fat12_second_sector:
  "let tbl = replicate 512 0 @ [1] @ replicate 511 0;
       io = io_handle_zero\<lparr>io_bytes_per_sector := 512, io_file_system_format := FORMAT_FAT12\<rparr>;
       at = \<lparr>number_of_cluster_numbers = 400, cluster_numbers = replicate 400 0\<rparr>
   in \<exists>a r. libfsfat_allocation_table_read_file_io_handle junk (image_bfio tbl) (Some at) None
               (Some io) 0 1024 = Some (Inr (a, r)) \<and>
            cluster_numbers a ! 341 = 0 \<and> fat12_format_entry tbl 341 = 0x10 \<and>
            cluster_numbers a ! 342 = 1 \<and> fat12_format_entry tbl 342 = 0"
proof -
  let ?tbl = "replicate 512 0 @ [1] @ replicate 511 0 :: u8 list"
  let ?io = "io_handle_zero\<lparr>io_bytes_per_sector := 512, io_file_system_format := FORMAT_FAT12\<rparr>"
  let ?at = "\<lparr>number_of_cluster_numbers = 400, cluster_numbers = replicate 400 0\<rparr>"
  let ?es = "table_entries FORMAT_FAT12 512 ?tbl 0"
  have m: "length ?tbl = 2 * 512" by simp
  have disk: "table_on_disk (image_bfio ?tbl) ?io 0 1024 ?tbl"
    using table_on_disk_image [of "[]" ?tbl ?io "[]"] by simp
  have wf: "tables_wf ?at None"
    by (simp add: tables_wf_def allocation_table_wf_def maximum_clusters)
  have entry: "?es ! 342 =
      group_entries FORMAT_FAT12 (byte_stream_copy_to_uint24_little_endian ?tbl 512) ! 0"
    using nth_table_entries_fat12 [OF m, of 1 0 0] by simp
  have data: "take 512 ?tbl @ [0, 0] = replicate 514 0"
  proof -
    have "replicate 514 (0::u8) = replicate (512 + 2) 0" by simp
    also have "\<dots> = replicate 512 0 @ [0, 0]"
      by (subst replicate_add) (simp add: numeral_2_eq_2)
    finally show ?thesis by simp
  qed
  have "?es ! 341 = sector_entries FORMAT_FAT12 (replicate 514 0) 512 ! 341"
    using data unfolding table_entries_def
    by (simp add: upt_conv_Cons nth_append length_sector_entries_fat12)
  then have entry': "?es ! 341 = (0, 0)"
    using nth_sector_entries_fat12 [of 170 512 1 "replicate 514 0"]
    by (simp add: group_entries_def byte_stream_copy_to_uint24_little_endian_def)
  have len: "length ?es = 684"
    unfolding table_entries_def
    by (subst length_concat_uniform [where n = 342]) (auto simp: length_sector_entries_fat12)
  have nums: "overwrite 0 (map snd ?es) (replicate 400 0) ! 341 = 0"
    "overwrite 0 (map snd ?es) (replicate 400 0) ! 342 = 1"
    using len entry entry'
    by (simp_all add: nth_overwrite group_entries_def nth_append
      byte_stream_copy_to_uint24_little_endian_def)
  have format: "fat12_format_entry ?tbl 341 = 0x10" "fat12_format_entry ?tbl 342 = 0"
    by (simp_all add: fat12_format_entry_def byte_stream_copy_to_uint16_little_endian_def nth_append
      drop_bit_eq_div push_bit_eq_mult)
  show ?thesis
    using read_file_io_handle_entries [OF disk wf, of junk] nums format
    by (simp add: Let_def store_result_def)
qed

subsection \<open>The reversed table\<close>

lemma reverse_entries_snoc:
  "reverse_entries n idx (es @ [(c, v)]) rs =
   (let rs' = reverse_entries n idx es rs; k = idx + int (length es)
    in if k < n \<and> c < of_int n then rs'[unat v := of_int k] else rs')"
proof (induction n idx es rs rule: reverse_entries.induct)
  case (2 n idx c' v' es rs)
  show ?case
  proof (cases "n \<le> idx")
    case False
    then show ?thesis using 2 [of] by (simp add: Let_def add.assoc)
  qed (simp add: Let_def)
qed (simp add: Let_def)

lemma reverse_entries_snoc_nth:
  assumes "0 < n" and "n \<le> 2 ^ 26" and "int (length rs) = n" and "uint v < n"
  shows "reverse_entries n 0 (map (\<lambda>v. (v, v)) (vs @ [x])) rs ! unat v =
      (if int (length vs) < n \<and> x = v then of_nat (length vs)
       else reverse_entries n 0 (map (\<lambda>v. (v, v)) vs) rs ! unat v)"
proof -
  have v: "unat v < length rs"
    using assms(3,4) by (simp only: uint_nat of_nat_less_iff flip: assms(3))
  have less: "v < of_int n" using word_less_of_int [OF assms(1,2), of v] assms(4) by (simp only:)
  show ?thesis
  proof (cases "x = v")
    case True
    then show ?thesis using v less by (simp add: reverse_entries_snoc Let_def)
  next
    case False
    then have "unat x \<noteq> unat v" by (simp only: word_unat_eq_iff not_False_eq_True)
    then show ?thesis using False by (simp add: reverse_entries_snoc Let_def nth_list_update_neq)
  qed
qed

lemma reverse_entries_missing:
  assumes "0 < n" and "n \<le> 2 ^ 26" and "int (length rs) = n" and "uint v < n"
    and "\<And>j. j < length vs \<Longrightarrow> int j < n \<Longrightarrow> vs ! j \<noteq> v"
  shows "reverse_entries n 0 (map (\<lambda>v. (v, v)) vs) rs ! unat v = rs ! unat v"
  using assms(5)
proof (induction vs rule: rev_induct)
  case (snoc x vs)
  have "\<not> (int (length vs) < n \<and> x = v)" using snoc.prems [of "length vs"] by auto
  moreover have "vs ! j \<noteq> v" if "j < length vs" "int j < n" for j
    using snoc.prems [of j] that by (simp add: nth_append)
  ultimately show ?case
    using reverse_entries_snoc_nth [OF assms(1-4), of vs x] snoc.IH by presburger
qed simp

lemma reverse_entries_last:
  assumes "0 < n" and "n \<le> 2 ^ 26" and "int (length rs) = n" and "uint v < n"
    and "i < length vs" and "int i < n" and "vs ! i = v"
    and "\<And>j. i < j \<Longrightarrow> j < length vs \<Longrightarrow> int j < n \<Longrightarrow> vs ! j \<noteq> v"
  shows "reverse_entries n 0 (map (\<lambda>v. (v, v)) vs) rs ! unat v = of_nat i"
  using assms(5,7,8)
proof (induction vs rule: rev_induct)
  case (snoc x vs)
  note step = reverse_entries_snoc_nth [OF assms(1-4), of vs x]
  show ?case
  proof (cases "i = length vs")
    case True
    then show ?thesis using snoc.prems(2) assms(6) step by simp
  next
    case False
    then have i: "i < length vs" "vs ! i = v" using snoc.prems by (auto simp: nth_append)
    have "\<not> (int (length vs) < n \<and> x = v)"
      using snoc.prems(3) [of "length vs"] i(1) by auto
    moreover have "vs ! j \<noteq> v" if "i < j" "j < length vs" "int j < n" for j
      using snoc.prems(3) [of j] that by (simp add: nth_append)
    ultimately show ?thesis using step snoc.IH [OF i] by presburger
  qed
qed simp

text \<open>
  The reversed table of a FAT-16 volume names for every cluster \<open>v\<close> the last entry
  of the table that points to \<open>v\<close>; a cluster no entry points to keeps its old value.
\<close>

theorem allocation_table_reversed_fat16:
  assumes "table_on_disk bfio io off table_size
             (concat (map byte_stream_copy_from_uint16_little_endian (vs :: u32 list)))"
    and "\<forall>v \<in> set vs. take_bit 16 v = v"
    and "io_file_system_format io = FORMAT_FAT16" and "even (unat (io_bytes_per_sector io))"
    and "tables_wf at (Some rev_at)"
    and "n = number_of_cluster_numbers at" and "uint v < n"
  shows "\<exists>a r. libfsfat_allocation_table_read_file_io_handle junk bfio (Some at) (Some rev_at)
                 (Some io) off table_size = Some (Inr (a, Some r)) \<and>
           (\<forall>i < length vs. int i < n \<and> vs ! i = v \<and>
               (\<forall>j < length vs. i < j \<and> int j < n \<longrightarrow> vs ! j \<noteq> v) \<longrightarrow>
             cluster_numbers r ! unat v = of_nat i) \<and>
           ((\<forall>j < length vs. int j < n \<longrightarrow> vs ! j \<noteq> v) \<longrightarrow>
             cluster_numbers r ! unat v = cluster_numbers rev_at ! unat v)"
proof -
  obtain w m where "unat (io_bytes_per_sector io) = w * 2" "length vs = m * w"
    "0 < unat (io_bytes_per_sector io)"
    by (rule sector_width [OF assms(1) uint16.length_concat_enc assms(4)]) simp_all
  note es = table_entries_fat16 [OF this assms(2)]
  have n: "0 < n" "n \<le> 2 ^ 26" "int (length (cluster_numbers rev_at)) = n"
    using assms(5,6) by (simp_all add: tables_wf_def allocation_table_wf_def maximum_clusters)
  note missing = reverse_entries_missing [OF n assms(7), of vs]
  note last = reverse_entries_last [OF n assms(7), of _ vs]
  show ?thesis
    using read_file_io_handle_entries [OF assms(1,5), of junk] assms(3) es missing last assms(6)
    by (auto simp: store_result_def)
qed

theorem allocation_table_reversed_fat16_witness:
  "\<exists>a r. libfsfat_allocation_table_read_file_io_handle (\<lambda>_. 7)
      (image_bfio ([] @ [3, 0, 3, 0, 0xff, 0xff, 1, 0] @ []))
      (Some \<lparr>number_of_cluster_numbers = 4, cluster_numbers = [0, 0, 0, 0]\<rparr>)
      (Some \<lparr>number_of_cluster_numbers = 4, cluster_numbers = [0, 0, 0, 0]\<rparr>)
      (Some (io_handle_zero\<lparr>io_bytes_per_sector := 4, io_file_system_format := FORMAT_FAT16\<rparr>)) 0 8 =
    Some (Inr (a, Some r)) \<and> cluster_numbers r ! 3 = 1"
proof -
  let ?io = "io_handle_zero\<lparr>io_bytes_per_sector := 4, io_file_system_format := FORMAT_FAT16\<rparr>"
  let ?vs = "[3, 3, 0xffff, 1] :: u32 list"
  let ?at = "\<lparr>number_of_cluster_numbers = 4, cluster_numbers = [0, 0, 0, 0]\<rparr>"
  have enc: "concat (map byte_stream_copy_from_uint16_little_endian ?vs) =
      [3, 0, 3, 0, 0xff, 0xff, 1, 0]"
    by (simp add: byte_stream_copy_from_uint16_little_endian_def drop_bit_eq_div)
  have "table_on_disk (image_bfio ([] @ [3, 0, 3, 0, 0xff, 0xff, 1, 0] @ [])) ?io 0 8
      (concat (map byte_stream_copy_from_uint16_little_endian ?vs))"
    using table_on_disk_image [of "[]" "[3, 0, 3, 0, 0xff, 0xff, 1, 0]" ?io "[]"]
    unfolding enc by (simp add: dvd_eq_mod_eq_0 mod_Suc)
  from allocation_table_reversed_fat16 [OF this, of ?at ?at 4 3 "\<lambda>_. 7"]
  obtain a r where run: "libfsfat_allocation_table_read_file_io_handle (\<lambda>_. 7)
      (image_bfio ([] @ [3, 0, 3, 0, 0xff, 0xff, 1, 0] @ [])) (Some ?at) (Some ?at) (Some ?io) 0 8 =
      Some (Inr (a, Some r))"
    and last: "\<forall>i < 4. int i < 4 \<and> ?vs ! i = 3 \<and>
               (\<forall>j < 4. i < j \<and> int j < 4 \<longrightarrow> ?vs ! j \<noteq> 3) \<longrightarrow> cluster_numbers r ! 3 = of_nat i"
    by (auto simp: tables_wf_def allocation_table_wf_def maximum_clusters take_bit_eq_mod)
  have "?vs ! j \<noteq> 3" if "1 < j" "j < 4" for j
  proof -
    have "j = 2 \<or> j = 3" using that by auto
    then show ?thesis by auto
  qed
  then have "cluster_numbers r ! 3 = of_nat 1" using last [rule_format, of 1] by simp
  then show ?thesis using run by auto
qed

lemma drop_bit_12_ge:
  assumes "drop_bit 12 (c::u32) \<noteq> 0"
  shows "2 ^ 12 \<le> uint c"
proof (rule ccontr)
  assume "\<not> 2 ^ 12 \<le> uint c"
  then have "uint c div 2 ^ 12 = 0" by simp
  then have "uint (drop_bit 12 c) = 0" by (simp add: drop_bit_eq_div uint_div)
  then show False using assms by (simp add: uint_0_iff)
qed

text \<open>
  The reversed table of a FAT-12 volume misses entries: of two entries in three
  bytes of which the second is not 0, the first is never reversed, as the reader compares
  all 24 bits with the number of clusters. Only the second entry is.
\<close>

theorem allocation_table_reversed_fat12:
  assumes "tables_wf at (Some rev_at)" and "number_of_cluster_numbers at \<le> 4096"
    and "0 \<le> idx" and "idx + 1 < number_of_cluster_numbers at"
    and "off + 2 < length data"
    and "(c :: u32) = byte_stream_copy_to_uint24_little_endian data off" and "drop_bit 12 c \<noteq> 0"
  shows "\<exists>a. read_entry_step FORMAT_FAT12 data off at (Some rev_at) idx =
    Inr (a, Some (if uint (drop_bit 12 c) < number_of_cluster_numbers at
                  then rev_at\<lparr>cluster_numbers :=
                         (cluster_numbers rev_at)[unat (drop_bit 12 c) := of_int (idx + 1)]\<rparr>
                  else rev_at), idx + 2, True)"
proof -
  let ?n = "number_of_cluster_numbers at"
  have n: "0 < ?n" "?n \<le> 2 ^ 26"
    using assms(1) by (simp_all add: tables_wf_def allocation_table_wf_def maximum_clusters)
  have "\<not> c < of_int ?n"
    using drop_bit_12_ge [OF assms(7)] assms(2) word_less_of_int [OF n, of c] by simp
  then have first: "store_result at (Some rev_at) idx [(c, c AND 0xfff)] =
      (at\<lparr>cluster_numbers := overwrite (nat idx) [c AND 0xfff] (cluster_numbers at)\<rparr>, Some rev_at)"
    using assms(4) by (simp add: store_result_def)
  define at' where "at' = at\<lparr>cluster_numbers := overwrite (nat idx) [c AND 0xfff] (cluster_numbers at)\<rparr>"
  have wf: "tables_wf at' (Some rev_at)" "number_of_cluster_numbers at' = ?n"
    using store_result_wf [OF assms(1) first] by (simp_all add: at'_def)
  have "store_cluster_number at (Some rev_at) idx c (c AND 0xfff) = Inr (at', Some rev_at)"
    using store_cluster_number_wf [OF assms(1,3), of "c AND 0xfff" c] assms(4) first
    by (simp add: at'_def word_and_le2)
  moreover have "store_cluster_number at' (Some rev_at) (idx + 1) (drop_bit 12 c) (drop_bit 12 c) =
      Inr (store_result at' (Some rev_at) (idx + 1) [(drop_bit 12 c, drop_bit 12 c)])"
    using store_cluster_number_wf [OF wf(1)] assms(3,4) wf(2) by simp
  moreover have "snd (store_result at' (Some rev_at) (idx + 1) [(drop_bit 12 c, drop_bit 12 c)]) =
      Some (if uint (drop_bit 12 c) < ?n
            then rev_at\<lparr>cluster_numbers :=
                   (cluster_numbers rev_at)[unat (drop_bit 12 c) := of_int (idx + 1)]\<rparr>
            else rev_at)"
    using wf(2) assms(4) word_less_of_int [OF n, of "drop_bit 12 c"] by (simp add: store_result_def)
  moreover have "read_entry_value FORMAT_FAT12 data off = Inr c"
    using assms(5,6) by (simp add: read_entry_value_def)
  ultimately show ?thesis
    using wf(2) assms(4)
    by (cases "store_result at' (Some rev_at) (idx + 1) [(drop_bit 12 c, drop_bit 12 c)]")
      (simp add: read_entry_step_def)
qed

theorem allocation_table_reversed_fat12_witness:
  "\<exists>a. read_entry_step FORMAT_FAT12 [3, 0x20, 0, 0] 0
      \<lparr>number_of_cluster_numbers = 4, cluster_numbers = [0, 0, 0, 0]\<rparr>
      (Some \<lparr>number_of_cluster_numbers = 4, cluster_numbers = [0, 0, 0, 0]\<rparr>) 0 =
    Inr (a, Some \<lparr>number_of_cluster_numbers = 4, cluster_numbers = [0, 0, 1, 0]\<rparr>, 2, True)"
  using allocation_table_reversed_fat12 [where data = "[3, 0x20, 0, 0]" and off = 0 and idx = 0
      and at = "\<lparr>number_of_cluster_numbers = 4, cluster_numbers = [0, 0, 0, 0]\<rparr>"
      and rev_at = "\<lparr>number_of_cluster_numbers = 4, cluster_numbers = [0, 0, 0, 0]\<rparr>" and c = "0x2003 :: u32"]
  by (simp add: tables_wf_def allocation_table_wf_def maximum_clusters drop_bit_eq_div
    byte_stream_copy_to_uint24_little_endian_def push_bit_eq_mult)

subsection \<open>Creating and looking up\<close>

text \<open>
  A new table for \<open>n\<close> clusters is well-formed and answers 0 for every index from 0 to
  \<open>n - 1\<close>; any other index is the out of bounds error. As clusters are numbered from 2, the
  entries of the last two clusters, \<open>n\<close> and \<open>n + 1\<close>, are out of bounds.
\<close>

theorem allocation_table_new:
  assumes "libfsfat_allocation_table_initialize None n = Inr at"
  shows "allocation_table_wf at \<and>
    libfsfat_allocation_table_get_cluster_number_by_index (Some at) i =
      (if 0 \<le> i \<and> i < uint n then Inr 0 else Inl ARGUMENT_VALUE_OUT_OF_BOUNDS)"
proof -
  have n: "n \<noteq> 0" "n \<le> MAXIMUM_NUMBER_OF_CLUSTERS_IN_FAT"
    and at: "at = \<lparr>number_of_cluster_numbers = sint n, cluster_numbers = replicate (unat n) 0\<rparr>"
    using assms by (auto simp: libfsfat_allocation_table_initialize_def split: if_splits)
  have "uint n \<le> 2 ^ 26" using n(2) maximum_clusters unfolding word_le_def by simp
  then have s: "sint n = uint n" by (simp add: sint_32_small)
  moreover have "uint n \<noteq> 0" using n(1) by (simp only: uint_0_iff not_False_eq_True)
  then have "0 < uint n" using uint_ge_0 [of n] by linarith
  moreover have len: "(nat i < unat n) = (i < uint n)" if "0 \<le> i"
    using that by (simp only: uint_nat nat_less_iff)
  ultimately show ?thesis
    using \<open>uint n \<le> 2 ^ 26\<close>
    by (auto simp: at allocation_table_wf_def maximum_clusters
      libfsfat_allocation_table_get_cluster_number_by_index_def)
qed

theorem allocation_table_new_witness:
  "libfsfat_allocation_table_get_cluster_number_by_index
     (Some \<lparr>number_of_cluster_numbers = 2, cluster_numbers = [0, 0]\<rparr>) 2 =
     Inl ARGUMENT_VALUE_OUT_OF_BOUNDS"
proof -
  have "libfsfat_allocation_table_initialize None 2 =
      Inr \<lparr>number_of_cluster_numbers = 2, cluster_numbers = [0, 0]\<rparr>"
    by (simp add: libfsfat_allocation_table_initialize_def maximum_clusters_word)
      (simp add: numeral_2_eq_2)
  from allocation_table_new [OF this, of 2] show ?thesis by simp
qed

end
