(* ===== verification/Date_Time.thy ===== *)
theory Date_Time
  imports Prelude
begin

text \<open>
  The date and time conversion of \<^verbatim>\<open>libfsfat/libfsfat_date_time.c\<close>: the packed FAT
  values become a number of 10 millisecond intervals. The result is compared with the
  number of days since January 1, 1980 by the closed formula of the calendar.
\<close>

section \<open>The conversion\<close>

definition is_leap_year :: "u16 \<Rightarrow> bool" where
  "is_leap_year year \<longleftrightarrow> (year mod 4 = 0 \<and> year mod 100 \<noteq> 0) \<or> year mod 400 = 0"

definition days_in_month :: "u16 \<Rightarrow> u8 \<Rightarrow> u64" where
  "days_in_month year month =
     (if month = 2 then (if is_leap_year year then 29 else 28)
      else if month = 4 \<or> month = 6 \<or> month = 9 \<or> month = 11 then 30
      else if month = 1 \<or> month = 3 \<or> month = 5 \<or> month = 7 \<or> month = 8 \<or> month = 10 \<or> month = 12
      then 31
      else 0)"

text \<open>The two loops of the function, which count \<open>month\<close> and \<open>year\<close> down.\<close>

function add_months :: "u16 \<Rightarrow> u8 \<Rightarrow> u64 \<Rightarrow> u64" where
  "add_months year month timestamp =
     (if month > 0 then add_months year (month - 1) (timestamp + days_in_month year month)
      else timestamp)"
  by pat_completeness auto
termination
  by (relation "measure (\<lambda>(year, month, timestamp). unat month)")
    (auto simp: unat_minus_one unat_gt_0 word_gt_0)

function add_years :: "u16 \<Rightarrow> u64 \<Rightarrow> u64" where
  "add_years year timestamp =
     (if year > 1980
      then add_years (year - 1) (timestamp + (if is_leap_year year then 366 else 365))
      else timestamp)"
  by pat_completeness auto
termination
  by (relation "measure (\<lambda>(year, timestamp). unat year)")
    (auto simp: unat_minus_exact word_less_nat_alt)

declare add_months.simps [simp del] add_years.simps [simp del]

definition add_utc_offset :: "u16 \<Rightarrow> u64 \<Rightarrow> u64" where
  "add_utc_offset fat_time_utc_offset timestamp =
     (if fat_time_utc_offset AND 0x80 \<noteq> 0
      then
        let offset = fat_time_utc_offset AND 0x7f
        in if offset < 0x40 then timestamp + ucast offset * 15
           else timestamp - ucast (0x80 - offset) * 15
      else timestamp)"

text \<open>\<open>NULL\<close> for the result is the only error of the function.\<close>

definition libfsfat_date_time_get_timestamp :: "u16 \<Rightarrow> u16 \<Rightarrow> u16 \<Rightarrow> u16 \<Rightarrow> u64 result" where
  "libfsfat_date_time_get_timestamp fat_date fat_time fat_time_fraction fat_time_utc_offset =
     (let year = 1980 + (drop_bit 9 fat_date AND 0x7f);
          month = (ucast (drop_bit 5 fat_date AND 0x0f) :: u8);
          day_of_month = (ucast (fat_date AND 0x1f) :: u8);
          hours = (ucast (drop_bit 11 fat_time AND 0x1f) :: u8);
          minutes = (ucast (drop_bit 5 fat_time AND 0x3f) :: u8);
          seconds = (ucast (fat_time AND 0x1f) :: u8) * 2;
          timestamp = add_months year month (ucast day_of_month);
          timestamp = add_years year timestamp;
          timestamp = timestamp * 24 + ucast hours;
          timestamp = timestamp * 60 + ucast minutes;
          timestamp = add_utc_offset fat_time_utc_offset timestamp;
          timestamp = timestamp * 60 + ucast seconds
      in Inr (timestamp * 100 + ucast fat_time_fraction))"

section \<open>The values in natural numbers\<close>

definition leap_year :: "nat \<Rightarrow> bool" where
  "leap_year y \<longleftrightarrow> (y mod 4 = 0 \<and> y mod 100 \<noteq> 0) \<or> y mod 400 = 0"

definition month_length :: "nat \<Rightarrow> nat \<Rightarrow> nat" where
  "month_length y m =
     (if m = 2 then (if leap_year y then 29 else 28)
      else if m \<in> {4, 6, 9, 11} then 30
      else if m \<in> {1, 3, 5, 7, 8, 10, 12} then 31 else 0)"

definition year_length :: "nat \<Rightarrow> nat" where
  "year_length y = (if leap_year y then 366 else 365)"

lemma is_leap_year_nat: "is_leap_year y = leap_year (unat y)"
  by (simp add: is_leap_year_def leap_year_def unat_eq_zero [symmetric] unat_mod)

lemma days_in_month_nat: "unat (days_in_month y m) = month_length (unat y) (unat m)"
proof -
  have eq: "(m = n) = (unat m = unat n)" for n by (simp add: word_unat_eq_iff)
  show ?thesis
    by (simp add: days_in_month_def month_length_def is_leap_year_nat eq [of "numeral k" for k] eq [of 1])
qed

section \<open>The loops\<close>

lemma month_length_le: "month_length y m \<le> 31"
  by (simp add: month_length_def)

lemma year_length_le: "year_length y \<le> 366"
  by (simp add: year_length_def)

lemma sum_Suc_last: "0 < (n::nat) \<Longrightarrow> (\<Sum>i = 1..n. f i) = (\<Sum>i = 1..n - 1. f i) + (f n :: nat)"
  by (cases n) simp_all

lemma add_months_nat:
  "unat month \<le> 15 \<Longrightarrow> unat t < 2 ^ 20 - unat month * 31 \<Longrightarrow>
   unat (add_months year month t) = unat t + (\<Sum>m = 1..unat month. month_length (unat year) m)"
proof (induction year month t rule: add_months.induct)
  case (1 year month t)
  show ?case
  proof (cases "0 < unat month")
    case True
    let ?d = "days_in_month year month"
    have d: "unat ?d = month_length (unat year) (unat month)" by (rule days_in_month_nat)
    have le: "month_length (unat year) (unat month) \<le> 31" by (rule month_length_le)
    have m: "unat (month - 1) = unat month - 1" using True by (simp add: unat_minus_exact)
    have t: "unat (t + ?d) = unat t + month_length (unat year) (unat month)"
      using 1(3) le by (subst unat_add_exact) (simp_all add: d)
    have "unat (add_months year (month - 1) (t + ?d)) =
        unat (t + ?d) + (\<Sum>m = 1..unat month - 1. month_length (unat year) m)"
      using 1 True le m t by (simp add: word_less_nat_alt)
    then show ?thesis
      using True t sum_Suc_last [OF True, of "month_length (unat year)"]
      by (subst add_months.simps) (simp add: word_less_nat_alt)
  next
    case False
    then show ?thesis by (subst add_months.simps) (simp add: word_less_nat_alt)
  qed
qed

lemma add_years_nat:
  "unat year < 2200 \<Longrightarrow> unat t + (unat year - 1980) * 366 < 2 ^ 20 \<Longrightarrow>
   unat (add_years year t) = unat t + (\<Sum>y = 1981..unat year. year_length y)"
proof (induction year t rule: add_years.induct)
  case (1 year t)
  show ?case
  proof (cases "1980 < unat year")
    case True
    let ?d = "if is_leap_year year then 366 else 365 :: u64"
    have d: "unat ?d = year_length (unat year)"
      by (simp add: year_length_def is_leap_year_nat)
    have y: "unat (year - 1) = unat year - 1" using True by (simp add: unat_minus_exact)
    have le: "unat t + year_length (unat year) + (unat year - 1 - 1980) * 366 < 2 ^ 20"
    proof -
      have "unat year - 1980 = Suc (unat year - 1 - 1980)" using True by simp
      then have "(unat year - 1980) * 366 = 366 + (unat year - 1 - 1980) * 366" by simp
      then show ?thesis using 1(3) year_length_le [of "unat year"] by linarith
    qed
    have t: "unat (t + ?d) = unat t + year_length (unat year)"
      using le unfolding d [symmetric] by (subst unat_add_exact) simp_all
    have "unat (add_years (year - 1) (t + ?d)) =
        unat (t + ?d) + (\<Sum>y = 1981..unat year - 1. year_length y)"
      using 1(1,2) True le y t by (simp add: word_less_nat_alt)
    moreover have "(\<Sum>y = 1981..unat year. year_length y) =
        (\<Sum>y = 1981..unat year - 1. year_length y) + year_length (unat year)"
      using True by (cases "unat year") (simp_all add: sum.cl_ivl_Suc)
    ultimately show ?thesis
      using True t by (subst add_years.simps) (simp add: word_less_nat_alt)
  next
    case False
    then show ?thesis by (subst add_years.simps) (simp add: word_less_nat_alt)
  qed
qed

section \<open>The packed fields\<close>

definition date_year :: "u16 \<Rightarrow> nat" where "date_year date = 1980 + unat date div 512"
definition date_month :: "u16 \<Rightarrow> nat" where "date_month date = unat date div 32 mod 16"
definition date_day :: "u16 \<Rightarrow> nat" where "date_day date = unat date mod 32"
definition time_hours :: "u16 \<Rightarrow> nat" where "time_hours time = unat time div 2048"
definition time_minutes :: "u16 \<Rightarrow> nat" where "time_minutes time = unat time div 32 mod 64"
definition time_seconds :: "u16 \<Rightarrow> nat" where "time_seconds time = unat time mod 32 * 2"

text \<open>The offset in minutes: seven bits with sign, in quarters of an hour.\<close>

definition utc_offset_minutes :: "u16 \<Rightarrow> int" where
  "utc_offset_minutes off =
     (if unat off div 128 mod 2 = 0 then 0
      else if unat off mod 128 < 64 then int (unat off mod 128) * 15
      else (int (unat off mod 128) - 128) * 15)"

lemmas packed_defs = date_year_def date_month_def date_day_def time_hours_def time_minutes_def
  time_seconds_def

lemma unat_and_mask:
  "unat (w AND 0x7f :: u16) = unat w mod 128" "unat (w AND 0x3f :: u16) = unat w mod 64"
  "unat (w AND 0x1f :: u16) = unat w mod 32" "unat (w AND 0x0f :: u16) = unat w mod 16"
proof -
  have masks: "w AND 0x7f = take_bit 7 w" "w AND 0x3f = take_bit 6 w" "w AND 0x1f = take_bit 5 w"
    "w AND 0x0f = take_bit 4 w"
    by (simp_all add: take_bit_eq_mask mask_eq_exp_minus_1)
  show "unat (w AND 0x7f) = unat w mod 128" "unat (w AND 0x3f) = unat w mod 64"
    "unat (w AND 0x1f) = unat w mod 32" "unat (w AND 0x0f) = unat w mod 16"
    unfolding masks unsigned_take_bit_eq by (simp_all add: take_bit_eq_mod)
qed

lemma unat_drop_bit_16: "unat (drop_bit n (w :: u16)) = unat w div 2 ^ n"
  unfolding unat_drop_bit_eq by (simp add: drop_bit_eq_div)

lemma unat_u8_of_u16: "unat w < 256 \<Longrightarrow> unat (ucast (w :: u16) :: u8) = unat w"
  by (simp add: unsigned_ucast_eq take_bit_nat_eq_self)

lemma utc_flag: "(off AND 0x80 = (0 :: u16)) = (unat off div 128 mod 2 = 0)"
proof -
  have "(off AND 0x80 = 0) = (\<not> bit off 7)"
    using and_exp_eq_0_iff_not_bit [of off 7] by simp
  also have "bit off 7 = bit (unat off) 7" by (simp add: bit_unsigned_iff)
  also have "(\<not> bit (unat off) 7) = (unat off div 128 mod 2 = 0)"
    by (simp add: bit_iff_odd even_iff_mod_2_eq_zero)
  finally show ?thesis .
qed

lemma unpack_fields:
  shows "unat (1980 + (drop_bit 9 date AND 0x7f) :: u16) = date_year date"
    and "unat (ucast (drop_bit 5 date AND 0x0f) :: u8) = date_month date"
    and "unat (ucast (date AND 0x1f) :: u8) = date_day date"
    and "unat (ucast (drop_bit 11 time AND 0x1f) :: u8) = time_hours time"
    and "unat (ucast (drop_bit 5 time AND 0x3f) :: u8) = time_minutes time"
    and "unat ((ucast (time AND 0x1f) :: u8) * 2) = time_seconds time"
proof -
  have date: "unat date < 65536" and time: "unat time < 65536"
    using unat_bounds(2) [of date] unat_bounds(2) [of time] by simp_all
  have "unat date div 512 < 128" "unat time div 2048 < 32" using date time by simp_all
  then have small: "unat date div 512 mod 128 = unat date div 512"
    "unat time div 2048 mod 32 = unat time div 2048" by simp_all
  show "unat (1980 + (drop_bit 9 date AND 0x7f) :: u16) = date_year date"
    using date by (subst unat_add_exact)
      (simp_all add: unat_and_mask unat_drop_bit_16 date_year_def small)
  show "unat (ucast (drop_bit 5 date AND 0x0f) :: u8) = date_month date"
    "unat (ucast (date AND 0x1f) :: u8) = date_day date"
    "unat (ucast (drop_bit 11 time AND 0x1f) :: u8) = time_hours time"
    "unat (ucast (drop_bit 5 time AND 0x3f) :: u8) = time_minutes time"
    by (subst unat_u8_of_u16; use time in \<open>simp add: unat_and_mask unat_drop_bit_16 packed_defs small\<close>)+
  have "unat (ucast (time AND 0x1f) :: u8) = unat time mod 32"
    by (subst unat_u8_of_u16; simp add: unat_and_mask)
  then show "unat ((ucast (time AND 0x1f) :: u8) * 2) = time_seconds time"
    by (subst unat_mult_exact) (simp_all add: time_seconds_def)
qed

section \<open>The timestamp\<close>

text \<open>The days the function counts, and the days of the calendar since January 1, 1980.\<close>

definition counted_days :: "nat \<Rightarrow> nat \<Rightarrow> nat \<Rightarrow> nat" where
  "counted_days y m d = d + (\<Sum>i = 1..m. month_length y i) + (\<Sum>i = 1981..y. year_length i)"

definition calendar_days :: "nat \<Rightarrow> nat \<Rightarrow> nat \<Rightarrow> nat" where
  "calendar_days y m d =
     (d - 1) + (\<Sum>i = 1..<m. month_length y i) + (\<Sum>i = 1980..<y. year_length i)"

lemma counted_days_le:
  assumes "y < 2108" and "m < 16" and "d < 32"
  shows "counted_days y m d < 48000"
proof -
  have "(\<Sum>i = 1..m. month_length y i) \<le> (\<Sum>i = 1..m. 31)"
    by (rule sum_mono) (rule month_length_le)
  moreover have "(\<Sum>i = 1981..y. year_length i) \<le> (\<Sum>i = 1981..y. 366)"
    by (rule sum_mono) (rule year_length_le)
  ultimately show ?thesis using assms by (simp add: counted_days_def)
qed

lemma date_bounds:
  "date_year date < 2108" "date_month date < 16" "date_day date < 32"
  "time_hours time < 32" "time_minutes time < 64" "time_seconds time < 64"
  using unat_bounds(2) [of date] unat_bounds(2) [of time] by (simp_all add: packed_defs)

lemma days_nat:
  "unat (add_years (1980 + (drop_bit 9 date AND 0x7f))
      (add_months (1980 + (drop_bit 9 date AND 0x7f)) (ucast (drop_bit 5 date AND 0x0f))
         (ucast (ucast (date AND 0x1f) :: u8)))) =
   counted_days (date_year date) (date_month date) (date_day date)"
proof -
  let ?y = "1980 + (drop_bit 9 date AND 0x7f) :: u16"
  let ?m = "ucast (drop_bit 5 date AND 0x0f) :: u8"
  let ?d = "ucast (ucast (date AND 0x1f) :: u8) :: u64"
  have d: "unat ?d = date_day date" using unpack_fields(3) by (simp add: unat_ucast_up)
  note bounds = date_bounds(1-3) [of date]
  have m: "unat (add_months ?y ?m ?d) = date_day date + (\<Sum>m = 1..date_month date. month_length (date_year date) m)"
    using add_months_nat [of ?m ?d ?y] bounds by (simp add: unpack_fields(1,2) d)
  have "(\<Sum>m = 1..date_month date. month_length (date_year date) m) \<le> (\<Sum>m = 1..date_month date. 31)"
    by (rule sum_mono) (rule month_length_le)
  then have "date_day date + (\<Sum>m = 1..date_month date. month_length (date_year date) m) < 500"
    using bounds by simp
  then show ?thesis
    using add_years_nat [of ?y "add_months ?y ?m ?d"] bounds
    by (simp add: unpack_fields(1) m counted_days_def)
qed

lemma add_utc_offset_nat:
  assumes "unat t < 2 ^ 32" and "960 \<le> unat t \<or> 0 \<le> utc_offset_minutes off"
  shows "int (unat (add_utc_offset off t)) = int (unat t) + utc_offset_minutes off"
proof (cases "off AND 0x80 = 0")
  case True
  then show ?thesis
    using utc_flag [of off] by (simp add: add_utc_offset_def utc_offset_minutes_def)
next
  case False
  then have flag: "unat off div 128 mod 2 \<noteq> 0" using utc_flag by blast
  let ?v = "off AND 0x7f"
  have v: "unat ?v = unat off mod 128" by (rule unat_and_mask(1))
  have less: "(?v < 0x40) = (unat off mod 128 < 64)" by (simp add: word_less_nat_alt v)
  show ?thesis
  proof (cases "unat off mod 128 < 64")
    case True
    have p: "unat (ucast ?v * 15 :: u64) = unat off mod 128 * 15"
      using True by (subst unat_mult_exact) (simp_all add: unat_ucast_up v)
    then have "unat (t + ucast ?v * 15) = unat t + unat off mod 128 * 15"
      using True assms(1) by (subst unat_add_exact) simp_all
    then show ?thesis
      using True False flag less by (simp add: add_utc_offset_def utc_offset_minutes_def Let_def)
  next
    case neg: False
    then have "utc_offset_minutes off < 0" using flag by (simp add: utc_offset_minutes_def)
    then have t: "960 \<le> unat t" using assms(2) by simp
    have w: "unat (0x80 - ?v) = 128 - unat off mod 128"
      by (subst unat_minus_exact) (simp_all add: v less_imp_le)
    have p: "unat (ucast (0x80 - ?v) * 15 :: u64) = (128 - unat off mod 128) * 15"
      using neg by (subst unat_mult_exact) (simp_all add: unat_ucast_up w)
    have le: "(128 - unat off mod 128) * 15 \<le> 960" using neg by linarith
    then have "unat (t - ucast (0x80 - ?v) * 15) = unat t - (128 - unat off mod 128) * 15"
      using t by (subst unat_minus_exact) (simp_all only: p)
    moreover have "int (unat t - (128 - unat off mod 128) * 15) =
        int (unat t) + (int (unat off mod 128) - 128) * 15"
      using le t by (simp add: of_nat_diff algebra_simps)
    ultimately show ?thesis
      using neg False flag less by (simp add: add_utc_offset_def utc_offset_minutes_def Let_def)
  qed
qed

lemma timestamp_nat:
  assumes "days = counted_days (date_year date) (date_month date) (date_day date)"
    and "0 < days \<or> 0 \<le> utc_offset_minutes off"
  obtains ts where "libfsfat_date_time_get_timestamp date time fraction off = Inr ts"
    and "int (unat ts) =
      (((int days * 24 + int (time_hours time)) * 60 + int (time_minutes time)
          + utc_offset_minutes off) * 60 + int (time_seconds time)) * 100 + int (unat fraction)"
proof -
  let ?t0 = "add_years (1980 + (drop_bit 9 date AND 0x7f))
      (add_months (1980 + (drop_bit 9 date AND 0x7f)) (ucast (drop_bit 5 date AND 0x0f))
         (ucast (ucast (date AND 0x1f) :: u8)))"
  note b = date_bounds(1-3) [of date] date_bounds(4-6) [of time]
  have t0: "unat ?t0 = days" unfolding assms(1) by (rule days_nat)
  have days: "days < 48000" unfolding assms(1) by (rule counted_days_le) (use b in auto)
  let ?t1 = "?t0 * 24 + ucast (ucast (drop_bit 11 time AND 0x1f) :: u8)"
  have "unat (?t0 * 24) = days * 24" using days by (subst unat_mult_exact) (simp_all add: t0)
  then have t1: "unat ?t1 = days * 24 + time_hours time"
    using days b by (subst unat_add_exact) (simp_all add: unat_ucast_up unpack_fields(4))
  let ?t2 = "?t1 * 60 + ucast (ucast (drop_bit 5 time AND 0x3f) :: u8)"
  have "unat (?t1 * 60) = (days * 24 + time_hours time) * 60"
    using days b by (subst unat_mult_exact; unfold t1) simp_all
  then have t2: "unat ?t2 = (days * 24 + time_hours time) * 60 + time_minutes time"
    using days b by (subst unat_add_exact) (simp_all add: unat_ucast_up unpack_fields(5))
  have off: "- 960 \<le> utc_offset_minutes off" "utc_offset_minutes off \<le> 945"
    by (auto simp: utc_offset_minutes_def)
  let ?t3 = "add_utc_offset off ?t2"
  have step: "int (unat ?t3) = int (unat ?t2) + utc_offset_minutes off"
    by (rule add_utc_offset_nat; unfold t2; use days b assms(2) in simp) (use b in auto)
  obtain n3 where n3: "unat ?t3 = n3" by blast
  have t3: "int n3 =
      (int days * 24 + int (time_hours time)) * 60 + int (time_minutes time) + utc_offset_minutes off"
    using step unfolding t2 n3 by simp
  then have t3_le: "n3 < 4294967296" using days b(4-6) off by (simp add: algebra_simps)
  let ?t4 = "?t3 * 60 + ucast ((ucast (time AND 0x1f) :: u8) * 2)"
  have "unat (?t3 * 60) = n3 * 60" by (subst unat_mult_exact; unfold n3; use t3_le in simp)
  then have t4: "unat ?t4 = n3 * 60 + time_seconds time"
    using t3_le b by (subst unat_add_exact) (simp_all add: unat_ucast_up unpack_fields(6) [simplified])
  let ?t5 = "?t4 * 100 + ucast fraction"
  have t4h: "unat (?t4 * 100) = (n3 * 60 + time_seconds time) * 100"
    by (subst unat_mult_exact; unfold t4; use t3_le b in simp)
  have "unat (ucast fraction :: u64) = unat fraction" by (simp add: unat_ucast_up)
  then have t5: "unat ?t5 = (n3 * 60 + time_seconds time) * 100 + unat fraction"
    by (subst unat_add_exact; unfold t4h; use t3_le b unat_bounds(2) [of fraction] in simp)
  show ?thesis
    by (rule that [of ?t5])
      (simp add: libfsfat_date_time_get_timestamp_def Let_def, unfold t5, simp only: t3 of_nat_simps of_nat_numeral)
qed

lemma counted_calendar_days:
  assumes "1 \<le> d" and "1 \<le> m" and "1980 \<le> y"
  shows "int (counted_days y m d) =
    int (calendar_days y m d) + 1 + int (month_length y m) + int (year_length y) - 366"
proof -
  have "(\<Sum>i = 1..m. month_length y i) = (\<Sum>i = 1..<m. month_length y i) + month_length y m"
    using assms(2) by (simp add: sum.head_if atLeastLessThanSuc_atLeastAtMost [symmetric])
  moreover have "(\<Sum>i = 1981..y. year_length i) + year_length 1980 =
      (\<Sum>i = 1980..<y. year_length i) + year_length y"
  proof -
    have "sum year_length (insert 1980 {1981..y}) = year_length 1980 + sum year_length {1981..y}"
      "sum year_length (insert y {1980..<y}) = year_length y + sum year_length {1980..<y}"
      by simp_all
    moreover have "insert 1980 {1981..y} = insert y {1980..<y}" using assms(3) by auto
    ultimately show ?thesis by simp
  qed
  moreover have "year_length 1980 = 366" by (simp add: year_length_def leap_year_def)
  ultimately have "counted_days y m d + 366 = calendar_days y m d + 1 + month_length y m + year_length y"
    using assms(1) by (simp add: counted_days_def calendar_days_def)
  then show ?thesis by linarith
qed

section \<open>The calendar\<close>

text \<open>
  The number of a day in the Gregorian calendar by its closed formula, in which the year begins
  with March: no table of months and no rule for leap years.
\<close>

definition march_first :: "int \<Rightarrow> int" where
  "march_first y = 365 * y + y div 4 - y div 100 + y div 400"

definition civil_day :: "nat \<Rightarrow> nat \<Rightarrow> nat \<Rightarrow> int" where
  "civil_day y m d =
     march_first (int y - (if m < 3 then 1 else 0)) + int ((153 * ((m + 9) mod 12) + 2) div 5) + int d"

definition days_of_month :: "nat \<Rightarrow> nat \<Rightarrow> int" where
  "days_of_month y m = civil_day (y + m div 12) (m mod 12 + 1) 1 - civil_day y m 1"

definition days_of_year :: "nat \<Rightarrow> int" where
  "days_of_year y = civil_day (y + 1) 1 1 - civil_day y 1 1"

lemma div_pred: "0 < n \<Longrightarrow> (x - 1) div n = x div n - (if n dvd x then 1 else 0)" for x n :: int
proof -
  assume n: "0 < n"
  show ?thesis
  proof (cases "n dvd x")
    case True
    then obtain q where "x = n * q" by (auto elim: dvdE)
    moreover have "(n * q - 1) div n = q - 1"
      by (rule int_div_pos_eq [of _ _ _ "n - 1"]) (use n in \<open>simp_all add: algebra_simps\<close>)
    ultimately show ?thesis using n by simp
  next
    case False
    then have "x mod n \<noteq> 0" by (simp add: dvd_eq_mod_eq_0)
    then have "1 \<le> x mod n" using pos_mod_sign [OF n, of x] by linarith
    then have "(x - 1) div n = x div n"
      by (intro int_div_pos_eq [of _ _ _ "x mod n - 1"])
        (use n pos_mod_bound [OF n, of x] in \<open>simp_all add: algebra_simps\<close>)
    then show ?thesis using False by simp
  qed
qed

lemma leap_year_dvd: "leap_year y \<longleftrightarrow> (4 dvd int y \<and> \<not> 100 dvd int y) \<or> 400 dvd int y"
proof -
  have "(numeral k dvd int y) = (y mod numeral k = 0)" for k
    by (metis dvd_eq_mod_eq_0 int_dvd_int_iff of_nat_numeral)
  then show ?thesis by (simp add: leap_year_def)
qed

lemma march_first_next: "march_first (int y) = march_first (int y - 1) + int (year_length y)"
proof -
  have "100 dvd int y" if "400 dvd int y" using that by (rule dvd_trans [rotated]) simp
  moreover have "4 dvd int y" if "100 dvd int y" using that by (rule dvd_trans [rotated]) simp
  ultimately show ?thesis
    by (auto simp: march_first_def div_pred year_length_def leap_year_dvd)
qed

lemma civil_day_year: "civil_day (Suc y) 1 1 = civil_day y 1 1 + int (year_length y)"
  using march_first_next [of y] by (simp add: civil_day_def)

lemma civil_day_next_month:
  assumes "1 \<le> m" and "m \<le> 11"
  shows "civil_day y (Suc m) 1 = civil_day y m 1 + int (month_length y m)"
proof -
  have "m = 1 \<or> m = 2 \<or> m = 3 \<or> m = 4 \<or> m = 5 \<or> m = 6 \<or> m = 7 \<or> m = 8 \<or> m = 9 \<or> m = 10 \<or> m = 11"
    using assms by presburger
  then show ?thesis
    using march_first_next [of y]
    by (elim disjE) (simp_all add: civil_day_def month_length_def year_length_def)
qed

lemma civil_day_month:
  "1 \<le> m \<Longrightarrow> m \<le> 12 \<Longrightarrow> civil_day y m 1 = civil_day y 1 1 + int (\<Sum>i = 1..<m. month_length y i)"
proof (induction m rule: dec_induct)
  case (step m)
  then show ?case using civil_day_next_month [of m y] by simp
qed simp

lemma month_length_ge: "1 \<le> m \<Longrightarrow> m \<le> 12 \<Longrightarrow> 28 \<le> month_length y m"
proof -
  assume "1 \<le> m" "m \<le> 12"
  then have "m = 2 \<or> m \<in> {4, 6, 9, 11} \<or> m \<in> {1, 3, 5, 7, 8, 10, 12}"
    unfolding insert_iff empty_iff by presburger
  then show ?thesis by (auto simp: month_length_def)
qed

lemma days_of_year_length: "days_of_year y = int (year_length y)"
  using civil_day_year [of y] by (simp add: days_of_year_def)

lemma days_of_month_length:
  assumes "1 \<le> m" and "m \<le> 12"
  shows "days_of_month y m = int (month_length y m)"
proof (cases "m = 12")
  case True
  have "civil_day (Suc y) 1 1 - civil_day y 12 1 = 31"
    by (simp add: civil_day_def)
  then show ?thesis using True by (simp add: days_of_month_def month_length_def)
next
  case False
  then show ?thesis using assms civil_day_next_month [of m y] by (simp add: days_of_month_def)
qed

lemma civil_day_calendar:
  assumes "1980 \<le> y" and "1 \<le> m" and "m \<le> 12" and "1 \<le> d"
  shows "civil_day y m d - civil_day 1980 1 1 = int (calendar_days y m d)"
proof -
  have "civil_day y 1 1 = civil_day 1980 1 1 + int (\<Sum>i = 1980..<y. year_length i)"
    using assms(1)
  proof (induction y rule: dec_induct)
    case (step y)
    then show ?case using civil_day_year [of y] by simp
  qed simp
  moreover have "civil_day y m d = civil_day y m 1 + int (d - 1)" using assms(4) by (simp add: civil_day_def)
  ultimately show ?thesis
    using civil_day_month [OF assms(2,3), of y] by (simp add: calendar_days_def)
qed

text \<open>The timestamp by the calendar.\<close>

lemma timestamp_calendar:
  assumes "1 \<le> date_day date" and "1 \<le> date_month date" and "date_month date \<le> 12"
    and "documented = ((((civil_day (date_year date) (date_month date) (date_day date) - civil_day 1980 1 1) * 24
          + int (time_hours time)) * 60 + int (time_minutes time) + utc_offset_minutes off) * 60
        + int (time_seconds time)) * 100 + int (unat fraction)"
    and "late = 1 + days_of_month (date_year date) (date_month date) + (days_of_year (date_year date) - 366)"
  shows "\<exists>ts. libfsfat_date_time_get_timestamp date time fraction off = Inr ts \<and>
    int (unat ts) = documented + late * (24 * 60 * 60 * 100) \<and> 28 \<le> late \<and> late \<le> 32"
proof -
  let ?y = "date_year date" and ?m = "date_month date" and ?d = "date_day date"
  let ?days = "counted_days ?y ?m ?d"
  have y: "1980 \<le> ?y" by (simp add: date_year_def)
  have late: "late = 1 + int (month_length ?y ?m) + int (year_length ?y) - 366"
    using days_of_month_length [OF assms(2,3)] by (simp add: assms(5) days_of_year_length)
  have days: "int ?days = (civil_day ?y ?m ?d - civil_day 1980 1 1) + late"
    using counted_calendar_days [OF assms(1,2) y] civil_day_calendar [OF y assms(2,3,1)] late by simp
  have "0 < ?days" using assms(1) by (simp add: counted_days_def)
  then obtain ts where "libfsfat_date_time_get_timestamp date time fraction off = Inr ts"
    and "int (unat ts) = (((int ?days * 24 + int (time_hours time)) * 60 + int (time_minutes time)
          + utc_offset_minutes off) * 60 + int (time_seconds time)) * 100 + int (unat fraction)"
    using timestamp_nat [of ?days date off time fraction] by blast
  moreover have "28 \<le> late" "late \<le> 32"
    using month_length_ge [OF assms(2,3), of ?y] month_length_le [of ?y ?m]
    unfolding late by (auto simp: year_length_def)
  ultimately show ?thesis unfolding days assms(4) by (simp add: algebra_simps)
qed

text \<open>
  C35. The timestamp is not the number of 10 millisecond intervals since January 1, 1980 that the comment
  of the function promises: for every valid date it is that number, by the closed formula of the
  calendar, and a number of whole days, from 28 to 32, as the loops count the whole month and the whole year
  of the date. The time of day, the fraction and the offset from UTC, seven bits with sign in quarters of
  an hour that are added, count exactly, without wrap-around.
\<close>

theorem date_time_timestamp:
  assumes "1 \<le> date_day date" and "1 \<le> date_month date" and "date_month date \<le> 12"
    and "documented = ((((civil_day (date_year date) (date_month date) (date_day date) - civil_day 1980 1 1) * 24
          + int (time_hours time)) * 60 + int (time_minutes time) + utc_offset_minutes off) * 60
        + int (time_seconds time)) * 100 + int (unat fraction)"
    and "late = 1 + days_of_month (date_year date) (date_month date) + (days_of_year (date_year date) - 366)"
  shows "\<exists>ts. libfsfat_date_time_get_timestamp date time fraction off = Inr ts \<and>
    int (unat ts) = documented + late * (24 * 60 * 60 * 100) \<and> 28 \<le> late \<and> late \<le> 32"
  by (rule timestamp_calendar [OF assms])

theorem date_time_timestamp_witness:
  "\<exists>ts. libfsfat_date_time_get_timestamp 0x0021 0x0801 5 0xfc = Inr ts \<and>
    int (unat ts) = 205 + 32 * (24 * 60 * 60 * 100)"
  using date_time_timestamp [of "0x0021" 205 "0x0801" "0xfc" 5 32]
  by (simp add: packed_defs utc_offset_minutes_def days_of_month_def days_of_year_def civil_day_def march_first_def)

text \<open>
  The timestamp does not keep the order of dates: January 31, 1980 gets a later
  timestamp than February 1, and January 30 the same as February 1.
\<close>

theorem date_time_not_monotone:
  "\<exists>jan30 jan31 feb1.
     libfsfat_date_time_get_timestamp 0x003e 0 0 0 = Inr jan30 \<and>
     libfsfat_date_time_get_timestamp 0x003f 0 0 0 = Inr jan31 \<and>
     libfsfat_date_time_get_timestamp 0x0041 0 0 0 = Inr feb1 \<and>
     calendar_days 1980 1 30 < calendar_days 1980 1 31 \<and>
     calendar_days 1980 1 31 < calendar_days 1980 2 1 \<and>
     jan30 = feb1 \<and> feb1 < jan31"
proof -
  have [simp]: "utc_offset_minutes 0 = 0" by (simp add: utc_offset_minutes_def)
  have "{1..2::nat} = {1, 2}" by auto
  then have days: "counted_days 1980 1 30 = 61" "counted_days 1980 1 31 = 62" "counted_days 1980 2 1 = 61"
    by (simp_all add: counted_days_def month_length_def leap_year_def)
  have dates: "date_year 0x3e = 1980" "date_month 0x3e = 1" "date_day 0x3e = 30"
    "date_year 0x3f = 1980" "date_month 0x3f = 1" "date_day 0x3f = 31"
    "date_year 0x41 = 1980" "date_month 0x41 = 2" "date_day 0x41 = 1"
    "time_hours 0 = 0" "time_minutes 0 = 0" "time_seconds 0 = 0"
    by (simp_all add: packed_defs)
  obtain a where a: "libfsfat_date_time_get_timestamp 0x003e 0 0 0 = Inr a" "int (unat a) = 61 * 8640000"
    by (rule timestamp_nat [of 61 "0x3e" 0 0 0]) (simp_all only: dates days, simp_all)
  obtain b where b: "libfsfat_date_time_get_timestamp 0x003f 0 0 0 = Inr b" "int (unat b) = 62 * 8640000"
    by (rule timestamp_nat [of 62 "0x3f" 0 0 0]) (simp_all only: dates days, simp_all)
  obtain c where c: "libfsfat_date_time_get_timestamp 0x0041 0 0 0 = Inr c" "int (unat c) = 61 * 8640000"
    by (rule timestamp_nat [of 61 "0x41" 0 0 0]) (simp_all only: dates days, simp_all)
  have "a = c" using a(2) c(2) by (simp add: word_uint_eq_iff)
  moreover have "c < b" using b(2) c(2) by (simp add: word_less_def)
  moreover have "calendar_days 1980 1 30 < calendar_days 1980 1 31"
    "calendar_days 1980 1 31 < calendar_days 1980 2 1"
    by (simp_all add: calendar_days_def month_length_def)
  ultimately show ?thesis using a b c by blast
qed

end
