(* ===== verification/Directory_Entry.thy ===== *)
theory Directory_Entry
  imports Byte_Stream Date_Time Libcdata_Array
begin

text \<open>
  The directory entries of \<^verbatim>\<open>libfsfat/libfsfat_directory_entry.c\<close>: the reader of the
  32 bytes of an entry for FAT and exFAT, the getters, and the names that are put together
  from the entry itself or from the long name entries in front of or behind it. Arrays
  hold pointers to entries, so the entries live in a store and arrays hold addresses.
\<close>

section \<open>Entries\<close>

datatype directory_entry_type =
    TYPE_TERMINATOR | TYPE_UNALLOCATED | TYPE_SHORT_NAME | TYPE_VFAT_LONG_NAME
  | TYPE_EXFAT_ALLOCATION_BITMAP | TYPE_EXFAT_DATA_STREAM | TYPE_EXFAT_FILE_ENTRY
  | TYPE_EXFAT_FILE_ENTRY_NAME | TYPE_EXFAT_UPCASE_TABLE | TYPE_EXFAT_UNKNOWN
  | TYPE_EXFAT_VOLUME_IDENTIFIER | TYPE_EXFAT_VOLUME_LABEL

definition FILE_ATTRIBUTE_FLAG_VOLUME_LABEL :: u16 where
  "FILE_ATTRIBUTE_FLAG_VOLUME_LABEL = 0x08"

definition FILE_ATTRIBUTE_FLAG_DIRECTORY :: u16 where
  "FILE_ATTRIBUTE_FLAG_DIRECTORY = 0x10"

text \<open>
  \<open>de_name\<close> holds the bytes written into the buffer of the name. The buffer of a short name
  can be longer, its rest is not initialised and never read.
\<close>

record 'arr directory_entry =
  de_entry_type :: directory_entry_type
  de_identifier :: u64
  de_name_data :: "u8 list"
  de_name :: "u8 list option"
  de_name_size :: u64
  de_is_unicode :: u8
  de_vfat_sequence_number :: u8
  de_file_attribute_flags :: u16
  de_creation_date :: u16
  de_creation_time :: u16
  de_creation_time_fraction :: u8
  de_creation_time_utc_offset :: u8
  de_access_date :: u16
  de_access_time :: u16
  de_access_time_utc_offset :: u8
  de_modification_date :: u16
  de_modification_time :: u16
  de_modification_time_fraction :: u8
  de_modification_time_utc_offset :: u8
  de_name_entries_array :: "'arr option"
  de_data_start_cluster :: u32
  de_data_size :: u64
  de_valid_data_size :: u64

type_synonym 'arr entry_store = "nat \<Rightarrow> 'arr directory_entry option"

definition directory_entry_zero :: "'arr directory_entry" where
  "directory_entry_zero =
     \<lparr> de_entry_type = TYPE_TERMINATOR, de_identifier = 0, de_name_data = replicate 32 0,
       de_name = None, de_name_size = 0, de_is_unicode = 0, de_vfat_sequence_number = 0,
       de_file_attribute_flags = 0, de_creation_date = 0, de_creation_time = 0,
       de_creation_time_fraction = 0, de_creation_time_utc_offset = 0, de_access_date = 0,
       de_access_time = 0, de_access_time_utc_offset = 0, de_modification_date = 0,
       de_modification_time = 0, de_modification_time_fraction = 0,
       de_modification_time_utc_offset = 0, de_name_entries_array = None,
       de_data_start_cluster = 0, de_data_size = 0, de_valid_data_size = 0 \<rparr>"

definition libfsfat_directory_entry_initialize ::
  "'arr directory_entry option \<Rightarrow> 'arr directory_entry result" where
  "libfsfat_directory_entry_initialize directory_entry =
     (if directory_entry \<noteq> None then Inl RUNTIME_VALUE_ALREADY_SET
      else Inr directory_entry_zero)"

section \<open>Reading an entry\<close>

text \<open>The type of an entry.\<close>

definition determine_entry_type :: "u8 list \<Rightarrow> file_system_format \<Rightarrow> directory_entry_type" where
  "determine_entry_type data file_system_format =
     (if file_system_format = FORMAT_EXFAT
      then
        (if data ! 0 = 0 then TYPE_TERMINATOR
         else if data ! 0 = 0x81 then TYPE_EXFAT_ALLOCATION_BITMAP
         else if data ! 0 = 0x82 then TYPE_EXFAT_UPCASE_TABLE
         else if data ! 0 = 0x83 then TYPE_EXFAT_VOLUME_LABEL
         else if data ! 0 = 0x85 then TYPE_EXFAT_FILE_ENTRY
         else if data ! 0 = 0xc0 then TYPE_EXFAT_DATA_STREAM
         else if data ! 0 = 0xc1 then TYPE_EXFAT_FILE_ENTRY_NAME
         else TYPE_EXFAT_UNKNOWN)
      else if data = replicate 32 0 then TYPE_TERMINATOR
      else if (data ! 0 \<ge> 0x01 \<and> data ! 0 \<le> 0x13) \<or> (data ! 0 \<ge> 0x41 \<and> data ! 0 \<le> 0x54)
      then
        (if data ! 11 = 0x0f \<and> data ! 12 = 0x00 \<and> data ! 26 = 0x00 \<and> data ! 27 = 0x00
         then TYPE_VFAT_LONG_NAME else TYPE_SHORT_NAME)
      else if data ! 0 = 0xe5 then TYPE_UNALLOCATED
      else TYPE_SHORT_NAME)"

text \<open>\<open>memory_copy\<close> of \<open>n\<close> bytes of the data at \<open>from\<close> to the name data at \<open>to\<close>.\<close>

definition copy_name_data :: "u8 list \<Rightarrow> nat \<Rightarrow> nat \<Rightarrow> nat \<Rightarrow> 'arr directory_entry \<Rightarrow> 'arr directory_entry" where
  "copy_name_data data from to n de =
     de\<lparr> de_name_data := overwrite to (take n (drop from data)) (de_name_data de) \<rparr>"

definition read_short_name :: "u8 list \<Rightarrow> 'arr directory_entry \<Rightarrow> 'arr directory_entry" where
  "read_short_name data de =
     (copy_name_data data 8 8 3 (copy_name_data data 0 0 8 de))\<lparr>
       de_file_attribute_flags := ucast (data ! 11),
       de_creation_time_fraction := data ! 13,
       de_creation_date := byte_stream_copy_to_uint16_little_endian data 16,
       de_creation_time := byte_stream_copy_to_uint16_little_endian data 14,
       de_access_date := byte_stream_copy_to_uint16_little_endian data 18,
       de_modification_date := byte_stream_copy_to_uint16_little_endian data 24,
       de_modification_time := byte_stream_copy_to_uint16_little_endian data 22,
       de_data_start_cluster := byte_stream_copy_to_uint16_little_endian data 26,
       de_data_size := byte_stream_copy_to_uint32_little_endian data 28 \<rparr>"

definition read_vfat_long_name :: "u8 list \<Rightarrow> 'arr directory_entry \<Rightarrow> 'arr directory_entry" where
  "read_vfat_long_name data de =
     copy_name_data data 28 (10 + 12) 4 (copy_name_data data 14 10 12 (copy_name_data data 1 0 10
       (de\<lparr> de_vfat_sequence_number := data ! 0 \<rparr>)))"

text \<open>The size of the name is taken from the byte at 1, as for a volume label.\<close>

definition read_exfat_data_stream :: "u8 list \<Rightarrow> 'arr directory_entry \<Rightarrow> 'arr directory_entry" where
  "read_exfat_data_stream data de =
     de\<lparr> de_name_size := ucast (data ! 1) * 2,
         de_valid_data_size := byte_stream_copy_to_uint64_little_endian data 8,
         de_data_start_cluster := byte_stream_copy_to_uint32_little_endian data 20,
         de_data_size := byte_stream_copy_to_uint64_little_endian data 24 \<rparr>"

definition read_exfat_file_entry :: "u8 list \<Rightarrow> 'arr directory_entry \<Rightarrow> 'arr directory_entry" where
  "read_exfat_file_entry data de =
     de\<lparr> de_file_attribute_flags := byte_stream_copy_to_uint16_little_endian data 4,
         de_creation_date := byte_stream_copy_to_uint16_little_endian data 10,
         de_creation_time := byte_stream_copy_to_uint16_little_endian data 8,
         de_modification_date := byte_stream_copy_to_uint16_little_endian data 14,
         de_modification_time := byte_stream_copy_to_uint16_little_endian data 12,
         de_access_date := byte_stream_copy_to_uint16_little_endian data 18,
         de_access_time := byte_stream_copy_to_uint16_little_endian data 16,
         de_creation_time_fraction := data ! 20,
         de_modification_time_fraction := data ! 21,
         de_creation_time_utc_offset := data ! 22,
         de_access_time_utc_offset := data ! 24,
         de_modification_time_utc_offset := data ! 23 \<rparr>"

definition read_exfat_file_entry_name :: "u8 list \<Rightarrow> 'arr directory_entry \<Rightarrow> 'arr directory_entry" where
  "read_exfat_file_entry_name data de = copy_name_data data 2 0 30 de"

definition read_exfat_volume_label ::
  "u8 list \<Rightarrow> 'arr directory_entry \<Rightarrow> 'arr directory_entry result" where
  "read_exfat_volume_label data de =
     (let de = (copy_name_data data 2 0 22 de)\<lparr> de_name_size := ucast (data ! 1) \<rparr>
      in if de_name_size de > 11 then Inl ARGUMENT_VALUE_OUT_OF_BOUNDS
         else Inr (de\<lparr> de_name_size := de_name_size de * 2 \<rparr>))"

text \<open>The boolean is the return value: \<open>False\<close> for 0, the end of the directory.\<close>

definition libfsfat_directory_entry_read_data ::
  "'arr directory_entry option \<Rightarrow> u8 list option \<Rightarrow> file_system_format \<Rightarrow>
   ('arr directory_entry \<times> bool) result" where
  "libfsfat_directory_entry_read_data directory_entry data file_system_format =
     (case directory_entry of
        None \<Rightarrow> Inl ARGUMENT_INVALID_VALUE
      | Some de \<Rightarrow>
     (case data of
        None \<Rightarrow> Inl ARGUMENT_INVALID_VALUE
      | Some data \<Rightarrow>
          if length data \<noteq> 32 then Inl ARGUMENT_VALUE_OUT_OF_BOUNDS
          else
            let type = determine_entry_type data file_system_format;
                de = de\<lparr> de_entry_type := type \<rparr>
            in if type = TYPE_TERMINATOR then Inr (de, False)
               else if type = TYPE_SHORT_NAME then Inr (read_short_name data de, True)
               else if type = TYPE_VFAT_LONG_NAME then Inr (read_vfat_long_name data de, True)
               else if type = TYPE_EXFAT_DATA_STREAM then Inr (read_exfat_data_stream data de, True)
               else if type = TYPE_EXFAT_FILE_ENTRY then Inr (read_exfat_file_entry data de, True)
               else if type = TYPE_EXFAT_FILE_ENTRY_NAME
               then Inr (read_exfat_file_entry_name data de, True)
               else if type = TYPE_EXFAT_VOLUME_LABEL
               then (case read_exfat_volume_label data de of
                       Inl e \<Rightarrow> Inl e
                     | Inr de \<Rightarrow> Inr (de, True))
               else Inr (de, True)))"

definition libfsfat_directory_entry_read_file_io_handle ::
  "bfio \<Rightarrow> 'arr directory_entry option \<Rightarrow> off64 \<Rightarrow> file_system_format \<Rightarrow>
   ('arr directory_entry \<times> bool) result" where
  "libfsfat_directory_entry_read_file_io_handle bfio directory_entry file_offset file_system_format =
     (if directory_entry = None then Inl ARGUMENT_INVALID_VALUE
      else
        (case bfio file_offset 32 of
           None \<Rightarrow> Inl IO_READ_FAILED
         | Some data \<Rightarrow>
             if length data \<noteq> 32 then Inl IO_READ_FAILED
             else
               (case libfsfat_directory_entry_read_data directory_entry (Some data) file_system_format of
                  Inl e \<Rightarrow> Inl IO_READ_FAILED
                | Inr r \<Rightarrow> Inr r)))"

section \<open>Getters\<close>

definition libfsfat_directory_entry_get_identifier :: "'arr directory_entry option \<Rightarrow> u64 result" where
  "libfsfat_directory_entry_get_identifier directory_entry =
     (case directory_entry of
        None \<Rightarrow> Inl ARGUMENT_INVALID_VALUE
      | Some de \<Rightarrow> Inr (de_identifier de))"

definition libfsfat_directory_entry_get_access_time :: "'arr directory_entry option \<Rightarrow> u64 result" where
  "libfsfat_directory_entry_get_access_time directory_entry =
     (case directory_entry of
        None \<Rightarrow> Inl ARGUMENT_INVALID_VALUE
      | Some de \<Rightarrow>
          (case libfsfat_date_time_get_timestamp (de_access_date de) (de_access_time de) 0
                  (ucast (de_access_time_utc_offset de)) of
             Inl e \<Rightarrow> Inl RUNTIME_GET_FAILED
           | Inr timestamp \<Rightarrow> Inr timestamp))"

definition libfsfat_directory_entry_get_creation_time :: "'arr directory_entry option \<Rightarrow> u64 result" where
  "libfsfat_directory_entry_get_creation_time directory_entry =
     (case directory_entry of
        None \<Rightarrow> Inl ARGUMENT_INVALID_VALUE
      | Some de \<Rightarrow>
          (case libfsfat_date_time_get_timestamp (de_creation_date de) (de_creation_time de)
                  (ucast (de_creation_time_fraction de)) (ucast (de_creation_time_utc_offset de)) of
             Inl e \<Rightarrow> Inl RUNTIME_GET_FAILED
           | Inr timestamp \<Rightarrow> Inr timestamp))"

definition libfsfat_directory_entry_get_modification_time ::
  "'arr directory_entry option \<Rightarrow> u64 result" where
  "libfsfat_directory_entry_get_modification_time directory_entry =
     (case directory_entry of
        None \<Rightarrow> Inl ARGUMENT_INVALID_VALUE
      | Some de \<Rightarrow>
          (case libfsfat_date_time_get_timestamp (de_modification_date de) (de_modification_time de)
                  (ucast (de_modification_time_fraction de)) (ucast (de_modification_time_utc_offset de)) of
             Inl e \<Rightarrow> Inl RUNTIME_GET_FAILED
           | Inr timestamp \<Rightarrow> Inr timestamp))"

definition libfsfat_directory_entry_get_file_attribute_flags ::
  "'arr directory_entry option \<Rightarrow> u16 result" where
  "libfsfat_directory_entry_get_file_attribute_flags directory_entry =
     (case directory_entry of
        None \<Rightarrow> Inl ARGUMENT_INVALID_VALUE
      | Some de \<Rightarrow> Inr (de_file_attribute_flags de))"

definition libfsfat_directory_entry_get_data_start_cluster ::
  "'arr directory_entry option \<Rightarrow> u32 result" where
  "libfsfat_directory_entry_get_data_start_cluster directory_entry =
     (case directory_entry of
        None \<Rightarrow> Inl ARGUMENT_INVALID_VALUE
      | Some de \<Rightarrow> Inr (de_data_start_cluster de))"

definition libfsfat_directory_entry_get_data_size :: "'arr directory_entry option \<Rightarrow> u64 result" where
  "libfsfat_directory_entry_get_data_size directory_entry =
     (case directory_entry of
        None \<Rightarrow> Inl ARGUMENT_INVALID_VALUE
      | Some de \<Rightarrow> Inr (de_data_size de))"

definition libfsfat_directory_entry_get_valid_data_size ::
  "'arr directory_entry option \<Rightarrow> u64 result" where
  "libfsfat_directory_entry_get_valid_data_size directory_entry =
     (case directory_entry of
        None \<Rightarrow> Inl ARGUMENT_INVALID_VALUE
      | Some de \<Rightarrow> Inr (de_valid_data_size de))"

section \<open>Names\<close>

text \<open>The loops that copy the name segments of the entries with the given indexes.\<close>

fun copy_name_segments ::
  "('arr, nat) array_ops \<Rightarrow> 'arr entry_store \<Rightarrow> 'arr \<Rightarrow> nat \<Rightarrow> int list \<Rightarrow> u8 list result" where
  "copy_name_segments A store name_entries_array segment_size [] = Inr []"
| "copy_name_segments A store name_entries_array segment_size (entry_index # entry_indexes) =
     (case array_get_entry_by_index A name_entries_array entry_index of
        None \<Rightarrow> Inl RUNTIME_GET_FAILED
      | Some None \<Rightarrow> Inl RUNTIME_VALUE_MISSING
      | Some (Some address) \<Rightarrow>
          (case store address of
             None \<Rightarrow> Inl MEMORY_FAULT
           | Some name_directory_entry \<Rightarrow>
               (case copy_name_segments A store name_entries_array segment_size entry_indexes of
                  Inl e \<Rightarrow> Inl e
                | Inr name \<Rightarrow> Inr (take segment_size (de_name_data name_directory_entry) @ name))))"

text \<open>The loop that looks for the end of the string, two bytes at a time.\<close>

function find_name_end :: "u8 list \<Rightarrow> nat \<Rightarrow> nat \<Rightarrow> nat" where
  "find_name_end name name_size name_offset =
     (if name_offset + 1 < name_size
      then
        (if name ! name_offset = 0 \<and> name ! (name_offset + 1) = 0 then name_offset + 2
         else find_name_end name name_size (name_offset + 2))
      else name_offset)"
  by pat_completeness auto
termination by (relation "measure (\<lambda>(name, name_size, name_offset). name_size - name_offset)") auto

declare find_name_end.simps [simp del]

definition libfsfat_directory_entry_get_name_from_exfat_file_name_entries ::
  "('arr, nat) array_ops \<Rightarrow> 'arr entry_store \<Rightarrow> 'arr directory_entry option \<Rightarrow> 'arr \<Rightarrow>
   'arr directory_entry result" where
  "libfsfat_directory_entry_get_name_from_exfat_file_name_entries A store directory_entry name_entries_array =
     (case directory_entry of
        None \<Rightarrow> Inl ARGUMENT_INVALID_VALUE
      | Some de \<Rightarrow>
          if de_name de \<noteq> None then Inl RUNTIME_VALUE_ALREADY_SET
          else
            (case array_get_number_of_entries A name_entries_array of
               None \<Rightarrow> Inl RUNTIME_GET_FAILED
             | Some number_of_entries \<Rightarrow>
                 if number_of_entries = 0 \<or> number_of_entries > 9
                 then Inl ARGUMENT_VALUE_OUT_OF_BOUNDS
                 else
                   (case copy_name_segments A store name_entries_array 30 [0..number_of_entries - 1] of
                      Inl e \<Rightarrow> Inl e
                    | Inr segments \<Rightarrow>
                        let name_size = nat (30 * number_of_entries + 2);
                            name = segments @ [0, 0]
                        in Inr (de\<lparr> de_name := Some name,
                                    de_name_size := of_nat (find_name_end name name_size 0),
                                    de_is_unicode := 1 \<rparr>))))"

definition libfsfat_directory_entry_get_name_from_vfat_long_file_name_entries ::
  "('arr, nat) array_ops \<Rightarrow> 'arr entry_store \<Rightarrow> 'arr directory_entry option \<Rightarrow> 'arr \<Rightarrow>
   'arr directory_entry result" where
  "libfsfat_directory_entry_get_name_from_vfat_long_file_name_entries A store directory_entry
       name_entries_array =
     (case directory_entry of
        None \<Rightarrow> Inl ARGUMENT_INVALID_VALUE
      | Some de \<Rightarrow>
          if de_name de \<noteq> None then Inl RUNTIME_VALUE_ALREADY_SET
          else
            (case array_get_number_of_entries A name_entries_array of
               None \<Rightarrow> Inl RUNTIME_GET_FAILED
             | Some number_of_entries \<Rightarrow>
                 if number_of_entries = 0 \<or> number_of_entries > 20
                 then Inl ARGUMENT_VALUE_OUT_OF_BOUNDS
                 else
                   (case copy_name_segments A store name_entries_array (10 + 12 + 4)
                           (rev [0..number_of_entries - 1]) of
                      Inl e \<Rightarrow> Inl e
                    | Inr segments \<Rightarrow>
                        let name_size = nat ((10 + 12 + 4) * number_of_entries + 2);
                            name = segments @ [0, 0]
                        in Inr (de\<lparr> de_name := Some name,
                                    de_name_size := of_nat (find_name_end name name_size 0),
                                    de_is_unicode := 1 \<rparr>))))"

text \<open>
  A short name: the two loops stop at the first space; the dot is written in front of the
  first byte of the extension, unless the entry is a volume label.
\<close>

definition short_name_string :: "u8 list \<Rightarrow> u16 \<Rightarrow> u8 list" where
  "short_name_string name_data file_attribute_flags =
     (let name = takeWhile (\<lambda>c. c \<noteq> 0x20) (take 8 name_data);
          extension = takeWhile (\<lambda>c. c \<noteq> 0x20) (take 3 (drop 8 name_data))
      in name
         @ (if extension \<noteq> [] \<and> file_attribute_flags AND FILE_ATTRIBUTE_FLAG_VOLUME_LABEL = 0
            then [0x2e] else [])
         @ extension @ [0])"

definition libfsfat_directory_entry_get_name ::
  "('arr, nat) array_ops \<Rightarrow> 'arr entry_store \<Rightarrow> 'arr directory_entry option \<Rightarrow>
   'arr directory_entry result" where
  "libfsfat_directory_entry_get_name A store directory_entry =
     (case directory_entry of
        None \<Rightarrow> Inl ARGUMENT_INVALID_VALUE
      | Some de \<Rightarrow>
          if de_name de \<noteq> None then Inl RUNTIME_VALUE_ALREADY_SET
          else
            (case de_name_entries_array de of
               Some name_entries_array \<Rightarrow>
                 (case libfsfat_directory_entry_get_name_from_exfat_file_name_entries A store (Some de)
                         name_entries_array of
                    Inl e \<Rightarrow> Inl RUNTIME_GET_FAILED
                  | Inr de \<Rightarrow> Inr de)
             | None \<Rightarrow>
                 if de_entry_type de = TYPE_SHORT_NAME
                 then
                   let name = short_name_string (de_name_data de) (de_file_attribute_flags de)
                   in Inr (de\<lparr> de_name := Some name, de_name_size := of_nat (length name),
                               de_is_unicode := 0 \<rparr>)
                 else if de_entry_type de = TYPE_EXFAT_VOLUME_LABEL
                 then
                   if unat (de_name_size de) > length (de_name_data de) then Inl MEMORY_FAULT
                   else
                     let name = take (unat (de_name_size de)) (de_name_data de) @ [0, 0]
                     in Inr (de\<lparr> de_name := Some name, de_name_size := de_name_size de + 2,
                                 de_is_unicode := 1 \<rparr>)
                 else Inr de))"

text \<open>
  The copy of an entry, with the source as it is afterwards: its name is determined first
  if it is not set. The copy of \<open>NULL\<close> is \<open>NULL\<close>.
\<close>

definition libfsfat_directory_entry_clone ::
  "('arr, nat) array_ops \<Rightarrow> 'arr entry_store \<Rightarrow> 'arr directory_entry option \<Rightarrow>
   'arr directory_entry option \<Rightarrow>
   ('arr directory_entry option \<times> 'arr directory_entry option) result" where
  "libfsfat_directory_entry_clone A store destination_directory_entry source_directory_entry =
     (if destination_directory_entry \<noteq> None then Inl RUNTIME_VALUE_ALREADY_SET
      else
        (case source_directory_entry of
           None \<Rightarrow> Inr (None, None)
         | Some source \<Rightarrow>
             (case (if de_name source = None
                    then libfsfat_directory_entry_get_name A store (Some source)
                    else Inr source) of
                Inl e \<Rightarrow> Inl RUNTIME_GET_FAILED
              | Inr source \<Rightarrow>
                  let destination = source\<lparr> de_name := None, de_name_entries_array := None \<rparr>
                  in (case de_name source of
                        None \<Rightarrow> Inr (Some source, Some destination)
                      | Some name \<Rightarrow>
                          if unat (de_name_size source) > length name then Inl MEMORY_FAULT
                          else Inr (Some source,
                            Some (destination\<lparr> de_name := Some (take (unat (de_name_size source)) name) \<rparr>))))))"

section \<open>Well-formed entries\<close>

text \<open>
  The name data has its 32 bytes, a volume label that has no name yet has a size of at most
  its 22 bytes, and the size of a name does not exceed the bytes written into its buffer.
\<close>

definition entry_wf :: "'arr directory_entry \<Rightarrow> bool" where
  "entry_wf de \<longleftrightarrow>
     length (de_name_data de) = 32 \<and>
     (case de_name de of
        None \<Rightarrow> de_entry_type de = TYPE_EXFAT_VOLUME_LABEL \<longrightarrow> unat (de_name_size de) \<le> 22
      | Some name \<Rightarrow> unat (de_name_size de) \<le> length name)"

lemmas read_entry_defs = copy_name_data_def read_short_name_def read_vfat_long_name_def
  read_exfat_data_stream_def read_exfat_file_entry_def read_exfat_file_entry_name_def
  read_exfat_volume_label_def

lemma read_data_zero:
  assumes "length data = 32"
  shows "libfsfat_directory_entry_read_data (Some directory_entry_zero) (Some data) fmt =
    (let type = determine_entry_type data fmt;
         de = directory_entry_zero\<lparr> de_entry_type := type \<rparr>
     in case type of
          TYPE_TERMINATOR \<Rightarrow> Inr (de, False)
        | TYPE_SHORT_NAME \<Rightarrow> Inr (read_short_name data de, True)
        | TYPE_VFAT_LONG_NAME \<Rightarrow> Inr (read_vfat_long_name data de, True)
        | TYPE_EXFAT_DATA_STREAM \<Rightarrow> Inr (read_exfat_data_stream data de, True)
        | TYPE_EXFAT_FILE_ENTRY \<Rightarrow> Inr (read_exfat_file_entry data de, True)
        | TYPE_EXFAT_FILE_ENTRY_NAME \<Rightarrow> Inr (read_exfat_file_entry_name data de, True)
        | TYPE_EXFAT_VOLUME_LABEL \<Rightarrow>
            (case read_exfat_volume_label data de of Inl e \<Rightarrow> Inl e | Inr de \<Rightarrow> Inr (de, True))
        | _ \<Rightarrow> Inr (de, True))"
  using assms
  by (simp add: libfsfat_directory_entry_read_data_def Let_def split: directory_entry_type.split)

lemma read_data_zero_type:
  assumes "libfsfat_directory_entry_read_data (Some directory_entry_zero) (Some data) fmt = Inr (de, go_on)"
  shows "length data = 32" and "de_entry_type de = determine_entry_type data fmt"
    and "go_on = (determine_entry_type data fmt \<noteq> TYPE_TERMINATOR)"
    and "de_name de = None" and "de_name_entries_array de = None" and "de_identifier de = 0"
    and "entry_wf de"
proof -
  show len: "length data = 32"
    using assms by (simp add: libfsfat_directory_entry_read_data_def split: if_splits)
  have label: "unat (2 * ucast (x :: u8) :: u64) \<le> 22" if "\<not> 11 < (ucast x :: u64)" for x
  proof -
    have "unat (ucast x :: u64) \<le> 11" using that by (simp add: word_less_nat_alt)
    then show ?thesis by (subst unat_mult_exact) simp_all
  qed
  have "de_entry_type de = determine_entry_type data fmt \<and>
      go_on = (determine_entry_type data fmt \<noteq> TYPE_TERMINATOR) \<and> de_name de = None \<and>
      de_name_entries_array de = None \<and> de_identifier de = 0 \<and> entry_wf de"
    using assms unfolding read_data_zero [OF len] Let_def
    by (cases "determine_entry_type data fmt")
      (auto simp: read_entry_defs directory_entry_zero_def entry_wf_def Let_def mult.commute label
        split: if_splits)
  then show "de_entry_type de = determine_entry_type data fmt"
    and "go_on = (determine_entry_type data fmt \<noteq> TYPE_TERMINATOR)"
    and "de_name de = None" and "de_name_entries_array de = None" and "de_identifier de = 0"
    and "entry_wf de"
    by simp_all
qed

lemma read_data_zero_error:
  assumes "libfsfat_directory_entry_read_data (Some directory_entry_zero) (Some data) fmt = Inl e"
    and "length data = 32"
  shows "e = ARGUMENT_VALUE_OUT_OF_BOUNDS" and "determine_entry_type data fmt = TYPE_EXFAT_VOLUME_LABEL"
    and "11 < unat (data ! 1)"
proof -
  have "e = ARGUMENT_VALUE_OUT_OF_BOUNDS \<and> determine_entry_type data fmt = TYPE_EXFAT_VOLUME_LABEL \<and>
      (11 :: u64) < ucast (data ! 1)"
    using assms(1) unfolding read_data_zero [OF assms(2)] Let_def
    by (cases "determine_entry_type data fmt")
      (auto simp: read_entry_defs directory_entry_zero_def Let_def split: if_splits)
  then show "e = ARGUMENT_VALUE_OUT_OF_BOUNDS" and "determine_entry_type data fmt = TYPE_EXFAT_VOLUME_LABEL"
    and "11 < unat (data ! 1)"
    by (simp_all add: word_less_nat_alt unat_ucast_up)
qed

section \<open>Names of entries in a store\<close>

lemma copy_name_segments_ok:
  assumes "array_contract A view"
    and "\<forall>i \<in> set is. 0 \<le> i \<and> nat i < length (view arr) \<and>
      (\<exists>a de. view arr ! nat i = Some a \<and> store a = Some de \<and> take n (de_name_data de) = seg (nat i))"
  shows "copy_name_segments A store arr n is = Inr (concat (map (\<lambda>i. seg (nat i)) is))"
  using assms(2)
proof (induction "is")
  case (Cons i "is")
  then obtain a de where "view arr ! nat i = Some a" "store a = Some de" "take n (de_name_data de) = seg (nat i)"
    by auto
  then show ?case using Cons by (simp add: array_get [OF assms(1)])
qed simp

lemma uint16_enc_zero:
  assumes "byte_stream_copy_from_uint16_little_endian (u :: u16) = [0, 0]"
  shows "u = 0"
proof -
  have "byte_stream_copy_to_uint16_little_endian [0, 0] 0 = u"
    using uint16.dec_enc [of u "[]" "[]"] assms by (simp add: take_bit_word_eq_self)
  then show ?thesis by (simp add: byte_stream_defs)
qed

text \<open>The bytes of a UTF-16 string, without and with an end of string character.\<close>

definition utf16_bytes :: "u16 list \<Rightarrow> u8 list" where
  "utf16_bytes us = concat (map byte_stream_copy_from_uint16_little_endian us)"

lemma length_utf16_bytes [simp]: "length (utf16_bytes us) = 2 * length us"
  by (simp add: utf16_bytes_def uint16.length_concat_enc)

lemma utf16_bytes_append [simp]: "utf16_bytes (us @ vs) = utf16_bytes us @ utf16_bytes vs"
  by (simp add: utf16_bytes_def)

lemma utf16_bytes_zero [simp]: "utf16_bytes (0 # us) = 0 # 0 # utf16_bytes us" "utf16_bytes [] = []"
  by (simp_all add: utf16_bytes_def byte_stream_defs)

lemma find_name_end_utf16:
  assumes "0 \<notin> set us" and "length pre + 2 * length us + 2 \<le> name_size"
  shows "find_name_end (pre @ utf16_bytes us @ 0 # 0 # rest) name_size (length pre) =
    length pre + 2 * length us + 2"
  using assms
proof (induction us arbitrary: pre)
  case Nil
  then show ?case by (simp add: find_name_end.simps nth_append)
next
  case (Cons u us)
  obtain lo hi where lo_hi: "byte_stream_copy_from_uint16_little_endian u = [lo, hi]"
    by (simp add: byte_stream_defs)
  then have bytes: "utf16_bytes (u # us) = lo # hi # utf16_bytes us" by (simp add: utf16_bytes_def)
  have "\<not> (lo = 0 \<and> hi = 0)" using uint16_enc_zero [of u] lo_hi Cons.prems(1) by auto
  then show ?case
    using Cons.IH [of "pre @ [lo, hi]"] Cons.prems bytes
    by (subst find_name_end.simps) (simp add: nth_append)
qed

text \<open>
  A long name on disk: the characters, an end of string character and padding up to a
  multiple of the characters of a segment; a name that fills its segments has neither.
\<close>

definition pad_name :: "nat \<Rightarrow> u16 \<Rightarrow> u16 list \<Rightarrow> u16 list" where
  "pad_name k filler us =
     (if k dvd length us then us
      else us @ 0 # replicate (k - length us mod k - 1) filler)"

definition number_of_segments :: "nat \<Rightarrow> u16 list \<Rightarrow> nat" where
  "number_of_segments k us = (length us + (k - 1)) div k"

definition name_segment :: "nat \<Rightarrow> u16 \<Rightarrow> u16 list \<Rightarrow> nat \<Rightarrow> u8 list" where
  "name_segment k filler us i = utf16_bytes (take k (drop (k * i) (pad_name k filler us)))"

lemma length_pad_name: "0 < k \<Longrightarrow> length (pad_name k filler us) = k * number_of_segments k us"
proof -
  assume k: "0 < k"
  let ?q = "length us div k" and ?r = "length us mod k"
  have len: "length us = k * ?q + ?r" by simp
  show ?thesis
  proof (cases "?r = 0")
    case True
    then have "length us + (k - 1) = (k - 1) + ?q * k" using len by (simp add: mult.commute)
    moreover have "((k - 1) + ?q * k) div k = ?q" using k by (subst div_mult_self1) simp_all
    ultimately have "number_of_segments k us = ?q" by (simp only: number_of_segments_def)
    then show ?thesis using True by (auto simp: pad_name_def dvd_eq_mod_eq_0)
  next
    case False
    have less: "?r < k" using k by simp
    obtain q r where qr: "?q = q" "?r = r" by simp
    have "length us + (k - 1) = (r - 1) + (q + 1) * k"
      using len False k unfolding qr by (simp add: algebra_simps)
    moreover have "((r - 1) + (q + 1) * k) div k = q + 1"
      using k less unfolding qr by (subst div_mult_self1) simp_all
    ultimately have "number_of_segments k us = ?q + 1"
      by (simp only: number_of_segments_def qr)
    moreover have "length (pad_name k filler us) = length us + (k - ?r)"
      using False less by (simp add: pad_name_def dvd_eq_mod_eq_0)
    ultimately show ?thesis using len less unfolding qr by (simp add: algebra_simps)
  qed
qed

lemma length_name_segment:
  assumes "0 < k" and "i < number_of_segments k us"
  shows "length (name_segment k filler us i) = 2 * k"
proof -
  have "k * i + k \<le> k * number_of_segments k us"
    using mult_le_mono2 [of "Suc i" "number_of_segments k us" k] assms(2) by simp
  then show ?thesis using assms(1) by (simp add: name_segment_def length_pad_name)
qed

lemma concat_name_segments:
  assumes "0 < k"
  shows "concat (map (name_segment k filler us) [0..<number_of_segments k us]) =
    utf16_bytes (pad_name k filler us)"
proof -
  have "map (name_segment k filler us) [0..<number_of_segments k us] =
      map (\<lambda>s. take (2 * k) (drop (s * (2 * k)) (utf16_bytes (pad_name k filler us))))
        [0..<number_of_segments k us]"
  proof (rule map_cong [OF refl])
    fix s
    have "s * (2 * k) = 2 * (k * s)" by simp
    then show "name_segment k filler us s =
        take (2 * k) (drop (s * (2 * k)) (utf16_bytes (pad_name k filler us)))"
      unfolding name_segment_def utf16_bytes_def
      by (simp only: uint16.take_concat_enc uint16.drop_concat_enc)
  qed
  then show ?thesis
    using concat_chunks [of "utf16_bytes (pad_name k filler us)" "number_of_segments k us" "2 * k"] assms
    by (simp only: length_utf16_bytes length_pad_name) simp
qed

lemma name_end_padded:
  fixes filler :: u16
  assumes "0 \<notin> set us" and "0 < k"
  defines "name \<equiv> utf16_bytes (pad_name k filler us) @ [0, 0]"
  shows "find_name_end name (length name) 0 = 2 * length us + 2"
    and "take (2 * length us + 2) name = utf16_bytes us @ [0, 0]"
    and "2 * length us + 2 \<le> length name"
proof -
  obtain rest where name: "name = utf16_bytes us @ 0 # 0 # rest"
    by (cases "k dvd length us") (auto simp: name_def pad_name_def)
  then show "find_name_end name (length name) 0 = 2 * length us + 2"
    using find_name_end_utf16 [OF assms(1), of "[]"] by simp
  show "take (2 * length us + 2) name = utf16_bytes us @ [0, 0]" using name by simp
  show "2 * length us + 2 \<le> length name" using name by simp
qed

section \<open>Entries on disk\<close>

text \<open>The entries as \<^verbatim>\<open>libfsfat/fsfat_directory_entry.h\<close> lays them out.\<close>

record short_layout =
  sl_name :: "u8 list"
  sl_flags :: u8
  sl_unknown1 :: u8
  sl_creation_time_fraction :: u8
  sl_creation_time :: u16
  sl_creation_date :: u16
  sl_access_date :: u16
  sl_unknown3 :: u16
  sl_modification_time :: u16
  sl_modification_date :: u16
  sl_data_start_cluster :: u16
  sl_data_size :: u32

definition fsfat_directory_entry :: "short_layout \<Rightarrow> u8 list" where
  "fsfat_directory_entry s =
     sl_name s @ [sl_flags s, sl_unknown1 s, sl_creation_time_fraction s] @
     byte_stream_copy_from_uint16_little_endian (sl_creation_time s) @
     byte_stream_copy_from_uint16_little_endian (sl_creation_date s) @
     byte_stream_copy_from_uint16_little_endian (sl_access_date s) @
     byte_stream_copy_from_uint16_little_endian (sl_unknown3 s) @
     byte_stream_copy_from_uint16_little_endian (sl_modification_time s) @
     byte_stream_copy_from_uint16_little_endian (sl_modification_date s) @
     byte_stream_copy_from_uint16_little_endian (sl_data_start_cluster s) @
     byte_stream_copy_from_uint32_little_endian (sl_data_size s)"

definition fsfat_directory_entry_vfat :: "u8 \<Rightarrow> u8 \<Rightarrow> u8 list \<Rightarrow> u8 list" where
  "fsfat_directory_entry_vfat sequence_number checksum segment =
     [sequence_number] @ take 10 segment @ [0x0f, 0, checksum] @ take 12 (drop 10 segment) @
     [0, 0] @ take 4 (drop 22 segment)"

record file_layout =
  fl_flags :: u16
  fl_creation_time :: u16
  fl_creation_date :: u16
  fl_modification_time :: u16
  fl_modification_date :: u16
  fl_access_time :: u16
  fl_access_date :: u16
  fl_creation_time_fraction :: u8
  fl_modification_time_fraction :: u8
  fl_creation_time_utc_offset :: u8
  fl_modification_time_utc_offset :: u8
  fl_access_time_utc_offset :: u8

definition fsfat_directory_entry_exfat_file_entry :: "u8 \<Rightarrow> u16 \<Rightarrow> file_layout \<Rightarrow> u8 list" where
  "fsfat_directory_entry_exfat_file_entry secondary_count checksum f =
     [0x85, secondary_count] @ byte_stream_copy_from_uint16_little_endian checksum @
     byte_stream_copy_from_uint16_little_endian (fl_flags f) @ [0, 0] @
     byte_stream_copy_from_uint16_little_endian (fl_creation_time f) @
     byte_stream_copy_from_uint16_little_endian (fl_creation_date f) @
     byte_stream_copy_from_uint16_little_endian (fl_modification_time f) @
     byte_stream_copy_from_uint16_little_endian (fl_modification_date f) @
     byte_stream_copy_from_uint16_little_endian (fl_access_time f) @
     byte_stream_copy_from_uint16_little_endian (fl_access_date f) @
     [fl_creation_time_fraction f, fl_modification_time_fraction f, fl_creation_time_utc_offset f,
      fl_modification_time_utc_offset f, fl_access_time_utc_offset f] @ replicate 7 0"

definition fsfat_directory_entry_exfat_data_stream ::
  "u8 \<Rightarrow> u8 \<Rightarrow> u16 \<Rightarrow> u64 \<Rightarrow> u32 \<Rightarrow> u64 \<Rightarrow> u8 list" where
  "fsfat_directory_entry_exfat_data_stream flags name_size name_hash valid_data_size data_start_cluster
       data_size =
     [0xc0, flags, 0, name_size] @ byte_stream_copy_from_uint16_little_endian name_hash @ [0, 0] @
     byte_stream_copy_from_uint64_little_endian valid_data_size @ [0, 0, 0, 0] @
     byte_stream_copy_from_uint32_little_endian data_start_cluster @
     byte_stream_copy_from_uint64_little_endian data_size"

definition fsfat_directory_entry_exfat_file_entry_name :: "u8 \<Rightarrow> u8 list \<Rightarrow> u8 list" where
  "fsfat_directory_entry_exfat_file_entry_name flags segment = [0xc1, flags] @ segment"

definition fsfat_directory_entry_exfat_volume_label :: "u8 \<Rightarrow> u8 list \<Rightarrow> u8 list" where
  "fsfat_directory_entry_exfat_volume_label name_size name = [0x83, name_size] @ name @ replicate 8 0"

lemmas byte_lengths [simp] = uint16.length_enc uint32.length_enc uint64.length_enc

lemma take_bit_full [simp]:
  "take_bit 16 (w16 :: u16) = w16" "take_bit 32 (w32 :: u32) = w32" "take_bit 64 (w64 :: u64) = w64"
  by (simp_all add: take_bit_word_eq_self)

text \<open>A value of 16 or 32 bits read into a variable of more bits.\<close>

lemma enc_uint16_ucast:
  "byte_stream_copy_from_uint16_little_endian (ucast (v :: u16) :: u32) =
   byte_stream_copy_from_uint16_little_endian v"
  by (auto intro!: bit_word_eqI simp: byte_stream_defs bit_simps)

lemma enc_uint32_ucast:
  "byte_stream_copy_from_uint32_little_endian (ucast (v :: u32) :: u64) =
   byte_stream_copy_from_uint32_little_endian v"
  by (auto intro!: bit_word_eqI simp: byte_stream_defs bit_simps)

lemma take_bit_ucast [simp]:
  "take_bit 16 (ucast (w16 :: u16) :: u32) = ucast w16"
  "take_bit 32 (ucast (w32 :: u32) :: u64) = ucast w32"
  by (rule bit_word_eqI; use bit_imp_le_length [of w16] bit_imp_le_length [of w32] in
    \<open>auto simp: bit_simps\<close>)+

section \<open>Short names\<close>

definition short_entry :: "short_layout \<Rightarrow> 'arr directory_entry" where
  "short_entry s =
     directory_entry_zero\<lparr>
       de_entry_type := TYPE_SHORT_NAME,
       de_name_data := sl_name s @ replicate 21 0,
       de_file_attribute_flags := ucast (sl_flags s),
       de_creation_date := sl_creation_date s,
       de_creation_time := sl_creation_time s,
       de_creation_time_fraction := sl_creation_time_fraction s,
       de_access_date := sl_access_date s,
       de_modification_date := sl_modification_date s,
       de_modification_time := sl_modification_time s,
       de_data_start_cluster := ucast (sl_data_start_cluster s),
       de_data_size := ucast (sl_data_size s) \<rparr>"

definition short_layout_ok :: "short_layout \<Rightarrow> bool" where
  "short_layout_ok s \<longleftrightarrow> length (sl_name s) = 11 \<and> sl_name s ! 0 \<notin> {0, 0xe5} \<and> sl_flags s \<noteq> 0x0f"

lemma overwrite_short_name:
  assumes "length name = 11"
  shows "overwrite 8 (drop 8 name) (overwrite 0 (take 8 name) (replicate 32 0 :: u8 list)) =
    name @ replicate 21 0"
  using assms
  by (intro nth_equalityI) (auto simp: nth_overwrite nth_append)

lemma read_short_layout:
  assumes "short_layout_ok s" and "fmt \<noteq> FORMAT_EXFAT"
  shows "libfsfat_directory_entry_read_data (Some directory_entry_zero) (Some (fsfat_directory_entry s)) fmt =
    Inr (short_entry s, True)"
proof -
  have name: "length (sl_name s) = 11" and flags: "sl_flags s \<noteq> 0x0f"
    and first: "sl_name s ! 0 \<noteq> 0" "sl_name s ! 0 \<noteq> 0xe5"
    using assms(1) by (auto simp: short_layout_ok_def)
  let ?d = "fsfat_directory_entry s"
  have len: "length ?d = 32" using name by (simp add: fsfat_directory_entry_def)
  have d0: "?d ! 0 = sl_name s ! 0" "?d ! 11 = sl_flags s" "?d ! 13 = sl_creation_time_fraction s"
    using name by (simp_all add: fsfat_directory_entry_def nth_append)
  have "?d \<noteq> replicate 32 0" using first(1) d0(1) by (metis nth_replicate zero_less_numeral)
  then have type: "determine_entry_type ?d fmt = TYPE_SHORT_NAME"
    using assms(2) first d0 flags by (simp add: determine_entry_type_def)
  have names: "take 8 ?d = take 8 (sl_name s)" "take 3 (drop 8 ?d) = take 3 (drop 8 (sl_name s))"
    using name by (simp_all add: fsfat_directory_entry_def)
  have fields: "byte_stream_copy_to_uint16_little_endian ?d 14 = sl_creation_time s"
    "byte_stream_copy_to_uint16_little_endian ?d 16 = sl_creation_date s"
    "byte_stream_copy_to_uint16_little_endian ?d 18 = sl_access_date s"
    "byte_stream_copy_to_uint16_little_endian ?d 22 = sl_modification_time s"
    "byte_stream_copy_to_uint16_little_endian ?d 24 = sl_modification_date s"
    "byte_stream_copy_to_uint16_little_endian ?d 26 = sl_data_start_cluster s"
    "byte_stream_copy_to_uint32_little_endian ?d 28 = sl_data_size s"
    by (rule uint16.dec_at uint32.dec_at; simp add: fsfat_directory_entry_def name)+
  have wide: "(byte_stream_copy_to_uint16_little_endian ?d 26 :: u32) = ucast (sl_data_start_cluster s)"
    "(byte_stream_copy_to_uint32_little_endian ?d 28 :: u64) = ucast (sl_data_size s)"
    by (rule uint16.dec_at uint32.dec_at;
      simp add: fsfat_directory_entry_def name enc_uint16_ucast enc_uint32_ucast)+
  show ?thesis
    using names fields wide d0 name unfolding read_data_zero [OF len] Let_def type
    by (simp add: read_short_name_def copy_name_data_def
      short_entry_def directory_entry_zero_def overwrite_short_name)
qed

lemma short_entry_wf: "length (sl_name s) = 11 \<Longrightarrow> entry_wf (short_entry s)"
  by (simp add: entry_wf_def short_entry_def directory_entry_zero_def)

text \<open>
  Reading the 32 bytes of a FAT entry with a short name gives back its fields: name,
  flags, dates and times, size, and the 16 bits of the start cluster. The two bytes at 20,
  which hold the upper half of the start cluster of FAT-32, are not used.
\<close>

theorem directory_entry_read_short:
  assumes "length (sl_name s) = 11" and "sl_name s ! 0 \<noteq> 0" and "sl_name s ! 0 \<noteq> 0xe5"
    and "sl_flags s \<noteq> 0x0f" and "fmt \<noteq> FORMAT_EXFAT"
  shows "libfsfat_directory_entry_read_data (Some directory_entry_zero) (Some (fsfat_directory_entry s)) fmt =
    Inr (directory_entry_zero\<lparr>
       de_entry_type := TYPE_SHORT_NAME,
       de_name_data := sl_name s @ replicate 21 0,
       de_file_attribute_flags := ucast (sl_flags s),
       de_creation_date := sl_creation_date s,
       de_creation_time := sl_creation_time s,
       de_creation_time_fraction := sl_creation_time_fraction s,
       de_access_date := sl_access_date s,
       de_modification_date := sl_modification_date s,
       de_modification_time := sl_modification_time s,
       de_data_start_cluster := ucast (sl_data_start_cluster s),
       de_data_size := ucast (sl_data_size s) \<rparr>, True)"
  using read_short_layout [of s fmt] assms by (simp add: short_layout_ok_def short_entry_def)

definition example_short :: short_layout where
  "example_short =
     \<lparr> sl_name = [0x52, 0x45, 0x41, 0x44, 0x4d, 0x45, 0x20, 0x20, 0x54, 0x58, 0x54],
       sl_flags = 0x20, sl_unknown1 = 0, sl_creation_time_fraction = 5, sl_creation_time = 0x6000,
       sl_creation_date = 0x5021, sl_access_date = 0x5022, sl_unknown3 = 7,
       sl_modification_time = 0x6001, sl_modification_date = 0x5023, sl_data_start_cluster = 9,
       sl_data_size = 1234 \<rparr>"

theorem directory_entry_read_short_witness:
  "\<exists>de :: nat directory_entry.
    libfsfat_directory_entry_read_data (Some directory_entry_zero)
      (Some (fsfat_directory_entry example_short)) FORMAT_FAT32 = Inr (de, True) \<and>
    de_data_start_cluster de = 9 \<and> de_data_size de = 1234"
  using directory_entry_read_short [of example_short FORMAT_FAT32, where ?'a = nat]
  by (simp add: example_short_def)

section \<open>The other entries\<close>

lemma read_vfat_layout:
  assumes "length segment = 26" and "fmt \<noteq> FORMAT_EXFAT"
    and "1 \<le> n \<and> n \<le> 0x13 \<or> 0x41 \<le> n \<and> n \<le> 0x54"
  shows "libfsfat_directory_entry_read_data (Some directory_entry_zero)
      (Some (fsfat_directory_entry_vfat n checksum segment)) fmt =
    Inr (directory_entry_zero\<lparr> de_entry_type := TYPE_VFAT_LONG_NAME,
       de_vfat_sequence_number := n, de_name_data := segment @ replicate 6 0 \<rparr>, True)"
proof -
  let ?d = "fsfat_directory_entry_vfat n checksum segment"
  have len: "length ?d = 32" using assms(1) by (simp add: fsfat_directory_entry_vfat_def)
  have d: "?d ! 0 = n" "?d ! 11 = 0x0f" "?d ! 12 = 0" "?d ! 26 = 0" "?d ! 27 = 0"
    using assms(1) by (simp_all add: fsfat_directory_entry_vfat_def nth_append)
  have "?d ! 11 \<noteq> replicate 32 0 ! 11" using d(2) by simp
  then have "?d \<noteq> replicate 32 0" by auto
  then have type: "determine_entry_type ?d fmt = TYPE_VFAT_LONG_NAME"
    using assms(2,3) d by (simp add: determine_entry_type_def)
  have segments: "take 10 (drop (Suc 0) ?d) = take 10 segment" "take 12 (drop 14 ?d) = take 12 (drop 10 segment)"
    "take 4 (drop 28 ?d) = drop 22 segment"
    using assms(1) by (simp_all add: fsfat_directory_entry_vfat_def)
  have data: "overwrite 22 (drop 22 segment) (overwrite 10 (take 12 (drop 10 segment))
      (overwrite 0 (take 10 segment) (replicate 32 0 :: u8 list))) = segment @ replicate 6 0"
    using assms(1) by (intro nth_equalityI) (auto simp: nth_overwrite nth_append)
  show ?thesis
    using d data unfolding read_data_zero [OF len] Let_def type
    by (simp add: read_vfat_long_name_def copy_name_data_def directory_entry_zero_def segments)
qed

lemma read_exfat_name_layout:
  assumes "length segment = 30"
  shows "libfsfat_directory_entry_read_data (Some directory_entry_zero)
      (Some (fsfat_directory_entry_exfat_file_entry_name flags segment)) FORMAT_EXFAT =
    Inr (directory_entry_zero\<lparr> de_entry_type := TYPE_EXFAT_FILE_ENTRY_NAME,
       de_name_data := segment @ replicate 2 0 \<rparr>, True)"
proof -
  let ?d = "fsfat_directory_entry_exfat_file_entry_name flags segment"
  have len: "length ?d = 32" using assms by (simp add: fsfat_directory_entry_exfat_file_entry_name_def)
  have type: "determine_entry_type ?d FORMAT_EXFAT = TYPE_EXFAT_FILE_ENTRY_NAME"
    by (simp add: determine_entry_type_def fsfat_directory_entry_exfat_file_entry_name_def)
  have "overwrite 0 segment (replicate 32 0) = segment @ replicate 2 (0 :: u8)"
    using assms by (intro nth_equalityI) (auto simp: nth_overwrite nth_append)
  then show ?thesis
    using assms unfolding read_data_zero [OF len] Let_def type
    by (simp add: read_exfat_file_entry_name_def copy_name_data_def directory_entry_zero_def
      fsfat_directory_entry_exfat_file_entry_name_def)
qed

text \<open>
  Reading an exFAT data stream entry gives back the start cluster and the two sizes in
  full. The size of the name is not that of the entry: it is taken from the flags.
\<close>

theorem directory_entry_read_data_stream:
  "libfsfat_directory_entry_read_data (Some directory_entry_zero)
     (Some (fsfat_directory_entry_exfat_data_stream flags name_size name_hash valid_data_size
        data_start_cluster data_size)) FORMAT_EXFAT =
   Inr (directory_entry_zero\<lparr> de_entry_type := TYPE_EXFAT_DATA_STREAM,
     de_name_size := ucast flags * 2, de_valid_data_size := valid_data_size,
     de_data_start_cluster := data_start_cluster, de_data_size := data_size \<rparr>, True)"
proof -
  let ?d = "fsfat_directory_entry_exfat_data_stream flags name_size name_hash valid_data_size
    data_start_cluster data_size"
  note def = fsfat_directory_entry_exfat_data_stream_def
  have len: "length ?d = 32" by (simp add: def)
  have d: "?d ! 0 = 0xc0" "?d ! 1 = flags" by (simp_all add: def)
  have type: "determine_entry_type ?d FORMAT_EXFAT = TYPE_EXFAT_DATA_STREAM"
    by (simp add: determine_entry_type_def d)
  have fields: "byte_stream_copy_to_uint64_little_endian ?d 8 = valid_data_size"
    "byte_stream_copy_to_uint32_little_endian ?d 20 = data_start_cluster"
    "byte_stream_copy_to_uint64_little_endian ?d 24 = data_size"
    by (rule uint32.dec_at uint64.dec_at; simp add: def)+
  show ?thesis
    using d fields unfolding read_data_zero [OF len] Let_def type
    by (simp add: read_exfat_data_stream_def directory_entry_zero_def)
qed

text \<open>
  Reading an exFAT file entry gives back its flags, dates, times, fractions of seconds
  and UTC offsets.
\<close>

theorem directory_entry_read_file_entry:
  "libfsfat_directory_entry_read_data (Some directory_entry_zero)
     (Some (fsfat_directory_entry_exfat_file_entry secondary_count checksum f)) FORMAT_EXFAT =
   Inr (directory_entry_zero\<lparr> de_entry_type := TYPE_EXFAT_FILE_ENTRY,
     de_file_attribute_flags := fl_flags f,
     de_creation_date := fl_creation_date f, de_creation_time := fl_creation_time f,
     de_modification_date := fl_modification_date f, de_modification_time := fl_modification_time f,
     de_access_date := fl_access_date f, de_access_time := fl_access_time f,
     de_creation_time_fraction := fl_creation_time_fraction f,
     de_modification_time_fraction := fl_modification_time_fraction f,
     de_creation_time_utc_offset := fl_creation_time_utc_offset f,
     de_access_time_utc_offset := fl_access_time_utc_offset f,
     de_modification_time_utc_offset := fl_modification_time_utc_offset f \<rparr>, True)"
proof -
  let ?d = "fsfat_directory_entry_exfat_file_entry secondary_count checksum f"
  note def = fsfat_directory_entry_exfat_file_entry_def
  have len: "length ?d = 32" by (simp add: def)
  have d: "?d ! 0 = 0x85" "?d ! 20 = fl_creation_time_fraction f"
    "?d ! 21 = fl_modification_time_fraction f" "?d ! 22 = fl_creation_time_utc_offset f"
    "?d ! 23 = fl_modification_time_utc_offset f" "?d ! 24 = fl_access_time_utc_offset f"
    by (simp_all add: def nth_append)
  have type: "determine_entry_type ?d FORMAT_EXFAT = TYPE_EXFAT_FILE_ENTRY"
    by (simp add: determine_entry_type_def d)
  have fields: "byte_stream_copy_to_uint16_little_endian ?d 4 = fl_flags f"
    "byte_stream_copy_to_uint16_little_endian ?d 8 = fl_creation_time f"
    "byte_stream_copy_to_uint16_little_endian ?d 10 = fl_creation_date f"
    "byte_stream_copy_to_uint16_little_endian ?d 12 = fl_modification_time f"
    "byte_stream_copy_to_uint16_little_endian ?d 14 = fl_modification_date f"
    "byte_stream_copy_to_uint16_little_endian ?d 16 = fl_access_time f"
    "byte_stream_copy_to_uint16_little_endian ?d 18 = fl_access_date f"
    by (rule uint16.dec_at; simp add: def)+
  show ?thesis
    using d fields unfolding read_data_zero [OF len] Let_def type
    by (simp add: read_exfat_file_entry_def directory_entry_zero_def)
qed

text \<open>
  Every 32 bytes are read as an entry of the type of their first bytes, in a
  well-formed state, unless they are an exFAT volume label with a size of more than 11
  characters, which is the only error. The return value 0 stands for a terminator.
\<close>

theorem directory_entry_read_total:
  assumes "length data = 32"
  shows "case (libfsfat_directory_entry_read_data (Some directory_entry_zero) (Some data) fmt
        :: ('arr directory_entry \<times> bool) result) of
      Inr (de, go_on) \<Rightarrow> de_entry_type de = determine_entry_type data fmt \<and>
        (go_on \<longleftrightarrow> de_entry_type de \<noteq> TYPE_TERMINATOR) \<and> entry_wf de
    | Inl e \<Rightarrow> e = ARGUMENT_VALUE_OUT_OF_BOUNDS \<and>
        determine_entry_type data fmt = TYPE_EXFAT_VOLUME_LABEL \<and> 11 < unat (data ! 1)"
proof (cases "libfsfat_directory_entry_read_data (Some directory_entry_zero) (Some data) fmt
      :: ('arr directory_entry \<times> bool) result")
  case (Inl e)
  then show ?thesis using read_data_zero_error [OF Inl assms] by simp
next
  case (Inr r)
  then show ?thesis
    using read_data_zero_type [of data fmt "fst r" "snd r"] by (cases r) simp
qed

theorem directory_entry_read_total_witness:
  "libfsfat_directory_entry_read_data (Some directory_entry_zero)
      (Some (0x83 # 12 # replicate 30 0)) FORMAT_EXFAT =
    (Inl ARGUMENT_VALUE_OUT_OF_BOUNDS :: (nat directory_entry \<times> bool) result)"
  using directory_entry_read_total [of "0x83 # 12 # replicate 30 0" FORMAT_EXFAT, where ?'arr = nat]
  by (simp add: libfsfat_directory_entry_read_data_def determine_entry_type_def
    read_exfat_volume_label_def copy_name_data_def Let_def)

section \<open>Long names\<close>

lemma take_upto_nat:
  "map (\<lambda>i. seg (nat i)) [0..int n - 1] = map seg [0..<n]"
  "map (\<lambda>i. seg (nat i)) (rev [0..int n - 1]) = map (\<lambda>j. seg (n - Suc j)) [0..<n]"
proof -
  have "[0..int n - 1] = map int [0..<n]"
    by (induction n) (simp_all add: upto_rec2 algebra_simps)
  then show "map (\<lambda>i. seg (nat i)) [0..int n - 1] = map seg [0..<n]"
    and "map (\<lambda>i. seg (nat i)) (rev [0..int n - 1]) = map (\<lambda>j. seg (n - Suc j)) [0..<n]"
    by (auto simp: rev_map [symmetric] rev_nth nat_diff_distrib' intro!: nth_equalityI arg_cong [of _ _ seg])
qed

text \<open>What the name of an entry is after the string is found.\<close>

definition utf16_name :: "u8 list \<Rightarrow> u16 list \<Rightarrow> 'arr directory_entry \<Rightarrow> 'arr directory_entry" where
  "utf16_name buffer us de =
     de\<lparr> de_name := Some buffer, de_name_size := of_nat (2 * length us + 2), de_is_unicode := 1 \<rparr>"

text \<open>The name of an entry, as the callers read it: the first \<open>de_name_size\<close> bytes.\<close>

definition name_bytes :: "'arr directory_entry \<Rightarrow> u8 list option" where
  "name_bytes de = map_option (take (unat (de_name_size de))) (de_name de)"

lemma name_bytes_utf16_name:
  assumes "0 \<notin> set us" and "0 < k" and "length us < 2 ^ 31"
  shows "name_bytes (utf16_name (utf16_bytes (pad_name k filler us) @ [0, 0]) us de) =
    Some (utf16_bytes us @ [0, 0])"
proof -
  have "unat (of_nat (2 * length us + 2) :: u64) = 2 * length us + 2"
    using assms(3) by (intro unat_of_nat_64) simp
  then show ?thesis
    using name_end_padded(2) [OF assms(1,2), of filler]
    by (simp only: name_bytes_def utf16_name_def) simp
qed

lemma get_vfat_name_ok:
  assumes "array_contract A view" and "length (view arr) = number_of_segments 13 us"
    and "0 \<notin> set us" and "us \<noteq> []" and "length us \<le> 255" and "de_name de = None"
    and seg: "\<And>i. i < length (view arr) \<Longrightarrow> \<exists>a e. view arr ! i = Some a \<and> store a = Some e \<and>
      take 26 (de_name_data e) = name_segment 13 filler us (length (view arr) - Suc i)"
  shows "libfsfat_directory_entry_get_name_from_vfat_long_file_name_entries A store (Some de) arr =
    Inr (utf16_name (utf16_bytes (pad_name 13 filler us) @ [0, 0]) us de)"
proof -
  let ?n = "number_of_segments 13 us"
  have n: "1 \<le> ?n" "?n \<le> 20"
    using assms(4,5) div_le_mono [of "length us + 12" "267" 13] div_le_mono [of 13 "length us + 12" 13]
    by (auto simp: number_of_segments_def Suc_le_eq)
  have "copy_name_segments A store arr 26 (rev [0..int ?n - 1]) =
      Inr (concat (map (\<lambda>i. name_segment 13 filler us (?n - Suc (nat i))) (rev [0..int ?n - 1])))"
    by (rule copy_name_segments_ok [OF assms(1)]) (use seg assms(2) in auto)
  also have "map (\<lambda>i. name_segment 13 filler us (?n - Suc (nat i))) (rev [0..int ?n - 1]) =
      map (name_segment 13 filler us) [0..<?n]"
    unfolding take_upto_nat(2) [of "\<lambda>i. name_segment 13 filler us (?n - Suc i)"]
    by (rule map_cong [OF refl]) simp
  finally have copy: "copy_name_segments A store arr 26 (rev [0..int ?n - 1]) =
      Inr (utf16_bytes (pad_name 13 filler us))"
    by (simp add: concat_name_segments)
  have "length (utf16_bytes (pad_name 13 filler us) @ [0, 0 :: u8]) = nat (26 * int ?n + 2)"
    by (simp add: length_pad_name)
  then have "find_name_end (utf16_bytes (pad_name 13 filler us) @ [0, 0]) (nat (26 * int ?n + 2)) 0 =
      2 * length us + 2"
    using name_end_padded(1) [OF assms(3), of 13 filler] by simp
  then show ?thesis
    using copy n assms(2,6)
    by (simp add: libfsfat_directory_entry_get_name_from_vfat_long_file_name_entries_def
      array_number [OF assms(1)] utf16_name_def Let_def)
qed

lemma get_exfat_name_ok:
  assumes "array_contract A view" and "length (view arr) = number_of_segments 15 us"
    and "0 \<notin> set us" and "us \<noteq> []" and "length us \<le> 135" and "de_name de = None"
    and seg: "\<And>i. i < length (view arr) \<Longrightarrow> \<exists>a e. view arr ! i = Some a \<and> store a = Some e \<and>
      take 30 (de_name_data e) = name_segment 15 filler us i"
  shows "libfsfat_directory_entry_get_name_from_exfat_file_name_entries A store (Some de) arr =
    Inr (utf16_name (utf16_bytes (pad_name 15 filler us) @ [0, 0]) us de)"
proof -
  let ?n = "number_of_segments 15 us"
  have n: "1 \<le> ?n" "?n \<le> 9"
    using assms(4,5) div_le_mono [of "length us + 14" "149" 15] div_le_mono [of 15 "length us + 14" 15]
    by (auto simp: number_of_segments_def Suc_le_eq)
  have "copy_name_segments A store arr 30 [0..int ?n - 1] =
      Inr (concat (map (\<lambda>i. name_segment 15 filler us (nat i)) [0..int ?n - 1]))"
    by (rule copy_name_segments_ok [OF assms(1)]) (use seg assms(2) in auto)
  then have copy: "copy_name_segments A store arr 30 [0..int ?n - 1] =
      Inr (utf16_bytes (pad_name 15 filler us))"
    by (simp add: take_upto_nat(1) concat_name_segments)
  have "length (utf16_bytes (pad_name 15 filler us) @ [0, 0 :: u8]) = nat (30 * int ?n + 2)"
    by (simp add: length_pad_name)
  then have "find_name_end (utf16_bytes (pad_name 15 filler us) @ [0, 0]) (nat (30 * int ?n + 2)) 0 =
      2 * length us + 2"
    using name_end_padded(1) [OF assms(3), of 15 filler] by simp
  then show ?thesis
    using copy n assms(2,6)
    by (simp add: libfsfat_directory_entry_get_name_from_exfat_file_name_entries_def
      array_number [OF assms(1)] utf16_name_def Let_def)
qed

lemma short_name_string_bounds:
  "length (short_name_string data flags) \<le> (if flags AND FILE_ATTRIBUTE_FLAG_VOLUME_LABEL = 0 then 13 else 12)"
  "1 \<le> length (short_name_string data flags)"
proof -
  have "length (takeWhile P xs) \<le> length xs" for P and xs :: "u8 list"
    by (rule length_takeWhile_le)
  from this [of "\<lambda>c. c \<noteq> 0x20" "take 8 data"] this [of "\<lambda>c. c \<noteq> 0x20" "take 3 (drop 8 data)"]
  show "length (short_name_string data flags) \<le>
      (if flags AND FILE_ATTRIBUTE_FLAG_VOLUME_LABEL = 0 then 13 else 12)"
    by (auto simp: short_name_string_def Let_def)
qed (simp add: short_name_string_def Let_def)

text \<open>
  C34. A VFAT long name of up to 255 UTF-16 characters round-trips: it is cut into segments
  of 13 characters, the last one with a terminator and padding, and written into long name
  entries with the last segment first. The entries that reading them gives, collected in
  an array in the order on disk, give back the name with an end of string character.
\<close>

theorem directory_entry_vfat_name_roundtrip:
  assumes "array_contract A view" and "length (view arr) = number_of_segments 13 us"
    and "0 \<notin> set us" and "us \<noteq> []" and "length us \<le> 255" and "de_name de = None"
    and "fmt \<noteq> FORMAT_EXFAT"
    and "\<forall>i < length (view arr). 1 \<le> n i \<and> n i \<le> 0x13 \<or> 0x41 \<le> n i \<and> n i \<le> 0x54"
    and "\<forall>i < length (view arr). \<exists>a e. view arr ! i = Some a \<and> store a = Some e \<and>
      libfsfat_directory_entry_read_data (Some directory_entry_zero)
        (Some (fsfat_directory_entry_vfat (n i) checksum
          (name_segment 13 filler us (length (view arr) - Suc i)))) fmt = Inr (e, True)"
  shows "\<exists>de'. libfsfat_directory_entry_get_name_from_vfat_long_file_name_entries A store (Some de) arr =
      Inr de' \<and>
    name_bytes de' = Some (utf16_bytes us @ [0, 0]) \<and> de_is_unicode de' = 1 \<and>
    de'\<lparr> de_name := None, de_name_size := 0, de_is_unicode := 0 \<rparr> =
      de\<lparr> de_name := None, de_name_size := 0, de_is_unicode := 0 \<rparr>"
proof -
  have seg: "\<exists>a e. view arr ! i = Some a \<and> store a = Some e \<and>
      take 26 (de_name_data e) = name_segment 13 filler us (length (view arr) - Suc i)"
    if i: "i < length (view arr)" for i
  proof -
    have len: "length (name_segment 13 filler us (length (view arr) - Suc i)) = 26"
      using length_name_segment [of 13 "length (view arr) - Suc i" us filler] i assms(2) by simp
    obtain a e where e: "view arr ! i = Some a" "store a = Some e"
      "libfsfat_directory_entry_read_data (Some directory_entry_zero)
        (Some (fsfat_directory_entry_vfat (n i) checksum
          (name_segment 13 filler us (length (view arr) - Suc i)))) fmt = Inr (e, True)"
      using assms(9) i by blast
    have n: "1 \<le> n i \<and> n i \<le> 0x13 \<or> 0x41 \<le> n i \<and> n i \<le> 0x54" using assms(8) i by blast
    have "de_name_data e = name_segment 13 filler us (length (view arr) - Suc i) @ replicate 6 0"
      using e(3) unfolding read_vfat_layout [OF len assms(7) n] by auto
    then show ?thesis using e(1,2) len by simp
  qed
  show ?thesis
    using get_vfat_name_ok [OF assms(1-6) seg] name_bytes_utf16_name [OF assms(3), of 13 filler de] assms(5)
    by (simp add: utf16_name_def)
qed

text \<open>A name of 15 characters in two entries, in a store of two addresses.\<close>

definition example_name :: "u16 list" where
  "example_name = [0x61, 0x62, 0x63, 0x64, 0x65, 0x66, 0x67, 0x68, 0x69, 0x6a, 0x6b, 0x6c, 0x6d, 0x6e, 0x6f]"

definition example_vfat_entry :: "nat \<Rightarrow> nat option list directory_entry" where
  "example_vfat_entry a = directory_entry_zero\<lparr> de_entry_type := TYPE_VFAT_LONG_NAME,
     de_vfat_sequence_number := (if a = 0 then 0x42 else 1),
     de_name_data := name_segment 13 0xffff example_name (1 - a) @ replicate 6 0 \<rparr>"

lemma example_name_segments: "number_of_segments 13 example_name = 2"
  by (simp add: number_of_segments_def example_name_def)

theorem directory_entry_vfat_name_roundtrip_witness:
  "\<exists>de'. libfsfat_directory_entry_get_name_from_vfat_long_file_name_entries list_array
      (\<lambda>a. Some (example_vfat_entry a)) (Some directory_entry_zero) [Some 0, Some 1] = Inr de' \<and>
    name_bytes de' = Some (utf16_bytes example_name @ [0, 0]) \<and> de_is_unicode de' = 1 \<and>
    de'\<lparr> de_name := None, de_name_size := 0, de_is_unicode := 0 \<rparr> =
      directory_entry_zero\<lparr> de_name := None, de_name_size := 0, de_is_unicode := 0 \<rparr>"
proof (rule directory_entry_vfat_name_roundtrip [OF list_array_contract,
      where n = "\<lambda>i. if i = 0 then 0x42 else 1" and fmt = FORMAT_FAT32 and filler = "0xffff" and checksum = 0])
  have len: "length (name_segment 13 0xffff example_name j) = 26" if "j < 2" for j
    using length_name_segment [of 13 j example_name] that by (simp add: example_name_segments)
  show "\<forall>i < length [Some 0, Some 1]. \<exists>a e. [Some 0, Some 1] ! i = Some a \<and>
      Some (example_vfat_entry a) = Some e \<and>
      libfsfat_directory_entry_read_data (Some directory_entry_zero)
        (Some (fsfat_directory_entry_vfat (if i = 0 then 0x42 else 1) 0
          (name_segment 13 0xffff example_name (length [Some (0 :: nat), Some 1] - Suc i)))) FORMAT_FAT32 =
      Inr (e, True)"
    using len by (auto simp: less_Suc_eq read_vfat_layout example_vfat_entry_def)
qed (simp_all add: example_name_segments, simp_all add: example_name_def directory_entry_zero_def)

text \<open>
  A name of an exFAT file of up to 135 UTF-16 characters round-trips through file name
  entries of 15 characters each.
\<close>

theorem directory_entry_exfat_name_roundtrip:
  assumes "array_contract A view" and "length (view arr) = number_of_segments 15 us"
    and "0 \<notin> set us" and "us \<noteq> []" and "length us \<le> 135" and "de_name de = None"
    and "de_name_entries_array de = Some arr"
    and "\<forall>i < length (view arr). \<exists>a e. view arr ! i = Some a \<and> store a = Some e \<and>
      libfsfat_directory_entry_read_data (Some directory_entry_zero)
        (Some (fsfat_directory_entry_exfat_file_entry_name flags (name_segment 15 0 us i))) FORMAT_EXFAT =
      Inr (e, True)"
  shows "\<exists>de'. libfsfat_directory_entry_get_name A store (Some de) = Inr de' \<and>
    name_bytes de' = Some (utf16_bytes us @ [0, 0]) \<and> de_is_unicode de' = 1"
proof -
  have seg: "\<exists>a e. view arr ! i = Some a \<and> store a = Some e \<and>
      take 30 (de_name_data e) = name_segment 15 0 us i"
    if i: "i < length (view arr)" for i
  proof -
    have len: "length (name_segment 15 0 us i) = 30"
      using length_name_segment [of 15 i us 0] i assms(2) by simp
    obtain a e where e: "view arr ! i = Some a" "store a = Some e"
      "libfsfat_directory_entry_read_data (Some directory_entry_zero)
        (Some (fsfat_directory_entry_exfat_file_entry_name flags (name_segment 15 0 us i))) FORMAT_EXFAT =
       Inr (e, True)"
      using assms(8) i by blast
    then have "de_name_data e = name_segment 15 0 us i @ replicate 2 0"
      unfolding read_exfat_name_layout [OF len] by auto
    then show ?thesis using e(1,2) len by simp
  qed
  show ?thesis
    using get_exfat_name_ok [OF assms(1-6) seg] name_bytes_utf16_name [OF assms(3), of 15 0 de] assms(5-7)
    by (simp add: libfsfat_directory_entry_get_name_def utf16_name_def)
qed

definition example_exfat_name_entry :: "nat option list directory_entry" where
  "example_exfat_name_entry = directory_entry_zero\<lparr> de_entry_type := TYPE_EXFAT_FILE_ENTRY_NAME,
     de_name_data := name_segment 15 0 example_name 0 @ replicate 2 0 \<rparr>"

theorem directory_entry_exfat_name_roundtrip_witness:
  "\<exists>de'. libfsfat_directory_entry_get_name list_array (\<lambda>a. Some example_exfat_name_entry)
      (Some (directory_entry_zero\<lparr> de_name_entries_array := Some [Some 0] \<rparr>)) = Inr de' \<and>
    name_bytes de' = Some (utf16_bytes example_name @ [0, 0]) \<and> de_is_unicode de' = 1"
proof (rule directory_entry_exfat_name_roundtrip [OF list_array_contract, where arr = "[Some 0]" and flags = 0])
  have one: "number_of_segments 15 example_name = 1"
    by (simp add: number_of_segments_def example_name_def)
  then show "length [Some (0 :: nat)] = number_of_segments 15 example_name" by simp
  have "length (name_segment 15 0 example_name 0) = 30"
    using length_name_segment [of 15 0 example_name] one by simp
  then show "\<forall>i < length [Some 0]. \<exists>a e. [Some (0 :: nat)] ! i = Some a \<and>
      Some example_exfat_name_entry = Some e \<and>
      libfsfat_directory_entry_read_data (Some directory_entry_zero)
        (Some (fsfat_directory_entry_exfat_file_entry_name 0 (name_segment 15 0 example_name i))) FORMAT_EXFAT =
      Inr (e, True)"
    by (simp add: read_exfat_name_layout example_exfat_name_entry_def)
qed (simp_all add: example_name_def directory_entry_zero_def)

text \<open>
  The name of an exFAT file can have 255 characters in 17 entries, but more than 9
  entries are refused: no name of more than 135 characters can be read.
\<close>

theorem directory_entry_exfat_long_name_rejected:
  assumes "array_contract A view" and "length (view arr) = number_of_segments 15 us"
    and "135 < length us" and "de_name de = None" and "de_name_entries_array de = Some arr"
  shows "libfsfat_directory_entry_get_name A store (Some de) = Inl RUNTIME_GET_FAILED"
proof -
  have "10 \<le> number_of_segments 15 us"
    using assms(3) div_le_mono [of 150 "length us + 14" 15] by (simp add: number_of_segments_def)
  then show ?thesis
    using assms(2,4,5)
    by (simp add: libfsfat_directory_entry_get_name_def array_number [OF assms(1)]
      libfsfat_directory_entry_get_name_from_exfat_file_name_entries_def)
qed

theorem directory_entry_exfat_long_name_rejected_witness:
  "libfsfat_directory_entry_get_name list_array (\<lambda>a. None)
     (Some (directory_entry_zero\<lparr> de_name_entries_array := Some (replicate 17 (Some 0)) \<rparr>)) =
   Inl RUNTIME_GET_FAILED"
  by (rule directory_entry_exfat_long_name_rejected [OF list_array_contract,
        where us = "replicate 255 0x61" and arr = "replicate 17 (Some 0)"])
    (simp_all add: number_of_segments_def directory_entry_zero_def)

section \<open>Names in general\<close>

text \<open>
  A short name in the usual form: a name of 1 to 8 characters and an extension of up to
  3, both without spaces and padded with spaces, become the name, a dot and the extension,
  without the dot when there is no extension or the entry is a volume label.
\<close>

theorem directory_entry_short_name:
  assumes "length base \<le> 8" and "length extension \<le> 3" and "0x20 \<notin> set base \<union> set extension"
    and "de_entry_type de = TYPE_SHORT_NAME" and "de_name de = None" and "de_name_entries_array de = None"
    and "take 11 (de_name_data de) =
      base @ replicate (8 - length base) 0x20 @ extension @ replicate (3 - length extension) 0x20"
  shows "\<exists>de'. libfsfat_directory_entry_get_name A store (Some de) = Inr de' \<and>
    de_is_unicode de' = 0 \<and>
    name_bytes de' = Some (base @
      (if extension = [] \<or> de_file_attribute_flags de AND FILE_ATTRIBUTE_FLAG_VOLUME_LABEL \<noteq> 0
       then extension else 0x2e # extension) @ [0])"
proof -
  let ?data = "de_name_data de"
  have "take 8 ?data = take 8 (take 11 ?data)" and "take 3 (drop 8 ?data) = take 3 (drop 8 (take 11 ?data))"
    by (simp_all add: drop_take)
  then have parts: "take 8 ?data = base @ replicate (8 - length base) 0x20"
    "take 3 (drop 8 ?data) = extension @ replicate (3 - length extension) 0x20"
    using assms(1,2,7) by simp_all
  have "takeWhile (\<lambda>c. c \<noteq> 0x20) (xs @ replicate k 0x20) = xs" if "0x20 \<notin> set xs" for xs :: "u8 list" and k
    using that by (simp add: takeWhile_append takeWhile_eq_all_conv [THEN iffD2] split: if_splits)
  then have tw: "takeWhile (\<lambda>c. c \<noteq> 0x20) (take 8 ?data) = base"
    "takeWhile (\<lambda>c. c \<noteq> 0x20) (take 3 (drop 8 ?data)) = extension"
    using assms(3) unfolding parts by auto
  have "length (short_name_string ?data (de_file_attribute_flags de)) < 2 ^ 64"
    using short_name_string_bounds(1) [of ?data "de_file_attribute_flags de"] by (auto split: if_splits)
  then show ?thesis
    using assms(4-6) tw
    by (simp add: libfsfat_directory_entry_get_name_def Let_def name_bytes_def del: length_0_conv)
      (simp add: short_name_string_def)
qed

theorem directory_entry_short_name_witness:
  "\<exists>de'. libfsfat_directory_entry_get_name list_array (\<lambda>a. None) (Some (short_entry example_short)) =
      Inr de' \<and> de_is_unicode de' = 0 \<and>
    name_bytes de' = Some [0x52, 0x45, 0x41, 0x44, 0x4d, 0x45, 0x2e, 0x54, 0x58, 0x54, 0]"
proof -
  have "take 11 (de_name_data (short_entry example_short)) =
      [0x52, 0x45, 0x41, 0x44, 0x4d, 0x45] @ [0x20, 0x20] @ [0x54, 0x58, 0x54]"
    by (simp add: short_entry_def example_short_def)
  moreover have "replicate (8 - length [0x52, 0x45, 0x41, 0x44, 0x4d, 0x45 :: u8]) 0x20 = [0x20, 0x20 :: u8]"
    by (simp add: numeral_2_eq_2)
  moreover have "de_file_attribute_flags (short_entry example_short) AND FILE_ATTRIBUTE_FLAG_VOLUME_LABEL = 0"
    by (simp add: short_entry_def example_short_def FILE_ATTRIBUTE_FLAG_VOLUME_LABEL_def)
  ultimately show ?thesis
    using directory_entry_short_name [of "[0x52, 0x45, 0x41, 0x44, 0x4d, 0x45]" "[0x54, 0x58, 0x54]"
      "short_entry example_short" list_array "\<lambda>a. None"]
    by (simp add: short_entry_def directory_entry_zero_def)
qed

text \<open>
  What the reader of a directory keeps: the name entries of an entry are in the store and
  have their 32 bytes of name data.
\<close>

definition names_stored ::
  "('arr \<Rightarrow> nat option list) \<Rightarrow> 'arr entry_store \<Rightarrow> 'arr \<Rightarrow> bool" where
  "names_stored view store arr \<longleftrightarrow>
     (\<forall>x \<in> set (view arr). \<exists>a e. x = Some a \<and> store a = Some e \<and> length (de_name_data e) = 32)"

lemma copy_name_segments_stored:
  assumes "array_contract A view" and "names_stored view store arr" and "n \<le> 32"
    and "\<forall>i \<in> set is. 0 \<le> i \<and> i < int (length (view arr))"
  shows "\<exists>name. copy_name_segments A store arr n is = Inr name \<and> length name = n * length is"
  using assms(4)
proof (induction "is")
  case (Cons i "is")
  have "nat i < length (view arr)" using Cons.prems by auto
  then obtain a e where "view arr ! nat i = Some a" "store a = Some e" "length (de_name_data e) = 32"
    using assms(2) nth_mem unfolding names_stored_def by metis
  then show ?case using Cons assms(3) by (auto simp: array_get [OF assms(1)])
qed simp

lemma find_name_end_bounds:
  "name_offset \<le> name_size \<Longrightarrow> even (name_size - name_offset) \<Longrightarrow>
   name_offset \<le> find_name_end name name_size name_offset \<and> find_name_end name name_size name_offset \<le> name_size"
proof (induction name name_size name_offset rule: find_name_end.induct)
  case (1 name name_size name_offset)
  show ?case
  proof (cases "name_offset + 1 < name_size")
    case True
    then have "name_offset + 2 \<le> name_size" "even (name_size - (name_offset + 2))"
      using 1(2,3) by (auto elim!: evenE oddE)
    then show ?thesis using 1 True by (subst (1 2) find_name_end.simps) auto
  next
    case False
    then show ?thesis using 1(2) by (subst (1 2) find_name_end.simps) auto
  qed
qed

lemma get_name_safe:
  assumes "array_contract A view" and "entry_wf de" and "de_name de = None"
    and "\<forall>arr. de_name_entries_array de = Some arr \<longrightarrow> names_stored view store arr"
  shows "case libfsfat_directory_entry_get_name A store (Some de) of
      Inr de' \<Rightarrow> entry_wf de' \<and>
        (de_name de' = None \<longrightarrow> de' = de \<and> de_name_entries_array de = None \<and>
           de_entry_type de \<noteq> TYPE_SHORT_NAME \<and> de_entry_type de \<noteq> TYPE_EXFAT_VOLUME_LABEL)
    | Inl e \<Rightarrow> e = RUNTIME_GET_FAILED \<and>
        (\<exists>arr. de_name_entries_array de = Some arr \<and> (length (view arr) = 0 \<or> 9 < length (view arr)))"
proof (cases "de_name_entries_array de")
  case None
  have data: "length (de_name_data de) = 32" using assms(2) by (simp add: entry_wf_def)
  show ?thesis
  proof (cases "de_entry_type de = TYPE_EXFAT_VOLUME_LABEL")
    case True
    then have small: "unat (de_name_size de) \<le> 22" using assms(2,3) by (simp add: entry_wf_def)
    then have "unat (de_name_size de + 2) = unat (de_name_size de) + 2"
      by (subst unat_add_exact) simp_all
    then show ?thesis
      using True None assms(3) data small
      by (simp add: libfsfat_directory_entry_get_name_def entry_wf_def)
  next
    case False
    have "length (short_name_string (de_name_data de) (de_file_attribute_flags de)) < 2 ^ 64"
      using short_name_string_bounds(1) [of "de_name_data de" "de_file_attribute_flags de"]
      by (auto split: if_splits)
    then show ?thesis
      using False None assms(2,3) data
      by (simp add: libfsfat_directory_entry_get_name_def entry_wf_def Let_def)
  qed
next
  case (Some arr)
  let ?n = "length (view arr)"
  show ?thesis
  proof (cases "?n = 0 \<or> 9 < ?n")
    case True
    then show ?thesis
      using Some assms(3)
      by (auto simp: libfsfat_directory_entry_get_name_def array_number [OF assms(1)]
        libfsfat_directory_entry_get_name_from_exfat_file_name_entries_def)
  next
    case False
    have "names_stored view store arr" using assms(4) Some by blast
    then obtain name where name: "copy_name_segments A store arr 30 [0..int ?n - 1] = Inr name"
      "length name = 30 * ?n"
      using copy_name_segments_stored [OF assms(1), of store arr 30 "[0..int ?n - 1]"] by auto
    let ?stop = "find_name_end (name @ [0, 0]) (nat (30 * int ?n + 2)) 0"
    have size0: "nat (30 * int ?n + 2) = 30 * ?n + 2" by simp
    have "?stop \<le> 30 * ?n + 2"
      unfolding size0 using find_name_end_bounds [of 0 "30 * ?n + 2" "name @ [0, 0]"] by simp
    moreover then have "unat (of_nat ?stop :: u64) = ?stop" using False by (intro unat_of_nat_64) simp
    ultimately show ?thesis
      using False Some assms(2,3) name
      by (simp add: libfsfat_directory_entry_get_name_def array_number [OF assms(1)]
        libfsfat_directory_entry_get_name_from_exfat_file_name_entries_def Let_def entry_wf_def)
  qed
qed

text \<open>
  Determining the name of an entry is safe: for a well-formed entry without a name it
  either sets the name and leaves the entry well formed, or, if the entry has an array of
  exFAT name entries with none or more than 9 of them, reports an error; no read leaves
  the name data of the entries and no write the buffer of the name. Only entries that have
  no name by their type are left without.
\<close>

theorem directory_entry_get_name_safe:
  assumes "array_contract A view" and "entry_wf de" and "de_name de = None"
    and "\<forall>arr. de_name_entries_array de = Some arr \<longrightarrow> names_stored view store arr"
  shows "case libfsfat_directory_entry_get_name A store (Some de) of
      Inr de' \<Rightarrow> entry_wf de' \<and>
        (de_name de' = None \<longrightarrow> de' = de \<and> de_name_entries_array de = None \<and>
           de_entry_type de \<noteq> TYPE_SHORT_NAME \<and> de_entry_type de \<noteq> TYPE_EXFAT_VOLUME_LABEL)
    | Inl e \<Rightarrow> e = RUNTIME_GET_FAILED \<and>
        (\<exists>arr. de_name_entries_array de = Some arr \<and> (length (view arr) = 0 \<or> 9 < length (view arr)))"
  by (rule get_name_safe [OF assms])

theorem directory_entry_get_name_safe_witness:
  "case libfsfat_directory_entry_get_name list_array (\<lambda>a. Some example_exfat_name_entry)
     (Some (directory_entry_zero\<lparr> de_name_entries_array := Some [Some 0] \<rparr>)) of
     Inr de' \<Rightarrow> entry_wf de' \<and> de_name de' \<noteq> None
   | Inl e \<Rightarrow> False"
proof -
  have one: "number_of_segments 15 example_name = 1"
    by (simp add: number_of_segments_def example_name_def)
  have "length (name_segment 15 0 example_name 0) = 30"
    using length_name_segment [of 15 0 example_name] one by simp
  then show ?thesis
    using directory_entry_get_name_safe [OF list_array_contract,
        of "directory_entry_zero\<lparr> de_name_entries_array := Some [Some 0] \<rparr>" "\<lambda>a. Some example_exfat_name_entry"]
    by (simp add: entry_wf_def names_stored_def example_exfat_name_entry_def directory_entry_zero_def
      split: sum.splits)
qed

text \<open>
  A clone of an entry has the source's fields and name, but no array of name entries;
  the source gets its name if it had none.
\<close>

theorem directory_entry_clone_fields:
  assumes "libfsfat_directory_entry_clone A store None (Some source) = Inr (source', destination)"
  shows "\<exists>s d. source' = Some s \<and> destination = Some d \<and>
    (s = source \<or> de_name source = None \<and> libfsfat_directory_entry_get_name A store (Some source) = Inr s) \<and>
    d = s\<lparr> de_name := name_bytes s, de_name_entries_array := None \<rparr>"
proof -
  obtain s where s: "(if de_name source = None then libfsfat_directory_entry_get_name A store (Some source)
      else Inr source) = Inr s"
    using assms by (auto simp: libfsfat_directory_entry_clone_def split: sum.splits)
  then show ?thesis
    using assms unfolding libfsfat_directory_entry_clone_def
    by (auto simp: name_bytes_def Let_def split: option.splits if_splits)
qed

theorem directory_entry_clone_fields_witness:
  "\<exists>s d. libfsfat_directory_entry_clone list_array (\<lambda>a. None) None (Some (short_entry example_short)) =
      Inr (Some s, Some d) \<and>
    d = s\<lparr> de_name := name_bytes s, de_name_entries_array := None \<rparr>"
proof -
  have "\<exists>s d. libfsfat_directory_entry_clone list_array (\<lambda>a. None) None (Some (short_entry example_short)) =
      Inr (s, d)"
    by (simp add: libfsfat_directory_entry_clone_def libfsfat_directory_entry_get_name_def short_entry_def
      directory_entry_zero_def example_short_def short_name_string_def Let_def
      FILE_ATTRIBUTE_FLAG_VOLUME_LABEL_def)
  then show ?thesis using directory_entry_clone_fields by blast
qed

end
