(* ===== verification/Directory.thy ===== *)
theory Directory
  imports Directory_Entry
begin

text \<open>
  The directory of \<^verbatim>\<open>libfsfat/libfsfat_directory.c\<close>: the array that owns the entries, the
  array of the file entries among them, and the entries with a role of their own. The store
  holds the entries, the pointers of the C structure are addresses in it.
\<close>

record 'arr directory =
  dir_store :: "'arr entry_store"
  dir_next :: nat
  dir_entries_array :: 'arr
  dir_file_entries_array :: 'arr
  dir_self_entry :: "nat option"
  dir_parent_entry :: "nat option"
  dir_volume_label_entry :: "nat option"

definition libfsfat_directory_initialize ::
  "('arr, nat) array_ops \<Rightarrow> 'arr directory option \<Rightarrow> 'arr directory result" where
  "libfsfat_directory_initialize A directory =
     (if directory \<noteq> None then Inl RUNTIME_VALUE_ALREADY_SET
      else
        (case array_initialize A 0 of
           None \<Rightarrow> Inl RUNTIME_INITIALIZE_FAILED
         | Some entries_array \<Rightarrow>
             (case array_initialize A 0 of
                None \<Rightarrow> Inl RUNTIME_INITIALIZE_FAILED
              | Some file_entries_array \<Rightarrow>
                  Inr \<lparr> dir_store = (\<lambda>_. None), dir_next = 0,
                        dir_entries_array = entries_array,
                        dir_file_entries_array = file_entries_array,
                        dir_self_entry = None, dir_parent_entry = None,
                        dir_volume_label_entry = None \<rparr>)))"

text \<open>A new entry gets an address of the store; \<open>put_entry\<close> writes an entry back.\<close>

definition put_entry :: "nat \<Rightarrow> 'arr directory_entry \<Rightarrow> 'arr directory \<Rightarrow> 'arr directory" where
  "put_entry address de directory =
     directory\<lparr> dir_store := (dir_store directory)(address \<mapsto> de) \<rparr>"

definition new_entry :: "'arr directory_entry \<Rightarrow> 'arr directory \<Rightarrow> 'arr directory" where
  "new_entry de directory =
     (put_entry (dir_next directory) de directory)\<lparr> dir_next := Suc (dir_next directory) \<rparr>"

definition libfsfat_directory_get_number_of_file_entries ::
  "('arr, nat) array_ops \<Rightarrow> 'arr directory option \<Rightarrow> int result" where
  "libfsfat_directory_get_number_of_file_entries A directory =
     (case directory of
        None \<Rightarrow> Inl ARGUMENT_INVALID_VALUE
      | Some d \<Rightarrow>
          (case array_get_number_of_entries A (dir_file_entries_array d) of
             None \<Rightarrow> Inl RUNTIME_GET_FAILED
           | Some number_of_file_entries \<Rightarrow> Inr number_of_file_entries))"

definition libfsfat_directory_get_file_entry_by_index ::
  "('arr, nat) array_ops \<Rightarrow> 'arr directory option \<Rightarrow> int \<Rightarrow> nat option result" where
  "libfsfat_directory_get_file_entry_by_index A directory file_entry_index =
     (case directory of
        None \<Rightarrow> Inl ARGUMENT_INVALID_VALUE
      | Some d \<Rightarrow>
          (case array_get_entry_by_index A (dir_file_entries_array d) file_entry_index of
             None \<Rightarrow> Inl RUNTIME_GET_FAILED
           | Some directory_entry \<Rightarrow> Inr directory_entry))"

end
