(* ===== verification/File_System.thy ===== *)
theory File_System
  imports Allocation_Table Block_Tree Directory
begin

text \<open>
  The file system of \<^verbatim>\<open>libfsfat/libfsfat_file_system.c\<close>: the allocation tables, the
  check that a cluster block is read for the first time, and the readers of directories,
  which follow a chain of clusters or read a range of the volume.
\<close>

section \<open>The file system\<close>

text \<open>The cache of libfcache, which is not part of the sources.\<close>

record ('cache, 'value, 'directory) cache_ops =
  cache_date_time_get_timestamp :: "int option"
  cache_initialize :: "int \<Rightarrow> 'cache option"
  cache_get_value_by_identifier :: "'cache \<Rightarrow> int \<Rightarrow> off64 \<Rightarrow> int \<Rightarrow> 'value option option"
  cache_value_get_value :: "'value \<Rightarrow> 'directory option"
  cache_set_value_by_identifier :: "'cache \<Rightarrow> int \<Rightarrow> off64 \<Rightarrow> int \<Rightarrow> 'directory \<Rightarrow> 'cache option"

record ('arr, 'cache) file_system =
  fs_io_handle :: "io_handle option"
  fs_allocation_table :: "allocation_table option"
  fs_reversed_allocation_table :: "allocation_table option"
  fs_cache_timestamp :: int
  fs_directory_cache :: 'cache
  fs_root_directory :: "'arr directory option"

definition libfsfat_file_system_initialize ::
  "('cache, 'value, 'arr directory) cache_ops \<Rightarrow> ('arr, 'cache) file_system option \<Rightarrow> io_handle option \<Rightarrow>
   ('arr, 'cache) file_system result" where
  "libfsfat_file_system_initialize C file_system io_handle =
     (if file_system \<noteq> None then Inl RUNTIME_VALUE_ALREADY_SET
      else if io_handle = None then Inl ARGUMENT_INVALID_VALUE
      else
        (case cache_date_time_get_timestamp C of
           None \<Rightarrow> Inl RUNTIME_GET_FAILED
         | Some cache_timestamp \<Rightarrow>
             (case cache_initialize C 32 of
                None \<Rightarrow> Inl RUNTIME_INITIALIZE_FAILED
              | Some directory_cache \<Rightarrow>
                  Inr \<lparr> fs_io_handle = io_handle, fs_allocation_table = None,
                        fs_reversed_allocation_table = None,
                        fs_cache_timestamp = cache_timestamp,
                        fs_directory_cache = directory_cache,
                        fs_root_directory = None \<rparr>)))"

text \<open>
  The block tree after the descriptor of the cluster block is inserted, or an error if the
  block has been read before.
\<close>

definition libfsfat_file_system_check_if_cluster_block_first_read ::
  "('tarr, node_entry) array_ops \<Rightarrow> ('arr, 'cache) file_system option \<Rightarrow> 'tarr block_tree option \<Rightarrow>
   u32 \<Rightarrow> off64 \<Rightarrow> 'tarr block_tree result option" where
  "libfsfat_file_system_check_if_cluster_block_first_read T file_system cluster_block_tree
       cluster_number cluster_offset =
     (if file_system = None then Some (Inl ARGUMENT_INVALID_VALUE)
      else
        (case libfsfat_block_descriptor_initialize None of
           Inl e \<Rightarrow> Some (Inl RUNTIME_INITIALIZE_FAILED)
         | Inr descriptor \<Rightarrow>
             (case libfsfat_block_tree_insert_block_descriptor_by_offset T cluster_block_tree
                     cluster_offset (descriptor\<lparr> bd_cluster_number := cluster_number \<rparr>) of
                None \<Rightarrow> None
              | Some (Inl e) \<Rightarrow> Some (Inl RUNTIME_APPEND_FAILED)
              | Some (Inr (tree, Existing _)) \<Rightarrow> Some (Inl RUNTIME_VALUE_OUT_OF_BOUNDS)
              | Some (Inr (tree, Inserted _)) \<Rightarrow> Some (Inr tree))))"

definition libfsfat_file_system_read_allocation_table ::
  "(nat \<Rightarrow> u8) \<Rightarrow> ('arr, 'cache) file_system option \<Rightarrow> bfio \<Rightarrow> off64 \<Rightarrow> u64 \<Rightarrow>
   ('arr, 'cache) file_system result option" where
  "libfsfat_file_system_read_allocation_table junk file_system bfio file_offset size0 =
     (case file_system of
        None \<Rightarrow> Some (Inl ARGUMENT_INVALID_VALUE)
      | Some fs \<Rightarrow>
     (case fs_io_handle fs of
        None \<Rightarrow> Some (Inl RUNTIME_VALUE_MISSING)
      | Some io \<Rightarrow>
          if fs_allocation_table fs \<noteq> None then Some (Inl RUNTIME_VALUE_ALREADY_SET)
          else
            (case libfsfat_allocation_table_initialize None (io_total_number_of_clusters io) of
               Inl e \<Rightarrow> Some (Inl RUNTIME_INITIALIZE_FAILED)
             | Inr table \<Rightarrow>
                 (case (if io_file_system_format io \<in> {FORMAT_FAT12, FORMAT_FAT16, FORMAT_FAT32}
                        then
                          (case libfsfat_allocation_table_initialize (fs_reversed_allocation_table fs)
                                  (io_total_number_of_clusters io) of
                             Inl e \<Rightarrow> Inl RUNTIME_INITIALIZE_FAILED
                           | Inr reversed \<Rightarrow> Inr (Some reversed))
                        else Inr (fs_reversed_allocation_table fs)) of
                    Inl e \<Rightarrow> Some (Inl e)
                  | Inr reversed \<Rightarrow>
                      (case libfsfat_allocation_table_read_file_io_handle junk bfio (Some table) reversed
                              (Some io) file_offset size0 of
                         None \<Rightarrow> None
                       | Some (Inl e) \<Rightarrow> Some (Inl IO_READ_FAILED)
                       | Some (Inr (table, reversed)) \<Rightarrow>
                           Some (Inr (fs\<lparr> fs_allocation_table := Some table,
                                          fs_reversed_allocation_table := reversed \<rparr>)))))))"

section \<open>The entries of a directory\<close>

text \<open>The local variables of the readers that outlive an entry.\<close>

record 'arr directory_reader =
  dr_directory :: "'arr directory"
  dr_name_entries_array :: "'arr option"
  dr_current_file_entry :: "nat option"
  dr_data_stream_entry :: "nat option"
  dr_last_vfat_sequence_number :: u8

definition is_self_name :: "u8 list \<Rightarrow> bool" where
  "is_self_name name_data \<longleftrightarrow> name_data ! 0 = 0x2e \<and> (\<forall>i \<in> set [1..<11]. name_data ! i = 0x20)"

definition is_parent_name :: "u8 list \<Rightarrow> bool" where
  "is_parent_name name_data \<longleftrightarrow>
     name_data ! 0 = 0x2e \<and> name_data ! 1 = 0x2e \<and> (\<forall>i \<in> set [2..<11]. name_data ! i = 0x20)"

text \<open>
  A file entry with a short name gets its identifier and the long name collected in front
  of it, and is appended to the file entries. The entry is at \<open>address\<close>.
\<close>

definition add_short_name_entry ::
  "('arr, nat) array_ops \<Rightarrow> off64 \<Rightarrow> nat \<Rightarrow> 'arr directory_entry \<Rightarrow> 'arr directory_reader \<Rightarrow>
   'arr directory_reader result" where
  "add_short_name_entry A offset address de st =
     (let d = dr_directory st;
          de = de\<lparr> de_identifier := offset \<rparr>
      in (case (case dr_name_entries_array st of
                  None \<Rightarrow> Inr de
                | Some name_entries_array \<Rightarrow>
                    (case libfsfat_directory_entry_get_name_from_vfat_long_file_name_entries A
                            (dir_store d) (Some de) name_entries_array of
                       Inl e \<Rightarrow> Inl RUNTIME_GET_FAILED
                     | Inr de \<Rightarrow> Inr de)) of
            Inl e \<Rightarrow> Inl e
          | Inr de \<Rightarrow>
              (case array_append_entry A (dir_file_entries_array d) (Some address) of
                 None \<Rightarrow> Inl RUNTIME_APPEND_FAILED
               | Some file_entries_array \<Rightarrow>
                   Inr (st\<lparr> dr_directory := (put_entry address de d)\<lparr>
                              dir_file_entries_array := file_entries_array \<rparr>,
                            dr_name_entries_array := None \<rparr>))))"

text \<open>
  A VFAT long name entry starts a new array, or continues the one before with the next
  lower sequence number. Appending to \<open>NULL\<close> is an error of libcdata.
\<close>

definition add_long_name_entry ::
  "('arr, nat) array_ops \<Rightarrow> nat \<Rightarrow> 'arr directory_entry \<Rightarrow> 'arr directory_reader \<Rightarrow>
   'arr directory_reader result" where
  "add_long_name_entry A address de st =
     (let vfat_sequence_number = de_vfat_sequence_number de AND 0x1f
      in (case (if de_vfat_sequence_number de AND 0x40 \<noteq> 0
                then
                  (case array_initialize A 0 of
                     None \<Rightarrow> Inl RUNTIME_INITIALIZE_FAILED
                   | Some name_entries_array \<Rightarrow> Inr (Some name_entries_array))
                else if unat vfat_sequence_number + 1 \<noteq> unat (dr_last_vfat_sequence_number st)
                then Inl ARGUMENT_VALUE_OUT_OF_BOUNDS
                else Inr (dr_name_entries_array st)) of
            Inl e \<Rightarrow> Inl e
          | Inr None \<Rightarrow> Inl RUNTIME_APPEND_FAILED
          | Inr (Some name_entries_array) \<Rightarrow>
              (case array_append_entry A name_entries_array (Some address) of
                 None \<Rightarrow> Inl RUNTIME_APPEND_FAILED
               | Some name_entries_array \<Rightarrow>
                   Inr (st\<lparr> dr_name_entries_array := Some name_entries_array,
                            dr_last_vfat_sequence_number := vfat_sequence_number \<rparr>))))"

definition add_data_stream_entry ::
  "nat \<Rightarrow> 'arr directory_entry \<Rightarrow> 'arr directory_reader \<Rightarrow> 'arr directory_reader result" where
  "add_data_stream_entry address de st =
     (if dr_data_stream_entry st \<noteq> None then Inl RUNTIME_VALUE_ALREADY_SET
      else
        (case dr_current_file_entry st of
           None \<Rightarrow> Inl RUNTIME_VALUE_MISSING
         | Some current_file_entry \<Rightarrow>
             (case dir_store (dr_directory st) current_file_entry of
                None \<Rightarrow> Inl MEMORY_FAULT
              | Some file_entry \<Rightarrow>
                  Inr (st\<lparr> dr_data_stream_entry := Some address,
                           dr_directory := put_entry current_file_entry
                             (file_entry\<lparr> de_data_start_cluster := de_data_start_cluster de,
                                         de_data_size := de_data_size de,
                                         de_valid_data_size := de_valid_data_size de \<rparr>)
                             (dr_directory st) \<rparr>))))"

definition add_exfat_file_entry ::
  "('arr, nat) array_ops \<Rightarrow> off64 \<Rightarrow> nat \<Rightarrow> 'arr directory_entry \<Rightarrow> 'arr directory_reader \<Rightarrow>
   'arr directory_reader result" where
  "add_exfat_file_entry A offset address de st =
     (let d = dr_directory st
      in (case array_append_entry A (dir_file_entries_array d) (Some address) of
            None \<Rightarrow> Inl RUNTIME_APPEND_FAILED
          | Some file_entries_array \<Rightarrow>
              (case array_initialize A 0 of
                 None \<Rightarrow> Inl RUNTIME_INITIALIZE_FAILED
               | Some name_entries_array \<Rightarrow>
                   Inr (st\<lparr> dr_directory := (put_entry address
                              (de\<lparr> de_identifier := offset,
                                   de_name_entries_array := Some name_entries_array \<rparr>) d)\<lparr>
                              dir_file_entries_array := file_entries_array \<rparr>,
                            dr_current_file_entry := Some address,
                            dr_data_stream_entry := None \<rparr>))))"

definition add_file_entry_name ::
  "('arr, nat) array_ops \<Rightarrow> nat \<Rightarrow> 'arr directory_reader \<Rightarrow> 'arr directory_reader result" where
  "add_file_entry_name A address st =
     (case dr_current_file_entry st of
        None \<Rightarrow> Inl RUNTIME_VALUE_MISSING
      | Some current_file_entry \<Rightarrow>
          (case dir_store (dr_directory st) current_file_entry of
             None \<Rightarrow> Inl MEMORY_FAULT
           | Some file_entry \<Rightarrow>
               (case de_name_entries_array file_entry of
                  None \<Rightarrow> Inl RUNTIME_APPEND_FAILED
                | Some name_entries_array \<Rightarrow>
                    (case array_append_entry A name_entries_array (Some address) of
                       None \<Rightarrow> Inl RUNTIME_APPEND_FAILED
                     | Some name_entries_array \<Rightarrow>
                         Inr (st\<lparr> dr_directory := put_entry current_file_entry
                                    (file_entry\<lparr> de_name_entries_array := Some name_entries_array \<rparr>)
                                    (dr_directory st) \<rparr>)))))"

definition add_volume_label_entry ::
  "nat \<Rightarrow> 'arr directory_reader \<Rightarrow> 'arr directory_reader result" where
  "add_volume_label_entry address st =
     (if dir_volume_label_entry (dr_directory st) \<noteq> None then Inl RUNTIME_VALUE_ALREADY_SET
      else Inr (st\<lparr> dr_directory := (dr_directory st)\<lparr> dir_volume_label_entry := Some address \<rparr> \<rparr>))"

text \<open>Every entry is appended to the array that owns the entries.\<close>

definition own_entry ::
  "('arr, nat) array_ops \<Rightarrow> nat \<Rightarrow> 'arr directory_reader \<Rightarrow> 'arr directory_reader result" where
  "own_entry A address st =
     (case array_append_entry A (dir_entries_array (dr_directory st)) (Some address) of
        None \<Rightarrow> Inl RUNTIME_APPEND_FAILED
      | Some entries_array \<Rightarrow>
          Inr (st\<lparr> dr_directory := (dr_directory st)\<lparr> dir_entries_array := entries_array \<rparr> \<rparr>))"

definition classify_entry ::
  "('arr, nat) array_ops \<Rightarrow> off64 \<Rightarrow> nat \<Rightarrow> 'arr directory_entry \<Rightarrow> 'arr directory_reader \<Rightarrow>
   'arr directory_reader result" where
  "classify_entry A offset address de st =
     (let d = dr_directory st
      in if is_self_name (de_name_data de)
         then (if dir_self_entry d \<noteq> None then Inl RUNTIME_VALUE_ALREADY_SET
               else Inr (st\<lparr> dr_directory := d\<lparr> dir_self_entry := Some address \<rparr> \<rparr>))
         else if is_parent_name (de_name_data de)
         then (if dir_parent_entry d \<noteq> None then Inl RUNTIME_VALUE_ALREADY_SET
               else Inr (st\<lparr> dr_directory := d\<lparr> dir_parent_entry := Some address \<rparr> \<rparr>))
         else if de_entry_type de = TYPE_SHORT_NAME
         then (if de_file_attribute_flags de AND FILE_ATTRIBUTE_FLAG_VOLUME_LABEL \<noteq> 0
               then add_volume_label_entry address st
               else add_short_name_entry A offset address de st)
         else if de_entry_type de = TYPE_VFAT_LONG_NAME then add_long_name_entry A address de st
         else if de_entry_type de = TYPE_EXFAT_DATA_STREAM then add_data_stream_entry address de st
         else if de_entry_type de = TYPE_EXFAT_FILE_ENTRY then add_exfat_file_entry A offset address de st
         else if de_entry_type de = TYPE_EXFAT_FILE_ENTRY_NAME then add_file_entry_name A address st
         else if de_entry_type de = TYPE_EXFAT_VOLUME_LABEL then add_volume_label_entry address st
         else Inr st)"

definition process_entry ::
  "('arr, nat) array_ops \<Rightarrow> off64 \<Rightarrow> 'arr directory_entry \<Rightarrow> 'arr directory_reader \<Rightarrow>
   'arr directory_reader result" where
  "process_entry A offset de st =
     (let address = dir_next (dr_directory st);
          st = st\<lparr> dr_directory := new_entry de (dr_directory st) \<rparr>
      in (case classify_entry A offset address de st of
            Inl e \<Rightarrow> Inl e
          | Inr st \<Rightarrow> own_entry A address st))"

section \<open>Reading a directory\<close>

text \<open>
  The entries of one cluster block. The boolean is what the variable \<open>result\<close> tells after
  the loop: \<open>False\<close> when a terminator ended it.
\<close>

partial_function (option) read_cluster_entries ::
  "('arr, nat) array_ops \<Rightarrow> bfio \<Rightarrow> file_system_format \<Rightarrow> off64 \<Rightarrow> off64 \<Rightarrow> bool \<Rightarrow>
   'arr directory_reader \<Rightarrow> ('arr directory_reader \<times> bool) result option" where
  "read_cluster_entries A bfio fmt cluster_offset cluster_end_offset go_on st =
     (if cluster_offset <s cluster_end_offset
      then
        (case libfsfat_directory_entry_initialize None of
           Inl e \<Rightarrow> Some (Inl RUNTIME_INITIALIZE_FAILED)
         | Inr de \<Rightarrow>
             (case libfsfat_directory_entry_read_file_io_handle bfio (Some de) cluster_offset fmt of
                Inl e \<Rightarrow> Some (Inl IO_READ_FAILED)
              | Inr r \<Rightarrow>
                  if \<not> snd r then Some (Inr (st, False))
                  else if de_entry_type (fst r) = TYPE_UNALLOCATED
                  then read_cluster_entries A bfio fmt (cluster_offset + 32) cluster_end_offset True st
                  else
                    (case process_entry A cluster_offset (fst r) st of
                       Inl e \<Rightarrow> Some (Inl e)
                     | Inr st \<Rightarrow>
                         read_cluster_entries A bfio fmt (cluster_offset + 32) cluster_end_offset True st)))
      else Some (Inr (st, go_on)))"

definition last_cluster_number :: "file_system_format \<Rightarrow> u32 option" where
  "last_cluster_number file_system_format =
     (case file_system_format of
        FORMAT_FAT12 \<Rightarrow> Some 0x00000ff0
      | FORMAT_FAT16 \<Rightarrow> Some 0x0000fff0
      | FORMAT_FAT32 \<Rightarrow> Some 0x0ffffff0
      | FORMAT_EXFAT \<Rightarrow> Some 0xfffffff0
      | FORMAT_UNKNOWN \<Rightarrow> None)"

definition cluster_block_offset :: "io_handle \<Rightarrow> u32 \<Rightarrow> off64" where
  "cluster_block_offset io cluster_number =
     io_first_cluster_offset io + ucast (cluster_number - 2) * io_cluster_block_size io"

text \<open>The loop over the chain of clusters.\<close>

partial_function (option) read_directory_clusters ::
  "('arr, nat) array_ops \<Rightarrow> ('tarr, node_entry) array_ops \<Rightarrow> ('arr, 'cache) file_system \<Rightarrow> io_handle \<Rightarrow>
   bfio \<Rightarrow> u32 \<Rightarrow> u32 \<Rightarrow> 'tarr block_tree \<Rightarrow> bool \<Rightarrow> 'arr directory_reader \<Rightarrow>
   'arr directory_reader result option" where
  "read_directory_clusters A T fs io bfio last_number cluster_number tree go_on st =
     (if cluster_number \<ge> 2 \<and> cluster_number < last_number
      then
        (let cluster_offset = cluster_block_offset io cluster_number;
             cluster_end_offset = cluster_offset + io_cluster_block_size io
         in (case libfsfat_file_system_check_if_cluster_block_first_read T (Some fs) (Some tree)
                    cluster_number cluster_offset of
               None \<Rightarrow> None
             | Some (Inl e) \<Rightarrow> Some (Inl RUNTIME_GENERIC)
             | Some (Inr tree) \<Rightarrow>
                 (case read_cluster_entries A bfio (io_file_system_format io) cluster_offset
                         cluster_end_offset go_on st of
                    None \<Rightarrow> None
                  | Some (Inl e) \<Rightarrow> Some (Inl e)
                  | Some (Inr r) \<Rightarrow>
                      if \<not> snd r then Some (Inr (fst r))
                      else
                        (case libfsfat_allocation_table_get_cluster_number_by_index
                                (fs_allocation_table fs) (sint cluster_number) of
                           Inl e \<Rightarrow> Some (Inl RUNTIME_GET_FAILED)
                         | Inr cluster_number \<Rightarrow>
                             read_directory_clusters A T fs io bfio last_number cluster_number tree
                               (snd r) (fst r)))))
      else Some (Inr st))"

definition initial_reader :: "'arr directory \<Rightarrow> 'arr directory_reader" where
  "initial_reader directory =
     \<lparr> dr_directory = directory, dr_name_entries_array = None, dr_current_file_entry = None,
       dr_data_stream_entry = None, dr_last_vfat_sequence_number = 0 \<rparr>"

definition libfsfat_file_system_read_directory ::
  "('arr, nat) array_ops \<Rightarrow> ('tarr, node_entry) array_ops \<Rightarrow> ('arr, 'cache) file_system option \<Rightarrow> bfio \<Rightarrow>
   u32 \<Rightarrow> 'arr directory option \<Rightarrow> 'arr directory result option" where
  "libfsfat_file_system_read_directory A T file_system bfio cluster_number directory =
     (case file_system of
        None \<Rightarrow> Some (Inl ARGUMENT_INVALID_VALUE)
      | Some fs \<Rightarrow>
     (case fs_io_handle fs of
        None \<Rightarrow> Some (Inl RUNTIME_VALUE_MISSING)
      | Some io \<Rightarrow>
     (case last_cluster_number (io_file_system_format io) of
        None \<Rightarrow> Some (Inl RUNTIME_UNSUPPORTED_VALUE)
      | Some last_number \<Rightarrow>
          if directory \<noteq> None then Some (Inl RUNTIME_VALUE_ALREADY_SET)
          else
            (case libfsfat_block_tree_initialize T None (io_volume_size io) (io_cluster_block_size io) of
               Inl e \<Rightarrow> Some (Inl RUNTIME_INITIALIZE_FAILED)
             | Inr tree \<Rightarrow>
                 (case libfsfat_directory_initialize A None of
                    Inl e \<Rightarrow> Some (Inl RUNTIME_INITIALIZE_FAILED)
                  | Inr directory \<Rightarrow>
                      (case read_directory_clusters A T fs io bfio last_number cluster_number tree
                              False (initial_reader directory) of
                         None \<Rightarrow> None
                       | Some (Inl e) \<Rightarrow> Some (Inl e)
                       | Some (Inr st) \<Rightarrow> Some (Inr (dr_directory st))))))))"

text \<open>
  The reader of a range, for the root directory of FAT-12 and FAT-16. It tests the flags of
  a volume label for equality and knows no self, parent or exFAT entries. All entries get
  an identifier.
\<close>

definition classify_range_entry ::
  "('arr, nat) array_ops \<Rightarrow> off64 \<Rightarrow> nat \<Rightarrow> 'arr directory_entry \<Rightarrow> 'arr directory_reader \<Rightarrow>
   'arr directory_reader result" where
  "classify_range_entry A offset address de st =
     (if de_entry_type de = TYPE_SHORT_NAME
      then (if de_file_attribute_flags de = FILE_ATTRIBUTE_FLAG_VOLUME_LABEL
            then add_volume_label_entry address st
            else add_short_name_entry A offset address de st)
      else if de_entry_type de = TYPE_VFAT_LONG_NAME then add_long_name_entry A address de st
      else Inr st)"

definition process_range_entry ::
  "('arr, nat) array_ops \<Rightarrow> off64 \<Rightarrow> 'arr directory_entry \<Rightarrow> 'arr directory_reader \<Rightarrow>
   'arr directory_reader result" where
  "process_range_entry A offset de st =
     (let address = dir_next (dr_directory st);
          st = st\<lparr> dr_directory := new_entry de (dr_directory st) \<rparr>
      in (case classify_range_entry A offset address de st of
            Inl e \<Rightarrow> Inl e
          | Inr st \<Rightarrow> own_entry A address st))"

partial_function (option) read_range_entries ::
  "('arr, nat) array_ops \<Rightarrow> bfio \<Rightarrow> file_system_format \<Rightarrow> off64 \<Rightarrow> off64 \<Rightarrow> 'arr directory_reader \<Rightarrow>
   'arr directory_reader result option" where
  "read_range_entries A bfio fmt file_offset file_end_offset st =
     (if file_offset <s file_end_offset
      then
        (case libfsfat_directory_entry_initialize None of
           Inl e \<Rightarrow> Some (Inl RUNTIME_INITIALIZE_FAILED)
         | Inr de \<Rightarrow>
             (case libfsfat_directory_entry_read_file_io_handle bfio
                     (Some (de\<lparr> de_identifier := file_offset \<rparr>)) file_offset fmt of
                Inl e \<Rightarrow> Some (Inl IO_READ_FAILED)
              | Inr r \<Rightarrow>
                  if \<not> snd r then Some (Inr st)
                  else if de_entry_type (fst r) = TYPE_UNALLOCATED
                  then read_range_entries A bfio fmt (file_offset + 32) file_end_offset st
                  else
                    (case process_range_entry A file_offset (fst r) st of
                       Inl e \<Rightarrow> Some (Inl e)
                     | Inr st \<Rightarrow> read_range_entries A bfio fmt (file_offset + 32) file_end_offset st)))
      else Some (Inr st))"

definition libfsfat_file_system_read_directory_by_range ::
  "('arr, nat) array_ops \<Rightarrow> ('arr, 'cache) file_system option \<Rightarrow> bfio \<Rightarrow> off64 \<Rightarrow> u64 \<Rightarrow>
   'arr directory option \<Rightarrow> 'arr directory result option" where
  "libfsfat_file_system_read_directory_by_range A file_system bfio file_offset size0 directory =
     (case file_system of
        None \<Rightarrow> Some (Inl ARGUMENT_INVALID_VALUE)
      | Some fs \<Rightarrow>
     (case fs_io_handle fs of
        None \<Rightarrow> Some (Inl RUNTIME_VALUE_MISSING)
      | Some io \<Rightarrow>
          if directory \<noteq> None then Some (Inl RUNTIME_VALUE_ALREADY_SET)
          else
            (case libfsfat_directory_initialize A None of
               Inl e \<Rightarrow> Some (Inl RUNTIME_INITIALIZE_FAILED)
             | Inr directory \<Rightarrow>
                 (case read_range_entries A bfio (io_file_system_format io) file_offset
                         (file_offset + size0) (initial_reader directory) of
                    None \<Rightarrow> None
                  | Some (Inl e) \<Rightarrow> Some (Inl e)
                  | Some (Inr st) \<Rightarrow> Some (Inr (dr_directory st))))))"

definition libfsfat_file_system_read_root_directory ::
  "('arr, nat) array_ops \<Rightarrow> ('tarr, node_entry) array_ops \<Rightarrow> ('arr, 'cache) file_system option \<Rightarrow> bfio \<Rightarrow>
   off64 \<Rightarrow> u64 \<Rightarrow> u32 \<Rightarrow> ('arr, 'cache) file_system result option" where
  "libfsfat_file_system_read_root_directory A T file_system bfio file_offset size0 cluster_number =
     (case file_system of
        None \<Rightarrow> Some (Inl ARGUMENT_INVALID_VALUE)
      | Some fs \<Rightarrow>
          if fs_io_handle fs = None then Some (Inl RUNTIME_VALUE_MISSING)
          else if fs_root_directory fs \<noteq> None then Some (Inl RUNTIME_VALUE_ALREADY_SET)
          else
            (case (if size0 > 0
                   then libfsfat_file_system_read_directory_by_range A (Some fs) bfio file_offset size0
                          (fs_root_directory fs)
                   else libfsfat_file_system_read_directory A T (Some fs) bfio cluster_number
                          (fs_root_directory fs)) of
               None \<Rightarrow> None
             | Some (Inl e) \<Rightarrow> Some (Inl IO_READ_FAILED)
             | Some (Inr directory) \<Rightarrow> Some (Inr (fs\<lparr> fs_root_directory := Some directory \<rparr>))))"

text \<open>The directory of a cluster, from the cache if it is there, and the file system after it.\<close>

definition libfsfat_file_system_get_directory ::
  "('cache, 'value, 'arr directory) cache_ops \<Rightarrow> ('arr, nat) array_ops \<Rightarrow> ('tarr, node_entry) array_ops \<Rightarrow>
   ('arr, 'cache) file_system option \<Rightarrow> bfio \<Rightarrow> u32 \<Rightarrow>
   (('arr, 'cache) file_system \<times> 'arr directory) result option" where
  "libfsfat_file_system_get_directory C A T file_system bfio cluster_number =
     (case file_system of
        None \<Rightarrow> Some (Inl ARGUMENT_INVALID_VALUE)
      | Some fs \<Rightarrow>
          (case cache_get_value_by_identifier C (fs_directory_cache fs) 0 (ucast cluster_number)
                  (fs_cache_timestamp fs) of
             None \<Rightarrow> Some (Inl RUNTIME_GET_FAILED)
           | Some (Some cache_value) \<Rightarrow>
               (case cache_value_get_value C cache_value of
                  None \<Rightarrow> Some (Inl RUNTIME_GET_FAILED)
                | Some directory \<Rightarrow> Some (Inr (fs, directory)))
           | Some None \<Rightarrow>
               (case libfsfat_file_system_read_directory A T (Some fs) bfio cluster_number None of
                  None \<Rightarrow> None
                | Some (Inl e) \<Rightarrow> Some (Inl IO_READ_FAILED)
                | Some (Inr directory) \<Rightarrow>
                    (case cache_set_value_by_identifier C (fs_directory_cache fs) 0 (ucast cluster_number)
                            (fs_cache_timestamp fs) directory of
                       None \<Rightarrow> Some (Inl RUNTIME_SET_FAILED)
                     | Some directory_cache \<Rightarrow>
                         Some (Inr (fs\<lparr> fs_directory_cache := directory_cache \<rparr>, directory))))))"

section \<open>The walk over the clusters ends\<close>

lemma check_first_read_cases:
  assumes inv: "tree_inv T view tree"
  obtains (error) e where "libfsfat_file_system_check_if_cluster_block_first_read T (Some fs) (Some tree) c off =
      Some (Inl e)"
    and "\<not> tree_range tree off \<or> tree_key tree off \<in> block_tree.visited T tree"
  | (first_read) tree' where
      "libfsfat_file_system_check_if_cluster_block_first_read T (Some fs) (Some tree) c off = Some (Inr tree')"
    and "tree_range tree off" and "tree_key tree off \<notin> block_tree.visited T tree"
    and "tree_inv T view tree'" and "tree_range tree' = tree_range tree" and "tree_key tree' = tree_key tree"
    and "block_tree.visited T tree' = insert (tree_key tree off) (block_tree.visited T tree)"
proof (cases "tree_range tree off")
  case False
  show ?thesis
    by (rule error)
      (use False tree_insert_out_of_range [OF inv False] in
        \<open>simp_all add: libfsfat_file_system_check_if_cluster_block_first_read_def
          libfsfat_block_descriptor_initialize_def\<close>)
next
  case True
  let ?d = "\<lparr> bd_cluster_number = c \<rparr>"
  obtain tree' new where ins: "tree_insert T tree off ?d = Some (tree', new)"
    and keeps: "tree_inv T view tree'" "tree_range tree' = tree_range tree" "tree_key tree' = tree_key tree"
    and new: "new = (tree_key tree off \<notin> block_tree.visited T tree)"
    and visited: "block_tree.visited T tree' = insert (tree_key tree off) (block_tree.visited T tree)"
    using block_tree.insert_iff [OF inv True, of ?d] by blast
  obtain r where r: "libfsfat_block_tree_insert_block_descriptor_by_offset T (Some tree) off ?d =
      Some (Inr (tree', r))" "new = (case r of Inserted _ \<Rightarrow> True | Existing _ \<Rightarrow> False)"
    using ins by (auto simp: tree_insert_def split: option.splits sum.splits insert_result.splits)
  show ?thesis
  proof (cases r)
    case (Inserted i)
    show ?thesis
      by (rule first_read)
        (use r Inserted True keeps new visited in
          \<open>simp_all add: libfsfat_file_system_check_if_cluster_block_first_read_def
            libfsfat_block_descriptor_initialize_def\<close>)
  next
    case (Existing d)
    show ?thesis
      by (rule error)
        (use r Existing new in
          \<open>simp_all add: libfsfat_file_system_check_if_cluster_block_first_read_def
            libfsfat_block_descriptor_initialize_def\<close>)
  qed
qed

lemma read_cluster_entries_returns:
  assumes "unat cluster_end_offset < 2 ^ 62" and "unat cluster_offset < 2 ^ 62"
  shows "\<exists>r. read_cluster_entries A bfio fmt cluster_offset cluster_end_offset go_on st = Some r"
  using assms(2)
proof (induction "unat cluster_end_offset - unat cluster_offset" arbitrary: cluster_offset go_on st
    rule: less_induct)
  case less
  show ?case
  proof (cases "cluster_offset <s cluster_end_offset")
    case True
    then have lt: "unat cluster_offset < unat cluster_end_offset"
      using less.prems assms(1) by (simp add: sless_unat)
    have next_offset: "unat (cluster_offset + 32) = unat cluster_offset + 32"
      using less.prems by (subst unat_add_exact) simp_all
    show ?thesis
    proof (cases "unat cluster_offset + 32 < 2 ^ 62")
      case True
      then have IH: "\<exists>r. read_cluster_entries A bfio fmt (cluster_offset + 32) cluster_end_offset go_on' st' =
          Some r" for go_on' st'
        using less.hyps [of "cluster_offset + 32" go_on' st'] lt next_offset by simp
      show ?thesis
        by (subst read_cluster_entries.simps) (auto simp: IH split: sum.splits)
    next
      case False
      then have "\<not> cluster_offset + 32 <s cluster_end_offset"
        using next_offset assms(1) less.prems by (subst sless_unat) simp_all
      then have "read_cluster_entries A bfio fmt (cluster_offset + 32) cluster_end_offset go_on' st' =
          Some (Inr (st', go_on'))" for go_on' st'
        by (subst read_cluster_entries.simps) simp
      then show ?thesis
        by (subst read_cluster_entries.simps) (auto split: sum.splits)
    qed
  next
    case False
    then show ?thesis by (subst read_cluster_entries.simps) simp
  qed
qed

lemma tree_range_small:
  assumes "tree_inv T view tree" and "tree_range tree off"
  shows "unat off < 2 ^ 53" and "tree_key tree off < 2 ^ 53"
proof -
  show less: "unat off < 2 ^ 53" using tree_range_root [OF assms] by metis
  have "unat off div unat (bt_leaf_value_size tree) \<le> unat off" by simp
  then show "tree_key tree off < 2 ^ 53" unfolding tree_key_def using less by linarith
qed

lemma read_directory_clusters_returns:
  assumes "tree_inv T view tree" and "unat (io_cluster_block_size io) \<le> 2 ^ 53"
  shows "\<exists>r. read_directory_clusters A T fs io bfio last_number cluster_number tree go_on st = Some r"
  using assms(1)
proof (induction "block_tree.unvisited T (2 ^ 53) tree" arbitrary: cluster_number tree go_on st
    rule: less_induct)
  case less
  let ?off = "cluster_block_offset io cluster_number"
  from less.prems show ?case
  proof (cases rule: check_first_read_cases [where fs = fs and c = cluster_number and off = ?off])
    case (error e)
    then show ?thesis by (subst read_directory_clusters.simps) (simp add: Let_def)
  next
    case (first_read tree')
    have off: "unat ?off < 2 ^ 53" and key: "tree_key tree ?off < 2 ^ 53"
      using tree_range_small [OF less.prems first_read(2)] by simp_all
    have "unat (?off + io_cluster_block_size io) < 2 ^ 62"
      using off assms(2) by (subst unat_add_exact) simp_all
    moreover have "unat ?off < 2 ^ 62" using off by simp
    ultimately obtain r where r: "read_cluster_entries A bfio (io_file_system_format io) ?off
        (?off + io_cluster_block_size io) go_on st = Some r"
      using read_cluster_entries_returns by blast
    have "{..<2 ^ 53} - block_tree.visited T tree' \<subset> {..<2 ^ 53} - block_tree.visited T tree"
      using first_read(3,7) key by auto
    then have "block_tree.unvisited T (2 ^ 53) tree' < block_tree.unvisited T (2 ^ 53) tree"
      unfolding block_tree.unvisited_def by (rule psubset_card_mono [rotated]) simp
    from less.hyps [OF this first_read(4)] show ?thesis
      using first_read(1) r by (subst read_directory_clusters.simps) (auto simp: Let_def split: sum.splits)
  qed
qed

lemma new_tree_inv:
  assumes "array_contract T view" and "unat size0 \<le> 2 ^ 53"
    and "libfsfat_block_tree_initialize T None size0 leaf = Inr tree"
  shows "tree_inv T view tree" and "block_tree.visited T tree = {}"
    and "bt_leaf_value_size tree = leaf" and "0 < unat leaf"
    and "tree_range tree x \<longleftrightarrow> unat x < unat size0 \<and> unat x div unat (find_sub_node_size size0 leaf) < 256"
proof -
  have "size0 \<noteq> 0" and nz: "leaf \<noteq> 0"
    using assms(3) by (auto simp: libfsfat_block_tree_initialize_def libfsfat_block_tree_node_initialize_def
      split: sum.splits if_splits)
  then have pos: "0 < unat size0" "0 < unat leaf" by (simp_all add: unat_gt_0)
  obtain t root where init: "libfsfat_block_tree_initialize T None size0 leaf = Inr t"
    and t: "tree_inv T view t" "bt_leaf_value_size t = leaf"
    and root: "bt_nodes t (bt_root_node t) = Some root" "node_start_offset root = 0"
      "node_end_offset root = size0" "node_sub_node_size root = find_sub_node_size size0 leaf"
      "view (node_sub_nodes_array root) = replicate 256 None"
    by (rule tree_initialize_ok [OF assms(1) pos(1) assms(2) pos(2)])
  have tree: "tree = t" using init assms(3) by simp
  show "tree_inv T view tree" and "bt_leaf_value_size tree = leaf" using t tree by simp_all
  show "0 < unat leaf" by fact
  show "block_tree.visited T tree = {}"
    using tree_initialize_lookup [OF t(1) root(1,5)] tree by (auto simp: block_tree.visited_def)
  show "tree_range tree x \<longleftrightarrow> unat x < unat size0 \<and> unat x div unat (find_sub_node_size size0 leaf) < 256"
    using tree_initialize_range [OF root(1,2)] root(3,4) tree by simp
qed

lemma read_directory_returns:
  assumes "array_contract T view" and "fs_io_handle fs = Some io"
    and "unat (io_volume_size io) \<le> 2 ^ 53" and "unat (io_cluster_block_size io) \<le> 2 ^ 53"
  shows "\<exists>r. libfsfat_file_system_read_directory A T (Some fs) bfio cluster_number directory = Some r"
proof (cases "libfsfat_block_tree_initialize T None (io_volume_size io) (io_cluster_block_size io)")
  case (Inl e)
  then show ?thesis
    using assms(2)
    by (simp add: libfsfat_file_system_read_directory_def split: option.split)
next
  case (Inr tree)
  have inv: "tree_inv T view tree" by (rule new_tree_inv [OF assms(1,3) Inr])
  have "read_directory_clusters A T fs io bfio last_number cluster_number tree False
      (initial_reader d) \<noteq> None" for last_number d
    using read_directory_clusters_returns [OF inv assms(4)] by (metis option.distinct(1))
  then show ?thesis
    using Inr assms(2)
    by (simp add: libfsfat_file_system_read_directory_def del: not_None_eq split: option.split sum.split)
qed

lemma read_range_entries_returns:
  assumes "unat file_end_offset < 2 ^ 62" and "unat file_offset < 2 ^ 62"
  shows "\<exists>r. read_range_entries A bfio fmt file_offset file_end_offset st = Some r"
  using assms(2)
proof (induction "unat file_end_offset - unat file_offset" arbitrary: file_offset st rule: less_induct)
  case less
  show ?case
  proof (cases "file_offset <s file_end_offset")
    case True
    then have lt: "unat file_offset < unat file_end_offset"
      using less.prems assms(1) by (simp add: sless_unat)
    have next_offset: "unat (file_offset + 32) = unat file_offset + 32"
      using less.prems by (subst unat_add_exact) simp_all
    have next_returns: "\<exists>r. read_range_entries A bfio fmt (file_offset + 32) file_end_offset st' = Some r" for st'
    proof (cases "unat file_offset + 32 < 2 ^ 62")
      case True
      then show ?thesis using less.hyps [of "file_offset + 32" st'] lt next_offset by simp
    next
      case False
      then have "\<not> file_offset + 32 <s file_end_offset"
        using next_offset assms(1) less.prems by (subst sless_unat) simp_all
      then show ?thesis by (subst read_range_entries.simps) simp
    qed
    then show ?thesis
      by (subst read_range_entries.simps) (auto split: sum.splits)
  next
    case False
    then show ?thesis by (subst read_range_entries.simps) simp
  qed
qed

lemma read_root_directory_returns:
  assumes "array_contract T view" and "fs_io_handle fs = Some io"
    and "unat (io_volume_size io) \<le> 2 ^ 53" and "unat (io_cluster_block_size io) \<le> 2 ^ 53"
    and "unat offset + unat size0 < 2 ^ 62"
  shows "\<exists>r. libfsfat_file_system_read_root_directory A T (Some fs) bfio offset size0 cluster_number = Some r"
proof -
  have "unat (offset + size0) < 2 ^ 62" "unat offset < 2 ^ 62"
    using assms(5) by (simp_all add: unat_add_exact)
  then have "read_range_entries A bfio fmt offset (offset + size0) st \<noteq> None" for fmt st
    using read_range_entries_returns by (metis option.distinct(1))
  moreover have "libfsfat_file_system_read_directory A T (Some fs) bfio cluster_number d \<noteq> None" for d
    using read_directory_returns [OF assms(1-4)] by (metis option.distinct(1))
  ultimately show ?thesis
    using assms(2)
    by (simp add: libfsfat_file_system_read_root_directory_def libfsfat_file_system_read_directory_by_range_def
      del: not_None_eq split: option.split sum.split)
qed

text \<open>
  C27. Reading a directory always returns, whatever the volume and the allocation table hold,
  chains with loops included: a cluster that is met a second time ends the walk with an
  error. The volume has at most 2^53 bytes, the cluster blocks at most as many.
\<close>

theorem file_system_read_directory_returns:
  assumes "array_contract T view" and "fs_io_handle fs = Some io"
    and "unat (io_volume_size io) \<le> 2 ^ 53" and "unat (io_cluster_block_size io) \<le> 2 ^ 53"
  shows "\<exists>r. libfsfat_file_system_read_directory A T (Some fs) bfio cluster_number directory = Some r"
  by (rule read_directory_returns [OF assms])

section \<open>Directories as sequences of entries\<close>

text \<open>
  The specification of the readers: the entries are processed in their order up to a
  terminator. \<open>prepare\<close> is the entry a reader starts with, \<open>process\<close> what it does with an
  entry that is not free.
\<close>

fun scan_entries ::
  "(off64 \<Rightarrow> 'arr directory_entry) \<Rightarrow>
   (off64 \<Rightarrow> 'arr directory_entry \<Rightarrow> 'st \<Rightarrow> 'st result) \<Rightarrow> file_system_format \<Rightarrow>
   (off64 \<times> u8 list) list \<Rightarrow> bool \<Rightarrow> 'st \<Rightarrow> ('st \<times> bool) result" where
  "scan_entries prepare process fmt [] go_on st = Inr (st, go_on)"
| "scan_entries prepare process fmt ((offset, data) # entries) go_on st =
     (case libfsfat_directory_entry_read_data (Some (prepare offset)) (Some data) fmt of
        Inl e \<Rightarrow> Inl IO_READ_FAILED
      | Inr r \<Rightarrow>
          if \<not> snd r then Inr (st, False)
          else if de_entry_type (fst r) = TYPE_UNALLOCATED
          then scan_entries prepare process fmt entries True st
          else
            (case process offset (fst r) st of
               Inl e \<Rightarrow> Inl e
             | Inr st \<Rightarrow> scan_entries prepare process fmt entries True st))"

text \<open>The 32 bytes of \<open>n\<close> entries of a volume from an offset on, with their offsets.\<close>

definition entry_chunks :: "u8 list \<Rightarrow> off64 \<Rightarrow> nat \<Rightarrow> (off64 \<times> u8 list) list" where
  "entry_chunks img offset n =
     map (\<lambda>i. (offset + of_nat (32 * i), take 32 (drop (unat offset + 32 * i) img))) [0..<n]"

lemma entry_chunks_Suc:
  assumes "unat offset + 32 < 2 ^ 63"
  shows "entry_chunks img offset (Suc n) =
    (offset, take 32 (drop (unat offset) img)) # entry_chunks img (offset + 32) n"
proof -
  have "unat (offset + 32) = unat offset + 32" using assms by (subst unat_add_exact) simp_all
  then show ?thesis
    by (simp add: entry_chunks_def map_upt_Suc algebra_simps del: upt_Suc)
qed

lemma length_entry_chunks [simp]: "length (entry_chunks img offset n) = n"
  by (simp add: entry_chunks_def)

lemma scan_entries_append:
  assumes "xs \<noteq> []"
  shows "scan_entries prepare process fmt (xs @ ys) go_on st =
    (case scan_entries prepare process fmt xs go_on st of
       Inl e \<Rightarrow> Inl e
     | Inr r \<Rightarrow> if snd r then scan_entries prepare process fmt ys True (fst r) else Inr r)"
  using assms
proof (induction xs arbitrary: go_on st)
  case (Cons x xs)
  obtain offset data where x: "x = (offset, data)" by (cases x)
  have tail: "scan_entries prepare process fmt (xs @ ys) True st' =
      (case scan_entries prepare process fmt xs True st' of
         Inl e \<Rightarrow> Inl e
       | Inr r \<Rightarrow> if snd r then scan_entries prepare process fmt ys True (fst r) else Inr r)" for st'
    using Cons.IH by (cases "xs = []") auto
  show ?case unfolding x by (simp add: tail split: sum.split)
qed simp

lemma image_read_entry:
  assumes "unat offset + 32 \<le> length img" and "length img < 2 ^ 62"
  shows "libfsfat_directory_entry_read_file_io_handle (image_bfio img) (Some de) offset fmt =
    (case libfsfat_directory_entry_read_data (Some de) (Some (take 32 (drop (unat offset) img))) fmt of
       Inl e \<Rightarrow> Inl IO_READ_FAILED | Inr r \<Rightarrow> Inr r)"
  using assms
  by (simp add: libfsfat_directory_entry_read_file_io_handle_def image_bfio_def sless_zero_iff)

lemma read_cluster_entries_scan:
  assumes "length img < 2 ^ 62" and "unat offset + 32 * n \<le> length img"
  shows "read_cluster_entries A (image_bfio img) fmt offset (offset + of_nat (32 * n)) go_on st =
    Some (scan_entries (\<lambda>_. directory_entry_zero) (process_entry A) fmt (entry_chunks img offset n) go_on st)"
  using assms(2)
proof (induction n arbitrary: offset go_on st)
  case 0
  then show ?case by (subst read_cluster_entries.simps) (simp add: entry_chunks_def)
next
  case (Suc n)
  have add: "unat (offset + of_nat (32 * Suc n)) = unat offset + 32 * Suc n"
    and add32: "unat (offset + 32) = unat offset + 32"
    using Suc.prems assms(1) by (subst unat_add_exact; simp add: unat_of_nat_64 del: of_nat_mult of_nat_Suc)+
  have less: "offset <s offset + of_nat (32 * Suc n)"
    using Suc.prems assms(1) add by (subst sless_unat) simp_all
  have step: "offset + of_nat (32 * Suc n) = offset + 32 + of_nat (32 * n)" by simp
  obtain e where e: "offset + of_nat (32 * Suc n) = e" by blast
  have IH: "read_cluster_entries A (image_bfio img) fmt (offset + 32) e go_on' st' =
      Some (scan_entries (\<lambda>_. directory_entry_zero) (process_entry A) fmt
        (entry_chunks img (offset + 32) n) go_on' st')" for go_on' st'
    unfolding e [symmetric] step by (rule Suc.IH) (use Suc.prems add32 in simp)
  have "unat offset + 32 < 2 ^ 63" using Suc.prems assms(1) by simp
  note chunks = entry_chunks_Suc [OF this, of img n]
  have "unat offset + 32 \<le> length img" using Suc.prems by simp
  note read = image_read_entry [OF this assms(1)]
  show ?case
    unfolding chunks e
    using less unfolding e
    by (subst read_cluster_entries.simps)
      (simp add: read IH libfsfat_directory_entry_initialize_def split: sum.split)
qed

section \<open>Chains of clusters\<close>

text \<open>
  The table leads from a cluster over the clusters of a list, all of them below the limit,
  to another value.
\<close>

primrec cluster_path :: "allocation_table option \<Rightarrow> u32 \<Rightarrow> u32 \<Rightarrow> u32 list \<Rightarrow> u32 \<Rightarrow> bool" where
  "cluster_path table last_number c [] c' \<longleftrightarrow> c = c'"
| "cluster_path table last_number c (a # as) c' \<longleftrightarrow>
     c = a \<and> 2 \<le> a \<and> a < last_number \<and>
     (\<exists>b. libfsfat_allocation_table_get_cluster_number_by_index table (sint a) = Inr b \<and>
        cluster_path table last_number b as c')"

text \<open>
  The cluster block is in the volume, and in the part of it that the block tree has entries
  for.
\<close>

definition cluster_in_volume :: "io_handle \<Rightarrow> u32 \<Rightarrow> bool" where
  "cluster_in_volume io c \<longleftrightarrow>
     2 \<le> unat c \<and>
     (let offset = unat (io_first_cluster_offset io) + (unat c - 2) * unat (io_cluster_block_size io)
      in offset + unat (io_cluster_block_size io) \<le> unat (io_volume_size io) \<and>
         offset div unat (find_sub_node_size (io_volume_size io) (io_cluster_block_size io)) < 256)"

lemma cluster_block_offset_exact:
  assumes "cluster_in_volume io c" and "unat (io_volume_size io) \<le> 2 ^ 53"
  shows "unat (cluster_block_offset io c) =
    unat (io_first_cluster_offset io) + (unat c - 2) * unat (io_cluster_block_size io)"
proof -
  have bounds: "unat (io_first_cluster_offset io) + (unat c - 2) * unat (io_cluster_block_size io) < 2 ^ 64"
    and c: "2 \<le> unat c"
    using assms by (auto simp: cluster_in_volume_def Let_def)
  have "unat (c - 2) = unat c - 2" using c by (subst unat_minus_exact) simp_all
  then have "unat (ucast (c - 2) :: u64) = unat c - 2" by (simp add: unat_ucast_up)
  then have "unat (ucast (c - 2) * io_cluster_block_size io) =
      (unat c - 2) * unat (io_cluster_block_size io)"
    using bounds by (subst unat_mult_exact) simp_all
  then show ?thesis
    unfolding cluster_block_offset_def using bounds by (subst unat_add_exact) simp_all
qed

text \<open>Different clusters have different blocks.\<close>

definition block_key :: "io_handle \<Rightarrow> u32 \<Rightarrow> nat" where
  "block_key io c = unat (cluster_block_offset io c) div unat (io_cluster_block_size io)"

lemma block_key_eq:
  assumes "cluster_in_volume io a" and "cluster_in_volume io b" and "unat (io_volume_size io) \<le> 2 ^ 53"
    and "0 < unat (io_cluster_block_size io)"
  shows "block_key io a = block_key io b \<longleftrightarrow> a = b"
proof -
  have key: "block_key io c = unat (io_first_cluster_offset io) div unat (io_cluster_block_size io) + (unat c - 2)"
    if "cluster_in_volume io c" for c
    unfolding block_key_def cluster_block_offset_exact [OF that assms(3)]
    using assms(4) by (simp add: add.commute)
  have "2 \<le> unat a" "2 \<le> unat b" using assms(1,2) by (simp_all add: cluster_in_volume_def)
  then show ?thesis
    unfolding key [OF assms(1)] key [OF assms(2)] by (auto simp: word_unat_eq_iff)
qed

text \<open>What the walks over chains keep of the block tree.\<close>

definition tree_of_volume ::
  "('tarr, node_entry) array_ops \<Rightarrow> ('tarr \<Rightarrow> node_entry option list) \<Rightarrow> io_handle \<Rightarrow>
   'tarr block_tree \<Rightarrow> nat set \<Rightarrow> bool" where
  "tree_of_volume T view io tree keys \<longleftrightarrow>
     tree_inv T view tree \<and> block_tree.visited T tree = keys \<and>
     (\<forall>x. tree_key tree x = unat x div unat (io_cluster_block_size io)) \<and>
     (\<forall>x. tree_range tree x \<longleftrightarrow> unat x < unat (io_volume_size io) \<and>
        unat x div unat (find_sub_node_size (io_volume_size io) (io_cluster_block_size io)) < 256)"

lemma new_tree_of_volume:
  assumes "array_contract T view" and "unat (io_volume_size io) \<le> 2 ^ 53"
    and "0 < unat (io_volume_size io)" and "0 < unat (io_cluster_block_size io)"
  obtains tree where
    "libfsfat_block_tree_initialize T None (io_volume_size io) (io_cluster_block_size io) = Inr tree"
    and "tree_of_volume T view io tree {}"
proof -
  obtain tree where init:
    "libfsfat_block_tree_initialize T None (io_volume_size io) (io_cluster_block_size io) = Inr tree"
    by (rule tree_initialize_ok [OF assms(1,3,2,4)])
  note new = new_tree_inv [OF assms(1,2) init]
  then have "tree_of_volume T view io tree {}"
    by (simp add: tree_of_volume_def tree_key_def)
  with init show ?thesis by (rule that)
qed

lemma check_first_read_new:
  assumes tree: "tree_of_volume T view io tree keys" and c: "cluster_in_volume io c"
    and size0: "unat (io_volume_size io) \<le> 2 ^ 53" "0 < unat (io_cluster_block_size io)"
    and "block_key io c \<notin> keys"
  obtains tree' where "libfsfat_file_system_check_if_cluster_block_first_read T (Some fs) (Some tree) c
      (cluster_block_offset io c) = Some (Inr tree')"
    and "tree_of_volume T view io tree' (insert (block_key io c) keys)"
proof -
  let ?off = "cluster_block_offset io c"
  have inv: "tree_inv T view tree" using tree by (simp add: tree_of_volume_def)
  have key: "tree_key tree ?off = block_key io c" using tree by (simp add: tree_of_volume_def block_key_def)
  have range: "tree_range tree ?off"
    using tree c size0(2) cluster_block_offset_exact [OF c size0(1)]
    by (simp add: tree_of_volume_def cluster_in_volume_def Let_def)
  from inv show ?thesis
  proof (cases rule: check_first_read_cases [where fs = fs and c = c and off = ?off])
    case (error e)
    then show ?thesis using range key assms(5) tree by (simp add: tree_of_volume_def)
  next
    case (first_read tree')
    then have "tree_of_volume T view io tree' (insert (block_key io c) keys)"
      using tree key by (simp add: tree_of_volume_def)
    with first_read(1) show ?thesis by (rule that)
  qed
qed

lemma check_first_read_again:
  assumes tree: "tree_of_volume T view io tree keys" and "block_key io c \<in> keys"
  shows "\<exists>e. libfsfat_file_system_check_if_cluster_block_first_read T (Some fs) (Some tree) c
      (cluster_block_offset io c) = Some (Inl e)"
proof -
  let ?off = "cluster_block_offset io c"
  have inv: "tree_inv T view tree" using tree by (simp add: tree_of_volume_def)
  have key: "tree_key tree ?off \<in> block_tree.visited T tree"
    using tree assms(2) by (simp add: tree_of_volume_def block_key_def)
  from inv show ?thesis
    by (cases rule: check_first_read_cases [where fs = fs and c = c and off = ?off]) (use key in auto)
qed

text \<open>The entries of a cluster, and a walk along a path of clusters.\<close>

definition cluster_entries :: "u8 list \<Rightarrow> io_handle \<Rightarrow> u32 \<Rightarrow> (off64 \<times> u8 list) list" where
  "cluster_entries img io c =
     entry_chunks img (cluster_block_offset io c) (unat (io_cluster_block_size io) div 32)"

text \<open>The volume that the theorems about the readers speak of.\<close>

definition volume_ok :: "u8 list \<Rightarrow> io_handle \<Rightarrow> bool" where
  "volume_ok img io \<longleftrightarrow>
     length img = unat (io_volume_size io) \<and> unat (io_volume_size io) \<le> 2 ^ 53 \<and>
     32 dvd unat (io_cluster_block_size io) \<and> 0 < unat (io_cluster_block_size io)"

lemma read_cluster_scan:
  assumes vol: "volume_ok img io" and c: "cluster_in_volume io c"
  shows "read_cluster_entries A (image_bfio img) fmt (cluster_block_offset io c)
      (cluster_block_offset io c + io_cluster_block_size io) go_on st =
    Some (scan_entries (\<lambda>_. directory_entry_zero) (process_entry A) fmt (cluster_entries img io c) go_on st)"
    and "cluster_entries img io c \<noteq> []"
proof -
  let ?n = "unat (io_cluster_block_size io) div 32"
  have n: "32 * ?n = unat (io_cluster_block_size io)" using vol by (auto simp: volume_ok_def)
  then have size0: "io_cluster_block_size io = of_nat (32 * ?n)" unfolding n by simp
  have "unat (cluster_block_offset io c) + 32 * ?n \<le> length img"
    using c vol n cluster_block_offset_exact [OF c]
    by (simp add: volume_ok_def cluster_in_volume_def Let_def)
  moreover have "length img < 2 ^ 62" using vol by (simp add: volume_ok_def)
  ultimately show "read_cluster_entries A (image_bfio img) fmt (cluster_block_offset io c)
      (cluster_block_offset io c + io_cluster_block_size io) go_on st =
    Some (scan_entries (\<lambda>_. directory_entry_zero) (process_entry A) fmt (cluster_entries img io c) go_on st)"
    unfolding cluster_entries_def by (subst size0) (rule read_cluster_entries_scan)
  have "0 < ?n" using vol n by (cases ?n) (auto simp: volume_ok_def)
  then show "cluster_entries img io c \<noteq> []"
    by (metis cluster_entries_def length_entry_chunks length_greater_0_conv)
qed

lemma read_directory_clusters_path:
  assumes vol: "volume_ok img io" and "tree_of_volume T view io tree keys"
    and "cluster_path (fs_allocation_table fs) last_number c cs c'"
    and "\<forall>a \<in> set cs. cluster_in_volume io a" and "distinct cs"
    and "\<forall>a \<in> set cs. block_key io a \<notin> keys"
  shows "case scan_entries (\<lambda>_. directory_entry_zero) (process_entry A) (io_file_system_format io)
        (concat (map (cluster_entries img io) cs)) go_on st of
      Inl e \<Rightarrow> read_directory_clusters A T fs io (image_bfio img) last_number c tree go_on st = Some (Inl e)
    | Inr (st', go_on') \<Rightarrow>
        (if cs \<noteq> [] \<and> \<not> go_on'
         then read_directory_clusters A T fs io (image_bfio img) last_number c tree go_on st = Some (Inr st')
         else \<exists>tree'. tree_of_volume T view io tree' (block_key io ` set cs \<union> keys) \<and>
           read_directory_clusters A T fs io (image_bfio img) last_number c tree go_on st =
           read_directory_clusters A T fs io (image_bfio img) last_number c' tree' go_on' st')"
  using assms(2-6)
proof (induction cs arbitrary: c tree keys go_on st)
  case Nil
  then show ?case by auto
next
  case (Cons a as)
  let ?scan = "scan_entries (\<lambda>_. directory_entry_zero) (process_entry A) (io_file_system_format io)"
  let ?read = "read_directory_clusters A T fs io (image_bfio img) last_number"
  obtain b where b: "c = a" "2 \<le> a" "a < last_number"
      "libfsfat_allocation_table_get_cluster_number_by_index (fs_allocation_table fs) (sint a) = Inr b"
      "cluster_path (fs_allocation_table fs) last_number b as c'"
    using Cons.prems(2) by auto
  have a: "cluster_in_volume io a" "block_key io a \<notin> keys" using Cons.prems by simp_all
  have size0: "unat (io_volume_size io) \<le> 2 ^ 53" "0 < unat (io_cluster_block_size io)"
    using vol by (simp_all add: volume_ok_def)
  obtain tree1 where check: "libfsfat_file_system_check_if_cluster_block_first_read T (Some fs) (Some tree) a
      (cluster_block_offset io a) = Some (Inr tree1)"
    and tree1: "tree_of_volume T view io tree1 (insert (block_key io a) keys)"
    by (rule check_first_read_new [OF Cons.prems(1) a(1) size0 a(2)])
  note entries = read_cluster_scan(1) [OF vol a(1), of A "io_file_system_format io" go_on st]
    read_cluster_scan(2) [OF vol a(1)]
  have step: "?read c tree go_on st =
      (case ?scan (cluster_entries img io a) go_on st of
         Inl e \<Rightarrow> Some (Inl e)
       | Inr r \<Rightarrow> if snd r then ?read b tree1 True (fst r) else Some (Inr (fst r)))"
    by (subst read_directory_clusters.simps)
      (use b check entries(1) in \<open>auto simp: Let_def split: sum.split\<close>)
  have fresh: "\<forall>x \<in> set as. block_key io x \<notin> insert (block_key io a) keys"
    using Cons.prems(3-5) block_key_eq [OF _ a(1) size0] by auto
  have scan: "?scan (concat (map (cluster_entries img io) (a # as))) go_on st =
      (case ?scan (cluster_entries img io a) go_on st of
         Inl e \<Rightarrow> Inl e
       | Inr r \<Rightarrow> if snd r then ?scan (concat (map (cluster_entries img io) as)) True (fst r) else Inr r)"
    using scan_entries_append [OF entries(2)] by simp
  show ?case
  proof (cases "?scan (cluster_entries img io a) go_on st")
    case (Inl e)
    then show ?thesis using step scan by simp
  next
    case (Inr r)
    show ?thesis
    proof (cases "snd r")
      case False
      then show ?thesis using step scan Inr by (cases r) simp
    next
      case True
      have IH: "case ?scan (concat (map (cluster_entries img io) as)) True (fst r) of
          Inl e \<Rightarrow> ?read b tree1 True (fst r) = Some (Inl e)
        | Inr (st', go_on') \<Rightarrow>
            (if as \<noteq> [] \<and> \<not> go_on' then ?read b tree1 True (fst r) = Some (Inr st')
             else \<exists>tree'. tree_of_volume T view io tree' (block_key io ` set as \<union> insert (block_key io a) keys) \<and>
               ?read b tree1 True (fst r) = ?read c' tree' go_on' st')"
        using Cons.IH [OF tree1 b(5) _ _ fresh, of True "fst r"] Cons.prems(3,4) by simp
      have "as \<noteq> [] \<or> go_on'" if "?scan (concat (map (cluster_entries img io) as)) True (fst r) = Inr (st', go_on')"
        for st' go_on' using that by (cases as) auto
      then show ?thesis
        using IH step scan Inr True by (auto split: sum.splits if_splits)
    qed
  qed
qed

lemma volume_positive:
  assumes "volume_ok img io" and "cluster_in_volume io c"
  shows "0 < unat (io_volume_size io)" and "0 < unat (io_cluster_block_size io)"
    and "unat (io_volume_size io) \<le> 2 ^ 53"
  using assms by (auto simp: volume_ok_def cluster_in_volume_def Let_def)

lemma read_directory_start:
  assumes "array_contract T view" and vol: "volume_ok img io" and "fs_io_handle fs = Some io"
    and "last_cluster_number (io_file_system_format io) = Some last_number"
    and "libfsfat_directory_initialize A None = Inr d"
    and "cluster_path (fs_allocation_table fs) last_number c cs c'" and "cs \<noteq> []"
    and "distinct cs" and "\<forall>a \<in> set cs. cluster_in_volume io a"
  shows "case scan_entries (\<lambda>_. directory_entry_zero) (process_entry A) (io_file_system_format io)
        (concat (map (cluster_entries img io) cs)) False (initial_reader d) of
      Inl e \<Rightarrow> libfsfat_file_system_read_directory A T (Some fs) (image_bfio img) c None = Some (Inl e)
    | Inr (st, go_on) \<Rightarrow>
        (if \<not> go_on
         then libfsfat_file_system_read_directory A T (Some fs) (image_bfio img) c None =
           Some (Inr (dr_directory st))
         else \<exists>tree. tree_of_volume T view io tree (block_key io ` set cs) \<and>
           libfsfat_file_system_read_directory A T (Some fs) (image_bfio img) c None =
             (case read_directory_clusters A T fs io (image_bfio img) last_number c' tree True st of
                None \<Rightarrow> None
              | Some (Inl e) \<Rightarrow> Some (Inl e)
              | Some (Inr st) \<Rightarrow> Some (Inr (dr_directory st))))"
proof -
  have "cluster_in_volume io (hd cs)" using assms(7,9) by simp
  note pos = volume_positive [OF vol this]
  obtain tree where tree: "libfsfat_block_tree_initialize T None (io_volume_size io)
      (io_cluster_block_size io) = Inr tree" "tree_of_volume T view io tree {}"
    by (rule new_tree_of_volume [OF assms(1) pos(3,1,2)])
  have "libfsfat_file_system_read_directory A T (Some fs) (image_bfio img) c None =
      (case read_directory_clusters A T fs io (image_bfio img) last_number c tree False (initial_reader d) of
         None \<Rightarrow> None
       | Some (Inl e) \<Rightarrow> Some (Inl e)
       | Some (Inr st) \<Rightarrow> Some (Inr (dr_directory st)))"
    using assms(3-5) tree(1) by (simp add: libfsfat_file_system_read_directory_def)
  then show ?thesis
    using read_directory_clusters_path [OF vol tree(2) assms(6) assms(9) assms(8), of A False "initial_reader d"]
      assms(7)
    by (auto split: sum.splits if_splits)
qed

text \<open>
  C7. The reader of a directory refines the sequence of its entries: for a chain of distinct
  clusters of the volume that ends with an end mark, the result is that of processing the
  entries of the clusters in the order of the chain, up to a terminator.
\<close>

theorem file_system_read_directory_refines:
  assumes "array_contract T view" and "volume_ok img io" and "fs_io_handle fs = Some io"
    and "last_cluster_number (io_file_system_format io) = Some last_number"
    and "libfsfat_directory_initialize A None = Inr d"
    and "cluster_path (fs_allocation_table fs) last_number c cs c'" and "cs \<noteq> []"
    and "distinct cs" and "\<forall>a \<in> set cs. cluster_in_volume io a"
    and "\<not> (2 \<le> c' \<and> c' < last_number)"
  shows "libfsfat_file_system_read_directory A T (Some fs) (image_bfio img) c None =
    Some (case scan_entries (\<lambda>_. directory_entry_zero) (process_entry A) (io_file_system_format io)
        (concat (map (cluster_entries img io) cs)) False (initial_reader d) of
      Inl e \<Rightarrow> Inl e
    | Inr (st, go_on) \<Rightarrow> Inr (dr_directory st))"
proof -
  have "read_directory_clusters A T fs io (image_bfio img) last_number c' tree go_on st = Some (Inr st)"
    for tree go_on st
    using assms(10) by (subst read_directory_clusters.simps) auto
  then show ?thesis
    using read_directory_start [OF assms(1-9)] by (auto split: sum.splits if_splits)
qed

text \<open>
  C28. A chain that leads back to one of its clusters is an error: if no terminator and no
  other error comes first, the reader stops at the first cluster it meets again.
\<close>

theorem file_system_read_directory_loop:
  assumes "array_contract T view" and "volume_ok img io" and "fs_io_handle fs = Some io"
    and "last_cluster_number (io_file_system_format io) = Some last_number"
    and "libfsfat_directory_initialize A None = Inr d"
    and "cluster_path (fs_allocation_table fs) last_number c cs c'"
    and "distinct cs" and "\<forall>a \<in> set cs. cluster_in_volume io a" and "c' \<in> set cs"
    and "scan_entries (\<lambda>_. directory_entry_zero) (process_entry A) (io_file_system_format io)
        (concat (map (cluster_entries img io) cs)) False (initial_reader d) = Inr (st, True)"
  shows "libfsfat_file_system_read_directory A T (Some fs) (image_bfio img) c None =
    Some (Inl RUNTIME_GENERIC)"
proof -
  have "2 \<le> c' \<and> c' < last_number"
    using assms(6,9) by (induction cs arbitrary: c) auto
  moreover have "block_key io c' \<in> block_key io ` set cs" using assms(9) by simp
  ultimately have "read_directory_clusters A T fs io (image_bfio img) last_number c' tree go_on st =
      Some (Inl RUNTIME_GENERIC)"
    if "tree_of_volume T view io tree (block_key io ` set cs)" for tree go_on st
    using check_first_read_again [OF that, of c' fs]
    by (subst read_directory_clusters.simps) (auto simp: Let_def)
  moreover have "cs \<noteq> []" using assms(9) by auto
  ultimately show ?thesis
    using read_directory_start [OF assms(1-6) _ assms(7,8)] assms(10) by auto
qed

section \<open>Concrete volumes\<close>

text \<open>
  The witnesses use a FAT-16 volume of two clusters of 32 bytes, the second of which is
  followed by the entry \<open>n\<close> of the table.
\<close>

definition witness_io :: io_handle where
  "witness_io = io_handle_zero\<lparr> io_volume_size := 64, io_file_system_format := FORMAT_FAT16,
     io_cluster_block_size := 32, io_total_number_of_clusters := 4 \<rparr>"

definition witness_fs :: "u32 \<Rightarrow> (nat option list, unit) file_system" where
  "witness_fs n =
     \<lparr> fs_io_handle = Some witness_io,
       fs_allocation_table =
         Some \<lparr> number_of_cluster_numbers = 4, cluster_numbers = [0xfff8, 0xffff, 3, n] \<rparr>,
       fs_reversed_allocation_table = None, fs_cache_timestamp = 0, fs_directory_cache = (),
       fs_root_directory = None \<rparr>"

definition witness_image :: "u8 list \<Rightarrow> u8 list" where
  "witness_image entry = replicate 32 0xe5 @ entry"

definition empty_directory :: "nat option list directory" where
  "empty_directory =
     \<lparr> dir_store = (\<lambda>_. None), dir_next = 0, dir_entries_array = [], dir_file_entries_array = [],
       dir_self_entry = None, dir_parent_entry = None, dir_volume_label_entry = None \<rparr>"

lemma witness_volume:
  "length entry = 32 \<Longrightarrow> volume_ok (witness_image entry) witness_io"
  "\<forall>a \<in> set [2, 3]. cluster_in_volume witness_io a"
  "fs_io_handle (witness_fs n) = Some witness_io"
  "last_cluster_number (io_file_system_format witness_io) = Some 0xfff0"
  "libfsfat_directory_initialize list_array None = Inr empty_directory"
  "cluster_path (fs_allocation_table (witness_fs n)) 0xfff0 2 [2, 3] n"
proof -
  have "find_sub_node_size 64 32 = 32"
    by (simp add: find_sub_node_size.simps BLOCK_TREE_NUMBER_OF_SUB_NODES_def)
  then show "\<forall>a \<in> set [2, 3]. cluster_in_volume witness_io a"
    by (simp add: cluster_in_volume_def witness_io_def io_handle_zero_def)
  show "length entry = 32 \<Longrightarrow> volume_ok (witness_image entry) witness_io"
    by (simp add: volume_ok_def witness_image_def witness_io_def io_handle_zero_def)
qed (simp_all add: witness_fs_def witness_io_def io_handle_zero_def last_cluster_number_def
  libfsfat_directory_initialize_def list_array_def empty_directory_def
  libfsfat_allocation_table_get_cluster_number_by_index_def sint_32_small)

theorem file_system_read_directory_returns_witness:
  "\<exists>r. libfsfat_file_system_read_directory list_array list_array (Some (witness_fs 2))
     (image_bfio []) 2 None = Some r"
  by (rule file_system_read_directory_returns [OF list_array_contract witness_volume(3)])
    (simp_all add: witness_io_def io_handle_zero_def)

theorem file_system_read_directory_refines_witness:
  "libfsfat_file_system_read_directory list_array list_array (Some (witness_fs 0xffff))
     (image_bfio (witness_image (fsfat_directory_entry example_short))) 2 None =
   Some (case scan_entries (\<lambda>_. directory_entry_zero) (process_entry list_array) FORMAT_FAT16
        (concat (map (cluster_entries (witness_image (fsfat_directory_entry example_short)) witness_io) [2, 3]))
        False (initial_reader empty_directory) of
      Inl e \<Rightarrow> Inl e
    | Inr (st, go_on) \<Rightarrow> Inr (dr_directory st))"
proof -
  have "length (fsfat_directory_entry example_short) = 32"
    by (simp add: fsfat_directory_entry_def example_short_def)
  from file_system_read_directory_refines [OF list_array_contract witness_volume(1) [OF this]
      witness_volume(3-6) _ _ witness_volume(2)]
  show ?thesis by (simp add: witness_io_def io_handle_zero_def)
qed

lemma read_data_unallocated:
  "libfsfat_directory_entry_read_data (Some directory_entry_zero) (Some (replicate 32 0xe5)) FORMAT_FAT16 =
   Inr (directory_entry_zero\<lparr> de_entry_type := TYPE_UNALLOCATED \<rparr>, True)"
proof -
  have "replicate 32 0xe5 ! 0 \<noteq> (replicate 32 0 ! 0 :: u8)" by simp
  then have "replicate 32 0xe5 \<noteq> (replicate 32 0 :: u8 list)" by metis
  then show ?thesis
    by (simp add: read_data_zero Let_def determine_entry_type_def)
qed

theorem file_system_read_directory_loop_witness:
  "libfsfat_file_system_read_directory list_array list_array (Some (witness_fs 2))
     (image_bfio (witness_image (replicate 32 0xe5))) 2 None = Some (Inl RUNTIME_GENERIC)"
proof (rule file_system_read_directory_loop [OF list_array_contract witness_volume(1) witness_volume(3-6) _
      witness_volume(2)])
  have "cluster_block_offset witness_io 2 = 0" "cluster_block_offset witness_io 3 = 32"
    by (simp_all add: cluster_block_offset_def witness_io_def io_handle_zero_def)
  then have "concat (map (cluster_entries (witness_image (replicate 32 0xe5)) witness_io) [2, 3]) =
      [(0, replicate 32 0xe5), (32, replicate 32 0xe5)]"
    by (simp add: cluster_entries_def entry_chunks_def witness_image_def witness_io_def io_handle_zero_def)
  then show "scan_entries (\<lambda>_. directory_entry_zero) (process_entry list_array)
      (io_file_system_format witness_io)
      (concat (map (cluster_entries (witness_image (replicate 32 0xe5)) witness_io) [2, 3])) False
      (initial_reader empty_directory) = Inr (initial_reader empty_directory, True)"
    by (simp add: witness_io_def io_handle_zero_def read_data_unallocated)
qed simp_all

end
