(* ===== verification/File_Stream.thy ===== *)
theory File_Stream
  imports File_System
begin

text \<open>
  The content of a file: the extents of \<^verbatim>\<open>libfsfat_extent.c\<close>, the callbacks of
  \<^verbatim>\<open>libfsfat_cluster_block_data.c\<close>, and \<^verbatim>\<open>libfsfat_file_system_get_data_stream\<close>,
  which walks over the chain of clusters of a file and merges them to segments of a stream
  of libfdata. The theorems say which bytes of the volume are the bytes of the stream.
\<close>

section \<open>Extents\<close>

record extent =
  extent_offset :: off64
  extent_size :: u64

definition libfsfat_extent_initialize :: "extent option \<Rightarrow> extent result" where
  "libfsfat_extent_initialize extent =
     (if extent \<noteq> None then Inl RUNTIME_VALUE_ALREADY_SET
      else Inr \<lparr> extent_offset = 0, extent_size = 0 \<rparr>)"

text \<open>The offset, the size and the flags.\<close>

definition libfsfat_extent_get_values :: "extent option \<Rightarrow> (off64 \<times> u64 \<times> u32) result" where
  "libfsfat_extent_get_values extent =
     (case extent of
        None \<Rightarrow> Inl ARGUMENT_INVALID_VALUE
      | Some e \<Rightarrow> Inr (extent_offset e, extent_size e, 0))"

section \<open>The callbacks of the stream\<close>

text \<open>
  The read callback reads from the current position of the file handle; \<open>segment_data\<close> is
  the size of the buffer, \<open>None\<close> for a buffer that is \<open>NULL\<close>. The seek callback returns
  the new position; \<open>bfio_seek\<close> is \<^verbatim>\<open>libbfio_handle_seek_offset\<close> from the start.
\<close>

definition libfsfat_cluster_block_data_read_segment_data ::
  "bfio \<Rightarrow> off64 \<Rightarrow> nat option \<Rightarrow> u8 list result" where
  "libfsfat_cluster_block_data_read_segment_data bfio position segment_data =
     (case segment_data of
        None \<Rightarrow> Inl ARGUMENT_INVALID_VALUE
      | Some segment_data_size \<Rightarrow>
          if segment_data_size > SSIZE_MAX then Inl ARGUMENT_VALUE_EXCEEDS_MAXIMUM
          else
            (case bfio position segment_data_size of
               None \<Rightarrow> Inl IO_READ_FAILED
             | Some data \<Rightarrow> Inr data))"

definition libfsfat_cluster_block_data_seek_segment_offset ::
  "(off64 \<Rightarrow> off64 option) \<Rightarrow> off64 \<Rightarrow> off64 result" where
  "libfsfat_cluster_block_data_seek_segment_offset bfio_seek segment_offset =
     (if segment_offset <s 0 then Inl ARGUMENT_VALUE_OUT_OF_BOUNDS
      else
        (case bfio_seek segment_offset of
           None \<Rightarrow> Inl IO_SEEK_FAILED
         | Some _ \<Rightarrow> Inr segment_offset))"

section \<open>The streams of libfdata\<close>

text \<open>
  The operations of libfdata that the library calls. \<open>stream_initialize\<close> is given the read
  and the seek callback; \<open>stream_append_segment\<close> the index of the file, the offset, the size
  and the flags of the segment.
\<close>

type_synonym read_callback = "bfio \<Rightarrow> off64 \<Rightarrow> nat option \<Rightarrow> u8 list result"
type_synonym seek_callback = "(off64 \<Rightarrow> off64 option) \<Rightarrow> off64 \<Rightarrow> off64 result"

record 's stream_ops =
  stream_initialize :: "read_callback \<Rightarrow> seek_callback \<Rightarrow> 's option"
  stream_append_segment :: "'s \<Rightarrow> int \<Rightarrow> off64 \<Rightarrow> u64 \<Rightarrow> u32 \<Rightarrow> 's option"
  stream_read_buffer :: "'s \<Rightarrow> bfio \<Rightarrow> nat \<Rightarrow> ('s \<times> u8 list) option"
  stream_read_buffer_at_offset :: "'s \<Rightarrow> bfio \<Rightarrow> nat \<Rightarrow> off64 \<Rightarrow> ('s \<times> u8 list) option"
  stream_seek_offset :: "'s \<Rightarrow> off64 \<Rightarrow> int \<Rightarrow> ('s \<times> off64) option"
  stream_get_offset :: "'s \<Rightarrow> off64 option"

text \<open>
  Reading \<open>n\<close> bytes at an offset of a list of segments: the callbacks are called for every
  segment that the range touches. The file handle can seek everywhere.
\<close>

fun read_segments ::
  "read_callback \<Rightarrow> seek_callback \<Rightarrow> bfio \<Rightarrow> (off64 \<times> u64) list \<Rightarrow> nat \<Rightarrow> nat \<Rightarrow> u8 list option" where
  "read_segments R K bfio [] i n = Some []"
| "read_segments R K bfio ((offset, size0) # segments) i n =
     (if n = 0 then Some []
      else if unat size0 \<le> i then read_segments R K bfio segments (i - unat size0) n
      else
        (let k = min n (unat size0 - i)
         in case K Some (offset + of_nat i) of
              Inl e \<Rightarrow> None
            | Inr position \<Rightarrow>
                (case R bfio position (Some k) of
                   Inl e \<Rightarrow> None
                 | Inr data \<Rightarrow>
                     if length data \<noteq> k then None
                     else
                       (case read_segments R K bfio segments 0 (n - k) of
                          None \<Rightarrow> None
                        | Some rest \<Rightarrow> Some (data @ rest)))))"

text \<open>
  The contract: \<open>view\<close> gives the callbacks, the segments and the current offset of a
  stream. A segment with a size that is no negative number can be appended while there are
  fewer than the largest \<^verbatim>\<open>int\<close>.
\<close>

type_synonym stream_state = "(read_callback \<times> seek_callback) \<times> (off64 \<times> u64) list \<times> nat"

definition stream_contract :: "'s stream_ops \<Rightarrow> ('s \<Rightarrow> stream_state) \<Rightarrow> bool" where
  "stream_contract S view \<longleftrightarrow>
     (\<forall>R K. \<exists>s. stream_initialize S R K = Some s \<and> view s = ((R, K), [], 0)) \<and>
     (\<forall>s C segments p offset size0. view s = (C, segments, p) \<longrightarrow>
        0 \<le> sint offset \<longrightarrow> 0 \<le> sint size0 \<longrightarrow> int (length segments) < 2 ^ 31 - 1 \<longrightarrow>
        (\<exists>s'. stream_append_segment S s 0 offset size0 0 = Some s' \<and>
           view s' = (C, segments @ [(offset, size0)], p))) \<and>
     (\<forall>s R K segments p bfio n. view s = ((R, K), segments, p) \<longrightarrow>
        (case read_segments R K bfio segments p n of
           None \<Rightarrow> stream_read_buffer S s bfio n = None
         | Some data \<Rightarrow> \<exists>s'. stream_read_buffer S s bfio n = Some (s', data) \<and>
             view s' = ((R, K), segments, p + length data))) \<and>
     (\<forall>s R K segments p bfio n offset. view s = ((R, K), segments, p) \<longrightarrow> 0 \<le> sint offset \<longrightarrow>
        (case read_segments R K bfio segments (unat offset) n of
           None \<Rightarrow> stream_read_buffer_at_offset S s bfio n offset = None
         | Some data \<Rightarrow> \<exists>s'. stream_read_buffer_at_offset S s bfio n offset = Some (s', data) \<and>
             view s' = ((R, K), segments, unat offset + length data))) \<and>
     (\<forall>s C segments p offset. view s = (C, segments, p) \<longrightarrow> 0 \<le> sint offset \<longrightarrow>
        (\<exists>s'. stream_seek_offset S s offset 0 = Some (s', offset) \<and>
           view s' = (C, segments, unat offset))) \<and>
     (\<forall>s C segments p. view s = (C, segments, p) \<longrightarrow> stream_get_offset S s = Some (of_nat p))"

text \<open>A stream as a value: the contract can be met.\<close>

definition list_stream :: "stream_state stream_ops" where
  "list_stream =
     \<lparr> stream_initialize = (\<lambda>R K. Some ((R, K), [], 0)),
       stream_append_segment = (\<lambda>(C, segments, p) file offset size0 flags.
         Some (C, segments @ [(offset, size0)], p)),
       stream_read_buffer = (\<lambda>((R, K), segments, p) bfio n.
         map_option (\<lambda>data. (((R, K), segments, p + length data), data)) (read_segments R K bfio segments p n)),
       stream_read_buffer_at_offset = (\<lambda>((R, K), segments, p) bfio n offset.
         map_option (\<lambda>data. (((R, K), segments, unat offset + length data), data))
           (read_segments R K bfio segments (unat offset) n)),
       stream_seek_offset = (\<lambda>(C, segments, p) offset whence. Some ((C, segments, unat offset), offset)),
       stream_get_offset = (\<lambda>(C, segments, p). Some (of_nat p)) \<rparr>"

lemma list_stream_contract: "stream_contract list_stream (\<lambda>s. s)"
  by (auto simp: stream_contract_def list_stream_def split: option.split)

lemma stream_contractD:
  assumes "stream_contract S view"
  shows "\<forall>R K. \<exists>s. stream_initialize S R K = Some s \<and> view s = ((R, K), [], 0)"
    and "\<forall>s C segments p offset size0. view s = (C, segments, p) \<longrightarrow>
        0 \<le> sint offset \<longrightarrow> 0 \<le> sint size0 \<longrightarrow> int (length segments) < 2 ^ 31 - 1 \<longrightarrow>
        (\<exists>s'. stream_append_segment S s 0 offset size0 0 = Some s' \<and>
           view s' = (C, segments @ [(offset, size0)], p))"
    and "\<forall>s R K segments p bfio n. view s = ((R, K), segments, p) \<longrightarrow>
        (case read_segments R K bfio segments p n of
           None \<Rightarrow> stream_read_buffer S s bfio n = None
         | Some data \<Rightarrow> \<exists>s'. stream_read_buffer S s bfio n = Some (s', data) \<and>
             view s' = ((R, K), segments, p + length data))"
    and "\<forall>s R K segments p bfio n offset. view s = ((R, K), segments, p) \<longrightarrow> 0 \<le> sint offset \<longrightarrow>
        (case read_segments R K bfio segments (unat offset) n of
           None \<Rightarrow> stream_read_buffer_at_offset S s bfio n offset = None
         | Some data \<Rightarrow> \<exists>s'. stream_read_buffer_at_offset S s bfio n offset = Some (s', data) \<and>
             view s' = ((R, K), segments, unat offset + length data))"
    and "\<forall>s C segments p offset. view s = (C, segments, p) \<longrightarrow> 0 \<le> sint offset \<longrightarrow>
        (\<exists>s'. stream_seek_offset S s offset 0 = Some (s', offset) \<and>
           view s' = (C, segments, unat offset))"
    and "\<forall>s C segments p. view s = (C, segments, p) \<longrightarrow> stream_get_offset S s = Some (of_nat p)"
  using assms unfolding stream_contract_def by - (elim conjE, assumption)+

lemma sint_nonneg: "unat (a :: 64 word) < 2 ^ 63 \<Longrightarrow> 0 \<le> sint a"
  by (simp add: sint_small)

lemma stream_new:
  assumes "stream_contract S view"
  obtains s where "stream_initialize S R K = Some s" and "view s = ((R, K), [], 0)"
  using stream_contractD(1) [OF assms] by blast

lemma stream_append:
  assumes "stream_contract S view" and "view s = (C, segments, p)"
    and "unat offset < 2 ^ 63" and "unat size0 < 2 ^ 63" and "int (length segments) < 2 ^ 31 - 1"
  obtains s' where "stream_append_segment S s 0 offset size0 0 = Some s'"
    and "view s' = (C, segments @ [(offset, size0)], p)"
  using stream_contractD(2) [OF assms(1), rule_format, OF assms(2) sint_nonneg [OF assms(3)]
      sint_nonneg [OF assms(4)] assms(5)] that by blast

lemma stream_read:
  assumes "stream_contract S view" and "view s = ((R, K), segments, p)"
    and "read_segments R K bfio segments p n = Some data"
  obtains s' where "stream_read_buffer S s bfio n = Some (s', data)"
    and "view s' = ((R, K), segments, p + length data)"
  using stream_contractD(3) [OF assms(1), rule_format, OF assms(2), of bfio n] assms(3) that by auto

lemma stream_read_at:
  assumes "stream_contract S view" and "view s = ((R, K), segments, p)" and "unat offset < 2 ^ 63"
    and "read_segments R K bfio segments (unat offset) n = Some data"
  obtains s' where "stream_read_buffer_at_offset S s bfio n offset = Some (s', data)"
    and "view s' = ((R, K), segments, unat offset + length data)"
  using stream_contractD(4) [OF assms(1), rule_format, OF assms(2) sint_nonneg [OF assms(3)], of bfio n]
    assms(4) that by auto

lemma stream_position:
  assumes "stream_contract S view" and "view s = (C, segments, p)"
  shows "stream_get_offset S s = Some (of_nat p)"
    and "unat offset < 2 ^ 63 \<Longrightarrow> \<exists>s'. stream_seek_offset S s offset 0 = Some (s', offset) \<and>
      view s' = (C, segments, unat offset)"
  using stream_contractD(5,6) [OF assms(1), rule_format, OF assms(2)] sint_nonneg [of offset] by blast+

section \<open>The stream of a chain of clusters\<close>

definition MEMORY_MAXIMUM_ALLOCATION_SIZE :: nat where
  "MEMORY_MAXIMUM_ALLOCATION_SIZE = 128 * 1024 * 1024"

text \<open>The local variables of the loop, and the arrays it fills.\<close>

record ('xarr, 's) segment_collector =
  sc_size :: u64
  sc_segment_start_offset :: off64
  sc_segment_end_offset :: off64
  sc_data_extents_array :: 'xarr
  sc_data_stream :: 's

text \<open>The extent and the segment that end at the current end offset; with the segment size.\<close>

definition append_segment ::
  "('xarr, extent) array_ops \<Rightarrow> 's stream_ops \<Rightarrow> ('xarr, 's) segment_collector \<Rightarrow>
   (('xarr, 's) segment_collector \<times> u64) result" where
  "append_segment X S sc =
     (let segment_size = sc_segment_end_offset sc - sc_segment_start_offset sc
      in case libfsfat_extent_initialize None of
           Inl e \<Rightarrow> Inl RUNTIME_INITIALIZE_FAILED
         | Inr extent \<Rightarrow>
             (case array_append_entry X (sc_data_extents_array sc)
                     (Some (extent\<lparr> extent_offset := sc_segment_start_offset sc,
                                    extent_size := segment_size \<rparr>)) of
                None \<Rightarrow> Inl RUNTIME_APPEND_FAILED
              | Some data_extents_array \<Rightarrow>
                  let segment_size = (if segment_size > sc_size sc then sc_size sc else segment_size)
                  in case stream_append_segment S (sc_data_stream sc) 0 (sc_segment_start_offset sc)
                            segment_size 0 of
                       None \<Rightarrow> Inl RUNTIME_APPEND_FAILED
                     | Some data_stream \<Rightarrow>
                         Inr (sc\<lparr> sc_data_extents_array := data_extents_array,
                                  sc_data_stream := data_stream \<rparr>, segment_size)))"

text \<open>What the loop does with the cluster at an offset, before it looks for the next one.\<close>

definition collect_cluster ::
  "('xarr, extent) array_ops \<Rightarrow> 's stream_ops \<Rightarrow> io_handle \<Rightarrow> off64 \<Rightarrow> ('xarr, 's) segment_collector \<Rightarrow>
   ('xarr, 's) segment_collector result" where
  "collect_cluster X S io cluster_offset sc =
     (case (if sc_segment_start_offset sc \<noteq> 0 \<and> sc_segment_end_offset sc <s cluster_offset
            then
              (case append_segment X S sc of
                 Inl e \<Rightarrow> Inl e
               | Inr (sc, segment_size) \<Rightarrow>
                   Inr (sc\<lparr> sc_size := sc_size sc - segment_size, sc_segment_start_offset := 0 \<rparr>))
            else Inr sc) of
        Inl e \<Rightarrow> Inl e
      | Inr sc \<Rightarrow>
          let sc = (if sc_segment_start_offset sc = 0
                    then sc\<lparr> sc_segment_start_offset := cluster_offset,
                             sc_segment_end_offset := cluster_offset \<rparr>
                    else sc)
          in Inr (sc\<lparr> sc_segment_end_offset := sc_segment_end_offset sc + io_cluster_block_size io \<rparr>))"

partial_function (option) collect_clusters ::
  "('xarr, extent) array_ops \<Rightarrow> ('tarr, node_entry) array_ops \<Rightarrow> 's stream_ops \<Rightarrow>
   ('arr, 'cache) file_system \<Rightarrow> io_handle \<Rightarrow> u32 \<Rightarrow> u32 \<Rightarrow> 'tarr block_tree \<Rightarrow>
   ('xarr, 's) segment_collector \<Rightarrow> ('xarr, 's) segment_collector result option" where
  "collect_clusters X T S fs io last_number cluster_number tree sc =
     (if cluster_number \<ge> 2 \<and> cluster_number < last_number \<and> sc_size sc \<noteq> 0
      then
        (let cluster_offset = cluster_block_offset io cluster_number
         in (case libfsfat_file_system_check_if_cluster_block_first_read T (Some fs) (Some tree)
                    cluster_number cluster_offset of
               None \<Rightarrow> None
             | Some (Inl e) \<Rightarrow> Some (Inl RUNTIME_GENERIC)
             | Some (Inr tree) \<Rightarrow>
                 (case collect_cluster X S io cluster_offset sc of
                    Inl e \<Rightarrow> Some (Inl e)
                  | Inr sc \<Rightarrow>
                      (case libfsfat_allocation_table_get_cluster_number_by_index
                              (fs_allocation_table fs) (sint cluster_number) of
                         Inl e \<Rightarrow> Some (Inl RUNTIME_GET_FAILED)
                       | Inr cluster_number \<Rightarrow>
                           collect_clusters X T S fs io last_number cluster_number tree sc))))
      else Some (Inr sc))"

text \<open>The segment that is left after the loop; the result is the array and the stream.\<close>

definition last_segment ::
  "('xarr, extent) array_ops \<Rightarrow> 's stream_ops \<Rightarrow> ('xarr, 's) segment_collector \<Rightarrow>
   ('xarr \<times> 's) result" where
  "last_segment X S sc =
     (case (if sc_size sc > 0 \<and> sc_segment_start_offset sc \<noteq> 0
            then map_sum id fst (append_segment X S sc) else Inr sc) of
        Inl e \<Rightarrow> Inl e
      | Inr sc \<Rightarrow> Inr (sc_data_extents_array sc, sc_data_stream sc))"

definition start_collector :: "u64 \<Rightarrow> 'xarr \<Rightarrow> 's \<Rightarrow> ('xarr, 's) segment_collector" where
  "start_collector size0 data_extents_array data_stream =
     \<lparr> sc_size = size0, sc_segment_start_offset = 0, sc_segment_end_offset = 0,
       sc_data_extents_array = data_extents_array, sc_data_stream = data_stream \<rparr>"

text \<open>The extents are appended to the array that is given.\<close>

definition libfsfat_file_system_get_data_stream ::
  "('xarr, extent) array_ops \<Rightarrow> ('tarr, node_entry) array_ops \<Rightarrow> 's stream_ops \<Rightarrow>
   ('arr, 'cache) file_system option \<Rightarrow> u32 \<Rightarrow> u64 \<Rightarrow> 'xarr \<Rightarrow> 's option \<Rightarrow>
   ('xarr \<times> 's) result option" where
  "libfsfat_file_system_get_data_stream X T S file_system cluster_number size0 data_extents_array
       data_stream =
     (case file_system of
        None \<Rightarrow> Some (Inl ARGUMENT_INVALID_VALUE)
      | Some fs \<Rightarrow>
     (case fs_io_handle fs of
        None \<Rightarrow> Some (Inl RUNTIME_VALUE_MISSING)
      | Some io \<Rightarrow>
     (case last_cluster_number (io_file_system_format io) of
        None \<Rightarrow> Some (Inl RUNTIME_UNSUPPORTED_VALUE)
      | Some last_number \<Rightarrow>
          if io_total_number_of_clusters io = 0 \<or>
             unat (io_total_number_of_clusters io) > MEMORY_MAXIMUM_ALLOCATION_SIZE div 4
          then Some (Inl ARGUMENT_VALUE_OUT_OF_BOUNDS)
          else if data_stream \<noteq> None then Some (Inl RUNTIME_VALUE_ALREADY_SET)
          else
            (case libfsfat_block_tree_initialize T None (io_volume_size io) (io_cluster_block_size io) of
               Inl e \<Rightarrow> Some (Inl RUNTIME_INITIALIZE_FAILED)
             | Inr tree \<Rightarrow>
                 (case stream_initialize S libfsfat_cluster_block_data_read_segment_data
                         libfsfat_cluster_block_data_seek_segment_offset of
                    None \<Rightarrow> Some (Inl RUNTIME_INITIALIZE_FAILED)
                  | Some stream \<Rightarrow>
                      (case collect_clusters X T S fs io last_number cluster_number tree
                              (start_collector size0 data_extents_array stream) of
                         None \<Rightarrow> None
                       | Some (Inl e) \<Rightarrow> Some (Inl e)
                       | Some (Inr sc) \<Rightarrow> Some (last_segment X S sc)))))))"

lemma collect_clusters_step:
  assumes "2 \<le> c" and "c < last_number" and "sc_size sc \<noteq> 0"
    and "libfsfat_file_system_check_if_cluster_block_first_read T (Some fs) (Some tree) c
      (cluster_block_offset io c) = Some (Inr tree')"
    and "collect_cluster X S io (cluster_block_offset io c) sc = Inr sc'"
    and "libfsfat_allocation_table_get_cluster_number_by_index (fs_allocation_table fs) (sint c) = Inr b"
  shows "collect_clusters X T S fs io last_number c tree sc =
    collect_clusters X T S fs io last_number b tree' sc'"
  using assms by (subst collect_clusters.simps) (simp add: Let_def)

lemma collect_clusters_stop:
  assumes "\<not> (2 \<le> c \<and> c < last_number) \<or> sc_size sc = 0"
  shows "collect_clusters X T S fs io last_number c tree sc = Some (Inr sc)"
  using assms by (subst collect_clusters.simps) auto

section \<open>The bytes of a chain of clusters\<close>

definition segment_bytes :: "off64 \<times> u64 \<Rightarrow> nat list" where
  "segment_bytes s = [unat (fst s)..<unat (fst s) + unat (snd s)]"

definition cluster_bytes :: "io_handle \<Rightarrow> u32 \<Rightarrow> nat list" where
  "cluster_bytes io c = segment_bytes (cluster_block_offset io c, io_cluster_block_size io)"

definition chain_bytes :: "io_handle \<Rightarrow> u32 list \<Rightarrow> nat list" where
  "chain_bytes io cs = concat (map (cluster_bytes io) cs)"

text \<open>An entry of the array of extents, for a segment of the stream.\<close>

definition extent_for :: "extent option \<Rightarrow> off64 \<times> u64 \<Rightarrow> bool" where
  "extent_for e s \<longleftrightarrow> (\<exists>x. e = Some x \<and> extent_offset x = fst s \<and> snd s \<le> extent_size x)"

definition extent_bytes :: "extent option \<Rightarrow> nat list" where
  "extent_bytes e = (case e of None \<Rightarrow> [] | Some x \<Rightarrow> segment_bytes (extent_offset x, extent_size x))"

text \<open>The bytes of the segment that is collected.\<close>

definition pending :: "('xarr, 's) segment_collector \<Rightarrow> nat list" where
  "pending sc =
     (if sc_segment_start_offset sc = 0 then []
      else [unat (sc_segment_start_offset sc)..<unat (sc_segment_end_offset sc)])"

definition collector_ok :: "('xarr, 's) segment_collector \<Rightarrow> bool" where
  "collector_ok sc \<longleftrightarrow> sc_segment_start_offset sc \<noteq> 0 \<longrightarrow>
     unat (sc_segment_start_offset sc) \<le> unat (sc_segment_end_offset sc) \<and>
     unat (sc_segment_end_offset sc) \<le> 2 ^ 62"

lemma append_segment_ok:
  assumes "array_contract X xview" and "stream_contract S view"
    and "collector_ok sc" and "sc_segment_start_offset sc \<noteq> 0"
    and "view (sc_data_stream sc) = (C, segments, p)"
    and "int (length segments) < 2 ^ 31 - 1" and "int (length (xview (sc_data_extents_array sc))) < 2 ^ 31 - 1"
  obtains arr s' n e where "append_segment X S sc =
      Inr (sc\<lparr> sc_data_extents_array := arr, sc_data_stream := s' \<rparr>, n)"
    and "view s' = (C, segments @ [(sc_segment_start_offset sc, n)], p)"
    and "xview arr = xview (sc_data_extents_array sc) @ [e]"
    and "unat n = min (unat (sc_size sc)) (length (pending sc))"
    and "segment_bytes (sc_segment_start_offset sc, n) = take (unat (sc_size sc)) (pending sc)"
    and "extent_for e (sc_segment_start_offset sc, n)" and "extent_bytes e = pending sc"
proof -
  let ?start = "sc_segment_start_offset sc" and ?size = "sc_segment_end_offset sc - sc_segment_start_offset sc"
  let ?n = "if ?size > sc_size sc then sc_size sc else ?size"
  let ?e = "\<lparr> extent_offset = ?start, extent_size = ?size \<rparr>"
  have bounds: "unat ?start \<le> unat (sc_segment_end_offset sc)" "unat (sc_segment_end_offset sc) \<le> 2 ^ 62"
    using assms(3,4) by (simp_all add: collector_ok_def)
  have size0: "unat ?size = length (pending sc)"
    using bounds(1) assms(4) by (simp add: unat_minus_exact pending_def)
  then have n: "unat ?n = min (unat (sc_size sc)) (length (pending sc))"
    by (auto simp: word_less_nat_alt min_def)
  have "length (pending sc) \<le> 2 ^ 62" using bounds assms(4) by (simp add: pending_def)
  then have fits: "unat ?start < 2 ^ 63" "unat ?n < 2 ^ 63" using bounds n by simp_all
  obtain s' where s': "stream_append_segment S (sc_data_stream sc) 0 ?start ?n 0 = Some s'"
    "view s' = (C, segments @ [(?start, ?n)], p)"
    by (rule stream_append [OF assms(2,5) fits assms(6)])
  obtain arr where arr: "array_append_entry X (sc_data_extents_array sc) (Some ?e) = Some arr"
    "xview arr = xview (sc_data_extents_array sc) @ [Some ?e]"
    by (rule array_append [OF assms(1,7)])
  show ?thesis
  proof (rule that [OF _ s'(2) arr(2) n])
    show "append_segment X S sc = Inr (sc\<lparr> sc_data_extents_array := arr, sc_data_stream := s' \<rparr>, ?n)"
      using arr(1) s'(1) by (simp add: append_segment_def libfsfat_extent_initialize_def Let_def)
    show "segment_bytes (?start, ?n) = take (unat (sc_size sc)) (pending sc)"
      unfolding segment_bytes_def fst_conv snd_conv n using bounds assms(4)
      by (auto simp: pending_def take_upt min_def)
    show "extent_for (Some ?e) (?start, ?n)"
      by (auto simp: extent_for_def word_le_nat_alt word_less_nat_alt)
    show "extent_bytes (Some ?e) = pending sc"
      using bounds assms(4) by (simp add: extent_bytes_def segment_bytes_def pending_def unat_minus_exact)
  qed
qed

text \<open>The bytes of segments and of extents.\<close>

definition segments_bytes :: "(off64 \<times> u64) list \<Rightarrow> nat list" where
  "segments_bytes segments = concat (map segment_bytes segments)"

definition extents_bytes :: "extent option list \<Rightarrow> nat list" where
  "extents_bytes extents = concat (map extent_bytes extents)"

lemma collect_cluster_ok:
  assumes contracts: "array_contract X xview" "stream_contract S view"
    and ok: "collector_ok sc" and state: "view (sc_data_stream sc) = (C, segments, p)"
      "list_all2 extent_for (xview (sc_data_extents_array sc)) segments"
    and few: "int (length segments) < 2 ^ 31 - 1"
    and off: "0 < unat off" "unat off + unat (io_cluster_block_size io) \<le> 2 ^ 53"
      "sc_segment_start_offset sc \<noteq> 0 \<Longrightarrow> unat (sc_segment_end_offset sc) \<le> unat off"
  obtains sc' segments' where "collect_cluster X S io off sc = Inr sc'" and "collector_ok sc'"
    and "view (sc_data_stream sc') = (C, segments', p)"
    and "list_all2 extent_for (xview (sc_data_extents_array sc')) segments'"
    and "length segments' \<le> Suc (length segments)" and "sc_segment_start_offset sc' \<noteq> 0"
    and "unat (sc_segment_end_offset sc') = unat off + unat (io_cluster_block_size io)"
    and "\<And>R. segments_bytes segments' @ take (unat (sc_size sc')) (pending sc' @ R) =
      segments_bytes segments @
      take (unat (sc_size sc)) (pending sc @ segment_bytes (off, io_cluster_block_size io) @ R)"
    and "\<And>R m'. unat (sc_size sc') \<le> m' \<Longrightarrow> \<exists>m \<ge> unat (sc_size sc).
      extents_bytes (xview (sc_data_extents_array sc')) @ take m' (pending sc' @ R) =
      extents_bytes (xview (sc_data_extents_array sc)) @
      take m (pending sc @ segment_bytes (off, io_cluster_block_size io) @ R)"
proof -
  let ?bs = "io_cluster_block_size io"
  have off_end: "unat (off + ?bs) = unat off + unat ?bs" using off(2) by (subst unat_add_exact) simp_all
  have off_ne: "off \<noteq> 0" using off(1) by auto
  show ?thesis
  proof (cases "sc_segment_start_offset sc \<noteq> 0 \<and> sc_segment_end_offset sc <s off")
    case False
    let ?sc = "if sc_segment_start_offset sc = 0
      then sc\<lparr> sc_segment_start_offset := off, sc_segment_end_offset := off + ?bs \<rparr>
      else sc\<lparr> sc_segment_end_offset := off + ?bs \<rparr>"
    have same: "sc_segment_end_offset sc = off" if "sc_segment_start_offset sc \<noteq> 0"
    proof -
      have "unat (sc_segment_end_offset sc) \<le> unat off" by (rule off(3) [OF that])
      moreover have "\<not> unat (sc_segment_end_offset sc) < unat off"
        using False that off(2) calculation by (subst (asm) sless_unat) auto
      ultimately show ?thesis by (simp add: word_unat_eq_iff)
    qed
    have result: "collect_cluster X S io off sc = Inr ?sc"
      using False same by (auto simp: collect_cluster_def Let_def)
    have pend: "pending ?sc = pending sc @ segment_bytes (off, ?bs)"
      using ok same off_ne off_end
      by (auto simp: pending_def segment_bytes_def collector_ok_def upt_add_eq_append [symmetric])
    show ?thesis
    proof (rule that [OF result])
      show "collector_ok ?sc"
        using ok same off(2) off_end by (auto simp: collector_ok_def)
      show "\<exists>m \<ge> unat (sc_size sc). extents_bytes (xview (sc_data_extents_array ?sc)) @ take m' (pending ?sc @ R) =
          extents_bytes (xview (sc_data_extents_array sc)) @ take m (pending sc @ segment_bytes (off, ?bs) @ R)"
        if "unat (sc_size ?sc) \<le> m'" for R m'
        unfolding pend using that by (intro exI [of _ m']) (simp split: if_splits)
      show "segments_bytes segments @ take (unat (sc_size ?sc)) (pending ?sc @ R) =
          segments_bytes segments @ take (unat (sc_size sc)) (pending sc @ segment_bytes (off, ?bs) @ R)" for R
        unfolding pend by simp
    qed (use state off_ne off_end in simp_all)
  next
    case True
    have few': "int (length (xview (sc_data_extents_array sc))) < 2 ^ 31 - 1"
      using few list_all2_lengthD [OF state(2)] by simp
    obtain arr s' n e where app: "append_segment X S sc =
        Inr (sc\<lparr> sc_data_extents_array := arr, sc_data_stream := s' \<rparr>, n)"
      and s': "view s' = (C, segments @ [(sc_segment_start_offset sc, n)], p)"
      and arr: "xview arr = xview (sc_data_extents_array sc) @ [e]"
      and n: "unat n = min (unat (sc_size sc)) (length (pending sc))"
      and seg: "segment_bytes (sc_segment_start_offset sc, n) = take (unat (sc_size sc)) (pending sc)"
      and e: "extent_for e (sc_segment_start_offset sc, n)" "extent_bytes e = pending sc"
      by (rule append_segment_ok [OF contracts ok _ state(1) few few']) (use True in blast)
    let ?sc = "sc\<lparr> sc_data_extents_array := arr, sc_data_stream := s', sc_size := sc_size sc - n,
      sc_segment_start_offset := off, sc_segment_end_offset := off + ?bs \<rparr>"
    have rest: "unat (sc_size sc - n) = unat (sc_size sc) - length (pending sc)"
      using n by (subst unat_minus_exact) auto
    have result: "collect_cluster X S io off sc = Inr ?sc"
      using True app by (simp add: collect_cluster_def Let_def)
    have pend: "pending ?sc = segment_bytes (off, ?bs)"
      using off_ne off_end by (simp add: pending_def segment_bytes_def)
    show ?thesis
    proof (rule that [OF result, of "segments @ [(sc_segment_start_offset sc, n)]"])
      show "collector_ok ?sc"
        using off(2) off_end by (simp add: collector_ok_def)
      show "\<exists>m \<ge> unat (sc_size sc). extents_bytes (xview (sc_data_extents_array ?sc)) @ take m' (pending ?sc @ R) =
          extents_bytes (xview (sc_data_extents_array sc)) @ take m (pending sc @ segment_bytes (off, ?bs) @ R)"
        if "unat (sc_size ?sc) \<le> m'" for R m'
        unfolding pend using that rest arr e
        by (intro exI [of _ "length (pending sc) + m'"]) (simp add: extents_bytes_def)
      show "segments_bytes (segments @ [(sc_segment_start_offset sc, n)]) @
          take (unat (sc_size ?sc)) (pending ?sc @ R) =
          segments_bytes segments @ take (unat (sc_size sc)) (pending sc @ segment_bytes (off, ?bs) @ R)" for R
        unfolding pend using rest by (simp add: segments_bytes_def seg)
    qed (use s' state arr e off_ne off_end in \<open>simp_all add: list_all2_appendI\<close>)
  qed
qed

text \<open>
  The clusters of a chain lie at increasing offsets. Whatever is at a smaller offset than its
  predecessor is merged into the segment of the predecessor.
\<close>

definition ascending :: "u32 list \<Rightarrow> bool" where
  "ascending cs \<longleftrightarrow> sorted_wrt (\<lambda>a b. unat a < unat b) cs"

lemma ascending_distinct: "ascending cs \<Longrightarrow> distinct cs"
  unfolding ascending_def by (induction cs) auto

lemma cluster_blocks_ordered:
  assumes "cluster_in_volume io a" and "cluster_in_volume io b" and "unat a < unat b"
    and "unat (io_volume_size io) \<le> 2 ^ 53"
  shows "unat (cluster_block_offset io a) + unat (io_cluster_block_size io) \<le> unat (cluster_block_offset io b)"
proof -
  have "2 \<le> unat a" using assms(1) by (simp add: cluster_in_volume_def)
  then have "Suc (unat a - 2) \<le> unat b - 2" using assms(3) by linarith
  then have "Suc (unat a - 2) * unat (io_cluster_block_size io) \<le> (unat b - 2) * unat (io_cluster_block_size io)"
    by (rule mult_le_mono1)
  then show ?thesis
    unfolding cluster_block_offset_exact [OF assms(1,4)] cluster_block_offset_exact [OF assms(2,4)] by simp
qed

lemma collect_clusters_path:
  assumes contracts: "array_contract X xview" "stream_contract S view"
    and vol: "unat (io_volume_size io) \<le> 2 ^ 53" "0 < unat (io_cluster_block_size io)"
      "0 < unat (io_first_cluster_offset io)"
    and "tree_of_volume T tview io tree keys"
    and "cluster_path (fs_allocation_table fs) last_number c cs c'"
    and "\<not> (2 \<le> c' \<and> c' < last_number)"
    and "\<forall>a \<in> set cs. cluster_in_volume io a" and "ascending cs"
    and "\<forall>a \<in> set cs. block_key io a \<notin> keys"
    and "collector_ok sc" and "view (sc_data_stream sc) = (C, segments, p)"
    and "list_all2 extent_for (xview (sc_data_extents_array sc)) segments"
    and "int (length segments + length cs) < 2 ^ 31 - 1"
    and "sc_segment_start_offset sc \<noteq> 0 \<Longrightarrow>
      \<forall>a \<in> set cs. unat (sc_segment_end_offset sc) \<le> unat (cluster_block_offset io a)"
  shows "\<exists>sc' arr stream segments'.
    collect_clusters X T S fs io last_number c tree sc = Some (Inr sc') \<and>
    last_segment X S sc' = Inr (arr, stream) \<and> view stream = (C, segments', p) \<and>
    list_all2 extent_for (xview arr) segments' \<and>
    segments_bytes segments' =
      segments_bytes segments @ take (unat (sc_size sc)) (pending sc @ chain_bytes io cs) \<and>
    (\<exists>m \<ge> unat (sc_size sc). extents_bytes (xview arr) =
      extents_bytes (xview (sc_data_extents_array sc)) @ take m (pending sc @ chain_bytes io cs))"
  using assms(6-16)
proof (induction cs arbitrary: c tree keys sc segments)
  case Nil
  have stop: "collect_clusters X T S fs io last_number c tree sc = Some (Inr sc)"
    by (rule collect_clusters_stop) (use Nil.prems in auto)
  show ?case
  proof (cases "sc_size sc > 0 \<and> sc_segment_start_offset sc \<noteq> 0")
    case False
    then have "take (unat (sc_size sc)) (pending sc) = []"
      by (cases "sc_size sc = 0") (auto simp: pending_def word_gt_0)
    moreover have "\<exists>m \<ge> unat (sc_size sc). take m (pending sc) = []"
      using False by (cases "sc_size sc = 0") (auto simp: pending_def word_less_nat_alt)
    ultimately show ?thesis
      using stop False Nil.prems by (auto simp: last_segment_def chain_bytes_def)
  next
    case True
    have few: "int (length segments) < 2 ^ 31 - 1"
      "int (length (xview (sc_data_extents_array sc))) < 2 ^ 31 - 1"
      using Nil.prems(9,10) list_all2_lengthD [OF Nil.prems(9)] by simp_all
    obtain arr s' n e where app: "append_segment X S sc =
        Inr (sc\<lparr> sc_data_extents_array := arr, sc_data_stream := s' \<rparr>, n)"
      and s': "view s' = (C, segments @ [(sc_segment_start_offset sc, n)], p)"
      and arr: "xview arr = xview (sc_data_extents_array sc) @ [e]"
      and seg: "segment_bytes (sc_segment_start_offset sc, n) = take (unat (sc_size sc)) (pending sc)"
      and e: "extent_for e (sc_segment_start_offset sc, n)" "extent_bytes e = pending sc"
      using append_segment_ok [OF contracts Nil.prems(7) _ Nil.prems(8) few] True by metis
    have "last_segment X S sc = Inr (arr, s')" using True app by (simp add: last_segment_def)
    moreover have "\<exists>m \<ge> unat (sc_size sc). pending sc = take m (pending sc)"
      by (rule exI [of _ "max (unat (sc_size sc)) (length (pending sc))"]) simp
    ultimately show ?thesis
      using stop s' arr e Nil.prems(9)
      by (auto simp: chain_bytes_def segments_bytes_def extents_bytes_def seg list_all2_appendI)
  qed
next
  case (Cons a as)
  obtain b where b: "c = a" "2 \<le> a" "a < last_number"
      "libfsfat_allocation_table_get_cluster_number_by_index (fs_allocation_table fs) (sint a) = Inr b"
      "cluster_path (fs_allocation_table fs) last_number b as c'"
    using Cons.prems(2) by auto
  have a: "cluster_in_volume io a" "block_key io a \<notin> keys" using Cons.prems by simp_all
  show ?case
  proof (cases "sc_size sc = 0")
    case True
    then have "collect_clusters X T S fs io last_number c tree sc = Some (Inr sc)"
      by (intro collect_clusters_stop) simp
    then show ?thesis
      using True Cons.prems(8,9) by (auto simp: last_segment_def intro!: exI [of _ 0])
  next
    case False
    let ?off = "cluster_block_offset io a" and ?bs = "io_cluster_block_size io"
    have off: "unat ?off = unat (io_first_cluster_offset io) + (unat a - 2) * unat ?bs"
      by (rule cluster_block_offset_exact [OF a(1) vol(1)])
    then have off_bounds: "0 < unat ?off" "unat ?off + unat ?bs \<le> 2 ^ 53"
      using a(1) vol by (auto simp: cluster_in_volume_def Let_def)
    obtain tree1 where check: "libfsfat_file_system_check_if_cluster_block_first_read T (Some fs) (Some tree) a
        ?off = Some (Inr tree1)"
      and tree1: "tree_of_volume T tview io tree1 (insert (block_key io a) keys)"
      by (rule check_first_read_new [OF Cons.prems(1) a(1) vol(1,2) a(2)])
    have few: "int (length segments) < 2 ^ 31 - 1" using Cons.prems(10) by simp
    obtain sc1 segments1 where sc1: "collect_cluster X S io ?off sc = Inr sc1" "collector_ok sc1"
        "view (sc_data_stream sc1) = (C, segments1, p)"
        "list_all2 extent_for (xview (sc_data_extents_array sc1)) segments1"
        "length segments1 \<le> Suc (length segments)"
        "unat (sc_segment_end_offset sc1) = unat ?off + unat ?bs"
      and bytes: "\<And>R. segments_bytes segments1 @ take (unat (sc_size sc1)) (pending sc1 @ R) =
        segments_bytes segments @ take (unat (sc_size sc)) (pending sc @ segment_bytes (?off, ?bs) @ R)"
      and extents: "\<And>R m'. unat (sc_size sc1) \<le> m' \<Longrightarrow> \<exists>m \<ge> unat (sc_size sc).
        extents_bytes (xview (sc_data_extents_array sc1)) @ take m' (pending sc1 @ R) =
        extents_bytes (xview (sc_data_extents_array sc)) @
        take m (pending sc @ segment_bytes (?off, ?bs) @ R)"
      by (rule collect_cluster_ok [OF contracts Cons.prems(7-9) few off_bounds]) (use Cons.prems(11) in auto)
    have above: "unat ?off + unat ?bs \<le> unat (cluster_block_offset io x)" if "x \<in> set as" for x
      using cluster_blocks_ordered [OF a(1) _ _ vol(1)] Cons.prems(4,5) that by (simp add: ascending_def)
    have fresh: "\<forall>x \<in> set as. block_key io x \<notin> insert (block_key io a) keys"
      using Cons.prems(4,6) ascending_distinct [OF Cons.prems(5)] block_key_eq [OF _ a(1) vol(1,2)] by auto
    have "\<exists>sc' arr stream segments'.
      collect_clusters X T S fs io last_number b tree1 sc1 = Some (Inr sc') \<and>
      last_segment X S sc' = Inr (arr, stream) \<and> view stream = (C, segments', p) \<and>
      list_all2 extent_for (xview arr) segments' \<and>
      segments_bytes segments' =
        segments_bytes segments1 @ take (unat (sc_size sc1)) (pending sc1 @ chain_bytes io as) \<and>
      (\<exists>m \<ge> unat (sc_size sc1). extents_bytes (xview arr) =
        extents_bytes (xview (sc_data_extents_array sc1)) @ take m (pending sc1 @ chain_bytes io as))"
      by (rule Cons.IH [OF tree1 b(5) Cons.prems(3) _ _ fresh sc1(2-4)])
        (use Cons.prems(4,5,10) sc1(5,6) above in \<open>simp_all add: ascending_def\<close>)
    then obtain sc' arr stream segments' m' where IH:
      "collect_clusters X T S fs io last_number b tree1 sc1 = Some (Inr sc')"
      "last_segment X S sc' = Inr (arr, stream)" "view stream = (C, segments', p)"
      "list_all2 extent_for (xview arr) segments'"
      "segments_bytes segments' =
        segments_bytes segments1 @ take (unat (sc_size sc1)) (pending sc1 @ chain_bytes io as)"
      "unat (sc_size sc1) \<le> m'"
      "extents_bytes (xview arr) =
        extents_bytes (xview (sc_data_extents_array sc1)) @ take m' (pending sc1 @ chain_bytes io as)"
      by blast
    obtain m where m: "unat (sc_size sc) \<le> m" "extents_bytes (xview arr) =
        extents_bytes (xview (sc_data_extents_array sc)) @
        take m (pending sc @ segment_bytes (?off, ?bs) @ chain_bytes io as)"
      using extents [OF IH(6), of "chain_bytes io as"] IH(7) by metis
    have "collect_clusters X T S fs io last_number c tree sc = Some (Inr sc')"
      using collect_clusters_step [OF b(2,3) False check sc1(1) b(4)] b(1) IH(1) by simp
    moreover have chain: "chain_bytes io (a # as) = segment_bytes (?off, ?bs) @ chain_bytes io as"
      by (simp add: chain_bytes_def cluster_bytes_def)
    ultimately show ?thesis
      using IH(2-4) m IH(5) [unfolded bytes] unfolding chain by blast
  qed
qed

section \<open>Getting the stream of a file\<close>

definition stream_volume_ok :: "io_handle \<Rightarrow> bool" where
  "stream_volume_ok io \<longleftrightarrow>
     0 < unat (io_volume_size io) \<and> unat (io_volume_size io) \<le> 2 ^ 53 \<and>
     0 < unat (io_cluster_block_size io) \<and> 0 < unat (io_first_cluster_offset io) \<and>
     io_total_number_of_clusters io \<noteq> 0 \<and>
     unat (io_total_number_of_clusters io) \<le> MEMORY_MAXIMUM_ALLOCATION_SIZE div 4"

abbreviation stream_callbacks :: "read_callback \<times> seek_callback" where
  "stream_callbacks \<equiv> (libfsfat_cluster_block_data_read_segment_data,
     libfsfat_cluster_block_data_seek_segment_offset)"

lemma get_data_stream_start:
  assumes "array_contract T tview" and "stream_contract S view" and "stream_volume_ok io"
    and "fs_io_handle fs = Some io"
    and "last_cluster_number (io_file_system_format io) = Some last_number"
  obtains tree stream where "tree_of_volume T tview io tree {}"
    and "view stream = (stream_callbacks, [], 0)"
    and "libfsfat_file_system_get_data_stream X T S (Some fs) c size0 arr None =
      (case collect_clusters X T S fs io last_number c tree (start_collector size0 arr stream) of
         None \<Rightarrow> None
       | Some (Inl e) \<Rightarrow> Some (Inl e)
       | Some (Inr sc) \<Rightarrow> Some (last_segment X S sc))"
proof -
  have vol: "0 < unat (io_volume_size io)" "unat (io_volume_size io) \<le> 2 ^ 53"
    "0 < unat (io_cluster_block_size io)"
    using assms(3) by (simp_all add: stream_volume_ok_def)
  obtain tree where tree: "libfsfat_block_tree_initialize T None (io_volume_size io)
      (io_cluster_block_size io) = Inr tree" "tree_of_volume T tview io tree {}"
    by (rule new_tree_of_volume [OF assms(1) vol(2,1,3)])
  obtain stream where stream: "stream_initialize S libfsfat_cluster_block_data_read_segment_data
      libfsfat_cluster_block_data_seek_segment_offset = Some stream"
    "view stream = (stream_callbacks, [], 0)"
    by (rule stream_new [OF assms(2)])
  show ?thesis
    by (rule that [OF tree(2) stream(2)])
      (use assms(3-5) tree(1) stream(1) in
        \<open>simp add: libfsfat_file_system_get_data_stream_def stream_volume_ok_def\<close>)
qed

lemma get_data_stream_path:
  assumes "array_contract X xview" and "array_contract T tview" and "stream_contract S view"
    and "stream_volume_ok io" and "fs_io_handle fs = Some io"
    and "last_cluster_number (io_file_system_format io) = Some last_number"
    and "cluster_path (fs_allocation_table fs) last_number c cs c'"
    and "\<not> (2 \<le> c' \<and> c' < last_number)"
    and "\<forall>a \<in> set cs. cluster_in_volume io a" and "ascending cs"
    and "int (length cs) < 2 ^ 31 - 1" and "xview arr = []"
  shows "\<exists>arr' stream segments.
    libfsfat_file_system_get_data_stream X T S (Some fs) c size0 arr None = Some (Inr (arr', stream)) \<and>
    view stream = (stream_callbacks, segments, 0) \<and> list_all2 extent_for (xview arr') segments \<and>
    segments_bytes segments = take (unat size0) (chain_bytes io cs) \<and>
    (\<exists>m \<ge> unat size0. extents_bytes (xview arr') = take m (chain_bytes io cs))"
proof -
  have vol: "unat (io_volume_size io) \<le> 2 ^ 53" "0 < unat (io_cluster_block_size io)"
    "0 < unat (io_first_cluster_offset io)"
    using assms(4) by (simp_all add: stream_volume_ok_def)
  obtain tree stream where tree: "tree_of_volume T tview io tree {}"
    and stream: "view stream = (stream_callbacks, [], 0)"
    and get: "libfsfat_file_system_get_data_stream X T S (Some fs) c size0 arr None =
      (case collect_clusters X T S fs io last_number c tree (start_collector size0 arr stream) of
         None \<Rightarrow> None
       | Some (Inl e) \<Rightarrow> Some (Inl e)
       | Some (Inr sc) \<Rightarrow> Some (last_segment X S sc))"
    by (rule get_data_stream_start [OF assms(2-6)])
  let ?sc = "start_collector size0 arr stream"
  have start: "collector_ok ?sc" "pending ?sc = []" "view (sc_data_stream ?sc) = (stream_callbacks, [], 0)"
    "list_all2 extent_for (xview (sc_data_extents_array ?sc)) []"
    using stream assms(12) by (simp_all add: start_collector_def collector_ok_def pending_def)
  have "\<exists>sc' arr' stream segments.
      collect_clusters X T S fs io last_number c tree ?sc = Some (Inr sc') \<and>
      last_segment X S sc' = Inr (arr', stream) \<and> view stream = (stream_callbacks, segments, 0) \<and>
      list_all2 extent_for (xview arr') segments \<and>
      segments_bytes segments =
        segments_bytes [] @ take (unat (sc_size ?sc)) (pending ?sc @ chain_bytes io cs) \<and>
      (\<exists>m \<ge> unat (sc_size ?sc). extents_bytes (xview arr') =
        extents_bytes (xview (sc_data_extents_array ?sc)) @ take m (pending ?sc @ chain_bytes io cs))"
    by (rule collect_clusters_path [OF assms(1,3) vol tree assms(7-10) _ start(1,3,4)])
      (use assms(11) in \<open>simp_all add: start_collector_def\<close>)
  then show ?thesis
    using get start(2) assms(12) by (auto simp: segments_bytes_def extents_bytes_def start_collector_def)
qed

text \<open>
  C10. The stream of a file is the content of its chain of clusters: if the clusters of the
  chain lie one behind the other in the order of the volume, the bytes of the segments of
  the stream are the bytes of the clusters, in the order of the chain and cut to the size.
  There is an extent for every segment, with the same offset; the extents are not cut to
  the size of the file.
\<close>

theorem file_stream_content:
  assumes "array_contract X xview" and "array_contract T tview" and "stream_contract S view"
    and "stream_volume_ok io" and "fs_io_handle fs = Some io"
    and "last_cluster_number (io_file_system_format io) = Some last_number"
    and "cluster_path (fs_allocation_table fs) last_number c cs c'"
    and "\<not> (2 \<le> c' \<and> c' < last_number)"
    and "\<forall>a \<in> set cs. cluster_in_volume io a" and "ascending cs"
    and "int (length cs) < 2 ^ 31 - 1" and "xview arr = []"
  shows "\<exists>arr' stream segments.
    libfsfat_file_system_get_data_stream X T S (Some fs) c size0 arr None = Some (Inr (arr', stream)) \<and>
    view stream = (stream_callbacks, segments, 0) \<and> list_all2 extent_for (xview arr') segments \<and>
    segments_bytes segments = take (unat size0) (chain_bytes io cs) \<and>
    (\<exists>m \<ge> unat size0. extents_bytes (xview arr') = take m (chain_bytes io cs))"
  by (rule get_data_stream_path [OF assms])

text \<open>
  A chain that goes back is not followed: if the second of two clusters of a file lies
  in front of the first, the stream has one segment, which starts at the first cluster and
  runs on into what lies behind it; no byte of the second cluster is read.
\<close>

theorem file_stream_backward_jump:
  assumes "array_contract X xview" and "array_contract T tview" and "stream_contract S view"
    and "stream_volume_ok io" and "fs_io_handle fs = Some io"
    and "last_cluster_number (io_file_system_format io) = Some last_number"
    and "cluster_path (fs_allocation_table fs) last_number a [a, b] c'"
    and "\<not> (2 \<le> c' \<and> c' < last_number)"
    and "cluster_in_volume io a" and "cluster_in_volume io b" and "unat b < unat a"
    and "0 < unat size0" and "xview arr = []"
  shows "\<exists>arr' stream n.
    libfsfat_file_system_get_data_stream X T S (Some fs) a size0 arr None = Some (Inr (arr', stream)) \<and>
    view stream = (stream_callbacks, [(cluster_block_offset io a, n)], 0) \<and>
    unat n = min (unat size0) (2 * unat (io_cluster_block_size io)) \<and>
    set (segment_bytes (cluster_block_offset io a, n)) \<inter> set (cluster_bytes io b) = {}"
proof -
  let ?off = "cluster_block_offset io" and ?bs = "io_cluster_block_size io"
  have vol: "unat (io_volume_size io) \<le> 2 ^ 53" "0 < unat ?bs" "0 < unat (io_first_cluster_offset io)"
    using assms(4) by (simp_all add: stream_volume_ok_def)
  obtain tree stream where tree: "tree_of_volume T tview io tree {}"
    and stream: "view stream = (stream_callbacks, [], 0)"
    and get: "libfsfat_file_system_get_data_stream X T S (Some fs) a size0 arr None =
      (case collect_clusters X T S fs io last_number a tree (start_collector size0 arr stream) of
         None \<Rightarrow> None
       | Some (Inl e) \<Rightarrow> Some (Inl e)
       | Some (Inr sc) \<Rightarrow> Some (last_segment X S sc))"
    by (rule get_data_stream_start [OF assms(2-6)])
  have ab: "block_key io a \<noteq> block_key io b" "a \<noteq> b"
    using block_key_eq [OF assms(9,10) vol(1,2)] assms(11) by auto
  obtain tree1 where tree1: "libfsfat_file_system_check_if_cluster_block_first_read T (Some fs) (Some tree) a
      (?off a) = Some (Inr tree1)" "tree_of_volume T tview io tree1 {block_key io a}"
    by (rule check_first_read_new [OF tree assms(9) vol(1,2)]) simp_all
  obtain tree2 where tree2: "libfsfat_file_system_check_if_cluster_block_first_read T (Some fs) (Some tree1) b
      (?off b) = Some (Inr tree2)"
    by (rule check_first_read_new [OF tree1(2) assms(10) vol(1,2)]) (use ab in auto)
  note off = cluster_block_offset_exact [OF assms(9) vol(1)]
  have bounds: "unat (?off a) + unat ?bs \<le> 2 ^ 53" "0 < unat (?off a)"
    using assms(9) vol off by (auto simp: cluster_in_volume_def Let_def)
  have behind: "unat (?off b) + unat ?bs \<le> unat (?off a)"
    by (rule cluster_blocks_ordered [OF assms(10,9,11) vol(1)])
  let ?stop = "?off a + ?bs + ?bs"
  have end1: "unat (?off a + ?bs) = unat (?off a) + unat ?bs" using bounds by (subst unat_add_exact) simp_all
  have end2: "unat ?stop = unat (?off a) + 2 * unat ?bs"
    using bounds end1 by (subst unat_add_exact) simp_all
  let ?sc = "(start_collector size0 arr stream)\<lparr> sc_segment_start_offset := ?off a, sc_segment_end_offset := ?stop \<rparr>"
  have first: "collect_cluster X S io (?off a) (start_collector size0 arr stream) =
      Inr ((start_collector size0 arr stream)\<lparr> sc_segment_start_offset := ?off a,
        sc_segment_end_offset := ?off a + ?bs \<rparr>)"
    by (simp add: collect_cluster_def start_collector_def)
  have "\<not> ?off a + ?bs <s ?off b"
    using behind bounds end1 by (subst sless_unat) simp_all
  then have second: "collect_cluster X S io (?off b) ((start_collector size0 arr stream)\<lparr>
      sc_segment_start_offset := ?off a, sc_segment_end_offset := ?off a + ?bs \<rparr>) = Inr ?sc"
    using bounds(2) by (auto simp: collect_cluster_def start_collector_def)
  have "size0 \<noteq> 0" using assms(12) by auto
  then have sizes: "sc_size (start_collector size0 arr stream) \<noteq> 0"
    "sc_size ((start_collector size0 arr stream)\<lparr> sc_segment_start_offset := x, sc_segment_end_offset := y \<rparr>) \<noteq> 0"
    for x y by (simp_all add: start_collector_def)
  have path: "2 \<le> a" "a < last_number"
    "libfsfat_allocation_table_get_cluster_number_by_index (fs_allocation_table fs) (sint a) = Inr b"
    "2 \<le> b" "b < last_number"
    "libfsfat_allocation_table_get_cluster_number_by_index (fs_allocation_table fs) (sint b) = Inr c'"
    using assms(7) by auto
  have walk: "collect_clusters X T S fs io last_number a tree (start_collector size0 arr stream) =
      Some (Inr ?sc)"
    unfolding collect_clusters_step [OF path(1,2) sizes(1) tree1(1) first path(3)]
      collect_clusters_step [OF path(4,5) sizes(2) tree2 second path(6)]
    by (rule collect_clusters_stop) (use assms(8) in simp)
  have ok: "collector_ok ?sc" "sc_segment_start_offset ?sc \<noteq> 0" "sc_size ?sc > 0"
    using bounds end2 \<open>size0 \<noteq> 0\<close> by (auto simp: collector_ok_def start_collector_def word_gt_0)
  have pend: "length (pending ?sc) = 2 * unat ?bs"
    using bounds(2) end2 by (auto simp: pending_def)
  obtain arr' s' n e where app: "append_segment X S ?sc =
      Inr (?sc\<lparr> sc_data_extents_array := arr', sc_data_stream := s' \<rparr>, n)"
    and s': "view s' = (stream_callbacks, [] @ [(sc_segment_start_offset ?sc, n)], 0)"
    and n: "unat n = min (unat (sc_size ?sc)) (length (pending ?sc))"
    by (rule append_segment_ok [OF assms(1,3) ok(1,2), of stream_callbacks "[]" 0])
      (use stream assms(13) in \<open>simp_all add: start_collector_def\<close>)
  have "last_segment X S ?sc = Inr (arr', s')" using app ok by (simp add: last_segment_def)
  then have "libfsfat_file_system_get_data_stream X T S (Some fs) a size0 arr None = Some (Inr (arr', s'))"
    using get walk by simp
  moreover have "view s' = (stream_callbacks, [(?off a, n)], 0)" using s' by simp
  moreover have "unat n = min (unat size0) (2 * unat ?bs)"
    using n pend by (simp add: start_collector_def)
  moreover have "set (segment_bytes (?off a, n)) \<inter> set (cluster_bytes io b) = {}"
    using behind by (auto simp: segment_bytes_def cluster_bytes_def)
  ultimately show ?thesis by blast
qed

lemma collect_clusters_returns:
  assumes "tree_inv T view tree"
  shows "\<exists>r. collect_clusters X T S fs io last_number c tree sc = Some r"
  using assms
proof (induction "block_tree.unvisited T (2 ^ 53) tree" arbitrary: c tree sc rule: less_induct)
  case less
  let ?off = "cluster_block_offset io c"
  from less.prems show ?case
  proof (cases rule: check_first_read_cases [where fs = fs and c = c and off = ?off])
    case (error e)
    then show ?thesis by (subst collect_clusters.simps) (simp add: Let_def)
  next
    case (first_read tree')
    have "tree_key tree ?off < 2 ^ 53" by (rule tree_range_small(2) [OF less.prems first_read(2)])
    then have "{..<2 ^ 53} - block_tree.visited T tree' \<subset> {..<2 ^ 53} - block_tree.visited T tree"
      using first_read(3,7) by auto
    then have "block_tree.unvisited T (2 ^ 53) tree' < block_tree.unvisited T (2 ^ 53) tree"
      unfolding block_tree.unvisited_def by (rule psubset_card_mono [rotated]) simp
    from less.hyps [OF this first_read(4)] show ?thesis
      using first_read(1) by (subst collect_clusters.simps) (auto simp: Let_def split: sum.splits)
  qed
qed

text \<open>
  Getting the stream of a file always returns, whatever the allocation table holds: a
  cluster that is met a second time ends the walk with an error.
\<close>

theorem file_stream_returns:
  assumes "array_contract T tview" and "fs_io_handle fs = Some io" and "unat (io_volume_size io) \<le> 2 ^ 53"
  shows "\<exists>r. libfsfat_file_system_get_data_stream X T S (Some fs) c size0 arr stream = Some r"
proof (cases "libfsfat_block_tree_initialize T None (io_volume_size io) (io_cluster_block_size io)")
  case (Inl e)
  then show ?thesis
    using assms(2) by (simp add: libfsfat_file_system_get_data_stream_def split: option.split)
next
  case (Inr tree)
  have "tree_inv T tview tree" by (rule new_tree_inv [OF assms(1,3) Inr])
  then have "collect_clusters X T S fs io last_number c tree sc \<noteq> None" for last_number sc
    using collect_clusters_returns by (metis option.distinct(1))
  then show ?thesis
    using Inr assms(2)
    by (simp add: libfsfat_file_system_get_data_stream_def del: not_None_eq split: option.split sum.split)
qed

section \<open>Reading a stream\<close>

definition bytes_at :: "u8 list \<Rightarrow> nat list \<Rightarrow> u8 list" where
  "bytes_at img positions = map ((!) img) positions"

lemma bytes_at_upt: "i + k \<le> length img \<Longrightarrow> bytes_at img [i..<i + k] = take k (drop i img)"
  by (auto simp: bytes_at_def intro!: nth_equalityI)

lemma read_segments_image:
  assumes "length img \<le> 2 ^ 53"
    and "\<forall>x \<in> set (segments_bytes segments). x < length img"
  shows "read_segments libfsfat_cluster_block_data_read_segment_data
      libfsfat_cluster_block_data_seek_segment_offset (image_bfio img) segments i n =
    Some (take n (drop i (bytes_at img (segments_bytes segments))))"
  using assms(2)
proof (induction segments arbitrary: i n)
  case Nil
  then show ?case by (simp add: segments_bytes_def bytes_at_def)
next
  case (Cons s segments)
  obtain offset size0 where s: "s = (offset, size0)" by (cases s)
  let ?here = "bytes_at img (segment_bytes s)" and ?k = "min n (unat size0 - i)"
  have inside: "unat offset + unat size0 \<le> length img" if "0 < unat size0"
  proof -
    have "unat offset \<le> unat offset + unat size0 - 1" using that by linarith
    then have "unat offset + unat size0 - 1 \<in> set (segments_bytes (s # segments))"
      using that by (simp add: s segments_bytes_def segment_bytes_def)
    then have "unat offset + unat size0 - 1 < length img" using Cons.prems by blast
    then show ?thesis using that by simp
  qed
  have here: "length ?here = unat size0" by (simp add: s segment_bytes_def bytes_at_def)
  have rest: "bytes_at img (segments_bytes (s # segments)) = ?here @ bytes_at img (segments_bytes segments)"
    by (simp add: segments_bytes_def bytes_at_def)
  have IH: "read_segments libfsfat_cluster_block_data_read_segment_data
      libfsfat_cluster_block_data_seek_segment_offset (image_bfio img) segments j m =
    Some (take m (drop j (bytes_at img (segments_bytes segments))))" for j m
    using Cons by (simp add: segments_bytes_def)
  show ?case
  proof (cases "n = 0 \<or> unat size0 \<le> i")
    case True
    then show ?thesis using IH here unfolding rest by (auto simp: s)
  next
    case False
    then have inside: "unat offset + unat size0 \<le> length img" by (intro inside) simp
    have pos: "unat (offset + of_nat i) = unat offset + i"
      using False inside assms(1) by (subst unat_add_exact) simp_all
    then have seek: "libfsfat_cluster_block_data_seek_segment_offset Some (offset + of_nat i) = Inr (offset + of_nat i)"
      using False inside assms(1)
      by (simp add: libfsfat_cluster_block_data_seek_segment_offset_def sless_zero_iff)
    have "?k \<le> unat size0" "unat size0 \<le> 2 ^ 53" using inside assms(1) by simp_all
    then have small: "?k \<le> SSIZE_MAX" by (simp only: SSIZE_MAX_def) simp
    have read: "libfsfat_cluster_block_data_read_segment_data (image_bfio img) (offset + of_nat i) (Some ?k) =
        Inr (take ?k (drop (unat offset + i) img))"
      using False inside assms(1) pos small
      by (simp add: libfsfat_cluster_block_data_read_segment_data_def image_bfio_def sless_zero_iff
        del: min_less_iff_conj)
    have data: "take ?k (drop (unat offset + i) img) = take n (drop i ?here)"
      using bytes_at_upt [OF inside] False
      by (simp add: s segment_bytes_def drop_take add.commute)
    have size0: "length (take ?k (drop (unat offset + i) img)) = ?k" using False inside by simp
    have left: "take (n - ?k) (bytes_at img (segments_bytes segments)) =
        take (n - length (drop i ?here)) (bytes_at img (segments_bytes segments))"
      using here by (simp add: min_def)
    show ?thesis
      using False seek read size0 IH left here [unfolded s]
      unfolding s by (simp add: Let_def data [unfolded s] rest [unfolded s])
  qed
qed

section \<open>A concrete volume\<close>

text \<open>
  A FAT-16 volume of 256 bytes with clusters of 32 bytes from offset 32 on. The file of the
  first witness has the clusters 2, 3 and 5, the file of the second the clusters 5 and 2.
\<close>

definition stream_witness_io :: io_handle where
  "stream_witness_io = io_handle_zero\<lparr> io_volume_size := 256, io_file_system_format := FORMAT_FAT16,
     io_cluster_block_size := 32, io_total_number_of_clusters := 6, io_first_cluster_offset := 32 \<rparr>"

definition stream_witness_fs :: "u32 list \<Rightarrow> (nat option list, unit) file_system" where
  "stream_witness_fs table =
     \<lparr> fs_io_handle = Some stream_witness_io,
       fs_allocation_table = Some \<lparr> number_of_cluster_numbers = 6, cluster_numbers = table \<rparr>,
       fs_reversed_allocation_table = None, fs_cache_timestamp = 0, fs_directory_cache = (),
       fs_root_directory = None \<rparr>"

lemma stream_witness:
  "stream_volume_ok stream_witness_io" "fs_io_handle (stream_witness_fs t) = Some stream_witness_io"
  "last_cluster_number (io_file_system_format stream_witness_io) = Some 0xfff0"
  "\<forall>a \<in> set [2, 3, 5]. cluster_in_volume stream_witness_io a"
proof -
  have "find_sub_node_size 256 32 = 32"
    by (simp add: find_sub_node_size.simps BLOCK_TREE_NUMBER_OF_SUB_NODES_def)
  then show "\<forall>a \<in> set [2, 3, 5]. cluster_in_volume stream_witness_io a"
    by (simp add: cluster_in_volume_def stream_witness_io_def io_handle_zero_def)
qed (simp_all add: stream_witness_fs_def stream_witness_io_def io_handle_zero_def last_cluster_number_def
  stream_volume_ok_def MEMORY_MAXIMUM_ALLOCATION_SIZE_def)

lemma stream_witness_paths:
  "cluster_path (fs_allocation_table (stream_witness_fs [0, 0, 3, 5, 0, 0xffff])) 0xfff0 2 [2, 3, 5] 0xffff"
  "cluster_path (fs_allocation_table (stream_witness_fs [0, 0, 0xffff, 0, 0, 2])) 0xfff0 5 [5, 2] 0xffff"
  by (simp_all add: stream_witness_fs_def libfsfat_allocation_table_get_cluster_number_by_index_def
    sint_32_small)

theorem file_stream_content_witness:
  "\<exists>arr stream segments.
    libfsfat_file_system_get_data_stream list_array list_array list_stream
      (Some (stream_witness_fs [0, 0, 3, 5, 0, 0xffff])) 2 80 [] None = Some (Inr (arr, stream)) \<and>
    stream = (stream_callbacks, segments, 0) \<and>
    segments_bytes segments = [32..<96] @ [128..<144]"
proof -
  have "chain_bytes stream_witness_io [2, 3, 5] = [32..<64] @ [64..<96] @ [128..<160]"
    by (simp add: chain_bytes_def cluster_bytes_def segment_bytes_def cluster_block_offset_def
      stream_witness_io_def io_handle_zero_def)
  moreover have "[32..<64] @ [64..<96] = ([32..<96] :: nat list)"
    using upt_add_eq_append [of 32 64 32] by simp
  ultimately have "take (unat (80 :: u64)) (chain_bytes stream_witness_io [2, 3, 5]) = [32..<96] @ [128..<144]"
    by (simp add: append_assoc [symmetric] take_upt del: append_assoc)
  then show ?thesis
    using file_stream_content [OF list_array_contract list_array_contract list_stream_contract
        stream_witness(1-3) stream_witness_paths(1) _ stream_witness(4), of "[]" 80]
    by (auto simp: ascending_def)
qed

theorem file_stream_backward_jump_witness:
  "\<exists>arr stream n.
    libfsfat_file_system_get_data_stream list_array list_array list_stream
      (Some (stream_witness_fs [0, 0, 0xffff, 0, 0, 2])) 5 64 [] None = Some (Inr (arr, stream)) \<and>
    stream = (stream_callbacks, [(cluster_block_offset stream_witness_io 5, n)], 0) \<and> unat n = 64"
proof -
  have "unat (io_cluster_block_size stream_witness_io) = 32"
    by (simp add: stream_witness_io_def io_handle_zero_def)
  moreover have "cluster_in_volume stream_witness_io 5" "cluster_in_volume stream_witness_io 2"
    using stream_witness(4) by simp_all
  ultimately show ?thesis
    using file_stream_backward_jump [OF list_array_contract list_array_contract list_stream_contract
        stream_witness(1-3) stream_witness_paths(2), of 64 "[]"]
    by fastforce
qed

theorem file_stream_returns_witness:
  "\<exists>r. libfsfat_file_system_get_data_stream list_array list_array list_stream
     (Some (stream_witness_fs [0, 0, 3, 2, 0, 0])) 2 640 [] None = Some r"
  by (rule file_stream_returns [OF list_array_contract stream_witness(2)])
    (simp add: stream_witness_io_def io_handle_zero_def)

end
