(* ===== verification/Directory_Invariant.thy ===== *)
theory Directory_Invariant
  imports File_System
begin

text \<open>
  The invariant of the directories that \<^verbatim>\<open>libfsfat_file_system.c\<close> reads: the arrays
  and roles of a directory refer to entries of its store, which are well formed, and the
  name entries of an entry are entries of the same store. Every step of the readers keeps
  it, for any volume; so the operations on a directory are safe.
\<close>

section \<open>Well-formed directories\<close>

definition addresses_below :: "('arr \<Rightarrow> nat option list) \<Rightarrow> nat \<Rightarrow> 'arr \<Rightarrow> bool" where
  "addresses_below view n arr \<longleftrightarrow> (\<forall>x \<in> set (view arr). \<exists>a < n. x = Some a)"

definition stored_entry_ok ::
  "('arr \<Rightarrow> nat option list) \<Rightarrow> nat \<Rightarrow> 'arr directory_entry \<Rightarrow> bool" where
  "stored_entry_ok view n de \<longleftrightarrow>
     entry_wf de \<and> (\<forall>arr. de_name_entries_array de = Some arr \<longrightarrow> addresses_below view n arr)"

definition directory_wf :: "('arr \<Rightarrow> nat option list) \<Rightarrow> 'arr directory \<Rightarrow> bool" where
  "directory_wf view d \<longleftrightarrow>
     (\<forall>a < dir_next d. \<exists>e. dir_store d a = Some e) \<and>
     (\<forall>a e. dir_store d a = Some e \<longrightarrow> stored_entry_ok view (dir_next d) e) \<and>
     addresses_below view (dir_next d) (dir_entries_array d) \<and>
     addresses_below view (dir_next d) (dir_file_entries_array d) \<and>
     (\<forall>a. dir_self_entry d = Some a \<or> dir_parent_entry d = Some a \<or> dir_volume_label_entry d = Some a
        \<longrightarrow> a < dir_next d)"

definition reader_wf :: "('arr \<Rightarrow> nat option list) \<Rightarrow> 'arr directory_reader \<Rightarrow> bool" where
  "reader_wf view st \<longleftrightarrow>
     directory_wf view (dr_directory st) \<and>
     (\<forall>arr. dr_name_entries_array st = Some arr \<longrightarrow>
        addresses_below view (dir_next (dr_directory st)) arr)"

lemma addresses_below_mono: "addresses_below view n arr \<Longrightarrow> n \<le> m \<Longrightarrow> addresses_below view m arr"
  unfolding addresses_below_def by (meson order_less_le_trans)

lemma addresses_below_append:
  "array_contract A view \<Longrightarrow> array_append_entry A arr (Some a) = Some arr' \<Longrightarrow> a < n \<Longrightarrow>
   addresses_below view n arr \<Longrightarrow> addresses_below view n arr'"
  by (simp add: addresses_below_def array_appended)

lemma addresses_below_new:
  "array_contract A view \<Longrightarrow> array_initialize A 0 = Some arr \<Longrightarrow> addresses_below view n arr"
  by (simp add: addresses_below_def array_initialized)

lemma directory_wfD:
  assumes "directory_wf view d"
  shows "a < dir_next d \<Longrightarrow> \<exists>e. dir_store d a = Some e"
    and "dir_store d a = Some e \<Longrightarrow> stored_entry_ok view (dir_next d) e"
    and "addresses_below view (dir_next d) (dir_entries_array d)"
    and "addresses_below view (dir_next d) (dir_file_entries_array d)"
    and "dir_self_entry d = Some a \<Longrightarrow> a < dir_next d"
    and "dir_parent_entry d = Some a \<Longrightarrow> a < dir_next d"
    and "dir_volume_label_entry d = Some a \<Longrightarrow> a < dir_next d"
  using assms unfolding directory_wf_def by blast+

lemma names_stored_directory:
  assumes "directory_wf view d" and "addresses_below view (dir_next d) arr"
  shows "names_stored view (dir_store d) arr"
  unfolding names_stored_def
proof
  fix x assume "x \<in> set (view arr)"
  then obtain a where a: "a < dir_next d" "x = Some a"
    using assms(2) unfolding addresses_below_def by blast
  obtain e where e: "dir_store d a = Some e" using directory_wfD(1) [OF assms(1) a(1)] by blast
  then have "entry_wf e"
    using directory_wfD(2) [OF assms(1)] by (simp add: stored_entry_ok_def)
  then show "\<exists>a e. x = Some a \<and> dir_store d a = Some e \<and> length (de_name_data e) = 32"
    using a e by (simp add: entry_wf_def)
qed

subsection \<open>Updates that keep a directory well formed\<close>

lemma directory_wf_put:
  "directory_wf view d \<Longrightarrow> a < dir_next d \<Longrightarrow> stored_entry_ok view (dir_next d) de \<Longrightarrow>
   directory_wf view (put_entry a de d)"
  by (simp add: directory_wf_def put_entry_def)

lemma directory_wf_new:
  assumes "directory_wf view d" and "stored_entry_ok view (dir_next d) de"
  shows "directory_wf view (new_entry de d)"
  using assms addresses_below_mono [of view "dir_next d" _ "Suc (dir_next d)"]
  by (auto simp: directory_wf_def new_entry_def put_entry_def stored_entry_ok_def less_Suc_eq)

lemma directory_wf_files:
  "directory_wf view d \<Longrightarrow> addresses_below view (dir_next d) arr \<Longrightarrow>
   directory_wf view (d\<lparr> dir_file_entries_array := arr \<rparr>)"
  by (simp add: directory_wf_def)

lemma directory_wf_entries:
  "directory_wf view d \<Longrightarrow> addresses_below view (dir_next d) arr \<Longrightarrow>
   directory_wf view (d\<lparr> dir_entries_array := arr \<rparr>)"
  by (simp add: directory_wf_def)

lemma directory_wf_roles:
  assumes "directory_wf view d" and "a < dir_next d"
  shows "directory_wf view (d\<lparr> dir_self_entry := Some a \<rparr>)"
    and "directory_wf view (d\<lparr> dir_parent_entry := Some a \<rparr>)"
    and "directory_wf view (d\<lparr> dir_volume_label_entry := Some a \<rparr>)"
  using assms by (auto simp: directory_wf_def)

lemma put_entry_simps [simp]:
  "dir_next (put_entry a de d) = dir_next d"
  "dir_entries_array (put_entry a de d) = dir_entries_array d"
  "dir_file_entries_array (put_entry a de d) = dir_file_entries_array d"
  "dir_self_entry (put_entry a de d) = dir_self_entry d"
  "dir_parent_entry (put_entry a de d) = dir_parent_entry d"
  "dir_volume_label_entry (put_entry a de d) = dir_volume_label_entry d"
  "dir_store (put_entry a de d) = (dir_store d)(a \<mapsto> de)"
  by (simp_all add: put_entry_def)

lemma new_entry_simps [simp]:
  "dir_next (new_entry de d) = Suc (dir_next d)"
  "dir_entries_array (new_entry de d) = dir_entries_array d"
  "dir_file_entries_array (new_entry de d) = dir_file_entries_array d"
  "dir_self_entry (new_entry de d) = dir_self_entry d"
  "dir_parent_entry (new_entry de d) = dir_parent_entry d"
  "dir_volume_label_entry (new_entry de d) = dir_volume_label_entry d"
  "dir_store (new_entry de d) = (dir_store d)(dir_next d \<mapsto> de)"
  by (simp_all add: new_entry_def)

section \<open>Names\<close>

lemma name_of_segments_wf:
  assumes "entry_wf de" and "length name = n" and "even n" and "n < 2 ^ 32"
  shows "entry_wf (de\<lparr> de_name := Some (name @ [0, 0]),
    de_name_size := of_nat (find_name_end (name @ [0, 0]) (n + 2) 0), de_is_unicode := 1 \<rparr>)"
proof -
  have "find_name_end (name @ [0, 0]) (n + 2) 0 \<le> n + 2"
    using find_name_end_bounds [of 0 "n + 2" "name @ [0, 0]"] assms(3) by simp
  then have "unat (of_nat (find_name_end (name @ [0, 0]) (n + 2) 0) :: u64) \<le> n + 2"
    using assms(4) by (subst unat_of_nat_64) simp_all
  then show ?thesis using assms(1,2) by (simp add: entry_wf_def)
qed

lemma get_vfat_name_wf:
  assumes "array_contract A view" and "names_stored view store arr" and "entry_wf de"
    and "libfsfat_directory_entry_get_name_from_vfat_long_file_name_entries A store (Some de) arr = Inr de'"
  shows "entry_wf de'" and "de_name_entries_array de' = de_name_entries_array de"
proof -
  let ?n = "length (view arr)"
  have name: "de_name de = None" and n: "?n \<le> 20"
    using assms(4)
    by (auto simp: libfsfat_directory_entry_get_name_from_vfat_long_file_name_entries_def
      array_number [OF assms(1)] split: if_splits)
  obtain segments where segments: "copy_name_segments A store arr 26 (rev [0..int ?n - 1]) = Inr segments"
    "length segments = 26 * ?n"
    using copy_name_segments_stored [OF assms(1,2), of 26 "rev [0..int ?n - 1]"] by auto
  have size0: "nat (26 * int ?n + 2) = 26 * ?n + 2" by simp
  have de': "de' = de\<lparr> de_name := Some (segments @ [0, 0]),
      de_name_size := of_nat (find_name_end (segments @ [0, 0]) (26 * ?n + 2) 0), de_is_unicode := 1 \<rparr>"
    using assms(4) segments name unfolding size0 [symmetric]
    by (auto simp: libfsfat_directory_entry_get_name_from_vfat_long_file_name_entries_def
      array_number [OF assms(1)] Let_def split: if_splits)
  show "de_name_entries_array de' = de_name_entries_array de" using de' by simp
  show "entry_wf de'"
    unfolding de' by (rule name_of_segments_wf [OF assms(3) segments(2)]) (use n in simp_all)
qed

section \<open>The steps of the readers keep the invariant\<close>

lemma entry_wf_fields [simp]:
  "entry_wf (de\<lparr> de_identifier := i \<rparr>) = entry_wf de"
  "entry_wf (de\<lparr> de_name_entries_array := arr \<rparr>) = entry_wf de"
  "entry_wf (de\<lparr> de_data_start_cluster := c \<rparr>) = entry_wf de"
  "entry_wf (de\<lparr> de_data_size := s \<rparr>) = entry_wf de"
  "entry_wf (de\<lparr> de_valid_data_size := v \<rparr>) = entry_wf de"
  by (simp_all add: entry_wf_def split: option.split)

lemma reader_wfD:
  assumes "reader_wf view st"
  shows "directory_wf view (dr_directory st)"
    and "dr_name_entries_array st = Some arr \<Longrightarrow> addresses_below view (dir_next (dr_directory st)) arr"
  using assms by (simp_all add: reader_wf_def)

lemma add_short_name_entry_wf:
  assumes contract: "array_contract A view" and wf: "reader_wf view st"
    and a: "a < dir_next (dr_directory st)" and de: "stored_entry_ok view (dir_next (dr_directory st)) de"
    and add: "add_short_name_entry A offset a de st = Inr st'"
  shows "reader_wf view st'" and "dir_next (dr_directory st') = dir_next (dr_directory st)"
proof -
  let ?d = "dr_directory st" and ?de = "de\<lparr> de_identifier := offset \<rparr>"
  note d = reader_wfD(1) [OF wf]
  obtain de' files where named: "(case dr_name_entries_array st of
      None \<Rightarrow> Inr ?de
    | Some arr \<Rightarrow>
        (case libfsfat_directory_entry_get_name_from_vfat_long_file_name_entries A (dir_store ?d) (Some ?de) arr of
           Inl e \<Rightarrow> Inl RUNTIME_GET_FAILED | Inr de \<Rightarrow> Inr de)) = Inr de'"
    and files: "array_append_entry A (dir_file_entries_array ?d) (Some a) = Some files"
    and st': "st' = st\<lparr> dr_directory := (put_entry a de' ?d)\<lparr> dir_file_entries_array := files \<rparr>,
      dr_name_entries_array := None \<rparr>"
    using add by (auto simp: add_short_name_entry_def Let_def split: sum.splits option.splits)
  have "entry_wf de' \<and> de_name_entries_array de' = de_name_entries_array de"
  proof (cases "dr_name_entries_array st")
    case None
    then show ?thesis using named de by (auto simp: stored_entry_ok_def)
  next
    case (Some arr)
    have "names_stored view (dir_store ?d) arr"
      by (rule names_stored_directory [OF d reader_wfD(2) [OF wf Some]])
    then show ?thesis
      using get_vfat_name_wf [OF contract, of "dir_store ?d" arr ?de de'] named Some de
      by (auto simp: stored_entry_ok_def split: sum.splits)
  qed
  then have "stored_entry_ok view (dir_next ?d) de'" using de by (simp add: stored_entry_ok_def)
  then have "directory_wf view (put_entry a de' ?d)" by (rule directory_wf_put [OF d a])
  moreover have "addresses_below view (dir_next ?d) files"
    by (rule addresses_below_append [OF contract files a directory_wfD(4) [OF d]])
  ultimately show "reader_wf view st'"
    using directory_wf_files [of view "put_entry a de' ?d"] st' by (simp add: reader_wf_def)
  show "dir_next (dr_directory st') = dir_next ?d" using st' by simp
qed

lemma add_long_name_entry_wf:
  assumes contract: "array_contract A view" and wf: "reader_wf view st"
    and a: "a < dir_next (dr_directory st)" and add: "add_long_name_entry A a de st = Inr st'"
  shows "reader_wf view st'" and "dir_next (dr_directory st') = dir_next (dr_directory st)"
proof -
  obtain arr arr' where origin: "array_initialize A 0 = Some arr \<or> dr_name_entries_array st = Some arr"
    and arr: "array_append_entry A arr (Some a) = Some arr'"
    and st': "st' = st\<lparr> dr_name_entries_array := Some arr',
      dr_last_vfat_sequence_number := de_vfat_sequence_number de AND 0x1f \<rparr>"
    using add by (auto simp: add_long_name_entry_def Let_def split: sum.splits option.splits if_splits)
  have "addresses_below view (dir_next (dr_directory st)) arr"
    using origin addresses_below_new [OF contract, of arr] reader_wfD(2) [OF wf, of arr] by blast
  from addresses_below_append [OF contract arr a this] show "reader_wf view st'"
    using wf st' by (simp add: reader_wf_def)
  show "dir_next (dr_directory st') = dir_next (dr_directory st)" using st' by simp
qed

lemma add_data_stream_entry_wf:
  assumes wf: "reader_wf view st" and add: "add_data_stream_entry a de st = Inr st'"
  shows "reader_wf view st'" and "dir_next (dr_directory st') = dir_next (dr_directory st)"
proof -
  let ?d = "dr_directory st"
  note d = reader_wfD(1) [OF wf]
  obtain c fe where c: "dir_store ?d c = Some fe"
    and st': "st' = st\<lparr> dr_data_stream_entry := Some a, dr_directory := put_entry c
      (fe\<lparr> de_data_start_cluster := de_data_start_cluster de, de_data_size := de_data_size de,
          de_valid_data_size := de_valid_data_size de \<rparr>) ?d \<rparr>"
    using add by (auto simp: add_data_stream_entry_def split: if_splits option.splits)
  have ok: "stored_entry_ok view (dir_next ?d) fe" by (rule directory_wfD(2) [OF d c])
  have "directory_wf view (dr_directory st')"
    using d ok st' by (auto simp: directory_wf_def stored_entry_ok_def)
  then show "reader_wf view st'" and "dir_next (dr_directory st') = dir_next (dr_directory st)"
    using wf st' by (simp_all add: reader_wf_def)
qed

lemma add_exfat_file_entry_wf:
  assumes contract: "array_contract A view" and wf: "reader_wf view st"
    and a: "a < dir_next (dr_directory st)" and de: "stored_entry_ok view (dir_next (dr_directory st)) de"
    and add: "add_exfat_file_entry A offset a de st = Inr st'"
  shows "reader_wf view st'" and "dir_next (dr_directory st') = dir_next (dr_directory st)"
proof -
  let ?d = "dr_directory st"
  note d = reader_wfD(1) [OF wf]
  obtain files names where files: "array_append_entry A (dir_file_entries_array ?d) (Some a) = Some files"
    and names: "array_initialize A 0 = Some names"
    and st': "st' = st\<lparr> dr_directory := (put_entry a (de\<lparr> de_identifier := offset,
        de_name_entries_array := Some names \<rparr>) ?d)\<lparr> dir_file_entries_array := files \<rparr>,
      dr_current_file_entry := Some a, dr_data_stream_entry := None \<rparr>"
    using add by (auto simp: add_exfat_file_entry_def Let_def split: option.splits)
  have "stored_entry_ok view (dir_next ?d) (de\<lparr> de_identifier := offset, de_name_entries_array := Some names \<rparr>)"
    using de addresses_below_new [OF contract names] by (simp add: stored_entry_ok_def)
  from directory_wf_put [OF d a this] addresses_below_append [OF contract files a directory_wfD(4) [OF d]]
  show "reader_wf view st'" and "dir_next (dr_directory st') = dir_next ?d"
    using directory_wf_files [of view "put_entry a (de\<lparr> de_identifier := offset,
        de_name_entries_array := Some names \<rparr>) ?d" files] wf st'
    by (simp_all add: reader_wf_def)
qed

lemma add_file_entry_name_wf:
  assumes contract: "array_contract A view" and wf: "reader_wf view st"
    and a: "a < dir_next (dr_directory st)" and add: "add_file_entry_name A a st = Inr st'"
  shows "reader_wf view st'" and "dir_next (dr_directory st') = dir_next (dr_directory st)"
proof -
  let ?d = "dr_directory st"
  note d = reader_wfD(1) [OF wf]
  obtain c fe names names' where c: "dir_store ?d c = Some fe" "de_name_entries_array fe = Some names"
    and names: "array_append_entry A names (Some a) = Some names'"
    and st': "st' = st\<lparr> dr_directory := put_entry c (fe\<lparr> de_name_entries_array := Some names' \<rparr>) ?d \<rparr>"
    using add by (auto simp: add_file_entry_name_def split: option.splits)
  have ok: "stored_entry_ok view (dir_next ?d) fe" by (rule directory_wfD(2) [OF d c(1)])
  have "addresses_below view (dir_next ?d) names'"
    by (rule addresses_below_append [OF contract names a]) (use ok c(2) in \<open>simp add: stored_entry_ok_def\<close>)
  then have "directory_wf view (dr_directory st')"
    using d ok st' by (auto simp: directory_wf_def stored_entry_ok_def)
  then show "reader_wf view st'" and "dir_next (dr_directory st') = dir_next (dr_directory st)"
    using wf st' by (simp_all add: reader_wf_def)
qed

lemma add_volume_label_entry_wf:
  assumes "reader_wf view st" and "a < dir_next (dr_directory st)"
    and "add_volume_label_entry a st = Inr st'"
  shows "reader_wf view st'" and "dir_next (dr_directory st') = dir_next (dr_directory st)"
  using assms directory_wf_roles(3) [of view "dr_directory st" a]
  by (auto simp: add_volume_label_entry_def reader_wf_def split: if_splits)

lemma own_entry_wf:
  assumes "array_contract A view" and "reader_wf view st" and "a < dir_next (dr_directory st)"
    and "own_entry A a st = Inr st'"
  shows "reader_wf view st'"
  using assms directory_wf_entries [of view "dr_directory st"]
    addresses_below_append [OF assms(1) _ assms(3)] directory_wfD(3) [of view "dr_directory st"]
  by (auto simp: own_entry_def reader_wf_def split: option.splits)

lemma classify_entry_wf:
  assumes "array_contract A view" and "reader_wf view st" and "a < dir_next (dr_directory st)"
    and "stored_entry_ok view (dir_next (dr_directory st)) de"
    and "classify_entry A offset a de st = Inr st'"
  shows "reader_wf view st' \<and> dir_next (dr_directory st') = dir_next (dr_directory st)"
proof -
  have roles: "reader_wf view (st\<lparr> dr_directory := (dr_directory st)\<lparr> dir_self_entry := Some a \<rparr> \<rparr>)"
    "reader_wf view (st\<lparr> dr_directory := (dr_directory st)\<lparr> dir_parent_entry := Some a \<rparr> \<rparr>)"
    using assms(2,3) directory_wf_roles [of view "dr_directory st" a] by (simp_all add: reader_wf_def)
  note steps = add_short_name_entry_wf [OF assms(1-4)] add_long_name_entry_wf [OF assms(1-3)]
    add_data_stream_entry_wf [OF assms(2)] add_exfat_file_entry_wf [OF assms(1-4)]
    add_file_entry_name_wf [OF assms(1-3)] add_volume_label_entry_wf [OF assms(2,3)]
  show ?thesis
    using assms(5) assms(2) unfolding classify_entry_def Let_def
    by (auto split: if_splits intro: roles steps)
qed

lemma classify_range_entry_wf:
  assumes "array_contract A view" and "reader_wf view st" and "a < dir_next (dr_directory st)"
    and "stored_entry_ok view (dir_next (dr_directory st)) de"
    and "classify_range_entry A offset a de st = Inr st'"
  shows "reader_wf view st' \<and> dir_next (dr_directory st') = dir_next (dr_directory st)"
  using assms(5) assms(2) unfolding classify_range_entry_def
  by (auto split: if_splits intro: add_short_name_entry_wf [OF assms(1-4)]
    add_long_name_entry_wf [OF assms(1-3)] add_volume_label_entry_wf [OF assms(2,3)])

text \<open>A new entry, as a reader puts it into the store.\<close>

lemma new_entry_wf:
  assumes "reader_wf view st" and "entry_wf de" and "de_name_entries_array de = None"
  shows "reader_wf view (st\<lparr> dr_directory := new_entry de (dr_directory st) \<rparr>)"
    and "stored_entry_ok view n de"
proof -
  show ok: "stored_entry_ok view n de" for n using assms(2,3) by (simp add: stored_entry_ok_def)
  show "reader_wf view (st\<lparr> dr_directory := new_entry de (dr_directory st) \<rparr>)"
    using assms(1) directory_wf_new [OF _ ok] addresses_below_mono [of view _ _ "Suc _"]
    by (auto simp: reader_wf_def)
qed

lemma process_entry_wf:
  assumes "array_contract A view" and "reader_wf view st" and "entry_wf de"
    and "de_name_entries_array de = None" and "process_entry A offset de st = Inr st'"
  shows "reader_wf view st'"
proof -
  let ?st = "st\<lparr> dr_directory := new_entry de (dr_directory st) \<rparr>" and ?a = "dir_next (dr_directory st)"
  obtain st1 where st1: "classify_entry A offset ?a de ?st = Inr st1" "own_entry A ?a st1 = Inr st'"
    using assms(5) by (auto simp: process_entry_def Let_def split: sum.splits)
  have "reader_wf view st1 \<and> dir_next (dr_directory st1) = dir_next (dr_directory ?st)"
    by (rule classify_entry_wf [OF assms(1) new_entry_wf(1) [OF assms(2-4)] _ new_entry_wf(2) [OF assms(2-4)] st1(1)])
      simp
  then show ?thesis using own_entry_wf [OF assms(1) _ _ st1(2)] by simp
qed

lemma process_range_entry_wf:
  assumes "array_contract A view" and "reader_wf view st" and "entry_wf de"
    and "de_name_entries_array de = None" and "process_range_entry A offset de st = Inr st'"
  shows "reader_wf view st'"
proof -
  let ?st = "st\<lparr> dr_directory := new_entry de (dr_directory st) \<rparr>" and ?a = "dir_next (dr_directory st)"
  obtain st1 where st1: "classify_range_entry A offset ?a de ?st = Inr st1" "own_entry A ?a st1 = Inr st'"
    using assms(5) by (auto simp: process_range_entry_def Let_def split: sum.splits)
  have "reader_wf view st1 \<and> dir_next (dr_directory st1) = dir_next (dr_directory ?st)"
    by (rule classify_range_entry_wf [OF assms(1) new_entry_wf(1) [OF assms(2-4)] _
          new_entry_wf(2) [OF assms(2-4)] st1(1)]) simp
  then show ?thesis using own_entry_wf [OF assms(1) _ _ st1(2)] by simp
qed

section \<open>The readers keep the invariant\<close>

lemma read_data_wf:
  assumes "libfsfat_directory_entry_read_data (Some de0) (Some data) fmt = Inr r"
    and "entry_wf de0" and "de_name de0 = None" and "de_name_entries_array de0 = None"
  shows "entry_wf (fst r) \<and> de_name (fst r) = None \<and> de_name_entries_array (fst r) = None"
proof -
  have label: "unat (2 * ucast (x :: u8) :: u64) \<le> 22" if "\<not> 11 < (ucast x :: u64)" for x
  proof -
    have "unat (ucast x :: u64) \<le> 11" using that by (simp add: word_less_nat_alt)
    then show ?thesis by (subst unat_mult_exact) simp_all
  qed
  show ?thesis
    using assms
    by (auto simp: libfsfat_directory_entry_read_data_def Let_def read_entry_defs entry_wf_def
      mult.commute label split: if_splits sum.splits)
qed

lemma read_file_wf:
  assumes "libfsfat_directory_entry_read_file_io_handle bfio (Some de0) offset fmt = Inr r"
    and "entry_wf de0" and "de_name de0 = None" and "de_name_entries_array de0 = None"
  shows "entry_wf (fst r)" and "de_name_entries_array (fst r) = None"
proof -
  obtain data where "libfsfat_directory_entry_read_data (Some de0) (Some data) fmt = Inr r"
    using assms(1) by (auto simp: libfsfat_directory_entry_read_file_io_handle_def
      split: option.splits if_splits sum.splits)
  from read_data_wf [OF this assms(2-4)]
  show "entry_wf (fst r)" and "de_name_entries_array (fst r) = None" by simp_all
qed

lemma entry_zero_wf:
  "entry_wf directory_entry_zero" "de_name directory_entry_zero = None"
  "de_name_entries_array directory_entry_zero = None"
  by (simp_all add: directory_entry_zero_def entry_wf_def)

lemma read_cluster_entries_wf:
  assumes "array_contract A view"
    and "read_cluster_entries A bfio fmt offset end_offset go_on st = Some (Inr r)"
    and "reader_wf view st"
  shows "reader_wf view (fst r)"
proof -
  have "array_contract A view \<longrightarrow> reader_wf view st \<longrightarrow> (\<forall>r'. (Inr r :: (_ \<times> bool) result) = Inr r' \<longrightarrow> reader_wf view (fst r'))"
  proof (rule read_cluster_entries.raw_induct [where P = "\<lambda>A bfio fmt offset end_offset go_on st y.
        array_contract A view \<longrightarrow> reader_wf view st \<longrightarrow> (\<forall>r'. y = Inr r' \<longrightarrow> reader_wf view (fst r'))",
        OF _ assms(2)], intro impI allI)
    fix rec A bfio fmt offset end_offset go_on st y r'
    assume IH: "\<And>bfio fmt offset end_offset go_on st A y.
        rec bfio fmt offset end_offset go_on st A = Some y \<Longrightarrow>
        array_contract bfio view \<longrightarrow> reader_wf view A \<longrightarrow> (\<forall>r'. y = Inr r' \<longrightarrow> reader_wf view (fst r'))"
      and contract: "array_contract A view" and wf: "reader_wf view st" and y: "y = Inr r'"
      and step: "(if offset <s end_offset
       then case libfsfat_directory_entry_initialize None of
         Inl e \<Rightarrow> Some (Inl RUNTIME_INITIALIZE_FAILED)
       | Inr de \<Rightarrow>
           (case libfsfat_directory_entry_read_file_io_handle bfio (Some de) offset fmt of
              Inl e \<Rightarrow> Some (Inl IO_READ_FAILED)
            | Inr r \<Rightarrow>
                if \<not> snd r then Some (Inr (st, False))
                else if de_entry_type (fst r) = TYPE_UNALLOCATED
                then rec A bfio fmt (offset + 32) end_offset True st
                else (case process_entry A offset (fst r) st of
                        Inl e \<Rightarrow> Some (Inl e)
                      | Inr st \<Rightarrow> rec A bfio fmt (offset + 32) end_offset True st))
       else Some (Inr (st, go_on))) = Some y"
    have next_wf: "reader_wf view (fst r')"
      if "rec A bfio fmt (offset + 32) end_offset True st' = Some y" and "reader_wf view st'" for st'
      using IH [OF that(1)] that(2) contract y by blast
    have process: "reader_wf view st'"
      if "libfsfat_directory_entry_read_file_io_handle bfio (Some directory_entry_zero) offset fmt = Inr q"
        and "process_entry A offset (fst q) st = Inr st'" for q st'
      using process_entry_wf [OF contract wf read_file_wf [OF that(1) entry_zero_wf] that(2)] .
    show "reader_wf view (fst r')"
      using step y wf
      by (auto simp: libfsfat_directory_entry_initialize_def split: if_splits sum.splits
        intro: next_wf process)
  qed
  then show ?thesis using assms(1,3) by blast
qed

lemma read_directory_clusters_wf:
  assumes "array_contract A view"
    and "read_directory_clusters A T fs io bfio last_number c tree go_on st = Some (Inr st')"
    and "reader_wf view st"
  shows "reader_wf view st'"
proof -
  have "array_contract A view \<longrightarrow> reader_wf view st \<longrightarrow> (\<forall>r'. (Inr st' :: _ result) = Inr r' \<longrightarrow> reader_wf view r')"
  proof (rule read_directory_clusters.raw_induct [where P = "\<lambda>A T fs io bfio last_number c tree go_on st y.
        array_contract A view \<longrightarrow> reader_wf view st \<longrightarrow> (\<forall>r'. y = Inr r' \<longrightarrow> reader_wf view r')",
        OF _ assms(2)], intro impI allI)
    fix rec A T fs io bfio last_number c tree go_on st y r'
    assume IH: "\<And>T fs io bfio last_number c tree go_on st A y.
        rec T fs io bfio last_number c tree go_on st A = Some y \<Longrightarrow>
        array_contract T view \<longrightarrow> reader_wf view A \<longrightarrow> (\<forall>r'. y = Inr r' \<longrightarrow> reader_wf view r')"
      and contract: "array_contract A view" and wf: "reader_wf view st" and y: "y = Inr r'"
      and step: "(if 2 \<le> c \<and> c < last_number
       then let cluster_offset = cluster_block_offset io c;
                cluster_end_offset = cluster_offset + io_cluster_block_size io
            in case libfsfat_file_system_check_if_cluster_block_first_read T (Some fs) (Some tree) c
                   cluster_offset of
                 None \<Rightarrow> None
               | Some (Inl e) \<Rightarrow> Some (Inl RUNTIME_GENERIC)
               | Some (Inr tree) \<Rightarrow>
                   (case read_cluster_entries A bfio (io_file_system_format io) cluster_offset
                           cluster_end_offset go_on st of
                      None \<Rightarrow> None
                    | Some (Inl e) \<Rightarrow> Some (Inl e)
                    | Some (Inr r) \<Rightarrow>
                        if \<not> snd r then Some (Inr (fst r))
                        else (case libfsfat_allocation_table_get_cluster_number_by_index
                                     (fs_allocation_table fs) (sint c) of
                                Inl e \<Rightarrow> Some (Inl RUNTIME_GET_FAILED)
                              | Inr c \<Rightarrow> rec A T fs io bfio last_number c tree (snd r) (fst r)))
       else Some (Inr st)) = Some y"
    have cluster: "reader_wf view (fst r)"
      if "read_cluster_entries A bfio fmt offset end_offset go_on st = Some (Inr r)"
      for fmt offset end_offset r
      by (rule read_cluster_entries_wf [OF contract that wf])
    have next_wf: "reader_wf view r'"
      if "rec A T fs io bfio last_number b tree' g st1 = Some y" and "reader_wf view st1" for b tree' g st1
      using IH [OF that(1)] that(2) contract y by blast
    show "reader_wf view r'"
      using step y wf cluster
      by (auto simp: Let_def split: if_splits sum.splits option.splits intro: next_wf)
  qed
  then show ?thesis using assms(1,3) by blast
qed

lemma read_range_entries_wf:
  assumes "array_contract A view"
    and "read_range_entries A bfio fmt offset end_offset st = Some (Inr st')"
    and "reader_wf view st"
  shows "reader_wf view st'"
proof -
  have "array_contract A view \<longrightarrow> reader_wf view st \<longrightarrow> (\<forall>r'. (Inr st' :: _ result) = Inr r' \<longrightarrow> reader_wf view r')"
  proof (rule read_range_entries.raw_induct [where P = "\<lambda>A bfio fmt offset end_offset st y.
        array_contract A view \<longrightarrow> reader_wf view st \<longrightarrow> (\<forall>r'. y = Inr r' \<longrightarrow> reader_wf view r')",
        OF _ assms(2)], intro impI allI)
    fix rec A bfio fmt offset end_offset st y r'
    assume IH: "\<And>bfio fmt offset end_offset st A y.
        rec bfio fmt offset end_offset st A = Some y \<Longrightarrow>
        array_contract bfio view \<longrightarrow> reader_wf view A \<longrightarrow> (\<forall>r'. y = Inr r' \<longrightarrow> reader_wf view r')"
      and contract: "array_contract A view" and wf: "reader_wf view st" and y: "y = Inr r'"
      and step: "(if offset <s end_offset
       then case libfsfat_directory_entry_initialize None of
         Inl e \<Rightarrow> Some (Inl RUNTIME_INITIALIZE_FAILED)
       | Inr de \<Rightarrow>
           (case libfsfat_directory_entry_read_file_io_handle bfio
                   (Some (de\<lparr> de_identifier := offset \<rparr>)) offset fmt of
              Inl e \<Rightarrow> Some (Inl IO_READ_FAILED)
            | Inr r \<Rightarrow>
                if \<not> snd r then Some (Inr st)
                else if de_entry_type (fst r) = TYPE_UNALLOCATED
                then rec A bfio fmt (offset + 32) end_offset st
                else (case process_range_entry A offset (fst r) st of
                        Inl e \<Rightarrow> Some (Inl e)
                      | Inr st \<Rightarrow> rec A bfio fmt (offset + 32) end_offset st))
       else Some (Inr st)) = Some y"
    let ?de = "directory_entry_zero\<lparr> de_identifier := offset \<rparr>"
    have start: "entry_wf ?de" "de_name ?de = None" "de_name_entries_array ?de = None"
      using entry_zero_wf by simp_all
    have next_wf: "reader_wf view r'"
      if "rec A bfio fmt (offset + 32) end_offset st' = Some y" and "reader_wf view st'" for st'
      using IH [OF that(1)] that(2) contract y by blast
    have process: "reader_wf view st'"
      if "libfsfat_directory_entry_read_file_io_handle bfio (Some ?de) offset fmt = Inr q"
        and "process_range_entry A offset (fst q) st = Inr st'" for q st'
      using process_range_entry_wf [OF contract wf read_file_wf [OF that(1) start] that(2)] .
    show "reader_wf view r'"
      using step y wf
      by (auto simp: libfsfat_directory_entry_initialize_def split: if_splits sum.splits
        intro: next_wf process)
  qed
  then show ?thesis using assms(1,3) by blast
qed

lemma initial_reader_wf:
  assumes "array_contract A view" and "libfsfat_directory_initialize A None = Inr d"
  shows "reader_wf view (initial_reader d)"
  using assms addresses_below_new [OF assms(1)]
  by (auto simp: libfsfat_directory_initialize_def initial_reader_def reader_wf_def directory_wf_def
    split: option.splits)

lemma read_directory_wf:
  assumes "array_contract A view"
    and "libfsfat_file_system_read_directory A T file_system bfio c directory = Some (Inr d)"
  shows "directory_wf view d"
proof -
  have finished: "directory_wf view (dr_directory st)"
    if "libfsfat_directory_initialize A None = Inr d0"
      and "read_directory_clusters A T fs io bfio last_number c tree go_on (initial_reader d0) = Some (Inr st)"
    for d0 fs io last_number tree go_on st
    by (rule reader_wfD(1) [OF read_directory_clusters_wf [OF assms(1) that(2)
          initial_reader_wf [OF assms(1) that(1)]]])
  show ?thesis
    using assms(2)
    by (auto simp: libfsfat_file_system_read_directory_def Let_def
      split: option.splits sum.splits if_splits intro: finished)
qed

lemma read_directory_by_range_wf:
  assumes "array_contract A view"
    and "libfsfat_file_system_read_directory_by_range A file_system bfio offset size0 directory = Some (Inr d)"
  shows "directory_wf view d"
proof -
  have finished: "directory_wf view (dr_directory st)"
    if "libfsfat_directory_initialize A None = Inr d0"
      and "read_range_entries A bfio fmt offset end_offset (initial_reader d0) = Some (Inr st)"
    for d0 fmt end_offset st
    by (rule reader_wfD(1) [OF read_range_entries_wf [OF assms(1) that(2)
          initial_reader_wf [OF assms(1) that(1)]]])
  show ?thesis
    using assms(2)
    by (auto simp: libfsfat_file_system_read_directory_by_range_def Let_def
      split: option.splits sum.splits if_splits intro: finished)
qed

lemma read_root_directory_wf:
  assumes "array_contract A view"
    and "libfsfat_file_system_read_root_directory A T (Some fs) bfio offset size0 c = Some (Inr fs')"
    and "fs_root_directory fs' = Some d"
  shows "directory_wf view d"
  using assms(2,3) read_directory_wf [OF assms(1)] read_directory_by_range_wf [OF assms(1)]
  by (auto simp: libfsfat_file_system_read_root_directory_def split: option.splits sum.splits if_splits)

text \<open>
  C8. Every directory that is read is well formed, whatever the volume holds: the entries of
  its arrays and roles are in its store, have their 32 bytes of name data and a name that
  fits its buffer, and their name entries are entries of the same directory. This holds for
  directories read along a chain of clusters and for the root directory, of both kinds.
\<close>

theorem file_system_directories_wf:
  assumes "array_contract A view"
    and "libfsfat_file_system_read_directory A T (Some fs) bfio c None = Some (Inr d) \<or>
      libfsfat_file_system_read_directory_by_range A (Some fs) bfio offset size0 None = Some (Inr d) \<or>
      (\<exists>fs'. libfsfat_file_system_read_root_directory A T (Some fs) bfio offset size0 c = Some (Inr fs') \<and>
         fs_root_directory fs' = Some d)"
  shows "directory_wf view d"
  using assms(2) read_directory_wf [OF assms(1)] read_directory_by_range_wf [OF assms(1)]
    read_root_directory_wf [OF assms(1)]
  by blast

theorem file_system_directories_wf_witness:
  "\<exists>d. libfsfat_file_system_read_directory list_array list_array (Some (witness_fs 0xffff))
     (image_bfio (witness_image (replicate 32 0))) 0xffff None = Some (Inr d) \<and> directory_wf (\<lambda>a. a) d"
proof -
  obtain tree where "libfsfat_block_tree_initialize list_array None (io_volume_size witness_io)
      (io_cluster_block_size witness_io) = Inr tree"
    by (rule new_tree_of_volume [OF list_array_contract, of witness_io])
      (simp_all add: witness_io_def io_handle_zero_def)
  then have "libfsfat_file_system_read_directory list_array list_array (Some (witness_fs 0xffff))
     (image_bfio (witness_image (replicate 32 0))) 0xffff None = Some (Inr empty_directory)"
    using witness_volume(3,4,5)
    by (simp add: libfsfat_file_system_read_directory_def read_directory_clusters.simps initial_reader_def)
  then show ?thesis using file_system_directories_wf [OF list_array_contract] by blast
qed

section \<open>The file entries of a directory\<close>

text \<open>What keeps an entry from having a name: too few or too many exFAT name entries, or its type.\<close>

definition unusable_name_entries :: "('arr \<Rightarrow> nat option list) \<Rightarrow> 'arr directory_entry \<Rightarrow> bool" where
  "unusable_name_entries view de \<longleftrightarrow>
     (\<exists>arr. de_name_entries_array de = Some arr \<and> (length (view arr) = 0 \<or> 9 < length (view arr)))"

definition has_name_data :: "'arr directory_entry \<Rightarrow> bool" where
  "has_name_data de \<longleftrightarrow>
     de_name_entries_array de \<noteq> None \<or> de_entry_type de \<in> {TYPE_SHORT_NAME, TYPE_EXFAT_VOLUME_LABEL}"

lemma get_name_outcome:
  assumes "array_contract A view" and "entry_wf de" and "de_name de = None"
    and "\<forall>arr. de_name_entries_array de = Some arr \<longrightarrow> names_stored view store arr"
  shows "case libfsfat_directory_entry_get_name A store (Some de) of
      Inl e \<Rightarrow> e = RUNTIME_GET_FAILED \<and> unusable_name_entries view de
    | Inr de' \<Rightarrow> \<not> unusable_name_entries view de \<and> entry_wf de' \<and> (de_name de' \<noteq> None \<longleftrightarrow> has_name_data de)"
proof -
  let ?get = "libfsfat_directory_entry_get_name A store (Some de)"
  note safe = get_name_safe [OF assms]
  show ?thesis
  proof (cases ?get)
    case (Inl e)
    then show ?thesis using safe by (simp add: unusable_name_entries_def)
  next
    case (Inr de')
    have "\<not> unusable_name_entries view de"
    proof
      assume "unusable_name_entries view de"
      then obtain arr where "de_name_entries_array de = Some arr" "length (view arr) = 0 \<or> 9 < length (view arr)"
        by (auto simp: unusable_name_entries_def)
      then show False
        using Inr assms(3)
        by (auto simp: libfsfat_directory_entry_get_name_def array_number [OF assms(1)]
          libfsfat_directory_entry_get_name_from_exfat_file_name_entries_def)
    qed
    moreover have "de_name de' = None" if "\<not> has_name_data de"
      using that Inr assms(3) by (simp add: has_name_data_def libfsfat_directory_entry_get_name_def)
    moreover have "entry_wf de'" "de_name de' = None \<Longrightarrow> \<not> has_name_data de"
      using safe Inr by (simp_all add: has_name_data_def)
    ultimately show ?thesis unfolding Inr sum.case by metis
  qed
qed

text \<open>
  C31. The file entries of a well-formed directory can be used safely: the indexes below the
  number of file entries, and only those, give an entry, and it is in the store of the directory.
  Determining the name of the entry succeeds exactly if it is not an exFAT file entry with no or more than
  9 name entries, which are refused with an error, although the format has up to 17 of them; where it
  succeeds the entry has a name that fits its buffer exactly if it has name entries or is a short name or a
  volume label.
\<close>

theorem directory_file_entries_usable:
  assumes "array_contract A view" and "directory_wf view d"
  shows "\<exists>n. libfsfat_directory_get_number_of_file_entries A (Some d) = Inr n \<and>
    (case libfsfat_directory_get_file_entry_by_index A (Some d) i of
       Inl e \<Rightarrow> e = RUNTIME_GET_FAILED \<and> \<not> (0 \<le> i \<and> i < n)
     | Inr address \<Rightarrow> 0 \<le> i \<and> i < n \<and>
         (\<exists>a de. address = Some a \<and> dir_store d a = Some de \<and>
            (de_name de = None \<longrightarrow>
               (case libfsfat_directory_entry_get_name A (dir_store d) (Some de) of
                  Inl e \<Rightarrow> e = RUNTIME_GET_FAILED \<and> unusable_name_entries view de
                | Inr de' \<Rightarrow> \<not> unusable_name_entries view de \<and> entry_wf de' \<and>
                    (de_name de' \<noteq> None \<longleftrightarrow> has_name_data de)))))"
proof (cases "0 \<le> i \<and> nat i < length (view (dir_file_entries_array d))")
  case False
  then show ?thesis
    by (auto simp: libfsfat_directory_get_number_of_file_entries_def
      libfsfat_directory_get_file_entry_by_index_def array_number [OF assms(1)] array_get [OF assms(1)])
next
  case True
  let ?arr = "dir_file_entries_array d"
  have "view ?arr ! nat i \<in> set (view ?arr)" using True by simp
  then obtain a where a: "a < dir_next d" "view ?arr ! nat i = Some a"
    using directory_wfD(4) [OF assms(2)] unfolding addresses_below_def by blast
  obtain de where de: "dir_store d a = Some de" using directory_wfD(1) [OF assms(2) a(1)] by blast
  have ok: "stored_entry_ok view (dir_next d) de" by (rule directory_wfD(2) [OF assms(2) de])
  then have wf: "entry_wf de"
    and stored: "\<forall>arr. de_name_entries_array de = Some arr \<longrightarrow> names_stored view (dir_store d) arr"
    using names_stored_directory [OF assms(2)] by (simp_all add: stored_entry_ok_def)
  note name = get_name_outcome [OF assms(1) wf _ stored]
  show ?thesis
    using True a de name
    by (auto simp: libfsfat_directory_get_number_of_file_entries_def
      libfsfat_directory_get_file_entry_by_index_def array_number [OF assms(1)] array_get [OF assms(1)])
qed

text \<open>A directory with the short name \<open>A\<close> and an exFAT entry with ten name entries.\<close>

definition two_names_directory :: "nat option list directory" where
  "two_names_directory =
     \<lparr> dir_store = [0 \<mapsto> directory_entry_zero\<lparr> de_entry_type := TYPE_SHORT_NAME,
                          de_name_data := 0x41 # replicate 31 0x20 \<rparr>,
                    1 \<mapsto> directory_entry_zero\<lparr> de_name_entries_array := Some (replicate 10 (Some 0)) \<rparr>],
        dir_next = 2, dir_entries_array = [Some 0, Some 1], dir_file_entries_array = [Some 0, Some 1],
        dir_self_entry = None, dir_parent_entry = None, dir_volume_label_entry = None \<rparr>"

lemma two_names_directory_wf: "directory_wf (\<lambda>a. a) two_names_directory"
  by (auto simp: directory_wf_def two_names_directory_def addresses_below_def stored_entry_ok_def entry_wf_def
    directory_entry_zero_def less_2_cases_iff split: if_splits)

theorem directory_file_entries_usable_witness:
  "(\<exists>de. libfsfat_directory_get_file_entry_by_index list_array (Some two_names_directory) 0 = Inr (Some 0) \<and>
      libfsfat_directory_entry_get_name list_array (dir_store two_names_directory)
        (dir_store two_names_directory 0) = Inr de \<and> de_name de = Some [0x41, 0]) \<and>
   libfsfat_directory_get_file_entry_by_index list_array (Some two_names_directory) 1 = Inr (Some 1) \<and>
   libfsfat_directory_entry_get_name list_array (dir_store two_names_directory)
     (dir_store two_names_directory 1) = Inl RUNTIME_GET_FAILED \<and>
   libfsfat_directory_get_file_entry_by_index list_array (Some two_names_directory) 2 = Inl RUNTIME_GET_FAILED"
proof -
  let ?d = two_names_directory
  note usable = directory_file_entries_usable [OF list_array_contract two_names_directory_wf]
  have get: "libfsfat_directory_get_file_entry_by_index list_array (Some ?d) 0 = Inr (Some 0)"
    "libfsfat_directory_get_file_entry_by_index list_array (Some ?d) 1 = Inr (Some 1)"
    by (simp_all add: libfsfat_directory_get_file_entry_by_index_def two_names_directory_def list_array_def)
  have number: "libfsfat_directory_get_number_of_file_entries list_array (Some ?d) = Inr 2"
    by (simp add: libfsfat_directory_get_number_of_file_entries_def two_names_directory_def list_array_def)
  have none: "libfsfat_directory_get_file_entry_by_index list_array (Some ?d) 2 = Inl RUNTIME_GET_FAILED"
    using usable [of 2] number by (auto split: sum.splits)
  obtain second where second: "dir_store ?d 1 = Some second" "de_name second = None"
    "unusable_name_entries (\<lambda>a. a) second"
    by (simp add: two_names_directory_def directory_entry_zero_def unusable_name_entries_def)
  then have "libfsfat_directory_entry_get_name list_array (dir_store ?d) (dir_store ?d 1) = Inl RUNTIME_GET_FAILED"
    using usable [of 1] get(2) by (auto split: sum.splits)
  moreover obtain first where first: "dir_store ?d 0 = Some first" "de_name first = None"
    "has_name_data first" "\<not> unusable_name_entries (\<lambda>a. a) first"
    by (simp add: two_names_directory_def directory_entry_zero_def unusable_name_entries_def has_name_data_def)
  obtain de where de: "libfsfat_directory_entry_get_name list_array (dir_store ?d) (dir_store ?d 0) = Inr de"
    using usable [of 0] get(1) first by (auto split: sum.splits)
  have "de_name de = Some [0x41, 0]"
    using de by (auto simp: libfsfat_directory_entry_get_name_def two_names_directory_def directory_entry_zero_def
      short_name_string_def Let_def)
  ultimately show ?thesis using get none de by simp
qed

end
