(* ===== verification/Name.thy ===== *)
theory Name
  imports Prelude
begin

text \<open>
  The comparison of names of \<^verbatim>\<open>libfsfat/libfsfat_name.c\<close>. The characters are decoded by
  libuna and folded by \<^verbatim>\<open>towupper\<close>, which are parameters. The theorem says that the
  result is the lexicographic order of the folded characters.
\<close>

section \<open>The operations of libuna\<close>

text \<open>
  The operations that decode one character get the string, its size and an index, and return
  the character and the next index. The others give the size of a converted string and the
  string itself, with the size of its buffer first. All return \<open>None\<close> on an error.
\<close>

record una_ops =
  una_from_utf16_stream :: "u8 list \<Rightarrow> nat \<Rightarrow> nat \<Rightarrow> (u32 \<times> nat) option"
  una_from_byte_stream :: "u8 list \<Rightarrow> nat \<Rightarrow> nat \<Rightarrow> (u32 \<times> nat) option"
  una_from_utf8 :: "u8 list \<Rightarrow> nat \<Rightarrow> nat \<Rightarrow> (u32 \<times> nat) option"
  una_from_utf16 :: "u16 list \<Rightarrow> nat \<Rightarrow> nat \<Rightarrow> (u32 \<times> nat) option"
  una_utf8_size_from_utf16_stream :: "u8 list \<Rightarrow> nat \<Rightarrow> nat option"
  una_utf8_size_from_byte_stream :: "u8 list \<Rightarrow> nat \<Rightarrow> nat option"
  una_utf8_copy_from_utf16_stream :: "nat \<Rightarrow> u8 list \<Rightarrow> nat \<Rightarrow> u8 list option"
  una_utf8_copy_from_byte_stream :: "nat \<Rightarrow> u8 list \<Rightarrow> nat \<Rightarrow> u8 list option"
  una_utf16_size_from_utf16_stream :: "u8 list \<Rightarrow> nat \<Rightarrow> nat option"
  una_utf16_size_from_byte_stream :: "u8 list \<Rightarrow> nat \<Rightarrow> nat option"
  una_utf16_copy_from_utf16_stream :: "nat \<Rightarrow> u8 list \<Rightarrow> nat \<Rightarrow> u16 list option"
  una_utf16_copy_from_byte_stream :: "nat \<Rightarrow> u8 list \<Rightarrow> nat \<Rightarrow> u16 list option"
  una_towupper :: "u32 \<Rightarrow> u32"

datatype compare_result = COMPARE_LESS | COMPARE_EQUAL | COMPARE_GREATER

section \<open>The comparison\<close>

text \<open>The size of a name and the length of a string without their terminators.\<close>

definition name_size_without_end :: "u8 list \<Rightarrow> nat \<Rightarrow> u8 \<Rightarrow> nat" where
  "name_size_without_end name name_size is_unicode =
     (if is_unicode \<noteq> 0
      then
        (if name_size \<ge> 2 \<and> name ! (name_size - 2) = 0 \<and> name ! (name_size - 1) = 0
         then name_size - 2 else name_size)
      else
        (if name_size \<ge> 1 \<and> name ! (name_size - 1) = 0 then name_size - 1 else name_size))"

definition string_length_without_end :: "'w::len word list \<Rightarrow> nat \<Rightarrow> nat" where
  "string_length_without_end string string_length =
     (if string_length \<ge> 1 \<and> string ! (string_length - 1) = 0
      then string_length - 1 else string_length)"

text \<open>
  The loop of both comparisons, over the operations that decode the next character of the
  name and of the string.
\<close>

partial_function (option) compare_characters ::
  "(nat \<Rightarrow> (u32 \<times> nat) option) \<Rightarrow> (nat \<Rightarrow> (u32 \<times> nat) option) \<Rightarrow> (u32 \<Rightarrow> u32) \<Rightarrow> nat \<Rightarrow> nat \<Rightarrow>
   nat \<Rightarrow> nat \<Rightarrow> compare_result result option" where
  "compare_characters next_name next_string upper name_size string_length name_index string_index =
     (if name_index < name_size \<and> string_index < string_length
      then
        (case next_name name_index of
           None \<Rightarrow> Some (Inl RUNTIME_COPY_FAILED)
         | Some (name_character, name_index) \<Rightarrow>
             (case next_string string_index of
                None \<Rightarrow> Some (Inl RUNTIME_COPY_FAILED)
              | Some (string_character, string_index) \<Rightarrow>
                  if upper string_character < upper name_character then Some (Inr COMPARE_LESS)
                  else if upper string_character > upper name_character then Some (Inr COMPARE_GREATER)
                  else compare_characters next_name next_string upper name_size string_length
                         name_index string_index))
      else if string_index < string_length then Some (Inr COMPARE_GREATER)
      else if name_index < name_size then Some (Inr COMPARE_LESS)
      else Some (Inr COMPARE_EQUAL))"

text \<open>The operation that decodes a character of a name.\<close>

definition next_name_character :: "una_ops \<Rightarrow> u8 list \<Rightarrow> nat \<Rightarrow> u8 \<Rightarrow> nat \<Rightarrow> (u32 \<times> nat) option" where
  "next_name_character U name name_size is_unicode =
     (if is_unicode \<noteq> 0 then una_from_utf16_stream U name name_size
      else una_from_byte_stream U name name_size)"

definition fold_character :: "una_ops \<Rightarrow> u8 \<Rightarrow> u32 \<Rightarrow> u32" where
  "fold_character U use_case_folding c = (if use_case_folding \<noteq> 0 then una_towupper U c else c)"

text \<open>A size that exceeds the name, or a length that exceeds the string, is a memory fault.\<close>

definition libfsfat_name_compare_with_utf8_string ::
  "una_ops \<Rightarrow> u8 list option \<Rightarrow> nat \<Rightarrow> u8 \<Rightarrow> u8 list option \<Rightarrow> nat \<Rightarrow> u8 \<Rightarrow>
   compare_result result option" where
  "libfsfat_name_compare_with_utf8_string U name name_size is_unicode utf8_string utf8_string_length
       use_case_folding =
     (case name of
        None \<Rightarrow> Some (Inl ARGUMENT_INVALID_VALUE)
      | Some name \<Rightarrow>
          if name_size > SSIZE_MAX then Some (Inl ARGUMENT_VALUE_EXCEEDS_MAXIMUM)
          else if name_size = 0 then Some (Inl ARGUMENT_VALUE_ZERO_OR_LESS)
          else
            (case utf8_string of
               None \<Rightarrow> Some (Inl ARGUMENT_INVALID_VALUE)
             | Some utf8_string \<Rightarrow>
                 if utf8_string_length > SSIZE_MAX then Some (Inl ARGUMENT_VALUE_EXCEEDS_MAXIMUM)
                 else if name_size > length name \<or> utf8_string_length > length utf8_string
                 then Some (Inl MEMORY_FAULT)
                 else
                   let name_size = name_size_without_end name name_size is_unicode;
                       utf8_string_length = string_length_without_end utf8_string utf8_string_length
                   in compare_characters (next_name_character U name name_size is_unicode)
                        (una_from_utf8 U utf8_string utf8_string_length)
                        (fold_character U use_case_folding) name_size utf8_string_length 0 0))"

definition libfsfat_name_compare_with_utf16_string ::
  "una_ops \<Rightarrow> u8 list option \<Rightarrow> nat \<Rightarrow> u8 \<Rightarrow> u16 list option \<Rightarrow> nat \<Rightarrow> u8 \<Rightarrow>
   compare_result result option" where
  "libfsfat_name_compare_with_utf16_string U name name_size is_unicode utf16_string utf16_string_length
       use_case_folding =
     (case name of
        None \<Rightarrow> Some (Inl ARGUMENT_INVALID_VALUE)
      | Some name \<Rightarrow>
          if name_size > SSIZE_MAX then Some (Inl ARGUMENT_VALUE_EXCEEDS_MAXIMUM)
          else if name_size = 0 then Some (Inl ARGUMENT_VALUE_ZERO_OR_LESS)
          else
            (case utf16_string of
               None \<Rightarrow> Some (Inl ARGUMENT_INVALID_VALUE)
             | Some utf16_string \<Rightarrow>
                 if utf16_string_length > SSIZE_MAX then Some (Inl ARGUMENT_VALUE_EXCEEDS_MAXIMUM)
                 else if name_size > length name \<or> utf16_string_length > length utf16_string
                 then Some (Inl MEMORY_FAULT)
                 else
                   let name_size = name_size_without_end name name_size is_unicode;
                       utf16_string_length = string_length_without_end utf16_string utf16_string_length
                   in compare_characters (next_name_character U name name_size is_unicode)
                        (una_from_utf16 U utf16_string utf16_string_length)
                        (fold_character U use_case_folding) name_size utf16_string_length 0 0))"

section \<open>The order of names\<close>

text \<open>
  \<open>decodes next n i cs\<close>: decoding from index \<open>i\<close> gives the characters \<open>cs\<close> up to the size
  \<open>n\<close>.
\<close>

inductive decodes :: "(nat \<Rightarrow> (u32 \<times> nat) option) \<Rightarrow> nat \<Rightarrow> nat \<Rightarrow> u32 list \<Rightarrow> bool" for "next" n where
  decodes_end: "n \<le> i \<Longrightarrow> decodes next n i []"
| decodes_character: "i < n \<Longrightarrow> next i = Some (c, j) \<Longrightarrow> decodes next n j cs \<Longrightarrow> decodes next n i (c # cs)"

text \<open>The lexicographic order of a string and a name, as the result of a comparison.\<close>

definition compare_lists :: "u32 list \<Rightarrow> u32 list \<Rightarrow> compare_result" where
  "compare_lists string name =
     (if string = name then COMPARE_EQUAL
      else if ord_class.lexordp string name then COMPARE_LESS else COMPARE_GREATER)"

lemma compare_lists_simps [simp]:
  "compare_lists [] [] = COMPARE_EQUAL"
  "compare_lists [] (c # cs) = COMPARE_LESS"
  "compare_lists (d # ds) [] = COMPARE_GREATER"
  "compare_lists (d # ds) (c # cs) =
     (if d < c then COMPARE_LESS else if c < d then COMPARE_GREATER else compare_lists ds cs)"
  by (auto simp: compare_lists_def)

lemma compare_lists_equal: "compare_lists ds cs = COMPARE_EQUAL \<longleftrightarrow> ds = cs"
  by (simp add: compare_lists_def)

lemma compare_characters_lists:
  assumes "decodes next_name n i cs" and "decodes next_string m j ds"
  shows "compare_characters next_name next_string upper n m i j =
    Some (Inr (compare_lists (map upper ds) (map upper cs)))"
  using assms
proof (induction arbitrary: j ds rule: decodes.induct)
  case (decodes_end i)
  from decodes_end.prems show ?case
    by (cases rule: decodes.cases) (use decodes_end.hyps in
      \<open>subst compare_characters.simps; simp\<close>)+
next
  case (decodes_character i c i' cs)
  from decodes_character.prems show ?case
  proof (cases rule: decodes.cases)
    case decodes_end
    then show ?thesis
      using decodes_character.hyps by (subst compare_characters.simps) simp
  next
    case (decodes_character d j' ds')
    then show ?thesis
      using \<open>i < n\<close> \<open>next_name i = Some (c, i')\<close> decodes_character.IH
      by (subst compare_characters.simps) simp
  qed
qed

text \<open>The characters of a name and of a string, without their terminators.\<close>

definition name_characters :: "una_ops \<Rightarrow> u8 list \<Rightarrow> nat \<Rightarrow> u8 \<Rightarrow> u32 list \<Rightarrow> bool" where
  "name_characters U name name_size is_unicode cs \<longleftrightarrow>
     0 < name_size \<and> name_size \<le> length name \<and> length name \<le> SSIZE_MAX \<and>
     (let n = name_size_without_end name name_size is_unicode
      in decodes (next_name_character U name n is_unicode) n 0 cs)"

definition utf8_characters :: "una_ops \<Rightarrow> u8 list \<Rightarrow> nat \<Rightarrow> u32 list \<Rightarrow> bool" where
  "utf8_characters U string string_length ds \<longleftrightarrow>
     string_length \<le> length string \<and> length string \<le> SSIZE_MAX \<and>
     (let m = string_length_without_end string string_length
      in decodes (una_from_utf8 U string m) m 0 ds)"

definition utf16_characters :: "una_ops \<Rightarrow> u16 list \<Rightarrow> nat \<Rightarrow> u32 list \<Rightarrow> bool" where
  "utf16_characters U string string_length ds \<longleftrightarrow>
     string_length \<le> length string \<and> length string \<le> SSIZE_MAX \<and>
     (let m = string_length_without_end string string_length
      in decodes (una_from_utf16 U string m) m 0 ds)"

lemma compare_utf8_characters:
  assumes "name_characters U name name_size is_unicode cs" and "utf8_characters U string string_length ds"
  shows "libfsfat_name_compare_with_utf8_string U (Some name) name_size is_unicode (Some string)
      string_length f =
    Some (Inr (compare_lists (map (fold_character U f) ds) (map (fold_character U f) cs)))"
  using assms compare_characters_lists
  by (simp add: libfsfat_name_compare_with_utf8_string_def name_characters_def utf8_characters_def Let_def)

lemma compare_utf16_characters:
  assumes "name_characters U name name_size is_unicode cs" and "utf16_characters U string string_length ds"
  shows "libfsfat_name_compare_with_utf16_string U (Some name) name_size is_unicode (Some string)
      string_length f =
    Some (Inr (compare_lists (map (fold_character U f) ds) (map (fold_character U f) cs)))"
  using assms compare_characters_lists
  by (simp add: libfsfat_name_compare_with_utf16_string_def name_characters_def utf16_characters_def Let_def)

text \<open>
  C33. The comparisons of a name with an UTF-8 and an UTF-16 string return, and their result
  is the lexicographic order of the characters of the string and of the name, folded when
  that is asked for; so the encoding of the string makes no difference.
\<close>

theorem name_compare_order:
  assumes "name_characters U name name_size is_unicode cs"
    and "utf8_characters U string8 length8 ds" and "utf16_characters U string16 length16 ds"
  shows "libfsfat_name_compare_with_utf8_string U (Some name) name_size is_unicode (Some string8) length8 f =
      Some (Inr (compare_lists (map (fold_character U f) ds) (map (fold_character U f) cs))) \<and>
    libfsfat_name_compare_with_utf16_string U (Some name) name_size is_unicode (Some string16) length16 f =
      libfsfat_name_compare_with_utf8_string U (Some name) name_size is_unicode (Some string8) length8 f"
  by (simp only: compare_utf8_characters [OF assms(1,2)] compare_utf16_characters [OF assms(1,3)])

section \<open>A concrete libuna\<close>

text \<open>
  The witnesses use operations for the characters below 0x80 in UTF-8 and for those below
  0x10000, surrogates included, in UTF-16; they cut what does not fit a buffer.
\<close>

definition ascii_una :: una_ops where
  "ascii_una =
     \<lparr> una_from_utf16_stream = (\<lambda>s n i. if i + 1 < n
         then Some (ucast (s ! i) + 0x100 * ucast (s ! (i + 1)), i + 2) else None),
       una_from_byte_stream = (\<lambda>s n i. if i < n then Some (ucast (s ! i), i + 1) else None),
       una_from_utf8 = (\<lambda>s n i. if i < n \<and> s ! i < 0x80 then Some (ucast (s ! i), i + 1) else None),
       una_from_utf16 = (\<lambda>s n i. if i < n then Some (ucast (s ! i), i + 1) else None),
       una_utf8_size_from_utf16_stream = (\<lambda>s n. Some (n div 2 + 1)),
       una_utf8_size_from_byte_stream = (\<lambda>s n. Some (length (takeWhile (\<lambda>b. b \<noteq> 0) (take n s)) + 1)),
       una_utf8_copy_from_utf16_stream = (\<lambda>k s n. Some (take k (map (\<lambda>i. s ! (2 * i)) [0..<n div 2] @ [0]))),
       una_utf8_copy_from_byte_stream =
         (\<lambda>k s n. Some (take k (takeWhile (\<lambda>b. b \<noteq> 0) (take n s) @ [0]))),
       una_utf16_size_from_utf16_stream = (\<lambda>s n. Some (n div 2 + 1)),
       una_utf16_size_from_byte_stream = (\<lambda>s n. Some (length (takeWhile (\<lambda>b. b \<noteq> 0) (take n s)) + 1)),
       una_utf16_copy_from_utf16_stream = (\<lambda>k s n. Some (take k
         (map (\<lambda>i. ucast (s ! (2 * i)) + 0x100 * ucast (s ! (2 * i + 1))) [0..<n div 2] @ [0]))),
       una_utf16_copy_from_byte_stream =
         (\<lambda>k s n. Some (take k (map ucast (takeWhile (\<lambda>b. b \<noteq> 0) (take n s)) @ [0]))),
       una_towupper = (\<lambda>c. if 0x61 \<le> c \<and> c \<le> 0x7a then c - 0x20 else c) \<rparr>"

lemma ascii_witness:
  "name_characters ascii_una [0x41, 0, 0x62, 0, 0, 0] 6 1 [0x41, 0x62]"
  "utf8_characters ascii_una [0x61, 0x42] 2 [0x61, 0x42]"
  "utf16_characters ascii_una [0x61, 0x42, 0] 3 [0x61, 0x42]"
  by (auto simp: name_characters_def utf8_characters_def utf16_characters_def name_size_without_end_def
    string_length_without_end_def next_name_character_def ascii_una_def SSIZE_MAX_def intro!: decodes.intros)

theorem name_compare_order_witness:
  "libfsfat_name_compare_with_utf8_string ascii_una (Some [0x41, 0, 0x62, 0, 0, 0]) 6 1
     (Some [0x61, 0x42]) 2 1 = Some (Inr COMPARE_EQUAL)"
  by (simp add: name_compare_order [OF ascii_witness] fold_character_def)
    (simp add: ascii_una_def)

end
