(* ===== verification/Entry_Names.thy ===== *)
theory Entry_Names
  imports Directory_Invariant Name
begin

text \<open>
  The names of entries as strings: the conversions and comparisons of
  \<^verbatim>\<open>libfsfat/libfsfat_directory_entry.c\<close>, and the lookup by name and the volume label of
  \<^verbatim>\<open>libfsfat/libfsfat_directory.c\<close>. An entry gets its name when it is asked for; the
  functions here return what is asked for and leave the entry as it was, since determining
  the name again gives the same.
\<close>

section \<open>The name of an entry as a string\<close>

definition entry_with_name ::
  "('arr, nat) array_ops \<Rightarrow> 'arr entry_store \<Rightarrow> 'arr directory_entry \<Rightarrow> 'arr directory_entry result" where
  "entry_with_name A store de =
     (if de_name de = None then libfsfat_directory_entry_get_name A store (Some de) else Inr de)"

text \<open>A conversion of libuna, for the name of an entry; a name that is \<open>NULL\<close> is an error of libuna.\<close>

definition convert_name ::
  "(u8 list \<Rightarrow> nat \<Rightarrow> 'a option) \<Rightarrow> (u8 list \<Rightarrow> nat \<Rightarrow> 'a option) \<Rightarrow> ('arr, nat) array_ops \<Rightarrow>
   'arr entry_store \<Rightarrow> 'arr directory_entry option \<Rightarrow> 'a result" where
  "convert_name from_utf16_stream from_byte_stream A store directory_entry =
     (case directory_entry of
        None \<Rightarrow> Inl ARGUMENT_INVALID_VALUE
      | Some de \<Rightarrow>
     (case entry_with_name A store de of
        Inl e \<Rightarrow> Inl RUNTIME_GET_FAILED
      | Inr de \<Rightarrow>
          (case Option.bind (de_name de) (\<lambda>name.
                  if de_is_unicode de \<noteq> 0 then from_utf16_stream name (unat (de_name_size de))
                  else from_byte_stream name (unat (de_name_size de))) of
             None \<Rightarrow> Inl RUNTIME_GET_FAILED
           | Some x \<Rightarrow> Inr x)))"

definition libfsfat_directory_entry_get_utf8_name_size ::
  "una_ops \<Rightarrow> ('arr, nat) array_ops \<Rightarrow> 'arr entry_store \<Rightarrow> 'arr directory_entry option \<Rightarrow> nat result" where
  "libfsfat_directory_entry_get_utf8_name_size U =
     convert_name (una_utf8_size_from_utf16_stream U) (una_utf8_size_from_byte_stream U)"

text \<open>The string is what is written into a buffer of the given size.\<close>

definition libfsfat_directory_entry_get_utf8_name ::
  "una_ops \<Rightarrow> ('arr, nat) array_ops \<Rightarrow> 'arr entry_store \<Rightarrow> 'arr directory_entry option \<Rightarrow> nat \<Rightarrow>
   u8 list result" where
  "libfsfat_directory_entry_get_utf8_name U A store directory_entry utf8_string_size =
     convert_name (una_utf8_copy_from_utf16_stream U utf8_string_size)
       (una_utf8_copy_from_byte_stream U utf8_string_size) A store directory_entry"

definition libfsfat_directory_entry_get_utf16_name_size ::
  "una_ops \<Rightarrow> ('arr, nat) array_ops \<Rightarrow> 'arr entry_store \<Rightarrow> 'arr directory_entry option \<Rightarrow> nat result" where
  "libfsfat_directory_entry_get_utf16_name_size U =
     convert_name (una_utf16_size_from_utf16_stream U) (una_utf16_size_from_byte_stream U)"

definition libfsfat_directory_entry_get_utf16_name ::
  "una_ops \<Rightarrow> ('arr, nat) array_ops \<Rightarrow> 'arr entry_store \<Rightarrow> 'arr directory_entry option \<Rightarrow> nat \<Rightarrow>
   u16 list result" where
  "libfsfat_directory_entry_get_utf16_name U A store directory_entry utf16_string_size =
     convert_name (una_utf16_copy_from_utf16_stream U utf16_string_size)
       (una_utf16_copy_from_byte_stream U utf16_string_size) A store directory_entry"

definition libfsfat_directory_entry_compare_with_utf8_string ::
  "una_ops \<Rightarrow> ('arr, nat) array_ops \<Rightarrow> 'arr entry_store \<Rightarrow> 'arr directory_entry option \<Rightarrow>
   u8 list option \<Rightarrow> nat \<Rightarrow> compare_result result option" where
  "libfsfat_directory_entry_compare_with_utf8_string U A store directory_entry utf8_string
       utf8_string_length =
     (case directory_entry of
        None \<Rightarrow> Some (Inl ARGUMENT_INVALID_VALUE)
      | Some de \<Rightarrow>
     (case entry_with_name A store de of
        Inl e \<Rightarrow> Some (Inl RUNTIME_GET_FAILED)
      | Inr de \<Rightarrow>
          (case libfsfat_name_compare_with_utf8_string U (de_name de) (unat (de_name_size de))
                  (de_is_unicode de) utf8_string utf8_string_length 1 of
             None \<Rightarrow> None
           | Some (Inl e) \<Rightarrow> Some (Inl RUNTIME_GENERIC)
           | Some (Inr r) \<Rightarrow> Some (Inr r))))"

definition libfsfat_directory_entry_compare_with_utf16_string ::
  "una_ops \<Rightarrow> ('arr, nat) array_ops \<Rightarrow> 'arr entry_store \<Rightarrow> 'arr directory_entry option \<Rightarrow>
   u16 list option \<Rightarrow> nat \<Rightarrow> compare_result result option" where
  "libfsfat_directory_entry_compare_with_utf16_string U A store directory_entry utf16_string
       utf16_string_length =
     (case directory_entry of
        None \<Rightarrow> Some (Inl ARGUMENT_INVALID_VALUE)
      | Some de \<Rightarrow>
     (case entry_with_name A store de of
        Inl e \<Rightarrow> Some (Inl RUNTIME_GET_FAILED)
      | Inr de \<Rightarrow>
          (case libfsfat_name_compare_with_utf16_string U (de_name de) (unat (de_name_size de))
                  (de_is_unicode de) utf16_string utf16_string_length 1 of
             None \<Rightarrow> None
           | Some (Inl e) \<Rightarrow> Some (Inl RUNTIME_GENERIC)
           | Some (Inr r) \<Rightarrow> Some (Inr r))))"

section \<open>The lookup by name\<close>

text \<open>
  The loop over the file entries, for a comparison of an entry. The result is the entry that
  is found, \<open>None\<close> for the return value 0. The array holds addresses of the store; an
  entry that is \<open>NULL\<close> is passed on to the comparison.
\<close>

fun find_file_entry ::
  "('arr directory_entry option \<Rightarrow> compare_result result option) \<Rightarrow> ('arr, nat) array_ops \<Rightarrow>
   'arr entry_store \<Rightarrow> 'arr \<Rightarrow> int list \<Rightarrow> nat option result option" where
  "find_file_entry compare A store file_entries_array [] = Some (Inr None)"
| "find_file_entry compare A store file_entries_array (entry_index # indexes) =
     (case array_get_entry_by_index A file_entries_array entry_index of
        None \<Rightarrow> Some (Inl RUNTIME_GET_FAILED)
      | Some directory_entry \<Rightarrow>
          (case compare (Option.bind directory_entry store) of
             None \<Rightarrow> None
           | Some (Inl e) \<Rightarrow> Some (Inl RUNTIME_GENERIC)
           | Some (Inr r) \<Rightarrow>
               if r = COMPARE_EQUAL then Some (Inr directory_entry)
               else find_file_entry compare A store file_entries_array indexes))"

definition libfsfat_directory_get_file_entry_by_utf8_name ::
  "una_ops \<Rightarrow> ('arr, nat) array_ops \<Rightarrow> 'arr directory option \<Rightarrow> u8 list option \<Rightarrow> nat \<Rightarrow>
   nat option result option" where
  "libfsfat_directory_get_file_entry_by_utf8_name U A directory utf8_string utf8_string_length =
     (case directory of
        None \<Rightarrow> Some (Inl ARGUMENT_INVALID_VALUE)
      | Some d \<Rightarrow>
     (case array_get_number_of_entries A (dir_file_entries_array d) of
        None \<Rightarrow> Some (Inl RUNTIME_GET_FAILED)
      | Some number_of_entries \<Rightarrow>
          find_file_entry (\<lambda>de. libfsfat_directory_entry_compare_with_utf8_string U A (dir_store d) de
              utf8_string utf8_string_length)
            A (dir_store d) (dir_file_entries_array d) [0..number_of_entries - 1]))"

definition libfsfat_directory_get_file_entry_by_utf16_name ::
  "una_ops \<Rightarrow> ('arr, nat) array_ops \<Rightarrow> 'arr directory option \<Rightarrow> u16 list option \<Rightarrow> nat \<Rightarrow>
   nat option result option" where
  "libfsfat_directory_get_file_entry_by_utf16_name U A directory utf16_string utf16_string_length =
     (case directory of
        None \<Rightarrow> Some (Inl ARGUMENT_INVALID_VALUE)
      | Some d \<Rightarrow>
     (case array_get_number_of_entries A (dir_file_entries_array d) of
        None \<Rightarrow> Some (Inl RUNTIME_GET_FAILED)
      | Some number_of_entries \<Rightarrow>
          find_file_entry (\<lambda>de. libfsfat_directory_entry_compare_with_utf16_string U A (dir_store d) de
              utf16_string utf16_string_length)
            A (dir_store d) (dir_file_entries_array d) [0..number_of_entries - 1]))"

section \<open>The volume label\<close>

definition libfsfat_directory_get_utf8_volume_label_size ::
  "una_ops \<Rightarrow> ('arr, nat) array_ops \<Rightarrow> 'arr directory option \<Rightarrow> nat result" where
  "libfsfat_directory_get_utf8_volume_label_size U A directory =
     (case directory of
        None \<Rightarrow> Inl ARGUMENT_INVALID_VALUE
      | Some d \<Rightarrow>
          (case dir_volume_label_entry d of
             None \<Rightarrow> Inr 1
           | Some a \<Rightarrow>
               (case libfsfat_directory_entry_get_utf8_name_size U A (dir_store d) (dir_store d a) of
                  Inl e \<Rightarrow> Inl RUNTIME_GET_FAILED
                | Inr safe_utf8_string_size \<Rightarrow> Inr (max 1 safe_utf8_string_size))))"

text \<open>The buffer is given by its size, \<open>None\<close> for \<open>NULL\<close>; the result is what is written.\<close>

definition libfsfat_directory_get_utf8_volume_label ::
  "una_ops \<Rightarrow> ('arr, nat) array_ops \<Rightarrow> 'arr directory option \<Rightarrow> nat option \<Rightarrow> u8 list result" where
  "libfsfat_directory_get_utf8_volume_label U A directory utf8_string =
     (case directory of
        None \<Rightarrow> Inl ARGUMENT_INVALID_VALUE
      | Some d \<Rightarrow>
     (case utf8_string of
        None \<Rightarrow> Inl ARGUMENT_INVALID_VALUE
      | Some utf8_string_size \<Rightarrow>
          if utf8_string_size = 0 then Inl ARGUMENT_VALUE_TOO_SMALL
          else if utf8_string_size > SSIZE_MAX then Inl ARGUMENT_VALUE_EXCEEDS_MAXIMUM
          else
            (case dir_volume_label_entry d of
               None \<Rightarrow> Inr [0]
             | Some a \<Rightarrow>
                 (case libfsfat_directory_entry_get_utf8_name U A (dir_store d) (dir_store d a)
                         utf8_string_size of
                    Inl e \<Rightarrow> Inl RUNTIME_GET_FAILED
                  | Inr string \<Rightarrow> Inr string))))"

definition libfsfat_directory_get_utf16_volume_label_size ::
  "una_ops \<Rightarrow> ('arr, nat) array_ops \<Rightarrow> 'arr directory option \<Rightarrow> nat result" where
  "libfsfat_directory_get_utf16_volume_label_size U A directory =
     (case directory of
        None \<Rightarrow> Inl ARGUMENT_INVALID_VALUE
      | Some d \<Rightarrow>
          (case dir_volume_label_entry d of
             None \<Rightarrow> Inr 1
           | Some a \<Rightarrow>
               (case libfsfat_directory_entry_get_utf16_name_size U A (dir_store d) (dir_store d a) of
                  Inl e \<Rightarrow> Inl RUNTIME_GET_FAILED
                | Inr safe_utf16_string_size \<Rightarrow> Inr (max 1 safe_utf16_string_size))))"

definition libfsfat_directory_get_utf16_volume_label ::
  "una_ops \<Rightarrow> ('arr, nat) array_ops \<Rightarrow> 'arr directory option \<Rightarrow> nat option \<Rightarrow> u16 list result" where
  "libfsfat_directory_get_utf16_volume_label U A directory utf16_string =
     (case directory of
        None \<Rightarrow> Inl ARGUMENT_INVALID_VALUE
      | Some d \<Rightarrow>
     (case utf16_string of
        None \<Rightarrow> Inl ARGUMENT_INVALID_VALUE
      | Some utf16_string_size \<Rightarrow>
          if utf16_string_size = 0 then Inl ARGUMENT_VALUE_TOO_SMALL
          else if utf16_string_size > SSIZE_MAX then Inl ARGUMENT_VALUE_EXCEEDS_MAXIMUM
          else
            (case dir_volume_label_entry d of
               None \<Rightarrow> Inr [0]
             | Some a \<Rightarrow>
                 (case libfsfat_directory_entry_get_utf16_name U A (dir_store d) (dir_store d a)
                         utf16_string_size of
                    Inl e \<Rightarrow> Inl RUNTIME_GET_FAILED
                  | Inr string \<Rightarrow> Inr string))))"

section \<open>Looking up a name\<close>

text \<open>The characters of the name of an entry, and the names of the file entries of a directory.\<close>

definition entry_characters ::
  "una_ops \<Rightarrow> ('arr, nat) array_ops \<Rightarrow> 'arr entry_store \<Rightarrow> 'arr directory_entry \<Rightarrow> u32 list \<Rightarrow> bool" where
  "entry_characters U A store de cs \<longleftrightarrow>
     (\<exists>de' name. entry_with_name A store de = Inr de' \<and> de_name de' = Some name \<and>
        name_characters U name (unat (de_name_size de')) (de_is_unicode de') cs)"

definition stored_name ::
  "una_ops \<Rightarrow> ('arr, nat) array_ops \<Rightarrow> 'arr directory \<Rightarrow> nat option \<Rightarrow> nat \<times> u32 list \<Rightarrow> bool" where
  "stored_name U A d x named \<longleftrightarrow>
     x = Some (fst named) \<and>
     (\<exists>de. dir_store d (fst named) = Some de \<and> entry_characters U A (dir_store d) de (snd named))"

definition same_name :: "una_ops \<Rightarrow> u32 list \<Rightarrow> nat \<times> u32 list \<Rightarrow> bool" where
  "same_name U ds named \<longleftrightarrow> map (una_towupper U) (snd named) = map (una_towupper U) ds"

lemma compare_entry_characters:
  assumes "entry_characters U A store de cs"
  shows "utf8_characters U string8 length8 ds \<Longrightarrow>
      libfsfat_directory_entry_compare_with_utf8_string U A store (Some de) (Some string8) length8 =
      Some (Inr (compare_lists (map (una_towupper U) ds) (map (una_towupper U) cs)))"
    and "utf16_characters U string16 length16 ds \<Longrightarrow>
      libfsfat_directory_entry_compare_with_utf16_string U A store (Some de) (Some string16) length16 =
      Some (Inr (compare_lists (map (una_towupper U) ds) (map (una_towupper U) cs)))"
proof -
  have up: "fold_character U 1 = una_towupper U" by (rule ext) (simp add: fold_character_def)
  obtain de' name where named: "entry_with_name A store de = Inr de'" "de_name de' = Some name"
    "name_characters U name (unat (de_name_size de')) (de_is_unicode de') cs"
    using assms unfolding entry_characters_def by blast
  show "utf8_characters U string8 length8 ds \<Longrightarrow>
      libfsfat_directory_entry_compare_with_utf8_string U A store (Some de) (Some string8) length8 =
      Some (Inr (compare_lists (map (una_towupper U) ds) (map (una_towupper U) cs)))"
    using named(1,2) compare_utf8_characters [OF named(3), of string8 length8 ds 1]
    by (simp add: libfsfat_directory_entry_compare_with_utf8_string_def up)
  show "utf16_characters U string16 length16 ds \<Longrightarrow>
      libfsfat_directory_entry_compare_with_utf16_string U A store (Some de) (Some string16) length16 =
      Some (Inr (compare_lists (map (una_towupper U) ds) (map (una_towupper U) cs)))"
    using named(1,2) compare_utf16_characters [OF named(3), of string16 length16 ds 1]
    by (simp add: libfsfat_directory_entry_compare_with_utf16_string_def up)
qed

definition indexed_name ::
  "una_ops \<Rightarrow> ('arr, nat) array_ops \<Rightarrow> 'arr directory \<Rightarrow> int \<Rightarrow> nat \<times> u32 list \<Rightarrow> bool" where
  "indexed_name U A d i named \<longleftrightarrow>
     (\<exists>x. array_get_entry_by_index A (dir_file_entries_array d) i = Some x \<and> stored_name U A d x named)"

lemma find_file_entry_names:
  assumes "list_all2 (indexed_name U A d) is names"
    and "\<And>de cs. entry_characters U A (dir_store d) de cs \<Longrightarrow>
      compare (Some de) = Some (Inr (compare_lists (map (una_towupper U) ds) (map (una_towupper U) cs)))"
  shows "find_file_entry compare A (dir_store d) (dir_file_entries_array d) (is @ js) =
    (case List.find (same_name U ds) names of
       Some named \<Rightarrow> Some (Inr (Some (fst named)))
     | None \<Rightarrow> find_file_entry compare A (dir_store d) (dir_file_entries_array d) js)"
  using assms(1)
proof (induction rule: list_all2_induct)
  case (Cons i "is" named names)
  obtain de where "array_get_entry_by_index A (dir_file_entries_array d) i = Some (Some (fst named))"
    and "dir_store d (fst named) = Some de" and "entry_characters U A (dir_store d) de (snd named)"
    using Cons.hyps(1) unfolding indexed_name_def stored_name_def by blast
  then show ?case
    using Cons.IH assms(2) by (auto simp: compare_lists_equal same_name_def)
qed simp

lemma indexed_names:
  assumes "array_contract A view" and "view (dir_file_entries_array d) = xs @ ys"
    and "list_all2 (stored_name U A d) xs names"
  shows "list_all2 (indexed_name U A d) [0..int (length xs) - 1] names"
  using assms(2,3) by (auto simp: list_all2_conv_all_nth indexed_name_def array_get [OF assms(1)] nth_append)

lemma lookup_by_name:
  assumes "array_contract A view" and "list_all2 (stored_name U A d) (view (dir_file_entries_array d)) names"
  shows lookup_utf8_name: "utf8_characters U string8 length8 ds \<Longrightarrow>
      libfsfat_directory_get_file_entry_by_utf8_name U A (Some d) (Some string8) length8 =
      Some (Inr (map_option fst (List.find (same_name U ds) names)))"
    and lookup_utf16_name: "utf16_characters U string16 length16 ds \<Longrightarrow>
      libfsfat_directory_get_file_entry_by_utf16_name U A (Some d) (Some string16) length16 =
      Some (Inr (map_option fst (List.find (same_name U ds) names)))"
proof -
  let ?arr = "dir_file_entries_array d"
  have names: "list_all2 (indexed_name U A d) [0..int (length (view ?arr)) - 1] names"
    by (rule indexed_names [OF assms(1) _ assms(2), of "[]"]) simp
  have found: "find_file_entry compare A (dir_store d) ?arr [0..int (length (view ?arr)) - 1] =
      Some (Inr (map_option fst (List.find (same_name U ds) names)))"
    if "\<And>de cs. entry_characters U A (dir_store d) de cs \<Longrightarrow>
      compare (Some de) = Some (Inr (compare_lists (map (una_towupper U) ds) (map (una_towupper U) cs)))"
    for compare
    using find_file_entry_names [where compare = compare, OF names that, of "[]"] by (auto split: option.split)
  show "utf8_characters U string8 length8 ds \<Longrightarrow>
      libfsfat_directory_get_file_entry_by_utf8_name U A (Some d) (Some string8) length8 =
      Some (Inr (map_option fst (List.find (same_name U ds) names)))"
    and "utf16_characters U string16 length16 ds \<Longrightarrow>
      libfsfat_directory_get_file_entry_by_utf16_name U A (Some d) (Some string16) length16 =
      Some (Inr (map_option fst (List.find (same_name U ds) names)))"
    using compare_entry_characters
    by (auto simp: libfsfat_directory_get_file_entry_by_utf8_name_def
      libfsfat_directory_get_file_entry_by_utf16_name_def array_number [OF assms(1)] intro!: found)
qed

text \<open>
  C26. The lookup of a name in a directory, by an UTF-8 or an UTF-16 string, finds the first
  file entry whose name has the characters of the string when both are folded to upper case,
  and reports that there is none otherwise.
\<close>

theorem directory_lookup_by_name:
  assumes "array_contract A view" and "list_all2 (stored_name U A d) (view (dir_file_entries_array d)) names"
    and "utf8_characters U string8 length8 ds" and "utf16_characters U string16 length16 ds"
  shows "libfsfat_directory_get_file_entry_by_utf8_name U A (Some d) (Some string8) length8 =
      Some (Inr (map_option fst (List.find (same_name U ds) names))) \<and>
    libfsfat_directory_get_file_entry_by_utf16_name U A (Some d) (Some string16) length16 =
      Some (Inr (map_option fst (List.find (same_name U ds) names)))"
  using lookup_by_name [OF assms(1,2)] assms(3,4) by blast

text \<open>
  One entry without a readable name makes the entries behind it unreachable: if a
  directory has an exFAT file with a name of more than 9 entries, the lookup of any name that
  no entry in front of it has is an error, also when an entry behind it has the name.
\<close>

theorem directory_lookup_broken_entry:
  assumes "array_contract A view" and "view (dir_file_entries_array d) = xs @ Some a # ys"
    and "list_all2 (stored_name U A d) xs names" and "List.find (same_name U ds) names = None"
    and "utf8_characters U string8 length8 ds"
    and "dir_store d a = Some de" and "de_name de = None" and "de_name_entries_array de = Some arr"
    and "9 < length (view arr)"
  shows "libfsfat_directory_get_file_entry_by_utf8_name U A (Some d) (Some string8) length8 =
    Some (Inl RUNTIME_GENERIC)"
proof -
  let ?arr = "dir_file_entries_array d"
  let ?compare = "\<lambda>de. libfsfat_directory_entry_compare_with_utf8_string U A (dir_store d) de (Some string8) length8"
  have names: "list_all2 (indexed_name U A d) [0..int (length xs) - 1] names"
    by (rule indexed_names [OF assms(1,2,3)])
  have upto: "[0..int (length (view ?arr)) - 1] =
      [0..int (length xs) - 1] @ int (length xs) # [int (length xs) + 1..int (length (view ?arr)) - 1]"
    using assms(2) by (intro upto_split3) simp_all
  have "?compare (Some de) = Some (Inl RUNTIME_GET_FAILED)"
    using assms(7-9)
    by (simp add: libfsfat_directory_entry_compare_with_utf8_string_def entry_with_name_def
      libfsfat_directory_entry_get_name_def array_number [OF assms(1)]
      libfsfat_directory_entry_get_name_from_exfat_file_name_entries_def)
  moreover have "array_get_entry_by_index A ?arr (int (length xs)) = Some (Some a)"
    using assms(2) by (simp add: array_get [OF assms(1)])
  ultimately have stop: "find_file_entry ?compare A (dir_store d) ?arr
      (int (length xs) # [int (length xs) + 1..int (length (view ?arr)) - 1]) = Some (Inl RUNTIME_GENERIC)"
    using assms(6) by simp
  have "find_file_entry ?compare A (dir_store d) ?arr [0..int (length (view ?arr)) - 1] =
      Some (Inl RUNTIME_GENERIC)"
    unfolding upto
    by (subst find_file_entry_names [where compare = ?compare and ds = ds, OF names])
      (use compare_entry_characters(1) [OF _ assms(5)] assms(4) stop in
        \<open>simp_all del: find_file_entry.simps\<close>)
  then show ?thesis
    by (simp add: libfsfat_directory_get_file_entry_by_utf8_name_def array_number [OF assms(1)])
qed

section \<open>A concrete directory\<close>

text \<open>
  A directory with a file A and, for the second witness, an exFAT file in front of it that
  has a name of 17 entries.
\<close>

definition example_file :: "nat option list directory_entry" where
  "example_file = directory_entry_zero\<lparr> de_entry_type := TYPE_SHORT_NAME,
     de_name_data := 0x41 # replicate 31 0x20 \<rparr>"

definition example_broken_file :: "nat option list directory_entry" where
  "example_broken_file = directory_entry_zero\<lparr> de_entry_type := TYPE_EXFAT_FILE_ENTRY,
     de_name_entries_array := Some (replicate 17 (Some 0)) \<rparr>"

definition example_directory :: "nat option list \<Rightarrow> nat option list directory" where
  "example_directory files =
     \<lparr> dir_store = [0 \<mapsto> example_file, 1 \<mapsto> example_broken_file], dir_next = 2, dir_entries_array = files,
       dir_file_entries_array = files, dir_self_entry = None, dir_parent_entry = None,
       dir_volume_label_entry = None \<rparr>"

lemma example_file_name: "entry_characters ascii_una A store example_file [0x41]"
  by (auto simp: entry_characters_def entry_with_name_def example_file_def directory_entry_zero_def
    libfsfat_directory_entry_get_name_def short_name_string_def Let_def name_characters_def
    name_size_without_end_def next_name_character_def ascii_una_def SSIZE_MAX_def intro!: decodes.intros)

lemma example_strings:
  "utf8_characters ascii_una [0x61] 1 [0x61]" "utf16_characters ascii_una [0x61] 1 [0x61]"
  by (auto simp: utf8_characters_def utf16_characters_def string_length_without_end_def ascii_una_def
    SSIZE_MAX_def intro!: decodes.intros)

theorem directory_lookup_by_name_witness:
  "libfsfat_directory_get_file_entry_by_utf8_name ascii_una list_array (Some (example_directory [Some 0]))
     (Some [0x61]) 1 = Some (Inr (Some 0))"
proof -
  have "list_all2 (stored_name ascii_una list_array (example_directory [Some 0]))
      (dir_file_entries_array (example_directory [Some 0])) [(0, [0x41])]"
    by (simp add: stored_name_def example_directory_def example_file_name)
  from directory_lookup_by_name [OF list_array_contract this example_strings] show ?thesis
    by (simp add: same_name_def ascii_una_def)
qed

theorem directory_lookup_broken_entry_witness:
  "libfsfat_directory_get_file_entry_by_utf8_name ascii_una list_array
     (Some (example_directory [Some 1, Some 0])) (Some [0x61]) 1 = Some (Inl RUNTIME_GENERIC)"
  by (rule directory_lookup_broken_entry [OF list_array_contract, where xs = "[]" and names = "[]" and
        arr = "replicate 17 (Some 0)"])
    (use example_strings in \<open>auto simp: example_directory_def example_broken_file_def directory_entry_zero_def\<close>)

end
