(* ===== verification/File_Entry.thy ===== *)
theory File_Entry
  imports File_Stream Entry_Names
begin

text \<open>
  The file entries of \<^verbatim>\<open>libfsfat/libfsfat_file_entry.c\<close>: what the library gives its
  callers for a file or a directory. An operation that changes the entry, because it reads
  the directory or the stream when they are first needed, returns the entry it leaves. The
  return value 0 of a function, not available or not found, is \<open>None\<close>.
\<close>

section \<open>File entries\<close>

definition FILE_ATTRIBUTE_FLAG_DEVICE :: u16 where
  "FILE_ATTRIBUTE_FLAG_DEVICE = 0x40"

definition FILE_ENTRY_FLAG_MANAGE_DIRECTORY :: u8 where
  "FILE_ENTRY_FLAG_MANAGE_DIRECTORY = 0x01"

record ('arr, 'cache, 'xarr, 's) file_entry =
  fe_io_handle :: "io_handle option"
  fe_file_io_handle :: bfio
  fe_file_system :: "('arr, 'cache) file_system option"
  fe_directory_entry :: "'arr directory_entry option"
  fe_identifier :: u64
  fe_file_attribute_flags :: u16
  fe_cluster_number :: u32
  fe_data_extents_array :: 'xarr
  fe_cluster_block_stream :: "'s option"
  fe_data_size :: u64
  fe_directory :: "'arr directory option"
  fe_flags :: u8

text \<open>The values that a file entry takes from its directory entry.\<close>

definition directory_entry_values ::
  "'arr directory_entry option \<Rightarrow> (u16 \<times> u32 \<times> u64) result" where
  "directory_entry_values directory_entry =
     (if directory_entry = None then Inr (0, 0, 0)
      else
        (case libfsfat_directory_entry_get_file_attribute_flags directory_entry of
           Inl e \<Rightarrow> Inl RUNTIME_GET_FAILED
         | Inr file_attribute_flags \<Rightarrow>
        (case libfsfat_directory_entry_get_data_start_cluster directory_entry of
           Inl e \<Rightarrow> Inl RUNTIME_GET_FAILED
         | Inr cluster_number \<Rightarrow>
        (case libfsfat_directory_entry_get_data_size directory_entry of
           Inl e \<Rightarrow> Inl RUNTIME_GET_FAILED
         | Inr data_size \<Rightarrow>
        (case libfsfat_directory_entry_get_valid_data_size directory_entry of
           Inl e \<Rightarrow> Inl RUNTIME_GET_FAILED
         | Inr valid_data_size \<Rightarrow>
             Inr (file_attribute_flags, cluster_number,
               if valid_data_size > 0 then valid_data_size else data_size))))))"

definition libfsfat_file_entry_initialize ::
  "('xarr, extent) array_ops \<Rightarrow> ('arr, 'cache, 'xarr, 's) file_entry option \<Rightarrow> io_handle option \<Rightarrow> bfio \<Rightarrow>
   ('arr, 'cache) file_system option \<Rightarrow> u64 \<Rightarrow> 'arr directory_entry option \<Rightarrow> 'arr directory option \<Rightarrow>
   ('arr, 'cache, 'xarr, 's) file_entry result" where
  "libfsfat_file_entry_initialize X file_entry io_handle bfio file_system identifier directory_entry
       directory =
     (if file_entry \<noteq> None then Inl RUNTIME_VALUE_ALREADY_SET
      else if io_handle = None then Inl ARGUMENT_INVALID_VALUE
      else
        (case directory_entry_values directory_entry of
           Inl e \<Rightarrow> Inl e
         | Inr (file_attribute_flags, cluster_number, data_size) \<Rightarrow>
             (case array_initialize X 0 of
                None \<Rightarrow> Inl RUNTIME_INITIALIZE_FAILED
              | Some data_extents_array \<Rightarrow>
                  Inr \<lparr> fe_io_handle = io_handle, fe_file_io_handle = bfio, fe_file_system = file_system,
                        fe_directory_entry = directory_entry, fe_identifier = identifier,
                        fe_file_attribute_flags = file_attribute_flags,
                        fe_cluster_number = cluster_number,
                        fe_data_extents_array = data_extents_array, fe_cluster_block_stream = None,
                        fe_data_size = data_size, fe_directory = directory, fe_flags = 0 \<rparr>)))"

definition libfsfat_internal_file_entry_get_directory ::
  "('arr, nat) array_ops \<Rightarrow> ('tarr, node_entry) array_ops \<Rightarrow>
   ('arr, 'cache, 'xarr, 's) file_entry option \<Rightarrow> ('arr, 'cache, 'xarr, 's) file_entry result option" where
  "libfsfat_internal_file_entry_get_directory A T internal_file_entry =
     (case internal_file_entry of
        None \<Rightarrow> Some (Inl ARGUMENT_INVALID_VALUE)
      | Some fe \<Rightarrow>
          if fe_directory fe \<noteq> None then Some (Inl RUNTIME_VALUE_ALREADY_SET)
          else if fe_file_attribute_flags fe AND FILE_ATTRIBUTE_FLAG_DIRECTORY \<noteq> 0
          then
            (case libfsfat_directory_entry_get_data_start_cluster (fe_directory_entry fe) of
               Inl e \<Rightarrow> Some (Inl RUNTIME_GET_FAILED)
             | Inr cluster_number \<Rightarrow>
                 (case libfsfat_file_system_read_directory A T (fe_file_system fe) (fe_file_io_handle fe)
                         cluster_number (fe_directory fe) of
                    None \<Rightarrow> None
                  | Some (Inl e) \<Rightarrow> Some (Inl IO_READ_FAILED)
                  | Some (Inr directory) \<Rightarrow>
                      Some (Inr (fe\<lparr> fe_directory := Some directory,
                                     fe_flags := fe_flags fe OR FILE_ENTRY_FLAG_MANAGE_DIRECTORY \<rparr>))))
          else Some (Inr fe))"

section \<open>Values of the directory entry\<close>

definition libfsfat_file_entry_get_identifier ::
  "('arr, 'cache, 'xarr, 's) file_entry option \<Rightarrow> u64 result" where
  "libfsfat_file_entry_get_identifier file_entry =
     (case file_entry of
        None \<Rightarrow> Inl ARGUMENT_INVALID_VALUE
      | Some fe \<Rightarrow> Inr (fe_identifier fe))"

text \<open>A value of the directory entry; \<open>None\<close> when there is no directory entry.\<close>

definition directory_entry_value ::
  "('arr directory_entry option \<Rightarrow> 'a result) \<Rightarrow> ('arr, 'cache, 'xarr, 's) file_entry option \<Rightarrow>
   'a option result" where
  "directory_entry_value get file_entry =
     (case file_entry of
        None \<Rightarrow> Inl ARGUMENT_INVALID_VALUE
      | Some fe \<Rightarrow>
          if fe_directory_entry fe = None then Inr None
          else
            (case get (fe_directory_entry fe) of
               Inl e \<Rightarrow> Inl RUNTIME_GET_FAILED
             | Inr x \<Rightarrow> Inr (Some x)))"

definition libfsfat_file_entry_get_access_time ::
  "('arr, 'cache, 'xarr, 's) file_entry option \<Rightarrow> u64 option result" where
  "libfsfat_file_entry_get_access_time = directory_entry_value libfsfat_directory_entry_get_access_time"

definition libfsfat_file_entry_get_creation_time ::
  "('arr, 'cache, 'xarr, 's) file_entry option \<Rightarrow> u64 option result" where
  "libfsfat_file_entry_get_creation_time = directory_entry_value libfsfat_directory_entry_get_creation_time"

definition libfsfat_file_entry_get_modification_time ::
  "('arr, 'cache, 'xarr, 's) file_entry option \<Rightarrow> u64 option result" where
  "libfsfat_file_entry_get_modification_time =
     directory_entry_value libfsfat_directory_entry_get_modification_time"

definition libfsfat_file_entry_get_file_attribute_flags ::
  "('arr, 'cache, 'xarr, 's) file_entry option \<Rightarrow> u16 option result" where
  "libfsfat_file_entry_get_file_attribute_flags =
     directory_entry_value libfsfat_directory_entry_get_file_attribute_flags"

text \<open>
  The directory entry of a file entry is a copy with its name and without name entries, so
  no store of entries is needed for its name.
\<close>

definition libfsfat_file_entry_get_utf8_name_size ::
  "una_ops \<Rightarrow> ('arr, nat) array_ops \<Rightarrow> ('arr, 'cache, 'xarr, 's) file_entry option \<Rightarrow> nat option result" where
  "libfsfat_file_entry_get_utf8_name_size U A =
     directory_entry_value (libfsfat_directory_entry_get_utf8_name_size U A (\<lambda>_. None))"

definition libfsfat_file_entry_get_utf8_name ::
  "una_ops \<Rightarrow> ('arr, nat) array_ops \<Rightarrow> ('arr, 'cache, 'xarr, 's) file_entry option \<Rightarrow> nat \<Rightarrow>
   u8 list option result" where
  "libfsfat_file_entry_get_utf8_name U A file_entry utf8_string_size =
     directory_entry_value
       (\<lambda>de. libfsfat_directory_entry_get_utf8_name U A (\<lambda>_. None) de utf8_string_size) file_entry"

definition libfsfat_file_entry_get_utf16_name_size ::
  "una_ops \<Rightarrow> ('arr, nat) array_ops \<Rightarrow> ('arr, 'cache, 'xarr, 's) file_entry option \<Rightarrow> nat option result" where
  "libfsfat_file_entry_get_utf16_name_size U A =
     directory_entry_value (libfsfat_directory_entry_get_utf16_name_size U A (\<lambda>_. None))"

definition libfsfat_file_entry_get_utf16_name ::
  "una_ops \<Rightarrow> ('arr, nat) array_ops \<Rightarrow> ('arr, 'cache, 'xarr, 's) file_entry option \<Rightarrow> nat \<Rightarrow>
   u16 list option result" where
  "libfsfat_file_entry_get_utf16_name U A file_entry utf16_string_size =
     directory_entry_value
       (\<lambda>de. libfsfat_directory_entry_get_utf16_name U A (\<lambda>_. None) de utf16_string_size) file_entry"

section \<open>Sub file entries\<close>

text \<open>The entry with its directory, if it has none yet.\<close>

definition entry_with_directory ::
  "('arr, nat) array_ops \<Rightarrow> ('tarr, node_entry) array_ops \<Rightarrow> ('arr, 'cache, 'xarr, 's) file_entry \<Rightarrow>
   ('arr, 'cache, 'xarr, 's) file_entry result option" where
  "entry_with_directory A T fe =
     (if fe_directory fe = None
      then
        (case libfsfat_internal_file_entry_get_directory A T (Some fe) of
           None \<Rightarrow> None
         | Some (Inl e) \<Rightarrow> Some (Inl RUNTIME_GET_FAILED)
         | Some (Inr fe) \<Rightarrow> Some (Inr fe))
      else Some (Inr fe))"

definition libfsfat_file_entry_get_number_of_sub_file_entries ::
  "('arr, nat) array_ops \<Rightarrow> ('tarr, node_entry) array_ops \<Rightarrow>
   ('arr, 'cache, 'xarr, 's) file_entry option \<Rightarrow>
   (('arr, 'cache, 'xarr, 's) file_entry \<times> int) result option" where
  "libfsfat_file_entry_get_number_of_sub_file_entries A T file_entry =
     (case file_entry of
        None \<Rightarrow> Some (Inl ARGUMENT_INVALID_VALUE)
      | Some fe \<Rightarrow>
          (case entry_with_directory A T fe of
             None \<Rightarrow> None
           | Some (Inl e) \<Rightarrow> Some (Inl e)
           | Some (Inr fe) \<Rightarrow>
               if fe_directory fe = None then Some (Inr (fe, 0))
               else
                 (case libfsfat_directory_get_number_of_file_entries A (fe_directory fe) of
                    Inl e \<Rightarrow> Some (Inl RUNTIME_GET_FAILED)
                  | Inr number_of_sub_file_entries \<Rightarrow> Some (Inr (fe, number_of_sub_file_entries)))))"

text \<open>The file entry of an entry of the directory, which is copied.\<close>

definition sub_file_entry_of ::
  "('arr, nat) array_ops \<Rightarrow> ('xarr, extent) array_ops \<Rightarrow> ('arr, 'cache, 'xarr, 's) file_entry \<Rightarrow>
   nat option \<Rightarrow> ('arr, 'cache, 'xarr, 's) file_entry result" where
  "sub_file_entry_of A X fe sub_directory_entry =
     (let store = (case fe_directory fe of None \<Rightarrow> \<lambda>_. None | Some d \<Rightarrow> dir_store d);
          de = Option.bind sub_directory_entry store
      in case libfsfat_directory_entry_get_identifier de of
           Inl e \<Rightarrow> Inl RUNTIME_GET_FAILED
         | Inr identifier \<Rightarrow>
             (case libfsfat_directory_entry_clone A store None de of
                Inl e \<Rightarrow> Inl RUNTIME_INITIALIZE_FAILED
              | Inr (_, safe_directory_entry) \<Rightarrow>
                  (case libfsfat_file_entry_initialize X None (fe_io_handle fe) (fe_file_io_handle fe)
                          (fe_file_system fe) identifier safe_directory_entry None of
                     Inl e \<Rightarrow> Inl RUNTIME_INITIALIZE_FAILED
                   | Inr sub_file_entry \<Rightarrow> Inr sub_file_entry)))"

definition libfsfat_internal_file_entry_get_sub_file_entry_by_index ::
  "('arr, nat) array_ops \<Rightarrow> ('tarr, node_entry) array_ops \<Rightarrow> ('xarr, extent) array_ops \<Rightarrow>
   ('arr, 'cache, 'xarr, 's) file_entry option \<Rightarrow> int \<Rightarrow> ('arr, 'cache, 'xarr, 's) file_entry option \<Rightarrow>
   (('arr, 'cache, 'xarr, 's) file_entry \<times> ('arr, 'cache, 'xarr, 's) file_entry) result option" where
  "libfsfat_internal_file_entry_get_sub_file_entry_by_index A T X internal_file_entry
       sub_file_entry_index sub_file_entry =
     (case internal_file_entry of
        None \<Rightarrow> Some (Inl ARGUMENT_INVALID_VALUE)
      | Some fe \<Rightarrow>
          if sub_file_entry \<noteq> None then Some (Inl RUNTIME_VALUE_ALREADY_SET)
          else
            (case entry_with_directory A T fe of
               None \<Rightarrow> None
             | Some (Inl e) \<Rightarrow> Some (Inl e)
             | Some (Inr fe) \<Rightarrow>
                 (case libfsfat_directory_get_file_entry_by_index A (fe_directory fe) sub_file_entry_index of
                    Inl e \<Rightarrow> Some (Inl RUNTIME_GET_FAILED)
                  | Inr sub_directory_entry \<Rightarrow>
                      Some (map_sum id (Pair fe) (sub_file_entry_of A X fe sub_directory_entry)))))"

definition libfsfat_file_entry_get_sub_file_entry_by_index ::
  "('arr, nat) array_ops \<Rightarrow> ('tarr, node_entry) array_ops \<Rightarrow> ('xarr, extent) array_ops \<Rightarrow>
   ('arr, 'cache, 'xarr, 's) file_entry option \<Rightarrow> int \<Rightarrow> ('arr, 'cache, 'xarr, 's) file_entry option \<Rightarrow>
   (('arr, 'cache, 'xarr, 's) file_entry \<times> ('arr, 'cache, 'xarr, 's) file_entry) result option" where
  "libfsfat_file_entry_get_sub_file_entry_by_index A T X file_entry sub_file_entry_index sub_file_entry =
     (if file_entry = None then Some (Inl ARGUMENT_INVALID_VALUE)
      else if sub_file_entry \<noteq> None then Some (Inl RUNTIME_VALUE_ALREADY_SET)
      else
        (case libfsfat_internal_file_entry_get_sub_file_entry_by_index A T X file_entry
                sub_file_entry_index sub_file_entry of
           None \<Rightarrow> None
         | Some (Inl e) \<Rightarrow> Some (Inl RUNTIME_GET_FAILED)
         | Some (Inr r) \<Rightarrow> Some (Inr r)))"

definition libfsfat_internal_file_entry_get_sub_file_entry_by_utf8_name ::
  "una_ops \<Rightarrow> ('arr, nat) array_ops \<Rightarrow> ('tarr, node_entry) array_ops \<Rightarrow> ('xarr, extent) array_ops \<Rightarrow>
   ('arr, 'cache, 'xarr, 's) file_entry option \<Rightarrow> u8 list option \<Rightarrow> nat \<Rightarrow>
   ('arr, 'cache, 'xarr, 's) file_entry option \<Rightarrow>
   (('arr, 'cache, 'xarr, 's) file_entry \<times> ('arr, 'cache, 'xarr, 's) file_entry option) result option" where
  "libfsfat_internal_file_entry_get_sub_file_entry_by_utf8_name U A T X internal_file_entry
       utf8_string utf8_string_length sub_file_entry =
     (case internal_file_entry of
        None \<Rightarrow> Some (Inl ARGUMENT_INVALID_VALUE)
      | Some fe \<Rightarrow>
          if sub_file_entry \<noteq> None then Some (Inl RUNTIME_VALUE_ALREADY_SET)
          else
            (case entry_with_directory A T fe of
               None \<Rightarrow> None
             | Some (Inl e) \<Rightarrow> Some (Inl e)
             | Some (Inr fe) \<Rightarrow>
                 (case libfsfat_directory_get_file_entry_by_utf8_name U A (fe_directory fe) utf8_string
                         utf8_string_length of
                    None \<Rightarrow> None
                  | Some (Inl e) \<Rightarrow> Some (Inl RUNTIME_GET_FAILED)
                  | Some (Inr None) \<Rightarrow> Some (Inr (fe, None))
                  | Some (Inr (Some address)) \<Rightarrow>
                      Some (map_sum id (\<lambda>sub. (fe, Some sub)) (sub_file_entry_of A X fe (Some address))))))"

text \<open>The return value 0 of the internal function is treated as an error.\<close>

definition libfsfat_file_entry_get_sub_file_entry_by_utf8_name ::
  "una_ops \<Rightarrow> ('arr, nat) array_ops \<Rightarrow> ('tarr, node_entry) array_ops \<Rightarrow> ('xarr, extent) array_ops \<Rightarrow>
   ('arr, 'cache, 'xarr, 's) file_entry option \<Rightarrow> u8 list option \<Rightarrow> nat \<Rightarrow>
   ('arr, 'cache, 'xarr, 's) file_entry option \<Rightarrow>
   (('arr, 'cache, 'xarr, 's) file_entry \<times> ('arr, 'cache, 'xarr, 's) file_entry) result option" where
  "libfsfat_file_entry_get_sub_file_entry_by_utf8_name U A T X file_entry utf8_string
       utf8_string_length sub_file_entry =
     (if file_entry = None then Some (Inl ARGUMENT_INVALID_VALUE)
      else if sub_file_entry \<noteq> None then Some (Inl RUNTIME_VALUE_ALREADY_SET)
      else
        (case libfsfat_internal_file_entry_get_sub_file_entry_by_utf8_name U A T X file_entry
                utf8_string utf8_string_length sub_file_entry of
           None \<Rightarrow> None
         | Some (Inr (fe, Some sub)) \<Rightarrow> Some (Inr (fe, sub))
         | Some _ \<Rightarrow> Some (Inl RUNTIME_GET_FAILED)))"

definition libfsfat_internal_file_entry_get_sub_file_entry_by_utf16_name ::
  "una_ops \<Rightarrow> ('arr, nat) array_ops \<Rightarrow> ('tarr, node_entry) array_ops \<Rightarrow> ('xarr, extent) array_ops \<Rightarrow>
   ('arr, 'cache, 'xarr, 's) file_entry option \<Rightarrow> u16 list option \<Rightarrow> nat \<Rightarrow>
   ('arr, 'cache, 'xarr, 's) file_entry option \<Rightarrow>
   (('arr, 'cache, 'xarr, 's) file_entry \<times> ('arr, 'cache, 'xarr, 's) file_entry option) result option" where
  "libfsfat_internal_file_entry_get_sub_file_entry_by_utf16_name U A T X internal_file_entry
       utf16_string utf16_string_length sub_file_entry =
     (case internal_file_entry of
        None \<Rightarrow> Some (Inl ARGUMENT_INVALID_VALUE)
      | Some fe \<Rightarrow>
          if sub_file_entry \<noteq> None then Some (Inl RUNTIME_VALUE_ALREADY_SET)
          else
            (case entry_with_directory A T fe of
               None \<Rightarrow> None
             | Some (Inl e) \<Rightarrow> Some (Inl e)
             | Some (Inr fe) \<Rightarrow>
                 (case libfsfat_directory_get_file_entry_by_utf16_name U A (fe_directory fe) utf16_string
                         utf16_string_length of
                    None \<Rightarrow> None
                  | Some (Inl e) \<Rightarrow> Some (Inl RUNTIME_GET_FAILED)
                  | Some (Inr None) \<Rightarrow> Some (Inr (fe, None))
                  | Some (Inr (Some address)) \<Rightarrow>
                      Some (map_sum id (\<lambda>sub. (fe, Some sub)) (sub_file_entry_of A X fe (Some address))))))"

definition libfsfat_file_entry_get_sub_file_entry_by_utf16_name ::
  "una_ops \<Rightarrow> ('arr, nat) array_ops \<Rightarrow> ('tarr, node_entry) array_ops \<Rightarrow> ('xarr, extent) array_ops \<Rightarrow>
   ('arr, 'cache, 'xarr, 's) file_entry option \<Rightarrow> u16 list option \<Rightarrow> nat \<Rightarrow>
   ('arr, 'cache, 'xarr, 's) file_entry option \<Rightarrow>
   (('arr, 'cache, 'xarr, 's) file_entry \<times> ('arr, 'cache, 'xarr, 's) file_entry) result option" where
  "libfsfat_file_entry_get_sub_file_entry_by_utf16_name U A T X file_entry utf16_string
       utf16_string_length sub_file_entry =
     (if file_entry = None then Some (Inl ARGUMENT_INVALID_VALUE)
      else if sub_file_entry \<noteq> None then Some (Inl RUNTIME_VALUE_ALREADY_SET)
      else
        (case libfsfat_internal_file_entry_get_sub_file_entry_by_utf16_name U A T X file_entry
                utf16_string utf16_string_length sub_file_entry of
           None \<Rightarrow> None
         | Some (Inr (fe, Some sub)) \<Rightarrow> Some (Inr (fe, sub))
         | Some _ \<Rightarrow> Some (Inl RUNTIME_GET_FAILED)))"

section \<open>The data\<close>

text \<open>The guard of the data functions: all three of the flags have to be set.\<close>

definition unsupported_file_attribute_flags :: "u16 \<Rightarrow> bool" where
  "unsupported_file_attribute_flags flags \<longleftrightarrow>
     flags AND FILE_ATTRIBUTE_FLAG_DEVICE \<noteq> 0 \<and> flags AND FILE_ATTRIBUTE_FLAG_DIRECTORY \<noteq> 0 \<and>
     flags AND FILE_ATTRIBUTE_FLAG_VOLUME_LABEL \<noteq> 0"

text \<open>The entry with its stream, if it has none yet, and the stream.\<close>

definition entry_with_stream ::
  "('tarr, node_entry) array_ops \<Rightarrow> ('xarr, extent) array_ops \<Rightarrow> 's stream_ops \<Rightarrow>
   ('arr, 'cache, 'xarr, 's) file_entry \<Rightarrow> (('arr, 'cache, 'xarr, 's) file_entry \<times> 's) result option" where
  "entry_with_stream T X S fe =
     (case fe_cluster_block_stream fe of
        Some stream \<Rightarrow> Some (Inr (fe, stream))
      | None \<Rightarrow>
          (case libfsfat_file_system_get_data_stream X T S (fe_file_system fe) (fe_cluster_number fe)
                  (fe_data_size fe) (fe_data_extents_array fe) (fe_cluster_block_stream fe) of
             None \<Rightarrow> None
           | Some (Inl e) \<Rightarrow> Some (Inl RUNTIME_GET_FAILED)
           | Some (Inr (data_extents_array, stream)) \<Rightarrow>
               Some (Inr (fe\<lparr> fe_data_extents_array := data_extents_array,
                              fe_cluster_block_stream := Some stream \<rparr>, stream))))"

definition libfsfat_file_entry_read_buffer ::
  "('tarr, node_entry) array_ops \<Rightarrow> ('xarr, extent) array_ops \<Rightarrow> 's stream_ops \<Rightarrow>
   ('arr, 'cache, 'xarr, 's) file_entry option \<Rightarrow> nat \<Rightarrow>
   (('arr, 'cache, 'xarr, 's) file_entry \<times> u8 list) result option" where
  "libfsfat_file_entry_read_buffer T X S file_entry buffer_size =
     (case file_entry of
        None \<Rightarrow> Some (Inl ARGUMENT_INVALID_VALUE)
      | Some fe \<Rightarrow>
          if unsupported_file_attribute_flags (fe_file_attribute_flags fe)
          then Some (Inl RUNTIME_UNSUPPORTED_VALUE)
          else
            (case entry_with_stream T X S fe of
               None \<Rightarrow> None
             | Some (Inl e) \<Rightarrow> Some (Inl e)
             | Some (Inr (fe, stream)) \<Rightarrow>
                 (case stream_read_buffer S stream (fe_file_io_handle fe) buffer_size of
                    None \<Rightarrow> Some (Inl IO_READ_FAILED)
                  | Some (stream, buffer) \<Rightarrow>
                      Some (Inr (fe\<lparr> fe_cluster_block_stream := Some stream \<rparr>, buffer)))))"

definition libfsfat_file_entry_read_buffer_at_offset ::
  "('tarr, node_entry) array_ops \<Rightarrow> ('xarr, extent) array_ops \<Rightarrow> 's stream_ops \<Rightarrow>
   ('arr, 'cache, 'xarr, 's) file_entry option \<Rightarrow> nat \<Rightarrow> off64 \<Rightarrow>
   (('arr, 'cache, 'xarr, 's) file_entry \<times> u8 list) result option" where
  "libfsfat_file_entry_read_buffer_at_offset T X S file_entry buffer_size offset =
     (case file_entry of
        None \<Rightarrow> Some (Inl ARGUMENT_INVALID_VALUE)
      | Some fe \<Rightarrow>
          if unsupported_file_attribute_flags (fe_file_attribute_flags fe)
          then Some (Inl RUNTIME_UNSUPPORTED_VALUE)
          else
            (case entry_with_stream T X S fe of
               None \<Rightarrow> None
             | Some (Inl e) \<Rightarrow> Some (Inl e)
             | Some (Inr (fe, stream)) \<Rightarrow>
                 (case stream_read_buffer_at_offset S stream (fe_file_io_handle fe) buffer_size offset of
                    None \<Rightarrow> Some (Inl IO_READ_FAILED)
                  | Some (stream, buffer) \<Rightarrow>
                      Some (Inr (fe\<lparr> fe_cluster_block_stream := Some stream \<rparr>, buffer)))))"

text \<open>
  The result is the return value, with which an offset of -1 comes back before it is tried
  and without an error.
\<close>

definition libfsfat_file_entry_seek_offset ::
  "('tarr, node_entry) array_ops \<Rightarrow> ('xarr, extent) array_ops \<Rightarrow> 's stream_ops \<Rightarrow>
   ('arr, 'cache, 'xarr, 's) file_entry option \<Rightarrow> off64 \<Rightarrow> int \<Rightarrow>
   (('arr, 'cache, 'xarr, 's) file_entry \<times> off64) result option" where
  "libfsfat_file_entry_seek_offset T X S file_entry offset whence =
     (case file_entry of
        None \<Rightarrow> Some (Inl ARGUMENT_INVALID_VALUE)
      | Some fe \<Rightarrow>
          if unsupported_file_attribute_flags (fe_file_attribute_flags fe)
          then Some (Inl RUNTIME_UNSUPPORTED_VALUE)
          else
            (case entry_with_stream T X S fe of
               None \<Rightarrow> None
             | Some (Inl e) \<Rightarrow> Some (Inl e)
             | Some (Inr (fe, stream)) \<Rightarrow>
                 if offset = - 1 then Some (Inr (fe, offset))
                 else
                   (case stream_seek_offset S stream offset whence of
                      None \<Rightarrow> Some (Inl IO_SEEK_FAILED)
                    | Some (stream, offset) \<Rightarrow>
                        Some (Inr (fe\<lparr> fe_cluster_block_stream := Some stream \<rparr>, offset)))))"

definition libfsfat_file_entry_get_offset ::
  "('tarr, node_entry) array_ops \<Rightarrow> ('xarr, extent) array_ops \<Rightarrow> 's stream_ops \<Rightarrow>
   ('arr, 'cache, 'xarr, 's) file_entry option \<Rightarrow>
   (('arr, 'cache, 'xarr, 's) file_entry \<times> off64) result option" where
  "libfsfat_file_entry_get_offset T X S file_entry =
     (case file_entry of
        None \<Rightarrow> Some (Inl ARGUMENT_INVALID_VALUE)
      | Some fe \<Rightarrow>
          if unsupported_file_attribute_flags (fe_file_attribute_flags fe)
          then Some (Inl RUNTIME_UNSUPPORTED_VALUE)
          else
            (case entry_with_stream T X S fe of
               None \<Rightarrow> None
             | Some (Inl e) \<Rightarrow> Some (Inl e)
             | Some (Inr (fe, stream)) \<Rightarrow>
                 (case stream_get_offset S stream of
                    None \<Rightarrow> Some (Inl RUNTIME_GET_FAILED)
                  | Some offset \<Rightarrow> Some (Inr (fe, offset)))))"

definition libfsfat_file_entry_get_size ::
  "('arr, 'cache, 'xarr, 's) file_entry option \<Rightarrow> u64 result" where
  "libfsfat_file_entry_get_size file_entry =
     (case file_entry of
        None \<Rightarrow> Inl ARGUMENT_INVALID_VALUE
      | Some fe \<Rightarrow> Inr (fe_data_size fe))"

definition libfsfat_file_entry_get_number_of_extents ::
  "('tarr, node_entry) array_ops \<Rightarrow> ('xarr, extent) array_ops \<Rightarrow> 's stream_ops \<Rightarrow>
   ('arr, 'cache, 'xarr, 's) file_entry option \<Rightarrow>
   (('arr, 'cache, 'xarr, 's) file_entry \<times> int) result option" where
  "libfsfat_file_entry_get_number_of_extents T X S file_entry =
     (case file_entry of
        None \<Rightarrow> Some (Inl ARGUMENT_INVALID_VALUE)
      | Some fe \<Rightarrow>
          (case entry_with_stream T X S fe of
             None \<Rightarrow> None
           | Some (Inl e) \<Rightarrow> Some (Inl e)
           | Some (Inr (fe, stream)) \<Rightarrow>
               (case array_get_number_of_entries X (fe_data_extents_array fe) of
                  None \<Rightarrow> Some (Inl RUNTIME_GET_FAILED)
                | Some number_of_extents \<Rightarrow> Some (Inr (fe, number_of_extents)))))"

definition libfsfat_file_entry_get_extent_by_index ::
  "('tarr, node_entry) array_ops \<Rightarrow> ('xarr, extent) array_ops \<Rightarrow> 's stream_ops \<Rightarrow>
   ('arr, 'cache, 'xarr, 's) file_entry option \<Rightarrow> int \<Rightarrow>
   (('arr, 'cache, 'xarr, 's) file_entry \<times> off64 \<times> u64 \<times> u32) result option" where
  "libfsfat_file_entry_get_extent_by_index T X S file_entry extent_index =
     (case file_entry of
        None \<Rightarrow> Some (Inl ARGUMENT_INVALID_VALUE)
      | Some fe \<Rightarrow>
          (case entry_with_stream T X S fe of
             None \<Rightarrow> None
           | Some (Inl e) \<Rightarrow> Some (Inl e)
           | Some (Inr (fe, stream)) \<Rightarrow>
               (case array_get_entry_by_index X (fe_data_extents_array fe) extent_index of
                  None \<Rightarrow> Some (Inl RUNTIME_GET_FAILED)
                | Some extent \<Rightarrow>
                    (case libfsfat_extent_get_values extent of
                       Inl e \<Rightarrow> Some (Inl RUNTIME_GET_FAILED)
                     | Inr values \<Rightarrow> Some (Inr (fe, values))))))"

section \<open>Reading a file\<close>

lemma chain_bytes_inside:
  assumes "\<forall>a \<in> set cs. cluster_in_volume io a" and "unat (io_volume_size io) \<le> 2 ^ 53"
  shows "\<forall>x \<in> set (chain_bytes io cs). x < unat (io_volume_size io)"
  using assms cluster_block_offset_exact [OF _ assms(2)]
  by (fastforce simp: chain_bytes_def cluster_bytes_def segment_bytes_def cluster_in_volume_def Let_def)

text \<open>A file on a volume: the chain of its clusters is in order and lies in the image.\<close>

definition file_on_volume ::
  "u8 list \<Rightarrow> io_handle \<Rightarrow> ('arr, 'cache) file_system \<Rightarrow> u32 \<Rightarrow> u32 list \<Rightarrow> bool" where
  "file_on_volume img io fs c cs \<longleftrightarrow>
     stream_volume_ok io \<and> length img = unat (io_volume_size io) \<and> fs_io_handle fs = Some io \<and>
     (\<exists>last_number c'. last_cluster_number (io_file_system_format io) = Some last_number \<and>
        cluster_path (fs_allocation_table fs) last_number c cs c' \<and> \<not> (2 \<le> c' \<and> c' < last_number)) \<and>
     (\<forall>a \<in> set cs. cluster_in_volume io a) \<and> ascending cs \<and> int (length cs) < 2 ^ 31 - 1"

definition file_content :: "u8 list \<Rightarrow> io_handle \<Rightarrow> u32 list \<Rightarrow> u64 \<Rightarrow> u8 list" where
  "file_content img io cs size0 = take (unat size0) (bytes_at img (chain_bytes io cs))"

lemma entry_with_stream_content:
  assumes "array_contract X xview" and "array_contract T tview" and "stream_contract S view"
    and on_volume: "file_on_volume img io fs (fe_cluster_number fe) cs" and "fe_file_system fe = Some fs"
    and "fe_cluster_block_stream fe = None" and "xview (fe_data_extents_array fe) = []"
  obtains fe' stream segments where "entry_with_stream T X S fe = Some (Inr (fe', stream))"
    and "fe_cluster_block_stream fe' = Some stream" and "fe_file_io_handle fe' = fe_file_io_handle fe"
    and "fe_file_attribute_flags fe' = fe_file_attribute_flags fe"
    and "view stream = (stream_callbacks, segments, 0)"
    and "\<forall>i n. read_segments libfsfat_cluster_block_data_read_segment_data
        libfsfat_cluster_block_data_seek_segment_offset (image_bfio img) segments i n =
      Some (take n (drop i (file_content img io cs (fe_data_size fe))))"
proof -
  obtain last_number c' where path: "last_cluster_number (io_file_system_format io) = Some last_number"
    "cluster_path (fs_allocation_table fs) last_number (fe_cluster_number fe) cs c'"
    "\<not> (2 \<le> c' \<and> c' < last_number)"
    using on_volume unfolding file_on_volume_def by blast
  have vol: "stream_volume_ok io" "length img = unat (io_volume_size io)" "fs_io_handle fs = Some io"
    "\<forall>a \<in> set cs. cluster_in_volume io a" "ascending cs" "int (length cs) < 2 ^ 31 - 1"
    using on_volume by (simp_all add: file_on_volume_def)
  obtain arr' stream segments where get:
    "libfsfat_file_system_get_data_stream X T S (Some fs) (fe_cluster_number fe) (fe_data_size fe)
       (fe_data_extents_array fe) None = Some (Inr (arr', stream))"
    "view stream = (stream_callbacks, segments, 0)"
    "segments_bytes segments = take (unat (fe_data_size fe)) (chain_bytes io cs)"
    using get_data_stream_path [OF assms(1-3) vol(1,3) path vol(4-6) assms(7)] by blast
  have small: "unat (io_volume_size io) \<le> 2 ^ 53" using vol(1) by (simp add: stream_volume_ok_def)
  have inside: "\<forall>x \<in> set (segments_bytes segments). x < length img"
    using chain_bytes_inside [OF vol(4) small] set_take_subset unfolding get(3) vol(2) by fast
  have content: "bytes_at img (segments_bytes segments) = file_content img io cs (fe_data_size fe)"
    unfolding get(3) file_content_def by (simp add: bytes_at_def take_map)
  have read: "read_segments libfsfat_cluster_block_data_read_segment_data
      libfsfat_cluster_block_data_seek_segment_offset (image_bfio img) segments i n =
    Some (take n (drop i (file_content img io cs (fe_data_size fe))))" for i n
    using read_segments_image [OF _ inside, of i n] small unfolding content vol(2) by blast
  show ?thesis
    by (rule that [of "fe\<lparr> fe_data_extents_array := arr', fe_cluster_block_stream := Some stream \<rparr>" stream segments])
      (use assms(5,6) get(1,2) read in \<open>simp_all add: entry_with_stream_def\<close>)
qed

lemma read_at_offset_content:
  assumes "array_contract X xview" and "array_contract T tview" and "stream_contract S view"
    and "file_on_volume img io fs (fe_cluster_number fe) cs" and "fe_file_system fe = Some fs"
    and "fe_cluster_block_stream fe = None" and "xview (fe_data_extents_array fe) = []"
    and "fe_file_io_handle fe = image_bfio img"
    and "\<not> unsupported_file_attribute_flags (fe_file_attribute_flags fe)" and "unat offset < 2 ^ 63"
  shows "\<exists>fe'. libfsfat_file_entry_read_buffer_at_offset T X S (Some fe) n offset =
    Some (Inr (fe', take n (drop (unat offset) (file_content img io cs (fe_data_size fe)))))"
proof -
  let ?content = "file_content img io cs (fe_data_size fe)"
  obtain fe1 stream segments where fe1: "entry_with_stream T X S fe = Some (Inr (fe1, stream))"
      "fe_file_io_handle fe1 = fe_file_io_handle fe"
    and view: "view stream = (stream_callbacks, segments, 0)"
    and read: "\<forall>i n. read_segments libfsfat_cluster_block_data_read_segment_data
        libfsfat_cluster_block_data_seek_segment_offset (image_bfio img) segments i n =
      Some (take n (drop i ?content))"
    by (rule entry_with_stream_content [OF assms(1-7)])
  obtain s1 where "stream_read_buffer_at_offset S stream (image_bfio img) n offset =
      Some (s1, take n (drop (unat offset) ?content))"
    by (rule stream_read_at [OF assms(3) view assms(10) read [rule_format]])
  then show ?thesis
    using assms(8,9) fe1 by (simp add: libfsfat_file_entry_read_buffer_at_offset_def)
qed

text \<open>
  C3. Reading a file gives its content: for a file whose clusters lie in order in the volume,
  reading at an offset gives the bytes of the chain of clusters, cut to the size of the file,
  from that offset on, and reads one after the other give consecutive parts of it.
\<close>

theorem file_entry_read_content:
  assumes "array_contract X xview" and "array_contract T tview" and "stream_contract S view"
    and "file_on_volume img io fs (fe_cluster_number fe) cs" and "fe_file_system fe = Some fs"
    and "fe_cluster_block_stream fe = None" and "xview (fe_data_extents_array fe) = []"
    and "fe_file_io_handle fe = image_bfio img"
    and "\<not> unsupported_file_attribute_flags (fe_file_attribute_flags fe)" and "unat offset < 2 ^ 63"
  shows "(\<exists>fe'. libfsfat_file_entry_read_buffer_at_offset T X S (Some fe) n offset =
      Some (Inr (fe', take n (drop (unat offset) (file_content img io cs (fe_data_size fe)))))) \<and>
    (\<exists>fe' fe''. libfsfat_file_entry_read_buffer T X S (Some fe) n =
        Some (Inr (fe', take n (file_content img io cs (fe_data_size fe)))) \<and>
      libfsfat_file_entry_read_buffer T X S (Some fe') m =
        Some (Inr (fe'', take m (drop n (file_content img io cs (fe_data_size fe))))))"
proof -
  let ?content = "file_content img io cs (fe_data_size fe)"
  obtain fe1 stream segments where fe1: "entry_with_stream T X S fe = Some (Inr (fe1, stream))"
      "fe_cluster_block_stream fe1 = Some stream" "fe_file_io_handle fe1 = fe_file_io_handle fe"
      "fe_file_attribute_flags fe1 = fe_file_attribute_flags fe"
    and view: "view stream = (stream_callbacks, segments, 0)"
    and read: "\<forall>i n. read_segments libfsfat_cluster_block_data_read_segment_data
        libfsfat_cluster_block_data_seek_segment_offset (image_bfio img) segments i n =
      Some (take n (drop i ?content))"
    by (rule entry_with_stream_content [OF assms(1-7)])
  note read = read [rule_format]
  have at_offset: "\<exists>fe'. libfsfat_file_entry_read_buffer_at_offset T X S (Some fe) n offset =
      Some (Inr (fe', take n (drop (unat offset) ?content)))"
    by (rule read_at_offset_content [OF assms])
  obtain s2 where s2: "stream_read_buffer S stream (image_bfio img) n = Some (s2, take n (drop 0 ?content))"
    "view s2 = (stream_callbacks, segments, 0 + length (take n (drop 0 ?content)))"
    by (rule stream_read [OF assms(3) view read])
  obtain s3 where s3: "stream_read_buffer S s2 (image_bfio img) m =
      Some (s3, take m (drop (0 + length (take n (drop 0 ?content))) ?content))"
    by (rule stream_read [OF assms(3) s2(2) read])
  have next_part: "drop (min (length ?content) n) ?content = drop n ?content" by (simp add: min_def)
  let ?fe = "fe1\<lparr> fe_cluster_block_stream := Some s2 \<rparr>"
  have "libfsfat_file_entry_read_buffer T X S (Some fe) n = Some (Inr (?fe, take n ?content))"
    using assms(8,9) fe1 s2 by (simp add: libfsfat_file_entry_read_buffer_def)
  moreover have "entry_with_stream T X S ?fe = Some (Inr (?fe, s2))" by (simp add: entry_with_stream_def)
  then have "\<exists>fe''. libfsfat_file_entry_read_buffer T X S (Some ?fe) m =
      Some (Inr (fe'', take m (drop n ?content)))"
    using assms(8,9) fe1 s3 next_part by (simp add: libfsfat_file_entry_read_buffer_def)
  ultimately show ?thesis using at_offset by blast
qed

text \<open>A file of 80 bytes in the clusters 2, 3 and 5 of a volume whose bytes are their offsets.\<close>

definition witness_file :: "(nat option list, unit, extent option list, stream_state) file_entry" where
  "witness_file =
     \<lparr> fe_io_handle = Some stream_witness_io,
       fe_file_io_handle = image_bfio (map of_nat [0..<256]),
       fe_file_system = Some (stream_witness_fs [0, 0, 3, 5, 0, 0xffff]), fe_directory_entry = None,
       fe_identifier = 0, fe_file_attribute_flags = 0, fe_cluster_number = 2,
       fe_data_extents_array = [], fe_cluster_block_stream = None, fe_data_size = 80,
       fe_directory = None, fe_flags = 0 \<rparr>"

lemma witness_file_on_volume:
  "file_on_volume (map of_nat [0..<256]) stream_witness_io (stream_witness_fs [0, 0, 3, 5, 0, 0xffff])
     (fe_cluster_number witness_file) [2, 3, 5]"
proof -
  have "\<exists>last_number c'. last_cluster_number (io_file_system_format stream_witness_io) = Some last_number \<and>
      cluster_path (fs_allocation_table (stream_witness_fs [0, 0, 3, 5, 0, 0xffff])) last_number 2 [2, 3, 5] c' \<and>
      \<not> (2 \<le> c' \<and> c' < last_number)"
    using stream_witness(3) stream_witness_paths(1) by fastforce
  moreover have "length (map of_nat [0..<256] :: u8 list) = unat (io_volume_size stream_witness_io)"
    by (simp add: stream_witness_io_def io_handle_zero_def)
  ultimately show ?thesis
    using stream_witness(1,2,4)
    by (simp add: file_on_volume_def ascending_def witness_file_def)
qed

lemma witness_file_content:
  "take 8 (drop 60 (file_content (map of_nat [0..<256]) stream_witness_io [2, 3, 5] 80)) =
     [92, 93, 94, 95, 128, 129, 130, 131]"
proof -
  have "chain_bytes stream_witness_io [2, 3, 5] = [32..<64] @ [64..<96] @ [128..<160]"
    by (simp add: chain_bytes_def cluster_bytes_def segment_bytes_def cluster_block_offset_def
      stream_witness_io_def io_handle_zero_def)
  moreover have "take 8 (drop 60 (take 80 ([32..<64] @ [64..<96] @ [128..<160]))) =
      ([92, 93, 94, 95, 128, 129, 130, 131] :: nat list)"
    by (simp add: drop_take upt_conv_Cons)
  ultimately have "take 8 (drop 60 (take 80 (chain_bytes stream_witness_io [2, 3, 5]))) =
      [92, 93, 94, 95, 128, 129, 130, 131]" by simp
  then have "bytes_at (map of_nat [0..<256]) (take 8 (drop 60 (take 80 (chain_bytes stream_witness_io [2, 3, 5])))) =
      [92, 93, 94, 95, 128, 129, 130, 131]"
    by (simp add: bytes_at_def)
  then show ?thesis
    by (simp add: file_content_def bytes_at_def take_map drop_map)
qed

theorem file_entry_read_content_witness:
  "\<exists>fe'. libfsfat_file_entry_read_buffer_at_offset list_array list_array list_stream (Some witness_file) 8 60 =
     Some (Inr (fe', [92, 93, 94, 95, 128, 129, 130, 131]))"
proof -
  have fe: "fe_file_system witness_file = Some (stream_witness_fs [0, 0, 3, 5, 0, 0xffff])"
    "fe_cluster_block_stream witness_file = None" "fe_data_extents_array witness_file = []"
    "fe_file_io_handle witness_file = image_bfio (map of_nat [0..<256])" "fe_data_size witness_file = 80"
    "\<not> unsupported_file_attribute_flags (fe_file_attribute_flags witness_file)"
    by (simp_all add: witness_file_def unsupported_file_attribute_flags_def)
  show ?thesis
    using file_entry_read_content [OF list_array_contract list_array_contract list_stream_contract
        witness_file_on_volume fe(1-4,6), of 60 8] witness_file_content fe(5)
    by simp
qed

section \<open>The entries of a directory by their names\<close>

lemma entry_with_name_fields:
  assumes "entry_with_name A store de = Inr de'"
  shows "de_identifier de' = de_identifier de" and "de_file_attribute_flags de' = de_file_attribute_flags de"
    and "de_data_start_cluster de' = de_data_start_cluster de" and "de_data_size de' = de_data_size de"
    and "de_valid_data_size de' = de_valid_data_size de"
  using assms
  by (auto simp: entry_with_name_def libfsfat_directory_entry_get_name_def Let_def
    libfsfat_directory_entry_get_name_from_exfat_file_name_entries_def
    split: if_splits option.splits sum.splits)

lemma clone_named:
  assumes "entry_characters U A store de cs"
  obtains s d where "libfsfat_directory_entry_clone A store None (Some de) = Inr (s, Some d)"
    and "de_file_attribute_flags d = de_file_attribute_flags de"
    and "de_data_start_cluster d = de_data_start_cluster de" and "de_data_size d = de_data_size de"
    and "de_valid_data_size d = de_valid_data_size de"
proof -
  obtain de' name where named: "entry_with_name A store de = Inr de'" "de_name de' = Some name"
    "name_characters U name (unat (de_name_size de')) (de_is_unicode de') cs"
    using assms unfolding entry_characters_def by blast
  have "\<not> unat (de_name_size de') > length name" using named(3) by (simp add: name_characters_def)
  then have clone: "libfsfat_directory_entry_clone A store None (Some de) = Inr (Some de',
      Some (de'\<lparr> de_name := Some (take (unat (de_name_size de')) name), de_name_entries_array := None \<rparr>))"
    using named(1,2) by (simp add: libfsfat_directory_entry_clone_def entry_with_name_def Let_def)
  show ?thesis by (rule that [OF clone]) (simp_all add: entry_with_name_fields [OF named(1)])
qed

text \<open>
  A file entry gives its sub file entries by name: the sub file entry has the identifier,
  the flags, the first cluster and the size of the entry of the directory, where the valid
  size of exFAT counts if it is set. A name that is not found is an error, although the
  comment of the function promises the return value 0.
\<close>

theorem file_entry_sub_file_entry_by_name:
  assumes "array_contract A view" and "array_contract X xview"
    and "fe_directory fe = Some d" and "fe_io_handle fe \<noteq> None"
    and "list_all2 (stored_name U A d) (view (dir_file_entries_array d)) names"
    and "utf8_characters U string8 length8 ds"
  shows "case List.find (same_name U ds) names of
      None \<Rightarrow> libfsfat_file_entry_get_sub_file_entry_by_utf8_name U A T X (Some fe) (Some string8) length8 None =
        Some (Inl RUNTIME_GET_FAILED)
    | Some named \<Rightarrow> \<exists>sub de.
        libfsfat_file_entry_get_sub_file_entry_by_utf8_name U A T X (Some fe) (Some string8) length8 None =
          Some (Inr (fe, sub)) \<and>
        dir_store d (fst named) = Some de \<and> fe_identifier sub = de_identifier de \<and>
        fe_file_attribute_flags sub = de_file_attribute_flags de \<and>
        fe_cluster_number sub = de_data_start_cluster de \<and>
        fe_data_size sub = (if de_valid_data_size de > 0 then de_valid_data_size de else de_data_size de) \<and>
        fe_file_system sub = fe_file_system fe"
proof -
  have lookup: "libfsfat_directory_get_file_entry_by_utf8_name U A (Some d) (Some string8) length8 =
      Some (Inr (map_option fst (List.find (same_name U ds) names)))"
    by (rule lookup_utf8_name [OF assms(1,5,6)])
  show ?thesis
  proof (cases "List.find (same_name U ds) names")
    case None
    then show ?thesis
      using lookup assms(3)
      by (simp add: libfsfat_file_entry_get_sub_file_entry_by_utf8_name_def entry_with_directory_def
        libfsfat_internal_file_entry_get_sub_file_entry_by_utf8_name_def)
  next
    case (Some named)
    then have "named \<in> set names" by (auto simp: find_Some_iff)
    then obtain x where "stored_name U A d x named"
      using assms(5) by (metis list_all2_conv_all_nth in_set_conv_nth)
    then obtain de where de: "dir_store d (fst named) = Some de"
      "entry_characters U A (dir_store d) de (snd named)"
      unfolding stored_name_def by blast
    obtain s c where clone: "libfsfat_directory_entry_clone A (dir_store d) None (Some de) = Inr (s, Some c)"
      "de_file_attribute_flags c = de_file_attribute_flags de"
      "de_data_start_cluster c = de_data_start_cluster de" "de_data_size c = de_data_size de"
      "de_valid_data_size c = de_valid_data_size de"
      by (rule clone_named [OF de(2)])
    obtain extents where "array_initialize X 0 = Some extents"
      by (rule array_init [OF assms(2), of 0]) simp_all
    then have "\<exists>sub. sub_file_entry_of A X fe (Some (fst named)) = Inr sub \<and>
        fe_identifier sub = de_identifier de \<and> fe_file_attribute_flags sub = de_file_attribute_flags de \<and>
        fe_cluster_number sub = de_data_start_cluster de \<and>
        fe_data_size sub = (if de_valid_data_size de > 0 then de_valid_data_size de else de_data_size de) \<and>
        fe_file_system sub = fe_file_system fe"
      using assms(3,4) de(1) clone
      by (simp add: sub_file_entry_of_def libfsfat_directory_entry_get_identifier_def
        libfsfat_file_entry_initialize_def directory_entry_values_def
        libfsfat_directory_entry_get_file_attribute_flags_def
        libfsfat_directory_entry_get_data_start_cluster_def libfsfat_directory_entry_get_data_size_def
        libfsfat_directory_entry_get_valid_data_size_def)
    then show ?thesis
      using Some lookup assms(3) de(1)
      by (auto simp: libfsfat_file_entry_get_sub_file_entry_by_utf8_name_def entry_with_directory_def
        libfsfat_internal_file_entry_get_sub_file_entry_by_utf8_name_def)
  qed
qed

theorem file_entry_sub_file_entry_by_name_witness:
  "libfsfat_file_entry_get_sub_file_entry_by_utf8_name ascii_una list_array
     (list_array :: (node_entry option list, node_entry) array_ops) list_array
     (Some (witness_file\<lparr> fe_directory := Some (example_directory [Some 0]) \<rparr>)) (Some [0x62]) 1 None =
   Some (Inl RUNTIME_GET_FAILED)"
proof -
  have names: "list_all2 (stored_name ascii_una list_array (example_directory [Some 0]))
      (dir_file_entries_array (example_directory [Some 0])) [(0, [0x41])]"
    by (simp add: stored_name_def example_directory_def example_file_name)
  have string: "utf8_characters ascii_una [0x62] 1 [0x62]"
    by (auto simp: utf8_characters_def string_length_without_end_def ascii_una_def SSIZE_MAX_def
      intro!: decodes.intros)
  have other: "List.find (same_name ascii_una [0x62]) [(0, [0x41])] = None"
    by (simp add: same_name_def ascii_una_def)
  let ?fe = "witness_file\<lparr> fe_directory := Some (example_directory [Some 0]) \<rparr>"
  have "fe_directory ?fe = Some (example_directory [Some 0])" "fe_io_handle ?fe \<noteq> None"
    by (simp_all add: witness_file_def)
  from file_entry_sub_file_entry_by_name [OF list_array_contract list_array_contract this names string,
      where T = "list_array :: (node_entry option list, node_entry) array_ops"]
  show ?thesis unfolding other by simp
qed

end
