(* ===== verification/File_Lookup.thy ===== *)
theory File_Lookup
  imports File_Entry
begin

text \<open>
  How \<^verbatim>\<open>libfsfat/libfsfat_file_system.c\<close> finds a file: the root directory, the entry at
  an offset of the volume, and the entry at the end of a path; and the volume label.
\<close>

section \<open>The root directory\<close>

definition libfsfat_file_system_get_root_directory ::
  "('xarr, extent) array_ops \<Rightarrow> ('arr, 'cache) file_system option \<Rightarrow> bfio \<Rightarrow>
   ('arr, 'cache, 'xarr, 's) file_entry option \<Rightarrow> ('arr, 'cache, 'xarr, 's) file_entry result" where
  "libfsfat_file_system_get_root_directory X file_system bfio file_entry =
     (case file_system of
        None \<Rightarrow> Inl ARGUMENT_INVALID_VALUE
      | Some fs \<Rightarrow>
     (case fs_io_handle fs of
        None \<Rightarrow> Inl RUNTIME_VALUE_MISSING
      | Some io \<Rightarrow>
          (case libfsfat_file_entry_initialize X file_entry (Some io) bfio (Some fs)
                  (io_root_directory_offset io) None (fs_root_directory fs) of
             Inl e \<Rightarrow> Inl RUNTIME_INITIALIZE_FAILED
           | Inr fe \<Rightarrow> Inr fe)))"

section \<open>The entry at an offset\<close>

text \<open>
  The local variables of the reader. The entries it creates are in a store of their own;
  \<open>ir_safe_directory_entry\<close> tells that the variable of this name holds an entry.
\<close>

record 'arr identifier_reader =
  ir_store :: "'arr entry_store"
  ir_next :: nat
  ir_name_entries_array :: 'arr
  ir_current_file_entry :: "'arr directory_entry"
  ir_safe_directory_entry :: bool
  ir_has_data_stream_entry :: bool
  ir_last_vfat_sequence_number :: u8

text \<open>
  The entries in front of a short name, backwards; the boolean is the variable \<open>result\<close>.
\<close>

partial_function (option) read_entries_backward ::
  "('arr, nat) array_ops \<Rightarrow> bfio \<Rightarrow> file_system_format \<Rightarrow> off64 \<Rightarrow> off64 \<Rightarrow> bool \<Rightarrow> 'arr identifier_reader \<Rightarrow>
   ('arr identifier_reader \<times> bool) result option" where
  "read_entries_backward A bfio fmt cluster_offset cluster_end_offset go_on st =
     (if cluster_offset \<le>s cluster_end_offset
      then
        (case libfsfat_directory_entry_initialize None of
           Inl e \<Rightarrow> Some (Inl RUNTIME_INITIALIZE_FAILED)
         | Inr de \<Rightarrow>
             (case libfsfat_directory_entry_read_file_io_handle bfio (Some de) cluster_offset fmt of
                Inl e \<Rightarrow> Some (Inl IO_READ_FAILED)
              | Inr (de, go_on) \<Rightarrow>
                  if de_entry_type de = TYPE_VFAT_LONG_NAME
                  then
                    let vfat_sequence_number = de_vfat_sequence_number de AND 0x1f;
                        go_on = (if de_vfat_sequence_number de AND 0x40 \<noteq> 0 then False else go_on)
                    in if ir_last_vfat_sequence_number st \<noteq> 0 \<and>
                         uint (ir_last_vfat_sequence_number st) + 1 \<noteq> uint vfat_sequence_number
                       then Some (Inl ARGUMENT_VALUE_OUT_OF_BOUNDS)
                       else
                         (case array_prepend_entry A (ir_name_entries_array st) (Some (ir_next st)) of
                            None \<Rightarrow> Some (Inl RUNTIME_APPEND_FAILED)
                          | Some names \<Rightarrow>
                              read_entries_backward A bfio fmt (cluster_offset - 32) cluster_end_offset go_on
                                (st\<lparr> ir_store := (ir_store st)(ir_next st \<mapsto> de), ir_next := Suc (ir_next st),
                                     ir_name_entries_array := names,
                                     ir_last_vfat_sequence_number := vfat_sequence_number \<rparr>))
                  else if de_entry_type de = TYPE_SHORT_NAME then Some (Inr (st, False))
                  else Some (Inr (st, go_on))))
      else Some (Inr (st, go_on)))"

text \<open>The clusters in front, by the reversed allocation table.\<close>

partial_function (option) read_clusters_backward ::
  "('arr, nat) array_ops \<Rightarrow> ('arr, 'cache) file_system \<Rightarrow> io_handle \<Rightarrow> bfio \<Rightarrow> u32 \<Rightarrow> off64 \<Rightarrow> off64 \<Rightarrow> bool \<Rightarrow>
   'arr identifier_reader \<Rightarrow> 'arr identifier_reader result option" where
  "read_clusters_backward A fs io bfio cluster_number cluster_offset cluster_end_offset go_on st =
     (if cluster_number > 2
      then
        (case read_entries_backward A bfio (io_file_system_format io) cluster_offset cluster_end_offset
                go_on st of
           None \<Rightarrow> None
         | Some (Inl e) \<Rightarrow> Some (Inl e)
         | Some (Inr (st, go_on)) \<Rightarrow>
             if \<not> go_on then Some (Inr st)
             else
               (case libfsfat_allocation_table_get_cluster_number_by_index
                       (fs_reversed_allocation_table fs) (sint cluster_number) of
                  Inl e \<Rightarrow> Some (Inl RUNTIME_GET_FAILED)
                | Inr cluster_number \<Rightarrow>
                    let cluster_offset = cluster_block_offset io cluster_number
                    in read_clusters_backward A fs io bfio cluster_number cluster_offset
                         (cluster_offset + io_cluster_block_size io) go_on st))
      else Some (Inr st))"

text \<open>
  The entries behind an exFAT file entry. The variable that holds the entry that is read is
  not cleared when the entry is the data stream.
\<close>

partial_function (option) read_entries_forward ::
  "('arr, nat) array_ops \<Rightarrow> bfio \<Rightarrow> file_system_format \<Rightarrow> off64 \<Rightarrow> off64 \<Rightarrow> bool \<Rightarrow> 'arr identifier_reader \<Rightarrow>
   ('arr identifier_reader \<times> bool) result option" where
  "read_entries_forward A bfio fmt cluster_offset cluster_end_offset go_on st =
     (if cluster_offset <s cluster_end_offset
      then
        (if ir_safe_directory_entry st then Some (Inl RUNTIME_INITIALIZE_FAILED)
         else
           (case libfsfat_directory_entry_initialize None of
              Inl e \<Rightarrow> Some (Inl RUNTIME_INITIALIZE_FAILED)
            | Inr de \<Rightarrow>
                (case libfsfat_directory_entry_read_file_io_handle bfio (Some de) cluster_offset fmt of
                   Inl e \<Rightarrow> Some (Inl IO_READ_FAILED)
                 | Inr (de, go_on) \<Rightarrow>
                     if de_entry_type de = TYPE_EXFAT_DATA_STREAM
                     then
                       (if ir_has_data_stream_entry st then Some (Inl RUNTIME_VALUE_ALREADY_SET)
                        else
                          read_entries_forward A bfio fmt (cluster_offset + 32) cluster_end_offset go_on
                            (st\<lparr> ir_has_data_stream_entry := True, ir_safe_directory_entry := True,
                                 ir_current_file_entry := (ir_current_file_entry st)\<lparr>
                                   de_data_start_cluster := de_data_start_cluster de,
                                   de_data_size := de_data_size de,
                                   de_valid_data_size := de_valid_data_size de \<rparr> \<rparr>))
                     else if de_entry_type de = TYPE_EXFAT_FILE_ENTRY_NAME
                     then
                       (case array_append_entry A (ir_name_entries_array st) (Some (ir_next st)) of
                          None \<Rightarrow> Some (Inl RUNTIME_APPEND_FAILED)
                        | Some names \<Rightarrow>
                            read_entries_forward A bfio fmt (cluster_offset + 32) cluster_end_offset go_on
                              (st\<lparr> ir_store := (ir_store st)(ir_next st \<mapsto> de), ir_next := Suc (ir_next st),
                                   ir_name_entries_array := names \<rparr>))
                     else if de_entry_type de = TYPE_EXFAT_FILE_ENTRY then Some (Inr (st, False))
                     else Some (Inr (st, go_on)))))
      else Some (Inr (st, go_on)))"

text \<open>The clusters behind, a loop that tests its condition at the end.\<close>

partial_function (option) read_clusters_forward ::
  "('arr, nat) array_ops \<Rightarrow> ('arr, 'cache) file_system \<Rightarrow> io_handle \<Rightarrow> bfio \<Rightarrow> u32 \<Rightarrow> off64 \<Rightarrow> off64 \<Rightarrow> bool \<Rightarrow>
   'arr identifier_reader \<Rightarrow> 'arr identifier_reader result option" where
  "read_clusters_forward A fs io bfio cluster_number cluster_offset cluster_end_offset go_on st =
     (case read_entries_forward A bfio (io_file_system_format io) cluster_offset cluster_end_offset
             go_on st of
        None \<Rightarrow> None
      | Some (Inl e) \<Rightarrow> Some (Inl e)
      | Some (Inr (st, go_on)) \<Rightarrow>
          if \<not> go_on then Some (Inr st)
          else
            (case libfsfat_allocation_table_get_cluster_number_by_index
                    (fs_allocation_table fs) (sint cluster_number) of
               Inl e \<Rightarrow> Some (Inl RUNTIME_GET_FAILED)
             | Inr cluster_number \<Rightarrow>
                 let cluster_offset = cluster_block_offset io cluster_number
                 in if cluster_number \<ge> 2 \<and> cluster_number < 0xfffffff0
                    then read_clusters_forward A fs io bfio cluster_number cluster_offset
                           (cluster_offset + io_cluster_block_size io) go_on st
                    else Some (Inr st)))"

text \<open>
  The result is \<open>None\<close> for the return value 0. A cluster block size of 0 would be a division
  by zero.
\<close>

definition libfsfat_file_system_read_directory_entry_by_identifier ::
  "('arr, nat) array_ops \<Rightarrow> ('arr, 'cache) file_system option \<Rightarrow> bfio \<Rightarrow> u64 \<Rightarrow>
   'arr directory_entry option result option" where
  "libfsfat_file_system_read_directory_entry_by_identifier A file_system bfio identifier =
     (case file_system of
        None \<Rightarrow> Some (Inl ARGUMENT_INVALID_VALUE)
      | Some fs \<Rightarrow>
     (case fs_io_handle fs of
        None \<Rightarrow> Some (Inl RUNTIME_VALUE_MISSING)
      | Some io \<Rightarrow>
     (case libfsfat_directory_entry_initialize None of
        Inl e \<Rightarrow> Some (Inl RUNTIME_INITIALIZE_FAILED)
      | Inr de \<Rightarrow>
     (case libfsfat_directory_entry_read_file_io_handle bfio (Some de) identifier (io_file_system_format io) of
        Inl e \<Rightarrow> Some (Inl IO_READ_FAILED)
      | Inr (de, go_on) \<Rightarrow>
          if \<not> go_on then Some (Inr None)
          else if de_entry_type de \<noteq> TYPE_SHORT_NAME \<and> de_entry_type de \<noteq> TYPE_EXFAT_FILE_ENTRY
          then Some (Inl RUNTIME_UNSUPPORTED_VALUE)
          else if io_cluster_block_size io = 0 then Some (Inl MEMORY_FAULT)
          else
            let cluster_number = ucast (identifier div io_cluster_block_size io) :: u32;
                cluster_end_offset = ucast cluster_number * io_cluster_block_size io + io_cluster_block_size io;
                cluster_number = cluster_number + 2
            in (case array_initialize A 0 of
                  None \<Rightarrow> Some (Inl RUNTIME_INITIALIZE_FAILED)
                | Some names \<Rightarrow>
                    let st = \<lparr> ir_store = (\<lambda>_. None), ir_next = 0, ir_name_entries_array = names,
                               ir_current_file_entry = de\<lparr> de_identifier := identifier \<rparr>,
                               ir_safe_directory_entry = False, ir_has_data_stream_entry = False,
                               ir_last_vfat_sequence_number = 0 \<rparr>
                    in if de_entry_type de = TYPE_SHORT_NAME
                       then
                         (case read_clusters_backward A fs io bfio cluster_number (identifier - 32)
                                 cluster_end_offset go_on st of
                            None \<Rightarrow> None
                          | Some (Inl e) \<Rightarrow> Some (Inl e)
                          | Some (Inr st) \<Rightarrow>
                              if ir_last_vfat_sequence_number st = 0
                              then Some (Inr (Some (ir_current_file_entry st)))
                              else
                                (case libfsfat_directory_entry_get_name_from_vfat_long_file_name_entries A
                                        (ir_store st) (Some (ir_current_file_entry st))
                                        (ir_name_entries_array st) of
                                   Inl e \<Rightarrow> Some (Inl RUNTIME_GET_FAILED)
                                 | Inr de \<Rightarrow> Some (Inr (Some de))))
                       else
                         (case read_clusters_forward A fs io bfio cluster_number (identifier + 32)
                                 cluster_end_offset go_on st of
                            None \<Rightarrow> None
                          | Some (Inl e) \<Rightarrow> Some (Inl e)
                          | Some (Inr st) \<Rightarrow>
                              (case libfsfat_directory_entry_get_name_from_exfat_file_name_entries A
                                      (ir_store st) (Some (ir_current_file_entry st))
                                      (ir_name_entries_array st) of
                                 Inl e \<Rightarrow> Some (Inl RUNTIME_GET_FAILED)
                               | Inr de \<Rightarrow> Some (Inr (Some de)))))))))"

definition libfsfat_file_system_get_file_entry_by_identifier ::
  "('arr, nat) array_ops \<Rightarrow> ('xarr, extent) array_ops \<Rightarrow> ('arr, 'cache) file_system option \<Rightarrow> bfio \<Rightarrow> u64 \<Rightarrow>
   ('arr, 'cache, 'xarr, 's) file_entry option \<Rightarrow> ('arr, 'cache, 'xarr, 's) file_entry result option" where
  "libfsfat_file_system_get_file_entry_by_identifier A X file_system bfio identifier file_entry =
     (case file_system of
        None \<Rightarrow> Some (Inl ARGUMENT_INVALID_VALUE)
      | Some fs \<Rightarrow>
     (case fs_io_handle fs of
        None \<Rightarrow> Some (Inl RUNTIME_VALUE_MISSING)
      | Some io \<Rightarrow>
          (case (if identifier = io_root_directory_offset io then Some (Inr (None, fs_root_directory fs))
                 else
                   (case libfsfat_file_system_read_directory_entry_by_identifier A (Some fs) bfio identifier of
                      None \<Rightarrow> None
                    | Some (Inr (Some de)) \<Rightarrow> Some (Inr (Some de, None))
                    | Some _ \<Rightarrow> Some (Inl IO_READ_FAILED))) of
             None \<Rightarrow> None
           | Some (Inl e) \<Rightarrow> Some (Inl e)
           | Some (Inr (directory_entry, directory)) \<Rightarrow>
               (case libfsfat_file_entry_initialize X file_entry (Some io) bfio (Some fs) identifier
                       directory_entry directory of
                  Inl e \<Rightarrow> Some (Inl RUNTIME_INITIALIZE_FAILED)
                | Inr fe \<Rightarrow> Some (Inr fe)))))"

end
