(* ===== verification/File_Path.thy ===== *)
theory File_Path
  imports File_Lookup
begin

text \<open>
  The file entry at the end of a path, and the volume label:
  \<^verbatim>\<open>libfsfat_file_system_get_file_entry_by_utf8_path\<close>, its UTF-16 variant and the label
  functions of \<^verbatim>\<open>libfsfat/libfsfat_file_system.c\<close>. The theorem says that a path is resolved
  name by name, from the root directory on.
\<close>

section \<open>The walk over a path\<close>

definition LIBFSFAT_SEPARATOR :: u32 where
  "LIBFSFAT_SEPARATOR = 0x5c"

text \<open>
  The loop that reads the characters of a segment: the index behind the segment and its
  separator, and whether there is one.
\<close>

partial_function (option) path_segment_end ::
  "(nat \<Rightarrow> (u32 \<times> nat) option) \<Rightarrow> nat \<Rightarrow> nat \<Rightarrow> (nat \<times> bool) result option" where
  "path_segment_end next_character string_length string_index =
     (if string_index < string_length
      then
        (case next_character string_index of
           None \<Rightarrow> Some (Inl RUNTIME_COPY_FAILED)
         | Some (unicode_character, string_index) \<Rightarrow>
             if unicode_character = LIBFSFAT_SEPARATOR \<or> unicode_character = 0
             then Some (Inr (string_index, True))
             else path_segment_end next_character string_length string_index)
      else Some (Inr (string_index, False)))"

text \<open>
  The local variables of the walk. The directory entry is with the store of its directory;
  \<open>pw_in_root\<close> tells that \<open>pw_directory\<close> is the root directory of the file system, which the
  code finds out by comparing the pointers.
\<close>

record ('arr, 'cache) path_walk =
  pw_file_system :: "('arr, 'cache) file_system"
  pw_in_root :: bool
  pw_directory :: "'arr directory option"
  pw_directory_entry :: "('arr entry_store \<times> nat) option"
  pw_cluster_number :: u32

text \<open>
  One segment, from \<open>start\<close> on: the directory is read unless it is the root directory, and
  the name is looked up in it. The boolean is the variable \<open>result\<close>; a segment without
  characters leaves the directory entry as it is.
\<close>

definition path_directory ::
  "('cache, 'value, 'arr directory) cache_ops \<Rightarrow> ('arr, nat) array_ops \<Rightarrow> ('tarr, node_entry) array_ops \<Rightarrow>
   bfio \<Rightarrow> ('arr, 'cache) path_walk \<Rightarrow> ('arr, 'cache) path_walk result option" where
  "path_directory C A T bfio w =
     (if pw_in_root w then Some (Inr w)
      else
        (case libfsfat_file_system_get_directory C A T (Some (pw_file_system w)) bfio (pw_cluster_number w) of
           None \<Rightarrow> None
         | Some (Inl e) \<Rightarrow> Some (Inl RUNTIME_GET_FAILED)
         | Some (Inr (fs, directory)) \<Rightarrow>
             Some (Inr (w\<lparr> pw_file_system := fs, pw_directory := Some directory \<rparr>))))"

definition path_lookup ::
  "('arr directory option \<Rightarrow> nat \<Rightarrow> nat \<Rightarrow> nat option result option) \<Rightarrow> nat \<Rightarrow> nat \<Rightarrow>
   ('arr, 'cache) path_walk \<Rightarrow> (('arr, 'cache) path_walk \<times> bool) result option" where
  "path_lookup lookup start segment_length w =
     (if segment_length = 0 then Some (Inr (w, False))
      else
        (case lookup (pw_directory w) start segment_length of
           None \<Rightarrow> None
         | Some (Inl e) \<Rightarrow> Some (Inl RUNTIME_GET_FAILED)
         | Some (Inr None) \<Rightarrow> Some (Inr (w\<lparr> pw_directory_entry := None \<rparr>, False))
         | Some (Inr (Some address)) \<Rightarrow>
             (case pw_directory w of
                None \<Rightarrow> Some (Inl MEMORY_FAULT)
              | Some d \<Rightarrow>
                  (case libfsfat_directory_entry_get_data_start_cluster (dir_store d address) of
                     Inl e \<Rightarrow> Some (Inl RUNTIME_GET_FAILED)
                   | Inr cluster_number \<Rightarrow>
                       Some (Inr (w\<lparr> pw_in_root := False,
                         pw_directory := (if pw_in_root w then None else pw_directory w),
                         pw_directory_entry := Some (dir_store d, address),
                         pw_cluster_number := cluster_number \<rparr>, True))))))"

partial_function (option) walk_path ::
  "('cache, 'value, 'arr directory) cache_ops \<Rightarrow> ('arr, nat) array_ops \<Rightarrow> ('tarr, node_entry) array_ops \<Rightarrow>
   bfio \<Rightarrow> (nat \<Rightarrow> (u32 \<times> nat) option) \<Rightarrow>
   ('arr directory option \<Rightarrow> nat \<Rightarrow> nat \<Rightarrow> nat option result option) \<Rightarrow> nat \<Rightarrow> nat \<Rightarrow> bool \<Rightarrow>
   ('arr, 'cache) path_walk \<Rightarrow> (('arr, 'cache) path_walk \<times> bool) result option" where
  "walk_path C A T bfio next_character lookup string_length string_index found w =
     (if string_index < string_length
      then
        (case path_directory C A T bfio w of
           None \<Rightarrow> None
         | Some (Inl e) \<Rightarrow> Some (Inl e)
         | Some (Inr w) \<Rightarrow>
             (case path_segment_end next_character string_length string_index of
                None \<Rightarrow> None
              | Some (Inl e) \<Rightarrow> Some (Inl e)
              | Some (Inr (next_index, separator)) \<Rightarrow>
                  (case path_lookup lookup string_index
                          (next_index - (string_index + (if separator then 1 else 0))) w of
                     None \<Rightarrow> None
                   | Some (Inl e) \<Rightarrow> Some (Inl e)
                   | Some (Inr (w, found)) \<Rightarrow>
                       if \<not> found then Some (Inr (w, False))
                       else walk_path C A T bfio next_character lookup string_length next_index found w)))
      else Some (Inr (w, found)))"

text \<open>The file entry at the end of the walk, with the variable \<open>result\<close>.\<close>

definition path_file_entry ::
  "('arr, nat) array_ops \<Rightarrow> ('xarr, extent) array_ops \<Rightarrow> bfio \<Rightarrow> ('arr, 'cache, 'xarr, 's) file_entry option \<Rightarrow>
   ('arr, 'cache) path_walk \<Rightarrow> ('arr, 'cache, 'xarr, 's) file_entry result" where
  "path_file_entry A X bfio file_entry w =
     (case (case pw_directory_entry w of
              None \<Rightarrow>
                (case fs_io_handle (pw_file_system w) of
                   None \<Rightarrow> Inl MEMORY_FAULT
                 | Some io \<Rightarrow> Inr (io_root_directory_offset io, None, pw_directory w))
            | Some (store, address) \<Rightarrow>
                (case libfsfat_directory_entry_get_identifier (store address) of
                   Inl e \<Rightarrow> Inl RUNTIME_GET_FAILED
                 | Inr identifier \<Rightarrow>
                     (case libfsfat_directory_entry_clone A store None (store address) of
                        Inl e \<Rightarrow> Inl RUNTIME_INITIALIZE_FAILED
                      | Inr (_, safe_directory_entry) \<Rightarrow> Inr (identifier, safe_directory_entry, None)))) of
        Inl e \<Rightarrow> Inl e
      | Inr (identifier, safe_directory_entry, directory) \<Rightarrow>
          (case libfsfat_file_entry_initialize X file_entry (fs_io_handle (pw_file_system w)) bfio
                  (Some (pw_file_system w)) identifier safe_directory_entry directory of
             Inl e \<Rightarrow> Inl RUNTIME_INITIALIZE_FAILED
           | Inr fe \<Rightarrow> Inr fe))"

text \<open>
  Both functions, over the operations for their strings. A string of one character is taken
  for the root directory, whatever the character is.
\<close>

definition file_entry_by_path ::
  "('cache, 'value, 'arr directory) cache_ops \<Rightarrow> ('arr, nat) array_ops \<Rightarrow> ('tarr, node_entry) array_ops \<Rightarrow>
   ('xarr, extent) array_ops \<Rightarrow> (nat \<Rightarrow> (u32 \<times> nat) option) \<Rightarrow>
   ('arr directory option \<Rightarrow> nat \<Rightarrow> nat \<Rightarrow> nat option result option) \<Rightarrow> ('arr, 'cache) file_system \<Rightarrow> bfio \<Rightarrow>
   'w::len word list \<Rightarrow> nat \<Rightarrow> ('arr, 'cache, 'xarr, 's) file_entry option \<Rightarrow>
   (('arr, 'cache) file_system \<times> bool \<times> ('arr, 'cache, 'xarr, 's) file_entry) result option" where
  "file_entry_by_path C A T X next_character lookup fs bfio string string_length file_entry =
     (let w = \<lparr> pw_file_system = fs, pw_in_root = True, pw_directory = fs_root_directory fs,
                pw_directory_entry = None, pw_cluster_number = 0 \<rparr>;
          string_index = (if string_length > 0 \<and> string ! 0 = ucast LIBFSFAT_SEPARATOR then 1 else 0)
      in case (if string_length = 0 \<or> string_length = 1 then Some (Inr (w, True))
               else walk_path C A T bfio next_character lookup string_length string_index False w) of
           None \<Rightarrow> None
         | Some (Inl e) \<Rightarrow> Some (Inl e)
         | Some (Inr (w, found)) \<Rightarrow>
             (case path_file_entry A X bfio file_entry w of
                Inl e \<Rightarrow> Some (Inl e)
              | Inr fe \<Rightarrow> Some (Inr (pw_file_system w, found, fe))))"

text \<open>
  The file system after the call, whether the return value is 1 and not 0, and the file
  entry, which is set in both cases. A length that exceeds the string is a memory fault.
\<close>

definition libfsfat_file_system_get_file_entry_by_utf8_path ::
  "una_ops \<Rightarrow> ('cache, 'value, 'arr directory) cache_ops \<Rightarrow> ('arr, nat) array_ops \<Rightarrow>
   ('tarr, node_entry) array_ops \<Rightarrow> ('xarr, extent) array_ops \<Rightarrow> ('arr, 'cache) file_system option \<Rightarrow> bfio \<Rightarrow>
   u8 list option \<Rightarrow> nat \<Rightarrow> ('arr, 'cache, 'xarr, 's) file_entry option \<Rightarrow>
   (('arr, 'cache) file_system \<times> bool \<times> ('arr, 'cache, 'xarr, 's) file_entry) result option" where
  "libfsfat_file_system_get_file_entry_by_utf8_path U C A T X file_system bfio utf8_string
       utf8_string_length file_entry =
     (case file_system of
        None \<Rightarrow> Some (Inl ARGUMENT_INVALID_VALUE)
      | Some fs \<Rightarrow>
     (case utf8_string of
        None \<Rightarrow> Some (Inl ARGUMENT_INVALID_VALUE)
      | Some utf8_string \<Rightarrow>
          if utf8_string_length > SSIZE_MAX then Some (Inl RUNTIME_VALUE_EXCEEDS_MAXIMUM)
          else if utf8_string_length > length utf8_string then Some (Inl MEMORY_FAULT)
          else file_entry_by_path C A T X (una_from_utf8 U utf8_string utf8_string_length)
                 (\<lambda>d i n. libfsfat_directory_get_file_entry_by_utf8_name U A d (Some (drop i utf8_string)) n)
                 fs bfio utf8_string utf8_string_length file_entry))"

definition libfsfat_file_system_get_file_entry_by_utf16_path ::
  "una_ops \<Rightarrow> ('cache, 'value, 'arr directory) cache_ops \<Rightarrow> ('arr, nat) array_ops \<Rightarrow>
   ('tarr, node_entry) array_ops \<Rightarrow> ('xarr, extent) array_ops \<Rightarrow> ('arr, 'cache) file_system option \<Rightarrow> bfio \<Rightarrow>
   u16 list option \<Rightarrow> nat \<Rightarrow> ('arr, 'cache, 'xarr, 's) file_entry option \<Rightarrow>
   (('arr, 'cache) file_system \<times> bool \<times> ('arr, 'cache, 'xarr, 's) file_entry) result option" where
  "libfsfat_file_system_get_file_entry_by_utf16_path U C A T X file_system bfio utf16_string
       utf16_string_length file_entry =
     (case file_system of
        None \<Rightarrow> Some (Inl ARGUMENT_INVALID_VALUE)
      | Some fs \<Rightarrow>
     (case utf16_string of
        None \<Rightarrow> Some (Inl ARGUMENT_INVALID_VALUE)
      | Some utf16_string \<Rightarrow>
          if utf16_string_length > SSIZE_MAX then Some (Inl RUNTIME_VALUE_EXCEEDS_MAXIMUM)
          else if utf16_string_length > length utf16_string then Some (Inl MEMORY_FAULT)
          else file_entry_by_path C A T X (una_from_utf16 U utf16_string utf16_string_length)
                 (\<lambda>d i n. libfsfat_directory_get_file_entry_by_utf16_name U A d (Some (drop i utf16_string)) n)
                 fs bfio utf16_string utf16_string_length file_entry))"

section \<open>The volume label\<close>

definition libfsfat_file_system_get_utf8_volume_label_size ::
  "una_ops \<Rightarrow> ('arr, nat) array_ops \<Rightarrow> ('arr, 'cache) file_system option \<Rightarrow> nat result" where
  "libfsfat_file_system_get_utf8_volume_label_size U A file_system =
     (case file_system of
        None \<Rightarrow> Inl ARGUMENT_INVALID_VALUE
      | Some fs \<Rightarrow>
          (case libfsfat_directory_get_utf8_volume_label_size U A (fs_root_directory fs) of
             Inl e \<Rightarrow> Inl RUNTIME_GET_FAILED
           | Inr utf8_string_size \<Rightarrow> Inr utf8_string_size))"

definition libfsfat_file_system_get_utf8_volume_label ::
  "una_ops \<Rightarrow> ('arr, nat) array_ops \<Rightarrow> ('arr, 'cache) file_system option \<Rightarrow> nat option \<Rightarrow> u8 list result" where
  "libfsfat_file_system_get_utf8_volume_label U A file_system utf8_string =
     (case file_system of
        None \<Rightarrow> Inl ARGUMENT_INVALID_VALUE
      | Some fs \<Rightarrow>
          (case libfsfat_directory_get_utf8_volume_label U A (fs_root_directory fs) utf8_string of
             Inl e \<Rightarrow> Inl RUNTIME_GET_FAILED
           | Inr string \<Rightarrow> Inr string))"

definition libfsfat_file_system_get_utf16_volume_label_size ::
  "una_ops \<Rightarrow> ('arr, nat) array_ops \<Rightarrow> ('arr, 'cache) file_system option \<Rightarrow> nat result" where
  "libfsfat_file_system_get_utf16_volume_label_size U A file_system =
     (case file_system of
        None \<Rightarrow> Inl ARGUMENT_INVALID_VALUE
      | Some fs \<Rightarrow>
          (case libfsfat_directory_get_utf16_volume_label_size U A (fs_root_directory fs) of
             Inl e \<Rightarrow> Inl RUNTIME_GET_FAILED
           | Inr utf16_string_size \<Rightarrow> Inr utf16_string_size))"

definition libfsfat_file_system_get_utf16_volume_label ::
  "una_ops \<Rightarrow> ('arr, nat) array_ops \<Rightarrow> ('arr, 'cache) file_system option \<Rightarrow> nat option \<Rightarrow> u16 list result" where
  "libfsfat_file_system_get_utf16_volume_label U A file_system utf16_string =
     (case file_system of
        None \<Rightarrow> Inl ARGUMENT_INVALID_VALUE
      | Some fs \<Rightarrow>
          (case libfsfat_directory_get_utf16_volume_label U A (fs_root_directory fs) utf16_string of
             Inl e \<Rightarrow> Inl RUNTIME_GET_FAILED
           | Inr string \<Rightarrow> Inr string))"

section \<open>The resolution of a path\<close>

text \<open>
  The names of a path from an index on: \<open>characters i n ds\<close> tells that the string of length
  \<open>n\<close> at \<open>i\<close> has the characters \<open>ds\<close>. A separator at the end is allowed, an empty name is not.
\<close>

inductive path_names ::
  "(nat \<Rightarrow> (u32 \<times> nat) option) \<Rightarrow> (nat \<Rightarrow> nat \<Rightarrow> u32 list \<Rightarrow> bool) \<Rightarrow> nat \<Rightarrow> nat \<Rightarrow> u32 list list \<Rightarrow> bool"
  for next_character characters string_length where
  path_names_end: "string_length \<le> i \<Longrightarrow> path_names next_character characters string_length i []"
| path_names_segment: "i < string_length \<Longrightarrow>
    path_segment_end next_character string_length i = Some (Inr (j, separator)) \<Longrightarrow>
    n = j - (i + (if separator then 1 else 0)) \<Longrightarrow> 0 < n \<Longrightarrow> characters i n ds \<Longrightarrow>
    path_names next_character characters string_length j dss \<Longrightarrow>
    path_names next_character characters string_length i (ds # dss)"

inductive_simps path_names_nothing: "path_names next_character characters string_length i []"

lemma path_names_segmentE:
  assumes "path_names next_character characters string_length i (ds # dss)"
  obtains (segment) j separator where "i < string_length"
    and "path_segment_end next_character string_length i = Some (Inr (j, separator))"
    and "0 < j - (i + (if separator then 1 else 0))"
    and "characters i (j - (i + (if separator then 1 else 0))) ds"
    and "path_names next_character characters string_length j dss"
  using assms by (cases rule: path_names.cases) blast

text \<open>
  What a list of names leads to from a directory: the directory of the last name and the
  address of its entry there, or \<open>None\<close> if a name is not found. The file system changes
  with the cache of directories.
\<close>

inductive resolves ::
  "una_ops \<Rightarrow> ('cache, 'value, 'arr directory) cache_ops \<Rightarrow> ('arr, nat) array_ops \<Rightarrow> ('arr \<Rightarrow> nat option list) \<Rightarrow>
   ('tarr, node_entry) array_ops \<Rightarrow> bfio \<Rightarrow> ('arr, 'cache) file_system \<Rightarrow> 'arr directory \<Rightarrow> u32 list list \<Rightarrow>
   ('arr, 'cache) file_system \<Rightarrow> 'arr directory \<Rightarrow> nat option \<Rightarrow> bool"
  for U C A view T bfio where
  resolves_missing: "list_all2 (stored_name U A d) (view (dir_file_entries_array d)) names \<Longrightarrow>
    List.find (same_name U ds) names = None \<Longrightarrow> resolves U C A view T bfio fs d (ds # dss) fs d None"
| resolves_found: "list_all2 (stored_name U A d) (view (dir_file_entries_array d)) names \<Longrightarrow>
    List.find (same_name U ds) names = Some named \<Longrightarrow>
    resolves U C A view T bfio fs d [ds] fs d (Some (fst named))"
| resolves_further: "list_all2 (stored_name U A d) (view (dir_file_entries_array d)) names \<Longrightarrow>
    List.find (same_name U ds) names = Some named \<Longrightarrow> dir_store d (fst named) = Some de \<Longrightarrow>
    libfsfat_file_system_get_directory C A T (Some fs) bfio (de_data_start_cluster de) = Some (Inr (fs', d')) \<Longrightarrow>
    dss \<noteq> [] \<Longrightarrow> resolves U C A view T bfio fs' d' dss fs'' d'' r \<Longrightarrow>
    resolves U C A view T bfio fs d (ds # dss) fs'' d'' r"

lemma found_name_stored:
  assumes "list_all2 (stored_name U A d) xs names" and "List.find P names = Some named"
  obtains de where "dir_store d (fst named) = Some de" and "entry_characters U A (dir_store d) de (snd named)"
proof -
  have "named \<in> set names" using assms(2) by (auto simp: find_Some_iff)
  then obtain x where "stored_name U A d x named"
    using assms(1) by (metis list_all2_conv_all_nth in_set_conv_nth)
  then show ?thesis using that unfolding stored_name_def by blast
qed

lemma resolves_entry:
  assumes "resolves U C A view T bfio fs d dss fs' d' (Some a)"
  obtains de cs where "dir_store d' a = Some de" and "entry_characters U A (dir_store d') de cs"
proof -
  have "\<exists>de cs. dir_store d' a = Some de \<and> entry_characters U A (dir_store d') de cs"
    using assms
  proof (induction fs d dss fs' d' "Some a" rule: resolves.induct)
    case (resolves_found d names ds named fs)
    then show ?case by (metis found_name_stored)
  qed simp_all
  then show ?thesis using that by blast
qed

definition walk_result :: "('arr, 'cache) path_walk \<Rightarrow> ('arr, 'cache) file_system \<Rightarrow> 'arr directory \<Rightarrow> nat option \<Rightarrow> bool" where
  "walk_result w fs d r \<longleftrightarrow>
     pw_file_system w = fs \<and> pw_directory_entry w = map_option (Pair (dir_store d)) r \<and>
     (r = None \<longrightarrow> pw_directory w = Some d)"

lemma walk_path_end:
  "n \<le> i \<Longrightarrow> walk_path C A T bfio next_character lookup n i found w = Some (Inr (w, found))"
  by (subst walk_path.simps) simp

lemma walk_path_resolves:
  assumes "resolves U C A view T bfio fs d dss fs' d' r"
    and "path_names next_character characters n i dss"
    and lookup: "\<And>d i k ds names. characters i k ds \<Longrightarrow>
      list_all2 (stored_name U A d) (view (dir_file_entries_array d)) names \<Longrightarrow>
      lookup (Some d) i k = Some (Inr (map_option fst (List.find (same_name U ds) names)))"
    and "path_directory C A T bfio w = Some (Inr w1)" and "pw_file_system w1 = fs" and "pw_directory w1 = Some d"
  shows "\<exists>w'. walk_path C A T bfio next_character lookup n i found w = Some (Inr (w', r \<noteq> None)) \<and>
    walk_result w' fs' d' r"
  using assms(1,2,4-)
proof (induction arbitrary: i found w w1 rule: resolves.induct)
  case (resolves_missing d names ds fs dss)
  from resolves_missing.prems(1) show ?case
  proof (cases rule: path_names_segmentE)
    case (segment j separator)
    then show ?thesis
      using resolves_missing.hyps resolves_missing.prems(2-)
      by (subst walk_path.simps) (simp add: path_lookup_def lookup walk_result_def)
  qed
next
  case (resolves_found d names ds named fs)
  obtain de where de: "dir_store d (fst named) = Some de"
    by (rule found_name_stored [OF resolves_found.hyps])
  from resolves_found.prems(1) show ?case
  proof (cases rule: path_names_segmentE)
    case (segment j separator)
    have "n \<le> j" using segment(5) by (simp add: path_names_nothing)
    then show ?thesis
      using segment(1-4) resolves_found.hyps resolves_found.prems(2-) de
      by (subst walk_path.simps)
        (simp add: path_lookup_def lookup walk_result_def walk_path_end
          libfsfat_directory_entry_get_data_start_cluster_def)
  qed
next
  case (resolves_further d names ds named de fs fs1 d1 dss fs'' d'' r)
  from resolves_further.prems(1) show ?case
  proof (cases rule: path_names_segmentE)
    case (segment j separator)
    let ?w = "w1\<lparr> pw_in_root := False, pw_directory := (if pw_in_root w1 then None else pw_directory w1),
      pw_directory_entry := Some (dir_store d, fst named), pw_cluster_number := de_data_start_cluster de \<rparr>"
    have step: "walk_path C A T bfio next_character lookup n i found w =
        walk_path C A T bfio next_character lookup n j True ?w"
      using segment resolves_further.hyps(1-3) resolves_further.prems(2-)
      by (subst walk_path.simps)
        (simp add: path_lookup_def lookup libfsfat_directory_entry_get_data_start_cluster_def)
    have "path_directory C A T bfio ?w = Some (Inr (?w\<lparr> pw_file_system := fs1, pw_directory := Some d1 \<rparr>))"
      using resolves_further.hyps(4) resolves_further.prems(3) by (simp add: path_directory_def)
    from resolves_further.IH [OF segment(5) this] show ?thesis by (simp add: step)
  qed
qed

text \<open>The paths of a string of at least two characters.\<close>

definition utf8_path :: "una_ops \<Rightarrow> u8 list \<Rightarrow> nat \<Rightarrow> u32 list list \<Rightarrow> bool" where
  "utf8_path U string n dss \<longleftrightarrow>
     2 \<le> n \<and> n \<le> length string \<and> length string \<le> SSIZE_MAX \<and>
     path_names (una_from_utf8 U string n) (\<lambda>i. utf8_characters U (drop i string)) n
       (if string ! 0 = 0x5c then 1 else 0) dss"

definition utf16_path :: "una_ops \<Rightarrow> u16 list \<Rightarrow> nat \<Rightarrow> u32 list list \<Rightarrow> bool" where
  "utf16_path U string n dss \<longleftrightarrow>
     2 \<le> n \<and> n \<le> length string \<and> length string \<le> SSIZE_MAX \<and>
     path_names (una_from_utf16 U string n) (\<lambda>i. utf16_characters U (drop i string)) n
       (if string ! 0 = 0x5c then 1 else 0) dss"

text \<open>What a file entry shows of the directory entry it is made for.\<close>

definition shows_entry :: "('arr, 'cache, 'xarr, 's) file_entry \<Rightarrow> 'arr directory_entry \<Rightarrow> bool" where
  "shows_entry fe de \<longleftrightarrow>
     fe_identifier fe = de_identifier de \<and> fe_file_attribute_flags fe = de_file_attribute_flags de \<and>
     fe_cluster_number fe = de_data_start_cluster de \<and>
     fe_data_size fe = (if de_valid_data_size de > 0 then de_valid_data_size de else de_data_size de)"

text \<open>The file entry of a path: of the entry that is found, or of the root directory otherwise.\<close>

definition path_entry ::
  "io_handle \<Rightarrow> 'arr directory \<Rightarrow> nat option \<Rightarrow> ('arr, 'cache, 'xarr, 's) file_entry \<Rightarrow> bool" where
  "path_entry io d r fe \<longleftrightarrow>
     (case r of
        None \<Rightarrow> fe_directory_entry fe = None \<and> fe_directory fe = Some d \<and>
          fe_identifier fe = io_root_directory_offset io
      | Some address \<Rightarrow> (\<exists>de. dir_store d address = Some de \<and> shows_entry fe de) \<and>
          fe_directory_entry fe \<noteq> None)"

lemma path_file_entry_result:
  assumes "array_contract X xview" and "fs_io_handle fs = Some io" and "walk_result w fs d r"
    and "\<And>a. r = Some a \<Longrightarrow> \<exists>de cs. dir_store d a = Some de \<and> entry_characters U A (dir_store d) de cs"
  obtains fe where "path_file_entry A X bfio None w = Inr fe" and "path_entry io d r fe"
proof -
  obtain extents where extents: "array_initialize X 0 = Some extents"
    by (rule array_init [OF assms(1), of 0]) simp_all
  have "\<exists>fe. path_file_entry A X bfio None w = Inr fe \<and> path_entry io d r fe"
  proof (cases r)
    case None
    then show ?thesis
      using assms(2,3) extents
      by (simp add: path_file_entry_def walk_result_def path_entry_def libfsfat_file_entry_initialize_def
        directory_entry_values_def)
  next
    case (Some a)
    obtain de cs where de: "dir_store d a = Some de" "entry_characters U A (dir_store d) de cs"
      using assms(4) [OF Some] by blast
    obtain s c where clone: "libfsfat_directory_entry_clone A (dir_store d) None (Some de) = Inr (s, Some c)"
      "de_file_attribute_flags c = de_file_attribute_flags de"
      "de_data_start_cluster c = de_data_start_cluster de" "de_data_size c = de_data_size de"
      "de_valid_data_size c = de_valid_data_size de"
      by (rule clone_named [OF de(2)])
    show ?thesis
      using assms(2,3) extents de(1) clone Some
      by (simp add: path_file_entry_def walk_result_def path_entry_def shows_entry_def
        libfsfat_file_entry_initialize_def directory_entry_values_def
        libfsfat_directory_entry_get_identifier_def libfsfat_directory_entry_get_file_attribute_flags_def
        libfsfat_directory_entry_get_data_start_cluster_def libfsfat_directory_entry_get_data_size_def
        libfsfat_directory_entry_get_valid_data_size_def)
  qed
  then show ?thesis using that by blast
qed

lemma get_directory_keeps:
  assumes "libfsfat_file_system_get_directory C A T (Some fs) bfio c = Some (Inr (fs', d))"
  shows "fs_io_handle fs' = fs_io_handle fs"
  using assms
  by (auto simp: libfsfat_file_system_get_directory_def split: option.splits sum.splits)

lemma resolves_keeps:
  "resolves U C A view T bfio fs d dss fs' d' r \<Longrightarrow> fs_io_handle fs' = fs_io_handle fs"
  by (induction rule: resolves.induct) (simp_all add: get_directory_keeps)

lemma file_entry_by_path_resolves:
  fixes string :: "'w::len word list"
  assumes "array_contract X xview" and "fs_root_directory fs = Some d" and "fs_io_handle fs = Some io"
    and "resolves U C A view T bfio fs d dss fs' d' r"
    and "path_names next_character characters n (if string ! 0 = ucast LIBFSFAT_SEPARATOR then 1 else 0) dss"
    and "2 \<le> n"
    and lookup: "\<And>d i k ds names. characters i k ds \<Longrightarrow>
      list_all2 (stored_name U A d) (view (dir_file_entries_array d)) names \<Longrightarrow>
      lookup (Some d) i k = Some (Inr (map_option fst (List.find (same_name U ds) names)))"
  obtains w where "walk_result w fs' d' r"
    and "file_entry_by_path C A T X next_character lookup fs bfio string n None =
      (case path_file_entry A X bfio None w of
         Inl e \<Rightarrow> Some (Inl e)
       | Inr fe \<Rightarrow> Some (Inr (fs', r \<noteq> None, fe)))"
proof -
  let ?w = "\<lparr> pw_file_system = fs, pw_in_root = True, pw_directory = Some d, pw_directory_entry = None,
    pw_cluster_number = 0 \<rparr>"
  have dir: "path_directory C A T bfio ?w = Some (Inr ?w)" by (simp add: path_directory_def)
  obtain w where w: "walk_path C A T bfio next_character lookup n
      (if string ! 0 = ucast LIBFSFAT_SEPARATOR then 1 else 0) False ?w = Some (Inr (w, r \<noteq> None))"
    "walk_result w fs' d' r"
    using walk_path_resolves [where lookup = lookup and characters = characters and view = view,
        OF assms(4,5) lookup dir, of False] by auto
  show ?thesis
    by (rule that [OF w(2)])
      (use w assms(2,6) in \<open>simp add: file_entry_by_path_def walk_result_def del: not_None_eq split: sum.split\<close>)
qed

lemma path_file_entry_walk:
  "walk_result w fs d r \<Longrightarrow> walk_result w' fs d r \<Longrightarrow>
   path_file_entry A X bfio file_entry w = path_file_entry A X bfio file_entry w'"
  by (cases r) (simp_all add: path_file_entry_def walk_result_def split: option.split sum.split)

text \<open>The file entry depends on what the names lead to alone, not on the string they come from.\<close>

lemma path_lookup_result:
  fixes fs :: "('arr, 'cache) file_system" and X :: "('xarr, extent) array_ops"
  assumes "array_contract A view" and "array_contract X xview"
    and "fs_root_directory fs = Some d" and "fs_io_handle fs = Some io"
    and "resolves U C A view T bfio fs d dss fs' d' r"
  obtains fe :: "('arr, 'cache, 'xarr, 's) file_entry" where "path_entry io d' r fe"
    and "\<And>string8 n8. utf8_path U string8 n8 dss \<Longrightarrow>
      libfsfat_file_system_get_file_entry_by_utf8_path U C A T X (Some fs) bfio (Some string8) n8 None =
      Some (Inr (fs', r \<noteq> None, fe))"
    and "\<And>string16 n16. utf16_path U string16 n16 dss \<Longrightarrow>
      libfsfat_file_system_get_file_entry_by_utf16_path U C A T X (Some fs) bfio (Some string16) n16 None =
      Some (Inr (fs', r \<noteq> None, fe))"
proof -
  have io: "fs_io_handle fs' = Some io" using resolves_keeps [OF assms(5)] assms(4) by simp
  let ?w = "\<lparr> pw_file_system = fs', pw_in_root = False, pw_directory = Some d',
    pw_directory_entry = map_option (Pair (dir_store d')) r, pw_cluster_number = 0 \<rparr>"
  have w: "walk_result ?w fs' d' r" by (simp add: walk_result_def)
  have found: "\<exists>de cs. dir_store d' a = Some de \<and> entry_characters U A (dir_store d') de cs"
    if "r = Some a" for a
    by (rule resolves_entry [OF assms(5) [unfolded that]]) blast
  obtain fe :: "('arr, 'cache, 'xarr, 's) file_entry"
    where fe: "path_file_entry A X bfio None ?w = Inr fe" "path_entry io d' r fe"
    by (rule path_file_entry_result [OF assms(2) io w found])
  have same: "path_file_entry A X bfio None w' = Inr fe" if "walk_result w' fs' d' r" for w'
    using path_file_entry_walk [OF that w] fe(1) by metis
  show ?thesis
  proof (rule that [OF fe(2)])
    fix string n assume path: "utf8_path U string n dss"
    have names: "path_names (una_from_utf8 U string n) (\<lambda>i. utf8_characters U (drop i string)) n
        (if string ! 0 = ucast LIBFSFAT_SEPARATOR then 1 else 0) dss" and two: "2 \<le> n"
      and n: "n \<le> SSIZE_MAX" "n \<le> length string"
      using path by (simp_all add: utf8_path_def LIBFSFAT_SEPARATOR_def)
    have lookup: "libfsfat_directory_get_file_entry_by_utf8_name U A (Some d) (Some (drop i string)) k =
        Some (Inr (map_option fst (List.find (same_name U ds) names)))"
      if "utf8_characters U (drop i string) k ds"
        and "list_all2 (stored_name U A d) (view (dir_file_entries_array d)) names" for d i k ds names
      by (rule lookup_utf8_name [OF assms(1) that(2,1)])
    obtain w' where w': "walk_result w' fs' d' r"
      and path: "file_entry_by_path C A T X (una_from_utf8 U string n)
        (\<lambda>d i. libfsfat_directory_get_file_entry_by_utf8_name U A d (Some (drop i string)))
        fs bfio string n (None :: ('arr, 'cache, 'xarr, 's) file_entry option) =
        (case path_file_entry A X bfio None w' of
           Inl e \<Rightarrow> Some (Inl e)
         | Inr fe \<Rightarrow> Some (Inr (fs', r \<noteq> None, fe)))"
      by (rule file_entry_by_path_resolves [where
            lookup = "\<lambda>d i. libfsfat_directory_get_file_entry_by_utf8_name U A d (Some (drop i string))" and
            characters = "\<lambda>i. utf8_characters U (drop i string)",
          OF assms(2-5) names two lookup])
    then show "libfsfat_file_system_get_file_entry_by_utf8_path U C A T X (Some fs) bfio (Some string) n None =
        Some (Inr (fs', r \<noteq> None, fe))"
      using n by (simp add: libfsfat_file_system_get_file_entry_by_utf8_path_def path same [OF w'] del: not_None_eq)
  next
    fix string n assume path: "utf16_path U string n dss"
    have names: "path_names (una_from_utf16 U string n) (\<lambda>i. utf16_characters U (drop i string)) n
        (if string ! 0 = ucast LIBFSFAT_SEPARATOR then 1 else 0) dss" and two: "2 \<le> n"
      and n: "n \<le> SSIZE_MAX" "n \<le> length string"
      using path by (simp_all add: utf16_path_def LIBFSFAT_SEPARATOR_def)
    have lookup: "libfsfat_directory_get_file_entry_by_utf16_name U A (Some d) (Some (drop i string)) k =
        Some (Inr (map_option fst (List.find (same_name U ds) names)))"
      if "utf16_characters U (drop i string) k ds"
        and "list_all2 (stored_name U A d) (view (dir_file_entries_array d)) names" for d i k ds names
      by (rule lookup_utf16_name [OF assms(1) that(2,1)])
    obtain w' where w': "walk_result w' fs' d' r"
      and path: "file_entry_by_path C A T X (una_from_utf16 U string n)
        (\<lambda>d i. libfsfat_directory_get_file_entry_by_utf16_name U A d (Some (drop i string)))
        fs bfio string n (None :: ('arr, 'cache, 'xarr, 's) file_entry option) =
        (case path_file_entry A X bfio None w' of
           Inl e \<Rightarrow> Some (Inl e)
         | Inr fe \<Rightarrow> Some (Inr (fs', r \<noteq> None, fe)))"
      by (rule file_entry_by_path_resolves [where
            lookup = "\<lambda>d i. libfsfat_directory_get_file_entry_by_utf16_name U A d (Some (drop i string))" and
            characters = "\<lambda>i. utf16_characters U (drop i string)",
          OF assms(2-5) names two lookup])
    then show "libfsfat_file_system_get_file_entry_by_utf16_path U C A T X (Some fs) bfio (Some string) n None =
        Some (Inr (fs', r \<noteq> None, fe))"
      using n by (simp add: libfsfat_file_system_get_file_entry_by_utf16_path_def path same [OF w'] del: not_None_eq)
  qed
qed

text \<open>
  C6. The path functions resolve a path name by name: from the root directory on, each name
  is looked up in the directory of the one before, and the file entry shows the identifier,
  flags, first cluster and size of the entry that is found last. The return value is 0 if a
  name is not found; the file entry is set then all the same, with the identifier of the root
  directory and the directory in which the name is missing. The encoding of the path makes
  no difference.
\<close>

theorem file_system_path_lookup:
  fixes fs :: "('arr, 'cache) file_system" and X :: "('xarr, extent) array_ops"
  assumes "array_contract A view" and "array_contract X xview"
    and "fs_root_directory fs = Some d" and "fs_io_handle fs = Some io"
    and "resolves U C A view T bfio fs d dss fs' d' r"
    and "utf8_path U string8 n8 dss" and "utf16_path U string16 n16 dss"
  shows "\<exists>fe :: ('arr, 'cache, 'xarr, 's) file_entry. path_entry io d' r fe \<and>
    libfsfat_file_system_get_file_entry_by_utf8_path U C A T X (Some fs) bfio (Some string8) n8 None =
      Some (Inr (fs', r \<noteq> None, fe)) \<and>
    libfsfat_file_system_get_file_entry_by_utf16_path U C A T X (Some fs) bfio (Some string16) n16 None =
      Some (Inr (fs', r \<noteq> None, fe))"
proof -
  obtain fe :: "('arr, 'cache, 'xarr, 's) file_entry" where "path_entry io d' r fe"
    and "\<And>string8 n8. utf8_path U string8 n8 dss \<Longrightarrow>
      libfsfat_file_system_get_file_entry_by_utf8_path U C A T X (Some fs) bfio (Some string8) n8 None =
      Some (Inr (fs', r \<noteq> None, fe))"
    and "\<And>string16 n16. utf16_path U string16 n16 dss \<Longrightarrow>
      libfsfat_file_system_get_file_entry_by_utf16_path U C A T X (Some fs) bfio (Some string16) n16 None =
      Some (Inr (fs', r \<noteq> None, fe))"
    using path_lookup_result [OF assms(1-5)] by metis
  then show ?thesis using assms(6,7) by blast
qed

text \<open>
  A path of one character is taken for the root directory, also when the character is
  not the separator: the name of a file with one character cannot be looked up without a
  separator in front of it.
\<close>

theorem file_system_path_single_character:
  assumes "array_contract X xview" and "fs_io_handle fs = Some io"
  shows "\<exists>fe. libfsfat_file_system_get_file_entry_by_utf8_path U C A T X (Some fs) bfio (Some [c]) 1 None =
      Some (Inr (fs, True, fe)) \<and>
    libfsfat_file_system_get_root_directory X (Some fs) bfio None = Inr fe"
proof -
  obtain extents where "array_initialize X 0 = Some extents"
    by (rule array_init [OF assms(1), of 0]) simp_all
  then show ?thesis
    using assms(2)
    by (simp add: libfsfat_file_system_get_file_entry_by_utf8_path_def file_entry_by_path_def
      path_file_entry_def SSIZE_MAX_def libfsfat_file_system_get_root_directory_def
      libfsfat_file_entry_initialize_def directory_entry_values_def)
qed

section \<open>A concrete path\<close>

text \<open>A file system whose root directory has the file A, and a cache that holds nothing.\<close>

definition path_witness_fs :: "(nat option list, unit) file_system" where
  "path_witness_fs =
     \<lparr> fs_io_handle = Some io_handle_zero, fs_allocation_table = None, fs_reversed_allocation_table = None,
       fs_cache_timestamp = 0, fs_directory_cache = (),
       fs_root_directory = Some (example_directory [Some 0]) \<rparr>"

definition no_cache :: "(unit, unit, nat option list directory) cache_ops" where
  "no_cache =
     \<lparr> cache_date_time_get_timestamp = Some 0, cache_initialize = (\<lambda>_. Some ()),
       cache_get_value_by_identifier = (\<lambda>_ _ _ _. Some None), cache_value_get_value = (\<lambda>_. None),
       cache_set_value_by_identifier = (\<lambda>_ _ _ _ _. Some ()) \<rparr>"

lemma example_paths:
  "utf8_path ascii_una [0x5c, 0x61] 2 [[0x61]]" "utf16_path ascii_una [0x5c, 0x61] 2 [[0x61]]"
proof -
  have ends: "path_segment_end (una_from_utf8 ascii_una [0x5c, 0x61] 2) 2 1 = Some (Inr (2, False))"
    "path_segment_end (una_from_utf16 ascii_una [0x5c, 0x61] 2) 2 1 = Some (Inr (2, False))"
    by (subst path_segment_end.simps, subst path_segment_end.simps,
        simp add: ascii_una_def LIBFSFAT_SEPARATOR_def)+
  show "utf8_path ascii_una [0x5c, 0x61] 2 [[0x61]]" "utf16_path ascii_una [0x5c, 0x61] 2 [[0x61]]"
    using example_strings
    by (auto simp: utf8_path_def utf16_path_def SSIZE_MAX_def ends [simplified] path_names_end
      intro!: path_names_segment [where j = 2 and separator = False])
qed

theorem file_system_path_lookup_witness:
  "\<exists>fe :: (nat option list, unit, extent option list, stream_state) file_entry.
     libfsfat_file_system_get_file_entry_by_utf8_path ascii_una no_cache list_array
       (list_array :: (node_entry option list, node_entry) array_ops) list_array (Some path_witness_fs)
       (image_bfio []) (Some [0x5c, 0x61]) 2 None = Some (Inr (path_witness_fs, True, fe))"
proof -
  let ?d = "example_directory [Some 0]"
  have names: "list_all2 (stored_name ascii_una list_array ?d) (dir_file_entries_array ?d) [(0, [0x41])]"
    by (simp add: stored_name_def example_directory_def example_file_name)
  have found: "List.find (same_name ascii_una [0x61]) [(0, [0x41])] = Some (0, [0x41])"
    by (simp add: same_name_def ascii_una_def)
  have resolves: "resolves ascii_una no_cache list_array (\<lambda>a. a)
      (list_array :: (node_entry option list, node_entry) array_ops) (image_bfio []) path_witness_fs ?d
      [[0x61]] path_witness_fs ?d (Some (fst (0 :: nat, [0x41 :: u32])))"
    by (rule resolves_found [where view = "\<lambda>a. a", OF names found])
  have "fs_root_directory path_witness_fs = Some ?d" "fs_io_handle path_witness_fs = Some io_handle_zero"
    by (simp_all add: path_witness_fs_def)
  from file_system_path_lookup [OF list_array_contract list_array_contract this resolves example_paths]
  show ?thesis by (simp del: not_None_eq) blast
qed

theorem file_system_path_single_character_witness:
  "\<exists>fe :: (nat option list, unit, extent option list, stream_state) file_entry.
     libfsfat_file_system_get_file_entry_by_utf8_path ascii_una no_cache list_array
       (list_array :: (node_entry option list, node_entry) array_ops) list_array (Some path_witness_fs)
       (image_bfio []) (Some [0x41]) 1 None = Some (Inr (path_witness_fs, True, fe)) \<and>
     libfsfat_file_system_get_root_directory list_array (Some path_witness_fs) (image_bfio []) None = Inr fe"
  by (rule file_system_path_single_character [OF list_array_contract]) (simp add: path_witness_fs_def)

end
