(* ===== verification/Boot_Record.thy ===== *)
theory Boot_Record
  imports Byte_Stream IO_Handle
begin

text \<open>
  The boot record of \<^verbatim>\<open>libfsfat/libfsfat_boot_record.c\<close>: the fields of the first sector
  (\<^verbatim>\<open>fsfat_boot_record.h\<close>), the checks of the reader and the geometry it computes. The
  reader computes with 8 to 64-bit integers; it is compared with the same formulas over
  the natural numbers.
\<close>

section \<open>The boot record and its reader\<close>

record boot_record =
  br_file_system_format :: file_system_format
  br_bytes_per_sector :: u16
  br_cluster_block_size :: u64
  br_total_number_of_clusters :: u32
  br_volume_serial_number :: u32
  br_allocation_table_offset :: off64
  br_allocation_table_size :: u64
  br_root_directory_cluster :: u32
  br_root_directory_offset :: off64
  br_root_directory_size :: u64
  br_first_cluster_offset :: off64

definition boot_record_zero :: boot_record where
  "boot_record_zero =
     \<lparr> br_file_system_format = FORMAT_UNKNOWN, br_bytes_per_sector = 0,
       br_cluster_block_size = 0, br_total_number_of_clusters = 0,
       br_volume_serial_number = 0, br_allocation_table_offset = 0,
       br_allocation_table_size = 0, br_root_directory_cluster = 0,
       br_root_directory_offset = 0, br_root_directory_size = 0,
       br_first_cluster_offset = 0 \<rparr>"

definition libfsfat_boot_record_initialize :: "boot_record option \<Rightarrow> boot_record result" where
  "libfsfat_boot_record_initialize boot_record =
     (if boot_record \<noteq> None then Inl RUNTIME_VALUE_ALREADY_SET
      else Inr boot_record_zero)"

text \<open>The local variables of the reader that outlive the parsing of the fields.\<close>

record boot_parameters =
  total_number_of_sectors :: u64
  allocation_table_size :: u32
  number_of_reserved_sectors :: u16
  number_of_root_directory_entries :: u16
  number_of_allocation_tables :: u8
  sectors_per_cluster_block :: u8

definition is_exfat_oem_name :: "u8 list \<Rightarrow> bool" where
  "is_exfat_oem_name data \<longleftrightarrow>
     data ! 3 = 0x45 \<and> data ! 4 = 0x58 \<and> data ! 5 = 0x46 \<and> data ! 6 = 0x41 \<and>
     data ! 7 = 0x54 \<and> data ! 8 = 0x20 \<and> data ! 9 = 0x20 \<and> data ! 10 = 0x20"

definition read_exfat_fields :: "boot_record \<Rightarrow> u8 list \<Rightarrow> boot_record \<times> boot_parameters" where
  "read_exfat_fields br data =
     (br\<lparr> br_allocation_table_offset := byte_stream_copy_to_uint32_little_endian data 80,
          br_allocation_table_size := byte_stream_copy_to_uint32_little_endian data 84,
          br_first_cluster_offset := byte_stream_copy_to_uint32_little_endian data 88,
          br_total_number_of_clusters := byte_stream_copy_to_uint32_little_endian data 92,
          br_root_directory_cluster := byte_stream_copy_to_uint32_little_endian data 96,
          br_volume_serial_number := byte_stream_copy_to_uint32_little_endian data 100,
          br_bytes_per_sector := ucast (data ! 108) \<rparr>,
      \<lparr> total_number_of_sectors = byte_stream_copy_to_uint64_little_endian data 72,
        allocation_table_size = 0,
        number_of_reserved_sectors = 0,
        number_of_root_directory_entries = 0,
        number_of_allocation_tables = data ! 110,
        sectors_per_cluster_block = data ! 109 \<rparr>)"

definition read_fat_fields :: "boot_record \<Rightarrow> u8 list \<Rightarrow> boot_record \<times> boot_parameters" where
  "read_fat_fields br data =
     (let number_of_root_directory_entries = byte_stream_copy_to_uint16_little_endian data 17;
          total_number_of_sectors_16bit = (byte_stream_copy_to_uint16_little_endian data 19 :: u16);
          allocation_table_size_16bit = (byte_stream_copy_to_uint16_little_endian data 22 :: u16);
          total_number_of_sectors_32bit = (byte_stream_copy_to_uint32_little_endian data 32 :: u32);
          br = br\<lparr> br_bytes_per_sector := byte_stream_copy_to_uint16_little_endian data 11 \<rparr>;
          parameters =
            \<lparr> total_number_of_sectors =
                (if total_number_of_sectors_32bit \<noteq> 0 then ucast total_number_of_sectors_32bit
                 else ucast total_number_of_sectors_16bit),
              allocation_table_size = ucast allocation_table_size_16bit,
              number_of_reserved_sectors = byte_stream_copy_to_uint16_little_endian data 14,
              number_of_root_directory_entries = number_of_root_directory_entries,
              number_of_allocation_tables = data ! 16,
              sectors_per_cluster_block = data ! 13 \<rparr>
      in if number_of_root_directory_entries = 0 \<and> total_number_of_sectors_16bit = 0
            \<and> allocation_table_size_16bit = 0
         then
           (let br = br\<lparr> br_root_directory_cluster := byte_stream_copy_to_uint32_little_endian data 44 \<rparr>
            in (if data ! 66 = 0x29
                then br\<lparr> br_volume_serial_number := byte_stream_copy_to_uint32_little_endian data 67 \<rparr>
                else br,
                parameters\<lparr> allocation_table_size := byte_stream_copy_to_uint32_little_endian data 36 \<rparr>))
         else
           (if data ! 38 = 0x29
            then br\<lparr> br_volume_serial_number := byte_stream_copy_to_uint32_little_endian data 39 \<rparr>
            else br,
            parameters))"

definition set_exfat_geometry :: "boot_record \<Rightarrow> boot_parameters \<Rightarrow> boot_record result" where
  "set_exfat_geometry br p =
     (if br_bytes_per_sector br < 9 \<or> br_bytes_per_sector br > 12
      then Inl RUNTIME_VALUE_OUT_OF_BOUNDS
      else
        let bytes_per_sector = push_bit (unat (br_bytes_per_sector br)) 1
        in if sectors_per_cluster_block p > 25 then Inl RUNTIME_VALUE_OUT_OF_BOUNDS
           else Inr (br\<lparr>
             br_bytes_per_sector := bytes_per_sector,
             br_cluster_block_size :=
               push_bit (unat (sectors_per_cluster_block p)) 1 * ucast bytes_per_sector,
             br_allocation_table_offset := br_allocation_table_offset br * ucast bytes_per_sector,
             br_allocation_table_size := br_allocation_table_size br * ucast bytes_per_sector,
             br_first_cluster_offset := br_first_cluster_offset br * ucast bytes_per_sector \<rparr>))"

text \<open>
  The product of the number of allocation tables and their size is a 32-bit product where
  it is subtracted from the number of sectors, and a 64-bit product in the offset of the
  first cluster.
\<close>

definition set_fat_geometry :: "boot_record \<Rightarrow> boot_parameters \<Rightarrow> boot_record result" where
  "set_fat_geometry br p =
     (if br_bytes_per_sector br \<notin> {512, 1024, 2048, 4096}
      then Inl RUNTIME_VALUE_OUT_OF_BOUNDS
      else if sectors_per_cluster_block p \<notin> {1, 2, 4, 8, 16, 32, 64, 128}
      then Inl RUNTIME_VALUE_OUT_OF_BOUNDS
      else
        let bytes_per_sector = (ucast (br_bytes_per_sector br) :: u64);
            total_number_of_clusters =
              (total_number_of_sectors p - ucast (number_of_reserved_sectors p)
               - ucast (ucast (number_of_allocation_tables p) * allocation_table_size p :: u32))
              div ucast (sectors_per_cluster_block p);
            file_system_format =
              (if total_number_of_clusters < 4085 then FORMAT_FAT12
               else if total_number_of_clusters < 65525 then FORMAT_FAT16
               else FORMAT_FAT32);
            first_cluster_offset =
              (ucast (number_of_reserved_sectors p)
               + ucast (number_of_allocation_tables p) * ucast (allocation_table_size p))
              * bytes_per_sector;
            br = br\<lparr>
              br_cluster_block_size := ucast (sectors_per_cluster_block p) * bytes_per_sector,
              br_file_system_format := file_system_format,
              br_total_number_of_clusters := ucast total_number_of_clusters,
              br_allocation_table_offset := ucast (number_of_reserved_sectors p) * bytes_per_sector,
              br_allocation_table_size := ucast (allocation_table_size p) * bytes_per_sector,
              br_first_cluster_offset := first_cluster_offset \<rparr>
        in if br_root_directory_cluster br = 0
           then
             let root_directory_size = ucast (number_of_root_directory_entries p) * 32
             in Inr (br\<lparr>
                  br_root_directory_offset := first_cluster_offset,
                  br_root_directory_size := root_directory_size,
                  br_first_cluster_offset := first_cluster_offset + root_directory_size \<rparr>)
           else Inr br)"

definition libfsfat_boot_record_read_data ::
  "boot_record option \<Rightarrow> u8 list option \<Rightarrow> boot_record result" where
  "libfsfat_boot_record_read_data boot_record data =
     (case boot_record of
        None \<Rightarrow> Inl ARGUMENT_INVALID_VALUE
      | Some br \<Rightarrow>
     (case data of
        None \<Rightarrow> Inl ARGUMENT_INVALID_VALUE
      | Some data \<Rightarrow>
          if length data \<noteq> 512 then Inl ARGUMENT_VALUE_OUT_OF_BOUNDS
          else if data ! 510 \<noteq> 0x55 \<or> data ! 511 \<noteq> 0xaa then Inl RUNTIME_UNSUPPORTED_VALUE
          else
            let br = (if is_exfat_oem_name data
                      then br\<lparr> br_file_system_format := FORMAT_EXFAT \<rparr> else br)
            in if br_file_system_format br = FORMAT_EXFAT
               then (case read_exfat_fields br data of (br', p) \<Rightarrow> set_exfat_geometry br' p)
               else (case read_fat_fields br data of (br', p) \<Rightarrow> set_fat_geometry br' p)))"

definition libfsfat_boot_record_read_file_io_handle ::
  "bfio \<Rightarrow> boot_record option \<Rightarrow> off64 \<Rightarrow> boot_record result" where
  "libfsfat_boot_record_read_file_io_handle bfio boot_record file_offset =
     (if boot_record = None then Inl ARGUMENT_INVALID_VALUE
      else
        (case bfio file_offset 512 of
           None \<Rightarrow> Inl IO_READ_FAILED
         | Some data \<Rightarrow>
             if length data \<noteq> 512 then Inl IO_READ_FAILED
             else
               (case libfsfat_boot_record_read_data boot_record (Some data) of
                  Inl e \<Rightarrow> Inl IO_READ_FAILED
                | Inr br \<Rightarrow> Inr br)))"

section \<open>The geometry in natural numbers\<close>

lemma set_fat_geometry_exact:
  assumes "set_fat_geometry br p = Inr br'"
  defines "bps \<equiv> unat (br_bytes_per_sector br)"
    and "spc \<equiv> unat (sectors_per_cluster_block p)"
    and "reserved \<equiv> unat (number_of_reserved_sectors p)"
    and "tables \<equiv> unat (number_of_allocation_tables p) * unat (allocation_table_size p)"
    and "root_size \<equiv> unat (number_of_root_directory_entries p) * 32"
  shows "bps \<in> {512, 1024, 2048, 4096}" and "spc \<in> {1, 2, 4, 8, 16, 32, 64, 128}"
    and "br_bytes_per_sector br' = br_bytes_per_sector br"
    and "unat (br_cluster_block_size br') = spc * bps"
    and "unat (br_allocation_table_offset br') = reserved * bps"
    and "unat (br_allocation_table_size br') = unat (allocation_table_size p) * bps"
    and "br_root_directory_cluster br' = br_root_directory_cluster br"
    and "unat (br_first_cluster_offset br') = (reserved + tables) * bps
           + (if br_root_directory_cluster br = 0 then root_size else 0)"
    and "br_root_directory_cluster br = 0 \<Longrightarrow>
         unat (br_root_directory_offset br') = (reserved + tables) * bps \<and>
         unat (br_root_directory_size br') = root_size"
proof -
  have bps: "br_bytes_per_sector br \<in> {512, 1024, 2048, 4096}"
    and spc: "sectors_per_cluster_block p \<in> {1, 2, 4, 8, 16, 32, 64, 128}"
    using assms(1) unfolding set_fat_geometry_def by (meson Inl_Inr_False)+
  then show "bps \<in> {512, 1024, 2048, 4096}" and "spc \<in> {1, 2, 4, 8, 16, 32, 64, 128}"
    unfolding bps_def spc_def by auto
  then have le: "bps \<le> 4096" "spc \<le> 128" by auto
  have res: "reserved < 2 ^ 16" "unat (number_of_allocation_tables p) < 2 ^ 8"
    "unat (allocation_table_size p) < 2 ^ 32" "root_size < 2 ^ 21"
    unfolding reserved_def root_size_def
    using unat_bounds(1) [of "number_of_allocation_tables p"] unat_bounds(3) [of "allocation_table_size p"]
      unat_bounds(2) [of "number_of_reserved_sectors p"] unat_bounds(2) [of "number_of_root_directory_entries p"]
    by auto
  have tables: "tables \<le> 2 ^ 8 * 2 ^ 32" unfolding tables_def
    using res(2,3) by (intro mult_le_mono) simp_all
  have data: "(reserved + tables) * bps \<le> (2 ^ 16 + 2 ^ 8 * 2 ^ 32) * 4096"
    using res(1) tables le(1) by (intro mult_le_mono) simp_all
  let ?b = "ucast (br_bytes_per_sector br) :: u64"
  have b: "unat ?b = bps" by (simp add: bps_def unat_ucast_up)
  have r: "unat (ucast (number_of_reserved_sectors p) :: u64) = reserved"
    by (simp add: reserved_def unat_ucast_up)
  have t: "unat (ucast (number_of_allocation_tables p) * ucast (allocation_table_size p) :: u64) = tables"
    using tables by (subst unat_mult_exact) (simp_all add: tables_def unat_ucast_up)
  have rt: "unat (ucast (number_of_reserved_sectors p)
      + ucast (number_of_allocation_tables p) * ucast (allocation_table_size p) :: u64) = reserved + tables"
    using res(1) tables by (subst unat_add_exact) (simp_all add: r t)
  have rtb: "unat ((ucast (number_of_reserved_sectors p)
      + ucast (number_of_allocation_tables p) * ucast (allocation_table_size p)) * ?b) = (reserved + tables) * bps"
    using data by (subst unat_mult_exact) (simp_all add: rt b)
  have rs: "unat (ucast (number_of_root_directory_entries p) * 32 :: u64) = root_size"
    using res(4) by (subst unat_mult_exact) (simp_all add: root_size_def unat_ucast_up)
  have rsum: "unat ((ucast (number_of_reserved_sectors p)
      + ucast (number_of_allocation_tables p) * ucast (allocation_table_size p)) * ?b
      + ucast (number_of_root_directory_entries p) * 32) = (reserved + tables) * bps + root_size"
    using data res(4) by (subst unat_add_exact) (simp_all add: rtb rs)
  have c: "unat (ucast (sectors_per_cluster_block p) * ?b) = spc * bps"
    using mult_le_mono [OF le(2,1)] by (subst unat_mult_exact) (simp_all add: b spc_def unat_ucast_up)
  have o: "unat (ucast (number_of_reserved_sectors p) * ?b) = reserved * bps"
    using mult_le_mono [OF less_imp_le [OF res(1)] le(1)]
    by (subst unat_mult_exact) (simp_all add: b r)
  have s: "unat (ucast (allocation_table_size p) * ?b) = unat (allocation_table_size p) * bps"
    using mult_le_mono [OF less_imp_le [OF res(3)] le(1)]
    by (subst unat_mult_exact) (simp_all add: b unat_ucast_up)
  note br' = assms(1) [unfolded set_fat_geometry_def Let_def, simplified bps spc not_True_eq_False if_False]
  show "br_bytes_per_sector br' = br_bytes_per_sector br"
    and "br_root_directory_cluster br' = br_root_directory_cluster br"
    and "unat (br_cluster_block_size br') = spc * bps"
    and "unat (br_allocation_table_offset br') = reserved * bps"
    and "unat (br_allocation_table_size br') = unat (allocation_table_size p) * bps"
    and "unat (br_first_cluster_offset br') = (reserved + tables) * bps
           + (if br_root_directory_cluster br = 0 then root_size else 0)"
    and "br_root_directory_cluster br = 0 \<Longrightarrow>
         unat (br_root_directory_offset br') = (reserved + tables) * bps \<and>
         unat (br_root_directory_size br') = root_size"
    using br' by (cases "br_root_directory_cluster br = 0"; clarsimp simp: c o s rtb rs rsum)+
qed

text \<open>
  The number of clusters, where the sectors in front of the data area fit in the volume;
  and where they do not, the 64-bit difference wraps around.
\<close>

definition fat_format_of_clusters :: "nat \<Rightarrow> file_system_format" where
  "fat_format_of_clusters n =
     (if n < 4085 then FORMAT_FAT12 else if n < 65525 then FORMAT_FAT16 else FORMAT_FAT32)"

lemma set_fat_geometry_clusters:
  assumes "set_fat_geometry br p = Inr br'"
    and "total_number_of_clusters =
      (total_number_of_sectors p - ucast (number_of_reserved_sectors p)
       - ucast (ucast (number_of_allocation_tables p) * allocation_table_size p :: u32))
      div ucast (sectors_per_cluster_block p)"
  shows "br_total_number_of_clusters br' = ucast total_number_of_clusters"
    and "br_file_system_format br' = fat_format_of_clusters (unat total_number_of_clusters)"
proof -
  have bps: "br_bytes_per_sector br \<in> {512, 1024, 2048, 4096}"
    and spc: "sectors_per_cluster_block p \<in> {1, 2, 4, 8, 16, 32, 64, 128}"
    using assms(1) unfolding set_fat_geometry_def by (meson Inl_Inr_False)+
  note br' = assms(1) [unfolded set_fat_geometry_def Let_def assms(2) [symmetric],
      simplified bps spc not_True_eq_False if_False]
  show "br_total_number_of_clusters br' = ucast total_number_of_clusters"
    using br' by (cases "br_root_directory_cluster br = 0"; clarsimp)
  have "(total_number_of_clusters < 4085) = (unat total_number_of_clusters < 4085)"
    "(total_number_of_clusters < 65525) = (unat total_number_of_clusters < 65525)"
    by (simp_all add: word_less_nat_alt)
  then show "br_file_system_format br' = fat_format_of_clusters (unat total_number_of_clusters)"
    using br' by (cases "br_root_directory_cluster br = 0"; clarsimp simp: fat_format_of_clusters_def)
qed

lemma set_fat_geometry_clusters_exact:
  assumes "set_fat_geometry br p = Inr br'"
    and "unat (number_of_allocation_tables p) * unat (allocation_table_size p) < 2 ^ 32"
    and "unat (number_of_reserved_sectors p)
         + unat (number_of_allocation_tables p) * unat (allocation_table_size p)
         \<le> unat (total_number_of_sectors p)"
    and "n = (unat (total_number_of_sectors p) - unat (number_of_reserved_sectors p)
          - unat (number_of_allocation_tables p) * unat (allocation_table_size p))
          div unat (sectors_per_cluster_block p)"
  shows "unat (br_total_number_of_clusters br') = n mod 2 ^ 32"
    and "br_file_system_format br' = fat_format_of_clusters n"
proof -
  define total where "total =
      (total_number_of_sectors p - ucast (number_of_reserved_sectors p)
       - ucast (ucast (number_of_allocation_tables p) * allocation_table_size p :: u32))
      div ucast (sectors_per_cluster_block p)"
  have r: "unat (ucast (number_of_reserved_sectors p) :: u64) = unat (number_of_reserved_sectors p)"
    by (simp add: unat_ucast_up)
  have t: "unat (ucast (ucast (number_of_allocation_tables p) * allocation_table_size p :: u32) :: u64) =
      unat (number_of_allocation_tables p) * unat (allocation_table_size p)"
    using assms(2) by (subst unat_ucast_up, simp, subst unat_mult_exact) (simp_all add: unat_ucast_up)
  have "unat (total_number_of_sectors p - ucast (number_of_reserved_sectors p)) =
      unat (total_number_of_sectors p) - unat (number_of_reserved_sectors p)"
    using assms(3) by (subst unat_minus_exact) (simp_all add: r)
  then have "unat (total_number_of_sectors p - ucast (number_of_reserved_sectors p)
       - ucast (ucast (number_of_allocation_tables p) * allocation_table_size p :: u32)) =
      unat (total_number_of_sectors p) - unat (number_of_reserved_sectors p)
          - unat (number_of_allocation_tables p) * unat (allocation_table_size p)"
    using assms(3) by (subst unat_minus_exact) (simp_all add: t)
  then have "unat total = n"
    unfolding total_def unat_div assms(4) by (simp add: unat_ucast_up)
  then show "unat (br_total_number_of_clusters br') = n mod 2 ^ 32"
    and "br_file_system_format br' = fat_format_of_clusters n"
    using set_fat_geometry_clusters [OF assms(1) total_def]
    by (simp_all add: unsigned_ucast_eq take_bit_eq_mod)
qed

section \<open>Boot sectors by their layout\<close>

text \<open>
  The layout of \<^verbatim>\<open>fsfat_boot_record_fat12_t\<close> and \<^verbatim>\<open>fsfat_boot_record_fat32_t\<close> as a writer
  of the sector: the fields the reader uses, and the bytes between them as lists.
\<close>

record fat_layout =
  lay_entry_point :: "u8 list"
  lay_oem_name :: "u8 list"
  lay_bytes_per_sector :: u16
  lay_sectors_per_cluster :: u8
  lay_reserved_sectors :: u16
  lay_allocation_tables :: u8
  lay_root_entries :: u16
  lay_sectors_16bit :: u16
  lay_media :: u8
  lay_table_size_16bit :: u16
  lay_disk_geometry :: "u8 list"
  lay_sectors_32bit :: u32
  lay_table_size_32bit :: u32
  lay_versions :: "u8 list"
  lay_root_cluster :: u32
  lay_other_sectors :: "u8 list"
  lay_drive :: "u8 list"
  lay_extended_signature :: u8
  lay_serial_number :: u32
  lay_rest :: "u8 list"

definition common_fields :: "fat_layout \<Rightarrow> u8 list" where
  "common_fields f =
     lay_entry_point f @ lay_oem_name f @
     byte_stream_copy_from_uint16_little_endian (lay_bytes_per_sector f) @
     [lay_sectors_per_cluster f] @
     byte_stream_copy_from_uint16_little_endian (lay_reserved_sectors f) @
     [lay_allocation_tables f] @
     byte_stream_copy_from_uint16_little_endian (lay_root_entries f) @
     byte_stream_copy_from_uint16_little_endian (lay_sectors_16bit f) @
     [lay_media f] @
     byte_stream_copy_from_uint16_little_endian (lay_table_size_16bit f) @
     lay_disk_geometry f @
     byte_stream_copy_from_uint32_little_endian (lay_sectors_32bit f)"

definition fat16_boot_sector :: "fat_layout \<Rightarrow> u8 list" where
  "fat16_boot_sector f =
     common_fields f @ lay_drive f @ [lay_extended_signature f] @
     byte_stream_copy_from_uint32_little_endian (lay_serial_number f) @ lay_rest f @ [0x55, 0xaa]"

definition fat32_boot_sector :: "fat_layout \<Rightarrow> u8 list" where
  "fat32_boot_sector f =
     common_fields f @
     byte_stream_copy_from_uint32_little_endian (lay_table_size_32bit f) @
     lay_versions f @
     byte_stream_copy_from_uint32_little_endian (lay_root_cluster f) @
     lay_other_sectors f @ lay_drive f @ [lay_extended_signature f] @
     byte_stream_copy_from_uint32_little_endian (lay_serial_number f) @ lay_rest f @ [0x55, 0xaa]"

text \<open>\<open>rest\<close> is the number of bytes behind the serial number: 467 or, for FAT-32, 439.\<close>

definition layout_ok :: "nat \<Rightarrow> fat_layout \<Rightarrow> bool" where
  "layout_ok rest f \<longleftrightarrow>
     length (lay_entry_point f) = 3 \<and> length (lay_oem_name f) = 8 \<and>
     lay_oem_name f \<noteq> [0x45, 0x58, 0x46, 0x41, 0x54, 0x20, 0x20, 0x20] \<and>
     length (lay_disk_geometry f) = 8 \<and> length (lay_versions f) = 4 \<and>
     length (lay_other_sectors f) = 16 \<and> length (lay_drive f) = 2 \<and> length (lay_rest f) = rest \<and>
     lay_bytes_per_sector f \<in> {512, 1024, 2048, 4096} \<and>
     lay_sectors_per_cluster f \<in> {1, 2, 4, 8, 16, 32, 64, 128}"

lemmas codec_lengths [simp] = uint16.length_enc uint32.length_enc uint64.length_enc

lemma take_bit_width [simp]:
  "take_bit 16 (a :: u16) = a" "take_bit 32 (b :: u32) = b" "take_bit 64 (c :: u64) = c"
  by (simp_all add: take_bit_word_eq_self)

lemma length_common_fields: "layout_ok n f \<Longrightarrow> length (common_fields f) = 36"
  by (simp add: layout_ok_def common_fields_def)

lemma list_8_eq:
  "length xs = 8 \<Longrightarrow> (xs = [a, b, c, d, e, f, g, h]) =
   (xs ! 0 = a \<and> xs ! 1 = b \<and> xs ! 2 = c \<and> xs ! 3 = d \<and> xs ! 4 = e \<and> xs ! 5 = f \<and> xs ! 6 = g \<and> xs ! 7 = h)"
  by (auto simp: eval_nat_numeral length_Suc_conv)

lemma common_fields_read:
  fixes behind :: "u8 list"
  assumes "layout_ok n f"
  defines "data \<equiv> common_fields f @ behind"
  shows "\<not> is_exfat_oem_name data"
    and "byte_stream_copy_to_uint16_little_endian data 11 = lay_bytes_per_sector f"
    and "data ! 13 = lay_sectors_per_cluster f"
    and "byte_stream_copy_to_uint16_little_endian data 14 = lay_reserved_sectors f"
    and "data ! 16 = lay_allocation_tables f"
    and "byte_stream_copy_to_uint16_little_endian data 17 = lay_root_entries f"
    and "byte_stream_copy_to_uint16_little_endian data 19 = lay_sectors_16bit f"
    and "byte_stream_copy_to_uint16_little_endian data 22 = lay_table_size_16bit f"
    and "byte_stream_copy_to_uint32_little_endian data 32 = lay_sectors_32bit f"
proof -
  note len = assms(1) [unfolded layout_ok_def]
  have oem: "length (lay_oem_name f) = 8"
    "lay_oem_name f \<noteq> [0x45, 0x58, 0x46, 0x41, 0x54, 0x20, 0x20, 0x20]"
    using len by blast+
  show "\<not> is_exfat_oem_name data"
    using len oem(2) unfolding list_8_eq [OF oem(1)]
    by (auto simp: is_exfat_oem_name_def data_def common_fields_def nth_append)
  show "data ! 13 = lay_sectors_per_cluster f" "data ! 16 = lay_allocation_tables f"
    using len by (simp_all add: data_def common_fields_def nth_append)
  show "byte_stream_copy_to_uint16_little_endian data 11 = lay_bytes_per_sector f"
    "byte_stream_copy_to_uint16_little_endian data 14 = lay_reserved_sectors f"
    "byte_stream_copy_to_uint16_little_endian data 17 = lay_root_entries f"
    "byte_stream_copy_to_uint16_little_endian data 19 = lay_sectors_16bit f"
    "byte_stream_copy_to_uint16_little_endian data 22 = lay_table_size_16bit f"
    by (rule uint16.dec_at; use len in \<open>simp add: data_def common_fields_def\<close>)+
  show "byte_stream_copy_to_uint32_little_endian data 32 = lay_sectors_32bit f"
    by (rule uint32.dec_at; use len in \<open>simp add: data_def common_fields_def\<close>)
qed

lemma fat16_sector_read:
  assumes "layout_ok 467 f"
    and "\<not> (lay_root_entries f = 0 \<and> lay_sectors_16bit f = 0 \<and> lay_table_size_16bit f = 0)"
  shows "length (fat16_boot_sector f) = 512"
    and "fat16_boot_sector f ! 510 = 0x55" and "fat16_boot_sector f ! 511 = 0xaa"
    and "\<not> is_exfat_oem_name (fat16_boot_sector f)"
    and "read_fat_fields br (fat16_boot_sector f) =
      (br\<lparr> br_bytes_per_sector := lay_bytes_per_sector f,
          br_volume_serial_number := (if lay_extended_signature f = 0x29 then lay_serial_number f
                                      else br_volume_serial_number br) \<rparr>,
       \<lparr> total_number_of_sectors =
           (if lay_sectors_32bit f \<noteq> 0 then ucast (lay_sectors_32bit f)
            else ucast (lay_sectors_16bit f)),
         allocation_table_size = ucast (lay_table_size_16bit f),
         number_of_reserved_sectors = lay_reserved_sectors f,
         number_of_root_directory_entries = lay_root_entries f,
         number_of_allocation_tables = lay_allocation_tables f,
         sectors_per_cluster_block = lay_sectors_per_cluster f \<rparr>)"
proof -
  have drive: "length (lay_drive f) = 2" and rest: "length (lay_rest f) = 467"
    using assms(1) by (simp_all add: layout_ok_def)
  note common = length_common_fields [OF assms(1)]
  show "length (fat16_boot_sector f) = 512" "fat16_boot_sector f ! 510 = 0x55"
    "fat16_boot_sector f ! 511 = 0xaa"
    by (simp_all add: fat16_boot_sector_def nth_append common drive rest)
  show "\<not> is_exfat_oem_name (fat16_boot_sector f)"
    unfolding fat16_boot_sector_def by (rule common_fields_read(1) [OF assms(1)])
  have sig: "fat16_boot_sector f ! 38 = lay_extended_signature f"
    by (simp add: fat16_boot_sector_def nth_append common drive)
  have serial: "byte_stream_copy_to_uint32_little_endian (fat16_boot_sector f) 39 = lay_serial_number f"
    by (rule uint32.dec_at) (simp_all add: fat16_boot_sector_def common drive)
  note fields = common_fields_read [OF assms(1), of "lay_drive f @ [lay_extended_signature f] @
     byte_stream_copy_from_uint32_little_endian (lay_serial_number f) @ lay_rest f @ [0x55, 0xaa]",
     folded fat16_boot_sector_def]
  show "read_fat_fields br (fat16_boot_sector f) =
      (br\<lparr> br_bytes_per_sector := lay_bytes_per_sector f,
          br_volume_serial_number := (if lay_extended_signature f = 0x29 then lay_serial_number f
                                      else br_volume_serial_number br) \<rparr>,
       \<lparr> total_number_of_sectors =
           (if lay_sectors_32bit f \<noteq> 0 then ucast (lay_sectors_32bit f)
            else ucast (lay_sectors_16bit f)),
         allocation_table_size = ucast (lay_table_size_16bit f),
         number_of_reserved_sectors = lay_reserved_sectors f,
         number_of_root_directory_entries = lay_root_entries f,
         number_of_allocation_tables = lay_allocation_tables f,
         sectors_per_cluster_block = lay_sectors_per_cluster f \<rparr>)"
    using assms(2) by (auto simp add: read_fat_fields_def Let_def fields sig serial)
qed

lemma fat32_sector_read:
  assumes "layout_ok 439 f"
    and "lay_root_entries f = 0" "lay_sectors_16bit f = 0" "lay_table_size_16bit f = 0"
  shows "length (fat32_boot_sector f) = 512"
    and "fat32_boot_sector f ! 510 = 0x55" and "fat32_boot_sector f ! 511 = 0xaa"
    and "\<not> is_exfat_oem_name (fat32_boot_sector f)"
    and "read_fat_fields br (fat32_boot_sector f) =
      (br\<lparr> br_bytes_per_sector := lay_bytes_per_sector f,
          br_root_directory_cluster := lay_root_cluster f,
          br_volume_serial_number := (if lay_extended_signature f = 0x29 then lay_serial_number f
                                      else br_volume_serial_number br) \<rparr>,
       \<lparr> total_number_of_sectors = ucast (lay_sectors_32bit f),
         allocation_table_size = lay_table_size_32bit f,
         number_of_reserved_sectors = lay_reserved_sectors f,
         number_of_root_directory_entries = 0,
         number_of_allocation_tables = lay_allocation_tables f,
         sectors_per_cluster_block = lay_sectors_per_cluster f \<rparr>)"
proof -
  have len: "length (lay_drive f) = 2" "length (lay_rest f) = 439"
    "length (lay_versions f) = 4" "length (lay_other_sectors f) = 16"
    using assms(1) by (simp_all add: layout_ok_def)
  note common = length_common_fields [OF assms(1)]
  show "length (fat32_boot_sector f) = 512" "fat32_boot_sector f ! 510 = 0x55"
    "fat32_boot_sector f ! 511 = 0xaa"
    by (simp_all add: fat32_boot_sector_def nth_append common len)
  show "\<not> is_exfat_oem_name (fat32_boot_sector f)"
    unfolding fat32_boot_sector_def by (rule common_fields_read(1) [OF assms(1)])
  have sig: "fat32_boot_sector f ! 66 = lay_extended_signature f"
    by (simp add: fat32_boot_sector_def nth_append common len)
  have dec: "byte_stream_copy_to_uint32_little_endian (fat32_boot_sector f) 67 = lay_serial_number f"
    "byte_stream_copy_to_uint32_little_endian (fat32_boot_sector f) 44 = lay_root_cluster f"
    "byte_stream_copy_to_uint32_little_endian (fat32_boot_sector f) 36 = lay_table_size_32bit f"
    by (rule uint32.dec_at; simp add: fat32_boot_sector_def common len)+
  note fields = common_fields_read [OF assms(1), of
     "byte_stream_copy_from_uint32_little_endian (lay_table_size_32bit f) @
     lay_versions f @
     byte_stream_copy_from_uint32_little_endian (lay_root_cluster f) @
     lay_other_sectors f @ lay_drive f @ [lay_extended_signature f] @
     byte_stream_copy_from_uint32_little_endian (lay_serial_number f) @ lay_rest f @ [0x55, 0xaa]",
     folded fat32_boot_sector_def]
  show "read_fat_fields br (fat32_boot_sector f) =
      (br\<lparr> br_bytes_per_sector := lay_bytes_per_sector f,
          br_root_directory_cluster := lay_root_cluster f,
          br_volume_serial_number := (if lay_extended_signature f = 0x29 then lay_serial_number f
                                      else br_volume_serial_number br) \<rparr>,
       \<lparr> total_number_of_sectors = ucast (lay_sectors_32bit f),
         allocation_table_size = lay_table_size_32bit f,
         number_of_reserved_sectors = lay_reserved_sectors f,
         number_of_root_directory_entries = 0,
         number_of_allocation_tables = lay_allocation_tables f,
         sectors_per_cluster_block = lay_sectors_per_cluster f \<rparr>)"
    using assms(2-4) by (simp add: read_fat_fields_def Let_def fields sig dec)
qed

lemma set_fat_geometry_Inr:
  assumes "br_bytes_per_sector br \<in> {512, 1024, 2048, 4096}"
    and "sectors_per_cluster_block p \<in> {1, 2, 4, 8, 16, 32, 64, 128}"
  shows "\<exists>br'. set_fat_geometry br p = Inr br' \<and>
    br_volume_serial_number br' = br_volume_serial_number br"
  using assms unfolding set_fat_geometry_def Let_def
  by (cases "br_root_directory_cluster br = 0"; simp only: not_True_eq_False if_True if_False) simp_all

lemma read_data_fat:
  assumes "length data = 512" and "data ! 510 = 0x55" and "data ! 511 = 0xaa"
    and "\<not> is_exfat_oem_name data" and "read_fat_fields boot_record_zero data = (br, p)"
  shows "libfsfat_boot_record_read_data (Some boot_record_zero) (Some data) = set_fat_geometry br p"
  using assms by (simp add: libfsfat_boot_record_read_data_def boot_record_zero_def)

text \<open>The geometry of all formats but exFAT, where the sectors fit in the volume.\<close>

lemma set_fat_geometry_fits:
  assumes "br_bytes_per_sector br \<in> {512, 1024, 2048, 4096}"
    and "sectors_per_cluster_block p \<in> {1, 2, 4, 8, 16, 32, 64, 128}"
    and "tables = unat (number_of_allocation_tables p) * unat (allocation_table_size p)"
    and "tables < 2 ^ 32" and "reserved = unat (number_of_reserved_sectors p)"
    and "reserved + tables \<le> unat (total_number_of_sectors p)"
    and "unat (total_number_of_sectors p) < 2 ^ 32"
    and "bps = unat (br_bytes_per_sector br)"
    and "root_size = unat (number_of_root_directory_entries p) * 32"
    and "clusters = (unat (total_number_of_sectors p) - reserved - tables)
           div unat (sectors_per_cluster_block p)"
  shows "\<exists>br'. set_fat_geometry br p = Inr br' \<and>
    unat (br_bytes_per_sector br') = bps \<and>
    unat (br_cluster_block_size br') = unat (sectors_per_cluster_block p) * bps \<and>
    unat (br_allocation_table_offset br') = reserved * bps \<and>
    unat (br_allocation_table_size br') = unat (allocation_table_size p) * bps \<and>
    unat (br_first_cluster_offset br') = (reserved + tables) * bps
      + (if br_root_directory_cluster br = 0 then root_size else 0) \<and>
    (br_root_directory_cluster br = 0 \<longrightarrow>
       unat (br_root_directory_offset br') = (reserved + tables) * bps \<and>
       unat (br_root_directory_size br') = root_size) \<and>
    unat (br_total_number_of_clusters br') = clusters \<and>
    br_file_system_format br' = fat_format_of_clusters clusters \<and>
    br_root_directory_cluster br' = br_root_directory_cluster br \<and>
    br_volume_serial_number br' = br_volume_serial_number br"
proof -
  obtain br' where geo: "set_fat_geometry br p = Inr br'"
    and serial: "br_volume_serial_number br' = br_volume_serial_number br"
    using set_fat_geometry_Inr [OF assms(1,2)] by blast
  have "clusters < 2 ^ 32"
    using assms(7) unfolding assms(10) by (meson diff_le_self div_le_dividend order_le_less_trans)
  then show ?thesis
    using set_fat_geometry_exact(3-9) [OF geo] set_fat_geometry_clusters_exact [OF geo, of clusters]
      serial assms(4,6) unfolding assms(3,5,8,9,10)
    by (simp add: geo)
qed

section \<open>The properties of the reader\<close>

lemma boot_record_zero_serial: "br_volume_serial_number boot_record_zero = 0"
  by (simp add: boot_record_zero_def)

lemma div_add_le_ceiling: "0 < (k::nat) \<Longrightarrow> (a + b) div k \<le> a div k + (b + k - 1) div k"
proof -
  assume k: "0 < k"
  have "b \<le> (b + k - 1) div k * k"
    using div_mult_mod_eq [of "b + k - 1" k] mod_less_divisor [OF k, of "b + k - 1"] by linarith
  then have "(a + b) div k \<le> (a + (b + k - 1) div k * k) div k" by (intro div_le_mono) simp
  then show ?thesis using k by simp
qed

text \<open>The geometry of the layout of a FAT-12 or FAT-16 volume, with the number of clusters that the code counts.\<close>

lemma fat16_geometry:
  assumes "layout_ok 467 f"
    and "\<not> (lay_root_entries f = 0 \<and> lay_sectors_16bit f = 0 \<and> lay_table_size_16bit f = 0)"
    and "sectors = (if lay_sectors_32bit f \<noteq> 0 then unat (lay_sectors_32bit f)
                    else unat (lay_sectors_16bit f))"
    and "tables = unat (lay_allocation_tables f) * unat (lay_table_size_16bit f)"
    and "unat (lay_reserved_sectors f) + tables \<le> sectors"
    and "bps = unat (lay_bytes_per_sector f)"
    and "root_size = unat (lay_root_entries f) * 32"
    and "clusters = (sectors - unat (lay_reserved_sectors f) - tables) div unat (lay_sectors_per_cluster f)"
  shows "\<exists>br. libfsfat_boot_record_read_data (Some boot_record_zero) (Some (fat16_boot_sector f)) = Inr br \<and>
    unat (br_bytes_per_sector br) = bps \<and>
    unat (br_cluster_block_size br) = unat (lay_sectors_per_cluster f) * bps \<and>
    unat (br_allocation_table_offset br) = unat (lay_reserved_sectors f) * bps \<and>
    unat (br_allocation_table_size br) = unat (lay_table_size_16bit f) * bps \<and>
    unat (br_root_directory_offset br) = (unat (lay_reserved_sectors f) + tables) * bps \<and>
    unat (br_root_directory_size br) = root_size \<and>
    unat (br_first_cluster_offset br) = (unat (lay_reserved_sectors f) + tables) * bps + root_size \<and>
    unat (br_total_number_of_clusters br) = clusters \<and>
    br_file_system_format br = fat_format_of_clusters clusters \<and>
    br_volume_serial_number br = (if lay_extended_signature f = 0x29 then lay_serial_number f else 0)"
proof -
  note fields = fat16_sector_read(1-4) [OF assms(1,2)]
    fat16_sector_read(5) [OF assms(1,2), of boot_record_zero, unfolded boot_record_zero_serial]
  have ok: "lay_bytes_per_sector f \<in> {512, 1024, 2048, 4096}"
    "lay_sectors_per_cluster f \<in> {1, 2, 4, 8, 16, 32, 64, 128}"
    using assms(1) unfolding layout_ok_def by blast+
  have "unat (lay_allocation_tables f) * unat (lay_table_size_16bit f) \<le> 2 ^ 8 * 2 ^ 16"
    using unat_bounds(1) [of "lay_allocation_tables f"] unat_bounds(2) [of "lay_table_size_16bit f"]
    by (intro mult_le_mono) simp_all
  then have tables: "tables < 2 ^ 32" by (simp add: assms(4))
  have sectors: "sectors < 2 ^ 32"
    using unat_bounds(3) [of "lay_sectors_32bit f"] unat_bounds(2) [of "lay_sectors_16bit f"]
    by (simp add: assms(3))
  let ?br = "boot_record_zero\<lparr> br_bytes_per_sector := lay_bytes_per_sector f,
          br_volume_serial_number := (if lay_extended_signature f = 0x29 then lay_serial_number f
                                      else 0) \<rparr>"
  let ?p = "\<lparr> total_number_of_sectors =
           (if lay_sectors_32bit f \<noteq> 0 then ucast (lay_sectors_32bit f)
            else ucast (lay_sectors_16bit f)),
         allocation_table_size = ucast (lay_table_size_16bit f),
         number_of_reserved_sectors = lay_reserved_sectors f,
         number_of_root_directory_entries = lay_root_entries f,
         number_of_allocation_tables = lay_allocation_tables f,
         sectors_per_cluster_block = lay_sectors_per_cluster f \<rparr>"
  have total: "unat (total_number_of_sectors ?p) = sectors"
    by (simp add: assms(3) unat_ucast_up)
  have "br_root_directory_cluster ?br = 0" by (simp add: boot_record_zero_def)
  then show ?thesis
    unfolding read_data_fat [OF fields]
    using set_fat_geometry_fits [of ?br ?p tables "unat (lay_reserved_sectors f)" bps root_size clusters,
        unfolded total] ok tables sectors assms(4-8)
    by (simp add: unat_ucast_up del: insert_iff split del: if_split)
      (elim exE conjE, simp del: insert_iff split del: if_split)
qed

text \<open>
  C20. Reading the boot sector of a FAT-12 or FAT-16 volume gives the offsets and sizes of the table, the
  root directory and the data area of the layout, in bytes and without wrap-around. The number of clusters
  is not the one of the documentation of the format, which counts those of the data area: the code counts
  the sectors of the root directory as part of the data area, so the number is too large by up to the
  clusters that the root directory would take. It selects the format, which is the documented one exactly if
  the documented number and the one of the code are on the same side of 4085 and of 65525; otherwise a
  FAT-12 volume is taken for FAT-16, or a FAT-16 volume for FAT-32.
\<close>

theorem boot_record_read_fat16:
  assumes "layout_ok 467 f"
    and "\<not> (lay_root_entries f = 0 \<and> lay_sectors_16bit f = 0 \<and> lay_table_size_16bit f = 0)"
    and "sectors = (if lay_sectors_32bit f \<noteq> 0 then unat (lay_sectors_32bit f)
                    else unat (lay_sectors_16bit f))"
    and "tables = unat (lay_allocation_tables f) * unat (lay_table_size_16bit f)"
    and "bps = unat (lay_bytes_per_sector f)" and "spc = unat (lay_sectors_per_cluster f)"
    and "root_size = unat (lay_root_entries f) * 32" and "root_sectors = (root_size + bps - 1) div bps"
    and "unat (lay_reserved_sectors f) + tables + root_sectors \<le> sectors"
    and "documented = (sectors - (unat (lay_reserved_sectors f) + tables + root_sectors)) div spc"
  shows "\<exists>br n. libfsfat_boot_record_read_data (Some boot_record_zero) (Some (fat16_boot_sector f)) = Inr br \<and>
    unat (br_bytes_per_sector br) = bps \<and>
    unat (br_cluster_block_size br) = spc * bps \<and>
    unat (br_allocation_table_offset br) = unat (lay_reserved_sectors f) * bps \<and>
    unat (br_allocation_table_size br) = unat (lay_table_size_16bit f) * bps \<and>
    unat (br_root_directory_offset br) = (unat (lay_reserved_sectors f) + tables) * bps \<and>
    unat (br_root_directory_size br) = root_size \<and>
    unat (br_first_cluster_offset br) = (unat (lay_reserved_sectors f) + tables) * bps + root_size \<and>
    br_volume_serial_number br = (if lay_extended_signature f = 0x29 then lay_serial_number f else 0) \<and>
    unat (br_total_number_of_clusters br) = n \<and>
    n = (sectors - (unat (lay_reserved_sectors f) + tables)) div spc \<and>
    documented \<le> n \<and> n \<le> documented + (root_sectors + spc - 1) div spc \<and>
    br_file_system_format br = fat_format_of_clusters n \<and>
    (br_file_system_format br = fat_format_of_clusters documented \<longleftrightarrow>
       (documented < 4085 \<longleftrightarrow> n < 4085) \<and> (documented < 65525 \<longleftrightarrow> n < 65525))"
proof -
  let ?front = "unat (lay_reserved_sectors f) + tables"
  let ?n = "(sectors - ?front) div spc"
  have "lay_sectors_per_cluster f \<in> {1, 2, 4, 8, 16, 32, 64, 128}" using assms(1) unfolding layout_ok_def by blast
  then have spc: "0 < spc" by (auto simp: assms(6))
  have le: "?front \<le> sectors" using assms(9) by simp
  have data: "sectors - ?front = (sectors - (?front + root_sectors)) + root_sectors" using assms(9) by simp
  have more: "documented \<le> ?n" unfolding assms(10) by (rule div_le_mono) simp
  have less: "?n \<le> documented + (root_sectors + spc - 1) div spc"
    unfolding assms(10) by (subst data) (rule div_add_le_ceiling [OF spc])
  have "fat_format_of_clusters ?n = fat_format_of_clusters documented \<longleftrightarrow>
      (documented < 4085 \<longleftrightarrow> ?n < 4085) \<and> (documented < 65525 \<longleftrightarrow> ?n < 65525)"
    using more by (auto simp: fat_format_of_clusters_def)
  note format = this
  have n: "?n = (sectors - unat (lay_reserved_sectors f) - tables) div unat (lay_sectors_per_cluster f)"
    by (simp add: assms(6))
  obtain br where br: "libfsfat_boot_record_read_data (Some boot_record_zero) (Some (fat16_boot_sector f)) = Inr br"
    "unat (br_bytes_per_sector br) = bps" "unat (br_cluster_block_size br) = spc * bps"
    "unat (br_allocation_table_offset br) = unat (lay_reserved_sectors f) * bps"
    "unat (br_allocation_table_size br) = unat (lay_table_size_16bit f) * bps"
    "unat (br_root_directory_offset br) = ?front * bps" "unat (br_root_directory_size br) = root_size"
    "unat (br_first_cluster_offset br) = ?front * bps + root_size"
    "unat (br_total_number_of_clusters br) = ?n" "br_file_system_format br = fat_format_of_clusters ?n"
    "br_volume_serial_number br = (if lay_extended_signature f = 0x29 then lay_serial_number f else 0)"
    using fat16_geometry [OF assms(1-4) le assms(5,7) n] unfolding assms(6)
    by (elim exE conjE) blast
  show ?thesis
    by (intro exI conjI, rule br(1), rule br(2), rule br(3), rule br(4), rule br(5), rule br(6), rule br(7),
        rule br(8), rule br(11), rule br(9), rule refl, rule more, rule less, rule br(10),
        subst br(10), rule format)
qed

text \<open>
  C40. Reading the boot sector of a volume in the FAT-32 layout (no root directory entries,
  no 16-bit sizes) gives the geometry of the layout in natural numbers and the cluster of
  the root directory. The number of clusters is that of the data area behind the reserved sectors and the
  tables, as such a volume has no root directory of its own in front of it, and selects the format.
\<close>

theorem boot_record_read_fat32:
  assumes "layout_ok 439 f"
    and "lay_root_entries f = 0" and "lay_sectors_16bit f = 0" and "lay_table_size_16bit f = 0"
    and "lay_root_cluster f \<noteq> 0"
    and "tables = unat (lay_allocation_tables f) * unat (lay_table_size_32bit f)"
    and "unat (lay_reserved_sectors f) + tables \<le> unat (lay_sectors_32bit f)"
    and "bps = unat (lay_bytes_per_sector f)"
    and "clusters = (unat (lay_sectors_32bit f) - unat (lay_reserved_sectors f) - tables)
           div unat (lay_sectors_per_cluster f)"
  shows "\<exists>br. libfsfat_boot_record_read_data (Some boot_record_zero) (Some (fat32_boot_sector f)) = Inr br \<and>
    unat (br_bytes_per_sector br) = bps \<and>
    unat (br_cluster_block_size br) = unat (lay_sectors_per_cluster f) * bps \<and>
    unat (br_allocation_table_offset br) = unat (lay_reserved_sectors f) * bps \<and>
    unat (br_allocation_table_size br) = unat (lay_table_size_32bit f) * bps \<and>
    unat (br_first_cluster_offset br) = (unat (lay_reserved_sectors f) + tables) * bps \<and>
    br_root_directory_cluster br = lay_root_cluster f \<and>
    unat (br_total_number_of_clusters br) = clusters \<and>
    br_file_system_format br = fat_format_of_clusters clusters \<and>
    br_volume_serial_number br = (if lay_extended_signature f = 0x29 then lay_serial_number f else 0)"
proof -
  note fields = fat32_sector_read(1-4) [OF assms(1-4)]
    fat32_sector_read(5) [OF assms(1-4), of boot_record_zero, unfolded boot_record_zero_serial]
  have ok: "lay_bytes_per_sector f \<in> {512, 1024, 2048, 4096}"
    "lay_sectors_per_cluster f \<in> {1, 2, 4, 8, 16, 32, 64, 128}"
    using assms(1) unfolding layout_ok_def by blast+
  have sectors: "unat (lay_sectors_32bit f) < 2 ^ 32" by (rule unat_bounds(3))
  then have tables: "tables < 2 ^ 32" using assms(7) by linarith
  let ?br = "boot_record_zero\<lparr> br_bytes_per_sector := lay_bytes_per_sector f,
          br_root_directory_cluster := lay_root_cluster f,
          br_volume_serial_number := (if lay_extended_signature f = 0x29 then lay_serial_number f
                                      else 0) \<rparr>"
  let ?p = "\<lparr> total_number_of_sectors = ucast (lay_sectors_32bit f),
         allocation_table_size = lay_table_size_32bit f,
         number_of_reserved_sectors = lay_reserved_sectors f,
         number_of_root_directory_entries = 0,
         number_of_allocation_tables = lay_allocation_tables f,
         sectors_per_cluster_block = lay_sectors_per_cluster f \<rparr>"
  have total: "unat (total_number_of_sectors ?p) = unat (lay_sectors_32bit f)"
    by (simp add: unat_ucast_up)
  show ?thesis
    unfolding read_data_fat [OF fields]
    using set_fat_geometry_fits [of ?br ?p tables "unat (lay_reserved_sectors f)" bps 0 clusters,
        unfolded total] ok tables sectors assms(5-9)
    by (simp add: unat_ucast_up del: insert_iff split del: if_split)
      (elim exE conjE, simp del: insert_iff split del: if_split)
qed

text \<open>A volume of the FAT-16 layout, for the witnesses: 512-byte sectors, two tables.\<close>

definition example_layout :: "u16 \<Rightarrow> u16 \<Rightarrow> u8 \<Rightarrow> fat_layout" where
  "example_layout sectors table_size clusters =
     \<lparr> lay_entry_point = [0xeb, 0x3c, 0x90],
       lay_oem_name = [0x6d, 0x6b, 0x66, 0x73, 0x2e, 0x66, 0x61, 0x74],
       lay_bytes_per_sector = 512, lay_sectors_per_cluster = clusters, lay_reserved_sectors = 1,
       lay_allocation_tables = 2, lay_root_entries = 512, lay_sectors_16bit = sectors,
       lay_media = 0xf8, lay_table_size_16bit = table_size,
       lay_disk_geometry = replicate 8 0, lay_sectors_32bit = 0,
       lay_table_size_32bit = 0, lay_versions = replicate 4 0, lay_root_cluster = 0,
       lay_other_sectors = replicate 16 0, lay_drive = [0x80, 0], lay_extended_signature = 0x29,
       lay_serial_number = 0x12345678, lay_rest = replicate 467 0 \<rparr>"

lemma example_layout_ok:
  "s \<in> {1, 2, 4, 8, 16, 32, 64, 128} \<Longrightarrow> layout_ok 467 (example_layout n t s)"
  by (auto simp: layout_ok_def example_layout_def)

text \<open>A volume of 4084 clusters, which is FAT-12 by the documentation, is read as FAT-16.\<close>

theorem boot_record_read_fat16_witness:
  "\<exists>br. libfsfat_boot_record_read_data (Some boot_record_zero)
          (Some (fat16_boot_sector (example_layout 4141 12 1))) = Inr br \<and>
    unat (br_root_directory_offset br) = 25 * 512 \<and>
    unat (br_first_cluster_offset br) = 57 * 512 \<and>
    unat (br_total_number_of_clusters br) = 4116 \<and>
    br_file_system_format br = FORMAT_FAT16 \<and>
    br_file_system_format br \<noteq> fat_format_of_clusters 4084 \<and> br_volume_serial_number br = 0x12345678"
proof -
  let ?f = "example_layout 4141 12 1"
  have ok: "layout_ok 467 ?f" by (simp add: example_layout_ok)
  have f: "\<not> (lay_root_entries ?f = 0 \<and> lay_sectors_16bit ?f = 0 \<and> lay_table_size_16bit ?f = 0)"
    "4141 = (if lay_sectors_32bit ?f \<noteq> 0 then unat (lay_sectors_32bit ?f) else unat (lay_sectors_16bit ?f))"
    "24 = unat (lay_allocation_tables ?f) * unat (lay_table_size_16bit ?f)"
    "512 = unat (lay_bytes_per_sector ?f)" "1 = unat (lay_sectors_per_cluster ?f)"
    "16384 = unat (lay_root_entries ?f) * 32" "32 = (16384 + 512 - 1) div (512 :: nat)"
    "unat (lay_reserved_sectors ?f) + 24 + 32 \<le> 4141"
    "4084 = (4141 - (unat (lay_reserved_sectors ?f) + 24 + 32)) div 1"
    by (simp_all add: example_layout_def)
  have fields: "unat (lay_reserved_sectors ?f) = 1" "lay_extended_signature ?f = 0x29"
    "lay_serial_number ?f = 0x12345678"
    by (simp_all add: example_layout_def)
  have formats: "fat_format_of_clusters 4116 = FORMAT_FAT16" "fat_format_of_clusters 4084 = FORMAT_FAT12"
    by (simp_all add: fat_format_of_clusters_def)
  obtain br n where "libfsfat_boot_record_read_data (Some boot_record_zero) (Some (fat16_boot_sector ?f)) = Inr br"
    "unat (br_root_directory_offset br) = (1 + 24) * 512" "unat (br_first_cluster_offset br) = (1 + 24) * 512 + 16384"
    "br_volume_serial_number br = (if 0x29 = (0x29 :: u8) then 0x12345678 else 0)"
    "unat (br_total_number_of_clusters br) = n" "n = (4141 - (1 + 24)) div 1"
    "br_file_system_format br = fat_format_of_clusters n"
    using boot_record_read_fat16 [OF ok f] unfolding fields by (elim exE conjE) blast
  then show ?thesis by (simp add: formats)
qed

definition example_layout_fat32 :: fat_layout where
  "example_layout_fat32 =
     (example_layout 0 0 8)\<lparr> lay_reserved_sectors := 32, lay_root_entries := 0,
        lay_sectors_32bit := 1000000, lay_table_size_32bit := 975, lay_root_cluster := 2,
        lay_rest := replicate 439 0 \<rparr>"

theorem boot_record_read_fat32_witness:
  "\<exists>br. libfsfat_boot_record_read_data (Some boot_record_zero)
          (Some (fat32_boot_sector example_layout_fat32)) = Inr br \<and>
    unat (br_first_cluster_offset br) = 1982 * 512 \<and>
    unat (br_total_number_of_clusters br) = 124752 \<and>
    br_file_system_format br = FORMAT_FAT32 \<and> br_root_directory_cluster br = 2"
proof -
  have "layout_ok 439 example_layout_fat32"
    by (simp add: layout_ok_def example_layout_fat32_def example_layout_def)
  from boot_record_read_fat32 [OF this, of 1950 512 124752] show ?thesis
    by (auto simp: example_layout_fat32_def example_layout_def fat_format_of_clusters_def)
qed

text \<open>
  A volume with more sectors in front of the data area than in total is not refused: the
  64-bit number of clusters wraps around, so the volume is taken for FAT-32.
\<close>

theorem boot_record_cluster_underflow:
  assumes "layout_ok 467 f"
    and "\<not> (lay_root_entries f = 0 \<and> lay_sectors_16bit f = 0 \<and> lay_table_size_16bit f = 0)"
    and "lay_sectors_32bit f = 0"
    and "unat (lay_sectors_16bit f) < unat (lay_reserved_sectors f)
           + unat (lay_allocation_tables f) * unat (lay_table_size_16bit f)"
  shows "\<exists>br. libfsfat_boot_record_read_data (Some boot_record_zero) (Some (fat16_boot_sector f)) = Inr br \<and>
    br_file_system_format br = FORMAT_FAT32"
proof -
  note fields = fat16_sector_read(1-4) [OF assms(1,2)]
    fat16_sector_read(5) [OF assms(1,2), of boot_record_zero, unfolded boot_record_zero_serial]
  have ok: "lay_bytes_per_sector f \<in> {512, 1024, 2048, 4096}"
    and spc: "lay_sectors_per_cluster f \<in> {1, 2, 4, 8, 16, 32, 64, 128}"
    using assms(1) unfolding layout_ok_def by blast+
  let ?br = "boot_record_zero\<lparr> br_bytes_per_sector := lay_bytes_per_sector f,
          br_volume_serial_number := (if lay_extended_signature f = 0x29 then lay_serial_number f
                                      else 0) \<rparr>"
  let ?p = "\<lparr> total_number_of_sectors =
           (if lay_sectors_32bit f \<noteq> 0 then ucast (lay_sectors_32bit f)
            else ucast (lay_sectors_16bit f)),
         allocation_table_size = ucast (lay_table_size_16bit f),
         number_of_reserved_sectors = lay_reserved_sectors f,
         number_of_root_directory_entries = lay_root_entries f,
         number_of_allocation_tables = lay_allocation_tables f,
         sectors_per_cluster_block = lay_sectors_per_cluster f \<rparr>"
  obtain br' where geo: "set_fat_geometry ?br ?p = Inr br'"
    using set_fat_geometry_Inr [of ?br ?p] ok spc by (auto simp del: insert_iff)
  let ?s = "ucast (lay_sectors_16bit f) :: u64" and ?r = "ucast (lay_reserved_sectors f) :: u64"
  let ?t = "ucast (ucast (lay_allocation_tables f) * ucast (lay_table_size_16bit f) :: u32) :: u64"
  have "unat (lay_allocation_tables f) * unat (lay_table_size_16bit f) \<le> 2 ^ 8 * 2 ^ 16"
    using unat_bounds(1) [of "lay_allocation_tables f"] unat_bounds(2) [of "lay_table_size_16bit f"]
    by (intro mult_le_mono) simp_all
  then have t: "unat ?t = unat (lay_allocation_tables f) * unat (lay_table_size_16bit f)"
    "unat ?t \<le> 2 ^ 24"
    by (subst unat_ucast_up; simp; subst unat_mult_exact; simp add: unat_ucast_up)+
  have s: "unat ?s < 2 ^ 16" "unat ?r < 2 ^ 16"
    using unat_bounds(2) [of "lay_sectors_16bit f"] unat_bounds(2) [of "lay_reserved_sectors f"]
    by (simp_all add: unat_ucast_up)
  have wrap: "2 ^ 63 \<le> unat (?s - ?r - ?t)" "unat (?s - ?r - ?t) div 128 \<ge> 65525"
  proof -
    have rt: "unat (?r + ?t) = unat ?r + unat ?t"
      using s t(2) by (subst unat_add_exact) simp_all
    moreover have "unat ?s < unat ?r + unat ?t"
      using assms(4) unfolding t(1) by (simp add: unat_ucast_up)
    ultimately have "unat (?s - ?r - ?t) = unat ?s + 2 ^ 64 - (unat ?r + unat ?t)"
      unfolding diff_diff_eq by (subst unat_minus_wrap) simp_all
    then show "2 ^ 63 \<le> unat (?s - ?r - ?t)" using s t(2) by simp
    then show "unat (?s - ?r - ?t) div 128 \<ge> 65525" by simp
  qed
  have "unat (lay_sectors_per_cluster f) \<le> 128" "0 < unat (lay_sectors_per_cluster f)"
    using spc by auto
  then have "65525 \<le> unat (?s - ?r - ?t) div unat (lay_sectors_per_cluster f)"
    using wrap(2) by (meson div_le_mono2 order_trans)
  then have "fat_format_of_clusters (unat ((?s - ?r - ?t) div ucast (lay_sectors_per_cluster f))) = FORMAT_FAT32"
    by (simp add: fat_format_of_clusters_def unat_div unat_ucast_up)
  then show ?thesis
    using set_fat_geometry_clusters(2) [OF geo refl] geo assms(3)
    unfolding read_data_fat [OF fields] by simp
qed

theorem boot_record_cluster_underflow_witness:
  "\<exists>br. libfsfat_boot_record_read_data (Some boot_record_zero)
          (Some (fat16_boot_sector (example_layout 20 80 1))) = Inr br \<and>
    br_file_system_format br = FORMAT_FAT32"
  using boot_record_cluster_underflow [of "example_layout 20 80 1"]
  by (simp add: example_layout_ok) (simp add: example_layout_def)

section \<open>exFAT boot sectors\<close>

record exfat_layout =
  xl_entry_point :: "u8 list"
  xl_partition :: "u8 list"
  xl_sectors :: u64
  xl_table_offset :: u32
  xl_table_size :: u32
  xl_first_cluster :: u32
  xl_clusters :: u32
  xl_root_cluster :: u32
  xl_serial_number :: u32
  xl_flags :: "u8 list"
  xl_bytes_per_sector :: u8
  xl_sectors_per_cluster :: u8
  xl_tables :: u8
  xl_rest :: "u8 list"

definition exfat_boot_sector :: "exfat_layout \<Rightarrow> u8 list" where
  "exfat_boot_sector f =
     xl_entry_point f @ [0x45, 0x58, 0x46, 0x41, 0x54, 0x20, 0x20, 0x20] @ xl_partition f @
     byte_stream_copy_from_uint64_little_endian (xl_sectors f) @
     byte_stream_copy_from_uint32_little_endian (xl_table_offset f) @
     byte_stream_copy_from_uint32_little_endian (xl_table_size f) @
     byte_stream_copy_from_uint32_little_endian (xl_first_cluster f) @
     byte_stream_copy_from_uint32_little_endian (xl_clusters f) @
     byte_stream_copy_from_uint32_little_endian (xl_root_cluster f) @
     byte_stream_copy_from_uint32_little_endian (xl_serial_number f) @
     xl_flags f @ [xl_bytes_per_sector f, xl_sectors_per_cluster f, xl_tables f] @
     xl_rest f @ [0x55, 0xaa]"

definition exfat_layout_ok :: "exfat_layout \<Rightarrow> bool" where
  "exfat_layout_ok f \<longleftrightarrow>
     length (xl_entry_point f) = 3 \<and> length (xl_partition f) = 61 \<and>
     length (xl_flags f) = 4 \<and> length (xl_rest f) = 399"

lemma enc32_ucast:
  "byte_stream_copy_from_uint32_little_endian (ucast (v :: u32) :: u64) =
   byte_stream_copy_from_uint32_little_endian v"
  by (auto intro!: bit_word_eqI simp: byte_stream_copy_from_uint32_little_endian_def bit_simps)

lemma dec32_at_64:
  assumes "take 4 (drop i xs) = byte_stream_copy_from_uint32_little_endian (v :: u32)"
  shows "byte_stream_copy_to_uint32_little_endian xs i = (ucast v :: u64)"
  using assms unfolding enc32_ucast [symmetric]
  by (rule uint32.dec_at) (use bit_imp_le_length [of v] in \<open>auto intro!: bit_word_eqI simp: bit_simps\<close>)

lemma exfat_sector_read:
  assumes "exfat_layout_ok f"
  shows "length (exfat_boot_sector f) = 512"
    and "exfat_boot_sector f ! 510 = 0x55" and "exfat_boot_sector f ! 511 = 0xaa"
    and "is_exfat_oem_name (exfat_boot_sector f)"
    and "read_exfat_fields br (exfat_boot_sector f) =
      (br\<lparr> br_allocation_table_offset := ucast (xl_table_offset f),
          br_allocation_table_size := ucast (xl_table_size f),
          br_first_cluster_offset := ucast (xl_first_cluster f),
          br_total_number_of_clusters := xl_clusters f,
          br_root_directory_cluster := xl_root_cluster f,
          br_volume_serial_number := xl_serial_number f,
          br_bytes_per_sector := ucast (xl_bytes_per_sector f) \<rparr>,
       \<lparr> total_number_of_sectors = xl_sectors f,
         allocation_table_size = 0, number_of_reserved_sectors = 0,
         number_of_root_directory_entries = 0,
         number_of_allocation_tables = xl_tables f,
         sectors_per_cluster_block = xl_sectors_per_cluster f \<rparr>)"
proof -
  note len = assms [unfolded exfat_layout_ok_def]
  let ?d = "exfat_boot_sector f"
  show "length ?d = 512" "?d ! 510 = 0x55" "?d ! 511 = 0xaa" "is_exfat_oem_name ?d"
    using len by (simp_all add: exfat_boot_sector_def nth_append is_exfat_oem_name_def)
  have bytes: "?d ! 108 = xl_bytes_per_sector f" "?d ! 109 = xl_sectors_per_cluster f"
    "?d ! 110 = xl_tables f"
    using len by (simp_all add: exfat_boot_sector_def nth_append)
  have sectors: "byte_stream_copy_to_uint64_little_endian ?d 72 = xl_sectors f"
    by (rule uint64.dec_at) (use len in \<open>simp_all add: exfat_boot_sector_def\<close>)
  have dec64: "byte_stream_copy_to_uint32_little_endian ?d 80 = (ucast (xl_table_offset f) :: u64)"
    "byte_stream_copy_to_uint32_little_endian ?d 84 = (ucast (xl_table_size f) :: u64)"
    "byte_stream_copy_to_uint32_little_endian ?d 88 = (ucast (xl_first_cluster f) :: u64)"
    by (rule dec32_at_64; use len in \<open>simp add: exfat_boot_sector_def\<close>)+
  have dec: "byte_stream_copy_to_uint32_little_endian ?d 92 = xl_clusters f"
    "byte_stream_copy_to_uint32_little_endian ?d 96 = xl_root_cluster f"
    "byte_stream_copy_to_uint32_little_endian ?d 100 = xl_serial_number f"
    by (rule uint32.dec_at; use len in \<open>simp add: exfat_boot_sector_def\<close>)+
  show "read_exfat_fields br ?d =
      (br\<lparr> br_allocation_table_offset := ucast (xl_table_offset f),
          br_allocation_table_size := ucast (xl_table_size f),
          br_first_cluster_offset := ucast (xl_first_cluster f),
          br_total_number_of_clusters := xl_clusters f,
          br_root_directory_cluster := xl_root_cluster f,
          br_volume_serial_number := xl_serial_number f,
          br_bytes_per_sector := ucast (xl_bytes_per_sector f) \<rparr>,
       \<lparr> total_number_of_sectors = xl_sectors f,
         allocation_table_size = 0, number_of_reserved_sectors = 0,
         number_of_root_directory_entries = 0,
         number_of_allocation_tables = xl_tables f,
         sectors_per_cluster_block = xl_sectors_per_cluster f \<rparr>)"
    unfolding read_exfat_fields_def bytes sectors dec dec64 by simp
qed

lemma power_of_two_word:
  assumes "k < LENGTH('w)"
  shows "unat (push_bit k 1 :: 'w::len word) = 2 ^ k"
proof -
  have "unat (push_bit k 1 :: 'w word) = take_bit LENGTH('w) (push_bit k 1)"
    by (metis unsigned_1 unsigned_push_bit_eq)
  then show ?thesis using assms by (simp add: push_bit_eq_mult take_bit_nat_eq_self)
qed

lemma set_exfat_geometry_exact:
  assumes "set_exfat_geometry br p = Inr br'"
    and "unat (br_allocation_table_offset br) < 2 ^ 32"
    and "unat (br_allocation_table_size br) < 2 ^ 32"
    and "unat (br_first_cluster_offset br) < 2 ^ 32"
  defines "k \<equiv> unat (br_bytes_per_sector br)" and "s \<equiv> unat (sectors_per_cluster_block p)"
  shows "9 \<le> k" and "k \<le> 12" and "s \<le> 25"
    and "unat (br_bytes_per_sector br') = 2 ^ k"
    and "unat (br_cluster_block_size br') = 2 ^ (s + k)"
    and "unat (br_allocation_table_offset br') = unat (br_allocation_table_offset br) * 2 ^ k"
    and "unat (br_allocation_table_size br') = unat (br_allocation_table_size br) * 2 ^ k"
    and "unat (br_first_cluster_offset br') = unat (br_first_cluster_offset br) * 2 ^ k"
    and "br_file_system_format br' = br_file_system_format br"
    and "br_total_number_of_clusters br' = br_total_number_of_clusters br"
    and "br_root_directory_cluster br' = br_root_directory_cluster br"
    and "br_root_directory_offset br' = br_root_directory_offset br"
    and "br_volume_serial_number br' = br_volume_serial_number br"
proof -
  have k: "\<not> (br_bytes_per_sector br < 9 \<or> br_bytes_per_sector br > 12)"
    and s: "\<not> sectors_per_cluster_block p > 25"
    using assms(1) unfolding set_exfat_geometry_def Let_def by (meson Inl_Inr_False)+
  then show ks: "9 \<le> k" "k \<le> 12" "s \<le> 25"
    unfolding k_def s_def by (simp_all add: word_less_nat_alt not_less)
  let ?b = "push_bit k 1 :: u16"
  have b16: "unat ?b = 2 ^ k" by (rule power_of_two_word) (use ks in simp)
  then have b: "unat (ucast ?b :: u64) = 2 ^ k" by (simp add: unat_ucast_up)
  have c: "unat (push_bit s 1 :: u64) = 2 ^ s" by (rule power_of_two_word) (use ks in simp)
  have le: "(2::nat) ^ k \<le> 2 ^ 12" "(2::nat) ^ s \<le> 2 ^ 25"
    using ks by (simp_all only: power_increasing_iff one_less_numeral_iff semiring_norm)
  have "unat (push_bit s 1 * ucast ?b :: u64) = 2 ^ s * 2 ^ k"
    by (subst unat_mult_exact; unfold b c; use mult_le_mono [OF le(2,1)] in simp)
  then have cbs: "unat (push_bit s 1 * ucast ?b :: u64) = 2 ^ (s + k)" by (simp only: power_add)
  have off: "unat (x * ucast ?b) = unat x * 2 ^ k" if "unat x < 2 ^ 32" for x :: u64
    by (subst unat_mult_exact; unfold b; use mult_le_mono [OF less_imp_le [OF that] le(1)] in simp)
  have br': "br' = br\<lparr> br_bytes_per_sector := ?b, br_cluster_block_size := push_bit s 1 * ucast ?b,
      br_allocation_table_offset := br_allocation_table_offset br * ucast ?b,
      br_allocation_table_size := br_allocation_table_size br * ucast ?b,
      br_first_cluster_offset := br_first_cluster_offset br * ucast ?b \<rparr>"
    using assms(1) k s unfolding set_exfat_geometry_def Let_def k_def s_def
    by (simp del: push_bit_of_1)
  show "unat (br_bytes_per_sector br') = 2 ^ k"
    and "unat (br_cluster_block_size br') = 2 ^ (s + k)"
    and "unat (br_allocation_table_offset br') = unat (br_allocation_table_offset br) * 2 ^ k"
    and "unat (br_allocation_table_size br') = unat (br_allocation_table_size br) * 2 ^ k"
    and "unat (br_first_cluster_offset br') = unat (br_first_cluster_offset br) * 2 ^ k"
    and "br_file_system_format br' = br_file_system_format br"
    and "br_total_number_of_clusters br' = br_total_number_of_clusters br"
    and "br_root_directory_cluster br' = br_root_directory_cluster br"
    and "br_root_directory_offset br' = br_root_directory_offset br"
    and "br_volume_serial_number br' = br_volume_serial_number br"
    unfolding br' using b16 cbs off assms(2-4) by (simp_all del: push_bit_of_1)
qed

text \<open>
  Reading an exFAT boot sector whose shifts are in range gives the geometry of the
  layout: sizes are powers of two, the offsets are the stored sector numbers times the
  sector size, without wrap-around.
\<close>

theorem boot_record_read_exfat:
  assumes "exfat_layout_ok f"
    and "k = unat (xl_bytes_per_sector f)" and "9 \<le> k" and "k \<le> 12"
    and "s = unat (xl_sectors_per_cluster f)" and "s \<le> 25"
  shows "\<exists>br. libfsfat_boot_record_read_data (Some boot_record_zero) (Some (exfat_boot_sector f)) = Inr br \<and>
    br_file_system_format br = FORMAT_EXFAT \<and>
    unat (br_bytes_per_sector br) = 2 ^ k \<and>
    unat (br_cluster_block_size br) = 2 ^ (s + k) \<and>
    unat (br_allocation_table_offset br) = unat (xl_table_offset f) * 2 ^ k \<and>
    unat (br_allocation_table_size br) = unat (xl_table_size f) * 2 ^ k \<and>
    unat (br_first_cluster_offset br) = unat (xl_first_cluster f) * 2 ^ k \<and>
    br_total_number_of_clusters br = xl_clusters f \<and>
    br_root_directory_cluster br = xl_root_cluster f \<and>
    br_root_directory_offset br = 0 \<and>
    br_volume_serial_number br = xl_serial_number f"
proof -
  let ?zero = "boot_record_zero\<lparr> br_file_system_format := FORMAT_EXFAT \<rparr>"
  note fields = exfat_sector_read(1-4) [OF assms(1)] exfat_sector_read(5) [OF assms(1), of ?zero]
  obtain br p where bp: "read_exfat_fields ?zero (exfat_boot_sector f) = (br, p)" by fastforce
  have br: "br = fst (read_exfat_fields ?zero (exfat_boot_sector f))"
    and p: "p = snd (read_exfat_fields ?zero (exfat_boot_sector f))"
    using bp by simp_all
  have "libfsfat_boot_record_read_data (Some boot_record_zero) (Some (exfat_boot_sector f)) =
      set_exfat_geometry br p"
    using fields(1-4) bp by (simp add: libfsfat_boot_record_read_data_def)
  moreover have "\<exists>br'. set_exfat_geometry br p = Inr br'"
    using assms(2-6) unfolding br p fields(5)
    by (simp add: set_exfat_geometry_def Let_def word_less_nat_alt unat_ucast_up not_less)
  then obtain br' where geo: "set_exfat_geometry br p = Inr br'" ..
  moreover have small: "unat (br_allocation_table_offset br) < 2 ^ 32"
    "unat (br_allocation_table_size br) < 2 ^ 32" "unat (br_first_cluster_offset br) < 2 ^ 32"
    using unat_bounds(3) [of "xl_table_offset f"] unat_bounds(3) [of "xl_table_size f"]
      unat_bounds(3) [of "xl_first_cluster f"]
    unfolding br fields(5) by (simp_all add: unat_ucast_up)
  ultimately show ?thesis
    using set_exfat_geometry_exact [OF geo small] assms(2,5)
    unfolding br p fields(5) by (simp add: unat_ucast_up boot_record_zero_def)
qed

definition example_exfat_layout :: exfat_layout where
  "example_exfat_layout =
     \<lparr> xl_entry_point = [0xeb, 0x76, 0x90],
       xl_partition = replicate 61 0, xl_sectors = 204800, xl_table_offset = 128,
       xl_table_size = 128, xl_first_cluster = 256, xl_clusters = 25568, xl_root_cluster = 5,
       xl_serial_number = 7, xl_flags = [0, 1, 0, 0], xl_bytes_per_sector = 9,
       xl_sectors_per_cluster = 3, xl_tables = 1, xl_rest = replicate 399 0 \<rparr>"

theorem boot_record_read_exfat_witness:
  "\<exists>br. libfsfat_boot_record_read_data (Some boot_record_zero)
     (Some (exfat_boot_sector example_exfat_layout)) = Inr br \<and>
     unat (br_bytes_per_sector br) = 512 \<and> unat (br_cluster_block_size br) = 4096 \<and>
     unat (br_first_cluster_offset br) = 131072"
proof -
  have "exfat_layout_ok example_exfat_layout"
    and [simp]: "unat (xl_bytes_per_sector example_exfat_layout) = 9"
      "unat (xl_sectors_per_cluster example_exfat_layout) = 3"
      "unat (xl_first_cluster example_exfat_layout) = 256"
    by (simp_all add: exfat_layout_ok_def example_exfat_layout_def)
  from boot_record_read_exfat [OF this(1), of 9 3] show ?thesis by auto
qed

section \<open>The invariant of a boot record that was read\<close>

definition boot_record_wf :: "boot_record \<Rightarrow> bool" where
  "boot_record_wf br \<longleftrightarrow>
     br_file_system_format br \<noteq> FORMAT_UNKNOWN \<and>
     unat (br_bytes_per_sector br) \<in> {512, 1024, 2048, 4096} \<and>
     unat (br_bytes_per_sector br) dvd unat (br_cluster_block_size br) \<and>
     0 < unat (br_cluster_block_size br) \<and> unat (br_cluster_block_size br) \<le> 2 ^ 37 \<and>
     unat (br_allocation_table_offset br) < 2 ^ 45 \<and>
     unat (br_allocation_table_size br) < 2 ^ 45 \<and>
     unat (br_root_directory_offset br) + unat (br_root_directory_size br) \<le> unat (br_first_cluster_offset br) \<and>
     unat (br_first_cluster_offset br) < 2 ^ 53"

lemma set_fat_geometry_wf:
  assumes "set_fat_geometry br p = Inr br'"
    and "br_root_directory_offset br = 0" and "br_root_directory_size br = 0"
  shows "boot_record_wf br'"
proof -
  let ?bps = "unat (br_bytes_per_sector br)" and ?spc = "unat (sectors_per_cluster_block p)"
  note exact = set_fat_geometry_exact [OF assms(1)]
  have le: "?bps \<le> 4096" "?spc \<le> 128" "0 < ?bps" "0 < ?spc" using exact(1,2) by auto
  have format: "br_file_system_format br' \<noteq> FORMAT_UNKNOWN"
    using set_fat_geometry_clusters(2) [OF assms(1) refl] by (simp add: fat_format_of_clusters_def)
  have cbs: "?spc * ?bps \<le> 128 * 4096" by (intro mult_le_mono le)
  have off: "unat (number_of_reserved_sectors p) * ?bps \<le> 2 ^ 16 * 4096"
    using unat_bounds(2) [of "number_of_reserved_sectors p"] by (intro mult_le_mono le) simp
  have sz: "unat (allocation_table_size p) * ?bps \<le> 2 ^ 32 * 4096"
    using unat_bounds(3) [of "allocation_table_size p"] by (intro mult_le_mono le) simp
  have "unat (number_of_allocation_tables p) * unat (allocation_table_size p) \<le> 2 ^ 8 * 2 ^ 32"
    using unat_bounds(1) [of "number_of_allocation_tables p"] unat_bounds(3) [of "allocation_table_size p"]
    by (intro mult_le_mono) simp_all
  then have data: "(unat (number_of_reserved_sectors p) +
      unat (number_of_allocation_tables p) * unat (allocation_table_size p)) * ?bps
      \<le> (2 ^ 16 + 2 ^ 8 * 2 ^ 32) * 4096"
    using unat_bounds(2) [of "number_of_reserved_sectors p"] by (intro mult_le_mono le) simp
  have root: "br_root_directory_offset br' = 0" "br_root_directory_size br' = 0"
    if "br_root_directory_cluster br \<noteq> 0"
    using that assms unfolding set_fat_geometry_def Let_def by (auto split: if_splits)
  show ?thesis
    unfolding boot_record_wf_def
    using exact(1,3-9) format cbs off sz data root le unat_bounds(2) [of "number_of_root_directory_entries p"]
    by (cases "br_root_directory_cluster br = 0") simp_all
qed

lemma set_exfat_geometry_wf:
  assumes "set_exfat_geometry br p = Inr br'"
    and small: "unat (br_allocation_table_offset br) < 2 ^ 32"
      "unat (br_allocation_table_size br) < 2 ^ 32" "unat (br_first_cluster_offset br) < 2 ^ 32"
    and "br_root_directory_offset br = 0" and "br_root_directory_size br = 0"
    and "br_file_system_format br = FORMAT_EXFAT"
  shows "boot_record_wf br'"
proof -
  let ?k = "unat (br_bytes_per_sector br)" and ?s = "unat (sectors_per_cluster_block p)"
  note exact = set_exfat_geometry_exact [OF assms(1) small]
  have "?k = 9 \<or> ?k = 10 \<or> ?k = 11 \<or> ?k = 12" using exact(1,2) by linarith
  then have bps: "2 ^ ?k \<in> {512, 1024, 2048, 4096 :: nat}" by auto
  have le: "(2::nat) ^ ?k \<le> 2 ^ 12" "(2::nat) ^ (?s + ?k) \<le> 2 ^ 37"
    using exact(2,3) by (simp_all only: power_increasing_iff one_less_numeral_iff semiring_norm)
  have off: "n * 2 ^ ?k < 2 ^ 45" if "n < 2 ^ 32" for n :: nat
    using mult_le_mono [OF less_imp_le [OF that] le(1)] by simp
  have "br_root_directory_size br' = br_root_directory_size br"
    using assms(1) unfolding set_exfat_geometry_def Let_def by (auto split: if_splits)
  then show ?thesis
    unfolding boot_record_wf_def exact(4-9,12) assms(5-7)
    using bps le off [OF small(1)] off [OF small(2)] off [OF small(3)]
    by (simp add: power_add)
qed

lemma dec32_64_small: "unat (byte_stream_copy_to_uint32_little_endian data i :: u64) < 2 ^ 32"
proof -
  let ?v = "byte_stream_copy_to_uint32_little_endian data i :: u64"
  have "\<not> bit ?v n" if "32 \<le> n" for n
    using that bit_imp_le_length [of "data ! (i + 3)" "n - 24"] bit_imp_le_length [of "data ! (i + 2)" "n - 16"]
      bit_imp_le_length [of "data ! (i + 1)" "n - 8"] bit_imp_le_length [of "data ! i" n]
    by (auto simp: byte_stream_copy_to_uint32_little_endian_def bit_simps)
  then have "take_bit 32 ?v = ?v"
    by (auto intro!: bit_word_eqI simp: bit_take_bit_iff) (use not_le in blast)
  then have "unat ?v = take_bit 32 (unat ?v)" by (metis unsigned_take_bit_eq)
  then show ?thesis by (metis take_bit_nat_less_exp)
qed

lemma read_boot_record_wf:
  assumes "libfsfat_boot_record_read_file_io_handle bfio (Some boot_record_zero) off = Inr br"
  shows "boot_record_wf br"
proof -
  obtain data where len: "length data = 512"
    and read: "libfsfat_boot_record_read_data (Some boot_record_zero) (Some data) = Inr br"
    using assms by (auto simp: libfsfat_boot_record_read_file_io_handle_def
      split: option.splits if_splits sum.splits)
  show ?thesis
  proof (cases "is_exfat_oem_name data")
    case True
    let ?zero = "boot_record_zero\<lparr> br_file_system_format := FORMAT_EXFAT \<rparr>"
    obtain br0 p where bp: "read_exfat_fields ?zero data = (br0, p)" by fastforce
    then have geo: "set_exfat_geometry br0 p = Inr br"
      using read True len by (simp add: libfsfat_boot_record_read_data_def split: if_splits)
    have br0: "br0 = fst (read_exfat_fields ?zero data)" using bp by simp
    have small: "unat (br_allocation_table_offset br0) < 2 ^ 32"
      "unat (br_allocation_table_size br0) < 2 ^ 32" "unat (br_first_cluster_offset br0) < 2 ^ 32"
      by (simp_all add: br0 read_exfat_fields_def dec32_64_small [simplified])
    have "br_root_directory_offset br0 = 0" "br_root_directory_size br0 = 0"
      "br_file_system_format br0 = FORMAT_EXFAT"
      by (simp_all add: br0 read_exfat_fields_def boot_record_zero_def)
    then show ?thesis by (rule set_exfat_geometry_wf [OF geo small])
  next
    case False
    obtain br0 p where bp: "read_fat_fields boot_record_zero data = (br0, p)" by fastforce
    then have "br0 = fst (read_fat_fields boot_record_zero data)" by simp
    then have "br_root_directory_offset br0 = 0" "br_root_directory_size br0 = 0"
      by (simp_all add: read_fat_fields_def Let_def boot_record_zero_def)
    moreover have "set_fat_geometry br0 p = Inr br"
      using read False len bp
      by (simp add: libfsfat_boot_record_read_data_def boot_record_zero_def split: if_splits)
    ultimately show ?thesis by (rule set_fat_geometry_wf [rotated])
  qed
qed

text \<open>
  C25. Whatever the file handle returns for the first sector, a boot record that is read
  without error is well-formed: a known format, a supported sector size that divides the
  cluster block size, a root directory in front of the data area, and offsets in range, none
  negative as \<^verbatim>\<open>off64_t\<close>.
\<close>

theorem boot_record_read_wf:
  assumes "libfsfat_boot_record_read_file_io_handle bfio (Some boot_record_zero) off = Inr br"
  shows "boot_record_wf br"
  by (rule read_boot_record_wf [OF assms])

theorem boot_record_read_wf_witness:
  "\<exists>br. libfsfat_boot_record_read_file_io_handle
     (image_bfio (fat16_boot_sector (example_layout 4141 12 1))) (Some boot_record_zero) 0 = Inr br \<and>
     boot_record_wf br"
proof -
  let ?f = "example_layout 4141 12 1"
  have ok: "layout_ok 467 ?f" by (simp add: example_layout_ok)
  have ne: "\<not> (lay_root_entries ?f = 0 \<and> lay_sectors_16bit ?f = 0 \<and> lay_table_size_16bit ?f = 0)"
    by (simp add: example_layout_def)
  note fields = fat16_sector_read(1-4) [OF ok ne] fat16_sector_read(5) [OF ok ne, of boot_record_zero]
  obtain br where geo: "libfsfat_boot_record_read_data (Some boot_record_zero)
      (Some (fat16_boot_sector ?f)) = Inr br"
    unfolding read_data_fat [OF fields]
    by (auto simp add: example_layout_def set_fat_geometry_def Let_def boot_record_zero_def)
  then have "libfsfat_boot_record_read_file_io_handle
      (image_bfio (fat16_boot_sector ?f)) (Some boot_record_zero) 0 = Inr br"
    using fields(1) by (simp add: libfsfat_boot_record_read_file_io_handle_def image_bfio_def)
  then show ?thesis using boot_record_read_wf by blast
qed

end
