(* ===== verification/Volume.thy ===== *)
theory Volume
  imports File_Path Boot_Record Directory_Invariant
begin

text \<open>
  The volumes of \<^verbatim>\<open>libfsfat/libfsfat_volume.c\<close>: the object a caller opens, asks for file
  entries and closes. A volume outlives an operation that fails, so the operations that
  change it return the volume they leave beside their result. The theorems say that opening
  a volume ends whatever it holds, and what is true of a volume after any sequence of
  operations.
\<close>

section \<open>The volume\<close>

text \<open>
  The operations of libbfio on a file handle. The booleans tell whether the call succeeds; a
  call that can fail after it has changed the handle returns the handle too.
\<close>

record 'h bfio_ops =
  bfio_file_initialize :: "'h option"
  bfio_file_set_name :: "'h \<Rightarrow> u8 list \<Rightarrow> nat \<Rightarrow> 'h option"
  bfio_file_set_name_wide :: "'h \<Rightarrow> u32 list \<Rightarrow> nat \<Rightarrow> 'h option"
  bfio_handle_is_open :: "'h \<Rightarrow> bool option"
  bfio_handle_open :: "'h \<Rightarrow> u32 \<Rightarrow> 'h \<times> bool"
  bfio_handle_close :: "'h \<Rightarrow> 'h \<times> bool"
  bfio_handle_free :: "'h \<Rightarrow> bool"
  bfio_handle_get_size :: "'h \<Rightarrow> u64 option"
  bfio_handle_read :: "'h \<Rightarrow> bfio"

record ('h, 'arr, 'cache) volume =
  vol_io_handle :: "io_handle option"
  vol_file_io_handle :: "'h option"
  vol_file_io_handle_created_in_library :: u8
  vol_file_io_handle_opened_in_library :: u8
  vol_file_system :: "('arr, 'cache) file_system option"

definition libfsfat_volume_initialize ::
  "('h, 'arr, 'cache) volume option \<Rightarrow> ('h, 'arr, 'cache) volume result" where
  "libfsfat_volume_initialize volume =
     (if volume \<noteq> None then Inl RUNTIME_VALUE_ALREADY_SET
      else
        (case libfsfat_io_handle_initialize None of
           Inl e \<Rightarrow> Inl RUNTIME_INITIALIZE_FAILED
         | Inr io \<Rightarrow>
             Inr \<lparr> vol_io_handle = Some io, vol_file_io_handle = None,
                   vol_file_io_handle_created_in_library = 0,
                   vol_file_io_handle_opened_in_library = 0, vol_file_system = None \<rparr>))"

text \<open>The file system has a pointer to the IO handle, so the signal reaches both.\<close>

definition libfsfat_volume_signal_abort ::
  "('h, 'arr, 'cache) volume option \<Rightarrow> ('h, 'arr, 'cache) volume result" where
  "libfsfat_volume_signal_abort volume =
     (case volume of
        None \<Rightarrow> Inl ARGUMENT_INVALID_VALUE
      | Some v \<Rightarrow>
          (case vol_io_handle v of
             None \<Rightarrow> Inl RUNTIME_VALUE_MISSING
           | Some io \<Rightarrow>
               let io = io\<lparr> io_abort := 1 \<rparr>
               in Inr (v\<lparr> vol_io_handle := Some io,
                          vol_file_system := map_option (\<lambda>fs. fs\<lparr> fs_io_handle := Some io \<rparr>)
                            (vol_file_system v) \<rparr>)))"

section \<open>Opening\<close>

text \<open>
  The IO handle of a volume with the geometry of its boot record.
\<close>

definition io_handle_of_boot_record :: "io_handle \<Rightarrow> boot_record \<Rightarrow> io_handle" where
  "io_handle_of_boot_record io br =
     io\<lparr> io_file_system_format := br_file_system_format br,
         io_bytes_per_sector := br_bytes_per_sector br,
         io_cluster_block_size := br_cluster_block_size br,
         io_total_number_of_clusters := br_total_number_of_clusters br,
         io_first_cluster_offset := br_first_cluster_offset br,
         io_root_directory_offset :=
           (if br_root_directory_size br > 0 then br_root_directory_offset br
            else br_first_cluster_offset br) \<rparr>"

text \<open>
  The part of the reader that follows the boot record: the file system, its tables and its
  root directory. The file system is freed if it fails.
\<close>

definition open_file_system ::
  "(nat \<Rightarrow> u8) \<Rightarrow> ('cache, 'value, 'arr directory) cache_ops \<Rightarrow> ('arr, nat) array_ops \<Rightarrow>
   ('tarr, node_entry) array_ops \<Rightarrow> bfio \<Rightarrow> io_handle \<Rightarrow> boot_record \<Rightarrow>
   ('arr, 'cache) file_system result option" where
  "open_file_system junk C A T bfio io br =
     (case libfsfat_file_system_initialize C None (Some io) of
        Inl e \<Rightarrow> Some (Inl RUNTIME_INITIALIZE_FAILED)
      | Inr fs \<Rightarrow>
          (case libfsfat_file_system_read_allocation_table junk (Some fs) bfio
                  (br_allocation_table_offset br) (br_allocation_table_size br) of
             None \<Rightarrow> None
           | Some (Inl e) \<Rightarrow> Some (Inl IO_READ_FAILED)
           | Some (Inr fs) \<Rightarrow>
               (case libfsfat_file_system_read_root_directory A T (Some fs) bfio
                       (br_root_directory_offset br) (br_root_directory_size br)
                       (br_root_directory_cluster br) of
                  None \<Rightarrow> None
                | Some (Inl e) \<Rightarrow> Some (Inl IO_READ_FAILED)
                | Some (Inr fs) \<Rightarrow> Some (Inr fs))))"

definition libfsfat_internal_volume_open_read ::
  "(nat \<Rightarrow> u8) \<Rightarrow> ('cache, 'value, 'arr directory) cache_ops \<Rightarrow> ('arr, nat) array_ops \<Rightarrow>
   ('tarr, node_entry) array_ops \<Rightarrow> 'h bfio_ops \<Rightarrow> ('h, 'arr, 'cache) volume option \<Rightarrow> 'h \<Rightarrow>
   (('h, 'arr, 'cache) volume option \<times> unit result) option" where
  "libfsfat_internal_volume_open_read junk C A T B internal_volume file_io_handle =
     (case internal_volume of
        None \<Rightarrow> Some (None, Inl ARGUMENT_INVALID_VALUE)
      | Some v \<Rightarrow>
     (case vol_io_handle v of
        None \<Rightarrow> Some (Some v, Inl RUNTIME_VALUE_MISSING)
      | Some io \<Rightarrow>
          if vol_file_system v \<noteq> None then Some (Some v, Inl RUNTIME_VALUE_ALREADY_SET)
          else
            (case bfio_handle_get_size B file_io_handle of
               None \<Rightarrow> Some (Some v, Inl RUNTIME_GET_FAILED)
             | Some volume_size \<Rightarrow>
                 let io = io\<lparr> io_volume_size := volume_size \<rparr>;
                     v = v\<lparr> vol_io_handle := Some io \<rparr>;
                     bfio = bfio_handle_read B file_io_handle
                 in (case libfsfat_boot_record_initialize None of
                       Inl e \<Rightarrow> Some (Some v, Inl RUNTIME_INITIALIZE_FAILED)
                     | Inr br \<Rightarrow>
                         (case libfsfat_boot_record_read_file_io_handle bfio (Some br) 0 of
                            Inl e \<Rightarrow> Some (Some v, Inl IO_READ_FAILED)
                          | Inr br \<Rightarrow>
                              let io = io_handle_of_boot_record io br;
                                  v = v\<lparr> vol_io_handle := Some io \<rparr>
                              in (case open_file_system junk C A T bfio io br of
                                    None \<Rightarrow> None
                                  | Some (Inl e) \<Rightarrow> Some (Some v, Inl e)
                                  | Some (Inr fs) \<Rightarrow>
                                      Some (Some (v\<lparr> vol_file_system := Some fs \<rparr>), Inr ())))))))"

definition ACCESS_FLAG_READ :: u32 where "ACCESS_FLAG_READ = 0x01"
definition ACCESS_FLAG_WRITE :: u32 where "ACCESS_FLAG_WRITE = 0x02"

text \<open>The file handle, opened if it is not open yet, and whether it was opened here.\<close>

definition opened_file_io_handle :: "'h bfio_ops \<Rightarrow> 'h \<Rightarrow> 'h \<times> u8 \<times> unit result" where
  "opened_file_io_handle B h =
     (case bfio_handle_is_open B h of
        None \<Rightarrow> (h, 0, Inl IO_OPEN_FAILED)
      | Some file_io_handle_is_open \<Rightarrow>
          if file_io_handle_is_open then (h, 0, Inr ())
          else
            (case bfio_handle_open B h ACCESS_FLAG_READ of
               (h, ok) \<Rightarrow> if ok then (h, 1, Inr ()) else (h, 0, Inl IO_OPEN_FAILED)))"

text \<open>
  The volume and the file handle after the call, and the result. A handle that the call has
  opened is closed again if reading the volume fails.
\<close>

definition libfsfat_volume_open_file_io_handle ::
  "(nat \<Rightarrow> u8) \<Rightarrow> ('cache, 'value, 'arr directory) cache_ops \<Rightarrow> ('arr, nat) array_ops \<Rightarrow>
   ('tarr, node_entry) array_ops \<Rightarrow> 'h bfio_ops \<Rightarrow> ('h, 'arr, 'cache) volume option \<Rightarrow> 'h option \<Rightarrow> u32 \<Rightarrow>
   (('h, 'arr, 'cache) volume option \<times> 'h option \<times> unit result) option" where
  "libfsfat_volume_open_file_io_handle junk C A T B volume file_io_handle access_flags =
     (case volume of
        None \<Rightarrow> Some (None, file_io_handle, Inl ARGUMENT_INVALID_VALUE)
      | Some v \<Rightarrow>
          if vol_file_io_handle v \<noteq> None then Some (Some v, file_io_handle, Inl RUNTIME_VALUE_ALREADY_SET)
          else
            (case file_io_handle of
               None \<Rightarrow> Some (Some v, None, Inl ARGUMENT_INVALID_VALUE)
             | Some h \<Rightarrow>
                 if access_flags AND ACCESS_FLAG_READ = 0 \<and> access_flags AND ACCESS_FLAG_WRITE = 0
                 then Some (Some v, Some h, Inl ARGUMENT_UNSUPPORTED_VALUE)
                 else if access_flags AND ACCESS_FLAG_WRITE \<noteq> 0
                 then Some (Some v, Some h, Inl ARGUMENT_UNSUPPORTED_VALUE)
                 else
                   (case opened_file_io_handle B h of
                      (h, _, Inl e) \<Rightarrow> Some (Some v, Some h, Inl e)
                    | (h, opened_in_library, Inr _) \<Rightarrow>
                        (case libfsfat_internal_volume_open_read junk C A T B (Some v) h of
                           None \<Rightarrow> None
                         | Some (volume, Inl e) \<Rightarrow>
                             Some (volume,
                               Some (if opened_in_library \<noteq> 0 then fst (bfio_handle_close B h) else h),
                               Inl IO_READ_FAILED)
                         | Some (volume, Inr _) \<Rightarrow>
                             Some (map_option (\<lambda>v. v\<lparr> vol_file_io_handle := Some h,
                                 vol_file_io_handle_opened_in_library := opened_in_library \<rparr>) volume,
                               Some h, Inr ())))))"

text \<open>
  Both functions that open a file by its name, over the operation that sets the name. The
  file handle they create is freed if they fail.
\<close>

definition open_by_name ::
  "(nat \<Rightarrow> u8) \<Rightarrow> ('cache, 'value, 'arr directory) cache_ops \<Rightarrow> ('arr, nat) array_ops \<Rightarrow>
   ('tarr, node_entry) array_ops \<Rightarrow> 'h bfio_ops \<Rightarrow> ('h \<Rightarrow> 'w list \<Rightarrow> nat \<Rightarrow> 'h option) \<Rightarrow>
   ('h, 'arr, 'cache) volume option \<Rightarrow> 'w list option \<Rightarrow> u32 \<Rightarrow>
   (('h, 'arr, 'cache) volume option \<times> unit result) option" where
  "open_by_name junk C A T B set_name volume filename access_flags =
     (case volume of
        None \<Rightarrow> Some (None, Inl ARGUMENT_INVALID_VALUE)
      | Some v \<Rightarrow>
     (case filename of
        None \<Rightarrow> Some (Some v, Inl ARGUMENT_INVALID_VALUE)
      | Some filename \<Rightarrow>
          if access_flags AND ACCESS_FLAG_READ = 0 \<and> access_flags AND ACCESS_FLAG_WRITE = 0
          then Some (Some v, Inl ARGUMENT_UNSUPPORTED_VALUE)
          else if access_flags AND ACCESS_FLAG_WRITE \<noteq> 0
          then Some (Some v, Inl ARGUMENT_UNSUPPORTED_VALUE)
          else
            (case bfio_file_initialize B of
               None \<Rightarrow> Some (Some v, Inl RUNTIME_INITIALIZE_FAILED)
             | Some h \<Rightarrow>
                 (case set_name h filename (length filename + 1) of
                    None \<Rightarrow> Some (Some v, Inl RUNTIME_SET_FAILED)
                  | Some h \<Rightarrow>
                      (case libfsfat_volume_open_file_io_handle junk C A T B (Some v) (Some h) access_flags of
                         None \<Rightarrow> None
                       | Some (volume, _, Inl e) \<Rightarrow> Some (volume, Inl IO_OPEN_FAILED)
                       | Some (volume, _, Inr _) \<Rightarrow>
                           Some (map_option (\<lambda>v. v\<lparr> vol_file_io_handle_created_in_library := 1 \<rparr>) volume,
                             Inr ()))))))"

text \<open>A file name is the string in front of its terminator.\<close>

definition libfsfat_volume_open ::
  "(nat \<Rightarrow> u8) \<Rightarrow> ('cache, 'value, 'arr directory) cache_ops \<Rightarrow> ('arr, nat) array_ops \<Rightarrow>
   ('tarr, node_entry) array_ops \<Rightarrow> 'h bfio_ops \<Rightarrow> ('h, 'arr, 'cache) volume option \<Rightarrow> u8 list option \<Rightarrow> u32 \<Rightarrow>
   (('h, 'arr, 'cache) volume option \<times> unit result) option" where
  "libfsfat_volume_open junk C A T B = open_by_name junk C A T B (bfio_file_set_name B)"

definition libfsfat_volume_open_wide ::
  "(nat \<Rightarrow> u8) \<Rightarrow> ('cache, 'value, 'arr directory) cache_ops \<Rightarrow> ('arr, nat) array_ops \<Rightarrow>
   ('tarr, node_entry) array_ops \<Rightarrow> 'h bfio_ops \<Rightarrow> ('h, 'arr, 'cache) volume option \<Rightarrow> u32 list option \<Rightarrow> u32 \<Rightarrow>
   (('h, 'arr, 'cache) volume option \<times> unit result) option" where
  "libfsfat_volume_open_wide junk C A T B = open_by_name junk C A T B (bfio_file_set_name_wide B)"

section \<open>Closing\<close>

text \<open>
  The volume and the file handle after the call, \<open>None\<close> for a handle that is freed. The
  function goes on after an error and reports the last one.
\<close>

definition libfsfat_volume_close ::
  "'h bfio_ops \<Rightarrow> ('h, 'arr, 'cache) volume option \<Rightarrow>
   ('h, 'arr, 'cache) volume option \<times> 'h option \<times> unit result" where
  "libfsfat_volume_close B volume =
     (case volume of
        None \<Rightarrow> (None, None, Inl ARGUMENT_INVALID_VALUE)
      | Some v \<Rightarrow>
          (case vol_file_io_handle v of
             None \<Rightarrow> (Some v, None, Inl RUNTIME_VALUE_MISSING)
           | Some h \<Rightarrow>
               let (h, result) =
                     (if vol_file_io_handle_opened_in_library v \<noteq> 0
                      then (case bfio_handle_close B h of
                              (h, ok) \<Rightarrow> (h, if ok then Inr () else Inl IO_CLOSE_FAILED))
                      else (h, Inr ()));
                   (handle, result) =
                     (if vol_file_io_handle_created_in_library v \<noteq> 0
                      then (None, if bfio_handle_free B h then result else Inl RUNTIME_FINALIZE_FAILED)
                      else (Some h, result));
                   (io, result) =
                     (case libfsfat_io_handle_clear (vol_io_handle v) of
                        Inl e \<Rightarrow> (vol_io_handle v, Inl RUNTIME_FINALIZE_FAILED)
                      | Inr io \<Rightarrow> (Some io, result))
               in (Some \<lparr> vol_io_handle = io, vol_file_io_handle = None,
                          vol_file_io_handle_created_in_library = 0,
                          vol_file_io_handle_opened_in_library = 0, vol_file_system = None \<rparr>,
                   handle, result)))"

text \<open>The volume is gone after the call; a volume that is open is closed first.\<close>

definition libfsfat_volume_free ::
  "'h bfio_ops \<Rightarrow> ('h, 'arr, 'cache) volume option \<Rightarrow> 'h option \<times> unit result" where
  "libfsfat_volume_free B volume =
     (case volume of
        None \<Rightarrow> (None, Inr ())
      | Some v \<Rightarrow>
          if vol_file_io_handle v = None then (None, Inr ())
          else
            (case libfsfat_volume_close B (Some v) of
               (_, handle, Inl e) \<Rightarrow> (handle, Inl IO_CLOSE_FAILED)
             | (_, handle, Inr _) \<Rightarrow> (handle, Inr ())))"

section \<open>Values, labels and file entries\<close>

definition libfsfat_volume_get_file_system_format ::
  "('h, 'arr, 'cache) volume option \<Rightarrow> file_system_format result" where
  "libfsfat_volume_get_file_system_format volume =
     (case volume of
        None \<Rightarrow> Inl ARGUMENT_INVALID_VALUE
      | Some v \<Rightarrow>
          (case vol_io_handle v of
             None \<Rightarrow> Inl RUNTIME_VALUE_MISSING
           | Some io \<Rightarrow> Inr (io_file_system_format io)))"

text \<open>A label of the file system, for its operation.\<close>

definition volume_label ::
  "(('arr, 'cache) file_system option \<Rightarrow> 'a result) \<Rightarrow> ('h, 'arr, 'cache) volume option \<Rightarrow> 'a result" where
  "volume_label get volume =
     (case volume of
        None \<Rightarrow> Inl ARGUMENT_INVALID_VALUE
      | Some v \<Rightarrow>
          if vol_file_system v = None then Inl RUNTIME_VALUE_MISSING
          else
            (case get (vol_file_system v) of
               Inl e \<Rightarrow> Inl RUNTIME_GET_FAILED
             | Inr x \<Rightarrow> Inr x))"

definition libfsfat_volume_get_utf8_label_size ::
  "una_ops \<Rightarrow> ('arr, nat) array_ops \<Rightarrow> ('h, 'arr, 'cache) volume option \<Rightarrow> nat result" where
  "libfsfat_volume_get_utf8_label_size U A =
     volume_label (libfsfat_file_system_get_utf8_volume_label_size U A)"

definition libfsfat_volume_get_utf8_label ::
  "una_ops \<Rightarrow> ('arr, nat) array_ops \<Rightarrow> ('h, 'arr, 'cache) volume option \<Rightarrow> nat option \<Rightarrow> u8 list result" where
  "libfsfat_volume_get_utf8_label U A volume utf8_string =
     volume_label (\<lambda>fs. libfsfat_file_system_get_utf8_volume_label U A fs utf8_string) volume"

definition libfsfat_volume_get_utf16_label_size ::
  "una_ops \<Rightarrow> ('arr, nat) array_ops \<Rightarrow> ('h, 'arr, 'cache) volume option \<Rightarrow> nat result" where
  "libfsfat_volume_get_utf16_label_size U A =
     volume_label (libfsfat_file_system_get_utf16_volume_label_size U A)"

definition libfsfat_volume_get_utf16_label ::
  "una_ops \<Rightarrow> ('arr, nat) array_ops \<Rightarrow> ('h, 'arr, 'cache) volume option \<Rightarrow> nat option \<Rightarrow> u16 list result" where
  "libfsfat_volume_get_utf16_label U A volume utf16_string =
     volume_label (\<lambda>fs. libfsfat_file_system_get_utf16_volume_label U A fs utf16_string) volume"

text \<open>The reader of the volume; libbfio fails for a handle that is \<open>NULL\<close>.\<close>

definition volume_bfio :: "'h bfio_ops \<Rightarrow> ('h, 'arr, 'cache) volume \<Rightarrow> bfio" where
  "volume_bfio B v = (case vol_file_io_handle v of None \<Rightarrow> \<lambda>_ _. None | Some h \<Rightarrow> bfio_handle_read B h)"

definition libfsfat_volume_get_root_directory ::
  "('xarr, extent) array_ops \<Rightarrow> 'h bfio_ops \<Rightarrow> ('h, 'arr, 'cache) volume option \<Rightarrow>
   ('arr, 'cache, 'xarr, 's) file_entry option \<Rightarrow> ('arr, 'cache, 'xarr, 's) file_entry result" where
  "libfsfat_volume_get_root_directory X B volume file_entry =
     (case volume of
        None \<Rightarrow> Inl ARGUMENT_INVALID_VALUE
      | Some v \<Rightarrow>
          if vol_file_system v = None then Inl RUNTIME_VALUE_MISSING
          else if file_entry \<noteq> None then Inl RUNTIME_VALUE_ALREADY_SET
          else
            (case libfsfat_file_system_get_root_directory X (vol_file_system v) (volume_bfio B v) file_entry of
               Inl e \<Rightarrow> Inl RUNTIME_GET_FAILED
             | Inr fe \<Rightarrow> Inr fe))"

definition libfsfat_volume_get_file_entry_by_identifier ::
  "('arr, nat) array_ops \<Rightarrow> ('xarr, extent) array_ops \<Rightarrow> 'h bfio_ops \<Rightarrow> ('h, 'arr, 'cache) volume option \<Rightarrow>
   u64 \<Rightarrow> ('arr, 'cache, 'xarr, 's) file_entry option \<Rightarrow>
   ('arr, 'cache, 'xarr, 's) file_entry result option" where
  "libfsfat_volume_get_file_entry_by_identifier A X B volume identifier file_entry =
     (case volume of
        None \<Rightarrow> Some (Inl ARGUMENT_INVALID_VALUE)
      | Some v \<Rightarrow>
          if file_entry \<noteq> None then Some (Inl RUNTIME_VALUE_ALREADY_SET)
          else
            (case libfsfat_file_system_get_file_entry_by_identifier A X (vol_file_system v)
                    (volume_bfio B v) identifier file_entry of
               None \<Rightarrow> None
             | Some (Inl e) \<Rightarrow> Some (Inl RUNTIME_GET_FAILED)
             | Some (Inr fe) \<Rightarrow> Some (Inr fe)))"

text \<open>The volume after the call, whether the entry is found, and the file entry.\<close>

definition libfsfat_volume_get_file_entry_by_utf8_path ::
  "una_ops \<Rightarrow> ('cache, 'value, 'arr directory) cache_ops \<Rightarrow> ('arr, nat) array_ops \<Rightarrow>
   ('tarr, node_entry) array_ops \<Rightarrow> ('xarr, extent) array_ops \<Rightarrow> 'h bfio_ops \<Rightarrow>
   ('h, 'arr, 'cache) volume option \<Rightarrow> u8 list option \<Rightarrow> nat \<Rightarrow> ('arr, 'cache, 'xarr, 's) file_entry option \<Rightarrow>
   (('h, 'arr, 'cache) volume \<times> bool \<times> ('arr, 'cache, 'xarr, 's) file_entry) result option" where
  "libfsfat_volume_get_file_entry_by_utf8_path U C A T X B volume utf8_string utf8_string_length
       file_entry =
     (case volume of
        None \<Rightarrow> Some (Inl ARGUMENT_INVALID_VALUE)
      | Some v \<Rightarrow>
          if file_entry \<noteq> None then Some (Inl RUNTIME_VALUE_ALREADY_SET)
          else
            (case libfsfat_file_system_get_file_entry_by_utf8_path U C A T X (vol_file_system v)
                    (volume_bfio B v) utf8_string utf8_string_length file_entry of
               None \<Rightarrow> None
             | Some (Inl e) \<Rightarrow> Some (Inl RUNTIME_GET_FAILED)
             | Some (Inr (fs, found, fe)) \<Rightarrow> Some (Inr (v\<lparr> vol_file_system := Some fs \<rparr>, found, fe))))"

definition libfsfat_volume_get_file_entry_by_utf16_path ::
  "una_ops \<Rightarrow> ('cache, 'value, 'arr directory) cache_ops \<Rightarrow> ('arr, nat) array_ops \<Rightarrow>
   ('tarr, node_entry) array_ops \<Rightarrow> ('xarr, extent) array_ops \<Rightarrow> 'h bfio_ops \<Rightarrow>
   ('h, 'arr, 'cache) volume option \<Rightarrow> u16 list option \<Rightarrow> nat \<Rightarrow> ('arr, 'cache, 'xarr, 's) file_entry option \<Rightarrow>
   (('h, 'arr, 'cache) volume \<times> bool \<times> ('arr, 'cache, 'xarr, 's) file_entry) result option" where
  "libfsfat_volume_get_file_entry_by_utf16_path U C A T X B volume utf16_string utf16_string_length
       file_entry =
     (case volume of
        None \<Rightarrow> Some (Inl ARGUMENT_INVALID_VALUE)
      | Some v \<Rightarrow>
          if file_entry \<noteq> None then Some (Inl RUNTIME_VALUE_ALREADY_SET)
          else
            (case libfsfat_file_system_get_file_entry_by_utf16_path U C A T X (vol_file_system v)
                    (volume_bfio B v) utf16_string utf16_string_length file_entry of
               None \<Rightarrow> None
             | Some (Inl e) \<Rightarrow> Some (Inl RUNTIME_GET_FAILED)
             | Some (Inr (fs, found, fe)) \<Rightarrow> Some (Inr (v\<lparr> vol_file_system := Some fs \<rparr>, found, fe))))"

section \<open>Opening a volume ends\<close>

text \<open>What an IO handle takes over from a well-formed boot record.\<close>

definition geometry_wf :: "io_handle \<Rightarrow> bool" where
  "geometry_wf io \<longleftrightarrow>
     io_file_system_format io \<noteq> FORMAT_UNKNOWN \<and>
     unat (io_bytes_per_sector io) \<in> {512, 1024, 2048, 4096} \<and>
     unat (io_bytes_per_sector io) dvd unat (io_cluster_block_size io) \<and>
     0 < unat (io_cluster_block_size io) \<and> unat (io_cluster_block_size io) \<le> 2 ^ 37 \<and>
     unat (io_root_directory_offset io) \<le> unat (io_first_cluster_offset io) \<and>
     unat (io_first_cluster_offset io) < 2 ^ 53"

lemma geometry_of_boot_record: "boot_record_wf br \<Longrightarrow> geometry_wf (io_handle_of_boot_record io br)"
  by (simp add: boot_record_wf_def geometry_wf_def io_handle_of_boot_record_def)

lemma initialized_table:
  assumes "libfsfat_allocation_table_initialize None n = Inr at"
  shows "allocation_table_wf at" and "number_of_cluster_numbers at = uint n"
proof -
  have n: "n \<noteq> 0" "n \<le> MAXIMUM_NUMBER_OF_CLUSTERS_IN_FAT"
    and at: "at = \<lparr>number_of_cluster_numbers = sint n, cluster_numbers = replicate (unat n) 0\<rparr>"
    using assms by (auto simp: libfsfat_allocation_table_initialize_def split: if_splits)
  have "uint n \<le> 2 ^ 26" using n(2) maximum_clusters unfolding word_le_def by simp
  moreover from this have "sint n = uint n" by (simp add: sint_32_small)
  moreover have "uint n \<noteq> 0" using n(1) by (simp only: uint_0_iff not_False_eq_True)
  then have "0 < uint n" using uint_ge_0 [of n] by linarith
  ultimately show "allocation_table_wf at" and "number_of_cluster_numbers at = uint n"
    by (simp_all add: at allocation_table_wf_def maximum_clusters)
qed

text \<open>The file system has the tables of a volume.\<close>

definition tables_of :: "io_handle \<Rightarrow> ('arr, 'cache) file_system \<Rightarrow> bool" where
  "tables_of io fs \<longleftrightarrow>
     (\<exists>at. fs_allocation_table fs = Some at \<and> tables_wf at (fs_reversed_allocation_table fs) \<and>
        number_of_cluster_numbers at = uint (io_total_number_of_clusters io))"

lemma read_allocation_table_ends:
  assumes "fs_io_handle fs = Some io" and "geometry_wf io"
    and "fs_reversed_allocation_table fs = None" and "fs_allocation_table fs = None"
  obtains (failed) e where "libfsfat_file_system_read_allocation_table junk (Some fs) bfio off n = Some (Inl e)"
  | (tables) fs' where "libfsfat_file_system_read_allocation_table junk (Some fs) bfio off n = Some (Inr fs')"
    and "tables_of io fs'" and "fs_io_handle fs' = Some io" and "fs_root_directory fs' = fs_root_directory fs"
proof (cases "libfsfat_allocation_table_initialize None (io_total_number_of_clusters io)")
  case (Inl e)
  then show ?thesis
    using assms by (intro failed) (simp add: libfsfat_file_system_read_allocation_table_def)
next
  case (Inr at)
  let ?reversed = "if io_file_system_format io \<in> {FORMAT_FAT12, FORMAT_FAT16, FORMAT_FAT32} then Some at else None"
  have "tables_wf at ?reversed" using initialized_table [OF Inr] by (simp add: tables_wf_def)
  moreover have "unat (io_bytes_per_sector io) \<in> {512, 1024, 2048, 4096}"
    using assms(2) by (simp add: geometry_wf_def)
  then have "io_bytes_per_sector io \<noteq> 0" and "4 dvd unat (io_bytes_per_sector io)" by auto
  ultimately obtain r where r: "libfsfat_allocation_table_read_file_io_handle junk bfio (Some at) ?reversed
      (Some io) off n = Some r"
    "r = Inl IO_READ_FAILED \<or> (\<exists>a rv. r = Inr (a, rv) \<and> tables_wf a rv \<and>
       number_of_cluster_numbers a = number_of_cluster_numbers at)"
    using read_table_total [of at ?reversed io junk bfio off n] by blast
  have read: "libfsfat_file_system_read_allocation_table junk (Some fs) bfio off n =
      (case r of
         Inl e \<Rightarrow> Some (Inl IO_READ_FAILED)
       | Inr (a, rv) \<Rightarrow> Some (Inr (fs\<lparr> fs_allocation_table := Some a, fs_reversed_allocation_table := rv \<rparr>)))"
    using assms Inr r(1) by (auto simp: libfsfat_file_system_read_allocation_table_def split: sum.split)
  show ?thesis
  proof (cases r)
    case (Inl e)
    then show ?thesis using read by (intro failed) simp
  next
    case (Inr p)
    then obtain a rv where "r = Inr (a, rv)" "tables_wf a rv"
      "number_of_cluster_numbers a = number_of_cluster_numbers at" using r(2) by auto
    then show ?thesis
      using read assms(1) initialized_table(2) [OF \<open>_ = Inr at\<close>]
      by (intro tables [of "fs\<lparr> fs_allocation_table := Some a, fs_reversed_allocation_table := rv \<rparr>"])
        (simp_all add: tables_of_def)
  qed
qed

lemma open_file_system_ends:
  fixes C :: "('cache, 'value, 'arr directory) cache_ops"
  assumes "array_contract A view" and "array_contract T tview" and "boot_record_wf br"
    and "unat (io_volume_size io) \<le> 2 ^ 53"
  obtains (failed) e where "open_file_system junk C A T bfio (io_handle_of_boot_record io br) br = Some (Inl e)"
  | (opened) fs d where
      "open_file_system junk C A T bfio (io_handle_of_boot_record io br) br = Some (Inr fs)"
    and "fs_io_handle fs = Some (io_handle_of_boot_record io br)"
    and "tables_of (io_handle_of_boot_record io br) fs" and "fs_root_directory fs = Some d" and "directory_wf view d"
proof -
  let ?io = "io_handle_of_boot_record io br"
  have geometry: "geometry_wf ?io" by (rule geometry_of_boot_record [OF assms(3)])
  have size: "unat (io_volume_size ?io) \<le> 2 ^ 53" using assms(4) by (simp add: io_handle_of_boot_record_def)
  have cbs: "unat (io_cluster_block_size ?io) \<le> 2 ^ 53" using geometry by (simp add: geometry_wf_def)
  have root: "unat (br_root_directory_offset br) + unat (br_root_directory_size br) < 2 ^ 62"
    using assms(3) by (simp add: boot_record_wf_def)
  show ?thesis
  proof (cases "libfsfat_file_system_initialize C None (Some ?io) :: ('arr, 'cache) file_system result")
    case (Inl e)
    then show ?thesis by (intro failed) (simp add: open_file_system_def)
  next
    case (Inr fs)
    then have fs: "fs_io_handle fs = Some ?io" "fs_allocation_table fs = None"
      "fs_reversed_allocation_table fs = None" "fs_root_directory fs = None"
      by (auto simp: libfsfat_file_system_initialize_def split: option.splits if_splits)
    show ?thesis
    proof (rule read_allocation_table_ends [OF fs(1) geometry fs(3,2), where junk = junk and bfio = bfio and
          off = "br_allocation_table_offset br" and n = "br_allocation_table_size br"])
      fix e
      assume "libfsfat_file_system_read_allocation_table junk (Some fs) bfio (br_allocation_table_offset br)
        (br_allocation_table_size br) = Some (Inl e)"
      then show ?thesis using Inr by (intro failed) (simp add: open_file_system_def)
    next
      fix fs'
      assume table: "libfsfat_file_system_read_allocation_table junk (Some fs) bfio (br_allocation_table_offset br)
        (br_allocation_table_size br) = Some (Inr fs')"
        and fs': "tables_of ?io fs'" "fs_io_handle fs' = Some ?io"
      obtain r where r: "libfsfat_file_system_read_root_directory A T (Some fs') bfio
          (br_root_directory_offset br) (br_root_directory_size br) (br_root_directory_cluster br) = Some r"
        using read_root_directory_returns [OF assms(2) fs'(2) size cbs root] by blast
      show ?thesis
      proof (cases r)
        case (Inl e)
        then show ?thesis using Inr table r by (intro failed) (simp add: open_file_system_def)
      next
        case (Inr fs2)
        then obtain d where d: "fs2 = fs'\<lparr> fs_root_directory := Some d \<rparr>"
          using r by (auto simp: libfsfat_file_system_read_root_directory_def
            split: option.splits sum.splits if_splits)
        have wf: "directory_wf view d"
          by (rule read_root_directory_wf [OF assms(1) r [unfolded Inr]]) (simp add: d)
        show ?thesis
          by (rule opened [of fs2 d])
            (use \<open>_ = Inr fs\<close> table r Inr d fs' wf in \<open>simp_all add: open_file_system_def tables_of_def\<close>)
      qed
    qed
  qed
qed

text \<open>What is true of a volume: it is open, with all its parts well-formed, or closed.\<close>

definition volume_open :: "('arr \<Rightarrow> nat option list) \<Rightarrow> ('h, 'arr, 'cache) volume \<Rightarrow> bool" where
  "volume_open view v \<longleftrightarrow>
     (\<exists>io fs d. vol_io_handle v = Some io \<and> geometry_wf io \<and> vol_file_io_handle v \<noteq> None \<and>
        vol_file_system v = Some fs \<and> fs_io_handle fs = Some io \<and> tables_of io fs \<and>
        fs_root_directory fs = Some d \<and> directory_wf view d)"

definition volume_closed :: "('h, 'arr, 'cache) volume \<Rightarrow> bool" where
  "volume_closed v \<longleftrightarrow>
     vol_io_handle v \<noteq> None \<and> vol_file_io_handle v = None \<and> vol_file_system v = None \<and>
     vol_file_io_handle_created_in_library v = 0 \<and> vol_file_io_handle_opened_in_library v = 0"

lemma open_read_ends:
  fixes C :: "('cache, 'value, 'arr directory) cache_ops" and v :: "('h, 'arr, 'cache) volume"
  assumes "array_contract A view" and "array_contract T tview" and "volume_closed v"
    and "\<And>n. bfio_handle_get_size B h = Some n \<Longrightarrow> unat n \<le> 2 ^ 53"
  obtains (failed) e v' where "libfsfat_internal_volume_open_read junk C A T B (Some v) h = Some (Some v', Inl e)"
    and "volume_closed v'"
  | (opened) v' where "libfsfat_internal_volume_open_read junk C A T B (Some v) h = Some (Some v', Inr ())"
    and "volume_open view (v'\<lparr> vol_file_io_handle := Some h \<rparr>)"
    and "vol_file_io_handle v' = None" and "vol_file_io_handle_created_in_library v' = 0"
proof -
  obtain io where io: "vol_io_handle v = Some io" using assms(3) by (auto simp: volume_closed_def)
  have fs: "vol_file_system v = None" using assms(3) by (simp add: volume_closed_def)
  have still_closed: "volume_closed (v\<lparr> vol_io_handle := Some io' \<rparr>)" for io'
    using assms(3) by (simp add: volume_closed_def)
  show ?thesis
  proof (cases "bfio_handle_get_size B h")
    case None
    then show ?thesis
      using io fs assms(3) by (intro failed [of v]) (simp_all add: libfsfat_internal_volume_open_read_def)
  next
    case (Some n)
    let ?io = "io\<lparr> io_volume_size := n \<rparr>" and ?bfio = "bfio_handle_read B h"
    show ?thesis
    proof (cases "libfsfat_boot_record_read_file_io_handle ?bfio (Some boot_record_zero) 0")
      case (Inl e)
      then show ?thesis
        using io fs Some still_closed
        by (intro failed [of "v\<lparr> vol_io_handle := Some ?io \<rparr>"])
          (simp_all add: libfsfat_internal_volume_open_read_def libfsfat_boot_record_initialize_def)
    next
      case (Inr br)
      let ?v = "v\<lparr> vol_io_handle := Some (io_handle_of_boot_record ?io br) \<rparr>"
      have read: "libfsfat_internal_volume_open_read junk C A T B (Some v) h =
          (case open_file_system junk C A T ?bfio (io_handle_of_boot_record ?io br) br of
             None \<Rightarrow> None
           | Some (Inl e) \<Rightarrow> Some (Some ?v, Inl e)
           | Some (Inr fs) \<Rightarrow> Some (Some (?v\<lparr> vol_file_system := Some fs \<rparr>), Inr ()))"
        using io fs Some Inr
        by (simp add: libfsfat_internal_volume_open_read_def libfsfat_boot_record_initialize_def Let_def
            split: option.split sum.split)
      have br: "boot_record_wf br" by (rule read_boot_record_wf [OF Inr])
      have size: "unat (io_volume_size ?io) \<le> 2 ^ 53" using assms(4) [OF Some] by simp
      show ?thesis
      proof (rule open_file_system_ends [OF assms(1,2) br size, where C = C and junk = junk and bfio = ?bfio])
        fix e
        assume "open_file_system junk C A T ?bfio (io_handle_of_boot_record ?io br) br = Some (Inl e)"
        then show ?thesis using still_closed by (intro failed [of ?v e]) (simp_all add: read)
      next
        fix fs d
        assume "open_file_system junk C A T ?bfio (io_handle_of_boot_record ?io br) br = Some (Inr fs)"
          and "fs_io_handle fs = Some (io_handle_of_boot_record ?io br)"
          and "tables_of (io_handle_of_boot_record ?io br) fs" and "fs_root_directory fs = Some d"
          and "directory_wf view d"
        then show ?thesis
          using assms(3) geometry_of_boot_record [OF br, of ?io]
          by (intro opened [of "?v\<lparr> vol_file_system := Some fs \<rparr>"])
            (simp_all add: read volume_open_def volume_closed_def)
      qed
    qed
  qed
qed

text \<open>The bound of the theorems: no file has more than 2^53 bytes.\<close>

definition bounded_sizes :: "'h bfio_ops \<Rightarrow> bool" where
  "bounded_sizes B \<longleftrightarrow> (\<forall>h n. bfio_handle_get_size B h = Some n \<longrightarrow> unat n \<le> 2 ^ 53)"

lemma open_file_io_handle_ends:
  fixes C :: "('cache, 'value, 'arr directory) cache_ops" and v :: "('h, 'arr, 'cache) volume"
  assumes "array_contract A view" and "array_contract T tview" and "volume_closed v"
    and size: "bounded_sizes B"
  obtains (failed) e v' h' where
      "libfsfat_volume_open_file_io_handle junk C A T B (Some v) file_io_handle access_flags =
        Some (Some v', h', Inl e)" and "volume_closed v'"
  | (opened) v' h' where
      "libfsfat_volume_open_file_io_handle junk C A T B (Some v) file_io_handle access_flags =
        Some (Some v', Some h', Inr ())"
    and "volume_open view v'" and "vol_file_io_handle v' = Some h'"
    and "vol_file_io_handle_created_in_library v' = 0"
proof -
  have closed: "vol_file_io_handle v = None" using assms(3) by (simp add: volume_closed_def)
  show ?thesis
  proof (cases "\<exists>e h'. libfsfat_volume_open_file_io_handle junk C A T B (Some v) file_io_handle access_flags =
      Some (Some v, h', Inl e)")
    case True
    then show ?thesis using failed assms(3) by blast
  next
    case False
    obtain h h1 opened_in_library where h: "file_io_handle = Some h"
      and flags: "access_flags AND ACCESS_FLAG_READ \<noteq> 0" "access_flags AND ACCESS_FLAG_WRITE = 0"
      and started: "opened_file_io_handle B h = (h1, opened_in_library, Inr ())"
      using False closed
      by (auto simp: libfsfat_volume_open_file_io_handle_def split: option.splits sum.splits prod.splits if_splits)
    note unfold = libfsfat_volume_open_file_io_handle_def h flags started closed
    show ?thesis
    proof (rule open_read_ends [OF assms(1-3), where C = C and junk = junk and B = B and h = h1])
      show "\<And>n. bfio_handle_get_size B h1 = Some n \<Longrightarrow> unat n \<le> 2 ^ 53"
        using size by (simp add: bounded_sizes_def)
    next
      fix e v'
      assume "libfsfat_internal_volume_open_read junk C A T B (Some v) h1 = Some (Some v', Inl e)"
        and "volume_closed v'"
      then show ?thesis by (intro failed [of v']) (simp_all add: unfold)
    next
      fix v'
      assume "libfsfat_internal_volume_open_read junk C A T B (Some v) h1 = Some (Some v', Inr ())"
        and "volume_open view (v'\<lparr> vol_file_io_handle := Some h1 \<rparr>)"
        and "vol_file_io_handle v' = None" and "vol_file_io_handle_created_in_library v' = 0"
      then show ?thesis
        by (intro opened [of "v'\<lparr> vol_file_io_handle := Some h1,
            vol_file_io_handle_opened_in_library := opened_in_library \<rparr>" h1])
          (simp_all add: unfold volume_open_def)
    qed
  qed
qed

section \<open>Looking up paths changes nothing but the cache\<close>

definition same_but_cache :: "('arr, 'cache) file_system \<Rightarrow> ('arr, 'cache) file_system \<Rightarrow> bool" where
  "same_but_cache fs fs' \<longleftrightarrow> (\<exists>c. fs' = fs\<lparr> fs_directory_cache := c \<rparr>)"

lemma same_but_cache_refl [simp]: "same_but_cache fs fs"
  by (auto simp: same_but_cache_def intro: exI [of _ "fs_directory_cache fs"])

lemma same_but_cache_trans: "same_but_cache fs fs' \<Longrightarrow> same_but_cache fs' fs'' \<Longrightarrow> same_but_cache fs fs''"
  by (auto simp: same_but_cache_def)

lemma get_directory_cache:
  "libfsfat_file_system_get_directory C A T (Some fs) bfio c = Some (Inr (fs', d)) \<Longrightarrow> same_but_cache fs fs'"
  by (auto simp: libfsfat_file_system_get_directory_def same_but_cache_def
      intro: exI [of _ "fs_directory_cache fs"] split: option.splits sum.splits)

lemma path_directory_cache:
  "path_directory C A T bfio w = Some (Inr w') \<Longrightarrow> same_but_cache (pw_file_system w) (pw_file_system w')"
  by (auto simp: path_directory_def get_directory_cache split: if_splits option.splits sum.splits)

lemma path_lookup_cache:
  "path_lookup lookup i k w = Some (Inr (w', f)) \<Longrightarrow> pw_file_system w' = pw_file_system w"
  by (auto simp: path_lookup_def split: if_splits option.splits sum.splits)

lemma walk_path_cache:
  assumes "walk_path C A T bfio next_character lookup n i found w = Some (Inr (w', f))"
  shows "same_but_cache (pw_file_system w) (pw_file_system w')"
proof -
  define P where "P w r = (case r of Inl e \<Rightarrow> True
    | Inr (w', f) \<Rightarrow> same_but_cache (pw_file_system w) (pw_file_system w'))"
    for w :: "('a, 'b) path_walk" and r :: "(('a, 'b) path_walk \<times> bool) result"
  have "P w (Inr (w', f))"
  proof (rule walk_path.raw_induct [where P = "\<lambda>C A T bfio next_character lookup n i found w r. P w r", OF _ assms],
      goal_cases)
    case (1 walk C A T bfio next_character lookup n i found w r)
    note IH = 1(1)
    show ?case
    proof (cases "i < n")
      case False
      then show ?thesis using 1(2) by (auto simp: P_def)
    next
      case True
      show ?thesis
      proof (cases r)
        case (Inr q)
        obtain w1 where w1: "path_directory C A T bfio w = Some (Inr w1)"
          using 1(2) True Inr by (auto split: option.splits sum.splits)
        obtain j sep where seg: "path_segment_end next_character n i = Some (Inr (j, sep))"
          using 1(2) True Inr w1 by (auto split: option.splits sum.splits)
        obtain w2 f2 where w2: "path_lookup lookup i (j - (i + (if sep then 1 else 0))) w1 = Some (Inr (w2, f2))"
          using 1(2) True Inr w1 seg by (auto split: option.splits sum.splits)
        have step: "same_but_cache (pw_file_system w) (pw_file_system w2)"
          using path_directory_cache [OF w1] path_lookup_cache [OF w2] by simp
        show ?thesis
        proof (cases f2)
          case False
          then show ?thesis using 1(2) True Inr w1 seg w2 step by (auto simp: P_def)
        next
          case f2: True
          have "walk C A T bfio next_character lookup n j True w2 = Some r"
            using 1(2) True w1 seg w2 f2 by simp
          from IH [OF this] show ?thesis
            using step by (auto simp: P_def Inr intro: same_but_cache_trans split: prod.splits)
        qed
      qed (simp add: P_def)
    qed
  qed
  then show ?thesis by (simp add: P_def)
qed

lemma file_entry_by_path_cache:
  assumes "file_entry_by_path C A T X next_character lookup fs bfio string n file_entry =
    Some (Inr (fs', found, fe))"
  shows "same_but_cache fs fs'"
proof -
  let ?w = "\<lparr> pw_file_system = fs, pw_in_root = True, pw_directory = fs_root_directory fs,
    pw_directory_entry = None, pw_cluster_number = 0 \<rparr>"
  let ?i = "if n > 0 \<and> string ! 0 = ucast LIBFSFAT_SEPARATOR then 1 else 0"
  show ?thesis
  proof (cases "n = 0 \<or> n = 1")
    case True
    then show ?thesis
      using assms by (auto simp: file_entry_by_path_def Let_def split: sum.splits)
  next
    case False
    then obtain w f where w: "walk_path C A T bfio next_character lookup n ?i False ?w = Some (Inr (w, f))"
      and "fs' = pw_file_system w"
      using assms by (auto simp: file_entry_by_path_def Let_def split: option.splits sum.splits)
    then show ?thesis using walk_path_cache [OF w] by simp
  qed
qed

section \<open>What holds after any sequence of operations\<close>

text \<open>
  The operations that change a volume, each with any arguments, and the volumes they lead
  to. A call that ends in an error is a step too; the paths that fail leave the volume as
  it was. A file entry that is made for a path has no stream yet.
\<close>

inductive volume_step ::
  "una_ops \<Rightarrow> ('cache, 'value, 'arr directory) cache_ops \<Rightarrow> ('arr, nat) array_ops \<Rightarrow>
   ('tarr, node_entry) array_ops \<Rightarrow> ('xarr, extent) array_ops \<Rightarrow> 'h bfio_ops \<Rightarrow>
   ('h, 'arr, 'cache) volume \<Rightarrow> ('h, 'arr, 'cache) volume \<Rightarrow> bool"
  for U C A T X B where
  step_open_handle: "libfsfat_volume_open_file_io_handle junk C A T B (Some v) h access_flags =
    Some (Some v', h', r) \<Longrightarrow> volume_step U C A T X B v v'"
| step_open: "libfsfat_volume_open junk C A T B (Some v) filename access_flags = Some (Some v', r) \<Longrightarrow>
    volume_step U C A T X B v v'"
| step_open_wide: "libfsfat_volume_open_wide junk C A T B (Some v) wide_filename access_flags = Some (Some v', r) \<Longrightarrow>
    volume_step U C A T X B v v'"
| step_close: "libfsfat_volume_close B (Some v) = (Some v', h', r) \<Longrightarrow> volume_step U C A T X B v v'"
| step_abort: "libfsfat_volume_signal_abort (Some v) = Inr v' \<Longrightarrow> volume_step U C A T X B v v'"
| step_utf8_path: "libfsfat_volume_get_file_entry_by_utf8_path U C A T X B (Some v) utf8_string n None =
    Some (Inr (v', found, fe :: ('arr, 'cache, 'xarr, unit) file_entry)) \<Longrightarrow> volume_step U C A T X B v v'"
| step_utf16_path: "libfsfat_volume_get_file_entry_by_utf16_path U C A T X B (Some v) utf16_string n None =
    Some (Inr (v', found, fe :: ('arr, 'cache, 'xarr, unit) file_entry)) \<Longrightarrow> volume_step U C A T X B v v'"

inductive volume_reachable ::
  "una_ops \<Rightarrow> ('cache, 'value, 'arr directory) cache_ops \<Rightarrow> ('arr, nat) array_ops \<Rightarrow>
   ('tarr, node_entry) array_ops \<Rightarrow> ('xarr, extent) array_ops \<Rightarrow> 'h bfio_ops \<Rightarrow>
   ('h, 'arr, 'cache) volume \<Rightarrow> bool"
  for U C A T X B where
  reachable_new: "libfsfat_volume_initialize None = Inr v \<Longrightarrow> volume_reachable U C A T X B v"
| reachable_step: "volume_reachable U C A T X B v \<Longrightarrow> volume_step U C A T X B v v' \<Longrightarrow>
    volume_reachable U C A T X B v'"

lemma new_volume_closed: "libfsfat_volume_initialize None = Inr v \<Longrightarrow> volume_closed v"
  by (auto simp: libfsfat_volume_initialize_def libfsfat_io_handle_initialize_def volume_closed_def)

lemma volume_open_cache:
  "volume_open view v \<Longrightarrow> vol_file_system v = Some fs \<Longrightarrow> same_but_cache fs fs' \<Longrightarrow>
   volume_open view (v\<lparr> vol_file_system := Some fs' \<rparr>)"
  by (auto simp: volume_open_def same_but_cache_def tables_of_def)

lemma volume_open_abort:
  assumes "libfsfat_volume_signal_abort (Some v) = Inr v'"
  shows "volume_closed v \<Longrightarrow> volume_closed v'" and "volume_open view v \<Longrightarrow> volume_open view v'"
proof -
  obtain io where io: "vol_io_handle v = Some io"
    and v': "v' = v\<lparr> vol_io_handle := Some (io\<lparr> io_abort := 1 \<rparr>),
      vol_file_system := map_option (\<lambda>fs. fs\<lparr> fs_io_handle := Some (io\<lparr> io_abort := 1 \<rparr>) \<rparr>) (vol_file_system v) \<rparr>"
    using assms by (auto simp: libfsfat_volume_signal_abort_def Let_def split: option.splits)
  show "volume_closed v \<Longrightarrow> volume_closed v'" by (simp add: v' volume_closed_def)
  show "volume_open view v \<Longrightarrow> volume_open view v'"
    by (auto simp: v' io volume_open_def geometry_wf_def tables_of_def)
qed

lemma close_closes:
  assumes "volume_open view v" and "libfsfat_volume_close B (Some v) = (Some v', h', r)"
  shows "volume_closed v'" and "vol_io_handle v' = Some io_handle_zero"
  using assms
  by (auto simp: volume_open_def volume_closed_def libfsfat_volume_close_def libfsfat_io_handle_clear_def
    Let_def split: prod.splits if_splits)

lemma close_closed:
  "volume_closed v \<Longrightarrow> libfsfat_volume_close B (Some v) = (Some v, None, Inl RUNTIME_VALUE_MISSING)"
  by (simp add: volume_closed_def libfsfat_volume_close_def)

lemma open_by_name_ends:
  fixes C :: "('cache, 'value, 'arr directory) cache_ops" and v :: "('h, 'arr, 'cache) volume"
  assumes "array_contract A view" and "array_contract T tview" and "volume_closed v"
    and size: "bounded_sizes B"
  obtains v' r where "open_by_name junk C A T B set_name (Some v) filename access_flags = Some (Some v', r)"
    and "case r of Inl e \<Rightarrow> volume_closed v' | Inr _ \<Rightarrow> volume_open view v'"
proof (cases "\<exists>e. open_by_name junk C A T B set_name (Some v) filename access_flags = Some (Some v, Inl e)")
  case True
  then show ?thesis using that assms(3) by fastforce
next
  case False
  obtain f h h1 where f: "filename = Some f" and h: "bfio_file_initialize B = Some h"
    "set_name h f (length f + 1) = Some h1"
    and flags: "access_flags AND ACCESS_FLAG_READ \<noteq> 0" "access_flags AND ACCESS_FLAG_WRITE = 0"
    using False by (auto simp: open_by_name_def split: option.splits if_splits)
  note unfold = open_by_name_def f h flags
  show ?thesis
  proof (rule open_file_io_handle_ends [OF assms, where C = C and junk = junk and
        file_io_handle = "Some h1" and access_flags = access_flags])
    fix e v' h'
    assume "libfsfat_volume_open_file_io_handle junk C A T B (Some v) (Some h1) access_flags =
        Some (Some v', h', Inl e)" and "volume_closed v'"
    then show ?thesis using h by (intro that [of v' "Inl IO_OPEN_FAILED"]) (simp_all add: unfold)
  next
    fix v' h'
    assume "libfsfat_volume_open_file_io_handle junk C A T B (Some v) (Some h1) access_flags =
        Some (Some v', Some h', Inr ())" and "volume_open view v'"
    then show ?thesis
      using h
      by (intro that [of "v'\<lparr> vol_file_io_handle_created_in_library := 1 \<rparr>" "Inr ()"])
        (simp_all add: unfold volume_open_def)
  qed
qed

lemma open_volume_refuses:
  assumes "volume_open view v"
  shows "libfsfat_volume_open_file_io_handle junk C A T B (Some v) h access_flags =
      Some (Some v, h, Inl RUNTIME_VALUE_ALREADY_SET)"
    and "open_by_name junk C A T B set_name (Some v) filename access_flags = Some (v', r) \<Longrightarrow> v' = Some v"
  using assms
  by (auto simp: volume_open_def libfsfat_volume_open_file_io_handle_def open_by_name_def
    split: option.splits if_splits)

lemma paths_of_closed:
  "volume_closed v \<Longrightarrow> libfsfat_volume_get_file_entry_by_utf8_path U C A T X B (Some v) string8 n8 None =
     Some (Inl RUNTIME_GET_FAILED)"
  "volume_closed v \<Longrightarrow> libfsfat_volume_get_file_entry_by_utf16_path U C A T X B (Some v) string16 n16 None =
     Some (Inl RUNTIME_GET_FAILED)"
  by (simp_all add: volume_closed_def libfsfat_volume_get_file_entry_by_utf8_path_def
    libfsfat_volume_get_file_entry_by_utf16_path_def libfsfat_file_system_get_file_entry_by_utf8_path_def
    libfsfat_file_system_get_file_entry_by_utf16_path_def)

lemma paths_of_open:
  assumes "volume_open view v"
  shows "libfsfat_volume_get_file_entry_by_utf8_path U C A T X B (Some v) string8 n8 None =
      Some (Inr (v', found, fe)) \<Longrightarrow> volume_open view v'"
    and "libfsfat_volume_get_file_entry_by_utf16_path U C A T X B (Some v) string16 n16 None =
      Some (Inr (v', found, fe)) \<Longrightarrow> volume_open view v'"
  using volume_open_cache [OF assms]
  by (auto simp: libfsfat_volume_get_file_entry_by_utf8_path_def
    libfsfat_volume_get_file_entry_by_utf16_path_def libfsfat_file_system_get_file_entry_by_utf8_path_def
    libfsfat_file_system_get_file_entry_by_utf16_path_def split: option.splits sum.splits if_splits
    dest!: file_entry_by_path_cache)

lemma open_by_name_keeps:
  assumes "array_contract A view" and "array_contract T tview"
    and "bounded_sizes B"
    and "volume_closed v \<or> volume_open view v"
    and "open_by_name junk C A T B set_name (Some v) filename access_flags = Some (Some v', r)"
  shows "volume_closed v' \<or> volume_open view v'"
  using assms(4)
proof
  assume closed: "volume_closed v"
  obtain v1 r1 where "open_by_name junk C A T B set_name (Some v) filename access_flags = Some (Some v1, r1)"
    and "case r1 of Inl e \<Rightarrow> volume_closed v1 | Inr _ \<Rightarrow> volume_open view v1"
    by (rule open_by_name_ends [OF assms(1,2) closed assms(3)])
  then show ?thesis using assms(5) by (simp split: sum.splits)
next
  assume "volume_open view v"
  then show ?thesis using open_volume_refuses(2) assms(5) by blast
qed

lemma volume_step_keeps:
  assumes "volume_step U C A T X B v v'" and "array_contract A view" and "array_contract T tview"
    and size: "bounded_sizes B"
    and "volume_closed v \<or> volume_open view v"
  shows "volume_closed v' \<or> volume_open view v'"
  using assms(1)
proof cases
  case (step_open_handle junk h access_flags h' r)
  from assms(5) show ?thesis
  proof
    assume closed: "volume_closed v"
    show ?thesis
      by (rule open_file_io_handle_ends [OF assms(2,3) closed size, where C = C and junk = junk and
            file_io_handle = h and access_flags = access_flags])
        (use step_open_handle in simp_all)
  next
    assume "volume_open view v"
    then show ?thesis using step_open_handle open_volume_refuses(1) by (metis Pair_inject option.inject)
  qed
next
  case (step_open junk filename access_flags r)
  then show ?thesis
    using open_by_name_keeps [OF assms(2-5)] by (simp add: libfsfat_volume_open_def)
next
  case (step_open_wide junk wide_filename access_flags r)
  then show ?thesis
    using open_by_name_keeps [OF assms(2-5)] by (simp add: libfsfat_volume_open_wide_def)
next
  case (step_close h' r)
  from assms(5) show ?thesis
  proof
    assume closed: "volume_closed v"
    then show ?thesis using close_closed [OF closed, of B] step_close by simp
  next
    assume "volume_open view v"
    then show ?thesis using close_closes(1) step_close by blast
  qed
next
  case step_abort
  then show ?thesis using assms(5) volume_open_abort by blast
next
  case (step_utf8_path utf8_string n found fe)
  from assms(5) show ?thesis
  proof
    assume "volume_closed v"
    then show ?thesis using step_utf8_path by (simp add: paths_of_closed)
  next
    assume "volume_open view v"
    then show ?thesis using paths_of_open(1) step_utf8_path by blast
  qed
next
  case (step_utf16_path utf16_string n found fe)
  from assms(5) show ?thesis
  proof
    assume "volume_closed v"
    then show ?thesis using step_utf16_path by (simp add: paths_of_closed)
  next
    assume "volume_open view v"
    then show ?thesis using paths_of_open(2) step_utf16_path by blast
  qed
qed

text \<open>
  C1. Opening a volume always ends, whatever the file holds: a closed volume is then open, with
  a supported geometry, tables with an entry for every cluster and a well-formed root
  directory, or it is still closed and can be opened again.
\<close>

theorem volume_open_ends:
  assumes "array_contract A view" and "array_contract T tview" and "volume_closed v" and "bounded_sizes B"
  shows "\<exists>v' h' r.
    libfsfat_volume_open_file_io_handle junk C A T B (Some v) file_io_handle access_flags =
      Some (Some v', h', r) \<and>
    (case r of
       Inl e \<Rightarrow> volume_closed v'
     | Inr _ \<Rightarrow> volume_open view v' \<and> vol_file_io_handle v' = h')"
  by (rule open_file_io_handle_ends [OF assms, where C = C and junk = junk and
        file_io_handle = file_io_handle and access_flags = access_flags]) auto

text \<open>
  C2. After any sequence of calls that open it, by a handle or by a name, close it, signal an
  abort or look up paths, with or without errors, a volume is closed, with no file system and
  no file handle left, or open with all its parts well-formed.
\<close>

theorem volume_reachable_states:
  assumes "array_contract A view" and "array_contract T tview" and "bounded_sizes B"
    and "volume_reachable U C A T X B v"
  shows "volume_closed v \<or> volume_open view v"
  using assms(4)
proof (induction rule: volume_reachable.induct)
  case (reachable_new v)
  then show ?case using new_volume_closed by blast
next
  case (reachable_step v v')
  then show ?case using volume_step_keeps [OF _ assms(1-3)] by blast
qed

text \<open>
  Closing an open volume leaves it closed, with the IO handle cleared. The file handle is
  closed only if the volume opened it, and freed only if the volume created it; a handle of
  the caller that was already open stays open.
\<close>

theorem volume_close_releases:
  assumes "volume_open view v" and "vol_file_io_handle v = Some h"
  shows "\<exists>v' h' r. libfsfat_volume_close B (Some v) = (Some v', h', r) \<and>
    volume_closed v' \<and> vol_io_handle v' = Some io_handle_zero \<and>
    h' = (if vol_file_io_handle_created_in_library v \<noteq> 0 then None
          else Some (if vol_file_io_handle_opened_in_library v \<noteq> 0 then fst (bfio_handle_close B h) else h)) \<and>
    libfsfat_volume_close B (Some v') = (Some v', None, Inl RUNTIME_VALUE_MISSING)"
proof -
  obtain io where io: "vol_io_handle v = Some io" using assms(1) by (auto simp: volume_open_def)
  obtain h1 ok where hc: "bfio_handle_close B h = (h1, ok)" by fastforce
  obtain v' h' r where close: "libfsfat_volume_close B (Some v) = (Some v', h', r)"
    and h': "h' = (if vol_file_io_handle_created_in_library v \<noteq> 0 then None
          else Some (if vol_file_io_handle_opened_in_library v \<noteq> 0 then fst (bfio_handle_close B h) else h))"
    using assms(2) io hc
    by (cases "vol_file_io_handle_opened_in_library v = 0"; cases "vol_file_io_handle_created_in_library v = 0")
      (simp_all add: libfsfat_volume_close_def libfsfat_io_handle_clear_def)
  note closed = close_closes [OF assms(1) close]
  show ?thesis
    using close h' closed close_closed [OF closed(1)] by blast
qed

section \<open>A concrete volume\<close>

text \<open>A file handle with a name of its own that is open or closed, on a file whose reads fail.\<close>

definition broken_file :: "bool bfio_ops" where
  "broken_file =
     \<lparr> bfio_file_initialize = Some False, bfio_file_set_name = (\<lambda>h _ _. Some h),
       bfio_file_set_name_wide = (\<lambda>h _ _. Some h), bfio_handle_is_open = Some,
       bfio_handle_open = (\<lambda>_ _. (True, True)), bfio_handle_close = (\<lambda>_. (False, True)),
       bfio_handle_free = (\<lambda>_. True), bfio_handle_get_size = (\<lambda>_. Some 512),
       bfio_handle_read = (\<lambda>_ _ _. None) \<rparr>"

definition new_volume :: "(bool, nat option list, unit) volume" where
  "new_volume =
     \<lparr> vol_io_handle = Some io_handle_zero, vol_file_io_handle = None,
       vol_file_io_handle_created_in_library = 0, vol_file_io_handle_opened_in_library = 0,
       vol_file_system = None \<rparr>"

text \<open>A volume of one cluster that is open.\<close>

definition example_volume_io :: io_handle where
  "example_volume_io = io_handle_zero\<lparr> io_file_system_format := FORMAT_FAT12, io_bytes_per_sector := 512,
     io_cluster_block_size := 512, io_total_number_of_clusters := 1 \<rparr>"

definition example_volume :: "(bool, nat option list, unit) volume" where
  "example_volume =
     \<lparr> vol_io_handle = Some example_volume_io, vol_file_io_handle = Some True,
       vol_file_io_handle_created_in_library = 0, vol_file_io_handle_opened_in_library = 1,
       vol_file_system = Some
         \<lparr> fs_io_handle = Some example_volume_io,
           fs_allocation_table = Some \<lparr> number_of_cluster_numbers = 1, cluster_numbers = [0] \<rparr>,
           fs_reversed_allocation_table = None, fs_cache_timestamp = 0, fs_directory_cache = (),
           fs_root_directory = Some empty_directory \<rparr> \<rparr>"

lemma broken_file_bounded: "bounded_sizes broken_file"
  by (simp add: bounded_sizes_def broken_file_def)

lemma new_volume_initialized: "libfsfat_volume_initialize None = Inr new_volume"
  by (simp add: libfsfat_volume_initialize_def libfsfat_io_handle_initialize_def new_volume_def)

lemma example_volume_open: "volume_open (\<lambda>a. a) example_volume"
proof -
  have "geometry_wf example_volume_io"
    by (simp add: geometry_wf_def example_volume_io_def io_handle_zero_def)
  moreover have "directory_wf (\<lambda>a. a) empty_directory" 
    by (simp add: empty_directory_def directory_wf_def addresses_below_def)
  ultimately show ?thesis
    by (simp add: volume_open_def example_volume_def tables_of_def tables_wf_def allocation_table_wf_def
      maximum_clusters example_volume_io_def)
qed

theorem volume_open_ends_witness:
  "\<exists>v' h' r. libfsfat_volume_open_file_io_handle (\<lambda>_. 0) no_cache list_array
     (list_array :: (node_entry option list, node_entry) array_ops) broken_file (Some new_volume)
     (Some False) 1 = Some (Some v', h', r) \<and>
     (case r of
        Inl e \<Rightarrow> volume_closed v'
      | Inr _ \<Rightarrow> volume_open (\<lambda>a. a) v' \<and> vol_file_io_handle v' = h')"
  by (rule volume_open_ends [OF list_array_contract list_array_contract
        new_volume_closed [OF new_volume_initialized] broken_file_bounded])

theorem volume_reachable_states_witness:
  "volume_closed (new_volume\<lparr> vol_io_handle := Some (io_handle_zero\<lparr> io_abort := 1 \<rparr>) \<rparr>) \<or>
   volume_open (\<lambda>a. a) (new_volume\<lparr> vol_io_handle := Some (io_handle_zero\<lparr> io_abort := 1 \<rparr>) \<rparr>)"
proof -
  have "libfsfat_volume_signal_abort (Some new_volume) =
      Inr (new_volume\<lparr> vol_io_handle := Some (io_handle_zero\<lparr> io_abort := 1 \<rparr>) \<rparr>)"
    by (simp add: libfsfat_volume_signal_abort_def new_volume_def)
  then show ?thesis
    by (intro volume_reachable_states [OF list_array_contract
        list_array_contract [where 'a = node_entry] broken_file_bounded
        reachable_step [OF reachable_new [OF new_volume_initialized] step_abort, where U = ascii_una and
          C = no_cache and X = "list_array :: (extent option list, extent) array_ops"]])
qed

theorem volume_close_releases_witness:
  "\<exists>v' h' r. libfsfat_volume_close broken_file (Some example_volume) = (Some v', h', r) \<and>
     volume_closed v' \<and> vol_io_handle v' = Some io_handle_zero \<and> h' = Some False \<and>
     libfsfat_volume_close broken_file (Some v') = (Some v', None, Inl RUNTIME_VALUE_MISSING)"
  using volume_close_releases [OF example_volume_open, of True broken_file]
  by (simp add: example_volume_def broken_file_def)

end
