(* ===== verification/Py_File_Object.thy ===== *)
theory Py_File_Object
  imports Py_Object Volume
begin

text \<open>
  The IO handle over a Python file-like object, \<^verbatim>\<open>pyfsfat/pyfsfat_file_object_io_handle.c\<close>: the
  functions that libbfio calls to read a volume through the \<^verbatim>\<open>read\<close>, \<^verbatim>\<open>seek\<close> and \<^verbatim>\<open>tell\<close> of an
  object. The locale says what a file-like object promises, and the lemmas in it that the
  functions then serve the bytes of the object.
\<close>

section \<open>Calls of Python code\<close>

text \<open>
  The functions of Python that run code of the user, over the state \<open>'s\<close> of the objects. A
  call that does not return is \<open>None\<close>; one that returns leaves a state and either an
  exception, or the object it gives, where \<open>None\<close> is \<open>NULL\<close> without an exception.
\<close>

record ('o, 's) python_calls =
  py_has_attr :: "'s \<Rightarrow> 'o \<Rightarrow> string \<Rightarrow> 's \<times> bool"
  py_call_method :: "'s \<Rightarrow> 'o \<Rightarrow> string \<Rightarrow> 'o list \<Rightarrow> ('s \<times> 'o option py_result) option"

text \<open>A call of a method and the two checks that follow it, with the error for an exception.\<close>

definition call_method ::
  "('o, 's) python_calls \<Rightarrow> fs_error \<Rightarrow> 's \<Rightarrow> 'o \<Rightarrow> string \<Rightarrow> 'o list \<Rightarrow> ('s \<times> 'o result) option" where
  "call_method K failed s file_object method_name arguments =
     (case py_call_method K s file_object method_name arguments of
        None \<Rightarrow> None
      | Some (s, Inl _) \<Rightarrow> Some (s, Inl failed)
      | Some (s, Inr None) \<Rightarrow> Some (s, Inl RUNTIME_VALUE_MISSING)
      | Some (s, Inr (Some method_result)) \<Rightarrow> Some (s, Inr method_result))"

section \<open>The handle\<close>

record 'o file_object_io_handle =
  foh_file_object :: "'o option"
  foh_access_flags :: u32

definition pyfsfat_file_object_io_handle_initialize ::
  "'o file_object_io_handle option \<Rightarrow> 'o option \<Rightarrow> 'o file_object_io_handle result" where
  "pyfsfat_file_object_io_handle_initialize file_object_io_handle file_object =
     (if file_object_io_handle \<noteq> None then Inl RUNTIME_VALUE_ALREADY_SET
      else if file_object = None then Inl ARGUMENT_INVALID_VALUE
      else Inr \<lparr> foh_file_object = file_object, foh_access_flags = 0 \<rparr>)"

definition pyfsfat_file_object_io_handle_clone ::
  "'o file_object_io_handle option \<Rightarrow> 'o file_object_io_handle option \<Rightarrow>
   'o file_object_io_handle option result" where
  "pyfsfat_file_object_io_handle_clone destination_file_object_io_handle source_file_object_io_handle =
     (if destination_file_object_io_handle \<noteq> None then Inl RUNTIME_VALUE_ALREADY_SET
      else
        (case source_file_object_io_handle of
           None \<Rightarrow> Inr None
         | Some source \<Rightarrow>
             (case pyfsfat_file_object_io_handle_initialize destination_file_object_io_handle
                     (foh_file_object source) of
                Inl e \<Rightarrow> Inl RUNTIME_INITIALIZE_FAILED
              | Inr destination \<Rightarrow> Inr (Some destination))))"

definition pyfsfat_file_object_io_handle_open ::
  "'o file_object_io_handle option \<Rightarrow> u32 \<Rightarrow> 'o file_object_io_handle result" where
  "pyfsfat_file_object_io_handle_open file_object_io_handle access_flags =
     (case file_object_io_handle of
        None \<Rightarrow> Inl ARGUMENT_INVALID_VALUE
      | Some handle \<Rightarrow>
          if foh_file_object handle = None then Inl RUNTIME_VALUE_MISSING
          else if access_flags AND ACCESS_FLAG_READ \<noteq> 0 \<and> access_flags AND ACCESS_FLAG_WRITE \<noteq> 0
          then Inl ARGUMENT_UNSUPPORTED_VALUE
          else if access_flags AND ACCESS_FLAG_WRITE \<noteq> 0 then Inl ARGUMENT_UNSUPPORTED_VALUE
          else Inr (handle\<lparr> foh_access_flags := access_flags \<rparr>))"

definition pyfsfat_file_object_io_handle_close ::
  "'o file_object_io_handle option \<Rightarrow> 'o file_object_io_handle result" where
  "pyfsfat_file_object_io_handle_close file_object_io_handle =
     (case file_object_io_handle of
        None \<Rightarrow> Inl ARGUMENT_INVALID_VALUE
      | Some handle \<Rightarrow>
          if foh_file_object handle = None then Inl RUNTIME_VALUE_MISSING
          else Inr (handle\<lparr> foh_access_flags := 0 \<rparr>))"

definition pyfsfat_file_object_io_handle_exists :: "'o file_object_io_handle option \<Rightarrow> bool result" where
  "pyfsfat_file_object_io_handle_exists file_object_io_handle =
     (case file_object_io_handle of
        None \<Rightarrow> Inl ARGUMENT_INVALID_VALUE
      | Some handle \<Rightarrow> Inr (foh_file_object handle \<noteq> None))"

definition pyfsfat_file_object_io_handle_is_open :: "'o file_object_io_handle option \<Rightarrow> bool result" where
  "pyfsfat_file_object_io_handle_is_open file_object_io_handle =
     (case file_object_io_handle of
        None \<Rightarrow> Inl ARGUMENT_INVALID_VALUE
      | Some handle \<Rightarrow> if foh_file_object handle = None then Inl RUNTIME_VALUE_MISSING else Inr True)"

section \<open>Reading and writing\<close>

text \<open>
  The bytes that are stored at the start of the buffer of \<open>buffer_size\<close> bytes; their number is
  the result of the function. The object may give more bytes than it is asked for: the function
  copies them all.
\<close>

definition pyfsfat_file_object_read_buffer ::
  "'o python \<Rightarrow> ('o, 's) python_calls \<Rightarrow> 's \<Rightarrow> 'o option \<Rightarrow> nat \<Rightarrow> ('s \<times> u8 list result) option" where
  "pyfsfat_file_object_read_buffer P K s file_object buffer_size =
     (case file_object of
        None \<Rightarrow> Some (s, Inl ARGUMENT_INVALID_VALUE)
      | Some file_object \<Rightarrow>
          if buffer_size > SSIZE_MAX then Some (s, Inl ARGUMENT_VALUE_EXCEEDS_MAXIMUM)
          else if buffer_size = 0 then Some (s, Inr [])
          else
            (case call_method K IO_READ_FAILED s file_object ''read'' [py_long_from P (int buffer_size)] of
               None \<Rightarrow> None
             | Some (s, Inl e) \<Rightarrow> Some (s, Inl e)
             | Some (s, Inr method_result) \<Rightarrow>
                 Some (s,
                   (case py_is_instance P method_result PyBytes_Type of
                      None \<Rightarrow> Inl RUNTIME_GET_FAILED
                    | Some False \<Rightarrow> Inl RUNTIME_UNSUPPORTED_VALUE
                    | Some True \<Rightarrow>
                        (case py_bytes_as_string P method_result of
                           None \<Rightarrow> Inl IO_READ_FAILED
                         | Some safe_buffer \<Rightarrow>
                             if length safe_buffer > SSIZE_MAX then Inl RUNTIME_VALUE_EXCEEDS_MAXIMUM
                             else if length safe_buffer > buffer_size then Inl MEMORY_FAULT
                             else Inr safe_buffer)))))"

definition pyfsfat_file_object_io_handle_read ::
  "'o python \<Rightarrow> ('o, 's) python_calls \<Rightarrow> 's \<Rightarrow> 'o file_object_io_handle option \<Rightarrow> nat \<Rightarrow>
   ('s \<times> u8 list result) option" where
  "pyfsfat_file_object_io_handle_read P K s file_object_io_handle buffer_size =
     (case file_object_io_handle of
        None \<Rightarrow> Some (s, Inl ARGUMENT_INVALID_VALUE)
      | Some handle \<Rightarrow>
          (case pyfsfat_file_object_read_buffer P K s (foh_file_object handle) buffer_size of
             None \<Rightarrow> None
           | Some (s, Inl e) \<Rightarrow> Some (s, Inl (if e = MEMORY_FAULT then MEMORY_FAULT else IO_READ_FAILED))
           | Some (s, Inr buffer) \<Rightarrow> Some (s, Inr buffer)))"

text \<open>
  The number of bytes in the buffer, whatever the object says it has written. The limit is
  that of an \<open>int\<close>.
\<close>

definition pyfsfat_file_object_write_buffer ::
  "'o python \<Rightarrow> ('o, 's) python_calls \<Rightarrow> 's \<Rightarrow> 'o option \<Rightarrow> u8 list \<Rightarrow> ('s \<times> nat result) option" where
  "pyfsfat_file_object_write_buffer P K s file_object buffer =
     (case file_object of
        None \<Rightarrow> Some (s, Inl ARGUMENT_INVALID_VALUE)
      | Some file_object \<Rightarrow>
          if length buffer > unat INT_MAX then Some (s, Inl ARGUMENT_VALUE_EXCEEDS_MAXIMUM)
          else if length buffer = 0 then Some (s, Inr 0)
          else
            (case call_method K IO_WRITE_FAILED s file_object ''write'' [py_bytes_from_string P buffer] of
               None \<Rightarrow> None
             | Some (s, Inl e) \<Rightarrow> Some (s, Inl e)
             | Some (s, Inr method_result) \<Rightarrow> Some (s, Inr (length buffer))))"

definition pyfsfat_file_object_io_handle_write ::
  "'o python \<Rightarrow> ('o, 's) python_calls \<Rightarrow> 's \<Rightarrow> 'o file_object_io_handle option \<Rightarrow> u8 list \<Rightarrow>
   ('s \<times> nat result) option" where
  "pyfsfat_file_object_io_handle_write P K s file_object_io_handle buffer =
     (case file_object_io_handle of
        None \<Rightarrow> Some (s, Inl ARGUMENT_INVALID_VALUE)
      | Some handle \<Rightarrow>
          (case pyfsfat_file_object_write_buffer P K s (foh_file_object handle) buffer of
             None \<Rightarrow> None
           | Some (s, Inl e) \<Rightarrow> Some (s, Inl IO_WRITE_FAILED)
           | Some (s, Inr write_count) \<Rightarrow> Some (s, Inr write_count)))"

section \<open>Offsets\<close>

definition SEEK_SET :: int where "SEEK_SET = 0"
definition SEEK_CUR :: int where "SEEK_CUR = 1"
definition SEEK_END :: int where "SEEK_END = 2"

definition pyfsfat_file_object_seek_offset ::
  "'o python \<Rightarrow> ('o, 's) python_calls \<Rightarrow> 's \<Rightarrow> 'o option \<Rightarrow> off64 \<Rightarrow> int \<Rightarrow> ('s \<times> unit result) option" where
  "pyfsfat_file_object_seek_offset P K s file_object offset whence =
     (case file_object of
        None \<Rightarrow> Some (s, Inl ARGUMENT_INVALID_VALUE)
      | Some file_object \<Rightarrow>
          if INT64_MAX <s offset then Some (s, Inl ARGUMENT_VALUE_EXCEEDS_MAXIMUM)
          else if whence \<noteq> SEEK_CUR \<and> whence \<noteq> SEEK_END \<and> whence \<noteq> SEEK_SET
          then Some (s, Inl ARGUMENT_UNSUPPORTED_VALUE)
          else
            (case call_method K IO_SEEK_FAILED s file_object ''seek''
                    [py_long_from P (sint offset), py_long_from P whence] of
               None \<Rightarrow> None
             | Some (s, Inl e) \<Rightarrow> Some (s, Inl e)
             | Some (s, Inr method_result) \<Rightarrow> Some (s, Inr ())))"

definition pyfsfat_file_object_get_offset ::
  "'o python \<Rightarrow> ('o, 's) python_calls \<Rightarrow> 's \<Rightarrow> 'o option \<Rightarrow> ('s \<times> off64 result) option" where
  "pyfsfat_file_object_get_offset P K s file_object =
     (case file_object of
        None \<Rightarrow> Some (s, Inl ARGUMENT_INVALID_VALUE)
      | Some file_object \<Rightarrow>
          (case py_has_attr K s file_object ''get_offset'' of
             (s, has_method) \<Rightarrow>
               (case call_method K RUNTIME_GET_FAILED s file_object
                       (if has_method then ''get_offset'' else ''tell'') [] of
                  None \<Rightarrow> None
                | Some (s, Inl e) \<Rightarrow> Some (s, Inl e)
                | Some (s, Inr method_result) \<Rightarrow>
                    (case pyfsfat_integer_signed_copy_to_64bit P (Some method_result) of
                       Inl e \<Rightarrow> Some (s, Inl RUNTIME_GET_FAILED)
                     | Inr offset \<Rightarrow> Some (s, Inr offset)))))"

text \<open>The result is the return value; an object that gives the offset -1 looks like an error.\<close>

definition pyfsfat_file_object_io_handle_seek_offset ::
  "'o python \<Rightarrow> ('o, 's) python_calls \<Rightarrow> 's \<Rightarrow> 'o file_object_io_handle option \<Rightarrow> off64 \<Rightarrow> int \<Rightarrow>
   ('s \<times> off64 result) option" where
  "pyfsfat_file_object_io_handle_seek_offset P K s file_object_io_handle offset whence =
     (case file_object_io_handle of
        None \<Rightarrow> Some (s, Inl ARGUMENT_INVALID_VALUE)
      | Some handle \<Rightarrow>
          (case pyfsfat_file_object_seek_offset P K s (foh_file_object handle) offset whence of
             None \<Rightarrow> None
           | Some (s, Inl e) \<Rightarrow> Some (s, Inl IO_SEEK_FAILED)
           | Some (s, Inr _) \<Rightarrow>
               (case pyfsfat_file_object_get_offset P K s (foh_file_object handle) of
                  None \<Rightarrow> None
                | Some (s, Inl e) \<Rightarrow> Some (s, Inl IO_SEEK_FAILED)
                | Some (s, Inr offset) \<Rightarrow> Some (s, Inr offset))))"

section \<open>The size\<close>

definition pyfsfat_file_object_get_size ::
  "'o python \<Rightarrow> ('o, 's) python_calls \<Rightarrow> 's \<Rightarrow> 'o option \<Rightarrow> ('s \<times> u64 result) option" where
  "pyfsfat_file_object_get_size P K s file_object =
     (case file_object of
        None \<Rightarrow> Some (s, Inl ARGUMENT_INVALID_VALUE)
      | Some file_object \<Rightarrow>
          (case call_method K RUNTIME_GET_FAILED s file_object ''get_size'' [] of
             None \<Rightarrow> None
           | Some (s, Inl e) \<Rightarrow> Some (s, Inl e)
           | Some (s, Inr method_result) \<Rightarrow>
               (case pyfsfat_integer_unsigned_copy_to_64bit P (Some method_result) of
                  Inl e \<Rightarrow> Some (s, Inl RUNTIME_GET_FAILED)
                | Inr size0 \<Rightarrow> Some (s, Inr size0))))"

text \<open>
  The value that the function stores, or \<open>None\<close> when it stores none. It returns 1 also after
  an error in one of its calls.
\<close>

definition pyfsfat_file_object_io_handle_get_size ::
  "'o python \<Rightarrow> ('o, 's) python_calls \<Rightarrow> 's \<Rightarrow> 'o file_object_io_handle option \<Rightarrow>
   ('s \<times> u64 option result) option" where
  "pyfsfat_file_object_io_handle_get_size P K s file_object_io_handle =
     (case file_object_io_handle of
        None \<Rightarrow> Some (s, Inl ARGUMENT_INVALID_VALUE)
      | Some handle \<Rightarrow>
     (case foh_file_object handle of
        None \<Rightarrow> Some (s, Inl RUNTIME_VALUE_MISSING)
      | Some file_object \<Rightarrow>
     (case py_has_attr K s file_object ''get_size'' of
        (s, True) \<Rightarrow>
          (case pyfsfat_file_object_get_size P K s (Some file_object) of
             None \<Rightarrow> None
           | Some (s, Inl e) \<Rightarrow> Some (s, Inr None)
           | Some (s, Inr size0) \<Rightarrow> Some (s, Inr (Some size0)))
      | (s, False) \<Rightarrow>
          (case pyfsfat_file_object_get_offset P K s (Some file_object) of
             None \<Rightarrow> None
           | Some (s, Inl e) \<Rightarrow> Some (s, Inr None)
           | Some (s, Inr current_offset) \<Rightarrow>
          (case pyfsfat_file_object_seek_offset P K s (Some file_object) 0 SEEK_END of
             None \<Rightarrow> None
           | Some (s, Inl e) \<Rightarrow> Some (s, Inr None)
           | Some (s, Inr _) \<Rightarrow>
          (case pyfsfat_file_object_get_offset P K s (Some file_object) of
             None \<Rightarrow> None
           | Some (s, Inl e) \<Rightarrow>
               (case pyfsfat_file_object_seek_offset P K s (Some file_object) current_offset SEEK_SET of
                  None \<Rightarrow> None
                | Some (s, _) \<Rightarrow> Some (s, Inr None))
           | Some (s, Inr size0) \<Rightarrow>
               (case pyfsfat_file_object_seek_offset P K s (Some file_object) current_offset SEEK_SET of
                  None \<Rightarrow> None
                | Some (s, _) \<Rightarrow> Some (s, Inr (Some size0)))))))))"

section \<open>The handle of libbfio\<close>

text \<open>
  The functions that libbfio gets with a handle, and the two flags: libbfio frees the handle and
  clones it by its function.
\<close>

record ('o, 's) io_callbacks =
  io_clone :: "'o file_object_io_handle option \<Rightarrow> 'o file_object_io_handle option \<Rightarrow>
    'o file_object_io_handle option result"
  io_open :: "'o file_object_io_handle option \<Rightarrow> u32 \<Rightarrow> 'o file_object_io_handle result"
  io_close :: "'o file_object_io_handle option \<Rightarrow> 'o file_object_io_handle result"
  io_read :: "'s \<Rightarrow> 'o file_object_io_handle option \<Rightarrow> nat \<Rightarrow> ('s \<times> u8 list result) option"
  io_write :: "'s \<Rightarrow> 'o file_object_io_handle option \<Rightarrow> u8 list \<Rightarrow> ('s \<times> nat result) option"
  io_seek_offset :: "'s \<Rightarrow> 'o file_object_io_handle option \<Rightarrow> off64 \<Rightarrow> int \<Rightarrow> ('s \<times> off64 result) option"
  io_exists :: "'o file_object_io_handle option \<Rightarrow> bool result"
  io_is_open :: "'o file_object_io_handle option \<Rightarrow> bool result"
  io_get_size :: "'s \<Rightarrow> 'o file_object_io_handle option \<Rightarrow> ('s \<times> u64 option result) option"
  io_managed :: bool
  io_clone_by_function :: bool

definition pyfsfat_file_object_callbacks ::
  "'o python \<Rightarrow> ('o, 's) python_calls \<Rightarrow> ('o, 's) io_callbacks" where
  "pyfsfat_file_object_callbacks P K =
     \<lparr> io_clone = pyfsfat_file_object_io_handle_clone, io_open = pyfsfat_file_object_io_handle_open,
       io_close = pyfsfat_file_object_io_handle_close,
       io_read = pyfsfat_file_object_io_handle_read P K, io_write = pyfsfat_file_object_io_handle_write P K,
       io_seek_offset = pyfsfat_file_object_io_handle_seek_offset P K,
       io_exists = pyfsfat_file_object_io_handle_exists, io_is_open = pyfsfat_file_object_io_handle_is_open,
       io_get_size = pyfsfat_file_object_io_handle_get_size P K,
       io_managed = True, io_clone_by_function = True \<rparr>"

text \<open>\<^verbatim>\<open>libbfio_handle_initialize\<close> is a parameter: the handle it makes, or \<open>None\<close> if it fails.\<close>

type_synonym ('o, 's, 'h) new_handle = "'o file_object_io_handle \<Rightarrow> ('o, 's) io_callbacks \<Rightarrow> 'h option"

definition pyfsfat_file_object_initialize ::
  "'o python \<Rightarrow> ('o, 's) python_calls \<Rightarrow> ('o, 's, 'h) new_handle \<Rightarrow> 'h option \<Rightarrow> 'o option \<Rightarrow> 'h result" where
  "pyfsfat_file_object_initialize P K libbfio_handle_initialize handle file_object =
     (if handle \<noteq> None then Inl RUNTIME_VALUE_ALREADY_SET
      else
        (case pyfsfat_file_object_io_handle_initialize None file_object of
           Inl e \<Rightarrow> Inl RUNTIME_INITIALIZE_FAILED
         | Inr file_object_io_handle \<Rightarrow>
             (case libbfio_handle_initialize file_object_io_handle (pyfsfat_file_object_callbacks P K) of
                None \<Rightarrow> Inl RUNTIME_INITIALIZE_FAILED
              | Some handle \<Rightarrow> Inr handle)))"

section \<open>File-like objects\<close>

text \<open>
  What a client of the functions relies on: in the states in \<open>valid\<close> the functions read the bytes
  of \<open>content\<close>, up to \<open>limit\<close> of them at a time, seek in them and give their number.
\<close>

definition callbacks_serve ::
  "('o, 's) io_callbacks \<Rightarrow> 'o file_object_io_handle \<Rightarrow> ('s \<Rightarrow> bool) \<Rightarrow> ('s \<Rightarrow> nat) \<Rightarrow> u8 list \<Rightarrow> nat \<Rightarrow> bool" where
  "callbacks_serve cb handle valid position content limit \<longleftrightarrow>
     (\<forall>s n. valid s \<longrightarrow> n \<le> limit \<longrightarrow>
        (\<exists>s'. io_read cb s (Some handle) n = Some (s', Inr (take n (drop (position s) content))) \<and>
           valid s' \<and> position s' = position s + length (take n (drop (position s) content)))) \<and>
     (\<forall>s offset. valid s \<longrightarrow> unat offset < 2 ^ 63 \<longrightarrow>
        (\<exists>s'. io_seek_offset cb s (Some handle) offset SEEK_SET = Some (s', Inr offset) \<and>
           valid s' \<and> position s' = unat offset)) \<and>
     (\<forall>s. valid s \<longrightarrow>
        (\<exists>s'. io_get_size cb s (Some handle) = Some (s', Inr (Some (of_nat (length content)))) \<and>
           valid s' \<and> position s' = position s)) \<and>
     io_exists cb (Some handle) = Inr True \<and> io_is_open cb (Some handle) = Inr True"

text \<open>
  The interface of a file-like object: \<^verbatim>\<open>read\<close> gives the next bytes and moves the position
  behind them, \<^verbatim>\<open>seek\<close> moves it, \<^verbatim>\<open>get_offset\<close> or \<^verbatim>\<open>tell\<close> gives it, and the size comes from
  \<^verbatim>\<open>get_size\<close> or from seeking to the end.
\<close>

locale file_like =
  fixes P :: "'o python" and K :: "('o, 's) python_calls" and file_object :: 'o
    and valid :: "'s \<Rightarrow> bool" and position :: "'s \<Rightarrow> nat" and content :: "u8 list" and limit :: nat
  assumes limit: "limit \<le> SSIZE_MAX"
    and basics: "valid s \<Longrightarrow> python_contract P \<and> length content < 2 ^ 63 \<and> position s < 2 ^ 63"
    and read_law: "valid s \<Longrightarrow> 0 < n \<Longrightarrow> n \<le> limit \<Longrightarrow>
      \<exists>s'. py_call_method K s file_object ''read'' [py_long_from P (int n)] =
          Some (s', Inr (Some (py_bytes_from_string P (take n (drop (position s) content))))) \<and>
        valid s' \<and> position s' = position s + length (take n (drop (position s) content))"
    and seek_law: "valid s \<Longrightarrow> n < 2 ^ 63 \<Longrightarrow>
      \<exists>s' x. py_call_method K s file_object ''seek'' [py_long_from P (int n), py_long_from P SEEK_SET] =
          Some (s', Inr (Some x)) \<and> valid s' \<and> position s' = n"
    and offset_law: "valid s \<Longrightarrow>
      \<exists>s1 b s2. py_has_attr K s file_object ''get_offset'' = (s1, b) \<and>
        py_call_method K s1 file_object (if b then ''get_offset'' else ''tell'') [] =
          Some (s2, Inr (Some (py_long_from P (int (position s))))) \<and> valid s2 \<and> position s2 = position s"
    and size_law: "valid s \<Longrightarrow>
      \<exists>s1 b. py_has_attr K s file_object ''get_size'' = (s1, b) \<and> valid s1 \<and> position s1 = position s \<and>
        (b \<longrightarrow> (\<exists>s2. py_call_method K s1 file_object ''get_size'' [] =
          Some (s2, Inr (Some (py_long_from P (int (length content))))) \<and> valid s2 \<and> position s2 = position s)) \<and>
        (\<not> b \<longrightarrow> (\<forall>s. valid s \<longrightarrow>
          (\<exists>s2 x. py_call_method K s file_object ''seek'' [py_long_from P 0, py_long_from P SEEK_END] =
             Some (s2, Inr (Some x)) \<and> valid s2 \<and> position s2 = length content)))"
begin

lemma python: "valid s \<Longrightarrow> python_contract P"
  and content_length: "valid s \<Longrightarrow> length content < 2 ^ 63"
  and position_small: "valid s \<Longrightarrow> position s < 2 ^ 63"
  using basics by blast+

lemma read_buffer:
  assumes "valid s" and "n \<le> limit"
  shows "\<exists>s'. pyfsfat_file_object_read_buffer P K s (Some file_object) n =
      Some (s', Inr (take n (drop (position s) content))) \<and>
    valid s' \<and> position s' = position s + length (take n (drop (position s) content))"
proof (cases "n = 0")
  case True
  then show ?thesis using assms by (simp add: pyfsfat_file_object_read_buffer_def SSIZE_MAX_def)
next
  case False
  let ?data = "take n (drop (position s) content)"
  obtain s' where call: "py_call_method K s file_object ''read'' [py_long_from P (int n)] =
      Some (s', Inr (Some (py_bytes_from_string P ?data)))"
    and after: "valid s'" "position s' = position s + length ?data"
    using read_law [OF assms(1) _ assms(2)] False by blast
  have small: "n \<le> SSIZE_MAX" "length ?data \<le> n" using assms(2) limit by simp_all
  then have "length ?data \<le> SSIZE_MAX" by (rule order_trans [rotated])
  then have "pyfsfat_file_object_read_buffer P K s (Some file_object) n = Some (s', Inr ?data)"
    using small False
    by (simp add: pyfsfat_file_object_read_buffer_def call_method_def call python_contractD [OF python [OF assms(1)]] not_less
        del: length_take length_drop)
  then show ?thesis using after by blast
qed

lemma seek_offset:
  assumes "valid s" and "unat offset < 2 ^ 63"
  shows "\<exists>s'. pyfsfat_file_object_seek_offset P K s (Some file_object) offset SEEK_SET = Some (s', Inr ()) \<and>
    valid s' \<and> position s' = unat offset"
proof -
  obtain s' x where call: "py_call_method K s file_object ''seek''
      [py_long_from P (int (unat offset)), py_long_from P SEEK_SET] = Some (s', Inr (Some x))"
    and after: "valid s'" "position s' = unat offset"
    using seek_law [OF assms] by blast
  have "sint offset = uint offset" by (rule sint_small [OF assms(2)])
  moreover have "\<not> INT64_MAX <s offset"
    using sless_unat [of INT64_MAX offset] assms(2) by (simp add: INT64_MAX_def)
  ultimately show ?thesis
    using call after by (simp add: pyfsfat_file_object_seek_offset_def call_method_def)
qed

lemma get_offset:
  assumes "valid s"
  shows "\<exists>s'. pyfsfat_file_object_get_offset P K s (Some file_object) =
      Some (s', Inr (of_nat (position s))) \<and> valid s' \<and> position s' = position s"
proof -
  obtain s1 b s2 where "py_has_attr K s file_object ''get_offset'' = (s1, b)"
    "py_call_method K s1 file_object (if b then ''get_offset'' else ''tell'') [] =
       Some (s2, Inr (Some (py_long_from P (int (position s)))))" "valid s2" "position s2 = position s"
    using offset_law [OF assms] by blast
  then show ?thesis
    using position_small [OF assms]
    by (simp add: pyfsfat_file_object_get_offset_def call_method_def signed_copy_long [OF python [OF assms]])
qed

lemma get_size:
  assumes "valid s"
  shows "\<exists>s'. pyfsfat_file_object_io_handle_get_size P K s
      (Some \<lparr> foh_file_object = Some file_object, foh_access_flags = flags \<rparr>) =
      Some (s', Inr (Some (of_nat (length content)))) \<and> valid s' \<and> position s' = position s"
proof -
  obtain s1 b where attr: "py_has_attr K s file_object ''get_size'' = (s1, b)" "valid s1" "position s1 = position s"
    and size0: "b \<longrightarrow> (\<exists>s2. py_call_method K s1 file_object ''get_size'' [] =
          Some (s2, Inr (Some (py_long_from P (int (length content))))) \<and> valid s2 \<and> position s2 = position s)"
    and the_end: "\<not> b \<longrightarrow> (\<forall>s. valid s \<longrightarrow>
          (\<exists>s2 x. py_call_method K s file_object ''seek'' [py_long_from P 0, py_long_from P SEEK_END] =
             Some (s2, Inr (Some x)) \<and> valid s2 \<and> position s2 = length content))"
    using size_law [OF assms] by blast
  show ?thesis
  proof (cases b)
    case True
    then show ?thesis
      using attr size0 content_length [OF assms]
      by (auto simp: pyfsfat_file_object_io_handle_get_size_def pyfsfat_file_object_get_size_def call_method_def
          unsigned_copy_long [OF python [OF assms]])
  next
    case False
    obtain s2 where s2: "pyfsfat_file_object_get_offset P K s1 (Some file_object) =
        Some (s2, Inr (of_nat (position s)))" "valid s2"
      using get_offset [OF attr(2)] attr(3) by auto
    obtain s3 x where s3: "py_call_method K s2 file_object ''seek'' [py_long_from P 0, py_long_from P SEEK_END] =
        Some (s3, Inr (Some x))" "valid s3" "position s3 = length content"
      using the_end False s2(2) by blast
    have seek_end: "pyfsfat_file_object_seek_offset P K s2 (Some file_object) 0 SEEK_END = Some (s3, Inr ())"
      using s3(1) by (simp add: pyfsfat_file_object_seek_offset_def call_method_def INT64_MAX_def SEEK_END_def
          word_sless_alt)
    obtain s4 where s4: "pyfsfat_file_object_get_offset P K s3 (Some file_object) =
        Some (s4, Inr (of_nat (length content)))" "valid s4"
      using get_offset [OF s3(2)] s3(3) by auto
    have pos: "unat (of_nat (position s) :: off64) = position s"
      using position_small [OF assms] by simp
    obtain s5 where s5: "pyfsfat_file_object_seek_offset P K s4 (Some file_object) (of_nat (position s)) SEEK_SET =
        Some (s5, Inr ())" "valid s5" "position s5 = position s"
      using seek_offset [OF s4(2), of "of_nat (position s)"] position_small [OF assms] unfolding pos by blast
    show ?thesis
      using attr(1) False s2(1) seek_end s4(1) s5 by (simp add: pyfsfat_file_object_io_handle_get_size_def)
  qed
qed

lemma serves:
  "callbacks_serve (pyfsfat_file_object_callbacks P K)
     \<lparr> foh_file_object = Some file_object, foh_access_flags = flags \<rparr> valid position content limit"
proof -
  let ?handle = "\<lparr> foh_file_object = Some file_object, foh_access_flags = flags \<rparr>"
  have "\<exists>s'. pyfsfat_file_object_io_handle_seek_offset P K s (Some ?handle) offset SEEK_SET =
      Some (s', Inr offset) \<and> valid s' \<and> position s' = unat offset"
    if s: "valid s" and offset: "unat offset < 2 ^ 63" for s offset
  proof -
    obtain s1 where s1: "pyfsfat_file_object_seek_offset P K s (Some file_object) offset SEEK_SET =
        Some (s1, Inr ())" "valid s1" "position s1 = unat offset"
      using seek_offset [OF s offset] by blast
    obtain s2 where "pyfsfat_file_object_get_offset P K s1 (Some file_object) =
        Some (s2, Inr (of_nat (position s1)))" "valid s2" "position s2 = position s1"
      using get_offset [OF s1(2)] by blast
    then show ?thesis
      using s1 by (simp add: pyfsfat_file_object_io_handle_seek_offset_def)
  qed
  moreover have "\<exists>s'. pyfsfat_file_object_io_handle_read P K s (Some ?handle) n =
      Some (s', Inr (take n (drop (position s) content))) \<and> valid s' \<and>
      position s' = position s + length (take n (drop (position s) content))" if "valid s" "n \<le> limit" for s n
    using read_buffer [OF that] by (auto simp: pyfsfat_file_object_io_handle_read_def simp del: length_take)
  ultimately show ?thesis
    using get_size [of _ flags]
    by (simp add: callbacks_serve_def pyfsfat_file_object_callbacks_def del: length_take)
      (simp add: pyfsfat_file_object_io_handle_exists_def pyfsfat_file_object_io_handle_is_open_def)
qed

end

section \<open>What the functions do not check\<close>

text \<open>An object that answers every call with its whole content, or with an exception.\<close>

definition eager_file :: "u8 list \<Rightarrow> (py_object, unit) python_calls" where
  "eager_file content =
     \<lparr> py_has_attr = \<lambda>s f name. (s, True),
       py_call_method = \<lambda>s f name args.
         Some (s, if name = ''read'' then Inr (Some (PyBytes content)) else Inl PyExc_raised) \<rparr>"

text \<open>
  The size of a file object is never an error: whatever its methods do, a call that returns
  gives 1, and after an exception the size is not stored at all.
\<close>

theorem file_object_get_size_hides_errors:
  assumes "pyfsfat_file_object_io_handle_get_size P K s
      (Some \<lparr> foh_file_object = Some file_object, foh_access_flags = flags \<rparr>) = Some (s', r)"
  shows "(\<exists>stored. r = Inr stored) \<and>
    (\<forall>s1 s2 e. py_has_attr K s file_object ''get_size'' = (s1, True) \<longrightarrow>
       py_call_method K s1 file_object ''get_size'' [] = Some (s2, Inl e) \<longrightarrow> r = Inr None \<and> s' = s2)"
  using assms
  by (auto simp: pyfsfat_file_object_io_handle_get_size_def pyfsfat_file_object_get_size_def call_method_def
      split: option.splits sum.splits prod.splits bool.splits)

theorem file_object_get_size_hides_errors_witness:
  "pyfsfat_file_object_io_handle_get_size small_python (eager_file []) ()
     (Some \<lparr> foh_file_object = Some PyNone, foh_access_flags = 0 \<rparr>) = Some ((), Inr None)"
proof -
  have "pyfsfat_file_object_io_handle_get_size small_python (eager_file []) ()
     (Some \<lparr> foh_file_object = Some PyNone, foh_access_flags = 0 \<rparr>) \<noteq> None"
    by (simp add: pyfsfat_file_object_io_handle_get_size_def pyfsfat_file_object_get_size_def call_method_def
        eager_file_def)
  then obtain r where r: "pyfsfat_file_object_io_handle_get_size small_python (eager_file []) ()
     (Some \<lparr> foh_file_object = Some PyNone, foh_access_flags = 0 \<rparr>) = Some ((), r)"
    by auto
  show ?thesis
    using file_object_get_size_hides_errors [OF r] r by (simp add: eager_file_def)
qed

end
