(* ===== verification/Py_Datetime.thy ===== *)
theory Py_Datetime
  imports Date_Time Py_Object "HOL-Library.Signed_Division"
begin

text \<open>
  The dates and times of \<^verbatim>\<open>pyfsfat/pyfsfat_datetime.c\<close>: a number of days becomes a year, a
  month and a day, and with the time of day a Python object. The theorems compare the
  functions with the calendar of theory \<^verbatim>\<open>Date_Time\<close>. The function for floating point
  values is not modelled.
\<close>

section \<open>From days to a date\<close>

text \<open>\<^verbatim>\<open>PyDateTime_FromDateAndTime\<close> on the year, month, day, hours, minutes, seconds and micro seconds.\<close>

type_synonym 'o new_datetime =
  "int \<Rightarrow> int \<Rightarrow> int \<Rightarrow> int \<Rightarrow> int \<Rightarrow> int \<Rightarrow> int \<Rightarrow> 'o py_result"

text \<open>The three loops, which take centuries, years and months off the number of days.\<close>

function skip_centuries :: "u16 \<Rightarrow> u64 \<Rightarrow> u16 \<times> u64" where
  "skip_centuries year number_of_days =
     (if number_of_days > 0
      then
        let days_in_century = (if year mod 400 = 0 then 36525 else 36524)
        in if number_of_days \<le> days_in_century then (year, number_of_days)
           else skip_centuries (year + 100) (number_of_days - days_in_century)
      else (year, number_of_days))"
  by pat_completeness auto
termination
  by (relation "measure (\<lambda>(year, number_of_days). unat number_of_days)")
    (auto simp: word_less_nat_alt unat_sub not_le word_le_nat_alt split: if_splits)

function skip_years :: "u16 \<Rightarrow> u64 \<Rightarrow> u16 \<times> u64" where
  "skip_years year number_of_days =
     (if number_of_days > 0
      then
        let days_in_year = (if is_leap_year year then 366 else 365)
        in if number_of_days \<le> days_in_year then (year, number_of_days)
           else skip_years (year + 1) (number_of_days - days_in_year)
      else (year, number_of_days))"
  by pat_completeness auto
termination
  by (relation "measure (\<lambda>(year, number_of_days). unat number_of_days)")
    (auto simp: word_less_nat_alt unat_sub not_le word_le_nat_alt split: if_splits)

function skip_months :: "u16 \<Rightarrow> u8 \<Rightarrow> u64 \<Rightarrow> (u8 \<times> u64) option" where
  "skip_months year month number_of_days =
     (if number_of_days > 0
      then
        if days_in_month year month = 0 then None
        else if number_of_days \<le> days_in_month year month then Some (month, number_of_days)
        else skip_months year (month + 1) (number_of_days - days_in_month year month)
      else Some (month, number_of_days))"
  by pat_completeness auto
termination
  by (relation "measure (\<lambda>(year, month, number_of_days). unat number_of_days)")
    (auto simp: word_less_nat_alt unat_sub not_le word_le_nat_alt unat_gt_0 split: if_splits)

declare skip_centuries.simps [simp del] skip_years.simps [simp del] skip_months.simps [simp del]

definition pyfsfat_datetime_new_from_time_elements ::
  "'o new_datetime \<Rightarrow> u16 \<Rightarrow> u64 \<Rightarrow> u8 \<Rightarrow> u8 \<Rightarrow> u8 \<Rightarrow> u32 \<Rightarrow> 'o py_result" where
  "pyfsfat_datetime_new_from_time_elements N year number_of_days hours minutes seconds micro_seconds =
     (case skip_centuries year number_of_days of
        (year, number_of_days) \<Rightarrow>
     (case skip_years year number_of_days of
        (year, number_of_days) \<Rightarrow>
     (case skip_months year 1 number_of_days of
        None \<Rightarrow> Inl PyExc_IOError
      | Some (month, number_of_days) \<Rightarrow>
          let day_of_month = (ucast number_of_days :: u8)
          in N (uint year) (uint month) (uint day_of_month) (uint hours) (uint minutes) (uint seconds)
               (sint micro_seconds))))"

section \<open>From a time to a date\<close>

definition pyfsfat_datetime_new_from_fat_date_time :: "'o new_datetime \<Rightarrow> u32 \<Rightarrow> 'o py_result" where
  "pyfsfat_datetime_new_from_fat_date_time N fat_date_time =
     (let day_of_month = (ucast (fat_date_time AND 0x1f) :: u8);
          fat_date_time = drop_bit 5 fat_date_time;
          month = (ucast (fat_date_time AND 0x0f) :: u8);
          fat_date_time = drop_bit 4 fat_date_time;
          year = (ucast (1980 + (fat_date_time AND 0x7f)) :: u16);
          fat_date_time = drop_bit 7 fat_date_time;
          seconds = (ucast ((fat_date_time AND 0x1f) * 2) :: u8);
          fat_date_time = drop_bit 5 fat_date_time;
          minutes = (ucast (fat_date_time AND 0x3f) :: u8);
          fat_date_time = drop_bit 6 fat_date_time;
          hours = (ucast (fat_date_time AND 0x1f) :: u8)
      in if days_in_month year month = 0 then Inl PyExc_IOError
         else if day_of_month = 0 \<or> ucast day_of_month > days_in_month year month then Inl PyExc_IOError
         else N (uint year) (uint month) (uint day_of_month) (uint hours) (uint minutes) (uint seconds) 0)"

text \<open>
  The time is in units of 100 nanoseconds, seconds, seconds and microseconds. The time of a
  POSIX clock is signed, and C rounds its quotients to zero.
\<close>

definition pyfsfat_datetime_new_from_filetime :: "'o new_datetime \<Rightarrow> u64 \<Rightarrow> 'o py_result" where
  "pyfsfat_datetime_new_from_filetime N filetime =
     (let micro_seconds = (ucast (filetime mod 10000000) :: u32) div 10;
          filetime = filetime div 10000000;
          seconds = (ucast (filetime mod 60) :: u8);
          filetime = filetime div 60;
          minutes = (ucast (filetime mod 60) :: u8);
          filetime = filetime div 60;
          hours = (ucast (filetime mod 24) :: u8);
          filetime = filetime div 24;
          filetime = filetime + 1;
          (year, filetime) = (if filetime \<ge> 36159 then (1700, filetime - 36159) else (1601, filetime))
      in pyfsfat_datetime_new_from_time_elements N year filetime hours minutes seconds micro_seconds)"

definition pyfsfat_datetime_new_from_hfs_time :: "'o new_datetime \<Rightarrow> u32 \<Rightarrow> 'o py_result" where
  "pyfsfat_datetime_new_from_hfs_time N hfs_time =
     (let seconds = (ucast (hfs_time mod 60) :: u8);
          hfs_time = hfs_time div 60;
          minutes = (ucast (hfs_time mod 60) :: u8);
          hfs_time = hfs_time div 60;
          hours = (ucast (hfs_time mod 24) :: u8);
          hfs_time = hfs_time div 24;
          hfs_time = hfs_time + 1;
          (year, hfs_time) = (if hfs_time \<ge> 35064 then (2000, hfs_time - 35064) else (1904, hfs_time))
      in pyfsfat_datetime_new_from_time_elements N year (ucast hfs_time) hours minutes seconds 0)"

definition pyfsfat_datetime_new_from_posix_time :: "'o new_datetime \<Rightarrow> u64 \<Rightarrow> 'o py_result" where
  "pyfsfat_datetime_new_from_posix_time N posix_time =
     (let posix_time = sint posix_time;
          seconds = (word_of_int (posix_time smod 60) :: u8);
          posix_time = posix_time sdiv 60;
          minutes = (word_of_int (posix_time smod 60) :: u8);
          posix_time = posix_time sdiv 60;
          hours = (word_of_int (posix_time smod 24) :: u8);
          posix_time = posix_time sdiv 24;
          posix_time = posix_time + 1;
          (year, posix_time) =
            (if posix_time \<ge> 10957 then (2000, posix_time - 10957) else (1970, posix_time))
      in pyfsfat_datetime_new_from_time_elements N year (word_of_int posix_time) hours minutes seconds 0)"

definition pyfsfat_datetime_new_from_posix_time_in_micro_seconds ::
  "'o new_datetime \<Rightarrow> u64 \<Rightarrow> 'o py_result" where
  "pyfsfat_datetime_new_from_posix_time_in_micro_seconds N posix_time =
     (let posix_time = sint posix_time;
          micro_seconds = (word_of_int (posix_time smod 1000000) :: u32);
          posix_time = posix_time sdiv 1000000;
          seconds = (word_of_int (posix_time smod 60) :: u8);
          posix_time = posix_time sdiv 60;
          minutes = (word_of_int (posix_time smod 60) :: u8);
          posix_time = posix_time sdiv 60;
          hours = (word_of_int (posix_time smod 24) :: u8);
          posix_time = posix_time sdiv 24;
          posix_time = posix_time + 1;
          (year, posix_time) =
            (if posix_time \<ge> 10957 then (2000, posix_time - 10957) else (1970, posix_time))
      in pyfsfat_datetime_new_from_time_elements N year (word_of_int posix_time) hours minutes seconds
           micro_seconds)"

section \<open>The calendar\<close>

lemma slot_less:
  fixes f :: "nat \<Rightarrow> nat"
  assumes "a < b" and "k \<le> a" and "d \<le> f a" and "1 \<le> e"
  shows "(\<Sum>i = k..<a. f i) + d < (\<Sum>i = k..<b. f i) + e"
proof -
  have "(\<Sum>i = k..<Suc a. f i) \<le> (\<Sum>i = k..<b. f i)"
    by (rule sum_mono2) (use assms(1) in auto)
  then show ?thesis using assms by (simp add: sum.atLeastLessThan_Suc)
qed

lemma slot_unique:
  fixes f :: "nat \<Rightarrow> nat"
  assumes "(\<Sum>i = k..<a. f i) + d = (\<Sum>i = k..<b. f i) + e" and "k \<le> a" and "k \<le> b"
    and "1 \<le> d" and "d \<le> f a" and "1 \<le> e" and "e \<le> f b"
  shows "a = b" and "d = e"
proof -
  show ab: "a = b"
    using slot_less [of a b k d f e] slot_less [of b a k e f d] assms
    by (cases a b rule: linorder_cases) simp_all
  then show "d = e" using assms(1) by simp
qed

lemma leap_days_sum:
  "(\<Sum>j = 1..<n + 1. if j mod 4 = (0::nat) then 366 else 365 :: nat) = 365 * n + n div 4"
proof (induction n)
  case (Suc n)
  have "Suc n div 4 = n div 4 + (if Suc n mod 4 = 0 then 1 else 0)" by presburger
  then show ?case using Suc by (simp add: sum.atLeastLessThan_Suc)
qed simp

lemma century_length:
  "(\<Sum>i = 100 * k..<100 * k + 100. year_length i) = (if k mod 4 = 0 then 36525 else 36524)"
proof -
  have "(\<Sum>i = 100 * k..<100 * k + 100. year_length i) = (\<Sum>j = 0..<100. year_length (100 * k + j))"
    using sum.shift_bounds_nat_ivl [of year_length 0 "100 * k" 100] by (simp add: add.commute)
  also have "\<dots> = year_length (100 * k) + (\<Sum>j = 1..<100. year_length (100 * k + j))"
    by (simp add: sum.atLeast_Suc_lessThan)
  also have "(\<Sum>j = 1..<100. year_length (100 * k + j)) =
      (\<Sum>j = 1..<100. if j mod 4 = (0::nat) then 366 else 365)"
  proof (rule sum.cong [OF refl])
    fix j :: nat assume "j \<in> {1..<100}"
    then have "(100 * k + j) mod 100 \<noteq> 0" by simp
    moreover from this have "(100 * k + j) mod 400 \<noteq> 0"
      using mod_mod_cancel [of 100 400 "100 * k + j"] by auto
    moreover have "(100 * k + j) mod 4 = j mod 4" by presburger
    ultimately show "year_length (100 * k + j) = (if j mod 4 = 0 then 366 else 365)"
      by (simp add: year_length_def leap_year_def)
  qed
  also have "(\<Sum>j = 1..<100. if j mod 4 = (0::nat) then 366 else 365 :: nat) = 36159"
    using leap_days_sum [of 99] by simp
  also have "year_length (100 * k) = (if k mod 4 = 0 then 366 else 365)"
    by (simp add: year_length_def leap_year_def mod_mult_mult1 [of 100 k 4, simplified])
  finally show ?thesis by simp
qed


definition valid_date :: "nat \<Rightarrow> nat \<Rightarrow> nat \<Rightarrow> bool" where
  "valid_date y m d \<longleftrightarrow> 1 \<le> m \<and> m \<le> 12 \<and> 1 \<le> d \<and> d \<le> month_length y m"

text \<open>The days from January 1 of the year \<open>epoch\<close> to the date, and the seconds to a time on it.\<close>

definition days_since :: "nat \<Rightarrow> nat \<Rightarrow> nat \<Rightarrow> nat \<Rightarrow> nat" where
  "days_since epoch y m d =
     (\<Sum>i = epoch..<y. year_length i) + (\<Sum>i = 1..<m. month_length y i) + (d - 1)"

definition seconds_since :: "nat \<Rightarrow> nat \<Rightarrow> nat \<Rightarrow> nat \<Rightarrow> nat \<Rightarrow> nat \<Rightarrow> nat \<Rightarrow> nat" where
  "seconds_since epoch y m d hours minutes seconds =
     ((days_since epoch y m d * 24 + hours) * 60 + minutes) * 60 + seconds"

lemma months_of_year: "(\<Sum>i = 1..<13. month_length y i) = year_length y"
  by (simp add: sum.atLeastLessThan_Suc numeral_eq_Suc month_length_def year_length_def)

lemma day_of_year_le:
  assumes "valid_date y m d"
  shows "(\<Sum>i = 1..<m. month_length y i) + d \<le> year_length y"
  using slot_less [of m 13 1 d "month_length y" 1] assms
  by (simp add: valid_date_def months_of_year [simplified])

section \<open>The loops\<close>

lemma unat_skip: "\<not> number_of_days \<le> n \<Longrightarrow> unat (number_of_days - n :: u64) = unat number_of_days - unat n"
  by (rule unat_minus_exact) (simp add: word_le_nat_alt)

lemma century_word: "unat (year :: u16) = 100 * k \<Longrightarrow> (year mod 400 = 0) = (k mod 4 = 0)"
  using mod_mult_mult1 [of 100 k 4] by (simp add: unat_eq_zero [symmetric] unat_mod)

lemma skip_centuries_days:
  assumes "skip_centuries year number_of_days = (y, n)"
    and "unat year mod 100 = 0 \<or> unat number_of_days \<le> 36524"
    and "unat year * 365 + unat number_of_days < 365 * 65000"
  shows "unat year \<le> unat y \<and> (\<Sum>i = unat year..<unat y. year_length i) + unat n = unat number_of_days \<and>
    (0 < unat number_of_days \<longrightarrow> 0 < unat n) \<and> unat y * 365 + unat n < 365 * 65000"
  using assms
proof (induction year number_of_days rule: skip_centuries.induct)
  case (1 year number_of_days)
  let ?c = "if year mod 400 = 0 then 36525 else 36524 :: u64"
  show ?case
  proof (cases "0 < number_of_days \<and> \<not> number_of_days \<le> ?c")
    case True
    then have skip: "skip_centuries (year + 100) (number_of_days - ?c) = (y, n)"
      using 1(2) by (subst (asm) skip_centuries.simps) (simp add: Let_def)
    have big: "unat ?c < unat number_of_days" using True by (simp add: word_le_nat_alt not_le)
    then have "unat year mod 100 = 0" using 1(3) by (auto split: if_splits)
    then obtain k where k: "unat year = 100 * k" by (metis mod_0_imp_dvd dvdE)
    have c: "unat ?c = (\<Sum>i = unat year..<unat year + 100. year_length i)"
      using century_word [OF k] by (simp add: k century_length)
    have next_days: "unat (number_of_days - ?c) = unat number_of_days - unat ?c"
      using True by (intro unat_skip) blast
    have year: "unat (year + 100) = unat year + 100"
      using 1(4) by (subst unat_add_exact) simp_all
    have c_ge: "36500 \<le> unat ?c" by simp
    have IH: "unat (year + 100) \<le> unat y \<and>
        (\<Sum>i = unat (year + 100)..<unat y. year_length i) + unat n = unat (number_of_days - ?c) \<and>
        (0 < unat (number_of_days - ?c) \<longrightarrow> 0 < unat n) \<and> unat y * 365 + unat n < 365 * 65000"
    proof (rule 1(1) [OF _ refl _ skip])
      show "0 < number_of_days" "\<not> number_of_days \<le> ?c" using True by blast+
      show "unat (year + 100) mod 100 = 0 \<or> unat (number_of_days - ?c) \<le> 36524"
        using \<open>unat year mod 100 = 0\<close> by (simp add: year)
      show "unat (year + 100) * 365 + unat (number_of_days - ?c) < 365 * 65000"
        using 1(4) big c_ge unfolding next_days year by simp
    qed
    have "(\<Sum>i = unat year..<unat y. year_length i) =
        unat ?c + (\<Sum>i = unat (year + 100)..<unat y. year_length i)"
      using IH unfolding c year by (simp add: sum.atLeastLessThan_concat)
    then show ?thesis using IH big unfolding next_days year by (auto split del: if_split)
  next
    case False
    then have "y = year" "n = number_of_days"
      using 1(2) by (subst (asm) skip_centuries.simps; simp add: Let_def split: if_splits)+
    then show ?thesis using 1(4) by simp
  qed
qed

lemma skip_years_days:
  assumes "skip_years year number_of_days = (y, n)"
    and "unat year * 365 + unat number_of_days < 365 * 65000"
  shows "unat year \<le> unat y \<and> (\<Sum>i = unat year..<unat y. year_length i) + unat n = unat number_of_days \<and>
    (0 < unat number_of_days \<longrightarrow> 0 < unat n) \<and> unat n \<le> year_length (unat y)"
  using assms
proof (induction year number_of_days rule: skip_years.induct)
  case (1 year number_of_days)
  let ?c = "if is_leap_year year then 366 else 365 :: u64"
  have c: "unat ?c = year_length (unat year)" by (simp add: year_length_def is_leap_year_nat)
  show ?case
  proof (cases "0 < number_of_days \<and> \<not> number_of_days \<le> ?c")
    case True
    then have skip: "skip_years (year + 1) (number_of_days - ?c) = (y, n)"
      using 1(2) by (subst (asm) skip_years.simps) (simp add: Let_def)
    have big: "unat ?c < unat number_of_days" using True by (simp add: word_le_nat_alt not_le)
    have next_days: "unat (number_of_days - ?c) = unat number_of_days - unat ?c"
      using True by (intro unat_skip) blast
    have year: "unat (year + 1) = unat year + 1"
      using 1(3) by (subst unat_add_exact) simp_all
    have c_ge: "365 \<le> unat ?c" by simp
    have IH: "unat (year + 1) \<le> unat y \<and>
        (\<Sum>i = unat (year + 1)..<unat y. year_length i) + unat n = unat (number_of_days - ?c) \<and>
        (0 < unat (number_of_days - ?c) \<longrightarrow> 0 < unat n) \<and> unat n \<le> year_length (unat y)"
    proof (rule 1(1) [OF _ refl _ skip])
      show "0 < number_of_days" "\<not> number_of_days \<le> ?c" using True by blast+
      show "unat (year + 1) * 365 + unat (number_of_days - ?c) < 365 * 65000"
        using 1(3) big c_ge unfolding next_days year by simp
    qed
    have "(\<Sum>i = unat year..<unat y. year_length i) =
        unat ?c + (\<Sum>i = unat (year + 1)..<unat y. year_length i)"
      using IH unfolding c year by (simp add: sum.atLeast_Suc_lessThan)
    then show ?thesis using IH big unfolding next_days year by (auto split del: if_split)
  next
    case False
    then have "y = year" "n = number_of_days"
      using 1(2) by (subst (asm) skip_years.simps; simp add: Let_def split: if_splits)+
    then show ?thesis using False by (auto simp: c [symmetric] word_le_nat_alt word_less_nat_alt)
  qed
qed

lemma month_length_pos: "1 \<le> m \<Longrightarrow> m \<le> 12 \<Longrightarrow> 1 \<le> month_length y m"
  unfolding month_length_def by (simp, presburger)

lemma skip_months_days:
  assumes "1 \<le> unat month"
    and "0 < unat number_of_days \<Longrightarrow>
      (\<Sum>i = 1..<unat month. month_length (unat year) i) + unat number_of_days \<le> year_length (unat year)"
  shows "\<exists>m n. skip_months year month number_of_days = Some (m, n) \<and> unat month \<le> unat m \<and>
    (\<Sum>i = unat month..<unat m. month_length (unat year) i) + unat n = unat number_of_days \<and>
    (0 < unat number_of_days \<longrightarrow> 0 < unat n \<and> unat n \<le> month_length (unat year) (unat m))"
  using assms
proof (induction year month number_of_days rule: skip_months.induct)
  case (1 year month number_of_days)
  let ?l = "days_in_month year month"
  have l: "unat ?l = month_length (unat year) (unat month)" by (rule days_in_month_nat)
  show ?case
  proof (cases "0 < number_of_days")
    case True
    then have days: "0 < unat number_of_days" by (simp add: word_less_nat_alt)
    note bound = 1(3) [OF days]
    have "unat month \<le> 12"
    proof (rule ccontr)
      assume "\<not> unat month \<le> 12"
      then have "(\<Sum>i = 1..<13. month_length (unat year) i) \<le>
          (\<Sum>i = 1..<unat month. month_length (unat year) i)"
        by (intro sum_mono2) auto
      then show False using bound days months_of_year [of "unat year"] by simp
    qed
    then have some: "1 \<le> month_length (unat year) (unat month)"
      using 1(2) month_length_pos by simp
    then have "?l \<noteq> 0" using l by (metis unat_0 not_one_le_zero)
    show ?thesis
    proof (cases "number_of_days \<le> ?l")
      case le: True
      have "skip_months year month number_of_days = Some (month, number_of_days)"
        by (subst skip_months.simps) (simp add: True le \<open>?l \<noteq> 0\<close>)
      then show ?thesis using le days by (simp add: word_le_nat_alt l)
    next
      case False
      have skip: "skip_months year month number_of_days = skip_months year (month + 1) (number_of_days - ?l)"
        by (subst skip_months.simps) (simp add: True False \<open>?l \<noteq> 0\<close>)
      have next_days: "unat (number_of_days - ?l) = unat number_of_days - month_length (unat year) (unat month)"
        using unat_skip [OF False] l by simp
      have big: "month_length (unat year) (unat month) < unat number_of_days"
        using False l by (simp add: word_le_nat_alt)
      have month: "unat (month + 1) = unat month + 1"
        using \<open>unat month \<le> 12\<close> by (subst unat_add_exact) simp_all
      have sum: "(\<Sum>i = 1..<unat month + 1. month_length (unat year) i) =
          (\<Sum>i = 1..<unat month. month_length (unat year) i) + month_length (unat year) (unat month)"
        using 1(2) by (simp add: sum.atLeastLessThan_Suc)
      obtain m n where mn: "skip_months year (month + 1) (number_of_days - ?l) = Some (m, n)"
        "unat month + 1 \<le> unat m"
        "(\<Sum>i = unat month + 1..<unat m. month_length (unat year) i) + unat n =
          unat number_of_days - month_length (unat year) (unat month)"
        "0 < unat n \<and> unat n \<le> month_length (unat year) (unat m)"
        using 1(1) [OF True \<open>?l \<noteq> 0\<close> False] bound big unfolding month next_days sum by auto
      have "(\<Sum>i = unat month..<unat m. month_length (unat year) i) =
          month_length (unat year) (unat month) + (\<Sum>i = unat month + 1..<unat m. month_length (unat year) i)"
        using mn(2) by (simp add: sum.atLeast_Suc_lessThan)
      then show ?thesis using mn big skip by auto
    qed
  next
    case False
    then show ?thesis by (subst skip_months.simps) (simp add: word_less_nat_alt)
  qed
qed

text \<open>The date of a number of days, counted from 1, and of no days at all.\<close>

lemma time_elements_date:
  assumes "valid_date y m d" and "unat year \<le> y" and "y < 60000"
    and days: "unat number_of_days = days_since (unat year) y m d + 1"
    and "unat year mod 100 = 0 \<or> unat number_of_days \<le> 36524"
  shows "pyfsfat_datetime_new_from_time_elements N year number_of_days hours minutes seconds micro_seconds =
    N (int y) (int m) (int d) (uint hours) (uint minutes) (uint seconds) (sint micro_seconds)"
proof -
  let ?day = "(\<Sum>i = 1..<m. month_length y i) + d"
  have md: "1 \<le> m" "m \<le> 12" "1 \<le> d" "d \<le> month_length y m" using assms(1) by (simp_all add: valid_date_def)
  have day: "1 \<le> ?day" "?day \<le> year_length y" using md day_of_year_le [OF assms(1)] by simp_all
  have days: "unat number_of_days = (\<Sum>i = unat year..<y. year_length i) + ?day"
    using assms(4) md(3) by (simp add: days_since_def)
  have "(\<Sum>i = unat year..<y. year_length i) \<le> (\<Sum>i = unat year..<y. 366)"
    by (rule sum_mono) (rule year_length_le)
  then have "(\<Sum>i = unat year..<y. year_length i) \<le> (y - unat year) * 366" by simp
  then have bound: "unat year * 365 + unat number_of_days < 365 * 65000"
    using day(2) year_length_le [of y] assms(2,3) unfolding days by (simp add: diff_mult_distrib)
  obtain y1 n1 where c: "skip_centuries year number_of_days = (y1, n1)" by (cases "skip_centuries year number_of_days")
  note c_days = skip_centuries_days [OF c assms(5) bound]
  obtain y2 n2 where s: "skip_years y1 n1 = (y2, n2)" by (cases "skip_years y1 n1")
  have s_days: "unat y1 \<le> unat y2" "(\<Sum>i = unat y1..<unat y2. year_length i) + unat n2 = unat n1"
    "0 < unat n1 \<longrightarrow> 0 < unat n2" "unat n2 \<le> year_length (unat y2)"
    using skip_years_days [OF s] c_days by simp_all
  have "(\<Sum>i = unat year..<unat y2. year_length i) =
      (\<Sum>i = unat year..<unat y1. year_length i) + (\<Sum>i = unat y1..<unat y2. year_length i)"
    using c_days s_days(1) by (simp add: sum.atLeastLessThan_concat)
  then have "(\<Sum>i = unat year..<unat y2. year_length i) + unat n2 = (\<Sum>i = unat year..<y. year_length i) + ?day"
    using c_days s_days(2) days by linarith
  moreover have "1 \<le> unat n2" using c_days s_days(3) day(1) days by linarith
  ultimately have y2: "unat y2 = y" "unat n2 = ?day"
    using slot_unique [of year_length "unat year" "unat y2" "unat n2" y ?day]
      c_days s_days(1,4) assms(2) day by (meson order_trans)+
  obtain m' n where mn: "skip_months y2 1 n2 = Some (m', n)" "1 \<le> unat m'"
    "(\<Sum>i = 1..<unat m'. month_length y i) + unat n = ?day"
    "0 < unat n \<and> unat n \<le> month_length y (unat m')"
    using skip_months_days [of 1 n2 y2] y2 day by auto
  have m': "unat m' = m" "unat n = d"
    using slot_unique [of "month_length y" 1 "unat m'" "unat n" m d] mn(2,3,4) md by auto
  have "d \<le> 31" using md(4) month_length_le order_trans by blast
  then have "uint (ucast n :: u8) = int d"
    using m'(2) by (simp add: uint_nat unsigned_ucast_eq take_bit_nat_eq_self)
  moreover have "uint y2 = int y" "uint m' = int m" using y2(1) m'(1) by (simp_all add: uint_nat)
  ultimately show ?thesis by (simp add: pyfsfat_datetime_new_from_time_elements_def c s mn(1))
qed

lemma time_elements_no_days:
  "pyfsfat_datetime_new_from_time_elements N year 0 hours minutes seconds micro_seconds =
    N (uint year) 1 0 (uint hours) (uint minutes) (uint seconds) (sint micro_seconds)"
  by (simp add: pyfsfat_datetime_new_from_time_elements_def skip_centuries.simps skip_years.simps
      skip_months.simps)

section \<open>The two epochs of a time\<close>

lemma last_day_iff:
  assumes "valid_date y m d" and "e \<le> y" and "e < b"
  shows "(days_since e y m d + 1 = (\<Sum>i = e..<b. year_length i)) = (y = b - 1 \<and> m = 12 \<and> d = 31)"
proof -
  have last: "(\<Sum>i = e..<b. year_length i) = (\<Sum>i = e..<b - 1. year_length i) + year_length (b - 1)"
    using assms(3) by (cases b) (simp_all add: sum.atLeastLessThan_Suc)
  have december: "(\<Sum>i = 1..<12. month_length z i) + 31 = year_length z" for z
    by (simp add: sum.atLeastLessThan_Suc numeral_eq_Suc month_length_def year_length_def)
  let ?day = "(\<Sum>i = 1..<m. month_length y i) + d"
  have md: "1 \<le> m" "m \<le> 12" "1 \<le> d" "d \<le> month_length y m" using assms(1) by (simp_all add: valid_date_def)
  have day: "1 \<le> ?day" "?day \<le> year_length y" using md day_of_year_le [OF assms(1)] by simp_all
  have since: "days_since e y m d + 1 = (\<Sum>i = e..<y. year_length i) + ?day"
    using md(3) by (simp add: days_since_def)
  show ?thesis
  proof
    assume eq: "days_since e y m d + 1 = (\<Sum>i = e..<b. year_length i)"
    then have slots: "(\<Sum>i = e..<y. year_length i) + ?day =
        (\<Sum>i = e..<b - 1. year_length i) + year_length (b - 1)"
      unfolding since last .
    have "1 \<le> year_length (b - 1)" by (simp add: year_length_def)
    then have y: "y = b - 1" "?day = year_length (b - 1)"
      using slot_unique [OF slots] assms(2,3) day by simp_all
    have "m = 12 \<and> d = 31"
      using slot_unique [of "month_length y" 1 m d 12 31] y december [of y] md
      by (simp add: month_length_def)
    then show "y = b - 1 \<and> m = 12 \<and> d = 31" using y by simp
  next
    assume "y = b - 1 \<and> m = 12 \<and> d = 31"
    then show "days_since e y m d + 1 = (\<Sum>i = e..<b. year_length i)"
      using december [of "b - 1"] unfolding since last by simp
  qed
qed

lemma time_elements_epochs:
  assumes date: "valid_date y m d" "e \<le> y" "y < 60000"
    and base: "b mod 100 = 0" "e < b" "(\<Sum>i = e..<b. year_length i) = T" "T \<le> 36524"
    and n: "n = days_since e y m d + 1"
    and year: "unat year = (if T \<le> n then b else e)"
    and days: "unat number_of_days = (if T \<le> n then n - T else n)"
  shows "pyfsfat_datetime_new_from_time_elements N year number_of_days hours minutes seconds micro_seconds =
    (if y = b - 1 \<and> m = 12 \<and> d = 31
     then N (int b) 1 0 (uint hours) (uint minutes) (uint seconds) (sint micro_seconds)
     else N (int y) (int m) (int d) (uint hours) (uint minutes) (uint seconds) (sint micro_seconds))"
proof (cases "n = T")
  case True
  have "number_of_days = 0" using days True by (simp add: unat_eq_zero)
  moreover have "uint year = int b" using year True by (simp add: uint_nat)
  moreover have "y = b - 1 \<and> m = 12 \<and> d = 31"
    using last_day_iff [OF date(1,2) base(2)] True unfolding n base(3) by blast
  ultimately show ?thesis by (simp add: time_elements_no_days)
next
  case False
  have other: "\<not> (y = b - 1 \<and> m = 12 \<and> d = 31)"
    using last_day_iff [OF date(1,2) base(2)] False unfolding n base(3) by blast
  have d: "1 \<le> d" using date(1) by (simp add: valid_date_def)
  have "pyfsfat_datetime_new_from_time_elements N year number_of_days hours minutes seconds micro_seconds =
      N (int y) (int m) (int d) (uint hours) (uint minutes) (uint seconds) (sint micro_seconds)"
  proof (cases "b \<le> y")
    case True
    have "(\<Sum>i = e..<y. year_length i) = T + (\<Sum>i = b..<y. year_length i)"
      using base(2) True unfolding base(3) [symmetric] by (simp add: sum.atLeastLessThan_concat)
    then have since: "n = T + (days_since b y m d + 1)" by (simp add: n days_since_def)
    show ?thesis
      by (rule time_elements_date) (use date True year days base(1) since in simp_all)
  next
    case before: False
    have "n \<le> T"
      using slot_less [of y b e "(\<Sum>i = 1..<m. month_length y i) + d" year_length 1]
        day_of_year_le [OF date(1)] date(2) before d unfolding n base(3) days_since_def by simp
    then have "n < T" using False by simp
    then show ?thesis
      by (intro time_elements_date) (use date year days n base(4) in simp_all)
  qed
  then show ?thesis unfolding if_not_P [OF other] .
qed

lemma epoch_lengths:
  "(\<Sum>i = 1970..<2000. year_length i) = 10957" "(\<Sum>i = 1904..<2000. year_length i) = 35064"
  "(\<Sum>i = 1601..<1700. year_length i) = 36159"
proof -
  have four: "(\<Sum>i = 1900..<1904. year_length i) = 1460"
    by (simp add: sum.atLeast_Suc_lessThan year_length_def leap_year_def)
  have "(\<Sum>i = 1904..<1970. year_length i) = 24107"
    by (simp add: sum.atLeast_Suc_lessThan year_length_def leap_year_def)
  moreover have "(\<Sum>i = 1900..<2000. year_length i) = 36524" using century_length [of 19] by simp
  moreover have "(\<Sum>i = 1900..<2000. year_length i) =
      (\<Sum>i = 1900..<1904. year_length i) + (\<Sum>i = 1904..<2000. year_length i)"
    "(\<Sum>i = 1904..<2000. year_length i) =
      (\<Sum>i = 1904..<1970. year_length i) + (\<Sum>i = 1970..<2000. year_length i)"
    by (simp_all add: sum.atLeastLessThan_concat)
  ultimately show "(\<Sum>i = 1970..<2000. year_length i) = 10957" "(\<Sum>i = 1904..<2000. year_length i) = 35064"
    using four by simp_all
  have "(\<Sum>i = 1600..<1700. year_length i) = 36525" using century_length [of 16] by simp
  moreover have "(\<Sum>i = 1600..<1700. year_length i) = year_length 1600 + (\<Sum>i = 1601..<1700. year_length i)"
    using sum.atLeast_Suc_lessThan [of 1600 1700 year_length] by simp
  moreover have "year_length 1600 = 366" by (simp add: year_length_def leap_year_def)
  ultimately show "(\<Sum>i = 1601..<1700. year_length i) = 36159" by simp
qed

section \<open>The dates of the times\<close>

lemma digit: "r < b \<Longrightarrow> (q * b + r) mod b = (r::nat)" "r < b \<Longrightarrow> (q * b + r) div b = (q::nat)"
  by (simp_all add: mult.commute)

lemma seconds_since_parts:
  assumes "hours < 24" and "minutes < 60" and "seconds < 60"
  shows "seconds_since e y m d hours minutes seconds mod 60 = seconds"
    and "seconds_since e y m d hours minutes seconds div 60 mod 60 = minutes"
    and "seconds_since e y m d hours minutes seconds div 60 div 60 mod 24 = hours"
    and "seconds_since e y m d hours minutes seconds div 60 div 60 div 24 = days_since e y m d"
  by (simp_all only: seconds_since_def digit assms)

lemma days_since_le:
  assumes "valid_date y m d" and "e \<le> y"
  shows "days_since e y m d < 366 * (y - e + 1)"
proof -
  have "(\<Sum>i = e..<y. year_length i) \<le> (\<Sum>i = e..<y. 366)" by (rule sum_mono) (rule year_length_le)
  then show ?thesis
    using day_of_year_le [OF assms(1)] year_length_le [of y] assms(1)
    by (simp add: days_since_def valid_date_def)
qed

lemma c_quotient: "0 \<le> a \<Longrightarrow> 0 < b \<Longrightarrow> (a :: int) sdiv b = a div b" "0 \<le> a \<Longrightarrow> 0 < b \<Longrightarrow> a smod b = a mod b"
  by (cases "a = 0"; simp add: signed_divide_int_def signed_modulo_int_def)+

text \<open>The common part of both conversions of a POSIX time, on the number of seconds.\<close>

definition posix_seconds_date :: "'o new_datetime \<Rightarrow> int \<Rightarrow> u32 \<Rightarrow> 'o py_result" where
  "posix_seconds_date N posix_time micro_seconds =
     (let seconds = (word_of_int (posix_time smod 60) :: u8);
          posix_time = posix_time sdiv 60;
          minutes = (word_of_int (posix_time smod 60) :: u8);
          posix_time = posix_time sdiv 60;
          hours = (word_of_int (posix_time smod 24) :: u8);
          posix_time = posix_time sdiv 24;
          posix_time = posix_time + 1;
          (year, posix_time) =
            (if posix_time \<ge> 10957 then (2000, posix_time - 10957) else (1970, posix_time))
      in pyfsfat_datetime_new_from_time_elements N year (word_of_int posix_time) hours minutes seconds
           micro_seconds)"

lemma posix_time_seconds:
  "pyfsfat_datetime_new_from_posix_time N posix_time = posix_seconds_date N (sint posix_time) 0"
  "pyfsfat_datetime_new_from_posix_time_in_micro_seconds N posix_time =
     posix_seconds_date N (sint posix_time sdiv 1000000) (word_of_int (sint posix_time smod 1000000))"
  by (simp_all only: pyfsfat_datetime_new_from_posix_time_def posix_seconds_date_def Let_def
      pyfsfat_datetime_new_from_posix_time_in_micro_seconds_def)

lemma small_byte: "(n :: nat) < 256 \<Longrightarrow> uint (of_nat n :: u8) = int n"
  by (simp add: unsigned_of_nat take_bit_nat_eq_self)

lemma small_word: "(n :: nat) < 2 ^ 64 \<Longrightarrow> unat (word_of_int (int n) :: u64) = n"
  by simp

lemma posix_seconds_date:
  assumes date: "valid_date y m d" "1970 \<le> y" "y \<le> 9999"
    and time: "hours < 24" "minutes < 60" "seconds < 60"
  shows "posix_seconds_date N (int (seconds_since 1970 y m d hours minutes seconds)) micro_seconds =
    (if y = 1999 \<and> m = 12 \<and> d = 31
     then N 2000 1 0 (int hours) (int minutes) (int seconds) (sint micro_seconds)
     else N (int y) (int m) (int d) (int hours) (int minutes) (int seconds) (sint micro_seconds))"
proof -
  let ?p = "seconds_since 1970 y m d hours minutes seconds"
  let ?n = "days_since 1970 y m d + 1"
  note parts = seconds_since_parts [OF time, of 1970 y m d]
  have n: "?n < 3000000" using days_since_le [OF date(1,2)] date(2,3) by simp
  have steps: "int ?p smod 60 = int seconds" "int ?p sdiv 60 smod 60 = int minutes"
    "int ?p sdiv 60 sdiv 60 smod 24 = int hours" "int ?p sdiv 60 sdiv 60 sdiv 24 = int (days_since 1970 y m d)"
    by (simp_all add: c_quotient zdiv_int [symmetric, of _ "numeral _", simplified]
        zmod_int [symmetric, of _ "numeral _", simplified] parts)
  let ?year = "(if 10957 \<le> ?n then 2000 else 1970) :: u16"
  let ?days = "word_of_int (int (if 10957 \<le> ?n then ?n - 10957 else ?n)) :: u64"
  have elements: "posix_seconds_date N (int ?p) micro_seconds =
      pyfsfat_datetime_new_from_time_elements N ?year ?days (word_of_int (int hours))
        (word_of_int (int minutes)) (word_of_int (int seconds)) micro_seconds"
    unfolding posix_seconds_date_def steps Let_def by (simp add: of_nat_diff add.commute)
  have "unat ?days = (if 10957 \<le> ?n then ?n - 10957 else ?n)"
    by (rule small_word) (use n in auto)
  then show ?thesis
    unfolding elements
    by (subst time_elements_epochs [OF date(1,2) _ _ _ epoch_lengths(1) _ refl])
      (use date(3) time in \<open>simp_all add: small_byte\<close>)
qed

text \<open>What the documentation of Python says of a new date and time: every field is checked.\<close>

definition new_datetime_contract :: "'o new_datetime \<Rightarrow> bool" where
  "new_datetime_contract N \<longleftrightarrow>
     (\<forall>y m d hours minutes seconds micro_seconds.
        if 1 \<le> y \<and> y \<le> 9999 \<and> 1 \<le> m \<and> m \<le> 12 \<and> 1 \<le> d \<and> d \<le> int (month_length (nat y) (nat m)) \<and>
           0 \<le> hours \<and> hours < 24 \<and> 0 \<le> minutes \<and> minutes < 60 \<and> 0 \<le> seconds \<and> seconds < 60 \<and>
           0 \<le> micro_seconds \<and> micro_seconds < 1000000
        then \<exists>x. N y m d hours minutes seconds micro_seconds = Inr x
        else N y m d hours minutes seconds micro_seconds = Inl PyExc_ValueError)"

lemma new_datetime_refuses:
  "new_datetime_contract N \<Longrightarrow> N y m 0 hours minutes seconds micro_seconds = Inl PyExc_ValueError"
  unfolding new_datetime_contract_def
  by (drule spec [of _ y], drule spec [of _ m], drule spec [of _ 0]) simp

lemma new_datetime_accepts:
  assumes "new_datetime_contract N" and "valid_date y m d" and "1 \<le> y" and "y \<le> 9999"
    and "hours < 24" and "minutes < 60" and "seconds < 60" and "micro_seconds < 1000000"
  shows "\<exists>x. N (int y) (int m) (int d) (int hours) (int minutes) (int seconds) (int micro_seconds) = Inr x"
  using assms(1) [unfolded new_datetime_contract_def, rule_format, of "int y" "int m" "int d" "int hours"
      "int minutes" "int seconds" "int micro_seconds"] assms(2-8)
  by (simp add: valid_date_def)

lemma sint_of_nat: "n < 2 ^ 63 \<Longrightarrow> sint (of_nat n :: u64) = int n"
  by (subst sint_small) (simp_all add: uint_nat)

lemma posix_time_fields:
  assumes "valid_date y m d" and "1970 \<le> y" and "y \<le> 9999"
    and "hours < 24" and "minutes < 60" and "seconds < 60" and "micro_seconds < 1000000"
  shows "pyfsfat_datetime_new_from_posix_time_in_micro_seconds N
      (of_nat (seconds_since 1970 y m d hours minutes seconds * 1000000 + micro_seconds)) =
    (if y = 1999 \<and> m = 12 \<and> d = 31 then N 2000 1 0 (int hours) (int minutes) (int seconds) (int micro_seconds)
     else N (int y) (int m) (int d) (int hours) (int minutes) (int seconds) (int micro_seconds))"
    and "pyfsfat_datetime_new_from_posix_time N (of_nat (seconds_since 1970 y m d hours minutes seconds)) =
    (if y = 1999 \<and> m = 12 \<and> d = 31 then N 2000 1 0 (int hours) (int minutes) (int seconds) 0
     else N (int y) (int m) (int d) (int hours) (int minutes) (int seconds) 0)"
proof -
  let ?p = "seconds_since 1970 y m d hours minutes seconds"
  have "days_since 1970 y m d < 3000000" using days_since_le [OF assms(1,2)] assms(2,3) by simp
  then have p: "?p < 300000000000" using assms(4-6) by (simp add: seconds_since_def)
  have micro: "sint (of_nat (?p * 1000000 + micro_seconds) :: u64) = int (?p * 1000000 + micro_seconds)"
    "sint (of_nat ?p :: u64) = int ?p"
    by (rule sint_of_nat; use p assms(7) in simp)+
  have parts: "int (?p * 1000000 + micro_seconds) sdiv 1000000 = int ?p"
    "int (?p * 1000000 + micro_seconds) smod 1000000 = int micro_seconds"
    using digit [OF assms(7), of ?p] zdiv_int [of "?p * 1000000 + micro_seconds" 1000000]
      zmod_int [of "?p * 1000000 + micro_seconds" 1000000]
    by (simp_all add: c_quotient)
  have "sint (word_of_int (int micro_seconds) :: u32) = int micro_seconds"
    using assms(7) by (subst sint_32_small) (simp_all add: unsigned_of_nat take_bit_nat_eq_self)
  then show "pyfsfat_datetime_new_from_posix_time_in_micro_seconds N (of_nat (?p * 1000000 + micro_seconds)) =
    (if y = 1999 \<and> m = 12 \<and> d = 31 then N 2000 1 0 (int hours) (int minutes) (int seconds) (int micro_seconds)
     else N (int y) (int m) (int d) (int hours) (int minutes) (int seconds) (int micro_seconds))"
    "pyfsfat_datetime_new_from_posix_time N (of_nat ?p) =
    (if y = 1999 \<and> m = 12 \<and> d = 31 then N 2000 1 0 (int hours) (int minutes) (int seconds) 0
     else N (int y) (int m) (int d) (int hours) (int minutes) (int seconds) 0)"
    unfolding posix_time_seconds micro parts posix_seconds_date [OF assms(1-6)] by simp_all
qed

text \<open>
  C36. Every date from January 1, 1970 to the end of the year 9999 comes back: for a time of
  day on it, the POSIX time, in seconds or in microseconds, becomes the Python object of that
  date and time. The one exception is December 31, 1999: there the functions ask for day 0 of
  January 2000, and the time raises a value error.
\<close>

theorem posix_time_date:
  assumes "new_datetime_contract N" and "valid_date y m d" and "1970 \<le> y" and "y \<le> 9999"
    and "hours < 24" and "minutes < 60" and "seconds < 60" and "micro_seconds < 1000000"
  shows "pyfsfat_datetime_new_from_posix_time_in_micro_seconds N
      (of_nat (seconds_since 1970 y m d hours minutes seconds * 1000000 + micro_seconds)) =
    (if (y, m, d) = (1999, 12, 31) then Inl PyExc_ValueError
     else N (int y) (int m) (int d) (int hours) (int minutes) (int seconds) (int micro_seconds)) \<and>
    pyfsfat_datetime_new_from_posix_time N (of_nat (seconds_since 1970 y m d hours minutes seconds)) =
    (if (y, m, d) = (1999, 12, 31) then Inl PyExc_ValueError
     else N (int y) (int m) (int d) (int hours) (int minutes) (int seconds) 0) \<and>
    (\<exists>x. N (int y) (int m) (int d) (int hours) (int minutes) (int seconds) (int micro_seconds) = Inr x)"
  using new_datetime_accepts [OF assms(1,2) _ assms(4-8)] assms(3) posix_time_fields [OF assms(2-8), of N]
  by (simp add: new_datetime_refuses [OF assms(1)])

definition example_datetime :: "(int \<times> int \<times> int \<times> int \<times> int \<times> int \<times> int) new_datetime" where
  "example_datetime y m d hours minutes seconds micro_seconds =
     (if 1 \<le> y \<and> y \<le> 9999 \<and> 1 \<le> m \<and> m \<le> 12 \<and> 1 \<le> d \<and> d \<le> int (month_length (nat y) (nat m)) \<and>
         0 \<le> hours \<and> hours < 24 \<and> 0 \<le> minutes \<and> minutes < 60 \<and> 0 \<le> seconds \<and> seconds < 60 \<and>
         0 \<le> micro_seconds \<and> micro_seconds < 1000000
      then Inr (y, m, d, hours, minutes, seconds, micro_seconds) else Inl PyExc_ValueError)"

lemma example_datetime_contract: "new_datetime_contract example_datetime"
  by (simp add: new_datetime_contract_def example_datetime_def)

theorem posix_time_date_witness:
  "pyfsfat_datetime_new_from_posix_time_in_micro_seconds example_datetime 951782400500000 =
     Inr (2000, 2, 29, 0, 0, 0, 500000) \<and>
   pyfsfat_datetime_new_from_posix_time example_datetime 946598400 = Inl PyExc_ValueError"
proof -
  have years: "(\<Sum>i = 1970..<1999. year_length i) = 10592"
    by (simp add: sum.atLeast_Suc_lessThan year_length_def leap_year_def)
  have months: "(\<Sum>i = 1..<2. month_length 2000 i) = 31" "(\<Sum>i = 1..<12. month_length 1999 i) = 334"
    by (simp_all add: sum.atLeast_Suc_lessThan month_length_def leap_year_def)
  have seconds: "seconds_since 1970 2000 2 29 0 0 0 = 951782400" "seconds_since 1970 1999 12 31 0 0 0 = 946598400"
    using months by (simp_all add: seconds_since_def days_since_def epoch_lengths years)
  have "valid_date 2000 2 29" "valid_date 1999 12 31"
    by (simp_all add: valid_date_def month_length_def leap_year_def)
  moreover have "example_datetime 2000 2 29 0 0 0 500000 = Inr (2000, 2, 29, 0, 0, 0, 500000)"
    by (simp add: example_datetime_def month_length_def leap_year_def)
  ultimately show ?thesis
    using posix_time_date [OF example_datetime_contract, of 2000 2 29 0 0 0 500000]
      posix_time_date [OF example_datetime_contract, of 1999 12 31 0 0 0 0]
    by (simp add: seconds)
qed

section \<open>The other times\<close>

lemma of_nat_quotient_64:
  assumes "n < 2 ^ 64" and "k < 2 ^ 64"
  shows "(of_nat n :: u64) div of_nat k = of_nat (n div k)" and "(of_nat n :: u64) mod of_nat k = of_nat (n mod k)"
  using assms by (simp_all add: word_arith_nat_div word_arith_nat_mod)

lemma of_nat_quotient_32:
  assumes "n < 2 ^ 32" and "k < 2 ^ 32"
  shows "(of_nat n :: u32) div of_nat k = of_nat (n div k)" and "(of_nat n :: u32) mod of_nat k = of_nat (n mod k)"
  using assms by (simp_all add: word_arith_nat_div word_arith_nat_mod unat_of_nat take_bit_nat_eq_self)

lemma time_of_day_64:
  assumes "p < 2 ^ 64"
  shows "(of_nat p :: u64) mod 60 = of_nat (p mod 60)" and "(of_nat p :: u64) div 60 mod 60 = of_nat (p div 60 mod 60)"
    and "(of_nat p :: u64) div 60 div 60 mod 24 = of_nat (p div 60 div 60 mod 24)"
    and "(of_nat p :: u64) div 60 div 60 div 24 = of_nat (p div 60 div 60 div 24)"
proof -
  have minutes: "p div 60 < 2 ^ 64" using le_less_trans [OF div_le_dividend assms] .
  have hours: "p div 60 div 60 < 2 ^ 64" using le_less_trans [OF div_le_dividend minutes] .
  note quotients = of_nat_quotient_64 [OF assms, of 60] of_nat_quotient_64 [OF minutes, of 60]
    of_nat_quotient_64 [OF hours, of 24]
  show "(of_nat p :: u64) mod 60 = of_nat (p mod 60)" "(of_nat p :: u64) div 60 mod 60 = of_nat (p div 60 mod 60)"
    "(of_nat p :: u64) div 60 div 60 mod 24 = of_nat (p div 60 div 60 mod 24)"
    "(of_nat p :: u64) div 60 div 60 div 24 = of_nat (p div 60 div 60 div 24)"
    using quotients by simp_all
qed

lemma time_of_day_32:
  assumes "p < 2 ^ 32"
  shows "(of_nat p :: u32) mod 60 = of_nat (p mod 60)" and "(of_nat p :: u32) div 60 mod 60 = of_nat (p div 60 mod 60)"
    and "(of_nat p :: u32) div 60 div 60 mod 24 = of_nat (p div 60 div 60 mod 24)"
    and "(of_nat p :: u32) div 60 div 60 div 24 = of_nat (p div 60 div 60 div 24)"
proof -
  have minutes: "p div 60 < 2 ^ 32" using le_less_trans [OF div_le_dividend assms] .
  have hours: "p div 60 div 60 < 2 ^ 32" using le_less_trans [OF div_le_dividend minutes] .
  note quotients = of_nat_quotient_32 [OF assms, of 60] of_nat_quotient_32 [OF minutes, of 60]
    of_nat_quotient_32 [OF hours, of 24]
  show "(of_nat p :: u32) mod 60 = of_nat (p mod 60)" "(of_nat p :: u32) div 60 mod 60 = of_nat (p div 60 mod 60)"
    "(of_nat p :: u32) div 60 div 60 mod 24 = of_nat (p div 60 div 60 mod 24)"
    "(of_nat p :: u32) div 60 div 60 div 24 = of_nat (p div 60 div 60 div 24)"
    using quotients by simp_all
qed

lemma byte_of_word:
  "n < 256 \<Longrightarrow> (ucast (of_nat n :: u64) :: u8) = of_nat n" "n < 256 \<Longrightarrow> (ucast (of_nat n :: u32) :: u8) = of_nat n"
  by (simp_all add: word_unat_eq_iff unsigned_ucast_eq unat_of_nat take_bit_nat_eq_self)

text \<open>
  A FILETIME, with the tenths of a microsecond that are dropped, and a HFS time, likewise: the
  exceptions are December 31 of 1699 and of 1999.
\<close>

theorem filetime_date:
  assumes "new_datetime_contract N" and "valid_date y m d" and "1601 \<le> y" and "y \<le> 9999"
    and "hours < 24" and "minutes < 60" and "seconds < 60" and "micro_seconds < 1000000" and "tenth < 10"
  shows "pyfsfat_datetime_new_from_filetime N
      (of_nat ((seconds_since 1601 y m d hours minutes seconds * 1000000 + micro_seconds) * 10 + tenth)) =
    (if (y, m, d) = (1699, 12, 31) then Inl PyExc_ValueError
     else N (int y) (int m) (int d) (int hours) (int minutes) (int seconds) (int micro_seconds))"
proof -
  let ?p = "seconds_since 1601 y m d hours minutes seconds"
  let ?n = "days_since 1601 y m d + 1"
  let ?t = "(?p * 1000000 + micro_seconds) * 10 + tenth"
  note parts = seconds_since_parts [OF assms(5-7), of 1601 y m d]
  have n: "?n < 4000000" using days_since_le [OF assms(2,3)] assms(3,4) by simp
  then have p: "?p < 400000000000" using assms(5-7) by (simp add: seconds_since_def)
  have t: "?t = ?p * 10000000 + (micro_seconds * 10 + tenth)" by simp
  have low: "micro_seconds * 10 + tenth < 10000000" using assms(8,9) by simp
  have quotients: "?t div 10000000 = ?p" "?t mod 10000000 = micro_seconds * 10 + tenth"
    unfolding t using digit [OF low] by simp_all
  have words: "(of_nat ?t :: u64) div 10000000 = of_nat ?p"
      "(of_nat ?t :: u64) mod 10000000 = of_nat (micro_seconds * 10 + tenth)"
    using of_nat_quotient_64 [of ?t 10000000] p assms(8,9) quotients by simp_all
  have micro: "(ucast (of_nat (micro_seconds * 10 + tenth) :: u64) :: u32) div 10 = of_nat micro_seconds"
  proof -
    have "(ucast (of_nat (micro_seconds * 10 + tenth) :: u64) :: u32) = of_nat (micro_seconds * 10 + tenth)"
      using low by (simp add: word_unat_eq_iff unsigned_ucast_eq unat_of_nat take_bit_nat_eq_self del: of_nat_add of_nat_mult)
    then show ?thesis
      using of_nat_quotient_32(1) [of "micro_seconds * 10 + tenth" 10] digit(2) [OF assms(9), of micro_seconds] low
      by simp
  qed
  have steps: "(of_nat ?p :: u64) mod 60 = of_nat seconds" "(of_nat ?p :: u64) div 60 mod 60 = of_nat minutes"
      "(of_nat ?p :: u64) div 60 div 60 mod 24 = of_nat hours"
      "(of_nat ?p :: u64) div 60 div 60 div 24 = of_nat (days_since 1601 y m d)"
    using time_of_day_64 [of ?p] p by (simp_all only: parts) simp_all
  have days: "(of_nat (days_since 1601 y m d) :: u64) + 1 = of_nat ?n" by simp
  have unat_n: "unat (of_nat ?n :: u64) = ?n" by (rule unat_of_nat_64) (use n in simp)
  have less: "(36159 \<le> (of_nat ?n :: u64)) = (36159 \<le> ?n)" unfolding word_le_nat_alt unat_n by simp
  let ?year = "(if 36159 \<le> ?n then 1700 else 1601) :: u16"
  let ?days = "(if 36159 \<le> ?n then of_nat ?n - 36159 else of_nat ?n) :: u64"
  have elements: "pyfsfat_datetime_new_from_filetime N (of_nat ?t) =
      pyfsfat_datetime_new_from_time_elements N ?year ?days (of_nat hours) (of_nat minutes) (of_nat seconds)
        (of_nat micro_seconds)"
    unfolding pyfsfat_datetime_new_from_filetime_def Let_def words micro steps days less
    using assms(5-7) by (simp add: byte_of_word)
  have "unat ?days = (if 36159 \<le> ?n then ?n - 36159 else ?n)"
  proof (cases "36159 \<le> ?n")
    case True
    then have "unat (of_nat ?n - 36159 :: u64) = ?n - 36159" by (subst unat_minus_exact; unfold unat_n; simp)
    then show ?thesis unfolding if_P [OF True] .
  next
    case False
    show ?thesis unfolding if_not_P [OF False] by (rule unat_n)
  qed
  moreover have "sint (of_nat micro_seconds :: u32) = int micro_seconds"
    using assms(8) by (subst sint_32_small) (simp_all add: unsigned_of_nat take_bit_nat_eq_self)
  ultimately show ?thesis
    unfolding elements
    by (subst time_elements_epochs [OF assms(2,3) _ _ _ epoch_lengths(3) _ refl])
      (use assms(4-7) new_datetime_refuses [OF assms(1)] in \<open>simp_all add: small_byte\<close>)
qed

theorem hfs_time_date:
  assumes "new_datetime_contract N" and "valid_date y m d" and "1904 \<le> y"
    and "hours < 24" and "minutes < 60" and "seconds < 60"
    and "seconds_since 1904 y m d hours minutes seconds < 2 ^ 32"
  shows "pyfsfat_datetime_new_from_hfs_time N (of_nat (seconds_since 1904 y m d hours minutes seconds)) =
    (if (y, m, d) = (1999, 12, 31) then Inl PyExc_ValueError
     else N (int y) (int m) (int d) (int hours) (int minutes) (int seconds) 0)"
proof -
  let ?p = "seconds_since 1904 y m d hours minutes seconds"
  let ?n = "days_since 1904 y m d + 1"
  note parts = seconds_since_parts [OF assms(4-6), of 1904 y m d]
  have n: "?n < 60000" using assms(7) by (simp add: seconds_since_def)
  have y: "y < 60000"
  proof (rule ccontr)
    assume "\<not> y < 60000"
    have "(\<Sum>i = 1904..<y. 365) \<le> (\<Sum>i = 1904..<y. year_length i)"
      by (rule sum_mono) (simp add: year_length_def)
    then have "(y - 1904) * 365 \<le> days_since 1904 y m d" by (simp add: days_since_def)
    then show False using n \<open>\<not> y < 60000\<close> by simp
  qed
  have steps: "(of_nat ?p :: u32) mod 60 = of_nat seconds" "(of_nat ?p :: u32) div 60 mod 60 = of_nat minutes"
      "(of_nat ?p :: u32) div 60 div 60 mod 24 = of_nat hours"
      "(of_nat ?p :: u32) div 60 div 60 div 24 = of_nat (days_since 1904 y m d)"
    using time_of_day_32 [OF assms(7)] by (simp_all only: parts)
  have days: "(of_nat (days_since 1904 y m d) :: u32) + 1 = of_nat ?n" by simp
  have unat_n: "unat (of_nat ?n :: u32) = ?n"
    using n by (simp only: unat_of_nat) (simp add: take_bit_nat_eq_self)
  have less: "(35064 \<le> (of_nat ?n :: u32)) = (35064 \<le> ?n)" unfolding word_le_nat_alt unat_n by simp
  let ?year = "(if 35064 \<le> ?n then 2000 else 1904) :: u16"
  let ?days = "ucast ((if 35064 \<le> ?n then of_nat ?n - 35064 else of_nat ?n) :: u32) :: u64"
  have elements: "pyfsfat_datetime_new_from_hfs_time N (of_nat ?p) =
      pyfsfat_datetime_new_from_time_elements N ?year ?days (of_nat hours) (of_nat minutes) (of_nat seconds) 0"
    unfolding pyfsfat_datetime_new_from_hfs_time_def Let_def steps days less
    using assms(4-6) by (simp add: byte_of_word)
  have "unat ?days = (if 35064 \<le> ?n then ?n - 35064 else ?n)"
  proof (cases "35064 \<le> ?n")
    case True
    then have "unat (of_nat ?n - 35064 :: u32) = ?n - 35064" by (subst unat_minus_exact; unfold unat_n; simp)
    then show ?thesis unfolding if_P [OF True] by (simp add: unat_ucast_up)
  next
    case False
    show ?thesis unfolding if_not_P [OF False] using unat_n by (simp add: unat_ucast_up)
  qed
  then show ?thesis
    unfolding elements
    by (subst time_elements_epochs [OF assms(2,3) y _ _ epoch_lengths(2) _ refl])
      (use assms(4-6) new_datetime_refuses [OF assms(1)] in \<open>simp_all add: small_byte\<close>)
qed

lemma low_bits_div:
  "(w :: nat) mod 65536 div 32 = w div 32 mod 2048" "(w :: nat) mod 65536 div 512 = w div 512 mod 128"
  "(w :: nat) mod 65536 div 2048 = w div 2048 mod 32"
proof -
  have part: "w mod (b * c) div b = w div b mod c" if "0 < b" for b c :: nat
    using that by (simp add: mod_mult2_eq)
  show "w mod 65536 div 32 = w div 32 mod 2048" "w mod 65536 div 512 = w div 512 mod 128"
    "w mod 65536 div 2048 = w div 2048 mod 32"
    using part [of 32 2048] part [of 512 128] part [of 2048 32] by simp_all
qed

lemma early_days: "valid_date y 1 3" "days_since y y 1 3 = 2"
  by (simp_all add: valid_date_def month_length_def days_since_def)

theorem filetime_date_witness:
  "pyfsfat_datetime_new_from_filetime example_datetime 1728000000017 = Inr (1601, 1, 3, 0, 0, 0, 1)"
  using filetime_date [OF example_datetime_contract early_days(1), of 1601 0 0 0 1 7]
  by (simp add: seconds_since_def early_days [simplified] example_datetime_def month_length_def)

theorem hfs_time_date_witness:
  "pyfsfat_datetime_new_from_hfs_time example_datetime 172801 = Inr (1904, 1, 3, 0, 0, 1, 0)"
  using hfs_time_date [OF example_datetime_contract early_days(1), of 1904 0 0 1]
  by (simp add: seconds_since_def early_days [simplified] example_datetime_def month_length_def)

text \<open>
  A packed date and time: the fields are those that theory \<^verbatim>\<open>Date_Time\<close> takes out of the low
  and the high 16 bits, and a date that is not in the calendar is refused before Python sees
  it.
\<close>

theorem fat_date_time_date:
  fixes fat_date_time :: u32
  defines "date \<equiv> ucast fat_date_time :: u16" and "time \<equiv> ucast (drop_bit 16 fat_date_time) :: u16"
  shows "pyfsfat_datetime_new_from_fat_date_time N fat_date_time =
    (if valid_date (date_year date) (date_month date) (date_day date)
     then N (int (date_year date)) (int (date_month date)) (int (date_day date))
            (int (time_hours time)) (int (time_minutes time)) (int (time_seconds time)) 0
     else Inl PyExc_IOError)"
proof -
  let ?w = "unat fat_date_time"
  have mask: "unat (v AND 0x7f :: u32) = unat v mod 128" "unat (v AND 0x3f :: u32) = unat v mod 64"
    "unat (v AND 0x1f :: u32) = unat v mod 32" "unat (v AND 0x0f :: u32) = unat v mod 16" for v
  proof -
    have "v AND 0x7f = take_bit 7 v" "v AND 0x3f = take_bit 6 v" "v AND 0x1f = take_bit 5 v" "v AND 0x0f = take_bit 4 v"
      by (simp_all add: take_bit_eq_mask mask_eq_exp_minus_1)
    note masks = this
    show "unat (v AND 0x7f) = unat v mod 128" "unat (v AND 0x3f) = unat v mod 64"
      "unat (v AND 0x1f) = unat v mod 32" "unat (v AND 0x0f) = unat v mod 16"
      unfolding masks unsigned_take_bit_eq by (simp_all add: take_bit_eq_mod)
  qed
  have drop: "unat (drop_bit k fat_date_time) = ?w div 2 ^ k" for k
    unfolding unat_drop_bit_eq by (simp add: drop_bit_eq_div)
  have halves: "unat date = ?w mod 65536" "unat time = ?w div 65536 mod 65536"
    by (simp_all add: date_def time_def unsigned_ucast_eq take_bit_eq_mod drop)
  have byte: "unat (ucast v :: u8) = unat v" if "unat v < 256" for v :: u32
    using that by (simp add: unsigned_ucast_eq take_bit_nat_eq_self)
  let ?d = "ucast (fat_date_time AND 0x1f) :: u8" and ?m = "ucast (drop_bit 5 fat_date_time AND 0x0f) :: u8"
  let ?y = "ucast (1980 + (drop_bit 4 (drop_bit 5 fat_date_time) AND 0x7f)) :: u16"
  let ?t = "drop_bit 7 (drop_bit 4 (drop_bit 5 fat_date_time))"
  have w: "?w < 2 ^ 32" using unat_bounds(3) [of fat_date_time] by simp
  have d: "unat ?d = date_day date"
    by (subst byte) (simp_all add: mask date_day_def halves mod_mod_cancel)
  have m: "unat ?m = date_month date"
    by (subst byte) (simp_all add: mask drop date_month_def halves low_bits_div mod_mod_cancel)
  have "unat (1980 + (drop_bit 4 (drop_bit 5 fat_date_time) AND 0x7f)) = 1980 + ?w div 512 mod 128"
    by (subst unat_add_exact) (simp_all add: mask drop)
  then have y: "unat ?y = date_year date"
    by (simp add: unsigned_ucast_eq take_bit_nat_eq_self date_year_def halves low_bits_div)
  have s: "unat (ucast ((?t AND 0x1f) * 2) :: u8) = time_seconds time"
  proof -
    have "unat ((?t AND 0x1f) * 2) = ?w div 65536 mod 32 * 2"
      by (subst unat_mult_exact) (simp_all add: mask drop)
    then show ?thesis by (subst byte) (simp_all add: time_seconds_def halves mod_mod_cancel)
  qed
  have mi: "unat (ucast (drop_bit 5 ?t AND 0x3f) :: u8) = time_minutes time"
    by (subst byte) (simp_all add: mask drop time_minutes_def halves low_bits_div mod_mod_cancel div_mult2_eq [symmetric])
  have h: "unat (ucast (drop_bit 6 (drop_bit 5 ?t) AND 0x1f) :: u8) = time_hours time"
    by (subst byte) (simp_all add: mask drop time_hours_def halves low_bits_div div_mult2_eq [symmetric])
  have l: "unat (days_in_month ?y ?m) = month_length (date_year date) (date_month date)"
    by (simp only: days_in_month_nat y m)
  have none: "(days_in_month ?y ?m = 0) = (month_length (date_year date) (date_month date) = 0)"
    using l by (metis unat_eq_zero)
  have bad: "(?d = 0 \<or> ucast ?d > days_in_month ?y ?m) =
      (date_day date = 0 \<or> month_length (date_year date) (date_month date) < date_day date)"
    using d l by (simp add: word_less_nat_alt unat_ucast_up unat_eq_zero [symmetric] del: unat_eq_zero)
  have valid: "valid_date (date_year date) (date_month date) (date_day date) =
      (0 < date_day date \<and> date_day date \<le> month_length (date_year date) (date_month date))"
    by (auto simp: valid_date_def month_length_def split: if_splits)
  have fields: "pyfsfat_datetime_new_from_fat_date_time N fat_date_time =
      (if days_in_month ?y ?m = 0 then Inl PyExc_IOError
       else if ?d = 0 \<or> ucast ?d > days_in_month ?y ?m then Inl PyExc_IOError
       else N (int (unat ?y)) (int (unat ?m)) (int (unat ?d))
         (int (unat (ucast (drop_bit 6 (drop_bit 5 ?t) AND 0x1f) :: u8)))
         (int (unat (ucast (drop_bit 5 ?t AND 0x3f) :: u8)))
         (int (unat (ucast ((?t AND 0x1f) * 2) :: u8))) 0)"
    by (simp only: pyfsfat_datetime_new_from_fat_date_time_def Let_def uint_nat)
  show ?thesis
    unfolding fields none bad valid y m d s mi h by auto
qed

end
