(* ===== verification/Py_File_Entry.thy ===== *)
theory Py_File_Entry
  imports Py_File_Object Py_Datetime File_Entry
begin

text \<open>
  The Python objects of file entries, \<^verbatim>\<open>pyfsfat/pyfsfat_file_entry.c\<close> and
  \<^verbatim>\<open>pyfsfat/pyfsfat_file_entries.c\<close>: their values, their sub file entries with the sequence
  object that iterates over them, and the methods that make a file entry a file-like object
  itself. A method that changes the file entry gives the object it leaves beside its result,
  and the object is not changed by one that raises an exception.
\<close>

section \<open>The objects\<close>

text \<open>The parent object is kept so that the volume outlives its entries.\<close>

record ('fe, 'p) pyfsfat_file_entry =
  pfe_file_entry :: "'fe option"
  pfe_parent_object :: "'p option"

definition pyfsfat_file_entry_new :: "'fe option \<Rightarrow> 'p option \<Rightarrow> ('fe, 'p) pyfsfat_file_entry py_result" where
  "pyfsfat_file_entry_new file_entry parent_object =
     (if file_entry = None then Inl PyExc_ValueError
      else Inr \<lparr> pfe_file_entry = file_entry, pfe_parent_object = parent_object \<rparr>)"

text \<open>Python code cannot make a file entry itself.\<close>

definition pyfsfat_file_entry_init ::
  "('fe, 'p) pyfsfat_file_entry option \<Rightarrow> ('fe, 'p) pyfsfat_file_entry option \<times> unit py_result" where
  "pyfsfat_file_entry_init pyfsfat_file_entry =
     (case pyfsfat_file_entry of
        None \<Rightarrow> (None, Inl PyExc_ValueError)
      | Some e \<Rightarrow> (Some (e\<lparr> pfe_file_entry := None \<rparr>), Inl PyExc_NotImplementedError))"

section \<open>Values\<close>

definition pyfsfat_file_entry_get_identifier ::
  "'o python \<Rightarrow> (('arr, 'cache, 'xarr, 's) file_entry, 'p) pyfsfat_file_entry option \<Rightarrow> 'o py_result" where
  "pyfsfat_file_entry_get_identifier P pyfsfat_file_entry =
     (case pyfsfat_file_entry of
        None \<Rightarrow> Inl PyExc_ValueError
      | Some e \<Rightarrow>
          (case libfsfat_file_entry_get_identifier (pfe_file_entry e) of
             Inl _ \<Rightarrow> Inl PyExc_IOError
           | Inr value_64bit \<Rightarrow> pyfsfat_integer_unsigned_new_from_64bit P value_64bit))"

text \<open>
  A value that may be missing, for the function that gets it and the one that makes its object.
\<close>

definition entry_value ::
  "'o python \<Rightarrow> (('arr, 'cache, 'xarr, 's) file_entry option \<Rightarrow> 'v option result) \<Rightarrow> ('v \<Rightarrow> 'o py_result) \<Rightarrow>
   (('arr, 'cache, 'xarr, 's) file_entry, 'p) pyfsfat_file_entry option \<Rightarrow> 'o py_result" where
  "entry_value P get new_object pyfsfat_file_entry =
     (case pyfsfat_file_entry of
        None \<Rightarrow> Inl PyExc_ValueError
      | Some e \<Rightarrow>
          (case get (pfe_file_entry e) of
             Inl _ \<Rightarrow> Inl PyExc_IOError
           | Inr None \<Rightarrow> Inr (py_none P)
           | Inr (Some x) \<Rightarrow> new_object x))"

text \<open>
  A FAT timestamp counts 10 milliseconds from January 1, 1980. As a date and time it becomes a
  POSIX time in microseconds.
\<close>

definition datetime_of_fat_timestamp :: "'o new_datetime \<Rightarrow> u64 \<Rightarrow> 'o py_result" where
  "datetime_of_fat_timestamp N fat_timestamp =
     pyfsfat_datetime_new_from_posix_time_in_micro_seconds N ((fat_timestamp + 31553280000) * 10000)"

definition pyfsfat_file_entry_get_access_time ::
  "'o python \<Rightarrow> 'o new_datetime \<Rightarrow>
   (('arr, 'cache, 'xarr, 's) file_entry, 'p) pyfsfat_file_entry option \<Rightarrow> 'o py_result" where
  "pyfsfat_file_entry_get_access_time P N =
     entry_value P libfsfat_file_entry_get_access_time (datetime_of_fat_timestamp N)"

definition pyfsfat_file_entry_get_access_time_as_integer ::
  "'o python \<Rightarrow> (('arr, 'cache, 'xarr, 's) file_entry, 'p) pyfsfat_file_entry option \<Rightarrow> 'o py_result" where
  "pyfsfat_file_entry_get_access_time_as_integer P =
     entry_value P libfsfat_file_entry_get_access_time (pyfsfat_integer_unsigned_new_from_64bit P)"

definition pyfsfat_file_entry_get_creation_time ::
  "'o python \<Rightarrow> 'o new_datetime \<Rightarrow>
   (('arr, 'cache, 'xarr, 's) file_entry, 'p) pyfsfat_file_entry option \<Rightarrow> 'o py_result" where
  "pyfsfat_file_entry_get_creation_time P N =
     entry_value P libfsfat_file_entry_get_creation_time (datetime_of_fat_timestamp N)"

definition pyfsfat_file_entry_get_creation_time_as_integer ::
  "'o python \<Rightarrow> (('arr, 'cache, 'xarr, 's) file_entry, 'p) pyfsfat_file_entry option \<Rightarrow> 'o py_result" where
  "pyfsfat_file_entry_get_creation_time_as_integer P =
     entry_value P libfsfat_file_entry_get_creation_time (pyfsfat_integer_unsigned_new_from_64bit P)"

definition pyfsfat_file_entry_get_modification_time ::
  "'o python \<Rightarrow> 'o new_datetime \<Rightarrow>
   (('arr, 'cache, 'xarr, 's) file_entry, 'p) pyfsfat_file_entry option \<Rightarrow> 'o py_result" where
  "pyfsfat_file_entry_get_modification_time P N =
     entry_value P libfsfat_file_entry_get_modification_time (datetime_of_fat_timestamp N)"

definition pyfsfat_file_entry_get_modification_time_as_integer ::
  "'o python \<Rightarrow> (('arr, 'cache, 'xarr, 's) file_entry, 'p) pyfsfat_file_entry option \<Rightarrow> 'o py_result" where
  "pyfsfat_file_entry_get_modification_time_as_integer P =
     entry_value P libfsfat_file_entry_get_modification_time (pyfsfat_integer_unsigned_new_from_64bit P)"

definition pyfsfat_file_entry_get_file_attribute_flags ::
  "'o python \<Rightarrow> (('arr, 'cache, 'xarr, 's) file_entry, 'p) pyfsfat_file_entry option \<Rightarrow> 'o py_result" where
  "pyfsfat_file_entry_get_file_attribute_flags P =
     entry_value P libfsfat_file_entry_get_file_attribute_flags (\<lambda>flags. Inr (py_long_from P (uint flags)))"

text \<open>The name without its terminator; a name that is no UTF-8 makes Python raise an exception.\<close>

definition pyfsfat_file_entry_get_name ::
  "'o python \<Rightarrow> una_ops \<Rightarrow> ('arr, nat) array_ops \<Rightarrow>
   (('arr, 'cache, 'xarr, 's) file_entry, 'p) pyfsfat_file_entry option \<Rightarrow> 'o py_result" where
  "pyfsfat_file_entry_get_name P U A pyfsfat_file_entry =
     (case pyfsfat_file_entry of
        None \<Rightarrow> Inl PyExc_ValueError
      | Some e \<Rightarrow>
          (case libfsfat_file_entry_get_utf8_name_size U A (pfe_file_entry e) of
             Inl _ \<Rightarrow> Inl PyExc_IOError
           | Inr None \<Rightarrow> Inr (py_none P)
           | Inr (Some name_size) \<Rightarrow>
               if name_size = 0 then Inr (py_none P)
               else
                 (case libfsfat_file_entry_get_utf8_name U A (pfe_file_entry e) name_size of
                    Inl _ \<Rightarrow> Inl PyExc_IOError
                  | Inr None \<Rightarrow> Inl PyExc_IOError
                  | Inr (Some name) \<Rightarrow>
                      (case py_unicode_decode_utf8 P (take (name_size - 1) name) of
                         None \<Rightarrow> Inl PyExc_raised
                       | Some string_object \<Rightarrow> Inr string_object))))"

section \<open>Sub file entries\<close>

definition pyfsfat_file_entry_get_number_of_sub_file_entries ::
  "'o python \<Rightarrow> ('arr, nat) array_ops \<Rightarrow> ('tarr, node_entry) array_ops \<Rightarrow>
   (('arr, 'cache, 'xarr, 's) file_entry, 'p) pyfsfat_file_entry option \<Rightarrow>
   ((('arr, 'cache, 'xarr, 's) file_entry, 'p) pyfsfat_file_entry option \<times> 'o py_result) option" where
  "pyfsfat_file_entry_get_number_of_sub_file_entries P A T pyfsfat_file_entry =
     (case pyfsfat_file_entry of
        None \<Rightarrow> Some (None, Inl PyExc_ValueError)
      | Some e \<Rightarrow>
          (case libfsfat_file_entry_get_number_of_sub_file_entries A T (pfe_file_entry e) of
             None \<Rightarrow> None
           | Some (Inl _) \<Rightarrow> Some (Some e, Inl PyExc_IOError)
           | Some (Inr (fe, number_of_sub_file_entries)) \<Rightarrow>
               Some (Some (e\<lparr> pfe_file_entry := Some fe \<rparr>), Inr (py_long_from P number_of_sub_file_entries))))"

definition pyfsfat_file_entry_get_sub_file_entry_by_index ::
  "('arr, nat) array_ops \<Rightarrow> ('tarr, node_entry) array_ops \<Rightarrow> ('xarr, extent) array_ops \<Rightarrow>
   (('arr, 'cache, 'xarr, 's) file_entry, 'p) pyfsfat_file_entry option \<Rightarrow> int \<Rightarrow>
   ((('arr, 'cache, 'xarr, 's) file_entry, 'p) pyfsfat_file_entry option \<times>
    (('arr, 'cache, 'xarr, 's) file_entry, 'p) pyfsfat_file_entry py_result) option" where
  "pyfsfat_file_entry_get_sub_file_entry_by_index A T X pyfsfat_file_entry sub_file_entry_index =
     (case pyfsfat_file_entry of
        None \<Rightarrow> Some (None, Inl PyExc_ValueError)
      | Some e \<Rightarrow>
          (case libfsfat_file_entry_get_sub_file_entry_by_index A T X (pfe_file_entry e)
                  sub_file_entry_index None of
             None \<Rightarrow> None
           | Some (Inl _) \<Rightarrow> Some (Some e, Inl PyExc_IOError)
           | Some (Inr (fe, sub_file_entry)) \<Rightarrow>
               Some (Some (e\<lparr> pfe_file_entry := Some fe \<rparr>),
                 (case pyfsfat_file_entry_new (Some sub_file_entry) (pfe_parent_object e) of
                    Inl _ \<Rightarrow> Inl PyExc_MemoryError
                  | Inr file_entry_object \<Rightarrow> Inr file_entry_object))))"

text \<open>The arguments of a method are what \<^verbatim>\<open>PyArg_ParseTupleAndKeywords\<close> makes of them.\<close>

definition pyfsfat_file_entry_get_sub_file_entry ::
  "('arr, nat) array_ops \<Rightarrow> ('tarr, node_entry) array_ops \<Rightarrow> ('xarr, extent) array_ops \<Rightarrow>
   (('arr, 'cache, 'xarr, 's) file_entry, 'p) pyfsfat_file_entry option \<Rightarrow> int py_result \<Rightarrow>
   ((('arr, 'cache, 'xarr, 's) file_entry, 'p) pyfsfat_file_entry option \<times>
    (('arr, 'cache, 'xarr, 's) file_entry, 'p) pyfsfat_file_entry py_result) option" where
  "pyfsfat_file_entry_get_sub_file_entry A T X pyfsfat_file_entry arguments =
     (case arguments of
        Inl exc \<Rightarrow> Some (pyfsfat_file_entry, Inl exc)
      | Inr sub_file_entry_index \<Rightarrow>
          pyfsfat_file_entry_get_sub_file_entry_by_index A T X pyfsfat_file_entry sub_file_entry_index)"

text \<open>
  The function would give \<^verbatim>\<open>None\<close> for the return value 0, but the library function has no such
  return value: a name that is missing raises an IO error.
\<close>

definition pyfsfat_file_entry_get_sub_file_entry_by_name ::
  "una_ops \<Rightarrow> ('arr, nat) array_ops \<Rightarrow> ('tarr, node_entry) array_ops \<Rightarrow> ('xarr, extent) array_ops \<Rightarrow>
   (('arr, 'cache, 'xarr, 's) file_entry, 'p) pyfsfat_file_entry option \<Rightarrow> u8 list py_result \<Rightarrow>
   ((('arr, 'cache, 'xarr, 's) file_entry, 'p) pyfsfat_file_entry option \<times>
    (('arr, 'cache, 'xarr, 's) file_entry, 'p) pyfsfat_file_entry py_result) option" where
  "pyfsfat_file_entry_get_sub_file_entry_by_name U A T X pyfsfat_file_entry arguments =
     (case pyfsfat_file_entry of
        None \<Rightarrow> Some (None, Inl PyExc_ValueError)
      | Some e \<Rightarrow>
     (case arguments of
        Inl exc \<Rightarrow> Some (Some e, Inl exc)
      | Inr utf8_name \<Rightarrow>
          (case libfsfat_file_entry_get_sub_file_entry_by_utf8_name U A T X (pfe_file_entry e)
                  (Some utf8_name) (length utf8_name) None of
             None \<Rightarrow> None
           | Some (Inl _) \<Rightarrow> Some (Some e, Inl PyExc_IOError)
           | Some (Inr (fe, sub_file_entry)) \<Rightarrow>
               Some (Some (e\<lparr> pfe_file_entry := Some fe \<rparr>),
                 (case pyfsfat_file_entry_new (Some sub_file_entry) (pfe_parent_object e) of
                    Inl _ \<Rightarrow> Inl PyExc_MemoryError
                  | Inr file_entry_object \<Rightarrow> Inr file_entry_object)))))"

section \<open>The sequence of sub file entries\<close>

text \<open>
  A sequence object gets its items from its parent, here a file entry, by a function. It is the
  iterator over itself, so its current index moves. The parent is an object that others share;
  here the sequence has its own copy of it, which differs at most in a directory that is already
  read.
\<close>

record ('e, 'i) pyfsfat_file_entries =
  pfs_parent_object :: "'e option"
  pfs_get_item_by_index :: "('e option \<Rightarrow> int \<Rightarrow> ('e option \<times> 'i py_result) option) option"
  pfs_current_index :: int
  pfs_number_of_items :: int

definition pyfsfat_file_entries_new ::
  "'e option \<Rightarrow> ('e option \<Rightarrow> int \<Rightarrow> ('e option \<times> 'i py_result) option) option \<Rightarrow> int \<Rightarrow>
   ('e, 'i) pyfsfat_file_entries py_result" where
  "pyfsfat_file_entries_new parent_object get_item_by_index number_of_items =
     (if parent_object = None then Inl PyExc_ValueError
      else if get_item_by_index = None then Inl PyExc_ValueError
      else Inr \<lparr> pfs_parent_object = parent_object, pfs_get_item_by_index = get_item_by_index,
                 pfs_current_index = 0, pfs_number_of_items = number_of_items \<rparr>)"

definition pyfsfat_file_entries_init ::
  "('e, 'i) pyfsfat_file_entries option \<Rightarrow> ('e, 'i) pyfsfat_file_entries option \<times> unit py_result" where
  "pyfsfat_file_entries_init sequence_object =
     (case sequence_object of
        None \<Rightarrow> (None, Inl PyExc_ValueError)
      | Some sequence_object \<Rightarrow>
          (Some (sequence_object\<lparr> pfs_parent_object := None, pfs_get_item_by_index := None,
              pfs_current_index := 0, pfs_number_of_items := 0 \<rparr>),
           Inl PyExc_NotImplementedError))"

definition pyfsfat_file_entries_len :: "('e, 'i) pyfsfat_file_entries option \<Rightarrow> int py_result" where
  "pyfsfat_file_entries_len sequence_object =
     (case sequence_object of
        None \<Rightarrow> Inl PyExc_ValueError
      | Some sequence_object \<Rightarrow> Inr (pfs_number_of_items sequence_object))"

definition pyfsfat_file_entries_getitem ::
  "('e, 'i) pyfsfat_file_entries option \<Rightarrow> int \<Rightarrow> (('e, 'i) pyfsfat_file_entries option \<times> 'i py_result) option" where
  "pyfsfat_file_entries_getitem sequence_object item_index =
     (case sequence_object of
        None \<Rightarrow> Some (None, Inl PyExc_ValueError)
      | Some q \<Rightarrow>
     (case pfs_get_item_by_index q of
        None \<Rightarrow> Some (Some q, Inl PyExc_ValueError)
      | Some get_item_by_index \<Rightarrow>
          if pfs_number_of_items q < 0 then Some (Some q, Inl PyExc_ValueError)
          else if item_index < 0 \<or> item_index \<ge> pfs_number_of_items q
          then Some (Some q, Inl PyExc_ValueError)
          else
            (case get_item_by_index (pfs_parent_object q) item_index of
               None \<Rightarrow> None
             | Some (parent_object, file_entry_object) \<Rightarrow>
                 Some (Some (q\<lparr> pfs_parent_object := parent_object \<rparr>), file_entry_object))))"

definition pyfsfat_file_entries_iter ::
  "('e, 'i) pyfsfat_file_entries option \<Rightarrow> ('e, 'i) pyfsfat_file_entries py_result" where
  "pyfsfat_file_entries_iter sequence_object =
     (case sequence_object of None \<Rightarrow> Inl PyExc_ValueError | Some q \<Rightarrow> Inr q)"

text \<open>The index moves only past an item, so an item that raises an exception is tried again.\<close>

definition pyfsfat_file_entries_iternext ::
  "('e, 'i) pyfsfat_file_entries option \<Rightarrow> (('e, 'i) pyfsfat_file_entries option \<times> 'i py_result) option" where
  "pyfsfat_file_entries_iternext sequence_object =
     (case sequence_object of
        None \<Rightarrow> Some (None, Inl PyExc_ValueError)
      | Some q \<Rightarrow>
     (case pfs_get_item_by_index q of
        None \<Rightarrow> Some (Some q, Inl PyExc_ValueError)
      | Some get_item_by_index \<Rightarrow>
          if pfs_current_index q < 0 then Some (Some q, Inl PyExc_ValueError)
          else if pfs_number_of_items q < 0 then Some (Some q, Inl PyExc_ValueError)
          else if pfs_current_index q \<ge> pfs_number_of_items q then Some (Some q, Inl PyExc_StopIteration)
          else
            (case get_item_by_index (pfs_parent_object q) (pfs_current_index q) of
               None \<Rightarrow> None
             | Some (parent_object, Inl exc) \<Rightarrow>
                 Some (Some (q\<lparr> pfs_parent_object := parent_object \<rparr>), Inl exc)
             | Some (parent_object, Inr file_entry_object) \<Rightarrow>
                 Some (Some (q\<lparr> pfs_parent_object := parent_object,
                                pfs_current_index := pfs_current_index q + 1 \<rparr>),
                   Inr file_entry_object))))"

definition pyfsfat_file_entry_get_sub_file_entries ::
  "('arr, nat) array_ops \<Rightarrow> ('tarr, node_entry) array_ops \<Rightarrow> ('xarr, extent) array_ops \<Rightarrow>
   (('arr, 'cache, 'xarr, 's) file_entry, 'p) pyfsfat_file_entry option \<Rightarrow>
   ((('arr, 'cache, 'xarr, 's) file_entry, 'p) pyfsfat_file_entry option \<times>
    ((('arr, 'cache, 'xarr, 's) file_entry, 'p) pyfsfat_file_entry,
     (('arr, 'cache, 'xarr, 's) file_entry, 'p) pyfsfat_file_entry) pyfsfat_file_entries py_result) option" where
  "pyfsfat_file_entry_get_sub_file_entries A T X pyfsfat_file_entry =
     (case pyfsfat_file_entry of
        None \<Rightarrow> Some (None, Inl PyExc_ValueError)
      | Some e \<Rightarrow>
          (case libfsfat_file_entry_get_number_of_sub_file_entries A T (pfe_file_entry e) of
             None \<Rightarrow> None
           | Some (Inl _) \<Rightarrow> Some (Some e, Inl PyExc_IOError)
           | Some (Inr (fe, number_of_sub_file_entries)) \<Rightarrow>
               let e = e\<lparr> pfe_file_entry := Some fe \<rparr>
               in Some (Some e,
                    (case pyfsfat_file_entries_new (Some e)
                            (Some (pyfsfat_file_entry_get_sub_file_entry_by_index A T X))
                            number_of_sub_file_entries of
                       Inl _ \<Rightarrow> Inl PyExc_MemoryError
                     | Inr sequence_object \<Rightarrow> Inr sequence_object))))"

section \<open>The data\<close>

definition pyfsfat_file_entry_get_size ::
  "'o python \<Rightarrow> (('arr, 'cache, 'xarr, 's) file_entry, 'p) pyfsfat_file_entry option \<Rightarrow> 'o py_result" where
  "pyfsfat_file_entry_get_size P pyfsfat_file_entry =
     (case pyfsfat_file_entry of
        None \<Rightarrow> Inl PyExc_ValueError
      | Some e \<Rightarrow>
          (case libfsfat_file_entry_get_size (pfe_file_entry e) of
             Inl _ \<Rightarrow> Inl PyExc_IOError
           | Inr size0 \<Rightarrow> pyfsfat_integer_unsigned_new_from_64bit P size0))"

text \<open>The size that is read, from an integer object; the objects of other types give \<open>None\<close>.\<close>

definition read_size_of_object :: "'o python \<Rightarrow> 'o \<Rightarrow> u64 option py_result" where
  "read_size_of_object P integer_object =
     (case py_is_instance P integer_object PyLong_Type of
        None \<Rightarrow> Inl PyExc_RuntimeError
      | Some False \<Rightarrow> Inr None
      | Some True \<Rightarrow>
          (case pyfsfat_integer_signed_copy_to_64bit P (Some integer_object) of
             Inl _ \<Rightarrow> Inl PyExc_ValueError
           | Inr read_size \<Rightarrow> Inr (Some read_size)))"

text \<open>
  Without a size, or with \<^verbatim>\<open>None\<close> for it, the size of the data is read, whatever the current
  offset. The buffer is a new string of bytes, cut to the number of bytes that are read.
\<close>

definition pyfsfat_file_entry_read_buffer ::
  "'o python \<Rightarrow> ('tarr, node_entry) array_ops \<Rightarrow> ('xarr, extent) array_ops \<Rightarrow> 's stream_ops \<Rightarrow>
   (('arr, 'cache, 'xarr, 's) file_entry, 'p) pyfsfat_file_entry option \<Rightarrow> 'o option py_result \<Rightarrow>
   ((('arr, 'cache, 'xarr, 's) file_entry, 'p) pyfsfat_file_entry option \<times> 'o py_result) option" where
  "pyfsfat_file_entry_read_buffer P T X S pyfsfat_file_entry arguments =
     (case pyfsfat_file_entry of
        None \<Rightarrow> Some (None, Inl PyExc_ValueError)
      | Some e \<Rightarrow>
     (case arguments of
        Inl exc \<Rightarrow> Some (Some e, Inl exc)
      | Inr integer_object \<Rightarrow>
     (case (case integer_object of None \<Rightarrow> Inr None | Some integer_object \<Rightarrow> read_size_of_object P integer_object) of
        Inl exc \<Rightarrow> Some (Some e, Inl exc)
      | Inr read_size \<Rightarrow>
     (case (case read_size of
              Some read_size \<Rightarrow> Inr read_size
            | None \<Rightarrow>
                if integer_object = None \<or> integer_object = Some (py_none P)
                then (case libfsfat_file_entry_get_size (pfe_file_entry e) of
                        Inl _ \<Rightarrow> Inl PyExc_IOError
                      | Inr size0 \<Rightarrow> Inr size0)
                else Inl PyExc_TypeError) of
        Inl exc \<Rightarrow> Some (Some e, Inl exc)
      | Inr read_size \<Rightarrow>
          if read_size = 0 then Some (Some e, Inr (py_bytes_from_string P []))
          else if read_size <s 0 then Some (Some e, Inl PyExc_ValueError)
          else if INT_MAX <s read_size then Some (Some e, Inl PyExc_ValueError)
          else
            (case libfsfat_file_entry_read_buffer T X S (pfe_file_entry e) (unat read_size) of
               None \<Rightarrow> None
             | Some (Inl _) \<Rightarrow> Some (Some e, Inl PyExc_IOError)
             | Some (Inr (fe, buffer)) \<Rightarrow>
                 Some (Some (e\<lparr> pfe_file_entry := Some fe \<rparr>), Inr (py_bytes_from_string P buffer)))))))"

definition pyfsfat_file_entry_read_buffer_at_offset ::
  "'o python \<Rightarrow> ('tarr, node_entry) array_ops \<Rightarrow> ('xarr, extent) array_ops \<Rightarrow> 's stream_ops \<Rightarrow>
   (('arr, 'cache, 'xarr, 's) file_entry, 'p) pyfsfat_file_entry option \<Rightarrow> ('o \<times> off64) py_result \<Rightarrow>
   ((('arr, 'cache, 'xarr, 's) file_entry, 'p) pyfsfat_file_entry option \<times> 'o py_result) option" where
  "pyfsfat_file_entry_read_buffer_at_offset P T X S pyfsfat_file_entry arguments =
     (case pyfsfat_file_entry of
        None \<Rightarrow> Some (None, Inl PyExc_ValueError)
      | Some e \<Rightarrow>
     (case arguments of
        Inl exc \<Rightarrow> Some (Some e, Inl exc)
      | Inr (integer_object, read_offset) \<Rightarrow>
     (case read_size_of_object P integer_object of
        Inl exc \<Rightarrow> Some (Some e, Inl exc)
      | Inr None \<Rightarrow> Some (Some e, Inl PyExc_TypeError)
      | Inr (Some read_size) \<Rightarrow>
          if read_size = 0 then Some (Some e, Inr (py_bytes_from_string P []))
          else if read_size <s 0 then Some (Some e, Inl PyExc_ValueError)
          else if INT_MAX <s read_size then Some (Some e, Inl PyExc_ValueError)
          else if read_offset <s 0 then Some (Some e, Inl PyExc_ValueError)
          else
            (case libfsfat_file_entry_read_buffer_at_offset T X S (pfe_file_entry e) (unat read_size)
                    read_offset of
               None \<Rightarrow> None
             | Some (Inl _) \<Rightarrow> Some (Some e, Inl PyExc_IOError)
             | Some (Inr (fe, buffer)) \<Rightarrow>
                 Some (Some (e\<lparr> pfe_file_entry := Some fe \<rparr>), Inr (py_bytes_from_string P buffer))))))"

definition pyfsfat_file_entry_seek_offset ::
  "'o python \<Rightarrow> ('tarr, node_entry) array_ops \<Rightarrow> ('xarr, extent) array_ops \<Rightarrow> 's stream_ops \<Rightarrow>
   (('arr, 'cache, 'xarr, 's) file_entry, 'p) pyfsfat_file_entry option \<Rightarrow> (off64 \<times> int) py_result \<Rightarrow>
   ((('arr, 'cache, 'xarr, 's) file_entry, 'p) pyfsfat_file_entry option \<times> 'o py_result) option" where
  "pyfsfat_file_entry_seek_offset P T X S pyfsfat_file_entry arguments =
     (case pyfsfat_file_entry of
        None \<Rightarrow> Some (None, Inl PyExc_ValueError)
      | Some e \<Rightarrow>
     (case arguments of
        Inl exc \<Rightarrow> Some (Some e, Inl exc)
      | Inr (offset, whence) \<Rightarrow>
          (case libfsfat_file_entry_seek_offset T X S (pfe_file_entry e) offset whence of
             None \<Rightarrow> None
           | Some (Inl _) \<Rightarrow> Some (Some e, Inl PyExc_IOError)
           | Some (Inr (fe, offset)) \<Rightarrow>
               Some (Some (e\<lparr> pfe_file_entry := Some fe \<rparr>),
                 if offset = - 1 then Inl PyExc_IOError else Inr (py_none P)))))"

definition pyfsfat_file_entry_get_offset ::
  "'o python \<Rightarrow> ('tarr, node_entry) array_ops \<Rightarrow> ('xarr, extent) array_ops \<Rightarrow> 's stream_ops \<Rightarrow>
   (('arr, 'cache, 'xarr, 's) file_entry, 'p) pyfsfat_file_entry option \<Rightarrow>
   ((('arr, 'cache, 'xarr, 's) file_entry, 'p) pyfsfat_file_entry option \<times> 'o py_result) option" where
  "pyfsfat_file_entry_get_offset P T X S pyfsfat_file_entry =
     (case pyfsfat_file_entry of
        None \<Rightarrow> Some (None, Inl PyExc_ValueError)
      | Some e \<Rightarrow>
          (case libfsfat_file_entry_get_offset T X S (pfe_file_entry e) of
             None \<Rightarrow> None
           | Some (Inl _) \<Rightarrow> Some (Some e, Inl PyExc_IOError)
           | Some (Inr (fe, offset)) \<Rightarrow>
               Some (Some (e\<lparr> pfe_file_entry := Some fe \<rparr>), pyfsfat_integer_signed_new_from_64bit P offset)))"

definition pyfsfat_file_entry_get_number_of_extents ::
  "'o python \<Rightarrow> ('tarr, node_entry) array_ops \<Rightarrow> ('xarr, extent) array_ops \<Rightarrow> 's stream_ops \<Rightarrow>
   (('arr, 'cache, 'xarr, 's) file_entry, 'p) pyfsfat_file_entry option \<Rightarrow>
   ((('arr, 'cache, 'xarr, 's) file_entry, 'p) pyfsfat_file_entry option \<times> 'o py_result) option" where
  "pyfsfat_file_entry_get_number_of_extents P T X S pyfsfat_file_entry =
     (case pyfsfat_file_entry of
        None \<Rightarrow> Some (None, Inl PyExc_ValueError)
      | Some e \<Rightarrow>
          (case libfsfat_file_entry_get_number_of_extents T X S (pfe_file_entry e) of
             None \<Rightarrow> None
           | Some (Inl _) \<Rightarrow> Some (Some e, Inl PyExc_IOError)
           | Some (Inr (fe, number_of_extents)) \<Rightarrow>
               Some (Some (e\<lparr> pfe_file_entry := Some fe \<rparr>), Inr (py_long_from P number_of_extents))))"

text \<open>The tuple of the offset, the size and the flags of an extent, as the list of its objects.\<close>

definition pyfsfat_file_entry_get_extent_by_index ::
  "'o python \<Rightarrow> ('tarr, node_entry) array_ops \<Rightarrow> ('xarr, extent) array_ops \<Rightarrow> 's stream_ops \<Rightarrow>
   (('arr, 'cache, 'xarr, 's) file_entry, 'p) pyfsfat_file_entry option \<Rightarrow> int \<Rightarrow>
   ((('arr, 'cache, 'xarr, 's) file_entry, 'p) pyfsfat_file_entry option \<times> 'o list py_result) option" where
  "pyfsfat_file_entry_get_extent_by_index P T X S pyfsfat_file_entry extent_index =
     (case pyfsfat_file_entry of
        None \<Rightarrow> Some (None, Inl PyExc_ValueError)
      | Some e \<Rightarrow>
          (case libfsfat_file_entry_get_extent_by_index T X S (pfe_file_entry e) extent_index of
             None \<Rightarrow> None
           | Some (Inl _) \<Rightarrow> Some (Some e, Inl PyExc_IOError)
           | Some (Inr (fe, ext_offset, ext_size, ext_flags)) \<Rightarrow>
               Some (Some (e\<lparr> pfe_file_entry := Some fe \<rparr>),
                 (case pyfsfat_integer_signed_new_from_64bit P ext_offset of
                    Inl exc \<Rightarrow> Inl exc
                  | Inr offset_object \<Rightarrow>
                 (case pyfsfat_integer_unsigned_new_from_64bit P ext_size of
                    Inl exc \<Rightarrow> Inl exc
                  | Inr size_object \<Rightarrow>
                 (case pyfsfat_integer_unsigned_new_from_64bit P (ucast ext_flags) of
                    Inl exc \<Rightarrow> Inl exc
                  | Inr flags_object \<Rightarrow> Inr [offset_object, size_object, flags_object]))))))"

definition pyfsfat_file_entry_get_extent ::
  "'o python \<Rightarrow> ('tarr, node_entry) array_ops \<Rightarrow> ('xarr, extent) array_ops \<Rightarrow> 's stream_ops \<Rightarrow>
   (('arr, 'cache, 'xarr, 's) file_entry, 'p) pyfsfat_file_entry option \<Rightarrow> int py_result \<Rightarrow>
   ((('arr, 'cache, 'xarr, 's) file_entry, 'p) pyfsfat_file_entry option \<times> 'o list py_result) option" where
  "pyfsfat_file_entry_get_extent P T X S pyfsfat_file_entry arguments =
     (case arguments of
        Inl exc \<Rightarrow> Some (pyfsfat_file_entry, Inl exc)
      | Inr extent_index \<Rightarrow>
          pyfsfat_file_entry_get_extent_by_index P T X S pyfsfat_file_entry extent_index)"

end
