(* ===== verification/Py_Entry_File.thy ===== *)
theory Py_Entry_File
  imports Py_File_Entry
begin

text \<open>
  The methods of a file entry object by their names, the table of
  \<^verbatim>\<open>pyfsfat/pyfsfat_file_entry.c\<close>, and the proof that they make a file entry a file-like
  object: a volume that lies in a file of another volume can be opened through them.
\<close>

section \<open>The table of the methods\<close>

text \<open>
  \<^verbatim>\<open>PyArg_ParseTupleAndKeywords\<close> with the formats of the methods, on the objects that are
  passed, and what else the methods make objects of: the file entries and the tuples.
\<close>

record 'o argument_parser =
  parse_optional_object :: "'o list \<Rightarrow> 'o option py_result"
  parse_object_offset :: "'o list \<Rightarrow> ('o \<times> off64) py_result"
  parse_offset_whence :: "'o list \<Rightarrow> (off64 \<times> int) py_result"
  parse_index :: "'o list \<Rightarrow> int py_result"
  parse_string :: "'o list \<Rightarrow> u8 list py_result"

record ('o, 'e) object_maker =
  py_file_entry_object :: "'e \<Rightarrow> 'o"
  py_tuple :: "'o list \<Rightarrow> 'o"

definition argument_contract :: "'o python \<Rightarrow> 'o argument_parser \<Rightarrow> bool" where
  "argument_contract P Y \<longleftrightarrow>
     (\<forall>x. parse_optional_object Y [x] = Inr (Some x)) \<and>
     (\<forall>n w. - (2 ^ 63) \<le> n \<longrightarrow> n < 2 ^ 63 \<longrightarrow> - (2 ^ 31) \<le> w \<longrightarrow> w < 2 ^ 31 \<longrightarrow>
        parse_offset_whence Y [py_long_from P n, py_long_from P w] = Inr (word_of_int n, w))"

text \<open>A method that leaves the entry as it is, and one whose result is made an object.\<close>

definition unchanged :: "('e option \<Rightarrow> 'o py_result) \<Rightarrow> 'e option \<Rightarrow> ('e option \<times> 'o py_result) option" where
  "unchanged method e = Some (e, method e)"

definition made :: "('x \<Rightarrow> 'o) \<Rightarrow> ('e option \<times> 'x py_result) option \<Rightarrow> ('e option \<times> 'o py_result) option" where
  "made new_object = map_option (map_prod id (map_sum id new_object))"

definition pyfsfat_file_entry_object_methods ::
  "'o python \<Rightarrow> 'o new_datetime \<Rightarrow> 'o argument_parser \<Rightarrow>
   ('o, (('arr, 'cache, 'xarr, 's) file_entry, 'p) pyfsfat_file_entry) object_maker \<Rightarrow> una_ops \<Rightarrow>
   ('arr, nat) array_ops \<Rightarrow> ('tarr, node_entry) array_ops \<Rightarrow> ('xarr, extent) array_ops \<Rightarrow> 's stream_ops \<Rightarrow>
   (string \<times> ((('arr, 'cache, 'xarr, 's) file_entry, 'p) pyfsfat_file_entry option \<Rightarrow> 'o list \<Rightarrow>
      ((('arr, 'cache, 'xarr, 's) file_entry, 'p) pyfsfat_file_entry option \<times> 'o py_result) option)) list" where
  "pyfsfat_file_entry_object_methods P N Y W U A T X S =
     [(''get_identifier'', \<lambda>e _. unchanged (pyfsfat_file_entry_get_identifier P) e),
      (''get_access_time'', \<lambda>e _. unchanged (pyfsfat_file_entry_get_access_time P N) e),
      (''get_access_time_as_integer'', \<lambda>e _. unchanged (pyfsfat_file_entry_get_access_time_as_integer P) e),
      (''get_creation_time'', \<lambda>e _. unchanged (pyfsfat_file_entry_get_creation_time P N) e),
      (''get_creation_time_as_integer'', \<lambda>e _. unchanged (pyfsfat_file_entry_get_creation_time_as_integer P) e),
      (''get_modification_time'', \<lambda>e _. unchanged (pyfsfat_file_entry_get_modification_time P N) e),
      (''get_modification_time_as_integer'',
         \<lambda>e _. unchanged (pyfsfat_file_entry_get_modification_time_as_integer P) e),
      (''get_file_attribute_flags'', \<lambda>e _. unchanged (pyfsfat_file_entry_get_file_attribute_flags P) e),
      (''get_name'', \<lambda>e _. unchanged (pyfsfat_file_entry_get_name P U A) e),
      (''get_number_of_sub_file_entries'', \<lambda>e _. pyfsfat_file_entry_get_number_of_sub_file_entries P A T e),
      (''get_sub_file_entry'', \<lambda>e args.
         made (py_file_entry_object W) (pyfsfat_file_entry_get_sub_file_entry A T X e (parse_index Y args))),
      (''get_sub_file_entry_by_name'', \<lambda>e args.
         made (py_file_entry_object W)
           (pyfsfat_file_entry_get_sub_file_entry_by_name U A T X e (parse_string Y args))),
      (''read_buffer'', \<lambda>e args. pyfsfat_file_entry_read_buffer P T X S e (parse_optional_object Y args)),
      (''read_buffer_at_offset'', \<lambda>e args.
         pyfsfat_file_entry_read_buffer_at_offset P T X S e (parse_object_offset Y args)),
      (''seek_offset'', \<lambda>e args. pyfsfat_file_entry_seek_offset P T X S e (parse_offset_whence Y args)),
      (''get_offset'', \<lambda>e _. pyfsfat_file_entry_get_offset P T X S e),
      (''read'', \<lambda>e args. pyfsfat_file_entry_read_buffer P T X S e (parse_optional_object Y args)),
      (''seek'', \<lambda>e args. pyfsfat_file_entry_seek_offset P T X S e (parse_offset_whence Y args)),
      (''tell'', \<lambda>e _. pyfsfat_file_entry_get_offset P T X S e),
      (''get_size'', \<lambda>e _. unchanged (pyfsfat_file_entry_get_size P) e),
      (''get_number_of_extents'', \<lambda>e _. pyfsfat_file_entry_get_number_of_extents P T X S e),
      (''get_extent'', \<lambda>e args. made (py_tuple W) (pyfsfat_file_entry_get_extent P T X S e (parse_index Y args)))]"

text \<open>The names of the attributes that have a getter.\<close>

definition pyfsfat_file_entry_object_get_set_definitions :: "string list" where
  "pyfsfat_file_entry_object_get_set_definitions =
     [''identifier'', ''access_time'', ''creation_time'', ''modification_time'', ''file_attribute_flags'',
      ''name'', ''number_of_sub_file_entries'', ''sub_file_entries'', ''size'', ''number_of_extents'']"

text \<open>Calls on a file entry object, which is the state; a name that is missing raises an exception.\<close>

definition file_entry_calls ::
  "'o python \<Rightarrow> 'o new_datetime \<Rightarrow> 'o argument_parser \<Rightarrow>
   ('o, (('arr, 'cache, 'xarr, 's) file_entry, 'p) pyfsfat_file_entry) object_maker \<Rightarrow> una_ops \<Rightarrow>
   ('arr, nat) array_ops \<Rightarrow> ('tarr, node_entry) array_ops \<Rightarrow> ('xarr, extent) array_ops \<Rightarrow> 's stream_ops \<Rightarrow>
   ('o, (('arr, 'cache, 'xarr, 's) file_entry, 'p) pyfsfat_file_entry) python_calls" where
  "file_entry_calls P N Y W U A T X S =
     (let methods = pyfsfat_file_entry_object_methods P N Y W U A T X S
      in \<lparr> py_has_attr = (\<lambda>e _ name.
             (e, name \<in> set (map fst methods @ pyfsfat_file_entry_object_get_set_definitions))),
           py_call_method = (\<lambda>e _ name args.
             (case map_of methods name of
                None \<Rightarrow> Some (e, Inl PyExc_raised)
              | Some method \<Rightarrow>
                  (case method (Some e) args of
                     None \<Rightarrow> None
                   | Some (None, r) \<Rightarrow> Some (e, map_sum id Some r)
                   | Some (Some e, r) \<Rightarrow> Some (e, map_sum id Some r)))) \<rparr>)"

lemma file_methods:
  "py_has_attr (file_entry_calls P N Y W U A T X S) e f ''get_offset'' = (e, True)"
  "py_has_attr (file_entry_calls P N Y W U A T X S) e f ''get_size'' = (e, True)"
  "py_call_method (file_entry_calls P N Y W U A T X S) e f ''read'' args =
     (case pyfsfat_file_entry_read_buffer P T X S (Some e) (parse_optional_object Y args) of
        None \<Rightarrow> None | Some (None, r) \<Rightarrow> Some (e, map_sum id Some r) | Some (Some e, r) \<Rightarrow> Some (e, map_sum id Some r))"
  "py_call_method (file_entry_calls P N Y W U A T X S) e f ''seek'' args =
     (case pyfsfat_file_entry_seek_offset P T X S (Some e) (parse_offset_whence Y args) of
        None \<Rightarrow> None | Some (None, r) \<Rightarrow> Some (e, map_sum id Some r) | Some (Some e, r) \<Rightarrow> Some (e, map_sum id Some r))"
  "py_call_method (file_entry_calls P N Y W U A T X S) e f ''get_offset'' args =
     (case pyfsfat_file_entry_get_offset P T X S (Some e) of
        None \<Rightarrow> None | Some (None, r) \<Rightarrow> Some (e, map_sum id Some r) | Some (Some e, r) \<Rightarrow> Some (e, map_sum id Some r))"
  "py_call_method (file_entry_calls P N Y W U A T X S) e f ''get_size'' args =
     Some (e, map_sum id Some (pyfsfat_file_entry_get_size P (Some e)))"
  by (simp_all add: file_entry_calls_def pyfsfat_file_entry_object_methods_def Let_def unchanged_def
      pyfsfat_file_entry_object_get_set_definitions_def)

section \<open>A file entry is a file-like object\<close>

text \<open>The offset of the stream of a file entry; a new entry is at its start.\<close>

definition entry_position where
  "entry_position view e =
     (case pfe_file_entry e of
        None \<Rightarrow> 0
      | Some fe \<Rightarrow>
          (case fe_cluster_block_stream fe of
             None \<Rightarrow> 0
           | Some stream \<Rightarrow> (case view stream of (_, _, p) \<Rightarrow> p)))"

definition stream_of_content where
  "stream_of_content view img content stream p \<longleftrightarrow> p < 2 ^ 63 \<and>
     (\<exists>segments. view stream = (stream_callbacks, segments, p) \<and>
        (\<forall>i n. read_segments libfsfat_cluster_block_data_read_segment_data
            libfsfat_cluster_block_data_seek_segment_offset (image_bfio img) segments i n =
          Some (take n (drop i content))))"

text \<open>
  A file entry object over the file with the content \<open>content\<close> on the volume \<open>img\<close>: its
  clusters lie in order in the volume, or its stream is already there.
\<close>

definition entry_of_content where
  "entry_of_content P Y X xview T tview S view img content e \<longleftrightarrow>
     python_contract P \<and> argument_contract P Y \<and> array_contract X xview \<and> array_contract T tview \<and>
     stream_contract S view \<and> length content < 2 ^ 63 \<and>
     (\<exists>fe. pfe_file_entry e = Some fe \<and> fe_file_io_handle fe = image_bfio img \<and>
        \<not> unsupported_file_attribute_flags (fe_file_attribute_flags fe) \<and> unat (fe_data_size fe) = length content \<and>
        (case fe_cluster_block_stream fe of
           Some stream \<Rightarrow> stream_of_content view img content stream (entry_position view e)
         | None \<Rightarrow> xview (fe_data_extents_array fe) = [] \<and>
             (\<exists>fs io cs. fe_file_system fe = Some fs \<and> file_on_volume img io fs (fe_cluster_number fe) cs \<and>
                content = file_content img io cs (fe_data_size fe))))"

lemma entry_of_contentD:
  assumes "entry_of_content P Y X xview T tview S view img content e"
  shows "python_contract P" "argument_contract P Y" "array_contract X xview" "array_contract T tview"
    "stream_contract S view" "length content < 2 ^ 63"
  using assms by (simp_all add: entry_of_content_def)

lemma entry_with_stream_size:
  "entry_with_stream T X S fe = Some (Inr (fe', stream)) \<Longrightarrow> fe_data_size fe' = fe_data_size fe"
  by (auto simp: entry_with_stream_def split: option.splits sum.splits)

lemma entry_stream:
  assumes "entry_of_content P Y X xview T tview S view img content e"
  obtains fe fe' stream where "pfe_file_entry e = Some fe"
    and "entry_with_stream T X S fe = Some (Inr (fe', stream))"
    and "stream_of_content view img content stream (entry_position view e)"
    and "\<not> unsupported_file_attribute_flags (fe_file_attribute_flags fe)"
    and "fe_file_io_handle fe' = image_bfio img" and "unat (fe_data_size fe) = length content"
    and "\<forall>stream' p. stream_of_content view img content stream' p \<longrightarrow>
      entry_of_content P Y X xview T tview S view img content
        (e\<lparr> pfe_file_entry := Some (fe'\<lparr> fe_cluster_block_stream := Some stream' \<rparr>) \<rparr>) \<and>
      entry_position view (e\<lparr> pfe_file_entry := Some (fe'\<lparr> fe_cluster_block_stream := Some stream' \<rparr>) \<rparr>) = p"
    and "e\<lparr> pfe_file_entry := Some (fe'\<lparr> fe_cluster_block_stream := Some stream \<rparr>) \<rparr> = e\<lparr> pfe_file_entry := Some fe' \<rparr>"
proof -
  note contracts = entry_of_contentD [OF assms]
  obtain fe where fe: "pfe_file_entry e = Some fe" "fe_file_io_handle fe = image_bfio img"
    "\<not> unsupported_file_attribute_flags (fe_file_attribute_flags fe)" "unat (fe_data_size fe) = length content"
    and stream: "case fe_cluster_block_stream fe of
           Some stream \<Rightarrow> stream_of_content view img content stream (entry_position view e)
         | None \<Rightarrow> xview (fe_data_extents_array fe) = [] \<and>
             (\<exists>fs io cs. fe_file_system fe = Some fs \<and> file_on_volume img io fs (fe_cluster_number fe) cs \<and>
                content = file_content img io cs (fe_data_size fe))"
    using assms unfolding entry_of_content_def by blast
  obtain fe' stream where fe': "entry_with_stream T X S fe = Some (Inr (fe', stream))"
      "fe_cluster_block_stream fe' = Some stream" "fe_file_io_handle fe' = fe_file_io_handle fe"
      "fe_file_attribute_flags fe' = fe_file_attribute_flags fe"
    and of_content: "stream_of_content view img content stream (entry_position view e)"
  proof (cases "fe_cluster_block_stream fe")
    case None
    then obtain fs io cs where f: "xview (fe_data_extents_array fe) = []" "fe_file_system fe = Some fs"
      "file_on_volume img io fs (fe_cluster_number fe) cs" "content = file_content img io cs (fe_data_size fe)"
      using stream by auto
    obtain fe' stream segments where "entry_with_stream T X S fe = Some (Inr (fe', stream))"
      "fe_cluster_block_stream fe' = Some stream" "fe_file_io_handle fe' = fe_file_io_handle fe"
      "fe_file_attribute_flags fe' = fe_file_attribute_flags fe" "view stream = (stream_callbacks, segments, 0)"
      "\<forall>i n. read_segments libfsfat_cluster_block_data_read_segment_data
        libfsfat_cluster_block_data_seek_segment_offset (image_bfio img) segments i n =
      Some (take n (drop i (file_content img io cs (fe_data_size fe))))"
      by (rule entry_with_stream_content [OF contracts(3-5) f(3,2) None f(1)])
    then show ?thesis
      using that [of fe' stream] fe(1) None f(4) by (simp add: stream_of_content_def entry_position_def)
  next
    case (Some stream)
    then show ?thesis using that [of fe stream] assms stream by (simp add: entry_with_stream_def)
  qed
  have size0: "fe_data_size fe' = fe_data_size fe" by (rule entry_with_stream_size [OF fe'(1)])
  have again: "entry_of_content P Y X xview T tview S view img content
        (e\<lparr> pfe_file_entry := Some (fe'\<lparr> fe_cluster_block_stream := Some stream' \<rparr>) \<rparr>) \<and>
      entry_position view (e\<lparr> pfe_file_entry := Some (fe'\<lparr> fe_cluster_block_stream := Some stream' \<rparr>) \<rparr>) = p"
    if "stream_of_content view img content stream' p" for stream' p
  proof -
    have "entry_position view (e\<lparr> pfe_file_entry := Some (fe'\<lparr> fe_cluster_block_stream := Some stream' \<rparr>) \<rparr>) = p"
      using that by (auto simp: entry_position_def stream_of_content_def)
    then show ?thesis
      using contracts fe(2-4) fe'(3,4) size0 that by (simp add: entry_of_content_def)
  qed
  show ?thesis
    by (rule that [OF fe(1) fe'(1) of_content fe(3) _ fe(4)]) (use fe'(2,3) fe(2) again in simp_all)
qed

lemma small_size:
  assumes "0 < n" and "n < 2 ^ 31"
  shows "(of_nat n :: u64) \<noteq> 0" and "\<not> (of_nat n :: u64) <s 0" and "\<not> INT_MAX <s (of_nat n :: u64)"
proof -
  have n: "unat (of_nat n :: u64) = n" using assms(2) by simp
  then show "(of_nat n :: u64) \<noteq> 0" using assms(1) by (metis unat_0 less_irrefl)
  show "\<not> (of_nat n :: u64) <s 0" using n assms(2) by (simp add: sless_zero_iff)
  show "\<not> INT_MAX <s (of_nat n :: u64)"
    using n assms(2) by (subst sless_unat) (simp_all add: INT_MAX_def)
qed

lemma entry_read:
  assumes "entry_of_content P Y X xview T tview S view img content e" and "0 < n" and "n < 2 ^ 31"
  shows "\<exists>e'. pyfsfat_file_entry_read_buffer P T X S (Some e) (Inr (Some (py_long_from P (int n)))) =
      Some (Some e', Inr (py_bytes_from_string P (take n (drop (entry_position view e) content)))) \<and>
    entry_of_content P Y X xview T tview S view img content e' \<and>
    entry_position view e' = entry_position view e + length (take n (drop (entry_position view e) content))"
proof -
  let ?p = "entry_position view e"
  let ?data = "take n (drop ?p content)"
  note contracts = entry_of_contentD [OF assms(1)]
  obtain fe fe' stream where fe: "pfe_file_entry e = Some fe"
    "entry_with_stream T X S fe = Some (Inr (fe', stream))"
    and of_content: "stream_of_content view img content stream (entry_position view e)"
    and flags: "\<not> unsupported_file_attribute_flags (fe_file_attribute_flags fe)"
    and io: "fe_file_io_handle fe' = image_bfio img" and "unat (fe_data_size fe) = length content"
    and again: "\<forall>stream' p. stream_of_content view img content stream' p \<longrightarrow>
      entry_of_content P Y X xview T tview S view img content
        (e\<lparr> pfe_file_entry := Some (fe'\<lparr> fe_cluster_block_stream := Some stream' \<rparr>) \<rparr>) \<and>
      entry_position view (e\<lparr> pfe_file_entry := Some (fe'\<lparr> fe_cluster_block_stream := Some stream' \<rparr>) \<rparr>) = p"
    and same: "e\<lparr> pfe_file_entry := Some (fe'\<lparr> fe_cluster_block_stream := Some stream \<rparr>) \<rparr> = e\<lparr> pfe_file_entry := Some fe' \<rparr>"
    by (rule entry_stream [OF assms(1)])
  obtain segments where view: "view stream = (stream_callbacks, segments, ?p)" and small: "?p < 2 ^ 63"
    and read: "\<forall>i n. read_segments libfsfat_cluster_block_data_read_segment_data
            libfsfat_cluster_block_data_seek_segment_offset (image_bfio img) segments i n =
          Some (take n (drop i content))"
    using of_content unfolding stream_of_content_def by blast
  obtain stream' where stream': "stream_read_buffer S stream (image_bfio img) n = Some (stream', ?data)"
    "view stream' = (stream_callbacks, segments, ?p + length ?data)"
    by (rule stream_read [OF contracts(5) view read [rule_format]])
  have "?p + length ?data < 2 ^ 63"
    using small contracts(6) by (cases "?p < length content") simp_all
  then have "stream_of_content view img content stream' (?p + length ?data)"
    using stream'(2) read by (simp add: stream_of_content_def)
  note after = again [rule_format, OF this]
  have size0: "read_size_of_object P (py_long_from P (int n)) = Inr (Some (of_nat n))"
    using assms(3) by (simp add: read_size_of_object_def python_contractD [OF contracts(1)] signed_copy_long [OF contracts(1)])
  have n: "unat (of_nat n :: u64) = n" using assms(3) by simp
  have "libfsfat_file_entry_read_buffer T X S (Some fe) n =
      Some (Inr (fe'\<lparr> fe_cluster_block_stream := Some stream' \<rparr>, ?data))"
    using fe flags io stream'(1) by (simp add: libfsfat_file_entry_read_buffer_def)
  then have "pyfsfat_file_entry_read_buffer P T X S (Some e) (Inr (Some (py_long_from P (int n)))) =
      Some (Some (e\<lparr> pfe_file_entry := Some (fe'\<lparr> fe_cluster_block_stream := Some stream' \<rparr>) \<rparr>),
        Inr (py_bytes_from_string P ?data))"
    using fe(1) n small_size [OF assms(2,3)] by (simp add: pyfsfat_file_entry_read_buffer_def size0)
  then show ?thesis using after by blast
qed

lemma entry_seek:
  assumes "entry_of_content P Y X xview T tview S view img content e" and "n < 2 ^ 63"
  shows "\<exists>e'. pyfsfat_file_entry_seek_offset P T X S (Some e) (Inr (of_nat n, 0)) = Some (Some e', Inr (py_none P)) \<and>
    entry_of_content P Y X xview T tview S view img content e' \<and> entry_position view e' = n"
proof -
  note contracts = entry_of_contentD [OF assms(1)]
  obtain fe fe' stream where fe: "pfe_file_entry e = Some fe"
    "entry_with_stream T X S fe = Some (Inr (fe', stream))"
    and of_content: "stream_of_content view img content stream (entry_position view e)"
    and flags: "\<not> unsupported_file_attribute_flags (fe_file_attribute_flags fe)"
    and io: "fe_file_io_handle fe' = image_bfio img" and "unat (fe_data_size fe) = length content"
    and again: "\<forall>stream' p. stream_of_content view img content stream' p \<longrightarrow>
      entry_of_content P Y X xview T tview S view img content
        (e\<lparr> pfe_file_entry := Some (fe'\<lparr> fe_cluster_block_stream := Some stream' \<rparr>) \<rparr>) \<and>
      entry_position view (e\<lparr> pfe_file_entry := Some (fe'\<lparr> fe_cluster_block_stream := Some stream' \<rparr>) \<rparr>) = p"
    and same: "e\<lparr> pfe_file_entry := Some (fe'\<lparr> fe_cluster_block_stream := Some stream \<rparr>) \<rparr> = e\<lparr> pfe_file_entry := Some fe' \<rparr>"
    by (rule entry_stream [OF assms(1)])
  obtain segments where view: "view stream = (stream_callbacks, segments, entry_position view e)"
    and read: "\<forall>i n. read_segments libfsfat_cluster_block_data_read_segment_data
            libfsfat_cluster_block_data_seek_segment_offset (image_bfio img) segments i n =
          Some (take n (drop i content))"
    using of_content unfolding stream_of_content_def by blast
  have n: "unat (of_nat n :: off64) = n" using assms(2) by simp
  obtain stream' where stream': "stream_seek_offset S stream (of_nat n) 0 = Some (stream', of_nat n)"
    "view stream' = (stream_callbacks, segments, n)"
    using stream_position(2) [OF contracts(5) view, of "of_nat n"] assms(2) n by auto
  have "stream_of_content view img content stream' n"
    using stream'(2) read assms(2) by (simp add: stream_of_content_def)
  note after = again [rule_format, OF this]
  have "(of_nat n :: off64) \<noteq> - 1"
  proof
    assume "(of_nat n :: off64) = - 1"
    moreover have "sint (of_nat n :: off64) = int n" using assms(2) by (rule sint_of_nat)
    ultimately show False by simp
  qed
  then have "pyfsfat_file_entry_seek_offset P T X S (Some e) (Inr (of_nat n, 0)) =
      Some (Some (e\<lparr> pfe_file_entry := Some (fe'\<lparr> fe_cluster_block_stream := Some stream' \<rparr>) \<rparr>),
        Inr (py_none P))"
    using fe flags stream'(1) by (simp add: pyfsfat_file_entry_seek_offset_def libfsfat_file_entry_seek_offset_def)
  then show ?thesis using after by blast
qed

lemma entry_offset:
  assumes "entry_of_content P Y X xview T tview S view img content e"
  shows "\<exists>e'. pyfsfat_file_entry_get_offset P T X S (Some e) =
      Some (Some e', Inr (py_long_from P (int (entry_position view e)))) \<and>
    entry_of_content P Y X xview T tview S view img content e' \<and> entry_position view e' = entry_position view e"
proof -
  let ?p = "entry_position view e"
  note contracts = entry_of_contentD [OF assms(1)]
  obtain fe fe' stream where fe: "pfe_file_entry e = Some fe"
    "entry_with_stream T X S fe = Some (Inr (fe', stream))"
    and of_content: "stream_of_content view img content stream (entry_position view e)"
    and flags: "\<not> unsupported_file_attribute_flags (fe_file_attribute_flags fe)"
    and io: "fe_file_io_handle fe' = image_bfio img" and "unat (fe_data_size fe) = length content"
    and again: "\<forall>stream' p. stream_of_content view img content stream' p \<longrightarrow>
      entry_of_content P Y X xview T tview S view img content
        (e\<lparr> pfe_file_entry := Some (fe'\<lparr> fe_cluster_block_stream := Some stream' \<rparr>) \<rparr>) \<and>
      entry_position view (e\<lparr> pfe_file_entry := Some (fe'\<lparr> fe_cluster_block_stream := Some stream' \<rparr>) \<rparr>) = p"
    and same: "e\<lparr> pfe_file_entry := Some (fe'\<lparr> fe_cluster_block_stream := Some stream \<rparr>) \<rparr> = e\<lparr> pfe_file_entry := Some fe' \<rparr>"
    by (rule entry_stream [OF assms(1)])
  obtain segments where view: "view stream = (stream_callbacks, segments, ?p)" and small: "?p < 2 ^ 63"
    using of_content unfolding stream_of_content_def by blast
  have "pyfsfat_file_entry_get_offset P T X S (Some e) =
      Some (Some (e\<lparr> pfe_file_entry := Some fe' \<rparr>), Inr (py_long_from P (int ?p)))"
    using fe flags stream_position(1) [OF contracts(5) view] sint_of_nat [OF small]
    by (simp add: pyfsfat_file_entry_get_offset_def libfsfat_file_entry_get_offset_def)
  then show ?thesis using again [rule_format, OF of_content] unfolding same by blast
qed

text \<open>
  The contract of a file-like object, for the methods of a file entry: at most as many bytes at
  a time as an \<open>int\<close> can count.
\<close>

interpretation entry_file: file_like P "file_entry_calls P N Y W U A T X S" file_object
  "entry_of_content P Y X xview T tview S view img content" "entry_position view" content "2 ^ 31 - 1"
  for P :: "'o python" and N Y and W :: "('o, (('arr, 'cache, 'xarr, 's) file_entry, 'p) pyfsfat_file_entry) object_maker"
    and U A T X S file_object xview tview view img content
proof unfold_locales
  let ?valid = "entry_of_content P Y X xview T tview S view img content"
  let ?K = "file_entry_calls P N Y W U A T X S"
  fix e :: "(('arr, 'cache, 'xarr, 's) file_entry, 'p) pyfsfat_file_entry" and n :: nat
  show "(2 :: nat) ^ 31 - 1 \<le> SSIZE_MAX" by (simp add: SSIZE_MAX_def)
  assume e: "?valid e"
  note contracts = entry_of_contentD [OF e]
  show "python_contract P \<and> length content < 2 ^ 63 \<and> entry_position view e < 2 ^ 63"
  proof (intro conjI contracts)
    show "entry_position view e < 2 ^ 63"
      by (rule entry_stream [OF e]) (simp add: stream_of_content_def)
  qed
  show "\<exists>e'. py_call_method ?K e file_object ''read'' [py_long_from P (int n)] =
          Some (e', Inr (Some (py_bytes_from_string P (take n (drop (entry_position view e) content))))) \<and>
        ?valid e' \<and> entry_position view e' = entry_position view e + length (take n (drop (entry_position view e) content))"
    if "0 < n" "n \<le> 2 ^ 31 - 1"
  proof -
    have parsed: "parse_optional_object Y [py_long_from P (int n)] = Inr (Some (py_long_from P (int n)))"
      using contracts(2) by (simp add: argument_contract_def)
    show ?thesis using entry_read [OF e that(1)] that(2) unfolding file_methods parsed by force
  qed
  show "\<exists>e' x. py_call_method ?K e file_object ''seek'' [py_long_from P (int n), py_long_from P SEEK_SET] =
          Some (e', Inr (Some x)) \<and> ?valid e' \<and> entry_position view e' = n" if "n < 2 ^ 63"
  proof -
    have "parse_offset_whence Y [py_long_from P (int n), py_long_from P SEEK_SET] = Inr (of_nat n, 0)"
      using contracts(2) that by (simp add: argument_contract_def SEEK_SET_def)
    then show ?thesis using entry_seek [OF e that] by (auto simp: file_methods)
  qed
  show "\<exists>s1 b s2. py_has_attr ?K e file_object ''get_offset'' = (s1, b) \<and>
        py_call_method ?K s1 file_object (if b then ''get_offset'' else ''tell'') [] =
          Some (s2, Inr (Some (py_long_from P (int (entry_position view e))))) \<and> ?valid s2 \<and>
        entry_position view s2 = entry_position view e"
  proof -
    obtain e' where "pyfsfat_file_entry_get_offset P T X S (Some e) =
        Some (Some e', Inr (py_long_from P (int (entry_position view e))))"
      "?valid e'" "entry_position view e' = entry_position view e"
      using entry_offset [OF e] by blast
    then show ?thesis by (intro exI [of _ e] exI [of _ True] exI [of _ e']) (simp add: file_methods)
  qed
  have "pyfsfat_file_entry_get_size P (Some e) = Inr (py_long_from P (int (length content)))"
    using e by (auto simp: entry_of_content_def pyfsfat_file_entry_get_size_def libfsfat_file_entry_get_size_def uint_nat)
  then show "\<exists>s1 b. py_has_attr ?K e file_object ''get_size'' = (s1, b) \<and> ?valid s1 \<and>
        entry_position view s1 = entry_position view e \<and>
        (b \<longrightarrow> (\<exists>s2. py_call_method ?K s1 file_object ''get_size'' [] =
          Some (s2, Inr (Some (py_long_from P (int (length content))))) \<and> ?valid s2 \<and>
          entry_position view s2 = entry_position view e)) \<and>
        (\<not> b \<longrightarrow> (\<forall>s. ?valid s \<longrightarrow>
          (\<exists>s2 x. py_call_method ?K s file_object ''seek'' [py_long_from P 0, py_long_from P SEEK_END] =
             Some (s2, Inr (Some x)) \<and> ?valid s2 \<and> entry_position view s2 = length content)))"
    using e by (intro exI [of _ e] exI [of _ True]) (simp add: file_methods)
qed

section \<open>Reading a file through its object\<close>

text \<open>A new object of a file, with the sizes that an \<open>int\<close> can count.\<close>

lemma new_entry_of_content:
  assumes "python_contract P" and "argument_contract P Y" and "array_contract X xview"
    and "array_contract T tview" and "stream_contract S view"
    and "file_on_volume img io fs (fe_cluster_number fe) cs" and "fe_file_system fe = Some fs"
    and "fe_cluster_block_stream fe = None" and "xview (fe_data_extents_array fe) = []"
    and "fe_file_io_handle fe = image_bfio img"
    and "\<not> unsupported_file_attribute_flags (fe_file_attribute_flags fe)"
    and "length (file_content img io cs (fe_data_size fe)) = unat (fe_data_size fe)"
    and "unat (fe_data_size fe) < 2 ^ 63" and "pfe_file_entry e = Some fe"
  shows "entry_of_content P Y X xview T tview S view img (file_content img io cs (fe_data_size fe)) e"
proof -
  have "\<exists>fs' io' cs'. fe_file_system fe = Some fs' \<and> file_on_volume img io' fs' (fe_cluster_number fe) cs' \<and>
      file_content img io cs (fe_data_size fe) = file_content img io' cs' (fe_data_size fe)"
    using assms(6,7) by blast
  then show ?thesis
    using assms by (simp add: entry_of_content_def)
qed

text \<open>
  C18. A file entry object is a file that a volume can be opened from, if the chain of clusters of the file
  ascends in the volume: through the callbacks that the volume reads with, for every offset and every size
  that an \<open>int\<close> can count, seeking the object of such a file and reading gives the bytes of its chain
  of clusters from there, and asking for the size afterwards gives the size of the file. The hypothesis
  \<open>file_on_volume\<close> holds the condition on the chain; a chain that jumps back is read from other
  clusters, as the stream that the library makes of it is wrong.
\<close>

theorem file_entry_object_content:
  assumes "python_contract P" and "argument_contract P Y" and "array_contract X xview"
    and "array_contract T tview" and "stream_contract S view"
    and "file_on_volume img io fs (fe_cluster_number fe) cs" and "fe_file_system fe = Some fs"
    and "fe_cluster_block_stream fe = None" and "xview (fe_data_extents_array fe) = []"
    and "fe_file_io_handle fe = image_bfio img"
    and "\<not> unsupported_file_attribute_flags (fe_file_attribute_flags fe)"
    and "length (file_content img io cs (fe_data_size fe)) = unat (fe_data_size fe)"
    and "unat (fe_data_size fe) < 2 ^ 63" and "pfe_file_entry e = Some fe"
    and "unat offset < 2 ^ 63" and "n < 2 ^ 31"
  shows "\<exists>e1 e2 e3. let cb = pyfsfat_file_object_callbacks P (file_entry_calls P N Y W U A T X S);
        handle = Some \<lparr> foh_file_object = Some file_object, foh_access_flags = flags \<rparr>
      in io_seek_offset cb e handle offset SEEK_SET = Some (e1, Inr offset) \<and>
         io_read cb e1 handle n =
           Some (e2, Inr (take n (drop (unat offset) (file_content img io cs (fe_data_size fe))))) \<and>
         io_get_size cb e2 handle = Some (e3, Inr (Some (fe_data_size fe)))"
proof -
  let ?content = "file_content img io cs (fe_data_size fe)"
  let ?cb = "pyfsfat_file_object_callbacks P (file_entry_calls P N Y W U A T X S)"
  let ?handle = "\<lparr> foh_file_object = Some file_object, foh_access_flags = flags \<rparr>"
  let ?valid = "entry_of_content P Y X xview T tview S view img ?content"
  have e: "?valid e" by (rule new_entry_of_content [OF assms(1-14)])
  have serves: "callbacks_serve ?cb ?handle ?valid (entry_position view) ?content (2 ^ 31 - 1)"
    by (rule entry_file.serves)
  obtain e1 where e1: "io_seek_offset ?cb e (Some ?handle) offset SEEK_SET = Some (e1, Inr offset)"
      "?valid e1" "entry_position view e1 = unat offset"
    using serves e assms(15) unfolding callbacks_serve_def by blast
  have "n \<le> 2 ^ 31 - 1" using assms(16) by simp
  then obtain e2 where e2: "io_read ?cb e1 (Some ?handle) n =
        Some (e2, Inr (take n (drop (unat offset) ?content)))" "?valid e2"
    using serves e1(2,3) unfolding callbacks_serve_def by metis
  obtain e3 where "io_get_size ?cb e2 (Some ?handle) = Some (e3, Inr (Some (of_nat (length ?content))))"
    using serves e2(2) unfolding callbacks_serve_def by blast
  then show ?thesis using e1(1) e2(1) assms(12) by (auto simp: Let_def)
qed

text \<open>A parser of the arguments.\<close>

definition small_arguments :: "py_object argument_parser" where
  "small_arguments =
     \<lparr> parse_optional_object = (\<lambda>args. case args of [] \<Rightarrow> Inr None | [x] \<Rightarrow> Inr (Some x)
         | _ \<Rightarrow> Inl PyExc_TypeError),
       parse_object_offset = (\<lambda>args. case args of [x, PyLong n] \<Rightarrow> Inr (x, word_of_int n)
         | _ \<Rightarrow> Inl PyExc_TypeError),
       parse_offset_whence = (\<lambda>args. case args of [PyLong n] \<Rightarrow> Inr (word_of_int n, 0)
         | [PyLong n, PyLong w] \<Rightarrow> Inr (word_of_int n, w) | _ \<Rightarrow> Inl PyExc_TypeError),
       parse_index = (\<lambda>args. case args of [PyLong n] \<Rightarrow> Inr n | _ \<Rightarrow> Inl PyExc_TypeError),
       parse_string = (\<lambda>args. case args of [PyUnicode bs] \<Rightarrow> Inr bs | _ \<Rightarrow> Inl PyExc_TypeError) \<rparr>"

lemma small_arguments_contract: "argument_contract small_python small_arguments"
  by (simp add: argument_contract_def small_python_def small_arguments_def)

theorem file_entry_object_content_witness:
  "\<exists>e1 e2. let cb = pyfsfat_file_object_callbacks small_python
         (file_entry_calls small_python (\<lambda>y m d h mi s us. Inr PyNone) small_arguments
           \<lparr> py_file_entry_object = (\<lambda>e. PyNone), py_tuple = (\<lambda>xs. PyNone) \<rparr> ascii_una list_array
           (list_array :: (node_entry option list, node_entry) array_ops) list_array list_stream);
       handle = Some \<lparr> foh_file_object = Some PyNone, foh_access_flags = 1 \<rparr>
     in io_seek_offset cb \<lparr> pfe_file_entry = Some witness_file, pfe_parent_object = (None :: unit option) \<rparr> handle 60 SEEK_SET =
          Some (e1, Inr 60) \<and>
        io_read cb e1 handle 8 = Some (e2, Inr [92, 93, 94, 95, 128, 129, 130, 131])"
proof -
  have fe: "fe_file_system witness_file = Some (stream_witness_fs [0, 0, 3, 5, 0, 0xffff])"
    "fe_cluster_block_stream witness_file = None" "fe_data_extents_array witness_file = []"
    "fe_file_io_handle witness_file = image_bfio (map of_nat [0..<256])" "fe_data_size witness_file = 80"
    "\<not> unsupported_file_attribute_flags (fe_file_attribute_flags witness_file)"
    by (simp_all add: witness_file_def unsupported_file_attribute_flags_def)
  have "length (file_content (map of_nat [0..<256]) stream_witness_io [2, 3, 5] (fe_data_size witness_file)) =
      unat (fe_data_size witness_file)"
    by (simp add: fe(5) file_content_def bytes_at_def chain_bytes_def cluster_bytes_def segment_bytes_def
      cluster_block_offset_def stream_witness_io_def io_handle_zero_def)
  from file_entry_object_content [OF small_python_contract small_arguments_contract list_array_contract
      list_array_contract list_stream_contract witness_file_on_volume fe(1-4,6) this,
      of "\<lparr> pfe_file_entry = Some witness_file, pfe_parent_object = (None :: unit option) \<rparr>" 60 8
      "\<lambda>y m d h mi s us. Inr PyNone"
      "\<lparr> py_file_entry_object = (\<lambda>e. PyNone), py_tuple = (\<lambda>xs. PyNone) \<rparr>" ascii_una list_array PyNone 1]
  show ?thesis
    using witness_file_content fe(5) by (auto simp: Let_def)
qed

end
