(* ===== verification/Signature.thy ===== *)
theory Signature
  imports Volume
begin

text \<open>
  The check of the signature of a volume in \<^verbatim>\<open>libfsfat/libfsfat_support.c\<close>, which a caller can make
  before a volume is opened, and its agreement with the reader of the boot record.
\<close>

section \<open>The check\<close>

text \<open>
  The file handle after the call, and whether the two bytes at the end of the first sector are
  the signature. A handle that is not open is opened for the check, and closed again also after
  an error.
\<close>

definition libfsfat_check_volume_signature_file_io_handle ::
  "'h bfio_ops \<Rightarrow> 'h option \<Rightarrow> 'h option \<times> bool result" where
  "libfsfat_check_volume_signature_file_io_handle B file_io_handle =
     (case file_io_handle of
        None \<Rightarrow> (None, Inl ARGUMENT_INVALID_VALUE)
      | Some h \<Rightarrow>
     (case bfio_handle_is_open B h of
        None \<Rightarrow> (Some h, Inl IO_OPEN_FAILED)
      | Some file_io_handle_is_open \<Rightarrow>
     (case (if file_io_handle_is_open then (h, True) else bfio_handle_open B h ACCESS_FLAG_READ) of
        (h, False) \<Rightarrow> (Some (fst (bfio_handle_close B h)), Inl IO_OPEN_FAILED)
      | (h, True) \<Rightarrow>
          let signature = bfio_handle_read B h 510 2
          in if (case signature of None \<Rightarrow> True | Some bytes \<Rightarrow> length bytes \<noteq> 2)
             then (Some (if file_io_handle_is_open then h else fst (bfio_handle_close B h)), Inl IO_READ_FAILED)
             else
               (case (if file_io_handle_is_open then (h, True) else bfio_handle_close B h) of
                  (h, False) \<Rightarrow> (Some (fst (bfio_handle_close B h)), Inl IO_CLOSE_FAILED)
                | (h, True) \<Rightarrow> (Some h, Inr (the signature = [0x55, 0xaa]))))))"

text \<open>
  Both functions that check a file by its name, over the operation that sets the name. The file
  handle they create is freed.
\<close>

definition check_signature_by_name ::
  "'h bfio_ops \<Rightarrow> ('h \<Rightarrow> 'w list \<Rightarrow> nat \<Rightarrow> 'h option) \<Rightarrow> 'w list option \<Rightarrow> bool result" where
  "check_signature_by_name B set_name filename =
     (case filename of
        None \<Rightarrow> Inl ARGUMENT_INVALID_VALUE
      | Some filename \<Rightarrow>
          if length filename = 0 then Inl ARGUMENT_INVALID_VALUE
          else
            (case bfio_file_initialize B of
               None \<Rightarrow> Inl RUNTIME_INITIALIZE_FAILED
             | Some h \<Rightarrow>
                 (case set_name h filename (length filename) of
                    None \<Rightarrow> Inl RUNTIME_SET_FAILED
                  | Some h \<Rightarrow>
                      (case libfsfat_check_volume_signature_file_io_handle B (Some h) of
                         (_, Inl e) \<Rightarrow> Inl RUNTIME_GET_FAILED
                       | (handle, Inr result) \<Rightarrow>
                           if case_option False (bfio_handle_free B) handle then Inr result
                           else Inl RUNTIME_INITIALIZE_FAILED))))"

definition libfsfat_check_volume_signature :: "'h bfio_ops \<Rightarrow> u8 list option \<Rightarrow> bool result" where
  "libfsfat_check_volume_signature B = check_signature_by_name B (bfio_file_set_name B)"

definition libfsfat_check_volume_signature_wide :: "'h bfio_ops \<Rightarrow> u32 list option \<Rightarrow> bool result" where
  "libfsfat_check_volume_signature_wide B = check_signature_by_name B (bfio_file_set_name_wide B)"

section \<open>The check and the boot record\<close>

lemma signature_bytes:
  assumes "n + 2 \<le> length (img :: u8 list)"
  shows "take 2 (drop n img) = [img ! n, img ! (n + 1)]"
proof (rule nth_equalityI)
  show "length (take 2 (drop n img)) = length [img ! n, img ! (n + 1)]" using assms by simp
  show "take 2 (drop n img) ! i = [img ! n, img ! (n + 1)] ! i" if "i < length (take 2 (drop n img))" for i
    using that assms by (cases i) (auto simp: less_Suc_eq_0_disj)
qed

lemma signature_of_image:
  assumes "opened_file_io_handle B h = (h', opened, Inr ())" and "bfio_handle_read B h' = image_bfio img"
    and "opened \<noteq> 0 \<Longrightarrow> snd (bfio_handle_close B h')"
  shows "libfsfat_check_volume_signature_file_io_handle B (Some h) =
     (Some (if opened \<noteq> 0 then fst (bfio_handle_close B h') else h'),
      if length img < 512 then Inl IO_READ_FAILED else Inr (img ! 510 = 0x55 \<and> img ! 511 = 0xaa))"
proof -
  have read: "image_bfio img 510 2 = Some (take 2 (drop 510 img))"
    by (simp add: image_bfio_def sless_zero_iff)
  have short: "length (take 2 (drop 510 img)) \<noteq> 2 \<longleftrightarrow> length img < 512" by (auto simp: min_def)
  have bytes: "length img \<ge> 512 \<Longrightarrow> (take 2 (drop 510 img) = [0x55, 0xaa]) = (img ! 510 = 0x55 \<and> img ! 511 = 0xaa)"
    using signature_bytes [of 510 img] by simp
  show ?thesis
    using assms short bytes
    by (cases "bfio_handle_close B h'")
      (auto simp: libfsfat_check_volume_signature_file_io_handle_def opened_file_io_handle_def read
        simp del: length_take split: option.splits if_splits bool.splits prod.splits)
qed

text \<open>
  The check of the signature accepts every volume whose boot record can be read. For a file
  of which a handle reads the bytes, the check tells whether the bytes 510 and 511 are the
  signature, a file of less than one sector is an error, and the file handle is closed again
  exactly if the check has opened it; if the boot record can be read, the check gives true.
\<close>
theorem volume_signature_of_boot_record:
  assumes "opened_file_io_handle B h = (h', opened, Inr ())" and "bfio_handle_read B h' = image_bfio img"
    and "opened \<noteq> 0 \<Longrightarrow> snd (bfio_handle_close B h')"
  shows "libfsfat_check_volume_signature_file_io_handle B (Some h) =
     (Some (if opened \<noteq> 0 then fst (bfio_handle_close B h') else h'),
      if length img < 512 then Inl IO_READ_FAILED else Inr (img ! 510 = 0x55 \<and> img ! 511 = 0xaa)) \<and>
    (libfsfat_boot_record_read_file_io_handle (bfio_handle_read B h') (Some br) 0 = Inr br' \<longrightarrow>
       snd (libfsfat_check_volume_signature_file_io_handle B (Some h)) = Inr True)"
proof (intro conjI impI)
  show check: "libfsfat_check_volume_signature_file_io_handle B (Some h) =
     (Some (if opened \<noteq> 0 then fst (bfio_handle_close B h') else h'),
      if length img < 512 then Inl IO_READ_FAILED else Inr (img ! 510 = 0x55 \<and> img ! 511 = 0xaa))"
    by (rule signature_of_image [OF assms])
  assume "libfsfat_boot_record_read_file_io_handle (bfio_handle_read B h') (Some br) 0 = Inr br'"
  then have "length (take 512 img) = 512" "take 512 img ! 510 = 0x55" "take 512 img ! 511 = 0xaa"
    using assms(2)
    by (auto simp: libfsfat_boot_record_read_file_io_handle_def libfsfat_boot_record_read_data_def
        image_bfio_def simp del: length_take split: if_splits option.splits sum.splits)
  then have "\<not> length img < 512" "img ! 510 = 0x55" "img ! 511 = 0xaa" by (auto simp: min_def split: if_splits)
  then show "snd (libfsfat_check_volume_signature_file_io_handle B (Some h)) = Inr True"
    using check by simp
qed

section \<open>A concrete file\<close>

text \<open>A file of one sector with a signature; the handle tells whether it is open.\<close>

definition signed_file :: "bool bfio_ops" where
  "signed_file =
     \<lparr> bfio_file_initialize = Some False, bfio_file_set_name = \<lambda>h _ _. Some h,
       bfio_file_set_name_wide = \<lambda>h _ _. Some h, bfio_handle_is_open = Some,
       bfio_handle_open = \<lambda>h _. (True, True), bfio_handle_close = \<lambda>h. (False, True), bfio_handle_free = \<lambda>_. True,
       bfio_handle_get_size = \<lambda>_. Some 512,
       bfio_handle_read = \<lambda>_. image_bfio (fat16_boot_sector (example_layout 20480 80 1)) \<rparr>"

lemma volume_signature_of_boot_record_witness:
  "libfsfat_check_volume_signature_file_io_handle signed_file (Some False) = (Some False, Inr True)"
proof -
  let ?img = "fat16_boot_sector (example_layout 20480 80 1)"
  have "length ?img = 512" "?img ! 510 = 0x55" "?img ! 511 = 0xaa"
    using fat16_sector_read(1-3) [OF example_layout_ok, of 1 20480 80] by (simp_all add: example_layout_def)
  moreover have "opened_file_io_handle signed_file False = (True, 1, Inr ())"
    by (simp add: opened_file_io_handle_def signed_file_def)
  ultimately show ?thesis
    using volume_signature_of_boot_record [of signed_file False True 1 ?img boot_record_zero]
    by (simp add: signed_file_def)
qed

end
