(* ===== verification/Py_Volume.thy ===== *)
theory Py_Volume
  imports Py_Entry_File Signature
begin

text \<open>
  The Python objects of volumes, \<^verbatim>\<open>pyfsfat/pyfsfat_volume.c\<close>, the functions of the module,
  \<^verbatim>\<open>pyfsfat/pyfsfat.c\<close>, and the constants of \<^verbatim>\<open>pyfsfat/pyfsfat_file_system_formats.c\<close> and
  \<^verbatim>\<open>pyfsfat/pyfsfat_file_attribute_flags.c\<close>. A volume is opened by the name of a file or
  through a file-like object, whose handle the Python object owns.
\<close>

section \<open>Constants\<close>

definition file_system_format_value :: "file_system_format \<Rightarrow> int" where
  "file_system_format_value format =
     (case format of
        FORMAT_UNKNOWN \<Rightarrow> 0 | FORMAT_EXFAT \<Rightarrow> 1 | FORMAT_FAT12 \<Rightarrow> 2 | FORMAT_FAT16 \<Rightarrow> 3 | FORMAT_FAT32 \<Rightarrow> 4)"

definition pyfsfat_file_system_formats_init_type :: "'o python \<Rightarrow> (string \<times> 'o) list" where
  "pyfsfat_file_system_formats_init_type P =
     map (\<lambda>(name, format). (name, py_long_from P (file_system_format_value format)))
       [(''EXFAT'', FORMAT_EXFAT), (''FAT12'', FORMAT_FAT12), (''FAT16'', FORMAT_FAT16), (''FAT32'', FORMAT_FAT32)]"

definition pyfsfat_file_attribute_flags_init_type :: "'o python \<Rightarrow> (string \<times> 'o) list" where
  "pyfsfat_file_attribute_flags_init_type P =
     map (\<lambda>(name, flag). (name, py_long_from P flag))
       [(''READ_ONLY'', 0x01), (''HIDDEN'', 0x02), (''SYSTEM'', 0x04), (''DIRECTORY'', 0x10),
        (''ARCHIVE'', 0x20), (''DEVICE'', 0x40)]"

section \<open>The volume\<close>

record ('h, 'arr, 'cache) pyfsfat_volume =
  pv_volume :: "('h, 'arr, 'cache) volume option"
  pv_file_io_handle :: "'h option"

definition pyfsfat_volume_init ::
  "('h, 'arr, 'cache) pyfsfat_volume option \<Rightarrow> ('h, 'arr, 'cache) pyfsfat_volume option \<times> unit py_result" where
  "pyfsfat_volume_init pyfsfat_volume =
     (case pyfsfat_volume of
        None \<Rightarrow> (None, Inl PyExc_ValueError)
      | Some v \<Rightarrow>
          let v = v\<lparr> pv_volume := None, pv_file_io_handle := None \<rparr>
          in (case libfsfat_volume_initialize (pv_volume v) of
                Inl _ \<Rightarrow> (Some v, Inl PyExc_MemoryError)
              | Inr volume \<Rightarrow> (Some (v\<lparr> pv_volume := Some volume \<rparr>), Inr ())))"

definition pyfsfat_volume_signal_abort ::
  "'o python \<Rightarrow> ('h, 'arr, 'cache) pyfsfat_volume option \<Rightarrow>
   ('h, 'arr, 'cache) pyfsfat_volume option \<times> 'o py_result" where
  "pyfsfat_volume_signal_abort P pyfsfat_volume =
     (case pyfsfat_volume of
        None \<Rightarrow> (None, Inl PyExc_ValueError)
      | Some v \<Rightarrow>
          (case libfsfat_volume_signal_abort (pv_volume v) of
             Inl _ \<Rightarrow> (Some v, Inl PyExc_IOError)
           | Inr volume \<Rightarrow> (Some (v\<lparr> pv_volume := Some volume \<rparr>), Inr (py_none P))))"

section \<open>Opening and closing\<close>

definition LIBFSFAT_OPEN_READ :: u32 where "LIBFSFAT_OPEN_READ = ACCESS_FLAG_READ"

text \<open>
  Both methods that open a volume get an object and a mode, which has to begin with the letter r
  if it is there.
\<close>

type_synonym 'o open_arguments = "('o \<times> u8 list option) py_result"

definition unsupported_mode :: "u8 list option \<Rightarrow> bool" where
  "unsupported_mode mode = (case mode of None \<Rightarrow> False | Some [] \<Rightarrow> True | Some (c # _) \<Rightarrow> c \<noteq> 0x72)"

text \<open>
  The file name of a string object, in UTF-8, or of bytes; a name ends at its first zero byte.
  Bytes that Python does not give are \<open>NULL\<close>, which the library refuses.
\<close>

definition filename_of_object :: "'o python \<Rightarrow> 'o \<Rightarrow> u8 list option py_result" where
  "filename_of_object P string_object =
     (case py_is_instance P string_object PyUnicode_Type of
        None \<Rightarrow> Inl PyExc_RuntimeError
      | Some True \<Rightarrow>
          (case py_unicode_as_utf8 P string_object of
             None \<Rightarrow> Inl PyExc_RuntimeError
           | Some utf8_string \<Rightarrow> Inr (Some (takeWhile (\<lambda>c. c \<noteq> 0) utf8_string)))
      | Some False \<Rightarrow>
          (case py_is_instance P string_object PyBytes_Type of
             None \<Rightarrow> Inl PyExc_RuntimeError
           | Some True \<Rightarrow> Inr (map_option (takeWhile (\<lambda>c. c \<noteq> 0)) (py_bytes_as_string P string_object))
           | Some False \<Rightarrow> Inl PyExc_TypeError))"

definition pyfsfat_volume_open ::
  "'o python \<Rightarrow> (nat \<Rightarrow> u8) \<Rightarrow> ('cache, 'value, 'arr directory) cache_ops \<Rightarrow> ('arr, nat) array_ops \<Rightarrow>
   ('tarr, node_entry) array_ops \<Rightarrow> 'h bfio_ops \<Rightarrow> ('h, 'arr, 'cache) pyfsfat_volume option \<Rightarrow>
   'o open_arguments \<Rightarrow> (('h, 'arr, 'cache) pyfsfat_volume option \<times> 'o py_result) option" where
  "pyfsfat_volume_open P junk C A T B pyfsfat_volume arguments =
     (case pyfsfat_volume of
        None \<Rightarrow> Some (None, Inl PyExc_ValueError)
      | Some v \<Rightarrow>
     (case arguments of
        Inl exc \<Rightarrow> Some (Some v, Inl exc)
      | Inr (string_object, mode) \<Rightarrow>
          if unsupported_mode mode then Some (Some v, Inl PyExc_ValueError)
          else
            (case filename_of_object P string_object of
               Inl exc \<Rightarrow> Some (Some v, Inl exc)
             | Inr filename \<Rightarrow>
                 (case libfsfat_volume_open junk C A T B (pv_volume v) filename LIBFSFAT_OPEN_READ of
                    None \<Rightarrow> None
                  | Some (volume, Inl _) \<Rightarrow> Some (Some (v\<lparr> pv_volume := volume \<rparr>), Inl PyExc_IOError)
                  | Some (volume, Inr _) \<Rightarrow> Some (Some (v\<lparr> pv_volume := volume \<rparr>), Inr (py_none P))))))"

text \<open>
  The object needs the methods to read and to seek. How it stands after the volume is opened is
  behind the handle, which libbfio makes of the functions for the object.
\<close>

definition pyfsfat_volume_open_file_object ::
  "'o python \<Rightarrow> (nat \<Rightarrow> u8) \<Rightarrow> ('cache, 'value, 'arr directory) cache_ops \<Rightarrow> ('arr, nat) array_ops \<Rightarrow>
   ('tarr, node_entry) array_ops \<Rightarrow> 'h bfio_ops \<Rightarrow> ('o, 's) python_calls \<Rightarrow> ('o, 's, 'h) new_handle \<Rightarrow> 's \<Rightarrow>
   ('h, 'arr, 'cache) pyfsfat_volume option \<Rightarrow> 'o open_arguments \<Rightarrow>
   (('h, 'arr, 'cache) pyfsfat_volume option \<times> 'o py_result) option" where
  "pyfsfat_volume_open_file_object P junk C A T B K libbfio_handle_initialize s pyfsfat_volume arguments =
     (case pyfsfat_volume of
        None \<Rightarrow> Some (None, Inl PyExc_ValueError)
      | Some v \<Rightarrow>
     (case arguments of
        Inl exc \<Rightarrow> Some (Some v, Inl exc)
      | Inr (file_object, mode) \<Rightarrow>
          if unsupported_mode mode then Some (Some v, Inl PyExc_ValueError)
          else
            (case py_has_attr K s file_object ''read'' of
               (s, False) \<Rightarrow> Some (Some v, Inl PyExc_TypeError)
             | (s, True) \<Rightarrow>
            (case py_has_attr K s file_object ''seek'' of
               (s, False) \<Rightarrow> Some (Some v, Inl PyExc_TypeError)
             | (s, True) \<Rightarrow>
                 if pv_file_io_handle v \<noteq> None then Some (Some v, Inl PyExc_IOError)
                 else
                   (case pyfsfat_file_object_initialize P K libbfio_handle_initialize (pv_file_io_handle v)
                           (Some file_object) of
                      Inl _ \<Rightarrow> Some (Some v, Inl PyExc_MemoryError)
                    | Inr h \<Rightarrow>
                        (case libfsfat_volume_open_file_io_handle junk C A T B (pv_volume v) (Some h)
                                LIBFSFAT_OPEN_READ of
                           None \<Rightarrow> None
                         | Some (volume, _, Inl _) \<Rightarrow>
                             Some (Some (v\<lparr> pv_volume := volume, pv_file_io_handle := None \<rparr>), Inl PyExc_IOError)
                         | Some (volume, handle, Inr _) \<Rightarrow>
                             Some (Some (v\<lparr> pv_volume := volume, pv_file_io_handle := handle \<rparr>),
                               Inr (py_none P))))))))"

text \<open>
  A file handle of a file-like object is the one that the volume has, so it is as the volume
  leaves it. If the volume cannot be closed, the object keeps the handle.
\<close>

definition pyfsfat_volume_close ::
  "'o python \<Rightarrow> 'h bfio_ops \<Rightarrow> ('h, 'arr, 'cache) pyfsfat_volume option \<Rightarrow>
   ('h, 'arr, 'cache) pyfsfat_volume option \<times> 'o py_result" where
  "pyfsfat_volume_close P B pyfsfat_volume =
     (case pyfsfat_volume of
        None \<Rightarrow> (None, Inl PyExc_ValueError)
      | Some v \<Rightarrow>
          (case libfsfat_volume_close B (pv_volume v) of
             (volume, handle, result) \<Rightarrow>
               let v = v\<lparr> pv_volume := volume,
                          pv_file_io_handle :=
                            (case handle of
                               None \<Rightarrow> pv_file_io_handle v
                             | Some h \<Rightarrow> map_option (\<lambda>_. h) (pv_file_io_handle v)) \<rparr>
               in (case result of
                     Inl _ \<Rightarrow> (Some v, Inl PyExc_IOError)
                   | Inr _ \<Rightarrow>
                       (case pv_file_io_handle v of
                          None \<Rightarrow> (Some v, Inr (py_none P))
                        | Some h \<Rightarrow>
                            (Some (v\<lparr> pv_file_io_handle := None \<rparr>),
                             if bfio_handle_free B h then Inr (py_none P) else Inl PyExc_MemoryError)))))"

text \<open>
  The object after the call, \<open>None\<close> when its memory is released. An object whose volume cannot be
  closed is left as it is, with no reference to it.
\<close>

definition pyfsfat_volume_free ::
  "'o python \<Rightarrow> 'h bfio_ops \<Rightarrow> ('h, 'arr, 'cache) pyfsfat_volume option \<Rightarrow>
   ('h, 'arr, 'cache) pyfsfat_volume option \<times> unit py_result" where
  "pyfsfat_volume_free P B pyfsfat_volume =
     (case pyfsfat_volume of
        None \<Rightarrow> (None, Inl PyExc_ValueError)
      | Some v \<Rightarrow>
          (case (if pv_file_io_handle v \<noteq> None then pyfsfat_volume_close P B (Some v)
                 else (Some v, Inr (py_none P))) of
             (left, Inl exc) \<Rightarrow> (left, Inl exc)
           | (left, Inr _) \<Rightarrow>
               (case libfsfat_volume_free B (case left of None \<Rightarrow> None | Some v \<Rightarrow> pv_volume v) of
                  (_, Inl _) \<Rightarrow> (None, Inl PyExc_MemoryError)
                | (_, Inr _) \<Rightarrow> (None, Inr ()))))"

section \<open>Values and file entries\<close>

definition pyfsfat_volume_get_file_system_format ::
  "'o python \<Rightarrow> ('h, 'arr, 'cache) pyfsfat_volume option \<Rightarrow> 'o py_result" where
  "pyfsfat_volume_get_file_system_format P pyfsfat_volume =
     (case pyfsfat_volume of
        None \<Rightarrow> Inl PyExc_ValueError
      | Some v \<Rightarrow>
          (case libfsfat_volume_get_file_system_format (pv_volume v) of
             Inl _ \<Rightarrow> Inl PyExc_IOError
           | Inr format \<Rightarrow> Inr (py_long_from P (file_system_format_value format))))"

text \<open>The label without its terminator.\<close>

definition pyfsfat_volume_get_label ::
  "'o python \<Rightarrow> una_ops \<Rightarrow> ('arr, nat) array_ops \<Rightarrow> ('h, 'arr, 'cache) pyfsfat_volume option \<Rightarrow> 'o py_result" where
  "pyfsfat_volume_get_label P U A pyfsfat_volume =
     (case pyfsfat_volume of
        None \<Rightarrow> Inl PyExc_ValueError
      | Some v \<Rightarrow>
          (case libfsfat_volume_get_utf8_label_size U A (pv_volume v) of
             Inl _ \<Rightarrow> Inl PyExc_IOError
           | Inr utf8_string_size \<Rightarrow>
               if utf8_string_size = 0 then Inr (py_none P)
               else
                 (case libfsfat_volume_get_utf8_label U A (pv_volume v) (Some utf8_string_size) of
                    Inl _ \<Rightarrow> Inl PyExc_IOError
                  | Inr utf8_string \<Rightarrow>
                      (case py_unicode_decode_utf8 P (take (utf8_string_size - 1) utf8_string) of
                         None \<Rightarrow> Inl PyExc_IOError
                       | Some string_object \<Rightarrow> Inr string_object))))"

text \<open>A file entry object keeps the volume object as its parent.\<close>

definition pyfsfat_volume_get_root_directory ::
  "('xarr, extent) array_ops \<Rightarrow> 'h bfio_ops \<Rightarrow> ('h, 'arr, 'cache) pyfsfat_volume option \<Rightarrow>
   (('arr, 'cache, 'xarr, 's) file_entry, ('h, 'arr, 'cache) pyfsfat_volume) pyfsfat_file_entry py_result" where
  "pyfsfat_volume_get_root_directory X B pyfsfat_volume =
     (case pyfsfat_volume of
        None \<Rightarrow> Inl PyExc_ValueError
      | Some v \<Rightarrow>
          (case libfsfat_volume_get_root_directory X B (pv_volume v) None of
             Inl _ \<Rightarrow> Inl PyExc_IOError
           | Inr root_directory \<Rightarrow>
               (case pyfsfat_file_entry_new (Some root_directory) (Some v) of
                  Inl _ \<Rightarrow> Inl PyExc_MemoryError
                | Inr directory_object \<Rightarrow> Inr directory_object)))"

text \<open>An identifier for which there is no file entry raises an exception, as any other error does.\<close>

definition pyfsfat_volume_get_file_entry_by_identifier ::
  "('arr, nat) array_ops \<Rightarrow> ('xarr, extent) array_ops \<Rightarrow> 'h bfio_ops \<Rightarrow>
   ('h, 'arr, 'cache) pyfsfat_volume option \<Rightarrow> u64 py_result \<Rightarrow>
   (('arr, 'cache, 'xarr, 's) file_entry, ('h, 'arr, 'cache) pyfsfat_volume) pyfsfat_file_entry py_result option" where
  "pyfsfat_volume_get_file_entry_by_identifier A X B pyfsfat_volume arguments =
     (case pyfsfat_volume of
        None \<Rightarrow> Some (Inl PyExc_ValueError)
      | Some v \<Rightarrow>
     (case arguments of
        Inl exc \<Rightarrow> Some (Inl exc)
      | Inr file_entry_identifier \<Rightarrow>
          (case libfsfat_volume_get_file_entry_by_identifier A X B (pv_volume v) file_entry_identifier None of
             None \<Rightarrow> None
           | Some (Inl _) \<Rightarrow> Some (Inl PyExc_IOError)
           | Some (Inr file_entry) \<Rightarrow>
               (case pyfsfat_file_entry_new (Some file_entry) (Some v) of
                  Inl _ \<Rightarrow> Some (Inl PyExc_MemoryError)
                | Inr file_entry_object \<Rightarrow> Some (Inr file_entry_object)))))"

text \<open>The object after the call, and the file entry object, or \<open>None\<close> when there is no such entry.\<close>

definition pyfsfat_volume_get_file_entry_by_path ::
  "una_ops \<Rightarrow> ('cache, 'value, 'arr directory) cache_ops \<Rightarrow> ('arr, nat) array_ops \<Rightarrow>
   ('tarr, node_entry) array_ops \<Rightarrow> ('xarr, extent) array_ops \<Rightarrow> 'h bfio_ops \<Rightarrow>
   ('h, 'arr, 'cache) pyfsfat_volume option \<Rightarrow> u8 list py_result \<Rightarrow>
   (('h, 'arr, 'cache) pyfsfat_volume option \<times>
    (('arr, 'cache, 'xarr, 's) file_entry, ('h, 'arr, 'cache) pyfsfat_volume) pyfsfat_file_entry option py_result)
   option" where
  "pyfsfat_volume_get_file_entry_by_path U C A T X B pyfsfat_volume arguments =
     (case pyfsfat_volume of
        None \<Rightarrow> Some (None, Inl PyExc_ValueError)
      | Some v \<Rightarrow>
     (case arguments of
        Inl exc \<Rightarrow> Some (Some v, Inl exc)
      | Inr path \<Rightarrow>
          (case libfsfat_volume_get_file_entry_by_utf8_path U C A T X B (pv_volume v) (Some path)
                  (length path) None of
             None \<Rightarrow> None
           | Some (Inl _) \<Rightarrow> Some (Some v, Inl PyExc_IOError)
           | Some (Inr (volume, found, file_entry)) \<Rightarrow>
               let v = v\<lparr> pv_volume := Some volume \<rparr>
               in if \<not> found then Some (Some v, Inr None)
                  else
                    (case pyfsfat_file_entry_new (Some file_entry) (Some v) of
                       Inl _ \<Rightarrow> Some (Some v, Inl PyExc_MemoryError)
                     | Inr file_entry_object \<Rightarrow> Some (Some v, Inr (Some file_entry_object))))))"

section \<open>The functions of the module\<close>

text \<open>The result stands for \<^verbatim>\<open>True\<close> and \<^verbatim>\<open>False\<close>.\<close>

definition pyfsfat_check_volume_signature ::
  "'o python \<Rightarrow> 'h bfio_ops \<Rightarrow> 'o py_result \<Rightarrow> bool py_result" where
  "pyfsfat_check_volume_signature P B arguments =
     (case arguments of
        Inl exc \<Rightarrow> Inl exc
      | Inr string_object \<Rightarrow>
          (case filename_of_object P string_object of
             Inl exc \<Rightarrow> Inl exc
           | Inr filename \<Rightarrow>
               (case libfsfat_check_volume_signature B filename of
                  Inl _ \<Rightarrow> Inl PyExc_IOError
                | Inr result \<Rightarrow> Inr result)))"

definition pyfsfat_check_volume_signature_file_object ::
  "'o python \<Rightarrow> 'h bfio_ops \<Rightarrow> ('o, 's) python_calls \<Rightarrow> ('o, 's, 'h) new_handle \<Rightarrow> 'o py_result \<Rightarrow>
   bool py_result" where
  "pyfsfat_check_volume_signature_file_object P B K libbfio_handle_initialize arguments =
     (case arguments of
        Inl exc \<Rightarrow> Inl exc
      | Inr file_object \<Rightarrow>
          (case pyfsfat_file_object_initialize P K libbfio_handle_initialize None (Some file_object) of
             Inl _ \<Rightarrow> Inl PyExc_MemoryError
           | Inr h \<Rightarrow>
               (case libfsfat_check_volume_signature_file_io_handle B (Some h) of
                  (_, Inl _) \<Rightarrow> Inl PyExc_IOError
                | (handle, Inr result) \<Rightarrow>
                    if case_option False (bfio_handle_free B) handle then Inr result
                    else Inl PyExc_MemoryError)))"

text \<open>
  The memory of a new object is not initialized, so whatever it holds is a parameter. An object
  that cannot be opened is released.
\<close>

definition pyfsfat_open_new_volume ::
  "'o python \<Rightarrow> (nat \<Rightarrow> u8) \<Rightarrow> ('cache, 'value, 'arr directory) cache_ops \<Rightarrow> ('arr, nat) array_ops \<Rightarrow>
   ('tarr, node_entry) array_ops \<Rightarrow> 'h bfio_ops \<Rightarrow> ('h, 'arr, 'cache) pyfsfat_volume \<Rightarrow>
   'o open_arguments \<Rightarrow> ('h, 'arr, 'cache) pyfsfat_volume py_result option" where
  "pyfsfat_open_new_volume P junk C A T B new_object arguments =
     (case pyfsfat_volume_init (Some new_object) of
        (_, Inl exc) \<Rightarrow> Some (Inl exc)
      | (pyfsfat_volume, Inr _) \<Rightarrow>
          (case pyfsfat_volume_open P junk C A T B pyfsfat_volume arguments of
             None \<Rightarrow> None
           | Some (_, Inl exc) \<Rightarrow> Some (Inl exc)
           | Some (None, Inr _) \<Rightarrow> Some (Inl PyExc_raised)
           | Some (Some v, Inr _) \<Rightarrow> Some (Inr v)))"

definition pyfsfat_open_new_volume_with_file_object ::
  "'o python \<Rightarrow> (nat \<Rightarrow> u8) \<Rightarrow> ('cache, 'value, 'arr directory) cache_ops \<Rightarrow> ('arr, nat) array_ops \<Rightarrow>
   ('tarr, node_entry) array_ops \<Rightarrow> 'h bfio_ops \<Rightarrow> ('o, 's) python_calls \<Rightarrow> ('o, 's, 'h) new_handle \<Rightarrow> 's \<Rightarrow>
   ('h, 'arr, 'cache) pyfsfat_volume \<Rightarrow> 'o open_arguments \<Rightarrow>
   ('h, 'arr, 'cache) pyfsfat_volume py_result option" where
  "pyfsfat_open_new_volume_with_file_object P junk C A T B K libbfio_handle_initialize s new_object arguments =
     (case pyfsfat_volume_init (Some new_object) of
        (_, Inl exc) \<Rightarrow> Some (Inl exc)
      | (pyfsfat_volume, Inr _) \<Rightarrow>
          (case pyfsfat_volume_open_file_object P junk C A T B K libbfio_handle_initialize s pyfsfat_volume
                  arguments of
             None \<Rightarrow> None
           | Some (_, Inl exc) \<Rightarrow> Some (Inl exc)
           | Some (None, Inr _) \<Rightarrow> Some (Inl PyExc_raised)
           | Some (Some v, Inr _) \<Rightarrow> Some (Inr v)))"

end
