(* ===== verification/Py_Volume_States.thy ===== *)
theory Py_Volume_States
  imports Py_Volume
begin

text \<open>
  What the volume objects of Python are after any sequence of calls, and the check of a
  signature through a file-like object, down to a file in another volume.
\<close>

section \<open>The states of a volume object\<close>

text \<open>
  The calls that change a volume object, each with any arguments and with any outcome. The
  object is made by \<^verbatim>\<open>__init__\<close>, which can be called again.
\<close>

inductive py_volume_step ::
  "'o python \<Rightarrow> una_ops \<Rightarrow> ('cache, 'value, 'arr directory) cache_ops \<Rightarrow> ('arr, nat) array_ops \<Rightarrow>
   ('tarr, node_entry) array_ops \<Rightarrow> ('xarr, extent) array_ops \<Rightarrow> 'h bfio_ops \<Rightarrow> ('o, 's) python_calls \<Rightarrow>
   ('o, 's, 'h) new_handle \<Rightarrow> ('h, 'arr, 'cache) pyfsfat_volume \<Rightarrow> ('h, 'arr, 'cache) pyfsfat_volume \<Rightarrow> bool"
  for P U C A T X B K new_handle where
  step_init: "pyfsfat_volume_init (Some pv) = (Some pv', r) \<Longrightarrow> py_volume_step P U C A T X B K new_handle pv pv'"
| step_open: "pyfsfat_volume_open P junk C A T B (Some pv) arguments = Some (Some pv', r1) \<Longrightarrow>
    py_volume_step P U C A T X B K new_handle pv pv'"
| step_open_file_object: "pyfsfat_volume_open_file_object P junk C A T B K new_handle s (Some pv) arguments =
    Some (Some pv', r2) \<Longrightarrow> py_volume_step P U C A T X B K new_handle pv pv'"
| step_close: "pyfsfat_volume_close P B (Some pv) = (Some pv', r3) \<Longrightarrow> py_volume_step P U C A T X B K new_handle pv pv'"
| step_abort: "pyfsfat_volume_signal_abort P (Some pv) = (Some pv', r4) \<Longrightarrow>
    py_volume_step P U C A T X B K new_handle pv pv'"
| step_path: "pyfsfat_volume_get_file_entry_by_path U C A T X B (Some pv) path = Some (Some pv',
      r5 :: (('arr, 'cache, 'xarr, unit) file_entry, ('h, 'arr, 'cache) pyfsfat_volume) pyfsfat_file_entry
        option py_result) \<Longrightarrow>
    py_volume_step P U C A T X B K new_handle pv pv'"

inductive py_volume_reachable ::
  "'o python \<Rightarrow> una_ops \<Rightarrow> ('cache, 'value, 'arr directory) cache_ops \<Rightarrow> ('arr, nat) array_ops \<Rightarrow>
   ('tarr, node_entry) array_ops \<Rightarrow> ('xarr, extent) array_ops \<Rightarrow> 'h bfio_ops \<Rightarrow> ('o, 's) python_calls \<Rightarrow>
   ('o, 's, 'h) new_handle \<Rightarrow> ('h, 'arr, 'cache) pyfsfat_volume \<Rightarrow> bool"
  for P U C A T X B K new_handle where
  py_reachable_init: "pyfsfat_volume_init (Some new_object) = (Some pv, Inr ()) \<Longrightarrow>
    py_volume_reachable P U C A T X B K new_handle pv"
| py_reachable_step: "py_volume_reachable P U C A T X B K new_handle pv \<Longrightarrow> py_volume_step P U C A T X B K new_handle pv pv' \<Longrightarrow>
    py_volume_reachable P U C A T X B K new_handle pv'"

text \<open>
  An object is closed, without a handle, or its volume is open; a handle that the object owns is
  then the one of the volume, which has not opened it.
\<close>

definition py_volume_closed :: "('h, 'arr, 'cache) pyfsfat_volume \<Rightarrow> bool" where
  "py_volume_closed pv \<longleftrightarrow>
     pv_file_io_handle pv = None \<and> (\<exists>v. pv_volume pv = Some v \<and> volume_closed v)"

definition py_volume_open :: "('arr \<Rightarrow> nat option list) \<Rightarrow> ('h, 'arr, 'cache) pyfsfat_volume \<Rightarrow> bool" where
  "py_volume_open view pv \<longleftrightarrow>
     (\<exists>v. pv_volume pv = Some v \<and> volume_open view v \<and>
        (case pv_file_io_handle pv of
           None \<Rightarrow> True
         | Some h \<Rightarrow> vol_file_io_handle v = Some h \<and> vol_file_io_handle_opened_in_library v = 0 \<and>
             vol_file_io_handle_created_in_library v = 0))"

text \<open>
  What the model relies on of libbfio: a handle that it makes of the functions of a file-like object
  is open, as the function that is asked for it says.
\<close>

definition made_handles_open :: "'h bfio_ops \<Rightarrow> ('o, 's, 'h) new_handle \<Rightarrow> bool" where
  "made_handles_open B new_handle \<longleftrightarrow> (\<forall>handle cb h. new_handle handle cb = Some h \<longrightarrow> bfio_handle_is_open B h = Some True)"

lemma init_closed: "pyfsfat_volume_init (Some pv) = (Some pv', r) \<Longrightarrow> r = Inr () \<and> py_volume_closed pv'"
  by (auto simp: pyfsfat_volume_init_def libfsfat_volume_initialize_def libfsfat_io_handle_initialize_def
    py_volume_closed_def volume_closed_def)

lemma open_handle_not_opened:
  assumes "libfsfat_volume_open_file_io_handle junk C A T B (Some v) (Some h) access_flags =
      Some (Some v', h', Inr ())" and "bfio_handle_is_open B h = Some True"
  shows "vol_file_io_handle_opened_in_library v' = 0"
  using assms
  by (auto simp: libfsfat_volume_open_file_io_handle_def opened_file_io_handle_def
    split: option.splits sum.splits if_splits prod.splits)

definition same_handle :: "('h, 'arr, 'cache) volume \<Rightarrow> ('h, 'arr, 'cache) volume \<Rightarrow> bool" where
  "same_handle v v' \<longleftrightarrow>
     vol_file_io_handle v' = vol_file_io_handle v \<and>
     vol_file_io_handle_opened_in_library v' = vol_file_io_handle_opened_in_library v \<and>
     vol_file_io_handle_created_in_library v' = vol_file_io_handle_created_in_library v"

lemma py_volume_open_update:
  "py_volume_open view pv \<Longrightarrow> pv_volume pv = Some v \<Longrightarrow> same_handle v v' \<Longrightarrow> volume_open view v' \<Longrightarrow>
   py_volume_open view (pv\<lparr> pv_volume := Some v' \<rparr>)"
  by (auto simp: py_volume_open_def same_handle_def split: option.splits)

lemma py_volume_openE:
  assumes "py_volume_open view pv"
  obtains v where "pv_volume pv = Some v" and "volume_open view v"
    and "\<forall>h. pv_file_io_handle pv = Some h \<longrightarrow> vol_file_io_handle v = Some h \<and>
      vol_file_io_handle_opened_in_library v = 0 \<and> vol_file_io_handle_created_in_library v = 0"
proof -
  obtain v where v: "pv_volume pv = Some v" "volume_open view v" and
    "case pv_file_io_handle pv of None \<Rightarrow> True | Some h \<Rightarrow> vol_file_io_handle v = Some h \<and>
      vol_file_io_handle_opened_in_library v = 0 \<and> vol_file_io_handle_created_in_library v = 0"
    using assms by (auto simp: py_volume_open_def)
  then show ?thesis by (intro that [of v]) (simp_all split: option.splits)
qed

lemma py_open_keeps:
  assumes "array_contract A view" and "array_contract T tview" and "bounded_sizes B"
    and "py_volume_closed pv \<or> py_volume_open view pv"
    and "pyfsfat_volume_open P junk C A T B (Some pv) arguments = Some (Some pv', r)"
  shows "py_volume_closed pv' \<or> py_volume_open view pv'"
proof (cases "pv' = pv")
  case True
  then show ?thesis using assms(4) by simp
next
  case False
  then obtain f volume r' where opened: "libfsfat_volume_open junk C A T B (pv_volume pv) f LIBFSFAT_OPEN_READ =
      Some (volume, r')" and pv': "pv' = pv\<lparr> pv_volume := volume \<rparr>"
    using assms(5) by (auto simp: pyfsfat_volume_open_def split: option.splits sum.splits prod.splits if_splits)
  from assms(4) show ?thesis
  proof
    assume "py_volume_closed pv"
    then obtain v where v: "pv_volume pv = Some v" "volume_closed v" "pv_file_io_handle pv = None"
      by (auto simp: py_volume_closed_def)
    obtain v1 r1 where "open_by_name junk C A T B (bfio_file_set_name B) (Some v) f LIBFSFAT_OPEN_READ =
        Some (Some v1, r1)" and "case r1 of Inl e \<Rightarrow> volume_closed v1 | Inr _ \<Rightarrow> volume_open view v1"
      by (rule open_by_name_ends [OF assms(1,2) v(2) assms(3)])
    then show ?thesis
      using opened pv' v
      by (auto simp: libfsfat_volume_open_def py_volume_closed_def py_volume_open_def split: sum.splits)
  next
    assume "py_volume_open view pv"
    then obtain v where v: "pv_volume pv = Some v" "volume_open view v" by (auto simp: py_volume_open_def)
    then have "volume = Some v"
      using open_volume_refuses(2) [OF v(2)] opened by (simp add: libfsfat_volume_open_def)
    then show ?thesis using False pv' v(1) by simp
  qed
qed

lemma py_open_file_object_keeps:
  assumes "array_contract A view" and "array_contract T tview" and "bounded_sizes B"
    and "made_handles_open B new_handle" and "py_volume_closed pv \<or> py_volume_open view pv"
    and "pyfsfat_volume_open_file_object P junk C A T B K new_handle s (Some pv) arguments = Some (Some pv', r)"
  shows "py_volume_closed pv' \<or> py_volume_open view pv'"
proof (cases "pv' = pv")
  case True
  then show ?thesis using assms(5) by simp
next
  case False
  obtain f h volume handle r' where none: "pv_file_io_handle pv = None"
    and made: "pyfsfat_file_object_initialize P K new_handle None (Some f) = Inr h"
    and opened: "libfsfat_volume_open_file_io_handle junk C A T B (pv_volume pv) (Some h) LIBFSFAT_OPEN_READ =
      Some (volume, handle, r')"
    and pv': "pv' = pv\<lparr> pv_volume := volume, pv_file_io_handle := (case r' of Inl _ \<Rightarrow> None | Inr _ \<Rightarrow> handle) \<rparr>"
    using assms(6) False
    by (auto simp: pyfsfat_volume_open_file_object_def split: option.splits sum.splits prod.splits if_splits bool.splits)
  have is_open: "bfio_handle_is_open B h = Some True"
    using made assms(4)
    by (auto simp: pyfsfat_file_object_initialize_def made_handles_open_def split: sum.splits option.splits)
  from assms(5) show ?thesis
  proof
    assume "py_volume_closed pv"
    then obtain v where v: "pv_volume pv = Some v" "volume_closed v" by (auto simp: py_volume_closed_def)
    show ?thesis
    proof (rule open_file_io_handle_ends [OF assms(1,2) v(2) assms(3), where C = C and junk = junk and
          file_io_handle = "Some h" and access_flags = LIBFSFAT_OPEN_READ])
      fix e v' h'
      assume "libfsfat_volume_open_file_io_handle junk C A T B (Some v) (Some h) LIBFSFAT_OPEN_READ =
          Some (Some v', h', Inl e)" and "volume_closed v'"
      then show ?thesis using opened pv' v(1) by (auto simp: py_volume_closed_def)
    next
      fix v' h'
      assume *: "libfsfat_volume_open_file_io_handle junk C A T B (Some v) (Some h) LIBFSFAT_OPEN_READ =
          Some (Some v', Some h', Inr ())" and "volume_open view v'" "vol_file_io_handle v' = Some h'"
        "vol_file_io_handle_created_in_library v' = 0"
      then show ?thesis
        using opened pv' v(1) open_handle_not_opened [OF * is_open]
          by (auto simp: py_volume_open_def split: option.split)
    qed
  next
    assume "py_volume_open view pv"
    then obtain v where v: "pv_volume pv = Some v" "volume_open view v" by (auto simp: py_volume_open_def)
    then have "pv' = pv"
      using opened pv' none open_volume_refuses(1) [OF v(2), of junk C A T B "Some h" LIBFSFAT_OPEN_READ]
      by (simp split: sum.splits)
    then show ?thesis using False by simp
  qed
qed

lemma py_close_closes:
  assumes "py_volume_closed pv \<or> py_volume_open view pv"
  obtains pv' r where "pyfsfat_volume_close P B (Some pv) = (Some pv', r)" and "py_volume_closed pv'"
    and "pv_file_io_handle pv \<noteq> None \<Longrightarrow> (\<And>h. bfio_handle_free B h) \<Longrightarrow> r = Inr (py_none P)"
  using assms
proof
  assume "py_volume_closed pv"
  then obtain v where v: "pv_volume pv = Some v" "volume_closed v" "pv_file_io_handle pv = None"
    by (auto simp: py_volume_closed_def)
  then have "pyfsfat_volume_close P B (Some pv) = (Some pv, Inl PyExc_IOError)"
    using close_closed [OF v(2), of B] by (simp add: pyfsfat_volume_close_def)
  then show ?thesis using v by (intro that [of pv]) (simp_all add: py_volume_closed_def)
next
  assume "py_volume_open view pv"
  then obtain v where v: "pv_volume pv = Some v" "volume_open view v"
    and owned: "\<forall>h. pv_file_io_handle pv = Some h \<longrightarrow> vol_file_io_handle v = Some h \<and>
      vol_file_io_handle_opened_in_library v = 0 \<and> vol_file_io_handle_created_in_library v = 0"
    by (rule py_volume_openE)
  obtain volume h' r where close: "libfsfat_volume_close B (Some v) = (volume, h', r)" by (cases "libfsfat_volume_close B (Some v)")
  then obtain v' where v': "volume = Some v'"
    by (auto simp: libfsfat_volume_close_def Let_def split: option.splits prod.splits)
  have closed: "volume_closed v'" using close_closes(1) [OF v(2)] close v' by blast
  show ?thesis
  proof (cases "pv_file_io_handle pv")
    case None
    then have "pyfsfat_volume_close P B (Some pv) = (Some (pv\<lparr> pv_volume := Some v' \<rparr>),
        case r of Inl _ \<Rightarrow> Inl PyExc_IOError | Inr _ \<Rightarrow> Inr (py_none P))"
      using close v v' by (cases pv) (auto simp: pyfsfat_volume_close_def split: option.splits sum.splits)
    then show ?thesis
      by (rule that) (use None closed in \<open>simp_all add: py_volume_closed_def\<close>)
  next
    case (Some h)
    then have "h' = Some h" "r = Inr ()"
      using close owned [rule_format, OF Some] v(2)
      by (auto simp: libfsfat_volume_close_def libfsfat_io_handle_clear_def volume_open_def)
    then have "pyfsfat_volume_close P B (Some pv) = (Some \<lparr> pv_volume = Some v', pv_file_io_handle = None \<rparr>,
        if bfio_handle_free B h then Inr (py_none P) else Inl PyExc_MemoryError)"
      using close v v' Some by (cases pv) (simp add: pyfsfat_volume_close_def)
    then show ?thesis
      by (rule that) (use closed in \<open>simp_all add: py_volume_closed_def\<close>)
  qed
qed

lemma py_volume_step_keeps:
  assumes "py_volume_step P U C A T X B K new_handle pv pv'" and "array_contract A view" and "array_contract T tview"
    and "bounded_sizes B" and "made_handles_open B new_handle" and "py_volume_closed pv \<or> py_volume_open view pv"
  shows "py_volume_closed pv' \<or> py_volume_open view pv'"
  using assms(1)
proof cases
  case (step_init r)
  then show ?thesis using init_closed by blast
next
  case (step_open junk arguments r1)
  then show ?thesis using py_open_keeps [OF assms(2-4,6)] by blast
next
  case (step_open_file_object junk s arguments r2)
  then show ?thesis using py_open_file_object_keeps [OF assms(2-6)] by blast
next
  case (step_close r3)
  then show ?thesis using py_close_closes [OF assms(6), of P B] by (metis Pair_inject option.inject)
next
  case (step_abort r4)
  show ?thesis
  proof (cases "pv' = pv")
    case True
    then show ?thesis using assms(6) by simp
  next
    case False
    then obtain v' where abort: "libfsfat_volume_signal_abort (pv_volume pv) = Inr v'"
      and pv': "pv' = pv\<lparr> pv_volume := Some v' \<rparr>"
      using step_abort by (auto simp: pyfsfat_volume_signal_abort_def split: sum.splits)
    from assms(6) show ?thesis
    proof
      assume "py_volume_closed pv"
      then show ?thesis using abort pv' volume_open_abort(1) by (auto simp: py_volume_closed_def)
    next
      assume open_volume: "py_volume_open view pv"
      then obtain v where v: "pv_volume pv = Some v" "volume_open view v" by (auto simp: py_volume_open_def)
      have "same_handle v v'"
        using abort v(1) by (auto simp: libfsfat_volume_signal_abort_def same_handle_def Let_def split: option.splits)
      then show ?thesis
        using py_volume_open_update [OF open_volume v(1)] volume_open_abort(2) [of v v' view] abort v pv' by simp
    qed
  qed
next
  case (step_path path r5)
  from assms(6) show ?thesis
  proof
    assume "py_volume_closed pv"
    then show ?thesis
      using step_path assms(6)
      by (auto simp: pyfsfat_volume_get_file_entry_by_path_def py_volume_closed_def paths_of_closed split: sum.splits)
  next
    assume open_volume: "py_volume_open view pv"
    then obtain v where v: "pv_volume pv = Some v" "volume_open view v" by (auto simp: py_volume_open_def)
    show ?thesis
    proof (cases "pv' = pv")
      case True
      then show ?thesis using assms(6) by simp
    next
      case False
      then obtain p v' found and fe :: "(_, _, _, unit) file_entry" where
        lookup: "libfsfat_volume_get_file_entry_by_utf8_path U C A T X B (Some v) (Some p) (length p) None =
          Some (Inr (v', found, fe))" and pv': "pv' = pv\<lparr> pv_volume := Some v' \<rparr>"
        using step_path v(1)
        by (auto simp: pyfsfat_volume_get_file_entry_by_path_def pyfsfat_file_entry_new_def Let_def
          split: sum.splits option.splits if_splits)
      have "volume_open view v'" by (rule paths_of_open(1) [OF v(2) lookup])
      moreover have "same_handle v v'"
        using lookup
        by (auto simp: libfsfat_volume_get_file_entry_by_utf8_path_def same_handle_def split: option.splits sum.splits)
      ultimately show ?thesis using py_volume_open_update [OF open_volume v(1)] pv' by simp
    qed
  qed
qed


text \<open>
  C17. After any calls on a volume object of Python, with or without exceptions, it is closed,
  with no handle left, or open with all parts of the volume well-formed, and an object that
  owns a handle of a file-like object owns the one its volume reads from. Closing it then leaves
  it closed, and raises no exception if it was opened by a file-like object whose handle libbfio
  frees.
\<close>

theorem python_volume_states:
  assumes "array_contract A view" and "array_contract T tview" and "bounded_sizes B"
    and "made_handles_open B new_handle" and "py_volume_reachable P U C A T X B K new_handle pv"
  shows "(py_volume_closed pv \<or> py_volume_open view pv) \<and>
    (\<exists>pv' r. pyfsfat_volume_close P B (Some pv) = (Some pv', r) \<and> py_volume_closed pv' \<and>
       (pv_file_io_handle pv \<noteq> None \<and> (\<forall>h. bfio_handle_free B h) \<longrightarrow> r = Inr (py_none P)))"
proof -
  have "py_volume_closed pv \<or> py_volume_open view pv"
    using assms(5)
  proof (induction rule: py_volume_reachable.induct)
    case (py_reachable_init new_object pv)
    then show ?case using init_closed by blast
  next
    case (py_reachable_step pv pv')
    then show ?case using py_volume_step_keeps [OF _ assms(1-4)] by blast
  qed
  then show ?thesis using py_close_closes by metis
qed


text \<open>An object whose volume could not be opened, on a file whose reads fail.\<close>

definition failed_volume :: "(bool, nat option list, unit) pyfsfat_volume" where
  "failed_volume =
     \<lparr> pv_volume = Some (new_volume\<lparr> vol_io_handle := Some (io_handle_zero\<lparr> io_volume_size := 512 \<rparr>) \<rparr>),
       pv_file_io_handle = None \<rparr>"

theorem python_volume_states_witness:
  "(py_volume_closed failed_volume \<or> py_volume_open (\<lambda>a. a) failed_volume) \<and>
   (\<exists>pv' r. pyfsfat_volume_close small_python broken_file (Some failed_volume) = (Some pv', r) \<and> py_volume_closed pv')"
proof -
  let ?init = "\<lparr> pv_volume = Some new_volume, pv_file_io_handle = None \<rparr>"
  have init: "pyfsfat_volume_init (Some \<lparr> pv_volume = None, pv_file_io_handle = Some True \<rparr>) = (Some ?init, Inr ())"
    by (simp add: pyfsfat_volume_init_def new_volume_initialized)
  have failing: "pyfsfat_volume_open_file_object small_python (\<lambda>_. 0) no_cache list_array
      (list_array :: (node_entry option list, node_entry) array_ops) broken_file (eager_file [])
      (\<lambda>_ _. Some True) () (Some ?init) (Inr (PyNone, Some [0x72])) = Some (Some failed_volume, Inl PyExc_IOError)"
    by (simp add: pyfsfat_volume_open_file_object_def unsupported_mode_def eager_file_def
      pyfsfat_file_object_initialize_def pyfsfat_file_object_io_handle_initialize_def
      libfsfat_volume_open_file_io_handle_def LIBFSFAT_OPEN_READ_def ACCESS_FLAG_READ_def ACCESS_FLAG_WRITE_def
      opened_file_io_handle_def broken_file_def libfsfat_internal_volume_open_read_def new_volume_def
      libfsfat_boot_record_initialize_def libfsfat_boot_record_read_file_io_handle_def failed_volume_def Let_def)
  have handles: "made_handles_open broken_file
      (\<lambda>(_ :: py_object file_object_io_handle) (_ :: (py_object, unit) io_callbacks). Some True)"
    by (simp add: made_handles_open_def broken_file_def)
  from python_volume_states [OF list_array_contract list_array_contract [where 'a = node_entry] broken_file_bounded
      handles py_reachable_step [OF py_reachable_init [OF init] step_open_file_object [OF failing]]]
  show ?thesis by blast
qed

section \<open>The check of a signature\<close>

text \<open>
  What the model relies on of libbfio for a handle that is made of callbacks, for the state in which
  it is made: it is open, gives the size and reads what the callbacks read, and can be freed.
\<close>

definition handles_serve :: "'h bfio_ops \<Rightarrow> ('o, 's, 'h) new_handle \<Rightarrow> 's \<Rightarrow> bool" where
  "handles_serve B new_handle s \<longleftrightarrow>
     (\<forall>handle cb valid position content limit.
        callbacks_serve cb handle valid position content limit \<longrightarrow> valid s \<longrightarrow>
        (\<exists>h. new_handle handle cb = Some h \<and> bfio_handle_is_open B h = Some True \<and>
           bfio_handle_get_size B h = Some (of_nat (length content)) \<and> bfio_handle_free B h \<and>
           (\<forall>offset n. unat offset < 2 ^ 63 \<longrightarrow> n \<le> limit \<longrightarrow>
              bfio_handle_read B h offset n = Some (take n (drop (unat offset) content)))))"

lemma signature_of_open_handle:
  assumes "bfio_handle_is_open B h = Some True" and "bfio_handle_read B h 510 2 = Some (take 2 (drop 510 content))"
  shows "libfsfat_check_volume_signature_file_io_handle B (Some h) =
    (Some h, if length content < 512 then Inl IO_READ_FAILED
             else Inr (content ! 510 = 0x55 \<and> content ! 511 = 0xaa))"
proof -
  have short: "length (take 2 (drop 510 content)) \<noteq> 2 \<longleftrightarrow> length content < 512" by (auto simp: min_def)
  have "length content \<ge> 512 \<Longrightarrow>
      (take 2 (drop 510 content) = [0x55, 0xaa]) = (content ! 510 = 0x55 \<and> content ! 511 = 0xaa)"
    using signature_bytes [of 510 content] by simp
  then show ?thesis
    using assms short by (simp add: libfsfat_check_volume_signature_file_io_handle_def Let_def del: length_take)
qed

lemma signature_of_file_object:
  assumes "handles_serve B new_handle s" and "valid s" and "2 \<le> limit"
    and "callbacks_serve (pyfsfat_file_object_callbacks P K)
      \<lparr> foh_file_object = Some file_object, foh_access_flags = 0 \<rparr> valid position content limit"
  shows "pyfsfat_check_volume_signature_file_object P B K new_handle (Inr file_object) =
    (if length content < 512 then Inl PyExc_IOError else Inr (content ! 510 = 0x55 \<and> content ! 511 = 0xaa))"
proof -
  obtain h where h: "new_handle \<lparr> foh_file_object = Some file_object, foh_access_flags = 0 \<rparr>
        (pyfsfat_file_object_callbacks P K) = Some h" "bfio_handle_is_open B h = Some True" "bfio_handle_free B h"
    and read: "\<forall>offset n. unat offset < 2 ^ 63 \<longrightarrow> n \<le> limit \<longrightarrow>
      bfio_handle_read B h offset n = Some (take n (drop (unat offset) content))"
    using assms(1,2,4) unfolding handles_serve_def by blast
  have "bfio_handle_read B h 510 2 = Some (take 2 (drop 510 content))"
    using read [rule_format, of 510 2] assms(3) by simp
  note check = signature_of_open_handle [OF h(2) this]
  show ?thesis
    using h(1,3)
    by (simp add: pyfsfat_check_volume_signature_file_object_def pyfsfat_file_object_initialize_def
        pyfsfat_file_object_io_handle_initialize_def check)
qed

text \<open>
  C19. The check of a signature goes through a file-like object down to a file on another volume:
  for a file entry object of a file, it tells whether the bytes 510 and 511 of the content are
  the signature, and raises an exception exactly if the file is smaller than a sector.
\<close>

theorem nested_volume_signature:
  assumes "entry_of_content P Y X xview T tview S view img content e"
    and "handles_serve B new_handle e"
  shows "pyfsfat_check_volume_signature_file_object P B (file_entry_calls P N Y W U A T X S) new_handle
      (Inr file_object) =
    (if length content < 512 then Inl PyExc_IOError else Inr (content ! 510 = 0x55 \<and> content ! 511 = 0xaa))"
  by (rule signature_of_file_object [OF assms(2,1) _ entry_file.serves]) simp


section \<open>A library and a nested volume\<close>

text \<open>Handles that call the functions they are made of, in the state in which they are made.\<close>

type_synonym ('o, 's) replay_handle = "'o file_object_io_handle \<times> ('o, 's) io_callbacks"

definition replay_bfio :: "'s \<Rightarrow> ('o, 's) replay_handle bfio_ops" where
  "replay_bfio s =
     \<lparr> bfio_file_initialize = None, bfio_file_set_name = (\<lambda>_ _ _. None),
       bfio_file_set_name_wide = (\<lambda>_ _ _. None),
       bfio_handle_is_open = (\<lambda>(handle, cb). case io_is_open cb (Some handle) of Inl _ \<Rightarrow> None | Inr b \<Rightarrow> Some b),
       bfio_handle_open = (\<lambda>h _. (h, True)), bfio_handle_close = (\<lambda>h. (h, True)), bfio_handle_free = (\<lambda>_. True),
       bfio_handle_get_size = (\<lambda>(handle, cb). case io_get_size cb s (Some handle) of
         Some (_, Inr size0) \<Rightarrow> size0 | _ \<Rightarrow> None),
       bfio_handle_read = (\<lambda>(handle, cb) offset n. case io_seek_offset cb s (Some handle) offset SEEK_SET of
         Some (s', Inr _) \<Rightarrow> (case io_read cb s' (Some handle) n of Some (_, Inr bytes) \<Rightarrow> Some bytes | _ \<Rightarrow> None)
       | _ \<Rightarrow> None) \<rparr>"

lemma replay_serves: "handles_serve (replay_bfio s) (\<lambda>handle cb. Some (handle, cb)) s"
  unfolding handles_serve_def
proof (intro allI impI)
  fix handle cb valid position content limit
  assume cb: "callbacks_serve cb handle valid position content limit" and s: "valid s"
  have read: "bfio_handle_read (replay_bfio s) (handle, cb) offset n = Some (take n (drop (unat offset) content))"
    if o: "unat offset < 2 ^ 63" and n: "n \<le> limit" for offset n
  proof -
    obtain s1 where s1: "io_seek_offset cb s (Some handle) offset SEEK_SET = Some (s1, Inr offset)"
        "valid s1" "position s1 = unat offset"
      using cb s o unfolding callbacks_serve_def by blast
    obtain s2 where "io_read cb s1 (Some handle) n = Some (s2, Inr (take n (drop (position s1) content)))"
      using cb s1(2) n unfolding callbacks_serve_def by blast
    then show ?thesis using s1 by (simp add: replay_bfio_def)
  qed
  obtain s1 where "io_get_size cb s (Some handle) = Some (s1, Inr (Some (of_nat (length content))))"
    using cb s unfolding callbacks_serve_def by blast
  then have "bfio_handle_get_size (replay_bfio s) (handle, cb) = Some (of_nat (length content))"
    by (simp add: replay_bfio_def)
  moreover have "bfio_handle_is_open (replay_bfio s) (handle, cb) = Some True" "bfio_handle_free (replay_bfio s) (handle, cb)"
    using cb by (simp_all add: replay_bfio_def callbacks_serve_def)
  ultimately show "\<exists>h. (\<lambda>handle cb. Some (handle, cb)) handle cb = Some h \<and> bfio_handle_is_open (replay_bfio s) h = Some True \<and>
      bfio_handle_get_size (replay_bfio s) h = Some (of_nat (length content)) \<and> bfio_handle_free (replay_bfio s) h \<and>
      (\<forall>offset n. unat offset < 2 ^ 63 \<longrightarrow> n \<le> limit \<longrightarrow>
         bfio_handle_read (replay_bfio s) h offset n = Some (take n (drop (unat offset) content)))"
    using read by (intro exI [of _ "(handle, cb)"]) simp
qed

text \<open>A file that is the boot sector of a volume, at the start of the outer volume.\<close>

definition nested_sector :: "u8 list" where
  "nested_sector = fat16_boot_sector (example_layout 20480 80 1)"

definition nested_file ::
  "((nat option list, unit, extent option list, stream_state) file_entry, unit) pyfsfat_file_entry" where
  "nested_file =
     \<lparr> pfe_file_entry = Some (witness_file\<lparr> fe_file_io_handle := image_bfio nested_sector, fe_data_size := 512,
         fe_cluster_block_stream := Some (stream_callbacks, [(0, 512)], 0) \<rparr>),
       pfe_parent_object = None \<rparr>"

lemma nested_sector: "length nested_sector = 512" "nested_sector ! 510 = 0x55" "nested_sector ! 511 = 0xaa"
  using fat16_sector_read(1-3) [OF example_layout_ok, of 1 20480 80]
  by (simp_all add: example_layout_def nested_sector_def)

lemma nested_file_content:
  "entry_of_content small_python small_arguments list_array (\<lambda>a. a)
     (list_array :: (node_entry option list, node_entry) array_ops) (\<lambda>a. a) list_stream (\<lambda>s. s)
     nested_sector nested_sector nested_file"
proof -
  have segment: "segments_bytes [(0, 512)] = [0..<512]" by (simp add: segments_bytes_def segment_bytes_def)
  have "bytes_at nested_sector [0..<512] = nested_sector"
    using map_nth [of nested_sector] nested_sector(1) by (simp add: bytes_at_def)
  then have "read_segments libfsfat_cluster_block_data_read_segment_data
      libfsfat_cluster_block_data_seek_segment_offset (image_bfio nested_sector) [(0, 512)] i n =
    Some (take n (drop i nested_sector))" for i n
    using read_segments_image [of nested_sector "[(0, 512)]" i n] nested_sector(1) segment by simp
  then show ?thesis
    using small_python_contract small_arguments_contract list_array_contract [where 'a = extent]
      list_array_contract [where 'a = node_entry] list_stream_contract nested_sector(1)
    by (simp add: entry_of_content_def nested_file_def stream_of_content_def entry_position_def witness_file_def
      unsupported_file_attribute_flags_def)
qed

theorem nested_volume_signature_witness:
  "pyfsfat_check_volume_signature_file_object small_python (replay_bfio nested_file)
     (file_entry_calls small_python (\<lambda>y m d h mi s us. Inr PyNone) small_arguments
       \<lparr> py_file_entry_object = (\<lambda>e. PyNone), py_tuple = (\<lambda>xs. PyNone) \<rparr> ascii_una list_array
       (list_array :: (node_entry option list, node_entry) array_ops) list_array list_stream)
     (\<lambda>handle cb. Some (handle, cb)) (Inr PyNone) = Inr True"
  using nested_volume_signature [OF nested_file_content replay_serves] nested_sector by simp

end
