(* ===== verification/Mount_Path.thy ===== *)
theory Mount_Path
  imports Name
begin

text \<open>
  The paths of the tool that mounts a volume, \<^verbatim>\<open>fsfattools/mount_path_string.c\<close>: names of the
  volume are escaped for the system that shows them, and paths of the system are unescaped
  and get the separator of the library. The variant for systems other than Windows, with
  strings of bytes, is modelled. The theorems say that the escaped string fits its buffer
  and that unescaping a path of escaped names gives the names back.
\<close>

section \<open>Hexadecimal values\<close>

definition hexadecimal_digit :: "u8 \<Rightarrow> u32 option" where
  "hexadecimal_digit c =
     (if c \<ge> 0x30 \<and> c \<le> 0x39 then Some (ucast (c - 0x30))
      else if c \<ge> 0x61 \<and> c \<le> 0x66 then Some (ucast (c - 0x61 + 10))
      else None)"

fun read_hexadecimal :: "u8 list \<Rightarrow> u32 \<Rightarrow> u32 result" where
  "read_hexadecimal [] value_32bit = Inr value_32bit"
| "read_hexadecimal (c # cs) value_32bit =
     (case hexadecimal_digit c of
        None \<Rightarrow> Inl ARGUMENT_UNSUPPORTED_VALUE
      | Some digit \<Rightarrow> read_hexadecimal cs (push_bit 4 value_32bit OR digit))"

definition mount_path_string_copy_hexadecimal_to_integer_32_bit ::
  "u8 list option \<Rightarrow> nat \<Rightarrow> u32 result" where
  "mount_path_string_copy_hexadecimal_to_integer_32_bit string string_size =
     (case string of
        None \<Rightarrow> Inl ARGUMENT_INVALID_VALUE
      | Some string \<Rightarrow>
          if string_size = 0 \<or> string_size > SSIZE_MAX then Inl ARGUMENT_VALUE_OUT_OF_BOUNDS
          else if string_size > length string then Inl MEMORY_FAULT
          else read_hexadecimal (take string_size string) 0)"

text \<open>\<^verbatim>\<open>%02x\<close> and \<^verbatim>\<open>%08x\<close>: the digits without leading zeros, filled up with zeros.\<close>

definition hexadecimal_character :: "u32 \<Rightarrow> u8" where
  "hexadecimal_character digit = (if digit < 10 then 0x30 + ucast digit else 0x57 + ucast digit)"

fun hexadecimal_digits :: "nat \<Rightarrow> u32 \<Rightarrow> u8 list" where
  "hexadecimal_digits 0 v = []"
| "hexadecimal_digits (Suc k) v =
     hexadecimal_character (drop_bit (4 * k) v AND 0x0f) # hexadecimal_digits k v"

definition format_hexadecimal :: "nat \<Rightarrow> u32 \<Rightarrow> u8 list" where
  "format_hexadecimal width v =
     (let digits = dropWhile (\<lambda>c. c = 0x30) (hexadecimal_digits 8 v)
      in replicate (width - length digits) 0x30 @ digits)"

section \<open>Escaping\<close>

definition ESCAPE_CHARACTER :: u8 where "ESCAPE_CHARACTER = 0x5c"
definition LIBCPATH_SEPARATOR :: u8 where "LIBCPATH_SEPARATOR = 0x2f"

text \<open>The characters that are replaced by two and by eight digits.\<close>

definition escaped_by_2_digits :: "u32 \<Rightarrow> bool" where
  "escaped_by_2_digits c \<longleftrightarrow>
     c \<le> 0x1f \<or> c = ucast LIBCPATH_SEPARATOR \<or> (c \<ge> 0x7f \<and> c \<le> 0x9f)"

definition escaped_by_8_digits :: "u32 \<Rightarrow> bool" where
  "escaped_by_8_digits c \<longleftrightarrow>
     (c \<ge> 0x2028 \<and> c \<le> 0x2029) \<or> (c \<ge> 0xd800 \<and> c \<le> 0xdfff) \<or> c = 0xe000 \<or> c = 0xf8ff \<or>
     (c \<ge> 0xfdd0 \<and> c \<le> 0xfddf) \<or> (c AND 0xffff \<ge> 0xfffe \<and> c AND 0xffff \<le> 0xffff) \<or>
     c = 0xf0000 \<or> c = 0xffffd \<or> c = 0x100000 \<or> c \<ge> 0x10fffd"

text \<open>
  \<^verbatim>\<open>snprintf\<close> into a buffer of which \<open>buffer\<close> is filled. A string that does not fit would be
  cut and leave the index behind the end of the buffer, which is marked as a memory fault.
\<close>

definition print_string :: "nat \<Rightarrow> u8 list \<Rightarrow> u8 list \<Rightarrow> u8 list result" where
  "print_string size0 buffer string =
     (if length buffer + length string + 1 > size0 then Inl MEMORY_FAULT else Inr (buffer @ string))"

text \<open>
  One character behind the filled part of the buffer; \<open>put\<close> is the operation of libuna that
  encodes a character for a string of a size at an index, and gives the bytes it writes.
\<close>

definition escape_character ::
  "(u32 \<Rightarrow> nat \<Rightarrow> nat \<Rightarrow> u8 list option) \<Rightarrow> nat \<Rightarrow> u8 list \<Rightarrow> u32 \<Rightarrow> u8 list result" where
  "escape_character put safe_path_size safe_path unicode_character =
     (if escaped_by_2_digits unicode_character
      then print_string safe_path_size safe_path
             (ESCAPE_CHARACTER # 0x78 # format_hexadecimal 2 unicode_character)
      else if escaped_by_8_digits unicode_character
      then print_string safe_path_size safe_path
             (ESCAPE_CHARACTER # 0x55 # format_hexadecimal 8 unicode_character)
      else if unicode_character = ucast ESCAPE_CHARACTER
      then (if length safe_path + 2 > safe_path_size then Inl RUNTIME_VALUE_OUT_OF_BOUNDS
            else Inr (safe_path @ [ESCAPE_CHARACTER, ucast unicode_character]))
      else
        (case put unicode_character safe_path_size (length safe_path) of
           None \<Rightarrow> Inl CONVERSION_INPUT_FAILED
         | Some bytes \<Rightarrow> Inr (safe_path @ bytes)))"

partial_function (option) escape_characters ::
  "(nat \<Rightarrow> (u32 \<times> nat) option) \<Rightarrow> (u32 \<Rightarrow> nat \<Rightarrow> nat \<Rightarrow> u8 list option) \<Rightarrow> nat \<Rightarrow> nat \<Rightarrow> nat \<Rightarrow>
   u8 list \<Rightarrow> u8 list result option" where
  "escape_characters next_character put string_length safe_path_size string_index safe_path =
     (if string_index < string_length
      then
        (case next_character string_index of
           None \<Rightarrow> Some (Inl CONVERSION_INPUT_FAILED)
         | Some (unicode_character, string_index) \<Rightarrow>
             if unicode_character = 0 then Some (Inr safe_path)
             else
               (case escape_character put safe_path_size safe_path unicode_character of
                  Inl e \<Rightarrow> Some (Inl e)
                | Inr safe_path \<Rightarrow>
                    escape_characters next_character put string_length safe_path_size string_index safe_path))
      else Some (Inr safe_path))"

text \<open>
  A buffer from \<^verbatim>\<open>system_string_allocate\<close> that holds a string with its terminator; \<open>junk\<close> are the
  bytes of the buffer that nothing has been written to.
\<close>

definition string_buffer :: "(nat \<Rightarrow> u8) \<Rightarrow> u8 list \<Rightarrow> nat \<Rightarrow> u8 list" where
  "string_buffer junk string buffer_size = string @ 0 # map junk [length string + 1..<buffer_size]"

definition c_string :: "u8 list \<Rightarrow> u8 list" where
  "c_string buffer = takeWhile (\<lambda>b. b \<noteq> 0) buffer"

lemma c_string_buffer [simp]: "0 \<notin> set s \<Longrightarrow> c_string (string_buffer junk s n) = s"
proof -
  assume "0 \<notin> set s"
  then have "\<forall>b \<in> set s. b \<noteq> 0" by metis
  then show ?thesis by (simp add: c_string_def string_buffer_def takeWhile_append2)
qed

lemma length_string_buffer [simp]: "length s < n \<Longrightarrow> length (string_buffer junk s n) = n"
  by (simp add: string_buffer_def)

lemma string_buffer_terminated [simp]: "0 \<in> set (string_buffer junk s n)"
  by (simp add: string_buffer_def)

text \<open>The buffer of the path, and its size.\<close>

definition mount_path_string_copy_from_file_entry_path ::
  "(nat \<Rightarrow> u8) \<Rightarrow> una_ops \<Rightarrow> (u32 \<Rightarrow> nat \<Rightarrow> nat \<Rightarrow> u8 list option) \<Rightarrow> u8 list option \<Rightarrow> nat \<Rightarrow>
   (u8 list \<times> nat) result option" where
  "mount_path_string_copy_from_file_entry_path junk U put file_entry_path file_entry_path_length =
     (case file_entry_path of
        None \<Rightarrow> Some (Inl ARGUMENT_INVALID_VALUE)
      | Some string \<Rightarrow>
          if file_entry_path_length = 0 \<or> file_entry_path_length > SSIZE_MAX - 1
          then Some (Inl ARGUMENT_VALUE_OUT_OF_BOUNDS)
          else if file_entry_path_length > (SSIZE_MAX - 1) div 10
          then Some (Inl ARGUMENT_VALUE_EXCEEDS_MAXIMUM)
          else if file_entry_path_length > length string then Some (Inl MEMORY_FAULT)
          else
            let safe_path_size = file_entry_path_length * 10 + 1
            in (case escape_characters (una_from_utf8 U string file_entry_path_length) put
                       file_entry_path_length safe_path_size 0 [] of
                  None \<Rightarrow> None
                | Some (Inl e) \<Rightarrow> Some (Inl e)
                | Some (Inr safe_path) \<Rightarrow>
                    if length safe_path \<ge> safe_path_size then Some (Inl RUNTIME_VALUE_OUT_OF_BOUNDS)
                    else Some (Inr (string_buffer junk safe_path safe_path_size, safe_path_size))))"

section \<open>Unescaping\<close>

definition allowed_by_2_digits :: "u32 \<Rightarrow> bool" where
  "allowed_by_2_digits v \<longleftrightarrow>
     (v \<ge> 0x01 \<and> v \<le> 0x1f) \<or> v = ucast LIBCPATH_SEPARATOR \<or> (v \<ge> 0x7f \<and> v \<le> 0x9f)"

text \<open>The value that follows an escape character, and the index behind it.\<close>

definition escaped_value :: "u8 list \<Rightarrow> nat \<Rightarrow> nat \<Rightarrow> (u32 \<times> nat) result" where
  "escaped_value path path_length path_index =
     (if path_index + 1 > path_length then Inl RUNTIME_VALUE_OUT_OF_BOUNDS
      else
        let character = path ! path_index; path_index = path_index + 1
        in if character = ESCAPE_CHARACTER then Inr (ucast character, path_index)
           else if character = 0x78
           then
             (if path_index + 2 > path_length then Inl RUNTIME_VALUE_OUT_OF_BOUNDS
              else
                (case mount_path_string_copy_hexadecimal_to_integer_32_bit (Some (drop path_index path)) 2 of
                   Inl e \<Rightarrow> Inl (if e = MEMORY_FAULT then MEMORY_FAULT else RUNTIME_COPY_FAILED)
                 | Inr v \<Rightarrow>
                     if allowed_by_2_digits v then Inr (v, path_index + 2)
                     else Inl RUNTIME_VALUE_OUT_OF_BOUNDS))
           else if character = 0x55
           then
             (if path_index + 8 > path_length then Inl RUNTIME_VALUE_OUT_OF_BOUNDS
              else
                (case mount_path_string_copy_hexadecimal_to_integer_32_bit (Some (drop path_index path)) 8 of
                   Inl e \<Rightarrow> Inl (if e = MEMORY_FAULT then MEMORY_FAULT else RUNTIME_COPY_FAILED)
                 | Inr v \<Rightarrow>
                     if escaped_by_8_digits v then Inr (v, path_index + 8)
                     else Inl RUNTIME_VALUE_OUT_OF_BOUNDS))
           else Inl ARGUMENT_UNSUPPORTED_VALUE)"

text \<open>The next character of the file entry path, and the index behind what it is made of.\<close>

definition unescaped_character ::
  "(nat \<Rightarrow> (u32 \<times> nat) option) \<Rightarrow> u8 list \<Rightarrow> nat \<Rightarrow> nat \<Rightarrow> (u32 \<times> nat) result" where
  "unescaped_character next_character path path_length path_index =
     (case next_character path_index of
        None \<Rightarrow> Inl CONVERSION_INPUT_FAILED
      | Some (unicode_character, path_index) \<Rightarrow>
          if unicode_character = ucast LIBCPATH_SEPARATOR then Inr (0x5c, path_index)
          else if unicode_character = ucast ESCAPE_CHARACTER
          then escaped_value path path_length path_index
          else Inr (unicode_character, path_index))"

partial_function (option) unescape_characters ::
  "(nat \<Rightarrow> (u32 \<times> nat) option) \<Rightarrow> (u32 \<Rightarrow> nat \<Rightarrow> nat \<Rightarrow> u8 list option) \<Rightarrow> u8 list \<Rightarrow> nat \<Rightarrow> nat \<Rightarrow> nat \<Rightarrow>
   u8 list \<Rightarrow> u8 list result option" where
  "unescape_characters next_character put path path_length safe_size path_index safe_path =
     (if path_index < path_length
      then
        (case unescaped_character next_character path path_length path_index of
           Inl e \<Rightarrow> Some (Inl e)
         | Inr (unicode_character, path_index) \<Rightarrow>
             (case put unicode_character safe_size (length safe_path) of
                None \<Rightarrow> Some (Inl CONVERSION_INPUT_FAILED)
              | Some bytes \<Rightarrow>
                  unescape_characters next_character put path path_length safe_size path_index
                    (safe_path @ bytes)))
      else Some (Inr safe_path))"

definition mount_path_string_copy_to_file_entry_path ::
  "(nat \<Rightarrow> u8) \<Rightarrow> una_ops \<Rightarrow> (u32 \<Rightarrow> nat \<Rightarrow> nat \<Rightarrow> u8 list option) \<Rightarrow> u8 list option \<Rightarrow> nat \<Rightarrow>
   (u8 list \<times> nat) result option" where
  "mount_path_string_copy_to_file_entry_path junk U put path path_length =
     (case path of
        None \<Rightarrow> Some (Inl ARGUMENT_INVALID_VALUE)
      | Some path \<Rightarrow>
          if path_length = 0 \<or> path_length > SSIZE_MAX - 1 then Some (Inl ARGUMENT_VALUE_OUT_OF_BOUNDS)
          else if path_length > length path then Some (Inl MEMORY_FAULT)
          else if path ! 0 \<noteq> LIBCPATH_SEPARATOR then Some (Inl ARGUMENT_UNSUPPORTED_VALUE)
          else
            (case unescape_characters (una_from_utf8 U path path_length) put path path_length
                    (path_length + 1) 0 [] of
               None \<Rightarrow> None
             | Some (Inl e) \<Rightarrow> Some (Inl e)
             | Some (Inr safe_path) \<Rightarrow>
                 if length safe_path \<ge> path_length + 1 then Some (Inl RUNTIME_VALUE_OUT_OF_BOUNDS)
                 else Some (Inr (string_buffer junk safe_path (path_length + 1), path_length + 1))))"

section \<open>Hexadecimal digits are read back\<close>

lemma u32_below_16:
  assumes "(d :: u32) < 16"
  shows "d \<in> {0, 1, 2, 3, 4, 5, 6, 7, 8, 9, 10, 11, 12, 13, 14, 15}"
proof -
  have "unat d < 16" using assms by (simp add: word_less_nat_alt)
  then have "unat d \<in> {0, 1, 2, 3, 4, 5, 6, 7, 8, 9, 10, 11, 12, 13, 14, 15}"
    unfolding insert_iff empty_iff by presburger
  moreover have "d = of_nat (unat d)" by simp
  ultimately show ?thesis by (elim insertE) (simp_all only: insert_iff, simp_all)
qed

lemma hexadecimal_digit_of_character:
  assumes "(d :: u32) < 16"
  shows "hexadecimal_digit (hexadecimal_character d) = Some d"
  using u32_below_16 [OF assms]
  by (elim insertE) (simp_all add: hexadecimal_digit_def hexadecimal_character_def)

lemma nibble_less: "(v :: u32) AND 0x0f < 16"
proof -
  have "v AND 0x0f = take_bit 4 v" by (simp add: take_bit_eq_mask mask_eq_decr_exp)
  then show ?thesis by (simp add: take_bit_eq_mod word_less_nat_alt unat_mod_distrib)
qed

lemma push_nibble:
  fixes v a :: u32
  shows "push_bit (4 * k) (push_bit 4 a OR (drop_bit (4 * k) v AND 0x0f)) OR take_bit (4 * k) v =
     push_bit (4 * Suc k) a OR take_bit (4 * Suc k) v"
proof (rule bit_word_eqI)
  have f: "(0x0f :: u32) = mask 4" by (simp add: mask_eq_decr_exp)
  fix n assume "n < LENGTH(32)"
  then show "bit (push_bit (4 * k) (push_bit 4 a OR (drop_bit (4 * k) v AND 0x0f)) OR take_bit (4 * k) v) n =
    bit (push_bit (4 * Suc k) a OR take_bit (4 * Suc k) v) n"
    unfolding f
    by (auto simp: bit_or_iff bit_and_iff bit_push_bit_iff bit_drop_bit_eq bit_take_bit_iff bit_mask_iff
          le_diff_conv2 less_diff_conv algebra_simps)
qed

lemma read_hexadecimal_digits:
  "read_hexadecimal (hexadecimal_digits k v) a = Inr (push_bit (4 * k) a OR take_bit (4 * k) v)"
proof (induction k arbitrary: a)
  case (Suc k)
  have "hexadecimal_digit (hexadecimal_character (drop_bit (4 * k) v AND 0x0f)) =
      Some (drop_bit (4 * k) v AND 0x0f)"
    by (rule hexadecimal_digit_of_character [OF nibble_less])
  then show ?case using push_nibble [of k a v] by (simp add: Suc)
qed simp

lemma length_hexadecimal_digits [simp]: "length (hexadecimal_digits k v) = k"
  by (induction k) auto

lemma zero_digits:
  assumes "unat v < 2 ^ (4 * w)"
  shows "hexadecimal_digits (w + k) v = replicate k 0x30 @ hexadecimal_digits w v"
proof (induction k)
  case (Suc k)
  have "unat v < 2 ^ (4 * (w + k))"
    using assms by (meson less_le_trans mult_le_mono2 le_add1 one_le_numeral power_increasing)
  then have "unat (drop_bit (4 * (w + k)) v) = 0"
    unfolding unat_drop_bit_eq by (simp only: drop_bit_eq_div div_less)
  then have "drop_bit (4 * (w + k)) v = 0" by (simp only: unat_eq_zero)
  then show ?case using Suc by (simp add: hexadecimal_character_def)
qed simp

lemma fill_zeros:
  "replicate (length xs - length (dropWhile (\<lambda>c. c = a) xs)) a @ dropWhile (\<lambda>c. c = a) xs = xs"
proof (induction xs)
  case (Cons x xs)
  have "length (dropWhile (\<lambda>c. c = a) xs) \<le> length xs" by (rule length_dropWhile_le)
  then show ?case using Cons by (simp add: Suc_diff_le)
qed simp

lemma format_hexadecimal_digits:
  assumes "unat v < 2 ^ (4 * w)" "w \<le> 8"
  shows "format_hexadecimal w v = hexadecimal_digits w v"
proof -
  have "hexadecimal_digits 8 v = replicate (8 - w) 0x30 @ hexadecimal_digits w v"
    using zero_digits [OF assms(1), of "8 - w"] assms(2) by simp
  then have "dropWhile (\<lambda>c. c = 0x30) (hexadecimal_digits 8 v) =
      dropWhile (\<lambda>c. c = 0x30) (hexadecimal_digits w v)"
    by (simp add: dropWhile_append)
  then show ?thesis
    using fill_zeros [of "hexadecimal_digits w v" "0x30"] by (simp add: format_hexadecimal_def)
qed

lemma hexadecimal_roundtrip:
  assumes "unat v < 2 ^ (4 * w)" "0 < w" "w \<le> 8"
  shows "mount_path_string_copy_hexadecimal_to_integer_32_bit
      (Some (format_hexadecimal w v @ rest)) w = Inr v"
proof -
  have "take_bit (4 * w) v = v"
    by (simp only: word_unat_eq_iff unsigned_take_bit_eq take_bit_nat_eq_self [OF assms(1)])
  then show ?thesis
    using assms by (simp add: mount_path_string_copy_hexadecimal_to_integer_32_bit_def SSIZE_MAX_def
        format_hexadecimal_digits read_hexadecimal_digits)
qed

section \<open>What the paths need of libuna\<close>

text \<open>
  Decoding moves behind the character and stays inside the string; encoding writes one to
  four bytes that fit the string.
\<close>

definition utf8_bounds :: "una_ops \<Rightarrow> (u32 \<Rightarrow> nat \<Rightarrow> nat \<Rightarrow> u8 list option) \<Rightarrow> bool" where
  "utf8_bounds U put \<longleftrightarrow>
     (\<forall>s n i c j. una_from_utf8 U s n i = Some (c, j) \<longrightarrow> i < n \<longrightarrow> i < j \<and> j \<le> n) \<and>
     (\<forall>c size i bytes. put c size i = Some bytes \<longrightarrow>
        0 < length bytes \<and> length bytes \<le> 4 \<and> i + length bytes \<le> size)"

text \<open>
  \<open>enc\<close> is the encoding of the valid characters: decoding reads it back, encoding writes it
  when it fits, and the bytes of ASCII stand for the characters of ASCII alone.
\<close>

definition utf8_coding ::
  "(u32 \<Rightarrow> bool) \<Rightarrow> (u32 \<Rightarrow> u8 list) \<Rightarrow> una_ops \<Rightarrow> (u32 \<Rightarrow> nat \<Rightarrow> nat \<Rightarrow> u8 list option) \<Rightarrow> bool" where
  "utf8_coding valid enc U put \<longleftrightarrow>
     (\<forall>c < 0x80. valid c \<and> enc c = [ucast c]) \<and>
     (\<forall>c. valid c \<longrightarrow> 0 < length (enc c) \<and> length (enc c) \<le> 4) \<and>
     (\<forall>c b. valid c \<longrightarrow> b < 0x80 \<longrightarrow> c \<noteq> ucast b \<longrightarrow> b \<notin> set (enc c)) \<and>
     (\<forall>c p q n. valid c \<longrightarrow> length p + length (enc c) \<le> n \<longrightarrow> n \<le> length (p @ enc c @ q) \<longrightarrow>
        una_from_utf8 U (p @ enc c @ q) n (length p) = Some (c, length p + length (enc c))) \<and>
     (\<forall>c size i. valid c \<longrightarrow> i + length (enc c) \<le> size \<longrightarrow> put c size i = Some (enc c))"

text \<open>How a character is shown.\<close>

definition shown_character :: "(u32 \<Rightarrow> u8 list) \<Rightarrow> u32 \<Rightarrow> u8 list" where
  "shown_character enc c =
     (if escaped_by_2_digits c then ESCAPE_CHARACTER # 0x78 # format_hexadecimal 2 c
      else if escaped_by_8_digits c then ESCAPE_CHARACTER # 0x55 # format_hexadecimal 8 c
      else if c = ucast ESCAPE_CHARACTER then [ESCAPE_CHARACTER, ESCAPE_CHARACTER]
      else enc c)"

lemma utf8_codingD:
  assumes "utf8_coding valid enc U put"
  shows utf8_ascii: "c < 0x80 \<Longrightarrow> valid c \<and> enc c = [ucast c]"
    and utf8_length: "valid c \<Longrightarrow> 0 < length (enc c) \<and> length (enc c) \<le> 4"
    and utf8_other: "valid c \<Longrightarrow> b < 0x80 \<Longrightarrow> c \<noteq> ucast b \<Longrightarrow> b \<notin> set (enc c)"
    and utf8_decode: "valid c \<Longrightarrow> length p + length (enc c) \<le> n \<Longrightarrow> n \<le> length (p @ enc c @ q) \<Longrightarrow>
      una_from_utf8 U (p @ enc c @ q) n (length p) = Some (c, length p + length (enc c))"
    and utf8_encode: "valid c \<Longrightarrow> i + length (enc c) \<le> room \<Longrightarrow> put c room i = Some (enc c)"
  using assms unfolding utf8_coding_def by blast+

lemma length_format_2:
  assumes "escaped_by_2_digits c"
  shows "length (format_hexadecimal 2 c) = 2" "unat c < 2 ^ (4 * 2)"
proof -
  have "c \<le> 0x9f"
    using assms unfolding escaped_by_2_digits_def LIBCPATH_SEPARATOR_def
    by (elim disjE conjE) (simp_all add: word_le_nat_alt)
  then show b: "unat c < 2 ^ (4 * 2)" by (simp add: word_le_nat_alt)
  show "length (format_hexadecimal 2 c) = 2" using format_hexadecimal_digits [OF b] by simp
qed

lemma length_format_8: "length (format_hexadecimal 8 c) = 8" "unat c < 2 ^ (4 * 8)" for c :: u32
proof -
  show b: "unat c < 2 ^ (4 * 8)" using unsigned_less [of c] by simp
  show "length (format_hexadecimal 8 c) = 8" using format_hexadecimal_digits [OF b] by simp
qed

lemma escape_character_bounds:
  assumes "utf8_bounds U put" and "length path + 11 \<le> room"
  shows "escape_character put room path c \<noteq> Inl MEMORY_FAULT"
    and "escape_character put room path c = Inr path' \<Longrightarrow> length path' \<le> length path + 10"
proof -
  have put: "put c room i = Some bytes \<Longrightarrow> length bytes \<le> 4" for i bytes
    using assms(1) unfolding utf8_bounds_def by blast
  show "escape_character put room path c \<noteq> Inl MEMORY_FAULT"
    using assms(2) by (simp add: escape_character_def print_string_def length_format_2 length_format_8 split: option.split)
  show "length path' \<le> length path + 10" if "escape_character put room path c = Inr path'"
    using that put [of "length path"] assms(2)
    by (auto simp: escape_character_def print_string_def length_format_2 length_format_8
        split: option.splits if_splits)
qed

lemma characters_end:
  "\<not> i < n \<Longrightarrow> escape_characters f put n room i path = Some (Inr path)"
  "\<not> i < n \<Longrightarrow> unescape_characters f put s n room i path = Some (Inr path)"
  by (subst escape_characters.simps, simp) (subst unescape_characters.simps, simp)

lemma escape_characters_returns:
  assumes U: "utf8_bounds U put" and "n \<le> i + d" and "length path \<le> 10 * i" "i \<le> n"
  shows "\<exists>r. escape_characters (una_from_utf8 U s n) put n (10 * n + 1) i path = Some r \<and>
      r \<noteq> Inl MEMORY_FAULT \<and> (\<forall>p. r = Inr p \<longrightarrow> length p \<le> 10 * n)"
  using assms(2-)
proof (induction d arbitrary: i path)
  case 0
  then show ?case by (simp add: characters_end)
next
  case (Suc d)
  let ?f = "una_from_utf8 U s n"
  have unfold: "escape_characters ?f put n (10 * n + 1) i path =
      (if i < n then (case ?f i of None \<Rightarrow> Some (Inl CONVERSION_INPUT_FAILED)
       | Some (c, j) \<Rightarrow> if c = 0 then Some (Inr path) else
          (case escape_character put (10 * n + 1) path c of Inl e \<Rightarrow> Some (Inl e)
           | Inr path' \<Rightarrow> escape_characters ?f put n (10 * n + 1) j path')) else Some (Inr path))"
    by (rule escape_characters.simps)
  show ?case
  proof (cases "i < n")
    case i: True
    show ?thesis
    proof (cases "?f i")
      case (Some cj)
      then obtain c j where cj: "?f i = Some (c, j)" by (cases cj) auto
      have j: "i < j" "j \<le> n" using U cj i unfolding utf8_bounds_def by blast+
      have fits: "length path + 11 \<le> 10 * n + 1" using Suc.prems i by linarith
      show ?thesis
      proof (cases "escape_character put (10 * n + 1) path c")
        case (Inl e)
        then show ?thesis using unfold i cj escape_character_bounds(1) [OF U fits, of c] Suc.prems by auto
      next
        case (Inr path')
        have "length path' \<le> 10 * j" using escape_character_bounds(2) [OF U fits Inr] Suc.prems j by linarith
        then show ?thesis using unfold i cj Inr Suc.IH [of j path'] Suc.prems j by auto
      qed
    qed (use unfold i in simp)
  qed (use Suc.prems unfold in simp)
qed

lemma escaped_value_bounds:
  assumes "n \<le> length s"
  shows "escaped_value s n i \<noteq> Inl MEMORY_FAULT"
    and "escaped_value s n i = Inr (c, j) \<Longrightarrow> i < j \<and> j \<le> n"
proof -
  have read: "read_hexadecimal cs v \<noteq> Inl MEMORY_FAULT" for cs v
    by (induction cs arbitrary: v) (auto split: option.split)
  have copy: "Suc i + k \<le> n \<Longrightarrow> k = 2 \<or> k = 8 \<Longrightarrow>
      mount_path_string_copy_hexadecimal_to_integer_32_bit (Some (drop (Suc i) s)) k \<noteq> Inl MEMORY_FAULT" for k
    using assms read by (auto simp: mount_path_string_copy_hexadecimal_to_integer_32_bit_def)
  show "escaped_value s n i \<noteq> Inl MEMORY_FAULT"
    using copy [of 2] copy [of 8] by (auto simp: escaped_value_def Let_def split: sum.split)
  show "i < j \<and> j \<le> n" if "escaped_value s n i = Inr (c, j)"
    using that by (auto simp: escaped_value_def Let_def split: sum.splits if_splits)
qed

lemma unescaped_character_bounds:
  assumes "utf8_bounds U put" and "i < n" "n \<le> length s"
  shows "unescaped_character (una_from_utf8 U s n) s n i \<noteq> Inl MEMORY_FAULT"
    and "unescaped_character (una_from_utf8 U s n) s n i = Inr (c, j) \<Longrightarrow> i < j \<and> j \<le> n"
proof -
  have next_bounds: "una_from_utf8 U s n i = Some (c, k) \<Longrightarrow> i < k \<and> k \<le> n" for c k
    using assms(1,2) unfolding utf8_bounds_def by blast
  show "unescaped_character (una_from_utf8 U s n) s n i \<noteq> Inl MEMORY_FAULT"
    using escaped_value_bounds(1) [OF assms(3)]
    by (auto simp: unescaped_character_def split: option.split)
  show "i < j \<and> j \<le> n" if "unescaped_character (una_from_utf8 U s n) s n i = Inr (c, j)"
    using that next_bounds escaped_value_bounds(2) [OF assms(3)]
    by (fastforce simp: unescaped_character_def split: option.splits if_splits)
qed

lemma unescape_characters_returns:
  assumes U: "utf8_bounds U put" and n: "n \<le> length s" and "n \<le> i + d" "length path \<le> n + 1" "i \<le> n"
  shows "\<exists>r. unescape_characters (una_from_utf8 U s n) put s n (n + 1) i path = Some r \<and>
      r \<noteq> Inl MEMORY_FAULT \<and> (\<forall>p. r = Inr p \<longrightarrow> length p \<le> n + 1)"
  using assms(3-)
proof (induction d arbitrary: i path)
  case 0
  then show ?case by (simp add: characters_end)
next
  case (Suc d)
  let ?f = "una_from_utf8 U s n"
  have unfold: "unescape_characters ?f put s n (n + 1) i path =
      (if i < n then (case unescaped_character ?f s n i of Inl e \<Rightarrow> Some (Inl e)
       | Inr (c, j) \<Rightarrow> (case put c (n + 1) (length path) of None \<Rightarrow> Some (Inl CONVERSION_INPUT_FAILED)
           | Some bytes \<Rightarrow> unescape_characters ?f put s n (n + 1) j (path @ bytes))) else Some (Inr path))"
    by (rule unescape_characters.simps)
  show ?case
  proof (cases "i < n")
    case i: True
    show ?thesis
    proof (cases "unescaped_character ?f s n i")
      case (Inl e)
      then show ?thesis using unfold i unescaped_character_bounds(1) [OF U i n] by auto
    next
      case (Inr cj)
      then obtain c j where cj: "unescaped_character ?f s n i = Inr (c, j)" by (cases cj) auto
      have j: "i < j" "j \<le> n" using unescaped_character_bounds(2) [OF U i n cj] by auto
      show ?thesis
      proof (cases "put c (n + 1) (length path)")
        case (Some bytes)
        have "length (path @ bytes) \<le> n + 1" using U Some unfolding utf8_bounds_def by fastforce
        then show ?thesis using unfold i cj Some Suc.IH [of j "path @ bytes"] Suc.prems j by auto
      qed (use unfold i cj in simp)
    qed
  qed (use Suc.prems unfold in simp)
qed

text \<open>
  C30. The paths of the mount tool are converted inside their buffers. Whatever the string
  holds, both conversions return and read and write no byte outside their strings; the path
  they give is terminated inside the size they report for it, which for escaping is the worst
  case of ten characters for each byte.
\<close>
theorem mount_path_conversions_safe:
  assumes "utf8_bounds U put" and "n \<le> length string"
  shows "(\<exists>r. mount_path_string_copy_from_file_entry_path junk U put (Some string) n = Some r \<and> r \<noteq> Inl MEMORY_FAULT \<and>
        (\<forall>path room. r = Inr (path, room) \<longrightarrow> room = 10 * n + 1 \<and> length path = room \<and> 0 \<in> set path)) \<and>
     (\<exists>r. mount_path_string_copy_to_file_entry_path junk U put (Some string) n = Some r \<and> r \<noteq> Inl MEMORY_FAULT \<and>
        (\<forall>path room. r = Inr (path, room) \<longrightarrow> room = n + 1 \<and> length path = room \<and> 0 \<in> set path))"
proof
  obtain r where r: "escape_characters (una_from_utf8 U string n) put n (10 * n + 1) 0 [] = Some r"
      "r \<noteq> Inl MEMORY_FAULT" "\<forall>p. r = Inr p \<longrightarrow> length p \<le> 10 * n"
    using escape_characters_returns [OF assms(1), of n 0 n "[]" string] by auto
  show "\<exists>r. mount_path_string_copy_from_file_entry_path junk U put (Some string) n = Some r \<and> r \<noteq> Inl MEMORY_FAULT \<and>
      (\<forall>path room. r = Inr (path, room) \<longrightarrow> room = 10 * n + 1 \<and> length path = room \<and> 0 \<in> set path)"
    using r assms(2) by (cases r) (simp_all add: mount_path_string_copy_from_file_entry_path_def Let_def mult.commute)
  obtain q where q: "unescape_characters (una_from_utf8 U string n) put string n (n + 1) 0 [] = Some q"
      "q \<noteq> Inl MEMORY_FAULT"
    using unescape_characters_returns [OF assms, of 0 n "[]"] by auto
  show "\<exists>r. mount_path_string_copy_to_file_entry_path junk U put (Some string) n = Some r \<and> r \<noteq> Inl MEMORY_FAULT \<and>
      (\<forall>path room. r = Inr (path, room) \<longrightarrow> room = n + 1 \<and> length path = room \<and> 0 \<in> set path)"
    using q assms(2) by (cases q) (simp_all add: mount_path_string_copy_to_file_entry_path_def)
qed

section \<open>Unescaping what was escaped\<close>

lemma length_shown_character:
  assumes "utf8_coding valid enc U put" "valid c"
  shows "length (enc c) \<le> length (shown_character enc c)"
    and "length (shown_character enc c) \<le> 10"
    and "length (shown_character enc c) \<le> 10 * length (enc c)"
proof -
  have n: "0 < length (enc c)" "length (enc c) \<le> 4" using utf8_length [OF assms] by auto
  have e: "c = ucast ESCAPE_CHARACTER \<Longrightarrow> length (enc c) = 1"
    using utf8_ascii [OF assms(1), of c] by (simp add: ESCAPE_CHARACTER_def)
  show "length (enc c) \<le> length (shown_character enc c)"
    using n e by (simp add: shown_character_def length_format_2 length_format_8)
  show shown: "length (shown_character enc c) \<le> 10"
    using n by (simp add: shown_character_def length_format_2 length_format_8)
  show "length (shown_character enc c) \<le> 10 * length (enc c)" using shown n by linarith
qed

lemma length_shown_characters:
  assumes "utf8_coding valid enc U put" "\<forall>c \<in> set cs. valid c"
  shows "length (concat (map enc cs)) \<le> length (concat (map (shown_character enc) cs))"
    and "length (concat (map (shown_character enc) cs)) \<le> 10 * length (concat (map enc cs))"
  using assms(2)
proof (induction cs)
  case (Cons c cs)
  note len = length_shown_character [OF assms(1), of c]
  { case 1 then show ?case using Cons.IH(1) len(1) by simp }
  { case 2 then show ?case using Cons.IH(2) len(3) by simp }
qed simp_all

lemma escape_character_shown:
  assumes "utf8_coding valid enc U put" "valid c" and "length path + 10 < room"
  shows "escape_character put room path c = Inr (path @ shown_character enc c)"
proof -
  have "ucast (ucast ESCAPE_CHARACTER :: u32) = ESCAPE_CHARACTER" by (simp add: ESCAPE_CHARACTER_def)
  then show ?thesis
    using assms(3) utf8_length [OF assms(1,2)] utf8_encode [OF assms(1,2), of "length path" room]
    by (simp add: escape_character_def print_string_def shown_character_def length_format_2 length_format_8)
qed

lemma escape_characters_shown:
  assumes U: "utf8_coding valid enc U put"
    and "\<forall>c \<in> set cs. valid c \<and> c \<noteq> 0"
    and "s = p @ concat (map enc cs) @ rest" "n = length (p @ concat (map enc cs))" "length path \<le> 10 * length p"
  shows "escape_characters (una_from_utf8 U s n) put n (10 * n + 1) (length p) path =
      Some (Inr (path @ concat (map (shown_character enc) cs)))"
  using assms(2-)
proof (induction cs arbitrary: p path)
  case Nil
  then show ?case by (simp add: characters_end)
next
  case (Cons c cs)
  let ?f = "una_from_utf8 U s n"
  have c: "valid c" "c \<noteq> 0" using Cons.prems by auto
  have size: "0 < length (enc c)" using utf8_length [OF U c(1)] by simp
  have s: "s = p @ enc c @ concat (map enc cs) @ rest" using Cons.prems by simp
  then have i: "length p < n" using Cons.prems size by simp
  have next_c: "?f (length p) = Some (c, length p + length (enc c))"
    using utf8_decode [OF U c(1), of p n "concat (map enc cs) @ rest"] s Cons.prems(3) by simp
  have "length path + 10 < 10 * n + 1" using Cons.prems(4) i by linarith
  then have e: "escape_character put (10 * n + 1) path c = Inr (path @ shown_character enc c)"
    by (rule escape_character_shown [OF U c(1)])
  have "length (path @ shown_character enc c) \<le> 10 * length (p @ enc c)"
    using length_shown_character(3) [OF U c(1)] Cons.prems(4) by simp
  then have "escape_characters ?f put n (10 * n + 1) (length (p @ enc c)) (path @ shown_character enc c) =
      Some (Inr ((path @ shown_character enc c) @ concat (map (shown_character enc) cs)))"
    using Cons.prems s by (intro Cons.IH) simp_all
  moreover have "escape_characters ?f put n (10 * n + 1) (length p) path =
      escape_characters ?f put n (10 * n + 1) (length (p @ enc c)) (path @ shown_character enc c)"
    by (subst escape_characters.simps) (simp only: i next_c e c if_True if_False option.case prod.case sum.case length_append)
  ultimately show ?case by simp
qed

lemma escaped_value_shown:
  assumes "path = p @ x # format_hexadecimal k c @ q" "x = 0x78 \<and> k = 2 \<and> escaped_by_2_digits c \<and> c \<noteq> 0 \<or>
      x = 0x55 \<and> k = 8 \<and> escaped_by_8_digits c"
    and "Suc (length p + k) \<le> n" "n \<le> length path"
  shows "escaped_value path n (length p) = Inr (c, Suc (length p + k))"
proof -
  have k: "unat c < 2 ^ (4 * k)" "0 < k" "k \<le> 8"
    using assms(2) length_format_2(2) [of c] length_format_8(2) [of c] by auto
  have l: "length (format_hexadecimal k c) = k" using k format_hexadecimal_digits by simp
  have "escaped_by_2_digits c \<Longrightarrow> c \<noteq> 0 \<Longrightarrow> allowed_by_2_digits c"
    unfolding escaped_by_2_digits_def allowed_by_2_digits_def LIBCPATH_SEPARATOR_def
    by (auto simp: word_le_nat_alt unat_eq_zero Suc_le_eq unat_gt_0)
  then show ?thesis
    using assms hexadecimal_roundtrip [OF k, of q] l
    by (auto simp: escaped_value_def Let_def ESCAPE_CHARACTER_def)
qed

lemma unescaped_character_shown:
  assumes U: "utf8_coding valid enc U put" and c: "valid c" "c \<noteq> 0"
    and path: "path = p @ shown_character enc c @ q"
    and n: "length p + length (shown_character enc c) \<le> n" "n \<le> length path"
  shows "unescaped_character (una_from_utf8 U path n) path n (length p) =
      Inr (c, length p + length (shown_character enc c))"
proof -
  have e: "valid (ucast ESCAPE_CHARACTER)" "enc (ucast ESCAPE_CHARACTER) = [ESCAPE_CHARACTER]"
    using utf8_ascii [OF U, of "ucast ESCAPE_CHARACTER"] by (simp_all add: ESCAPE_CHARACTER_def)
  have sep: "(ucast ESCAPE_CHARACTER :: u32) \<noteq> ucast LIBCPATH_SEPARATOR"
    by (simp add: ESCAPE_CHARACTER_def LIBCPATH_SEPARATOR_def)
  have start: "una_from_utf8 U path n (length p) = Some (ucast ESCAPE_CHARACTER, Suc (length p))"
    if "path = p @ ESCAPE_CHARACTER # r" "Suc (length p) \<le> n" for r
    using utf8_decode [OF U e(1), of p n r] e(2) that n by simp
  have escaped: "unescaped_character (una_from_utf8 U path n) path n (length p) =
      escaped_value path n (length (p @ [ESCAPE_CHARACTER]))"
    if "path = p @ ESCAPE_CHARACTER # r" "Suc (length p) \<le> n" for r
    using start [OF that] sep by (simp add: unescaped_character_def)
  consider (two) "escaped_by_2_digits c" | (eight) "\<not> escaped_by_2_digits c" "escaped_by_8_digits c"
    | (escape) "\<not> escaped_by_2_digits c" "\<not> escaped_by_8_digits c" "c = ucast ESCAPE_CHARACTER"
    | (plain) "\<not> escaped_by_2_digits c" "\<not> escaped_by_8_digits c" "c \<noteq> ucast ESCAPE_CHARACTER"
    by blast
  then show ?thesis
  proof cases
    case two
    then have p: "path = p @ ESCAPE_CHARACTER # 0x78 # format_hexadecimal 2 c @ q"
      using path by (simp add: shown_character_def)
    show ?thesis using escaped [OF p]
        escaped_value_shown [of path "p @ [ESCAPE_CHARACTER]" "0x78" 2 c q n] n p two c(2)
      by (simp add: shown_character_def length_format_2)
  next
    case eight
    then have p: "path = p @ ESCAPE_CHARACTER # 0x55 # format_hexadecimal 8 c @ q"
      using path by (simp add: shown_character_def)
    show ?thesis using escaped [OF p]
        escaped_value_shown [of path "p @ [ESCAPE_CHARACTER]" "0x55" 8 c q n] n p eight
      by (simp add: shown_character_def length_format_8)
  next
    case escape
    then have p: "path = p @ ESCAPE_CHARACTER # ESCAPE_CHARACTER # q"
      using path by (simp add: shown_character_def)
    show ?thesis using escaped [OF p] n p escape by (simp add: escaped_value_def Let_def nth_append shown_character_def)
  next
    case plain
    then have "c \<noteq> ucast LIBCPATH_SEPARATOR" by (auto simp: escaped_by_2_digits_def)
    moreover have "una_from_utf8 U path n (length p) = Some (c, length p + length (enc c))"
      using utf8_decode [OF U c(1), of p n q] path plain n by (simp add: shown_character_def)
    ultimately show ?thesis using plain by (simp add: unescaped_character_def shown_character_def)
  qed
qed

lemma unescape_character_step:
  assumes "i < n" "unescaped_character f s n i = Inr (c, j)" "put c room (length path) = Some bytes"
  shows "unescape_characters f put s n room i path = unescape_characters f put s n room j (path @ bytes)"
  using assms by (subst unescape_characters.simps) simp

lemma unescape_shown_characters:
  assumes U: "utf8_coding valid enc U put"
    and "\<forall>c \<in> set cs. valid c \<and> c \<noteq> 0"
    and "path = p @ concat (map (shown_character enc) cs) @ q"
    and "length (p @ concat (map (shown_character enc) cs)) \<le> n" "n \<le> length path" "n < room" "length out \<le> length p"
  shows "unescape_characters (una_from_utf8 U path n) put path n room (length p) out =
      unescape_characters (una_from_utf8 U path n) put path n room
        (length (p @ concat (map (shown_character enc) cs))) (out @ concat (map enc cs))"
  using assms(2-)
proof (induction cs arbitrary: p out)
  case (Cons c cs)
  let ?shown = "shown_character enc c" and ?rest = "concat (map (shown_character enc) cs)"
  let ?run = "unescape_characters (una_from_utf8 U path n) put path n room"
  have c: "valid c" "c \<noteq> 0" using Cons.prems by auto
  note len = length_shown_character(1) [OF U c(1)]
  have path: "path = p @ ?shown @ ?rest @ q" using Cons.prems by simp
  have "0 < length (enc c)" using utf8_length [OF U c(1)] by simp
  then have "0 < length ?shown" using len by linarith
  moreover have n: "length p + length ?shown \<le> n" using Cons.prems(3) by simp
  ultimately have i: "length p < n" by linarith
  have "put c room (length out) = Some (enc c)"
    using utf8_encode [OF U c(1), of "length out" room] len n Cons.prems by simp
  then have "?run (length p) out = ?run (length (p @ ?shown)) (out @ enc c)"
    using unescape_character_step [OF i unescaped_character_shown [OF U c path n Cons.prems(4)]] by simp
  also have "\<dots> = ?run (length ((p @ ?shown) @ ?rest)) ((out @ enc c) @ concat (map enc cs))"
    using Cons.prems len by (intro Cons.IH) simp_all
  finally show ?case by simp
qed simp

text \<open>The path of names as the mount tool shows it, and as the library takes it.\<close>

definition shown_path :: "(u32 \<Rightarrow> u8 list) \<Rightarrow> u32 list list \<Rightarrow> u8 list" where
  "shown_path enc names = concat (map (\<lambda>cs. LIBCPATH_SEPARATOR # concat (map (shown_character enc) cs)) names)"

definition library_path :: "(u32 \<Rightarrow> u8 list) \<Rightarrow> u32 list list \<Rightarrow> u8 list" where
  "library_path enc names = concat (map (\<lambda>cs. 0x5c # concat (map enc cs)) names)"

lemma path_simps [simp]:
  "shown_path enc [] = []" "library_path enc [] = []"
  "shown_path enc (cs # names) = LIBCPATH_SEPARATOR # concat (map (shown_character enc) cs) @ shown_path enc names"
  "library_path enc (cs # names) = 0x5c # concat (map enc cs) @ library_path enc names"
  by (simp_all add: shown_path_def library_path_def)

lemma unescape_shown_path:
  assumes U: "utf8_coding valid enc U put"
    and "\<forall>c \<in> set (concat names). valid c \<and> c \<noteq> 0"
    and "path = p @ shown_path enc names @ rest" "n = length (p @ shown_path enc names)" "n < room" "length out \<le> length p"
  shows "unescape_characters (una_from_utf8 U path n) put path n room (length p) out =
      Some (Inr (out @ library_path enc names))"
  using assms(2-)
proof (induction names arbitrary: p out)
  case Nil
  then show ?case by (simp add: characters_end)
next
  case (Cons cs names)
  let ?f = "una_from_utf8 U path n" and ?shown = "concat (map (shown_character enc) cs)"
  let ?run = "unescape_characters ?f put path n room"
  have path: "path = p @ LIBCPATH_SEPARATOR # ?shown @ shown_path enc names @ rest"
    using Cons.prems(2) by simp
  have sep: "valid (ucast LIBCPATH_SEPARATOR)" "enc (ucast LIBCPATH_SEPARATOR) = [LIBCPATH_SEPARATOR]"
      "valid 0x5c" "enc 0x5c = [0x5c]"
    using utf8_ascii [OF U, of "ucast LIBCPATH_SEPARATOR"] utf8_ascii [OF U, of "0x5c"]
    by (simp_all add: LIBCPATH_SEPARATOR_def)
  have i: "length p < n" using Cons.prems(3) by simp
  have bound: "n \<le> length path" using Cons.prems(2,3) by simp
  have "?f (length p) = Some (ucast LIBCPATH_SEPARATOR, Suc (length p))"
    using utf8_decode [OF U sep(1), of p n "?shown @ shown_path enc names @ rest"]
      path Suc_leI [OF i] sep(2) bound by simp
  then have c: "unescaped_character ?f path n (length p) = Inr (0x5c, Suc (length p))"
    by (simp add: unescaped_character_def)
  have "put 0x5c room (length out) = Some [0x5c]"
    using utf8_encode [OF U sep(3), of "length out" room] sep(4) i Cons.prems by simp
  then have "?run (length p) out = ?run (length (p @ [LIBCPATH_SEPARATOR])) (out @ [0x5c])"
    using unescape_character_step [OF i c] by simp
  also have "\<dots> = ?run (length ((p @ [LIBCPATH_SEPARATOR]) @ ?shown)) ((out @ [0x5c]) @ concat (map enc cs))"
    using Cons.prems path by (intro unescape_shown_characters [OF U, of _ _ _ "shown_path enc names @ rest"]) simp_all
  also have "\<dots> = Some (Inr (((out @ [0x5c]) @ concat (map enc cs)) @ library_path enc names))"
  proof (rule Cons.IH)
    show "length ((out @ [0x5c]) @ concat (map enc cs)) \<le> length ((p @ [LIBCPATH_SEPARATOR]) @ ?shown)"
      using length_shown_characters(1) [OF U, of cs] Cons.prems by simp
  qed (use Cons.prems path in simp_all)
  finally show ?case by simp
qed

lemma length_shown_path:
  assumes "utf8_coding valid enc U put" "\<forall>c \<in> set (concat names). valid c"
  shows "length (shown_path enc names) \<le> 10 * length (library_path enc names)"
  using assms(2)
proof (induction names)
  case (Cons cs names)
  then show ?case using length_shown_characters(2) [OF assms(1), of cs]
    by simp
qed simp

lemma escape_name:
  assumes U: "utf8_coding valid enc U put" and "\<forall>c \<in> set cs. valid c \<and> c \<noteq> 0"
    and "cs \<noteq> []" "length (concat (map enc cs)) \<le> (SSIZE_MAX - 1) div 10"
  shows "mount_path_string_copy_from_file_entry_path junk U put (Some (concat (map enc cs) @ rest))
      (length (concat (map enc cs))) =
    Some (Inr (string_buffer junk (concat (map (shown_character enc) cs)) (10 * length (concat (map enc cs)) + 1),
      10 * length (concat (map enc cs)) + 1))"
proof -
  let ?s = "concat (map enc cs)" and ?shown = "concat (map (shown_character enc) cs)"
  have "escape_characters (una_from_utf8 U (?s @ rest) (length ?s)) put (length ?s) (10 * length ?s + 1) 0 [] =
      Some (Inr ?shown)"
    using escape_characters_shown [OF U assms(2), of "?s @ rest" "[]" rest "length ?s" "[]"] by simp
  moreover have "length ?shown \<le> 10 * length ?s" using length_shown_characters(2) [OF U] assms(2) by blast
  moreover have "0 < length ?s"
    using assms(2,3) utf8_length [OF U, of "hd cs"] by (cases cs) auto
  moreover have "length ?s \<le> SSIZE_MAX - 1" using assms(4) by (simp add: SSIZE_MAX_def)
  ultimately show ?thesis
    using assms(4) unfolding mount_path_string_copy_from_file_entry_path_def Let_def option.case mult.commute [of _ 10]
    by simp
qed

lemma length_library_path:
  assumes "utf8_coding valid enc U put" "\<forall>c \<in> set (concat names). valid c"
  shows "length (library_path enc names) \<le> length (shown_path enc names)"
  using assms(2)
proof (induction names)
  case (Cons cs names)
  then show ?case using length_shown_characters(1) [OF assms(1), of cs]
    by simp
qed simp

lemma unescape_path:
  assumes U: "utf8_coding valid enc U put"
    and "names \<noteq> []" "\<forall>c \<in> set (concat names). valid c \<and> c \<noteq> 0"
    and "length (library_path enc names) \<le> (SSIZE_MAX - 1) div 10"
  shows "mount_path_string_copy_to_file_entry_path junk U put (Some (shown_path enc names @ rest))
      (length (shown_path enc names)) =
    Some (Inr (string_buffer junk (library_path enc names) (length (shown_path enc names) + 1),
      length (shown_path enc names) + 1))"
proof -
  let ?path = "shown_path enc names"
  have "unescape_characters (una_from_utf8 U (?path @ rest) (length ?path)) put (?path @ rest) (length ?path)
      (length ?path + 1) 0 [] = Some (Inr (library_path enc names))"
    using unescape_shown_path [OF U assms(3), of "?path @ rest" "[]" rest "length ?path" "length ?path + 1" "[]"] by simp
  moreover have "length ?path \<le> SSIZE_MAX - 1"
  proof -
    have "length ?path \<le> 10 * ((SSIZE_MAX - 1) div 10)"
      using length_shown_path [OF U, of names] assms(3,4) by (meson le_trans mult_le_mono2)
    then show ?thesis by (simp add: SSIZE_MAX_def)
  qed
  moreover have "0 < length ?path" "?path ! 0 = LIBCPATH_SEPARATOR"
    using assms(2) by (cases names; simp)+
  moreover have "length (library_path enc names) \<le> length ?path"
    using length_library_path [OF U] assms(3) by blast
  ultimately show ?thesis by (simp add: mount_path_string_copy_to_file_entry_path_def nth_append)
qed

lemma nonzero_digits: "0 \<notin> set (hexadecimal_digits k v)"
proof (induction k)
  case (Suc k)
  have "hexadecimal_character d \<noteq> 0" if "d < 16" for d
    using u32_below_16 [OF that] by (elim insertE) (simp_all add: hexadecimal_character_def)
  then show ?case using Suc nibble_less by (metis hexadecimal_digits.simps(2) set_ConsD)
qed simp

lemma nonzero_shown_characters:
  assumes U: "utf8_coding valid enc U put" and "\<forall>c \<in> set cs. valid c \<and> c \<noteq> 0"
  shows "0 \<notin> set (concat (map (shown_character enc) cs))" and "0 \<notin> set (concat (map enc cs))"
proof -
  have "0 \<notin> set (shown_character enc c)" if "valid c" "c \<noteq> 0" for c
    using nonzero_digits utf8_other [OF U that(1), of 0] that(2) length_format_2(2) length_format_8(2)
    by (auto simp: shown_character_def format_hexadecimal_digits ESCAPE_CHARACTER_def)
  then show "0 \<notin> set (concat (map (shown_character enc) cs))" using assms(2) by auto
  show "0 \<notin> set (concat (map enc cs))" using utf8_other [OF U, of _ 0] assms(2) by auto
qed

lemma nonzero_library_path:
  assumes "utf8_coding valid enc U put" "\<forall>c \<in> set (concat names). valid c \<and> c \<noteq> 0"
  shows "0 \<notin> set (library_path enc names)"
  using assms(2)
proof (induction names)
  case (Cons cs names)
  then show ?case using nonzero_shown_characters(2) [OF assms(1), of cs] by simp
qed simp

text \<open>
  C15. The names that the mounted file system shows lead back to the volume. Names of non-zero
  characters are escaped one by one, which always succeeds; the path that joins the escaped
  names with the separator of the system is unescaped to the path of the original names with
  the separator of the library: no name is lost, and a separator of the system inside a name
  does not split it.
\<close>
theorem mount_path_roundtrip:
  assumes "utf8_coding valid enc U put"
    and "names \<noteq> []" "[] \<notin> set names" "\<forall>c \<in> set (concat names). valid c \<and> c \<noteq> 0"
    and "length (library_path enc names) \<le> (SSIZE_MAX - 1) div 10"
  shows "(\<forall>cs \<in> set names. \<exists>buffer.
        mount_path_string_copy_from_file_entry_path junk U put (Some (concat (map enc cs))) (length (concat (map enc cs))) =
        Some (Inr (buffer, length buffer)) \<and> c_string buffer = concat (map (shown_character enc) cs)) \<and>
     (\<exists>buffer.
        mount_path_string_copy_to_file_entry_path junk U put (Some (shown_path enc names)) (length (shown_path enc names)) =
        Some (Inr (buffer, length buffer)) \<and> c_string buffer = library_path enc names)"
proof
  have part: "length (concat (map enc cs)) \<le> length (library_path enc names)" if "cs \<in> set names" for cs
    using that unfolding library_path_def by (induction names) auto
  show "\<forall>cs \<in> set names. \<exists>buffer.
        mount_path_string_copy_from_file_entry_path junk U put (Some (concat (map enc cs))) (length (concat (map enc cs))) =
        Some (Inr (buffer, length buffer)) \<and> c_string buffer = concat (map (shown_character enc) cs)"
  proof
    fix cs assume cs: "cs \<in> set names"
    then have c: "\<forall>c \<in> set cs. valid c \<and> c \<noteq> 0" "cs \<noteq> []" using assms(3,4) by auto
    let ?buffer = "string_buffer junk (concat (map (shown_character enc) cs)) (10 * length (concat (map enc cs)) + 1)"
    have "length (concat (map (shown_character enc) cs)) < 10 * length (concat (map enc cs)) + 1"
      using length_shown_characters(2) [OF assms(1), of cs] c(1) by simp
    then have "length ?buffer = 10 * length (concat (map enc cs)) + 1" by (rule length_string_buffer)
    moreover have "c_string ?buffer = concat (map (shown_character enc) cs)"
      by (rule c_string_buffer [OF nonzero_shown_characters(1) [OF assms(1) c(1)]])
    ultimately show "\<exists>buffer. mount_path_string_copy_from_file_entry_path junk U put (Some (concat (map enc cs)))
          (length (concat (map enc cs))) = Some (Inr (buffer, length buffer)) \<and>
        c_string buffer = concat (map (shown_character enc) cs)"
      using escape_name [OF assms(1) c le_trans [OF part [OF cs] assms(5)], of junk "[]"] by simp
  qed
  let ?buffer = "string_buffer junk (library_path enc names) (length (shown_path enc names) + 1)"
  have "length (library_path enc names) < length (shown_path enc names) + 1"
    using length_library_path [OF assms(1), of names] assms(4) by simp
  then have "length ?buffer = length (shown_path enc names) + 1" by (rule length_string_buffer)
  moreover have "c_string ?buffer = library_path enc names"
    by (rule c_string_buffer [OF nonzero_library_path [OF assms(1,4)]])
  ultimately show "\<exists>buffer.
        mount_path_string_copy_to_file_entry_path junk U put (Some (shown_path enc names)) (length (shown_path enc names)) =
        Some (Inr (buffer, length buffer)) \<and> c_string buffer = library_path enc names"
    using unescape_path [OF assms(1,2,4,5), of junk "[]"] by simp
qed

section \<open>Concrete paths\<close>

definition ascii_put :: "u32 \<Rightarrow> nat \<Rightarrow> nat \<Rightarrow> u8 list option" where
  "ascii_put c room i = (if c < 0x80 \<and> i + 1 \<le> room then Some [ucast c] else None)"

lemma ascii_bounds: "utf8_bounds ascii_una ascii_put"
  by (auto simp: utf8_bounds_def ascii_una_def ascii_put_def split: if_splits)

lemma ascii_coding: "utf8_coding (\<lambda>c. c < 0x80) (\<lambda>c. [ucast c]) ascii_una ascii_put"
proof -
  have small: "(ucast c :: u8) < 0x80 \<and> (ucast (ucast c :: u8) :: u32) = c" if "c < 0x80" for c :: u32
  proof -
    have "unat c < 128" using that by (simp add: word_less_nat_alt)
    then have "unat (ucast c :: u8) = unat c" by (simp add: unsigned_ucast_eq unsigned_take_bit_eq take_bit_nat_eq_self)
    then show ?thesis using \<open>unat c < 128\<close>
      by (simp add: word_less_nat_alt word_unat_eq_iff unsigned_ucast_eq unsigned_take_bit_eq take_bit_nat_eq_self)
  qed
  then show ?thesis by (auto simp: utf8_coding_def ascii_una_def ascii_put_def nth_append)
qed

lemma mount_path_conversions_safe_witness:
  "\<exists>r. mount_path_string_copy_to_file_entry_path (\<lambda>_. 0) ascii_una ascii_put (Some [0x2f, 0x5c, 0x78]) 3 = Some r \<and>
     r \<noteq> Inl MEMORY_FAULT"
  using mount_path_conversions_safe [OF ascii_bounds, of 3 "[0x2f, 0x5c, 0x78]" "\<lambda>_. 0"] by auto

lemma mount_path_roundtrip_witness:
  "\<exists>buffer. mount_path_string_copy_to_file_entry_path (\<lambda>_. 0) ascii_una ascii_put
     (Some [0x2f, 0x41, 0x5c, 0x78, 0x32, 0x66, 0x42]) 7 = Some (Inr (buffer, length buffer)) \<and>
     c_string buffer = [0x5c, 0x41, 0x2f, 0x42]"
proof -
  have "shown_path (\<lambda>c. [ucast c]) [[0x41, 0x2f, 0x42]] = [0x2f, 0x41, 0x5c, 0x78, 0x32, 0x66, 0x42]" by code_simp
  moreover have "library_path (\<lambda>c. [ucast c]) [[0x41, 0x2f, 0x42]] = [0x5c, 0x41, 0x2f, 0x42]" by code_simp
  ultimately have "\<exists>buffer. mount_path_string_copy_to_file_entry_path (\<lambda>_. 0) ascii_una ascii_put
      (Some [0x2f, 0x41, 0x5c, 0x78, 0x32, 0x66, 0x42]) (length [0x2f, 0x41, 0x5c, 0x78, 0x32, 0x66, 0x42 :: u8]) =
      Some (Inr (buffer, length buffer)) \<and> c_string buffer = [0x5c, 0x41, 0x2f, 0x42]"
    using mount_path_roundtrip [OF ascii_coding, of "[[0x41, 0x2f, 0x42]]" "\<lambda>_. 0"] by (simp add: SSIZE_MAX_def)
  moreover have "length [0x2f, 0x41, 0x5c, 0x78, 0x32, 0x66, 0x42 :: u8] = 7" by simp
  ultimately show ?thesis by (simp only:)
qed

end
