(* ===== verification/Mount_Tool.thy ===== *)
theory Mount_Tool
  imports Volume Mount_Path Date_Time
begin

text \<open>
  What the tool that mounts a volume keeps: the file system of
  \<^verbatim>\<open>fsfattools/mount_file_system.c\<close>, which holds the volume, and the file entries of
  \<^verbatim>\<open>fsfattools/mount_file_entry.c\<close>, which hold a file entry of the library and its name. A file
  entry keeps a pointer to its file system, of which it only uses the time of mounting; that
  never changes, so the model keeps a copy. The functions that free them only release memory
  and have no definition.
\<close>

section \<open>The mounted file system\<close>

record ('h, 'arr, 'cache) mount_file_system =
  mfs_mounted_timestamp :: u64
  mfs_fsfat_volume :: "('h, 'arr, 'cache) volume option"

text \<open>The time of \<^verbatim>\<open>clock_gettime\<close>, in seconds and nanoseconds, is a parameter.\<close>

definition mount_file_system_initialize ::
  "(u64 \<times> u64) option \<Rightarrow> ('h, 'arr, 'cache) mount_file_system option \<Rightarrow>
   ('h, 'arr, 'cache) mount_file_system result" where
  "mount_file_system_initialize time_structure file_system =
     (if file_system \<noteq> None then Inl RUNTIME_VALUE_ALREADY_SET
      else
        (case time_structure of
           None \<Rightarrow> Inl RUNTIME_GET_FAILED
         | Some (tv_sec, tv_nsec) \<Rightarrow>
             Inr \<lparr> mfs_mounted_timestamp = tv_sec * 1000000000 + tv_nsec, mfs_fsfat_volume = None \<rparr>))"

definition mount_file_system_signal_abort ::
  "('h, 'arr, 'cache) mount_file_system option \<Rightarrow> ('h, 'arr, 'cache) mount_file_system result" where
  "mount_file_system_signal_abort file_system =
     (case file_system of
        None \<Rightarrow> Inl ARGUMENT_INVALID_VALUE
      | Some mfs \<Rightarrow>
          if mfs_fsfat_volume mfs = None then Inr mfs
          else
            (case libfsfat_volume_signal_abort (mfs_fsfat_volume mfs) of
               Inl e \<Rightarrow> Inl RUNTIME_SET_FAILED
             | Inr v \<Rightarrow> Inr (mfs\<lparr> mfs_fsfat_volume := Some v \<rparr>)))"

definition mount_file_system_set_volume ::
  "('h, 'arr, 'cache) mount_file_system option \<Rightarrow> ('h, 'arr, 'cache) volume option \<Rightarrow>
   ('h, 'arr, 'cache) mount_file_system result" where
  "mount_file_system_set_volume file_system fsfat_volume =
     (case file_system of
        None \<Rightarrow> Inl ARGUMENT_INVALID_VALUE
      | Some mfs \<Rightarrow> Inr (mfs\<lparr> mfs_fsfat_volume := fsfat_volume \<rparr>))"

definition mount_file_system_get_volume ::
  "('h, 'arr, 'cache) mount_file_system option \<Rightarrow> ('h, 'arr, 'cache) volume option result" where
  "mount_file_system_get_volume file_system =
     (case file_system of
        None \<Rightarrow> Inl ARGUMENT_INVALID_VALUE
      | Some mfs \<Rightarrow> Inr (mfs_fsfat_volume mfs))"

definition mount_file_system_get_mounted_timestamp ::
  "('h, 'arr, 'cache) mount_file_system option \<Rightarrow> u64 result" where
  "mount_file_system_get_mounted_timestamp file_system =
     (case file_system of
        None \<Rightarrow> Inl ARGUMENT_INVALID_VALUE
      | Some mfs \<Rightarrow> Inr (mfs_mounted_timestamp mfs))"

text \<open>
  The path of the library is the string in front of the terminator of its buffer. As in the
  library a file entry comes back whether the path is found or not.
\<close>

definition mount_file_system_get_file_entry_by_path ::
  "(nat \<Rightarrow> u8) \<Rightarrow> una_ops \<Rightarrow> (u32 \<Rightarrow> nat \<Rightarrow> nat \<Rightarrow> u8 list option) \<Rightarrow>
   ('cache, 'value, 'arr directory) cache_ops \<Rightarrow> ('arr, nat) array_ops \<Rightarrow> ('tarr, node_entry) array_ops \<Rightarrow>
   ('xarr, extent) array_ops \<Rightarrow> 'h bfio_ops \<Rightarrow> ('h, 'arr, 'cache) mount_file_system option \<Rightarrow>
   u8 list option \<Rightarrow> nat \<Rightarrow> ('arr, 'cache, 'xarr, 's) file_entry option \<Rightarrow>
   (('h, 'arr, 'cache) mount_file_system \<times> bool \<times> ('arr, 'cache, 'xarr, 's) file_entry) result option" where
  "mount_file_system_get_file_entry_by_path junk U put C A T X B file_system path path_length
       fsfat_file_entry =
     (case file_system of
        None \<Rightarrow> Some (Inl ARGUMENT_INVALID_VALUE)
      | Some mfs \<Rightarrow>
          (case mount_path_string_copy_to_file_entry_path junk U put path path_length of
             None \<Rightarrow> None
           | Some (Inl e) \<Rightarrow> Some (Inl RUNTIME_COPY_FAILED)
           | Some (Inr (file_entry_path, file_entry_path_size)) \<Rightarrow>
               (case libfsfat_volume_get_file_entry_by_utf8_path U C A T X B (mfs_fsfat_volume mfs)
                       (Some file_entry_path) (length (c_string file_entry_path)) fsfat_file_entry of
                  None \<Rightarrow> None
                | Some (Inl e) \<Rightarrow> Some (Inl RUNTIME_GET_FAILED)
                | Some (Inr (v, found, fe)) \<Rightarrow>
                    Some (Inr (mfs\<lparr> mfs_fsfat_volume := Some v \<rparr>, found, fe)))))"

text \<open>The buffer of the escaped name, and its size. A file entry without a name has none.\<close>

definition mount_file_system_get_filename_from_file_entry ::
  "(nat \<Rightarrow> u8) \<Rightarrow> una_ops \<Rightarrow> (u32 \<Rightarrow> nat \<Rightarrow> nat \<Rightarrow> u8 list option) \<Rightarrow> ('arr, nat) array_ops \<Rightarrow>
   ('h, 'arr, 'cache) mount_file_system option \<Rightarrow> ('arr, 'cache, 'xarr, 's) file_entry option \<Rightarrow>
   (u8 list \<times> nat) result option" where
  "mount_file_system_get_filename_from_file_entry junk U put A file_system fsfat_file_entry =
     (if file_system = None then Some (Inl ARGUMENT_INVALID_VALUE)
      else
        (case libfsfat_file_entry_get_utf8_name_size U A fsfat_file_entry of
           Inl e \<Rightarrow> Some (Inl RUNTIME_GET_FAILED)
         | Inr None \<Rightarrow> Some (Inl RUNTIME_GET_FAILED)
         | Inr (Some file_entry_name_size) \<Rightarrow>
             if file_entry_name_size = 0 \<or> file_entry_name_size > SSIZE_MAX
             then Some (Inl RUNTIME_VALUE_OUT_OF_BOUNDS)
             else
               (case libfsfat_file_entry_get_utf8_name U A fsfat_file_entry file_entry_name_size of
                  Inl e \<Rightarrow> Some (Inl RUNTIME_GET_FAILED)
                | Inr None \<Rightarrow> Some (Inl RUNTIME_GET_FAILED)
                | Inr (Some file_entry_name) \<Rightarrow>
                    (case mount_path_string_copy_from_file_entry_path junk U put (Some file_entry_name)
                            (file_entry_name_size - 1) of
                       None \<Rightarrow> None
                     | Some (Inl e) \<Rightarrow> Some (Inl RUNTIME_COPY_FAILED)
                     | Some (Inr r) \<Rightarrow> Some (Inr r)))))"

section \<open>The mounted file entries\<close>

record ('h, 'arr, 'cache, 'xarr, 's) mount_file_entry =
  me_file_system :: "('h, 'arr, 'cache) mount_file_system"
  me_name :: "u8 list option"
  me_name_size :: nat
  me_fsfat_file_entry :: "('arr, 'cache, 'xarr, 's) file_entry option"

definition mount_file_entry_initialize ::
  "('h, 'arr, 'cache, 'xarr, 's) mount_file_entry option \<Rightarrow> ('h, 'arr, 'cache) mount_file_system option \<Rightarrow>
   u8 list option \<Rightarrow> nat \<Rightarrow> ('arr, 'cache, 'xarr, 's) file_entry option \<Rightarrow>
   ('h, 'arr, 'cache, 'xarr, 's) mount_file_entry result" where
  "mount_file_entry_initialize file_entry file_system name name_length fsfat_file_entry =
     (if file_entry \<noteq> None then Inl RUNTIME_VALUE_ALREADY_SET
      else
        (case file_system of
           None \<Rightarrow> Inl ARGUMENT_INVALID_VALUE
         | Some mfs \<Rightarrow>
             if name_length > SSIZE_MAX - 1 then Inl ARGUMENT_VALUE_EXCEEDS_MAXIMUM
             else
               (case name of
                  None \<Rightarrow>
                    Inr \<lparr> me_file_system = mfs, me_name = None, me_name_size = 0,
                          me_fsfat_file_entry = fsfat_file_entry \<rparr>
                | Some name \<Rightarrow>
                    if name_length > length name then Inl MEMORY_FAULT
                    else
                      Inr \<lparr> me_file_system = mfs, me_name = Some (take name_length name @ [0]),
                            me_name_size = name_length + 1, me_fsfat_file_entry = fsfat_file_entry \<rparr>)))"

text \<open>
  The conversion of a FILETIME to nanoseconds since 1970. The product is a signed 64-bit value
  in the code; the word holds the bits of the value it wraps to.
\<close>

definition posix_time_of_filetime :: "u64 \<Rightarrow> u64" where
  "posix_time_of_filetime filetime =
     (if filetime \<noteq> 0 then (filetime - 116444736000000000) * 100 else 0)"

text \<open>The functions for the three times, over the function of the library.\<close>

definition mount_file_entry_time ::
  "(('arr, 'cache, 'xarr, 's) file_entry option \<Rightarrow> u64 option result) \<Rightarrow>
   ('h, 'arr, 'cache, 'xarr, 's) mount_file_entry option \<Rightarrow> u64 result" where
  "mount_file_entry_time get_time file_entry =
     (case file_entry of
        None \<Rightarrow> Inl ARGUMENT_INVALID_VALUE
      | Some me \<Rightarrow>
          (case get_time (me_fsfat_file_entry me) of
             Inl e \<Rightarrow> Inl RUNTIME_GET_FAILED
           | Inr None \<Rightarrow> Inl RUNTIME_GET_FAILED
           | Inr (Some filetime) \<Rightarrow> Inr (posix_time_of_filetime filetime)))"

definition mount_file_entry_get_creation_time ::
  "('h, 'arr, 'cache, 'xarr, 's) mount_file_entry option \<Rightarrow> u64 result" where
  "mount_file_entry_get_creation_time = mount_file_entry_time libfsfat_file_entry_get_creation_time"

definition mount_file_entry_get_access_time ::
  "('h, 'arr, 'cache, 'xarr, 's) mount_file_entry option \<Rightarrow> u64 result" where
  "mount_file_entry_get_access_time = mount_file_entry_time libfsfat_file_entry_get_access_time"

definition mount_file_entry_get_modification_time ::
  "('h, 'arr, 'cache, 'xarr, 's) mount_file_entry option \<Rightarrow> u64 result" where
  "mount_file_entry_get_modification_time =
     mount_file_entry_time libfsfat_file_entry_get_modification_time"

definition mount_file_entry_get_inode_change_time ::
  "('h, 'arr, 'cache, 'xarr, 's) mount_file_entry option \<Rightarrow> u64 result" where
  "mount_file_entry_get_inode_change_time file_entry =
     (case file_entry of
        None \<Rightarrow> Inl ARGUMENT_INVALID_VALUE
      | Some me \<Rightarrow>
          (case mount_file_system_get_mounted_timestamp (Some (me_file_system me)) of
             Inl e \<Rightarrow> Inl RUNTIME_GET_FAILED
           | Inr t \<Rightarrow> Inr t))"

definition S_IFDIR :: u16 where "S_IFDIR = 0x4000"
definition S_IFREG :: u16 where "S_IFREG = 0x8000"

text \<open>The octal modes 0555 and 0444.\<close>

definition mount_file_entry_get_file_mode ::
  "('h, 'arr, 'cache, 'xarr, 's) mount_file_entry option \<Rightarrow> u16 result" where
  "mount_file_entry_get_file_mode file_entry =
     (case file_entry of
        None \<Rightarrow> Inl ARGUMENT_INVALID_VALUE
      | Some me \<Rightarrow>
          if me_fsfat_file_entry me = None then Inr (S_IFDIR OR 0x16d) else Inr (S_IFREG OR 0x124))"

definition mount_file_entry_get_name_size ::
  "('h, 'arr, 'cache, 'xarr, 's) mount_file_entry option \<Rightarrow> nat result" where
  "mount_file_entry_get_name_size file_entry =
     (case file_entry of
        None \<Rightarrow> Inl ARGUMENT_INVALID_VALUE
      | Some me \<Rightarrow> Inr (me_name_size me))"

text \<open>The bytes that are stored in the string.\<close>

definition mount_file_entry_get_name ::
  "('h, 'arr, 'cache, 'xarr, 's) mount_file_entry option \<Rightarrow> nat option \<Rightarrow> u8 list result" where
  "mount_file_entry_get_name file_entry string_size =
     (case file_entry of
        None \<Rightarrow> Inl ARGUMENT_INVALID_VALUE
      | Some me \<Rightarrow>
     (case me_name me of
        None \<Rightarrow> Inl RUNTIME_VALUE_MISSING
      | Some name \<Rightarrow>
     (case string_size of
        None \<Rightarrow> Inl ARGUMENT_INVALID_VALUE
      | Some string_size \<Rightarrow>
          if string_size > SSIZE_MAX then Inl ARGUMENT_VALUE_EXCEEDS_MAXIMUM
          else if string_size < me_name_size me then Inl ARGUMENT_VALUE_TOO_SMALL
          else if me_name_size me > length name then Inl MEMORY_FAULT
          else Inr ((take (me_name_size me) name)[me_name_size me - 1 := 0]))))"

definition mount_file_entry_get_number_of_sub_file_entries ::
  "('arr, nat) array_ops \<Rightarrow> ('tarr, node_entry) array_ops \<Rightarrow>
   ('h, 'arr, 'cache, 'xarr, 's) mount_file_entry option \<Rightarrow>
   (('h, 'arr, 'cache, 'xarr, 's) mount_file_entry \<times> int) result option" where
  "mount_file_entry_get_number_of_sub_file_entries A T file_entry =
     (case file_entry of
        None \<Rightarrow> Some (Inl ARGUMENT_INVALID_VALUE)
      | Some me \<Rightarrow>
          (case libfsfat_file_entry_get_number_of_sub_file_entries A T (me_fsfat_file_entry me) of
             None \<Rightarrow> None
           | Some (Inl e) \<Rightarrow> Some (Inl RUNTIME_GET_FAILED)
           | Some (Inr (fe, number_of_sub_file_entries)) \<Rightarrow>
               Some (Inr (me\<lparr> me_fsfat_file_entry := Some fe \<rparr>, number_of_sub_file_entries))))"

text \<open>The entry, with the directory that the library has read, and its sub file entry.\<close>

definition mount_file_entry_get_sub_file_entry_by_index ::
  "(nat \<Rightarrow> u8) \<Rightarrow> una_ops \<Rightarrow> (u32 \<Rightarrow> nat \<Rightarrow> nat \<Rightarrow> u8 list option) \<Rightarrow> ('arr, nat) array_ops \<Rightarrow>
   ('tarr, node_entry) array_ops \<Rightarrow> ('xarr, extent) array_ops \<Rightarrow>
   ('h, 'arr, 'cache, 'xarr, 's) mount_file_entry option \<Rightarrow> int \<Rightarrow>
   ('h, 'arr, 'cache, 'xarr, 's) mount_file_entry option \<Rightarrow>
   (('h, 'arr, 'cache, 'xarr, 's) mount_file_entry \<times> ('h, 'arr, 'cache, 'xarr, 's) mount_file_entry)
     result option" where
  "mount_file_entry_get_sub_file_entry_by_index junk U put A T X file_entry sub_file_entry_index
       sub_file_entry =
     (case file_entry of
        None \<Rightarrow> Some (Inl ARGUMENT_INVALID_VALUE)
      | Some me \<Rightarrow>
          if sub_file_entry \<noteq> None then Some (Inl RUNTIME_VALUE_ALREADY_SET)
          else
            (case libfsfat_file_entry_get_sub_file_entry_by_index A T X (me_fsfat_file_entry me)
                    sub_file_entry_index None of
               None \<Rightarrow> None
             | Some (Inl e) \<Rightarrow> Some (Inl RUNTIME_GET_FAILED)
             | Some (Inr (fe, sub_fsfat_file_entry)) \<Rightarrow>
                 (case mount_file_system_get_filename_from_file_entry junk U put A (Some (me_file_system me))
                         (Some sub_fsfat_file_entry) of
                    None \<Rightarrow> None
                  | Some (Inl e) \<Rightarrow> Some (Inl RUNTIME_GET_FAILED)
                  | Some (Inr (filename, filename_size)) \<Rightarrow>
                      (case mount_file_entry_initialize None (Some (me_file_system me)) (Some filename)
                              (filename_size - 1) (Some sub_fsfat_file_entry) of
                         Inl e \<Rightarrow> Some (Inl RUNTIME_INITIALIZE_FAILED)
                       | Inr sub \<Rightarrow> Some (Inr (me\<lparr> me_fsfat_file_entry := Some fe \<rparr>, sub))))))"

text \<open>The entry, with the stream that the library has opened, and the bytes.\<close>

definition mount_file_entry_read_buffer_at_offset ::
  "('tarr, node_entry) array_ops \<Rightarrow> ('xarr, extent) array_ops \<Rightarrow> 's stream_ops \<Rightarrow>
   ('h, 'arr, 'cache, 'xarr, 's) mount_file_entry option \<Rightarrow> nat \<Rightarrow> off64 \<Rightarrow>
   (('h, 'arr, 'cache, 'xarr, 's) mount_file_entry \<times> u8 list) result option" where
  "mount_file_entry_read_buffer_at_offset T X S file_entry buffer_size offset =
     (case file_entry of
        None \<Rightarrow> Some (Inl ARGUMENT_INVALID_VALUE)
      | Some me \<Rightarrow>
          (case libfsfat_file_entry_read_buffer_at_offset T X S (me_fsfat_file_entry me) buffer_size offset of
             None \<Rightarrow> None
           | Some (Inl e) \<Rightarrow> Some (Inl IO_READ_FAILED)
           | Some (Inr (fe, bytes)) \<Rightarrow> Some (Inr (me\<lparr> me_fsfat_file_entry := Some fe \<rparr>, bytes))))"

definition mount_file_entry_get_size ::
  "('h, 'arr, 'cache, 'xarr, 's) mount_file_entry option \<Rightarrow> u64 result" where
  "mount_file_entry_get_size file_entry =
     (case file_entry of
        None \<Rightarrow> Inl ARGUMENT_INVALID_VALUE
      | Some me \<Rightarrow>
          (case libfsfat_file_entry_get_size (me_fsfat_file_entry me) of
             Inl e \<Rightarrow> Inl RUNTIME_GET_FAILED
           | Inr n \<Rightarrow> Inr n))"

section \<open>The times of the mounted file entries\<close>

lemma utc_offset_bounds: "utc_offset_minutes off \<le> 960"
  by (simp add: utc_offset_minutes_def) (use mod_less_divisor [of 128 "unat off"] in linarith)

lemma timestamp_bound:
  assumes "libfsfat_date_time_get_timestamp date time fraction off = Inr ts"
    and "0 < counted_days (date_year date) (date_month date) (date_day date) \<or> 0 \<le> utc_offset_minutes off"
  shows "unat ts < 2 ^ 49"
proof -
  let ?days = "counted_days (date_year date) (date_month date) (date_day date)"
  obtain ts' where ts': "libfsfat_date_time_get_timestamp date time fraction off = Inr ts'"
    and n: "int (unat ts') = (((int ?days * 24 + int (time_hours time)) * 60 + int (time_minutes time)
          + utc_offset_minutes off) * 60 + int (time_seconds time)) * 100 + int (unat fraction)"
    by (rule timestamp_nat [OF refl assms(2)])
  have "?days < 48000" by (rule counted_days_le) (use date_bounds in auto)
  moreover have "unat fraction < 65536" using unsigned_less [of fraction] by simp
  ultimately have "int (unat ts') < 2 ^ 49"
    using date_bounds(4-6) [of time] utc_offset_bounds [of off] unfolding n
    by (simp add: algebra_simps del: of_nat_unat)
  moreover have "ts' = ts" using assms(1) ts' by simp
  ultimately show ?thesis by (simp only: of_nat_less_numeral_power_cancel_iff)
qed

text \<open>A value below 2 ^ 49 lies before 1678 as a FILETIME, and its product has no 64 bits.\<close>

lemma small_filetime:
  assumes "t \<noteq> 0" "unat t < 2 ^ 49"
  defines "product \<equiv> (int (unat t) - 116444736000000000) * 100"
  shows "product < - (2 ^ 63)" and "sint (posix_time_of_filetime t) = product + 2 ^ 64"
    and "6802270473709551616 < product + 2 ^ 64"
proof -
  have t: "0 < int (unat t)" "int (unat t) < 2 ^ 49" using assms(1,2)
    by (simp_all only: of_nat_0_less_iff unat_gt_0 of_nat_less_numeral_power_cancel_iff simp_thms)
  then show p: "product < - (2 ^ 63)" and b: "6802270473709551616 < product + 2 ^ 64"
    by (simp_all add: product_def)
  have "posix_time_of_filetime t = word_of_int product"
    using assms(1) by (simp add: posix_time_of_filetime_def product_def)
  then have "sint (posix_time_of_filetime t) = (product + 2 ^ 63) mod 2 ^ 64 - 2 ^ 63"
    by (simp add: int_word_sint)
  also have "(product + 2 ^ 63) mod 2 ^ 64 = product + 2 ^ 63 + 2 ^ 64"
  proof -
    have "(product + 2 ^ 63) mod 2 ^ 64 = (product + 2 ^ 63 + 2 ^ 64) mod 2 ^ 64" by (rule mod_add_self2 [symmetric])
    also have "\<dots> = product + 2 ^ 63 + 2 ^ 64"
      by (rule mod_pos_pos_trivial) (use p b in simp)+
    finally show ?thesis .
  qed
  finally show "sint (posix_time_of_filetime t) = product + 2 ^ 64" by simp
qed

text \<open>
  The mounted times are wrong. The library gives a time in intervals of 10 milliseconds
  since 1980, and the tool takes it for a FILETIME. Whatever date and time a directory entry
  holds, unless the library's value is zero, the product with which the tool makes it a time in nanoseconds is no signed
  64-bit value, and if it wraps the file seems to be created after July 2185.
\<close>
theorem mount_creation_time_overflows:
  assumes "me_fsfat_file_entry me = Some fe" and "fe_directory_entry fe = Some de"
    and "0 < counted_days (date_year (de_creation_date de)) (date_month (de_creation_date de)) (date_day (de_creation_date de)) \<or>
      0 \<le> utc_offset_minutes (ucast (de_creation_time_utc_offset de))"
    and "libfsfat_file_entry_get_creation_time (Some fe) = Inr (Some t)" and "t \<noteq> 0"
  shows "(int (unat t) - 116444736000000000) * 100 < - (2 ^ 63) \<and>
    (\<exists>posix_time. mount_file_entry_get_creation_time (Some me) = Inr posix_time \<and>
       sint posix_time = (int (unat t) - 116444736000000000) * 100 + 2 ^ 64 \<and>
       sint posix_time div 1000000000 \<ge> 6802270473)"
proof -
  have "libfsfat_date_time_get_timestamp (de_creation_date de) (de_creation_time de)
      (ucast (de_creation_time_fraction de)) (ucast (de_creation_time_utc_offset de)) = Inr t"
    using assms(2,4)
    by (auto simp: libfsfat_file_entry_get_creation_time_def directory_entry_value_def
        libfsfat_directory_entry_get_creation_time_def split: sum.splits)
  from timestamp_bound [OF this assms(3)] have t: "unat t < 2 ^ 49" .
  have "mount_file_entry_get_creation_time (Some me) = Inr (posix_time_of_filetime t)"
    using assms(1,4) by (simp add: mount_file_entry_get_creation_time_def mount_file_entry_time_def)
  moreover have "6802270473 \<le> ((int (unat t) - 116444736000000000) * 100 + 2 ^ 64) div 1000000000"
    using small_filetime(3) [OF assms(5) t] by simp
  ultimately show ?thesis using small_filetime(1,2) [OF assms(5) t] by metis
qed

section \<open>The names of the mounted file entries\<close>

lemma c_string_cut:
  assumes "0 \<notin> set s" "length s \<le> n"
  shows "c_string (take n (string_buffer junk s (n + 1)) @ [0]) = s"
proof -
  have nonzero: "\<forall>b \<in> set s. b \<noteq> 0" using assms(1) by metis
  obtain r where "take n (string_buffer junk s (n + 1)) @ [0] = s @ 0 # r"
  proof (cases "n - length s")
    case 0
    then have "n = length s" using assms(2) by simp
    then show ?thesis using that [of "[]"] by (simp add: string_buffer_def)
  next
    case (Suc m)
    then show ?thesis using that [of "take m (map junk [length s + 1..<n + 1]) @ [0]"] assms(2)
      by (simp add: string_buffer_def)
  qed
  then show ?thesis using nonzero by (simp add: c_string_def takeWhile_append2)
qed

lemma sub_file_entry_named:
  assumes "utf8_coding valid enc U put" and "\<forall>c \<in> set cs. valid c \<and> c \<noteq> 0" and "cs \<noteq> []"
    and "name = concat (map enc cs)" "length name \<le> (SSIZE_MAX - 1) div 10"
    and "libfsfat_file_entry_get_sub_file_entry_by_index A T X (me_fsfat_file_entry me) i None = Some (Inr (fe, sub_fe))"
    and "libfsfat_file_entry_get_utf8_name_size U A (Some sub_fe) = Inr (Some (length name + 1))"
    and "libfsfat_file_entry_get_utf8_name U A (Some sub_fe) (length name + 1) = Inr (Some (name @ [0]))"
  shows "\<exists>sub buffer. mount_file_entry_get_sub_file_entry_by_index junk U put A T X (Some me) i None =
      Some (Inr (me\<lparr> me_fsfat_file_entry := Some fe \<rparr>, sub)) \<and>
    me_fsfat_file_entry sub = Some sub_fe \<and> me_name sub = Some buffer \<and>
    c_string buffer = concat (map (shown_character enc) cs) \<and>
    mount_file_entry_get_name_size (Some sub) = Inr (10 * length name + 1) \<and>
    mount_file_entry_get_name (Some sub) (Some (10 * length name + 1)) = Inr buffer"
proof -
  let ?shown = "concat (map (shown_character enc) cs)" and ?n = "10 * length name"
  let ?filename = "string_buffer junk ?shown (?n + 1)"
  let ?buffer = "take ?n ?filename @ [0]"
  have bound: "\<not> ?n > SSIZE_MAX - 1" "\<not> ?n + 1 > SSIZE_MAX" "\<not> length name + 1 > SSIZE_MAX"
    using assms(5) by (simp_all add: SSIZE_MAX_def)
  have filename: "mount_file_system_get_filename_from_file_entry junk U put A (Some (me_file_system me))
      (Some sub_fe) = Some (Inr (?filename, ?n + 1))"
    using assms(5,7,8) bound(3) escape_name [OF assms(1,2,3), of junk "[0]"]
    by (simp add: mount_file_system_get_filename_from_file_entry_def assms(4))
  have short: "length ?shown \<le> ?n"
    using length_shown_characters(2) [OF assms(1), of cs] assms(2,4) by simp
  have size: "length ?filename = ?n + 1" by (rule length_string_buffer) (use short in linarith)
  have "c_string ?buffer = ?shown"
    by (rule c_string_cut [OF nonzero_shown_characters(1) [OF assms(1,2)] short])
  moreover have "mount_file_entry_initialize None (Some (me_file_system me)) (Some ?filename) ?n (Some sub_fe) =
      Inr \<lparr> me_file_system = me_file_system me, me_name = Some ?buffer, me_name_size = ?n + 1,
            me_fsfat_file_entry = Some sub_fe \<rparr>"
    using bound size by (simp add: mount_file_entry_initialize_def)
  moreover have "length ?buffer = ?n + 1" "?buffer[?n := 0] = ?buffer"
    using size by (simp_all add: list_update_append)
  ultimately show ?thesis
    using assms(6) filename bound
    by (simp add: mount_file_entry_get_sub_file_entry_by_index_def
        mount_file_entry_get_name_size_def mount_file_entry_get_name_def)
qed

text \<open>
  A directory is listed under the escaped names of its entries. The sub file entry of an
  index is the one of the library, and if its name is the UTF-8 coding of non-zero characters
  it gets a name buffer that holds the escaped name. The size it reports is not the size of
  the name but the worst case of the buffer, ten bytes for each byte of the name.
\<close>
theorem mount_sub_file_entry_name:
  assumes "utf8_coding valid enc U put" and "\<forall>c \<in> set cs. valid c \<and> c \<noteq> 0" and "cs \<noteq> []"
    and "name = concat (map enc cs)" "length name \<le> (SSIZE_MAX - 1) div 10"
    and "libfsfat_file_entry_get_sub_file_entry_by_index A T X (me_fsfat_file_entry me) i None = Some (Inr (fe, sub_fe))"
    and "libfsfat_file_entry_get_utf8_name_size U A (Some sub_fe) = Inr (Some (length name + 1))"
    and "libfsfat_file_entry_get_utf8_name U A (Some sub_fe) (length name + 1) = Inr (Some (name @ [0]))"
  shows "\<exists>sub buffer. mount_file_entry_get_sub_file_entry_by_index junk U put A T X (Some me) i None =
      Some (Inr (me\<lparr> me_fsfat_file_entry := Some fe \<rparr>, sub)) \<and>
    me_fsfat_file_entry sub = Some sub_fe \<and> me_name sub = Some buffer \<and>
    c_string buffer = concat (map (shown_character enc) cs) \<and>
    mount_file_entry_get_name_size (Some sub) = Inr (10 * length name + 1) \<and>
    mount_file_entry_get_name (Some sub) (Some (10 * length name + 1)) = Inr buffer"
  by (rule sub_file_entry_named [OF assms])

section \<open>A concrete mounted file\<close>

definition example_mount :: "(bool, nat option list, unit) mount_file_system" where
  "example_mount = \<lparr> mfs_mounted_timestamp = 5, mfs_fsfat_volume = None \<rparr>"

definition example_mounted ::
  "(nat option list, unit, extent option list, stream_state) file_entry \<Rightarrow>
   (bool, nat option list, unit, extent option list, stream_state) mount_file_entry" where
  "example_mounted fe = \<lparr> me_file_system = example_mount, me_name = None, me_name_size = 0,
     me_fsfat_file_entry = Some fe \<rparr>"

lemma mount_creation_time_overflows_witness:
  "\<exists>posix_time. mount_file_entry_get_creation_time
       (Some (example_mounted (witness_file\<lparr> fe_directory_entry := Some (example_file\<lparr> de_creation_date := 0x21 \<rparr>) \<rparr>))) =
     Inr posix_time \<and> sint posix_time div 1000000000 \<ge> 6802270473"
proof -
  let ?fe = "witness_file\<lparr> fe_directory_entry := Some (example_file\<lparr> de_creation_date := 0x21 \<rparr>) \<rparr>"
  have t: "libfsfat_file_entry_get_creation_time (Some ?fe) = Inr (Some 276480000)"
    by (simp add: libfsfat_file_entry_get_creation_time_def directory_entry_value_def example_file_def
        libfsfat_directory_entry_get_creation_time_def directory_entry_zero_def) code_simp
  have "me_fsfat_file_entry (example_mounted ?fe) = Some ?fe" by (simp add: example_mounted_def)
  from mount_creation_time_overflows [OF this _ _ t] show ?thesis
    by (simp add: example_file_def directory_entry_zero_def utc_offset_minutes_def) blast
qed

lemma mount_sub_file_entry_name_witness:
  "\<exists>me sub buffer. mount_file_entry_get_sub_file_entry_by_index (\<lambda>_. 0) ascii_una ascii_put list_array
       (list_array :: (node_entry option list, node_entry) array_ops) list_array
       (Some (example_mounted (witness_file\<lparr> fe_directory := Some (example_directory [Some 0]) \<rparr>))) 0 None =
     Some (Inr (me, sub)) \<and> me_name sub = Some buffer \<and> c_string buffer = [0x41]"
proof -
  let ?fe = "witness_file\<lparr> fe_directory := Some (example_directory [Some 0]) \<rparr>"
  let ?T = "list_array :: (node_entry option list, node_entry) array_ops"
  obtain sub_fe where sub: "libfsfat_file_entry_get_sub_file_entry_by_index list_array ?T list_array (Some ?fe) 0 None =
        Some (Inr (?fe, sub_fe))"
      "libfsfat_file_entry_get_utf8_name_size ascii_una list_array (Some sub_fe) = Inr (Some (length [0x41 :: u8] + 1))"
      "libfsfat_file_entry_get_utf8_name ascii_una list_array (Some sub_fe) (length [0x41 :: u8] + 1) =
        Inr (Some ([0x41] @ [0]))"
    by (simp add: libfsfat_file_entry_get_sub_file_entry_by_index_def entry_with_directory_def
        libfsfat_internal_file_entry_get_sub_file_entry_by_index_def libfsfat_directory_get_file_entry_by_index_def
        list_array_def example_directory_def sub_file_entry_of_def libfsfat_directory_entry_clone_def
        libfsfat_directory_entry_get_name_def example_file_def directory_entry_zero_def short_name_string_def
        libfsfat_directory_entry_get_identifier_def witness_file_def stream_witness_io_def
        libfsfat_file_entry_initialize_def directory_entry_values_def libfsfat_directory_entry_get_file_attribute_flags_def
        libfsfat_directory_entry_get_data_start_cluster_def libfsfat_directory_entry_get_data_size_def
        libfsfat_directory_entry_get_valid_data_size_def libfsfat_file_entry_get_utf8_name_size_def
        directory_entry_value_def libfsfat_directory_entry_get_utf8_name_size_def convert_name_def
        entry_with_name_def ascii_una_def libfsfat_file_entry_get_utf8_name_def
        libfsfat_directory_entry_get_utf8_name_def)
  have shown: "shown_character (\<lambda>c. [ucast c]) 0x41 = [0x41]" by code_simp
  have "me_fsfat_file_entry (example_mounted ?fe) = Some ?fe" by (simp add: example_mounted_def)
  with sub(1) have "libfsfat_file_entry_get_sub_file_entry_by_index list_array ?T list_array
      (me_fsfat_file_entry (example_mounted ?fe)) 0 None = Some (Inr (?fe, sub_fe))" by simp
  from mount_sub_file_entry_name [OF ascii_coding, of "[0x41]" "[0x41]", OF _ _ _ _ this sub(2,3), of "\<lambda>_. 0"]
  show ?thesis by (simp add: SSIZE_MAX_def shown) blast
qed

end
