(* ===== verification/Mount_Handle.thy ===== *)
theory Mount_Handle
  imports Mount_Tool
begin

text \<open>
  The handle of the tool that mounts a volume, \<^verbatim>\<open>fsfattools/mount_handle.c\<close>: it reads the
  options, opens and closes the volume and gives the file entry of a path. The variant for
  systems other than Windows, with strings of bytes, is modelled.
\<close>

section \<open>Decimal values\<close>

fun decimal_digits :: "u8 list \<Rightarrow> nat \<Rightarrow> nat \<Rightarrow> u64 \<Rightarrow> u64 result" where
  "decimal_digits [] string_index maximum_string_index value_64bit = Inr value_64bit"
| "decimal_digits (c # cs) string_index maximum_string_index value_64bit =
     (if c = 0 then Inr value_64bit
      else if string_index > maximum_string_index then Inl ARGUMENT_VALUE_TOO_LARGE
      else if c \<ge> 0x30 \<and> c \<le> 0x39
      then decimal_digits cs (string_index + 1) maximum_string_index (value_64bit * 10 + ucast (c - 0x30))
      else Inl RUNTIME_UNSUPPORTED_VALUE)"

text \<open>The string is the array of characters with its terminator.\<close>

definition mount_handle_system_string_copy_from_64_bit_in_decimal ::
  "u8 list option \<Rightarrow> nat \<Rightarrow> u64 result" where
  "mount_handle_system_string_copy_from_64_bit_in_decimal string string_size =
     (case string of
        None \<Rightarrow> Inl ARGUMENT_INVALID_VALUE
      | Some string \<Rightarrow>
          if string_size > SSIZE_MAX then Inl ARGUMENT_VALUE_EXCEEDS_MAXIMUM
          else if string = [] \<or> string_size > length string then Inl MEMORY_FAULT
          else
            let signed = (string ! 0 = 0x2d \<or> string ! 0 = 0x2b);
                string_index = (if signed then 1 else 0);
                maximum_string_index = (if signed then 21 else 20)
            in (case decimal_digits (drop string_index (take string_size string)) string_index
                       maximum_string_index 0 of
                  Inl e \<Rightarrow> Inl e
                | Inr value_64bit \<Rightarrow> Inr (if string ! 0 = 0x2d then - value_64bit else value_64bit)))"

section \<open>The handle\<close>

record ('h, 'arr, 'cache) mount_handle =
  mh_file_system :: "('h, 'arr, 'cache) mount_file_system option"
  mh_file_system_index :: int
  mh_volume_offset :: off64
  mh_file_io_handle :: "'h option"
  mh_password :: "u8 list option"
  mh_password_length :: nat
  mh_recovery_password :: "u8 list option"
  mh_recovery_password_length :: nat

definition mount_handle_initialize ::
  "(u64 \<times> u64) option \<Rightarrow> ('h, 'arr, 'cache) mount_handle option \<Rightarrow> ('h, 'arr, 'cache) mount_handle result" where
  "mount_handle_initialize time_structure mount_handle =
     (if mount_handle \<noteq> None then Inl RUNTIME_VALUE_ALREADY_SET
      else
        (case mount_file_system_initialize time_structure None of
           Inl e \<Rightarrow> Inl RUNTIME_INITIALIZE_FAILED
         | Inr mfs \<Rightarrow>
             Inr \<lparr> mh_file_system = Some mfs, mh_file_system_index = 0, mh_volume_offset = 0,
                   mh_file_io_handle = None, mh_password = None, mh_password_length = 0,
                   mh_recovery_password = None, mh_recovery_password_length = 0 \<rparr>))"

definition mount_handle_signal_abort ::
  "('h, 'arr, 'cache) mount_handle option \<Rightarrow> ('h, 'arr, 'cache) mount_handle result" where
  "mount_handle_signal_abort mount_handle =
     (case mount_handle of
        None \<Rightarrow> Inl ARGUMENT_INVALID_VALUE
      | Some mh \<Rightarrow>
          (case mount_file_system_signal_abort (mh_file_system mh) of
             Inl e \<Rightarrow> Inl RUNTIME_SET_FAILED
           | Inr mfs \<Rightarrow> Inr (mh\<lparr> mh_file_system := Some mfs \<rparr>)))"

text \<open>
  The options are C strings, given without their terminator; the length of \<open>NULL\<close> is a memory
  fault.
\<close>

definition mount_handle_set_file_system_index ::
  "('h, 'arr, 'cache) mount_handle option \<Rightarrow> u8 list option \<Rightarrow> ('h, 'arr, 'cache) mount_handle result" where
  "mount_handle_set_file_system_index mount_handle string =
     (case mount_handle of
        None \<Rightarrow> Inl ARGUMENT_INVALID_VALUE
      | Some mh \<Rightarrow>
     (case string of
        None \<Rightarrow> Inl MEMORY_FAULT
      | Some string \<Rightarrow>
          (case mount_handle_system_string_copy_from_64_bit_in_decimal (Some (string @ [0]))
                  (length string + 1) of
             Inl e \<Rightarrow> Inl RUNTIME_COPY_FAILED
           | Inr value_64bit \<Rightarrow>
               if value_64bit = 0 \<or> value_64bit > 100 then Inl RUNTIME_VALUE_OUT_OF_BOUNDS
               else Inr (mh\<lparr> mh_file_system_index := uint value_64bit \<rparr>))))"

definition mount_handle_set_offset ::
  "('h, 'arr, 'cache) mount_handle option \<Rightarrow> u8 list option \<Rightarrow> ('h, 'arr, 'cache) mount_handle result" where
  "mount_handle_set_offset mount_handle string =
     (case mount_handle of
        None \<Rightarrow> Inl ARGUMENT_INVALID_VALUE
      | Some mh \<Rightarrow>
     (case string of
        None \<Rightarrow> Inl MEMORY_FAULT
      | Some string \<Rightarrow>
          (case mount_handle_system_string_copy_from_64_bit_in_decimal (Some (string @ [0]))
                  (length string + 1) of
             Inl e \<Rightarrow> Inl RUNTIME_COPY_FAILED
           | Inr value_64bit \<Rightarrow> Inr (mh\<lparr> mh_volume_offset := value_64bit \<rparr>))))"

definition mount_handle_set_password ::
  "('h, 'arr, 'cache) mount_handle option \<Rightarrow> u8 list option \<Rightarrow> ('h, 'arr, 'cache) mount_handle result" where
  "mount_handle_set_password mount_handle string =
     (case mount_handle of
        None \<Rightarrow> Inl ARGUMENT_INVALID_VALUE
      | Some mh \<Rightarrow>
          (case string of
             None \<Rightarrow> Inl ARGUMENT_INVALID_VALUE
           | Some string \<Rightarrow>
               Inr (mh\<lparr> mh_password := Some string, mh_password_length := length string \<rparr>)))"

definition mount_handle_set_recovery_password ::
  "('h, 'arr, 'cache) mount_handle option \<Rightarrow> u8 list option \<Rightarrow> ('h, 'arr, 'cache) mount_handle result" where
  "mount_handle_set_recovery_password mount_handle string =
     (case mount_handle of
        None \<Rightarrow> Inl ARGUMENT_INVALID_VALUE
      | Some mh \<Rightarrow>
          (case string of
             None \<Rightarrow> Inl ARGUMENT_INVALID_VALUE
           | Some string \<Rightarrow>
               Inr (mh\<lparr> mh_recovery_password := Some string,
                        mh_recovery_password_length := length string \<rparr>)))"

section \<open>Opening and closing\<close>

text \<open>The operations of libbfio on the range of a file.\<close>

record 'h range_ops =
  range_initialize :: "'h option"
  range_set_name :: "'h \<Rightarrow> u8 list \<Rightarrow> nat \<Rightarrow> 'h option"
  range_set :: "'h \<Rightarrow> off64 \<Rightarrow> u64 \<Rightarrow> 'h option"

text \<open>A call that fails leaves the handle as it is and frees what it has made.\<close>

definition mount_handle_open ::
  "(nat \<Rightarrow> u8) \<Rightarrow> ('cache, 'value, 'arr directory) cache_ops \<Rightarrow> ('arr, nat) array_ops \<Rightarrow>
   ('tarr, node_entry) array_ops \<Rightarrow> 'h bfio_ops \<Rightarrow> 'h range_ops \<Rightarrow>
   ('h, 'arr, 'cache) mount_handle option \<Rightarrow> u8 list option \<Rightarrow>
   ('h, 'arr, 'cache) mount_handle result option" where
  "mount_handle_open junk C A T B R mount_handle filename =
     (case mount_handle of
        None \<Rightarrow> Some (Inl ARGUMENT_INVALID_VALUE)
      | Some mh \<Rightarrow>
     (case filename of
        None \<Rightarrow> Some (Inl ARGUMENT_INVALID_VALUE)
      | Some filename \<Rightarrow>
     (case range_initialize R of
        None \<Rightarrow> Some (Inl RUNTIME_INITIALIZE_FAILED)
      | Some h \<Rightarrow>
     (case range_set_name R h filename (length filename) of
        None \<Rightarrow> Some (Inl IO_OPEN_FAILED)
      | Some h \<Rightarrow>
     (case range_set R h (mh_volume_offset mh) 0 of
        None \<Rightarrow> Some (Inl IO_OPEN_FAILED)
      | Some h \<Rightarrow>
     (case libfsfat_volume_initialize None of
        Inl e \<Rightarrow> Some (Inl RUNTIME_INITIALIZE_FAILED)
      | Inr v \<Rightarrow>
     (case libfsfat_volume_open_file_io_handle junk C A T B (Some v) (Some h) ACCESS_FLAG_READ of
        None \<Rightarrow> None
      | Some (_, _, Inl e) \<Rightarrow> Some (Inl IO_OPEN_FAILED)
      | Some (fsfat_volume, file_io_handle, Inr _) \<Rightarrow>
          (case mount_file_system_set_volume (mh_file_system mh) fsfat_volume of
             Inl e \<Rightarrow> Some (Inl RUNTIME_SET_FAILED)
           | Inr mfs \<Rightarrow>
               Some (Inr (mh\<lparr> mh_file_system := Some mfs, mh_file_io_handle := file_io_handle \<rparr>))))))))))"

text \<open>
  The handle after the call, and its result. Freeing the volume closes the file handle if the
  library has opened it, so the handle is passed on to the call that closes it again.
\<close>

definition mount_handle_close ::
  "'h bfio_ops \<Rightarrow> ('h, 'arr, 'cache) mount_handle option \<Rightarrow>
   ('h, 'arr, 'cache) mount_handle option \<times> unit result" where
  "mount_handle_close B mount_handle =
     (case mount_handle of
        None \<Rightarrow> (None, Inl ARGUMENT_INVALID_VALUE)
      | Some mh \<Rightarrow>
     (case mount_file_system_get_volume (mh_file_system mh) of
        Inl e \<Rightarrow> (Some mh, Inl RUNTIME_GET_FAILED)
      | Inr fsfat_volume \<Rightarrow>
     (case mount_file_system_set_volume (mh_file_system mh) None of
        Inl e \<Rightarrow> (Some mh, Inl RUNTIME_SET_FAILED)
      | Inr mfs \<Rightarrow>
          (case libfsfat_volume_free B fsfat_volume of
             (handle, freed) \<Rightarrow>
               let file_io_handle = (case handle of None \<Rightarrow> mh_file_io_handle mh | Some h \<Rightarrow> Some h);
                   mh = mh\<lparr> mh_file_system := Some mfs, mh_file_io_handle := file_io_handle \<rparr>
               in (case freed of
                     Inl e \<Rightarrow> (Some mh, Inl RUNTIME_FINALIZE_FAILED)
                   | Inr _ \<Rightarrow>
                       (case file_io_handle of
                          None \<Rightarrow> (Some mh, Inl RUNTIME_FINALIZE_FAILED)
                        | Some h \<Rightarrow>
                            (case bfio_handle_close B h of
                               (h, closed) \<Rightarrow>
                                 if \<not> closed
                                 then (Some (mh\<lparr> mh_file_io_handle := Some h \<rparr>), Inl RUNTIME_FINALIZE_FAILED)
                                 else if \<not> bfio_handle_free B h
                                 then (Some (mh\<lparr> mh_file_io_handle := None \<rparr>), Inl RUNTIME_FINALIZE_FAILED)
                                 else (Some (mh\<lparr> mh_file_io_handle := None \<rparr>), Inr ()))))))))"

section \<open>File entries by path\<close>

text \<open>The index of the last separator, or 0, which is searched from an index downwards.\<close>

fun last_separator :: "u8 list \<Rightarrow> nat \<Rightarrow> nat" where
  "last_separator path 0 = 0"
| "last_separator path (Suc path_index) =
     (if path ! Suc path_index = LIBCPATH_SEPARATOR then Suc path_index else last_separator path path_index)"

text \<open>
  The handle after the call and the file entry, \<open>None\<close> if there is none for the path. The path
  is a C string, given without its terminator; the length of the file name is a \<open>size_t\<close>.
\<close>

definition mount_handle_get_file_entry_by_path ::
  "(nat \<Rightarrow> u8) \<Rightarrow> una_ops \<Rightarrow> (u32 \<Rightarrow> nat \<Rightarrow> nat \<Rightarrow> u8 list option) \<Rightarrow>
   ('cache, 'value, 'arr directory) cache_ops \<Rightarrow> ('arr, nat) array_ops \<Rightarrow> ('tarr, node_entry) array_ops \<Rightarrow>
   ('xarr, extent) array_ops \<Rightarrow> 'h bfio_ops \<Rightarrow> ('h, 'arr, 'cache) mount_handle option \<Rightarrow>
   u8 list option \<Rightarrow> ('h, 'arr, 'cache, 'xarr, 's) mount_file_entry option \<Rightarrow>
   (('h, 'arr, 'cache) mount_handle \<times> ('h, 'arr, 'cache, 'xarr, 's) mount_file_entry option) result option" where
  "mount_handle_get_file_entry_by_path junk U put C A T X B mount_handle path file_entry =
     (case mount_handle of
        None \<Rightarrow> Some (Inl ARGUMENT_INVALID_VALUE)
      | Some mh \<Rightarrow>
     (case path of
        None \<Rightarrow> Some (Inl ARGUMENT_INVALID_VALUE)
      | Some string \<Rightarrow>
          if string = [] then Some (Inl RUNTIME_VALUE_OUT_OF_BOUNDS)
          else
            let path = string @ [0]; path_length = length string;
                path_length =
                  (if path_length \<ge> 2 \<and> path ! (path_length - 1) = LIBCPATH_SEPARATOR
                   then path_length - 1 else path_length);
                path_index = last_separator path path_length;
                filename = drop (path_index + 1) path;
                filename_length = unat (of_nat path_length - of_nat (path_index + 1) :: u64)
            in (case mount_file_system_get_file_entry_by_path junk U put C A T X B (mh_file_system mh)
                       (Some path) path_length None of
                  None \<Rightarrow> None
                | Some (Inl e) \<Rightarrow> Some (Inl RUNTIME_GET_FAILED)
                | Some (Inr (mfs, found, fe)) \<Rightarrow>
                    let mh = mh\<lparr> mh_file_system := Some mfs \<rparr>
                    in if \<not> found then Some (Inr (mh, None))
                       else
                         (case mount_file_entry_initialize file_entry (Some mfs) (Some filename)
                                 filename_length (Some fe) of
                            Inl e \<Rightarrow> Some (Inl RUNTIME_INITIALIZE_FAILED)
                          | Inr me \<Rightarrow> Some (Inr (mh, Some me))))))"

section \<open>Reading decimal values\<close>

definition decimal_string :: "nat list \<Rightarrow> u8 list" where
  "decimal_string ds = map (\<lambda>d. 0x30 + of_nat d) ds"

definition decimal_value :: "nat list \<Rightarrow> nat" where
  "decimal_value ds = foldl (\<lambda>v d. v * 10 + d) 0 ds"

lemma decimal_character:
  assumes "d < 10"
  shows "(0x30 + of_nat d :: u8) \<noteq> 0 \<and> 0x30 \<le> (0x30 + of_nat d :: u8) \<and> (0x30 + of_nat d :: u8) \<le> 0x39 \<and>
    (ucast ((0x30 + of_nat d :: u8) - 0x30) :: u64) = of_nat d \<and>
    (0x30 + of_nat d :: u8) \<noteq> 0x2d \<and> (0x30 + of_nat d :: u8) \<noteq> 0x2b"
proof -
  have "d \<in> {0, 1, 2, 3, 4, 5, 6, 7, 8, 9}" using assms unfolding insert_iff empty_iff by presburger
  then show ?thesis by (elim insertE) simp_all
qed

lemma read_decimal_digits:
  assumes "\<forall>d \<in> set ds. d < 10"
  shows "decimal_digits (decimal_string ds @ [0]) i m v =
    (if ds \<noteq> [] \<and> i + length ds > m + 1 then Inl ARGUMENT_VALUE_TOO_LARGE
     else Inr (foldl (\<lambda>v d. v * 10 + of_nat d) v ds))"
  using assms
proof (induction ds arbitrary: i v)
  case (Cons d ds)
  then show ?case using decimal_character [of d] Cons.IH [of "i + 1" "v * 10 + of_nat d"]
    by (auto simp: decimal_string_def)
qed (simp add: decimal_string_def)

lemma foldl_of_nat:
  "foldl (\<lambda>v d. v * 10 + of_nat d) (of_nat v) ds = (of_nat (foldl (\<lambda>v d. v * 10 + d) v ds) :: u64)"
proof (induction ds arbitrary: v)
  case (Cons d ds)
  then show ?case using Cons.IH [of "v * 10 + d"] by simp
qed simp

text \<open>
  The options that are numbers are read modulo 2 ^ 64. A string of up to 21 decimal digits,
  with or without a sign, gives its value modulo 2 ^ 64, negated after a minus, and a longer
  one is refused, so the numbers of 20 and 21 digits that exceed 64 bits are not noticed.
\<close>
theorem mount_handle_decimal:
  assumes "\<forall>d \<in> set ds. d < 10" and "length ds + 2 \<le> SSIZE_MAX" and "ds \<noteq> []"
  shows "mount_handle_system_string_copy_from_64_bit_in_decimal (Some (decimal_string ds @ [0])) (length ds + 1) =
      (if length ds \<le> 21 then Inr (of_nat (decimal_value ds)) else Inl ARGUMENT_VALUE_TOO_LARGE) \<and>
    mount_handle_system_string_copy_from_64_bit_in_decimal (Some (0x2b # decimal_string ds @ [0])) (length ds + 2) =
      (if length ds \<le> 21 then Inr (of_nat (decimal_value ds)) else Inl ARGUMENT_VALUE_TOO_LARGE) \<and>
    mount_handle_system_string_copy_from_64_bit_in_decimal (Some (0x2d # decimal_string ds @ [0])) (length ds + 2) =
      (if length ds \<le> 21 then Inr (- of_nat (decimal_value ds)) else Inl ARGUMENT_VALUE_TOO_LARGE)"
proof -
  have len: "length (decimal_string ds) = length ds" by (simp add: decimal_string_def)
  have first: "(decimal_string ds @ [0]) ! 0 \<noteq> 0x2d" "(decimal_string ds @ [0]) ! 0 \<noteq> 0x2b"
    using assms(1,3) decimal_character [of "hd ds"] by (cases ds; simp add: decimal_string_def)+
  have number: "foldl (\<lambda>v d. v * 10 + of_nat d) 0 ds = (of_nat (decimal_value ds) :: u64)"
    using foldl_of_nat [of 0 ds] by (simp add: decimal_value_def)
  note read = read_decimal_digits [OF assms(1)]
  have plain: "mount_handle_system_string_copy_from_64_bit_in_decimal (Some (decimal_string ds @ [0])) (length ds + 1) =
      (if length ds \<le> 21 then Inr (of_nat (decimal_value ds)) else Inl ARGUMENT_VALUE_TOO_LARGE)"
    using assms(2,3) first len number read [of 0 20 0]
    by (simp add: mount_handle_system_string_copy_from_64_bit_in_decimal_def)
  have signed: "mount_handle_system_string_copy_from_64_bit_in_decimal (Some (c # decimal_string ds @ [0])) (length ds + 2) =
      (if length ds \<le> 21 then Inr (if c = 0x2d then - of_nat (decimal_value ds) else of_nat (decimal_value ds))
       else Inl ARGUMENT_VALUE_TOO_LARGE)" if "c = 0x2d \<or> c = 0x2b" for c
    using assms(2,3) len that number read [of 1 21 0]
    by (simp add: mount_handle_system_string_copy_from_64_bit_in_decimal_def)
  show ?thesis using plain signed [of "0x2b"] signed [of "0x2d"] by simp
qed

section \<open>The file entry of a path\<close>

lemma last_separator_eq:
  assumes "k \<le> n" "\<forall>j. k < j \<and> j \<le> n \<longrightarrow> path ! j \<noteq> LIBCPATH_SEPARATOR"
    and "k = 0 \<or> path ! k = LIBCPATH_SEPARATOR"
  shows "last_separator path n = k"
  using assms
proof (induction n)
  case (Suc n)
  then show ?case by (cases "k = Suc n") auto
qed simp

lemma shown_path_append: "shown_path enc (ns @ ms) = shown_path enc ns @ shown_path enc ms"
  by (simp add: shown_path_def)

lemma no_separator_shown:
  assumes U: "utf8_coding valid enc U put" and "\<forall>c \<in> set cs. valid c"
  shows "LIBCPATH_SEPARATOR \<notin> set (concat (map (shown_character enc) cs))"
proof -
  have digits: "LIBCPATH_SEPARATOR \<notin> set (hexadecimal_digits k v)" for k and v :: u32
  proof (induction k)
    case (Suc k)
    have "hexadecimal_character d \<noteq> LIBCPATH_SEPARATOR" if "d < 16" for d
      using u32_below_16 [OF that]
      by (elim insertE) (simp_all add: hexadecimal_character_def LIBCPATH_SEPARATOR_def)
    then show ?case using Suc nibble_less by (metis hexadecimal_digits.simps(2) set_ConsD)
  qed simp
  have "LIBCPATH_SEPARATOR \<notin> set (shown_character enc c)" if "valid c" for c
    using digits utf8_other [OF U that, of LIBCPATH_SEPARATOR] length_format_2(2) length_format_8(2)
    by (auto simp: shown_character_def format_hexadecimal_digits ESCAPE_CHARACTER_def LIBCPATH_SEPARATOR_def
        escaped_by_2_digits_def)
  then show ?thesis using assms(2) by auto
qed

text \<open>A path of escaped names is looked up in the volume under the original names.\<close>

lemma mount_handle_path_lookup:
  assumes "utf8_coding valid enc U put" and "[] \<notin> set (names @ [cs])"
    and "\<forall>c \<in> set (concat (names @ [cs])). valid c \<and> c \<noteq> 0"
    and "length (library_path enc (names @ [cs])) \<le> (SSIZE_MAX - 1) div 10"
    and "mh_file_system mh = Some mfs"
    and "libfsfat_volume_get_file_entry_by_utf8_path U C A T X B (mfs_fsfat_volume mfs)
        (Some (string_buffer junk (library_path enc (names @ [cs])) (length (shown_path enc (names @ [cs])) + 1)))
        (length (library_path enc (names @ [cs]))) (None :: ('arr, 'cache, 'xarr, 's) file_entry option) =
      Some (Inr (v, found, fe))"
  shows "\<exists>me. mount_handle_get_file_entry_by_path junk U put C A T X B (Some mh)
        (Some (shown_path enc (names @ [cs]))) None =
      Some (Inr (mh\<lparr> mh_file_system := Some (mfs\<lparr> mfs_fsfat_volume := Some v \<rparr>) \<rparr>,
        if found then Some me else None)) \<and>
    me_fsfat_file_entry me = Some fe \<and>
    me_name me = Some (concat (map (shown_character enc) cs) @ [0])"
proof -
  let ?names = "names @ [cs]" and ?shown = "concat (map (shown_character enc) cs)"
  let ?path = "shown_path enc ?names" and ?p = "shown_path enc names"
  have path: "?path = ?p @ LIBCPATH_SEPARATOR # ?shown" by (simp add: shown_path_append)
  have cs: "cs \<noteq> []" "\<forall>c \<in> set cs. valid c \<and> c \<noteq> 0" using assms(2,3) by auto
  have nosep: "LIBCPATH_SEPARATOR \<notin> set ?shown" by (rule no_separator_shown [OF assms(1)]) (use cs in blast)
  have "0 < length (shown_character enc (hd cs))"
    using length_shown_character(1) [OF assms(1), of "hd cs"] utf8_length [OF assms(1), of "hd cs"] cs
    by (cases cs) auto
  then have shown: "?shown \<noteq> []" using cs(1) by (cases cs) auto
  have at: "(?path @ [0]) ! (length ?p + 1 + j) = (?shown @ [0]) ! j" for j
    by (simp add: path nth_append)
  have sep: "(?path @ [0]) ! length ?p = LIBCPATH_SEPARATOR" by (simp add: path nth_append)
  have other: "(?path @ [0]) ! j \<noteq> LIBCPATH_SEPARATOR" if "length ?p < j" "j \<le> length ?path" for j
  proof -
    have j: "j = length ?p + 1 + (j - length ?p - 1)" "j - length ?p - 1 < length (?shown @ [0])"
      using that by (simp_all add: path)
    have "(?shown @ [0]) ! (j - length ?p - 1) \<in> set (?shown @ [0])" by (rule nth_mem [OF j(2)])
    moreover have "LIBCPATH_SEPARATOR \<notin> set (?shown @ [0])" using nosep by (simp add: LIBCPATH_SEPARATOR_def)
    ultimately have "(?shown @ [0]) ! (j - length ?p - 1) \<noteq> LIBCPATH_SEPARATOR" by metis
    then show ?thesis using at [of "j - length ?p - 1"] j(1) by simp
  qed
  have index: "last_separator (?path @ [0]) (length ?path) = length ?p"
    by (rule last_separator_eq) (use other sep in \<open>auto simp: path\<close>)
  have last: "(?path @ [0]) ! (length ?path - 1) \<noteq> LIBCPATH_SEPARATOR"
    using other [of "length ?path - 1"] shown by (simp add: path)
  have short: "length ?shown \<le> SSIZE_MAX - 1"
  proof -
    have "length ?path \<le> 10 * ((SSIZE_MAX - 1) div 10)"
      using length_shown_path [OF assms(1), of ?names] assms(3,4) by (meson le_trans mult_le_mono2)
    then show ?thesis by (simp add: path SSIZE_MAX_def)
  qed
  have "of_nat (length ?path) - of_nat (length ?p + 1) = (of_nat (length ?shown) :: u64)" by (simp add: path)
  then have len: "unat (of_nat (length ?path) - of_nat (length ?p + 1) :: u64) = length ?shown"
    using short by (simp only: unat_of_nat) (simp add: SSIZE_MAX_def)
  have lookup: "mount_file_system_get_file_entry_by_path junk U put C A T X B (Some mfs) (Some (?path @ [0]))
      (length ?path) (None :: ('arr, 'cache, 'xarr, 's) file_entry option) =
      Some (Inr (mfs\<lparr> mfs_fsfat_volume := Some v \<rparr>, found, fe))"
    using assms(6) unescape_path [OF assms(1) _ assms(3,4), of junk "[0]"] nonzero_library_path [OF assms(1,3)]
    by (simp add: mount_file_system_get_file_entry_by_path_def)
  have name: "drop (length ?p + 1) (?path @ [0]) = ?shown @ [0]" by (simp add: path)
  let ?me = "\<lparr> me_file_system = mfs\<lparr> mfs_fsfat_volume := Some v \<rparr>, me_name = Some (?shown @ [0]),
      me_name_size = length ?shown + 1, me_fsfat_file_entry = Some fe \<rparr>"
  have "mount_file_entry_initialize None (Some (mfs\<lparr> mfs_fsfat_volume := Some v \<rparr>)) (Some (?shown @ [0]))
      (length ?shown) (Some fe) = Inr ?me"
    using short by (simp add: mount_file_entry_initialize_def)
  moreover have "?path \<noteq> []" by (simp add: path)
  ultimately have "mount_handle_get_file_entry_by_path junk U put C A T X B (Some mh) (Some ?path) None =
      Some (Inr (mh\<lparr> mh_file_system := Some (mfs\<lparr> mfs_fsfat_volume := Some v \<rparr>) \<rparr>,
        if found then Some ?me else None))"
    using index last len lookup name assms(5)
    unfolding mount_handle_get_file_entry_by_path_def Let_def option.case by simp
  then show ?thesis by (intro exI [of _ ?me]) simp
qed

text \<open>
  A trailing separator makes a path fail. The handle cuts the separator off the path for
  the volume, but searches the file name from the separator itself, so the length of the name
  wraps to 2 ^ 64 - 1: if the volume has the entry of the path, the call fails.
\<close>
theorem mount_handle_trailing_separator:
  assumes "p \<noteq> []" and "mh_file_system mh = Some mfs"
    and "mount_file_system_get_file_entry_by_path junk U put C A T X B (Some mfs)
        (Some (p @ [LIBCPATH_SEPARATOR, 0])) (length p) (None :: ('arr, 'cache, 'xarr, 's) file_entry option) =
      Some (Inr (mfs', True, fe))"
  shows "mount_handle_get_file_entry_by_path junk U put C A T X B (Some mh) (Some (p @ [LIBCPATH_SEPARATOR]))
      (None :: ('h, 'arr, 'cache, 'xarr, 's) mount_file_entry option) = Some (Inl RUNTIME_INITIALIZE_FAILED)"
proof -
  let ?path = "(p @ [LIBCPATH_SEPARATOR]) @ [0]"
  have cut: "length (p @ [LIBCPATH_SEPARATOR]) \<ge> 2" "?path ! (length (p @ [LIBCPATH_SEPARATOR]) - 1) = LIBCPATH_SEPARATOR"
    using assms(1) by (cases p; simp)+
  have index: "last_separator ?path (length p) = length p"
    by (rule last_separator_eq) (auto simp: nth_append)
  have "of_nat (length p) - of_nat (length p + 1) = (- 1 :: u64)" by simp
  then have "unat (of_nat (length p) - of_nat (length p + 1) :: u64) = unat (- 1 :: u64)" by (simp only:)
  then have long: "unat (of_nat (length p) - of_nat (length p + 1) :: u64) > SSIZE_MAX - 1"
    by (simp add: SSIZE_MAX_def unsigned_minus_1_eq_mask mask_eq_exp_minus_1)
  have "mount_file_entry_initialize None (Some mfs') (Some name)
      (unat (of_nat (length p) - of_nat (length p + 1) :: u64)) (Some fe) =
      (Inl ARGUMENT_VALUE_EXCEEDS_MAXIMUM :: ('h, 'arr, 'cache, 'xarr, 's) mount_file_entry result)" for name
    using long by (simp add: mount_file_entry_initialize_def)
  then show ?thesis
    using cut index assms(2,3)
    unfolding mount_handle_get_file_entry_by_path_def Let_def option.case by simp
qed

section \<open>The states of a handle\<close>

text \<open>The calls that change a handle, one after the other.\<close>

inductive mount_step ::
  "una_ops \<Rightarrow> (u32 \<Rightarrow> nat \<Rightarrow> nat \<Rightarrow> u8 list option) \<Rightarrow> ('cache, 'value, 'arr directory) cache_ops \<Rightarrow>
   ('arr, nat) array_ops \<Rightarrow> ('tarr, node_entry) array_ops \<Rightarrow> ('xarr, extent) array_ops \<Rightarrow> 'h bfio_ops \<Rightarrow>
   'h range_ops \<Rightarrow> ('h, 'arr, 'cache) mount_handle \<Rightarrow> ('h, 'arr, 'cache) mount_handle \<Rightarrow> bool"
  for U put C A T X B R where
  mount_step_index: "mount_handle_set_file_system_index (Some mh) string = Inr mh' \<Longrightarrow>
    mount_step U put C A T X B R mh mh'"
| mount_step_offset: "mount_handle_set_offset (Some mh) string = Inr mh' \<Longrightarrow>
    mount_step U put C A T X B R mh mh'"
| mount_step_password: "mount_handle_set_password (Some mh) string = Inr mh' \<Longrightarrow>
    mount_step U put C A T X B R mh mh'"
| mount_step_recovery_password: "mount_handle_set_recovery_password (Some mh) string = Inr mh' \<Longrightarrow>
    mount_step U put C A T X B R mh mh'"
| mount_step_abort: "mount_handle_signal_abort (Some mh) = Inr mh' \<Longrightarrow>
    mount_step U put C A T X B R mh mh'"
| mount_step_open: "mount_handle_open junk C A T B R (Some mh) filename = Some (Inr mh') \<Longrightarrow>
    mount_step U put C A T X B R mh mh'"
| mount_step_close: "mount_handle_close B (Some mh) = (Some mh', r) \<Longrightarrow>
    mount_step U put C A T X B R mh mh'"
| mount_step_path: "mount_handle_get_file_entry_by_path junk U put C A T X B (Some mh) path None =
      Some (Inr (mh', me :: ('h, 'arr, 'cache, 'xarr, unit) mount_file_entry option)) \<Longrightarrow>
    mount_step U put C A T X B R mh mh'"

inductive mount_reachable ::
  "una_ops \<Rightarrow> (u32 \<Rightarrow> nat \<Rightarrow> nat \<Rightarrow> u8 list option) \<Rightarrow> ('cache, 'value, 'arr directory) cache_ops \<Rightarrow>
   ('arr, nat) array_ops \<Rightarrow> ('tarr, node_entry) array_ops \<Rightarrow> ('xarr, extent) array_ops \<Rightarrow> 'h bfio_ops \<Rightarrow>
   'h range_ops \<Rightarrow> ('h, 'arr, 'cache) mount_handle \<Rightarrow> bool"
  for U put C A T X B R where
  mount_reachable_new: "mount_handle_initialize time_structure None = Inr mh \<Longrightarrow>
    mount_reachable U put C A T X B R mh"
| mount_reachable_step: "mount_reachable U put C A T X B R mh \<Longrightarrow> mount_step U put C A T X B R mh mh' \<Longrightarrow>
    mount_reachable U put C A T X B R mh'"

text \<open>A handle has no volume, or an open one that reads from the handle's own file handle.\<close>

definition mount_handle_wf :: "('arr \<Rightarrow> nat option list) \<Rightarrow> ('h, 'arr, 'cache) mount_handle \<Rightarrow> bool" where
  "mount_handle_wf view mh \<longleftrightarrow>
     (\<exists>mfs. mh_file_system mh = Some mfs \<and>
        (case mfs_fsfat_volume mfs of
           None \<Rightarrow> True
         | Some v \<Rightarrow> volume_open view v \<and> vol_file_io_handle v = mh_file_io_handle mh))"

lemma open_keeps_wf:
  fixes C :: "('cache, 'value, 'arr directory) cache_ops" and T :: "('tarr, node_entry) array_ops"
  assumes "array_contract A view" and "array_contract T tview" and "bounded_sizes B"
    and "mount_handle_wf view mh"
    and opened: "mount_handle_open junk C A T B R (Some mh) filename = Some (Inr mh')"
  shows "mount_handle_wf view mh'" and "\<exists>mfs v. mh_file_system mh' = Some mfs \<and> mfs_fsfat_volume mfs = Some v"
proof -
  obtain mfs where mfs: "mh_file_system mh = Some mfs" using assms(4) by (auto simp: mount_handle_wf_def)
  obtain v h volume file_io_handle where new: "libfsfat_volume_initialize None = Inr v"
    and run: "libfsfat_volume_open_file_io_handle junk C A T B (Some v) (Some h) ACCESS_FLAG_READ =
      Some (volume, file_io_handle, Inr ())"
    and mh': "mh' = mh\<lparr> mh_file_system := Some (mfs\<lparr> mfs_fsfat_volume := volume \<rparr>), mh_file_io_handle := file_io_handle \<rparr>"
    using opened mfs
    by (auto simp: mount_handle_open_def mount_file_system_set_volume_def split: option.splits sum.splits)
  have closed: "volume_closed v" by (rule new_volume_closed [OF new])
  have "\<exists>v'. volume = Some v' \<and> volume_open view v' \<and> vol_file_io_handle v' = file_io_handle"
    by (rule open_file_io_handle_ends [OF assms(1,2) closed assms(3), where C = C and junk = junk and
          file_io_handle = "Some h" and access_flags = ACCESS_FLAG_READ]) (use run in auto)
  then show "mount_handle_wf view mh'" and "\<exists>mfs v. mh_file_system mh' = Some mfs \<and> mfs_fsfat_volume mfs = Some v"
    by (auto simp: mh' mount_handle_wf_def)
qed

lemma close_closes_handle:
  assumes "mh_file_system mh = Some mfs" and "mount_handle_close B (Some mh) = (Some mh', r)"
  shows "mh_file_system mh' = Some (mfs\<lparr> mfs_fsfat_volume := None \<rparr>)"
    and "r = Inr () \<Longrightarrow> mh_file_io_handle mh' = None"
  using assms
  by (auto simp: mount_handle_close_def mount_file_system_get_volume_def mount_file_system_set_volume_def
      Let_def split: prod.splits sum.splits option.splits if_splits)

lemma path_keeps_wf:
  assumes "mount_handle_wf view mh"
    and "mount_handle_get_file_entry_by_path junk U put C A T X B (Some mh) path None =
      Some (Inr (mh', me :: ('h, 'arr, 'cache, 'xarr, 's) mount_file_entry option))"
  shows "mount_handle_wf view mh'"
proof -
  obtain mfs where mfs: "mh_file_system mh = Some mfs"
    and wf: "\<And>v. mfs_fsfat_volume mfs = Some v \<Longrightarrow> volume_open view v \<and> vol_file_io_handle v = mh_file_io_handle mh"
    using assms(1) by (auto simp: mount_handle_wf_def split: option.splits)
  obtain mfs' string n found and fe :: "('arr, 'cache, 'xarr, 's) file_entry"
    where run: "mount_file_system_get_file_entry_by_path junk U put C A T X B (Some mfs) string n None =
      Some (Inr (mfs', found, fe))" and mh': "mh' = mh\<lparr> mh_file_system := Some mfs' \<rparr>"
    using assms(2) mfs
    by (auto simp: mount_handle_get_file_entry_by_path_def Let_def split: option.splits sum.splits if_splits)
  obtain file_entry_path v' where
    path: "libfsfat_volume_get_file_entry_by_utf8_path U C A T X B (mfs_fsfat_volume mfs) (Some file_entry_path)
        (length (c_string file_entry_path)) None = Some (Inr (v', found, fe))"
    and mfs': "mfs' = mfs\<lparr> mfs_fsfat_volume := Some v' \<rparr>"
    using run by (auto simp: mount_file_system_get_file_entry_by_path_def split: option.splits sum.splits)
  then obtain v where v: "mfs_fsfat_volume mfs = Some v"
    by (cases "mfs_fsfat_volume mfs") (auto simp: libfsfat_volume_get_file_entry_by_utf8_path_def)
  note path = path [unfolded v]
  have "volume_open view v'" by (rule paths_of_open(1) [OF _ path]) (use wf [OF v] in blast)
  moreover have "vol_file_io_handle v' = vol_file_io_handle v"
    using path by (auto simp: libfsfat_volume_get_file_entry_by_utf8_path_def split: option.splits sum.splits)
  ultimately show ?thesis using wf [OF v] by (simp add: mh' mount_handle_wf_def mfs')
qed

lemma abort_keeps_wf:
  assumes "mount_handle_wf view mh" and "mount_handle_signal_abort (Some mh) = Inr mh'"
  shows "mount_handle_wf view mh'"
proof -
  obtain mfs where mfs: "mh_file_system mh = Some mfs"
    and wf: "\<And>v. mfs_fsfat_volume mfs = Some v \<Longrightarrow> volume_open view v \<and> vol_file_io_handle v = mh_file_io_handle mh"
    using assms(1) by (auto simp: mount_handle_wf_def split: option.splits)
  show ?thesis
  proof (cases "mfs_fsfat_volume mfs")
    case None
    then show ?thesis using assms mfs
      by (auto simp: mount_handle_signal_abort_def mount_file_system_signal_abort_def mount_handle_wf_def)
  next
    case (Some v)
    then obtain v' where v': "libfsfat_volume_signal_abort (Some v) = Inr v'"
        "mh' = mh\<lparr> mh_file_system := Some (mfs\<lparr> mfs_fsfat_volume := Some v' \<rparr>) \<rparr>"
      using assms(2) mfs
      by (auto simp: mount_handle_signal_abort_def mount_file_system_signal_abort_def split: sum.splits)
    moreover have "vol_file_io_handle v' = vol_file_io_handle v"
      using v'(1) by (auto simp: libfsfat_volume_signal_abort_def Let_def split: option.splits)
    ultimately show ?thesis using wf [OF Some] volume_open_abort(2) by (auto simp: mount_handle_wf_def)
  qed
qed

lemma option_keeps_wf:
  assumes "mount_handle_set_file_system_index (Some mh) string = Inr mh' \<or>
      mount_handle_set_offset (Some mh) string = Inr mh' \<or> mount_handle_set_password (Some mh) string = Inr mh' \<or>
      mount_handle_set_recovery_password (Some mh) string = Inr mh'"
    and "mount_handle_wf view mh"
  shows "mount_handle_wf view mh'"
  using assms
  by (auto simp: mount_handle_set_file_system_index_def mount_handle_set_offset_def mount_handle_set_password_def
      mount_handle_set_recovery_password_def mount_handle_wf_def split: option.splits sum.splits if_splits)

lemma mount_step_keeps:
  assumes "array_contract A view" and "array_contract T tview" and "bounded_sizes B"
    and "mount_handle_wf view mh" and "mount_step U put C A T X B R mh mh'"
  shows "mount_handle_wf view mh'"
  using assms(5)
proof cases
  case (mount_step_open junk filename)
  then show ?thesis using open_keeps_wf(1) [OF assms(1-4)] by blast
next
  case (mount_step_close r)
  obtain mfs where "mh_file_system mh = Some mfs" using assms(4) by (auto simp: mount_handle_wf_def)
  then show ?thesis using close_closes_handle(1) mount_step_close by (fastforce simp: mount_handle_wf_def)
next
  case (mount_step_path junk path me)
  then show ?thesis using path_keeps_wf [OF assms(4)] by blast
next
  case mount_step_abort
  then show ?thesis using abort_keeps_wf [OF assms(4)] by blast
qed (use option_keeps_wf [OF _ assms(4)] in blast)+

text \<open>
  C16. After any sequence of its calls a mount handle either has no volume or an open, well-formed
  one that reads through the file handle of the mount handle. After a call that opens it, it
  has a volume, and after a call that closes it, with or without an error, it has none, and
  without an error no file handle either.
\<close>
theorem mount_handle_reachable_states:
  assumes "array_contract A view" and "array_contract T tview" and "bounded_sizes B"
    and "mount_reachable U put C A T X B R mh"
  shows "mount_handle_wf view mh \<and>
    (\<forall>junk filename mh'. mount_handle_open junk C A T B R (Some mh) filename = Some (Inr mh') \<longrightarrow>
       (\<exists>mfs v. mh_file_system mh' = Some mfs \<and> mfs_fsfat_volume mfs = Some v \<and> volume_open view v)) \<and>
    (\<forall>mh' r. mount_handle_close B (Some mh) = (Some mh', r) \<longrightarrow>
       (\<exists>mfs. mh_file_system mh' = Some mfs \<and> mfs_fsfat_volume mfs = None) \<and>
       (r = Inr () \<longrightarrow> mh_file_io_handle mh' = None))"
proof -
  have wf: "mount_handle_wf view mh"
    using assms(4)
  proof (induction rule: mount_reachable.induct)
    case (mount_reachable_new time_structure mh)
    then show ?case
      by (cases time_structure)
        (auto simp: mount_handle_initialize_def mount_file_system_initialize_def mount_handle_wf_def)
  next
    case (mount_reachable_step mh mh')
    then show ?case using mount_step_keeps [OF assms(1-3)] by blast
  qed
  obtain mfs where mfs: "mh_file_system mh = Some mfs" using wf by (auto simp: mount_handle_wf_def)
  have "\<exists>mfs v. mh_file_system mh' = Some mfs \<and> mfs_fsfat_volume mfs = Some v \<and> volume_open view v"
    if "mount_handle_open junk C A T B R (Some mh) filename = Some (Inr mh')" for junk filename mh'
    using open_keeps_wf [OF assms(1-3) wf that] by (auto simp: mount_handle_wf_def)
  then show ?thesis using wf close_closes_handle [OF mfs] by fastforce
qed

end
