(* ===== verification/Info_Print.thy ===== *)
theory Info_Print
  imports Mount_Path
begin

text \<open>
  What the tool that prints a volume makes its output of: the formats of \<^verbatim>\<open>fprintf\<close> that it uses,
  the string of a hash in \<^verbatim>\<open>fsfattools/digest_hash.c\<close>, and the escaping of the names it prints in
  \<^verbatim>\<open>fsfattools/info_handle.c\<close>. The theorems say what these strings are.
\<close>

section \<open>Formats\<close>

text \<open>A string literal, \<^verbatim>\<open>%lu\<close>, \<^verbatim>\<open>%lx\<close>, and the zeros of a width as in \<^verbatim>\<open>%02lu\<close>.\<close>

definition ascii :: "string \<Rightarrow> u8 list" where
  "ascii s = map of_char s"

fun decimal :: "nat \<Rightarrow> u8 list" where
  "decimal n = (if n < 10 then [0x30 + of_nat n] else decimal (n div 10) @ [0x30 + of_nat (n mod 10)])"

fun hexadecimal :: "nat \<Rightarrow> u8 list" where
  "hexadecimal n =
     (if n < 16 then [hexadecimal_character (of_nat n)]
      else hexadecimal (n div 16) @ [hexadecimal_character (of_nat (n mod 16))])"

declare decimal.simps [simp del] hexadecimal.simps [simp del]

definition zero_filled :: "nat \<Rightarrow> u8 list \<Rightarrow> u8 list" where
  "zero_filled width digits = replicate (width - length digits) 0x30 @ digits"

section \<open>The string of a hash\<close>

definition digest_character :: "u8 \<Rightarrow> u8" where
  "digest_character digest_digit = (if digest_digit \<le> 9 then 0x30 + digest_digit else 0x61 + (digest_digit - 10))"

text \<open>The string with its terminator, for a buffer of a size.\<close>

definition digest_hash_copy_to_string :: "u8 list option \<Rightarrow> nat \<Rightarrow> nat \<Rightarrow> u8 list result" where
  "digest_hash_copy_to_string digest_hash digest_hash_size string_size =
     (case digest_hash of
        None \<Rightarrow> Inl ARGUMENT_INVALID_VALUE
      | Some hash \<Rightarrow>
          if digest_hash_size > SSIZE_MAX then Inl ARGUMENT_VALUE_EXCEEDS_MAXIMUM
          else if string_size > SSIZE_MAX then Inl ARGUMENT_VALUE_EXCEEDS_MAXIMUM
          else if string_size < 2 * digest_hash_size + 1 then Inl ARGUMENT_VALUE_TOO_SMALL
          else if digest_hash_size > length hash then Inl MEMORY_FAULT
          else Inr (concat (map (\<lambda>b. [digest_character (b div 16), digest_character (b mod 16)])
                 (take digest_hash_size hash)) @ [0]))"

section \<open>The names that are printed\<close>

text \<open>The control characters.\<close>

definition replaced_by_2_digits :: "u32 \<Rightarrow> bool" where
  "replaced_by_2_digits c \<longleftrightarrow> c \<le> 0x1f \<or> (c \<ge> 0x7f \<and> c \<le> 0x9f)"

definition replace_character ::
  "(u32 \<Rightarrow> nat \<Rightarrow> nat \<Rightarrow> u8 list option) \<Rightarrow> nat \<Rightarrow> u8 list \<Rightarrow> u32 \<Rightarrow> u8 list result" where
  "replace_character put escaped_value_string_size escaped_value_string unicode_character =
     (if replaced_by_2_digits unicode_character
      then print_string escaped_value_string_size escaped_value_string
             (0x5c # 0x78 # format_hexadecimal 2 unicode_character)
      else
        (case put unicode_character escaped_value_string_size (length escaped_value_string) of
           None \<Rightarrow> Inl CONVERSION_INPUT_FAILED
         | Some bytes \<Rightarrow> Inr (escaped_value_string @ bytes)))"

partial_function (option) replace_characters ::
  "(nat \<Rightarrow> (u32 \<times> nat) option) \<Rightarrow> (u32 \<Rightarrow> nat \<Rightarrow> nat \<Rightarrow> u8 list option) \<Rightarrow> nat \<Rightarrow> nat \<Rightarrow> nat \<Rightarrow>
   u8 list \<Rightarrow> u8 list result option" where
  "replace_characters next_character put value_string_length escaped_value_string_size value_string_index
       escaped_value_string =
     (if value_string_index < value_string_length
      then
        (case next_character value_string_index of
           None \<Rightarrow> Some (Inl CONVERSION_INPUT_FAILED)
         | Some (unicode_character, value_string_index) \<Rightarrow>
             (case replace_character put escaped_value_string_size escaped_value_string unicode_character of
                Inl e \<Rightarrow> Some (Inl e)
              | Inr escaped_value_string \<Rightarrow>
                  replace_characters next_character put value_string_length escaped_value_string_size
                    value_string_index escaped_value_string))
      else Some (Inr escaped_value_string))"

text \<open>
  The string that is printed for a value of a length: that of the buffer up to its first zero.
\<close>

definition escaped_value_string ::
  "una_ops \<Rightarrow> (u32 \<Rightarrow> nat \<Rightarrow> nat \<Rightarrow> u8 list option) \<Rightarrow> u8 list option \<Rightarrow> nat \<Rightarrow> u8 list result option" where
  "escaped_value_string U put value_string value_string_length =
     (case value_string of
        None \<Rightarrow> Some (Inl ARGUMENT_INVALID_VALUE)
      | Some string \<Rightarrow>
          if value_string_length > (SSIZE_MAX - 1) div 4 then Some (Inl ARGUMENT_VALUE_EXCEEDS_MAXIMUM)
          else if value_string_length > length string then Some (Inl MEMORY_FAULT)
          else
            let escaped_value_string_size = value_string_length * 4 + 1
            in (case replace_characters (una_from_utf8 U string value_string_length) put value_string_length
                       escaped_value_string_size 0 [] of
                  None \<Rightarrow> None
                | Some (Inl e) \<Rightarrow> Some (Inl e)
                | Some (Inr escaped) \<Rightarrow>
                    if length escaped \<ge> escaped_value_string_size then Some (Inl MEMORY_FAULT)
                    else Some (Inr (c_string escaped))))"

section \<open>The string of a hash is read back\<close>

lemma u8_below_16:
  assumes "(d :: u8) < 16"
  shows "d \<in> {0, 1, 2, 3, 4, 5, 6, 7, 8, 9, 10, 11, 12, 13, 14, 15}"
proof -
  have "unat d < 16" using assms by (simp add: word_less_nat_alt)
  then have "unat d \<in> {0, 1, 2, 3, 4, 5, 6, 7, 8, 9, 10, 11, 12, 13, 14, 15}"
    unfolding insert_iff empty_iff by presburger
  moreover have "d = of_nat (unat d)" by simp
  ultimately show ?thesis by (elim insertE) (simp_all only: insert_iff, simp_all)
qed

lemma hexadecimal_digit_of_digest:
  assumes "(d :: u8) < 16"
  shows "hexadecimal_digit (digest_character d) = Some (ucast d)"
  using u8_below_16 [OF assms]
  by (elim insertE) (simp_all add: hexadecimal_digit_def digest_character_def)

lemma byte_of_digits: "push_bit 4 (ucast (b div 16)) OR ucast (b mod 16) = (ucast b :: u32)" for b :: u8
proof (rule bit_word_eqI)
  have b: "b div 16 = drop_bit 4 b" "b mod 16 = take_bit 4 b"
    by (simp_all add: drop_bit_eq_div take_bit_eq_mod)
  fix n assume "n < LENGTH(32)"
  then show "bit (push_bit 4 (ucast (b div 16)) OR ucast (b mod 16) :: u32) n = bit (ucast b :: u32) n"
    unfolding b
    by (auto simp: bit_or_iff bit_push_bit_iff bit_drop_bit_eq bit_take_bit_iff bit_ucast_iff)
qed

lemma u8_digits: "b div 16 < 16" "b mod 16 < 16" for b :: u8
proof -
  have "unat b < 2 ^ LENGTH(8)" by (rule unsigned_less)
  then have "unat b < 256" by simp
  then show "b div 16 < 16" by (simp add: word_less_nat_alt unat_div)
  show "b mod 16 < 16" by (simp add: word_less_nat_alt unat_mod_distrib)
qed

lemma digest_pair_read:
  "read_hexadecimal [digest_character (b div 16), digest_character (b mod 16)] 0 = Inr (ucast b)" for b :: u8
  using byte_of_digits [of b] by (simp add: hexadecimal_digit_of_digest u8_digits)

definition digest_string :: "u8 list \<Rightarrow> u8 list" where
  "digest_string hash = concat (map (\<lambda>b. [digest_character (b div 16), digest_character (b mod 16)]) hash)"

lemma length_digest_string [simp]: "length (digest_string hash) = 2 * length hash"
  by (induction hash) (simp_all add: digest_string_def)

lemma digest_string_pair:
  assumes "i < length hash"
  shows "take 2 (drop (2 * i) (digest_string hash)) =
    [digest_character (hash ! i div 16), digest_character (hash ! i mod 16)]"
  using assms
proof (induction hash arbitrary: i)
  case (Cons b hash)
  then show ?case by (cases i) (simp_all add: digest_string_def numeral_2_eq_2)
qed simp

lemma digest_string_nonzero: "0 \<notin> set (digest_string hash)"
proof -
  have "digest_character d \<noteq> 0" if "d < 16" for d
    using u8_below_16 [OF that] by (elim insertE) (simp_all add: digest_character_def)
  then show ?thesis using u8_digits by (auto simp: digest_string_def)
qed

text \<open>
  The string of a hash is read back: for a buffer that holds two characters for each byte and
  the terminator, the string has exactly that size and no terminator inside, and each pair of its
  characters is the hexadecimal value of the byte; a smaller buffer is an error.
\<close>
theorem digest_hash_string_roundtrip:
  assumes "length hash \<le> SSIZE_MAX" and "string_size \<le> SSIZE_MAX"
  shows "if string_size < 2 * length hash + 1
    then digest_hash_copy_to_string (Some hash) (length hash) string_size = Inl ARGUMENT_VALUE_TOO_SMALL
    else \<exists>string. digest_hash_copy_to_string (Some hash) (length hash) string_size = Inr (string @ [0]) \<and>
      length string = 2 * length hash \<and> 0 \<notin> set string \<and>
      (\<forall>i < length hash. mount_path_string_copy_hexadecimal_to_integer_32_bit (Some (drop (2 * i) string)) 2 =
         Inr (ucast (hash ! i)))"
proof (cases "string_size < 2 * length hash + 1")
  case False
  have "mount_path_string_copy_hexadecimal_to_integer_32_bit (Some (drop (2 * i) (digest_string hash))) 2 =
      Inr (ucast (hash ! i))" if "i < length hash" for i
    using digest_string_pair [OF that] that
    by (simp add: mount_path_string_copy_hexadecimal_to_integer_32_bit_def SSIZE_MAX_def digest_pair_read
        del: read_hexadecimal.simps)
  then show ?thesis
    using False assms digest_string_nonzero [of hash] length_digest_string [of hash]
    by (simp add: digest_hash_copy_to_string_def digest_string_def)
qed (use assms in \<open>simp add: digest_hash_copy_to_string_def\<close>)

lemma digest_hash_string_roundtrip_witness:
  "\<exists>string. digest_hash_copy_to_string (Some [0xd4, 0x1d]) (length [0xd4 :: u8, 0x1d]) 33 = Inr (string @ [0]) \<and>
     length string = 4"
  using digest_hash_string_roundtrip [of "[0xd4, 0x1d]" 33] by (auto simp: SSIZE_MAX_def)

section \<open>Names are printed with their control characters replaced\<close>

text \<open>How a character is printed.\<close>

definition printed_character :: "(u32 \<Rightarrow> u8 list) \<Rightarrow> u32 \<Rightarrow> u8 list" where
  "printed_character enc c = (if replaced_by_2_digits c then 0x5c # 0x78 # format_hexadecimal 2 c else enc c)"

lemma length_replaced:
  assumes "replaced_by_2_digits c"
  shows "length (format_hexadecimal 2 c) = 2"
proof -
  have "c \<le> 0x9f"
    using assms unfolding replaced_by_2_digits_def by (elim disjE conjE) (simp_all add: word_le_nat_alt)
  then have "unat c < 2 ^ (4 * 2)" by (simp add: word_le_nat_alt)
  from format_hexadecimal_digits [OF this] show ?thesis by simp
qed

lemma replace_character_bounds:
  assumes "utf8_bounds U put" and "length s + 5 \<le> room"
  shows "replace_character put room s c \<noteq> Inl MEMORY_FAULT"
    and "replace_character put room s c = Inr s' \<Longrightarrow> length s' \<le> length s + 4"
proof -
  have put: "put c room i = Some bytes \<Longrightarrow> length bytes \<le> 4" for i bytes
    using assms(1) unfolding utf8_bounds_def by blast
  show "replace_character put room s c \<noteq> Inl MEMORY_FAULT"
    using assms(2) by (simp add: replace_character_def print_string_def length_replaced split: option.split)
  show "length s' \<le> length s + 4" if "replace_character put room s c = Inr s'"
    using that put [of "length s"] assms(2)
    by (auto simp: replace_character_def print_string_def length_replaced split: if_splits option.splits)
qed

lemma replace_characters_returns:
  assumes U: "utf8_bounds U put" and "n \<le> i + d" and "length s' \<le> 4 * i" "i \<le> n"
  shows "\<exists>r. replace_characters (una_from_utf8 U s n) put n (n * 4 + 1) i s' = Some r \<and>
      r \<noteq> Inl MEMORY_FAULT \<and> (\<forall>p. r = Inr p \<longrightarrow> length p \<le> 4 * n)"
  using assms(2-)
proof (induction d arbitrary: i s')
  case 0
  then show ?case by (subst replace_characters.simps) simp
next
  case (Suc d)
  let ?f = "una_from_utf8 U s n"
  have unfold: "replace_characters ?f put n (n * 4 + 1) i s' =
      (if i < n then (case ?f i of None \<Rightarrow> Some (Inl CONVERSION_INPUT_FAILED)
       | Some (c, j) \<Rightarrow> (case replace_character put (n * 4 + 1) s' c of Inl e \<Rightarrow> Some (Inl e)
           | Inr s'' \<Rightarrow> replace_characters ?f put n (n * 4 + 1) j s'')) else Some (Inr s'))"
    by (rule replace_characters.simps)
  show ?case
  proof (cases "i < n")
    case i: True
    show ?thesis
    proof (cases "?f i")
      case (Some cj)
      then obtain c j where cj: "?f i = Some (c, j)" by (cases cj) auto
      have j: "i < j" "j \<le> n" using U cj i unfolding utf8_bounds_def by blast+
      have fits: "length s' + 5 \<le> n * 4 + 1" using Suc.prems i by linarith
      show ?thesis
      proof (cases "replace_character put (n * 4 + 1) s' c")
        case (Inl e)
        then show ?thesis using unfold i cj replace_character_bounds(1) [OF U fits, of c] Suc.prems by auto
      next
        case (Inr s'')
        have "length s'' \<le> 4 * j" using replace_character_bounds(2) [OF U fits Inr] Suc.prems j by linarith
        then show ?thesis using unfold i cj Inr Suc.IH [of j s''] Suc.prems j by auto
      qed
    qed (use unfold i in simp)
  qed (use Suc.prems unfold in simp)
qed

lemma escaped_value_string_returns:
  assumes "utf8_bounds U put" and "\<And>s. string = Some s \<Longrightarrow> n \<le> length s"
  shows "\<exists>r. escaped_value_string U put string n = Some r \<and> r \<noteq> Inl MEMORY_FAULT"
proof (cases string)
  case (Some s)
  obtain r where "replace_characters (una_from_utf8 U s n) put n (n * 4 + 1) 0 [] = Some r" "r \<noteq> Inl MEMORY_FAULT"
    "\<forall>p. r = Inr p \<longrightarrow> length p \<le> 4 * n"
    using replace_characters_returns [OF assms(1), of n 0 n "[]" s] by auto
  then show ?thesis using assms(2) Some by (cases r) (simp_all add: escaped_value_string_def)
qed (simp add: escaped_value_string_def)

lemma replace_character_printed:
  assumes "utf8_coding valid enc U put" "valid c" and "length s + 4 < room"
  shows "replace_character put room s c = Inr (s @ printed_character enc c)"
  using assms(3) utf8_length [OF assms(1,2)] utf8_encode [OF assms(1,2), of "length s" room]
  by (simp add: replace_character_def print_string_def printed_character_def length_replaced)

lemma length_printed_character:
  assumes "utf8_coding valid enc U put" "valid c"
  shows "length (printed_character enc c) \<le> 4 * length (enc c)"
proof -
  have "0 < length (enc c)" "length (enc c) \<le> 4" using utf8_length [OF assms] by auto
  then show ?thesis unfolding printed_character_def by (simp add: length_replaced del: length_greater_0_conv)
qed

lemma replace_characters_printed:
  assumes U: "utf8_coding valid enc U put" and "\<forall>c \<in> set cs. valid c"
    and "s = p @ concat (map enc cs) @ rest" "n = length (p @ concat (map enc cs))" "length s' \<le> 4 * length p"
  shows "replace_characters (una_from_utf8 U s n) put n (n * 4 + 1) (length p) s' =
      Some (Inr (s' @ concat (map (printed_character enc) cs)))"
  using assms(2-)
proof (induction cs arbitrary: p s')
  case Nil
  then show ?case by (subst replace_characters.simps) simp
next
  case (Cons c cs)
  let ?f = "una_from_utf8 U s n"
  have c: "valid c" using Cons.prems by auto
  have s: "s = p @ enc c @ concat (map enc cs) @ rest" using Cons.prems by simp
  then have i: "length p < n" using Cons.prems utf8_length [OF U c] by simp
  have next_c: "?f (length p) = Some (c, length p + length (enc c))"
    using utf8_decode [OF U c, of p n "concat (map enc cs) @ rest"] s Cons.prems(3) by simp
  have "length s' + 4 < n * 4 + 1" using Cons.prems(4) i by linarith
  then have e: "replace_character put (n * 4 + 1) s' c = Inr (s' @ printed_character enc c)"
    by (rule replace_character_printed [OF U c])
  have "length (s' @ printed_character enc c) \<le> 4 * length (p @ enc c)"
    using length_printed_character [OF U c] Cons.prems(4) by simp
  then have "replace_characters ?f put n (n * 4 + 1) (length (p @ enc c)) (s' @ printed_character enc c) =
      Some (Inr ((s' @ printed_character enc c) @ concat (map (printed_character enc) cs)))"
    using Cons.prems s by (intro Cons.IH) simp_all
  moreover have "replace_characters ?f put n (n * 4 + 1) (length p) s' =
      replace_characters ?f put n (n * 4 + 1) (length (p @ enc c)) (s' @ printed_character enc c)"
    by (subst replace_characters.simps) (simp only: i next_c e if_True option.case prod.case sum.case length_append)
  ultimately show ?case by simp
qed

definition printed_name :: "(u32 \<Rightarrow> u8 list) \<Rightarrow> u32 list \<Rightarrow> u8 list" where
  "printed_name enc cs = concat (map (printed_character enc) cs)"

lemma hexadecimal_digits_characters: "c \<in> set (hexadecimal_digits k v) \<Longrightarrow> 0x30 \<le> c"
proof (induction k)
  case (Suc k)
  have "0x30 \<le> hexadecimal_character d" if "d < 16" for d
    using u32_below_16 [OF that] by (elim insertE) (simp_all add: hexadecimal_character_def)
  then show ?case using Suc nibble_less by (metis hexadecimal_digits.simps(2) set_ConsD)
qed simp

text \<open>No control character is printed.\<close>

lemma control_not_printed:
  assumes U: "utf8_coding valid enc U put" and "\<forall>c \<in> set cs. valid c" and "b \<le> 0x1f"
  shows "b \<notin> set (printed_name enc cs)"
proof -
  have b: "unat b \<le> 31" using assms(3) by (simp add: word_le_nat_alt)
  have "b \<notin> set (printed_character enc c)" if "valid c" for c
  proof (cases "replaced_by_2_digits c")
    case True
    then have "c \<le> 0x9f"
      unfolding replaced_by_2_digits_def by (elim disjE conjE) (simp_all add: word_le_nat_alt)
    then have "unat c < 2 ^ (4 * 2)" by (simp add: word_le_nat_alt)
    then have "\<forall>x \<in> set (format_hexadecimal 2 c). 0x30 \<le> x"
      using hexadecimal_digits_characters by (simp add: format_hexadecimal_digits)
    then have "\<forall>x \<in> set (printed_character enc c). 0x30 \<le> x" using True by (simp add: printed_character_def)
    then show ?thesis using b by (auto simp: word_le_nat_alt)
  next
    case False
    have "unat (ucast b :: u32) \<le> 31" using b by (simp add: unsigned_ucast_eq take_bit_nat_eq_self)
    then have "replaced_by_2_digits (ucast b)" by (simp add: replaced_by_2_digits_def word_le_nat_alt)
    then have "c \<noteq> ucast b" using False by auto
    moreover have "b < 0x80" using b by (simp add: word_less_nat_alt)
    ultimately show ?thesis using False utf8_other [OF U that, of b] by (simp add: printed_character_def)
  qed
  then show ?thesis using assms(2) by (auto simp: printed_name_def)
qed

lemma escaped_value_printed:
  assumes U: "utf8_coding valid enc U put" and "\<forall>c \<in> set cs. valid c"
    and "length (concat (map enc cs)) \<le> (SSIZE_MAX - 1) div 4"
  shows "escaped_value_string U put (Some (concat (map enc cs) @ rest)) (length (concat (map enc cs))) =
    Some (Inr (printed_name enc cs))"
proof -
  let ?s = "concat (map enc cs)"
  have "replace_characters (una_from_utf8 U (?s @ rest) (length ?s)) put (length ?s) (length ?s * 4 + 1) 0 [] =
      Some (Inr (printed_name enc cs))"
    using replace_characters_printed [OF U assms(2), of "?s @ rest" "[]" rest "length ?s" "[]"]
    by (simp add: printed_name_def)
  moreover have "length (printed_name enc cs) \<le> length ?s * 4"
    using assms(2)
  proof (induction cs)
    case (Cons c cs)
    then show ?case using length_printed_character [OF U, of c] by (simp add: printed_name_def)
  qed (simp add: printed_name_def)
  moreover have "c_string (printed_name enc cs) = printed_name enc cs"
    using control_not_printed [OF U assms(2), of 0] by (simp add: c_string_def takeWhile_eq_all_conv) (metis)
  ultimately show ?thesis using assms(3) by (simp add: escaped_value_string_def)
qed

end
