(* ===== verification/Info_Handle.thy ===== *)
theory Info_Handle
  imports Mount_Handle Info_Print
begin

text \<open>
  The handle of the tool that prints a volume, \<^verbatim>\<open>fsfattools/info_handle.c\<close>: its options, opening and
  closing, and the printing of the values of a file entry. An output stream is the list of the
  bytes that have been written to it. What is printed before an error stays printed, so the
  functions that print return the handle beside their result. The variant for systems other than
  Windows, with strings of bytes, is modelled.
\<close>

section \<open>The handle\<close>

record ('h, 'arr, 'cache) info_handle =
  ih_volume_offset :: off64
  ih_input_file_io_handle :: "'h option"
  ih_input_volume :: "('h, 'arr, 'cache) volume option"
  ih_file_system_format :: file_system_format
  ih_root_directory_identifier :: u64
  ih_calculate_md5 :: u8
  ih_bodyfile_stream :: "u8 list option"
  ih_notify_stream :: "u8 list"
  ih_abort :: int

definition info_handle_initialize ::
  "'h range_ops \<Rightarrow> ('h, 'arr, 'cache) info_handle option \<Rightarrow> u8 \<Rightarrow> ('h, 'arr, 'cache) info_handle result" where
  "info_handle_initialize R info_handle calculate_md5 =
     (if info_handle \<noteq> None then Inl RUNTIME_VALUE_ALREADY_SET
      else
        (case range_initialize R of
           None \<Rightarrow> Inl RUNTIME_INITIALIZE_FAILED
         | Some h \<Rightarrow>
             Inr \<lparr> ih_volume_offset = 0, ih_input_file_io_handle = Some h, ih_input_volume = None,
                   ih_file_system_format = FORMAT_UNKNOWN, ih_root_directory_identifier = 0,
                   ih_calculate_md5 = calculate_md5, ih_bodyfile_stream = None, ih_notify_stream = [],
                   ih_abort = 0 \<rparr>))"

definition info_handle_signal_abort ::
  "('h, 'arr, 'cache) info_handle option \<Rightarrow> ('h, 'arr, 'cache) info_handle option \<times> unit result" where
  "info_handle_signal_abort info_handle =
     (case info_handle of
        None \<Rightarrow> (None, Inl ARGUMENT_INVALID_VALUE)
      | Some ih \<Rightarrow>
          let ih = ih\<lparr> ih_abort := 1 \<rparr>
          in if ih_input_volume ih = None then (Some ih, Inr ())
             else
               (case libfsfat_volume_signal_abort (ih_input_volume ih) of
                  Inl e \<Rightarrow> (Some ih, Inl RUNTIME_SET_FAILED)
                | Inr v \<Rightarrow> (Some (ih\<lparr> ih_input_volume := Some v \<rparr>), Inr ())))"

text \<open>Opening the file is up to the system, which tells whether it succeeds; the file is emptied.\<close>

definition info_handle_set_bodyfile ::
  "(u8 list \<Rightarrow> bool) \<Rightarrow> ('h, 'arr, 'cache) info_handle option \<Rightarrow> u8 list option \<Rightarrow>
   ('h, 'arr, 'cache) info_handle result" where
  "info_handle_set_bodyfile file_stream_open info_handle filename =
     (case info_handle of
        None \<Rightarrow> Inl ARGUMENT_INVALID_VALUE
      | Some ih \<Rightarrow>
          if ih_bodyfile_stream ih \<noteq> None then Inl RUNTIME_VALUE_ALREADY_SET
          else
            (case filename of
               None \<Rightarrow> Inl ARGUMENT_INVALID_VALUE
             | Some filename \<Rightarrow>
                 if file_stream_open filename then Inr (ih\<lparr> ih_bodyfile_stream := Some [] \<rparr>)
                 else Inl IO_OPEN_FAILED))"

text \<open>The code is that of the mount tool, with its own copy of the parser.\<close>

definition info_handle_system_string_copy_from_64_bit_in_decimal :: "u8 list option \<Rightarrow> nat \<Rightarrow> u64 result" where
  "info_handle_system_string_copy_from_64_bit_in_decimal string string_size =
     (case string of
        None \<Rightarrow> Inl ARGUMENT_INVALID_VALUE
      | Some string \<Rightarrow>
          if string_size > SSIZE_MAX then Inl ARGUMENT_VALUE_EXCEEDS_MAXIMUM
          else if string = [] \<or> string_size > length string then Inl MEMORY_FAULT
          else
            let signed = (string ! 0 = 0x2d \<or> string ! 0 = 0x2b);
                string_index = (if signed then 1 else 0);
                maximum_string_index = (if signed then 21 else 20)
            in (case decimal_digits (drop string_index (take string_size string)) string_index
                       maximum_string_index 0 of
                  Inl e \<Rightarrow> Inl e
                | Inr value_64bit \<Rightarrow> Inr (if string ! 0 = 0x2d then - value_64bit else value_64bit)))"

definition info_handle_set_volume_offset ::
  "('h, 'arr, 'cache) info_handle option \<Rightarrow> u8 list option \<Rightarrow> ('h, 'arr, 'cache) info_handle result" where
  "info_handle_set_volume_offset info_handle string =
     (case info_handle of
        None \<Rightarrow> Inl ARGUMENT_INVALID_VALUE
      | Some ih \<Rightarrow>
     (case string of
        None \<Rightarrow> Inl MEMORY_FAULT
      | Some string \<Rightarrow>
          (case info_handle_system_string_copy_from_64_bit_in_decimal (Some (string @ [0])) (length string + 1) of
             Inl e \<Rightarrow> Inl RUNTIME_COPY_FAILED
           | Inr value_64bit \<Rightarrow> Inr (ih\<lparr> ih_volume_offset := value_64bit \<rparr>))))"

section \<open>Opening and closing\<close>

text \<open>The handle without its volume, which is freed after an error.\<close>

definition without_input_volume ::
  "'h bfio_ops \<Rightarrow> ('h, 'arr, 'cache) info_handle \<Rightarrow> ('h, 'arr, 'cache) info_handle" where
  "without_input_volume B ih =
     (if ih_input_volume ih = None then ih
      else
        (case libfsfat_volume_free B (ih_input_volume ih) of
           (handle, _) \<Rightarrow>
             ih\<lparr> ih_input_volume := None,
                 ih_input_file_io_handle :=
                   (case handle of None \<Rightarrow> ih_input_file_io_handle ih | Some h \<Rightarrow> Some h) \<rparr>))"

text \<open>The handle after the call and the result; the name is a C string without its terminator.\<close>

definition info_handle_open_input ::
  "(nat \<Rightarrow> u8) \<Rightarrow> ('cache, 'value, 'arr directory) cache_ops \<Rightarrow> ('arr, nat) array_ops \<Rightarrow>
   ('tarr, node_entry) array_ops \<Rightarrow> 'h bfio_ops \<Rightarrow> 'h range_ops \<Rightarrow>
   ('h, 'arr, 'cache) info_handle option \<Rightarrow> u8 list option \<Rightarrow>
   (('h, 'arr, 'cache) info_handle option \<times> unit result) option" where
  "info_handle_open_input junk C A T B R info_handle filename =
     (case info_handle of
        None \<Rightarrow> Some (None, Inl ARGUMENT_INVALID_VALUE)
      | Some ih \<Rightarrow>
     (case filename of
        None \<Rightarrow> Some (Some ih, Inl MEMORY_FAULT)
      | Some filename \<Rightarrow>
     (case Option.bind (ih_input_file_io_handle ih) (\<lambda>h. range_set_name R h filename (length filename)) of
        None \<Rightarrow> Some (Some (without_input_volume B ih), Inl RUNTIME_SET_FAILED)
      | Some h \<Rightarrow>
     (case range_set R h (ih_volume_offset ih) 0 of
        None \<Rightarrow> Some (Some (without_input_volume B (ih\<lparr> ih_input_file_io_handle := Some h \<rparr>)), Inl RUNTIME_SET_FAILED)
      | Some h \<Rightarrow>
          let ih = ih\<lparr> ih_input_file_io_handle := Some h \<rparr>
          in (case libfsfat_volume_initialize (ih_input_volume ih) of
                Inl e \<Rightarrow> Some (Some (without_input_volume B ih), Inl RUNTIME_INITIALIZE_FAILED)
              | Inr v \<Rightarrow>
                  (case libfsfat_volume_open_file_io_handle junk C A T B (Some v) (Some h) ACCESS_FLAG_READ of
                     None \<Rightarrow> None
                   | Some (input_volume, handle, Inl e) \<Rightarrow>
                       Some (Some (without_input_volume B (ih\<lparr> ih_input_volume := input_volume,
                           ih_input_file_io_handle := handle \<rparr>)), Inl IO_OPEN_FAILED)
                   | Some (input_volume, handle, Inr _) \<Rightarrow>
                       Some (Some (ih\<lparr> ih_input_volume := input_volume, ih_input_file_io_handle := handle \<rparr>),
                         Inr ())))))))"

definition info_handle_close_input ::
  "'h bfio_ops \<Rightarrow> ('h, 'arr, 'cache) info_handle option \<Rightarrow>
   ('h, 'arr, 'cache) info_handle option \<times> unit result" where
  "info_handle_close_input B info_handle =
     (case info_handle of
        None \<Rightarrow> (None, Inl ARGUMENT_INVALID_VALUE)
      | Some ih \<Rightarrow>
          if ih_input_volume ih = None then (Some ih, Inr ())
          else
            (case libfsfat_volume_close B (ih_input_volume ih) of
               (input_volume, handle, closed) \<Rightarrow>
                 (Some (ih\<lparr> ih_input_volume := input_volume,
                     ih_input_file_io_handle :=
                       (case handle of None \<Rightarrow> ih_input_file_io_handle ih | Some h \<Rightarrow> Some h) \<rparr>),
                  case closed of Inl e \<Rightarrow> Inl IO_CLOSE_FAILED | Inr _ \<Rightarrow> Inr ())))"

text \<open>
  The end of a handle. Closing the file of the bodyfile is up to the system, which tells whether it
  succeeds. Every part is given up, and the last error is the one that is reported.
\<close>

definition info_handle_free ::
  "'h bfio_ops \<Rightarrow> bool \<Rightarrow> ('h, 'arr, 'cache) info_handle option \<Rightarrow> unit result" where
  "info_handle_free B file_stream_close info_handle =
     (case info_handle of
        None \<Rightarrow> Inr ()
      | Some ih \<Rightarrow>
          (case libfsfat_volume_free B (ih_input_volume ih) of
             (handle, freed) \<Rightarrow>
               if ih_bodyfile_stream ih \<noteq> None \<and> \<not> file_stream_close then Inl IO_CLOSE_FAILED
               else
                 (case (case handle of None \<Rightarrow> ih_input_file_io_handle ih | Some h \<Rightarrow> Some h) of
                    Some h \<Rightarrow>
                      if \<not> bfio_handle_free B h then Inl RUNTIME_FINALIZE_FAILED
                      else (case freed of Inl e \<Rightarrow> Inl RUNTIME_FINALIZE_FAILED | Inr _ \<Rightarrow> Inr ())
                  | None \<Rightarrow> (case freed of Inl e \<Rightarrow> Inl RUNTIME_FINALIZE_FAILED | Inr _ \<Rightarrow> Inr ()))))"

section \<open>Printing\<close>

definition print_notify ::
  "u8 list \<Rightarrow> ('h, 'arr, 'cache) info_handle \<Rightarrow> ('h, 'arr, 'cache) info_handle" where
  "print_notify string ih = ih\<lparr> ih_notify_stream := ih_notify_stream ih @ string \<rparr>"

definition print_bodyfile ::
  "u8 list \<Rightarrow> ('h, 'arr, 'cache) info_handle \<Rightarrow> ('h, 'arr, 'cache) info_handle" where
  "print_bodyfile string ih = ih\<lparr> ih_bodyfile_stream := map_option (\<lambda>b. b @ string) (ih_bodyfile_stream ih) \<rparr>"

text \<open>A name is printed as a whole, or not at all after an error.\<close>

definition info_handle_name_value_fprint ::
  "una_ops \<Rightarrow> (u32 \<Rightarrow> nat \<Rightarrow> nat \<Rightarrow> u8 list option) \<Rightarrow> ('h, 'arr, 'cache) info_handle option \<Rightarrow>
   u8 list option \<Rightarrow> nat \<Rightarrow> ('h, 'arr, 'cache) info_handle result option" where
  "info_handle_name_value_fprint U put info_handle value_string value_string_length =
     (case info_handle of
        None \<Rightarrow> Some (Inl ARGUMENT_INVALID_VALUE)
      | Some ih \<Rightarrow>
          (case escaped_value_string U put value_string value_string_length of
             None \<Rightarrow> None
           | Some (Inl e) \<Rightarrow> Some (Inl e)
           | Some (Inr escaped) \<Rightarrow>
               Some (Inr (if ih_bodyfile_stream ih \<noteq> None then print_bodyfile escaped ih
                          else print_notify escaped ih))))"

text \<open>A name that is printed unless it is \<open>NULL\<close>.\<close>

definition optional_name_fprint ::
  "una_ops \<Rightarrow> (u32 \<Rightarrow> nat \<Rightarrow> nat \<Rightarrow> u8 list option) \<Rightarrow> ('h, 'arr, 'cache) info_handle \<Rightarrow>
   u8 list option \<Rightarrow> nat \<Rightarrow> ('h, 'arr, 'cache) info_handle result option" where
  "optional_name_fprint U put ih name name_length =
     (if name = None then Some (Inr ih)
      else info_handle_name_value_fprint U put (Some ih) name name_length)"

text \<open>
  \<open>posix_time\<close> is libfdatetime: the string of a number of microseconds since 1970, or \<open>None\<close> if one
  of its calls fails.
\<close>

definition info_handle_fat_timestamp_value_fprint ::
  "(u64 \<Rightarrow> u8 list option) \<Rightarrow> ('h, 'arr, 'cache) info_handle option \<Rightarrow> u8 list \<Rightarrow> u64 \<Rightarrow>
   ('h, 'arr, 'cache) info_handle result" where
  "info_handle_fat_timestamp_value_fprint posix_time info_handle value_name value_64bit =
     (case info_handle of
        None \<Rightarrow> Inl ARGUMENT_INVALID_VALUE
      | Some ih \<Rightarrow>
          if value_64bit = 0 then Inr (print_notify (value_name @ ascii '': Not set (0)'' @ [0x0a]) ih)
          else
            (case posix_time ((value_64bit + 31553280000) * 10000) of
               None \<Rightarrow> Inl RUNTIME_SET_FAILED
             | Some date_time_string \<Rightarrow>
                 Inr (print_notify (value_name @ ascii '': '' @ date_time_string @ ascii ''.'' @
                   zero_filled 2 (decimal (unat (value_64bit mod 100))) @
                   (if ih_file_system_format ih = FORMAT_EXFAT then ascii '' UTC'' else []) @ [0x0a]) ih)))"

definition FILE_ATTRIBUTE_FLAG_READ_ONLY :: u16 where "FILE_ATTRIBUTE_FLAG_READ_ONLY = 0x01"
definition FILE_ATTRIBUTE_FLAG_HIDDEN :: u16 where "FILE_ATTRIBUTE_FLAG_HIDDEN = 0x02"
definition FILE_ATTRIBUTE_FLAG_SYSTEM :: u16 where "FILE_ATTRIBUTE_FLAG_SYSTEM = 0x04"
definition FILE_ATTRIBUTE_FLAG_ARCHIVE :: u16 where "FILE_ATTRIBUTE_FLAG_ARCHIVE = 0x20"

text \<open>The text that is printed for the flags.\<close>

definition info_handle_file_attribute_flags_fprint :: "u16 \<Rightarrow> u8 list" where
  "info_handle_file_attribute_flags_fprint file_attribute_flags =
     (let line = \<lambda>flag string. if file_attribute_flags AND flag \<noteq> 0 then [0x09, 0x09] @ ascii string @ [0x0a] else []
      in line FILE_ATTRIBUTE_FLAG_READ_ONLY ''Is read-only (FILE_ATTRIBUTE_READ_ONLY)'' @
         line FILE_ATTRIBUTE_FLAG_HIDDEN ''Is hidden (FILE_ATTRIBUTE_HIDDEN)'' @
         line FILE_ATTRIBUTE_FLAG_SYSTEM ''Is system (FILE_ATTRIBUTE_SYSTEM)'' @
         line FILE_ATTRIBUTE_FLAG_DIRECTORY ''Is directory (FILE_ATTRIBUTE_DIRECTORY)'' @
         line FILE_ATTRIBUTE_FLAG_ARCHIVE ''Should be archived (FILE_ATTRIBUTE_ARCHIVE)'' @
         line FILE_ATTRIBUTE_FLAG_DEVICE ''Is device (FILE_ATTRIBUTE_DEVICE)'')"

section \<open>The hash of a file\<close>

text \<open>The operations of libhmac on the context of a hash; the hash has 16 bytes.\<close>

record 'm md5_ops =
  md5_initialize :: "'m option"
  md5_update :: "'m \<Rightarrow> u8 list \<Rightarrow> 'm option"
  md5_finalize :: "'m \<Rightarrow> u8 list option"

text \<open>The loop over the data, which is read in parts of at most 4096 bytes.\<close>

function hash_data ::
  "('tarr, node_entry) array_ops \<Rightarrow> ('xarr, extent) array_ops \<Rightarrow> 's stream_ops \<Rightarrow> 'm md5_ops \<Rightarrow>
   ('arr, 'cache, 'xarr, 's) file_entry \<Rightarrow> u64 \<Rightarrow> 'm \<Rightarrow>
   (('arr, 'cache, 'xarr, 's) file_entry \<times> 'm) result option" where
  "hash_data T X S M fe data_size md5_context =
     (if data_size = 0 then Some (Inr (fe, md5_context))
      else
        let read_size = (if 4096 > data_size then data_size else 4096)
        in (case libfsfat_file_entry_read_buffer T X S (Some fe) (unat read_size) of
              None \<Rightarrow> None
            | Some (Inl e) \<Rightarrow> Some (Inl IO_READ_FAILED)
            | Some (Inr (fe, read_buffer)) \<Rightarrow>
                if length read_buffer \<noteq> unat read_size then Some (Inl IO_READ_FAILED)
                else
                  (case md5_update M md5_context read_buffer of
                     None \<Rightarrow> Some (Inl RUNTIME_SET_FAILED)
                   | Some md5_context \<Rightarrow> hash_data T X S M fe (data_size - read_size) md5_context)))"
  by auto
termination
proof (relation "measure (\<lambda>(T, X, S, M, fe, data_size, md5_context). unat data_size)", goal_cases)
  case (2 T X S M fe data_size md5_context read_size)
  then have "0 < read_size" "read_size \<le> data_size" by (auto simp: word_gt_0 not_less split: if_splits)
  then have "unat (data_size - read_size) < unat data_size"
    by (simp add: unat_sub word_less_nat_alt word_le_nat_alt)
  then show ?case by simp
qed simp

declare hash_data.simps [simp del]

text \<open>
  The file entry after the call and the string of the hash, for a buffer of a size. A seek that
  fails without setting an error is a failure, too.
\<close>

definition info_handle_file_entry_calculate_md5 ::
  "('tarr, node_entry) array_ops \<Rightarrow> ('xarr, extent) array_ops \<Rightarrow> 's stream_ops \<Rightarrow> 'm md5_ops \<Rightarrow>
   ('h, 'arr, 'cache) info_handle option \<Rightarrow> ('arr, 'cache, 'xarr, 's) file_entry option \<Rightarrow> nat \<Rightarrow>
   (('arr, 'cache, 'xarr, 's) file_entry \<times> u8 list) result option" where
  "info_handle_file_entry_calculate_md5 T X S M info_handle file_entry md5_string_size =
     (if info_handle = None then Some (Inl ARGUMENT_INVALID_VALUE)
      else
     (case libfsfat_file_entry_get_size file_entry of
        Inl e \<Rightarrow> Some (Inl RUNTIME_GET_FAILED)
      | Inr data_size \<Rightarrow>
     (case libfsfat_file_entry_seek_offset T X S file_entry 0 0 of
        None \<Rightarrow> None
      | Some (Inl e) \<Rightarrow> Some (Inl IO_SEEK_FAILED)
      | Some (Inr (fe, offset)) \<Rightarrow>
          if offset = - 1 then Some (Inl IO_SEEK_FAILED)
          else
     (case md5_initialize M of
        None \<Rightarrow> Some (Inl RUNTIME_INITIALIZE_FAILED)
      | Some md5_context \<Rightarrow>
     (case hash_data T X S M fe data_size md5_context of
        None \<Rightarrow> None
      | Some (Inl e) \<Rightarrow> Some (Inl e)
      | Some (Inr (fe, md5_context)) \<Rightarrow>
     (case md5_finalize M md5_context of
        None \<Rightarrow> Some (Inl RUNTIME_FINALIZE_FAILED)
      | Some md5_hash \<Rightarrow>
          (case digest_hash_copy_to_string (Some md5_hash) 16 md5_string_size of
             Inl e \<Rightarrow> Some (Inl RUNTIME_SET_FAILED)
           | Inr md5_string \<Rightarrow> Some (Inr (fe, md5_string)))))))))"

section \<open>The values of a file entry\<close>

text \<open>The hash column of a bodyfile: zero, or the zeros of a hash, unless the hash is calculated.\<close>

definition bodyfile_md5_string ::
  "('tarr, node_entry) array_ops \<Rightarrow> ('xarr, extent) array_ops \<Rightarrow> 's stream_ops \<Rightarrow> 'm md5_ops \<Rightarrow>
   ('h, 'arr, 'cache) info_handle \<Rightarrow> ('arr, 'cache, 'xarr, 's) file_entry option \<Rightarrow> u16 \<Rightarrow>
   (('arr, 'cache, 'xarr, 's) file_entry option \<times> u8 list) result option" where
  "bodyfile_md5_string T X S M ih file_entry file_attribute_flags =
     (if ih_calculate_md5 ih = 0 then Some (Inr (file_entry, [0x30]))
      else if file_attribute_flags AND FILE_ATTRIBUTE_FLAG_VOLUME_LABEL = 0 \<and>
              file_attribute_flags AND FILE_ATTRIBUTE_FLAG_DIRECTORY = 0 \<and>
              file_attribute_flags AND FILE_ATTRIBUTE_FLAG_DEVICE = 0
      then
        (case info_handle_file_entry_calculate_md5 T X S M (Some ih) file_entry 33 of
           None \<Rightarrow> None
         | Some (Inl e) \<Rightarrow> Some (Inl RUNTIME_GET_FAILED)
         | Some (Inr (fe, md5_string)) \<Rightarrow> Some (Inr (Some fe, c_string md5_string)))
      else Some (Inr (file_entry, replicate 32 0x30)))"

definition file_mode_string :: "u16 \<Rightarrow> u8 list" where
  "file_mode_string file_attribute_flags =
     (let w = (if file_attribute_flags AND FILE_ATTRIBUTE_FLAG_READ_ONLY \<noteq> 0 \<or>
                  file_attribute_flags AND FILE_ATTRIBUTE_FLAG_SYSTEM \<noteq> 0 then CHR ''-'' else CHR ''w'')
      in ascii [if file_attribute_flags AND FILE_ATTRIBUTE_FLAG_DIRECTORY \<noteq> 0 then CHR ''d'' else CHR ''-'',
           CHR ''r'', w, CHR ''x'', CHR ''r'', w, CHR ''x'', CHR ''r'', w, CHR ''x''])"

text \<open>The number of a file entry, in the order of the Sleuth Kit.\<close>

definition bodyfile_inode :: "u64 \<Rightarrow> u64 \<Rightarrow> u64" where
  "bodyfile_inode root_directory_identifier file_entry_identifier =
     (let file_entry_identifier = file_entry_identifier - root_directory_identifier
      in if file_entry_identifier = 0 then 2 else file_entry_identifier div 32 + 3)"

text \<open>A time in hundredths of a second since 1970, and 0 if it is not set.\<close>

definition bodyfile_time :: "u64 \<Rightarrow> u64" where
  "bodyfile_time t = (if t \<noteq> 0 then t + 31553280000 else t)"

text \<open>The columns behind the name.\<close>

definition bodyfile_columns :: "file_system_format \<Rightarrow> u64 \<Rightarrow> u16 \<Rightarrow> u64 \<Rightarrow> u64 \<Rightarrow> u64 \<Rightarrow> u64 \<Rightarrow> u8 list" where
  "bodyfile_columns file_system_format inode file_attribute_flags data_size access_time modification_time creation_time =
     (let bar = ascii ''|''; number = \<lambda>n :: u64. decimal (unat n);
          time = \<lambda>t. number (t div 100);
          fraction = \<lambda>t :: u64. ascii ''.'' @ zero_filled 2 (number (t mod 100));
          access_time = bodyfile_time access_time;
          modification_time = bodyfile_time modification_time;
          creation_time = bodyfile_time creation_time
      in bar @ number inode @ bar @ file_mode_string file_attribute_flags @ ascii ''|0|0|'' @
         number data_size @ bar @ time access_time @ bar @ time modification_time @
         (if file_system_format = FORMAT_EXFAT then fraction modification_time else []) @ ascii ''|0|'' @
         time creation_time @ fraction creation_time @ [0x0a])"

text \<open>The row of a bodyfile.\<close>

definition bodyfile_value_fprint ::
  "una_ops \<Rightarrow> (u32 \<Rightarrow> nat \<Rightarrow> nat \<Rightarrow> u8 list option) \<Rightarrow> ('tarr, node_entry) array_ops \<Rightarrow>
   ('xarr, extent) array_ops \<Rightarrow> 's stream_ops \<Rightarrow> 'm md5_ops \<Rightarrow> ('h, 'arr, 'cache) info_handle \<Rightarrow>
   ('arr, 'cache, 'xarr, 's) file_entry option \<Rightarrow> u8 list option \<Rightarrow> nat \<Rightarrow> u8 list option \<Rightarrow> nat \<Rightarrow>
   u64 \<Rightarrow> u16 \<Rightarrow> u64 \<Rightarrow> u64 \<Rightarrow> u64 \<Rightarrow> u64 \<Rightarrow>
   (('h, 'arr, 'cache) info_handle \<times> ('arr, 'cache, 'xarr, 's) file_entry option result) option" where
  "bodyfile_value_fprint U put T X S M ih file_entry path path_length file_entry_name file_entry_name_length
       file_entry_identifier file_attribute_flags data_size access_time modification_time creation_time =
     (case bodyfile_md5_string T X S M ih file_entry file_attribute_flags of
        None \<Rightarrow> None
      | Some (Inl e) \<Rightarrow> Some (ih, Inl e)
      | Some (Inr (file_entry, md5_string)) \<Rightarrow>
          let ih = print_bodyfile (md5_string @ ascii ''|'') ih
          in (case optional_name_fprint U put ih path path_length of
                None \<Rightarrow> None
              | Some (Inl e) \<Rightarrow> Some (ih, Inl RUNTIME_PRINT_FAILED)
              | Some (Inr ih) \<Rightarrow>
                  (case optional_name_fprint U put ih file_entry_name file_entry_name_length of
                     None \<Rightarrow> None
                   | Some (Inl e) \<Rightarrow> Some (ih, Inl RUNTIME_PRINT_FAILED)
                   | Some (Inr ih) \<Rightarrow>
                       Some (print_bodyfile (bodyfile_columns (ih_file_system_format ih)
                           (bodyfile_inode (ih_root_directory_identifier ih) file_entry_identifier)
                           file_attribute_flags data_size access_time modification_time creation_time) ih,
                         Inr file_entry))))"

text \<open>The lines with the times, one after the other.\<close>

fun timestamps_fprint ::
  "(u64 \<Rightarrow> u8 list option) \<Rightarrow> ('h, 'arr, 'cache) info_handle \<Rightarrow> (u8 list \<times> u64) list \<Rightarrow>
   ('h, 'arr, 'cache) info_handle \<times> unit result" where
  "timestamps_fprint posix_time ih [] = (ih, Inr ())"
| "timestamps_fprint posix_time ih ((value_name, value_64bit) # timestamps) =
     (case info_handle_fat_timestamp_value_fprint posix_time (Some ih) value_name value_64bit of
        Inl e \<Rightarrow> (ih, Inl RUNTIME_PRINT_FAILED)
      | Inr ih \<Rightarrow> timestamps_fprint posix_time ih timestamps)"

text \<open>The line with the name, if there is one.\<close>

definition name_line_fprint ::
  "una_ops \<Rightarrow> (u32 \<Rightarrow> nat \<Rightarrow> nat \<Rightarrow> u8 list option) \<Rightarrow> ('h, 'arr, 'cache) info_handle \<Rightarrow>
   u8 list option \<Rightarrow> nat \<Rightarrow> u8 list option \<Rightarrow> nat \<Rightarrow>
   (('h, 'arr, 'cache) info_handle \<times> unit result) option" where
  "name_line_fprint U put ih path path_length file_entry_name file_entry_name_length =
     (if file_entry_name = None then Some (ih, Inr ())
      else
        let ih = print_notify ([0x09] @ ascii ''Name'' @ [0x09, 0x09, 0x09] @ ascii '': '') ih
        in (case optional_name_fprint U put ih path path_length of
              None \<Rightarrow> None
            | Some (Inl e) \<Rightarrow> Some (ih, Inl RUNTIME_PRINT_FAILED)
            | Some (Inr ih) \<Rightarrow>
                (case optional_name_fprint U put ih file_entry_name file_entry_name_length of
                   None \<Rightarrow> None
                 | Some (Inl e) \<Rightarrow> Some (ih, Inl RUNTIME_PRINT_FAILED)
                 | Some (Inr ih) \<Rightarrow> Some (print_notify [0x0a] ih, Inr ()))))"

text \<open>The lines of a file entry.\<close>

definition notify_value_fprint ::
  "una_ops \<Rightarrow> (u32 \<Rightarrow> nat \<Rightarrow> nat \<Rightarrow> u8 list option) \<Rightarrow> (u64 \<Rightarrow> u8 list option) \<Rightarrow>
   ('h, 'arr, 'cache) info_handle \<Rightarrow> u8 list option \<Rightarrow> nat \<Rightarrow> u8 list option \<Rightarrow> nat \<Rightarrow>
   u64 \<Rightarrow> u16 \<Rightarrow> u64 \<Rightarrow> u64 \<Rightarrow> u64 \<Rightarrow> u64 \<Rightarrow> (('h, 'arr, 'cache) info_handle \<times> unit result) option" where
  "notify_value_fprint U put posix_time ih path path_length file_entry_name file_entry_name_length
       file_entry_identifier file_attribute_flags data_size access_time modification_time creation_time =
     (let ih = print_notify ([0x09] @ ascii ''Identifier'' @ [0x09, 0x09] @ ascii '': 0x'' @
             zero_filled 8 (hexadecimal (unat file_entry_identifier)) @ [0x0a]) ih
      in (case name_line_fprint U put ih path path_length file_entry_name file_entry_name_length of
            None \<Rightarrow> None
          | Some (ih, Inl e) \<Rightarrow> Some (ih, Inl e)
          | Some (ih, Inr _) \<Rightarrow>
              let ih = print_notify ([0x09] @ ascii ''Size'' @ [0x09, 0x09, 0x09] @ ascii '': '' @
                    decimal (unat data_size) @ [0x0a]) ih
              in (case timestamps_fprint posix_time ih
                         [([0x09] @ ascii ''Modification time'' @ [0x09], modification_time),
                          ([0x09] @ ascii ''Access time'' @ [0x09, 0x09], access_time),
                          ([0x09] @ ascii ''Creation time'' @ [0x09, 0x09], creation_time)] of
                    (ih, Inl e) \<Rightarrow> Some (ih, Inl e)
                  | (ih, Inr _) \<Rightarrow>
                      Some (print_notify ([0x09] @ ascii ''File attribute flags'' @ [0x09] @ ascii '': 0x'' @
                          zero_filled 4 (hexadecimal (unat file_attribute_flags)) @ [0x0a] @
                          info_handle_file_attribute_flags_fprint file_attribute_flags) ih, Inr ()))))"

text \<open>
  The handle and the file entry after the call. A time or flags that the file entry does not
  have are 0.
\<close>

definition info_handle_file_entry_value_with_name_fprint ::
  "una_ops \<Rightarrow> (u32 \<Rightarrow> nat \<Rightarrow> nat \<Rightarrow> u8 list option) \<Rightarrow> ('tarr, node_entry) array_ops \<Rightarrow>
   ('xarr, extent) array_ops \<Rightarrow> 's stream_ops \<Rightarrow> 'm md5_ops \<Rightarrow> (u64 \<Rightarrow> u8 list option) \<Rightarrow>
   ('h, 'arr, 'cache) info_handle option \<Rightarrow> ('arr, 'cache, 'xarr, 's) file_entry option \<Rightarrow>
   u8 list option \<Rightarrow> nat \<Rightarrow> u8 list option \<Rightarrow> nat \<Rightarrow>
   (('h, 'arr, 'cache) info_handle option \<times> ('arr, 'cache, 'xarr, 's) file_entry option result) option" where
  "info_handle_file_entry_value_with_name_fprint U put T X S M posix_time info_handle file_entry
       path path_length file_entry_name file_entry_name_length =
     (case info_handle of
        None \<Rightarrow> Some (None, Inl ARGUMENT_INVALID_VALUE)
      | Some ih \<Rightarrow>
     (case libfsfat_file_entry_get_identifier file_entry of
        Inl e \<Rightarrow> Some (Some ih, Inl RUNTIME_GET_FAILED)
      | Inr file_entry_identifier \<Rightarrow>
     (case libfsfat_file_entry_get_modification_time file_entry of
        Inl e \<Rightarrow> Some (Some ih, Inl RUNTIME_GET_FAILED)
      | Inr modification_time \<Rightarrow>
     (case libfsfat_file_entry_get_access_time file_entry of
        Inl e \<Rightarrow> Some (Some ih, Inl RUNTIME_GET_FAILED)
      | Inr access_time \<Rightarrow>
     (case libfsfat_file_entry_get_creation_time file_entry of
        Inl e \<Rightarrow> Some (Some ih, Inl RUNTIME_GET_FAILED)
      | Inr creation_time \<Rightarrow>
     (case libfsfat_file_entry_get_file_attribute_flags file_entry of
        Inl e \<Rightarrow> Some (Some ih, Inl RUNTIME_GET_FAILED)
      | Inr file_attribute_flags \<Rightarrow>
     (case libfsfat_file_entry_get_size file_entry of
        Inl e \<Rightarrow> Some (Some ih, Inl RUNTIME_GET_FAILED)
      | Inr data_size \<Rightarrow>
          let modification_time = case_option 0 id modification_time;
              access_time = case_option 0 id access_time;
              creation_time = case_option 0 id creation_time;
              file_attribute_flags = case_option 0 id file_attribute_flags
          in if ih_bodyfile_stream ih \<noteq> None
             then map_option (apfst Some)
               (bodyfile_value_fprint U put T X S M ih file_entry path path_length file_entry_name
                 file_entry_name_length file_entry_identifier file_attribute_flags data_size
                 access_time modification_time creation_time)
             else map_option (map_prod Some (map_sum id (\<lambda>_. file_entry)))
               (notify_value_fprint U put posix_time ih path path_length file_entry_name file_entry_name_length
                 file_entry_identifier file_attribute_flags data_size
                 access_time modification_time creation_time))))))))"

end
