(* ===== verification/Info_Hierarchy.thy ===== *)
theory Info_Hierarchy
  imports Info_Handle
begin

text \<open>
  The modes of the tool that prints a volume, in \<^verbatim>\<open>fsfattools/info_handle.c\<close>: the volume itself, a
  file entry by its identifier or its path, and the hierarchy of all the file entries, which is
  walked recursively from the root directory on.
\<close>

section \<open>The hierarchy of the file entries\<close>

text \<open>The name of a file entry with its size, \<open>None\<close> if it has none; the root directory has none.\<close>

definition file_entry_name_value ::
  "una_ops \<Rightarrow> ('arr, nat) array_ops \<Rightarrow> ('arr, 'cache, 'xarr, 's) file_entry option \<Rightarrow>
   (u8 list \<times> nat) option result" where
  "file_entry_name_value U A file_entry =
     (case libfsfat_file_entry_get_utf8_name_size U A file_entry of
        Inl e \<Rightarrow> Inl RUNTIME_GET_FAILED
      | Inr None \<Rightarrow> Inr None
      | Inr (Some file_entry_name_size) \<Rightarrow>
          if file_entry_name_size > 0
          then
            (case libfsfat_file_entry_get_utf8_name U A file_entry file_entry_name_size of
               Inr (Some file_entry_name) \<Rightarrow> Inr (Some (file_entry_name, file_entry_name_size))
             | _ \<Rightarrow> Inl RUNTIME_GET_FAILED)
          else Inr None)"

text \<open>The arguments for the name: the string, or \<open>NULL\<close>, and its length without the terminator.\<close>

definition name_string :: "(u8 list \<times> nat) option \<Rightarrow> u8 list option" where
  "name_string name = map_option fst name"

definition name_string_length :: "(u8 list \<times> nat) option \<Rightarrow> nat" where
  "name_string_length name = (case name of None \<Rightarrow> 0 | Some (_, file_entry_name_size) \<Rightarrow> file_entry_name_size - 1)"

text \<open>The line of a file entry: a row of the bodyfile, or its path.\<close>

definition hierarchy_line_fprint ::
  "una_ops \<Rightarrow> (u32 \<Rightarrow> nat \<Rightarrow> nat \<Rightarrow> u8 list option) \<Rightarrow> ('tarr, node_entry) array_ops \<Rightarrow>
   ('xarr, extent) array_ops \<Rightarrow> 's stream_ops \<Rightarrow> 'm md5_ops \<Rightarrow> (u64 \<Rightarrow> u8 list option) \<Rightarrow>
   ('h, 'arr, 'cache) info_handle \<Rightarrow> ('arr, 'cache, 'xarr, 's) file_entry option \<Rightarrow>
   u8 list \<Rightarrow> nat \<Rightarrow> (u8 list \<times> nat) option \<Rightarrow>
   (('h, 'arr, 'cache) info_handle option \<times> ('arr, 'cache, 'xarr, 's) file_entry option result) option" where
  "hierarchy_line_fprint U put T X S M posix_time ih file_entry path path_length name =
     (if ih_bodyfile_stream ih \<noteq> None
      then
        (case info_handle_file_entry_value_with_name_fprint U put T X S M posix_time (Some ih) file_entry
                (Some path) path_length (name_string name) (name_string_length name) of
           None \<Rightarrow> None
         | Some (info_handle, Inl e) \<Rightarrow> Some (info_handle, Inl RUNTIME_PRINT_FAILED)
         | Some (info_handle, Inr file_entry) \<Rightarrow> Some (info_handle, Inr file_entry))
      else
        (case info_handle_name_value_fprint U put (Some ih) (Some path) path_length of
           None \<Rightarrow> None
         | Some (Inl e) \<Rightarrow> Some (Some ih, Inl RUNTIME_PRINT_FAILED)
         | Some (Inr ih) \<Rightarrow>
             (case optional_name_fprint U put ih (name_string name) (name_string_length name) of
                None \<Rightarrow> None
              | Some (Inl e) \<Rightarrow> Some (Some ih, Inl RUNTIME_PRINT_FAILED)
              | Some (Inr ih) \<Rightarrow> Some (Some (print_notify [0x0a] ih), Inr file_entry))))"

text \<open>The path of the sub file entries with its terminator, which the name of a file entry extends.\<close>

definition sub_path_string :: "u8 list \<Rightarrow> nat \<Rightarrow> (u8 list \<times> nat) option \<Rightarrow> u8 list" where
  "sub_path_string path path_length name =
     take path_length path @
     (case name of
        None \<Rightarrow> []
      | Some (file_entry_name, file_entry_name_size) \<Rightarrow> take (file_entry_name_size - 1) file_entry_name @ [0x5c]) @ [0]"

text \<open>A loop over indices, which ends with the first error.\<close>

primrec each_index ::
  "(int \<Rightarrow> 'state \<Rightarrow> ('state \<times> unit result) option) \<Rightarrow> int list \<Rightarrow> 'state \<Rightarrow> ('state \<times> unit result) option" where
  "each_index step [] state = Some (state, Inr ())"
| "each_index step (index # indices) state =
     (case step index state of
        None \<Rightarrow> None
      | Some (state, Inl e) \<Rightarrow> Some (state, Inl e)
      | Some (state, Inr _) \<Rightarrow> each_index step indices state)"

lemma each_index_mono [partial_function_mono]:
  fixes step :: "('b \<Rightarrow> 'c option) \<Rightarrow> int \<Rightarrow> 'state \<Rightarrow> ('state \<times> unit result) option"
  assumes "\<And>index state. mono_option (\<lambda>f. step f index state)"
  shows "mono_option (\<lambda>f. each_index (step f) indices state)"
proof (rule monotoneI)
  fix f g :: "'b \<Rightarrow> 'c option"
  assume "option.le_fun f g"
  then have step: "step f index state = None \<or> step f index state = step g index state" for index state
    using assms unfolding monotone_def flat_ord_def by blast
  show "option_ord (each_index (step f) indices state) (each_index (step g) indices state)"
  proof (induction indices arbitrary: state)
    case (Cons index indices)
    show ?case
    proof (cases "step g index state")
      case (Some r)
      obtain state' result where "r = (state', result)" by (cases r)
      then show ?thesis
        using Some step [of index state] Cons.IH [of state'] by (cases result) (auto simp: flat_ord_def)
    qed (use step [of index state] in \<open>auto simp: flat_ord_def\<close>)
  qed (simp add: flat_ord_def)
qed

partial_function (option) info_handle_file_system_hierarchy_fprint_file_entry ::
  "una_ops \<Rightarrow> (u32 \<Rightarrow> nat \<Rightarrow> nat \<Rightarrow> u8 list option) \<Rightarrow> ('arr, nat) array_ops \<Rightarrow> ('tarr, node_entry) array_ops \<Rightarrow>
   ('xarr, extent) array_ops \<Rightarrow> 's stream_ops \<Rightarrow> 'm md5_ops \<Rightarrow> (u64 \<Rightarrow> u8 list option) \<Rightarrow>
   ('h, 'arr, 'cache) info_handle option \<Rightarrow> ('arr, 'cache, 'xarr, 's) file_entry option \<Rightarrow>
   u8 list option \<Rightarrow> nat \<Rightarrow> (('h, 'arr, 'cache) info_handle option \<times> unit result) option" where
  "info_handle_file_system_hierarchy_fprint_file_entry U put A T X S M posix_time info_handle file_entry
       path path_length =
     (case info_handle of
        None \<Rightarrow> Some (None, Inl ARGUMENT_INVALID_VALUE)
      | Some ih \<Rightarrow>
     (case path of
        None \<Rightarrow> Some (info_handle, Inl ARGUMENT_INVALID_VALUE)
      | Some string \<Rightarrow>
          if path_length > SSIZE_MAX - 1 then Some (info_handle, Inl ARGUMENT_VALUE_EXCEEDS_MAXIMUM)
          else
     (case file_entry_name_value U A file_entry of
        Inl e \<Rightarrow> Some (info_handle, Inl e)
      | Inr name \<Rightarrow>
     (case hierarchy_line_fprint U put T X S M posix_time ih file_entry string path_length name of
        None \<Rightarrow> None
      | Some (info_handle, Inl e) \<Rightarrow> Some (info_handle, Inl e)
      | Some (info_handle, Inr file_entry) \<Rightarrow>
     (case libfsfat_file_entry_get_number_of_sub_file_entries A T file_entry of
        None \<Rightarrow> None
      | Some (Inl e) \<Rightarrow> Some (info_handle, Inl RUNTIME_GET_FAILED)
      | Some (Inr (fe, number_of_sub_file_entries)) \<Rightarrow>
          let sub_path = sub_path_string string path_length name
          in Option.bind
               (each_index
                  (\<lambda>sub_file_entry_index (info_handle, fe).
                     case libfsfat_file_entry_get_sub_file_entry_by_index A T X (Some fe)
                            sub_file_entry_index None of
                       None \<Rightarrow> None
                     | Some (Inl e) \<Rightarrow> Some ((info_handle, fe), Inl RUNTIME_GET_FAILED)
                     | Some (Inr (fe, sub_file_entry)) \<Rightarrow>
                         Option.bind
                           (info_handle_file_system_hierarchy_fprint_file_entry U put A T X S M posix_time
                              info_handle (Some sub_file_entry) (Some sub_path) (length sub_path - 1))
                           (\<lambda>(info_handle, r). Some ((info_handle, fe),
                              case r of Inl e \<Rightarrow> Inl RUNTIME_PRINT_FAILED | Inr _ \<Rightarrow> Inr ())))
                  [0..number_of_sub_file_entries - 1] (info_handle, fe))
               (\<lambda>((info_handle, _), r). Some (info_handle, r)))))))"

text \<open>The first line of the output, with an empty line behind it.\<close>

definition information_header :: "u8 list" where
  "information_header = ascii ''File Allocation Table (FAT) file system information:'' @ [0x0a, 0x0a]"

text \<open>
  The hierarchy from the root directory on. The library always has a root directory, so the
  return value 0 of its function does not occur.
\<close>

definition info_handle_file_system_hierarchy_fprint ::
  "una_ops \<Rightarrow> (u32 \<Rightarrow> nat \<Rightarrow> nat \<Rightarrow> u8 list option) \<Rightarrow> ('arr, nat) array_ops \<Rightarrow> ('tarr, node_entry) array_ops \<Rightarrow>
   ('xarr, extent) array_ops \<Rightarrow> 's stream_ops \<Rightarrow> 'm md5_ops \<Rightarrow> (u64 \<Rightarrow> u8 list option) \<Rightarrow> 'h bfio_ops \<Rightarrow>
   ('h, 'arr, 'cache) info_handle option \<Rightarrow> (('h, 'arr, 'cache) info_handle option \<times> unit result) option" where
  "info_handle_file_system_hierarchy_fprint U put A T X S M posix_time B info_handle =
     (case info_handle of
        None \<Rightarrow> Some (None, Inl ARGUMENT_INVALID_VALUE)
      | Some ih \<Rightarrow>
          let ih = (if ih_bodyfile_stream ih = None
                    then print_notify (information_header @ ascii ''File system hierarchy:'' @ [0x0a]) ih else ih)
          in (case libfsfat_volume_get_file_system_format (ih_input_volume ih) of
                Inl e \<Rightarrow> Some (Some ih, Inl RUNTIME_GET_FAILED)
              | Inr file_system_format \<Rightarrow>
                  let ih = ih\<lparr> ih_file_system_format := file_system_format \<rparr>
                  in (case libfsfat_volume_get_root_directory X B (ih_input_volume ih) None of
                        Inl e \<Rightarrow> Some (Some ih, Inl RUNTIME_GET_FAILED)
                      | Inr fe \<Rightarrow>
                          (case (if ih_bodyfile_stream ih = None then Inr (ih_root_directory_identifier ih)
                                 else libfsfat_file_entry_get_identifier (Some fe)) of
                             Inl e \<Rightarrow> Some (Some ih, Inl RUNTIME_GET_FAILED)
                           | Inr root_directory_identifier \<Rightarrow>
                               let ih = ih\<lparr> ih_root_directory_identifier := root_directory_identifier \<rparr>
                               in (case info_handle_file_system_hierarchy_fprint_file_entry U put A T X S M posix_time
                                          (Some ih) (Some fe) (Some [0x5c, 0]) 1 of
                                     None \<Rightarrow> None
                                   | Some (info_handle, Inl e) \<Rightarrow> Some (info_handle, Inl RUNTIME_PRINT_FAILED)
                                   | Some (info_handle, Inr _) \<Rightarrow>
                                       Some (map_option (\<lambda>ih. if ih_bodyfile_stream ih = None
                                           then print_notify [0x0a] ih else ih) info_handle, Inr ()))))))"

section \<open>A file entry by its identifier or its path\<close>

text \<open>The boolean is \<open>False\<close> when there is no file entry for the identifier.\<close>

definition info_handle_file_entry_fprint_by_identifier ::
  "una_ops \<Rightarrow> (u32 \<Rightarrow> nat \<Rightarrow> nat \<Rightarrow> u8 list option) \<Rightarrow> ('arr, nat) array_ops \<Rightarrow> ('tarr, node_entry) array_ops \<Rightarrow>
   ('xarr, extent) array_ops \<Rightarrow> 's stream_ops \<Rightarrow> 'm md5_ops \<Rightarrow> (u64 \<Rightarrow> u8 list option) \<Rightarrow> 'h bfio_ops \<Rightarrow>
   ('h, 'arr, 'cache) info_handle option \<Rightarrow> u64 \<Rightarrow>
   (('h, 'arr, 'cache) info_handle option \<times> bool result) option" where
  "info_handle_file_entry_fprint_by_identifier U put A T X S M posix_time B info_handle file_entry_identifier =
     (case info_handle of
        None \<Rightarrow> Some (None, Inl ARGUMENT_INVALID_VALUE)
      | Some ih \<Rightarrow>
          (case libfsfat_volume_get_file_system_format (ih_input_volume ih) of
             Inl e \<Rightarrow> Some (Some ih, Inl RUNTIME_GET_FAILED)
           | Inr file_system_format \<Rightarrow>
               (case libfsfat_volume_get_file_entry_by_identifier A X B (ih_input_volume ih)
                       file_entry_identifier (None :: ('arr, 'cache, 'xarr, 's) file_entry option) of
                  None \<Rightarrow> None
                | Some (Inl e) \<Rightarrow>
                    Some (Some (print_notify (ascii ''Error reading file entry: '' @
                        decimal (unat file_entry_identifier) @ [0x0a, 0x0a]) ih), Inr False)
                | Some (Inr fe) \<Rightarrow>
                    let ih = print_notify (ascii ''File entry: '' @ decimal (unat file_entry_identifier) @
                          ascii '' information:'' @ [0x0a]) ih
                    in (case file_entry_name_value U A (Some fe) of
                          Inl e \<Rightarrow> Some (Some ih, Inl e)
                        | Inr name \<Rightarrow>
                            (case info_handle_file_entry_value_with_name_fprint U put T X S M posix_time (Some ih)
                                    (Some fe) None 0 (name_string name) (name_string_length name) of
                               None \<Rightarrow> None
                             | Some (info_handle, Inl e) \<Rightarrow> Some (info_handle, Inl RUNTIME_PRINT_FAILED)
                             | Some (info_handle, Inr _) \<Rightarrow>
                                 Some (map_option (print_notify [0x0a]) info_handle, Inr True))))))"

text \<open>The path is a C string, given without its terminator.\<close>

definition info_handle_file_entry_fprint_by_path ::
  "una_ops \<Rightarrow> (u32 \<Rightarrow> nat \<Rightarrow> nat \<Rightarrow> u8 list option) \<Rightarrow> ('cache, 'value, 'arr directory) cache_ops \<Rightarrow>
   ('arr, nat) array_ops \<Rightarrow> ('tarr, node_entry) array_ops \<Rightarrow> ('xarr, extent) array_ops \<Rightarrow> 's stream_ops \<Rightarrow>
   'm md5_ops \<Rightarrow> (u64 \<Rightarrow> u8 list option) \<Rightarrow> 'h bfio_ops \<Rightarrow> ('h, 'arr, 'cache) info_handle option \<Rightarrow>
   u8 list option \<Rightarrow> (('h, 'arr, 'cache) info_handle option \<times> unit result) option" where
  "info_handle_file_entry_fprint_by_path U put C A T X S M posix_time B info_handle path =
     (case info_handle of
        None \<Rightarrow> Some (None, Inl ARGUMENT_INVALID_VALUE)
      | Some ih \<Rightarrow>
     (case path of
        None \<Rightarrow> Some (Some ih, Inl MEMORY_FAULT)
      | Some string \<Rightarrow>
          (case libfsfat_volume_get_file_entry_by_utf8_path U C A T X B (ih_input_volume ih) (Some string)
                  (length string) (None :: ('arr, 'cache, 'xarr, 's) file_entry option) of
             None \<Rightarrow> None
           | Some (Inl e) \<Rightarrow> Some (Some ih, Inl RUNTIME_GET_FAILED)
           | Some (Inr (input_volume, found, fe)) \<Rightarrow>
               let ih = ih\<lparr> ih_input_volume := Some input_volume \<rparr>
               in if \<not> found then Some (Some ih, Inl RUNTIME_GET_FAILED)
                  else
                    (case libfsfat_volume_get_file_system_format (ih_input_volume ih) of
                       Inl e \<Rightarrow> Some (Some ih, Inl RUNTIME_GET_FAILED)
                     | Inr file_system_format \<Rightarrow>
                         let ih = print_notify (information_header @ ascii ''File entry:'' @ [0x0a] @ [0x09] @
                               ascii ''Path'' @ [0x09, 0x09, 0x09] @ ascii '': '')
                               (ih\<lparr> ih_file_system_format := file_system_format \<rparr>)
                         in (case info_handle_name_value_fprint U put (Some ih) (Some string) (length string) of
                               None \<Rightarrow> None
                             | Some (Inl e) \<Rightarrow> Some (Some ih, Inl RUNTIME_PRINT_FAILED)
                             | Some (Inr ih) \<Rightarrow>
                                 (case info_handle_file_entry_value_with_name_fprint U put T X S M posix_time
                                         (Some (print_notify [0x0a] ih)) (Some fe) (Some string) (length string) None 0 of
                                    None \<Rightarrow> None
                                  | Some (info_handle, Inl e) \<Rightarrow> Some (info_handle, Inl RUNTIME_PRINT_FAILED)
                                  | Some (info_handle, Inr _) \<Rightarrow>
                                      Some (map_option (print_notify [0x0a]) info_handle, Inr ())))))))"

section \<open>The volume\<close>

definition format_hint :: "file_system_format \<Rightarrow> u8 list" where
  "format_hint file_system_format = ascii
     (case file_system_format of
        FORMAT_EXFAT \<Rightarrow> ''exFAT''
      | FORMAT_FAT12 \<Rightarrow> ''FAT-12''
      | FORMAT_FAT16 \<Rightarrow> ''FAT-16''
      | FORMAT_FAT32 \<Rightarrow> ''FAT-32''
      | FORMAT_UNKNOWN \<Rightarrow> ''UNKNOWN'')"

definition info_handle_volume_fprint ::
  "una_ops \<Rightarrow> ('arr, nat) array_ops \<Rightarrow> ('h, 'arr, 'cache) info_handle option \<Rightarrow>
   ('h, 'arr, 'cache) info_handle option \<times> unit result" where
  "info_handle_volume_fprint U A info_handle =
     (case info_handle of
        None \<Rightarrow> (None, Inl ARGUMENT_INVALID_VALUE)
      | Some ih \<Rightarrow>
          let ih = print_notify (information_header @ ascii ''Volume information:'' @ [0x0a]) ih
          in (case libfsfat_volume_get_file_system_format (ih_input_volume ih) of
                Inl e \<Rightarrow> (Some ih, Inl RUNTIME_GET_FAILED)
              | Inr file_system_format \<Rightarrow>
                  let ih = print_notify ([0x09] @ ascii ''File system'' @ [0x09, 0x09] @ ascii '': '' @
                        format_hint file_system_format @ [0x0a] @ [0x09] @ ascii ''Label'' @ [0x09, 0x09, 0x09] @
                        ascii '': '') ih
                  in (case libfsfat_volume_get_utf8_label_size U A (ih_input_volume ih) of
                        Inl e \<Rightarrow> (Some ih, Inl RUNTIME_GET_FAILED)
                      | Inr value_string_size \<Rightarrow>
                          if value_string_size > 0
                          then
                            (case libfsfat_volume_get_utf8_label U A (ih_input_volume ih) (Some value_string_size) of
                               Inl e \<Rightarrow> (Some ih, Inl RUNTIME_GET_FAILED)
                             | Inr value_string \<Rightarrow>
                                 (Some (print_notify (c_string value_string @ [0x0a, 0x0a]) ih), Inr ()))
                          else (Some (print_notify [0x0a, 0x0a] ih), Inr ()))))"

end
