(* ===== verification/Info_Listing.thy ===== *)
theory Info_Listing
  imports Info_Hierarchy
begin

text \<open>
  What the tool prints for the hierarchy of a volume: the tree of its file entries in preorder,
  one line for each, in both forms of the output.
\<close>

section \<open>Trees of file entries\<close>

text \<open>The values that the lines of a bodyfile show; a value that a file entry does not have is 0.\<close>

record entry_values =
  ev_identifier :: u64
  ev_file_attribute_flags :: u16
  ev_data_size :: u64
  ev_access_time :: u64
  ev_modification_time :: u64
  ev_creation_time :: u64

definition has_values :: "('arr, 'cache, 'xarr, 's) file_entry \<Rightarrow> entry_values \<Rightarrow> bool" where
  "has_values fe v \<longleftrightarrow>
     fe_identifier fe = ev_identifier v \<and> fe_data_size fe = ev_data_size v \<and>
     (\<exists>a. libfsfat_file_entry_get_access_time (Some fe) = Inr a \<and> ev_access_time v = case_option 0 id a) \<and>
     (\<exists>m. libfsfat_file_entry_get_modification_time (Some fe) = Inr m \<and> ev_modification_time v = case_option 0 id m) \<and>
     (\<exists>c. libfsfat_file_entry_get_creation_time (Some fe) = Inr c \<and> ev_creation_time v = case_option 0 id c) \<and>
     (\<exists>f. libfsfat_file_entry_get_file_attribute_flags (Some fe) = Inr f \<and> ev_file_attribute_flags v = case_option 0 id f)"

text \<open>The name of a file entry is coded from characters; the root directory has none.\<close>

definition has_name ::
  "(u32 \<Rightarrow> bool) \<Rightarrow> (u32 \<Rightarrow> u8 list) \<Rightarrow> una_ops \<Rightarrow> ('arr, nat) array_ops \<Rightarrow>
   ('arr, 'cache, 'xarr, 's) file_entry \<Rightarrow> u32 list option \<Rightarrow> bool" where
  "has_name valid enc U A fe name \<longleftrightarrow>
     (case name of
        None \<Rightarrow> file_entry_name_value U A (Some fe) = Inr None
      | Some cs \<Rightarrow> (\<forall>c \<in> set cs. valid c) \<and>
          file_entry_name_value U A (Some fe) =
            Inr (Some (concat (map enc cs) @ [0], length (concat (map enc cs)) + 1)))"

datatype file_tree = Node "u32 list option" entry_values "file_tree list"

text \<open>A file entry is the root of a tree: its sub file entries are those of the entries of its directory.\<close>

primrec entry_tree ::
  "(u32 \<Rightarrow> bool) \<Rightarrow> (u32 \<Rightarrow> u8 list) \<Rightarrow> una_ops \<Rightarrow> ('arr, nat) array_ops \<Rightarrow> ('arr \<Rightarrow> nat option list) \<Rightarrow>
   ('tarr, node_entry) array_ops \<Rightarrow> ('xarr, extent) array_ops \<Rightarrow> file_tree \<Rightarrow>
   ('arr, 'cache, 'xarr, 's) file_entry \<Rightarrow> bool" where
  "entry_tree valid enc U A view T X (Node name v subs) =
     (\<lambda>fe. has_values fe v \<and> has_name valid enc U A fe name \<and>
       (\<exists>fe'. entry_with_directory A T fe = Some (Inr fe') \<and>
          (case fe_directory fe' of
             None \<Rightarrow> subs = []
           | Some d \<Rightarrow>
               list_all2 (\<lambda>x is_root. \<exists>sub. sub_file_entry_of A X fe' x = Inr sub \<and> is_root sub)
                 (view (dir_file_entries_array d)) (map (entry_tree valid enc U A view T X) subs))))"

section \<open>The lines of a tree\<close>

definition entry_path :: "u32 list \<Rightarrow> u32 list option \<Rightarrow> u32 list" where
  "entry_path path name = path @ (case name of None \<Rightarrow> [] | Some cs \<Rightarrow> cs)"

definition sub_path :: "u32 list \<Rightarrow> u32 list option \<Rightarrow> u32 list" where
  "sub_path path name = path @ (case name of None \<Rightarrow> [] | Some cs \<Rightarrow> cs @ [0x5c])"

fun tree_lines :: "(u32 list \<Rightarrow> entry_values \<Rightarrow> u8 list) \<Rightarrow> u32 list \<Rightarrow> file_tree \<Rightarrow> u8 list" where
  "tree_lines line path (Node name v subs) =
     line (entry_path path name) v @ concat (map (tree_lines line (sub_path path name)) subs)"

text \<open>The paths fit the limit of the tool.\<close>

fun paths_short :: "(u32 \<Rightarrow> u8 list) \<Rightarrow> u32 list \<Rightarrow> file_tree \<Rightarrow> bool" where
  "paths_short enc path (Node name v subs) \<longleftrightarrow>
     length (concat (map enc (entry_path path name))) \<le> (SSIZE_MAX - 1) div 4 \<and>
     (\<forall>t \<in> set subs. paths_short enc (sub_path path name) t)"

text \<open>The line of a file entry for its path: a row of the bodyfile, or the path alone.\<close>

definition entry_line :: "(u32 \<Rightarrow> u8 list) \<Rightarrow> ('h, 'arr, 'cache) info_handle \<Rightarrow> u32 list \<Rightarrow> entry_values \<Rightarrow> u8 list" where
  "entry_line enc ih path v =
     (if ih_bodyfile_stream ih = None then printed_name enc path @ [0x0a]
      else [0x30] @ ascii ''|'' @ printed_name enc path @
        bodyfile_columns (ih_file_system_format ih)
          (bodyfile_inode (ih_root_directory_identifier ih) (ev_identifier v)) (ev_file_attribute_flags v)
          (ev_data_size v) (ev_access_time v) (ev_modification_time v) (ev_creation_time v))"

definition print_lines ::
  "u8 list \<Rightarrow> ('h, 'arr, 'cache) info_handle \<Rightarrow> ('h, 'arr, 'cache) info_handle" where
  "print_lines string ih = (if ih_bodyfile_stream ih = None then print_notify string ih else print_bodyfile string ih)"

lemma print_lines_simps [simp]:
  "print_lines [] ih = ih" "print_lines b (print_lines a ih) = print_lines (a @ b) ih"
  "(ih_bodyfile_stream (print_lines a ih) = None) = (ih_bodyfile_stream ih = None)"
  "ih_calculate_md5 (print_lines a ih) = ih_calculate_md5 ih"
  "entry_line enc (print_lines a ih) = entry_line enc ih"
  by (cases ih; cases "ih_bodyfile_stream ih";
      auto simp: print_lines_def print_notify_def print_bodyfile_def entry_line_def fun_eq_iff)+

lemma printed_name_append [simp]: "printed_name enc (a @ b) = printed_name enc a @ printed_name enc b"
  by (simp add: printed_name_def)

section \<open>One line\<close>

lemma name_value_printed:
  assumes "utf8_coding valid enc U put" and "\<forall>c \<in> set cs. valid c"
    and "length (concat (map enc cs)) \<le> (SSIZE_MAX - 1) div 4"
  shows "info_handle_name_value_fprint U put (Some ih) (Some (concat (map enc cs) @ rest)) (length (concat (map enc cs))) =
    Some (Inr (print_lines (printed_name enc cs) ih))"
  using escaped_value_printed [OF assms]
  by (simp add: info_handle_name_value_fprint_def print_lines_def)

text \<open>The arguments for the name of a file entry.\<close>

definition name_value :: "(u32 \<Rightarrow> u8 list) \<Rightarrow> u32 list option \<Rightarrow> (u8 list \<times> nat) option" where
  "name_value enc name = map_option (\<lambda>cs. (concat (map enc cs) @ [0], length (concat (map enc cs)) + 1)) name"

lemma optional_name_printed:
  assumes "utf8_coding valid enc U put" and "\<And>cs. name = Some cs \<Longrightarrow> \<forall>c \<in> set cs. valid c"
    and "\<And>cs. name = Some cs \<Longrightarrow> length (concat (map enc cs)) \<le> (SSIZE_MAX - 1) div 4"
  shows "optional_name_fprint U put ih (name_string (name_value enc name)) (name_string_length (name_value enc name)) =
    Some (Inr (print_lines (case name of None \<Rightarrow> [] | Some cs \<Rightarrow> printed_name enc cs) ih))"
proof (cases name)
  case (Some cs)
  then show ?thesis
    using name_value_printed [OF assms(1), of cs ih "[0]"] assms(2,3)
    by (simp add: optional_name_fprint_def name_value_def name_string_def name_string_length_def)
qed (simp add: optional_name_fprint_def name_value_def name_string_def)

lemma names_printed:
  fixes ih :: "('h, 'arr, 'cache) info_handle"
  assumes U: "utf8_coding valid enc U put" and "\<forall>c \<in> set path. valid c"
    and "\<And>cs. name = Some cs \<Longrightarrow> \<forall>c \<in> set cs. valid c"
    and "length (concat (map enc (entry_path path name))) \<le> (SSIZE_MAX - 1) div 4"
  shows "info_handle_name_value_fprint U put (Some ih) (Some (concat (map enc path) @ [0]))
      (length (concat (map enc path))) = Some (Inr (print_lines (printed_name enc path) ih))"
    and "optional_name_fprint U put ih (name_string (name_value enc name)) (name_string_length (name_value enc name)) =
      Some (Inr (print_lines (case name of None \<Rightarrow> [] | Some cs \<Rightarrow> printed_name enc cs) ih))"
    and "printed_name enc path @ (case name of None \<Rightarrow> [] | Some cs \<Rightarrow> printed_name enc cs) =
      printed_name enc (entry_path path name)"
proof -
  have short: "length (concat (map enc path)) \<le> (SSIZE_MAX - 1) div 4"
    "\<And>cs. name = Some cs \<Longrightarrow> length (concat (map enc cs)) \<le> (SSIZE_MAX - 1) div 4"
    using assms(4) by (auto simp: entry_path_def)
  show "info_handle_name_value_fprint U put (Some ih) (Some (concat (map enc path) @ [0]))
      (length (concat (map enc path))) = Some (Inr (print_lines (printed_name enc path) ih))"
    by (rule name_value_printed [OF U assms(2) short(1)])
  show "optional_name_fprint U put ih (name_string (name_value enc name)) (name_string_length (name_value enc name)) =
      Some (Inr (print_lines (case name of None \<Rightarrow> [] | Some cs \<Rightarrow> printed_name enc cs) ih))"
    by (rule optional_name_printed [OF U assms(3) short(2)])
  show "printed_name enc path @ (case name of None \<Rightarrow> [] | Some cs \<Rightarrow> printed_name enc cs) =
      printed_name enc (entry_path path name)"
    by (cases name) (simp_all add: entry_path_def)
qed

text \<open>The row of a bodyfile without hashes.\<close>

lemma row_printed:
  fixes ih :: "('h, 'arr, 'cache) info_handle"
  assumes "utf8_coding valid enc U put" and "\<forall>c \<in> set path. valid c"
    and "\<And>cs. name = Some cs \<Longrightarrow> \<forall>c \<in> set cs. valid c"
    and "length (concat (map enc (entry_path path name))) \<le> (SSIZE_MAX - 1) div 4"
    and "has_values fe v" and "ih_bodyfile_stream ih = Some b" "ih_calculate_md5 ih = 0"
  shows "info_handle_file_entry_value_with_name_fprint U put T X S M posix_time (Some ih) (Some fe)
      (Some (concat (map enc path) @ [0])) (length (concat (map enc path)))
      (name_string (name_value enc name)) (name_string_length (name_value enc name)) =
    Some (Some (print_lines (entry_line enc ih (entry_path path name) v) ih), Inr (Some fe))"
proof -
  have body: "print_bodyfile s (print_lines a ih) = print_lines (a @ s) ih" "print_bodyfile s ih = print_lines s ih" for a s
    using assms(6) by (simp_all add: print_lines_def print_bodyfile_def)
  have fields: "ih_file_system_format (print_lines a ih) = ih_file_system_format ih"
    "ih_root_directory_identifier (print_lines a ih) = ih_root_directory_identifier ih" for a
    by (simp_all add: print_lines_def print_notify_def print_bodyfile_def)
  have path: "info_handle_name_value_fprint U put (Some ih') (Some (concat (map enc path) @ [0]))
      (length (concat (map enc path))) = Some (Inr (print_lines (printed_name enc path) ih'))"
    for ih' :: "('h, 'arr, 'cache) info_handle" by (rule names_printed(1) [OF assms(1-4)])
  have name: "optional_name_fprint U put ih' (name_string (name_value enc name)) (name_string_length (name_value enc name)) =
      Some (Inr (print_lines (case name of None \<Rightarrow> [] | Some cs \<Rightarrow> printed_name enc cs) ih'))"
    for ih' :: "('h, 'arr, 'cache) info_handle" by (rule names_printed(2) [OF assms(1-4)])
  show ?thesis
    using assms(5-7) path name names_printed(3) [OF assms(1-4)]
    by (auto simp: info_handle_file_entry_value_with_name_fprint_def
        libfsfat_file_entry_get_identifier_def libfsfat_file_entry_get_size_def bodyfile_value_fprint_def
        bodyfile_md5_string_def has_values_def optional_name_fprint_def entry_line_def body fields)
qed

lemma line_printed:
  fixes ih :: "('h, 'arr, 'cache) info_handle"
  assumes U: "utf8_coding valid enc U put" and "\<forall>c \<in> set path. valid c"
    and "\<And>cs. name = Some cs \<Longrightarrow> \<forall>c \<in> set cs. valid c"
    and "length (concat (map enc (entry_path path name))) \<le> (SSIZE_MAX - 1) div 4"
    and "has_values fe v" and "ih_bodyfile_stream ih = None \<or> ih_calculate_md5 ih = 0"
  shows "hierarchy_line_fprint U put T X S M posix_time ih (Some fe) (concat (map enc path) @ [0])
      (length (concat (map enc path))) (name_value enc name) =
    Some (Some (print_lines (entry_line enc ih (entry_path path name) v) ih), Inr (Some fe))"
proof (cases "ih_bodyfile_stream ih")
  case None
  have "print_notify [0x0a] (print_lines a ih) = print_lines (a @ [0x0a]) ih" for a
    using None by (simp add: print_lines_def print_notify_def)
  then show ?thesis
    using None names_printed(1) [OF assms(1-4), of ih] names_printed(3) [OF assms(1-4)]
      names_printed(2) [OF assms(1-4), of "print_lines (printed_name enc path) ih"]
    by (simp add: hierarchy_line_fprint_def entry_line_def)
next
  case (Some b)
  then show ?thesis
    using row_printed [OF assms(1-5) Some, of T X S M posix_time] assms(6) by (simp add: hierarchy_line_fprint_def)
qed

section \<open>The whole tree\<close>

lemma has_name_value:
  "has_name valid enc U A fe name \<Longrightarrow> file_entry_name_value U A (Some fe) = Inr (name_value enc name)"
  "has_name valid enc U A fe name \<Longrightarrow> name = Some cs \<Longrightarrow> \<forall>c \<in> set cs. valid c"
  by (auto simp: has_name_def name_value_def split: option.splits)

lemma sub_path_string_value:
  assumes "utf8_coding valid enc U put"
  shows "sub_path_string (concat (map enc path) @ [0]) (length (concat (map enc path))) (name_value enc name) =
    concat (map enc (sub_path path name)) @ [0]"
  using utf8_ascii [OF assms, of "0x5c"]
  by (cases name) (simp_all add: sub_path_string_def name_value_def sub_path_def)

text \<open>The step of the loop for the file entry with a directory.\<close>

definition print_sub_file_entry where
  "print_sub_file_entry U put A T X S M posix_time path =
     (\<lambda>sub_file_entry_index (info_handle, fe).
        case libfsfat_file_entry_get_sub_file_entry_by_index A T X (Some fe) sub_file_entry_index None of
          None \<Rightarrow> None
        | Some (Inl e) \<Rightarrow> Some ((info_handle, fe), Inl RUNTIME_GET_FAILED)
        | Some (Inr (fe, sub_file_entry)) \<Rightarrow>
            Option.bind
              (info_handle_file_system_hierarchy_fprint_file_entry U put A T X S M posix_time
                 info_handle (Some sub_file_entry) (Some path) (length path - 1))
              (\<lambda>(info_handle, r). Some ((info_handle, fe),
                 case r of Inl e \<Rightarrow> Inl RUNTIME_PRINT_FAILED | Inr _ \<Rightarrow> Inr ())))"

lemma sub_entry_by_index:
  assumes "array_contract A view" and "fe_directory fe = Some d"
    and "view (dir_file_entries_array d) = ys @ x # xs" and "sub_file_entry_of A X fe x = Inr sub"
  shows "libfsfat_file_entry_get_sub_file_entry_by_index A T X (Some fe) (int (length ys)) None = Some (Inr (fe, sub))"
proof -
  have "array_get_entry_by_index A (dir_file_entries_array d) (int (length ys)) = Some x"
    using assms(3) by (simp add: array_get [OF assms(1)] nth_append)
  then show ?thesis
    using assms(2,4)
    by (simp add: libfsfat_file_entry_get_sub_file_entry_by_index_def entry_with_directory_def
        libfsfat_internal_file_entry_get_sub_file_entry_by_index_def libfsfat_directory_get_file_entry_by_index_def)
qed

lemma subs_printed:
  fixes ih :: "('h, 'arr, 'cache) info_handle"
  assumes A: "array_contract A view" and d: "fe_directory fe = Some d"
    and "\<And>t sub ih. t \<in> set subs \<Longrightarrow> entry_tree valid enc U A view T X t sub \<Longrightarrow>
      ih_bodyfile_stream ih = None \<or> ih_calculate_md5 ih = 0 \<Longrightarrow>
      info_handle_file_system_hierarchy_fprint_file_entry U put A T X S M posix_time (Some ih) (Some sub)
        (Some (path @ [0])) (length path) =
      Some (Some (print_lines (tree_lines (entry_line enc ih) cs t) ih :: ('h, 'arr, 'cache) info_handle), Inr ())"
    and "list_all2 (\<lambda>x is_root. \<exists>sub. sub_file_entry_of A X fe x = Inr sub \<and> is_root sub) xs
      (map (entry_tree valid enc U A view T X) subs)"
    and "view (dir_file_entries_array d) = ys @ xs"
    and "ih_bodyfile_stream ih = None \<or> ih_calculate_md5 ih = 0"
  shows "each_index (print_sub_file_entry U put A T X S M posix_time (path @ [0]))
      [int (length ys)..int (length (ys @ xs)) - 1] (Some ih, fe) =
    Some ((Some (print_lines (concat (map (tree_lines (entry_line enc ih) cs) subs)) ih), fe), Inr ())"
  using assms(3-)
proof (induction subs arbitrary: xs ys ih)
  case Nil
  then show ?case by simp
next
  case (Cons t subs)
  obtain x xs' where xs: "xs = x # xs'" using Cons.prems(2) by (cases xs) auto
  obtain sub where sub: "sub_file_entry_of A X fe x = Inr sub" "entry_tree valid enc U A view T X t sub"
    using Cons.prems(2) xs by auto
  let ?ih = "print_lines (tree_lines (entry_line enc ih) cs t) ih"
  have "libfsfat_file_entry_get_sub_file_entry_by_index A T X (Some fe) (int (length ys)) None = Some (Inr (fe, sub))"
    using sub_entry_by_index [OF A d _ sub(1), of ys xs'] Cons.prems(3) xs by simp
  moreover have "info_handle_file_system_hierarchy_fprint_file_entry U put A T X S M posix_time (Some ih) (Some sub)
      (Some (path @ [0])) (length path) = Some (Some ?ih, Inr ())"
    using Cons.prems(1) [OF _ sub(2) Cons.prems(4)] by simp
  ultimately have step: "print_sub_file_entry U put A T X S M posix_time (path @ [0]) (int (length ys)) (Some ih, fe) =
      Some ((Some ?ih, fe), Inr ())"
    by (simp add: print_sub_file_entry_def)
  have "each_index (print_sub_file_entry U put A T X S M posix_time (path @ [0]))
      [int (length (ys @ [x]))..int (length ((ys @ [x]) @ xs')) - 1] (Some ?ih, fe) =
    Some ((Some (print_lines (concat (map (tree_lines (entry_line enc ?ih) cs) subs)) ?ih), fe), Inr ())"
  proof (rule Cons.IH)
    show "list_all2 (\<lambda>x is_root. \<exists>sub. sub_file_entry_of A X fe x = Inr sub \<and> is_root sub) xs'
      (map (entry_tree valid enc U A view T X) subs)" using Cons.prems(2) xs by simp
    show "view (dir_file_entries_array d) = (ys @ [x]) @ xs'" using Cons.prems(3) xs by simp
    show "ih_bodyfile_stream ?ih = None \<or> ih_calculate_md5 ?ih = 0" using Cons.prems(4) by simp
  qed (use Cons.prems(1) in simp)
  moreover have "[int (length ys)..int (length (ys @ xs)) - 1] =
      int (length ys) # [int (length (ys @ [x]))..int (length ((ys @ [x]) @ xs')) - 1]"
    using xs by (simp add: upto_rec1 algebra_simps)
  ultimately show ?case using step by simp
qed

lemma hierarchy_printed:
  fixes ih :: "('h, 'arr, 'cache) info_handle" and fe :: "('arr, 'cache, 'xarr, 's) file_entry"
  assumes U: "utf8_coding valid enc U put" and A: "array_contract A view"
    and "entry_tree valid enc U A view T X t fe" and "\<forall>c \<in> set path. valid c" and "paths_short enc path t"
    and "ih_bodyfile_stream ih = None \<or> ih_calculate_md5 ih = 0"
  shows "info_handle_file_system_hierarchy_fprint_file_entry U put A T X S M posix_time (Some ih) (Some fe)
      (Some (concat (map enc path) @ [0])) (length (concat (map enc path))) =
    Some (Some (print_lines (tree_lines (entry_line enc ih) path t) ih), Inr ())"
  using assms(3-)
proof (induction t arbitrary: fe path ih)
  case (Node name v subs)
  let ?sub = "concat (map enc (sub_path path name))"
  obtain fe' where vals: "has_values fe v" "has_name valid enc U A fe name"
    and fe': "entry_with_directory A T fe = Some (Inr fe')"
    and dir: "case fe_directory fe' of None \<Rightarrow> subs = []
      | Some d \<Rightarrow> list_all2 (\<lambda>x is_root. \<exists>sub. sub_file_entry_of A X fe' x = Inr sub \<and> is_root sub)
          (view (dir_file_entries_array d)) (map (entry_tree valid enc U A view T X) subs)"
    using Node.prems(1) by auto
  have short: "length (concat (map enc (entry_path path name))) \<le> (SSIZE_MAX - 1) div 4"
    "\<forall>t \<in> set subs. paths_short enc (sub_path path name) t"
    using Node.prems(3) by auto
  let ?ih = "print_lines (entry_line enc ih (entry_path path name) v) ih"
  have line: "hierarchy_line_fprint U put T X S M posix_time ih (Some fe) (concat (map enc path) @ [0])
      (length (concat (map enc path))) (name_value enc name) = Some (Some ?ih, Inr (Some fe))"
    by (rule line_printed [OF U Node.prems(2) has_name_value(2) [OF vals(2)] short(1) vals(1) Node.prems(4)])
  have "length (concat (map enc path)) \<le> (SSIZE_MAX - 1) div 4" using short(1) by (simp add: entry_path_def)
  then have limit: "\<not> length (concat (map enc path)) > SSIZE_MAX - 1" by (simp add: SSIZE_MAX_def)
  have valid: "\<forall>c \<in> set (sub_path path name). valid c"
    using Node.prems(2) has_name_value(2) [OF vals(2)] utf8_ascii [OF U, of "0x5c"]
    by (auto simp: sub_path_def split: option.splits)
  have "\<exists>n. libfsfat_file_entry_get_number_of_sub_file_entries A T (Some fe) = Some (Inr (fe', n)) \<and>
      each_index (print_sub_file_entry U put A T X S M posix_time (?sub @ [0])) [0..n - 1] (Some ?ih, fe') =
        Some ((Some (print_lines (concat (map (tree_lines (entry_line enc ih) (sub_path path name)) subs)) ?ih), fe'), Inr ())"
  proof (cases "fe_directory fe'")
    case None
    then show ?thesis using fe' dir by (simp add: libfsfat_file_entry_get_number_of_sub_file_entries_def)
  next
    case (Some d)
    have "each_index (print_sub_file_entry U put A T X S M posix_time (?sub @ [0]))
        [int (length ([] :: nat option list))..int (length ([] @ view (dir_file_entries_array d))) - 1] (Some ?ih, fe') =
      Some ((Some (print_lines (concat (map (tree_lines (entry_line enc ?ih) (sub_path path name)) subs)) ?ih), fe'), Inr ())"
    proof (rule subs_printed [OF A Some])
      show "list_all2 (\<lambda>x is_root. \<exists>sub. sub_file_entry_of A X fe' x = Inr sub \<and> is_root sub)
        (view (dir_file_entries_array d)) (map (entry_tree valid enc U A view T X) subs)" using dir Some by simp
      show "ih_bodyfile_stream ?ih = None \<or> ih_calculate_md5 ?ih = 0" using Node.prems(4) by simp
    next
      fix t and sub :: "('arr, 'cache, 'xarr, 's) file_entry" and ih :: "('h, 'arr, 'cache) info_handle"
      assume "t \<in> set subs" "entry_tree valid enc U A view T X t sub" "ih_bodyfile_stream ih = None \<or> ih_calculate_md5 ih = 0"
      then show "info_handle_file_system_hierarchy_fprint_file_entry U put A T X S M posix_time (Some ih) (Some sub)
          (Some (?sub @ [0])) (length ?sub) =
        Some (Some (print_lines (tree_lines (entry_line enc ih) (sub_path path name) t) ih), Inr ())"
        using Node.IH [OF _ _ valid] short(2) by blast
    qed simp
    then show ?thesis
      using Some fe' array_number [OF A]
      by (simp add: libfsfat_file_entry_get_number_of_sub_file_entries_def libfsfat_directory_get_number_of_file_entries_def)
  qed
  then obtain n where n: "libfsfat_file_entry_get_number_of_sub_file_entries A T (Some fe) = Some (Inr (fe', n))"
    and loop: "each_index (print_sub_file_entry U put A T X S M posix_time (?sub @ [0])) [0..n - 1] (Some ?ih, fe') =
        Some ((Some (print_lines (concat (map (tree_lines (entry_line enc ih) (sub_path path name)) subs)) ?ih), fe'), Inr ())"
    by blast
  show ?case
    using limit has_name_value(1) [OF vals(2)] line n loop sub_path_string_value [OF U, of path name]
    by (subst info_handle_file_system_hierarchy_fprint_file_entry.simps)
      (simp add: Let_def print_sub_file_entry_def)
qed

text \<open>
  The hierarchy of a volume is printed completely and in preorder. If the file entries of a
  volume form a tree of named entries, the tool prints one line for each of them, a directory
  before its entries and these in the order of the directory: its path, or the row of the
  bodyfile with its path and values, where the number of the row counts from the identifier of
  the root directory.
\<close>
theorem info_hierarchy_prints_tree:
  fixes ih :: "('h, 'arr, 'cache) info_handle" and fe :: "('arr, 'cache, 'xarr, 's) file_entry"
    and S :: "'s stream_ops"
  assumes "utf8_coding valid enc U put" and "array_contract A view"
    and "ih_input_volume ih = Some v" and "vol_io_handle v = Some io"
    and "libfsfat_volume_get_root_directory X B (Some v) None = Inr fe"
    and "entry_tree valid enc U A view T X t fe" and "paths_short enc [0x5c] t"
    and "ih_bodyfile_stream ih = None \<or> ih_calculate_md5 ih = 0"
  shows "info_handle_file_system_hierarchy_fprint U put A T X S M posix_time B (Some ih) =
    (if ih_bodyfile_stream ih = None
     then Some (Some (print_notify (information_header @ ascii ''File system hierarchy:'' @ [0x0a] @
         tree_lines (\<lambda>path _. printed_name enc path @ [0x0a]) [0x5c] t @ [0x0a])
         (ih\<lparr> ih_file_system_format := io_file_system_format io \<rparr>)), Inr ())
     else
       let ih' = ih\<lparr> ih_file_system_format := io_file_system_format io, ih_root_directory_identifier := fe_identifier fe \<rparr>
       in Some (Some (print_bodyfile (tree_lines (entry_line enc ih') [0x5c] t) ih'), Inr ()))"
proof -
  have root: "valid 0x5c" "[0x5c, 0] = concat (map enc [0x5c]) @ [0]" "1 = length (concat (map enc [0x5c]))"
    using utf8_ascii [OF assms(1), of "0x5c"] by auto
  have tree: "info_handle_file_system_hierarchy_fprint_file_entry U put A T X S M posix_time (Some ih') (Some fe)
      (Some [0x5c, 0]) 1 = Some (Some (print_lines (tree_lines (entry_line enc ih') [0x5c] t) ih'), Inr ())"
    if "ih_bodyfile_stream ih' = None \<or> ih_calculate_md5 ih' = 0" for ih' :: "('h, 'arr, 'cache) info_handle"
    unfolding root(2,3)
    by (rule hierarchy_printed [OF assms(1,2,6) _ assms(7) that]) (use root(1) in simp)
  have format: "libfsfat_volume_get_file_system_format (Some v) = Inr (io_file_system_format io)"
    using assms(4) by (simp add: libfsfat_volume_get_file_system_format_def)
  have line: "entry_line enc ih' = (\<lambda>path _. printed_name enc path @ [0x0a])"
    if "ih_bodyfile_stream ih' = None" for ih' :: "('h, 'arr, 'cache) info_handle"
    using that by (simp add: entry_line_def fun_eq_iff)
  show ?thesis
  proof (cases "ih_bodyfile_stream ih")
    case None
    let ?ih = "print_notify (information_header @ ascii ''File system hierarchy:'' @ [0x0a]) ih
      \<lparr> ih_file_system_format := io_file_system_format io \<rparr>"
    have "ih_bodyfile_stream ?ih = None" using None by (simp add: print_notify_def)
    moreover have "ih_input_volume ?ih = Some v" using assms(3) by (simp add: print_notify_def)
    moreover have "?ih\<lparr> ih_root_directory_identifier := ih_root_directory_identifier ?ih \<rparr> = ?ih" by simp
    ultimately show ?thesis
      using None assms(3,5) format tree [of ?ih] line [of ?ih]
      by (simp add: info_handle_file_system_hierarchy_fprint_def Let_def print_lines_def)
        (simp add: print_notify_def)
  next
    case (Some b)
    let ?ih = "ih\<lparr> ih_file_system_format := io_file_system_format io, ih_root_directory_identifier := fe_identifier fe \<rparr>"
    have "ih_bodyfile_stream ?ih = Some b" "ih_calculate_md5 ?ih = 0" using Some assms(8) by simp_all
    then show ?thesis
      using Some assms(3,5) format tree [of ?ih]
      by (simp add: info_handle_file_system_hierarchy_fprint_def Let_def print_lines_def
          libfsfat_file_entry_get_identifier_def print_bodyfile_def)
  qed
qed

section \<open>The rows of a bodyfile\<close>

lemma count_none: "x \<notin> set s \<Longrightarrow> count_list s x = 0"
  by (induction s) auto

lemma decimal_characters: "c \<in> set (decimal n) \<Longrightarrow> 0x30 \<le> c \<and> c \<le> 0x39"
proof (induction n rule: decimal.induct)
  case (1 n)
  have digit: "0x30 \<le> (0x30 + of_nat d :: u8) \<and> (0x30 + of_nat d :: u8) \<le> 0x39" if "d < 10" for d
  proof -
    have "d \<in> {0, 1, 2, 3, 4, 5, 6, 7, 8, 9}" using that unfolding insert_iff empty_iff by presburger
    then show ?thesis by (elim insertE) simp_all
  qed
  show ?case
    using "1.prems" "1.IH" digit [of n] digit [of "n mod 10"] unfolding decimal.simps [of n]
    by (auto split: if_splits)
qed

lemma count_decimal:
  assumes "x < 0x30 \<or> 0x39 < x"
  shows "count_list (decimal n) x = 0" and "count_list (zero_filled w (decimal n)) x = 0"
proof -
  have "x \<notin> set (decimal n)" using assms decimal_characters [of x n] by (auto simp: not_le [symmetric])
  moreover have "x \<noteq> 0x30" using assms by auto
  ultimately show "count_list (decimal n) x = 0" "count_list (zero_filled w (decimal n)) x = 0"
    by (auto simp: zero_filled_def intro!: count_none)
qed

lemma count_mode: "count_list (file_mode_string flags) 0x7c = 0" "count_list (file_mode_string flags) 0x0a = 0"
  by (simp_all add: file_mode_string_def ascii_def Let_def)

lemma columns_counts:
  "count_list (bodyfile_columns fmt inode flags n a m c) 0x7c = 9"
  "count_list (bodyfile_columns fmt inode flags n a m c) 0x0a = 1"
  by (simp_all add: bodyfile_columns_def Let_def count_decimal count_mode, simp_all add: ascii_def)

text \<open>
  C23. A name cannot forge a row of a bodyfile. The row of a file entry ends with a line feed and has
  no other one, and it has the ten separators of its eleven columns, besides the separators that the
  path and the name themselves hold, which are not escaped.
\<close>
theorem bodyfile_row_columns:
  fixes ih :: "('h, 'arr, 'cache) info_handle"
  assumes "utf8_coding valid enc U put" and "\<forall>c \<in> set path. valid c"
    and "\<And>cs. name = Some cs \<Longrightarrow> \<forall>c \<in> set cs. valid c"
    and "length (concat (map enc (entry_path path name))) \<le> (SSIZE_MAX - 1) div 4"
    and "has_values fe v" and "ih_bodyfile_stream ih = Some b" "ih_calculate_md5 ih = 0"
  shows "\<exists>row. info_handle_file_entry_value_with_name_fprint U put T X S M posix_time (Some ih) (Some fe)
      (Some (concat (map enc path) @ [0])) (length (concat (map enc path)))
      (name_string (name_value enc name)) (name_string_length (name_value enc name)) =
    Some (Some (print_bodyfile row ih), Inr (Some fe)) \<and>
    last row = 0x0a \<and> count_list row 0x0a = 1 \<and>
    count_list row 0x7c = 10 + count_list (printed_name enc (entry_path path name)) 0x7c"
proof -
  have "\<forall>c \<in> set (entry_path path name). valid c"
    using assms(2,3) by (auto simp: entry_path_def split: option.splits)
  then have "count_list (printed_name enc (entry_path path name)) 0x0a = 0"
    using control_not_printed [OF assms(1), of "entry_path path name" "0x0a"] by (intro count_none) simp
  then have "last (entry_line enc ih (entry_path path name) v) = 0x0a"
    "count_list (entry_line enc ih (entry_path path name) v) 0x0a = 1"
    "count_list (entry_line enc ih (entry_path path name) v) 0x7c =
      10 + count_list (printed_name enc (entry_path path name)) 0x7c"
    using assms(6)
    by (simp_all add: entry_line_def columns_counts ascii_def, simp_all add: bodyfile_columns_def Let_def)
  then show ?thesis
    using row_printed [OF assms, of T X S M posix_time] assms(6) unfolding print_lines_def by auto
qed

end
