(* ===== verification/Info_Hash.thy ===== *)
theory Info_Hash
  imports Info_Hierarchy
begin

text \<open>
  The hashes that the tool prints: the hash of a file is that of its content.
\<close>

section \<open>The contract of the hash\<close>

text \<open>A context stands for the data it has been given; the hash of libhmac is \<open>md5\<close> of the data.\<close>

definition md5_contract :: "'m md5_ops \<Rightarrow> ('m \<Rightarrow> u8 list) \<Rightarrow> (u8 list \<Rightarrow> u8 list) \<Rightarrow> bool" where
  "md5_contract M mview md5 \<longleftrightarrow>
     (\<exists>m. md5_initialize M = Some m \<and> mview m = []) \<and>
     (\<forall>m bytes. \<exists>m'. md5_update M m bytes = Some m' \<and> mview m' = mview m @ bytes) \<and>
     (\<forall>m. md5_finalize M m = Some (md5 (mview m))) \<and> (\<forall>bytes. length (md5 bytes) = 16)"

lemma md5_start:
  assumes "md5_contract M mview md5"
  obtains m where "md5_initialize M = Some m" and "mview m = []"
  using assms unfolding md5_contract_def by blast

lemma md5_step:
  assumes "md5_contract M mview md5"
  obtains m' where "md5_update M m bytes = Some m'" and "mview m' = mview m @ bytes"
  using assms unfolding md5_contract_def by blast

lemma md5_end:
  assumes "md5_contract M mview md5"
  shows "md5_finalize M m = Some (md5 (mview m))" and "length (md5 bytes) = 16"
  using assms unfolding md5_contract_def by blast+

section \<open>The loop over the data\<close>

text \<open>A file entry whose stream is at a position of the content.\<close>

definition stream_at ::
  "('s \<Rightarrow> stream_state) \<Rightarrow> u8 list \<Rightarrow> (off64 \<times> u64) list \<Rightarrow> ('arr, 'cache, 'xarr, 's) file_entry \<Rightarrow> nat \<Rightarrow> bool" where
  "stream_at view img segments fe p \<longleftrightarrow>
     (\<exists>stream. fe_cluster_block_stream fe = Some stream \<and> view stream = (stream_callbacks, segments, p)) \<and>
     fe_file_io_handle fe = image_bfio img \<and> \<not> unsupported_file_attribute_flags (fe_file_attribute_flags fe)"

lemma read_part:
  assumes "stream_contract S view" and "stream_at view img segments fe p" and "p \<le> length content"
    and read: "\<forall>i n. read_segments libfsfat_cluster_block_data_read_segment_data
        libfsfat_cluster_block_data_seek_segment_offset (image_bfio img) segments i n =
      Some (take n (drop i content))"
  obtains fe' where "libfsfat_file_entry_read_buffer T X S (Some fe) n = Some (Inr (fe', take n (drop p content)))"
    and "stream_at view img segments fe' (min (p + n) (length content))"
proof -
  obtain stream where stream: "fe_cluster_block_stream fe = Some stream" "view stream = (stream_callbacks, segments, p)"
    using assms(2) unfolding stream_at_def by blast
  obtain s' where s': "stream_read_buffer S stream (image_bfio img) n = Some (s', take n (drop p content))"
    "view s' = (stream_callbacks, segments, p + length (take n (drop p content)))"
    by (rule stream_read [OF assms(1) stream(2) read [rule_format]])
  show ?thesis
    by (rule that [of "fe\<lparr> fe_cluster_block_stream := Some s' \<rparr>"])
      (use assms(2,3) stream(1) s' in \<open>auto simp: libfsfat_file_entry_read_buffer_def entry_with_stream_def
        stream_at_def min_def\<close>)
qed

lemma hash_data_content:
  assumes S: "stream_contract S view" and M: "md5_contract M mview md5"
    and read: "\<forall>i n. read_segments libfsfat_cluster_block_data_read_segment_data
        libfsfat_cluster_block_data_seek_segment_offset (image_bfio img) segments i n =
      Some (take n (drop i content))"
    and "stream_at view img segments fe p" "mview m = take p content" "p \<le> length content"
  shows "if p + unat data_size \<le> length content
    then \<exists>fe' m'. hash_data T X S M fe data_size m = Some (Inr (fe', m')) \<and> mview m' = take (p + unat data_size) content
    else hash_data T X S M fe data_size m = Some (Inl IO_READ_FAILED)"
  using assms(4-6)
proof (induction "unat data_size" arbitrary: fe p m data_size rule: less_induct)
  case less
  show ?case
  proof (cases "data_size = 0")
    case True
    then show ?thesis using less.prems by (subst (1 2) hash_data.simps) simp
  next
    case False
    define n where "n = (if 4096 > data_size then data_size else 4096)"
    have n: "n \<le> data_size" "0 < unat n" using False by (auto simp: n_def word_gt_0 not_less unat_gt_0)
    then have rest: "unat (data_size - n) = unat data_size - unat n" "unat n \<le> unat data_size"
      by (auto simp: unat_sub word_le_nat_alt)
    obtain fe' where fe': "libfsfat_file_entry_read_buffer T X S (Some fe) (unat n) =
        Some (Inr (fe', take (unat n) (drop p content)))"
      "stream_at view img segments fe' (min (p + unat n) (length content))"
      by (rule read_part [OF S less.prems(1,3) read])
    show ?thesis
    proof (cases "p + unat n \<le> length content")
      case True
      obtain m' where m': "md5_update M m (take (unat n) (drop p content)) = Some m'"
        "mview m' = mview m @ take (unat n) (drop p content)"
        by (rule md5_step [OF M])
      have step: "hash_data T X S M fe data_size m = hash_data T X S M fe' (data_size - n) m'"
        using False fe'(1) m'(1) True by (subst hash_data.simps) (simp add: Let_def n_def [symmetric])
      have "mview m' = take (p + unat n) content"
        using m'(2) less.prems(2) by (simp add: take_add)
      moreover have "stream_at view img segments fe' (p + unat n)" using fe'(2) True by (simp add: min_absorb1)
      moreover have "unat (data_size - n) < unat data_size" using rest n by linarith
      ultimately have "if p + unat n + unat (data_size - n) \<le> length content
        then \<exists>fe'' m''. hash_data T X S M fe' (data_size - n) m' = Some (Inr (fe'', m'')) \<and>
          mview m'' = take (p + unat n + unat (data_size - n)) content
        else hash_data T X S M fe' (data_size - n) m' = Some (Inl IO_READ_FAILED)"
        using True by (intro less.hyps)
      moreover have same: "p + unat n + unat (data_size - n) = p + unat data_size" using rest by linarith
      ultimately show ?thesis unfolding step same by argo
    next
      case short: False
      then have "length (take (unat n) (drop p content)) \<noteq> unat n" using less.prems(3) by (simp add: min_def)
      then have "hash_data T X S M fe data_size m = Some (Inl IO_READ_FAILED)"
        using False fe'(1) by (subst hash_data.simps) (simp add: Let_def n_def [symmetric] del: length_take)
      moreover have "\<not> p + unat data_size \<le> length content" using short rest by linarith
      ultimately show ?thesis by simp
    qed
  qed
qed

text \<open>
  C22. The hash of a file is the hash of its content. For a file whose clusters lie in order in the
  volume, the string that is printed is that of the hash of the bytes of its chain of clusters,
  cut to its size; if the chain is shorter than the size, the file cannot be hashed.
\<close>
theorem file_entry_md5_content:
  assumes "array_contract X xview" and "array_contract T tview" and "stream_contract S view"
    and "md5_contract M mview md5"
    and "file_on_volume img io fs (fe_cluster_number fe) cs" and "fe_file_system fe = Some fs"
    and "fe_cluster_block_stream fe = None" and "xview (fe_data_extents_array fe) = []"
    and "fe_file_io_handle fe = image_bfio img"
    and "\<not> unsupported_file_attribute_flags (fe_file_attribute_flags fe)"
    and "content = file_content img io cs (fe_data_size fe)"
  shows "if length content = unat (fe_data_size fe)
    then \<exists>fe'. info_handle_file_entry_calculate_md5 T X S M (Some ih) (Some fe) 33 =
      Some (Inr (fe', digest_string (md5 content) @ [0]))
    else info_handle_file_entry_calculate_md5 T X S M (Some ih) (Some fe) 33 = Some (Inl IO_READ_FAILED)"
proof -
  obtain fe1 stream segments where fe1: "entry_with_stream T X S fe = Some (Inr (fe1, stream))"
      "fe_cluster_block_stream fe1 = Some stream" "fe_file_io_handle fe1 = fe_file_io_handle fe"
      "fe_file_attribute_flags fe1 = fe_file_attribute_flags fe"
    and view: "view stream = (stream_callbacks, segments, 0)"
    and read: "\<forall>i n. read_segments libfsfat_cluster_block_data_read_segment_data
        libfsfat_cluster_block_data_seek_segment_offset (image_bfio img) segments i n =
      Some (take n (drop i content))"
    unfolding assms(11) by (rule entry_with_stream_content [OF assms(1-3,5-8)])
  obtain s where s: "stream_seek_offset S stream 0 0 = Some (s, 0)" "view s = (stream_callbacks, segments, 0)"
    using stream_contractD(5) [OF assms(3), rule_format, OF view, of 0] by auto
  let ?fe = "fe1\<lparr> fe_cluster_block_stream := Some s \<rparr>"
  have seek: "libfsfat_file_entry_seek_offset T X S (Some fe) 0 0 = Some (Inr (?fe, 0))"
    using assms(10) fe1(1) s(1) by (simp add: libfsfat_file_entry_seek_offset_def)
  obtain m where m: "md5_initialize M = Some m" "mview m = []" by (rule md5_start [OF assms(4)])
  have position: "stream_at view img segments ?fe 0" using fe1 s(2) assms(9,10) by (simp add: stream_at_def)
  have loop: "if unat (fe_data_size fe) \<le> length content
    then \<exists>fe' m'. hash_data T X S M ?fe (fe_data_size fe) m = Some (Inr (fe', m')) \<and>
      mview m' = take (unat (fe_data_size fe)) content
    else hash_data T X S M ?fe (fe_data_size fe) m = Some (Inl IO_READ_FAILED)"
    using hash_data_content [OF assms(3,4) read position, of m "fe_data_size fe" T X, unfolded add_0] m(2)
    by simp
  have most: "length content \<le> unat (fe_data_size fe)" by (simp add: assms(11) file_content_def)
  have digest: "digest_hash_copy_to_string (Some (md5 bytes)) 16 33 = Inr (digest_string (md5 bytes) @ [0])" for bytes
    using md5_end(2) [OF assms(4), of bytes]
    by (simp add: digest_hash_copy_to_string_def digest_string_def SSIZE_MAX_def)
  have start: "libfsfat_file_entry_get_size (Some fe) = Inr (fe_data_size fe)"
    by (simp add: libfsfat_file_entry_get_size_def)
  show ?thesis
    using loop most seek m(1) start md5_end(1) [OF assms(4)] digest
    by (auto simp: info_handle_file_entry_calculate_md5_def)
qed

section \<open>A concrete hash\<close>

text \<open>A hash of 16 bytes that keeps the data as its context: the first bytes, filled with zeros.\<close>

definition example_md5 :: "u8 list \<Rightarrow> u8 list" where
  "example_md5 bytes = take 16 (bytes @ replicate 16 0)"

definition list_md5 :: "u8 list md5_ops" where
  "list_md5 = \<lparr> md5_initialize = Some [], md5_update = \<lambda>m bytes. Some (m @ bytes),
     md5_finalize = \<lambda>m. Some (example_md5 m) \<rparr>"

lemma list_md5_contract: "md5_contract list_md5 (\<lambda>m. m) example_md5"
  by (simp add: md5_contract_def list_md5_def example_md5_def min_def)

definition example_info_handle :: "(bool, nat option list, unit) info_handle" where
  "example_info_handle =
     \<lparr> ih_volume_offset = 0, ih_input_file_io_handle = Some True, ih_input_volume = None,
       ih_file_system_format = FORMAT_FAT16, ih_root_directory_identifier = 0, ih_calculate_md5 = 1,
       ih_bodyfile_stream = Some [], ih_notify_stream = [], ih_abort = 0 \<rparr>"

lemma file_entry_md5_content_witness:
  "\<exists>fe string. info_handle_file_entry_calculate_md5 list_array list_array list_stream list_md5
     (Some example_info_handle) (Some witness_file) 33 = Some (Inr (fe, string))"
proof -
  let ?content = "file_content (map of_nat [0..<256]) stream_witness_io [2, 3, 5] (fe_data_size witness_file)"
  have fe: "fe_file_system witness_file = Some (stream_witness_fs [0, 0, 3, 5, 0, 0xffff])"
    "fe_cluster_block_stream witness_file = None" "fe_data_extents_array witness_file = []"
    "fe_file_io_handle witness_file = image_bfio (map of_nat [0..<256])"
    "\<not> unsupported_file_attribute_flags (fe_file_attribute_flags witness_file)"
    by (simp_all add: witness_file_def unsupported_file_attribute_flags_def)
  have "length ?content = unat (fe_data_size witness_file)"
    by (simp add: file_content_def bytes_at_def chain_bytes_def cluster_bytes_def segment_bytes_def
      cluster_block_offset_def stream_witness_io_def io_handle_zero_def witness_file_def)
  with file_entry_md5_content [OF list_array_contract list_array_contract list_stream_contract list_md5_contract
      witness_file_on_volume fe refl, of example_info_handle]
  show ?thesis by auto
qed

end
