(* ===== verification/Info_Walk.thy ===== *)
theory Info_Walk
  imports Info_Hierarchy
begin

text \<open>
  Printing the hierarchy ends for every volume, also for one with a directory that is its own
  descendant: the paths of the file entries become longer on each level, up to the limit at which
  the tool gives up.
\<close>

section \<open>The operations on a file entry return\<close>

text \<open>A file entry of a volume with sizes of at most 2^53 bytes.\<close>

definition on_small_volume :: "('arr, 'cache, 'xarr, 's) file_entry \<Rightarrow> bool" where
  "on_small_volume fe \<longleftrightarrow>
     (\<exists>fs io. fe_file_system fe = Some fs \<and> fs_io_handle fs = Some io \<and>
        unat (io_volume_size io) \<le> 2 ^ 53 \<and> unat (io_cluster_block_size io) \<le> 2 ^ 53)"

lemma on_small_volume_fields [simp]:
  "on_small_volume (fe\<lparr> fe_directory := d \<rparr>) = on_small_volume fe"
  "on_small_volume (fe\<lparr> fe_flags := f \<rparr>) = on_small_volume fe"
  "on_small_volume (fe\<lparr> fe_cluster_block_stream := s \<rparr>) = on_small_volume fe"
  "on_small_volume (fe\<lparr> fe_data_extents_array := a \<rparr>) = on_small_volume fe"
  by (simp_all add: on_small_volume_def)

text \<open>An operation returns, and what it leaves has a property.\<close>

definition returns_with :: "'a result option \<Rightarrow> ('a \<Rightarrow> bool) \<Rightarrow> bool" where
  "returns_with call holds \<longleftrightarrow> (\<exists>r. call = Some r \<and> (\<forall>x. r = Inr x \<longrightarrow> holds x))"

lemma returns_with_simps [simp]:
  "\<not> returns_with None P" "returns_with (Some (Inl e)) P" "returns_with (Some (Inr x)) P = P x"
  by (simp_all add: returns_with_def)

lemma returns_withE:
  assumes "returns_with call P"
  obtains e where "call = Some (Inl e)" | x where "call = Some (Inr x)" "P x"
  using assms unfolding returns_with_def by (metis obj_sumE)

lemma directory_returns:
  assumes T: "array_contract T tview" and "on_small_volume fe"
  shows "returns_with (entry_with_directory A T fe) on_small_volume"
proof -
  obtain fs io where fs: "fe_file_system fe = Some fs" "fs_io_handle fs = Some io"
    "unat (io_volume_size io) \<le> 2 ^ 53" "unat (io_cluster_block_size io) \<le> 2 ^ 53"
    using assms(2) unfolding on_small_volume_def by blast
  show ?thesis
  proof (cases "libfsfat_directory_entry_get_data_start_cluster (fe_directory_entry fe)")
    case (Inr c)
    obtain r where "libfsfat_file_system_read_directory A T (fe_file_system fe) (fe_file_io_handle fe) c None = Some r"
      unfolding fs(1) using read_directory_returns [OF T fs(2-4)] by blast
    then show ?thesis
      using Inr assms(2)
      by (cases r) (simp_all add: entry_with_directory_def libfsfat_internal_file_entry_get_directory_def)
  qed (use assms(2) in \<open>simp add: entry_with_directory_def libfsfat_internal_file_entry_get_directory_def\<close>)
qed

lemma number_returns:
  assumes "array_contract T tview" and "on_small_volume fe"
  shows "returns_with (libfsfat_file_entry_get_number_of_sub_file_entries A T (Some fe)) (\<lambda>(fe', n). on_small_volume fe')"
  using directory_returns [OF assms, of A]
  by (rule returns_withE) (simp_all add: libfsfat_file_entry_get_number_of_sub_file_entries_def split: sum.split)

lemma sub_file_entry_on_small_volume:
  assumes "on_small_volume fe" and "sub_file_entry_of A X fe x = Inr sub"
  shows "on_small_volume sub" and "fe_directory_entry sub \<noteq> None"
  using assms
  by (auto simp: sub_file_entry_of_def libfsfat_directory_entry_get_identifier_def libfsfat_directory_entry_clone_def
      libfsfat_file_entry_initialize_def on_small_volume_def Let_def split: option.splits sum.splits if_splits)

lemma sub_file_entry_returns:
  assumes "array_contract T tview" and "on_small_volume fe"
  shows "returns_with (libfsfat_file_entry_get_sub_file_entry_by_index A T X (Some fe) i None)
    (\<lambda>(fe', sub). on_small_volume fe' \<and> on_small_volume sub \<and> fe_directory_entry sub \<noteq> None)"
proof (rule returns_withE [OF directory_returns [OF assms, of A]])
  fix fe' assume fe': "entry_with_directory A T fe = Some (Inr fe')" "on_small_volume fe'"
  show ?thesis
  proof (cases "libfsfat_directory_get_file_entry_by_index A (fe_directory fe') i")
    case (Inr x)
    then show ?thesis
      using fe' sub_file_entry_on_small_volume [of fe' A X x]
      by (cases "sub_file_entry_of A X fe' x") (simp_all add: libfsfat_file_entry_get_sub_file_entry_by_index_def
        libfsfat_internal_file_entry_get_sub_file_entry_by_index_def)
  qed (use fe' in \<open>simp add: libfsfat_file_entry_get_sub_file_entry_by_index_def
      libfsfat_internal_file_entry_get_sub_file_entry_by_index_def\<close>)
qed (simp add: libfsfat_file_entry_get_sub_file_entry_by_index_def
    libfsfat_internal_file_entry_get_sub_file_entry_by_index_def)

lemma stream_returns:
  fixes S :: "'s stream_ops" and fe :: "('arr, 'cache, 'xarr, 's) file_entry"
  assumes "array_contract T tview" and "on_small_volume fe"
  shows "returns_with (entry_with_stream T X S fe) (\<lambda>(fe', s). on_small_volume fe')"
proof (cases "fe_cluster_block_stream fe")
  case None
  obtain fs io where fs: "fe_file_system fe = Some fs" "fs_io_handle fs = Some io" "unat (io_volume_size io) \<le> 2 ^ 53"
    using assms(2) unfolding on_small_volume_def by blast
  obtain q where "libfsfat_file_system_get_data_stream X T S (Some fs) (fe_cluster_number fe) (fe_data_size fe)
      (fe_data_extents_array fe) None = Some q"
    using file_stream_returns [OF assms(1) fs(2,3), of X S "fe_cluster_number fe" "fe_data_size fe"] by blast
  then show ?thesis using None fs(1) assms(2) by (cases q) (auto simp: entry_with_stream_def)
qed (use assms(2) in \<open>simp add: entry_with_stream_def\<close>)

section \<open>Hashing returns\<close>

lemma read_buffer_returns:
  assumes "array_contract T tview" and "on_small_volume fe"
  shows "returns_with (libfsfat_file_entry_read_buffer T X S (Some fe) n) (\<lambda>(fe', b). on_small_volume fe')"
  using stream_returns [OF assms, of X S]
  by (rule returns_withE) (auto simp: libfsfat_file_entry_read_buffer_def split: option.split prod.split)

lemma seek_returns:
  assumes "array_contract T tview" and "on_small_volume fe"
  shows "returns_with (libfsfat_file_entry_seek_offset T X S (Some fe) offset whence) (\<lambda>(fe', o'). on_small_volume fe')"
  using stream_returns [OF assms, of X S]
  by (rule returns_withE) (auto simp: libfsfat_file_entry_seek_offset_def split: option.split prod.split)

lemma hash_data_returns:
  assumes T: "array_contract T tview" and "on_small_volume fe"
  shows "returns_with (hash_data T X S M fe data_size m) (\<lambda>(fe', m'). on_small_volume fe')"
  using assms(2)
proof (induction "unat data_size" arbitrary: fe m data_size rule: less_induct)
  case less
  show ?case
  proof (cases "data_size = 0")
    case True
    then show ?thesis using less.prems by (subst hash_data.simps) simp
  next
    case False
    define n where "n = (if 4096 > data_size then data_size else 4096)"
    have n: "n \<le> data_size" "0 < n" using False by (auto simp: n_def word_gt_0 not_less)
    then have smaller: "unat (data_size - n) < unat data_size"
      by (simp add: unat_sub word_le_nat_alt word_less_nat_alt)
    show ?thesis
      using read_buffer_returns [OF T less.prems, of X S "unat n"]
    proof (rule returns_withE)
      fix fb assume fb: "libfsfat_file_entry_read_buffer T X S (Some fe) (unat n) = Some (Inr fb)"
        "case fb of (fe', b) \<Rightarrow> on_small_volume fe'"
      have "returns_with (hash_data T X S M (fst fb) (data_size - n) m') (\<lambda>(fe', m'). on_small_volume fe')" for m'
        by (rule less.hyps [OF smaller]) (use fb(2) in \<open>simp add: case_prod_beta\<close>)
      then show ?thesis
        using False fb(1)
        by (subst hash_data.simps) (simp add: Let_def n_def [symmetric] case_prod_beta split: option.split)
    qed (use False in \<open>subst hash_data.simps, simp add: Let_def n_def [symmetric]\<close>)
  qed
qed

lemma calculate_md5_returns:
  assumes T: "array_contract T tview" and "on_small_volume fe"
  shows "returns_with (info_handle_file_entry_calculate_md5 T X S M ih (Some fe) n) (\<lambda>(fe', s). on_small_volume fe')"
  using seek_returns [OF assms, of X S 0 0]
proof (rule returns_withE)
  fix fo assume fo: "libfsfat_file_entry_seek_offset T X S (Some fe) 0 0 = Some (Inr fo)"
    "case fo of (fe', o') \<Rightarrow> on_small_volume fe'"
  have "returns_with (hash_data T X S M (fst fo) (fe_data_size fe) m) (\<lambda>(fe', m'). on_small_volume fe')" for m
    by (rule hash_data_returns [OF T]) (use fo(2) in \<open>simp add: case_prod_beta\<close>)
  then have "returns_with (case hash_data T X S M (fst fo) (fe_data_size fe) m of
      None \<Rightarrow> None | Some (Inl e) \<Rightarrow> Some (Inl e)
    | Some (Inr (fe, md5_context)) \<Rightarrow>
       (case md5_finalize M md5_context of None \<Rightarrow> Some (Inl RUNTIME_FINALIZE_FAILED)
        | Some md5_hash \<Rightarrow> (case digest_hash_copy_to_string (Some md5_hash) 16 n of
             Inl e \<Rightarrow> Some (Inl RUNTIME_SET_FAILED) | Inr md5_string \<Rightarrow> Some (Inr (fe, md5_string)))))
      (\<lambda>(fe', s). on_small_volume fe')" for m
    by (rule returns_withE [of "hash_data T X S M (fst fo) (fe_data_size fe) m"])
      (auto split: option.split sum.split)
  then show ?thesis
    using fo(1) by (simp add: info_handle_file_entry_calculate_md5_def libfsfat_file_entry_get_size_def case_prod_beta
        split: option.split)
qed (simp add: info_handle_file_entry_calculate_md5_def libfsfat_file_entry_get_size_def)

section \<open>Printing a line returns\<close>

lemma escaped_value_ends: "utf8_bounds U put \<Longrightarrow> \<exists>r. escaped_value_string U put string n = Some r"
  using escaped_value_string_returns [of U put string n]
  by (cases string; cases "n \<le> length (the string)") (auto simp: escaped_value_string_def)

lemma names_end:
  assumes "utf8_bounds U put"
  shows "\<exists>r. info_handle_name_value_fprint U put (Some ih) string n = Some r"
    and "\<exists>r. optional_name_fprint U put ih string n = Some r"
proof -
  obtain r where "escaped_value_string U put string n = Some r" using escaped_value_ends [OF assms] by blast
  then show *: "\<exists>r. info_handle_name_value_fprint U put (Some ih) string n = Some r"
    by (cases r) (simp_all add: info_handle_name_value_fprint_def)
  then show "\<exists>r. optional_name_fprint U put ih string n = Some r" by (simp add: optional_name_fprint_def)
qed

text \<open>A call that prints returns, and the file entry it leaves is on the volume.\<close>

definition prints_with ::
  "('i \<times> ('arr, 'cache, 'xarr, 's) file_entry option result) option \<Rightarrow> bool" where
  "prints_with call \<longleftrightarrow>
     (\<exists>ih r. call = Some (ih, r) \<and> (\<forall>fe. r = Inr fe \<longrightarrow> (\<exists>fe'. fe = Some fe' \<and> on_small_volume fe')))"

lemma prints_with_simps [simp]:
  "prints_with (Some (ih, Inl e))" "prints_with (Some (ih, Inr (Some fe))) = on_small_volume fe"
  by (simp_all add: prints_with_def)

lemma md5_string_returns:
  assumes "array_contract T tview" and "on_small_volume fe"
  shows "returns_with (bodyfile_md5_string T X S M ih (Some fe) flags)
    (\<lambda>(fe', s). \<exists>fe''. fe' = Some fe'' \<and> on_small_volume fe'')"
  using calculate_md5_returns [OF assms, of X S M "Some ih" 33]
  by (rule returns_withE) (use assms(2) in \<open>auto simp: bodyfile_md5_string_def\<close>)

lemma bodyfile_value_returns:
  assumes U: "utf8_bounds U put" and "array_contract T tview" and "on_small_volume fe"
  shows "prints_with (bodyfile_value_fprint U put T X S M ih (Some fe) path path_length name name_length
    inode flags n a m c)"
  using md5_string_returns [OF assms(2,3), of X S M ih flags]
proof (rule returns_withE)
  fix fs assume fs: "bodyfile_md5_string T X S M ih (Some fe) flags = Some (Inr fs)"
    "case fs of (fe', s) \<Rightarrow> \<exists>fe''. fe' = Some fe'' \<and> on_small_volume fe''"
  obtain fe' s where fe': "fs = (Some fe', s)" "on_small_volume fe'" using fs(2) by auto
  obtain r where r: "optional_name_fprint U put (print_bodyfile (s @ ascii ''|'') ih) path path_length = Some r"
    using names_end(2) [OF U] by blast
  show ?thesis
  proof (cases r)
    case (Inr ih')
    obtain q where "optional_name_fprint U put ih' name name_length = Some q" using names_end(2) [OF U] by blast
    then show ?thesis using fs(1) fe' r Inr by (cases q) (simp_all add: bodyfile_value_fprint_def Let_def)
  qed (use fs(1) fe' r in \<open>simp add: bodyfile_value_fprint_def Let_def\<close>)
qed (simp add: bodyfile_value_fprint_def)

lemma notify_value_returns:
  assumes U: "utf8_bounds U put"
  shows "\<exists>r. notify_value_fprint U put posix_time ih path path_length name name_length inode flags n a m c = Some r"
proof -
  have "\<exists>r. name_line_fprint U put ih' path path_length name name_length = Some r" for ih'
  proof -
    let ?ih = "print_notify ([0x09] @ ascii ''Name'' @ [0x09, 0x09, 0x09] @ ascii '': '') ih'"
    obtain r where r: "optional_name_fprint U put ?ih path path_length = Some r" using names_end(2) [OF U] by blast
    show ?thesis
    proof (cases r)
      case (Inr ih'')
      obtain q where "optional_name_fprint U put ih'' name name_length = Some q" using names_end(2) [OF U] by blast
      then show ?thesis using r Inr by (cases q) (simp_all add: name_line_fprint_def)
    qed (use r in \<open>simp add: name_line_fprint_def\<close>)
  qed
  then obtain ih' r where "name_line_fprint U put (print_notify ([0x09] @ ascii ''Identifier'' @ [0x09, 0x09] @
      ascii '': 0x'' @ zero_filled 8 (hexadecimal (unat inode)) @ [0x0a]) ih) path path_length name name_length =
      Some (ih', r)"
    by (metis surj_pair)
  then show ?thesis by (cases r) (simp_all add: notify_value_fprint_def Let_def split: prod.split sum.split)
qed

lemma value_with_name_returns:
  assumes U: "utf8_bounds U put" and "array_contract T tview" and "on_small_volume fe"
  shows "prints_with (info_handle_file_entry_value_with_name_fprint U put T X S M posix_time (Some ih) (Some fe)
    path path_length name name_length)"
proof -
  have "prints_with (map_option (apfst Some) (bodyfile_value_fprint U put T X S M ih (Some fe) path path_length
      name name_length inode flags n a m c))" for inode flags n a m c
    using bodyfile_value_returns [OF assms, of X S M ih path path_length name name_length inode flags n a m c]
    by (auto simp: prints_with_def)
  moreover have "prints_with (map_option (map_prod Some (map_sum id (\<lambda>_. Some fe)))
      (notify_value_fprint U put posix_time ih path path_length name name_length inode flags n a m c))"
    for inode flags n a m c
  proof -
    obtain ih' r where "notify_value_fprint U put posix_time ih path path_length name name_length
        inode flags n a m c = Some (ih', r)"
      using notify_value_returns [OF U] by (metis surj_pair)
    then show ?thesis using assms(3) by (cases r) (simp_all add: prints_with_def)
  qed
  ultimately show ?thesis
    by (simp add: info_handle_file_entry_value_with_name_fprint_def Let_def split: sum.split)
qed

lemma line_returns:
  assumes U: "utf8_bounds U put" and "array_contract T tview" and "on_small_volume fe"
  shows "prints_with (hierarchy_line_fprint U put T X S M posix_time ih (Some fe) path path_length name)"
proof (cases "ih_bodyfile_stream ih")
  case None
  obtain r where r: "info_handle_name_value_fprint U put (Some ih) (Some path) path_length = Some r"
    using names_end(1) [OF U] by blast
  show ?thesis
  proof (cases r)
    case (Inr ih')
    obtain q where "optional_name_fprint U put ih' (name_string name) (name_string_length name) = Some q"
      using names_end(2) [OF U] by blast
    then show ?thesis using None r Inr assms(3) by (cases q) (simp_all add: hierarchy_line_fprint_def)
  qed (use None r in \<open>simp add: hierarchy_line_fprint_def\<close>)
next
  case (Some b)
  then show ?thesis
    using value_with_name_returns [OF assms, of X S M posix_time ih "Some path" path_length "name_string name"
      "name_string_length name"]
    by (auto simp: hierarchy_line_fprint_def prints_with_def split: sum.splits)
qed

section \<open>The walk returns\<close>

text \<open>The sizes of libuna count the terminator of a string.\<close>

definition sizes_positive :: "una_ops \<Rightarrow> bool" where
  "sizes_positive U \<longleftrightarrow>
     (\<forall>s n k. una_utf8_size_from_utf16_stream U s n = Some k \<or> una_utf8_size_from_byte_stream U s n = Some k \<longrightarrow> 0 < k)"

lemma named_file_entry:
  assumes "sizes_positive U" and "fe_directory_entry fe \<noteq> None" and "file_entry_name_value U A (Some fe) = Inr name"
  shows "name \<noteq> None"
proof -
  obtain de where de: "fe_directory_entry fe = Some de" using assms(2) by blast
  have "convert_name (una_utf8_size_from_utf16_stream U) (una_utf8_size_from_byte_stream U) A store (Some de) \<noteq> Inr 0" for store
    using assms(1) by (auto simp: convert_name_def sizes_positive_def split: sum.split option.split bind_splits if_splits)
  then show ?thesis
    using assms(3) de
    by (auto simp: file_entry_name_value_def libfsfat_file_entry_get_utf8_name_size_def directory_entry_value_def
        libfsfat_directory_entry_get_utf8_name_size_def split: sum.splits option.splits if_splits)
qed

lemma each_index_returns:
  assumes "\<And>i state. I state \<Longrightarrow> \<exists>state' r. step i state = Some (state', r) \<and> I state'" and "I state"
  shows "\<exists>r. each_index step indices state = Some r"
  using assms(2)
proof (induction indices arbitrary: state)
  case (Cons i indices)
  obtain state' r where step: "step i state = Some (state', r)" "I state'" using assms(1) [OF Cons.prems] by blast
  show ?case using step Cons.IH [OF step(2)] by (cases r) simp_all
qed simp

text \<open>The walk from a file entry returns if it returns from all the sub file entries with their path.\<close>

lemma walk_step:
  fixes fe :: "('arr, 'cache, 'xarr, 's) file_entry" and info_handle :: "('h, 'arr, 'cache) info_handle option"
  assumes U: "utf8_bounds U put" and T: "array_contract T tview" and "on_small_volume fe"
    and subs: "\<And>name (info_handle :: ('h, 'arr, 'cache) info_handle option) (sub :: ('arr, 'cache, 'xarr, 's) file_entry).
      path_length \<le> SSIZE_MAX - 1 \<Longrightarrow>
      file_entry_name_value U A (Some fe) = Inr name \<Longrightarrow> on_small_volume sub \<Longrightarrow>
      fe_directory_entry sub \<noteq> None \<Longrightarrow>
      \<exists>r. info_handle_file_system_hierarchy_fprint_file_entry U put A T X S M posix_time info_handle (Some sub)
        (Some (sub_path_string path path_length name)) (length (sub_path_string path path_length name) - 1) = Some r"
  shows "\<exists>r. info_handle_file_system_hierarchy_fprint_file_entry U put A T X S M posix_time info_handle (Some fe)
    (Some path) path_length = Some r"
proof (cases "info_handle = None \<or> path_length > SSIZE_MAX - 1 \<or> (\<exists>e. file_entry_name_value U A (Some fe) = Inl e)")
  case True
  then show ?thesis
    by (subst info_handle_file_system_hierarchy_fprint_file_entry.simps) (auto split: option.split)
next
  case False
  then obtain ih name where ih: "info_handle = Some ih" and name: "file_entry_name_value U A (Some fe) = Inr name"
    by (cases "file_entry_name_value U A (Some fe)") auto
  have limit: "path_length \<le> SSIZE_MAX - 1" using False by auto
  let ?path = "sub_path_string path path_length name"
  obtain ih' r where line: "hierarchy_line_fprint U put T X S M posix_time ih (Some fe) path path_length name = Some (ih', r)"
    "\<forall>fe. r = Inr fe \<longrightarrow> (\<exists>fe'. fe = Some fe' \<and> on_small_volume fe')"
    using line_returns [OF U T assms(3), of X S M posix_time ih path path_length name] unfolding prints_with_def by blast
  show ?thesis
  proof (cases r)
    case (Inl e)
    then show ?thesis
      using ih name limit line(1)
      by (subst info_handle_file_system_hierarchy_fprint_file_entry.simps) (simp add: not_less)
  next
    case (Inr fe')
    then obtain fe1 where fe1: "fe' = Some fe1" "on_small_volume fe1" using line(2) by blast
    let ?step = "\<lambda>i (info_handle, fe).
        case libfsfat_file_entry_get_sub_file_entry_by_index A T X (Some fe) i None of
          None \<Rightarrow> None
        | Some (Inl e) \<Rightarrow> Some ((info_handle, fe), Inl RUNTIME_GET_FAILED)
        | Some (Inr (fe, sub_file_entry)) \<Rightarrow>
            Option.bind
              (info_handle_file_system_hierarchy_fprint_file_entry U put A T X S M posix_time
                 info_handle (Some sub_file_entry) (Some ?path) (length ?path - 1))
              (\<lambda>(info_handle, r). Some ((info_handle, fe),
                 case r of Inl e \<Rightarrow> Inl RUNTIME_PRINT_FAILED | Inr _ \<Rightarrow> Inr ()))"
    have step: "\<exists>state' r. ?step i state = Some (state', r) \<and> on_small_volume (snd state')"
      if inv_state: "on_small_volume (snd state)"
      for i and state :: "('h, 'arr, 'cache) info_handle option \<times> ('arr, 'cache, 'xarr, 's) file_entry"
    proof -
      obtain h fe where state: "state = (h, fe)" "on_small_volume fe" using inv_state by (cases state) auto
      show ?thesis
        using sub_file_entry_returns [OF T state(2), of A X i]
      proof (rule returns_withE)
        fix fs assume fs: "libfsfat_file_entry_get_sub_file_entry_by_index A T X (Some fe) i None = Some (Inr fs)"
          "case fs of (fe', sub) \<Rightarrow> on_small_volume fe' \<and> on_small_volume sub \<and> fe_directory_entry sub \<noteq> None"
        obtain fe' sub where sub: "fs = (fe', sub)" "on_small_volume fe'" "on_small_volume sub" "fe_directory_entry sub \<noteq> None"
          using fs(2) by auto
        obtain h' r where "info_handle_file_system_hierarchy_fprint_file_entry U put A T X S M posix_time h (Some sub)
            (Some ?path) (length ?path - 1) = Some (h', r)"
          using subs [OF limit name sub(3,4)] by fast
        then show ?thesis using fs(1) sub(1,2) state(1) by simp
      qed (use state in simp)
    qed
    show ?thesis
      using number_returns [OF T fe1(2), of A]
    proof (rule returns_withE)
      fix fn assume fn: "libfsfat_file_entry_get_number_of_sub_file_entries A T (Some fe1) = Some (Inr fn)"
        "case fn of (fe', n) \<Rightarrow> on_small_volume fe'"
      obtain fe2 n where fe2: "fn = (fe2, n)" "on_small_volume fe2" using fn(2) by auto
      have "\<exists>q. each_index ?step [0..n - 1] (ih', fe2) = Some q"
        by (rule each_index_returns [where I = "\<lambda>state. on_small_volume (snd state)", OF step])
          (use fe2(2) in simp_all)
      then obtain q where "each_index ?step [0..n - 1] (ih', fe2) = Some q" by blast
      then show ?thesis
        using ih name limit line(1) Inr fe1(1) fn(1) fe2(1)
        by (subst info_handle_file_system_hierarchy_fprint_file_entry.simps) (simp add: not_less Let_def case_prod_beta)
    qed (use ih name limit line(1) Inr fe1(1) in
      \<open>subst info_handle_file_system_hierarchy_fprint_file_entry.simps, simp add: not_less\<close>)
  qed
qed

lemma walk_named:
  fixes fe :: "('arr, 'cache, 'xarr, 's) file_entry" and info_handle :: "('h, 'arr, 'cache) info_handle option"
  assumes U: "utf8_bounds U put" and T: "array_contract T tview" and sizes: "sizes_positive U"
    and "on_small_volume fe" "fe_directory_entry fe \<noteq> None" "path_length < length path"
  shows "\<exists>r. info_handle_file_system_hierarchy_fprint_file_entry U put A T X S M posix_time info_handle (Some fe)
    (Some path) path_length = Some r"
  using assms(4-)
proof (induction "SSIZE_MAX - path_length" arbitrary: fe info_handle path path_length rule: less_induct)
  case less
  show ?case
  proof (rule walk_step [OF U T less.prems(1)])
    fix name and info_handle :: "('h, 'arr, 'cache) info_handle option" and sub :: "('arr, 'cache, 'xarr, 's) file_entry"
    assume limit: "path_length \<le> SSIZE_MAX - 1" and name: "file_entry_name_value U A (Some fe) = Inr name"
      and sub: "on_small_volume sub" "fe_directory_entry sub \<noteq> None"
    let ?path = "sub_path_string path path_length name"
    obtain x where "name = Some x" using named_file_entry [OF sizes less.prems(2) name] by blast
    then have longer: "length ?path - 1 > path_length" "length ?path - 1 < length ?path"
      using less.prems(3) by (simp_all add: sub_path_string_def min_absorb1 split: prod.split)
    moreover have "0 < SSIZE_MAX" by (simp add: SSIZE_MAX_def)
    ultimately have "SSIZE_MAX - (length ?path - 1) < SSIZE_MAX - path_length" using limit by linarith
    then show "\<exists>r. info_handle_file_system_hierarchy_fprint_file_entry U put A T X S M posix_time info_handle (Some sub)
        (Some ?path) (length ?path - 1) = Some r"
      using less.hyps sub longer(2) by blast
  qed
qed

text \<open>
  Printing the hierarchy of a volume ends, whatever its directories hold, also if a directory is
  among its own descendants: every level makes the path longer, and a path that is too long for
  the tool is an error. The conversions of libuna move on, and their sizes count the terminator.
\<close>
theorem info_hierarchy_returns:
  fixes ih :: "('h, 'arr, 'cache) info_handle" and S :: "'s stream_ops" and X :: "('xarr, extent) array_ops"
  assumes "utf8_bounds U put" and "sizes_positive U" and "array_contract T tview"
    and "\<And>v fs io. ih_input_volume ih = Some v \<Longrightarrow> vol_file_system v = Some fs \<Longrightarrow> fs_io_handle fs = Some io \<Longrightarrow>
      unat (io_volume_size io) \<le> 2 ^ 53 \<and> unat (io_cluster_block_size io) \<le> 2 ^ 53"
  shows "\<exists>r. info_handle_file_system_hierarchy_fprint U put A T X S M posix_time B (Some ih) = Some r"
proof -
  have walk: "\<exists>r. info_handle_file_system_hierarchy_fprint_file_entry U put A T X S M posix_time (Some ih') (Some fe)
      (Some [0x5c, 0]) 1 = Some r"
    if fe: "libfsfat_volume_get_root_directory X B (ih_input_volume ih) None = Inr fe"
    for fe :: "('arr, 'cache, 'xarr, 's) file_entry" and ih' :: "('h, 'arr, 'cache) info_handle"
  proof (rule walk_step [OF assms(1,3)])
    show "on_small_volume fe"
      using fe assms(4)
      by (auto simp: libfsfat_volume_get_root_directory_def libfsfat_file_system_get_root_directory_def
          libfsfat_file_entry_initialize_def on_small_volume_def split: option.splits sum.splits if_splits prod.splits)
  next
    fix name and info_handle :: "('h, 'arr, 'cache) info_handle option" and sub :: "('arr, 'cache, 'xarr, 's) file_entry"
    assume "on_small_volume sub" "fe_directory_entry sub \<noteq> None"
    then show "\<exists>r. info_handle_file_system_hierarchy_fprint_file_entry U put A T X S M posix_time info_handle (Some sub)
        (Some (sub_path_string [0x5c, 0] 1 name)) (length (sub_path_string [0x5c, 0] 1 name) - 1) = Some r"
      by (intro walk_named [OF assms(1,3,2)]) (simp_all add: sub_path_string_def)
  qed
  show ?thesis
  proof (cases "libfsfat_volume_get_file_system_format (ih_input_volume ih)")
    case format: (Inr fmt)
    show ?thesis
    proof (cases "libfsfat_volume_get_root_directory X B (ih_input_volume ih)
        (None :: ('arr, 'cache, 'xarr, 's) file_entry option)")
      case (Inr fe)
      let ?ih = "(if ih_bodyfile_stream ih = None
          then print_notify (information_header @ ascii ''File system hierarchy:'' @ [0x0a]) ih else ih)
          \<lparr> ih_file_system_format := fmt \<rparr>"
      let ?id = "if ih_bodyfile_stream ih = None then ih_root_directory_identifier ?ih else fe_identifier fe"
      obtain h r where "info_handle_file_system_hierarchy_fprint_file_entry U put A T X S M posix_time
          (Some (?ih\<lparr> ih_root_directory_identifier := ?id \<rparr>)) (Some fe) (Some [0x5c, 0]) 1 = Some (h, r)"
        using walk [OF Inr] by fast
      then show ?thesis
        using format Inr
        by (cases "ih_bodyfile_stream ih"; cases r)
          (simp_all add: info_handle_file_system_hierarchy_fprint_def Let_def print_notify_def
            libfsfat_file_entry_get_identifier_def)
    qed (use format in \<open>simp add: info_handle_file_system_hierarchy_fprint_def Let_def print_notify_def\<close>)
  qed (simp add: info_handle_file_system_hierarchy_fprint_def Let_def print_notify_def)
qed

end
