(* ===== verification/Mount_Lookup.thy ===== *)
theory Mount_Lookup
  imports Mount_Handle
begin

text \<open>
  From a path of the mounted file system to a directory entry of the volume: the path the
  mount tool makes is a path of names for the library, and the library resolves it name by
  name.
\<close>

section \<open>A path of names in the library\<close>

lemma decodes_coded:
  assumes U: "utf8_coding valid enc U put" and "\<forall>c \<in> set cs. valid c"
    and "s = p @ concat (map enc cs) @ q" "n = length (p @ concat (map enc cs))"
  shows "decodes (una_from_utf8 U s n) n (length p) cs"
  using assms(2-)
proof (induction cs arbitrary: p)
  case Nil
  then show ?case by (simp add: decodes_end)
next
  case (Cons c cs)
  have c: "valid c" "0 < length (enc c)" using Cons.prems(1) utf8_length [OF U, of c] by auto
  have "una_from_utf8 U s n (length p) = Some (c, length p + length (enc c))"
    using utf8_decode [OF U c(1), of p n "concat (map enc cs) @ q"] Cons.prems by simp
  moreover have "decodes (una_from_utf8 U s n) n (length (p @ enc c)) cs"
    using Cons.prems by (intro Cons.IH) simp_all
  ultimately show ?case using Cons.prems(3) c(2) by (intro decodes_character) simp_all
qed

lemma length_without_end:
  assumes "0 \<notin> set s"
  shows "string_length_without_end (s @ q) (length s) = length s"
proof (cases "s = []")
  case False
  then have "(s @ q) ! (length s - 1) \<in> set s" by (simp add: nth_append)
  then have "(s @ q) ! (length s - 1) \<noteq> 0" using assms by metis
  then show ?thesis by (simp only: string_length_without_end_def if_False simp_thms)
qed (simp add: string_length_without_end_def)

lemma coded_characters:
  assumes U: "utf8_coding valid enc U put" and "\<forall>c \<in> set cs. valid c \<and> c \<noteq> 0"
    and "length (concat (map enc cs) @ q) \<le> SSIZE_MAX"
  shows "utf8_characters U (concat (map enc cs) @ q) (length (concat (map enc cs))) cs"
proof -
  let ?s = "concat (map enc cs)"
  have "0 \<notin> set ?s" by (rule nonzero_shown_characters(2) [OF assms(1,2)])
  then have "string_length_without_end (?s @ q) (length ?s) = length ?s" by (rule length_without_end)
  moreover have "decodes (una_from_utf8 U (?s @ q) (length ?s)) (length ?s) 0 cs"
    using decodes_coded [OF U, of cs "?s @ q" "[]" q] assms(2) by simp
  ultimately show ?thesis using assms(3) by (simp add: utf8_characters_def)
qed

lemma segment_end:
  assumes U: "utf8_coding valid enc U put" and "\<forall>c \<in> set cs. valid c \<and> c \<noteq> 0 \<and> c \<noteq> 0x5c"
    and "s = p @ concat (map enc cs) @ q" "n \<le> length s" "length (p @ concat (map enc cs)) \<le> n"
    and "separator \<Longrightarrow> q \<noteq> [] \<and> hd q = 0x5c \<and> length (p @ concat (map enc cs)) < n"
    and "\<not> separator \<Longrightarrow> n = length (p @ concat (map enc cs))"
  shows "path_segment_end (una_from_utf8 U s n) n (length p) =
    Some (Inr (length (p @ concat (map enc cs)) + (if separator then 1 else 0), separator))"
  using assms(2-)
proof (induction cs arbitrary: p)
  case Nil
  show ?case
  proof (cases separator)
    case True
    have e: "valid 0x5c" "enc 0x5c = [0x5c]" using utf8_ascii [OF U, of "0x5c"] by simp_all
    obtain r where "q = 0x5c # r" using Nil.prems(5) True by (cases q) auto
    then have "una_from_utf8 U s n (length p) = Some (0x5c, Suc (length p))"
      using utf8_decode [OF U e(1), of p n r] e(2) Nil.prems True by simp
    then show ?thesis using Nil.prems(5) True
      by (subst path_segment_end.simps) (simp add: LIBFSFAT_SEPARATOR_def)
  next
    case False
    then show ?thesis using Nil.prems(6) by (subst path_segment_end.simps) simp
  qed
next
  case (Cons c cs)
  have c: "valid c" "0 < length (enc c)" "c \<noteq> 0" "c \<noteq> 0x5c"
    using Cons.prems(1) utf8_length [OF U, of c] by auto
  have "una_from_utf8 U s n (length p) = Some (c, length (p @ enc c))"
    using utf8_decode [OF U c(1), of p n "concat (map enc cs) @ q"] Cons.prems(2-4) by simp
  moreover have "length p < n" using Cons.prems(4) c(2) unfolding length_append list.map concat.simps by linarith
  ultimately have "path_segment_end (una_from_utf8 U s n) n (length p) =
      path_segment_end (una_from_utf8 U s n) n (length (p @ enc c))"
    using c by (subst path_segment_end.simps) (simp add: LIBFSFAT_SEPARATOR_def)
  also have "\<dots> = Some (Inr (length ((p @ enc c) @ concat (map enc cs)) + (if separator then 1 else 0), separator))"
    using Cons.prems by (intro Cons.IH) simp_all
  finally show ?case by simp
qed

lemma library_path_names:
  assumes U: "utf8_coding valid enc U put" and "[] \<notin> set names"
    and "\<forall>c \<in> set (concat names). valid c \<and> c \<noteq> 0 \<and> c \<noteq> 0x5c"
    and "s = p @ library_path enc names @ q" "n = length (p @ library_path enc names)" "length s \<le> SSIZE_MAX"
  shows "path_names (una_from_utf8 U s n) (\<lambda>i. utf8_characters U (drop i s)) n (length p + 1) names"
  using assms(2-)
proof (induction names arbitrary: p)
  case Nil
  then show ?case by (intro path_names_end) simp
next
  case (Cons cs names)
  let ?cs = "concat (map enc cs)" and ?rest = "library_path enc names"
  let ?p = "p @ [0x5c]"
  have cs: "cs \<noteq> []" "\<forall>c \<in> set cs. valid c \<and> c \<noteq> 0 \<and> c \<noteq> 0x5c" using Cons.prems(1,2) by auto
  have s: "s = ?p @ ?cs @ ?rest @ q" using Cons.prems(3) by simp
  have n: "n = length (?p @ ?cs @ ?rest)" using Cons.prems(4) by simp
  have rest: "names \<noteq> [] \<Longrightarrow> ?rest \<noteq> [] \<and> hd ?rest = 0x5c" by (cases names) simp_all
  have "0 < length ?cs" using cs utf8_length [OF U, of "hd cs"] by (cases cs) auto
  have segment: "path_segment_end (una_from_utf8 U s n) n (length ?p) =
      Some (Inr (length (?p @ ?cs) + (if names \<noteq> [] then 1 else 0), names \<noteq> []))"
    by (rule segment_end [OF U cs(2) s, where separator = "names \<noteq> []"]) (use rest n s in \<open>auto simp del: length_concat\<close>)
  have "drop (length p + 1) s = ?cs @ (?rest @ q)" using s by simp
  moreover have "length (?cs @ (?rest @ q)) \<le> SSIZE_MAX" using Cons.prems(5) s by simp
  ultimately have characters: "utf8_characters U (drop (length p + 1) s) (length ?cs) cs"
    using coded_characters [OF U, of cs "?rest @ q"] cs(2) by simp
  have tail: "path_names (una_from_utf8 U s n) (\<lambda>i. utf8_characters U (drop i s)) n
      (length (?p @ ?cs) + (if names \<noteq> [] then 1 else 0)) names"
  proof (cases "names = []")
    case True
    then show ?thesis using n by (simp add: path_names_end)
  next
    case False
    have "path_names (una_from_utf8 U s n) (\<lambda>i. utf8_characters U (drop i s)) n (length (?p @ ?cs) + 1) names"
      using Cons.prems s n by (intro Cons.IH) simp_all
    then show ?thesis using False by simp
  qed
  show ?case
    by (rule path_names_segment [where j = "length (?p @ ?cs) + (if names \<noteq> [] then 1 else 0)" and
          separator = "names \<noteq> []" and n = "length ?cs"])
      (use segment tail characters n \<open>0 < length ?cs\<close> in simp_all)
qed

lemma library_utf8_path:
  assumes U: "utf8_coding valid enc U put" and "names \<noteq> []" "[] \<notin> set names"
    and "\<forall>c \<in> set (concat names). valid c \<and> c \<noteq> 0 \<and> c \<noteq> 0x5c"
    and "length (library_path enc names @ q) \<le> SSIZE_MAX"
  shows "utf8_path U (library_path enc names @ q) (length (library_path enc names)) names"
proof -
  obtain cs ns where names: "names = cs # ns" using assms(2) by (cases names) auto
  have "cs \<noteq> []" "valid (hd cs)" using assms(3,4) names by (auto simp: hd_in_set)
  then have "0 < length (concat (map enc cs))" using utf8_length [OF U, of "hd cs"] by (cases cs) auto
  then have "2 \<le> length (library_path enc names)"
    unfolding names path_simps list.size length_append by linarith
  moreover have "(library_path enc names @ q) ! 0 = 0x5c" by (simp add: names)
  ultimately show ?thesis
    using library_path_names [OF U assms(3,4), of "library_path enc names @ q" "[]" q] assms(5)
    by (simp add: utf8_path_def)
qed

section \<open>From the mounted path to the directory entry\<close>

lemma path_resolves:
  fixes X :: "('xarr, extent) array_ops"
  assumes "utf8_coding valid enc U put" and "array_contract A view" and "array_contract X xview"
    and "[] \<notin> set (names @ [cs])" "\<forall>c \<in> set (concat (names @ [cs])). valid c \<and> c \<noteq> 0 \<and> c \<noteq> 0x5c"
    and "length (library_path enc (names @ [cs])) \<le> (SSIZE_MAX - 1) div 10"
    and "mh_file_system mh = Some mfs" "mfs_fsfat_volume mfs = Some v" "vol_file_system v = Some fs"
    and "fs_root_directory fs = Some d" "fs_io_handle fs = Some io"
    and "resolves U C A view T (volume_bfio B v) fs d (names @ [cs]) fs' d' r"
  shows "\<exists>me fe. mount_handle_get_file_entry_by_path junk U put C A T X B (Some mh)
        (Some (shown_path enc (names @ [cs]))) None =
      Some (Inr (mh\<lparr> mh_file_system := Some (mfs\<lparr> mfs_fsfat_volume := Some (v\<lparr> vol_file_system := Some fs' \<rparr>) \<rparr>) \<rparr>,
        if r \<noteq> None then Some me else None)) \<and>
    me_fsfat_file_entry me = Some (fe :: ('arr, 'cache, 'xarr, 's) file_entry) \<and> path_entry io d' r fe \<and>
    me_name me = Some (concat (map (shown_character enc) cs) @ [0])"
proof -
  let ?names = "names @ [cs]"
  let ?path = "library_path enc ?names" and ?n = "length (shown_path enc (names @ [cs])) + 1"
  let ?buffer = "string_buffer junk ?path ?n"
  obtain fe :: "('arr, 'cache, 'xarr, 's) file_entry" where fe: "path_entry io d' r fe"
    and lookup: "\<And>string8 n8. utf8_path U string8 n8 ?names \<Longrightarrow>
      libfsfat_file_system_get_file_entry_by_utf8_path U C A T X (Some fs) (volume_bfio B v) (Some string8) n8 None =
      Some (Inr (fs', r \<noteq> None, fe))"
    using path_lookup_result [OF assms(2,3,10,11,12)] by metis
  have chars: "\<forall>c \<in> set (concat ?names). valid c \<and> c \<noteq> 0" using assms(5) by blast
  have "length (shown_path enc ?names) \<le> 10 * ((SSIZE_MAX - 1) div 10)"
    using length_shown_path [OF assms(1), of ?names] assms(6) chars by (meson le_trans mult_le_mono2)
  then have short: "?n \<le> SSIZE_MAX" by (simp add: SSIZE_MAX_def)
  have "length ?path < ?n" using length_library_path [OF assms(1), of ?names] chars by simp
  then have "length ?buffer \<le> SSIZE_MAX" using short by simp
  then have "utf8_path U ?buffer (length ?path) ?names"
    unfolding string_buffer_def by (intro library_utf8_path [OF assms(1) _ assms(4,5)]) simp_all
  from lookup [OF this]
  have "libfsfat_volume_get_file_entry_by_utf8_path U C A T X B (mfs_fsfat_volume mfs) (Some ?buffer) (length ?path) None =
      Some (Inr (v\<lparr> vol_file_system := Some fs' \<rparr>, r \<noteq> None, fe))"
    using assms(8,9) by (simp add: libfsfat_volume_get_file_entry_by_utf8_path_def del: not_None_eq)
  from mount_handle_path_lookup [OF assms(1,4) chars assms(6,7) this] fe show ?thesis by blast
qed

text \<open>
  C5. The mounted file system shows the directories of the volume. A path of escaped names,
  none of which holds the separator of the library, is resolved name by name from the root
  directory on, like the names themselves: if the last one is found, the mount handle gives a
  file entry that shows the identifier, flags, first cluster and size of that directory entry
  and has the last escaped name, and otherwise none.
\<close>
theorem mount_handle_path_resolves:
  fixes X :: "('xarr, extent) array_ops"
  assumes "utf8_coding valid enc U put" and "array_contract A view" and "array_contract X xview"
    and "[] \<notin> set (names @ [cs])" "\<forall>c \<in> set (concat (names @ [cs])). valid c \<and> c \<noteq> 0 \<and> c \<noteq> 0x5c"
    and "length (library_path enc (names @ [cs])) \<le> (SSIZE_MAX - 1) div 10"
    and "mh_file_system mh = Some mfs" "mfs_fsfat_volume mfs = Some v" "vol_file_system v = Some fs"
    and "fs_root_directory fs = Some d" "fs_io_handle fs = Some io"
    and "resolves U C A view T (volume_bfio B v) fs d (names @ [cs]) fs' d' r"
  shows "\<exists>me fe. mount_handle_get_file_entry_by_path junk U put C A T X B (Some mh)
        (Some (shown_path enc (names @ [cs]))) None =
      Some (Inr (mh\<lparr> mh_file_system := Some (mfs\<lparr> mfs_fsfat_volume := Some (v\<lparr> vol_file_system := Some fs' \<rparr>) \<rparr>) \<rparr>,
        if r \<noteq> None then Some me else None)) \<and>
    me_fsfat_file_entry me = Some (fe :: ('arr, 'cache, 'xarr, 's) file_entry) \<and> path_entry io d' r fe \<and>
    me_name me = Some (concat (map (shown_character enc) cs) @ [0])"
  by (rule path_resolves [OF assms])

section \<open>A concrete mount handle\<close>

text \<open>A mounted volume whose root directory has the file A.\<close>

definition example_mounted_volume :: "(bool, nat option list, unit) volume" where
  "example_mounted_volume = example_volume\<lparr> vol_file_system := Some path_witness_fs \<rparr>"

definition example_mount_handle :: "(bool, nat option list, unit) mount_handle" where
  "example_mount_handle =
     \<lparr> mh_file_system = Some (example_mount\<lparr> mfs_fsfat_volume := Some example_mounted_volume \<rparr>),
       mh_file_system_index = 0, mh_volume_offset = 0, mh_file_io_handle = Some True, mh_password = None,
       mh_password_length = 0, mh_recovery_password = None, mh_recovery_password_length = 0 \<rparr>"

lemma mount_handle_decimal_witness:
  "mount_handle_system_string_copy_from_64_bit_in_decimal (Some (decimal_string [4, 2] @ [0])) (length [4 :: nat, 2] + 1) =
     Inr 42"
  using mount_handle_decimal [of "[4, 2]"] by (simp add: SSIZE_MAX_def decimal_value_def)

lemma mount_handle_trailing_separator_witness:
  "mount_handle_get_file_entry_by_path (\<lambda>_. 0) ascii_una ascii_put no_cache list_array
     (list_array :: (node_entry option list, node_entry) array_ops)
     (list_array :: (extent option list, extent) array_ops) broken_file (Some example_mount_handle)
     (Some [0x2f, 0x2f])
     (None :: (bool, nat option list, unit, extent option list, stream_state) mount_file_entry option) =
   Some (Inl RUNTIME_INITIALIZE_FAILED)"
proof -
  let ?mfs = "example_mount\<lparr> mfs_fsfat_volume := Some example_mounted_volume \<rparr>"
  let ?T = "list_array :: (node_entry option list, node_entry) array_ops"
  let ?X = "list_array :: (extent option list, extent) array_ops"
  have path: "mount_path_string_copy_to_file_entry_path (\<lambda>_. 0) ascii_una ascii_put (Some [0x2f, 0x2f, 0]) 1 =
      Some (Inr ([0x5c, 0], 2))"
    by (simp add: mount_path_string_copy_to_file_entry_path_def SSIZE_MAX_def LIBCPATH_SEPARATOR_def)
      (subst unescape_characters.simps, subst unescape_characters.simps,
        simp add: unescaped_character_def ascii_una_def ascii_put_def LIBCPATH_SEPARATOR_def string_buffer_def)
  have "\<exists>mfs' fe. mount_file_system_get_file_entry_by_path (\<lambda>_. 0) ascii_una ascii_put no_cache list_array ?T ?X
      broken_file (Some ?mfs) (Some ([0x2f] @ [LIBCPATH_SEPARATOR, 0])) (length [0x2f :: u8])
      (None :: (nat option list, unit, extent option list, stream_state) file_entry option) = Some (Inr (mfs', True, fe))"
    using path
    by (simp add: mount_file_system_get_file_entry_by_path_def LIBCPATH_SEPARATOR_def c_string_def
        libfsfat_volume_get_file_entry_by_utf8_path_def example_mounted_volume_def path_witness_fs_def
        libfsfat_file_system_get_file_entry_by_utf8_path_def file_entry_by_path_def SSIZE_MAX_def
        path_file_entry_def libfsfat_file_entry_initialize_def directory_entry_values_def list_array_def)
  then obtain mfs' fe where "mount_file_system_get_file_entry_by_path (\<lambda>_. 0) ascii_una ascii_put no_cache list_array ?T ?X
      broken_file (Some ?mfs) (Some ([0x2f] @ [LIBCPATH_SEPARATOR, 0])) (length [0x2f :: u8])
      (None :: (nat option list, unit, extent option list, stream_state) file_entry option) = Some (Inr (mfs', True, fe))"
    by blast
  from mount_handle_trailing_separator [OF _ _ this, of example_mount_handle] show ?thesis
    by (simp add: example_mount_handle_def LIBCPATH_SEPARATOR_def)
qed

lemma mount_handle_reachable_states_witness:
  "\<exists>mh :: (bool, nat option list, unit) mount_handle.
     mount_handle_initialize (Some (1, 2)) None = Inr mh \<and> mount_handle_wf (\<lambda>a. a) mh"
proof -
  obtain mh :: "(bool, nat option list, unit) mount_handle"
    where mh: "mount_handle_initialize (Some (1, 2)) None = Inr mh"
    by (simp add: mount_handle_initialize_def mount_file_system_initialize_def)
  from mount_handle_reachable_states [OF list_array_contract list_array_contract [where 'a = node_entry]
      broken_file_bounded mount_reachable_new [OF mh, where U = ascii_una and put = ascii_put and C = no_cache and
        X = "list_array :: (extent option list, extent) array_ops" and R = "\<lparr> range_initialize = None,
          range_set_name = \<lambda>_ _ _. None, range_set = \<lambda>_ _ _. None \<rparr>"]] mh
  show ?thesis by blast
qed

lemma mount_handle_path_resolves_witness:
  "\<exists>mh me. mount_handle_get_file_entry_by_path (\<lambda>_. 0) ascii_una ascii_put no_cache list_array
     (list_array :: (node_entry option list, node_entry) array_ops)
     (list_array :: (extent option list, extent) array_ops) broken_file (Some example_mount_handle)
     (Some (shown_path (\<lambda>c. [ucast c]) [[0x61]])) None =
   Some (Inr (mh, Some (me :: (bool, nat option list, unit, extent option list, stream_state) mount_file_entry)))"
proof -
  let ?d = "example_directory [Some 0]"
  let ?bfio = "volume_bfio broken_file example_mounted_volume"
  have names: "list_all2 (stored_name ascii_una list_array ?d) (dir_file_entries_array ?d) [(0, [0x41])]"
    by (simp add: stored_name_def example_directory_def example_file_name)
  have found: "List.find (same_name ascii_una [0x61]) [(0, [0x41])] = Some (0, [0x41])"
    by (simp add: same_name_def ascii_una_def)
  have resolves: "resolves ascii_una no_cache list_array (\<lambda>a. a)
      (list_array :: (node_entry option list, node_entry) array_ops) ?bfio path_witness_fs ?d
      ([] @ [[0x61]]) path_witness_fs ?d (Some (fst (0 :: nat, [0x41 :: u32])))"
    using resolves_found [where view = "\<lambda>a. a", OF names found] by simp
  have fs: "fs_root_directory path_witness_fs = Some ?d" "fs_io_handle path_witness_fs = Some io_handle_zero"
    by (simp_all add: path_witness_fs_def)
  have mh: "mh_file_system example_mount_handle = Some (example_mount\<lparr> mfs_fsfat_volume := Some example_mounted_volume \<rparr>)"
    by (simp add: example_mount_handle_def)
  have v: "vol_file_system example_mounted_volume = Some path_witness_fs"
    by (simp add: example_mounted_volume_def)
  from mount_handle_path_resolves [OF ascii_coding list_array_contract list_array_contract _ _ _ mh _ v fs resolves,
      of "\<lambda>_. 0"] show ?thesis
    by (simp add: SSIZE_MAX_def) blast
qed

end
