(* ===== verification/Info_Example.thy ===== *)
theory Info_Example
  imports Info_Listing Info_Hash Info_Walk Mount_Lookup
begin

section \<open>A concrete listing\<close>

text \<open>The volume whose root directory has the file A, its root directory and this file.\<close>

definition listing_handle :: "u8 list option \<Rightarrow> (bool, nat option list, unit) info_handle" where
  "listing_handle bodyfile_stream =
     \<lparr> ih_volume_offset = 0, ih_input_file_io_handle = Some True, ih_input_volume = Some example_mounted_volume,
       ih_file_system_format = FORMAT_UNKNOWN, ih_root_directory_identifier = 0, ih_calculate_md5 = 0,
       ih_bodyfile_stream = bodyfile_stream, ih_notify_stream = [], ih_abort = 0 \<rparr>"

definition listing_root :: "(nat option list, unit, extent option list, stream_state) file_entry" where
  "listing_root =
     \<lparr> fe_io_handle = Some io_handle_zero, fe_file_io_handle = \<lambda>_ _. None, fe_file_system = Some path_witness_fs,
       fe_directory_entry = None, fe_identifier = 0, fe_file_attribute_flags = 0, fe_cluster_number = 0,
       fe_data_extents_array = [], fe_cluster_block_stream = None, fe_data_size = 0,
       fe_directory = Some (example_directory [Some 0]), fe_flags = 0 \<rparr>"

definition listing_file :: "(nat option list, unit, extent option list, stream_state) file_entry" where
  "listing_file = listing_root\<lparr> fe_directory := None,
     fe_directory_entry := Some (example_file\<lparr> de_name := Some [0x41, 0], de_name_size := 2 \<rparr>) \<rparr>"

lemma listing_root_directory:
  "libfsfat_volume_get_root_directory (list_array :: (extent option list, extent) array_ops) broken_file
     (Some example_mounted_volume) None = Inr listing_root"
  by (simp add: libfsfat_volume_get_root_directory_def example_mounted_volume_def path_witness_fs_def
     libfsfat_file_system_get_root_directory_def libfsfat_file_entry_initialize_def directory_entry_values_def
     list_array_def volume_bfio_def example_volume_def broken_file_def io_handle_zero_def listing_root_def)

lemma listing_sub_file_entry:
  "sub_file_entry_of (list_array :: (nat option list, nat) array_ops) list_array listing_root (Some 0) = Inr listing_file"
  by (simp add: sub_file_entry_of_def libfsfat_directory_entry_clone_def list_array_def
        libfsfat_directory_entry_get_name_def example_file_def directory_entry_zero_def short_name_string_def
        libfsfat_directory_entry_get_identifier_def example_directory_def listing_root_def listing_file_def
        libfsfat_file_entry_initialize_def directory_entry_values_def
        libfsfat_directory_entry_get_file_attribute_flags_def libfsfat_directory_entry_get_data_start_cluster_def
        libfsfat_directory_entry_get_data_size_def libfsfat_directory_entry_get_valid_data_size_def
        entry_with_name_def)

lemma listing_values:
  obtains v w where "has_values listing_root v" and "has_values listing_file w"
proof -
  have "has_values listing_root \<lparr> ev_identifier = 0, ev_file_attribute_flags = 0, ev_data_size = 0,
      ev_access_time = 0, ev_modification_time = 0, ev_creation_time = 0 \<rparr>"
    by (simp add: has_values_def listing_root_def directory_entry_value_def libfsfat_file_entry_get_access_time_def
        libfsfat_file_entry_get_modification_time_def libfsfat_file_entry_get_creation_time_def
        libfsfat_file_entry_get_file_attribute_flags_def)
  moreover obtain t where "libfsfat_date_time_get_timestamp 0 0 0 0 = Inr t"
    by (simp add: libfsfat_date_time_get_timestamp_def Let_def)
  then have "has_values listing_file \<lparr> ev_identifier = 0, ev_file_attribute_flags = 0, ev_data_size = 0,
      ev_access_time = t, ev_modification_time = t, ev_creation_time = t \<rparr>"
    by (simp add: has_values_def listing_root_def listing_file_def directory_entry_value_def
        libfsfat_file_entry_get_access_time_def example_file_def directory_entry_zero_def
        libfsfat_file_entry_get_modification_time_def libfsfat_file_entry_get_creation_time_def
        libfsfat_file_entry_get_file_attribute_flags_def libfsfat_directory_entry_get_file_attribute_flags_def
        libfsfat_directory_entry_get_access_time_def libfsfat_directory_entry_get_modification_time_def
        libfsfat_directory_entry_get_creation_time_def)
  ultimately show ?thesis by (rule that)
qed

lemma listing_names:
  "has_name (\<lambda>c. c < 0x80) (\<lambda>c. [ucast c]) ascii_una (list_array :: (nat option list, nat) array_ops) listing_root None"
  "has_name (\<lambda>c. c < 0x80) (\<lambda>c. [ucast c]) ascii_una (list_array :: (nat option list, nat) array_ops) listing_file (Some [0x41])"
  by (simp_all add: has_name_def file_entry_name_value_def libfsfat_file_entry_get_utf8_name_size_def
      directory_entry_value_def listing_root_def listing_file_def example_file_def directory_entry_zero_def
      libfsfat_directory_entry_get_utf8_name_size_def convert_name_def entry_with_name_def ascii_una_def
      libfsfat_file_entry_get_utf8_name_def libfsfat_directory_entry_get_utf8_name_def)

lemma listing_tree:
  assumes "has_values listing_root v" and "has_values listing_file w"
  shows "entry_tree (\<lambda>c. c < 0x80) (\<lambda>c. [ucast c]) ascii_una list_array (\<lambda>a. a)
     (list_array :: (node_entry option list, node_entry) array_ops) list_array
     (Node None v [Node (Some [0x41]) w []]) listing_root"
proof -
  have "entry_with_directory list_array (list_array :: (node_entry option list, node_entry) array_ops) listing_file =
      Some (Inr listing_file)"
    by (simp add: entry_with_directory_def libfsfat_internal_file_entry_get_directory_def listing_file_def listing_root_def)
  moreover have "fe_directory listing_file = None" by (simp add: listing_file_def)
  ultimately have "entry_tree (\<lambda>c. c < 0x80) (\<lambda>c. [ucast c]) ascii_una list_array (\<lambda>a. a)
      (list_array :: (node_entry option list, node_entry) array_ops) list_array (Node (Some [0x41]) w []) listing_file"
    using assms(2) listing_names(2) by simp
  then show ?thesis
    using assms(1) listing_names(1) listing_sub_file_entry
    by (simp add: entry_with_directory_def listing_root_def example_directory_def)
qed

lemma info_hierarchy_prints_tree_witness:
  "\<exists>ih. info_handle_file_system_hierarchy_fprint ascii_una ascii_put list_array
      (list_array :: (node_entry option list, node_entry) array_ops)
      (list_array :: (extent option list, extent) array_ops) list_stream list_md5 (\<lambda>_. None) broken_file
      (Some (listing_handle None)) = Some (Some ih, Inr ()) \<and>
    ih_notify_stream ih = information_header @ ascii ''File system hierarchy:'' @
      [0x0a, 0x5c, 0x0a, 0x5c, 0x41, 0x0a, 0x0a]"
proof -
  obtain v w where "has_values listing_root v" "has_values listing_file w" by (rule listing_values)
  note tree = listing_tree [OF this]
  have "ih_input_volume (listing_handle None) = Some example_mounted_volume"
    "vol_io_handle example_mounted_volume = Some example_volume_io"
    by (simp_all add: listing_handle_def example_mounted_volume_def example_volume_def)
  note listed = info_hierarchy_prints_tree [OF ascii_coding list_array_contract this listing_root_directory tree,
      of list_stream list_md5 "\<lambda>_. None"]
  have "\<not> replaced_by_2_digits 0x5c" "\<not> replaced_by_2_digits 0x41" by (simp_all add: replaced_by_2_digits_def)
  then show ?thesis
    using listed
    by (simp add: listing_handle_def entry_path_def sub_path_def SSIZE_MAX_def print_notify_def printed_name_def
        printed_character_def)
qed

lemma bodyfile_row_columns_witness:
  "\<exists>ih row fe. info_handle_file_entry_value_with_name_fprint ascii_una ascii_put
      (list_array :: (node_entry option list, node_entry) array_ops) list_array list_stream list_md5 (\<lambda>_. None)
      (Some (listing_handle (Some []))) (Some listing_file) (Some [0x5c, 0]) 1 (Some [0x41, 0]) 1 =
    Some (Some ih, Inr fe) \<and> ih_bodyfile_stream ih = Some row \<and> count_list row 0x7c = 10"
proof -
  obtain w where w: "has_values listing_file w" by (rule listing_values)
  have "\<not> replaced_by_2_digits 0x5c" "\<not> replaced_by_2_digits 0x41" by (simp_all add: replaced_by_2_digits_def)
  then show ?thesis
    using bodyfile_row_columns [OF ascii_coding, of "[0x5c]" "Some [0x41]", OF _ _ _ w,
        of "listing_handle (Some [])" "[]" list_array list_array list_stream list_md5 "\<lambda>_. None"]
    by (auto simp: listing_handle_def entry_path_def SSIZE_MAX_def print_bodyfile_def printed_name_def
        printed_character_def name_value_def name_string_def name_string_length_def)
qed

lemma info_hierarchy_returns_witness:
  "\<exists>r. info_handle_file_system_hierarchy_fprint ascii_una ascii_put (list_array :: (nat option list, nat) array_ops)
      (list_array :: (node_entry option list, node_entry) array_ops)
      (list_array :: (extent option list, extent) array_ops) list_stream list_md5 (\<lambda>_. None) broken_file
      (Some (listing_handle None)) = Some r"
proof -
  have "sizes_positive ascii_una" by (auto simp: sizes_positive_def ascii_una_def split: if_splits)
  then show ?thesis
    by (intro info_hierarchy_returns [OF ascii_bounds _ list_array_contract])
      (auto simp: listing_handle_def example_mounted_volume_def path_witness_fs_def io_handle_zero_def)
qed

end
