(* ===== verification/Py_Entries.thy ===== *)
theory Py_Entries
  imports Py_File_Entry Info_Example
begin

text \<open>
  What the Python objects of file entries show: the dates of their times, and the sub file
  entries that an iteration gives, over the interface of a source of items.
\<close>

section \<open>Times\<close>

lemma fat_epoch:
  assumes "1980 \<le> y"
  shows "seconds_since 1970 y m d hours minutes seconds =
    seconds_since 1980 y m d hours minutes seconds + 315532800"
proof -
  have "(\<Sum>i = 1970..<y. year_length i) = (\<Sum>i = 1970..<1980. year_length i) + (\<Sum>i = 1980..<y. year_length i)"
    using assms by (simp add: sum.atLeastLessThan_concat)
  moreover have "(\<Sum>i = 1970..<1980. year_length i) = 3652"
    by (simp add: sum.atLeast_Suc_lessThan year_length_def leap_year_def)
  ultimately show ?thesis by (simp add: seconds_since_def days_since_def)
qed

lemma fat_timestamp_date:
  assumes "new_datetime_contract N" and "valid_date y m d" and "1980 \<le> y" and "y \<le> 9999"
    and "hours < 24" and "minutes < 60" and "seconds < 60" and "centiseconds < 100"
  shows "datetime_of_fat_timestamp N (of_nat (seconds_since 1980 y m d hours minutes seconds * 100 + centiseconds)) =
    (if (y, m, d) = (1999, 12, 31) then Inl PyExc_ValueError
     else N (int y) (int m) (int d) (int hours) (int minutes) (int seconds) (int (centiseconds * 10000)))"
proof -
  let ?p = "seconds_since 1980 y m d hours minutes seconds"
  have nat: "(?p * 100 + centiseconds + 31553280000) * 10000 =
      seconds_since 1970 y m d hours minutes seconds * 1000000 + centiseconds * 10000"
    unfolding fat_epoch [OF assms(3)] by simp
  have word: "((of_nat (?p * 100 + centiseconds) + 31553280000) * 10000 :: u64) =
      of_nat ((?p * 100 + centiseconds + 31553280000) * 10000)" by simp
  have "1970 \<le> y" "centiseconds * 10000 < 1000000" using assms(3,8) by simp_all
  then show ?thesis
    unfolding datetime_of_fat_timestamp_def word nat
    by (subst posix_time_fields [OF assms(2) _ assms(4-7)])
      (simp_all add: new_datetime_refuses [OF assms(1)])
qed

text \<open>The day after a date, and the day some days after it.\<close>

lemma next_day:
  assumes "valid_date y m d"
  obtains y' m' d' where "valid_date y' m' d'" and "civil_day y' m' d' = civil_day y m d + 1"
    and "y \<le> y'" and "y' \<le> y + 1"
proof -
  have m: "1 \<le> m" "m \<le> 12" "1 \<le> d" "d \<le> month_length y m" using assms by (simp_all add: valid_date_def)
  have day: "civil_day y m d = civil_day y m 1 + int d - 1" for y m d by (simp add: civil_day_def)
  consider "d < month_length y m" | "d = month_length y m" "m < 12" | "d = month_length y m" "m = 12"
    using m(2,4) by linarith
  then show ?thesis
  proof cases
    case 1
    then show ?thesis
      using that [of y m "d + 1"] assms day [of y m "d + 1"] day [of y m d] by (simp add: valid_date_def)
  next
    case 2
    then have "1 \<le> month_length y (Suc m)" using month_length_ge [of "Suc m" y] by simp
    then show ?thesis
      using 2 that [of y "Suc m" 1] m civil_day_next_month [of m y] day [of y m d] by (simp add: valid_date_def)
  next
    case 3
    then show ?thesis
      using that [of "Suc y" 1 1] days_of_month_length [of 12 y] day [of y 12 d]
      by (simp add: valid_date_def days_of_month_def month_length_def)
  qed
qed

lemma days_after:
  assumes "valid_date y m d"
  shows "\<exists>y' m' d'. valid_date y' m' d' \<and> civil_day y' m' d' = civil_day y m d + int n \<and> y \<le> y' \<and> y' \<le> y + n"
proof (induction n)
  case 0
  then show ?case using assms by fastforce
next
  case (Suc n)
  then obtain y1 m1 d1 where 1: "valid_date y1 m1 d1" "civil_day y1 m1 d1 = civil_day y m d + int n"
    "y \<le> y1" "y1 \<le> y + n"
    by blast
  obtain y2 m2 d2 where "valid_date y2 m2 d2" "civil_day y2 m2 d2 = civil_day y1 m1 d1 + 1" "y1 \<le> y2" "y2 \<le> y1 + 1"
    by (rule next_day [OF 1(1)])
  then show ?case using 1(2-4) by (intro exI [of _ y2] exI [of _ m2] exI [of _ d2]) simp
qed

text \<open>The time of day of the fields, whose fraction counts up to two seconds.\<close>

lemma late_timestamp_date:
  assumes "new_datetime_contract N" and valid: "valid_date (date_year date) (date_month date) (date_day date)"
    and "time_hours time < 24" and "time_minutes time < 60" and "time_seconds time < 60"
    and "unat fraction < 200" and "unat off < 128"
  shows "\<exists>timestamp y m d. libfsfat_date_time_get_timestamp date time fraction off = Inr timestamp \<and>
    valid_date y m d \<and>
    civil_day y m d = civil_day (date_year date) (date_month date) (date_day date)
      + (1 + days_of_month (date_year date) (date_month date) + (days_of_year (date_year date) - 366)) \<and>
    datetime_of_fat_timestamp N timestamp =
      (if (y, m, d) = (1999, 12, 31) then Inl PyExc_ValueError
       else N (int y) (int m) (int d) (int (time_hours time)) (int (time_minutes time))
         (int (time_seconds time + unat fraction div 100)) (int (unat fraction mod 100 * 10000)))"
proof -
  let ?y = "date_year date" and ?m = "date_month date" and ?d = "date_day date"
  let ?late = "1 + days_of_month ?y ?m + (days_of_year ?y - 366)"
  have fields: "1 \<le> ?d" "1 \<le> ?m" "?m \<le> 12" "1980 \<le> ?y" "?y < 2108"
    using valid date_bounds(1) [of date] by (simp_all add: valid_date_def date_year_def)
  have off: "utc_offset_minutes off = 0" using assms(7) by (simp add: utc_offset_minutes_def)
  obtain ts where ts: "libfsfat_date_time_get_timestamp date time fraction off = Inr ts"
    and amount: "int (unat ts) = ((((civil_day ?y ?m ?d - civil_day 1980 1 1) * 24
          + int (time_hours time)) * 60 + int (time_minutes time) + utc_offset_minutes off) * 60
        + int (time_seconds time)) * 100 + int (unat fraction) + ?late * (24 * 60 * 60 * 100)"
    and late: "28 \<le> ?late" "?late \<le> 32"
    using timestamp_calendar [OF fields(1-3) refl refl, of time fraction off] by blast
  obtain y m d where date: "valid_date y m d" "civil_day y m d = civil_day ?y ?m ?d + ?late" "?y \<le> y" "y \<le> ?y + nat ?late"
    using days_after [OF valid, of "nat ?late"] late(1) by auto
  have y: "1980 \<le> y" "y \<le> 9999" using date(3,4) fields(4,5) late by linarith+
  have md: "1 \<le> m" "m \<le> 12" "1 \<le> d" using date(1) by (simp_all add: valid_date_def)
  have since: "int (days_since 1980 y m d) = civil_day ?y ?m ?d - civil_day 1980 1 1 + ?late"
    using civil_day_calendar [OF y(1) md] date(2) by (simp add: days_since_def calendar_days_def)
  let ?s = "time_seconds time + unat fraction div 100" and ?c = "unat fraction mod 100"
  have "time_seconds time \<le> 58" using assms(5) by (simp add: time_seconds_def)
  moreover have "unat fraction div 100 < 2" using assms(6) by simp
  ultimately have s: "?s < 60" by linarith
  have "int (unat ts) = int (seconds_since 1980 y m d (time_hours time) (time_minutes time) ?s * 100 + ?c)"
    unfolding amount off seconds_since_def of_nat_add of_nat_mult since
    using div_mult_mod_eq [of "int (unat fraction)" 100] by (simp add: zdiv_int zmod_int algebra_simps)
  then have "of_nat (unat ts) = (of_nat (seconds_since 1980 y m d (time_hours time) (time_minutes time) ?s * 100 + ?c) :: u64)"
    by (simp only: of_nat_eq_iff)
  then have "ts = of_nat (seconds_since 1980 y m d (time_hours time) (time_minutes time) ?s * 100 + ?c)"
    by (simp del: of_nat_add of_nat_mult)
  then have "datetime_of_fat_timestamp N ts = (if (y, m, d) = (1999, 12, 31) then Inl PyExc_ValueError
       else N (int y) (int m) (int d) (int (time_hours time)) (int (time_minutes time)) (int ?s) (int (?c * 10000)))"
    using fat_timestamp_date [OF assms(1) date(1) y assms(3,4) s, of ?c] by simp
  then show ?thesis using ts date(1,2) by blast
qed

text \<open>
  C37. The dates that Python shows of the fields of a directory entry: for valid fields without an offset
  from UTC the access, creation and modification time have the time of day of the fields, and their date is
  late by 28 to 32 days, as the timestamp of the library counts the month and the year of the date in full:
  it is the date that comes as many days after the one of the fields. Where that is December 31, 1999 a
  value error is raised.
\<close>

theorem file_entry_shows_date:
  assumes "new_datetime_contract N" and "pfe_file_entry e = Some fe" and "fe_directory_entry fe = Some de"
    and "(date, time, fraction, off, shown) \<in>
      {(de_access_date de, de_access_time de, 0, de_access_time_utc_offset de,
          pyfsfat_file_entry_get_access_time P N (Some e)),
       (de_creation_date de, de_creation_time de, de_creation_time_fraction de, de_creation_time_utc_offset de,
          pyfsfat_file_entry_get_creation_time P N (Some e)),
       (de_modification_date de, de_modification_time de, de_modification_time_fraction de,
          de_modification_time_utc_offset de, pyfsfat_file_entry_get_modification_time P N (Some e))}"
    and "valid_date (date_year date) (date_month date) (date_day date)"
    and "time_hours time < 24" and "time_minutes time < 60" and "time_seconds time < 60"
    and "unat fraction < 200" and "unat off < 128"
  shows "\<exists>y m d. valid_date y m d \<and>
    civil_day y m d = civil_day (date_year date) (date_month date) (date_day date)
      + (1 + days_of_month (date_year date) (date_month date) + (days_of_year (date_year date) - 366)) \<and>
    shown = (if (y, m, d) = (1999, 12, 31) then Inl PyExc_ValueError
       else N (int y) (int m) (int d) (int (time_hours time)) (int (time_minutes time))
         (int (time_seconds time + unat fraction div 100)) (int (unat fraction mod 100 * 10000)))"
proof -
  have "unat (ucast fraction :: u16) = unat fraction" "unat (ucast off :: u16) = unat off"
    by (simp_all add: unat_ucast_up)
  then obtain timestamp y m d where t: "libfsfat_date_time_get_timestamp date time (ucast fraction) (ucast off) = Inr timestamp"
    and date: "valid_date y m d" "civil_day y m d = civil_day (date_year date) (date_month date) (date_day date)
      + (1 + days_of_month (date_year date) (date_month date) + (days_of_year (date_year date) - 366))"
    and amount: "datetime_of_fat_timestamp N timestamp =
      (if (y, m, d) = (1999, 12, 31) then Inl PyExc_ValueError
       else N (int y) (int m) (int d) (int (time_hours time)) (int (time_minutes time))
         (int (time_seconds time + unat fraction div 100)) (int (unat fraction mod 100 * 10000)))"
    using late_timestamp_date [OF assms(1,5-8), of "ucast fraction" "ucast off"] assms(9,10) by auto
  have "shown = datetime_of_fat_timestamp N timestamp"
    using assms(4) t
    by (auto simp: pyfsfat_file_entry_get_access_time_def pyfsfat_file_entry_get_creation_time_def
        pyfsfat_file_entry_get_modification_time_def entry_value_def libfsfat_file_entry_get_access_time_def
        libfsfat_file_entry_get_creation_time_def libfsfat_file_entry_get_modification_time_def
        directory_entry_value_def assms(2,3) libfsfat_directory_entry_get_access_time_def
        libfsfat_directory_entry_get_creation_time_def libfsfat_directory_entry_get_modification_time_def)
  then show ?thesis using date amount by blast
qed

section \<open>Iterating over the sub file entries\<close>

text \<open>What a loop over a sequence object collects: the items up to the exception that ends it.\<close>

fun collect_items ::
  "nat \<Rightarrow> ('e, 'i) pyfsfat_file_entries \<Rightarrow> ('i list \<times> py_exception \<times> ('e, 'i) pyfsfat_file_entries) option" where
  "collect_items 0 q = None"
| "collect_items (Suc k) q =
     (case pyfsfat_file_entries_iternext (Some q) of
        Some (Some q, Inl exc) \<Rightarrow> Some ([], exc, q)
      | Some (Some q, Inr item) \<Rightarrow>
          map_option (\<lambda>(items, exc, q). (item # items, exc, q)) (collect_items k q)
      | _ \<Rightarrow> None)"

text \<open>A sequence object over a source of \<open>n\<close> items, in front of the item with the index \<open>i\<close>.\<close>

definition at_item where
  "at_item get_item valid n i q \<longleftrightarrow> valid (pfs_parent_object q) \<and> pfs_get_item_by_index q = Some get_item \<and>
     pfs_current_index q = int i \<and> pfs_number_of_items q = int n"

text \<open>The interface of what a sequence object gets its items from.\<close>

locale item_source =
  fixes get_item :: "'e option \<Rightarrow> int \<Rightarrow> ('e option \<times> 'i py_result) option"
    and valid :: "'e option \<Rightarrow> bool" and items :: "'i list"
  assumes item_law: "valid p \<Longrightarrow> i < length items \<Longrightarrow>
    \<exists>p'. get_item p (int i) = Some (p', Inr (items ! i)) \<and> valid p'"
begin

lemma new_sequence:
  assumes "valid (Some p)" and "pyfsfat_file_entries_new (Some p) (Some get_item) (int (length items)) = Inr q"
  shows "at_item get_item valid (length items) 0 q"
  using assms by (auto simp: pyfsfat_file_entries_new_def at_item_def)

lemma next_item:
  assumes "at_item get_item valid (length items) i q" and "i < length items"
  shows "\<exists>q'. pyfsfat_file_entries_iternext (Some q) = Some (Some q', Inr (items ! i)) \<and> at_item get_item valid (length items) (Suc i) q'"
  using item_law [of "pfs_parent_object q" i] assms
  by (fastforce simp: at_item_def pyfsfat_file_entries_iternext_def)

lemma no_item:
  assumes "at_item get_item valid (length items) (length items) q"
  shows "pyfsfat_file_entries_iternext (Some q) = Some (Some q, Inl PyExc_StopIteration)"
  using assms by (simp add: at_item_def pyfsfat_file_entries_iternext_def)

lemma collect:
  assumes "at_item get_item valid (length items) i q" and "i \<le> length items"
  shows "\<exists>q'. collect_items (Suc (length items - i)) q = Some (drop i items, PyExc_StopIteration, q') \<and>
    at_item get_item valid (length items) (length items) q'"
  using assms
proof (induction "length items - i" arbitrary: i q)
  case 0
  then show ?case using no_item [of q] by auto
next
  case (Suc n)
  then have less: "i < length items" by simp
  then obtain q' where q': "pyfsfat_file_entries_iternext (Some q) = Some (Some q', Inr (items ! i))"
    "at_item get_item valid (length items) (Suc i) q'"
    using next_item [OF Suc.prems(1)] by blast
  have n: "n = length items - Suc i" "length items - i = Suc n" using Suc.hyps(2) by simp_all
  then obtain q'' where "collect_items (Suc n) q' = Some (drop (Suc i) items, PyExc_StopIteration, q'')"
    "at_item get_item valid (length items) (length items) q''"
    using Suc.hyps(1) [OF n(1) q'(2)] less by auto
  then show ?case
    using q'(1) by (simp add: n(2) Cons_nth_drop_Suc [OF less, symmetric] del: collect_items.simps(2))
      (simp add: collect_items.simps(2) [of "Suc n"])
qed

end

text \<open>
  The file entries are such a source: a file entry whose directory is read gives the sub file
  entries of its directory, with its own parent object.
\<close>

definition lists_items where
  "lists_items A view X items p \<longleftrightarrow> array_contract A view \<and>
     (\<exists>e fe d. p = Some e \<and> pfe_file_entry e = Some fe \<and> fe_directory fe = Some d \<and>
        list_all2 (\<lambda>x item. \<exists>sub. sub_file_entry_of A X fe x = Inr sub \<and>
            item = \<lparr> pfe_file_entry = Some sub, pfe_parent_object = pfe_parent_object e \<rparr>)
          (view (dir_file_entries_array d)) items)"

interpretation sub_items: item_source "pyfsfat_file_entry_get_sub_file_entry_by_index A T X"
  "lists_items A view X items" items
  for A :: "('arr, nat) array_ops" and T :: "('tarr, node_entry) array_ops"
    and X :: "('xarr, extent) array_ops" and view
    and items :: "(('arr, 'cache, 'xarr, 's) file_entry, 'p) pyfsfat_file_entry list"
proof unfold_locales
  fix p :: "(('arr, 'cache, 'xarr, 's) file_entry, 'p) pyfsfat_file_entry option" and i
  assume p: "lists_items A view X items p" and i: "i < length items"
  then obtain e fe d where A: "array_contract A view" and e: "p = Some e" "pfe_file_entry e = Some fe"
    "fe_directory fe = Some d"
    and all: "list_all2 (\<lambda>x item. \<exists>sub. sub_file_entry_of A X fe x = Inr sub \<and>
            item = \<lparr> pfe_file_entry = Some sub, pfe_parent_object = pfe_parent_object e \<rparr>)
          (view (dir_file_entries_array d)) items"
    unfolding lists_items_def by blast
  let ?xs = "view (dir_file_entries_array d)"
  have xs: "i < length ?xs" using all i by (simp add: list_all2_lengthD)
  obtain sub where sub: "sub_file_entry_of A X fe (?xs ! i) = Inr sub"
    "items ! i = \<lparr> pfe_file_entry = Some sub, pfe_parent_object = pfe_parent_object e \<rparr>"
    using list_all2_nthD [OF all xs] by blast
  have "?xs = take i ?xs @ ?xs ! i # drop (Suc i) ?xs" using id_take_nth_drop [OF xs] .
  moreover have "length (take i ?xs) = i" using xs by simp
  ultimately have "libfsfat_file_entry_get_sub_file_entry_by_index A T X (Some fe) (int i) None = Some (Inr (fe, sub))"
    using sub_entry_by_index [OF A e(3) _ sub(1), of "take i ?xs" "drop (Suc i) ?xs"] by simp
  then have "pyfsfat_file_entry_get_sub_file_entry_by_index A T X p (int i) = Some (Some e, Inr (items ! i))"
    using e(1,2) sub(2) by (simp add: pyfsfat_file_entry_get_sub_file_entry_by_index_def pyfsfat_file_entry_new_def)
  then show "\<exists>p'. pyfsfat_file_entry_get_sub_file_entry_by_index A T X p (int i) = Some (p', Inr (items ! i)) \<and>
      lists_items A view X items p'"
    using p e(1) by blast
qed

text \<open>
  C38. Iterating over the sub file entries of a directory that is read gives each of its entries
  once and in order, as objects with the same parent object, and then ends. The sequence has
  their number, and iterating over the same object a second time gives nothing.
\<close>

theorem sub_file_entries_iterated:
  fixes fe :: "('arr, 'cache, 'xarr, 's) file_entry"
  assumes "array_contract A view" and "fe_directory fe = Some d"
    and "list_all2 (\<lambda>x sub. sub_file_entry_of A X fe x = Inr sub) (view (dir_file_entries_array d)) subs"
  shows "\<exists>q q'. pyfsfat_file_entry_get_sub_file_entries A T X
        (Some \<lparr> pfe_file_entry = Some fe, pfe_parent_object = parent \<rparr>) =
      Some (Some \<lparr> pfe_file_entry = Some fe, pfe_parent_object = parent \<rparr>, Inr q) \<and>
    pyfsfat_file_entries_len (Some q) = Inr (int (length subs)) \<and>
    collect_items (Suc (length subs)) q =
      Some (map (\<lambda>sub. \<lparr> pfe_file_entry = Some sub, pfe_parent_object = parent \<rparr>) subs, PyExc_StopIteration, q') \<and>
    (\<exists>q''. pyfsfat_file_entries_iter (Some q') = Inr q'' \<and> collect_items 1 q'' = Some ([], PyExc_StopIteration, q''))"
proof -
  let ?items = "map (\<lambda>sub. \<lparr> pfe_file_entry = Some sub, pfe_parent_object = parent \<rparr>) subs"
  let ?e = "\<lparr> pfe_file_entry = Some fe, pfe_parent_object = parent \<rparr>"
  let ?get = "pyfsfat_file_entry_get_sub_file_entry_by_index A T X" and ?valid = "lists_items A view X ?items"
  have number: "libfsfat_file_entry_get_number_of_sub_file_entries A T (Some fe) = Some (Inr (fe, int (length subs)))"
    using assms(2) list_all2_lengthD [OF assms(3)]
    by (simp add: libfsfat_file_entry_get_number_of_sub_file_entries_def entry_with_directory_def
        libfsfat_directory_get_number_of_file_entries_def array_number [OF assms(1)])
  have "lists_items A view X ?items (Some ?e)"
    using assms by (simp add: lists_items_def list_all2_map2)
  moreover obtain q where q: "pyfsfat_file_entries_new (Some ?e)
      (Some (pyfsfat_file_entry_get_sub_file_entry_by_index A T X)) (int (length ?items)) = Inr q"
    by (simp add: pyfsfat_file_entries_new_def)
  ultimately have start: "at_item ?get ?valid (length ?items) 0 q" by (rule sub_items.new_sequence)
  obtain q' where q': "collect_items (Suc (length ?items)) q = Some (?items, PyExc_StopIteration, q')"
    "at_item ?get ?valid (length ?items) (length ?items) q'"
    using sub_items.collect [OF start] by auto
  have "collect_items 1 q' = Some ([], PyExc_StopIteration, q')"
    using sub_items.no_item [OF q'(2)] by simp
  moreover have "pyfsfat_file_entry_get_sub_file_entries A T X (Some ?e) = Some (Some ?e, Inr q)"
    using number q by (simp add: pyfsfat_file_entry_get_sub_file_entries_def)
  moreover have "pyfsfat_file_entries_len (Some q) = Inr (int (length subs))"
    using q by (auto simp: pyfsfat_file_entries_new_def pyfsfat_file_entries_len_def)
  ultimately show ?thesis
    using q'(1) by (simp add: pyfsfat_file_entries_iter_def del: collect_items.simps)
qed

theorem sub_file_entries_iterated_witness:
  "\<exists>q q'. pyfsfat_file_entry_get_sub_file_entries (list_array :: (nat option list, nat) array_ops)
        (list_array :: (node_entry option list, node_entry) array_ops) list_array
        (Some \<lparr> pfe_file_entry = Some listing_root, pfe_parent_object = Some () \<rparr>) =
      Some (Some \<lparr> pfe_file_entry = Some listing_root, pfe_parent_object = Some () \<rparr>, Inr q) \<and>
    collect_items 2 q = Some ([\<lparr> pfe_file_entry = Some listing_file, pfe_parent_object = Some () \<rparr>],
      PyExc_StopIteration, q')"
proof -
  have d: "fe_directory listing_root = Some (example_directory [Some 0])" by (simp add: listing_root_def)
  have subs: "list_all2 (\<lambda>x sub. sub_file_entry_of (list_array :: (nat option list, nat) array_ops) list_array
      listing_root x = Inr sub) (dir_file_entries_array (example_directory [Some 0])) [listing_file]"
    using listing_sub_file_entry by (simp add: example_directory_def)
  show ?thesis
    using sub_file_entries_iterated [OF list_array_contract d subs,
        of "list_array :: (node_entry option list, node_entry) array_ops" "Some ()"]
    by (simp add: numeral_2_eq_2 del: collect_items.simps) blast
qed

text \<open>A file of January 1, 1980, one o'clock: Python shows February 2, as the timestamp is late by 32 days.\<close>

theorem file_entry_shows_date_witness:
  "\<exists>y m d. valid_date y m d \<and> civil_day y m d = civil_day 1980 2 2 \<and>
    pyfsfat_file_entry_get_modification_time small_python (\<lambda>y m d h mi s us. map_sum id (\<lambda>_. PyLong h)
       (example_datetime y m d h mi s us))
     (Some \<lparr> pfe_file_entry = Some (listing_file\<lparr> fe_directory_entry := Some (directory_entry_zero
         \<lparr> de_modification_date := 0x21, de_modification_time := 0x0800 \<rparr>) \<rparr>), pfe_parent_object = Some () \<rparr>) =
      (if (y, m, d) = (1999, 12, 31) then Inl PyExc_ValueError
       else map_sum id (\<lambda>_. PyLong 1) (example_datetime (int y) (int m) (int d) 1 0 0 0))"
proof -
  let ?N = "\<lambda>y m d h mi s us. map_sum id (\<lambda>_. PyLong h) (example_datetime y m d h mi s us)"
  let ?de = "directory_entry_zero\<lparr> de_modification_date := 0x21, de_modification_time := 0x0800 \<rparr>"
  let ?e = "\<lparr> pfe_file_entry = Some (listing_file\<lparr> fe_directory_entry := Some ?de \<rparr>), pfe_parent_object = Some () \<rparr>"
  have N: "new_datetime_contract ?N" by (simp add: new_datetime_contract_def example_datetime_def)
  have fe: "pfe_file_entry ?e = Some (listing_file\<lparr> fe_directory_entry := Some ?de \<rparr>)"
    "fe_directory_entry (listing_file\<lparr> fe_directory_entry := Some ?de \<rparr>) = Some ?de"
    by simp_all
  have fields: "date_year 0x21 = 1980" "date_month 0x21 = 1" "date_day 0x21 = 1" "time_hours 0x0800 = 1"
    "time_minutes 0x0800 = 0" "time_seconds 0x0800 = 0"
    by (simp_all add: packed_defs)
  have days: "civil_day 1980 1 1 + (1 + days_of_month 1980 1 + (days_of_year 1980 - 366)) = civil_day 1980 2 2"
    by (simp add: days_of_month_def days_of_year_def civil_day_def march_first_def)
  have shown: "(0x21, 0x0800, 0 :: u8, 0 :: u8, pyfsfat_file_entry_get_modification_time small_python ?N (Some ?e)) \<in>
      {(de_access_date ?de, de_access_time ?de, 0, de_access_time_utc_offset ?de,
          pyfsfat_file_entry_get_access_time small_python ?N (Some ?e)),
       (de_creation_date ?de, de_creation_time ?de, de_creation_time_fraction ?de, de_creation_time_utc_offset ?de,
          pyfsfat_file_entry_get_creation_time small_python ?N (Some ?e)),
       (de_modification_date ?de, de_modification_time ?de, de_modification_time_fraction ?de,
          de_modification_time_utc_offset ?de, pyfsfat_file_entry_get_modification_time small_python ?N (Some ?e))}"
    by (simp add: directory_entry_zero_def)
  have valid: "valid_date (date_year 0x21) (date_month 0x21) (date_day 0x21)"
    by (simp add: fields valid_date_def month_length_def)
  have zero: "unat (0 :: u8) div 100 = 0" "unat (0 :: u8) mod 100 * 10000 = 0" by simp_all
  obtain y m d where date: "valid_date y m d" "civil_day y m d = civil_day 1980 2 2"
    and python: "pyfsfat_file_entry_get_modification_time small_python ?N (Some ?e) =
      (if (y, m, d) = (1999, 12, 31) then Inl PyExc_ValueError
       else ?N (int y) (int m) (int d) (int 1) (int 0) (int (0 + 0)) (int 0))"
    using file_entry_shows_date [OF N fe shown valid] unfolding fields days zero by auto
  show ?thesis
    by (rule exI [of _ y], rule exI [of _ m], rule exI [of _ d], intro conjI, rule date(1), rule date(2),
        subst python) simp
qed

end
