(* ===== verification/Getopt.thy ===== *)
theory Getopt
  imports Prelude
begin

text \<open>
  The options of the command line tools, \<^verbatim>\<open>fsfattools/fsfattools_getopt.c\<close>, for systems without a
  function for this. The strings are given without their terminators and hold no zeros. The
  messages for the user are not modelled.
\<close>

section \<open>The next option\<close>

record getopt_state =
  optind :: nat
  optarg :: "u8 list option"
  optopt :: u8
  next_option :: "u8 list option"

definition getopt_start :: getopt_state where
  "getopt_start = \<lparr> optind = 1, optarg = None, optopt = 0, next_option = None \<rparr>"

text \<open>The rest of a group of options, or what is behind the hyphen of the next argument.\<close>

definition option_argument_value :: "getopt_state \<Rightarrow> u8 list list \<Rightarrow> getopt_state \<times> u8 list option" where
  "option_argument_value st argument_values =
     (if next_option st \<noteq> None then (st\<lparr> next_option := None \<rparr>, next_option st)
      else if optind st \<ge> length argument_values then (st, None)
      else
        (case argument_values ! optind st of
           [] \<Rightarrow> (st, None)
         | c # argument_value \<Rightarrow>
             if c \<noteq> 0x2d then (st, None)
             else if take 1 argument_value = [0x2d] then (st\<lparr> optind := optind st + 1 \<rparr>, None)
             else (st, Some argument_value)))"

text \<open>The options string from an option on, the empty string if it is not there.\<close>

definition option_value :: "u8 list \<Rightarrow> u8 \<Rightarrow> u8 list" where
  "option_value options_string c = dropWhile (\<lambda>d. d \<noteq> c) options_string"

text \<open>
  \<open>None\<close> is the value -1 at the end of the options. An argument that is a hyphen only has the
  terminator for an option, and the code reads what is behind it.
\<close>

definition fsfattools_getopt ::
  "getopt_state \<Rightarrow> u8 list list \<Rightarrow> u8 list \<Rightarrow> (getopt_state \<times> u8 option) result" where
  "fsfattools_getopt st argument_values options_string =
     (case option_argument_value st argument_values of
        (st, None) \<Rightarrow> Inr (st, None)
      | (st, Some []) \<Rightarrow> Inl MEMORY_FAULT
      | (st, Some (c # argument_value)) \<Rightarrow>
          let st = st\<lparr> optopt := c \<rparr>
          in if c = 0x3a \<or> option_value options_string c = []
             then Inr (if argument_value = [] then st\<lparr> optind := optind st + 1 \<rparr> else st, Some 0x3f)
             else if take 1 (tl (option_value options_string c)) \<noteq> [0x3a]
             then Inr (if argument_value = [] then st\<lparr> optarg := None, optind := optind st + 1 \<rparr>
                       else st\<lparr> optarg := None, next_option := Some argument_value \<rparr>, Some c)
             else if argument_value \<noteq> []
             then Inr (st\<lparr> optarg := Some argument_value, optind := optind st + 1 \<rparr>, Some c)
             else
               let st = st\<lparr> optind := optind st + 1 \<rparr>
               in if length argument_values \<le> optind st then Inr (st, Some 0x3a)
                  else Inr (st\<lparr> optarg := Some (argument_values ! optind st), optind := optind st + 1 \<rparr>, Some c))"

text \<open>
  The loop over the options in the main programs. Its step is the switch over the option, which
  ends the program (\<open>Inl\<close>) or goes on with what it has learned (\<open>Inr\<close>).
\<close>

partial_function (option) each_option ::
  "(u8 \<Rightarrow> u8 list option \<Rightarrow> 'a \<Rightarrow> 'exit + 'a) \<Rightarrow> u8 list \<Rightarrow> u8 list list \<Rightarrow> getopt_state \<Rightarrow> 'a \<Rightarrow>
   (getopt_state \<times> ('exit + 'a)) result option" where
  "each_option step options_string argument_values st acc =
     (case fsfattools_getopt st argument_values options_string of
        Inl e \<Rightarrow> Some (Inl e)
      | Inr (st, None) \<Rightarrow> Some (Inr (st, Inr acc))
      | Inr (st, Some c) \<Rightarrow>
          (case step c (optarg st) acc of
             Inl status \<Rightarrow> Some (Inr (st, Inl status))
           | Inr acc \<Rightarrow> each_option step options_string argument_values st acc))"

section \<open>The loop ends\<close>

text \<open>What is left to read: the arguments, and then the characters of the current one.\<close>

definition unread :: "u8 list list \<Rightarrow> getopt_state \<Rightarrow> nat" where
  "unread argument_values st =
     (case next_option st of
        Some string \<Rightarrow> length string
      | None \<Rightarrow> if optind st < length argument_values then length (argument_values ! optind st) else 0)"

lemma getopt_progress:
  assumes "fsfattools_getopt st argument_values options_string = Inr (st', Some c)" and "c \<noteq> 0x3f" "c \<noteq> 0x3a"
  shows "(st', st) \<in> measures [\<lambda>st. length argument_values - optind st, unread argument_values]"
proof -
  have "take 1 s = [] \<longleftrightarrow> s = []" for s :: "u8 list" by (cases s) simp_all
  then show ?thesis
    using assms
    by (auto simp: fsfattools_getopt_def option_argument_value_def unread_def Let_def neq_Nil_conv
        split: if_splits list.splits option.splits)
qed

text \<open>The index is that of an argument while options of it are left, and a group is not empty.\<close>

definition getopt_wf :: "u8 list list \<Rightarrow> getopt_state \<Rightarrow> bool" where
  "getopt_wf argument_values st \<longleftrightarrow>
     0 < optind st \<and> optind st \<le> length argument_values \<and>
     (\<forall>string. next_option st = Some string \<longrightarrow> string \<noteq> [] \<and> optind st < length argument_values)"

lemma getopt_keeps_wf:
  assumes "getopt_wf argument_values st"
  shows "case fsfattools_getopt st argument_values options_string of
    Inl e \<Rightarrow> [0x2d] \<in> set (tl argument_values)
  | Inr (st', c) \<Rightarrow> getopt_wf argument_values st'"
proof (cases "next_option st")
  case None
  show ?thesis
  proof (cases "optind st < length argument_values")
    case True
    then have "argument_values ! optind st \<in> set (tl argument_values)"
      using assms by (cases argument_values) (auto simp: getopt_wf_def nth_Cons')
    then show ?thesis
      using assms True None
      by (auto simp: fsfattools_getopt_def option_argument_value_def getopt_wf_def Let_def split: list.split)
  qed (use assms None in \<open>simp add: fsfattools_getopt_def option_argument_value_def\<close>)
next
  case (Some string)
  then show ?thesis
    using assms
    by (cases string) (auto simp: fsfattools_getopt_def option_argument_value_def getopt_wf_def Let_def)
qed

lemma each_option_returns:
  assumes "\<And>argument acc. \<exists>status. step 0x3f argument acc = Inl status"
    and "\<And>argument acc. \<exists>status. step 0x3a argument acc = Inl status"
    and "getopt_wf argument_values st"
  shows "\<exists>r. each_option step options_string argument_values st acc = Some r \<and>
    (case r of
       Inl e \<Rightarrow> [0x2d] \<in> set (tl argument_values)
     | Inr (st', outcome) \<Rightarrow> getopt_wf argument_values st')"
  using assms(3)
proof (induction st arbitrary: acc
    rule: wf_induct_rule [OF wf_measures [of "[\<lambda>st. length argument_values - optind st, unread argument_values]"]])
  case (1 st)
  note keeps = getopt_keeps_wf [OF 1(2), of options_string]
  show ?case
  proof (cases "fsfattools_getopt st argument_values options_string")
    case (Inl e)
    then show ?thesis using keeps by (subst each_option.simps) simp
  next
    case (Inr r)
    obtain st' option where r: "r = (st', option)" by (cases r)
    then have wf: "getopt_wf argument_values st'" using keeps Inr by simp
    show ?thesis
    proof (cases option)
      case None
      then show ?thesis using Inr r wf by (subst each_option.simps) simp
    next
      case (Some c)
      show ?thesis
      proof (cases "step c (optarg st') acc")
        case (Inl status)
        then show ?thesis using \<open>fsfattools_getopt st _ _ = Inr r\<close> r Some wf by (subst each_option.simps) simp
      next
        case acc': (Inr acc')
        then have "c \<noteq> 0x3f" "c \<noteq> 0x3a" using assms(1,2) by (metis Inr_Inl_False)+
        then have "(st', st) \<in> measures [\<lambda>st. length argument_values - optind st, unread argument_values]"
          using getopt_progress Inr r Some by blast
        then show ?thesis
          using 1(1) [OF _ wf, of acc'] Inr acc' r Some by (subst each_option.simps) simp
      qed
    qed
  qed
qed

text \<open>
  Reading the options is safe for any arguments. For a program that ends at an option that is
  not known and at one whose argument is missing, the loop over the options ends, its index is
  that of the first operand or behind the last argument, and it reads outside of the arguments only if one
  of them is a hyphen alone.
\<close>
theorem getopt_loop_safe:
  assumes "\<And>argument acc. \<exists>status. step 0x3f argument acc = Inl status"
    and "\<And>argument acc. \<exists>status. step 0x3a argument acc = Inl status"
  shows "\<exists>r. each_option step options_string (program # arguments) getopt_start acc = Some r \<and>
    (case r of
       Inl e \<Rightarrow> [0x2d] \<in> set arguments
     | Inr (st, outcome) \<Rightarrow> 0 < optind st \<and> optind st \<le> Suc (length arguments))"
proof -
  have "getopt_wf (program # arguments) getopt_start" by (simp add: getopt_wf_def getopt_start_def)
  from each_option_returns [where step = step, OF assms this] show ?thesis
    by (fastforce simp: getopt_wf_def split: sum.splits)
qed

text \<open>A program that ends at an option ends with what its switch gives for one.\<close>

lemma each_option_exit:
  assumes "each_option step options_string argument_values st acc = Some r"
  shows "r = Inr (st', Inl status) \<Longrightarrow> \<exists>c argument acc. step c argument acc = Inl status"
  by (induction arbitrary: st' status rule: each_option.raw_induct [rotated, consumes 1, OF assms])
    (fastforce split: sum.splits prod.splits option.splits)

section \<open>Arguments and the options they give\<close>

text \<open>
  An argument with a group of flags, and with an option behind them whose argument is the rest of
  the word or the next word.
\<close>

datatype option_word = Flags "u8 list" | Attached "u8 list" u8 "u8 list" | Separate "u8 list" u8 "u8 list"

fun word_arguments :: "option_word \<Rightarrow> u8 list list" where
  "word_arguments (Flags flags) = [0x2d # flags]"
| "word_arguments (Attached flags c argument) = [0x2d # flags @ c # argument]"
| "word_arguments (Separate flags c argument) = [0x2d # flags @ [c], argument]"

fun word_options :: "option_word \<Rightarrow> (u8 \<times> u8 list option) list" where
  "word_options (Flags flags) = map (\<lambda>c. (c, None)) flags"
| "word_options (Attached flags c argument) = map (\<lambda>c. (c, None)) flags @ [(c, Some argument)]"
| "word_options (Separate flags c argument) = map (\<lambda>c. (c, None)) flags @ [(c, Some argument)]"

text \<open>The letters of the options string, without and with an argument.\<close>

definition is_flag :: "u8 list \<Rightarrow> u8 \<Rightarrow> bool" where
  "is_flag options_string c \<longleftrightarrow>
     c \<noteq> 0x3a \<and> c \<noteq> 0x2d \<and> (\<exists>rest. option_value options_string c = c # rest \<and> take 1 rest \<noteq> [0x3a])"

definition takes_argument :: "u8 list \<Rightarrow> u8 \<Rightarrow> bool" where
  "takes_argument options_string c \<longleftrightarrow>
     c \<noteq> 0x3a \<and> c \<noteq> 0x2d \<and> (\<exists>rest. option_value options_string c = c # 0x3a # rest)"

fun option_word_wf :: "u8 list \<Rightarrow> option_word \<Rightarrow> bool" where
  "option_word_wf options_string (Flags flags) \<longleftrightarrow> flags \<noteq> [] \<and> (\<forall>c \<in> set flags. is_flag options_string c)"
| "option_word_wf options_string (Attached flags c argument) \<longleftrightarrow>
     (\<forall>c \<in> set flags. is_flag options_string c) \<and> takes_argument options_string c \<and> argument \<noteq> []"
| "option_word_wf options_string (Separate flags c argument) \<longleftrightarrow>
     (\<forall>c \<in> set flags. is_flag options_string c) \<and> takes_argument options_string c"

text \<open>The steps for a list of options, up to the first one that ends the program.\<close>

primrec option_steps ::
  "(u8 \<Rightarrow> u8 list option \<Rightarrow> 'a \<Rightarrow> 'exit + 'a) \<Rightarrow> (u8 \<times> u8 list option) list \<Rightarrow> 'a \<Rightarrow> 'exit + 'a" where
  "option_steps step [] acc = Inr acc"
| "option_steps step (option # options) acc =
     (case step (fst option) (snd option) acc of
        Inl status \<Rightarrow> Inl status
      | Inr acc \<Rightarrow> option_steps step options acc)"

lemma option_steps_append:
  "option_steps step (options @ options') acc =
     (case option_steps step options acc of
        Inl status \<Rightarrow> Inl status
      | Inr acc \<Rightarrow> option_steps step options' acc)"
  by (induction options arbitrary: acc) (simp_all split: sum.split)

text \<open>The loop in a state has the outcome of some options, and then goes on in another state.\<close>

definition reads_options ::
  "(u8 \<Rightarrow> u8 list option \<Rightarrow> 'a \<Rightarrow> 'exit + 'a) \<Rightarrow> u8 list \<Rightarrow> u8 list list \<Rightarrow> getopt_state \<Rightarrow>
   (u8 \<times> u8 list option) list \<Rightarrow> getopt_state \<Rightarrow> bool" where
  "reads_options step options_string argument_values st options st' \<longleftrightarrow>
     (\<forall>acc. case option_steps step options acc of
        Inl status \<Rightarrow> \<exists>end_state. each_option step options_string argument_values st acc = Some (Inr (end_state, Inl status)) 
      | Inr acc' \<Rightarrow> each_option step options_string argument_values st acc =
          each_option step options_string argument_values st' acc')"

lemma reads_no_options: "reads_options step options_string argument_values st [] st"
  by (simp add: reads_options_def)

lemma reads_append:
  assumes "reads_options step options_string argument_values st options st'"
    and "reads_options step options_string argument_values st' options' st''"
  shows "reads_options step options_string argument_values st (options @ options') st''"
  unfolding reads_options_def
proof
  fix acc
  show "case option_steps step (options @ options') acc of
      Inl status \<Rightarrow> \<exists>end_state. each_option step options_string argument_values st acc = Some (Inr (end_state, Inl status))
    | Inr acc' \<Rightarrow> each_option step options_string argument_values st acc =
        each_option step options_string argument_values st'' acc'"
    using assms(1) [unfolded reads_options_def, rule_format, of acc]
      assms(2) [unfolded reads_options_def, rule_format, of "projr (option_steps step options acc)"]
    by (auto simp: option_steps_append split: sum.splits)
qed

lemma reads_option:
  assumes "fsfattools_getopt st argument_values options_string = Inr (st', Some c)" and "optarg st' = argument"
  shows "reads_options step options_string argument_values st [(c, argument)] st'"
  unfolding reads_options_def
proof
  fix acc
  show "case option_steps step [(c, argument)] acc of
      Inl status \<Rightarrow> \<exists>end_state. each_option step options_string argument_values st acc = Some (Inr (end_state, Inl status))
    | Inr acc' \<Rightarrow> each_option step options_string argument_values st acc =
        each_option step options_string argument_values st' acc'"
    using assms
    by (cases "step c argument acc") (simp_all add: each_option.simps [of step options_string argument_values st acc])
qed

text \<open>The state in front of some options of the argument at an index, and behind this argument.\<close>

definition in_argument :: "u8 list list \<Rightarrow> nat \<Rightarrow> u8 list \<Rightarrow> getopt_state \<Rightarrow> bool" where
  "in_argument argument_values i string st \<longleftrightarrow>
     optind st = i \<and>
     (next_option st = Some string \<or>
      next_option st = None \<and> i < length argument_values \<and> argument_values ! i = 0x2d # string \<and>
      take 1 string \<noteq> [0x2d])"

definition at_argument :: "nat \<Rightarrow> getopt_state \<Rightarrow> bool" where
  "at_argument i st \<longleftrightarrow> optind st = i \<and> next_option st = None"

lemma in_argument_value:
  assumes "in_argument argument_values i string st"
  shows "option_argument_value st argument_values = (st\<lparr> next_option := None \<rparr>, Some string)"
  using assms by (auto simp: in_argument_def option_argument_value_def)

lemma reads_flag:
  assumes "is_flag options_string c" and "in_argument argument_values i (c # tail) st"
  shows "\<exists>st'. reads_options step options_string argument_values st [(c, None)] st' \<and>
    (if tail = [] then at_argument (Suc i) st' else in_argument argument_values i tail st')"
proof -
  let ?st = "if tail = [] then st\<lparr> next_option := None, optopt := c, optarg := None, optind := Suc i \<rparr>
    else st\<lparr> optopt := c, optarg := None, next_option := Some tail \<rparr>"
  have "fsfattools_getopt st argument_values options_string = Inr (?st, Some c)"
    using assms in_argument_value [OF assms(2)]
    by (auto simp: fsfattools_getopt_def is_flag_def in_argument_def Let_def)
  then have "reads_options step options_string argument_values st [(c, None)] ?st" by (rule reads_option) simp
  moreover have "if tail = [] then at_argument (Suc i) ?st else in_argument argument_values i tail ?st"
    using assms(2) by (simp add: at_argument_def in_argument_def)
  ultimately show ?thesis by blast
qed

lemma reads_flags:
  assumes "\<forall>c \<in> set flags. is_flag options_string c" and "in_argument argument_values i (flags @ tail) st"
    and "flags @ tail \<noteq> []"
  shows "\<exists>st'. reads_options step options_string argument_values st (map (\<lambda>c. (c, None)) flags) st' \<and>
    (if tail = [] then at_argument (Suc i) st' else in_argument argument_values i tail st')"
  using assms
proof (induction flags arbitrary: st)
  case Nil
  then show ?case using reads_no_options by fastforce
next
  case (Cons c flags)
  obtain st1 where st1: "reads_options step options_string argument_values st [(c, None)] st1"
    "if flags @ tail = [] then at_argument (Suc i) st1 else in_argument argument_values i (flags @ tail) st1"
    using reads_flag [of options_string c argument_values i "flags @ tail" st] Cons.prems by auto
  show ?case
  proof (cases "flags @ tail = []")
    case False
    then obtain st2 where "reads_options step options_string argument_values st1 (map (\<lambda>c. (c, None)) flags) st2"
      "if tail = [] then at_argument (Suc i) st2 else in_argument argument_values i tail st2"
      using Cons.IH [of st1] Cons.prems(1) st1(2) by auto
    then show ?thesis using reads_append [OF st1(1)] by (intro exI [of _ st2]) auto
  qed (use st1 in auto)
qed

lemma reads_attached:
  assumes "takes_argument options_string c" and "in_argument argument_values i (c # argument) st" "argument \<noteq> []"
  shows "\<exists>st'. reads_options step options_string argument_values st [(c, Some argument)] st' \<and> at_argument (Suc i) st'"
proof -
  let ?st = "st\<lparr> next_option := None, optopt := c, optarg := Some argument, optind := Suc i \<rparr>"
  have "fsfattools_getopt st argument_values options_string = Inr (?st, Some c)"
    using assms in_argument_value [OF assms(2)]
    by (auto simp: fsfattools_getopt_def takes_argument_def in_argument_def Let_def)
  then have "reads_options step options_string argument_values st [(c, Some argument)] ?st"
    by (rule reads_option) simp
  then show ?thesis by (auto simp: at_argument_def)
qed

lemma reads_separate:
  assumes "takes_argument options_string c" and "in_argument argument_values i [c] st"
    and "Suc i < length argument_values" "argument_values ! Suc i = argument"
  shows "\<exists>st'. reads_options step options_string argument_values st [(c, Some argument)] st' \<and>
    at_argument (Suc (Suc i)) st'"
proof -
  let ?st = "st\<lparr> next_option := None, optopt := c, optarg := Some argument, optind := Suc (Suc i) \<rparr>"
  have "fsfattools_getopt st argument_values options_string = Inr (?st, Some c)"
    using assms in_argument_value [OF assms(2)]
    by (auto simp: fsfattools_getopt_def takes_argument_def in_argument_def Let_def)
  then have "reads_options step options_string argument_values st [(c, Some argument)] ?st"
    by (rule reads_option) simp
  then show ?thesis by (auto simp: at_argument_def)
qed

lemma reads_word:
  assumes "option_word_wf options_string word" and "at_argument (length before) st"
  shows "\<exists>st'. reads_options step options_string (before @ word_arguments word @ behind) st (word_options word) st' \<and>
    at_argument (length (before @ word_arguments word)) st'"
proof (cases word)
  case (Flags flags)
  let ?argv = "before @ word_arguments word @ behind"
  have "in_argument ?argv (length before) (flags @ []) st"
    using assms Flags by (cases flags) (auto simp: in_argument_def at_argument_def is_flag_def)
  then show ?thesis
    using reads_flags [of flags options_string ?argv "length before" "[]" st] assms(1) Flags by auto
next
  case (Attached flags c argument)
  let ?argv = "before @ word_arguments word @ behind"
  have "in_argument ?argv (length before) (flags @ c # argument) st"
    using assms Attached by (cases flags) (auto simp: in_argument_def at_argument_def is_flag_def takes_argument_def)
  then obtain st1 where st1: "reads_options step options_string ?argv st (map (\<lambda>c. (c, None)) flags) st1"
    "in_argument ?argv (length before) (c # argument) st1"
    using reads_flags [of flags options_string ?argv "length before" "c # argument" st] assms(1) Attached by auto
  then show ?thesis
    using reads_attached [OF _ st1(2)] reads_append [OF st1(1)] assms(1) Attached by fastforce
next
  case (Separate flags c argument)
  let ?argv = "before @ word_arguments word @ behind"
  have "in_argument ?argv (length before) (flags @ [c]) st"
    using assms Separate by (cases flags) (auto simp: in_argument_def at_argument_def is_flag_def takes_argument_def)
  then obtain st1 where st1: "reads_options step options_string ?argv st (map (\<lambda>c. (c, None)) flags) st1"
    "in_argument ?argv (length before) [c] st1"
    using reads_flags [of flags options_string ?argv "length before" "[c]" st] assms(1) Separate by auto
  have "Suc (length before) < length ?argv" "?argv ! Suc (length before) = argument"
    using Separate by (simp_all add: nth_append)
  then obtain st2 where "reads_options step options_string ?argv st1 [(c, Some argument)] st2"
    "at_argument (Suc (Suc (length before))) st2"
    using reads_separate [OF _ st1(2), of options_string argument step] assms(1) Separate by auto
  then show ?thesis using reads_append [OF st1(1)] Separate by (intro exI [of _ st2]) simp
qed

lemma reads_words:
  assumes "\<forall>word \<in> set ws. option_word_wf options_string word" and "at_argument (length before) st"
  shows "\<exists>st'. reads_options step options_string (before @ concat (map word_arguments ws) @ operands) st
      (concat (map word_options ws)) st' \<and> at_argument (length (before @ concat (map word_arguments ws))) st'"
  using assms
proof (induction ws arbitrary: before st)
  case (Cons word ws)
  obtain st1 where st1: "reads_options step options_string
      (before @ word_arguments word @ concat (map word_arguments ws) @ operands) st (word_options word) st1"
    "at_argument (length (before @ word_arguments word)) st1"
    using reads_word [of options_string word before st] Cons.prems by fastforce
  then show ?case
    using Cons.IH [of "before @ word_arguments word" st1] Cons.prems(1) reads_append [OF st1(1)] by fastforce
qed (use reads_no_options in fastforce)

lemma options_read:
  fixes step :: "u8 \<Rightarrow> u8 list option \<Rightarrow> 'a \<Rightarrow> 'exit + 'a"
  assumes "\<forall>word \<in> set ws. option_word_wf options_string word"
    and "\<And>operand rest. operands = operand # rest \<Longrightarrow> take 1 operand \<noteq> [0x2d]"
  obtains st where "reads_options step options_string (program # concat (map word_arguments ws) @ operands)
      getopt_start (concat (map word_options ws)) st"
    and "optind st = Suc (length (concat (map word_arguments ws)))"
    and "\<forall>acc. each_option step options_string (program # concat (map word_arguments ws) @ operands) st acc =
      Some (Inr (st, Inr acc))"
proof -
  let ?argv = "program # concat (map word_arguments ws) @ operands"
  obtain st where st: "reads_options step options_string ?argv getopt_start (concat (map word_options ws)) st"
    "at_argument (Suc (length (concat (map word_arguments ws)))) st"
    using reads_words [OF assms(1), of "[program]" getopt_start step operands]
    by (auto simp: at_argument_def getopt_start_def)
  have "operands = [] \<or> take 1 (operands ! 0) \<noteq> [0x2d]" using assms(2) by (cases operands) auto
  then have "each_option step options_string ?argv st acc = Some (Inr (st, Inr acc))" for acc
    using st(2)
    by (subst each_option.simps)
      (cases operands; cases "operands ! 0";
        auto simp: fsfattools_getopt_def option_argument_value_def at_argument_def nth_append)
  then show ?thesis using that st by (simp add: at_argument_def)
qed

text \<open>
  C32. What is given as options is read as options. For any words of options in front of the
  operands, grouped, and with their arguments in the same word or in the next one, the loop over
  the options takes the steps for these options in their order, up to the first that ends the
  program, and then the index is that of the first operand.
\<close>
theorem getopt_reads_options:
  assumes "\<forall>word \<in> set ws. option_word_wf options_string word"
    and "\<And>operand rest. operands = operand # rest \<Longrightarrow> take 1 operand \<noteq> [0x2d]"
  shows "\<exists>st. each_option step options_string (program # concat (map word_arguments ws) @ operands) getopt_start acc =
      Some (Inr (st, option_steps step (concat (map word_options ws)) acc)) \<and>
    (\<forall>acc'. option_steps step (concat (map word_options ws)) acc = Inr acc' \<longrightarrow>
       optind st = Suc (length (concat (map word_arguments ws))))"
proof -
  obtain st where reads: "reads_options step options_string (program # concat (map word_arguments ws) @ operands)
      getopt_start (concat (map word_options ws)) st"
    and st: "optind st = Suc (length (concat (map word_arguments ws)))"
      "\<forall>acc. each_option step options_string (program # concat (map word_arguments ws) @ operands) st acc =
        Some (Inr (st, Inr acc))"
    by (rule options_read [where step = step and options_string = options_string and program = program, OF assms])
  show ?thesis
    using reads [unfolded reads_options_def, rule_format, of acc] st
    by (cases "option_steps step (concat (map word_options ws)) acc") auto
qed

section \<open>Concrete arguments\<close>

text \<open>A switch that collects the options; the options string is ab:.\<close>

definition collect_option ::
  "u8 \<Rightarrow> u8 list option \<Rightarrow> (u8 \<times> u8 list option) list \<Rightarrow> u8 + (u8 \<times> u8 list option) list" where
  "collect_option c argument options =
     (if c = 0x3f \<or> c = 0x3a then Inl c else Inr (options @ [(c, argument)]))"

lemma getopt_loop_safe_witness:
  "\<exists>r. each_option collect_option [0x61, 0x62, 0x3a] [[0x70], [0x2d, 0x61, 0x62]] getopt_start [] = Some r \<and>
    (case r of
       Inl e \<Rightarrow> False
     | Inr (st, outcome) \<Rightarrow> 0 < optind st \<and> optind st \<le> 2)"
proof -
  have "\<exists>status. collect_option 0x3f argument acc = Inl status" "\<exists>status. collect_option 0x3a argument acc = Inl status"
    for argument acc
    by (simp_all add: collect_option_def)
  from getopt_loop_safe [of collect_option, OF this, of "[0x61, 0x62, 0x3a]" "[0x70]" "[[0x2d, 0x61, 0x62]]" "[]"]
  show ?thesis by (auto split: sum.splits)
qed

lemma getopt_reads_options_witness:
  "\<exists>st. each_option collect_option [0x61, 0x62, 0x3a]
      [[0x70], [0x2d, 0x61, 0x61], [0x2d, 0x61, 0x62], [0x78], [0x2d, 0x62, 0x79], [0x66]] getopt_start [] =
    Some (Inr (st, Inr [(0x61, None), (0x61, None), (0x61, None), (0x62, Some [0x78]), (0x62, Some [0x79])])) \<and>
    optind st = 5"
proof -
  define ws where "ws = [Flags [0x61, 0x61], Separate [0x61] 0x62 [0x78], Attached [] 0x62 [0x79]]"
  have "\<forall>word \<in> set ws. option_word_wf [0x61, 0x62, 0x3a] word"
    by (simp add: ws_def is_flag_def takes_argument_def option_value_def)
  from getopt_reads_options [OF this, of "[[0x66]]" collect_option "[0x70]" "[]"]
  show ?thesis by (auto simp: ws_def collect_option_def)
qed

end
