(* ===== verification/Tool_Output.thy ===== *)
theory Tool_Output
  imports Info_Print
begin

text \<open>
  What the main programs of the tools share: what they rely on, and the texts of
  \<^verbatim>\<open>fsfattools/fsfattools_output.c\<close> for the user, without translations.
\<close>

section \<open>The system and the build\<close>

text \<open>
  What the program relies on: whether the locale and the buffers of the streams can be set, the
  version and the address for reports, and the success of opening and closing a file to write.
\<close>

record tool_environment =
  te_locale_initialize :: bool
  te_setvbuf :: bool
  te_version :: "u8 list"
  te_bugreport :: "u8 list"
  te_file_stream_open :: "u8 list \<Rightarrow> bool"
  te_file_stream_close :: bool

definition EXIT_SUCCESS :: int where "EXIT_SUCCESS = 0"
definition EXIT_FAILURE :: int where "EXIT_FAILURE = 1"

text \<open>The modes of a stream in the C library: fully buffered, by lines, and not buffered.\<close>

definition IO_FULLY_BUFFERED :: int where "IO_FULLY_BUFFERED = 0"
definition IO_LINE_BUFFERED :: int where "IO_LINE_BUFFERED = 1"
definition IO_UNBUFFERED :: int where "IO_UNBUFFERED = 2"

definition fsfattools_output_initialize :: "tool_environment \<Rightarrow> int \<Rightarrow> unit result" where
  "fsfattools_output_initialize E stdio_mode =
     (if stdio_mode \<notin> {IO_FULLY_BUFFERED, IO_LINE_BUFFERED, IO_UNBUFFERED} then Inl ARGUMENT_UNSUPPORTED_VALUE
      else if \<not> te_setvbuf E then Inl RUNTIME_SET_FAILED
      else Inr ())"

lemma output_initialized [simp]: "(fsfattools_output_initialize E IO_UNBUFFERED = Inr ()) = te_setvbuf E"
  by (simp add: fsfattools_output_initialize_def)

text \<open>Lines with some tabs in front of them.\<close>

definition text_lines :: "(nat \<times> string) list \<Rightarrow> u8 list" where
  "text_lines lines = concat (map (\<lambda>(tabs, line). replicate tabs 0x09 @ ascii line @ [0x0a]) lines)"

definition fsfattools_output_version_fprint :: "tool_environment \<Rightarrow> u8 list \<Rightarrow> u8 list" where
  "fsfattools_output_version_fprint E program = program @ [0x20] @ te_version E @ [0x0a, 0x0a]"

definition fsfattools_output_copyright_fprint :: "tool_environment \<Rightarrow> u8 list" where
  "fsfattools_output_copyright_fprint E =
     text_lines
      [(0, ''Copyright (C) 2021-2025, Joachim Metz.''),
       (0, ''This is free software; see the source for copying conditions. There is NO''),
       (0, ''warranty; not even for MERCHANTABILITY or FITNESS FOR A PARTICULAR PURPOSE.'')] @
     ascii ''Report bugs to <'' @ te_bugreport E @ ascii ''>.'' @ [0x0a]"

end
