(* ===== verification/Mount_Main.thy ===== *)
theory Mount_Main
  imports Mount_Handle Getopt Tool_Output
begin

text \<open>
  The main program of the tool fsfatmount, \<^verbatim>\<open>fsfattools/fsfatmount.c\<close>, in the variant for version 3 of
  libfuse. The messages on the error stream are not modelled. The names of the options are those of
  the program, with the prefix of the tool where fsfatinfo has the same.
\<close>

section \<open>The options\<close>

record mount_options =
  mount_option_extended_options :: "u8 list option"
  mount_option_offset :: "u8 list option"
  mount_option_verbose :: int

definition default_mount_options :: mount_options where
  "default_mount_options =
     \<lparr> mount_option_extended_options = None, mount_option_offset = None, mount_option_verbose = 0 \<rparr>"

definition mount_usage_fprint :: "u8 list" where
  "mount_usage_fprint = text_lines
     [(0, ''Use fsfatmount to mount a File Allocation Table (FAT) file system volume''), (0, ''''),
      (0, ''Usage: fsfatmount [ -o offset ] [ -X extended_options ] [ -hvV ] volume''),
      (0, ''                  mount_point''), (0, ''''),
      (1, ''volume:      a File Allocation Table (FAT) file system volume''), (0, ''''),
      (1, ''mount_point: the directory to serve as mount point''), (0, ''''),
      (1, ''-h:          shows this help''),
      (1, ''-o:          specify the volume offset in bytes''),
      (1, ''-v:          verbose output to stderr, while fsfatmount will remain running in the''),
      (1, ''             foreground''),
      (1, ''-V:          print version''),
      (1, ''-X:          extended options to pass to sub system'')]"

definition mount_options_string :: "u8 list" where
  "mount_options_string = ascii ''ho:vVX:''"

definition mount_option ::
  "tool_environment \<Rightarrow> u8 \<Rightarrow> u8 list option \<Rightarrow> mount_options \<Rightarrow> (u8 list \<times> int) + mount_options" where
  "mount_option E c argument options =
     (if c = 0x68 then Inl (mount_usage_fprint, EXIT_SUCCESS)
      else if c = 0x6f then Inr (options\<lparr> mount_option_offset := argument \<rparr>)
      else if c = 0x76 then Inr (options\<lparr> mount_option_verbose := 1 \<rparr>)
      else if c = 0x56 then Inl (fsfattools_output_copyright_fprint E, EXIT_SUCCESS)
      else if c = 0x58 then Inr (options\<lparr> mount_option_extended_options := argument \<rparr>)
      else Inl (mount_usage_fprint, EXIT_FAILURE))"

section \<open>Serving a volume\<close>

text \<open>
  What libfuse provides: adding an argument, creating a handle for the arguments and the mount
  handle, mounting at a path, going into the background, and the loop that serves the mount
  handle. The loop may not end; otherwise it tells whether it succeeds.
\<close>

record 'handle fuse_library =
  fuse_opt_add_arg :: "u8 list list \<Rightarrow> u8 list \<Rightarrow> u8 list list option"
  fuse_new :: "u8 list list \<Rightarrow> 'handle \<Rightarrow> bool"
  fuse_mount :: "u8 list \<Rightarrow> bool"
  fuse_daemonize :: bool
  fuse_loop :: "'handle \<Rightarrow> bool option"

text \<open>The arguments of libfuse are the name of the program, or the extended options.\<close>

definition fuse_arguments :: "'handle fuse_library \<Rightarrow> u8 list option \<Rightarrow> u8 list list option" where
  "fuse_arguments F option_extended_options =
     (case option_extended_options of
        None \<Rightarrow> Some [ascii ''fsfatmount'']
      | Some extended_options \<Rightarrow>
     (case fuse_opt_add_arg F [] [] of
        None \<Rightarrow> None
      | Some arguments \<Rightarrow>
     (case fuse_opt_add_arg F arguments (ascii ''-o'') of
        None \<Rightarrow> None
      | Some arguments \<Rightarrow> fuse_opt_add_arg F arguments extended_options)))"

text \<open>What the program leaves: its output, the handle that was served, and the exit status.\<close>

record 'handle mount_result =
  mr_output :: "u8 list"
  mr_session :: "'handle option"
  mr_status :: int

definition mount_failure :: "'handle mount_result" where
  "mount_failure = \<lparr> mr_output = [], mr_session = None, mr_status = EXIT_FAILURE \<rparr>"

definition serve_handle ::
  "'handle fuse_library \<Rightarrow> mount_options \<Rightarrow> u8 list \<Rightarrow> 'handle \<Rightarrow> 'handle mount_result option" where
  "serve_handle F options mount_point mh =
     (case fuse_arguments F (mount_option_extended_options options) of
        None \<Rightarrow> Some mount_failure
      | Some arguments \<Rightarrow>
          if \<not> fuse_new F arguments mh then Some mount_failure
          else if \<not> fuse_mount F mount_point then Some mount_failure
          else if mount_option_verbose options = 0 \<and> \<not> fuse_daemonize F then Some mount_failure
          else
            (case fuse_loop F mh of
               None \<Rightarrow> None
             | Some ok \<Rightarrow>
                 Some \<lparr> mr_output = [], mr_session = Some mh,
                        mr_status = (if ok then EXIT_SUCCESS else EXIT_FAILURE) \<rparr>))"

definition mount_source ::
  "('h, 'arr, 'cache) mount_handle fuse_library \<Rightarrow> (nat \<Rightarrow> u8) \<Rightarrow> ('cache, 'value, 'arr directory) cache_ops \<Rightarrow>
   ('arr, nat) array_ops \<Rightarrow> ('tarr, node_entry) array_ops \<Rightarrow> 'h bfio_ops \<Rightarrow> 'h range_ops \<Rightarrow>
   (u64 \<times> u64) option \<Rightarrow> mount_options \<Rightarrow> u8 list \<Rightarrow> u8 list \<Rightarrow>
   ('h, 'arr, 'cache) mount_handle mount_result option" where
  "mount_source F junk C A T B R time_structure options source mount_point =
     (case mount_handle_initialize time_structure None of
        Inl e \<Rightarrow> Some mount_failure
      | Inr mh \<Rightarrow>
     (case (if mount_option_offset options = None then Inr mh
            else mount_handle_set_offset (Some mh) (mount_option_offset options)) of
        Inl e \<Rightarrow> Some mount_failure
      | Inr mh \<Rightarrow>
     (case mount_handle_open junk C A T B R (Some mh) (Some source) of
        None \<Rightarrow> None
      | Some (Inl e) \<Rightarrow> Some mount_failure
      | Some (Inr mh) \<Rightarrow> serve_handle F options mount_point mh)))"

section \<open>The main program\<close>

text \<open>The operands are the source and the mount point.\<close>

definition fsfatmount_main ::
  "tool_environment \<Rightarrow> ('h, 'arr, 'cache) mount_handle fuse_library \<Rightarrow> (nat \<Rightarrow> u8) \<Rightarrow>
   ('cache, 'value, 'arr directory) cache_ops \<Rightarrow> ('arr, nat) array_ops \<Rightarrow> ('tarr, node_entry) array_ops \<Rightarrow>
   'h bfio_ops \<Rightarrow> 'h range_ops \<Rightarrow> (u64 \<times> u64) option \<Rightarrow> u8 list list \<Rightarrow>
   ('h, 'arr, 'cache) mount_handle mount_result result option" where
  "fsfatmount_main E F junk C A T B R time_structure argv =
     (if \<not> te_locale_initialize E \<or> fsfattools_output_initialize E IO_UNBUFFERED \<noteq> Inr ()
      then Some (Inr mount_failure)
      else
        let version = fsfattools_output_version_fprint E (ascii ''fsfatmount'');
            usage = \<lparr> mr_output = version @ mount_usage_fprint, mr_session = None, mr_status = EXIT_FAILURE \<rparr>
        in (case each_option (mount_option E) mount_options_string argv getopt_start default_mount_options of
              None \<Rightarrow> None
            | Some (Inl e) \<Rightarrow> Some (Inl e)
            | Some (Inr (st, Inl (output, status))) \<Rightarrow>
                Some (Inr \<lparr> mr_output = version @ output, mr_session = None, mr_status = status \<rparr>)
            | Some (Inr (st, Inr options)) \<Rightarrow>
                if optind st = length argv then Some (Inr usage)
                else if optind st > length argv then Some (Inl MEMORY_FAULT)
                else if optind st + 1 = length argv then Some (Inr usage)
                else
                  map_option (\<lambda>r. Inr (r\<lparr> mr_output := version @ mr_output r \<rparr>))
                    (mount_source F junk C A T B R time_structure options (argv ! optind st)
                      (argv ! (optind st + 1)))))"

text \<open>The handler of signals: the value of \<^verbatim>\<open>fsfatmount_abort\<close> and the handle. An error is only reported.\<close>

definition fsfatmount_signal_handler ::
  "('h, 'arr, 'cache) mount_handle option \<Rightarrow> int \<times> ('h, 'arr, 'cache) mount_handle option" where
  "fsfatmount_signal_handler mount_handle =
     (1, case mount_handle of
           None \<Rightarrow> None
         | Some mh \<Rightarrow>
             (case mount_handle_signal_abort (Some mh) of
                Inl e \<Rightarrow> Some mh
              | Inr mh \<Rightarrow> Some mh))"

section \<open>What is served\<close>

lemma mount_option_exits:
  "\<exists>status. mount_option E 0x3f argument options = Inl status"
  "\<exists>status. mount_option E 0x3a argument options = Inl status"
  by (simp_all add: mount_option_def)

text \<open>A handle that can be served: it is well-formed, and its volume is open.\<close>

definition served_handle :: "('arr \<Rightarrow> nat option list) \<Rightarrow> ('h, 'arr, 'cache) mount_handle \<Rightarrow> bool" where
  "served_handle view mh \<longleftrightarrow>
     mount_handle_wf view mh \<and> (\<exists>mfs v. mh_file_system mh = Some mfs \<and> mfs_fsfat_volume mfs = Some v \<and> volume_open view v)"

lemma new_mount_handle_wf:
  assumes "mount_handle_initialize time_structure None = Inr mh"
  shows "mount_handle_wf view mh"
  using assms
  by (cases time_structure)
    (auto simp: mount_handle_initialize_def mount_file_system_initialize_def mount_handle_wf_def)

lemma mount_open_returns:
  fixes C :: "('cache, 'value, 'arr directory) cache_ops" and mh :: "('h, 'arr, 'cache) mount_handle"
  assumes "array_contract A view" and "array_contract T tview" and "bounded_sizes B"
  shows "\<exists>r. mount_handle_open junk C A T B R (Some mh) (Some filename) = Some r"
proof -
  obtain v :: "('h, 'arr, 'cache) volume" where v: "libfsfat_volume_initialize None = Inr v"
    by (auto simp: libfsfat_volume_initialize_def libfsfat_io_handle_initialize_def)
  have opened: "libfsfat_volume_open_file_io_handle junk C A T B (Some v) (Some h) ACCESS_FLAG_READ \<noteq> None" for h
    by (rule open_file_io_handle_ends [OF assms(1,2) new_volume_closed [OF v] assms(3), where C = C and junk = junk and
          file_io_handle = "Some h" and access_flags = ACCESS_FLAG_READ]) simp_all
  have "mount_handle_open junk C A T B R (Some mh) (Some filename) \<noteq> None"
    using v opened by (auto simp: mount_handle_open_def simp del: not_None_eq split: option.split sum.split)
  then show ?thesis by blast
qed

lemma mount_source_serves:
  fixes C :: "('cache, 'value, 'arr directory) cache_ops" and F :: "('h, 'arr, 'cache) mount_handle fuse_library"
  assumes "array_contract A view" and "array_contract T tview" and "bounded_sizes B"
  shows "case mount_source F junk C A T B R time_structure options source mount_point of
      None \<Rightarrow> \<exists>mh. served_handle view mh \<and> fuse_loop F mh = None
    | Some r \<Rightarrow>
        (case mr_session r of
           None \<Rightarrow> mr_status r = EXIT_FAILURE
         | Some mh \<Rightarrow> served_handle view mh)"
proof (cases "mount_handle_initialize time_structure (None :: ('h, 'arr, 'cache) mount_handle option)")
  case init: (Inr mh0)
  let ?set = "if mount_option_offset options = None then Inr mh0
      else mount_handle_set_offset (Some mh0) (mount_option_offset options)"
  show ?thesis
  proof (cases ?set)
    case set: (Inr mh1)
    have wf: "mount_handle_wf view mh1"
      using set new_mount_handle_wf [OF init, of view] option_keeps_wf [of mh0 "mount_option_offset options" mh1 view]
      by (auto split: if_splits)
    obtain r where r: "mount_handle_open junk C A T B R (Some mh1) (Some source) = Some r"
      using mount_open_returns [OF assms] by blast
    show ?thesis
    proof (cases r)
      case (Inr mh)
      have "served_handle view mh"
        using open_keeps_wf [OF assms wf, of junk C R "Some source" mh] r Inr by (auto simp: served_handle_def mount_handle_wf_def)
      then show ?thesis
        using init set r Inr
        by (auto simp: mount_source_def serve_handle_def mount_failure_def split: option.split)
    qed (use init set r in \<open>simp add: mount_source_def mount_failure_def\<close>)
  qed (use init in \<open>simp add: mount_source_def mount_failure_def\<close>)
qed (simp add: mount_source_def mount_failure_def)

text \<open>
  C24. The mount program serves open volumes only. For all arguments and every file it ends, unless
  the loop of libfuse does not, or reads outside of the arguments, which needs a hyphen alone among
  them. The handle that it serves is well-formed and has an open volume, and if it serves none,
  it succeeds only after printing its help or its version.
\<close>
theorem fsfatmount_serves_open_volume:
  fixes C :: "('cache, 'value, 'arr directory) cache_ops" and F :: "('h, 'arr, 'cache) mount_handle fuse_library"
  assumes "array_contract A view" and "array_contract T tview" and "bounded_sizes B"
  shows "case fsfatmount_main E F junk C A T B R time_structure (program # arguments) of
      None \<Rightarrow> \<exists>mh. served_handle view mh \<and> fuse_loop F mh = None
    | Some (Inl e) \<Rightarrow> [0x2d] \<in> set arguments
    | Some (Inr r) \<Rightarrow>
        (case mr_session r of
           None \<Rightarrow> mr_status r = EXIT_SUCCESS \<longrightarrow>
             (\<exists>text \<in> {mount_usage_fprint, fsfattools_output_copyright_fprint E}.
                mr_output r = fsfattools_output_version_fprint E (ascii ''fsfatmount'') @ text)
         | Some mh \<Rightarrow> served_handle view mh)"
proof -
  have status: "EXIT_FAILURE \<noteq> EXIT_SUCCESS" by (simp add: EXIT_FAILURE_def EXIT_SUCCESS_def)
  have "getopt_wf (program # arguments) getopt_start" by (simp add: getopt_wf_def getopt_start_def)
  then obtain r where options: "each_option (mount_option E) mount_options_string (program # arguments) getopt_start
      default_mount_options = Some r"
    and wf: "case r of
       Inl e \<Rightarrow> [0x2d] \<in> set (tl (program # arguments))
     | Inr (st', outcome) \<Rightarrow> getopt_wf (program # arguments) st'"
    using each_option_returns [of "mount_option E", OF mount_option_exits] by blast
  show ?thesis
  proof (cases r)
    case (Inl e)
    then show ?thesis using options wf by (simp add: fsfatmount_main_def mount_failure_def status Let_def)
  next
    case (Inr p)
    obtain st outcome where p: "p = (st, outcome)" by (cases p)
    show ?thesis
    proof (cases outcome)
      case (Inl a)
      obtain c argument opts where "mount_option E c argument opts = Inl a"
        using each_option_exit [OF options, of st a] \<open>r = Inr p\<close> p Inl by auto
      then have "snd a = EXIT_SUCCESS \<Longrightarrow> fst a \<in> {mount_usage_fprint, fsfattools_output_copyright_fprint E}"
        using status by (auto simp: mount_option_def split: if_splits)
      then show ?thesis
        using options \<open>r = Inr p\<close> p Inl
        by (cases a) (auto simp: fsfatmount_main_def mount_failure_def status Let_def)
    next
      case (Inr opts)
      have "optind st \<le> length (program # arguments)" using wf \<open>r = Inr p\<close> p by (simp add: getopt_wf_def)
      then show ?thesis
        using options \<open>r = Inr p\<close> p Inr status
          mount_source_serves [OF assms, of F junk C R time_structure opts "(program # arguments) ! optind st"
            "(program # arguments) ! (optind st + 1)"]
        by (auto simp: fsfatmount_main_def mount_failure_def Let_def split: option.splits)
    qed
  qed
qed

end
