(* ===== verification/Info_Main.thy ===== *)
theory Info_Main
  imports Info_Walk Getopt Tool_Output
begin

text \<open>
  The main program of the tool fsfatinfo, \<^verbatim>\<open>fsfattools/fsfatinfo.c\<close>. The messages on the error stream
  are not modelled.
\<close>

section \<open>The options\<close>

datatype info_mode =
  FSFATINFO_MODE_FILE_ENTRY_BY_IDENTIFIER
| FSFATINFO_MODE_FILE_ENTRY_BY_PATH
| FSFATINFO_MODE_FILE_SYSTEM_HIERARCHY
| FSFATINFO_MODE_VOLUME

record info_options =
  option_bodyfile :: "u8 list option"
  option_file_entry_identifier :: "u8 list option"
  option_file_entry_path :: "u8 list option"
  option_volume_offset :: "u8 list option"
  option_calculate_md5 :: u8
  option_mode :: info_mode
  option_verbose :: int

definition default_options :: info_options where
  "default_options =
     \<lparr> option_bodyfile = None, option_file_entry_identifier = None, option_file_entry_path = None,
       option_volume_offset = None, option_calculate_md5 = 0, option_mode = FSFATINFO_MODE_VOLUME,
       option_verbose = 0 \<rparr>"

definition usage_fprint :: "u8 list" where
  "usage_fprint = text_lines
     [(0, ''Use fsfatinfo to determine information about a File Allocation Table (FAT)''),
      (0, ''file system volume.''), (0, ''''),
      (0, ''Usage: fsfatinfo [ -B bodyfile ] [ -E identifier ] [ -F file_entry ]''),
      (0, ''                 [ -o offset ] [ -dhHvV ] source''), (0, ''''),
      (1, ''source: the source file or device''), (0, ''''),
      (1, ''-B:     output file system information as a bodyfile''),
      (1, ''-d:     calculate a MD5 hash of a file entry to include in the''),
      (1, ''        bodyfile''),
      (1, ''-E:     show information about a specific identifier.''),
      (1, ''-F:     show information about a specific file entry path.''),
      (1, ''-h:     shows this help''),
      (1, ''-H:     shows the file system hierarchy''),
      (1, ''-o:     specify the volume offset''),
      (1, ''-v:     verbose output to stderr''),
      (1, ''-V:     print version'')]"

definition info_options_string :: "u8 list" where
  "info_options_string = ascii ''B:dE:F:hHo:vV''"

text \<open>The switch over an option. An exit has what is printed before it, and the status.\<close>

definition info_option ::
  "tool_environment \<Rightarrow> u8 \<Rightarrow> u8 list option \<Rightarrow> info_options \<Rightarrow> (u8 list \<times> int) + info_options" where
  "info_option E c argument options =
     (if c = 0x42 then Inr (options\<lparr> option_bodyfile := argument \<rparr>)
      else if c = 0x64 then Inr (options\<lparr> option_calculate_md5 := 1 \<rparr>)
      else if c = 0x45
      then Inr (options\<lparr> option_mode := FSFATINFO_MODE_FILE_ENTRY_BY_IDENTIFIER,
                   option_file_entry_identifier := argument \<rparr>)
      else if c = 0x46
      then Inr (options\<lparr> option_mode := FSFATINFO_MODE_FILE_ENTRY_BY_PATH, option_file_entry_path := argument \<rparr>)
      else if c = 0x68 then Inl (usage_fprint, EXIT_SUCCESS)
      else if c = 0x48 then Inr (options\<lparr> option_mode := FSFATINFO_MODE_FILE_SYSTEM_HIERARCHY \<rparr>)
      else if c = 0x6f then Inr (options\<lparr> option_volume_offset := argument \<rparr>)
      else if c = 0x76 then Inr (options\<lparr> option_verbose := 1 \<rparr>)
      else if c = 0x56 then Inl (fsfattools_output_copyright_fprint E, EXIT_SUCCESS)
      else Inl (usage_fprint, EXIT_FAILURE))"

section \<open>Printing the source\<close>

text \<open>What the program leaves: its output, the bodyfile if it was opened, and the exit status.\<close>

record program_result =
  pr_output :: "u8 list"
  pr_bodyfile :: "u8 list option"
  pr_status :: int

definition program_end :: "('h, 'arr, 'cache) info_handle option \<Rightarrow> int \<Rightarrow> program_result" where
  "program_end info_handle status =
     (case info_handle of
        None \<Rightarrow> \<lparr> pr_output = [], pr_bodyfile = None, pr_status = status \<rparr>
      | Some ih \<Rightarrow> \<lparr> pr_output = ih_notify_stream ih, pr_bodyfile = ih_bodyfile_stream ih, pr_status = status \<rparr>)"

text \<open>The number of the option -E, if it is one of 32 bits.\<close>

definition identifier_argument :: "u8 list option \<Rightarrow> u64 option" where
  "identifier_argument argument =
     (case argument of
        None \<Rightarrow> None
      | Some string \<Rightarrow>
          (case info_handle_system_string_copy_from_64_bit_in_decimal (Some (string @ [0])) (length string + 1) of
             Inl e \<Rightarrow> None
           | Inr file_entry_identifier \<Rightarrow>
               if file_entry_identifier > 0xffffffff then None else Some file_entry_identifier))"

definition print_mode ::
  "una_ops \<Rightarrow> (u32 \<Rightarrow> nat \<Rightarrow> nat \<Rightarrow> u8 list option) \<Rightarrow> ('cache, 'value, 'arr directory) cache_ops \<Rightarrow>
   ('arr, nat) array_ops \<Rightarrow> ('tarr, node_entry) array_ops \<Rightarrow> ('xarr, extent) array_ops \<Rightarrow> 's stream_ops \<Rightarrow>
   'm md5_ops \<Rightarrow> (u64 \<Rightarrow> u8 list option) \<Rightarrow> 'h bfio_ops \<Rightarrow> info_options \<Rightarrow>
   ('h, 'arr, 'cache) info_handle option \<Rightarrow> (('h, 'arr, 'cache) info_handle option \<times> bool) option" where
  "print_mode U put C A T X S M posix_time B options info_handle =
     (case option_mode options of
        FSFATINFO_MODE_FILE_ENTRY_BY_IDENTIFIER \<Rightarrow>
          (case identifier_argument (option_file_entry_identifier options) of
             None \<Rightarrow> Some (info_handle, False)
           | Some file_entry_identifier \<Rightarrow>
               (case info_handle_file_entry_fprint_by_identifier U put A T X S M posix_time B info_handle
                       file_entry_identifier of
                  None \<Rightarrow> None
                | Some (info_handle, Inl e) \<Rightarrow> Some (info_handle, False)
                | Some (info_handle, Inr found) \<Rightarrow> Some (info_handle, found)))
      | FSFATINFO_MODE_FILE_ENTRY_BY_PATH \<Rightarrow>
          (case info_handle_file_entry_fprint_by_path U put C A T X S M posix_time B info_handle
                  (option_file_entry_path options) of
             None \<Rightarrow> None
           | Some (info_handle, r) \<Rightarrow> Some (info_handle, r = Inr ()))
      | FSFATINFO_MODE_FILE_SYSTEM_HIERARCHY \<Rightarrow>
          (case info_handle_file_system_hierarchy_fprint U put A T X S M posix_time B info_handle of
             None \<Rightarrow> None
           | Some (info_handle, r) \<Rightarrow> Some (info_handle, r = Inr ()))
      | FSFATINFO_MODE_VOLUME \<Rightarrow>
          (case info_handle_volume_fprint U A info_handle of
             (info_handle, r) \<Rightarrow> Some (info_handle, r = Inr ())))"

text \<open>The handle with the options; an offset that is not a number is reported and left 0.\<close>

definition configured_handle ::
  "tool_environment \<Rightarrow> info_options \<Rightarrow> ('h, 'arr, 'cache) info_handle \<Rightarrow>
   ('h, 'arr, 'cache) info_handle result" where
  "configured_handle E options ih =
     (case (if option_bodyfile options = None then Inr ih
            else info_handle_set_bodyfile (te_file_stream_open E) (Some ih) (option_bodyfile options)) of
        Inl e \<Rightarrow> Inl e
      | Inr ih \<Rightarrow>
          Inr (if option_volume_offset options = None then ih
               else
                 (case info_handle_set_volume_offset (Some ih) (option_volume_offset options) of
                    Inl e \<Rightarrow> ih
                  | Inr ih \<Rightarrow> ih)))"

definition print_source ::
  "tool_environment \<Rightarrow> (nat \<Rightarrow> u8) \<Rightarrow> una_ops \<Rightarrow> (u32 \<Rightarrow> nat \<Rightarrow> nat \<Rightarrow> u8 list option) \<Rightarrow>
   ('cache, 'value, 'arr directory) cache_ops \<Rightarrow> ('arr, nat) array_ops \<Rightarrow> ('tarr, node_entry) array_ops \<Rightarrow>
   ('xarr, extent) array_ops \<Rightarrow> 's stream_ops \<Rightarrow> 'm md5_ops \<Rightarrow> (u64 \<Rightarrow> u8 list option) \<Rightarrow> 'h bfio_ops \<Rightarrow>
   'h range_ops \<Rightarrow> info_options \<Rightarrow> u8 list \<Rightarrow> program_result option" where
  "print_source E junk U put C A T X S M posix_time B R options source =
     (case info_handle_initialize R (None :: ('h, 'arr, 'cache) info_handle option) (option_calculate_md5 options) of
        Inl e \<Rightarrow> Some \<lparr> pr_output = [], pr_bodyfile = None, pr_status = EXIT_FAILURE \<rparr>
      | Inr ih \<Rightarrow>
     (case configured_handle E options ih of
        Inl e \<Rightarrow> Some (program_end (Some ih) EXIT_FAILURE)
      | Inr ih \<Rightarrow>
     (case info_handle_open_input junk C A T B R (Some ih) (Some source) of
        None \<Rightarrow> None
      | Some (info_handle, Inl e) \<Rightarrow> Some (program_end info_handle EXIT_FAILURE)
      | Some (info_handle, Inr _) \<Rightarrow>
     (case print_mode U put C A T X S M posix_time B options info_handle of
        None \<Rightarrow> None
      | Some (info_handle, False) \<Rightarrow> Some (program_end info_handle EXIT_FAILURE)
      | Some (info_handle, True) \<Rightarrow>
          (case info_handle_close_input B info_handle of
             (info_handle, Inl e) \<Rightarrow> Some (program_end info_handle EXIT_FAILURE)
           | (info_handle, Inr _) \<Rightarrow>
               Some (program_end info_handle
                 (case info_handle_free B (te_file_stream_close E) info_handle of
                    Inl e \<Rightarrow> EXIT_FAILURE
                  | Inr _ \<Rightarrow> EXIT_SUCCESS)))))))"

section \<open>The main program\<close>

text \<open>The text that every run prints first is added to what is printed behind it.\<close>

definition prepend_output :: "u8 list \<Rightarrow> program_result \<Rightarrow> program_result" where
  "prepend_output output pr = pr\<lparr> pr_output := output @ pr_output pr \<rparr>"

definition fsfatinfo_main ::
  "tool_environment \<Rightarrow> (nat \<Rightarrow> u8) \<Rightarrow> una_ops \<Rightarrow> (u32 \<Rightarrow> nat \<Rightarrow> nat \<Rightarrow> u8 list option) \<Rightarrow>
   ('cache, 'value, 'arr directory) cache_ops \<Rightarrow> ('arr, nat) array_ops \<Rightarrow> ('tarr, node_entry) array_ops \<Rightarrow>
   ('xarr, extent) array_ops \<Rightarrow> 's stream_ops \<Rightarrow> 'm md5_ops \<Rightarrow> (u64 \<Rightarrow> u8 list option) \<Rightarrow> 'h bfio_ops \<Rightarrow>
   'h range_ops \<Rightarrow> u8 list list \<Rightarrow> program_result result option" where
  "fsfatinfo_main E junk U put C A T X S M posix_time B R argv =
     (if \<not> te_locale_initialize E \<or> fsfattools_output_initialize E IO_UNBUFFERED \<noteq> Inr ()
      then Some (Inr \<lparr> pr_output = [], pr_bodyfile = None, pr_status = EXIT_FAILURE \<rparr>)
      else
        let version = fsfattools_output_version_fprint E (ascii ''fsfatinfo'')
        in (case each_option (info_option E) info_options_string argv getopt_start default_options of
              None \<Rightarrow> None
            | Some (Inl e) \<Rightarrow> Some (Inl e)
            | Some (Inr (st, Inl (output, status))) \<Rightarrow>
                Some (Inr \<lparr> pr_output = version @ output, pr_bodyfile = None, pr_status = status \<rparr>)
            | Some (Inr (st, Inr options)) \<Rightarrow>
                if optind st = length argv
                then Some (Inr \<lparr> pr_output = version @ usage_fprint, pr_bodyfile = None, pr_status = EXIT_FAILURE \<rparr>)
                else if optind st > length argv then Some (Inl MEMORY_FAULT)
                else
                  map_option (Inr \<circ> prepend_output version)
                    (print_source E junk U put C A T X S M posix_time B R options (argv ! optind st))))"

text \<open>
  The handler of signals has the global handle: it sets \<^verbatim>\<open>fsfatinfo_abort\<close> and tells the handle. An
  error is only reported. It also closes the input stream, which is not modelled.
\<close>

definition fsfatinfo_signal_handler ::
  "('h, 'arr, 'cache) info_handle option \<Rightarrow> int \<times> ('h, 'arr, 'cache) info_handle option" where
  "fsfatinfo_signal_handler info_handle =
     (1, if info_handle = None then None else fst (info_handle_signal_abort info_handle))"

section \<open>The program ends\<close>

lemma info_option_exits:
  "\<exists>status. info_option E 0x3f argument options = Inl status"
  "\<exists>status. info_option E 0x3a argument options = Inl status"
  by (simp_all add: info_option_def)

text \<open>The size of a volume that is opened is that of its file.\<close>

definition volume_small :: "('h, 'arr, 'cache) volume \<Rightarrow> bool" where
  "volume_small v \<longleftrightarrow> (\<forall>io. vol_io_handle v = Some io \<longrightarrow> unat (io_volume_size io) \<le> 2 ^ 53)"

lemma volume_small_fields [simp]:
  "volume_small (v\<lparr> vol_file_io_handle := h, vol_file_io_handle_opened_in_library := n \<rparr>) = volume_small v"
  by (simp add: volume_small_def)

lemma open_read_small:
  assumes "bounded_sizes B"
    and "libfsfat_internal_volume_open_read junk C A T B (Some v) h = Some (Some v', Inr ())"
  shows "volume_small v'"
proof -
  have size: "io_volume_size (io_handle_of_boot_record io br) = io_volume_size io" for io br
    by (simp add: io_handle_of_boot_record_def)
  show ?thesis
    using assms
    by (auto simp: libfsfat_internal_volume_open_read_def bounded_sizes_def volume_small_def size Let_def
        split: option.splits sum.splits if_splits)
qed

lemma open_small:
  assumes "bounded_sizes B"
    and "libfsfat_volume_open_file_io_handle junk C A T B (Some v) file_io_handle access_flags =
      Some (Some v', h', Inr ())"
  shows "volume_small v'"
  using assms(2)
  by (auto simp: libfsfat_volume_open_file_io_handle_def open_read_small [OF assms(1)]
      split: option.splits sum.splits if_splits prod.splits)

lemma open_input_returns:
  fixes C :: "('cache, 'value, 'arr directory) cache_ops" and ih :: "('h, 'arr, 'cache) info_handle"
  assumes "array_contract A view" and "array_contract T tview" and "bounded_sizes B"
    and "ih_input_volume ih = None"
  shows "\<exists>ih' r. info_handle_open_input junk C A T B R (Some ih) (Some filename) = Some (Some ih', r) \<and>
    ih_notify_stream ih' = ih_notify_stream ih \<and> ih_bodyfile_stream ih' = ih_bodyfile_stream ih \<and>
    (r = Inr () \<longrightarrow> (\<exists>v. ih_input_volume ih' = Some v \<and> volume_open view v \<and> volume_small v))"
proof -
  have freed: "ih_notify_stream (without_input_volume B ih') = ih_notify_stream ih'"
    "ih_bodyfile_stream (without_input_volume B ih') = ih_bodyfile_stream ih'"
    for ih' :: "('h, 'arr, 'cache) info_handle"
    by (simp_all add: without_input_volume_def split: prod.split)
  obtain v :: "('h, 'arr, 'cache) volume" where v: "libfsfat_volume_initialize None = Inr v"
    by (auto simp: libfsfat_volume_initialize_def libfsfat_io_handle_initialize_def)
  have closed: "volume_closed v" by (rule new_volume_closed [OF v])
  show ?thesis
  proof (cases "Option.bind (ih_input_file_io_handle ih) (\<lambda>h. range_set_name R h filename (length filename))")
    case (Some h)
    show ?thesis
    proof (cases "range_set R h (ih_volume_offset ih) 0")
      case set: (Some h')
      show ?thesis
        by (rule open_file_io_handle_ends [OF assms(1,2) closed assms(3), where C = C and junk = junk and
              file_io_handle = "Some h'" and access_flags = ACCESS_FLAG_READ])
          (use assms(4) v Some set open_small [OF assms(3)] in
            \<open>auto simp: info_handle_open_input_def Let_def freed\<close>)
    qed (use Some in \<open>simp add: info_handle_open_input_def freed\<close>)
  qed (simp add: info_handle_open_input_def freed)
qed

lemma configured_handle_fields:
  assumes "configured_handle E options ih = Inr ih'"
  shows "ih_input_volume ih' = ih_input_volume ih" and "ih_notify_stream ih' = ih_notify_stream ih"
    and "ih_calculate_md5 ih' = ih_calculate_md5 ih"
    and "ih_bodyfile_stream ih = None \<Longrightarrow>
      ih_bodyfile_stream ih' = (if option_bodyfile options = None then None else Some [])"
  using assms
  by (auto simp: configured_handle_def info_handle_set_bodyfile_def info_handle_set_volume_offset_def
      split: if_splits sum.splits option.splits)

lemma print_source_ends:
  fixes C :: "('cache, 'value, 'arr directory) cache_ops" and S :: "'s stream_ops"
    and X :: "('xarr, extent) array_ops" and B :: "'h bfio_ops"
  assumes "array_contract A view" and "array_contract T tview" and "bounded_sizes B"
    and "utf8_bounds U put" and "sizes_positive U"
    and "option_mode options = FSFATINFO_MODE_FILE_SYSTEM_HIERARCHY \<or> option_mode options = FSFATINFO_MODE_VOLUME"
  shows "\<exists>pr. print_source E junk U put C A T X S M posix_time B R options source = Some pr"
proof -
  have mode: "\<exists>ih' ok. print_mode U put C A T X S M posix_time B options (Some ih) = Some (ih', ok)"
    if v: "ih_input_volume ih = Some v" "volume_open view v" "volume_small v" for ih :: "('h, 'arr, 'cache) info_handle" and v
  proof -
    obtain ih' ok where "info_handle_file_system_hierarchy_fprint U put A T X S M posix_time B (Some ih) = Some (ih', ok)"
      using info_hierarchy_returns [OF assms(4,5,2), of ih A X S M posix_time B] v
      by (fastforce simp: volume_open_def geometry_wf_def volume_small_def)
    then show ?thesis using assms(6) by (auto simp: print_mode_def split: prod.split)
  qed
  show ?thesis
  proof (cases "info_handle_initialize R (None :: ('h, 'arr, 'cache) info_handle option) (option_calculate_md5 options)")
    case init: (Inr ih0)
    show ?thesis
    proof (cases "configured_handle E options ih0")
      case conf: (Inr ih)
      have "ih_input_volume ih = None"
        using init configured_handle_fields(1) [OF conf]
        by (auto simp: info_handle_initialize_def split: option.splits)
      from open_input_returns [OF assms(1-3) this, where C = C and R = R and junk = junk and filename = source]
      obtain ih' r where opened: "info_handle_open_input junk C A T B R (Some ih) (Some source) = Some (Some ih', r)"
        "r = Inr () \<Longrightarrow> \<exists>v. ih_input_volume ih' = Some v \<and> volume_open view v \<and> volume_small v"
        by blast
      show ?thesis
      proof (cases r)
        case (Inr u)
        then obtain ih'' ok where "print_mode U put C A T X S M posix_time B options (Some ih') = Some (ih'', ok)"
          using mode [of ih'] opened(2) by auto
        then show ?thesis
          using init conf opened(1) Inr
          by (cases ok) (simp_all add: print_source_def split: prod.split sum.split)
      qed (use init conf opened(1) in \<open>simp add: print_source_def\<close>)
    qed (use init in \<open>simp add: print_source_def\<close>)
  qed (simp add: print_source_def)
qed

text \<open>
  C21. Listing a volume ends. If no option asks for a path or an identifier, the program ends for
  every file and all arguments, with an exit status, or with an access outside of the arguments,
  which needs a hyphen alone among them. The conversions of libuna move on, and their sizes count
  the terminator.
\<close>
theorem fsfatinfo_ends:
  fixes C :: "('cache, 'value, 'arr directory) cache_ops" and S :: "'s stream_ops"
    and X :: "('xarr, extent) array_ops" and B :: "'h bfio_ops"
  assumes "array_contract A view" and "array_contract T tview" and "bounded_sizes B"
    and "utf8_bounds U put" and "sizes_positive U"
    and "\<And>st options. each_option (info_option E) info_options_string (program # arguments) getopt_start
      default_options = Some (Inr (st, Inr options)) \<Longrightarrow>
      option_mode options = FSFATINFO_MODE_FILE_SYSTEM_HIERARCHY \<or> option_mode options = FSFATINFO_MODE_VOLUME"
  shows "\<exists>r. fsfatinfo_main E junk U put C A T X S M posix_time B R (program # arguments) = Some r \<and>
    (\<forall>e. r = Inl e \<longrightarrow> [0x2d] \<in> set arguments)"
proof -
  have "getopt_wf (program # arguments) getopt_start" by (simp add: getopt_wf_def getopt_start_def)
  then obtain r where options: "each_option (info_option E) info_options_string (program # arguments) getopt_start
      default_options = Some r"
    and wf: "case r of
       Inl e \<Rightarrow> [0x2d] \<in> set (tl (program # arguments))
     | Inr (st', outcome) \<Rightarrow> getopt_wf (program # arguments) st'"
    using each_option_returns [of "info_option E", OF info_option_exits] by blast
  show ?thesis
  proof (cases r)
    case (Inl e)
    then show ?thesis using options wf by (simp add: fsfatinfo_main_def Let_def)
  next
    case (Inr p)
    obtain st outcome where p: "p = (st, outcome)" by (cases p)
    show ?thesis
    proof (cases outcome)
      case (Inl a)
      then show ?thesis using options Inr p by (cases a) (simp add: fsfatinfo_main_def Let_def)
    next
      case (Inr opts)
      have "option_mode opts = FSFATINFO_MODE_FILE_SYSTEM_HIERARCHY \<or> option_mode opts = FSFATINFO_MODE_VOLUME"
        using options \<open>r = Inr p\<close> p Inr assms(6) by blast
      from print_source_ends [OF assms(1-5) this, of E junk C X S M posix_time R "(program # arguments) ! optind st"]
      obtain pr where "print_source E junk U put C A T X S M posix_time B R opts ((program # arguments) ! optind st) = Some pr"
        by blast
      moreover have "\<not> length (program # arguments) < optind st" using wf \<open>r = Inr p\<close> p by (simp add: getopt_wf_def)
      ultimately show ?thesis
        using options \<open>r = Inr p\<close> p Inr by (simp add: fsfatinfo_main_def Let_def)
    qed
  qed
qed

end
