(* ===== verification/Info_Run.thy ===== *)
theory Info_Run
  imports Info_Main Info_Listing
begin

text \<open>What the program fsfatinfo prints, from its arguments to its output and its exit status.\<close>

section \<open>Opening keeps the streams\<close>

lemma open_input_keeps:
  assumes "info_handle_open_input junk C A T B R (Some ih) (Some filename) = Some (Some ih', Inr ())"
    and "ih_input_volume ih = None" and "ih_input_volume ih' = Some v"
  shows "ih_notify_stream ih' = ih_notify_stream ih" and "ih_bodyfile_stream ih' = ih_bodyfile_stream ih"
    and "ih_calculate_md5 ih' = ih_calculate_md5 ih" and "vol_file_io_handle v \<noteq> None"
  using assms
  by (auto simp: info_handle_open_input_def libfsfat_volume_open_file_io_handle_def Let_def
      split: option.splits sum.splits if_splits prod.splits)

lemma closed_and_freed:
  assumes "\<And>h. snd (bfio_handle_close B h)" and "\<And>h. bfio_handle_free B h"
    and "ih_input_volume ih = Some v" and "vol_file_io_handle v \<noteq> None" "vol_io_handle v \<noteq> None"
  shows "\<exists>ih'. info_handle_close_input B (Some ih) = (Some ih', Inr ()) \<and>
    ih_notify_stream ih' = ih_notify_stream ih \<and> ih_bodyfile_stream ih' = ih_bodyfile_stream ih \<and>
    info_handle_free B True (Some ih') = Inr ()"
proof -
  obtain h io where v: "vol_file_io_handle v = Some h" "vol_io_handle v = Some io" using assms(4,5) by blast
  obtain h' where close: "bfio_handle_close B h = (h', True)" using assms(1) [of h] by (cases "bfio_handle_close B h") simp
  obtain io' where "libfsfat_io_handle_clear (Some io) = Inr io'" by (simp add: libfsfat_io_handle_clear_def)
  then show ?thesis
    using assms(2,3) v close
    by (auto simp: info_handle_close_input_def info_handle_free_def libfsfat_volume_close_def
        libfsfat_volume_free_def Let_def split: option.split)
qed

text \<open>
  C4. The program lists a volume. With options that select the hierarchy, in any spelling and order, and
  a source that can be opened, whose file entries form a tree of named entries, the program
  succeeds. It prints its version and then, for the terminal or into the bodyfile, the line of every file
  entry in preorder: its path, or its row with the path and the values.
\<close>
theorem fsfatinfo_lists_hierarchy:
  fixes ih :: "('h, 'arr, 'cache) info_handle" and fe :: "('arr, 'cache, 'xarr, 's) file_entry"
    and S :: "'s stream_ops"
  assumes "utf8_coding valid enc U put" and "array_contract A view"
    and "te_locale_initialize E" and "te_setvbuf E" and "te_file_stream_close E"
    and "\<forall>word \<in> set ws. option_word_wf info_options_string word"
    and "option_steps (info_option E) (concat (map word_options ws)) default_options = Inr options"
    and "option_mode options = FSFATINFO_MODE_FILE_SYSTEM_HIERARCHY"
    and "option_bodyfile options = None \<or> option_calculate_md5 options = 0"
    and "take 1 source \<noteq> [0x2d]"
    and "info_handle_initialize R None (option_calculate_md5 options) = Inr ih0"
    and "configured_handle E options ih0 = Inr ih1"
    and "info_handle_open_input junk C A T B R (Some ih1) (Some source) = Some (Some ih, Inr ())"
    and "\<And>h. snd (bfio_handle_close B h)" and "\<And>h. bfio_handle_free B h"
    and "ih_input_volume ih = Some v" and "vol_io_handle v = Some io"
    and "libfsfat_volume_get_root_directory X B (Some v) None = Inr fe"
    and "entry_tree valid enc U A view T X t fe" and "paths_short enc [0x5c] t"
  shows "fsfatinfo_main E junk U put C A T X S M posix_time B R
      (program # concat (map word_arguments ws) @ [source]) =
    Some (Inr
      \<lparr> pr_output = fsfattools_output_version_fprint E (ascii ''fsfatinfo'') @
          (if option_bodyfile options = None
           then information_header @ ascii ''File system hierarchy:'' @ [0x0a] @
             tree_lines (\<lambda>path _. printed_name enc path @ [0x0a]) [0x5c] t @ [0x0a]
           else []),
        pr_bodyfile = map_option (\<lambda>_. tree_lines (entry_line enc (ih\<lparr> ih_file_system_format := io_file_system_format io,
            ih_root_directory_identifier := fe_identifier fe \<rparr>)) [0x5c] t) (option_bodyfile options),
        pr_status = EXIT_SUCCESS \<rparr>)"
proof -
  have ih0: "ih_input_volume ih0 = None" "ih_notify_stream ih0 = []" "ih_bodyfile_stream ih0 = None"
    "ih_calculate_md5 ih0 = option_calculate_md5 options"
    using assms(11) by (auto simp: info_handle_initialize_def split: option.splits)
  note conf = configured_handle_fields [OF assms(12)]
  have "ih_input_volume ih1 = None" using conf(1) ih0(1) by simp
  note kept = open_input_keeps [OF assms(13) this assms(16)]
  have streams: "ih_notify_stream ih = []"
    "ih_bodyfile_stream ih = (if option_bodyfile options = None then None else Some [])"
    "ih_bodyfile_stream ih = None \<or> ih_calculate_md5 ih = 0"
    using kept(1-3) conf(2-4) ih0 assms(9) by auto
  note printed = info_hierarchy_prints_tree [OF assms(1,2,16-20) streams(3), of S M posix_time]
  let ?argv = "program # concat (map word_arguments ws) @ [source]"
  have "\<And>operand rest. [source] = operand # rest \<Longrightarrow> take 1 operand \<noteq> [0x2d]" using assms(10) by simp
  then obtain st where
    "reads_options (info_option E) info_options_string ?argv getopt_start (concat (map word_options ws)) st"
    and index: "optind st = Suc (length (concat (map word_arguments ws)))"
    and stop: "\<forall>acc. each_option (info_option E) info_options_string ?argv st acc = Some (Inr (st, Inr acc))"
    by (rule options_read [where step = "info_option E" and program = program, OF assms(6)])
  then have read: "each_option (info_option E) info_options_string ?argv getopt_start default_options =
      Some (Inr (st, Inr options))"
    using assms(7) unfolding reads_options_def by (auto dest: spec [of _ default_options])
  obtain ih2 where ih2: "info_handle_file_system_hierarchy_fprint U put A T X S M posix_time B (Some ih) = Some (Some ih2, Inr ())"
    "ih_notify_stream ih2 = (if option_bodyfile options = None
       then information_header @ ascii ''File system hierarchy:'' @ [0x0a] @
         tree_lines (\<lambda>path _. printed_name enc path @ [0x0a]) [0x5c] t @ [0x0a] else [])"
    "ih_bodyfile_stream ih2 = map_option (\<lambda>_. tree_lines (entry_line enc (ih\<lparr> ih_file_system_format := io_file_system_format io,
       ih_root_directory_identifier := fe_identifier fe \<rparr>)) [0x5c] t) (option_bodyfile options)"
    "ih_input_volume ih2 = Some v"
    using printed streams assms(16)
    by (cases "option_bodyfile options") (auto simp: Let_def print_notify_def print_bodyfile_def)
  have "vol_io_handle v \<noteq> None" using assms(17) by simp
  from closed_and_freed [OF assms(14,15) ih2(4) kept(4) this]
  obtain ih3 where ih3: "info_handle_close_input B (Some ih2) = (Some ih3, Inr ())"
    "ih_notify_stream ih3 = ih_notify_stream ih2" "ih_bodyfile_stream ih3 = ih_bodyfile_stream ih2"
    "info_handle_free B True (Some ih3) = Inr ()"
    by blast
  have "print_source E junk U put C A T X S M posix_time B R options source = Some (program_end (Some ih3) EXIT_SUCCESS)"
    using assms(5,8,11-13) ih2(1) ih3(1,4) by (simp add: print_source_def print_mode_def)
  then show ?thesis
    using assms(3,4) read index ih2(2,3) ih3(2,3)
    by (simp add: fsfatinfo_main_def Let_def program_end_def prepend_output_def nth_append)
qed

end
