(* ===== verification/Info_Image.thy ===== *)
theory Info_Image
  imports Info_Run Info_Example
begin

text \<open>
  A run of the program fsfatinfo on a concrete image: a FAT-12 volume with a boot sector, one
  sector for the table and one for the root directory, which has the empty file R.TXT.
\<close>

section \<open>The image\<close>

definition floppy_layout :: fat_layout where
  "floppy_layout = (example_layout 16 1 1)\<lparr> lay_allocation_tables := 1, lay_root_entries := 16 \<rparr>"

definition floppy_entry :: "u8 list" where
  "floppy_entry = 0x52 # replicate 7 0x20 @ [0x54, 0x58, 0x54, 0x20] @ replicate 20 0"

definition floppy_image :: "u8 list" where
  "floppy_image = fat16_boot_sector floppy_layout @ replicate 512 0 @ floppy_entry @ replicate 480 0"

definition floppy_boot_record :: boot_record where
  "floppy_boot_record = boot_record_zero\<lparr>
     br_file_system_format := FORMAT_FAT12, br_bytes_per_sector := 512, br_cluster_block_size := 512,
     br_allocation_table_offset := 512, br_allocation_table_size := 512, br_root_directory_offset := 1024,
     br_root_directory_size := 512, br_first_cluster_offset := 1536, br_total_number_of_clusters := 14,
     br_volume_serial_number := 0x12345678 \<rparr>"

lemma floppy_sector: "length (fat16_boot_sector floppy_layout) = 512"
  "libfsfat_boot_record_read_data (Some boot_record_zero) (Some (fat16_boot_sector floppy_layout)) = Inr floppy_boot_record"
proof -
  have ok: "layout_ok 467 floppy_layout" by (simp add: layout_ok_def floppy_layout_def example_layout_def)
  have ne: "\<not> (lay_root_entries floppy_layout = 0 \<and> lay_sectors_16bit floppy_layout = 0 \<and>
      lay_table_size_16bit floppy_layout = 0)"
    by (simp add: floppy_layout_def example_layout_def)
  note fields = fat16_sector_read(1-4) [OF ok ne] fat16_sector_read(5) [OF ok ne, of boot_record_zero]
  show "length (fat16_boot_sector floppy_layout) = 512" by (rule fields(1))
  show "libfsfat_boot_record_read_data (Some boot_record_zero) (Some (fat16_boot_sector floppy_layout)) =
      Inr floppy_boot_record"
    unfolding read_data_fat [OF fields]
    by (simp add: floppy_layout_def example_layout_def set_fat_geometry_def Let_def boot_record_zero_def
        floppy_boot_record_def)
qed

lemma floppy_bytes:
  "take 512 floppy_image = fat16_boot_sector floppy_layout"
  "take 512 (drop 512 floppy_image) = replicate 512 0"
  "take 32 (drop 1024 floppy_image) = floppy_entry"
  "take 32 (drop 1056 floppy_image) = replicate 32 0"
  "length floppy_image = 1536"
  by (simp_all add: floppy_image_def floppy_sector floppy_entry_def)

lemma floppy_boot: 
  "libfsfat_boot_record_read_file_io_handle (image_bfio floppy_image) (Some boot_record_zero) 0 = Inr floppy_boot_record"
  using floppy_sector floppy_bytes(1)
  by (simp add: libfsfat_boot_record_read_file_io_handle_def image_bfio_def)

section \<open>The table\<close>

definition floppy_io :: io_handle where
  "floppy_io = io_handle_of_boot_record (io_handle_zero\<lparr> io_volume_size := 1536 \<rparr>) floppy_boot_record"

definition floppy_table :: "u32 \<Rightarrow> allocation_table" where
  "floppy_table c = \<lparr> number_of_cluster_numbers = 14, cluster_numbers = (replicate 14 0)[0 := c] \<rparr>"

lemma floppy_pair:
  assumes "off \<le> 500" and "0 \<le> n" "n < 14" "even n"
  shows "read_entry_step FORMAT_FAT12 (replicate 512 0 @ [0, 0]) off (floppy_table 0) (Some (floppy_table c)) n =
    Inr (floppy_table 0, Some (floppy_table (of_int (n + 1))), n + 2, True)"
proof -
  have set: "set_cluster_number (floppy_table c) 0 d = Inr (floppy_table d)" for c d
    by (simp add: set_cluster_number_def floppy_table_def)
  have "(replicate 14 (0 :: u32))[k := 0] = replicate 14 0" for k
    by (cases "k < 14") (auto intro!: nth_equalityI simp: nth_list_update list_update_beyond)
  then have zero: "set_cluster_number (floppy_table 0) k 0 = Inr (floppy_table 0)" if "0 \<le> k" "k < 14" for k
    using that by (simp add: set_cluster_number_def floppy_table_def)
  have "n + 1 < 14" using assms(3,4) by presburger
  then show ?thesis
    using assms(1-3)
    by (simp add: read_entry_step_def read_entry_value_def byte_stream_copy_to_uint24_little_endian_def nth_append
        store_cluster_number_def set zero)
      (simp add: floppy_table_def)
qed

lemma floppy_table_data:
  "read_table_data FORMAT_FAT12 (replicate 512 0 @ [0, 0]) 512 0 (floppy_table 0) (Some (floppy_table 0)) 0 =
    Inr (floppy_table 0, Some (floppy_table 13), 14)"
proof -
  have number: "number_of_cluster_numbers (floppy_table c) = 14" for c by (simp add: floppy_table_def)
  show ?thesis by (simp add: read_table_data.simps floppy_pair entry_step_def number)
qed

lemma floppy_read_table:
  assumes "fs_io_handle fs = Some floppy_io" and "fs_allocation_table fs = None" "fs_reversed_allocation_table fs = None"
  shows "libfsfat_file_system_read_allocation_table junk (Some fs) (image_bfio floppy_image) 512 512 =
    Some (Inr (fs\<lparr> fs_allocation_table := Some (floppy_table 0),
       fs_reversed_allocation_table := Some (floppy_table 13) \<rparr>))"
proof -
  have "(replicate 14 (0 :: u32))[0 := 0] = replicate 14 0" by (metis list_update_id nth_replicate zero_less_numeral)
  then have new: "libfsfat_allocation_table_initialize None 14 = Inr (floppy_table 0)"
    by (simp add: libfsfat_allocation_table_initialize_def MAXIMUM_NUMBER_OF_CLUSTERS_IN_FAT_def floppy_table_def)
  have stop: "read_sectors bfio fmt 512 n 512 off data at rev k = Some (Inr (at, rev))" for bfio fmt n off data at rev k
    by (subst read_sectors.simps) simp
  have "drop 512 (map junk [0..<512] @ [0, 0]) = [0, 0]" by simp
  then have "read_sectors (image_bfio floppy_image) FORMAT_FAT12 512 512 0 512 (map junk [0..<512] @ [0, 0])
      (floppy_table 0) (Some (floppy_table 0)) 0 = Some (Inr (floppy_table 0, Some (floppy_table 13)))"
    using floppy_bytes(2,5) floppy_table_data stop
    by (subst read_sectors.simps) (simp add: image_bfio_def word_sless_alt Let_def del: upt_conv_Cons)
  then show ?thesis
    using assms new
    by (simp add: libfsfat_file_system_read_allocation_table_def floppy_io_def floppy_boot_record_def
        io_handle_of_boot_record_def libfsfat_allocation_table_read_file_io_handle_def Let_def)
qed

section \<open>The root directory\<close>

definition floppy_file :: "nat option list directory_entry" where
  "floppy_file = directory_entry_zero\<lparr> de_entry_type := TYPE_SHORT_NAME, de_identifier := 1024,
     de_name_data := 0x52 # replicate 7 0x20 @ [0x54, 0x58, 0x54] @ replicate 21 0, de_file_attribute_flags := 0x20 \<rparr>"

definition floppy_directory :: "nat option list directory" where
  "floppy_directory =
     \<lparr> dir_store = [0 \<mapsto> floppy_file], dir_next = 1, dir_entries_array = [Some 0],
       dir_file_entries_array = [Some 0], dir_self_entry = None, dir_parent_entry = None,
       dir_volume_label_entry = None \<rparr>"

lemma floppy_read_entry:
  "libfsfat_directory_entry_read_data (Some (directory_entry_zero\<lparr> de_identifier := 1024 \<rparr>)) (Some floppy_entry)
     FORMAT_FAT12 = Inr (floppy_file, True)"
proof -
  have "floppy_entry ! 0 \<noteq> replicate 32 0 ! 0" by (simp add: floppy_entry_def)
  then have "floppy_entry \<noteq> replicate 32 0" by metis
  then have type: "determine_entry_type floppy_entry FORMAT_FAT12 = TYPE_SHORT_NAME"
    by (simp add: determine_entry_type_def) (simp add: floppy_entry_def nth_append)
  have "length floppy_entry = 32" by (simp add: floppy_entry_def)
  then have "libfsfat_directory_entry_read_data (Some (directory_entry_zero\<lparr> de_identifier := 1024 \<rparr>)) (Some floppy_entry)
     FORMAT_FAT12 = Inr (read_short_name floppy_entry
       (directory_entry_zero\<lparr> de_identifier := 1024, de_entry_type := TYPE_SHORT_NAME \<rparr>), True)"
    by (simp add: libfsfat_directory_entry_read_data_def type Let_def)
  also have "\<dots> = Inr (floppy_file, True)"
    by (simp add: floppy_entry_def nth_append read_short_name_def copy_name_data_def floppy_file_def
        directory_entry_zero_def overwrite_def
        byte_stream_copy_to_uint16_little_endian_def byte_stream_copy_to_uint32_little_endian_def)
  finally show ?thesis .
qed

lemma floppy_read_root:
  assumes "fs_io_handle fs = Some floppy_io" and "fs_root_directory fs = None"
  shows "libfsfat_file_system_read_root_directory (list_array :: (nat option list, nat) array_ops) T (Some fs)
    (image_bfio floppy_image) 1024 512 c = Some (Inr (fs\<lparr> fs_root_directory := Some floppy_directory \<rparr>))"
proof -
  define start :: "nat option list directory_reader" where "start = initial_reader
    \<lparr> dir_store = Map.empty, dir_next = 0, dir_entries_array = [], dir_file_entries_array = [], dir_self_entry = None,
      dir_parent_entry = None, dir_volume_label_entry = None \<rparr>"
  have first: "libfsfat_directory_entry_read_file_io_handle (image_bfio floppy_image)
      (Some (directory_entry_zero\<lparr> de_identifier := 1024 \<rparr>)) 1024 FORMAT_FAT12 = Inr (floppy_file, True)"
    using floppy_read_entry floppy_bytes(3)
    by (simp add: libfsfat_directory_entry_read_file_io_handle_def image_bfio_def word_sless_alt) (simp add: floppy_entry_def)
  have second: "\<exists>de. libfsfat_directory_entry_read_file_io_handle (image_bfio floppy_image)
      (Some (directory_entry_zero\<lparr> de_identifier := 1056 \<rparr>)) 1056 FORMAT_FAT12 =
      Inr (de :: nat option list directory_entry, False)"
    using floppy_bytes(4)
    by (simp add: libfsfat_directory_entry_read_file_io_handle_def image_bfio_def word_sless_alt
        libfsfat_directory_entry_read_data_def determine_entry_type_def Let_def)
  have entry: "process_range_entry list_array 1024 floppy_file start =
      Inr (start\<lparr> dr_directory := floppy_directory \<rparr>)"
    by (simp add: process_range_entry_def classify_range_entry_def add_short_name_entry_def own_entry_def
        floppy_file_def directory_entry_zero_def new_entry_def put_entry_def start_def initial_reader_def
        list_array_def floppy_directory_def Let_def FILE_ATTRIBUTE_FLAG_VOLUME_LABEL_def)
  have "read_range_entries list_array (image_bfio floppy_image) FORMAT_FAT12 1024 1536 start =
      Some (Inr (start\<lparr> dr_directory := floppy_directory \<rparr>))"
  proof -
    have "de_entry_type floppy_file \<noteq> TYPE_UNALLOCATED" by (simp add: floppy_file_def)
    moreover have "read_range_entries list_array (image_bfio floppy_image) FORMAT_FAT12 1056 1536 st = Some (Inr st)"
      for st :: "nat option list directory_reader"
      using second by (subst read_range_entries.simps) (auto simp: libfsfat_directory_entry_initialize_def word_sless_alt)
    ultimately show ?thesis
      using first entry
      by (subst read_range_entries.simps) (simp add: libfsfat_directory_entry_initialize_def word_sless_alt)
  qed
  then show ?thesis
    using assms
    by (simp add: libfsfat_file_system_read_root_directory_def libfsfat_file_system_read_directory_by_range_def
        libfsfat_directory_initialize_def list_array_def floppy_io_def io_handle_of_boot_record_def
        floppy_boot_record_def start_def initial_reader_def)
qed

section \<open>Opening the image\<close>

text \<open>A file handle tells whether it is open; all of them read the image.\<close>

definition floppy_file_ops :: "bool bfio_ops" where
  "floppy_file_ops =
     \<lparr> bfio_file_initialize = Some False, bfio_file_set_name = \<lambda>h _ _. Some h,
       bfio_file_set_name_wide = \<lambda>h _ _. Some h, bfio_handle_is_open = Some,
       bfio_handle_open = \<lambda>h _. (True, True), bfio_handle_close = \<lambda>h. (False, True), bfio_handle_free = \<lambda>_. True,
       bfio_handle_get_size = \<lambda>_. Some 1536, bfio_handle_read = \<lambda>_. image_bfio floppy_image \<rparr>"

definition floppy_range_ops :: "bool range_ops" where
  "floppy_range_ops =
     \<lparr> range_initialize = Some False, range_set_name = \<lambda>h _ _. Some h, range_set = \<lambda>h _ _. Some h \<rparr>"

definition floppy_fs :: "(nat option list, unit) file_system" where
  "floppy_fs =
     \<lparr> fs_io_handle = Some floppy_io, fs_allocation_table = Some (floppy_table 0),
       fs_reversed_allocation_table = Some (floppy_table 13), fs_cache_timestamp = 0, fs_directory_cache = (),
       fs_root_directory = Some floppy_directory \<rparr>"

definition floppy_volume :: "(bool, nat option list, unit) volume" where
  "floppy_volume =
     \<lparr> vol_io_handle = Some floppy_io, vol_file_io_handle = Some True, vol_file_io_handle_created_in_library = 0,
       vol_file_io_handle_opened_in_library = 1, vol_file_system = Some floppy_fs \<rparr>"

lemma floppy_open_file_system:
  "open_file_system junk no_cache list_array T (image_bfio floppy_image) floppy_io floppy_boot_record =
    Some (Inr floppy_fs)"
proof -
  define fs :: "(nat option list, unit) file_system" where
    "fs = \<lparr> fs_io_handle = Some floppy_io, fs_allocation_table = None, fs_reversed_allocation_table = None,
       fs_cache_timestamp = 0, fs_directory_cache = (), fs_root_directory = None \<rparr>"
  have new: "libfsfat_file_system_initialize no_cache None (Some floppy_io) = Inr fs"
    by (simp add: libfsfat_file_system_initialize_def no_cache_def fs_def)
  have table: "libfsfat_file_system_read_allocation_table junk (Some fs) (image_bfio floppy_image) 512 512 =
      Some (Inr (fs\<lparr> fs_allocation_table := Some (floppy_table 0),
         fs_reversed_allocation_table := Some (floppy_table 13) \<rparr>))"
    by (rule floppy_read_table) (simp_all add: fs_def)
  show ?thesis
    using floppy_read_root [of "fs\<lparr> fs_allocation_table := Some (floppy_table 0),
         fs_reversed_allocation_table := Some (floppy_table 13) \<rparr>" T 0]
    by (simp add: open_file_system_def new table floppy_boot_record_def boot_record_zero_def)
      (simp add: fs_def floppy_fs_def)
qed

lemma floppy_opened:
  "libfsfat_volume_open_file_io_handle junk no_cache list_array T floppy_file_ops (Some new_volume) (Some False) 1 =
    Some (Some floppy_volume, Some True, Inr ())"
  using floppy_open_file_system [of junk T] floppy_boot
  by (simp add: libfsfat_volume_open_file_io_handle_def libfsfat_internal_volume_open_read_def
      opened_file_io_handle_def floppy_file_ops_def new_volume_def floppy_volume_def
      libfsfat_boot_record_initialize_def ACCESS_FLAG_READ_def ACCESS_FLAG_WRITE_def floppy_io_def Let_def)

section \<open>The tree of the file entries\<close>

definition floppy_root :: "(nat option list, unit, extent option list, stream_state) file_entry" where
  "floppy_root =
     \<lparr> fe_io_handle = Some floppy_io, fe_file_io_handle = image_bfio floppy_image, fe_file_system = Some floppy_fs,
       fe_directory_entry = None, fe_identifier = 1024, fe_file_attribute_flags = 0, fe_cluster_number = 0,
       fe_data_extents_array = [], fe_cluster_block_stream = None, fe_data_size = 0,
       fe_directory = Some floppy_directory, fe_flags = 0 \<rparr>"

definition floppy_sub :: "(nat option list, unit, extent option list, stream_state) file_entry" where
  "floppy_sub = floppy_root\<lparr> fe_directory := None, fe_file_attribute_flags := 0x20,
     fe_directory_entry := Some (floppy_file\<lparr> de_name := Some [0x52, 0x2e, 0x54, 0x58, 0x54, 0], de_name_size := 6 \<rparr>) \<rparr>"

lemma floppy_root_directory:
  "libfsfat_volume_get_root_directory (list_array :: (extent option list, extent) array_ops) floppy_file_ops
     (Some floppy_volume) None = Inr floppy_root"
  by (simp add: libfsfat_volume_get_root_directory_def floppy_volume_def floppy_fs_def
     libfsfat_file_system_get_root_directory_def libfsfat_file_entry_initialize_def directory_entry_values_def
     list_array_def volume_bfio_def floppy_file_ops_def floppy_root_def)
   (simp add: floppy_io_def io_handle_of_boot_record_def floppy_boot_record_def)

lemma floppy_sub_file_entry:
  "sub_file_entry_of (list_array :: (nat option list, nat) array_ops) list_array floppy_root (Some 0) = Inr floppy_sub"
  by (simp add: sub_file_entry_of_def libfsfat_directory_entry_clone_def list_array_def
        libfsfat_directory_entry_get_name_def floppy_file_def directory_entry_zero_def short_name_string_def
        libfsfat_directory_entry_get_identifier_def floppy_directory_def floppy_root_def floppy_sub_def
        libfsfat_file_entry_initialize_def directory_entry_values_def nth_append
        libfsfat_directory_entry_get_file_attribute_flags_def libfsfat_directory_entry_get_data_start_cluster_def
        libfsfat_directory_entry_get_data_size_def libfsfat_directory_entry_get_valid_data_size_def
        entry_with_name_def FILE_ATTRIBUTE_FLAG_VOLUME_LABEL_def)

lemma floppy_values:
  obtains v w where "has_values floppy_root v" and "has_values floppy_sub w"
proof -
  have "has_values floppy_root \<lparr> ev_identifier = 1024, ev_file_attribute_flags = 0, ev_data_size = 0,
      ev_access_time = 0, ev_modification_time = 0, ev_creation_time = 0 \<rparr>"
    by (simp add: has_values_def floppy_root_def directory_entry_value_def libfsfat_file_entry_get_access_time_def
        libfsfat_file_entry_get_modification_time_def libfsfat_file_entry_get_creation_time_def
        libfsfat_file_entry_get_file_attribute_flags_def)
  moreover obtain t where "libfsfat_date_time_get_timestamp 0 0 0 0 = Inr t"
    by (simp add: libfsfat_date_time_get_timestamp_def Let_def)
  then have "has_values floppy_sub \<lparr> ev_identifier = 1024, ev_file_attribute_flags = 0x20, ev_data_size = 0,
      ev_access_time = t, ev_modification_time = t, ev_creation_time = t \<rparr>"
    by (simp add: has_values_def floppy_root_def floppy_sub_def directory_entry_value_def
        libfsfat_file_entry_get_access_time_def floppy_file_def directory_entry_zero_def
        libfsfat_file_entry_get_modification_time_def libfsfat_file_entry_get_creation_time_def
        libfsfat_file_entry_get_file_attribute_flags_def libfsfat_directory_entry_get_file_attribute_flags_def
        libfsfat_directory_entry_get_access_time_def libfsfat_directory_entry_get_modification_time_def
        libfsfat_directory_entry_get_creation_time_def)
  ultimately show ?thesis by (rule that)
qed

abbreviation floppy_name :: "u32 list" where
  "floppy_name \<equiv> [0x52, 0x2e, 0x54, 0x58, 0x54]"

lemma floppy_names:
  "has_name (\<lambda>c. c < 0x80) (\<lambda>c. [ucast c]) ascii_una (list_array :: (nat option list, nat) array_ops) floppy_root None"
  "has_name (\<lambda>c. c < 0x80) (\<lambda>c. [ucast c]) ascii_una (list_array :: (nat option list, nat) array_ops) floppy_sub
     (Some floppy_name)"
  by (simp_all add: has_name_def file_entry_name_value_def libfsfat_file_entry_get_utf8_name_size_def
      directory_entry_value_def floppy_root_def floppy_sub_def floppy_file_def directory_entry_zero_def
      libfsfat_directory_entry_get_utf8_name_size_def convert_name_def entry_with_name_def ascii_una_def
      libfsfat_file_entry_get_utf8_name_def libfsfat_directory_entry_get_utf8_name_def)

lemma floppy_tree:
  assumes "has_values floppy_root v" and "has_values floppy_sub w"
  shows "entry_tree (\<lambda>c. c < 0x80) (\<lambda>c. [ucast c]) ascii_una list_array (\<lambda>a. a)
     (list_array :: (node_entry option list, node_entry) array_ops) list_array
     (Node None v [Node (Some floppy_name) w []]) floppy_root"
proof -
  have "entry_with_directory list_array (list_array :: (node_entry option list, node_entry) array_ops) floppy_sub =
      Some (Inr floppy_sub)"
    by (simp add: entry_with_directory_def libfsfat_internal_file_entry_get_directory_def floppy_sub_def floppy_root_def
        FILE_ATTRIBUTE_FLAG_DIRECTORY_def)
  moreover have "fe_directory floppy_sub = None" by (simp add: floppy_sub_def)
  ultimately have "entry_tree (\<lambda>c. c < 0x80) (\<lambda>c. [ucast c]) ascii_una list_array (\<lambda>a. a)
      (list_array :: (node_entry option list, node_entry) array_ops) list_array (Node (Some floppy_name) w []) floppy_sub"
    using assms(2) floppy_names(2) by simp
  then show ?thesis
    using assms(1) floppy_names(1) floppy_sub_file_entry
    by (simp add: entry_with_directory_def floppy_root_def floppy_directory_def)
qed

section \<open>The run\<close>

definition floppy_environment :: tool_environment where
  "floppy_environment =
     \<lparr> te_locale_initialize = True, te_setvbuf = True, te_version = ascii ''20250101'', te_bugreport = [],
       te_file_stream_open = \<lambda>_. True, te_file_stream_close = True \<rparr>"

text \<open>The command: fsfatinfo -vH -o0 image.\<close>

theorem fsfatinfo_lists_hierarchy_witness:
  "fsfatinfo_main floppy_environment (\<lambda>_. 0) ascii_una ascii_put no_cache list_array
     (list_array :: (node_entry option list, node_entry) array_ops)
     (list_array :: (extent option list, extent) array_ops) list_stream list_md5 (\<lambda>_. None)
     floppy_file_ops floppy_range_ops
     [ascii ''fsfatinfo'', ascii ''-vH'', ascii ''-o0'', ascii ''image''] =
   Some (Inr
     \<lparr> pr_output = ascii ''fsfatinfo 20250101'' @ [0x0a, 0x0a] @ information_header @
         ascii ''File system hierarchy:'' @ [0x0a] @ [0x5c, 0x0a] @ [0x5c] @ ascii ''R.TXT'' @ [0x0a, 0x0a],
       pr_bodyfile = None, pr_status = EXIT_SUCCESS \<rparr>)"
proof -
  obtain v w where "has_values floppy_root v" "has_values floppy_sub w" by (rule floppy_values)
  note tree = floppy_tree [OF this]
  define ws where "ws = [Flags [0x76, 0x48], Attached [] 0x6f [0x30]]"
  define options where "options = default_options\<lparr> option_verbose := 1,
    option_mode := FSFATINFO_MODE_FILE_SYSTEM_HIERARCHY, option_volume_offset := Some [0x30] \<rparr>"
  define ih :: "(bool, nat option list, unit) info_handle" where
    "ih = \<lparr> ih_volume_offset = 0, ih_input_file_io_handle = Some False, ih_input_volume = None,
      ih_file_system_format = FORMAT_UNKNOWN, ih_root_directory_identifier = 0, ih_calculate_md5 = 0,
      ih_bodyfile_stream = None, ih_notify_stream = [], ih_abort = 0 \<rparr>"
  have words: "\<forall>word \<in> set ws. option_word_wf info_options_string word"
    by (simp add: ws_def is_flag_def takes_argument_def option_value_def info_options_string_def ascii_def)
  have steps: "option_steps (info_option floppy_environment) (concat (map word_options ws)) default_options = Inr options"
    by (simp add: ws_def options_def info_option_def)
  have init: "info_handle_initialize floppy_range_ops None (option_calculate_md5 options) = Inr ih"
    by (simp add: info_handle_initialize_def floppy_range_ops_def options_def default_options_def ih_def)
  have "info_handle_system_string_copy_from_64_bit_in_decimal (Some [0x30, 0]) (Suc (Suc 0)) = Inr 0"
    by (simp add: info_handle_system_string_copy_from_64_bit_in_decimal_def SSIZE_MAX_def)
  then have conf: "configured_handle floppy_environment options ih = Inr ih"
    by (simp add: configured_handle_def options_def default_options_def info_handle_set_volume_offset_def)
      (simp add: ih_def)
  have opened: "info_handle_open_input (\<lambda>_. 0) no_cache list_array
      (list_array :: (node_entry option list, node_entry) array_ops) floppy_file_ops floppy_range_ops
      (Some ih) (Some (ascii ''image'')) =
    Some (Some (ih\<lparr> ih_input_volume := Some floppy_volume, ih_input_file_io_handle := Some True \<rparr>), Inr ())"
    by (simp add: info_handle_open_input_def ih_def floppy_range_ops_def ACCESS_FLAG_READ_def Let_def
        floppy_opened new_volume_initialized)
  let ?ih = "ih\<lparr> ih_input_volume := Some floppy_volume, ih_input_file_io_handle := Some True \<rparr>"
  have volume: "ih_input_volume ?ih = Some floppy_volume" "vol_io_handle floppy_volume = Some floppy_io"
    by (simp_all add: floppy_volume_def)
  have closed: "\<And>h. snd (bfio_handle_close floppy_file_ops h)" "\<And>h. bfio_handle_free floppy_file_ops h"
    by (simp_all add: floppy_file_ops_def)
  have short: "paths_short (\<lambda>c. [ucast c]) [0x5c] (Node None v [Node (Some floppy_name) w []])"
    by (simp add: entry_path_def sub_path_def SSIZE_MAX_def)
  note listed = fsfatinfo_lists_hierarchy [OF ascii_coding list_array_contract _ _ _ words steps _ _ _ init conf opened
      closed volume floppy_root_directory tree short, of list_stream list_md5 "\<lambda>_. None" "ascii ''fsfatinfo''"]
  have "\<not> replaced_by_2_digits c" if "c \<in> set (0x5c # floppy_name)" for c
    using that by (auto simp: replaced_by_2_digits_def)
  then show ?thesis
    using listed
    by (simp add: ws_def options_def default_options_def floppy_environment_def entry_path_def sub_path_def printed_name_def
        printed_character_def fsfattools_output_version_fprint_def ascii_def)
qed

lemma fsfatinfo_ends_witness:
  "\<exists>r. fsfatinfo_main floppy_environment (\<lambda>_. 0) ascii_una ascii_put no_cache list_array
     (list_array :: (node_entry option list, node_entry) array_ops)
     (list_array :: (extent option list, extent) array_ops) list_stream list_md5 (\<lambda>_. None)
     floppy_file_ops floppy_range_ops [ascii ''fsfatinfo'', ascii ''-H'', ascii ''image''] = Some r \<and> (\<forall>e. r \<noteq> Inl e)"
proof -
  have "bounded_sizes floppy_file_ops" by (simp add: bounded_sizes_def floppy_file_ops_def)
  moreover have "sizes_positive ascii_una" by (auto simp: sizes_positive_def ascii_una_def split: if_splits)
  moreover have "option_mode options = FSFATINFO_MODE_FILE_SYSTEM_HIERARCHY \<or> option_mode options = FSFATINFO_MODE_VOLUME"
    if "each_option (info_option floppy_environment) info_options_string [ascii ''fsfatinfo'', ascii ''-H'', ascii ''image'']
      getopt_start default_options = Some (Inr (st, Inr options))" for st options
    using that
    by (simp add: each_option.simps fsfattools_getopt_def option_argument_value_def option_value_def getopt_start_def
        ascii_def info_options_string_def info_option_def Let_def) auto
  ultimately show ?thesis
    using fsfatinfo_ends [OF list_array_contract list_array_contract, where U = ascii_una and put = ascii_put and
      B = floppy_file_ops and E = floppy_environment and program = "ascii ''fsfatinfo''" and
      arguments = "[ascii ''-H'', ascii ''image'']"] ascii_bounds
    by (auto simp: ascii_def)
qed

end
