(* ===== verification/Mount_Image.thy ===== *)
theory Mount_Image
  imports Mount_Main Info_Image
begin

text \<open>A run of the program fsfatmount on the concrete image.\<close>

definition example_fuse :: "'handle fuse_library" where
  "example_fuse =
     \<lparr> fuse_opt_add_arg = \<lambda>arguments argument. Some (arguments @ [argument]), fuse_new = \<lambda>_ _. True,
       fuse_mount = \<lambda>_. True, fuse_daemonize = True, fuse_loop = \<lambda>_. Some True \<rparr>"

lemma fsfatmount_serves_open_volume_witness:
  "\<exists>mh. fsfatmount_main floppy_environment example_fuse (\<lambda>_. 0) no_cache list_array
     (list_array :: (node_entry option list, node_entry) array_ops) floppy_file_ops floppy_range_ops (Some (0, 0))
     [ascii ''fsfatmount'', ascii ''image'', ascii ''mnt''] =
   Some (Inr \<lparr> mr_output = ascii ''fsfatmount 20250101'' @ [0x0a, 0x0a], mr_session = Some mh,
     mr_status = EXIT_SUCCESS \<rparr>) \<and>
   served_handle (\<lambda>a. a) mh"
proof -
  let ?main = "fsfatmount_main floppy_environment example_fuse (\<lambda>_. 0) no_cache list_array
     (list_array :: (node_entry option list, node_entry) array_ops) floppy_file_ops floppy_range_ops (Some (0, 0))"
  have options: "each_option (mount_option floppy_environment) mount_options_string
      [ascii ''fsfatmount'', ascii ''image'', ascii ''mnt''] getopt_start default_mount_options =
      Some (Inr (getopt_start, Inr default_mount_options))"
    by (subst each_option.simps)
      (simp add: fsfattools_getopt_def option_argument_value_def getopt_start_def ascii_def)
  have "\<exists>mh. ?main [ascii ''fsfatmount'', ascii ''image'', ascii ''mnt''] =
    Some (Inr \<lparr> mr_output = ascii ''fsfatmount 20250101'' @ [0x0a, 0x0a], mr_session = Some mh,
       mr_status = EXIT_SUCCESS \<rparr>)"
    unfolding fsfatmount_main_def options
    by (simp add: floppy_environment_def getopt_start_def Let_def mount_source_def serve_handle_def default_mount_options_def
        mount_handle_initialize_def mount_file_system_initialize_def mount_handle_open_def floppy_range_ops_def
        new_volume_initialized floppy_opened ACCESS_FLAG_READ_def mount_file_system_set_volume_def fuse_arguments_def
        example_fuse_def fsfattools_output_version_fprint_def ascii_def)
  then obtain mh where run: "?main [ascii ''fsfatmount'', ascii ''image'', ascii ''mnt''] =
    Some (Inr \<lparr> mr_output = ascii ''fsfatmount 20250101'' @ [0x0a, 0x0a], mr_session = Some mh,
       mr_status = EXIT_SUCCESS \<rparr>)" ..
  have "bounded_sizes floppy_file_ops" by (simp add: bounded_sizes_def floppy_file_ops_def)
  from fsfatmount_serves_open_volume [OF list_array_contract list_array_contract this,
      where E = floppy_environment and F = example_fuse and junk = "\<lambda>_. 0" and C = no_cache and R = floppy_range_ops and
        time_structure = "Some (0, 0)" and program = "ascii ''fsfatmount''" and arguments = "[ascii ''image'', ascii ''mnt'']"]
  have "served_handle (\<lambda>a. a) mh" using run by simp
  then show ?thesis using run by blast
qed

end
