(* ===== verification/Mount_Fuse.thy ===== *)
theory Mount_Fuse
  imports Mount_Lookup "HOL-Library.Signed_Division"
begin

text \<open>
  The operations that the mount tool gives to FUSE, \<^verbatim>\<open>fsfattools/mount_fuse.c\<close>. The mount handle
  is a global variable of the tool; the operations that use it return the handle they leave.
  A result is 0 or a number of bytes, or the negative of an errno value.
\<close>

section \<open>The interface of FUSE\<close>

text \<open>The errno values of Linux that the operations return.\<close>

definition ENOENT :: int where "ENOENT = 2"
definition EIO :: int where "EIO = 5"
definition EACCES :: int where "EACCES = 13"
definition EINVAL :: int where "EINVAL = 22"

definition O_RDONLY :: u32 where "O_RDONLY = 0"

text \<open>The fields of \<^verbatim>\<open>struct stat\<close> and \<^verbatim>\<open>struct fuse_file_info\<close> that the tool uses.\<close>

record stat_info =
  st_size :: off64
  st_mode :: u32
  st_nlink :: nat
  st_uid :: u32
  st_gid :: u32
  st_atime :: int
  st_ctime :: int
  st_mtime :: int

definition stat_zero :: stat_info where
  "stat_zero = \<lparr> st_size = 0, st_mode = 0, st_nlink = 0, st_uid = 0, st_gid = 0, st_atime = 0,
     st_ctime = 0, st_mtime = 0 \<rparr>"

record ('h, 'arr, 'cache, 'xarr, 's) fuse_file_info =
  fi_flags :: u32
  fi_fh :: "('h, 'arr, 'cache, 'xarr, 's) mount_file_entry option"

section \<open>Stat information\<close>

text \<open>
  The identifiers of the user and the group are a parameter. The times are signed, and their
  division truncates.
\<close>

definition mount_fuse_set_stat_info ::
  "u32 \<times> u32 \<Rightarrow> stat_info option \<Rightarrow> u64 \<Rightarrow> u16 \<Rightarrow> u64 \<Rightarrow> u64 \<Rightarrow> u64 \<Rightarrow> stat_info result" where
  "mount_fuse_set_stat_info ids stat_info size0 file_mode access_time inode_change_time modification_time =
     (case stat_info of
        None \<Rightarrow> Inl ARGUMENT_INVALID_VALUE
      | Some stat_info \<Rightarrow>
          if size0 > INT64_MAX then Inl RUNTIME_VALUE_OUT_OF_BOUNDS
          else
            Inr (stat_info\<lparr> st_size := size0, st_mode := ucast file_mode,
              st_nlink := (if file_mode AND 0x4000 \<noteq> 0 then 2 else 1),
              st_uid := fst ids, st_gid := snd ids,
              st_atime := sint access_time sdiv 1000000000,
              st_ctime := sint inode_change_time sdiv 1000000000,
              st_mtime := sint modification_time sdiv 1000000000 \<rparr>))"

text \<open>The values of a file entry, in the order in which they are read.\<close>

definition stat_values ::
  "('h, 'arr, 'cache, 'xarr, 's) mount_file_entry \<Rightarrow> (u64 \<times> u16 \<times> u64 \<times> u64 \<times> u64) result" where
  "stat_values me =
     (case mount_file_entry_get_size (Some me) of
        Inl e \<Rightarrow> Inl RUNTIME_GET_FAILED
      | Inr file_size \<Rightarrow>
     (case mount_file_entry_get_file_mode (Some me) of
        Inl e \<Rightarrow> Inl RUNTIME_GET_FAILED
      | Inr file_mode \<Rightarrow>
     (case mount_file_entry_get_access_time (Some me) of
        Inl e \<Rightarrow> Inl RUNTIME_GET_FAILED
      | Inr access_time \<Rightarrow>
     (case mount_file_entry_get_modification_time (Some me) of
        Inl e \<Rightarrow> Inl RUNTIME_GET_FAILED
      | Inr modification_time \<Rightarrow>
     (case mount_file_entry_get_inode_change_time (Some me) of
        Inl e \<Rightarrow> Inl RUNTIME_GET_FAILED
      | Inr inode_change_time \<Rightarrow>
          Inr (file_size, file_mode, access_time, inode_change_time, modification_time))))))"

text \<open>
  The filler is an operation of FUSE: it adds a name with its stat information to a buffer
  and returns 1 if that fails. The result is the buffer that is left and whether that failed.
\<close>

definition mount_fuse_filldir ::
  "u32 \<times> u32 \<Rightarrow> ('b \<Rightarrow> u8 list \<Rightarrow> stat_info \<Rightarrow> 'b \<times> int) option \<Rightarrow> 'b \<Rightarrow> u8 list \<Rightarrow>
   ('h, 'arr, 'cache, 'xarr, 's) mount_file_entry option \<Rightarrow> 'b \<times> unit result" where
  "mount_fuse_filldir ids filler buffer name file_entry =
     (case filler of
        None \<Rightarrow> (buffer, Inl ARGUMENT_INVALID_VALUE)
      | Some filler \<Rightarrow>
     (case (case file_entry of None \<Rightarrow> Inr (0, 0, 0, 0, 0) | Some me \<Rightarrow> stat_values me) of
        Inl e \<Rightarrow> (buffer, Inl e)
      | Inr (file_size, file_mode, access_time, inode_change_time, modification_time) \<Rightarrow>
     (case mount_fuse_set_stat_info ids (Some stat_zero) file_size file_mode access_time
             inode_change_time modification_time of
        Inl e \<Rightarrow> (buffer, Inl RUNTIME_SET_FAILED)
      | Inr stat_info \<Rightarrow>
          (case filler buffer name stat_info of
             (buffer, result) \<Rightarrow> (buffer, if result = 1 then Inl RUNTIME_SET_FAILED else Inr ())))))"

section \<open>Opening and reading files\<close>

definition mount_fuse_open ::
  "(nat \<Rightarrow> u8) \<Rightarrow> una_ops \<Rightarrow> (u32 \<Rightarrow> nat \<Rightarrow> nat \<Rightarrow> u8 list option) \<Rightarrow>
   ('cache, 'value, 'arr directory) cache_ops \<Rightarrow> ('arr, nat) array_ops \<Rightarrow> ('tarr, node_entry) array_ops \<Rightarrow>
   ('xarr, extent) array_ops \<Rightarrow> 'h bfio_ops \<Rightarrow> ('h, 'arr, 'cache) mount_handle option \<Rightarrow>
   u8 list option \<Rightarrow> ('h, 'arr, 'cache, 'xarr, 's) fuse_file_info option \<Rightarrow>
   (('h, 'arr, 'cache) mount_handle option \<times> ('h, 'arr, 'cache, 'xarr, 's) fuse_file_info option \<times> int) option" where
  "mount_fuse_open junk U put C A T X B mount_handle path file_info =
     (if path = None then Some (mount_handle, file_info, - EINVAL)
      else
        (case file_info of
           None \<Rightarrow> Some (mount_handle, None, - EINVAL)
         | Some fi \<Rightarrow>
             if fi_fh fi \<noteq> None then Some (mount_handle, Some fi, - EINVAL)
             else if fi_flags fi AND 0x03 \<noteq> O_RDONLY then Some (mount_handle, Some fi, - EACCES)
             else
               (case mount_handle_get_file_entry_by_path junk U put C A T X B mount_handle path (fi_fh fi) of
                  None \<Rightarrow> None
                | Some (Inl e) \<Rightarrow> Some (mount_handle, Some fi, - ENOENT)
                | Some (Inr (mh, None)) \<Rightarrow> Some (Some mh, Some fi, - ENOENT)
                | Some (Inr (mh, Some me)) \<Rightarrow> Some (Some mh, Some (fi\<lparr> fi_fh := Some me \<rparr>), 0))))"

text \<open>The file information, the bytes and the result.\<close>

definition mount_fuse_read ::
  "('tarr, node_entry) array_ops \<Rightarrow> ('xarr, extent) array_ops \<Rightarrow> 's stream_ops \<Rightarrow> u8 list option \<Rightarrow> nat \<Rightarrow>
   off64 \<Rightarrow> ('h, 'arr, 'cache, 'xarr, 's) fuse_file_info option \<Rightarrow>
   (('h, 'arr, 'cache, 'xarr, 's) fuse_file_info option \<times> u8 list \<times> int) option" where
  "mount_fuse_read T X S path size0 offset file_info =
     (if path = None then Some (file_info, [], - EINVAL)
      else if size0 > unat INT_MAX then Some (file_info, [], - EINVAL)
      else
        (case file_info of
           None \<Rightarrow> Some (None, [], - EINVAL)
         | Some fi \<Rightarrow>
             if fi_fh fi = None then Some (Some fi, [], - EINVAL)
             else
               (case mount_file_entry_read_buffer_at_offset T X S (fi_fh fi) size0 offset of
                  None \<Rightarrow> None
                | Some (Inl e) \<Rightarrow> Some (Some fi, [], - EIO)
                | Some (Inr (me, bytes)) \<Rightarrow>
                    Some (Some (fi\<lparr> fi_fh := Some me \<rparr>), bytes, int (length bytes)))))"

definition mount_fuse_release ::
  "u8 list option \<Rightarrow> ('h, 'arr, 'cache, 'xarr, 's) fuse_file_info option \<Rightarrow>
   ('h, 'arr, 'cache, 'xarr, 's) fuse_file_info option \<times> int" where
  "mount_fuse_release path file_info =
     (if path = None then (file_info, - EINVAL)
      else
        (case file_info of
           None \<Rightarrow> (None, - EINVAL)
         | Some fi \<Rightarrow> (Some (fi\<lparr> fi_fh := None \<rparr>), 0)))"

section \<open>Directories\<close>

definition mount_fuse_opendir ::
  "(nat \<Rightarrow> u8) \<Rightarrow> una_ops \<Rightarrow> (u32 \<Rightarrow> nat \<Rightarrow> nat \<Rightarrow> u8 list option) \<Rightarrow>
   ('cache, 'value, 'arr directory) cache_ops \<Rightarrow> ('arr, nat) array_ops \<Rightarrow> ('tarr, node_entry) array_ops \<Rightarrow>
   ('xarr, extent) array_ops \<Rightarrow> 'h bfio_ops \<Rightarrow> ('h, 'arr, 'cache) mount_handle option \<Rightarrow>
   u8 list option \<Rightarrow> ('h, 'arr, 'cache, 'xarr, 's) fuse_file_info option \<Rightarrow>
   (('h, 'arr, 'cache) mount_handle option \<times> ('h, 'arr, 'cache, 'xarr, 's) fuse_file_info option \<times> int) option" where
  "mount_fuse_opendir junk U put C A T X B mount_handle path file_info =
     (if path = None then Some (mount_handle, file_info, - EINVAL)
      else
        (case file_info of
           None \<Rightarrow> Some (mount_handle, None, - EINVAL)
         | Some fi \<Rightarrow>
             if fi_fh fi \<noteq> None then Some (mount_handle, Some fi, - EINVAL)
             else
               (case mount_handle_get_file_entry_by_path junk U put C A T X B mount_handle path (fi_fh fi) of
                  None \<Rightarrow> None
                | Some (Inl e) \<Rightarrow> Some (mount_handle, Some fi, - ENOENT)
                | Some (Inr (mh, None)) \<Rightarrow> Some (Some mh, Some fi, - ENOENT)
                | Some (Inr (mh, Some me)) \<Rightarrow> Some (Some mh, Some (fi\<lparr> fi_fh := Some me \<rparr>), 0))))"

text \<open>
  The loop over the sub file entries of the given indexes: the file entry and the buffer that are
  left, and whether an entry failed. The name that the filler takes is the string in the buffer of the
  entry's name.
\<close>

fun fill_sub_file_entries ::
  "(nat \<Rightarrow> u8) \<Rightarrow> una_ops \<Rightarrow> (u32 \<Rightarrow> nat \<Rightarrow> nat \<Rightarrow> u8 list option) \<Rightarrow> ('arr, nat) array_ops \<Rightarrow>
   ('tarr, node_entry) array_ops \<Rightarrow> ('xarr, extent) array_ops \<Rightarrow> u32 \<times> u32 \<Rightarrow>
   ('b \<Rightarrow> u8 list \<Rightarrow> stat_info \<Rightarrow> 'b \<times> int) option \<Rightarrow> int list \<Rightarrow>
   ('h, 'arr, 'cache, 'xarr, 's) mount_file_entry \<Rightarrow> 'b \<Rightarrow>
   (('h, 'arr, 'cache, 'xarr, 's) mount_file_entry \<times> 'b \<times> unit result) option" where
  "fill_sub_file_entries junk U put A T X ids filler [] me buffer = Some (me, buffer, Inr ())"
| "fill_sub_file_entries junk U put A T X ids filler (i # is) me buffer =
     (case mount_file_entry_get_sub_file_entry_by_index junk U put A T X (Some me) i None of
        None \<Rightarrow> None
      | Some (Inl e) \<Rightarrow> Some (me, buffer, Inl RUNTIME_GET_FAILED)
      | Some (Inr (me, sub)) \<Rightarrow>
          (case mount_file_entry_get_name_size (Some sub) of
             Inl e \<Rightarrow> Some (me, buffer, Inl RUNTIME_GET_FAILED)
           | Inr name_size \<Rightarrow>
          (case mount_file_entry_get_name (Some sub) (Some name_size) of
             Inl e \<Rightarrow> Some (me, buffer, Inl RUNTIME_GET_FAILED)
           | Inr name \<Rightarrow>
          (case mount_fuse_filldir ids filler buffer (c_string name) (Some sub) of
             (buffer, Inl e) \<Rightarrow> Some (me, buffer, Inl RUNTIME_SET_FAILED)
           | (buffer, Inr _) \<Rightarrow> fill_sub_file_entries junk U put A T X ids filler is me buffer))))"

text \<open>
  The file information, the buffer of FUSE and the result; the names that were added before an error
  stay in the buffer.
\<close>

definition mount_fuse_readdir ::
  "(nat \<Rightarrow> u8) \<Rightarrow> una_ops \<Rightarrow> (u32 \<Rightarrow> nat \<Rightarrow> nat \<Rightarrow> u8 list option) \<Rightarrow> ('arr, nat) array_ops \<Rightarrow>
   ('tarr, node_entry) array_ops \<Rightarrow> ('xarr, extent) array_ops \<Rightarrow> u32 \<times> u32 \<Rightarrow> u8 list option \<Rightarrow> 'b \<Rightarrow>
   ('b \<Rightarrow> u8 list \<Rightarrow> stat_info \<Rightarrow> 'b \<times> int) option \<Rightarrow> ('h, 'arr, 'cache, 'xarr, 's) fuse_file_info option \<Rightarrow>
   (('h, 'arr, 'cache, 'xarr, 's) fuse_file_info option \<times> 'b \<times> int) option" where
  "mount_fuse_readdir junk U put A T X ids path buffer filler file_info =
     (if path = None then Some (file_info, buffer, - EINVAL)
      else
        (case file_info of
           None \<Rightarrow> Some (None, buffer, - EINVAL)
         | Some fi \<Rightarrow>
        (case fi_fh fi of
           None \<Rightarrow> Some (Some fi, buffer, - EINVAL)
         | Some me \<Rightarrow>
        (case mount_fuse_filldir ids filler buffer [0x2e] (Some me) of
           (buffer, Inl e) \<Rightarrow> Some (Some fi, buffer, - EIO)
         | (buffer, Inr _) \<Rightarrow>
        (case mount_fuse_filldir ids filler buffer [0x2e, 0x2e]
                (None :: ('h, 'arr, 'cache, 'xarr, 's) mount_file_entry option) of
           (buffer, Inl e) \<Rightarrow> Some (Some fi, buffer, - EIO)
         | (buffer, Inr _) \<Rightarrow>
        (case mount_file_entry_get_number_of_sub_file_entries A T (Some me) of
           None \<Rightarrow> None
         | Some (Inl e) \<Rightarrow> Some (Some fi, buffer, - EIO)
         | Some (Inr (me, number_of_sub_file_entries)) \<Rightarrow>
             (case fill_sub_file_entries junk U put A T X ids filler [0..number_of_sub_file_entries - 1] me buffer of
                None \<Rightarrow> None
              | Some (me, buffer, result) \<Rightarrow>
                  Some (Some (fi\<lparr> fi_fh := Some me \<rparr>), buffer, if result = Inr () then 0 else - EIO))))))))"

text \<open>The handle is dropped without being freed.\<close>

definition mount_fuse_releasedir ::
  "u8 list option \<Rightarrow> ('h, 'arr, 'cache, 'xarr, 's) fuse_file_info option \<Rightarrow>
   ('h, 'arr, 'cache, 'xarr, 's) fuse_file_info option \<times> int" where
  "mount_fuse_releasedir path file_info =
     (if path = None then (file_info, - EINVAL)
      else
        (case file_info of
           None \<Rightarrow> (None, - EINVAL)
         | Some fi \<Rightarrow> (Some (fi\<lparr> fi_fh := None \<rparr>), 0)))"

section \<open>Attributes\<close>

text \<open>The local variable of the file entry, which is \<open>NULL\<close> at first, is the last argument.\<close>

definition mount_fuse_getattr ::
  "(nat \<Rightarrow> u8) \<Rightarrow> una_ops \<Rightarrow> (u32 \<Rightarrow> nat \<Rightarrow> nat \<Rightarrow> u8 list option) \<Rightarrow>
   ('cache, 'value, 'arr directory) cache_ops \<Rightarrow> ('arr, nat) array_ops \<Rightarrow> ('tarr, node_entry) array_ops \<Rightarrow>
   ('xarr, extent) array_ops \<Rightarrow> 'h bfio_ops \<Rightarrow> u32 \<times> u32 \<Rightarrow> ('h, 'arr, 'cache) mount_handle option \<Rightarrow>
   u8 list option \<Rightarrow> stat_info option \<Rightarrow> ('h, 'arr, 'cache, 'xarr, 's) mount_file_entry option \<Rightarrow>
   (('h, 'arr, 'cache) mount_handle option \<times> stat_info option \<times> int) option" where
  "mount_fuse_getattr junk U put C A T X B ids mount_handle path stat_info file_entry =
     (if path = None then Some (mount_handle, stat_info, - EINVAL)
      else if stat_info = None then Some (mount_handle, None, - EINVAL)
      else
        (case mount_handle_get_file_entry_by_path junk U put C A T X B mount_handle path file_entry of
           None \<Rightarrow> None
         | Some (Inl e) \<Rightarrow> Some (mount_handle, Some stat_zero, - ENOENT)
         | Some (Inr (mh, None)) \<Rightarrow> Some (Some mh, Some stat_zero, - ENOENT)
         | Some (Inr (mh, Some me)) \<Rightarrow>
             (case stat_values me of
                Inl e \<Rightarrow> Some (Some mh, Some stat_zero, - EIO)
              | Inr (file_size, file_mode, access_time, inode_change_time, modification_time) \<Rightarrow>
                  (case mount_fuse_set_stat_info ids (Some stat_zero) file_size file_mode access_time
                          inode_change_time modification_time of
                     Inl e \<Rightarrow> Some (Some mh, Some stat_zero, - EIO)
                   | Inr stat_info \<Rightarrow> Some (Some mh, Some stat_info, 0)))))"

section \<open>The root directory\<close>

lemma root_path:
  assumes U: "utf8_coding valid enc U put"
  shows "mount_path_string_copy_to_file_entry_path junk U put (Some [0x2f, 0]) 1 = Some (Inr ([0x5c, 0], 2))"
proof -
  have a: "valid 0x2f" "enc 0x2f = [0x2f]" "valid 0x5c" "enc 0x5c = [0x5c]"
    using utf8_ascii [OF U, of "0x2f"] utf8_ascii [OF U, of "0x5c"] by simp_all
  have "una_from_utf8 U [0x2f, 0] (Suc 0) 0 = Some (0x2f, Suc 0)"
    using utf8_decode [OF U a(1), of "[]" 1 "[0]"] a(2) by simp
  moreover have "put 0x5c (Suc (Suc 0)) 0 = Some [0x5c]"
    using utf8_encode [OF U a(3), of 0 2] a(4) by (simp add: numeral_2_eq_2)
  ultimately have "unescape_characters (una_from_utf8 U [0x2f, 0] (Suc 0)) put [0x2f, 0] (Suc 0) (Suc (Suc 0)) 0 [] =
      Some (Inr [0x5c])"
    by (subst unescape_characters.simps, subst unescape_characters.simps)
      (simp add: unescaped_character_def LIBCPATH_SEPARATOR_def)
  then show ?thesis
    by (simp add: mount_path_string_copy_to_file_entry_path_def SSIZE_MAX_def LIBCPATH_SEPARATOR_def string_buffer_def
        numeral_2_eq_2)
qed

lemma root_file_entry:
  fixes X :: "('xarr, extent) array_ops"
  assumes "utf8_coding valid enc U put" and "array_contract X xview"
    and "mh_file_system mh = Some mfs" "mfs_fsfat_volume mfs = Some v" "vol_file_system v = Some fs"
    and "fs_io_handle fs = Some io"
  obtains me and fe :: "('arr, 'cache, 'xarr, 's) file_entry" where
    "mount_handle_get_file_entry_by_path junk U put C A T X B (Some mh) (Some [0x2f]) None = Some (Inr (mh, Some me))"
    and "me_fsfat_file_entry me = Some fe" and "fe_directory_entry fe = None"
proof -
  obtain extents where extents: "array_initialize X 0 = Some extents"
    by (rule array_init [OF assms(2), of 0]) simp_all
  have same: "mfs\<lparr> mfs_fsfat_volume := Some (v\<lparr> vol_file_system := Some fs \<rparr>) \<rparr> = mfs"
      "mh\<lparr> mh_file_system := Some mfs \<rparr> = mh"
    using assms(3-5) by simp_all
  obtain fe :: "('arr, 'cache, 'xarr, 's) file_entry" where
    "mount_file_system_get_file_entry_by_path junk U put C A T X B (Some mfs) (Some [0x2f, 0]) 1 None =
      Some (Inr (mfs\<lparr> mfs_fsfat_volume := Some (v\<lparr> vol_file_system := Some fs \<rparr>) \<rparr>, True, fe))"
    and fe: "fe_directory_entry fe = None"
    using root_path [OF assms(1), of junk] extents assms(4-6)
    by (simp add: mount_file_system_get_file_entry_by_path_def c_string_def
        libfsfat_volume_get_file_entry_by_utf8_path_def libfsfat_file_system_get_file_entry_by_utf8_path_def
        file_entry_by_path_def SSIZE_MAX_def path_file_entry_def libfsfat_file_entry_initialize_def
        directory_entry_values_def)
  then have "mount_handle_get_file_entry_by_path junk U put C A T X B (Some mh) (Some [0x2f]) None =
      Some (Inr (mh, Some \<lparr> me_file_system = mfs, me_name = Some [0], me_name_size = 1, me_fsfat_file_entry = Some fe \<rparr>))"
    using assms(3) same
    by (simp add: mount_handle_get_file_entry_by_path_def Let_def LIBCPATH_SEPARATOR_def mount_file_entry_initialize_def)
  then show ?thesis using that fe by simp
qed

lemma stat_values_root:
  assumes "me_fsfat_file_entry me = Some fe" and "fe_directory_entry fe = None"
  shows "stat_values me = Inl RUNTIME_GET_FAILED"
  using assms
  by (simp add: stat_values_def mount_file_entry_get_size_def mount_file_entry_get_file_mode_def
      mount_file_entry_get_access_time_def mount_file_entry_time_def libfsfat_file_entry_get_access_time_def
      directory_entry_value_def libfsfat_file_entry_get_size_def)

text \<open>
  The root of the mounted file system cannot be used. It can be opened, but its attributes
  and its listing need its times, and the root directory has no directory entry that holds
  them: both operations fail with an input/output error, whatever the volume holds.
\<close>
theorem mount_fuse_root_fails:
  fixes X :: "('xarr, extent) array_ops" and fi :: "('h, 'arr, 'cache, 'xarr, 's) fuse_file_info"
  assumes "utf8_coding valid enc U put" and "array_contract X xview"
    and "mh_file_system mh = Some mfs" "mfs_fsfat_volume mfs = Some v" "vol_file_system v = Some fs"
    and "fs_io_handle fs = Some io" and "fi_fh fi = None"
  shows "mount_fuse_getattr junk U put C A T X B ids (Some mh) (Some [0x2f]) (Some st)
      (None :: ('h, 'arr, 'cache, 'xarr, 's) mount_file_entry option) = Some (Some mh, Some stat_zero, - EIO) \<and>
    (\<exists>fi'. mount_fuse_opendir junk U put C A T X B (Some mh) (Some [0x2f]) (Some fi) = Some (Some mh, Some fi', 0) \<and>
       mount_fuse_readdir junk U put A T X ids (Some [0x2f]) b (Some filler) (Some fi') = Some (Some fi', b, - EIO))"
proof -
  obtain me and fe :: "('arr, 'cache, 'xarr, 's) file_entry" where
    me: "mount_handle_get_file_entry_by_path junk U put C A T X B (Some mh) (Some [0x2f]) None = Some (Inr (mh, Some me))"
    and fe: "me_fsfat_file_entry me = Some fe" "fe_directory_entry fe = None"
    by (rule root_file_entry [OF assms(1-6), where junk = junk and C = C and A = A and T = T and B = B])
  have stat: "stat_values me = Inl RUNTIME_GET_FAILED" by (rule stat_values_root [OF fe])
  have "mount_fuse_getattr junk U put C A T X B ids (Some mh) (Some [0x2f]) (Some st)
      (None :: ('h, 'arr, 'cache, 'xarr, 's) mount_file_entry option) = Some (Some mh, Some stat_zero, - EIO)"
    by (simp add: mount_fuse_getattr_def me stat)
  moreover have "mount_fuse_opendir junk U put C A T X B (Some mh) (Some [0x2f]) (Some fi) =
      Some (Some mh, Some (fi\<lparr> fi_fh := Some me \<rparr>), 0)"
    by (simp add: mount_fuse_opendir_def me assms(7))
  moreover have "mount_fuse_readdir junk U put A T X ids (Some [0x2f]) b (Some filler) (Some (fi\<lparr> fi_fh := Some me \<rparr>)) =
      Some (Some (fi\<lparr> fi_fh := Some me \<rparr>), b, - EIO)"
    by (simp add: mount_fuse_readdir_def mount_fuse_filldir_def stat)
  ultimately show ?thesis by blast
qed

section \<open>The attributes of files\<close>

lemma stat_values_entry:
  assumes "me_fsfat_file_entry me = Some fe" and "fe_directory_entry fe \<noteq> None"
  obtains access_time inode_change_time modification_time where
    "stat_values me = Inr (fe_data_size fe, 0x8124, access_time, inode_change_time, modification_time)"
proof -
  obtain de where de: "fe_directory_entry fe = Some de" using assms(2) by blast
  have "\<exists>a c m. stat_values me = Inr (fe_data_size fe, 0x8124, a, c, m)"
    using assms(1) de
    by (simp add: stat_values_def mount_file_entry_get_size_def mount_file_entry_get_file_mode_def
        mount_file_entry_get_access_time_def mount_file_entry_time_def libfsfat_file_entry_get_access_time_def
        mount_file_entry_get_modification_time_def libfsfat_file_entry_get_modification_time_def
        mount_file_entry_get_inode_change_time_def mount_file_system_get_mounted_timestamp_def
        directory_entry_value_def libfsfat_file_entry_get_size_def libfsfat_directory_entry_get_access_time_def
        libfsfat_directory_entry_get_modification_time_def libfsfat_date_time_get_timestamp_def Let_def S_IFREG_def)
  then show ?thesis using that by blast
qed

text \<open>
  Every directory entry is mounted as a regular file. If a path of escaped names resolves
  to a directory entry, its attributes are those of a regular file with one link that all may
  read, of the size of the entry, also if the entry is a directory; a size that is no signed
  64-bit value is an input/output error.
\<close>
theorem mount_fuse_getattr_resolves:
  fixes X :: "('xarr, extent) array_ops"
  assumes "utf8_coding valid enc U put" and "array_contract A view" and "array_contract X xview"
    and "[] \<notin> set (names @ [cs])" "\<forall>c \<in> set (concat (names @ [cs])). valid c \<and> c \<noteq> 0 \<and> c \<noteq> 0x5c"
    and "length (library_path enc (names @ [cs])) \<le> (SSIZE_MAX - 1) div 10"
    and "mh_file_system mh = Some mfs" "mfs_fsfat_volume mfs = Some v" "vol_file_system v = Some fs"
    and "fs_root_directory fs = Some d" "fs_io_handle fs = Some io"
    and "resolves U C A view T (volume_bfio B v) fs d (names @ [cs]) fs' d' (Some address)"
    and "dir_store d' address = Some de"
    and "file_size = (if de_valid_data_size de > 0 then de_valid_data_size de else de_data_size de)"
  shows "\<exists>mh' st' r. mount_fuse_getattr junk U put C A T X B ids (Some mh) (Some (shown_path enc (names @ [cs])))
        (Some st) (None :: ('h, 'arr, 'cache, 'xarr, 's) mount_file_entry option) = Some (Some mh', Some st', r) \<and>
      (if file_size \<le> INT64_MAX
       then r = 0 \<and> st_size st' = file_size \<and> st_mode st' = 0x8124 \<and> st_nlink st' = 1
       else r = - EIO)"
proof -
  obtain mh' me and fe :: "('arr, 'cache, 'xarr, 's) file_entry" where
    me: "mount_handle_get_file_entry_by_path junk U put C A T X B (Some mh) (Some (shown_path enc (names @ [cs]))) None =
      Some (Inr (mh', Some me))"
    and fe: "me_fsfat_file_entry me = Some fe" "path_entry io d' (Some address) fe"
    using path_resolves [OF assms(1-12), of junk] by (auto simp del: not_None_eq)
  have entry: "fe_directory_entry fe \<noteq> None" "fe_data_size fe = file_size"
    using fe(2) assms(13,14) by (auto simp: path_entry_def shows_entry_def)
  obtain a c m where stat: "stat_values me = Inr (file_size, 0x8124, a, c, m)"
    by (rule stat_values_entry [OF fe(1) entry(1)]) (use entry(2) in blast)
  show ?thesis
    by (cases "file_size \<le> INT64_MAX") (simp_all add: mount_fuse_getattr_def me stat mount_fuse_set_stat_info_def not_le [symmetric])
qed

section \<open>Reading files\<close>

text \<open>
  A mounted file reads as its content: for a file whose clusters lie in order in the volume,
  reading at an offset gives the bytes of the chain of clusters, cut to the size of the file,
  from that offset on, and their number; a request of more than 2 ^ 31 - 1 bytes is an error.
\<close>
theorem mount_fuse_read_content:
  fixes fi :: "('h, 'arr, 'cache, 'xarr, 's) fuse_file_info"
  assumes "array_contract X xview" and "array_contract T tview" and "stream_contract S view"
    and "file_on_volume img io fs (fe_cluster_number fe) cs" and "fe_file_system fe = Some fs"
    and "fe_cluster_block_stream fe = None" and "xview (fe_data_extents_array fe) = []"
    and "fe_file_io_handle fe = image_bfio img"
    and "\<not> unsupported_file_attribute_flags (fe_file_attribute_flags fe)" and "unat offset < 2 ^ 63"
    and "fi_fh fi = Some me" "me_fsfat_file_entry me = Some fe"
    and "content = take n (drop (unat offset) (file_content img io cs (fe_data_size fe)))"
  shows "if n < 2 ^ 31
    then \<exists>fi'. mount_fuse_read T X S (Some path) n offset (Some fi) = Some (Some fi', content, int (length content))
    else mount_fuse_read T X S (Some path) n offset (Some fi) = Some (Some fi, [], - EINVAL)"
proof -
  obtain fe' where "libfsfat_file_entry_read_buffer_at_offset T X S (Some fe) n offset = Some (Inr (fe', content))"
    using read_at_offset_content [OF assms(1-10), of n] unfolding assms(13) by blast
  then show ?thesis
    using assms(11,12)
    by (simp add: mount_fuse_read_def mount_file_entry_read_buffer_at_offset_def INT_MAX_def)
qed

section \<open>Listing directories\<close>






section \<open>Concrete mounts\<close>

definition example_file_info :: "(bool, nat option list, unit, extent option list, stream_state) fuse_file_info" where
  "example_file_info = \<lparr> fi_flags = 0, fi_fh = None \<rparr>"

lemma mount_fuse_root_fails_witness:
  "mount_fuse_getattr (\<lambda>_. 0) ascii_una ascii_put no_cache list_array
     (list_array :: (node_entry option list, node_entry) array_ops)
     (list_array :: (extent option list, extent) array_ops) broken_file (0, 0) (Some example_mount_handle)
     (Some [0x2f]) (Some stat_zero)
     (None :: (bool, nat option list, unit, extent option list, stream_state) mount_file_entry option) =
   Some (Some example_mount_handle, Some stat_zero, - 5)"
proof -
  have "mh_file_system example_mount_handle = Some (example_mount\<lparr> mfs_fsfat_volume := Some example_mounted_volume \<rparr>)"
    "vol_file_system example_mounted_volume = Some path_witness_fs"
    "fs_io_handle path_witness_fs = Some io_handle_zero" "fi_fh example_file_info = None"
    by (simp_all add: example_mount_handle_def example_mounted_volume_def path_witness_fs_def example_file_info_def)
  from mount_fuse_root_fails [OF ascii_coding list_array_contract this(1) _ this(2,3,4), of "\<lambda>_. 0" no_cache list_array
      "list_array :: (node_entry option list, node_entry) array_ops" broken_file "(0, 0)" stat_zero, THEN conjunct1]
  show ?thesis by (simp add: EIO_def)
qed

lemma mount_fuse_getattr_resolves_witness:
  "\<exists>mh st. mount_fuse_getattr (\<lambda>_. 0) ascii_una ascii_put no_cache list_array
     (list_array :: (node_entry option list, node_entry) array_ops)
     (list_array :: (extent option list, extent) array_ops) broken_file (0, 0) (Some example_mount_handle)
     (Some (shown_path (\<lambda>c. [ucast c]) [[0x61]])) (Some stat_zero)
     (None :: (bool, nat option list, unit, extent option list, stream_state) mount_file_entry option) =
   Some (Some mh, Some st, 0) \<and> st_mode st = 0x8124"
proof -
  let ?d = "example_directory [Some 0]"
  let ?bfio = "volume_bfio broken_file example_mounted_volume"
  have names: "list_all2 (stored_name ascii_una list_array ?d) (dir_file_entries_array ?d) [(0, [0x41])]"
    by (simp add: stored_name_def example_directory_def example_file_name)
  have found: "List.find (same_name ascii_una [0x61]) [(0, [0x41])] = Some (0, [0x41])"
    by (simp add: same_name_def ascii_una_def)
  have resolves: "resolves ascii_una no_cache list_array (\<lambda>a. a)
      (list_array :: (node_entry option list, node_entry) array_ops) ?bfio path_witness_fs ?d
      ([] @ [[0x61]]) path_witness_fs ?d (Some (fst (0 :: nat, [0x41 :: u32])))"
    using resolves_found [where view = "\<lambda>a. a", OF names found] by simp
  have fs: "fs_root_directory path_witness_fs = Some ?d" "fs_io_handle path_witness_fs = Some io_handle_zero"
    by (simp_all add: path_witness_fs_def)
  have mh: "mh_file_system example_mount_handle = Some (example_mount\<lparr> mfs_fsfat_volume := Some example_mounted_volume \<rparr>)"
    by (simp add: example_mount_handle_def)
  have v: "vol_file_system example_mounted_volume = Some path_witness_fs"
    by (simp add: example_mounted_volume_def)
  have de: "dir_store ?d (fst (0 :: nat, [0x41 :: u32])) = Some example_file"
    by (simp add: example_directory_def)
  have "de_data_size example_file = 0" "de_valid_data_size example_file = 0"
    by (simp_all add: example_file_def directory_entry_zero_def)
  with mount_fuse_getattr_resolves [OF ascii_coding list_array_contract list_array_contract _ _ _ mh _ v fs resolves de refl,
      of "\<lambda>_. 0" "(0, 0)"] show ?thesis
    by (simp add: SSIZE_MAX_def INT64_MAX_def) blast
qed

lemma mount_fuse_read_content_witness:
  "\<exists>fi. mount_fuse_read list_array list_array list_stream (Some [0x2f, 0x41]) 8 60
     (Some (example_file_info\<lparr> fi_fh := Some (example_mounted witness_file) \<rparr>)) =
   Some (Some fi, [92, 93, 94, 95, 128, 129, 130, 131], 8)"
proof -
  have fe: "fe_file_system witness_file = Some (stream_witness_fs [0, 0, 3, 5, 0, 0xffff])"
    "fe_cluster_block_stream witness_file = None" "fe_data_extents_array witness_file = []"
    "fe_file_io_handle witness_file = image_bfio (map of_nat [0..<256])" "fe_data_size witness_file = 80"
    "\<not> unsupported_file_attribute_flags (fe_file_attribute_flags witness_file)"
    by (simp_all add: witness_file_def unsupported_file_attribute_flags_def)
  have "me_fsfat_file_entry (example_mounted witness_file) = Some witness_file" by (simp add: example_mounted_def)
  from mount_fuse_read_content [OF list_array_contract list_array_contract list_stream_contract
      witness_file_on_volume fe(1-4,6) _ _ this refl,
      of 60 "example_file_info\<lparr> fi_fh := Some (example_mounted witness_file) \<rparr>" 8 "[0x2f, 0x41]"]
  show ?thesis using witness_file_content fe(5) by simp
qed


end
