(* ===== verification/File_Identifier.thy ===== *)
theory File_Identifier
  imports File_Path
begin

text \<open>
  What the lookup of a file entry by its identifier, the offset of its directory entry, gives
  on a concrete volume: the entry of FAT that is meant, and an error for every usual entry
  of exFAT.
\<close>

section \<open>Reading the entry at an offset\<close>

text \<open>The directory entry of an image at an offset, with its type.\<close>

definition entry_at :: "u8 list \<Rightarrow> off64 \<Rightarrow> file_system_format \<Rightarrow> directory_entry_type \<Rightarrow> bool" where
  "entry_at img offset fmt type \<longleftrightarrow>
     unat offset + 32 \<le> length img \<and> length img < 2 ^ 62 \<and>
     determine_entry_type (take 32 (drop (unat offset) img)) fmt = type"

lemma image_bfio_entry:
  assumes "entry_at img offset fmt type"
  shows "image_bfio img offset 32 = Some (take 32 (drop (unat offset) img))"
    and "length (take 32 (drop (unat offset) img)) = 32"
proof -
  have "unat offset < 2 ^ 63" using assms by (simp add: entry_at_def)
  then have "\<not> offset <s 0" by (simp add: sless_unat)
  then show "image_bfio img offset 32 = Some (take 32 (drop (unat offset) img))"
    by (simp add: image_bfio_def)
  show "length (take 32 (drop (unat offset) img)) = 32" using assms by (auto simp: entry_at_def min_def)
qed

lemma read_entry_at:
  assumes "entry_at img offset fmt type"
  shows "libfsfat_directory_entry_read_file_io_handle (image_bfio img) (Some de) offset fmt =
    (case libfsfat_directory_entry_read_data (Some de) (Some (take 32 (drop (unat offset) img))) fmt of
       Inl e \<Rightarrow> Inl IO_READ_FAILED
     | Inr r \<Rightarrow> Inr r)"
  using image_bfio_entry [OF assms] by (simp add: libfsfat_directory_entry_read_file_io_handle_def)

lemma read_short_name_at:
  assumes "entry_at img offset fmt TYPE_SHORT_NAME"
  shows "libfsfat_directory_entry_read_file_io_handle (image_bfio img) (Some de) offset fmt =
    Inr (read_short_name (take 32 (drop (unat offset) img)) (de\<lparr> de_entry_type := TYPE_SHORT_NAME \<rparr>), True)"
proof -
  have "determine_entry_type (take 32 (drop (unat offset) img)) fmt = TYPE_SHORT_NAME"
    using assms by (simp add: entry_at_def)
  then show ?thesis
    using image_bfio_entry(2) [OF assms]
    by (simp add: read_entry_at [OF assms] libfsfat_directory_entry_read_data_def)
qed

lemma read_short_name_type [simp]: "de_entry_type (read_short_name data de) = de_entry_type de"
  by (simp add: read_short_name_def copy_name_data_def)

lemma block_bound: "(a::nat) \<le> n \<Longrightarrow> n < 2 ^ 62 \<Longrightarrow> k \<le> 2 ^ 37 \<Longrightarrow> a + k < 2 ^ 63"
  by simp

text \<open>The offsets of the cluster block of an identifier that the code computes.\<close>

lemma identifier_block:
  fixes ident size0 :: u64
  assumes "unat ident < 2 ^ 62" and "0 < unat size0" and "unat size0 \<le> 2 ^ 37"
    and "unat ident div unat size0 + 2 < 2 ^ 32"
  defines "c \<equiv> ucast (ident div size0) :: u32"
  shows "unat c = unat ident div unat size0" and "unat (c + 2) = unat ident div unat size0 + 2"
    and "unat (ucast c * size0 + size0 :: u64) =
      unat ident div unat size0 * unat size0 + unat size0"
proof -
  let ?q = "unat ident div unat size0"
  have q: "unat (ident div size0) = ?q" by (simp add: unat_div)
  then show c: "unat c = ?q" using assms(4) by (simp add: c_def unsigned_ucast_eq take_bit_nat_eq_self)
  show "unat (c + 2) = ?q + 2" using c assms(4) by (simp add: unat_word_ariths)
  have le: "?q * unat size0 \<le> unat ident" by simp
  have bound: "?q * unat size0 + unat size0 < 2 ^ 63" by (rule block_bound [OF le assms(1,3)])
  have "unat (ucast c * size0 :: u64) = ?q * unat size0"
    using c order_le_less_trans [OF le, of "2 ^ 64"] assms(1) by (subst unat_mult_exact) (simp_all add: unat_ucast_up)
  then show "unat (ucast c * size0 + size0 :: u64) = ?q * unat size0 + unat size0"
    using bound by (subst unat_add_exact) simp_all
qed

section \<open>Entries of FAT\<close>

text \<open>
  An identifier behind the first cluster block of the volume, as the code counts the blocks.
\<close>

definition identifier_in_volume :: "io_handle \<Rightarrow> u64 \<Rightarrow> bool" where
  "identifier_in_volume io ident \<longleftrightarrow>
     ident \<noteq> io_root_directory_offset io \<and>
     0 < unat (io_cluster_block_size io) \<and> unat (io_cluster_block_size io) \<le> 2 ^ 37 \<and>
     unat (io_cluster_block_size io) \<le> unat ident \<and>
     unat ident div unat (io_cluster_block_size io) + 2 < 2 ^ 32"

text \<open>
  The file entry of the identifier of a short name entry that has another short name
  entry in front of it is the entry at that offset: it shows the flags, the first cluster and
  the size that are stored there.
\<close>

theorem file_entry_of_identifier:
  assumes "array_contract A view" and "array_contract X xview" and "fs_io_handle fs = Some io"
    and "entry_at img ident (io_file_system_format io) TYPE_SHORT_NAME"
    and "entry_at img (ident - 32) (io_file_system_format io) TYPE_SHORT_NAME"
    and "32 \<le> unat ident" and "identifier_in_volume io ident"
  shows "\<exists>fe. libfsfat_file_system_get_file_entry_by_identifier A X (Some fs) (image_bfio img) ident None =
      Some (Inr fe) \<and>
    shows_entry fe ((read_short_name (take 32 (drop (unat ident) img)) directory_entry_zero)\<lparr> de_identifier := ident \<rparr>)"
proof -
  let ?fmt = "io_file_system_format io" and ?size = "io_cluster_block_size io"
  let ?data = "take 32 (drop (unat ident) img)"
  let ?de = "(read_short_name ?data (directory_entry_zero\<lparr> de_entry_type := TYPE_SHORT_NAME \<rparr>))\<lparr> de_identifier := ident \<rparr>"
  let ?c = "ucast (ident div ?size) :: u32" and ?q = "unat ident div unat ?size"
  have small: "unat ident < 2 ^ 62" using assms(4) by (simp add: entry_at_def)
  have io: "0 < unat ?size" "unat ?size \<le> 2 ^ 37" "unat ?size \<le> unat ident" "?q + 2 < 2 ^ 32"
    using assms(7) by (simp_all add: identifier_in_volume_def)
  note block = identifier_block [OF small io(1,2,4)]
  have "1 \<le> ?q" using io(1,3) by (simp add: div_greater_zero_iff Suc_le_eq)
  then have number: "?c + 2 > 2" using block(2) by (simp add: word_less_nat_alt)
  have before: "unat (ident - 32) = unat ident - 32" using assms(6) by (simp add: unat_sub word_le_nat_alt)
  have inside: "unat ident < ?q * unat ?size + unat ?size"
    using div_mult_mod_eq [of "unat ident" "unat ?size"] mod_less_divisor [OF io(1), of "unat ident"] by linarith
  have le: "?q * unat ?size \<le> unat ident" by simp
  have bound: "?q * unat ?size + unat ?size < 2 ^ 63" by (rule block_bound [OF le small io(2)])
  have order: "ident - 32 \<le>s ucast ?c * ?size + ?size"
  proof -
    have "\<not> ucast ?c * ?size + ?size <s ident - 32"
      using inside bound small before block(3) by (subst sless_unat) simp_all
    then show ?thesis by (simp add: signed.not_less)
  qed
  have stop: "read_entries_backward A (image_bfio img) ?fmt (ident - 32) (ucast ?c * ?size + ?size) True st =
      Some (Inr (st, False))" for st
    using order
    by (subst read_entries_backward.simps)
      (simp add: libfsfat_directory_entry_initialize_def read_short_name_at [OF assms(5)])
  have walk: "read_clusters_backward A fs io (image_bfio img) (?c + 2) (ident - 32) (ucast ?c * ?size + ?size)
      True st = Some (Inr st)" for st
    using number by (subst read_clusters_backward.simps) (simp add: stop)
  obtain names where names: "array_initialize A 0 = Some names"
    by (rule array_init [OF assms(1), of 0]) simp_all
  have size: "?size \<noteq> 0" using io(1) by auto
  have read: "libfsfat_file_system_read_directory_entry_by_identifier A (Some fs) (image_bfio img) ident =
      Some (Inr (Some ?de))"
    using assms(3) names size
    by (simp add: read_short_name_at [OF assms(4)] libfsfat_file_system_read_directory_entry_by_identifier_def walk Let_def
      libfsfat_directory_entry_initialize_def)
  obtain extents where "array_initialize X 0 = Some extents"
    by (rule array_init [OF assms(2), of 0]) simp_all
  then show ?thesis
    using assms(3,7) read
    by (simp add: libfsfat_file_system_get_file_entry_by_identifier_def identifier_in_volume_def
      libfsfat_file_entry_initialize_def directory_entry_values_def shows_entry_def
      libfsfat_directory_entry_get_file_attribute_flags_def libfsfat_directory_entry_get_data_start_cluster_def
      libfsfat_directory_entry_get_data_size_def libfsfat_directory_entry_get_valid_data_size_def
      read_short_name_def copy_name_data_def)
qed

section \<open>Entries of exFAT\<close>

lemma read_exfat_entry_at:
  assumes "entry_at img offset FORMAT_EXFAT type" and "type = TYPE_EXFAT_FILE_ENTRY \<or> type = TYPE_EXFAT_DATA_STREAM"
  obtains de' where "libfsfat_directory_entry_read_file_io_handle (image_bfio img) (Some de) offset FORMAT_EXFAT =
    Inr (de', True)" and "de_entry_type de' = type"
proof -
  have "determine_entry_type (take 32 (drop (unat offset) img)) FORMAT_EXFAT = type"
    using assms(1) by (simp add: entry_at_def)
  then have "\<exists>de'. libfsfat_directory_entry_read_file_io_handle (image_bfio img) (Some de) offset FORMAT_EXFAT =
      Inr (de', True) \<and> de_entry_type de' = type"
    using assms(2) image_bfio_entry(2) [OF assms(1)]
    by (auto simp: read_entry_at [OF assms(1)] libfsfat_directory_entry_read_data_def
      read_exfat_data_stream_def read_exfat_file_entry_def Let_def)
  then show ?thesis using that by blast
qed

text \<open>
  No exFAT file can be opened by its identifier: when the entry at the offset is a file
  entry with its data stream behind it, and the data stream is not the last entry of the
  cluster block, the lookup is an error, because the variable for the next entry is not
  cleared after the data stream.
\<close>

theorem file_entry_of_exfat_identifier:
  fixes A :: "('arr, nat) array_ops"
  assumes "array_contract A view" and "fs_io_handle fs = Some io" and "io_file_system_format io = FORMAT_EXFAT"
    and "entry_at img ident FORMAT_EXFAT TYPE_EXFAT_FILE_ENTRY"
    and "entry_at img (ident + 32) FORMAT_EXFAT TYPE_EXFAT_DATA_STREAM"
    and "identifier_in_volume io ident"
    and "unat ident mod unat (io_cluster_block_size io) + 64 < unat (io_cluster_block_size io)"
  shows "libfsfat_file_system_get_file_entry_by_identifier A X (Some fs) (image_bfio img) ident None =
    Some (Inl IO_READ_FAILED)"
proof -
  let ?size = "io_cluster_block_size io"
  let ?c = "ucast (ident div ?size) :: u32" and ?q = "unat ident div unat ?size"
  let ?finish = "ucast ?c * ?size + ?size"
  have small: "unat ident < 2 ^ 62" using assms(4) by (simp add: entry_at_def)
  have io: "0 < unat ?size" "unat ?size \<le> 2 ^ 37" "?q + 2 < 2 ^ 32"
    using assms(6) by (simp_all add: identifier_in_volume_def)
  note block = identifier_block [OF small io]
  have inside: "unat ident + 64 < ?q * unat ?size + unat ?size"
    using assms(7) div_mult_mod_eq [of "unat ident" "unat ?size"] by linarith
  have le: "?q * unat ?size \<le> unat ident" by simp
  have bound: "?q * unat ?size + unat ?size < 2 ^ 63" by (rule block_bound [OF le small io(2)])
  have next_offsets: "unat (ident + 32) = unat ident + 32" "unat (64 + ident) = unat ident + 64"
    using small by (simp_all add: unat_add_exact)
  have order: "ident + 32 <s ?finish" "64 + ident <s ?finish"
    using inside bound small next_offsets block(3) by (simp_all add: sless_unat)
  obtain de where de: "libfsfat_directory_entry_read_file_io_handle (image_bfio img) (Some (directory_entry_zero :: 'arr directory_entry))
      ident FORMAT_EXFAT = Inr (de, True)" "de_entry_type de = TYPE_EXFAT_FILE_ENTRY"
    by (rule read_exfat_entry_at [OF assms(4)]) blast
  obtain stream where stream: "libfsfat_directory_entry_read_file_io_handle (image_bfio img)
      (Some (directory_entry_zero :: 'arr directory_entry)) (ident + 32) FORMAT_EXFAT = Inr (stream, True)"
      "de_entry_type stream = TYPE_EXFAT_DATA_STREAM"
    by (rule read_exfat_entry_at [OF assms(5)]) blast
  have stuck: "read_entries_forward A (image_bfio img) FORMAT_EXFAT (64 + ident) ?finish True st =
      Some (Inl RUNTIME_INITIALIZE_FAILED)" if "ir_safe_directory_entry st" for st
    using order(2) that by (subst read_entries_forward.simps) simp
  have forward: "read_entries_forward A (image_bfio img) FORMAT_EXFAT (ident + 32) ?finish True st =
      Some (Inl RUNTIME_INITIALIZE_FAILED)"
    if "\<not> ir_safe_directory_entry st" "\<not> ir_has_data_stream_entry st" for st
    using order(1) that stream
    by (subst read_entries_forward.simps) (simp add: libfsfat_directory_entry_initialize_def stuck)
  have walk: "read_clusters_forward A fs io (image_bfio img) (?c + 2) (ident + 32) ?finish True st =
      Some (Inl RUNTIME_INITIALIZE_FAILED)"
    if "\<not> ir_safe_directory_entry st" "\<not> ir_has_data_stream_entry st" for st
    by (subst read_clusters_forward.simps) (simp add: forward that assms(3))
  obtain names where names: "array_initialize A 0 = Some names"
    by (rule array_init [OF assms(1), of 0]) simp_all
  have size: "?size \<noteq> 0" using io(1) by auto
  have "libfsfat_file_system_read_directory_entry_by_identifier A (Some fs) (image_bfio img) ident =
      Some (Inl RUNTIME_INITIALIZE_FAILED)"
    using assms(2,3) names size de
    by (simp add: libfsfat_file_system_read_directory_entry_by_identifier_def walk Let_def
      libfsfat_directory_entry_initialize_def)
  then show ?thesis
    using assms(2,6)
    by (simp add: libfsfat_file_system_get_file_entry_by_identifier_def identifier_in_volume_def)
qed

section \<open>Concrete volumes\<close>

definition short_names_image :: "u8 list" where
  "short_names_image = replicate 96 0x61"

definition exfat_image :: "u8 list" where
  "exfat_image = replicate 128 0 @ 0x85 # replicate 31 0 @ 0xc0 # replicate 31 0"

definition identifier_witness_io :: "file_system_format \<Rightarrow> u64 \<Rightarrow> io_handle" where
  "identifier_witness_io fmt size0 =
     io_handle_zero\<lparr> io_file_system_format := fmt, io_cluster_block_size := size0 \<rparr>"

definition identifier_witness_fs :: "file_system_format \<Rightarrow> u64 \<Rightarrow> (nat option list, unit) file_system" where
  "identifier_witness_fs fmt size0 = path_witness_fs\<lparr> fs_io_handle := Some (identifier_witness_io fmt size0) \<rparr>"

lemma identifier_witness:
  "fs_io_handle (identifier_witness_fs fmt n) = Some (identifier_witness_io fmt n)"
  "io_file_system_format (identifier_witness_io fmt n) = fmt"
  "io_cluster_block_size (identifier_witness_io fmt n) = n"
  "identifier_in_volume (identifier_witness_io fmt 32) 64"
  "identifier_in_volume (identifier_witness_io fmt 128) 128"
  by (simp_all add: identifier_witness_fs_def identifier_witness_io_def io_handle_zero_def identifier_in_volume_def)

lemma images_entries:
  "entry_at short_names_image 64 FORMAT_FAT16 TYPE_SHORT_NAME"
  "entry_at short_names_image 32 FORMAT_FAT16 TYPE_SHORT_NAME"
  "entry_at exfat_image 128 FORMAT_EXFAT TYPE_EXFAT_FILE_ENTRY"
  "entry_at exfat_image 160 FORMAT_EXFAT TYPE_EXFAT_DATA_STREAM"
  by (simp_all add: entry_at_def short_names_image_def exfat_image_def determine_entry_type_def)

theorem file_entry_of_identifier_witness:
  "\<exists>fe. libfsfat_file_system_get_file_entry_by_identifier list_array list_array
     (Some (identifier_witness_fs FORMAT_FAT16 32)) (image_bfio short_names_image) 64 None = Some (Inr fe) \<and>
     fe_file_attribute_flags fe = 0x61"
proof -
  have "\<exists>fe. libfsfat_file_system_get_file_entry_by_identifier list_array list_array
      (Some (identifier_witness_fs FORMAT_FAT16 32)) (image_bfio short_names_image) 64 None = Some (Inr fe) \<and>
    shows_entry fe ((read_short_name (take 32 (drop (unat (64 :: u64)) short_names_image)) directory_entry_zero)
      \<lparr> de_identifier := 64 \<rparr>)"
    by (rule file_entry_of_identifier [OF list_array_contract list_array_contract identifier_witness(1)])
      (simp_all add: identifier_witness images_entries)
  then show ?thesis
    by (auto simp: shows_entry_def read_short_name_def copy_name_data_def short_names_image_def)
qed

theorem file_entry_of_exfat_identifier_witness:
  "libfsfat_file_system_get_file_entry_by_identifier list_array
     (list_array :: (extent option list, extent) array_ops) (Some (identifier_witness_fs FORMAT_EXFAT 128))
     (image_bfio exfat_image) 128 None =
   Some (Inl IO_READ_FAILED :: (nat option list, unit, extent option list, stream_state) file_entry result)"
  by (rule file_entry_of_exfat_identifier [OF list_array_contract identifier_witness(1)])
    (simp_all add: identifier_witness images_entries)

end
