(* ===== verification/Spec2Isabelle.thy ===== *)
theory Spec2Isabelle
  imports Block_Tree_Free Py_Volume_States Py_Volume Py_Entry_File Py_Entries Py_File_Entry Py_File_Object Py_Datetime Py_Object Mount_Image Mount_Main Info_Image Info_Run Info_Main Getopt Tool_Output Info_Walk Info_Example Info_Listing Info_Hash Info_Hierarchy Info_Handle Info_Print Signature Mount_Fuse Mount_Lookup Mount_Handle Mount_Tool Date_Time File_Identifier Mount_Path Volume
begin

text \<open>
  A model of libfsfat, a library that reads FAT-12, FAT-16, FAT-32 and exFAT file systems.

  \<^bold>\<open>The program.\<close> A caller opens a \<^emph>\<open>volume\<close> (\<^verbatim>\<open>libfsfat_volume.c\<close>) on a file handle of libbfio.
  Opening reads the \<^emph>\<open>boot record\<close> (\<^verbatim>\<open>libfsfat_boot_record.c\<close>) into the \<^emph>\<open>IO handle\<close>, the
  \<^emph>\<open>allocation table\<close> (\<^verbatim>\<open>libfsfat_allocation_table.c\<close>) with the next cluster of every cluster, and
  the root \<^emph>\<open>directory\<close> (\<^verbatim>\<open>libfsfat_file_system.c\<close>, \<^verbatim>\<open>libfsfat_directory.c\<close>), whose \<^emph>\<open>directory
  entries\<close> (\<^verbatim>\<open>libfsfat_directory_entry.c\<close>) are parsed from 32 bytes each. A \<^emph>\<open>block tree\<close>
  (\<^verbatim>\<open>libfsfat_block_tree.c\<close>, \<^verbatim>\<open>libfsfat_block_tree_node.c\<close>) remembers the cluster blocks of a
  chain that were read, so that a loop ends with an error. A \<^emph>\<open>file entry\<close>
  (\<^verbatim>\<open>libfsfat_file_entry.c\<close>) is what the caller gets for a path, a name, an index or an identifier;
  it reads its directory, or the stream of its data, when they are first needed.

  The tool fsfatmount (\<^verbatim>\<open>fsfattools/fsfatmount.c\<close>) shows a volume as a file system. Its \<^emph>\<open>mount handle\<close>
  (\<^verbatim>\<open>fsfattools/mount_handle.c\<close>) opens the volume and hands it to a \<^emph>\<open>mounted file system\<close>
  (\<^verbatim>\<open>mount_file_system.c\<close>), which turns the escaped path that FUSE asks for into one of the library
  (\<^verbatim>\<open>mount_path_string.c\<close>); the \<^emph>\<open>file entries\<close> of the tool (\<^verbatim>\<open>mount_file_entry.c\<close>) pair those of the
  library with the escaped names, and the operations of FUSE (\<^verbatim>\<open>mount_fuse.c\<close>) use them.

  The tool fsfatinfo (\<^verbatim>\<open>fsfattools/fsfatinfo.c\<close>) prints a volume, one of its file entries, or all of them as lines for the
  terminal or rows of a bodyfile. Its \<^emph>\<open>info handle\<close> (\<^verbatim>\<open>fsfattools/info_handle.c\<close>) opens the volume and
  holds the two streams; a row has the MD5 of the file (\<^verbatim>\<open>digest_hash.c\<close>) when that is asked for. Both
  main programs read their options with \<^verbatim>\<open>fsfattools_getopt.c\<close>.

  The Python module (\<^verbatim>\<open>pyfsfat/pyfsfat.c\<close>) has objects for volumes (\<^verbatim>\<open>pyfsfat_volume.c\<close>) and file entries
  (\<^verbatim>\<open>pyfsfat_file_entry.c\<close>, \<^verbatim>\<open>pyfsfat_file_entries.c\<close>), whose times become dates
  (\<^verbatim>\<open>pyfsfat_datetime.c\<close>). A volume is also opened through a file-like object
  (\<^verbatim>\<open>pyfsfat_file_object_io_handle.c\<close>), which may be a file entry of another volume.

  \<^bold>\<open>The theories\<close>, in the order of their imports:
  \<^item> \<open>Prelude\<close>: the integer types, the errors, the file handle, lemmas on words.
  \<^item> \<open>Byte_Stream\<close>: the macros of \<^verbatim>\<open>common/byte_stream.h\<close> and the locale of a codec.
  \<^item> \<open>IO_Handle\<close>: the geometry of a volume.
  \<^item> \<open>Allocation_Table\<close>: the table and its reader; it is safe for any file, reads back an encoded
    table, and its treatment of FAT-12 sectors and of the reversed table.
  \<^item> \<open>Boot_Record\<close>: the parser; encoded boot sectors are read back with an exact geometry, and what
    is accepted is well-formed.
  \<^item> \<open>Date_Time\<close>: the conversion of dates to timestamps, compared with the closed formula of the calendar.
  \<^item> \<open>Libcdata_Array\<close>: the arrays of libcdata, a parameter with a contract, and an implementation
    by lists for the witnesses.
  \<^item> \<open>Block_Tree\<close>, \<open>Block_Tree_Free\<close>: the tree; it refines a map that keeps the first value of a key,
    and its release reaches every node and every descriptor exactly once.
  \<^item> \<open>Directory_Entry\<close>, \<open>Directory\<close>: the parser of the entries and the construction of names.
  \<^item> \<open>File_System\<close>: the readers of directories; they return for every volume, refine the fold of
    the entries along the chain of clusters, and reject loops.
  \<^item> \<open>Directory_Invariant\<close>: every directory that is read is well-formed and safe to use.
  \<^item> \<open>File_Stream\<close>: the extents and the stream of the data of a file, as the bytes of its chain.
  \<^item> \<open>Name\<close>, \<open>Entry_Names\<close>: the comparison of names and the lookup by name in a directory.
  \<^item> \<open>File_Entry\<close>: the file entries; reading gives the content of the file.
  \<^item> \<open>File_Lookup\<close>, \<open>File_Path\<close>, \<open>File_Identifier\<close>: the root directory, the lookup by identifier
    and by path, and the volume label.
  \<^item> \<open>Volume\<close>: opening, closing and the entry points; opening ends whatever the file holds, and an
    invariant holds in every state that a sequence of calls can reach.
  \<^item> \<open>Mount_Path\<close>: the escaped names of the mount tool; both conversions of paths are safe, and a
    path that is shown is read back.
  \<^item> \<open>Mount_Tool\<close>: the file system and the file entries of the mount tool, with their names and times.
  \<^item> \<open>Mount_Handle\<close>, \<open>Mount_Lookup\<close>: the handle of a mounted volume, an invariant of the states that
    it can reach, and the resolution of a path of escaped names from the handle down to the
    directory entry.
  \<^item> \<open>Mount_Fuse\<close>: the operations that FUSE calls, with what they give for files and directories.
  \<^item> \<open>Signature\<close>: the check of the signature (\<^verbatim>\<open>libfsfat_support.c\<close>); it agrees with the parser of
    boot records.
  \<^item> \<open>Info_Print\<close>: the formats of numbers, hashes and escaped names; a hash is read back.
  \<^item> \<open>Info_Handle\<close>: the info handle and the lines of a file entry.
  \<^item> \<open>Info_Hierarchy\<close>: the listing of the hierarchy, of one file entry and of the volume.
  \<^item> \<open>Info_Hash\<close>: the hash that is printed for a file is that of its content.
  \<^item> \<open>Info_Listing\<close>: the listing refines the lines of a tree of file entries in preorder, and names
    cannot forge rows of a bodyfile.
  \<^item> \<open>Info_Walk\<close>: the listing ends for every volume.
  \<^item> \<open>Info_Example\<close>: the listing of a concrete volume.
  \<^item> \<open>Getopt\<close>: the options of the tools; the words that spell options are read back, and reading
    them is safe but for a lone hyphen.
  \<^item> \<open>Tool_Output\<close>: the texts that both main programs print.
  \<^item> \<open>Info_Main\<close>, \<open>Info_Run\<close>: the main program of fsfatinfo; it ends, and from its arguments on it prints
    the tree of the file entries.
  \<^item> \<open>Mount_Main\<close>: the main program of fsfatmount, which serves open volumes only.
  \<^item> \<open>Info_Image\<close>, \<open>Mount_Image\<close>: runs of both programs on a concrete FAT-12 image, from the
    bytes of its boot sector to the output.
  \<^item> \<open>Py_Object\<close>: the objects of Python, a parameter with a contract, and the integers that go
    through them.
  \<^item> \<open>Py_Datetime\<close>: the conversions of times; every date comes back, but for the last day of a century.
  \<^item> \<open>Py_File_Object\<close>: the callbacks for file-like objects and the locale of such an object, in which
    they serve its content.
  \<^item> \<open>Py_File_Entry\<close>, \<open>Py_Entries\<close>: the objects of file entries; their times are those of the directory
    entries, and the sequence gives each sub file entry once.
  \<^item> \<open>Py_Entry_File\<close>: the methods by their names; a file entry object is a file-like object with the
    content of its file.
  \<^item> \<open>Py_Volume\<close>, \<open>Py_Volume_States\<close>: the objects of volumes and the functions of the module; an
    invariant of the states that calls can reach, and the signature of a volume in a file of another one.

  \<^bold>\<open>How the code is modelled.\<close> Definitions have the names of the C functions; a helper
  definition is a loop, a branch or a block of one of them. A structure is a record. Integers
  are words of their width; \<^verbatim>\<open>off64_t\<close> is a word of 64 bits compared as signed; a C \<^verbatim>\<open>int\<close> is
  an \<open>int\<close> and a cast to it takes the signed value. A pointer argument to an object is an option,
  \<open>None\<close> for \<open>NULL\<close>. A result is \<open>Inl\<close> of the code of the error that the function sets last, or
  \<open>Inr\<close> of what it leaves; the return value 0 is \<open>None\<close> or \<open>False\<close> there. After an error only the
  volume is observed, the other objects are freed or given up by their owners. An access that C
  leaves undefined is the error \<open>MEMORY_FAULT\<close>. The entries of a directory and the nodes of a
  block tree are in stores with natural numbers as addresses, since several arrays share them. A
  name that is determined when it is asked for is returned and not written back to the entry;
  determining it again gives the same.

  A loop whose end is not obvious is a \<open>partial_function\<close> over options, where \<open>None\<close> means that it
  does not return; the theorems \<open>file_system_read_directory_returns\<close> and \<open>volume_open_ends\<close> show that
  this does not happen for directories and for opening a volume, \<open>fsfatinfo_ends\<close> for the program
  that lists a volume. There is no fuel. An output stream is the list of the bytes written to it.

  \<^bold>\<open>Parameters.\<close> Code that is not part of the sources is a parameter: reading from a file
  handle (\<open>bfio\<close>) and the other operations of libbfio (\<open>bfio_ops\<close>), the arrays of libcdata
  (\<open>array_ops\<close>, with \<open>array_contract\<close>, and \<open>free_array\<close>, with \<open>free_contract\<close>), the cache of libfcache (\<open>cache_ops\<close>), the streams of libfdata
  (\<open>stream_ops\<close>, with \<open>stream_contract\<close>), the decoding of characters by libuna and \<^verbatim>\<open>towupper\<close>
  (\<open>una_ops\<close>) and the coding as UTF-8 (\<open>put\<close>), the handle of a range of libbfio (\<open>range_ops\<close>), the
  filler of FUSE, the hash functions of libhmac (\<open>md5_ops\<close>, with \<open>md5_contract\<close>), the printed form of
  a time by libfdatetime, the functions of libfuse (\<open>fuse_library\<close>), the version and the file streams of the
  system (\<open>tool_environment\<close>), the objects of Python (\<open>python\<close>, with \<open>python_contract\<close>), calls of their methods
  (\<open>python_calls\<close>), the parsing of arguments (\<open>argument_parser\<close>), the constructor of dates (\<open>new_datetime\<close>), the
  handle that libbfio makes of callbacks (\<open>new_handle\<close>, with \<open>handles_serve\<close> and \<open>made_handles_open\<close>), and the content of memory that is not initialized (\<open>junk\<close>). The contracts state
  what these libraries document, and the witnesses use implementations that satisfy them.

  \<^bold>\<open>Bounds.\<close> The theorems about chains of clusters and about opening take volumes of at most 2^53
  bytes, which keeps all offsets of cluster blocks far below the sign bit of \<^verbatim>\<open>off64_t\<close>.

  \<^bold>\<open>Not modelled.\<close> The failure of memory allocation, checks of output parameters for \<open>NULL\<close>, the
  locks of builds with threads, debug output and the functions that only free memory, with the errors they could report, but for the block
  tree; the nanoseconds in the attributes of a file, which only some systems have. The life
  time of objects: a file entry has copies of the values that it has pointers to in C, so a use
  after the volume is closed, or of a directory that the cache has dropped, does not show. The
  code page and version functions, the messages of the tools on the error stream, the attaching of
  handlers to signals, version 2 of libfuse, the operations for Dokan, which need a build with
  wide system strings, and the fuzzers. Of the Python module: Python 2, the counts of references and the
  release of objects that only frees memory, the texts of exceptions, the registration of the types, and
  times in days of a floating-point type, which no method uses. A method that raises an exception leaves
  the file entry as it was; only the volume shows what a failed call leaves.
\<close>

end
